(* ===== verification/Prelude.thy ===== *)
theory Prelude
  imports Main "HOL-Library.Char_ord" "HOL-Library.List_Lexorder"
begin

text \<open>
  Shared vocabulary of the development of the "les emplois" platform.

  \<^item> Types: a date is the ordinal of a day, as Python's \<open>date.toordinal()\<close>, and a
    \<open>timedelta\<close> is a number of days, both unbounded integers; the bounds of Python's
    calendar (years 1 to 9999) are not modelled.  A datetime is an integer instant.  The clock
    (\<open>timezone.now()\<close>, \<open>timezone.localdate()\<close>) is always an explicit argument.
  \<^item> Errors: every \<open>raise\<close> of the code is a value of \<open>error\<close>, and a fallible operation
    returns \<open>error + 'a\<close>, composed with \<open>rbind\<close> and \<open>guard\<close>.
  \<^item> Calendar arithmetic by months is \<open>dateutil.relativedelta\<close>, a package outside the
    repository: it is an argument \<open>plus_months\<close> of the definitions that use it, and
    \<open>calendar_laws\<close> names what the code relies on.
  \<^item> Querysets: tables are lists of rows; \<open>filter\<close>, \<open>order_last\<close>, \<open>order_first\<close> stand for
    \<open>filter()\<close>, \<open>order_by(..).last()\<close>, \<open>order_by(..).first()\<close>.
  \<^item> Strings: Python's \<open>int(..)\<close> on decimal digits and \<open>f"{n:0wd}"\<close>.
\<close>

type_synonym date = int
type_synonym datetime = int
type_synonym days = int
type_synonym pk = nat
type_synonym plus_months = "int \<Rightarrow> date \<Rightarrow> date"

text \<open>Instants are counted in microseconds, the resolution of \<open>datetime\<close>.\<close>

definition one_day :: datetime where "one_day = 86400 * 1000000"

definition day_delta :: "days \<Rightarrow> datetime" where "day_delta n = n * one_day"

lemma day_delta_mono [simp]: "day_delta n \<le> day_delta m \<longleftrightarrow> n \<le> m"
  by (simp add: day_delta_def one_day_def)

text \<open>A date compared with or stored in a datetime column is its midnight (UTC, as Django sets the
  time zone of its connections).\<close>

definition midnight :: "date \<Rightarrow> datetime" where "midnight d = d * one_day"

text \<open>PostgreSQL's \<open>ORDER BY .. DESC\<close> puts NULL first; this is the ascending key of that order.\<close>

definition desc_key :: "int option \<Rightarrow> int \<times> int" where
  "desc_key v = (case v of None \<Rightarrow> (0, 0) | Some x \<Rightarrow> (1, - x))"

named_theorems itou_simps "defining equations of the model that proofs unfold"
named_theorems itou_inv "preservation of invariants"

section \<open>Errors as values\<close>

datatype error =
    ValidationError string
  | IntegrityError string
  | DataError string
  | DatabaseException string
  | InvalidTransitionError
  | AbortTransition string
  | NotImplementedError
  | RuntimeError string
  | ValueError string
  | AttributeError string
  | KeyError string
  | IndexError
  | DoesNotExist string
  | TypeError string
  | AssertionError string
  | CampaignAlreadyPopulatedException
  | Http404
  | HttpResponseForbidden
  | PermissionDenied
  | IgnoreFile
  | EmailInUseException
  | MultipleSubSameEmailException
  | InactiveUserException
  | InvalidKindException
  | MultipleUsersFoundException
  | RegisterForbiddenException
  | LabelAPIError string

fun rbind :: "error + 'a \<Rightarrow> ('a \<Rightarrow> error + 'b) \<Rightarrow> error + 'b" where
  "rbind (Inl e) f = Inl e"
| "rbind (Inr x) f = f x"

definition guard :: "bool \<Rightarrow> error \<Rightarrow> error + unit" where
  "guard b e = (if b then Inr () else Inl e)"

fun is_ok :: "error + 'a \<Rightarrow> bool" where
  "is_ok (Inl e) = False"
| "is_ok (Inr x) = True"

lemma rbind_eq_Inr [simp]: "rbind m f = Inr y \<longleftrightarrow> (\<exists>x. m = Inr x \<and> f x = Inr y)"
  by (cases m) auto

lemma rbind_eq_Inl: "rbind m f = Inl e \<longleftrightarrow> m = Inl e \<or> (\<exists>x. m = Inr x \<and> f x = Inl e)"
  by (cases m) auto

lemma guard_eq_Inr [simp]: "guard b e = Inr u \<longleftrightarrow> b"
  by (simp add: guard_def)

lemma guard_eq_Inl [simp]: "guard b e = Inl e' \<longleftrightarrow> \<not> b \<and> e' = e"
  by (auto simp: guard_def)

lemma guard_True [simp]: "guard True e = Inr ()"
  by (simp add: guard_def)

lemma guard_False [simp]: "guard False e = Inl e"
  by (simp add: guard_def)

lemma is_ok_iff: "is_ok m \<longleftrightarrow> (\<exists>x. m = Inr x)"
  by (cases m) auto

text \<open>A Python loop over a list whose body may raise: the first error ends it.\<close>

fun rfold :: "('a \<Rightarrow> 's \<Rightarrow> error + 's) \<Rightarrow> 'a list \<Rightarrow> 's \<Rightarrow> error + 's" where
  "rfold f [] s = Inr s"
| "rfold f (x # xs) s = rbind (f x s) (rfold f xs)"

lemma rfold_append: "rfold f (xs @ ys) s = rbind (rfold f xs s) (rfold f ys)"
proof (induction xs arbitrary: s)
  case (Cons x xs)
  then show ?case by (cases "f x s") auto
qed simp

lemma rfold_invariant:
  assumes "\<And>x s s'. x \<in> set xs \<Longrightarrow> P s \<Longrightarrow> f x s = Inr s' \<Longrightarrow> P s'"
    and "P s" and "rfold f xs s = Inr s'"
  shows "P s'"
  using assms by (induction xs arbitrary: s) auto

section \<open>Calendar arithmetic by months\<close>

text \<open>What the code relies on of \<open>relativedelta(months=n)\<close> (and \<open>years=n\<close>, which is
  \<open>months=12*n\<close>): it is monotone in the date and in the number of months, adds nothing for
  0 months and at least one day for each added month.\<close>

definition calendar_laws :: "plus_months \<Rightarrow> bool" where
  "calendar_laws pm \<longleftrightarrow>
     (\<forall>d. pm 0 d = d) \<and>
     (\<forall>n d d'. d \<le> d' \<longrightarrow> pm n d \<le> pm n d') \<and>
     (\<forall>n m d. n < m \<longrightarrow> pm n d < pm m d)"

lemma calendar_mono: "calendar_laws pm \<Longrightarrow> d \<le> d' \<Longrightarrow> pm n d \<le> pm n d'"
  by (simp add: calendar_laws_def)

lemma calendar_strict: "calendar_laws pm \<Longrightarrow> n < m \<Longrightarrow> pm n d < pm m d"
  by (simp add: calendar_laws_def)

lemma calendar_later: "calendar_laws pm \<Longrightarrow> 0 < n \<Longrightarrow> d < pm n d"
  unfolding calendar_laws_def by metis

lemma calendar_earlier: "calendar_laws pm \<Longrightarrow> n < 0 \<Longrightarrow> pm n d < d"
  unfolding calendar_laws_def by metis

text \<open>A calendar of 30-day months satisfies the laws.\<close>

definition thirty_day_months :: plus_months where
  "thirty_day_months n d = d + 30 * n"

lemma thirty_day_months_laws [simp]: "calendar_laws thirty_day_months"
  by (simp add: calendar_laws_def thirty_day_months_def)

section \<open>Date ranges\<close>

text \<open>PostgreSQL's \<open>daterange(s, e, '[]')\<close> and \<open>daterange(s, e, '[)')\<close> with the overlap
  operator \<open>&&\<close>; building a range with \<open>e < s\<close> is an error in PostgreSQL.\<close>

definition range_incl :: "date \<Rightarrow> date \<Rightarrow> date set" where
  "range_incl s e = {s..e}"

definition overlaps_incl :: "date \<Rightarrow> date \<Rightarrow> date \<Rightarrow> date \<Rightarrow> bool" where
  "overlaps_incl s e s' e' \<longleftrightarrow> s \<le> e \<and> s' \<le> e' \<and> s \<le> e' \<and> s' \<le> e"

definition overlaps_excl :: "date \<Rightarrow> date \<Rightarrow> date \<Rightarrow> date \<Rightarrow> bool" where
  "overlaps_excl s e s' e' \<longleftrightarrow> s < e \<and> s' < e' \<and> s < e' \<and> s' < e"

lemma overlaps_incl_iff: "overlaps_incl s e s' e' \<longleftrightarrow> {s..e} \<inter> {s'..e'} \<noteq> {}"
  by (auto simp: overlaps_incl_def)

lemma overlaps_excl_iff: "overlaps_excl s e s' e' \<longleftrightarrow> {s..<e} \<inter> {s'..<e'} \<noteq> {}"
proof
  assume "overlaps_excl s e s' e'"
  then have "max s s' \<in> {s..<e} \<inter> {s'..<e'}" by (auto simp: overlaps_excl_def)
  then show "{s..<e} \<inter> {s'..<e'} \<noteq> {}" by blast
qed (auto simp: overlaps_excl_def)

section \<open>Querysets over tables\<close>

text \<open>\<open>order_by(key).last()\<close> and \<open>order_by(key).first()\<close>: the row of greatest or least key, and
  \<open>None\<close> on an empty queryset.  Rows of equal key are ordered by PostgreSQL as it pleases; the
  model takes the last such row of the table, respectively the first.\<close>

fun order_last :: "('a \<Rightarrow> 'k::linorder) \<Rightarrow> 'a list \<Rightarrow> 'a option" where
  "order_last k [] = None"
| "order_last k (x # xs) =
     (case order_last k xs of None \<Rightarrow> Some x | Some y \<Rightarrow> if k y < k x then Some x else Some y)"

fun order_first :: "('a \<Rightarrow> 'k::linorder) \<Rightarrow> 'a list \<Rightarrow> 'a option" where
  "order_first k [] = None"
| "order_first k (x # xs) =
     (case order_first k xs of None \<Rightarrow> Some x | Some y \<Rightarrow> if k y < k x then Some y else Some x)"

lemma order_last_None [simp]: "order_last k xs = None \<longleftrightarrow> xs = []"
  by (cases xs) (auto split: option.splits)

lemma order_first_None [simp]: "order_first k xs = None \<longleftrightarrow> xs = []"
  by (cases xs) (auto split: option.splits)

lemma order_last_SomeD:
  "order_last k xs = Some y \<Longrightarrow> y \<in> set xs \<and> (\<forall>x \<in> set xs. k x \<le> k y)"
proof (induction xs arbitrary: y)
  case (Cons x xs)
  show ?case
  proof (cases "order_last k xs")
    case None
    then show ?thesis using Cons.prems by simp
  next
    case (Some z)
    then show ?thesis using Cons.IH [OF Some] Cons.prems by (auto split: if_splits)
  qed
qed simp

lemma order_first_SomeD:
  "order_first k xs = Some y \<Longrightarrow> y \<in> set xs \<and> (\<forall>x \<in> set xs. k y \<le> k x)"
proof (induction xs arbitrary: y)
  case (Cons x xs)
  show ?case
  proof (cases "order_first k xs")
    case None
    then show ?thesis using Cons.prems by simp
  next
    case (Some z)
    then show ?thesis using Cons.IH [OF Some] Cons.prems by (auto split: if_splits)
  qed
qed simp

lemma order_last_in_set: "order_last k xs = Some y \<Longrightarrow> y \<in> set xs"
  by (simp add: order_last_SomeD)

lemma order_first_in_set: "order_first k xs = Some y \<Longrightarrow> y \<in> set xs"
  by (simp add: order_first_SomeD)

definition exists_row :: "('a \<Rightarrow> bool) \<Rightarrow> 'a list \<Rightarrow> bool" where
  "exists_row p xs \<longleftrightarrow> list_ex p xs"

lemma exists_row_iff [simp]: "exists_row p xs \<longleftrightarrow> (\<exists>x \<in> set xs. p x)"
  by (simp add: exists_row_def list_ex_iff)

text \<open>Following a foreign key: the row of a given key.\<close>

definition get_row :: "('a \<Rightarrow> 'k) \<Rightarrow> 'k \<Rightarrow> 'a list \<Rightarrow> 'a option" where
  "get_row k v xs = find (\<lambda>x. k x = v) xs"

lemma get_row_simps [simp]:
  "get_row k v [] = None" "get_row k v (x # xs) = (if k x = v then Some x else get_row k v xs)"
  by (simp_all add: get_row_def)

lemma get_row_SomeD: "get_row k v xs = Some y \<Longrightarrow> y \<in> set xs \<and> k y = v"
  by (induction xs) (auto split: if_splits)

lemma get_row_None_iff: "get_row k v xs = None \<longleftrightarrow> v \<notin> k ` set xs"
  by (induction xs) auto

lemma get_row_Some_iff:
  "distinct (map k xs) \<Longrightarrow> get_row k v xs = Some y \<longleftrightarrow> y \<in> set xs \<and> k y = v"
  by (induction xs) auto

lemma get_row_append [simp]:
  "get_row k v (xs @ ys) = (case get_row k v xs of None \<Rightarrow> get_row k v ys | Some y \<Rightarrow> Some y)"
  by (induction xs) auto

text \<open>Row update by primary key, and insertion or update by a key (\<open>ON CONFLICT\<close>).\<close>

definition map_rows :: "('a \<Rightarrow> bool) \<Rightarrow> ('a \<Rightarrow> 'a) \<Rightarrow> 'a list \<Rightarrow> 'a list" where
  "map_rows p f xs = map (\<lambda>x. if p x then f x else x) xs"

lemma map_rows_Nil [simp]: "map_rows p f [] = []"
  by (simp add: map_rows_def)

lemma map_rows_Cons [simp]: "map_rows p f (x # xs) = (if p x then f x else x) # map_rows p f xs"
  by (simp add: map_rows_def)

lemma set_map_rows: "set (map_rows p f xs) = (\<lambda>x. if p x then f x else x) ` set xs"
  by (simp add: map_rows_def)

lemma map_rows_updated: "x \<in> set xs \<Longrightarrow> p x \<Longrightarrow> f x \<in> set (map_rows p f xs)"
  by (auto simp: set_map_rows)

lemma map_rows_kept: "x \<in> set xs \<Longrightarrow> \<not> p x \<Longrightarrow> x \<in> set (map_rows p f xs)"
  by (auto simp: set_map_rows)

lemma filter_map_rows_keep:
  assumes "\<And>x. p x \<Longrightarrow> q (f x) \<longleftrightarrow> q x"
  shows "filter q (map_rows p f xs) = map_rows p f (filter q xs)"
  using assms by (induction xs) auto

lemma length_map_rows [simp]: "length (map_rows p f xs) = length xs"
  by (simp add: map_rows_def)

lemma map_rows_key:
  assumes "\<And>x. p x \<Longrightarrow> k (f x) = k x"
  shows "map k (map_rows p f xs) = map k xs"
  using assms by (induction xs) auto

lemma get_row_map_rows:
  assumes "\<And>x. p x \<Longrightarrow> k (f x) = k x"
  shows "get_row k v (map_rows p f xs) = map_option (\<lambda>x. if p x then f x else x) (get_row k v xs)"
  using assms by (induction xs) auto

definition upsert :: "('a \<Rightarrow> bool) \<Rightarrow> ('a \<Rightarrow> 'a) \<Rightarrow> 'a \<Rightarrow> 'a list \<Rightarrow> 'a list" where
  "upsert conflict upd new xs =
     (if list_ex conflict xs then map_rows conflict upd xs else xs @ [new])"

lemma upsert_update: "\<exists>x \<in> set xs. c x \<Longrightarrow> upsert c u n xs = map_rows c u xs"
  by (auto simp: upsert_def list_ex_iff)

lemma upsert_insert: "\<forall>x \<in> set xs. \<not> c x \<Longrightarrow> upsert c u n xs = xs @ [n]"
  by (auto simp: upsert_def list_ex_iff)

text \<open>An insert-or-update keeps a key without duplicates.\<close>

lemma upsert_distinct_key:
  assumes "distinct (map k xs)" and "\<And>x. c x \<longleftrightarrow> k x = k n" and "\<And>x. c x \<Longrightarrow> k (u x) = k x"
  shows "distinct (map k (upsert c u n xs))"
proof (cases "\<exists>x \<in> set xs. c x")
  case True
  then show ?thesis using assms(1) map_rows_key [of c k u xs, OF assms(3)]
    by (simp add: upsert_update)
next
  case False
  then show ?thesis using assms(1,2) by (auto simp: upsert_insert)
qed

lemma upsert_keys:
  assumes "\<And>x. c x \<longleftrightarrow> k x = k n" and "\<And>x. c x \<Longrightarrow> k (u x) = k x"
  shows "set (map k (upsert c u n xs)) = insert (k n) (set (map k xs))"
proof (cases "\<exists>x \<in> set xs. c x")
  case True
  then obtain x where x: "x \<in> set xs" "k x = k n" using assms(1) by blast
  have "map k (upsert c u n xs) = map k xs"
    using True map_rows_key [of c k u xs, OF assms(2)] by (simp add: upsert_update)
  moreover have "k n \<in> set (map k xs)" using x by (metis image_eqI list.set_map)
  ultimately show ?thesis by (metis insert_absorb)
next
  case False
  then show ?thesis by (auto simp: upsert_insert)
qed

definition sum_by :: "('a \<Rightarrow> int) \<Rightarrow> 'a list \<Rightarrow> int" where
  "sum_by f xs = sum_list (map f xs)"

lemma sum_by_simps [simp]:
  "sum_by f [] = 0" "sum_by f (x # xs) = f x + sum_by f xs"
  "sum_by f (xs @ ys) = sum_by f xs + sum_by f ys"
  by (simp_all add: sum_by_def)

lemma sum_by_nonneg: "(\<And>x. x \<in> set xs \<Longrightarrow> 0 \<le> f x) \<Longrightarrow> 0 \<le> sum_by f xs"
  by (induction xs) auto

end
