(* ===== verification/Enums.thy ===== *)
theory Enums
  imports Prelude
begin

text \<open>
  The enumerations (\<open>TextChoices\<close>) of the platform that the models dispatch on, from the
  \<open>enums.py\<close> modules of \<open>companies\<close>, \<open>prescribers\<close>, \<open>users\<close>, \<open>job_applications\<close>,
  \<open>employee_record\<close>, \<open>approvals\<close>, \<open>eligibility\<close> and \<open>utils.apis\<close>, with the tables those modules
  define over them.  Constructors carry a short prefix where two enumerations share a name.
\<close>

section \<open>companies/enums.py\<close>

datatype company_kind = ACI | AI | EA | EATT | EI | EITI | ETTI | GEIQ | OPCS | KIND_RESERVED

definition siae_kinds :: "company_kind list" where
  "siae_kinds = [AI, ACI, EI, EITI, ETTI]"

datatype company_source = SRC_ASP | SRC_GEIQ | SRC_EA_EATT | SRC_USER_CREATED | SRC_STAFF_CREATED
  | SRC_ADMIN_CREATED

datatype (plugins only: code size) contract_type = CT_PERMANENT | CT_PERMANENT_I | CT_FIXED_TERM | CT_FIXED_TERM_USAGE
  | CT_FIXED_TERM_I | CT_FIXED_TERM_I_PHC | CT_FIXED_TERM_I_CVG | CT_FIXED_TERM_TREMPLIN
  | CT_APPRENTICESHIP | CT_PROFESSIONAL_TRAINING | CT_TEMPORARY | CT_BUSINESS_CREATION | CT_OTHER

definition all_contract_types :: "contract_type list" where
  "all_contract_types = [CT_PERMANENT, CT_PERMANENT_I, CT_FIXED_TERM, CT_FIXED_TERM_USAGE,
     CT_FIXED_TERM_I, CT_FIXED_TERM_I_PHC, CT_FIXED_TERM_I_CVG, CT_FIXED_TERM_TREMPLIN,
     CT_APPRENTICESHIP, CT_PROFESSIONAL_TRAINING, CT_TEMPORARY, CT_BUSINESS_CREATION, CT_OTHER]"

fun choices_for_company_kind :: "company_kind \<Rightarrow> contract_type list" where
  "choices_for_company_kind GEIQ = [CT_APPRENTICESHIP, CT_PROFESSIONAL_TRAINING, CT_OTHER]"
| "choices_for_company_kind EA = [CT_PERMANENT, CT_FIXED_TERM, CT_TEMPORARY, CT_FIXED_TERM_TREMPLIN,
     CT_APPRENTICESHIP, CT_PROFESSIONAL_TRAINING, CT_OTHER]"
| "choices_for_company_kind EATT = [CT_PERMANENT, CT_FIXED_TERM, CT_TEMPORARY, CT_FIXED_TERM_TREMPLIN,
     CT_APPRENTICESHIP, CT_PROFESSIONAL_TRAINING, CT_OTHER]"
| "choices_for_company_kind EITI = [CT_BUSINESS_CREATION, CT_OTHER]"
| "choices_for_company_kind OPCS = [CT_PERMANENT, CT_FIXED_TERM, CT_APPRENTICESHIP,
     CT_PROFESSIONAL_TRAINING, CT_OTHER]"
| "choices_for_company_kind KIND_RESERVED =
     remove1 CT_FIXED_TERM_I_CVG (remove1 CT_FIXED_TERM_I_PHC all_contract_types)"
| "choices_for_company_kind k = [CT_FIXED_TERM_I, CT_FIXED_TERM_USAGE, CT_TEMPORARY,
     CT_PROFESSIONAL_TRAINING, CT_OTHER]"

text \<open>\<open>choices[-1:-1] = [..]\<close> inserts before the last element.\<close>

definition choices_for_company :: "company_kind \<Rightarrow> bool \<Rightarrow> contract_type list" where
  "choices_for_company kind is_aci_convergence =
     (let choices = choices_for_company_kind kind in
      if is_aci_convergence
      then butlast choices @ [CT_FIXED_TERM_I_PHC, CT_FIXED_TERM_I_CVG] @ [last choices]
      else choices)"

fun siae_kind_to_ft_type_siae :: "company_kind \<Rightarrow> nat option" where
  "siae_kind_to_ft_type_siae ACI = Some 836"
| "siae_kind_to_ft_type_siae AI = Some 837"
| "siae_kind_to_ft_type_siae EA = Some 838"
| "siae_kind_to_ft_type_siae EATT = Some 840"
| "siae_kind_to_ft_type_siae EI = Some 838"
| "siae_kind_to_ft_type_siae EITI = Some 840"
| "siae_kind_to_ft_type_siae ETTI = Some 839"
| "siae_kind_to_ft_type_siae GEIQ = Some 838"
| "siae_kind_to_ft_type_siae _ = None"

section \<open>users/enums.py\<close>

datatype user_kind = KIND_JOB_SEEKER | KIND_PROFESSIONAL | KIND_ITOU_STAFF

datatype title = M | MME

datatype identity_provider = IDP_DJANGO | IDP_FRANCE_CONNECT | IDP_PRO_CONNECT | IDP_FT_CONNECT

fun identity_provider_supported_user_kind :: "identity_provider \<Rightarrow> user_kind list" where
  "identity_provider_supported_user_kind IDP_DJANGO =
     [KIND_JOB_SEEKER, KIND_PROFESSIONAL, KIND_ITOU_STAFF]"
| "identity_provider_supported_user_kind IDP_FRANCE_CONNECT = [KIND_JOB_SEEKER]"
| "identity_provider_supported_user_kind IDP_FT_CONNECT = [KIND_JOB_SEEKER]"
| "identity_provider_supported_user_kind IDP_PRO_CONNECT = [KIND_PROFESSIONAL]"

datatype certification_authority = API_FT_RECHERCHE_INDIVIDU_CERTIFIE | API_PARTICULIER
  | API_FT_RECHERCHER_USAGER

datatype lack_of_nir_reason = NO_NIR | NIR_ASSOCIATED_TO_OTHER

datatype lack_of_pole_emploi_id = REASON_FORGOTTEN | REASON_NOT_REGISTERED

datatype action_kind = ACT_CREATE | ACT_APPLY | ACT_HIRE | ACT_ACCEPT | ACT_IAE_ELIGIBILITY
  | ACT_GEIQ_ELIGIBILITY | ACT_SELF_ASSIGN

section \<open>prescribers/enums.py\<close>

datatype (plugins only: code size) prescriber_kind = PK_AFPA | PK_ASE | PK_ORIENTEUR | PK_CAARUD | PK_CADA | PK_CAF
  | PK_CAP_EMPLOI | PK_CAVA | PK_CCAS | PK_CHRS | PK_CHU | PK_CIDFF | PK_CPH | PK_CSAPA | PK_E2C
  | PK_EPIDE | PK_FT | PK_HUDA | PK_ML | PK_MSA | PK_OACAS | PK_OIL | PK_ODC | PK_OHPD | PK_OCASF
  | PK_PENSION | PK_PIJ_BIJ | PK_PJJ | PK_PLIE | PK_RS_FJT | PK_PREVENTION | PK_DEPT | PK_SPIP
  | PK_OTHER

definition pe_sensitive_prescriber_kinds :: "prescriber_kind list" where
  "pe_sensitive_prescriber_kinds = [PK_ASE, PK_CAARUD, PK_CIDFF, PK_CSAPA, PK_PENSION, PK_PJJ,
     PK_PREVENTION, PK_SPIP]"

text \<open>The value sent to France Travail: a kind, or the literal \<open>"PE"\<close>.\<close>

datatype typologie_prescripteur = TYPO_PE | TYPO_KIND prescriber_kind

definition to_PE_typologie_prescripteur :: "prescriber_kind \<Rightarrow> typologie_prescripteur" where
  "to_PE_typologie_prescripteur k =
     (if k \<in> set pe_sensitive_prescriber_kinds then TYPO_KIND PK_OTHER
      else if k = PK_FT then TYPO_PE
      else TYPO_KIND k)"

datatype prescriber_authorization_status = AUTH_NOT_SET | AUTH_VALIDATED | AUTH_REFUSED
  | AUTH_NOT_REQUIRED

section \<open>job_applications/enums.py\<close>

datatype job_application_state = JA_NEW | JA_PROCESSING | JA_POSTPONED | JA_PRIOR_TO_HIRE
  | JA_ACCEPTED | JA_REFUSED | JA_CANCELLED | JA_OBSOLETE | JA_POOL

definition archivable_job_application_states :: "job_application_state list" where
  "archivable_job_application_states =
     [JA_NEW, JA_PROCESSING, JA_POSTPONED, JA_REFUSED, JA_CANCELLED, JA_OBSOLETE]"

definition archivable_job_application_states_manual :: "job_application_state list" where
  "archivable_job_application_states_manual = [JA_REFUSED, JA_CANCELLED, JA_OBSOLETE]"

definition auto_reject_job_application_states :: "job_application_state list" where
  "auto_reject_job_application_states = [JA_NEW, JA_PROCESSING]"

datatype sender_kind = SK_JOB_SEEKER | SK_PRESCRIBER | SK_EMPLOYER

datatype origine_candidature = DEMA | PRES | EMPL

fun sender_kind_to_pe_origine_candidature :: "sender_kind \<Rightarrow> origine_candidature" where
  "sender_kind_to_pe_origine_candidature SK_JOB_SEEKER = DEMA"
| "sender_kind_to_pe_origine_candidature SK_PRESCRIBER = PRES"
| "sender_kind_to_pe_origine_candidature SK_EMPLOYER = EMPL"

datatype (plugins only: code size) refusal_reason = RR_DID_NOT_COME | RR_DID_NOT_COME_TO_INTERVIEW | RR_HIRED_ELSEWHERE
  | RR_TRAINING | RR_NON_ELIGIBLE | RR_NOT_MOBILE | RR_NOT_INTERESTED | RR_LACKING_SKILLS
  | RR_INCOMPATIBLE | RR_PREVENT_OBJECTIVES | RR_NO_POSITION | RR_DUPLICATE | RR_AUTO | RR_OTHER
  | RR_APPROVAL_EXPIRATION_TOO_CLOSE | RR_UNAVAILABLE | RR_ELIGIBILITY_DOUBT | RR_DEACTIVATION
  | RR_POORLY_INFORMED

definition all_refusal_reasons :: "refusal_reason list" where
  "all_refusal_reasons = [RR_DID_NOT_COME, RR_DID_NOT_COME_TO_INTERVIEW, RR_HIRED_ELSEWHERE,
     RR_TRAINING, RR_NON_ELIGIBLE, RR_NOT_MOBILE, RR_NOT_INTERESTED, RR_LACKING_SKILLS,
     RR_INCOMPATIBLE, RR_PREVENT_OBJECTIVES, RR_NO_POSITION, RR_DUPLICATE, RR_AUTO, RR_OTHER,
     RR_APPROVAL_EXPIRATION_TOO_CLOSE, RR_UNAVAILABLE, RR_ELIGIBILITY_DOUBT, RR_DEACTIVATION,
     RR_POORLY_INFORMED]"

definition refusal_hidden :: "refusal_reason list" where
  "refusal_hidden = [RR_APPROVAL_EXPIRATION_TOO_CLOSE, RR_DEACTIVATION, RR_ELIGIBILITY_DOUBT,
     RR_UNAVAILABLE, RR_POORLY_INFORMED, RR_AUTO]"

definition refusal_displayed_choices :: "company_kind \<Rightarrow> refusal_reason list" where
  "refusal_displayed_choices kind =
     (let excluded = refusal_hidden @
            (if kind = GEIQ then [RR_PREVENT_OBJECTIVES, RR_NON_ELIGIBLE] else [])
      in filter (\<lambda>r. r \<notin> set excluded) all_refusal_reasons)"

datatype job_application_origin = JO_DEFAULT | JO_PE_APPROVAL | JO_AI_STOCK | JO_ADMIN

datatype prior_action_kind = PMSMP | MRS | STAGE | PSE_OTHER | LOCAL_PLAN | AFPR | POE | PREQ_OTHER

datatype qualification_type = STATE_DIPLOMA | CQP | CCN

datatype qualification_level = LEVEL_3 | LEVEL_4 | LEVEL_5 | NOT_RELEVANT

definition geiq_min_hours_per_week :: int where "geiq_min_hours_per_week = 1"
definition geiq_max_hours_per_week :: int where "geiq_max_hours_per_week = 48"
definition auto_reject_job_application_delay :: days where "auto_reject_job_application_delay = 60"

section \<open>employee_record/enums.py\<close>

datatype er_status = ER_NEW | ER_READY | ER_SENT | ER_REJECTED | ER_PROCESSED | ER_DISABLED
  | ER_ARCHIVED

datatype notification_status = NS_NEW | NS_SENT | NS_PROCESSED | NS_REJECTED

section \<open>approvals/enums.py and approvals/constants.py\<close>

datatype approval_status = AS_EXPIRED | AS_VALID | AS_FUTURE | AS_SUSPENDED

datatype approval_origin = AO_DEFAULT | AO_PE_APPROVAL | AO_AI_STOCK | AO_ADMIN

datatype prolongation_reason = SENIOR_CDI | COMPLETE_TRAINING | RQTH | SENIOR
  | PARTICULAR_DIFFICULTIES | HEALTH_CONTEXT

definition prolongation_reason_for_company :: "company_kind \<Rightarrow> prolongation_reason list" where
  "prolongation_reason_for_company kind =
     [SENIOR_CDI, COMPLETE_TRAINING, RQTH, SENIOR] @
     (if kind \<in> {AI, ACI} then [PARTICULAR_DIFFICULTIES] else [])"

datatype prolongation_request_status = PR_PENDING | PR_GRANTED | PR_DENIED

datatype deny_reason = DENY_IAE | DENY_SIAE | DENY_DURATION | DENY_REASON

datatype deny_proposed_action = EXIT_IAE | SOCIAL_PARTNER | PROPOSED_OTHER

definition prolongation_report_file_reasons :: "prolongation_reason list" where
  "prolongation_report_file_reasons = [RQTH, SENIOR, PARTICULAR_DIFFICULTIES]"

section \<open>utils/apis/enums.py\<close>

datatype pe_endpoint = RECHERCHE_INDIVIDU | MISE_A_JOUR_PASS_IAE

datatype pe_check_failure = MISSING_USER_DATA | NO_JOB_APPLICATION | STARTS_IN_FUTURE
  | INVALID_SIAE_KIND

text \<open>The exit code column holds a preliminary check failure or a code answered by the API.\<close>

datatype pe_exit_code = CHECK_FAILURE pe_check_failure | API_CODE string

datatype pe_notification_status = PE_PENDING | PE_READY | PE_SUCCESS | PE_ERROR | PE_SHOULD_RETRY

section \<open>eligibility/enums.py\<close>

datatype criteria_annex = NO_ANNEX | ANNEX_1 | ANNEX_2 | BOTH_ANNEXES

datatype criteria_level = LEVEL_1 | LEVEL_2

fun level_2_required_for_siae_kind :: "company_kind \<Rightarrow> nat option" where
  "level_2_required_for_siae_kind AI = Some 2"
| "level_2_required_for_siae_kind ETTI = Some 2"
| "level_2_required_for_siae_kind ACI = Some 3"
| "level_2_required_for_siae_kind EI = Some 3"
| "level_2_required_for_siae_kind EITI = Some 3"
| "level_2_required_for_siae_kind _ = None"

datatype author_kind = AK_PRESCRIBER | AK_EMPLOYER | AK_GEIQ

datatype (plugins only: code size) criteria_kind = CK_RSA | CK_AAH | CK_ASS | CK_CAP_BEP | CK_SENIOR | CK_JEUNE | CK_ASE
  | CK_DELD | CK_DETLD | CK_TH | CK_PI | CK_PSH_PR | CK_REF_DA | CK_ZRR | CK_QPV | CK_DETENTION_MJ
  | CK_FLE | CK_PM | CK_JEUNE_SQ | CK_MINIMA | CK_DELD_12 | CK_DE_45 | CK_RECONVERSION
  | CK_SIAE_CUI | CK_RS_PS_DA | CK_AUTRE_MINIMA | CK_FT | CK_SANS_TRAVAIL_12

definition criteria_kind_common :: "criteria_kind list" where
  "criteria_kind_common = [CK_AAH, CK_ASE, CK_ASS, CK_CAP_BEP, CK_DELD, CK_DETENTION_MJ, CK_DETLD,
     CK_FLE, CK_JEUNE, CK_PI, CK_PM, CK_PSH_PR, CK_QPV, CK_REF_DA, CK_RSA, CK_SENIOR, CK_TH, CK_ZRR]"

definition criteria_kind_for_geiq :: "criteria_kind list" where
  "criteria_kind_for_geiq = criteria_kind_common @ [CK_AUTRE_MINIMA, CK_DE_45, CK_DELD_12, CK_FT,
     CK_JEUNE_SQ, CK_MINIMA, CK_RECONVERSION, CK_RS_PS_DA, CK_SANS_TRAVAIL_12, CK_SIAE_CUI]"

definition certifiable_by_api_particulier :: "criteria_kind list" where
  "certifiable_by_api_particulier = [CK_RSA, CK_AAH, CK_PI]"

definition certifiable_by_api_france_travail :: "criteria_kind list" where
  "certifiable_by_api_france_travail = [CK_TH]"

definition certifiable_criteria_kinds :: "criteria_kind list" where
  "certifiable_criteria_kinds = certifiable_by_api_particulier @ certifiable_by_api_france_travail"

section \<open>Facts shared by the components\<close>

lemma siae_kinds_iff [simp]: "k \<in> set siae_kinds \<longleftrightarrow> k = AI \<or> k = ACI \<or> k = EI \<or> k = EITI \<or> k = ETTI"
  by (auto simp: siae_kinds_def)

text \<open>The kinds with a required number of level 2 criteria are exactly the IAE kinds, so the
  dictionary lookup cannot fail on them.\<close>

lemma level_2_required_iff: "level_2_required_for_siae_kind k \<noteq> None \<longleftrightarrow> k \<in> set siae_kinds"
  by (cases k) auto

lemma siae_kinds_have_ft_type: "k \<in> set siae_kinds \<Longrightarrow> siae_kind_to_ft_type_siae k \<noteq> None"
  by auto

text \<open>No sensitive kind of prescriber is disclosed to France Travail.\<close>

lemma typologie_not_sensitive:
  "to_PE_typologie_prescripteur k = TYPO_KIND k' \<Longrightarrow> k' \<notin> set pe_sensitive_prescriber_kinds"
  by (auto simp: to_PE_typologie_prescripteur_def pe_sensitive_prescriber_kinds_def split: if_splits)

end
