(* ===== verification/Py_Strings.thy ===== *)
theory Py_Strings
  imports Prelude
begin

text \<open>
  The string operations of Python the models use: \<open>startswith\<close>, \<open>endswith\<close>,
  \<open>removeprefix\<close>, \<open>isdigit\<close> on ASCII, \<open>int(..)\<close> on decimal digits and the zero-padded
  format \<open>f"{n:0wd}"\<close>, with the round trip between the last two and the agreement of
  the string order with the numeric order on digit strings of one length, which is what
  \<open>order_by("number").last()\<close> relies on.
\<close>

definition startswith :: "string \<Rightarrow> string \<Rightarrow> bool" where
  "startswith s p \<longleftrightarrow> take (length p) s = p"

definition endswith :: "string \<Rightarrow> string \<Rightarrow> bool" where
  "endswith s p \<longleftrightarrow> length p \<le> length s \<and> drop (length s - length p) s = p"

definition removeprefix :: "string \<Rightarrow> string \<Rightarrow> string" where
  "removeprefix s p = (if startswith s p then drop (length p) s else s)"

lemma startswith_append [simp]: "startswith (p @ s) p"
  by (simp add: startswith_def)

lemma startswithD: "startswith s p \<Longrightarrow> s = p @ removeprefix s p"
  using append_take_drop_id [of "length p" s] by (simp add: startswith_def removeprefix_def)

lemma removeprefix_append [simp]: "removeprefix (p @ s) p = s"
  by (simp add: removeprefix_def)

definition is_digit :: "char \<Rightarrow> bool" where
  "is_digit c \<longleftrightarrow> CHR ''0'' \<le> c \<and> c \<le> CHR ''9''"

definition digit_val :: "char \<Rightarrow> nat" where
  "digit_val c = of_char c - 48"

definition digit_char :: "nat \<Rightarrow> char" where
  "digit_char d = char_of (d + 48)"

lemma is_digit_iff: "is_digit c \<longleftrightarrow> 48 \<le> (of_char c :: nat) \<and> (of_char c :: nat) \<le> 57"
  by (simp add: is_digit_def less_eq_char_def)

lemma is_digit_char [simp]: "d < 10 \<Longrightarrow> is_digit (digit_char d)"
  by (simp add: is_digit_iff digit_char_def)

lemma digit_val_char [simp]: "d < 10 \<Longrightarrow> digit_val (digit_char d) = d"
  by (simp add: digit_val_def digit_char_def)

lemma digit_val_less: "is_digit c \<Longrightarrow> digit_val c < 10"
  by (auto simp: is_digit_iff digit_val_def)

lemma digit_val_mono: "is_digit c \<Longrightarrow> is_digit d \<Longrightarrow> c < d \<longleftrightarrow> digit_val c < digit_val d"
  by (auto simp: is_digit_iff digit_val_def less_char_def)

lemma digit_val_inj: "is_digit c \<Longrightarrow> is_digit d \<Longrightarrow> digit_val c = digit_val d \<longleftrightarrow> c = d"
  using digit_val_mono [of c d] digit_val_mono [of d c] by (cases c d rule: linorder_cases) auto

definition all_digits :: "string \<Rightarrow> bool" where
  "all_digits s \<longleftrightarrow> list_all is_digit s"

lemma all_digits_simps [simp]:
  "all_digits []" "all_digits (c # s) \<longleftrightarrow> is_digit c \<and> all_digits s"
  "all_digits (s @ t) \<longleftrightarrow> all_digits s \<and> all_digits t"
  by (simp_all add: all_digits_def)

fun dec_val :: "string \<Rightarrow> nat" where
  "dec_val [] = 0"
| "dec_val (c # s) = digit_val c * 10 ^ length s + dec_val s"

text \<open>\<open>int(s)\<close>, exact on ASCII alphanumeric strings.\<close>

definition py_int :: "string \<Rightarrow> error + nat" where
  "py_int s = (if s \<noteq> [] \<and> all_digits s then Inr (dec_val s) else Inl (ValueError ''int''))"

lemma dec_val_append: "dec_val (s @ t) = dec_val s * 10 ^ length t + dec_val t"
  by (induction s) (simp_all add: power_add algebra_simps)

lemma dec_val_less: "all_digits s \<Longrightarrow> dec_val s < 10 ^ length s"
proof (induction s)
  case (Cons c s)
  then have "digit_val c \<le> 9" "dec_val s < 10 ^ length s" using digit_val_less [of c] by auto
  then have "digit_val c * 10 ^ length s \<le> 9 * 10 ^ length s" by (intro mult_le_mono1)
  moreover have "dec_val s < 10 ^ length s" by fact
  ultimately have "digit_val c * 10 ^ length s + dec_val s < 10 * 10 ^ length s" by linarith
  then show ?case by simp
qed simp

lemma lex_head_less:
  assumes "a < b" and "x < (m :: nat)"
  shows "a * m + x < b * m + y"
proof -
  have "a * m + x < (a + 1) * m" using assms(2) by simp
  also have "\<dots> \<le> b * m" using assms(1) by (intro mult_le_mono1) simp
  finally show ?thesis by simp
qed

text \<open>On digit strings of the same length the string order is the numeric order.\<close>

lemma digits_less_iff:
  assumes "length s = length t" and "all_digits s" and "all_digits t"
  shows "s < t \<longleftrightarrow> dec_val s < dec_val t"
  using assms
proof (induction s t rule: list_induct2)
  case (Cons c s d t)
  then have IH: "s < t \<longleftrightarrow> dec_val s < dec_val t" by simp
  have ls: "dec_val s < 10 ^ length t" "dec_val t < 10 ^ length t"
    using dec_val_less [of s] dec_val_less [of t] Cons by auto
  consider "digit_val c < digit_val d" | "digit_val c = digit_val d" | "digit_val d < digit_val c"
    by linarith
  then show ?case
  proof cases
    case 1
    then have "c < d" using Cons.prems by (simp add: digit_val_mono)
    then show ?thesis using lex_head_less [OF 1 ls(1)] Cons.hyps by simp
  next
    case 2
    then have "c = d" using Cons.prems digit_val_inj by simp
    then show ?thesis using IH Cons.hyps by simp
  next
    case 3
    then have "d < c" using Cons.prems by (simp add: digit_val_mono)
    then show ?thesis using lex_head_less [OF 3 ls(2), of "dec_val s"] Cons.hyps by auto
  qed
qed simp

corollary digits_le_iff:
  "length s = length t \<Longrightarrow> all_digits s \<Longrightarrow> all_digits t \<Longrightarrow> s \<le> t \<longleftrightarrow> dec_val s \<le> dec_val t"
  using digits_less_iff [of t s] by (simp add: not_less [symmetric])

fun nat_str :: "nat \<Rightarrow> string" where
  "nat_str n = (if n < 10 then [digit_char n] else nat_str (n div 10) @ [digit_char (n mod 10)])"

declare nat_str.simps [simp del]

definition zfill :: "nat \<Rightarrow> nat \<Rightarrow> string" where
  "zfill w n = replicate (w - length (nat_str n)) (CHR ''0'') @ nat_str n"

lemma nat_str_digits [simp]: "all_digits (nat_str n)"
proof (induction n rule: nat_str.induct)
  case (1 n)
  then show ?case by (simp add: nat_str.simps [of n])
qed

lemma dec_val_nat_str [simp]: "dec_val (nat_str n) = n"
proof (induction n rule: nat_str.induct)
  case (1 n)
  then show ?case by (simp add: nat_str.simps [of n] dec_val_append)
qed

lemma nat_str_not_Nil [simp]: "nat_str n \<noteq> []"
  by (simp add: nat_str.simps)

lemma nat_str_length: "0 < w \<Longrightarrow> n < 10 ^ w \<Longrightarrow> length (nat_str n) \<le> w"
proof (induction n arbitrary: w rule: nat_str.induct)
  case (1 n)
  show ?case
  proof (cases "n < 10")
    case True
    then show ?thesis using 1 by (simp add: nat_str.simps)
  next
    case False
    then obtain v where w: "w = Suc v" "0 < v" using 1(2,3) by (cases w; cases "w - 1") auto
    have "n div 10 < 10 ^ v" using 1(3) w by (simp add: less_mult_imp_div_less mult.commute)
    then show ?thesis using False 1(1) [OF False w(2)] w by (simp add: nat_str.simps [of n])
  qed
qed

lemma all_digits_zeros [simp]: "all_digits (replicate k (CHR ''0''))"
  by (induction k) (simp_all add: is_digit_def)

lemma dec_val_zeros [simp]: "dec_val (replicate k (CHR ''0'')) = 0"
  by (induction k) (simp_all add: digit_val_def)

lemma zfill_digits [simp]: "all_digits (zfill w n)"
  by (simp add: zfill_def)

lemma dec_val_zfill [simp]: "dec_val (zfill w n) = n"
  by (simp add: zfill_def dec_val_append)

lemma zfill_length: "0 < w \<Longrightarrow> n < 10 ^ w \<Longrightarrow> length (zfill w n) = w"
  using nat_str_length [of w n] by (simp add: zfill_def)

text \<open>Reading back a formatted number.\<close>

lemma py_int_zfill [simp]: "py_int (zfill w n) = Inr n"
  by (simp add: py_int_def) (simp add: zfill_def)

text \<open>\<open>str.lower\<close> and \<open>str.upper\<close>, exact on ASCII.\<close>

definition lower_char :: "char \<Rightarrow> char" where
  "lower_char c = (if CHR ''A'' \<le> c \<and> c \<le> CHR ''Z'' then char_of (of_char c + 32 :: nat) else c)"

definition upper_char :: "char \<Rightarrow> char" where
  "upper_char c = (if CHR ''a'' \<le> c \<and> c \<le> CHR ''z'' then char_of (of_char c - 32 :: nat) else c)"

definition py_lower :: "string \<Rightarrow> string" where "py_lower s = map lower_char s"

definition py_upper :: "string \<Rightarrow> string" where "py_upper s = map upper_char s"

lemma upper_char_digit [simp]: "is_digit c \<Longrightarrow> upper_char c = c"
  by (auto simp: upper_char_def is_digit_iff less_eq_char_def)

lemma py_upper_digits [simp]: "all_digits s \<Longrightarrow> py_upper s = s"
  by (simp add: py_upper_def all_digits_def list_all_iff map_idI)

section \<open>Whitespace\<close>

text \<open>\<open>str.strip()\<close>, on the characters of one byte.\<close>

definition py_isspace :: "char \<Rightarrow> bool" where
  "py_isspace c \<longleftrightarrow> (of_char c :: nat) \<in> {9, 10, 11, 12, 13, 28, 29, 30, 31, 32, 133, 160}"

definition py_strip :: "string \<Rightarrow> string" where
  "py_strip s = rev (dropWhile py_isspace (rev (dropWhile py_isspace s)))"

text \<open>What a required \<open>CharField(strip=True)\<close> makes of a submitted value: the stripped text, unless it is empty.\<close>

definition required_text :: "string \<Rightarrow> string option" where
  "required_text raw = (let s = py_strip raw in if s = [] then None else Some s)"

end
