(* ===== verification/Users.thy ===== *)
theory Users
  imports Companies
begin

text \<open>
  \<open>itou/users/models.py\<close>: users, job seeker profiles, identity certifications and job seeker
  assignments, with \<open>department_from_postcode\<close> of \<open>common_apps/address/departments.py\<close>.

  A save takes the row as loaded (\<open>_old_values\<close>) and the row to be written, as the code compares
  both.  The fields of the profile that describe the ASP situation and the HEXA address are nested
  records.  The hash of \<open>_default_asp_uid\<close> (\<open>salted_hmac\<close>) and the geocoding of
  \<open>update_hexa_address\<close> are arguments.  The history triggers of \<open>AbstractFieldsHistoryModel\<close> and
  names display are not modelled.
\<close>

section \<open>Rows\<close>

record user =
  us_pk :: pk
  us_kind :: user_kind
  us_first_name :: string
  us_last_name :: string
  us_title :: "title option"
  us_email :: "string option"
  us_username :: string
  us_identity_provider :: identity_provider
  us_is_active :: bool
  us_is_staff :: bool
  us_is_superuser :: bool
  us_created_by :: "pk option"
  us_post_code :: string
  us_department :: string
  us_last_login :: "datetime option"
  us_first_login :: "datetime option"
  us_date_joined :: datetime
  us_terms_accepted_at :: "datetime option"
  us_upcoming_deletion_notified_at :: "datetime option"

datatype allocation_duration = LESS_THAN_6_MONTHS | FROM_6_TO_11_MONTHS | FROM_12_TO_23_MONTHS
  | MORE_THAN_24_MONTHS

datatype rsa_allocation = RSA_NO | RSA_YES_WITH_MARKUP | RSA_YES_WITHOUT_MARKUP

record asp_situation =
  si_education_level :: string
  si_resourceless :: bool
  si_rqth_employee :: bool
  si_oeth_employee :: bool
  si_pole_emploi_since :: "allocation_duration option"
  si_unemployed_since :: "allocation_duration option"
  si_has_rsa_allocation :: "rsa_allocation option"
  si_rsa_allocation_since :: "allocation_duration option"
  si_ass_allocation_since :: "allocation_duration option"
  si_aah_allocation_since :: "allocation_duration option"
  si_are_allocation_since :: "allocation_duration option"
  si_activity_bonus_since :: "allocation_duration option"
  si_ase_exit :: bool
  si_isolated_parent :: bool
  si_housing_issue :: bool
  si_refugee :: bool
  si_detention_exit_or_ppsmj :: bool
  si_low_level_in_french :: bool
  si_mobility_issue :: bool

record hexa_address =
  hx_lane_number :: string
  hx_std_extension :: string
  hx_non_std_extension :: string
  hx_lane_type :: string
  hx_lane_name :: string
  hx_additional_address :: string
  hx_post_code :: string
  hx_commune :: "pk option"

record jobseeker_profile =
  jp_user :: pk
  jp_birthdate :: "date option"
  jp_birth_place :: "pk option"
  jp_birth_country :: "pk option"
  jp_nir :: string
  jp_lack_of_nir_reason :: "lack_of_nir_reason option"
  jp_pole_emploi_id :: string
  jp_lack_of_pole_emploi_id_reason :: "lack_of_pole_emploi_id option"
  jp_ft_gps_id :: "string option"
  jp_asp_uid :: string
  jp_situation :: asp_situation
  jp_hexa :: hexa_address
  jp_pe_obfuscated_nir :: "string option"
  jp_pe_last_certification_attempt_at :: "datetime option"
  jp_is_stalled :: bool
  jp_is_not_stalled_anymore :: "bool option"

record identity_certification =
  ic_jobseeker_profile :: pk
  ic_certifier :: certification_authority
  ic_certified_at :: datetime

datatype organization_ref = PRESCRIBER_ORG pk | COMPANY_ORG pk

record job_seeker_assignment =
  as_created_at :: datetime
  as_updated_at :: datetime
  as_job_seeker :: pk
  as_professional :: pk
  as_prescriber_organization :: "pk option"
  as_company :: "pk option"
  as_last_action_kind :: action_kind
  as_assigned_to_unknown_advisor :: bool

section \<open>User\<close>

definition is_job_seeker :: "user \<Rightarrow> bool" where
  "is_job_seeker u \<longleftrightarrow> us_kind u = KIND_JOB_SEEKER"

definition is_professional :: "user \<Rightarrow> bool" where
  "is_professional u \<longleftrightarrow> us_kind u = KIND_PROFESSIONAL"

definition has_sso_provider :: "user \<Rightarrow> bool" where
  "has_sso_provider u \<longleftrightarrow> us_identity_provider u \<noteq> IDP_DJANGO"

definition user_constraints :: "user \<Rightarrow> bool" where
  "user_constraints u \<longleftrightarrow>
     ((us_kind u \<noteq> KIND_ITOU_STAFF \<and> \<not> us_is_staff u \<and> \<not> us_is_superuser u) \<or>
      (us_kind u = KIND_ITOU_STAFF \<and> us_is_staff u)) \<and>
     (us_identity_provider u = IDP_DJANGO \<or>
      (us_identity_provider u = IDP_FRANCE_CONNECT \<and> us_kind u = KIND_JOB_SEEKER) \<or>
      (us_identity_provider u = IDP_FT_CONNECT \<and> us_kind u = KIND_JOB_SEEKER) \<or>
      (us_identity_provider u = IDP_PRO_CONNECT \<and> us_kind u = KIND_PROFESSIONAL))"

definition department_from_postcode :: "string \<Rightarrow> string" where
  "department_from_postcode post_code =
     (if post_code = [] then []
      else if startswith post_code ''20'' then
        (if list_ex (startswith post_code) [''200'', ''201'', ''207''] then ''2A''
         else if list_ex (startswith post_code) [''202'', ''204'', ''206''] then ''2B''
         else [])
      else if startswith post_code ''97'' \<or> startswith post_code ''98'' then take 3 post_code
      else take 2 post_code)"

text \<open>The state a save of a user or of a profile reads and writes.\<close>

record users_db =
  db_users :: "user list"
  db_profiles :: "jobseeker_profile list"
  db_certifications :: "identity_certification list"
  db_assignments :: "job_seeker_assignment list"

definition delete_ft_certifications ::
  "pk \<Rightarrow> identity_certification list \<Rightarrow> identity_certification list" where
  "delete_ft_certifications jp cs =
     filter (\<lambda>c. \<not> (ic_jobseeker_profile c = jp \<and>
       ic_certifier c = API_FT_RECHERCHE_INDIVIDU_CERTIFIE)) cs"

text \<open>\<open>JobSeekerProfile.save\<close> on an existing row: \<open>old\<close> is \<open>_old_values\<close>.  \<open>default_asp_uid\<close> is
  the keyed hash of the primary key.\<close>

definition profile_fields_on_save ::
  "(pk \<Rightarrow> string) \<Rightarrow> jobseeker_profile \<Rightarrow> jobseeker_profile \<Rightarrow> jobseeker_profile" where
  "profile_fields_on_save default_asp_uid old p =
     (let p1 = (if jp_asp_uid p = [] then p\<lparr>jp_asp_uid := default_asp_uid (jp_user p)\<rparr> else p) in
      if jp_birthdate p \<noteq> jp_birthdate old \<or> jp_nir p \<noteq> jp_nir old
      then p1\<lparr>jp_pe_obfuscated_nir := None, jp_pe_last_certification_attempt_at := None,
              jp_ft_gps_id := None\<rparr>
      else p1)"

definition profile_save ::
  "(pk \<Rightarrow> string) \<Rightarrow> jobseeker_profile \<Rightarrow> jobseeker_profile \<Rightarrow> users_db \<Rightarrow> users_db" where
  "profile_save default_asp_uid old p db =
     (let p' = profile_fields_on_save default_asp_uid old p;
          certs = (if jp_birthdate p \<noteq> jp_birthdate old \<or> jp_nir p \<noteq> jp_nir old
                   then delete_ft_certifications (jp_user p) (db_certifications db)
                   else db_certifications db)
      in db\<lparr>db_profiles := map_rows (\<lambda>q. jp_user q = jp_user p) (\<lambda>_. p') (db_profiles db),
            db_certifications := certs\<rparr>)"

text \<open>The part of \<open>User.save\<close> that computes the written row.\<close>

definition user_fields_on_save :: "user \<Rightarrow> user" where
  "user_fields_on_save u =
     (let u1 = u\<lparr>us_department := department_from_postcode (us_post_code u),
                us_is_staff := (us_kind u = KIND_ITOU_STAFF)\<rparr>
      in if us_first_login u1 = None \<and> us_last_login u1 \<noteq> None
         then u1\<lparr>us_first_login := us_last_login u1\<rparr> else u1)"

text \<open>\<open>User.save\<close> on an existing user: \<open>validate_unique\<close> (the username, and the email, whose column
  compares without case), \<open>validate_constraints\<close>,
  the write, then the loss of the France Travail certification when the name of a job seeker
  changed.\<close>

definition user_save :: "user \<Rightarrow> user \<Rightarrow> users_db \<Rightarrow> error + users_db" where
  "user_save old u db =
     (let u' = user_fields_on_save u in
      rbind (guard (\<not> list_ex (\<lambda>v. us_pk v \<noteq> us_pk u \<and>
                      (us_username v = us_username u \<or>
                       (us_email u \<noteq> None \<and>
                        map_option py_lower (us_email v) = map_option py_lower (us_email u))))
                      (db_users db)) (ValidationError ''unique'')) (\<lambda>_.
      rbind (guard (user_constraints u') (ValidationError ''constraints'')) (\<lambda>_.
      let db1 = db\<lparr>db_users := map_rows (\<lambda>v. us_pk v = us_pk u) (\<lambda>_. u') (db_users db)\<rparr> in
      Inr (if is_job_seeker u \<and>
              (us_last_name u \<noteq> us_last_name old \<or> us_first_name u \<noteq> us_first_name old)
           then db1\<lparr>db_profiles := map_rows (\<lambda>p. jp_user p = us_pk u)
                      (\<lambda>p. p\<lparr>jp_pe_obfuscated_nir := None,
                             jp_pe_last_certification_attempt_at := None, jp_ft_gps_id := None\<rparr>)
                      (db_profiles db1),
                    db_certifications := delete_ft_certifications (us_pk u) (db_certifications db1)\<rparr>
           else db1))))"

definition can_be_reactivated :: "user \<Rightarrow> bool" where
  "can_be_reactivated u =
     (if us_is_active u then False
      else if \<not> is_professional u then False
      else us_username u \<noteq> [] \<and> has_sso_provider u \<and>
           us_upcoming_deletion_notified_at u \<noteq> None \<and>
           (us_email u = None \<or> us_email u = Some []))"

definition is_handled_by_proxy :: "user \<Rightarrow> bool" where
  "is_handled_by_proxy u \<longleftrightarrow> is_job_seeker u \<and> us_created_by u \<noteq> None \<and> us_last_login u = None"

text \<open>The prescriber organizations of a user enter as the authorization statuses of the
  organizations of the memberships \<open>prescribermembership_set\<close> yields.\<close>

definition is_prescriber_with_authorized_org_memberships ::
  "(pk \<Rightarrow> prescriber_authorization_status list) \<Rightarrow> user \<Rightarrow> bool" where
  "is_prescriber_with_authorized_org_memberships org_statuses u \<longleftrightarrow>
     is_professional u \<and> AUTH_VALIDATED \<in> set (org_statuses (us_pk u))"

definition joined_recently :: "datetime \<Rightarrow> user \<Rightarrow> bool" where
  "joined_recently now u \<longleftrightarrow> (now - us_date_joined u) div one_day < 7"

definition must_accept_terms :: "datetime \<Rightarrow> user \<Rightarrow> bool" where
  "must_accept_terms latest_terms u =
     (if \<not> is_professional u then False
      else (case us_terms_accepted_at u of None \<Rightarrow> True | Some t \<Rightarrow> t < latest_terms))"

section \<open>External data history\<close>

record history_entry =
  he_field_name :: string
  he_source :: identity_provider
  he_created_at :: datetime
  he_value :: string

text \<open>\<open>update_external_data_source_history_field\<close>.\<close>

definition update_history_field ::
  "datetime \<Rightarrow> identity_provider \<Rightarrow> string \<Rightarrow> string \<Rightarrow> history_entry list
   \<Rightarrow> history_entry list \<times> bool" where
  "update_history_field now provider field v h =
     (let field_history = filter (\<lambda>e. he_field_name e = field) h;
          current_value = (if field_history = [] then None else Some (he_value (last field_history)))
      in if current_value = Some v then (h, False)
         else if field \<in> {''last_name'', ''first_name''} \<and>
           (case current_value of None \<Rightarrow> False | Some c \<Rightarrow> c \<noteq> [] \<and> py_lower c = py_lower v) then (h, False)
         else (h @ [\<lparr>he_field_name = field, he_source = provider, he_created_at = now,
                     he_value = v\<rparr>], True))"

section \<open>JobSeekerProfile\<close>

definition france_id :: pk where "france_id = 91"

definition hex_char :: "char \<Rightarrow> bool" where
  "hex_char c \<longleftrightarrow> is_digit c \<or> (CHR ''a'' \<le> c \<and> c \<le> CHR ''f'')"

definition profile_constraints :: "jobseeker_profile \<Rightarrow> bool" where
  "profile_constraints p \<longleftrightarrow>
     (jp_lack_of_nir_reason p = None \<or> jp_nir p = []) \<and>
     ((jp_birth_country p = None \<and> jp_birth_place p = None) \<or>
      (jp_birth_country p = Some france_id \<and> jp_birth_place p \<noteq> None) \<or>
      (jp_birth_country p \<noteq> Some france_id \<and> jp_birth_place p = None)) \<and>
     ((si_has_rsa_allocation (jp_situation p) \<in> {None, Some RSA_NO} \<and>
       si_rsa_allocation_since (jp_situation p) = None) \<or>
      (si_has_rsa_allocation (jp_situation p) \<in> {Some RSA_YES_WITH_MARKUP, Some RSA_YES_WITHOUT_MARKUP} \<and>
       si_rsa_allocation_since (jp_situation p) \<noteq> None)) \<and>
     length (jp_asp_uid p) = 30 \<and> list_all hex_char (jp_asp_uid p)"

text \<open>The keys of the table.  The uniqueness of the ASP identifier is left out: it holds as far as the truncated hash of
  the primary key that makes it, an argument of the model, has no collision.\<close>

definition profile_table_ok :: "jobseeker_profile list \<Rightarrow> bool" where
  "profile_table_ok ps \<longleftrightarrow>
     distinct (map jp_user ps) \<and> list_all profile_constraints ps \<and>
     distinct (map jp_nir (filter (\<lambda>p. jp_nir p \<noteq> []) ps))"

text \<open>\<open>is_considered_stalled_condition(value)\<close>: Django negates an equality on a nullable column
  so that NULL satisfies the negation.\<close>

definition is_considered_stalled_condition :: "bool \<Rightarrow> jobseeker_profile \<Rightarrow> bool" where
  "is_considered_stalled_condition v p \<longleftrightarrow>
     jp_is_stalled p = v \<and> jp_is_not_stalled_anymore p \<noteq> Some v"

definition is_considered_stalled :: "jobseeker_profile \<Rightarrow> bool" where
  "is_considered_stalled p \<longleftrightarrow> jp_is_stalled p \<and> jp_is_not_stalled_anymore p \<noteq> Some True"

text \<open>\<open>clean_pole_emploi_fields\<close>: one of the two fields is needed and the identifier wins; the
  result is the pair left in \<open>cleaned_data\<close>.\<close>

definition clean_pole_emploi_fields ::
  "string \<Rightarrow> lack_of_pole_emploi_id option \<Rightarrow> error + (string \<times> lack_of_pole_emploi_id option)" where
  "clean_pole_emploi_fields pole_emploi_id reason =
     (if pole_emploi_id = [] \<and> reason = None then Inl (ValidationError ''pole_emploi_id'')
      else if pole_emploi_id \<noteq> [] \<and> reason \<noteq> None then Inr (pole_emploi_id, None)
      else Inr (pole_emploi_id, reason))"

definition clean_job_seeker_details :: "user \<Rightarrow> jobseeker_profile \<Rightarrow> error + unit" where
  "clean_job_seeker_details u p =
     rbind (guard (us_title u \<noteq> None) (ValidationError ''title'')) (\<lambda>_.
     guard (si_education_level (jp_situation p) \<noteq> []) (ValidationError ''education_level''))"

definition hexa_any_filled :: "hexa_address \<Rightarrow> bool" where
  "hexa_any_filled h \<longleftrightarrow>
     hx_lane_number h \<noteq> [] \<or> hx_std_extension h \<noteq> [] \<or> hx_non_std_extension h \<noteq> [] \<or>
     hx_lane_type h \<noteq> [] \<or> hx_lane_name h \<noteq> [] \<or> hx_additional_address h \<noteq> [] \<or>
     hx_post_code h \<noteq> [] \<or> hx_commune h \<noteq> None"

definition clean_job_seeker_hexa_address :: "hexa_address \<Rightarrow> error + unit" where
  "clean_job_seeker_hexa_address h =
     (if \<not> hexa_any_filled h then Inr ()
      else rbind (guard (hx_lane_type h \<noteq> []) (ValidationError ''hexa_lane_type'')) (\<lambda>_.
           rbind (guard (hx_lane_name h \<noteq> []) (ValidationError ''hexa_lane_name'')) (\<lambda>_.
           rbind (guard (hx_post_code h \<noteq> []) (ValidationError ''hexa_post_code'')) (\<lambda>_.
           guard (hx_commune h \<noteq> None) (ValidationError ''hexa_commune'')))))"

definition clean_model :: "user \<Rightarrow> jobseeker_profile \<Rightarrow> error + unit" where
  "clean_model u p = rbind (clean_job_seeker_details u p) (\<lambda>_. clean_job_seeker_hexa_address (jp_hexa p))"

text \<open>The answer of the geocoding helper \<open>compute_hexa_address\<close>, an argument of
  \<open>update_hexa_address\<close> with the INSEE lookup.\<close>

record hexa_result =
  hr_lane_type :: string
  hr_number :: string
  hr_std_extension :: string
  hr_non_std_extension :: string
  hr_lane :: string
  hr_post_code :: string
  hr_additional_address :: string
  hr_insee_code :: string

definition update_hexa_address ::
  "(user \<Rightarrow> string + hexa_result) \<Rightarrow> (string \<Rightarrow> pk option) \<Rightarrow> user \<Rightarrow> jobseeker_profile
   \<Rightarrow> error + jobseeker_profile" where
  "update_hexa_address compute_hexa_address by_insee_code u p =
     (case compute_hexa_address u of
        Inl e \<Rightarrow> Inl (ValidationError e)
      | Inr r \<Rightarrow>
          (case by_insee_code (hr_insee_code r) of
             None \<Rightarrow> Inl (ValidationError ''insee_code'')
           | Some commune \<Rightarrow>
               Inr (p\<lparr>jp_hexa := \<lparr>hx_lane_number = hr_number r, hx_std_extension = hr_std_extension r,
                 hx_non_std_extension = hr_non_std_extension r, hx_lane_type = hr_lane_type r,
                 hx_lane_name = hr_lane r, hx_additional_address = hr_additional_address r,
                 hx_post_code = hr_post_code r, hx_commune = Some commune\<rparr>\<rparr>)))"

definition empty_hexa_address :: hexa_address where
  "empty_hexa_address = \<lparr>hx_lane_number = [], hx_std_extension = [], hx_non_std_extension = [],
     hx_lane_type = [], hx_lane_name = [], hx_additional_address = [], hx_post_code = [],
     hx_commune = None\<rparr>"

definition clear_hexa_address :: "jobseeker_profile \<Rightarrow> jobseeker_profile" where
  "clear_hexa_address p = p\<lparr>jp_hexa := empty_hexa_address\<rparr>"

definition has_social_allowance :: "jobseeker_profile \<Rightarrow> bool" where
  "has_social_allowance p \<longleftrightarrow>
     si_has_rsa_allocation (jp_situation p) \<noteq> Some RSA_NO \<or>
     si_ass_allocation_since (jp_situation p) \<noteq> None \<or>
     si_aah_allocation_since (jp_situation p) \<noteq> None"

definition hexa_address_filled :: "hexa_address \<Rightarrow> bool" where
  "hexa_address_filled h \<longleftrightarrow>
     hx_lane_name h \<noteq> [] \<and> hx_lane_type h \<noteq> [] \<and> hx_post_code h \<noteq> [] \<and> hx_commune h \<noteq> None"

definition api_particulier_required_fields :: "string list" where
  "api_particulier_required_fields =
     [''first_name'', ''last_name'', ''title'', ''birthdate'', ''birth_country'', ''birth_place'']"

definition blocked_fields_step ::
  "jobseeker_profile \<Rightarrow> identity_certification \<Rightarrow> string list \<Rightarrow> string list" where
  "blocked_fields_step p c blocked =
     (if ic_certifier c = API_PARTICULIER then
        (let b1 = blocked @ api_particulier_required_fields;
             b2 = (if jp_birth_country p = None \<or>
                      (jp_birth_country p = Some france_id \<and> jp_birth_place p = None)
                   then filter (\<lambda>f. f \<notin> {''birth_country'', ''birth_place''}) b1 else b1)
         in if jp_pole_emploi_id p \<noteq> [] then b2 @ [''pole_emploi_id''] else b2)
      else blocked)"

definition readonly_pii_fields ::
  "jobseeker_profile \<Rightarrow> identity_certification list \<Rightarrow> string list" where
  "readonly_pii_fields p certs =
     foldl (\<lambda>b c. blocked_fields_step p c b) []
       (filter (\<lambda>c. ic_jobseeker_profile c = jp_user p) certs)"

section \<open>Identity certifications\<close>

definition upsert_certification ::
  "identity_certification \<Rightarrow> identity_certification list \<Rightarrow> identity_certification list" where
  "upsert_certification c cs =
     upsert (\<lambda>d. ic_certifier d = ic_certifier c \<and> ic_jobseeker_profile d = ic_jobseeker_profile c)
       (\<lambda>d. d\<lparr>ic_certified_at := ic_certified_at c\<rparr>) c cs"

definition upsert_certifications ::
  "identity_certification list \<Rightarrow> identity_certification list \<Rightarrow> identity_certification list" where
  "upsert_certifications news cs = foldl (\<lambda>acc c. upsert_certification c acc) cs news"

definition cert_key :: "identity_certification \<Rightarrow> pk \<times> certification_authority" where
  "cert_key c = (ic_jobseeker_profile c, ic_certifier c)"

definition certification_table_ok :: "identity_certification list \<Rightarrow> bool" where
  "certification_table_ok cs \<longleftrightarrow> distinct (map cert_key cs)"

section \<open>Assignments\<close>

fun org_prescriber :: "organization_ref option \<Rightarrow> pk option" where
  "org_prescriber (Some (PRESCRIBER_ORG k)) = Some k"
| "org_prescriber _ = None"

fun org_company :: "organization_ref option \<Rightarrow> pk option" where
  "org_company (Some (COMPANY_ORG k)) = Some k"
| "org_company _ = None"

definition assignment_key :: "job_seeker_assignment \<Rightarrow> pk \<times> pk \<times> pk option \<times> pk option" where
  "assignment_key a =
     (as_job_seeker a, as_professional a, as_prescriber_organization a, as_company a)"

definition assignment_constraints :: "job_seeker_assignment \<Rightarrow> bool" where
  "assignment_constraints a \<longleftrightarrow>
     \<not> (as_company a \<noteq> None \<and> as_prescriber_organization a \<noteq> None) \<and>
     \<not> (as_assigned_to_unknown_advisor a \<and> as_company a = None \<and> as_prescriber_organization a = None)"

definition assignment_table_ok :: "job_seeker_assignment list \<Rightarrow> bool" where
  "assignment_table_ok t \<longleftrightarrow> distinct (map assignment_key t) \<and> list_all assignment_constraints t"

text \<open>\<open>upsert_assignment\<close>: the assertion on the job seeker, the early return on a user who is
  not a professional, and PostgreSQL's check of the constraints on the proposed row.\<close>

definition upsert_assignment ::
  "datetime \<Rightarrow> user \<Rightarrow> user \<Rightarrow> organization_ref option \<Rightarrow> action_kind \<Rightarrow> bool
   \<Rightarrow> job_seeker_assignment list \<Rightarrow> error + job_seeker_assignment list" where
  "upsert_assignment now job_seeker professional organization kind unknown_advisor t =
     (if \<not> is_job_seeker job_seeker then Inl (RuntimeError ''AssertionError'')
      else if \<not> is_professional professional then Inr t
      else
        (let a = \<lparr>as_created_at = now, as_updated_at = now, as_job_seeker = us_pk job_seeker,
                  as_professional = us_pk professional,
                  as_prescriber_organization = org_prescriber organization,
                  as_company = org_company organization, as_last_action_kind = kind,
                  as_assigned_to_unknown_advisor = unknown_advisor\<rparr>
         in if \<not> assignment_constraints a then Inl (IntegrityError ''assignment'')
            else Inr (upsert (\<lambda>b. assignment_key b = assignment_key a)
              (\<lambda>b. b\<lparr>as_updated_at := now, as_last_action_kind := kind,
                     as_assigned_to_unknown_advisor := unknown_advisor\<rparr>) a t)))"

definition assigned_to ::
  "pk \<Rightarrow> organization_ref option \<Rightarrow> bool \<Rightarrow> job_seeker_assignment list \<Rightarrow> job_seeker_assignment list"
  where
  "assigned_to professional organization from_all_coworkers t =
     filter (\<lambda>a.
       (as_professional a = professional \<and> as_prescriber_organization a = None \<and> as_company a = None) \<or>
       (organization \<noteq> None \<and>
        as_prescriber_organization a = org_prescriber organization \<and>
        as_company a = org_company organization \<and>
        (from_all_coworkers \<or> as_professional a = professional))) t"

definition assigned_job_seeker_ids ::
  "pk \<Rightarrow> organization_ref option \<Rightarrow> bool \<Rightarrow> bool option \<Rightarrow> users_db \<Rightarrow> pk list" where
  "assigned_job_seeker_ids user organization from_all_coworkers stalled db =
     (let qs = assigned_to user organization from_all_coworkers (db_assignments db);
          qs' = (case stalled of None \<Rightarrow> qs
                 | Some v \<Rightarrow> filter (\<lambda>a. case get_row jp_user (as_job_seeker a) (db_profiles db) of
                     None \<Rightarrow> False | Some p \<Rightarrow> is_considered_stalled_condition v p) qs)
      in map us_pk (filter (\<lambda>u. list_ex (\<lambda>a. as_job_seeker a = us_pk u) qs') (db_users db)))"

definition last_assignment ::
  "(pk \<Rightarrow> bool) \<Rightarrow> user \<Rightarrow> job_seeker_assignment list \<Rightarrow> job_seeker_assignment option" where
  "last_assignment professional_is_active u t =
     order_last as_updated_at
       (filter (\<lambda>a. as_job_seeker a = us_pk u \<and> professional_is_active (as_professional a)) t)"

definition assignment_advisor :: "job_seeker_assignment \<Rightarrow> pk option" where
  "assignment_advisor a =
     (if as_assigned_to_unknown_advisor a then None else Some (as_professional a))"

section \<open>Tables with a unique key\<close>

text \<open>The contract of an upsert on a table with a unique key: certifications and assignments both
  meet it, and it gives uniqueness after any sequence of upserts and that each upserted key is
  found.\<close>

locale keyed_upsert =
  fixes key :: "'r \<Rightarrow> 'k" and ups :: "'r \<Rightarrow> 'r list \<Rightarrow> 'r list"
  assumes ups_distinct: "distinct (map key t) \<Longrightarrow> distinct (map key (ups r t))"
    and ups_keys: "set (map key (ups r t)) = insert (key r) (set (map key t))"
begin

lemma fold_distinct: "distinct (map key t) \<Longrightarrow> distinct (map key (foldl (\<lambda>acc r. ups r acc) t rs))"
  by (induction rs arbitrary: t) (auto intro: ups_distinct)

lemma fold_keys: "set (map key (foldl (\<lambda>acc r. ups r acc) t rs)) = key ` set rs \<union> set (map key t)"
  using ups_keys by (induction rs arbitrary: t) auto

lemma found_after: "\<exists>r' \<in> set (ups r t). key r' = key r"
proof -
  have "key r \<in> set (map key (ups r t))" using ups_keys by blast
  then show ?thesis by auto
qed

end

interpretation certs: keyed_upsert cert_key upsert_certification
proof
  show "distinct (map cert_key t) \<Longrightarrow> distinct (map cert_key (upsert_certification c t))" for c t
    unfolding upsert_certification_def
    by (rule upsert_distinct_key) (auto simp: cert_key_def)
  show "set (map cert_key (upsert_certification c t)) = insert (cert_key c) (set (map cert_key t))"
    for c t
    unfolding upsert_certification_def by (rule upsert_keys) (auto simp: cert_key_def)
qed

definition put_assignment ::
  "job_seeker_assignment \<Rightarrow> job_seeker_assignment list \<Rightarrow> job_seeker_assignment list" where
  "put_assignment a t =
     upsert (\<lambda>b. assignment_key b = assignment_key a)
       (\<lambda>b. b\<lparr>as_updated_at := as_updated_at a, as_last_action_kind := as_last_action_kind a,
              as_assigned_to_unknown_advisor := as_assigned_to_unknown_advisor a\<rparr>) a t"

interpretation assigns: keyed_upsert assignment_key put_assignment
proof
  show "distinct (map assignment_key t) \<Longrightarrow> distinct (map assignment_key (put_assignment a t))" for a t
    unfolding put_assignment_def by (rule upsert_distinct_key) (auto simp: assignment_key_def)
  show "set (map assignment_key (put_assignment a t)) =
      insert (assignment_key a) (set (map assignment_key t))" for a t
    unfolding put_assignment_def by (rule upsert_keys) (auto simp: assignment_key_def)
qed

lemma put_assignment_constraints:
  assumes "list_all assignment_constraints t" "assignment_constraints a"
  shows "list_all assignment_constraints (put_assignment a t)"
  using assms
  by (auto simp: put_assignment_def upsert_def list_all_iff set_map_rows assignment_constraints_def
      assignment_key_def)

section \<open>Lemmas on saves\<close>

lemma user_save_InrD:
  "user_save old u db = Inr db' \<Longrightarrow> user_constraints (user_fields_on_save u)"
  by (auto simp: user_save_def Let_def)

lemma profile_save_profiles:
  "map jp_user (db_profiles (profile_save h old p db)) = map jp_user (db_profiles db)"
  by (auto simp: profile_save_def Let_def profile_fields_on_save_def intro!: map_rows_key)

lemma delete_ft_certifications_ok:
  "certification_table_ok cs \<Longrightarrow> certification_table_ok (delete_ft_certifications k cs)"
  by (simp add: certification_table_ok_def delete_ft_certifications_def distinct_map_filter)

lemma clear_hexa_not_any [simp]: "\<not> hexa_any_filled empty_hexa_address"
  by (simp add: hexa_any_filled_def empty_hexa_address_def)

end
