(* ===== verification/Schema.thy ===== *)
theory Schema
  imports Users
begin

text \<open>
  The rows of the tables the components share, from \<open>approvals/models.py\<close>,
  \<open>job_applications/models.py\<close>, \<open>employee_record/models.py\<close>, \<open>eligibility/models/\<close> and
  \<open>prescribers/models.py\<close>, and the database as a record of tables.  A primary key is a natural
  number and a foreign key the key of the row it points to.  The fields of a job application that
  only an accepted application may fill (\<open>ACCEPTED_ONLY_FIELDS\<close>) and its GEIQ contract are nested
  records.  Texts that no decision reads (messages, labels) are left out.
\<close>

section \<open>Prescriber organizations\<close>

record prescriber_org =
  po_pk :: pk
  po_siret :: string
  po_kind :: prescriber_kind
  po_is_brsa :: bool
  po_is_head_office :: bool
  po_authorization_status :: prescriber_authorization_status
  po_code_safir :: "string option"

definition is_authorized :: "prescriber_org \<Rightarrow> bool" where
  "is_authorized org \<longleftrightarrow> po_authorization_status org = AUTH_VALIDATED"

section \<open>Approvals\<close>

record pe_notification =
  pe_status :: pe_notification_status
  pe_time :: "datetime option"
  pe_endpoint_f :: "pe_endpoint option"
  pe_exit_code_f :: "pe_exit_code option"

record origin_info =
  oi_siae_siret :: string
  oi_siae_kind :: company_kind
  oi_sender_kind :: sender_kind
  oi_prescriber_organization_kind :: "prescriber_kind option"

record approval =
  ap_pk :: pk
  ap_start_at :: date
  ap_end_at :: date
  ap_created_at :: datetime
  ap_updated_at :: datetime
  ap_number :: string
  ap_user :: pk
  ap_created_by :: "pk option"
  ap_origin :: approval_origin
  ap_eligibility_diagnosis :: "pk option"
  ap_origin_info :: origin_info
  ap_pe :: pe_notification

record cancelled_approval =
  ca_pk :: pk
  ca_start_at :: date
  ca_end_at :: date
  ca_created_at :: datetime
  ca_number :: string
  ca_user_last_name :: string
  ca_user_first_name :: string
  ca_user_nir :: string
  ca_user_birthdate :: "date option"
  ca_user_id_national_pe :: "string option"
  ca_origin_info :: origin_info
  ca_pe :: pe_notification

datatype suspension_reason = SUSPENDED_CONTRACT | BROKEN_CONTRACT | FINISHED_CONTRACT
  | APPROVAL_BETWEEN_CTA_MEMBERS | CONTRAT_PASSERELLE | SICKNESS | MATERNITY | INCARCERATION
  | TRIAL_OUTSIDE_IAE | DETOXIFICATION | FORCE_MAJEURE

record suspension =
  su_pk :: pk
  su_approval :: pk
  su_start_at :: date
  su_end_at :: date
  su_siae :: "pk option"
  su_reason :: suspension_reason
  su_reason_explanation :: string
  su_created_at :: datetime
  su_created_by :: "pk option"
  su_updated_at :: datetime
  su_updated_by :: "pk option"

text \<open>\<open>CommonProlongation\<close>, extended by the concrete models.\<close>

record common_prolongation =
  pl_pk :: pk
  pl_approval :: pk
  pl_start_at :: date
  pl_end_at :: date
  pl_reason :: prolongation_reason
  pl_reason_explanation :: string
  pl_declared_by :: "pk option"
  pl_declared_by_siae :: "pk option"
  pl_prescriber_organization :: "pk option"
  pl_created_at :: datetime
  pl_created_by :: "pk option"
  pl_updated_at :: datetime
  pl_updated_by :: "pk option"
  pl_report_file :: "string option"
  pl_require_phone_interview :: bool
  pl_contact_email :: string
  pl_contact_phone :: string

record prolongation = common_prolongation +
  pl_request :: "pk option"
  pl_validated_by :: "pk option"

record prolongation_request = common_prolongation +
  prq_status :: prolongation_request_status
  prq_assigned_to :: pk
  prq_processed_at :: "datetime option"
  prq_processed_by :: "pk option"
  prq_reminder_sent_at :: "datetime option"

record deny_information =
  di_request :: pk
  di_reason :: deny_reason
  di_reason_explanation :: string
  di_proposed_actions :: "deny_proposed_action list option"
  di_proposed_actions_explanation :: string

section \<open>Eligibility diagnoses\<close>

record administrative_criteria =
  cr_pk :: pk
  cr_level :: "criteria_level option"
  cr_kind :: criteria_kind
  cr_annex :: criteria_annex

record diagnosis =
  dg_pk :: pk
  dg_author :: pk
  dg_author_kind :: author_kind
  dg_author_prescriber_organization :: "pk option"
  dg_author_company :: "pk option"
  dg_job_seeker :: pk
  dg_created_at :: datetime
  dg_updated_at :: datetime
  dg_expires_at :: date

record selected_criteria =
  sc_pk :: pk
  sc_diagnosis :: pk
  sc_criteria :: pk
  sc_certified_at :: "datetime option"
  sc_certification_period :: "(date \<times> date option) option"
  sc_last_certification_attempt_at :: "datetime option"

section \<open>Job applications\<close>

datatype delivery_mode = DELIVERY_AUTOMATIC | DELIVERY_MANUAL

record accepted_fields =
  af_eligibility_diagnosis :: "pk option"
  af_geiq_eligibility_diagnosis :: "pk option"
  af_approval :: "pk option"
  af_approval_delivery_mode :: "delivery_mode option"
  af_approval_number_sent_by_email :: bool
  af_approval_number_sent_at :: "datetime option"
  af_approval_manually_delivered_by :: "pk option"
  af_approval_manually_refused_by :: "pk option"
  af_approval_manually_refused_at :: "datetime option"

record geiq_contract =
  gc_contract_type :: "contract_type option"
  gc_nb_hours_per_week :: "nat option"
  gc_contract_type_details :: string
  gc_qualification_type :: "qualification_type option"
  gc_qualification_level :: "qualification_level option"
  gc_planned_training_hours :: "nat option"
  gc_inverted_vae_contract :: "bool option"

record job_application =
  ja_pk :: pk
  ja_job_seeker :: pk
  ja_sender :: "pk option"
  ja_sender_kind :: sender_kind
  ja_sender_company :: "pk option"
  ja_sender_prescriber_organization :: "pk option"
  ja_to_company :: pk
  ja_state :: job_application_state
  ja_archived_at :: "datetime option"
  ja_archived_by :: "pk option"
  ja_answer :: string
  ja_answer_to_prescriber :: string
  ja_refusal_reason :: "refusal_reason option"
  ja_refusal_reason_shared_with_job_seeker :: bool
  ja_resume :: "pk option"
  ja_diagoriente_invite_sent_at :: "datetime option"
  ja_hiring_start_at :: "date option"
  ja_hiring_end_at :: "date option"
  ja_origin :: job_application_origin
  ja_create_employee_record :: bool
  ja_accepted :: accepted_fields
  ja_transferred_at :: "datetime option"
  ja_transferred_by :: "pk option"
  ja_transferred_from :: "pk option"
  ja_created_at :: datetime
  ja_updated_at :: datetime
  ja_processed_at :: "datetime option"
  ja_geiq :: geiq_contract

datatype ja_transition = T_PROCESS | T_POSTPONE | T_ACCEPT | T_ADD_TO_POOL | T_MOVE_TO_PRIOR_TO_HIRE
  | T_CANCEL_PRIOR_TO_HIRE | T_REFUSE | T_CANCEL | T_RENDER_OBSOLETE | T_TRANSFER
  | T_EXTERNAL_TRANSFER | T_RESET

record ja_log =
  jl_job_application :: pk
  jl_transition :: ja_transition
  jl_from_state :: job_application_state
  jl_to_state :: job_application_state
  jl_user :: "pk option"
  jl_target_company :: "pk option"
  jl_timestamp :: datetime

text \<open>\<open>MembershipAbstract\<close>, with the organization it belongs to.\<close>

record membership =
  mb_user :: pk
  mb_organization :: pk
  mb_joined_at :: datetime
  mb_is_admin :: bool
  mb_is_active :: bool
  mb_updated_by :: "pk option"

record ja_comment =
  jc_pk :: pk
  jc_job_application :: pk
  jc_company :: pk
  jc_created_at :: datetime
  jc_created_by :: pk
  jc_message :: string

text \<open>\<open>PriorAction\<close>; the dates are an inclusive range, both bounds set.\<close>

record prior_action =
  pa_pk :: pk
  pa_job_application :: pk
  pa_action :: prior_action_kind
  pa_lower :: date
  pa_upper :: date

section \<open>Follow-up groups\<close>

datatype end_reason = MANUAL_END | AUTOMATIC_END

record followup_group =
  fg_pk :: pk
  fg_beneficiary :: pk
  fg_created_at :: datetime
  fg_created_in_bulk :: bool

record followup_membership =
  fm_group :: pk
  fm_member :: pk
  fm_creator :: pk
  fm_is_active :: bool
  fm_created_at :: datetime
  fm_last_contact_at :: datetime
  fm_started_at :: date
  fm_ended_at :: "date option"
  fm_end_reason :: "end_reason option"

section \<open>Asynchronous certification tasks\<close>

datatype criteria_model = IAE_SELECTED | GEIQ_SELECTED

datatype certification_task = CERTIFY_API_PARTICULIER criteria_model pk
  | CERTIFY_FRANCE_TRAVAIL criteria_model pk

section \<open>Employee records\<close>

record asp_exchange =
  ax_processing_code :: "string option"
  ax_processing_label :: "string option"
  ax_batch_file :: "string option"
  ax_batch_line_number :: "int option"
  ax_archived_json :: "string option"

datatype siae_measure = MEASURE_ACI | MEASURE_AI | MEASURE_EI | MEASURE_EITI | MEASURE_ETTI

record employee_record =
  er_pk :: pk
  er_created_at :: datetime
  er_updated_at :: datetime
  er_processed_at :: "datetime option"
  er_status_f :: er_status
  er_job_application :: pk
  er_ntt :: "string option"
  er_financial_annex :: "pk option"
  er_approval_number :: string
  er_asp_id :: int
  er_asp_measure :: "siae_measure option"
  er_siret :: string
  er_processed_as_duplicate :: bool
  er_asp :: asp_exchange

datatype er_transition = ERT_READY | ERT_WAIT_FOR_ASP_RESPONSE | ERT_REJECT | ERT_PROCESS
  | ERT_DISABLE | ERT_ENABLE | ERT_ARCHIVE | ERT_UNARCHIVE_NEW | ERT_UNARCHIVE_PROCESSED
  | ERT_UNARCHIVE_REJECTED

record er_log =
  el_employee_record :: pk
  el_transition :: er_transition
  el_from_state :: er_status
  el_to_state :: er_status
  el_user :: "pk option"
  el_asp :: asp_exchange
  el_timestamp :: datetime

record er_notification =
  en_pk :: pk
  en_employee_record :: pk
  en_created_at :: datetime
  en_updated_at :: datetime
  en_status :: notification_status
  en_asp :: asp_exchange

section \<open>The database\<close>

record db = users_db +
  db_companies :: "company list"
  db_conventions :: "convention list"
  db_prescriber_orgs :: "prescriber_org list"
  db_approvals :: "approval list"
  db_cancelled_approvals :: "cancelled_approval list"
  db_suspensions :: "suspension list"
  db_prolongations :: "prolongation list"
  db_prolongation_requests :: "prolongation_request list"
  db_deny_informations :: "deny_information list"
  db_diagnoses :: "diagnosis list"
  db_geiq_diagnoses :: "diagnosis list"
  db_job_applications :: "job_application list"
  db_ja_logs :: "ja_log list"
  db_employee_records :: "employee_record list"
  db_er_logs :: "er_log list"
  db_er_notifications :: "er_notification list"
  db_criteria :: "administrative_criteria list"
  db_geiq_criteria :: "administrative_criteria list"
  db_selected_criteria :: "selected_criteria list"
  db_geiq_selected_criteria :: "selected_criteria list"
  db_tasks :: "certification_task list"
  db_groups :: "followup_group list"
  db_memberships :: "followup_membership list"
  db_comments :: "ja_comment list"
  db_prior_actions :: "prior_action list"
  db_company_memberships :: "membership list"

text \<open>The key a sequence gives to an inserted row: one not used in the table.\<close>

definition next_pk :: "('a \<Rightarrow> pk) \<Rightarrow> 'a list \<Rightarrow> pk" where
  "next_pk k xs = Suc (foldr (\<lambda>x m. max (k x) m) xs 0)"

lemma next_pk_fresh: "x \<in> set xs \<Longrightarrow> k x < next_pk k xs"
  unfolding next_pk_def by (induction xs) auto

lemma next_pk_notin [simp]: "next_pk k xs \<notin> k ` set xs"
  using next_pk_fresh [of _ xs k] by fastforce

end
