(* ===== verification/Job_Application_Queries.thy ===== *)
theory Job_Application_Queries
  imports Schema "HOL-Library.Product_Lexorder"
begin

text \<open>
  The querysets of \<open>job_applications/models.py\<close> that other components use, and
  \<open>approvals/utils.py\<close>: the last accepted application of a job seeker in an IAE structure, which
  decides who may act on a PASS IAE.
\<close>

definition pending_states :: "job_application_state list" where
  "pending_states = [JA_NEW, JA_PROCESSING, JA_POSTPONED]"

definition pending_applications :: "job_application list \<Rightarrow> job_application list" where
  "pending_applications js = filter (\<lambda>j. ja_state j \<in> set pending_states) js"

definition accepted_applications :: "job_application list \<Rightarrow> job_application list" where
  "accepted_applications js = filter (\<lambda>j. ja_state j = JA_ACCEPTED) js"

definition manual_approval_delivery_required :: "job_application \<Rightarrow> bool" where
  "manual_approval_delivery_required j \<longleftrightarrow>
     ja_state j = JA_ACCEPTED \<and>
     af_approval_delivery_mode (ja_accepted j) = Some DELIVERY_MANUAL \<and>
     \<not> af_approval_number_sent_by_email (ja_accepted j) \<and>
     af_approval_manually_refused_at (ja_accepted j) = None"

text \<open>\<open>with_accepted_at\<close>.\<close>

definition accept_log_timestamp :: "ja_log list \<Rightarrow> job_application \<Rightarrow> datetime option" where
  "accept_log_timestamp logs j =
     map_option jl_timestamp (order_last jl_timestamp
       (filter (\<lambda>l. jl_job_application l = ja_pk j \<and> jl_transition l = T_ACCEPT) logs))"

definition accepted_at :: "ja_log list \<Rightarrow> job_application \<Rightarrow> datetime option" where
  "accepted_at logs j =
     (if ja_origin j = JO_AI_STOCK then map_option midnight (ja_hiring_start_at j)
      else if ja_origin j = JO_PE_APPROVAL then Some (ja_created_at j)
      else if ja_state j = JA_ACCEPTED then
        (case accept_log_timestamp logs j of Some t \<Rightarrow> Some t | None \<Rightarrow> Some (ja_created_at j))
      else accept_log_timestamp logs j)"

definition company_kind_of :: "db \<Rightarrow> pk \<Rightarrow> company_kind option" where
  "company_kind_of db c = map_option co_kind (get_row co_pk c (db_companies db))"

definition is_siae_company :: "db \<Rightarrow> pk \<Rightarrow> bool" where
  "is_siae_company db c \<longleftrightarrow>
     (case company_kind_of db c of None \<Rightarrow> False | Some k \<Rightarrow> k \<in> set siae_kinds)"

definition accepted_siae_applications :: "db \<Rightarrow> pk \<Rightarrow> job_application list" where
  "accepted_siae_applications db u =
     filter (\<lambda>j. ja_job_seeker j = u \<and> is_siae_company db (ja_to_company j))
       (accepted_applications (db_job_applications db))"

definition get_user_last_accepted_siae_job_application :: "db \<Rightarrow> user \<Rightarrow> job_application option" where
  "get_user_last_accepted_siae_job_application db u =
     (if \<not> is_job_seeker u then None
      else order_first
        (\<lambda>j. (desc_key (accepted_at (db_ja_logs db) j), desc_key (ja_hiring_start_at j)))
        (accepted_siae_applications db (us_pk u)))"

definition last_hire_was_made_by_siae :: "db \<Rightarrow> user \<Rightarrow> pk \<Rightarrow> bool" where
  "last_hire_was_made_by_siae db u siae =
     (if \<not> is_job_seeker u then False
      else (case get_user_last_accepted_siae_job_application db u of
              None \<Rightarrow> False
            | Some j \<Rightarrow> ja_to_company j = siae))"

text \<open>\<open>get_contracts(approval)\<close>, on the bounds of the approval.\<close>

definition get_contracts :: "pk \<Rightarrow> date \<Rightarrow> date \<Rightarrow> contract list \<Rightarrow> contract list" where
  "get_contracts u start_at end_at cs =
     sort_key (\<lambda>c. - ct_start_date c)
       (filter (\<lambda>c. ct_job_seeker c = Some u \<and>
          \<not> (case ct_end_date c of None \<Rightarrow> False | Some e \<Rightarrow> e < start_at) \<and>
          \<not> end_at < ct_start_date c) cs)"

section \<open>Lemmas\<close>

lemma accepted_at_Some:
  "ja_state j = JA_ACCEPTED \<Longrightarrow> ja_origin j \<noteq> JO_AI_STOCK \<Longrightarrow> accepted_at logs j \<noteq> None"
  by (auto simp: accepted_at_def split: option.splits)

lemma last_accepted_SomeD:
  assumes "get_user_last_accepted_siae_job_application db u = Some j"
  shows "j \<in> set (db_job_applications db)" and "ja_state j = JA_ACCEPTED"
    and "ja_job_seeker j = us_pk u" and "is_siae_company db (ja_to_company j)"
    and "is_job_seeker u"
  using assms order_first_in_set [of _ "accepted_siae_applications db (us_pk u)" j]
  by (auto simp: get_user_last_accepted_siae_job_application_def accepted_siae_applications_def
      accepted_applications_def split: if_splits)

lemma last_accepted_None_iff:
  "get_user_last_accepted_siae_job_application db u = None \<longleftrightarrow>
     \<not> is_job_seeker u \<or> accepted_siae_applications db (us_pk u) = []"
  by (simp add: get_user_last_accepted_siae_job_application_def)

text \<open>At most one structure is the one of the last hire.\<close>

lemma last_hire_unique:
  "last_hire_was_made_by_siae db u c \<Longrightarrow> last_hire_was_made_by_siae db u c' \<Longrightarrow> c = c'"
  by (auto simp: last_hire_was_made_by_siae_def split: if_splits option.splits)

lemma desc_key_le: "desc_key (Some x) \<le> desc_key (Some y) \<longleftrightarrow> y \<le> x"
  by (auto simp: desc_key_def less_eq_prod_def)

text \<open>Among applications with a known acceptance date the chosen one is the most recent.\<close>

lemma last_accepted_latest:
  assumes "get_user_last_accepted_siae_job_application db u = Some j"
    and "k \<in> set (accepted_siae_applications db (us_pk u))"
    and "accepted_at (db_ja_logs db) j = Some t" and "accepted_at (db_ja_logs db) k = Some t'"
  shows "t' \<le> t"
proof -
  let ?key = "\<lambda>j. (desc_key (accepted_at (db_ja_logs db) j), desc_key (ja_hiring_start_at j))"
  have "?key j \<le> ?key k"
    using assms(1,2) order_first_SomeD [of ?key "accepted_siae_applications db (us_pk u)" j]
    by (auto simp: get_user_last_accepted_siae_job_application_def split: if_splits)
  then show ?thesis using assms(3,4) by (auto simp: desc_key_def less_eq_prod_def less_prod_def)
qed

end
