(* ===== verification/Approvals.thy ===== *)
theory Approvals
  imports Job_Application_Queries
begin

text \<open>
  \<open>approvals/models.py\<close>, the PASS IAE: numbering, constraints and triggers of the table, insertion,
  update, save and deletion, and the date-based properties.  \<open>today\<close> is \<open>timezone.localdate()\<close>
  and \<open>now\<close> is \<open>timezone.now()\<close>.  The two triggers on a change of dates are the functions
  \<open>plan_pe_notification\<close> (before the write) and \<open>create_employee_record_notification\<close> (after it),
  and \<open>update_approval\<close> is the row update they surround.
\<close>

section \<open>Numbers\<close>

text \<open>\<open>settings.ASP_ITOU_PREFIX\<close>.\<close>

definition asp_itou_prefix :: string where "asp_itou_prefix = ''99999''"

definition last_number :: "string list \<Rightarrow> error + nat" where
  "last_number numbers =
     (case order_last id (filter (\<lambda>n. startswith n asp_itou_prefix) numbers) of
        None \<Rightarrow> Inr 0
      | Some n \<Rightarrow> py_int (removeprefix n asp_itou_prefix))"

definition get_next_number :: "string list \<Rightarrow> string list \<Rightarrow> error + string" where
  "get_next_number approval_numbers cancelled_numbers =
     rbind (last_number approval_numbers) (\<lambda>a.
     rbind (last_number cancelled_numbers) (\<lambda>c.
     let next_number = max a c + 1 in
     if 9999999 < next_number
     then Inl (RuntimeError ''The maximum number of PASS IAE has been reached.'')
     else Inr (asp_itou_prefix @ zfill 7 next_number)))"

definition number_with_spaces :: "string \<Rightarrow> string" where
  "number_with_spaces n = take 5 n @ '' '' @ drop 5 (take 7 n) @ '' '' @ drop 7 n"

text \<open>What the column guarantees of a number issued by the platform: the prefix and 7 digits.\<close>

definition itou_number :: "string \<Rightarrow> bool" where
  "itou_number n \<longleftrightarrow> startswith n asp_itou_prefix \<and> length n = 12 \<and> all_digits (drop 5 n)"

definition numbers_ok :: "string list \<Rightarrow> bool" where
  "numbers_ok ns \<longleftrightarrow> list_all (\<lambda>n. startswith n asp_itou_prefix \<longrightarrow> itou_number n) ns"

section \<open>Queryset\<close>

definition approval_is_valid :: "date \<Rightarrow> approval \<Rightarrow> bool" where
  "approval_is_valid today a \<longleftrightarrow> today \<le> ap_end_at a"

definition valid_approvals :: "date \<Rightarrow> approval list \<Rightarrow> approval list" where
  "valid_approvals today as = filter (\<lambda>a. today \<le> ap_end_at a) as"

definition invalid_approvals :: "date \<Rightarrow> approval list \<Rightarrow> approval list" where
  "invalid_approvals today as = filter (\<lambda>a. \<not> today \<le> ap_end_at a) as"

definition expiration_days :: days where "expiration_days = 730"

text \<open>\<open>ApprovalQuerySet.delete\<close>: the rows to delete are those whose key is in \<open>pks\<close>.\<close>

definition approval_queryset_delete :: "date \<Rightarrow> bool \<Rightarrow> pk list \<Rightarrow> approval list \<Rightarrow> error + approval list"
  where
  "approval_queryset_delete today enable_mass_delete pks as =
     (let recent_exists = list_ex (\<lambda>a. ap_pk a \<in> set pks \<and> today - expiration_days < ap_end_at a) as in
      if \<not> enable_mass_delete \<or> recent_exists then Inl NotImplementedError
      else Inr (filter (\<lambda>a. ap_pk a \<notin> set pks) as))"

text \<open>\<open>with_assigned_company\<close> and \<open>is_assigned_to\<close>.\<close>

definition assigned_company :: "db \<Rightarrow> approval \<Rightarrow> pk option" where
  "assigned_company db a =
     map_option ja_to_company (order_first
       (\<lambda>j. (desc_key (accepted_at (db_ja_logs db) j), desc_key (ja_hiring_start_at j)))
       (accepted_siae_applications db (ap_user a)))"

definition is_assigned_to :: "db \<Rightarrow> pk \<Rightarrow> approval list \<Rightarrow> approval list" where
  "is_assigned_to db company as =
     filter (\<lambda>a. list_ex (\<lambda>j. ja_to_company j = company \<and> af_approval (ja_accepted j) = Some (ap_pk a))
                  (db_job_applications db) \<and>
               assigned_company db a = Some company) as"

definition inconsistent_eligibility_diagnosis_job_seeker :: "diagnosis list \<Rightarrow> approval list \<Rightarrow> approval list"
  where
  "inconsistent_eligibility_diagnosis_job_seeker ds as =
     filter (\<lambda>a. case ap_eligibility_diagnosis a of None \<Rightarrow> False
       | Some k \<Rightarrow> (case get_row dg_pk k ds of None \<Rightarrow> False | Some d \<Rightarrow> dg_job_seeker d \<noteq> ap_user a)) as"

section \<open>Constraints and triggers\<close>

definition common_approval_constraints :: "date \<Rightarrow> date \<Rightarrow> origin_info \<Rightarrow> bool" where
  "common_approval_constraints start_at end_at oi \<longleftrightarrow>
     start_at < end_at \<and> siret_regex (oi_siae_siret oi)"

definition approval_constraints :: "approval \<Rightarrow> bool" where
  "approval_constraints a \<longleftrightarrow>
     common_approval_constraints (ap_start_at a) (ap_end_at a) (ap_origin_info a) \<and>
     ((ap_origin a \<in> {AO_ADMIN, AO_DEFAULT} \<and> ap_eligibility_diagnosis a \<noteq> None) \<or>
      (ap_origin a \<in> {AO_PE_APPROVAL, AO_AI_STOCK} \<and> ap_eligibility_diagnosis a = None))"

definition cancelled_approval_constraints :: "cancelled_approval \<Rightarrow> bool" where
  "cancelled_approval_constraints c \<longleftrightarrow>
     common_approval_constraints (ca_start_at c) (ca_end_at c) (ca_origin_info c)"

definition approval_table_ok :: "approval list \<Rightarrow> bool" where
  "approval_table_ok as \<longleftrightarrow>
     distinct (map ap_pk as) \<and> distinct (map ap_number as) \<and> list_all approval_constraints as"

definition empty_asp_exchange :: asp_exchange where
  "empty_asp_exchange = \<lparr>ax_processing_code = None, ax_processing_label = None, ax_batch_file = None,
     ax_batch_line_number = None, ax_archived_json = None\<rparr>"

text \<open>\<open>INSERT .. ON CONFLICT (employee_record_id) WHERE status = 'NEW' DO UPDATE\<close>.\<close>

definition upsert_new_notification :: "datetime \<Rightarrow> pk \<Rightarrow> er_notification list \<Rightarrow> er_notification list"
  where
  "upsert_new_notification now er ns =
     upsert (\<lambda>n. en_employee_record n = er \<and> en_status n = NS_NEW) (\<lambda>n. n\<lparr>en_updated_at := now\<rparr>)
       \<lparr>en_pk = next_pk en_pk ns, en_employee_record = er, en_created_at = now, en_updated_at = now, en_status = NS_NEW,
        en_asp = empty_asp_exchange\<rparr> ns"

definition dates_differ :: "approval \<Rightarrow> approval \<Rightarrow> bool" where
  "dates_differ old new \<longleftrightarrow> ap_end_at old \<noteq> ap_end_at new \<or> ap_start_at old \<noteq> ap_start_at new"

definition notified_records :: "string \<Rightarrow> employee_record list \<Rightarrow> employee_record list" where
  "notified_records number ers =
     filter (\<lambda>e. er_approval_number e = number \<and>
       er_status_f e \<in> {ER_PROCESSED, ER_SENT, ER_DISABLED}) ers"

definition create_employee_record_notification ::
  "datetime \<Rightarrow> approval \<Rightarrow> approval \<Rightarrow> employee_record list \<Rightarrow> er_notification list
   \<Rightarrow> er_notification list" where
  "create_employee_record_notification now old new ers ns =
     (if dates_differ old new
      then foldl (\<lambda>acc e. upsert_new_notification now (er_pk e) acc) ns
             (notified_records (ap_number new) ers)
      else ns)"

definition plan_pe_notification :: "approval \<Rightarrow> approval \<Rightarrow> error + approval" where
  "plan_pe_notification old new =
     (if dates_differ old new then
        (if pe_status (ap_pe new) \<noteq> pe_status (ap_pe old)
         then Inl (DatabaseException ''Modification de pe_notification_status en meme temps que les dates'')
         else Inr (new\<lparr>ap_pe := (ap_pe new)\<lparr>pe_status := PE_PENDING\<rparr>\<rparr>))
      else Inr new)"

text \<open>The write of one row of \<open>approvals_approval\<close> by its key: the BEFORE trigger, the constraints,
  the write and the AFTER trigger.  No row of that key means nothing to update.\<close>

definition update_approval :: "datetime \<Rightarrow> approval \<Rightarrow> db \<Rightarrow> error + db" where
  "update_approval now new db =
     (case get_row ap_pk (ap_pk new) (db_approvals db) of
        None \<Rightarrow> Inr db
      | Some old \<Rightarrow>
          rbind (plan_pe_notification old new) (\<lambda>new'.
          rbind (guard (approval_constraints new') (IntegrityError ''approval'')) (\<lambda>_.
          rbind (guard (\<not> list_ex (\<lambda>a. ap_pk a \<noteq> ap_pk new' \<and> ap_number a = ap_number new')
                          (db_approvals db)) (IntegrityError ''approval_number'')) (\<lambda>_.
          Inr (db\<lparr>db_approvals := map_rows (\<lambda>a. ap_pk a = ap_pk new') (\<lambda>_. new') (db_approvals db),
                  db_er_notifications := create_employee_record_notification now old new'
                    (db_employee_records db) (db_er_notifications db)\<rparr>)))))"

text \<open>The statement of the triggers on suspensions and prolongations:
  \<open>UPDATE approvals_approval SET end_at = end_at + delta, updated_at = NOW() WHERE id = k\<close>.\<close>

definition shift_end_at :: "datetime \<Rightarrow> pk \<Rightarrow> days \<Rightarrow> db \<Rightarrow> error + db" where
  "shift_end_at now k delta db =
     (case get_row ap_pk k (db_approvals db) of
        None \<Rightarrow> Inr db
      | Some a \<Rightarrow> update_approval now (a\<lparr>ap_end_at := ap_end_at a + delta, ap_updated_at := now\<rparr>) db)"

section \<open>Saving and deleting\<close>

definition approval_clean :: "date \<Rightarrow> bool \<Rightarrow> approval \<Rightarrow> approval list \<Rightarrow> error + unit" where
  "approval_clean today already_exists a as =
     rbind (guard (\<not> ap_end_at a \<le> ap_start_at a) (ValidationError ''end_at'')) (\<lambda>_.
     guard (already_exists \<or>
            \<not> list_ex (\<lambda>b. ap_user b = ap_user a \<and> today \<le> ap_end_at b) as)
       (ValidationError ''already exists''))"

definition approval_origin_on_save :: "approval \<Rightarrow> approval" where
  "approval_origin_on_save a =
     (if \<not> startswith (ap_number a) asp_itou_prefix then a\<lparr>ap_origin := AO_PE_APPROVAL\<rparr> else a)"

definition insert_approval :: "approval \<Rightarrow> db \<Rightarrow> error + (approval \<times> db)" where
  "insert_approval a db =
     (let a' = a\<lparr>ap_pk := next_pk ap_pk (db_approvals db)\<rparr> in
      rbind (guard (approval_constraints a') (IntegrityError ''approval'')) (\<lambda>_.
      rbind (guard (ap_number a' \<notin> ap_number ` set (db_approvals db)) (IntegrityError ''approval_number''))
        (\<lambda>_. Inr (a', db\<lparr>db_approvals := db_approvals db @ [a']\<rparr>))))"

text \<open>\<open>Approval.save\<close> on a new object (no key yet) and on an existing one.\<close>

definition approval_save_new :: "date \<Rightarrow> approval \<Rightarrow> db \<Rightarrow> error + (approval \<times> db)" where
  "approval_save_new today a db =
     rbind (approval_clean today False a (db_approvals db)) (\<lambda>_.
     rbind (if ap_number a = [] then
              get_next_number (map ap_number (db_approvals db)) (map ca_number (db_cancelled_approvals db))
            else Inr (ap_number a)) (\<lambda>number.
     insert_approval (approval_origin_on_save (a\<lparr>ap_number := number\<rparr>)) db))"

definition approval_save :: "date \<Rightarrow> datetime \<Rightarrow> approval \<Rightarrow> db \<Rightarrow> error + db" where
  "approval_save today now a db =
     rbind (approval_clean today True a (db_approvals db)) (\<lambda>_.
     rbind (if ap_number a = [] then
              get_next_number (map ap_number (db_approvals db)) (map ca_number (db_cancelled_approvals db))
            else Inr (ap_number a)) (\<lambda>number.
     update_approval now ((approval_origin_on_save (a\<lparr>ap_number := number\<rparr>))\<lparr>ap_updated_at := now\<rparr>) db))"

definition pending_pe :: pe_notification where
  "pending_pe = \<lparr>pe_status = PE_PENDING, pe_time = None, pe_endpoint_f = None, pe_exit_code_f = None\<rparr>"

definition cancelled_from_approval ::
  "datetime \<Rightarrow> pk \<Rightarrow> approval \<Rightarrow> user \<Rightarrow> jobseeker_profile \<Rightarrow> cancelled_approval" where
  "cancelled_from_approval now k a u p =
     \<lparr>ca_pk = k, ca_start_at = ap_start_at a, ca_end_at = ap_end_at a, ca_created_at = now,
      ca_number = ap_number a, ca_user_last_name = us_last_name u, ca_user_first_name = us_first_name u,
      ca_user_nir = jp_nir p, ca_user_birthdate = jp_birthdate p,
      ca_user_id_national_pe = jp_pe_obfuscated_nir p, ca_origin_info = ap_origin_info a,
      ca_pe = pending_pe\<rparr>"

definition insert_cancelled :: "cancelled_approval \<Rightarrow> db \<Rightarrow> error + db" where
  "insert_cancelled c db =
     rbind (guard (cancelled_approval_constraints c) (IntegrityError ''cancelled_approval'')) (\<lambda>_.
     rbind (guard (ca_number c \<notin> ca_number ` set (db_cancelled_approvals db))
       (IntegrityError ''cancelled_approval_number'')) (\<lambda>_.
     Inr (db\<lparr>db_cancelled_approvals := db_cancelled_approvals db @ [c]\<rparr>)))"

text \<open>The foreign key of the job applications of the approval is cleared with an UPDATE.\<close>

definition clear_approval_of_applications :: "pk \<Rightarrow> job_application list \<Rightarrow> job_application list" where
  "clear_approval_of_applications k js =
     map_rows (\<lambda>j. af_approval (ja_accepted j) = Some k)
       (\<lambda>j. j\<lparr>ja_accepted := (ja_accepted j)\<lparr>af_approval := None\<rparr>\<rparr>) js"

text \<open>\<open>super().delete()\<close> cascades over the suspensions, prolongations and prolongation requests of
  the approval.  Each deleted suspension or prolongation fires its trigger, which shifts the end of
  the approval before the row itself is deleted.\<close>

definition delete_suspension :: "datetime \<Rightarrow> suspension \<Rightarrow> db \<Rightarrow> error + db" where
  "delete_suspension now s db =
     shift_end_at now (su_approval s) (- (su_end_at s - su_start_at s))
       (db\<lparr>db_suspensions := filter (\<lambda>t. su_pk t \<noteq> su_pk s) (db_suspensions db)\<rparr>)"

definition delete_prolongation :: "datetime \<Rightarrow> prolongation \<Rightarrow> db \<Rightarrow> error + db" where
  "delete_prolongation now p db =
     shift_end_at now (pl_approval p) (- (pl_end_at p - pl_start_at p))
       (db\<lparr>db_prolongations := filter (\<lambda>q. pl_pk q \<noteq> pl_pk p) (db_prolongations db)\<rparr>)"

definition cascade_delete_approval :: "datetime \<Rightarrow> pk \<Rightarrow> db \<Rightarrow> error + db" where
  "cascade_delete_approval now k db =
     rbind (rfold (delete_suspension now)
              (filter (\<lambda>s. su_approval s = k) (db_suspensions db)) db) (\<lambda>db1.
     rbind (rfold (delete_prolongation now)
              (filter (\<lambda>p. pl_approval p = k) (db_prolongations db1)) db1) (\<lambda>db2.
     Inr (db2\<lparr>db_deny_informations :=
                filter (\<lambda>d. di_request d \<notin> pl_pk ` set (filter (\<lambda>r. pl_approval r = k)
                  (db_prolongation_requests db2))) (db_deny_informations db2),
              db_prolongation_requests :=
                filter (\<lambda>r. pl_approval r \<noteq> k) (db_prolongation_requests db2),
              db_approvals := filter (\<lambda>a. ap_pk a \<noteq> k) (db_approvals db2)\<rparr>)))"

definition approval_delete :: "datetime \<Rightarrow> approval \<Rightarrow> db \<Rightarrow> error + db" where
  "approval_delete now a db =
     (case (get_row us_pk (ap_user a) (db_users db), get_row jp_user (ap_user a) (db_profiles db)) of
        (Some u, Some p) \<Rightarrow>
          rbind (insert_cancelled
                   (cancelled_from_approval now (next_pk ca_pk (db_cancelled_approvals db)) a u p) db)
            (\<lambda>db1. cascade_delete_approval now (ap_pk a)
               (db1\<lparr>db_job_applications :=
                  clear_approval_of_applications (ap_pk a) (db_job_applications db1)\<rparr>))
      | _ \<Rightarrow> Inl (DoesNotExist ''user''))"

text \<open>\<open>can_be_deleted\<close>: truthy when exactly one accepted application is linked.\<close>

definition can_be_deleted :: "approval \<Rightarrow> job_application list \<Rightarrow> bool" where
  "can_be_deleted a js \<longleftrightarrow>
     length (filter (\<lambda>j. af_approval (ja_accepted j) = Some (ap_pk a) \<and> ja_state j = JA_ACCEPTED) js) = 1"

section \<open>Lemmas on numbers\<close>

lemma append_le_cancel [simp]: "(p @ s \<le> p @ t) \<longleftrightarrow> (s \<le> (t :: string))"
  by (induction p) simp_all

lemma append_less_cancel [simp]: "(p @ s < p @ t) \<longleftrightarrow> (s < (t :: string))"
  by (induction p) simp_all

lemma length_prefix [simp]: "length asp_itou_prefix = 5"
  by (simp add: asp_itou_prefix_def)

lemma itou_number_split:
  assumes "itou_number n"
  obtains d where "n = asp_itou_prefix @ d" "length d = 7" "all_digits d"
proof
  show "n = asp_itou_prefix @ drop 5 n"
    using assms by (metis append_take_drop_id itou_number_def length_prefix startswith_def)
qed (use assms in \<open>auto simp: itou_number_def\<close>)

lemma itou_number_append:
  "itou_number (asp_itou_prefix @ d) \<longleftrightarrow> length d = 7 \<and> all_digits d"
  by (auto simp: itou_number_def)

definition number_value :: "string \<Rightarrow> nat" where
  "number_value n = dec_val (drop 5 n)"

lemma number_value_append [simp]: "number_value (asp_itou_prefix @ d) = dec_val d"
  by (simp add: number_value_def)

lemma number_value_less: "itou_number n \<Longrightarrow> number_value n < 10 ^ 7"
  using dec_val_less by (metis itou_number_split number_value_append)

lemma itou_number_le_iff:
  assumes "itou_number m" "itou_number n"
  shows "m \<le> n \<longleftrightarrow> number_value m \<le> number_value n"
    and "m < n \<longleftrightarrow> number_value m < number_value n"
proof -
  obtain c where c: "m = asp_itou_prefix @ c" "length c = 7" "all_digits c"
    using assms(1) itou_number_split by blast
  obtain d where d: "n = asp_itou_prefix @ d" "length d = 7" "all_digits d"
    using assms(2) itou_number_split by blast
  show "m \<le> n \<longleftrightarrow> number_value m \<le> number_value n" using c d by (simp add: digits_le_iff)
  show "m < n \<longleftrightarrow> number_value m < number_value n" using c d by (simp add: digits_less_iff)
qed

text \<open>\<open>last_number\<close> never raises on well-formed numbers and is the greatest issued value.\<close>

lemma last_number_spec:
  assumes "numbers_ok ns"
  obtains k where "last_number ns = Inr k"
    and "\<And>n. n \<in> set ns \<Longrightarrow> startswith n asp_itou_prefix \<Longrightarrow> number_value n \<le> k"
    and "k = 0 \<or> (\<exists>n \<in> set ns. itou_number n \<and> number_value n = k)"
proof (cases "order_last id (filter (\<lambda>n. startswith n asp_itou_prefix) ns)")
  case None
  then show ?thesis using that [of 0] by (auto simp: last_number_def filter_empty_conv)
next
  case (Some n)
  note D = order_last_SomeD [OF Some]
  have ok: "itou_number m" if "m \<in> set ns" "startswith m asp_itou_prefix" for m
    using assms that by (auto simp: numbers_ok_def list_all_iff)
  have n: "itou_number n" "n \<in> set ns" using D ok by auto
  then obtain d where d: "n = asp_itou_prefix @ d" "length d = 7" "all_digits d"
    using itou_number_split by blast
  have "last_number ns = Inr (number_value n)"
    using Some d by (auto simp: last_number_def py_int_def)
  moreover have "number_value m \<le> number_value n" if "m \<in> set ns" "startswith m asp_itou_prefix" for m
    using itou_number_le_iff(1) [OF ok [OF that] n(1)] D that by auto
  ultimately show ?thesis using that n by blast
qed

lemma itou_number_of_value: "k < 10 ^ 7 \<Longrightarrow> itou_number (asp_itou_prefix @ zfill 7 k)"
  using zfill_length [of 7 k] by (simp add: itou_number_append)

lemma get_next_number_cases:
  assumes "numbers_ok as" "numbers_ok cs"
  obtains k where "\<And>n. n \<in> set as \<union> set cs \<Longrightarrow> startswith n asp_itou_prefix \<Longrightarrow> number_value n \<le> k"
    and "k = 0 \<or> (\<exists>n \<in> set as \<union> set cs. itou_number n \<and> number_value n = k)"
    and "get_next_number as cs =
      (if 9999999 < k + 1 then Inl (RuntimeError ''The maximum number of PASS IAE has been reached.'')
       else Inr (asp_itou_prefix @ zfill 7 (k + 1)))"
proof -
  obtain a where a: "last_number as = Inr a"
    "\<And>n. n \<in> set as \<Longrightarrow> startswith n asp_itou_prefix \<Longrightarrow> number_value n \<le> a"
    "a = 0 \<or> (\<exists>n \<in> set as. itou_number n \<and> number_value n = a)"
    using last_number_spec [OF assms(1)] by blast
  obtain c where c: "last_number cs = Inr c"
    "\<And>n. n \<in> set cs \<Longrightarrow> startswith n asp_itou_prefix \<Longrightarrow> number_value n \<le> c"
    "c = 0 \<or> (\<exists>n \<in> set cs. itou_number n \<and> number_value n = c)"
    using last_number_spec [OF assms(2)] by blast
  show ?thesis
  proof (rule that [of "max a c"])
    show "number_value n \<le> max a c"
      if "n \<in> set as \<union> set cs" "startswith n asp_itou_prefix" for n
      using that a(2) [of n] c(2) [of n] by (auto simp: le_max_iff_disj)
    show "max a c = 0 \<or> (\<exists>n \<in> set as \<union> set cs. itou_number n \<and> number_value n = max a c)"
      using a(3) c(3) by (auto simp: max_def)
    show "get_next_number as cs =
        (if 9999999 < max a c + 1
         then Inl (RuntimeError ''The maximum number of PASS IAE has been reached.'')
         else Inr (asp_itou_prefix @ zfill 7 (max a c + 1)))"
      by (simp add: get_next_number_def a(1) c(1) Let_def)
  qed
qed

section \<open>Lemmas on the triggers and the row update\<close>

definition new_notifications_unique :: "er_notification list \<Rightarrow> bool" where
  "new_notifications_unique ns \<longleftrightarrow>
     distinct (map en_employee_record (filter (\<lambda>n. en_status n = NS_NEW) ns))"

lemma upsert_new_notification_unique:
  assumes "new_notifications_unique ns"
  shows "new_notifications_unique (upsert_new_notification now er ns)"
proof (cases "\<exists>n \<in> set ns. en_employee_record n = er \<and> en_status n = NS_NEW")
  case True
  then show ?thesis using assms
    by (simp add: upsert_new_notification_def upsert_update new_notifications_unique_def
        filter_map_rows_keep map_rows_key)
next
  case False
  then show ?thesis using assms
    by (auto simp: upsert_new_notification_def upsert_insert new_notifications_unique_def)
qed

lemma upsert_new_notification_cases:
  obtains "\<exists>n \<in> set ns. en_employee_record n = er \<and> en_status n = NS_NEW"
    and "upsert_new_notification now er ns =
      map_rows (\<lambda>n. en_employee_record n = er \<and> en_status n = NS_NEW)
        (\<lambda>n. n\<lparr>en_updated_at := now\<rparr>) ns"
  | m where "upsert_new_notification now er ns = ns @ [m]" "en_employee_record m = er"
      "en_status m = NS_NEW" "en_updated_at m = now"
  by (cases "\<exists>n \<in> set ns. en_employee_record n = er \<and> en_status n = NS_NEW")
    (auto simp: upsert_new_notification_def upsert_update upsert_insert)

lemma upsert_new_notification_found:
  "\<exists>n \<in> set (upsert_new_notification now er ns).
     en_employee_record n = er \<and> en_status n = NS_NEW \<and> en_updated_at n = now"
proof (cases rule: upsert_new_notification_cases [of ns er now])
  case 1
  then obtain n where n: "n \<in> set ns" "en_employee_record n = er \<and> en_status n = NS_NEW" by blast
  show ?thesis unfolding 1(2)
    by (rule bexI [OF _ map_rows_updated [of n]]) (use n in auto)
qed auto

lemma upsert_new_notification_keeps:
  assumes "n \<in> set ns" "en_status n = NS_NEW" "en_updated_at n = now"
  shows "\<exists>m \<in> set (upsert_new_notification now er ns).
     en_employee_record m = en_employee_record n \<and> en_status m = NS_NEW \<and> en_updated_at m = now"
proof (cases rule: upsert_new_notification_cases [of ns er now])
  case 1
  show ?thesis
  proof (cases "en_employee_record n = er")
    case True
    then show ?thesis unfolding 1(2)
      by (intro bexI [OF _ map_rows_updated [of n]]) (use assms in auto)
  next
    case False
    then show ?thesis unfolding 1(2) by (intro bexI [OF _ map_rows_kept [of n]]) (use assms in auto)
  qed
next
  case (2 m)
  then show ?thesis using assms by auto
qed

lemma fold_notifications_unique:
  "new_notifications_unique ns \<Longrightarrow>
   new_notifications_unique (foldl (\<lambda>acc e. upsert_new_notification now (er_pk e) acc) ns es)"
  by (induction es arbitrary: ns) (auto intro: upsert_new_notification_unique)

lemma fold_notifications_keeps:
  assumes "\<exists>n \<in> set ns. en_employee_record n = k \<and> en_status n = NS_NEW \<and> en_updated_at n = now"
  shows "\<exists>n \<in> set (foldl (\<lambda>acc e. upsert_new_notification now (er_pk e) acc) ns es).
    en_employee_record n = k \<and> en_status n = NS_NEW \<and> en_updated_at n = now"
  using assms
proof (induction es arbitrary: ns)
  case (Cons e es)
  then obtain n where "n \<in> set ns" "en_employee_record n = k" "en_status n = NS_NEW" "en_updated_at n = now"
    by blast
  from upsert_new_notification_keeps [OF this(1,3,4), of "er_pk e"] this(2)
  show ?case by (simp add: Cons.IH)
qed simp

lemma fold_notifications_found:
  assumes "e \<in> set es"
  shows "\<exists>n \<in> set (foldl (\<lambda>acc e. upsert_new_notification now (er_pk e) acc) ns es).
    en_employee_record n = er_pk e \<and> en_status n = NS_NEW \<and> en_updated_at n = now"
  using assms
proof (induction es arbitrary: ns)
  case (Cons d es)
  then show ?case
    by (cases "e = d") (auto intro: fold_notifications_keeps upsert_new_notification_found)
qed simp

text \<open>The row \<open>update_approval\<close> writes.\<close>

definition written_approval :: "approval \<Rightarrow> approval \<Rightarrow> approval" where
  "written_approval old new =
     (if dates_differ old new then new\<lparr>ap_pe := (ap_pe new)\<lparr>pe_status := PE_PENDING\<rparr>\<rparr> else new)"

lemma written_approval_simps [simp]:
  "ap_pk (written_approval old new) = ap_pk new"
  "ap_number (written_approval old new) = ap_number new"
  "ap_start_at (written_approval old new) = ap_start_at new"
  "ap_end_at (written_approval old new) = ap_end_at new"
  "ap_user (written_approval old new) = ap_user new"
  by (simp_all add: written_approval_def)

lemma plan_pe_InrD: "plan_pe_notification old new = Inr new' \<Longrightarrow> new' = written_approval old new"
  by (auto simp: plan_pe_notification_def written_approval_def split: if_splits)

lemma update_approval_InrD:
  assumes "update_approval now new db = Inr db'" "get_row ap_pk (ap_pk new) (db_approvals db) = Some old"
  shows "db' = db\<lparr>db_approvals := map_rows (\<lambda>a. ap_pk a = ap_pk new)
                    (\<lambda>_. written_approval old new) (db_approvals db),
                  db_er_notifications := create_employee_record_notification now old
                    (written_approval old new) (db_employee_records db) (db_er_notifications db)\<rparr>"
    and "approval_constraints (written_approval old new)"
    and "\<forall>a \<in> set (db_approvals db). ap_pk a \<noteq> ap_pk new \<longrightarrow> ap_number a \<noteq> ap_number new"
proof -
  obtain new' where n: "plan_pe_notification old new = Inr new'"
    using assms by (cases "plan_pe_notification old new") (auto simp: update_approval_def)
  then have "new' = written_approval old new" by (rule plan_pe_InrD)
  then show "db' = db\<lparr>db_approvals := map_rows (\<lambda>a. ap_pk a = ap_pk new)
                    (\<lambda>_. written_approval old new) (db_approvals db),
                  db_er_notifications := create_employee_record_notification now old
                    (written_approval old new) (db_employee_records db) (db_er_notifications db)\<rparr>"
    and "approval_constraints (written_approval old new)"
    and "\<forall>a \<in> set (db_approvals db). ap_pk a \<noteq> ap_pk new \<longrightarrow> ap_number a \<noteq> ap_number new"
    using assms n by (auto simp: update_approval_def list_ex_iff)
qed

lemma update_approval_get:
  assumes "update_approval now new db = Inr db'" "get_row ap_pk (ap_pk new) (db_approvals db) = Some old"
  shows "get_row ap_pk k (db_approvals db') =
    (if k = ap_pk new then Some (written_approval old new) else get_row ap_pk k (db_approvals db))"
proof -
  have "get_row ap_pk k (map_rows (\<lambda>a. ap_pk a = ap_pk new) (\<lambda>_. written_approval old new) xs) =
    map_option (\<lambda>x. if ap_pk x = ap_pk new then written_approval old new else x) (get_row ap_pk k xs)"
    for xs by (rule get_row_map_rows) simp
  then show ?thesis
    using update_approval_InrD(1) [OF assms] assms(2) get_row_SomeD [of ap_pk k "db_approvals db"]
    by (cases "get_row ap_pk k (db_approvals db)") auto
qed

lemma update_approval_ok:
  assumes "approval_table_ok (db_approvals db)" "update_approval now new db = Inr db'"
  shows "approval_table_ok (db_approvals db')"
proof (cases "get_row ap_pk (ap_pk new) (db_approvals db)")
  case None
  then show ?thesis using assms by (simp add: update_approval_def)
next
  case (Some old)
  note U = update_approval_InrD [OF assms(2) Some]
  let ?w = "written_approval old new"
  let ?rows = "map_rows (\<lambda>a. ap_pk a = ap_pk new) (\<lambda>_. ?w) (db_approvals db)"
  have old: "old \<in> set (db_approvals db)" "ap_pk old = ap_pk new" using get_row_SomeD [OF Some] by auto
  have pks: "map ap_pk ?rows = map ap_pk (db_approvals db)" by (rule map_rows_key) simp
  have inj: "inj_on ap_pk (set (db_approvals db))"
    using assms(1) by (simp add: approval_table_ok_def distinct_map)
  have "inj_on ap_number (set ?rows)"
  proof (rule inj_onI)
    fix x y assume xy: "x \<in> set ?rows" "y \<in> set ?rows" "ap_number x = ap_number y"
    have num: "inj_on ap_number (set (db_approvals db))"
      using assms(1) by (simp add: approval_table_ok_def distinct_map)
    from xy show "x = y" using U(3) num
      by (auto simp: set_map_rows inj_on_def split: if_splits)
  qed
  moreover have "distinct ?rows"
    using pks assms(1) by (metis approval_table_ok_def distinct_map)
  ultimately have "distinct (map ap_number ?rows)" by (simp add: distinct_map)
  moreover have "list_all approval_constraints ?rows"
    using assms(1) U(2) by (auto simp: approval_table_ok_def list_all_iff set_map_rows)
  ultimately show ?thesis using pks assms(1) U(1) by (simp add: approval_table_ok_def)
qed

lemma update_approval_notifications:
  assumes "new_notifications_unique (db_er_notifications db)" "update_approval now new db = Inr db'"
  shows "new_notifications_unique (db_er_notifications db')"
proof (cases "get_row ap_pk (ap_pk new) (db_approvals db)")
  case None
  then show ?thesis using assms by (simp add: update_approval_def)
next
  case (Some old)
  then show ?thesis using update_approval_InrD(1) [OF assms(2) Some] assms(1)
    by (auto simp: create_employee_record_notification_def fold_notifications_unique)
qed

text \<open>The tables a row update of an approval leaves alone.\<close>

lemma update_approval_shape:
  assumes "update_approval now new db = Inr db'"
  obtains rows ns where "db' = db\<lparr>db_approvals := rows, db_er_notifications := ns\<rparr>"
    and "map ap_pk rows = map ap_pk (db_approvals db)"
proof (cases "get_row ap_pk (ap_pk new) (db_approvals db)")
  case None
  then show ?thesis using assms that [of "db_er_notifications db" "db_approvals db"]
    by (simp add: update_approval_def)
next
  case (Some old)
  show ?thesis
    by (rule that [OF update_approval_InrD(1) [OF assms Some]]) (rule map_rows_key, simp)
qed

lemma update_approval_frame:
  assumes "update_approval now new db = Inr db'"
  shows "db_suspensions db' = db_suspensions db" "db_prolongations db' = db_prolongations db"
    "db_prolongation_requests db' = db_prolongation_requests db"
    "db_cancelled_approvals db' = db_cancelled_approvals db"
    "db_job_applications db' = db_job_applications db" "db_users db' = db_users db"
    "db_employee_records db' = db_employee_records db" "db_profiles db' = db_profiles db"
    "db_companies db' = db_companies db" "db_diagnoses db' = db_diagnoses db"
    "db_ja_logs db' = db_ja_logs db" "db_assignments db' = db_assignments db"
    "db_deny_informations db' = db_deny_informations db"
    "map ap_pk (db_approvals db') = map ap_pk (db_approvals db)"
  by (rule update_approval_shape [OF assms]; simp)+

section \<open>Lemmas on the shift of the end date\<close>

definition end_of :: "db \<Rightarrow> pk \<Rightarrow> date option" where
  "end_of db k = map_option ap_end_at (get_row ap_pk k (db_approvals db))"

definition shifted :: "approval \<Rightarrow> datetime \<Rightarrow> days \<Rightarrow> approval" where
  "shifted a now delta = a\<lparr>ap_end_at := ap_end_at a + delta, ap_updated_at := now\<rparr>"

lemma shift_end_at_end:
  assumes "shift_end_at now k delta db = Inr db'"
  shows "end_of db' k = map_option (\<lambda>e. e + delta) (end_of db k)"
    and "j \<noteq> k \<Longrightarrow> get_row ap_pk j (db_approvals db') = get_row ap_pk j (db_approvals db)"
proof -
  show "end_of db' k = map_option (\<lambda>e. e + delta) (end_of db k)"
  proof (cases "get_row ap_pk k (db_approvals db)")
    case None
    then show ?thesis using assms by (simp add: shift_end_at_def end_of_def)
  next
    case (Some a)
    then have "ap_pk a = k" using get_row_SomeD by metis
    moreover have "update_approval now (shifted a now delta) db = Inr db'"
      using assms Some by (simp add: shift_end_at_def shifted_def)
    ultimately show ?thesis
      using update_approval_get [of now "shifted a now delta" db db' a k] Some
      by (simp add: end_of_def shifted_def)
  qed
  show "get_row ap_pk j (db_approvals db') = get_row ap_pk j (db_approvals db)" if "j \<noteq> k"
  proof (cases "get_row ap_pk k (db_approvals db)")
    case None
    then show ?thesis using assms by (simp add: shift_end_at_def)
  next
    case (Some a)
    then have "ap_pk a = k" using get_row_SomeD by metis
    moreover have "update_approval now (shifted a now delta) db = Inr db'"
      using assms Some by (simp add: shift_end_at_def shifted_def)
    ultimately show ?thesis
      using update_approval_get [of now "shifted a now delta" db db' a j] Some that
      by (simp add: shifted_def)
  qed
qed

lemma shift_end_at_cases:
  assumes "shift_end_at now k delta db = Inr db'"
  obtains "db' = db" | new where "update_approval now new db = Inr db'"
  using assms by (cases "get_row ap_pk k (db_approvals db)") (auto simp: shift_end_at_def)

lemma shift_end_at_frame:
  assumes "shift_end_at now k delta db = Inr db'"
  shows "db_suspensions db' = db_suspensions db" "db_prolongations db' = db_prolongations db"
    "db_prolongation_requests db' = db_prolongation_requests db"
    "db_job_applications db' = db_job_applications db" "db_users db' = db_users db"
    "db_companies db' = db_companies db" "db_ja_logs db' = db_ja_logs db"
    "db_cancelled_approvals db' = db_cancelled_approvals db"
    "db_employee_records db' = db_employee_records db"
    "map ap_pk (db_approvals db') = map ap_pk (db_approvals db)"
  by (rule shift_end_at_cases [OF assms]; simp add: update_approval_frame)+

lemma shift_end_at_ok:
  assumes "shift_end_at now k delta db = Inr db'"
  shows "approval_table_ok (db_approvals db) \<Longrightarrow> approval_table_ok (db_approvals db')"
    and "new_notifications_unique (db_er_notifications db) \<Longrightarrow>
      new_notifications_unique (db_er_notifications db')"
  by (rule shift_end_at_cases [OF assms]; auto intro: update_approval_ok update_approval_notifications)+

lemma insert_approval_InrD:
  assumes "insert_approval a db = Inr (a', db')"
  shows "a' = a\<lparr>ap_pk := next_pk ap_pk (db_approvals db)\<rparr>"
    and "db' = db\<lparr>db_approvals := db_approvals db @ [a']\<rparr>"
    and "approval_constraints a'" and "ap_number a' \<notin> ap_number ` set (db_approvals db)"
  using assms by (auto simp: insert_approval_def Let_def)

lemma insert_approval_ok:
  assumes "approval_table_ok (db_approvals db)" "insert_approval a db = Inr (a', db')"
  shows "approval_table_ok (db_approvals db')"
  using assms(1) insert_approval_InrD [OF assms(2)] next_pk_notin [of ap_pk "db_approvals db"]
  by (auto simp: approval_table_ok_def)

end
