(* ===== verification/Approval_Dates.thy ===== *)
theory Approval_Dates
  imports Approvals
begin

text \<open>
  \<open>approvals/models.py\<close>: the properties of an approval that depend on the date (validity, waiting
  period, remainder, state, suspension, prolongation window), \<open>update_start_date\<close>,
  \<open>get_default_end_date\<close>, and \<open>User.latest_approval\<close> of \<open>users/models.py\<close>, which reads them.
\<close>

section \<open>Constants\<close>

definition default_approval_days :: days where "default_approval_days = 2 * 365"
definition waiting_period_years :: int where "waiting_period_years = 2"
definition open_to_prolongation_months_before_end :: int where
  "open_to_prolongation_months_before_end = 12"
definition open_to_prolongation_months_after_end :: int where
  "open_to_prolongation_months_after_end = 6"

section \<open>Validity and waiting period\<close>

definition approval_is_in_progress :: "date \<Rightarrow> approval \<Rightarrow> bool" where
  "approval_is_in_progress today a \<longleftrightarrow> ap_start_at a \<le> today \<and> today \<le> ap_end_at a"

definition waiting_period_end :: "plus_months \<Rightarrow> approval \<Rightarrow> date" where
  "waiting_period_end plus_months a = plus_months (12 * waiting_period_years) (ap_end_at a)"

definition is_in_waiting_period :: "plus_months \<Rightarrow> date \<Rightarrow> approval \<Rightarrow> bool" where
  "is_in_waiting_period plus_months today a \<longleftrightarrow>
     ap_end_at a < today \<and> today \<le> waiting_period_end plus_months a"

definition waiting_period_has_elapsed :: "plus_months \<Rightarrow> date \<Rightarrow> approval \<Rightarrow> bool" where
  "waiting_period_has_elapsed plus_months today a \<longleftrightarrow> waiting_period_end plus_months a < today"

definition approval_duration :: "approval \<Rightarrow> days" where
  "approval_duration a = ap_end_at a - ap_start_at a + 1"

definition get_default_end_date :: "date \<Rightarrow> date" where
  "get_default_end_date start_at = start_at + default_approval_days - 1"

section \<open>Suspensions of an approval\<close>

definition suspension_set :: "approval \<Rightarrow> suspension list \<Rightarrow> suspension list" where
  "suspension_set a ss = filter (\<lambda>s. su_approval s = ap_pk a) ss"

definition suspension_in_progress :: "date \<Rightarrow> suspension \<Rightarrow> bool" where
  "suspension_in_progress today s \<longleftrightarrow> su_start_at s \<le> today \<and> today \<le> su_end_at s"

definition suspension_old :: "date \<Rightarrow> suspension \<Rightarrow> bool" where
  "suspension_old today s \<longleftrightarrow> su_end_at s < today"

text \<open>The default ordering of suspensions is \<open>-start_at\<close>.\<close>

definition ongoing_suspension :: "date \<Rightarrow> approval \<Rightarrow> suspension list \<Rightarrow> suspension option" where
  "ongoing_suspension today a ss =
     order_first (\<lambda>s. - su_start_at s) (filter (suspension_in_progress today) (suspension_set a ss))"

definition is_suspended :: "date \<Rightarrow> approval \<Rightarrow> suspension list \<Rightarrow> bool" where
  "is_suspended today a ss \<longleftrightarrow> list_ex (suspension_in_progress today) (suspension_set a ss)"

definition last_old_suspension ::
  "date \<Rightarrow> pk option \<Rightarrow> approval \<Rightarrow> suspension list \<Rightarrow> suspension option" where
  "last_old_suspension today exclude_pk a ss =
     order_last su_start_at
       (filter (\<lambda>s. suspension_old today s \<and> Some (su_pk s) \<noteq> exclude_pk) (suspension_set a ss))"

definition last_in_progress_suspension :: "date \<Rightarrow> approval \<Rightarrow> suspension list \<Rightarrow> suspension option"
  where
  "last_in_progress_suspension today a ss =
     order_last su_start_at (filter (suspension_in_progress today) (suspension_set a ss))"

definition suspensions_for_status_card ::
  "date \<Rightarrow> approval \<Rightarrow> suspension list \<Rightarrow> (suspension option \<times> suspension list) option" where
  "suspensions_for_status_card today a ss =
     (case sort_key (\<lambda>s. - su_start_at s) (suspension_set a ss) of
        [] \<Rightarrow> None
      | s # rest \<Rightarrow> (if suspension_in_progress today s then Some (Some s, rest)
                    else Some (None, s # rest)))"

definition can_be_suspended :: "date \<Rightarrow> approval \<Rightarrow> suspension list \<Rightarrow> bool" where
  "can_be_suspended today a ss \<longleftrightarrow> approval_is_in_progress today a \<and> \<not> is_suspended today a ss"

definition can_be_suspended_by_siae :: "date \<Rightarrow> db \<Rightarrow> approval \<Rightarrow> user \<Rightarrow> pk \<Rightarrow> bool" where
  "can_be_suspended_by_siae today db a u siae \<longleftrightarrow>
     can_be_suspended today a (db_suspensions db) \<and> last_hire_was_made_by_siae db u siae"

section \<open>Remainder and state\<close>

definition get_obj_remainder :: "date \<Rightarrow> date \<Rightarrow> date \<Rightarrow> days" where
  "get_obj_remainder today start_at end_at =
     max (end_at - today + 1) 0 - max (start_at - today) 0"

definition remainder :: "date \<Rightarrow> approval \<Rightarrow> suspension list \<Rightarrow> days" where
  "remainder today a ss =
     get_obj_remainder today (ap_start_at a) (ap_end_at a) -
     sum_by (\<lambda>s. get_obj_remainder today (su_start_at s) (su_end_at s)) (suspension_set a ss)"

definition remainder_as_date :: "date \<Rightarrow> approval \<Rightarrow> suspension list \<Rightarrow> date" where
  "remainder_as_date today a ss =
     min (max (ap_start_at a) today + (remainder today a ss - 1)) (ap_end_at a)"

definition approval_state :: "date \<Rightarrow> approval \<Rightarrow> suspension list \<Rightarrow> approval_status" where
  "approval_state today a ss =
     (if \<not> approval_is_valid today a then AS_EXPIRED
      else if is_suspended today a ss then AS_SUSPENDED
      else if approval_is_in_progress today a then AS_VALID
      else AS_FUTURE)"

section \<open>Postponing the start\<close>

definition can_postpone_start_date :: "date \<Rightarrow> approval \<Rightarrow> bool" where
  "can_postpone_start_date today a \<longleftrightarrow> today < ap_start_at a"

text \<open>\<open>update_start_date\<close>: the object as modified, whether it was, and the database.\<close>

definition update_start_date ::
  "date \<Rightarrow> datetime \<Rightarrow> approval \<Rightarrow> date \<Rightarrow> db \<Rightarrow> error + (bool \<times> approval \<times> db)" where
  "update_start_date today now a new_start_date db =
     (if can_postpone_start_date today a then
        (let a' = a\<lparr>ap_start_at := new_start_date, ap_end_at := get_default_end_date new_start_date\<rparr>
         in rbind (approval_save today now a' db) (\<lambda>db'. Inr (True, a', db')))
      else Inr (False, a, db))"

section \<open>Prolongations of an approval\<close>

definition prolongation_in_progress :: "date \<Rightarrow> ('a::type) common_prolongation_scheme \<Rightarrow> bool" where
  "prolongation_in_progress today p \<longleftrightarrow> pl_start_at p \<le> today \<and> today \<le> pl_end_at p"

definition prolongations_for_status_card ::
  "date \<Rightarrow> approval \<Rightarrow> prolongation list \<Rightarrow> (prolongation list \<times> prolongation list) option" where
  "prolongations_for_status_card today a ps =
     (let qs = sort_key (\<lambda>p. - pl_start_at p) (filter (\<lambda>p. pl_approval p = ap_pk a) ps) in
      if qs = [] then None
      else Some (filter (prolongation_in_progress today) qs,
                 filter (\<lambda>p. \<not> prolongation_in_progress today p) qs))"

definition prolongation_requests_for_status_card ::
  "approval \<Rightarrow> prolongation_request list \<Rightarrow> prolongation_request list" where
  "prolongation_requests_for_status_card a rs =
     filter (\<lambda>r. pl_approval r = ap_pk a \<and> prq_status r \<noteq> PR_GRANTED) rs"

definition pending_prolongation_request ::
  "approval \<Rightarrow> prolongation_request list \<Rightarrow> prolongation_request option" where
  "pending_prolongation_request a rs =
     order_first (\<lambda>r. - pl_created_at r)
       (filter (\<lambda>r. pl_approval r = ap_pk a \<and> prq_status r = PR_PENDING) rs)"

definition is_open_to_prolongation :: "plus_months \<Rightarrow> date \<Rightarrow> approval \<Rightarrow> bool" where
  "is_open_to_prolongation plus_months today a \<longleftrightarrow>
     plus_months (- open_to_prolongation_months_before_end) (ap_end_at a) \<le> today \<and>
     today \<le> plus_months open_to_prolongation_months_after_end (ap_end_at a)"

section \<open>Latest approval of a user\<close>

definition user_approvals :: "user \<Rightarrow> approval list \<Rightarrow> approval list" where
  "user_approvals u as = sort_key (\<lambda>a. - ap_created_at a) (filter (\<lambda>a. ap_user a = us_pk u) as)"

definition latest_approval :: "plus_months \<Rightarrow> date \<Rightarrow> user \<Rightarrow> approval list \<Rightarrow> approval option" where
  "latest_approval plus_months today u as =
     (if \<not> is_job_seeker u then None
      else
        (let approvals = user_approvals u as;
             valid = filter (approval_is_valid today) approvals
         in if approvals = [] then None
            else if valid \<noteq> [] then Some (hd valid)
            else (case order_first (\<lambda>a. (- ap_end_at a, ap_start_at a)) approvals of
                    None \<Rightarrow> None
                  | Some a \<Rightarrow> if waiting_period_has_elapsed plus_months today a then None else Some a)))"

definition has_valid_approval :: "plus_months \<Rightarrow> date \<Rightarrow> user \<Rightarrow> approval list \<Rightarrow> bool" where
  "has_valid_approval plus_months today u as \<longleftrightarrow>
     (case latest_approval plus_months today u as of None \<Rightarrow> False | Some a \<Rightarrow> approval_is_valid today a)"

definition has_latest_approval_in_waiting_period ::
  "plus_months \<Rightarrow> date \<Rightarrow> user \<Rightarrow> approval list \<Rightarrow> bool" where
  "has_latest_approval_in_waiting_period plus_months today u as \<longleftrightarrow>
     (case latest_approval plus_months today u as of None \<Rightarrow> False
      | Some a \<Rightarrow> \<not> approval_is_valid today a)"

definition can_be_prolonged :: "plus_months \<Rightarrow> date \<Rightarrow> approval \<Rightarrow> user \<Rightarrow> db \<Rightarrow> bool" where
  "can_be_prolonged plus_months today a u db \<longleftrightarrow>
     is_open_to_prolongation plus_months today a \<and>
     map_option ap_pk (latest_approval plus_months today u (db_approvals db)) = Some (ap_pk a) \<and>
     \<not> is_suspended today a (db_suspensions db) \<and>
     pending_prolongation_request a (db_prolongation_requests db) = None"

text \<open>\<open>get_origin_kwargs\<close>: the origin of the hire, copied on the approval.\<close>

definition get_origin_kwargs ::
  "company \<Rightarrow> sender_kind \<Rightarrow> prescriber_org option \<Rightarrow> origin_info" where
  "get_origin_kwargs to_company sender_kind org =
     \<lparr>oi_siae_siret = co_siret to_company, oi_siae_kind = co_kind to_company,
      oi_sender_kind = sender_kind, oi_prescriber_organization_kind = map_option po_kind org\<rparr>"

section \<open>Lemmas on the remainder\<close>

text \<open>The exclusion constraint on suspensions: no two inclusive periods of one approval overlap.\<close>

fun no_overlap :: "suspension list \<Rightarrow> bool" where
  "no_overlap [] \<longleftrightarrow> True"
| "no_overlap (s # ss) \<longleftrightarrow>
     list_all (\<lambda>t. su_approval t = su_approval s \<longrightarrow>
       \<not> overlaps_incl (su_start_at s) (su_end_at s) (su_start_at t) (su_end_at t)) ss \<and>
     no_overlap ss"

text \<open>The days of an approval from today on that no suspension of the list covers.\<close>

definition free_days :: "date \<Rightarrow> approval \<Rightarrow> suspension list \<Rightarrow> date set" where
  "free_days today a ss =
     {d. ap_start_at a \<le> d \<and> d \<le> ap_end_at a \<and> today \<le> d \<and>
         (\<forall>s \<in> set ss. \<not> (su_start_at s \<le> d \<and> d \<le> su_end_at s))}"

definition suspended_days :: "date \<Rightarrow> suspension \<Rightarrow> date set" where
  "suspended_days today s = {d. su_start_at s \<le> d \<and> d \<le> su_end_at s \<and> today \<le> d}"

lemma obj_remainder_card:
  assumes "s \<le> e + 1"
  shows "get_obj_remainder today s e = int (card {d. s \<le> d \<and> d \<le> e \<and> today \<le> d})"
proof -
  have "{d. s \<le> d \<and> d \<le> e \<and> today \<le> d} = {max s today..e}" by auto
  then show ?thesis using assms by (auto simp: get_obj_remainder_def max_def)
qed

lemma obj_remainder_nonneg: "s \<le> e + 1 \<Longrightarrow> 0 \<le> get_obj_remainder today s e"
  by (simp add: obj_remainder_card)

lemma finite_free_days [simp]: "finite (free_days today a ss)"
proof -
  have "free_days today a ss \<subseteq> {ap_start_at a..ap_end_at a}" by (auto simp: free_days_def)
  then show ?thesis by (rule finite_subset) simp
qed

lemma free_days_Cons: "free_days today a (s # ss) = free_days today a ss - suspended_days today s"
  by (auto simp: free_days_def suspended_days_def)

lemma suspended_subset_free:
  assumes "no_overlap (s # ss)" "\<forall>t \<in> set ss. su_approval t = su_approval s"
    and "ap_start_at a \<le> su_start_at s" "su_end_at s \<le> ap_end_at a"
  shows "suspended_days today s \<subseteq> free_days today a ss"
  using assms by (force simp: suspended_days_def free_days_def list_all_iff overlaps_incl_iff)

lemma remainder_sum:
  assumes "no_overlap ss" "\<forall>s \<in> set ss. su_approval s = k"
    and "\<forall>s \<in> set ss. ap_start_at a \<le> su_start_at s \<and> su_start_at s \<le> su_end_at s \<and>
      su_end_at s \<le> ap_end_at a"
    and "ap_start_at a \<le> ap_end_at a"
  shows "get_obj_remainder today (ap_start_at a) (ap_end_at a) -
      sum_by (\<lambda>s. get_obj_remainder today (su_start_at s) (su_end_at s)) ss =
    int (card (free_days today a ss))"
  using assms
proof (induction ss)
  case Nil
  then show ?case by (simp add: obj_remainder_card free_days_def conj_commute conj_left_commute)
next
  case (Cons s ss)
  have sub: "suspended_days today s \<subseteq> free_days today a ss"
    by (rule suspended_subset_free) (use Cons.prems in auto)
  have "get_obj_remainder today (su_start_at s) (su_end_at s) = int (card (suspended_days today s))"
    using Cons.prems by (simp add: obj_remainder_card suspended_days_def)
  moreover have "int (card (free_days today a (s # ss))) =
      int (card (free_days today a ss)) - int (card (suspended_days today s))"
    using sub by (simp add: free_days_Cons card_Diff_subset finite_subset card_mono)
  ultimately show ?case using Cons by simp
qed

section \<open>Lemmas on validity and the latest approval\<close>

lemma waiting_period_end_after: "calendar_laws pm \<Longrightarrow> ap_end_at a < waiting_period_end pm a"
  by (simp add: waiting_period_end_def waiting_period_years_def calendar_later)

lemma waiting_period_end_mono:
  "calendar_laws pm \<Longrightarrow> ap_end_at a \<le> ap_end_at b \<Longrightarrow> waiting_period_end pm a \<le> waiting_period_end pm b"
  by (simp add: waiting_period_end_def calendar_mono)

lemma set_user_approvals [simp]: "set (user_approvals u as) = {a \<in> set as. ap_user a = us_pk u}"
  by (simp add: user_approvals_def)

lemma latest_approval_valid_case:
  assumes "is_job_seeker u" "a \<in> set as" "ap_user a = us_pk u" "approval_is_valid today a"
  obtains b where "latest_approval pm today u as = Some b" "b \<in> set as" "ap_user b = us_pk u"
    "approval_is_valid today b"
proof -
  let ?valid = "filter (approval_is_valid today) (user_approvals u as)"
  have "a \<in> set ?valid" using assms by simp
  then have ne: "?valid \<noteq> []" by (metis empty_iff list.set(1))
  then have "hd ?valid \<in> set ?valid" by (rule hd_in_set)
  moreover have "user_approvals u as \<noteq> []" using ne by auto
  ultimately show ?thesis using that [of "hd ?valid"] ne assms(1)
    by (auto simp: latest_approval_def Let_def)
qed

lemma latest_approval_invalid_case:
  assumes "is_job_seeker u" "\<forall>a \<in> set as. ap_user a = us_pk u \<longrightarrow> \<not> approval_is_valid today a"
  shows "latest_approval pm today u as =
    (case order_first (\<lambda>a. (- ap_end_at a, ap_start_at a)) (user_approvals u as) of
       None \<Rightarrow> None
     | Some a \<Rightarrow> if waiting_period_has_elapsed pm today a then None else Some a)"
proof -
  have "filter (approval_is_valid today) (user_approvals u as) = []"
    using assms(2) by (auto simp: filter_empty_conv)
  then show ?thesis using assms(1) by (simp add: latest_approval_def Let_def)
qed

lemma latest_approval_SomeD:
  assumes "latest_approval pm today u as = Some a"
  shows "a \<in> set as \<and> ap_user a = us_pk u \<and> is_job_seeker u"
proof -
  have js: "is_job_seeker u" using assms by (auto simp: latest_approval_def split: if_splits)
  show ?thesis
  proof (cases "\<exists>b \<in> set as. ap_user b = us_pk u \<and> approval_is_valid today b")
    case True
    then show ?thesis using latest_approval_valid_case [OF js] assms js by (metis option.inject)
  next
    case False
    then have "order_first (\<lambda>a. (- ap_end_at a, ap_start_at a)) (user_approvals u as) = Some a"
      using latest_approval_invalid_case [OF js, of as today pm] assms
      by (auto split: option.splits if_splits)
    then show ?thesis using order_first_in_set js by fastforce
  qed
qed

text \<open>A user has a valid approval in the sense of the property exactly when one of the rows is
  valid.\<close>

lemma has_valid_approval_iff:
  "has_valid_approval pm today u as \<longleftrightarrow>
     is_job_seeker u \<and> (\<exists>a \<in> set as. ap_user a = us_pk u \<and> approval_is_valid today a)"
proof
  assume "has_valid_approval pm today u as"
  then obtain a where "latest_approval pm today u as = Some a" "approval_is_valid today a"
    by (auto simp: has_valid_approval_def split: option.splits)
  then show "is_job_seeker u \<and> (\<exists>a \<in> set as. ap_user a = us_pk u \<and> approval_is_valid today a)"
    using latest_approval_SomeD by blast
next
  assume "is_job_seeker u \<and> (\<exists>a \<in> set as. ap_user a = us_pk u \<and> approval_is_valid today a)"
  then obtain b where "latest_approval pm today u as = Some b" "approval_is_valid today b"
    using latest_approval_valid_case by metis
  then show "has_valid_approval pm today u as" by (simp add: has_valid_approval_def)
qed

lemma in_waiting_period_iff:
  assumes "calendar_laws pm"
  shows "has_latest_approval_in_waiting_period pm today u as \<longleftrightarrow>
    is_job_seeker u \<and> \<not> has_valid_approval pm today u as \<and>
    (\<exists>a \<in> set as. ap_user a = us_pk u \<and> is_in_waiting_period pm today a)"
proof (cases "is_job_seeker u \<and> \<not> has_valid_approval pm today u as")
  case False
  then show ?thesis
    by (auto simp: has_latest_approval_in_waiting_period_def has_valid_approval_def latest_approval_def
        split: option.splits)
next
  case True
  let ?key = "\<lambda>a. (- ap_end_at a, ap_start_at a)"
  let ?of = "order_first ?key (user_approvals u as)"
  have inval: "\<forall>a \<in> set as. ap_user a = us_pk u \<longrightarrow> \<not> approval_is_valid today a"
    using True by (auto simp: has_valid_approval_iff)
  have latest: "latest_approval pm today u as = (case ?of of None \<Rightarrow> None
     | Some a \<Rightarrow> if waiting_period_has_elapsed pm today a then None else Some a)"
    by (rule latest_approval_invalid_case) (use True inval in auto)
  show ?thesis
  proof (cases ?of)
    case None
    then have "user_approvals u as = []" by simp
    then have "set (user_approvals u as) = {}" by (simp only: set_empty)
    then show ?thesis
      using None latest by (auto simp: has_latest_approval_in_waiting_period_def)
  next
    case (Some a)
    have a: "a \<in> set as" "ap_user a = us_pk u" using order_first_in_set [OF Some] by auto
    have max: "ap_end_at b \<le> ap_end_at a" if "b \<in> set as" "ap_user b = us_pk u" for b
      using order_first_SomeD [OF Some] that by (auto simp: less_eq_prod_def)
    have "(\<exists>b \<in> set as. ap_user b = us_pk u \<and> is_in_waiting_period pm today b) \<longleftrightarrow>
        today \<le> waiting_period_end pm a"
      using a max inval waiting_period_end_mono [OF assms]
      by (fastforce simp: is_in_waiting_period_def approval_is_valid_def)
    then show ?thesis using Some latest inval a True
      by (auto simp: has_latest_approval_in_waiting_period_def waiting_period_has_elapsed_def)
  qed
qed

lemma is_suspended_iff: "is_suspended today a ss \<longleftrightarrow>
    (\<exists>s \<in> set ss. su_approval s = ap_pk a \<and> su_start_at s \<le> today \<and> today \<le> su_end_at s)"
  by (auto simp: is_suspended_def suspension_set_def suspension_in_progress_def list_ex_iff)

lemma last_in_progress_SomeD:
  assumes "last_in_progress_suspension today a ss = Some s"
  shows "s \<in> set ss" "su_approval s = ap_pk a" "su_start_at s \<le> today" "today \<le> su_end_at s"
  using order_last_in_set [OF assms [unfolded last_in_progress_suspension_def]]
  by (auto simp: suspension_set_def suspension_in_progress_def)

end
