(* ===== verification/Approval_Extension.thy ===== *)
theory Approval_Extension
  imports Approval_Dates
begin

text \<open>
  The contract the suspensions and the prolongations share: rows with a start and an end, attached
  to an approval, whose insertion, update and deletion move the end of that approval by the
  triggers \<open>update_approval_end_at\<close>.  The locale \<open>approval_extender\<close> states what each operation does
  to its table and to the end dates; from it, the end of an approval moves by the change of
  the total duration of its rows and the days moved between approvals, an insertion followed by the deletion of the row restores it, and
  an update is a deletion followed by an insertion.
\<close>

datatype 'r row_op = Insert_Row 'r | Update_Row 'r | Delete_Row 'r

definition total_duration :: "('r \<Rightarrow> pk) \<Rightarrow> ('r \<Rightarrow> days) \<Rightarrow> pk \<Rightarrow> 'r list \<Rightarrow> days" where
  "total_duration approval_of duration k rs = sum_by duration (filter (\<lambda>r. approval_of r = k) rs)"

lemma total_duration_simps [simp]:
  "total_duration a d k [] = 0"
  "total_duration a d k (r # rs) = (if a r = k then d r else 0) + total_duration a d k rs"
  "total_duration a d k (rs @ rs') = total_duration a d k rs + total_duration a d k rs'"
  by (simp_all add: total_duration_def)

lemma total_duration_delete:
  assumes "distinct (map key rs)" "r \<in> set rs"
  shows "total_duration a d k (filter (\<lambda>x. key x \<noteq> key r) rs) =
    total_duration a d k rs - (if a r = k then d r else 0)"
  using assms
proof (induction rs)
  case (Cons x rs)
  show ?case
  proof (cases "x = r")
    case True
    then have "\<forall>y \<in> set rs. key y \<noteq> key r"
      using Cons.prems by (metis distinct.simps(2) image_eqI list.set_map list.simps(9))
    then have "filter (\<lambda>x. key x \<noteq> key r) rs = rs" by simp
    then show ?thesis using True by simp
  next
    case False
    then have "key x \<noteq> key r" using Cons.prems by auto
    then show ?thesis using False Cons by simp
  qed
qed simp

lemma total_duration_update:
  assumes "distinct (map key rs)" "get_row key (key r) rs = Some old"
  shows "total_duration a d k (map_rows (\<lambda>x. key x = key r) (\<lambda>_. r) rs) =
    total_duration a d k rs - (if a old = k then d old else 0) + (if a r = k then d r else 0)"
  using assms
proof (induction rs)
  case (Cons x rs)
  show ?case
  proof (cases "key x = key r")
    case True
    then have "\<forall>y \<in> set rs. key y \<noteq> key r"
      using Cons.prems by (metis distinct.simps(2) image_eqI list.set_map list.simps(9))
    then have "map_rows (\<lambda>x. key x = key r) (\<lambda>_. r) rs = rs"
      unfolding map_rows_def by (intro map_idI) simp
    then show ?thesis using True Cons.prems by auto
  next
    case False
    then show ?thesis using Cons by simp
  qed
qed simp

text \<open>The triggers add the change of an edited row to the end of its new approval only: a row of \<open>d old\<close> days that is moved
  from an approval to another leaves these days on the former and takes them from the latter.\<close>

definition moved_days :: "('r \<Rightarrow> pk) \<Rightarrow> ('r \<Rightarrow> days) \<Rightarrow> 'r \<Rightarrow> 'r \<Rightarrow> pk \<Rightarrow> days" where
  "moved_days a d old new k = (if a old = k then d old else 0) - (if a new = k then d old else 0)"

lemma moved_days_same [simp]: "a old = a new \<Longrightarrow> moved_days a d old new k = 0"
  by (simp add: moved_days_def)

locale approval_extender =
  fixes rows :: "db \<Rightarrow> 'r list"
    and row_pk :: "'r \<Rightarrow> pk" and approval_of :: "'r \<Rightarrow> pk" and duration :: "'r \<Rightarrow> days"
    and ins :: "datetime \<Rightarrow> 'r \<Rightarrow> db \<Rightarrow> error + db"
    and upd :: "datetime \<Rightarrow> 'r \<Rightarrow> db \<Rightarrow> error + db"
    and del :: "datetime \<Rightarrow> 'r \<Rightarrow> db \<Rightarrow> error + db"
  assumes ins_rows: "ins now r db = Inr db' \<Longrightarrow>
      \<exists>r'. rows db' = rows db @ [r'] \<and> approval_of r' = approval_of r \<and> duration r' = duration r \<and>
        row_pk r' \<notin> row_pk ` set (rows db)"
    and ins_end: "ins now r db = Inr db' \<Longrightarrow>
      end_of db' k = map_option (\<lambda>e. e + (if approval_of r = k then duration r else 0)) (end_of db k)"
    and upd_none: "upd now r db = Inr db' \<Longrightarrow> get_row row_pk (row_pk r) (rows db) = None \<Longrightarrow> db' = db"
    and upd_rows: "upd now r db = Inr db' \<Longrightarrow> get_row row_pk (row_pk r) (rows db) = Some old \<Longrightarrow>
      rows db' = map_rows (\<lambda>x. row_pk x = row_pk r) (\<lambda>_. r) (rows db)"
    and upd_end: "upd now r db = Inr db' \<Longrightarrow> get_row row_pk (row_pk r) (rows db) = Some old \<Longrightarrow>
      end_of db' k =
        map_option (\<lambda>e. e + (if approval_of r = k then duration r - duration old else 0)) (end_of db k)"
    and del_rows: "del now r db = Inr db' \<Longrightarrow>
      rows db' = filter (\<lambda>x. row_pk x \<noteq> row_pk r) (rows db)"
    and del_end: "del now r db = Inr db' \<Longrightarrow>
      end_of db' k = map_option (\<lambda>e. e - (if approval_of r = k then duration r else 0)) (end_of db k)"
begin

text \<open>Rows of the table are deleted, and edited: the days an edition moves.\<close>

fun admissible :: "'r row_op \<Rightarrow> db \<Rightarrow> bool" where
  "admissible (Insert_Row r) db \<longleftrightarrow> True"
| "admissible (Update_Row r) db \<longleftrightarrow> row_pk r \<in> row_pk ` set (rows db)"
| "admissible (Delete_Row r) db \<longleftrightarrow> r \<in> set (rows db)"

fun moved :: "'r row_op \<Rightarrow> db \<Rightarrow> pk \<Rightarrow> days" where
  "moved (Insert_Row r) db k = 0"
| "moved (Update_Row r) db k = (case get_row row_pk (row_pk r) (rows db) of
     None \<Rightarrow> 0 | Some old \<Rightarrow> moved_days approval_of duration old r k)"
| "moved (Delete_Row r) db k = 0"

fun apply_op :: "datetime \<Rightarrow> 'r row_op \<Rightarrow> db \<Rightarrow> error + db" where
  "apply_op now (Insert_Row r) db = ins now r db"
| "apply_op now (Update_Row r) db = upd now r db"
| "apply_op now (Delete_Row r) db = del now r db"

lemma apply_op_pks:
  assumes "apply_op now x db = Inr db'" "distinct (map row_pk (rows db))"
  shows "distinct (map row_pk (rows db'))"
proof (cases x)
  case (Insert_Row r)
  then have "ins now r db = Inr db'" using assms(1) by simp
  from ins_rows [OF this] show ?thesis using assms(2) by auto
next
  case (Update_Row r)
  then have u: "upd now r db = Inr db'" using assms(1) by simp
  show ?thesis
  proof (cases "get_row row_pk (row_pk r) (rows db)")
    case None
    then show ?thesis using upd_none [OF u] assms(2) by simp
  next
    case (Some old)
    have "map row_pk (map_rows (\<lambda>x. row_pk x = row_pk r) (\<lambda>_. r) (rows db)) = map row_pk (rows db)"
      by (rule map_rows_key) simp
    then show ?thesis using upd_rows [OF u Some] assms(2) by simp
  qed
next
  case (Delete_Row r)
  then have "del now r db = Inr db'" using assms(1) by simp
  then show ?thesis using del_rows assms(2) by (simp add: distinct_map_filter)
qed

text \<open>The end of every approval moves by the change of the total duration of its rows, and by the days moved.\<close>

lemma end_tracks_total:
  assumes "apply_op now x db = Inr db'" "admissible x db" "distinct (map row_pk (rows db))"
  shows "end_of db' k =
    map_option (\<lambda>e. e + (total_duration approval_of duration k (rows db') -
      total_duration approval_of duration k (rows db)) + moved x db k) (end_of db k)"
proof (cases x)
  case (Insert_Row r)
  then have i: "ins now r db = Inr db'" using assms(1) by simp
  from ins_rows [OF i] ins_end [OF i, of k] show ?thesis using Insert_Row by auto
next
  case (Update_Row r)
  then have u: "upd now r db = Inr db'" using assms(1) by simp
  show ?thesis
  proof (cases "get_row row_pk (row_pk r) (rows db)")
    case None
    then show ?thesis using upd_none [OF u] Update_Row by (simp add: option.map_ident)
  next
    case (Some old)
    show ?thesis
      using upd_rows [OF u Some] upd_end [OF u Some, of k] Update_Row Some
        total_duration_update [OF assms(3) Some, of approval_of duration k]
      by (cases "end_of db k") (auto simp: moved_days_def)
  qed
next
  case (Delete_Row r)
  then have d: "del now r db = Inr db'" "r \<in> set (rows db)" using assms(1,2) by auto
  show ?thesis
    using del_rows [OF d(1)] del_end [OF d(1), of k] Delete_Row
      total_duration_delete [OF assms(3) d(2), of approval_of duration k] by simp
qed

text \<open>Creating a row and deleting it leaves the end dates as they were.\<close>

lemma insert_delete_restores:
  assumes "ins now r db = Inr db1" "rows db1 = rows db @ [r']" "del now' r' db1 = Inr db2"
  shows "end_of db2 k = end_of db k"
proof -
  from ins_rows [OF assms(1)] assms(2)
  have "approval_of r' = approval_of r" "duration r' = duration r" by auto
  then show ?thesis using ins_end [OF assms(1), of k] del_end [OF assms(3), of k]
    by (simp add: option.map_comp o_def option.map_ident)
qed

text \<open>An update has the effect on the end dates of the deletion of the old row and the insertion of
  the new one.\<close>

lemma update_is_delete_insert:
  assumes "upd now r db = Inr db'" "get_row row_pk (row_pk r) (rows db) = Some old"
    and "approval_of r = approval_of old"
    and "del now old db = Inr db1" "ins now r db1 = Inr db2"
  shows "end_of db' k = end_of db2 k"
  using upd_end [OF assms(1,2), of k] del_end [OF assms(4), of k] ins_end [OF assms(5), of k] assms(3)
  by (cases "end_of db k") auto

end

end
