(* ===== verification/Suspensions.thy ===== *)
theory Suspensions
  imports Approval_Extension
begin

text \<open>
  \<open>Suspension\<close> of \<open>approvals/models.py\<close>: the constraints and the trigger of the table as
  \<open>insert_suspension\<close>, \<open>update_suspension\<close> and (from \<open>Approvals\<close>) \<open>delete_suspension\<close>, the
  validation \<open>clean\<close>, and \<open>Approval.unsuspend\<close>.  The table implements the contract
  \<open>approval_extender\<close>.
\<close>

section \<open>Constants\<close>

definition max_duration_months :: int where "max_duration_months = 36"
definition max_retroactivity_duration_days :: days where "max_retroactivity_duration_days = 365"

definition displayed_choices_for_siae :: "company_kind \<Rightarrow> suspension_reason list" where
  "displayed_choices_for_siae kind =
     [SUSPENDED_CONTRACT, BROKEN_CONTRACT, FINISHED_CONTRACT, APPROVAL_BETWEEN_CTA_MEMBERS] @
     (if kind \<in> {ACI, EI} then [CONTRAT_PASSERELLE] else [])"

definition reasons_allowing_unsuspend :: "suspension_reason list" where
  "reasons_allowing_unsuspend =
     [BROKEN_CONTRACT, FINISHED_CONTRACT, APPROVAL_BETWEEN_CTA_MEMBERS, CONTRAT_PASSERELLE,
      SUSPENDED_CONTRACT]"

section \<open>Table\<close>

text \<open>The row checks of PostgreSQL: the date range must be well-formed, must not overlap another
  suspension of the approval, and must not start in the future.\<close>

definition suspension_row_check :: "date \<Rightarrow> suspension list \<Rightarrow> suspension \<Rightarrow> error + unit" where
  "suspension_row_check today others s =
     rbind (guard (su_start_at s \<le> su_end_at s)
       (DataError ''range lower bound must be less than or equal to range upper bound'')) (\<lambda>_.
     rbind (guard (\<not> list_ex (\<lambda>t. su_approval t = su_approval s \<and>
         overlaps_incl (su_start_at s) (su_end_at s) (su_start_at t) (su_end_at t)) others)
       (IntegrityError ''exclude_overlapping_suspensions'')) (\<lambda>_.
     guard (su_start_at s \<le> today) (IntegrityError ''suspension_cannot_start_in_the_future'')))"

definition approval_exists :: "pk \<Rightarrow> db \<Rightarrow> bool" where
  "approval_exists k db \<longleftrightarrow> get_row ap_pk k (db_approvals db) \<noteq> None"

text \<open>The trigger after each operation: \<open>old\<close> and \<open>new\<close> as in PL/pgSQL.\<close>

definition suspension_trigger_insert :: "datetime \<Rightarrow> suspension \<Rightarrow> db \<Rightarrow> error + db" where
  "suspension_trigger_insert now new db =
     shift_end_at now (su_approval new) (su_end_at new - su_start_at new) db"

definition suspension_trigger_update ::
  "datetime \<Rightarrow> suspension \<Rightarrow> suspension \<Rightarrow> db \<Rightarrow> error + db" where
  "suspension_trigger_update now old new db =
     shift_end_at now (su_approval new)
       (- (su_end_at old - su_start_at old) + (su_end_at new - su_start_at new)) db"

definition insert_suspension :: "date \<Rightarrow> datetime \<Rightarrow> suspension \<Rightarrow> db \<Rightarrow> error + db" where
  "insert_suspension today now s db =
     (let s' = s\<lparr>su_pk := next_pk su_pk (db_suspensions db)\<rparr> in
      rbind (guard (approval_exists (su_approval s) db) (IntegrityError ''approval_id'')) (\<lambda>_.
      rbind (suspension_row_check today (db_suspensions db) s') (\<lambda>_.
      suspension_trigger_insert now s' (db\<lparr>db_suspensions := db_suspensions db @ [s']\<rparr>))))"

definition update_suspension :: "date \<Rightarrow> datetime \<Rightarrow> suspension \<Rightarrow> db \<Rightarrow> error + db" where
  "update_suspension today now s db =
     (case get_row su_pk (su_pk s) (db_suspensions db) of
        None \<Rightarrow> Inr db
      | Some old \<Rightarrow>
          rbind (guard (approval_exists (su_approval s) db) (IntegrityError ''approval_id'')) (\<lambda>_.
          rbind (suspension_row_check today
                   (filter (\<lambda>t. su_pk t \<noteq> su_pk s) (db_suspensions db)) s) (\<lambda>_.
          suspension_trigger_update now old s
            (db\<lparr>db_suspensions := map_rows (\<lambda>t. su_pk t = su_pk s) (\<lambda>_. s) (db_suspensions db)\<rparr>))))"

definition suspension_table_ok :: "suspension list \<Rightarrow> bool" where
  "suspension_table_ok ss \<longleftrightarrow>
     distinct (map su_pk ss) \<and> no_overlap ss \<and> list_all (\<lambda>s. su_start_at s \<le> su_end_at s) ss"

section \<open>Validation\<close>

definition suspension_duration :: "suspension \<Rightarrow> days" where
  "suspension_duration s = su_end_at s - su_start_at s"

definition start_in_approval_boundaries :: "approval \<Rightarrow> suspension \<Rightarrow> bool" where
  "start_in_approval_boundaries a s \<longleftrightarrow> ap_start_at a \<le> su_start_at s \<and> su_start_at s \<le> ap_end_at a"

definition can_be_handled_by_siae :: "date \<Rightarrow> db \<Rightarrow> user \<Rightarrow> pk \<Rightarrow> suspension \<Rightarrow> bool" where
  "can_be_handled_by_siae today db u siae s \<longleftrightarrow>
     suspension_in_progress today s \<and> last_hire_was_made_by_siae db u siae"

definition suspension_get_max_end_at :: "plus_months \<Rightarrow> date \<Rightarrow> date" where
  "suspension_get_max_end_at plus_months start_at = plus_months max_duration_months start_at - 1"

definition next_min_start_at ::
  "date \<Rightarrow> db \<Rightarrow> approval \<Rightarrow> user \<Rightarrow> pk option \<Rightarrow> date option \<Rightarrow> date" where
  "next_min_start_at today db a u pk_suspension referent_date =
     (let ref = (case referent_date of None \<Rightarrow> today | Some d \<Rightarrow> d);
          from_hire = (case get_user_last_accepted_siae_job_application db u of
                         None \<Rightarrow> None | Some j \<Rightarrow> ja_hiring_start_at j);
          start_at = (case last_old_suspension today pk_suspension a (db_suspensions db) of
                        None \<Rightarrow> from_hire | Some s \<Rightarrow> Some (su_end_at s + 1));
          threshold = ref - max_retroactivity_duration_days
      in case start_at of
           None \<Rightarrow> threshold
         | Some d \<Rightarrow> if d < threshold then threshold else d)"

text \<open>\<open>clean\<close> on a suspension that is being created (\<open>existing = None\<close>) or edited: the end date may
  be missing in a form.\<close>

definition suspension_clean ::
  "plus_months \<Rightarrow> date \<Rightarrow> db \<Rightarrow> approval \<Rightarrow> user \<Rightarrow> bool \<Rightarrow> date option \<Rightarrow> suspension \<Rightarrow> error + unit" where
  "suspension_clean plus_months today db a u has_pk end_at s =
     rbind (guard (\<not> (su_reason s = FORCE_MAJEURE \<and> su_reason_explanation s = []))
       (ValidationError ''reason_explanation'')) (\<lambda>_.
     (case end_at of
        None \<Rightarrow> Inl (ValidationError ''end_at'')
      | Some e \<Rightarrow>
          rbind (guard (\<not> e < su_start_at s) (ValidationError ''end_at before start_at'')) (\<lambda>_.
          rbind (guard (\<not> suspension_get_max_end_at plus_months (su_start_at s) < e)
            (ValidationError ''end_at too late'')) (\<lambda>_.
          rbind (guard (start_in_approval_boundaries a s) (ValidationError ''start_at'')) (\<lambda>_.
          guard (\<not> su_start_at s < next_min_start_at today db a u
                     (if has_pk then Some (su_pk s) else None)
                     (if has_pk then Some (su_created_at s div one_day) else None))
            (ValidationError ''start_at too early''))))))"

section \<open>Unsuspending\<close>

definition can_be_unsuspended :: "date \<Rightarrow> approval \<Rightarrow> suspension list \<Rightarrow> bool" where
  "can_be_unsuspended today a ss \<longleftrightarrow>
     (if is_suspended today a ss then
        (case last_in_progress_suspension today a ss of
           None \<Rightarrow> False
         | Some s \<Rightarrow> su_reason s \<in> set reasons_allowing_unsuspend)
      else False)"

definition unsuspend :: "date \<Rightarrow> datetime \<Rightarrow> approval \<Rightarrow> date \<Rightarrow> db \<Rightarrow> error + db" where
  "unsuspend today now a hiring_start_at db =
     (case last_in_progress_suspension today a (db_suspensions db) of
        None \<Rightarrow> Inr db
      | Some s \<Rightarrow>
          if can_be_unsuspended today a (db_suspensions db) then
            (if su_start_at s = hiring_start_at then delete_suspension now s db
             else update_suspension today now
                    (s\<lparr>su_end_at := hiring_start_at - 1, su_updated_at := now\<rparr>) db)
          else Inr db)"

section \<open>The suspensions extend their approval\<close>

lemma approvals_update_end_of [simp]:
  "end_of (db\<lparr>db_suspensions := ss\<rparr>) k = end_of db k"
  "end_of (db\<lparr>db_prolongations := ps\<rparr>) k = end_of db k"
  by (simp_all add: end_of_def)

lemma shift_end_at_end_of:
  assumes "shift_end_at now j delta db = Inr db'"
  shows "end_of db' k = map_option (\<lambda>e. e + (if j = k then delta else 0)) (end_of db k)"
  using shift_end_at_end [OF assms]
  by (cases "j = k") (auto simp: end_of_def option.map_comp option.map_ident)

lemma insert_suspension_InrD:
  assumes "insert_suspension today now s db = Inr db'"
  obtains s' where "s' = s\<lparr>su_pk := next_pk su_pk (db_suspensions db)\<rparr>"
    and "suspension_row_check today (db_suspensions db) s' = Inr ()"
    and "shift_end_at now (su_approval s) (su_end_at s - su_start_at s)
      (db\<lparr>db_suspensions := db_suspensions db @ [s']\<rparr>) = Inr db'"
  using assms by (auto simp: insert_suspension_def suspension_trigger_insert_def Let_def)

lemma update_suspension_InrD:
  assumes "update_suspension today now s db = Inr db'"
    and "get_row su_pk (su_pk s) (db_suspensions db) = Some old"
  shows "suspension_row_check today (filter (\<lambda>t. su_pk t \<noteq> su_pk s) (db_suspensions db)) s = Inr ()"
    and "shift_end_at now (su_approval s)
      (suspension_duration s - suspension_duration old)
      (db\<lparr>db_suspensions := map_rows (\<lambda>t. su_pk t = su_pk s) (\<lambda>_. s) (db_suspensions db)\<rparr>) = Inr db'"
  using assms by (auto simp: update_suspension_def suspension_trigger_update_def suspension_duration_def
      algebra_simps)

interpretation susp: approval_extender db_suspensions su_pk su_approval suspension_duration
  "insert_suspension today" "update_suspension today" delete_suspension for today
proof
  fix now s db db' k
  assume i: "insert_suspension today now s db = Inr db'"
  then obtain s' where s': "s' = s\<lparr>su_pk := next_pk su_pk (db_suspensions db)\<rparr>"
    and sh: "shift_end_at now (su_approval s) (su_end_at s - su_start_at s)
      (db\<lparr>db_suspensions := db_suspensions db @ [s']\<rparr>) = Inr db'"
    by (rule insert_suspension_InrD)
  show "\<exists>r'. db_suspensions db' = db_suspensions db @ [r'] \<and> su_approval r' = su_approval s \<and>
      suspension_duration r' = suspension_duration s \<and> su_pk r' \<notin> su_pk ` set (db_suspensions db)"
    using shift_end_at_frame(1) [OF sh] s' by (auto simp: suspension_duration_def)
  show "end_of db' k =
      map_option (\<lambda>e. e + (if su_approval s = k then suspension_duration s else 0)) (end_of db k)"
    using shift_end_at_end_of [OF sh, of k] by (simp add: suspension_duration_def)
next
  fix now s db db' old k
  assume u: "update_suspension today now s db = Inr db'"
  show "db' = db" if "get_row su_pk (su_pk s) (db_suspensions db) = None"
    using u that by (simp add: update_suspension_def)
  assume o: "get_row su_pk (su_pk s) (db_suspensions db) = Some old"
  note sh = update_suspension_InrD(2) [OF u o]
  show "db_suspensions db' = map_rows (\<lambda>x. su_pk x = su_pk s) (\<lambda>_. s) (db_suspensions db)"
    using shift_end_at_frame(1) [OF sh] by simp
  show "end_of db' k = map_option (\<lambda>e. e + (if su_approval s = k
      then suspension_duration s - suspension_duration old else 0)) (end_of db k)"
    using shift_end_at_end_of [OF sh, of k] by simp
next
  fix now s db db' k
  assume d: "delete_suspension now s db = Inr db'"
  note sh = d [unfolded delete_suspension_def]
  show "db_suspensions db' = filter (\<lambda>x. su_pk x \<noteq> su_pk s) (db_suspensions db)"
    using shift_end_at_frame(1) [OF sh] by simp
  show "end_of db' k =
      map_option (\<lambda>e. e - (if su_approval s = k then suspension_duration s else 0)) (end_of db k)"
    using shift_end_at_end_of [OF sh, of k]
    by (cases "end_of db k") (auto simp: suspension_duration_def)
qed

section \<open>The table invariant\<close>

definition disjoint_from :: "suspension \<Rightarrow> suspension \<Rightarrow> bool" where
  "disjoint_from s t \<longleftrightarrow> (su_approval t = su_approval s \<longrightarrow>
     \<not> overlaps_incl (su_start_at s) (su_end_at s) (su_start_at t) (su_end_at t))"

lemma disjoint_from_sym: "disjoint_from s t \<longleftrightarrow> disjoint_from t s"
  by (auto simp: disjoint_from_def overlaps_incl_def)

lemma no_overlap_Cons: "no_overlap (s # ss) \<longleftrightarrow> (\<forall>t \<in> set ss. disjoint_from s t) \<and> no_overlap ss"
  by (simp add: disjoint_from_def list_all_iff)

lemma no_overlap_iff:
  "distinct (map su_pk ss) \<Longrightarrow>
   no_overlap ss \<longleftrightarrow> (\<forall>s \<in> set ss. \<forall>t \<in> set ss. su_pk s \<noteq> su_pk t \<longrightarrow> disjoint_from s t)"
proof (induction ss)
  case (Cons x ss)
  have "\<forall>t \<in> set ss. su_pk t \<noteq> su_pk x" using Cons.prems by (force simp: image_iff)
  then show ?case using Cons disjoint_from_sym unfolding no_overlap_Cons by auto
qed simp

lemma row_check_InrD:
  assumes "suspension_row_check today others s = Inr ()"
  shows "su_start_at s \<le> su_end_at s" "su_start_at s \<le> today"
    and "t \<in> set others \<Longrightarrow> disjoint_from s t"
  using assms by (auto simp: suspension_row_check_def list_ex_iff disjoint_from_def)

lemma insert_suspension_ok:
  assumes "suspension_table_ok (db_suspensions db)" "insert_suspension today now s db = Inr db'"
  shows "suspension_table_ok (db_suspensions db')"
proof -
  obtain s' where s': "s' = s\<lparr>su_pk := next_pk su_pk (db_suspensions db)\<rparr>"
    and chk: "suspension_row_check today (db_suspensions db) s' = Inr ()"
    and sh: "shift_end_at now (su_approval s) (su_end_at s - su_start_at s)
      (db\<lparr>db_suspensions := db_suspensions db @ [s']\<rparr>) = Inr db'"
    using insert_suspension_InrD [OF assms(2)] by blast
  have rows: "db_suspensions db' = db_suspensions db @ [s']" using shift_end_at_frame(1) [OF sh] by simp
  have "su_pk s' \<notin> su_pk ` set (db_suspensions db)" by (simp add: s')
  then have d: "distinct (map su_pk (db_suspensions db @ [s']))"
    using assms(1) by (auto simp: suspension_table_ok_def)
  show ?thesis
    using assms(1) d row_check_InrD [OF chk] disjoint_from_sym no_overlap_iff [OF d]
      no_overlap_iff [of "db_suspensions db"]
    unfolding rows suspension_table_ok_def by auto
qed

lemma update_suspension_ok:
  assumes "suspension_table_ok (db_suspensions db)" "update_suspension today now s db = Inr db'"
  shows "suspension_table_ok (db_suspensions db')"
proof (cases "get_row su_pk (su_pk s) (db_suspensions db)")
  case None
  then show ?thesis using assms by (simp add: update_suspension_def)
next
  case (Some old)
  note U = update_suspension_InrD [OF assms(2) Some]
  let ?rows = "map_rows (\<lambda>t. su_pk t = su_pk s) (\<lambda>_. s) (db_suspensions db)"
  have rows: "db_suspensions db' = ?rows" using shift_end_at_frame(1) [OF U(2)] by simp
  have "map su_pk ?rows = map su_pk (db_suspensions db)" by (rule map_rows_key) simp
  then have d: "distinct (map su_pk ?rows)" using assms(1) by (simp add: suspension_table_ok_def)
  have old: "no_overlap (db_suspensions db)" "distinct (map su_pk (db_suspensions db))"
    "list_all (\<lambda>s. su_start_at s \<le> su_end_at s) (db_suspensions db)"
    using assms(1) by (simp_all add: suspension_table_ok_def)
  have dis: "disjoint_from s t" if "t \<in> set (db_suspensions db)" "su_pk t \<noteq> su_pk s" for t
    using row_check_InrD(3) [OF U(1)] that by simp
  have "no_overlap ?rows" unfolding no_overlap_iff [OF d] set_map_rows
    using dis disjoint_from_sym no_overlap_iff [OF old(2)] old(1) by auto
  moreover have "list_all (\<lambda>s. su_start_at s \<le> su_end_at s) ?rows"
    using old(3) row_check_InrD(1) [OF U(1)] by (auto simp: list_all_iff set_map_rows)
  ultimately show ?thesis using d unfolding rows suspension_table_ok_def by blast
qed

lemma no_overlap_filter: "no_overlap ss \<Longrightarrow> no_overlap (filter p ss)"
  by (induction ss) (auto simp: list_all_iff)

lemma delete_suspension_ok:
  assumes "suspension_table_ok (db_suspensions db)" "delete_suspension now s db = Inr db'"
  shows "suspension_table_ok (db_suspensions db')"
  using assms(1) susp.del_rows [OF assms(2)]
  by (auto simp: suspension_table_ok_def distinct_map_filter no_overlap_filter list_all_iff)

section \<open>Lemmas on unsuspending\<close>

text \<open>With no suspension in the future and no overlap, the other suspensions ended before the one
  in progress started.\<close>

lemma others_ended_before:
  assumes "suspension_table_ok ss" "\<forall>t \<in> set ss. su_start_at t \<le> today"
    and "s \<in> set ss" "su_start_at s \<le> today" "today \<le> su_end_at s"
    and "t \<in> set ss" "su_pk t \<noteq> su_pk s" "su_approval t = su_approval s"
  shows "su_end_at t < su_start_at s"
proof -
  have "disjoint_from s t"
    using assms no_overlap_iff [of ss] by (auto simp: suspension_table_ok_def)
  moreover have "su_start_at t \<le> su_end_at t" "su_start_at t \<le> today"
    using assms by (auto simp: suspension_table_ok_def list_all_iff)
  ultimately show ?thesis using assms by (auto simp: disjoint_from_def overlaps_incl_def)
qed

lemma unsuspend_cases:
  assumes "can_be_unsuspended today a (db_suspensions db)"
  obtains s where "last_in_progress_suspension today a (db_suspensions db) = Some s"
    and "su_reason s \<in> set reasons_allowing_unsuspend"
    and "unsuspend today now a hiring db =
      (if su_start_at s = hiring then delete_suspension now s db
       else update_suspension today now (s\<lparr>su_end_at := hiring - 1, su_updated_at := now\<rparr>) db)"
  using assms by (auto simp: can_be_unsuspended_def unsuspend_def split: if_splits option.splits)

lemma unsuspend_noop:
  "\<not> can_be_unsuspended today a (db_suspensions db) \<Longrightarrow> unsuspend today now a hiring db = Inr db"
  by (auto simp: unsuspend_def split: option.splits)

text \<open>The suspensions of the approval after a successful \<open>unsuspend\<close> end before the hiring.\<close>

lemma unsuspend_not_suspended:
  assumes "suspension_table_ok (db_suspensions db)"
    and "\<forall>t \<in> set (db_suspensions db). su_start_at t \<le> today"
    and "can_be_unsuspended today a (db_suspensions db)"
    and "unsuspend today now a hiring db = Inr db'"
  shows "\<not> is_suspended hiring a (db_suspensions db')"
proof -
  obtain s where last: "last_in_progress_suspension today a (db_suspensions db) = Some s"
    and eq: "unsuspend today now a hiring db =
      (if su_start_at s = hiring then delete_suspension now s db
       else update_suspension today now (s\<lparr>su_end_at := hiring - 1, su_updated_at := now\<rparr>) db)"
    using unsuspend_cases [OF assms(3)] by metis
  note S = last_in_progress_SomeD [OF last]
  have others: "su_end_at t < su_start_at s"
    if "t \<in> set (db_suspensions db)" "su_pk t \<noteq> su_pk s" "su_approval t = ap_pk a" for t
    by (rule others_ended_before [OF assms(1,2) S(1,3,4) that(1,2)]) (use that S in simp)
  show ?thesis
  proof (cases "su_start_at s = hiring")
    case True
    then have "delete_suspension now s db = Inr db'" using eq assms(4) by simp
    then show ?thesis using susp.del_rows others True by (force simp: is_suspended_iff)
  next
    case False
    let ?s = "s\<lparr>su_end_at := hiring - 1, su_updated_at := now\<rparr>"
    have u: "update_suspension today now ?s db = Inr db'" using eq assms(4) False by simp
    have g: "get_row su_pk (su_pk ?s) (db_suspensions db) = Some s"
      using assms(1) S(1) by (simp add: get_row_Some_iff suspension_table_ok_def)
    have "su_start_at s < hiring" using row_check_InrD(1) [OF update_suspension_InrD(1) [OF u g]] by simp
    then show ?thesis using susp.upd_rows [OF u g] others
      by (force simp: is_suspended_iff set_map_rows)
  qed
qed

end
