(* ===== verification/Prolongations.thy ===== *)
theory Prolongations
  imports Suspensions
begin

text \<open>
  \<open>CommonProlongation\<close>, \<open>ProlongationRequest\<close>, \<open>ProlongationRequestDenyInformation\<close> and
  \<open>Prolongation\<close> of \<open>approvals/models.py\<close>, with the limits the form of
  \<open>www/approvals_views/forms.py\<close> puts on the end date.  The memberships of companies
  (\<open>CompanyMembership.include_inactive\<close>) are a list of pairs of company and user;
  \<open>authorized\<close> tells which users are prescribers with an authorized organization.  The table of
  prolongations implements the contract \<open>approval_extender\<close>.
\<close>

section \<open>Rules\<close>

record prolongation_rule =
  rule_max_duration :: days
  rule_max_cumulative_duration :: "days option"

fun prolongation_rules :: "prolongation_reason \<Rightarrow> prolongation_rule" where
  "prolongation_rules SENIOR_CDI = \<lparr>rule_max_duration = 10 * 365, rule_max_cumulative_duration = None\<rparr>"
| "prolongation_rules COMPLETE_TRAINING =
     \<lparr>rule_max_duration = 365, rule_max_cumulative_duration = None\<rparr>"
| "prolongation_rules RQTH = \<lparr>rule_max_duration = 365, rule_max_cumulative_duration = Some (3 * 365)\<rparr>"
| "prolongation_rules SENIOR = \<lparr>rule_max_duration = 365, rule_max_cumulative_duration = Some (5 * 365)\<rparr>"
| "prolongation_rules PARTICULAR_DIFFICULTIES =
     \<lparr>rule_max_duration = 365, rule_max_cumulative_duration = Some (3 * 365)\<rparr>"
| "prolongation_rules HEALTH_CONTEXT =
     \<lparr>rule_max_duration = 365, rule_max_cumulative_duration = Some 365\<rparr>"

definition reasons_not_need_prescriber_opinion :: "prolongation_reason list" where
  "reasons_not_need_prescriber_opinion = [SENIOR_CDI, COMPLETE_TRAINING]"

definition prolongation_duration :: "('a::type) common_prolongation_scheme \<Rightarrow> days" where
  "prolongation_duration p = pl_end_at p - pl_start_at p"

text \<open>The loop of \<open>get_cumulative_duration_for\<close>.\<close>

definition get_cumulative_duration_for :: "prolongation list \<Rightarrow> pk \<Rightarrow> pk list \<Rightarrow> days" where
  "get_cumulative_duration_for ps approval_id ignore =
     foldl (\<lambda>acc p. acc + prolongation_duration p) 0
       (filter (\<lambda>p. pl_approval p = approval_id \<and> pl_pk p \<notin> set ignore) ps)"

definition prolongation_get_max_end_at ::
  "prolongation list \<Rightarrow> pk \<Rightarrow> date \<Rightarrow> prolongation_reason \<Rightarrow> pk list \<Rightarrow> date" where
  "prolongation_get_max_end_at ps approval_id start_at reason ignore =
     (case rule_max_cumulative_duration (prolongation_rules reason) of
        None \<Rightarrow> start_at + rule_max_duration (prolongation_rules reason)
      | Some limit \<Rightarrow> start_at + (limit - get_cumulative_duration_for ps approval_id ignore))"

text \<open>\<open>CreateProlongationForm.__init__\<close>: the reasons offered to the structure and the greatest end
  date the validators accept.\<close>

definition form_reason_choices :: "prolongation list \<Rightarrow> pk \<Rightarrow> company_kind \<Rightarrow> prolongation_reason list"
  where
  "form_reason_choices ps approval_id siae_kind =
     filter (\<lambda>r. case rule_max_cumulative_duration (prolongation_rules r) of
         None \<Rightarrow> True
       | Some limit \<Rightarrow> \<not> limit \<le> get_cumulative_duration_for ps approval_id [])
       (prolongation_reason_for_company siae_kind)"

definition form_max_end_at :: "prolongation list \<Rightarrow> pk \<Rightarrow> date \<Rightarrow> prolongation_reason \<Rightarrow> date" where
  "form_max_end_at ps approval_id start_at reason =
     min (start_at + rule_max_duration (prolongation_rules reason))
         (prolongation_get_max_end_at ps approval_id start_at reason [])"

definition form_accepts ::
  "prolongation list \<Rightarrow> approval \<Rightarrow> company_kind \<Rightarrow> prolongation_reason \<Rightarrow> date \<Rightarrow> bool" where
  "form_accepts ps a siae_kind reason end_at \<longleftrightarrow>
     reason \<in> set (form_reason_choices ps (ap_pk a) siae_kind) \<and>
     ap_end_at a \<le> end_at \<and> end_at \<le> form_max_end_at ps (ap_pk a) (ap_end_at a) reason"

section \<open>Validation\<close>

definition common_prolongation_clean ::
  "db \<Rightarrow> (pk \<times> pk) list \<Rightarrow> approval \<Rightarrow> bool \<Rightarrow> date option
   \<Rightarrow> ('a::type) common_prolongation_scheme \<Rightarrow> error + unit" where
  "common_prolongation_clean db memberships a has_pk end_at p =
     (case end_at of
        None \<Rightarrow> Inr ()
      | Some e \<Rightarrow>
          rbind (guard (\<not> e - pl_start_at p < 1) (ValidationError ''end_at'')) (\<lambda>_.
          rbind (guard (\<not> prolongation_get_max_end_at (db_prolongations db) (pl_approval p)
                     (pl_start_at p) (pl_reason p) (if has_pk then [pl_pk p] else []) < e)
                   (ValidationError ''end_at too late'')) (\<lambda>_.
          rbind (guard (pl_reason p = PARTICULAR_DIFFICULTIES \<longrightarrow>
                     (case pl_declared_by_siae p of None \<Rightarrow> False
                      | Some c \<Rightarrow> company_kind_of db c \<in> {Some AI, Some ACI}))
                   (ValidationError ''reason reserved to AI and ACI'')) (\<lambda>_.
          rbind (guard (has_pk \<or> pl_start_at p = ap_end_at a) (ValidationError ''start_at'')) (\<lambda>_.
          rbind (if pl_reason p \<in> set prolongation_report_file_reasons
                 then guard (\<not> (pl_require_phone_interview p \<and>
                        \<not> (pl_contact_email p \<noteq> [] \<and> pl_contact_phone p \<noteq> [])))
                        (ValidationError ''contact required'')
                 else guard (\<not> (pl_require_phone_interview p \<or> pl_contact_email p \<noteq> [] \<or>
                        pl_contact_phone p \<noteq> [])) (ValidationError ''contact forbidden'')) (\<lambda>_.
          guard (case pl_declared_by p of None \<Rightarrow> True
                 | Some u \<Rightarrow> (case pl_declared_by_siae p of None \<Rightarrow> False
                     | Some c \<Rightarrow> (c, u) \<in> set memberships)) (ValidationError ''declared_by'')))))))"

definition prolongation_request_clean ::
  "(pk \<Rightarrow> bool) \<Rightarrow> db \<Rightarrow> (pk \<times> pk) list \<Rightarrow> approval \<Rightarrow> bool \<Rightarrow> date option
   \<Rightarrow> prolongation_request \<Rightarrow> error + unit" where
  "prolongation_request_clean authorized db memberships a has_pk end_at r =
     rbind (common_prolongation_clean db memberships a has_pk end_at r) (\<lambda>_.
     guard (authorized (prq_assigned_to r)) (ValidationError ''assigned_to''))"

definition prolongation_clean ::
  "(pk \<Rightarrow> bool) \<Rightarrow> db \<Rightarrow> (pk \<times> pk) list \<Rightarrow> approval \<Rightarrow> bool \<Rightarrow> date option
   \<Rightarrow> prolongation \<Rightarrow> error + unit" where
  "prolongation_clean authorized db memberships a has_pk end_at p =
     rbind (common_prolongation_clean db memberships a has_pk end_at p) (\<lambda>_.
     guard (case pl_validated_by p of None \<Rightarrow> True | Some v \<Rightarrow> authorized v)
       (ValidationError ''validated_by''))"

section \<open>Table of prolongations\<close>

definition report_file_constraint :: "('a::type) common_prolongation_scheme \<Rightarrow> bool" where
  "report_file_constraint p \<longleftrightarrow>
     pl_report_file p = None \<or> pl_reason p \<in> set prolongation_report_file_reasons"

definition prolongation_row_check :: "prolongation list \<Rightarrow> prolongation \<Rightarrow> error + unit" where
  "prolongation_row_check others p =
     rbind (guard (report_file_constraint p) (IntegrityError ''reason_and_report_file_coherence'')) (\<lambda>_.
     rbind (guard (pl_start_at p \<le> pl_end_at p)
       (DataError ''range lower bound must be less than or equal to range upper bound'')) (\<lambda>_.
     rbind (guard (\<not> list_ex (\<lambda>q. pl_approval q = pl_approval p \<and>
         overlaps_excl (pl_start_at p) (pl_end_at p) (pl_start_at q) (pl_end_at q)) others)
       (IntegrityError ''exclude_prolongation_overlapping_dates'')) (\<lambda>_.
     rbind (guard (pl_request p = None \<or> \<not> list_ex (\<lambda>q. pl_request q = pl_request p) others)
       (IntegrityError ''request_id'')) (\<lambda>_.
     guard (pl_report_file p = None \<or> \<not> list_ex (\<lambda>q. pl_report_file q = pl_report_file p) others)
       (IntegrityError ''report_file_id'')))))"

definition prolongation_trigger_insert :: "datetime \<Rightarrow> prolongation \<Rightarrow> db \<Rightarrow> error + db" where
  "prolongation_trigger_insert now new db =
     shift_end_at now (pl_approval new) (pl_end_at new - pl_start_at new) db"

definition prolongation_trigger_update ::
  "datetime \<Rightarrow> prolongation \<Rightarrow> prolongation \<Rightarrow> db \<Rightarrow> error + db" where
  "prolongation_trigger_update now old new db =
     shift_end_at now (pl_approval new)
       (- (pl_end_at old - pl_start_at old) + (pl_end_at new - pl_start_at new)) db"

definition insert_prolongation :: "datetime \<Rightarrow> prolongation \<Rightarrow> db \<Rightarrow> error + db" where
  "insert_prolongation now p db =
     (let p' = p\<lparr>pl_pk := next_pk pl_pk (db_prolongations db)\<rparr> in
      rbind (guard (approval_exists (pl_approval p) db) (IntegrityError ''approval_id'')) (\<lambda>_.
      rbind (prolongation_row_check (db_prolongations db) p') (\<lambda>_.
      prolongation_trigger_insert now p' (db\<lparr>db_prolongations := db_prolongations db @ [p']\<rparr>))))"

definition update_prolongation :: "datetime \<Rightarrow> prolongation \<Rightarrow> db \<Rightarrow> error + db" where
  "update_prolongation now p db =
     (case get_row pl_pk (pl_pk p) (db_prolongations db) of
        None \<Rightarrow> Inr db
      | Some old \<Rightarrow>
          rbind (guard (approval_exists (pl_approval p) db) (IntegrityError ''approval_id'')) (\<lambda>_.
          rbind (prolongation_row_check (filter (\<lambda>q. pl_pk q \<noteq> pl_pk p) (db_prolongations db)) p) (\<lambda>_.
          prolongation_trigger_update now old p
            (db\<lparr>db_prolongations := map_rows (\<lambda>q. pl_pk q = pl_pk p) (\<lambda>_. p) (db_prolongations db)\<rparr>))))"

section \<open>Requests\<close>

definition request_row_check :: "prolongation_request list \<Rightarrow> prolongation_request \<Rightarrow> error + unit" where
  "request_row_check others r =
     rbind (guard (report_file_constraint r) (IntegrityError ''reason_and_report_file_coherence'')) (\<lambda>_.
     rbind (guard (\<not> pl_require_phone_interview r \<or> (pl_contact_email r \<noteq> [] \<and> pl_contact_phone r \<noteq> []))
       (IntegrityError ''require_phone_interview'')) (\<lambda>_.
     rbind (guard (pl_report_file r = None \<or> \<not> list_ex (\<lambda>q. pl_report_file q = pl_report_file r) others)
       (IntegrityError ''report_file_id'')) (\<lambda>_.
     guard (prq_status r \<noteq> PR_PENDING \<or>
            \<not> list_ex (\<lambda>q. prq_status q = PR_PENDING \<and> pl_approval q = pl_approval r) others)
       (IntegrityError ''approval_for_pending''))))"

definition insert_prolongation_request :: "prolongation_request \<Rightarrow> db \<Rightarrow> error + db" where
  "insert_prolongation_request r db =
     (let r' = r\<lparr>pl_pk := next_pk pl_pk (db_prolongation_requests db)\<rparr> in
      rbind (guard (approval_exists (pl_approval r) db) (IntegrityError ''approval_id'')) (\<lambda>_.
      rbind (request_row_check (db_prolongation_requests db) r') (\<lambda>_.
      Inr (db\<lparr>db_prolongation_requests := db_prolongation_requests db @ [r']\<rparr>))))"

definition update_prolongation_request :: "prolongation_request \<Rightarrow> db \<Rightarrow> error + db" where
  "update_prolongation_request r db =
     rbind (guard (approval_exists (pl_approval r) db) (IntegrityError ''approval_id'')) (\<lambda>_.
     rbind (request_row_check (filter (\<lambda>q. pl_pk q \<noteq> pl_pk r) (db_prolongation_requests db)) r) (\<lambda>_.
     Inr (db\<lparr>db_prolongation_requests :=
            map_rows (\<lambda>q. pl_pk q = pl_pk r) (\<lambda>_. r) (db_prolongation_requests db)\<rparr>)))"

text \<open>\<open>Prolongation.from_prolongation_request\<close>: the copied fields, the defaults of the others.\<close>

definition from_prolongation_request :: "datetime \<Rightarrow> prolongation_request \<Rightarrow> prolongation" where
  "from_prolongation_request now r =
     \<lparr>pl_pk = 0, pl_approval = pl_approval r, pl_start_at = pl_start_at r, pl_end_at = pl_end_at r,
      pl_reason = pl_reason r, pl_reason_explanation = pl_reason_explanation r,
      pl_declared_by = pl_declared_by r, pl_declared_by_siae = pl_declared_by_siae r,
      pl_prescriber_organization = pl_prescriber_organization r, pl_created_at = now,
      pl_created_by = pl_created_by r, pl_updated_at = now, pl_updated_by = None,
      pl_report_file = pl_report_file r, pl_require_phone_interview = pl_require_phone_interview r,
      pl_contact_email = pl_contact_email r, pl_contact_phone = pl_contact_phone r,
      pl_request = Some (pl_pk r), pl_validated_by = prq_processed_by r\<rparr>"

text \<open>\<open>grant\<close> and \<open>deny\<close>; an error in the transaction undoes both writes, and the notifications sent
  afterwards are not modelled.\<close>

definition process_request ::
  "datetime \<Rightarrow> pk \<Rightarrow> prolongation_request_status \<Rightarrow> prolongation_request \<Rightarrow> prolongation_request" where
  "process_request now user status r =
     r\<lparr>prq_status := status, prq_processed_by := Some user, prq_processed_at := Some now,
       pl_updated_by := Some user\<rparr>"

definition grant :: "datetime \<Rightarrow> pk \<Rightarrow> prolongation_request \<Rightarrow> db \<Rightarrow> error + db" where
  "grant now user r db =
     (let r' = process_request now user PR_GRANTED r in
      rbind (insert_prolongation now (from_prolongation_request now r') db)
        (update_prolongation_request (r'\<lparr>pl_updated_at := now\<rparr>)))"

definition insert_deny_information :: "deny_information \<Rightarrow> db \<Rightarrow> error + db" where
  "insert_deny_information d db =
     rbind (guard (di_proposed_actions d \<noteq> Some []) (IntegrityError ''non_empty_proposed_actions'')) (\<lambda>_.
     rbind (guard (\<not> list_ex (\<lambda>e. di_request e = di_request d) (db_deny_informations db))
       (IntegrityError ''request_id'')) (\<lambda>_.
     Inr (db\<lparr>db_deny_informations := db_deny_informations db @ [d]\<rparr>)))"

definition deny :: "datetime \<Rightarrow> pk \<Rightarrow> deny_information \<Rightarrow> prolongation_request \<Rightarrow> db \<Rightarrow> error + db" where
  "deny now user information r db =
     (let r' = process_request now user PR_DENIED r in
      rbind (insert_deny_information (information\<lparr>di_request := pl_pk r\<rparr>) db)
        (update_prolongation_request (r'\<lparr>pl_updated_at := now\<rparr>)))"

section \<open>The prolongations extend their approval\<close>

lemma insert_prolongation_InrD:
  assumes "insert_prolongation now p db = Inr db'"
  obtains p' where "p' = p\<lparr>pl_pk := next_pk pl_pk (db_prolongations db)\<rparr>"
    and "prolongation_row_check (db_prolongations db) p' = Inr ()"
    and "shift_end_at now (pl_approval p) (prolongation_duration p)
      (db\<lparr>db_prolongations := db_prolongations db @ [p']\<rparr>) = Inr db'"
  using assms
  by (auto simp: insert_prolongation_def prolongation_trigger_insert_def prolongation_duration_def Let_def)

lemma update_prolongation_InrD:
  assumes "update_prolongation now p db = Inr db'"
    and "get_row pl_pk (pl_pk p) (db_prolongations db) = Some old"
  shows "prolongation_row_check (filter (\<lambda>q. pl_pk q \<noteq> pl_pk p) (db_prolongations db)) p = Inr ()"
    and "shift_end_at now (pl_approval p) (prolongation_duration p - prolongation_duration old)
      (db\<lparr>db_prolongations := map_rows (\<lambda>q. pl_pk q = pl_pk p) (\<lambda>_. p) (db_prolongations db)\<rparr>) = Inr db'"
  using assms
  by (auto simp: update_prolongation_def prolongation_trigger_update_def prolongation_duration_def
      algebra_simps)

interpretation prol: approval_extender db_prolongations pl_pk pl_approval prolongation_duration
  insert_prolongation update_prolongation delete_prolongation
proof
  fix now p db db' k
  assume i: "insert_prolongation now p db = Inr db'"
  then obtain p' where p': "p' = p\<lparr>pl_pk := next_pk pl_pk (db_prolongations db)\<rparr>"
    and sh: "shift_end_at now (pl_approval p) (prolongation_duration p)
      (db\<lparr>db_prolongations := db_prolongations db @ [p']\<rparr>) = Inr db'"
    by (rule insert_prolongation_InrD)
  show "\<exists>r'. db_prolongations db' = db_prolongations db @ [r'] \<and> pl_approval r' = pl_approval p \<and>
      prolongation_duration r' = prolongation_duration p \<and> pl_pk r' \<notin> pl_pk ` set (db_prolongations db)"
    using shift_end_at_frame(2) [OF sh] p' by (auto simp: prolongation_duration_def)
  show "end_of db' k =
      map_option (\<lambda>e. e + (if pl_approval p = k then prolongation_duration p else 0)) (end_of db k)"
    using shift_end_at_end_of [OF sh, of k] by simp
next
  fix now p db db' old k
  assume u: "update_prolongation now p db = Inr db'"
  show "db' = db" if "get_row pl_pk (pl_pk p) (db_prolongations db) = None"
    using u that by (simp add: update_prolongation_def)
  assume o: "get_row pl_pk (pl_pk p) (db_prolongations db) = Some old"
  note sh = update_prolongation_InrD(2) [OF u o]
  show "db_prolongations db' = map_rows (\<lambda>x. pl_pk x = pl_pk p) (\<lambda>_. p) (db_prolongations db)"
    using shift_end_at_frame(2) [OF sh] by simp
  show "end_of db' k = map_option (\<lambda>e. e + (if pl_approval p = k
      then prolongation_duration p - prolongation_duration old else 0)) (end_of db k)"
    using shift_end_at_end_of [OF sh, of k] by simp
next
  fix now p db db' k
  assume d: "delete_prolongation now p db = Inr db'"
  note sh = d [unfolded delete_prolongation_def]
  show "db_prolongations db' = filter (\<lambda>x. pl_pk x \<noteq> pl_pk p) (db_prolongations db)"
    using shift_end_at_frame(2) [OF sh] by simp
  show "end_of db' k =
      map_option (\<lambda>e. e - (if pl_approval p = k then prolongation_duration p else 0)) (end_of db k)"
    using shift_end_at_end_of [OF sh, of k]
    by (cases "end_of db k") (auto simp: prolongation_duration_def)
qed

section \<open>Lemmas\<close>

lemma foldl_add: "foldl (\<lambda>acc p. acc + f p) (z::int) ps = z + sum_by f ps"
  by (induction ps arbitrary: z) auto

lemma cumulative_duration_sum:
  "get_cumulative_duration_for ps k ign =
     total_duration pl_approval prolongation_duration k (filter (\<lambda>p. pl_pk p \<notin> set ign) ps)"
  by (simp add: get_cumulative_duration_for_def foldl_add total_duration_def conj_commute)

lemma max_cumulative_pos: "rule_max_cumulative_duration (prolongation_rules r) = Some m \<Longrightarrow> 0 < m"
  by (cases r) auto

lemma update_request_InrD:
  assumes "update_prolongation_request r db = Inr db'"
  shows "db' = db\<lparr>db_prolongation_requests :=
    map_rows (\<lambda>q. pl_pk q = pl_pk r) (\<lambda>_. r) (db_prolongation_requests db)\<rparr>"
  using assms by (auto simp: update_prolongation_request_def)

lemma grant_InrD:
  assumes "grant now user r db = Inr db'"
  obtains db1 where
    "insert_prolongation now (from_prolongation_request now (process_request now user PR_GRANTED r)) db = Inr db1"
    and "db' = db1\<lparr>db_prolongation_requests := map_rows (\<lambda>q. pl_pk q = pl_pk r)
      (\<lambda>_. (process_request now user PR_GRANTED r)\<lparr>pl_updated_at := now\<rparr>) (db_prolongation_requests db1)\<rparr>"
proof -
  obtain db1 where db1:
    "insert_prolongation now (from_prolongation_request now (process_request now user PR_GRANTED r)) db = Inr db1"
    "update_prolongation_request ((process_request now user PR_GRANTED r)\<lparr>pl_updated_at := now\<rparr>) db1 = Inr db'"
    using assms by (auto simp: grant_def Let_def)
  show ?thesis
    by (rule that [OF db1(1)]) (use update_request_InrD [OF db1(2)] in \<open>simp add: process_request_def\<close>)
qed

lemma from_request_simps [simp]:
  "pl_approval (from_prolongation_request now r) = pl_approval r"
  "pl_start_at (from_prolongation_request now r) = pl_start_at r"
  "pl_end_at (from_prolongation_request now r) = pl_end_at r"
  "pl_reason (from_prolongation_request now r) = pl_reason r"
  "pl_request (from_prolongation_request now r) = Some (pl_pk r)"
  "pl_validated_by (from_prolongation_request now r) = prq_processed_by r"
  by (simp_all add: from_prolongation_request_def)

lemma process_request_simps [simp]:
  "pl_approval (process_request now u st r) = pl_approval r"
  "pl_start_at (process_request now u st r) = pl_start_at r"
  "pl_end_at (process_request now u st r) = pl_end_at r"
  "pl_reason (process_request now u st r) = pl_reason r"
  "pl_pk (process_request now u st r) = pl_pk r"
  "prq_status (process_request now u st r) = st"
  "prq_processed_by (process_request now u st r) = Some u"
  by (simp_all add: process_request_def)

end
