(* ===== verification/Pe_Notifications.thy ===== *)
theory Pe_Notifications
  imports Approval_Dates
begin

text \<open>
  \<open>PENotificationMixin\<close>, \<open>CancelledApproval.notify_pole_emploi\<close> and \<open>Approval.notify_pole_emploi\<close> of
  \<open>approvals/models.py\<close>.  The client of the France Travail API, which the methods take as an
  argument, is a record of two functions: the search of a person and the update of a PASS IAE; each
  either answers, fails with a recoverable error (\<open>PoleEmploiAPIException\<close>) or with a coded one
  (\<open>PoleEmploiAPIBadResponse\<close>).
\<close>

datatype api_error = API_EXCEPTION | BAD_RESPONSE string

record maj_pass_request =
  mp_number :: string
  mp_start_at :: date
  mp_end_at :: date
  mp_id_national :: "string option"
  mp_siae_siret :: string
  mp_siae_type :: "nat option"
  mp_origine_candidature :: origine_candidature
  mp_typologie_prescripteur :: "typologie_prescripteur option"

record pe_client =
  recherche_individu_certifie :: "string \<Rightarrow> string \<Rightarrow> string \<Rightarrow> date \<Rightarrow> api_error + string"
  mise_a_jour_pass_iae :: "maj_pass_request \<Rightarrow> api_error + unit"

section \<open>Mixin\<close>

definition pe_notification_update ::
  "pe_notification_status \<Rightarrow> datetime \<Rightarrow> pe_endpoint option \<Rightarrow> pe_exit_code option \<Rightarrow> pe_notification" where
  "pe_notification_update status at endpoint exit_code =
     \<lparr>pe_status = status, pe_time = Some at, pe_endpoint_f = endpoint, pe_exit_code_f = exit_code\<rparr>"

definition pe_save_pending :: "datetime \<Rightarrow> pe_check_failure \<Rightarrow> pe_notification" where
  "pe_save_pending at reason = pe_notification_update PE_PENDING at None (Some (CHECK_FAILURE reason))"

definition pe_save_error :: "datetime \<Rightarrow> pe_endpoint option \<Rightarrow> pe_exit_code \<Rightarrow> pe_notification" where
  "pe_save_error at endpoint exit_code = pe_notification_update PE_ERROR at endpoint (Some exit_code)"

definition pe_save_should_retry :: "datetime \<Rightarrow> pe_notification" where
  "pe_save_should_retry at = pe_notification_update PE_SHOULD_RETRY at None None"

definition pe_save_success :: "datetime \<Rightarrow> pe_notification" where
  "pe_save_success at = pe_notification_update PE_SUCCESS at None None"

text \<open>\<open>pe_maj_pass\<close>, whose outcome is what is written on the row.\<close>

definition maj_request ::
  "string \<Rightarrow> date \<Rightarrow> date \<Rightarrow> string option \<Rightarrow> origin_info \<Rightarrow> maj_pass_request" where
  "maj_request number start_at pe_end_at id_national_pe oi =
     \<lparr>mp_number = number, mp_start_at = start_at, mp_end_at = pe_end_at, mp_id_national = id_national_pe,
      mp_siae_siret = oi_siae_siret oi, mp_siae_type = siae_kind_to_ft_type_siae (oi_siae_kind oi),
      mp_origine_candidature = sender_kind_to_pe_origine_candidature (oi_sender_kind oi),
      mp_typologie_prescripteur =
        map_option to_PE_typologie_prescripteur (oi_prescriber_organization_kind oi)\<rparr>"

definition pe_maj_pass :: "pe_client \<Rightarrow> maj_pass_request \<Rightarrow> datetime \<Rightarrow> pe_notification" where
  "pe_maj_pass client request at =
     (case mise_a_jour_pass_iae client request of
        Inl API_EXCEPTION \<Rightarrow> pe_save_should_retry at
      | Inl (BAD_RESPONSE code) \<Rightarrow> pe_save_error at (Some MISE_A_JOUR_PASS_IAE) (API_CODE code)
      | Inr _ \<Rightarrow> pe_save_success at)"

definition pe_recherche_error :: "api_error \<Rightarrow> datetime \<Rightarrow> pe_notification" where
  "pe_recherche_error e at =
     (case e of
        API_EXCEPTION \<Rightarrow> pe_save_should_retry at
      | BAD_RESPONSE code \<Rightarrow> pe_save_error at (Some RECHERCHE_INDIVIDU) (API_CODE code))"

definition set_approval_pe :: "pk \<Rightarrow> pe_notification \<Rightarrow> db \<Rightarrow> db" where
  "set_approval_pe k pe db =
     db\<lparr>db_approvals := map_rows (\<lambda>a. ap_pk a = k) (\<lambda>a. a\<lparr>ap_pe := pe\<rparr>) (db_approvals db)\<rparr>"

definition set_cancelled_pe :: "pk \<Rightarrow> pe_notification \<Rightarrow> db \<Rightarrow> db" where
  "set_cancelled_pe k pe db =
     db\<lparr>db_cancelled_approvals :=
          map_rows (\<lambda>c. ca_pk c = k) (\<lambda>c. c\<lparr>ca_pe := pe\<rparr>) (db_cancelled_approvals db)\<rparr>"

definition falsy :: "string option \<Rightarrow> bool" where
  "falsy s \<longleftrightarrow> (case s of None \<Rightarrow> True | Some t \<Rightarrow> t = [])"

section \<open>Cancelled approvals\<close>

text \<open>The decisions of \<open>notify_pole_emploi\<close>: the notification to write, and the national identifier
  when the search found one.\<close>

definition cancelled_pe_outcome ::
  "pe_client \<Rightarrow> date \<Rightarrow> datetime \<Rightarrow> cancelled_approval \<Rightarrow> pe_notification \<times> string option" where
  "cancelled_pe_outcome client today at c =
     (let maj = (\<lambda>id_national. pe_maj_pass client
                   (maj_request (ca_number c) (ca_start_at c) (ca_start_at c) id_national
                     (ca_origin_info c)) at)
      in
      if today < ca_start_at c then (pe_save_pending at STARTS_IN_FUTURE, None)
      else if siae_kind_to_ft_type_siae (oi_siae_kind (ca_origin_info c)) = None
        then (pe_save_error at None (CHECK_FAILURE INVALID_SIAE_KIND), None)
      else if ca_user_first_name c = [] \<or> ca_user_last_name c = [] \<or> ca_user_nir c = [] \<or>
        ca_user_birthdate c = None
        then (pe_save_pending at MISSING_USER_DATA, None)
      else if falsy (ca_user_id_national_pe c) then
        (case recherche_individu_certifie client (ca_user_first_name c) (ca_user_last_name c)
                (ca_user_nir c) (the (ca_user_birthdate c)) of
           Inl e \<Rightarrow> (pe_recherche_error e at, None)
         | Inr id_national \<Rightarrow> (maj (Some id_national), Some id_national))
      else (maj (ca_user_id_national_pe c), None))"

definition cancelled_notify_pole_emploi ::
  "pe_client \<Rightarrow> date \<Rightarrow> datetime \<Rightarrow> cancelled_approval \<Rightarrow> db \<Rightarrow> pe_notification_status \<times> db" where
  "cancelled_notify_pole_emploi client today at c db =
     (case cancelled_pe_outcome client today at c of (pe, found) \<Rightarrow>
        (pe_status pe, set_cancelled_pe (ca_pk c) pe
          (case found of
             None \<Rightarrow> db
           | Some i \<Rightarrow> db\<lparr>db_cancelled_approvals := map_rows (\<lambda>d. ca_pk d = ca_pk c)
                         (\<lambda>d. d\<lparr>ca_user_id_national_pe := Some i\<rparr>) (db_cancelled_approvals db)\<rparr>)))"

section \<open>Approvals\<close>

text \<open>The writes after a successful search: the profile (with \<open>JobSeekerProfile.save\<close>, which keeps
  the France Travail data since neither the birth date nor the NIR changes) and the certification.\<close>

definition record_certified_identity :: "datetime \<Rightarrow> pk \<Rightarrow> string \<Rightarrow> db \<Rightarrow> db" where
  "record_certified_identity now u id_national db =
     db\<lparr>db_certifications := upsert_certifications
          [\<lparr>ic_jobseeker_profile = u, ic_certifier = API_FT_RECHERCHE_INDIVIDU_CERTIFIE,
            ic_certified_at = now\<rparr>] (db_certifications db),
        db_profiles := map_rows (\<lambda>p. jp_user p = u)
          (\<lambda>p. p\<lparr>jp_pe_obfuscated_nir := Some id_national,
                 jp_pe_last_certification_attempt_at := Some now\<rparr>) (db_profiles db)\<rparr>"

definition approval_pe_outcome ::
  "pe_client \<Rightarrow> date \<Rightarrow> datetime \<Rightarrow> approval \<Rightarrow> user \<Rightarrow> jobseeker_profile
   \<Rightarrow> pe_notification \<times> string option" where
  "approval_pe_outcome client today now a u p =
     (let maj = (\<lambda>id_national. pe_maj_pass client
                   (maj_request (ap_number a) (ap_start_at a) (ap_end_at a) id_national
                     (ap_origin_info a)) now)
      in
      if today < ap_start_at a then (pe_save_pending now STARTS_IN_FUTURE, None)
      else if siae_kind_to_ft_type_siae (oi_siae_kind (ap_origin_info a)) = None
        then (pe_save_error now None (CHECK_FAILURE INVALID_SIAE_KIND), None)
      else if us_first_name u = [] \<or> us_last_name u = [] \<or> jp_nir p = [] \<or> jp_birthdate p = None
        then (pe_save_pending now MISSING_USER_DATA, None)
      else if falsy (jp_pe_obfuscated_nir p) then
        (case recherche_individu_certifie client (us_first_name u) (us_last_name u) (jp_nir p)
                (the (jp_birthdate p)) of
           Inl e \<Rightarrow> (pe_recherche_error e now, None)
         | Inr id_national \<Rightarrow> (maj (Some id_national), Some id_national))
      else (maj (jp_pe_obfuscated_nir p), None))"

definition approval_notify_pole_emploi ::
  "pe_client \<Rightarrow> date \<Rightarrow> datetime \<Rightarrow> approval \<Rightarrow> user \<Rightarrow> jobseeker_profile \<Rightarrow> db
   \<Rightarrow> pe_notification_status \<times> db" where
  "approval_notify_pole_emploi client today now a u p db =
     (case approval_pe_outcome client today now a u p of (pe, found) \<Rightarrow>
        (pe_status pe, set_approval_pe (ap_pk a) pe
          (case found of None \<Rightarrow> db | Some i \<Rightarrow> record_certified_identity now (us_pk u) i db)))"

section \<open>Lemmas\<close>

lemmas pe_save_defs = pe_save_pending_def pe_save_error_def pe_save_should_retry_def
  pe_save_success_def pe_notification_update_def pe_recherche_error_def

lemma pe_maj_pass_cases:
  obtains "mise_a_jour_pass_iae client r = Inl API_EXCEPTION" "pe_maj_pass client r at = pe_save_should_retry at"
  | code where "mise_a_jour_pass_iae client r = Inl (BAD_RESPONSE code)"
      "pe_maj_pass client r at = pe_save_error at (Some MISE_A_JOUR_PASS_IAE) (API_CODE code)"
  | "mise_a_jour_pass_iae client r = Inr ()" "pe_maj_pass client r at = pe_save_success at"
proof (cases "mise_a_jour_pass_iae client r")
  case (Inl e)
  then show ?thesis using that by (cases e) (simp_all add: pe_maj_pass_def)
next
  case (Inr u)
  then show ?thesis using that by (simp add: pe_maj_pass_def)
qed

lemma pe_maj_pass_status:
  "pe_status (pe_maj_pass client r at) \<in> {PE_SHOULD_RETRY, PE_ERROR, PE_SUCCESS}"
  "pe_status (pe_maj_pass client r at) = PE_SUCCESS \<longleftrightarrow> mise_a_jour_pass_iae client r = Inr ()"
  "pe_time (pe_maj_pass client r at) = Some at"
  by (rule pe_maj_pass_cases [of client r at]; simp add: pe_save_defs)+

lemma pe_recherche_error_status: "pe_status (pe_recherche_error e at) \<in> {PE_SHOULD_RETRY, PE_ERROR}"
  by (auto simp: pe_save_defs split: api_error.splits)

lemma set_approval_pe_get:
  "get_row ap_pk j (db_approvals (set_approval_pe k pe db)) =
     map_option (\<lambda>a. if ap_pk a = k then a\<lparr>ap_pe := pe\<rparr> else a) (get_row ap_pk j (db_approvals db))"
  unfolding set_approval_pe_def by (simp add: get_row_map_rows)

lemma set_approval_pe_ok:
  assumes "approval_table_ok (db_approvals db)"
  shows "approval_table_ok (db_approvals (set_approval_pe k pe db))"
proof -
  let ?rows = "map_rows (\<lambda>a. ap_pk a = k) (\<lambda>a. a\<lparr>ap_pe := pe\<rparr>) (db_approvals db)"
  have "map ap_pk ?rows = map ap_pk (db_approvals db)" "map ap_number ?rows = map ap_number (db_approvals db)"
    by (rule map_rows_key, simp)+
  moreover have "list_all approval_constraints ?rows"
    using assms by (auto simp: approval_table_ok_def list_all_iff set_map_rows approval_constraints_def)
  ultimately show ?thesis using assms by (simp add: approval_table_ok_def set_approval_pe_def)
qed

text \<open>A notification is a success only after every preliminary check passed and the service
  accepted the update; it is never left READY.\<close>

lemma approval_pe_outcome_success:
  assumes "pe_status (fst (approval_pe_outcome client today now a u p)) = PE_SUCCESS"
  obtains i where "ap_start_at a \<le> today"
    "siae_kind_to_ft_type_siae (oi_siae_kind (ap_origin_info a)) \<noteq> None"
    "us_first_name u \<noteq> []" "us_last_name u \<noteq> []" "jp_nir p \<noteq> []" "jp_birthdate p \<noteq> None"
    "mise_a_jour_pass_iae client
       (maj_request (ap_number a) (ap_start_at a) (ap_end_at a) i (ap_origin_info a)) = Inr ()"
proof -
  have checks: "\<not> today < ap_start_at a" "siae_kind_to_ft_type_siae (oi_siae_kind (ap_origin_info a)) \<noteq> None"
    "\<not> (us_first_name u = [] \<or> us_last_name u = [] \<or> jp_nir p = [] \<or> jp_birthdate p = None)"
    using assms by (auto simp: approval_pe_outcome_def pe_save_defs split: if_splits)
  let ?r = "recherche_individu_certifie client (us_first_name u) (us_last_name u) (jp_nir p)
    (the (jp_birthdate p))"
  have err: "pe_status (pe_recherche_error e now) \<noteq> PE_SUCCESS" for e
    using pe_recherche_error_status [of e now] by auto
  obtain i where "fst (approval_pe_outcome client today now a u p) = pe_maj_pass client
      (maj_request (ap_number a) (ap_start_at a) (ap_end_at a) i (ap_origin_info a)) now"
    using assms checks err
    by (cases "falsy (jp_pe_obfuscated_nir p)"; cases ?r) (auto simp: approval_pe_outcome_def Let_def)
  then have "mise_a_jour_pass_iae client
      (maj_request (ap_number a) (ap_start_at a) (ap_end_at a) i (ap_origin_info a)) = Inr ()"
    using assms pe_maj_pass_status(2) by metis
  with checks show ?thesis using that by auto
qed

lemma approval_pe_outcome_never_ready:
  "pe_status (fst (approval_pe_outcome client today now a u p)) \<noteq> PE_READY"
proof -
  have "pe_status (pe_maj_pass client r now) \<noteq> PE_READY" for r
    using pe_maj_pass_status(1) [of client r now] by auto
  moreover have "pe_status (pe_recherche_error e now) \<noteq> PE_READY" for e
    using pe_recherche_error_status [of e now] by auto
  ultimately show ?thesis
    by (auto simp: approval_pe_outcome_def Let_def pe_save_pending_def pe_save_error_def
        pe_notification_update_def split: sum.splits)
qed

lemma record_certified_identity_frame [simp]:
  "db_approvals (record_certified_identity now k i db) = db_approvals db"
  by (simp add: record_certified_identity_def)

lemma approval_notify_approvals:
  "db_approvals (snd (approval_notify_pole_emploi client today now a u p db)) =
     db_approvals (set_approval_pe (ap_pk a) (fst (approval_pe_outcome client today now a u p)) db)"
  by (simp add: approval_notify_pole_emploi_def set_approval_pe_def split: prod.splits option.splits)

end
