(* ===== verification/Approval_Lifecycle.thy ===== *)
theory Approval_Lifecycle
  imports Prolongations Pe_Notifications
begin

text \<open>
  The operations of \<open>approvals/models.py\<close> as one state machine over the database, and the invariant
  they keep: the constraints of the tables of approvals, suspensions, prolongations, requests and
  cancelled approvals, and at most one NEW notification per employee record.
\<close>

section \<open>Invariant\<close>

text \<open>Two rows: their dates do not overlap on one approval, no request nor report file is shared.\<close>

definition prolongations_compatible :: "prolongation \<Rightarrow> prolongation \<Rightarrow> bool" where
  "prolongations_compatible p q \<longleftrightarrow> (pl_pk p \<noteq> pl_pk q \<longrightarrow>
     \<not> (pl_approval p = pl_approval q \<and> overlaps_excl (pl_start_at p) (pl_end_at p) (pl_start_at q) (pl_end_at q)) \<and>
     (pl_request p \<noteq> None \<longrightarrow> pl_request p \<noteq> pl_request q) \<and>
     (pl_report_file p \<noteq> None \<longrightarrow> pl_report_file p \<noteq> pl_report_file q))"

definition requests_compatible :: "prolongation_request \<Rightarrow> prolongation_request \<Rightarrow> bool" where
  "requests_compatible r q \<longleftrightarrow> (pl_pk r \<noteq> pl_pk q \<longrightarrow>
     \<not> (prq_status r = PR_PENDING \<and> prq_status q = PR_PENDING \<and> pl_approval r = pl_approval q) \<and>
     (pl_report_file r \<noteq> None \<longrightarrow> pl_report_file r \<noteq> pl_report_file q))"

definition prolongation_table_ok :: "prolongation list \<Rightarrow> bool" where
  "prolongation_table_ok ps \<longleftrightarrow>
     distinct (map pl_pk ps) \<and>
     list_all (\<lambda>p. pl_start_at p \<le> pl_end_at p \<and> report_file_constraint p) ps \<and>
     list_all (\<lambda>p. list_all (prolongations_compatible p) ps) ps"

definition request_table_ok :: "prolongation_request list \<Rightarrow> bool" where
  "request_table_ok rs \<longleftrightarrow>
     distinct (map pl_pk rs) \<and>
     list_all (\<lambda>r. report_file_constraint r \<and>
       (pl_require_phone_interview r \<longrightarrow> pl_contact_email r \<noteq> [] \<and> pl_contact_phone r \<noteq> [])) rs \<and>
     list_all (\<lambda>r. list_all (requests_compatible r) rs) rs"

definition cancelled_table_ok :: "cancelled_approval list \<Rightarrow> bool" where
  "cancelled_table_ok cs \<longleftrightarrow>
     distinct (map ca_number cs) \<and> list_all cancelled_approval_constraints cs"

definition approvals_inv :: "db \<Rightarrow> bool" where
  "approvals_inv db \<longleftrightarrow>
     approval_table_ok (db_approvals db) \<and> suspension_table_ok (db_suspensions db) \<and>
     prolongation_table_ok (db_prolongations db) \<and> request_table_ok (db_prolongation_requests db) \<and>
     cancelled_table_ok (db_cancelled_approvals db) \<and> new_notifications_unique (db_er_notifications db)"

section \<open>Steps\<close>

inductive approvals_step :: "date \<Rightarrow> db \<Rightarrow> db \<Rightarrow> bool" where
  create: "approval_save_new today a db = Inr (a', db') \<Longrightarrow> approvals_step today db db'"
| save: "approval_save today now a db = Inr db' \<Longrightarrow> approvals_step today db db'"
| start_date: "update_start_date today now a d db = Inr (b, a', db') \<Longrightarrow> approvals_step today db db'"
| delete: "approval_delete now a db = Inr db' \<Longrightarrow> approvals_step today db db'"
| suspend: "insert_suspension today now s db = Inr db' \<Longrightarrow> approvals_step today db db'"
| edit_suspension: "update_suspension today now s db = Inr db' \<Longrightarrow> approvals_step today db db'"
| remove_suspension: "delete_suspension now s db = Inr db' \<Longrightarrow> approvals_step today db db'"
| unsuspending: "unsuspend today now a d db = Inr db' \<Longrightarrow> approvals_step today db db'"
| prolong: "insert_prolongation now p db = Inr db' \<Longrightarrow> approvals_step today db db'"
| edit_prolongation: "update_prolongation now p db = Inr db' \<Longrightarrow> approvals_step today db db'"
| remove_prolongation: "delete_prolongation now p db = Inr db' \<Longrightarrow> approvals_step today db db'"
| request: "insert_prolongation_request r db = Inr db' \<Longrightarrow> approvals_step today db db'"
| granting: "grant now u r db = Inr db' \<Longrightarrow> approvals_step today db db'"
| denying: "deny now u d r db = Inr db' \<Longrightarrow> approvals_step today db db'"
| notify: "approval_notify_pole_emploi client today now a u p db = (st, db') \<Longrightarrow> approvals_step today db db'"
| notify_cancelled:
    "cancelled_notify_pole_emploi client today now c db = (st, db') \<Longrightarrow> approvals_step today db db'"

text \<open>Histories: steps on successive days.\<close>

inductive approvals_reachable :: "db \<Rightarrow> db \<Rightarrow> bool" where
  start: "approvals_reachable db db"
| step: "approvals_reachable db db1 \<Longrightarrow> approvals_step today db1 db2 \<Longrightarrow> approvals_reachable db db2"

section \<open>Preservation\<close>

lemma approvals_inv_shift:
  assumes "shift_end_at now k delta db = Inr db'" "approvals_inv db"
  shows "approvals_inv db'"
  using assms(2) shift_end_at_frame [OF assms(1)] shift_end_at_ok [OF assms(1)]
  by (simp add: approvals_inv_def)

lemma approvals_inv_update:
  assumes "update_approval now new db = Inr db'" "approvals_inv db"
  shows "approvals_inv db'"
  using assms(2) update_approval_frame [OF assms(1)] update_approval_ok [OF _ assms(1)]
    update_approval_notifications [OF _ assms(1)]
  by (simp add: approvals_inv_def)

lemma approvals_inv_save_new:
  assumes "approval_save_new today a db = Inr (a', db')" "approvals_inv db"
  shows "approvals_inv db'"
proof -
  obtain b where b: "insert_approval b db = Inr (a', db')"
    using assms(1) by (auto simp: approval_save_new_def)
  then show ?thesis
    using assms(2) insert_approval_ok [OF _ b] insert_approval_InrD(2) [OF b]
    by (simp add: approvals_inv_def)
qed

lemma approvals_inv_save:
  assumes "approval_save today now a db = Inr db'" "approvals_inv db"
  shows "approvals_inv db'"
  using assms by (auto simp: approval_save_def intro: approvals_inv_update)

lemma approvals_inv_start_date:
  assumes "update_start_date today now a d db = Inr (b, a', db')" "approvals_inv db"
  shows "approvals_inv db'"
  using assms by (auto simp: update_start_date_def Let_def split: if_splits intro: approvals_inv_save)

text \<open>Table changes that the shift of the end date follows.\<close>

lemma approvals_inv_suspensions:
  "approvals_inv db \<Longrightarrow> suspension_table_ok ss \<Longrightarrow> approvals_inv (db\<lparr>db_suspensions := ss\<rparr>)"
  by (simp add: approvals_inv_def)

lemma approvals_inv_prolongations:
  "approvals_inv db \<Longrightarrow> prolongation_table_ok ps \<Longrightarrow> approvals_inv (db\<lparr>db_prolongations := ps\<rparr>)"
  by (simp add: approvals_inv_def)

lemma approvals_inv_insert_suspension:
  assumes "insert_suspension today now s db = Inr db'" "approvals_inv db"
  shows "approvals_inv db'"
proof -
  obtain s' where sh: "shift_end_at now (su_approval s) (su_end_at s - su_start_at s)
      (db\<lparr>db_suspensions := db_suspensions db @ [s']\<rparr>) = Inr db'"
    using insert_suspension_InrD [OF assms(1)] by blast
  have "suspension_table_ok (db_suspensions db')"
    using insert_suspension_ok [OF _ assms(1)] assms(2) by (simp add: approvals_inv_def)
  then have "suspension_table_ok (db_suspensions db @ [s'])"
    using shift_end_at_frame(1) [OF sh] by simp
  then show ?thesis using approvals_inv_shift [OF sh] approvals_inv_suspensions [OF assms(2)] by blast
qed

lemma approvals_inv_update_suspension:
  assumes "update_suspension today now s db = Inr db'" "approvals_inv db"
  shows "approvals_inv db'"
proof (cases "get_row su_pk (su_pk s) (db_suspensions db)")
  case None
  then show ?thesis using assms by (simp add: update_suspension_def)
next
  case (Some old)
  note sh = update_suspension_InrD(2) [OF assms(1) Some]
  have "suspension_table_ok (db_suspensions db')"
    using update_suspension_ok [OF _ assms(1)] assms(2) by (simp add: approvals_inv_def)
  then have "suspension_table_ok (map_rows (\<lambda>t. su_pk t = su_pk s) (\<lambda>_. s) (db_suspensions db))"
    using shift_end_at_frame(1) [OF sh] by simp
  then show ?thesis using approvals_inv_shift [OF sh] approvals_inv_suspensions [OF assms(2)] by blast
qed

lemma approvals_inv_delete_suspension:
  assumes "delete_suspension now s db = Inr db'" "approvals_inv db"
  shows "approvals_inv db'"
proof -
  note sh = assms(1) [unfolded delete_suspension_def]
  have "suspension_table_ok (db_suspensions db')"
    using delete_suspension_ok [OF _ assms(1)] assms(2) by (simp add: approvals_inv_def)
  then have "suspension_table_ok (filter (\<lambda>t. su_pk t \<noteq> su_pk s) (db_suspensions db))"
    using shift_end_at_frame(1) [OF sh] by simp
  then show ?thesis using approvals_inv_shift [OF sh] approvals_inv_suspensions [OF assms(2)] by blast
qed

lemma approvals_inv_unsuspend:
  assumes "unsuspend today now a d db = Inr db'" "approvals_inv db"
  shows "approvals_inv db'"
  using assms approvals_inv_delete_suspension approvals_inv_update_suspension
  by (auto simp: unsuspend_def split: option.splits if_splits)

lemma overlaps_excl_sym: "overlaps_excl s e s' e' \<longleftrightarrow> overlaps_excl s' e' s e"
  by (auto simp: overlaps_excl_def)

lemma prolongation_row_check_InrD:
  assumes "prolongation_row_check others p = Inr ()"
  shows "pl_start_at p \<le> pl_end_at p" "report_file_constraint p"
    and "q \<in> set others \<Longrightarrow> prolongations_compatible p q" "q \<in> set others \<Longrightarrow> prolongations_compatible q p"
  using assms overlaps_excl_sym
  by (auto simp: prolongation_row_check_def prolongations_compatible_def list_ex_iff)

lemma prolongation_row_check_request:
  "prolongation_row_check others p = Inr () \<Longrightarrow> q \<in> set others \<Longrightarrow> pl_request p \<noteq> None \<Longrightarrow> pl_request q \<noteq> pl_request p"
  by (auto simp: prolongation_row_check_def list_ex_iff)

lemma request_row_check_InrD:
  assumes "request_row_check others r = Inr ()"
  shows "report_file_constraint r"
    and "pl_require_phone_interview r \<Longrightarrow> pl_contact_email r \<noteq> [] \<and> pl_contact_phone r \<noteq> []"
    and "q \<in> set others \<Longrightarrow> requests_compatible r q" "q \<in> set others \<Longrightarrow> requests_compatible q r"
  using assms by (auto simp: request_row_check_def requests_compatible_def list_ex_iff)

lemma compatible_refl [simp]: "prolongations_compatible p p" "requests_compatible r r"
  by (simp_all add: prolongations_compatible_def requests_compatible_def)

lemma compatible_same_key:
  "pl_pk p = pl_pk q \<Longrightarrow> prolongations_compatible p q" "pl_pk r = pl_pk r' \<Longrightarrow> requests_compatible r r'"
  by (simp_all add: prolongations_compatible_def requests_compatible_def)

lemma approvals_inv_insert_prolongation:
  assumes "insert_prolongation now p db = Inr db'" "approvals_inv db"
  shows "approvals_inv db'"
proof -
  obtain p' where p': "p' = p\<lparr>pl_pk := next_pk pl_pk (db_prolongations db)\<rparr>"
    and chk: "prolongation_row_check (db_prolongations db) p' = Inr ()"
    and sh: "shift_end_at now (pl_approval p) (prolongation_duration p)
      (db\<lparr>db_prolongations := db_prolongations db @ [p']\<rparr>) = Inr db'"
    using insert_prolongation_InrD [OF assms(1)] by blast
  have "pl_pk p' \<notin> pl_pk ` set (db_prolongations db)" by (simp add: p')
  then have "prolongation_table_ok (db_prolongations db @ [p'])"
    using assms(2) prolongation_row_check_InrD [OF chk]
    by (auto simp: approvals_inv_def prolongation_table_ok_def list_all_iff)
  then show ?thesis using approvals_inv_shift [OF sh] approvals_inv_prolongations [OF assms(2)] by blast
qed

lemma approvals_inv_update_prolongation:
  assumes "update_prolongation now p db = Inr db'" "approvals_inv db"
  shows "approvals_inv db'"
proof (cases "get_row pl_pk (pl_pk p) (db_prolongations db)")
  case None
  then show ?thesis using assms by (simp add: update_prolongation_def)
next
  case (Some old)
  note U = update_prolongation_InrD [OF assms(1) Some]
  let ?rows = "map_rows (\<lambda>q. pl_pk q = pl_pk p) (\<lambda>_. p) (db_prolongations db)"
  have "map pl_pk ?rows = map pl_pk (db_prolongations db)" by (rule map_rows_key) simp
  then have "prolongation_table_ok ?rows"
    using assms(2) prolongation_row_check_InrD [OF U(1)]
    by (auto simp: approvals_inv_def prolongation_table_ok_def list_all_iff set_map_rows)
  then show ?thesis using approvals_inv_shift [OF U(2)] approvals_inv_prolongations [OF assms(2)] by blast
qed

lemma approvals_inv_delete_prolongation:
  assumes "delete_prolongation now p db = Inr db'" "approvals_inv db"
  shows "approvals_inv db'"
proof -
  note sh = assms(1) [unfolded delete_prolongation_def]
  have "prolongation_table_ok (filter (\<lambda>q. pl_pk q \<noteq> pl_pk p) (db_prolongations db))"
    using assms(2)
    by (auto simp: approvals_inv_def prolongation_table_ok_def distinct_map_filter list_all_iff)
  then show ?thesis using approvals_inv_shift [OF sh] approvals_inv_prolongations [OF assms(2)] by blast
qed

lemma approvals_inv_insert_request:
  assumes "insert_prolongation_request r db = Inr db'" "approvals_inv db"
  shows "approvals_inv db'"
proof -
  let ?r = "r\<lparr>pl_pk := next_pk pl_pk (db_prolongation_requests db)\<rparr>"
  have chk: "request_row_check (db_prolongation_requests db) ?r = Inr ()"
    and db': "db' = db\<lparr>db_prolongation_requests := db_prolongation_requests db @ [?r]\<rparr>"
    using assms(1) by (auto simp: insert_prolongation_request_def Let_def)
  have "pl_pk ?r \<notin> pl_pk ` set (db_prolongation_requests db)" by simp
  then have "request_table_ok (db_prolongation_requests db @ [?r])"
    using assms(2) request_row_check_InrD [OF chk]
    by (auto simp: approvals_inv_def request_table_ok_def list_all_iff)
  then show ?thesis using assms(2) by (simp add: db' approvals_inv_def)
qed

lemma approvals_inv_update_request:
  assumes "update_prolongation_request r db = Inr db'" "approvals_inv db"
  shows "approvals_inv db'"
proof -
  let ?rows = "map_rows (\<lambda>q. pl_pk q = pl_pk r) (\<lambda>_. r) (db_prolongation_requests db)"
  have chk: "request_row_check (filter (\<lambda>q. pl_pk q \<noteq> pl_pk r) (db_prolongation_requests db)) r = Inr ()"
    using assms(1) by (auto simp: update_prolongation_request_def)
  have "map pl_pk ?rows = map pl_pk (db_prolongation_requests db)" by (rule map_rows_key) simp
  then have "request_table_ok ?rows"
    using assms(2) request_row_check_InrD [OF chk]
    by (auto simp: approvals_inv_def request_table_ok_def list_all_iff set_map_rows)
  then show ?thesis
    using assms(2) by (simp add: update_request_InrD [OF assms(1)] approvals_inv_def)
qed

lemma approvals_inv_grant:
  assumes "grant now u r db = Inr db'" "approvals_inv db"
  shows "approvals_inv db'"
  using assms approvals_inv_insert_prolongation approvals_inv_update_request
  unfolding grant_def Let_def by (metis rbind_eq_Inr)

lemma approvals_inv_deny:
  assumes "deny now u d r db = Inr db'" "approvals_inv db"
  shows "approvals_inv db'"
proof -
  obtain db1 where 1: "insert_deny_information (d\<lparr>di_request := pl_pk r\<rparr>) db = Inr db1"
    and 2: "update_prolongation_request ((process_request now u PR_DENIED r)\<lparr>pl_updated_at := now\<rparr>) db1 = Inr db'"
    using assms(1) by (auto simp: deny_def Let_def)
  have "approvals_inv db1" using 1 assms(2) by (auto simp: insert_deny_information_def approvals_inv_def)
  then show ?thesis using approvals_inv_update_request [OF 2] by blast
qed

lemma approvals_inv_set_approval_pe: "approvals_inv db \<Longrightarrow> approvals_inv (set_approval_pe k pe db)"
  using set_approval_pe_ok [of db k pe] by (simp add: approvals_inv_def set_approval_pe_def)

lemma approvals_inv_notify:
  assumes "approval_notify_pole_emploi client today now a u p db = (st, db')" "approvals_inv db"
  shows "approvals_inv db'"
  using assms approvals_inv_set_approval_pe
  by (auto simp: approval_notify_pole_emploi_def record_certified_identity_def approvals_inv_def
      split: prod.splits option.splits)

lemma cancelled_table_ok_map_rows:
  assumes "cancelled_table_ok cs"
    and "\<And>c. ca_number (f c) = ca_number c \<and> ca_start_at (f c) = ca_start_at c \<and>
      ca_end_at (f c) = ca_end_at c \<and> ca_origin_info (f c) = ca_origin_info c"
  shows "cancelled_table_ok (map_rows p f cs)"
  using assms map_rows_key [of p ca_number f cs]
  by (auto simp: cancelled_table_ok_def list_all_iff set_map_rows cancelled_approval_constraints_def)

lemma approvals_inv_notify_cancelled:
  assumes "cancelled_notify_pole_emploi client today now c db = (st, db')" "approvals_inv db"
  shows "approvals_inv db'"
  using assms
  by (auto simp: cancelled_notify_pole_emploi_def set_cancelled_pe_def approvals_inv_def
      split: prod.splits option.splits intro!: cancelled_table_ok_map_rows)

lemma approvals_inv_cascade:
  assumes "cascade_delete_approval now k db = Inr db'" "approvals_inv db"
  shows "approvals_inv db'"
proof -
  obtain db1 db2 where
    1: "rfold (delete_suspension now) (filter (\<lambda>s. su_approval s = k) (db_suspensions db)) db = Inr db1"
    and 2: "rfold (delete_prolongation now) (filter (\<lambda>p. pl_approval p = k) (db_prolongations db1)) db1 = Inr db2"
    and db': "db' = db2\<lparr>db_deny_informations :=
                filter (\<lambda>d. di_request d \<notin> pl_pk ` set (filter (\<lambda>r. pl_approval r = k)
                  (db_prolongation_requests db2))) (db_deny_informations db2),
              db_prolongation_requests :=
                filter (\<lambda>r. pl_approval r \<noteq> k) (db_prolongation_requests db2),
              db_approvals := filter (\<lambda>a. ap_pk a \<noteq> k) (db_approvals db2)\<rparr>"
    using assms(1) by (auto simp: cascade_delete_approval_def)
  have "approvals_inv db1"
    using rfold_invariant [where P = approvals_inv, OF _ assms(2) 1] approvals_inv_delete_suspension by blast
  then have "approvals_inv db2"
    using rfold_invariant [where P = approvals_inv, OF _ _ 2] approvals_inv_delete_prolongation by blast
  then show ?thesis
    by (auto simp: db' approvals_inv_def approval_table_ok_def request_table_ok_def distinct_map_filter
        list_all_iff)
qed

lemma approval_delete_InrD:
  assumes "approval_delete now a db = Inr db'"
  obtains u p where "get_row us_pk (ap_user a) (db_users db) = Some u"
    and "get_row jp_user (ap_user a) (db_profiles db) = Some p"
    and "cancelled_approval_constraints
      (cancelled_from_approval now (next_pk ca_pk (db_cancelled_approvals db)) a u p)"
    and "ap_number a \<notin> ca_number ` set (db_cancelled_approvals db)"
    and "cascade_delete_approval now (ap_pk a)
      (db\<lparr>db_cancelled_approvals := db_cancelled_approvals db @
            [cancelled_from_approval now (next_pk ca_pk (db_cancelled_approvals db)) a u p],
          db_job_applications := clear_approval_of_applications (ap_pk a) (db_job_applications db)\<rparr>) = Inr db'"
  using assms
  by (auto simp: approval_delete_def insert_cancelled_def cancelled_from_approval_def
      split: option.splits prod.splits)

lemma approvals_inv_delete:
  assumes "approval_delete now a db = Inr db'" "approvals_inv db"
  shows "approvals_inv db'"
proof -
  obtain u p where c: "cancelled_approval_constraints
      (cancelled_from_approval now (next_pk ca_pk (db_cancelled_approvals db)) a u p)"
    and n: "ap_number a \<notin> ca_number ` set (db_cancelled_approvals db)"
    and d: "cascade_delete_approval now (ap_pk a)
      (db\<lparr>db_cancelled_approvals := db_cancelled_approvals db @
            [cancelled_from_approval now (next_pk ca_pk (db_cancelled_approvals db)) a u p],
          db_job_applications := clear_approval_of_applications (ap_pk a) (db_job_applications db)\<rparr>) = Inr db'"
    using approval_delete_InrD [OF assms(1)] by blast
  show ?thesis
    by (rule approvals_inv_cascade [OF d])
      (use assms(2) c n in \<open>auto simp: approvals_inv_def cancelled_table_ok_def cancelled_from_approval_def\<close>)
qed

lemmas approvals_inv_steps = approvals_inv_save_new approvals_inv_save approvals_inv_start_date
  approvals_inv_delete approvals_inv_insert_suspension approvals_inv_update_suspension
  approvals_inv_delete_suspension approvals_inv_unsuspend approvals_inv_insert_prolongation
  approvals_inv_update_prolongation approvals_inv_delete_prolongation approvals_inv_insert_request
  approvals_inv_grant approvals_inv_deny approvals_inv_notify approvals_inv_notify_cancelled

lemma approvals_step_inv: "approvals_step today db db' \<Longrightarrow> approvals_inv db \<Longrightarrow> approvals_inv db'"
  by (induction rule: approvals_step.induct) (auto intro: approvals_inv_steps)

section \<open>Balance of the end dates\<close>

text \<open>The steps of the tables that extend approvals, each labelled with the days it moves from an approval to another: an edition
  may change the approval of the row.\<close>

inductive extension_step :: "db \<Rightarrow> (pk \<Rightarrow> days) \<Rightarrow> db \<Rightarrow> bool" where
  susp_insert: "insert_suspension today now s db = Inr db' \<Longrightarrow> extension_step db (\<lambda>_. 0) db'"
| susp_update: "update_suspension today now s db = Inr db' \<Longrightarrow>
    get_row su_pk (su_pk s) (db_suspensions db) = Some old \<Longrightarrow>
    extension_step db (moved_days su_approval suspension_duration old s) db'"
| susp_delete: "delete_suspension now s db = Inr db' \<Longrightarrow> s \<in> set (db_suspensions db) \<Longrightarrow>
    extension_step db (\<lambda>_. 0) db'"
| prol_insert: "insert_prolongation now p db = Inr db' \<Longrightarrow> extension_step db (\<lambda>_. 0) db'"
| prol_update: "update_prolongation now p db = Inr db' \<Longrightarrow>
    get_row pl_pk (pl_pk p) (db_prolongations db) = Some old \<Longrightarrow>
    extension_step db (moved_days pl_approval prolongation_duration old p) db'"
| prol_delete: "delete_prolongation now p db = Inr db' \<Longrightarrow> p \<in> set (db_prolongations db) \<Longrightarrow>
    extension_step db (\<lambda>_. 0) db'"

text \<open>Histories, with the days moved in all.\<close>

inductive extension_history :: "db \<Rightarrow> (pk \<Rightarrow> days) \<Rightarrow> db \<Rightarrow> bool" where
  none: "extension_history db (\<lambda>_. 0) db"
| more: "extension_history db m db1 \<Longrightarrow> extension_step db1 m' db2 \<Longrightarrow>
    extension_history db (\<lambda>k. m k + m' k) db2"

definition suspended_total :: "db \<Rightarrow> pk \<Rightarrow> days" where
  "suspended_total db k = total_duration su_approval suspension_duration k (db_suspensions db)"

definition prolonged_total :: "db \<Rightarrow> pk \<Rightarrow> days" where
  "prolonged_total db k = total_duration pl_approval prolongation_duration k (db_prolongations db)"

definition row_keys_ok :: "db \<Rightarrow> bool" where
  "row_keys_ok db \<longleftrightarrow> distinct (map su_pk (db_suspensions db)) \<and> distinct (map pl_pk (db_prolongations db))"

lemma suspension_ops_frame:
  assumes "susp.apply_op today now x db = Inr db'"
  shows "db_prolongations db' = db_prolongations db"
proof (cases x)
  case (Insert_Row s)
  then have i: "insert_suspension today now s db = Inr db'" using assms by simp
  show ?thesis by (rule insert_suspension_InrD [OF i]) (simp add: shift_end_at_frame(2))
next
  case (Update_Row s)
  then have u: "update_suspension today now s db = Inr db'" using assms by simp
  show ?thesis
    using u shift_end_at_frame(2) [OF update_suspension_InrD(2) [OF u]]
    by (cases "get_row su_pk (su_pk s) (db_suspensions db)") (simp_all add: update_suspension_def)
next
  case (Delete_Row s)
  then have "delete_suspension now s db = Inr db'" using assms by simp
  then show ?thesis using shift_end_at_frame(2) unfolding delete_suspension_def by fastforce
qed

lemma prolongation_ops_frame:
  assumes "prol.apply_op now x db = Inr db'"
  shows "db_suspensions db' = db_suspensions db"
proof (cases x)
  case (Insert_Row p)
  then have i: "insert_prolongation now p db = Inr db'" using assms by simp
  show ?thesis by (rule insert_prolongation_InrD [OF i]) (simp add: shift_end_at_frame(1))
next
  case (Update_Row p)
  then have u: "update_prolongation now p db = Inr db'" using assms by simp
  show ?thesis
    using u shift_end_at_frame(1) [OF update_prolongation_InrD(2) [OF u]]
    by (cases "get_row pl_pk (pl_pk p) (db_prolongations db)") (simp_all add: update_prolongation_def)
next
  case (Delete_Row p)
  then have "delete_prolongation now p db = Inr db'" using assms by simp
  then show ?thesis using shift_end_at_frame(1) unfolding delete_prolongation_def by fastforce
qed

lemma extension_step_cases:
  assumes "extension_step db m db'"
  obtains (susp) today now x where "susp.apply_op today now x db = Inr db'" "susp.admissible x db" "m = susp.moved x db"
  | (prol) now x where "prol.apply_op now x db = Inr db'" "prol.admissible x db" "m = prol.moved x db"
  using assms
proof (cases rule: extension_step.cases)
  case (susp_insert today now s)
  then show ?thesis using susp [of today now "Insert_Row s"] by (simp add: fun_eq_iff)
next
  case (susp_update today now s old)
  then have "susp.admissible (Update_Row s) db" using get_row_SomeD [OF susp_update(3)] by (simp add: image_iff) metis
  then show ?thesis using susp [of today now "Update_Row s"] susp_update by (simp add: fun_eq_iff)
next
  case (susp_delete now s)
  then show ?thesis using susp [of 0 now "Delete_Row s"] by (simp add: fun_eq_iff)
next
  case (prol_insert now p)
  then show ?thesis using prol [of now "Insert_Row p"] by (simp add: fun_eq_iff)
next
  case (prol_update now p old)
  then have "prol.admissible (Update_Row p) db" using get_row_SomeD [OF prol_update(3)] by (simp add: image_iff) metis
  then show ?thesis using prol [of now "Update_Row p"] prol_update by (simp add: fun_eq_iff)
next
  case (prol_delete now p)
  then show ?thesis using prol [of now "Delete_Row p"] by (simp add: fun_eq_iff)
qed

lemma extension_step_balance:
  assumes "extension_step db m db'" "row_keys_ok db"
  shows "row_keys_ok db'"
    and "end_of db' k = map_option (\<lambda>e. e + (suspended_total db' k - suspended_total db k) +
      (prolonged_total db' k - prolonged_total db k) + m k) (end_of db k)"
proof -
  show "row_keys_ok db'" using assms(1)
  proof (cases rule: extension_step_cases)
    case (susp today now x)
    then show ?thesis using susp.apply_op_pks suspension_ops_frame assms(2) by (metis row_keys_ok_def)
  next
    case (prol now x)
    then show ?thesis using prol.apply_op_pks prolongation_ops_frame assms(2) by (metis row_keys_ok_def)
  qed
  show "end_of db' k = map_option (\<lambda>e. e + (suspended_total db' k - suspended_total db k) +
      (prolonged_total db' k - prolonged_total db k) + m k) (end_of db k)"
    using assms(1)
  proof (cases rule: extension_step_cases)
    case (susp today now x)
    then show ?thesis
      using susp.end_tracks_total [OF susp(1,2)] suspension_ops_frame [OF susp(1)] assms(2)
      by (simp add: suspended_total_def prolonged_total_def row_keys_ok_def)
  next
    case (prol now x)
    then show ?thesis
      using prol.end_tracks_total [OF prol(1,2)] prolongation_ops_frame [OF prol(1)] assms(2)
      by (simp add: suspended_total_def prolonged_total_def row_keys_ok_def)
  qed
qed

section \<open>Deletion of an approval\<close>

lemma delete_suspensions_rows:
  "rfold (delete_suspension now) ss db = Inr db' \<Longrightarrow>
   db_suspensions db' = filter (\<lambda>t. su_pk t \<notin> su_pk ` set ss) (db_suspensions db) \<and>
   db_prolongations db' = db_prolongations db \<and> db_cancelled_approvals db' = db_cancelled_approvals db \<and>
   db_job_applications db' = db_job_applications db"
proof (induction ss arbitrary: db)
  case (Cons s ss)
  then obtain db1 where d: "delete_suspension now s db = Inr db1"
    and r: "rfold (delete_suspension now) ss db1 = Inr db'" by auto
  note sh = d [unfolded delete_suspension_def]
  show ?case using Cons.IH [OF r] shift_end_at_frame [OF sh] by (auto intro!: filter_cong)
qed simp

lemma delete_prolongations_rows:
  "rfold (delete_prolongation now) ps db = Inr db' \<Longrightarrow>
   db_prolongations db' = filter (\<lambda>q. pl_pk q \<notin> pl_pk ` set ps) (db_prolongations db) \<and>
   db_suspensions db' = db_suspensions db \<and> db_cancelled_approvals db' = db_cancelled_approvals db \<and>
   db_job_applications db' = db_job_applications db"
proof (induction ps arbitrary: db)
  case (Cons p ps)
  then obtain db1 where d: "delete_prolongation now p db = Inr db1"
    and r: "rfold (delete_prolongation now) ps db1 = Inr db'" by auto
  note sh = d [unfolded delete_prolongation_def]
  show ?case using Cons.IH [OF r] shift_end_at_frame [OF sh] by (auto intro!: filter_cong)
qed simp

lemma cascade_delete_rows:
  assumes "cascade_delete_approval now k db = Inr db'"
  shows "\<forall>a \<in> set (db_approvals db'). ap_pk a \<noteq> k"
    and "\<forall>s \<in> set (db_suspensions db'). su_approval s \<noteq> k"
    and "\<forall>p \<in> set (db_prolongations db'). pl_approval p \<noteq> k"
    and "\<forall>r \<in> set (db_prolongation_requests db'). pl_approval r \<noteq> k"
    and "db_cancelled_approvals db' = db_cancelled_approvals db"
    and "db_job_applications db' = db_job_applications db"
proof -
  obtain db1 db2 where
    1: "rfold (delete_suspension now) (filter (\<lambda>s. su_approval s = k) (db_suspensions db)) db = Inr db1"
    and 2: "rfold (delete_prolongation now) (filter (\<lambda>p. pl_approval p = k) (db_prolongations db1)) db1 = Inr db2"
    and db': "db' = db2\<lparr>db_deny_informations :=
                filter (\<lambda>d. di_request d \<notin> pl_pk ` set (filter (\<lambda>r. pl_approval r = k)
                  (db_prolongation_requests db2))) (db_deny_informations db2),
              db_prolongation_requests :=
                filter (\<lambda>r. pl_approval r \<noteq> k) (db_prolongation_requests db2),
              db_approvals := filter (\<lambda>a. ap_pk a \<noteq> k) (db_approvals db2)\<rparr>"
    using assms by (auto simp: cascade_delete_approval_def)
  note R = delete_suspensions_rows [OF 1] delete_prolongations_rows [OF 2]
  show "\<forall>a \<in> set (db_approvals db'). ap_pk a \<noteq> k" by (simp add: db')
  show "\<forall>s \<in> set (db_suspensions db'). su_approval s \<noteq> k" using R by (auto simp: db')
  show "\<forall>p \<in> set (db_prolongations db'). pl_approval p \<noteq> k" using R by (auto simp: db')
  show "\<forall>r \<in> set (db_prolongation_requests db'). pl_approval r \<noteq> k" by (simp add: db')
  show "db_cancelled_approvals db' = db_cancelled_approvals db" using R by (simp add: db')
  show "db_job_applications db' = db_job_applications db" using R by (simp add: db')
qed

lemma clear_approval_none:
  "j \<in> set (clear_approval_of_applications k js) \<Longrightarrow> af_approval (ja_accepted j) \<noteq> Some k"
  by (auto simp: clear_approval_of_applications_def set_map_rows split: if_splits)

section \<open>Change of dates\<close>

lemma date_change_effects:
  assumes "update_approval now new db = Inr db'" "get_row ap_pk (ap_pk new) (db_approvals db) = Some old"
    and "dates_differ old new"
  shows "\<exists>a. get_row ap_pk (ap_pk new) (db_approvals db') = Some a \<and> pe_status (ap_pe a) = PE_PENDING \<and>
      ap_start_at a = ap_start_at new \<and> ap_end_at a = ap_end_at new"
    and "e \<in> set (notified_records (ap_number new) (db_employee_records db)) \<Longrightarrow>
      \<exists>n \<in> set (db_er_notifications db'). en_employee_record n = er_pk e \<and> en_status n = NS_NEW \<and>
        en_updated_at n = now"
proof -
  show "\<exists>a. get_row ap_pk (ap_pk new) (db_approvals db') = Some a \<and> pe_status (ap_pe a) = PE_PENDING \<and>
      ap_start_at a = ap_start_at new \<and> ap_end_at a = ap_end_at new"
    using update_approval_get [OF assms(1,2)] assms(3) by (simp add: written_approval_def)
  assume e: "e \<in> set (notified_records (ap_number new) (db_employee_records db))"
  have "dates_differ old (written_approval old new)" using assms(3) by (simp add: dates_differ_def)
  then show "\<exists>n \<in> set (db_er_notifications db'). en_employee_record n = er_pk e \<and> en_status n = NS_NEW \<and>
        en_updated_at n = now"
    using update_approval_InrD(1) [OF assms(1,2)] fold_notifications_found [OF e]
    by (simp add: create_employee_record_notification_def)
qed

end
