(* ===== verification/Samples.thy ===== *)
theory Samples
  imports Schema
begin

text \<open>
  Concrete rows on which the hypotheses of the properties are evaluated: a job seeker with a
  profile, a professional, an ACI with its convention, an authorized prescriber organization and a
  PASS IAE of two years.
\<close>

definition sample_user :: user where
  "sample_user = \<lparr>us_pk = 1, us_kind = KIND_JOB_SEEKER, us_first_name = ''Ada'', us_last_name = ''L'',
     us_title = Some MME, us_email = Some ''ada@x.fr'', us_username = ''ada'',
     us_identity_provider = IDP_DJANGO, us_is_active = True, us_is_staff = False,
     us_is_superuser = False, us_created_by = None, us_post_code = ''75001'', us_department = ''75'',
     us_last_login = None, us_first_login = None, us_date_joined = 0, us_terms_accepted_at = None,
     us_upcoming_deletion_notified_at = None\<rparr>"

definition sample_professional :: user where
  "sample_professional = sample_user\<lparr>us_pk := 2, us_kind := KIND_PROFESSIONAL,
     us_email := Some ''pro@x.fr'', us_username := ''pro''\<rparr>"

definition sample_situation :: asp_situation where
  "sample_situation = \<lparr>si_education_level = ''30'', si_resourceless = False, si_rqth_employee = False,
     si_oeth_employee = False, si_pole_emploi_since = None, si_unemployed_since = None,
     si_has_rsa_allocation = Some RSA_NO, si_rsa_allocation_since = None,
     si_ass_allocation_since = None, si_aah_allocation_since = None, si_are_allocation_since = None,
     si_activity_bonus_since = None, si_ase_exit = False, si_isolated_parent = False,
     si_housing_issue = False, si_refugee = False, si_detention_exit_or_ppsmj = False,
     si_low_level_in_french = False, si_mobility_issue = False\<rparr>"

definition sample_hexa :: hexa_address where
  "sample_hexa = \<lparr>hx_lane_number = ''1'', hx_std_extension = [], hx_non_std_extension = [],
     hx_lane_type = ''RUE'', hx_lane_name = ''Rivoli'', hx_additional_address = [],
     hx_post_code = ''75001'', hx_commune = Some 1\<rparr>"

definition sample_profile :: jobseeker_profile where
  "sample_profile = \<lparr>jp_user = 1, jp_birthdate = Some (- 9000), jp_birth_place = Some 1,
     jp_birth_country = Some france_id, jp_nir = ''282037512345607'', jp_lack_of_nir_reason = None,
     jp_pole_emploi_id = ''1234567A'', jp_lack_of_pole_emploi_id_reason = None, jp_ft_gps_id = None,
     jp_asp_uid = replicate 30 (CHR ''0''), jp_situation = sample_situation, jp_hexa = sample_hexa,
     jp_pe_obfuscated_nir = None, jp_pe_last_certification_attempt_at = None, jp_is_stalled = False,
     jp_is_not_stalled_anymore = None\<rparr>"

definition sample_convention :: convention where
  "sample_convention = \<lparr>cv_pk = 1, cv_kind = ACI, cv_siret_signature = ''12345678901234'',
     cv_is_active = True, cv_deactivated_at = None, cv_reactivated_by = None,
     cv_reactivated_at = None, cv_asp_id = 7\<rparr>"

definition sample_company :: company where
  "sample_company = \<lparr>co_pk = 1, co_siret = ''12345678901234'', co_naf = ''8810C'', co_kind = ACI,
     co_source = SRC_ASP, co_brand = [], co_name = ''Chantier'', co_auth_email = [],
     co_created_by = None, co_block_job_applications = False, co_job_applications_blocked_at = None,
     co_spontaneous_applications_open_since = Some 0, co_convention = Some 1, co_is_searchable = True,
     co_rdv_solidarites_id = None\<rparr>"

definition sample_geiq :: company where
  "sample_geiq = sample_company\<lparr>co_pk := 2, co_kind := GEIQ, co_source := SRC_GEIQ, co_convention := None\<rparr>"

definition sample_org :: prescriber_org where
  "sample_org = \<lparr>po_pk = 1, po_siret = ''11111111111111'', po_kind = PK_FT, po_is_brsa = False,
     po_is_head_office = False, po_authorization_status = AUTH_VALIDATED, po_code_safir = None\<rparr>"

definition sample_origin :: origin_info where
  "sample_origin = \<lparr>oi_siae_siret = ''12345678901234'', oi_siae_kind = ACI,
     oi_sender_kind = SK_PRESCRIBER, oi_prescriber_organization_kind = Some PK_FT\<rparr>"

definition sample_pe :: pe_notification where
  "sample_pe = \<lparr>pe_status = PE_SUCCESS, pe_time = Some 0, pe_endpoint_f = None, pe_exit_code_f = None\<rparr>"

definition sample_approval :: approval where
  "sample_approval = \<lparr>ap_pk = 1, ap_start_at = 0, ap_end_at = 729, ap_created_at = 0,
     ap_updated_at = 0, ap_number = ''999990000001'', ap_user = 1, ap_created_by = None,
     ap_origin = AO_DEFAULT, ap_eligibility_diagnosis = Some 1, ap_origin_info = sample_origin,
     ap_pe = sample_pe\<rparr>"

definition sample_membership :: membership where
  "sample_membership = \<lparr>mb_user = 2, mb_organization = 1, mb_joined_at = 0, mb_is_admin = True,
     mb_is_active = True, mb_updated_by = None\<rparr>"

definition sample_suspension :: suspension where
  "sample_suspension = \<lparr>su_pk = 1, su_approval = 1, su_start_at = 100, su_end_at = 130,
     su_siae = Some 1, su_reason = BROKEN_CONTRACT, su_reason_explanation = [], su_created_at = 0,
     su_created_by = None, su_updated_at = 0, su_updated_by = None\<rparr>"

definition sample_prolongation :: prolongation where
  "sample_prolongation = \<lparr>pl_pk = 1, pl_approval = 1, pl_start_at = 729, pl_end_at = 1000,
     pl_reason = RQTH, pl_reason_explanation = [], pl_declared_by = Some 2,
     pl_declared_by_siae = Some 1, pl_prescriber_organization = Some 1, pl_created_at = 0,
     pl_created_by = Some 2, pl_updated_at = 0, pl_updated_by = None, pl_report_file = None,
     pl_require_phone_interview = False, pl_contact_email = [], pl_contact_phone = [],
     pl_request = None, pl_validated_by = None\<rparr>"

definition sample_request :: prolongation_request where
  "sample_request = \<lparr>pl_pk = 1, pl_approval = 1, pl_start_at = 729, pl_end_at = 1000,
     pl_reason = RQTH, pl_reason_explanation = [], pl_declared_by = Some 2,
     pl_declared_by_siae = Some 1, pl_prescriber_organization = Some 1, pl_created_at = 0,
     pl_created_by = Some 2, pl_updated_at = 0, pl_updated_by = None, pl_report_file = None,
     pl_require_phone_interview = False, pl_contact_email = [], pl_contact_phone = [],
     prq_status = PR_PENDING, prq_assigned_to = 2, prq_processed_at = None, prq_processed_by = None,
     prq_reminder_sent_at = None\<rparr>"

definition sample_diagnosis :: diagnosis where
  "sample_diagnosis = \<lparr>dg_pk = 1, dg_author = 2, dg_author_kind = AK_PRESCRIBER,
     dg_author_prescriber_organization = Some 1, dg_author_company = None, dg_job_seeker = 1,
     dg_created_at = 0, dg_updated_at = 0, dg_expires_at = 180\<rparr>"

definition sample_criteria :: administrative_criteria where
  "sample_criteria = \<lparr>cr_pk = 1, cr_level = Some LEVEL_1, cr_kind = CK_RSA, cr_annex = NO_ANNEX\<rparr>"

definition sample_level2_criteria :: administrative_criteria where
  "sample_level2_criteria = \<lparr>cr_pk = 2, cr_level = Some LEVEL_2, cr_kind = CK_QPV, cr_annex = ANNEX_2\<rparr>"

definition empty_accepted_fields :: accepted_fields where
  "empty_accepted_fields = \<lparr>af_eligibility_diagnosis = None, af_geiq_eligibility_diagnosis = None,
     af_approval = None, af_approval_delivery_mode = None, af_approval_number_sent_by_email = False,
     af_approval_number_sent_at = None, af_approval_manually_delivered_by = None,
     af_approval_manually_refused_by = None, af_approval_manually_refused_at = None\<rparr>"

definition empty_geiq_contract :: geiq_contract where
  "empty_geiq_contract = \<lparr>gc_contract_type = None, gc_nb_hours_per_week = None,
     gc_contract_type_details = [], gc_qualification_type = None, gc_qualification_level = None,
     gc_planned_training_hours = None, gc_inverted_vae_contract = None\<rparr>"

definition sample_application :: job_application where
  "sample_application = \<lparr>ja_pk = 1, ja_job_seeker = 1, ja_sender = Some 2,
     ja_sender_kind = SK_PRESCRIBER, ja_sender_company = None,
     ja_sender_prescriber_organization = Some 1, ja_to_company = 1, ja_state = JA_NEW,
     ja_archived_at = None, ja_archived_by = None, ja_answer = [], ja_answer_to_prescriber = [],
     ja_refusal_reason = None, ja_refusal_reason_shared_with_job_seeker = False, ja_resume = None,
     ja_diagoriente_invite_sent_at = None, ja_hiring_start_at = Some 110, ja_hiring_end_at = None,
     ja_origin = JO_DEFAULT, ja_create_employee_record = True, ja_accepted = empty_accepted_fields,
     ja_transferred_at = None, ja_transferred_by = None, ja_transferred_from = None,
     ja_created_at = 0, ja_updated_at = 0, ja_processed_at = None, ja_geiq = empty_geiq_contract\<rparr>"

definition sample_employee_record :: employee_record where
  "sample_employee_record = \<lparr>er_pk = 1, er_created_at = 0, er_updated_at = 0, er_processed_at = None,
     er_status_f = ER_PROCESSED, er_job_application = 1, er_ntt = None, er_financial_annex = None,
     er_approval_number = ''999990000001'', er_asp_id = 7, er_asp_measure = Some MEASURE_ACI,
     er_siret = ''12345678901234'', er_processed_as_duplicate = False,
     er_asp = \<lparr>ax_processing_code = Some ''0000'', ax_processing_label = None, ax_batch_file = None,
       ax_batch_line_number = None, ax_archived_json = None\<rparr>\<rparr>"

text \<open>A database with the approval of the job seeker, and one without.\<close>

definition empty_db :: db where
  "empty_db = \<lparr>db_users = [sample_user, sample_professional], db_profiles = [sample_profile],
     db_certifications = [], db_assignments = [], db_companies = [sample_company, sample_geiq],
     db_conventions = [sample_convention], db_prescriber_orgs = [sample_org], db_approvals = [],
     db_cancelled_approvals = [], db_suspensions = [], db_prolongations = [],
     db_prolongation_requests = [], db_deny_informations = [], db_diagnoses = [],
     db_geiq_diagnoses = [], db_job_applications = [], db_ja_logs = [], db_employee_records = [],
     db_er_logs = [], db_er_notifications = [],
     db_criteria = [sample_criteria, sample_level2_criteria], db_geiq_criteria = [],
     db_selected_criteria = [], db_geiq_selected_criteria = [], db_tasks = [], db_groups = [],
     db_memberships = [], db_comments = [], db_prior_actions = [],
     db_company_memberships = [sample_membership, sample_membership\<lparr>mb_organization := 2\<rparr>]\<rparr>"

definition sample_db :: db where
  "sample_db = empty_db\<lparr>db_approvals := [sample_approval], db_diagnoses := [sample_diagnosis],
     db_job_applications := [sample_application], db_employee_records := [sample_employee_record]\<rparr>"

lemmas sample_defs = sample_db_def empty_db_def sample_user_def sample_professional_def
  sample_profile_def sample_situation_def sample_hexa_def sample_company_def sample_geiq_def
  sample_convention_def sample_org_def sample_approval_def sample_origin_def sample_pe_def
  sample_suspension_def sample_prolongation_def sample_request_def sample_diagnosis_def
  sample_application_def empty_accepted_fields_def empty_geiq_contract_def
  sample_employee_record_def sample_membership_def sample_criteria_def sample_level2_criteria_def

end
