(* ===== verification/Approval_Properties.thy ===== *)
theory Approval_Properties
  imports Approval_Lifecycle Samples
begin

text \<open>
  The properties of the PASS IAE: the invariant of every history of operations, the balance of the end
  dates, the numbers, the remaining days, suspension and prolongation, the consequences of a change of
  dates and of a deletion, and the notification of France Travail.
\<close>

section \<open>Sample histories\<close>

definition suspended_db :: db where
  "suspended_db = (case insert_suspension 200 5 sample_suspension sample_db of Inl _ \<Rightarrow> sample_db | Inr d \<Rightarrow> d)"

lemma suspended_db_step: "insert_suspension 200 5 sample_suspension sample_db = Inr suspended_db"
  by code_simp

lemma sample_db_inv: "approvals_inv sample_db"
  by code_simp

section \<open>Histories\<close>

text \<open>C4.  Every history of operations on approvals, suspensions, prolongations and
  requests, on any days and with any answers of the France Travail service, keeps the constraints of the
  tables: unique keys and numbers, ordered dates, no overlapping periods, a report file only for the reasons that take one and in
  one row, at most one prolongation per request, contacts with a phone interview, at most one pending request
  per approval and at most one NEW notification per employee record.\<close>

theorem approvals_history_keeps_invariant:
  assumes "approvals_reachable db db'" and "approvals_inv db"
  shows "approvals_inv db'"
  using assms by (induction rule: approvals_reachable.induct) (auto intro: approvals_step_inv)

theorem approvals_history_keeps_invariant_witness: "approvals_inv suspended_db"
  by (rule approvals_history_keeps_invariant [OF approvals_reachable.step [OF approvals_reachable.start
        approvals_step.suspend [OF suspended_db_step]] sample_db_inv])

text \<open>C5.  Whatever suspensions and prolongations are created, edited and deleted, the end date of
  an approval moves by exactly the change of the total duration of its suspensions plus the change of
  the total duration of its prolongations.  The only exception is counted exactly: an edition that moves a row to
  another approval leaves the former duration of the row on the approval it had and takes it from the one it gets, because the
  triggers write the new approval only.\<close>

theorem extensions_balance:
  assumes "extension_history db moved db'" and "row_keys_ok db"
  shows "end_of db' k = map_option (\<lambda>e. e + (suspended_total db' k - suspended_total db k) +
    (prolonged_total db' k - prolonged_total db k) + moved k) (end_of db k)"
proof -
  from assms have "row_keys_ok db' \<and> end_of db' k = map_option (\<lambda>e. e +
      (suspended_total db' k - suspended_total db k) +
      (prolonged_total db' k - prolonged_total db k) + moved k) (end_of db k)"
  proof (induction rule: extension_history.induct)
    case (more db m db1 m' db2)
    then show ?case
      using extension_step_balance(1) [OF more(2)] extension_step_balance(2) [OF more(2), of k]
      by (cases "end_of db k") auto
  qed (simp add: option.map_ident)
  then show ?thesis by blast
qed

text \<open>The suspension of thirty days, edited to fifty and moved to a second approval: the first approval keeps thirty days,
  the second gets twenty.\<close>

definition second_approval :: approval where
  "second_approval = sample_approval\<lparr>ap_pk := 2, ap_number := ''999990000002''\<rparr>"

definition two_approvals_db :: db where
  "two_approvals_db = suspended_db\<lparr>db_approvals := db_approvals suspended_db @ [second_approval]\<rparr>"

definition moved_suspension :: suspension where
  "moved_suspension = sample_suspension\<lparr>su_pk := 1, su_approval := 2, su_end_at := su_start_at sample_suspension + 50\<rparr>"

definition moved_db :: db where
  "moved_db = (case update_suspension 200 6 moved_suspension two_approvals_db of Inl _ \<Rightarrow> two_approvals_db | Inr d \<Rightarrow> d)"

lemma moved_db_step:
  "extension_step two_approvals_db (moved_days su_approval suspension_duration (hd (db_suspensions suspended_db)) moved_suspension) moved_db"
  by (rule extension_step.susp_update [where today = 200 and now = 6]) code_simp+

theorem extensions_balance_witness: "end_of moved_db 1 = Some 759 \<and> end_of moved_db 2 = Some 749"
proof -
  note h = extension_history.more [OF extension_history.none moved_db_step]
  have k: "row_keys_ok two_approvals_db" by code_simp
  have "suspended_total moved_db 1 = 0" "suspended_total two_approvals_db 1 = 30" "suspended_total moved_db 2 = 50"
    "suspended_total two_approvals_db 2 = 0" "prolonged_total moved_db 1 = 0" "prolonged_total two_approvals_db 1 = 0"
    "prolonged_total moved_db 2 = 0" "prolonged_total two_approvals_db 2 = 0"
    "end_of two_approvals_db 1 = Some 759" "end_of two_approvals_db 2 = Some 729"
    "moved_days su_approval suspension_duration (hd (db_suspensions suspended_db)) moved_suspension 1 = 30"
    "moved_days su_approval suspension_duration (hd (db_suspensions suspended_db)) moved_suspension 2 = - 30"
    by code_simp+
  then show ?thesis using extensions_balance [OF h k, of 1] extensions_balance [OF h k, of 2] by simp
qed

section \<open>Numbers\<close>

text \<open>C6.  When the numbers in use are well-formed, \<open>get_next_number\<close> either returns a
  well-formed number of 12 characters that neither a PASS IAE nor a cancelled one has and that is greater
  than all of them, or raises because the last of the 9,999,999 numbers is taken.\<close>

theorem next_number_fresh:
  assumes "numbers_ok as" and "numbers_ok cs"
  shows "case get_next_number as cs of
      Inr n \<Rightarrow> itou_number n \<and> length n = 12 \<and> n \<notin> set as \<union> set cs \<and>
        (\<forall>m \<in> set as \<union> set cs. itou_number m \<longrightarrow> m < n)
    | Inl e \<Rightarrow> ''999999999999'' \<in> set as \<union> set cs"
proof -
  obtain k where bound: "\<And>n. n \<in> set as \<union> set cs \<Longrightarrow> startswith n asp_itou_prefix \<Longrightarrow> number_value n \<le> k"
    and orig: "k = 0 \<or> (\<exists>n \<in> set as \<union> set cs. itou_number n \<and> number_value n = k)"
    and eq: "get_next_number as cs =
      (if 9999999 < k + 1 then Inl (RuntimeError ''The maximum number of PASS IAE has been reached.'')
       else Inr (asp_itou_prefix @ zfill 7 (k + 1)))"
    using get_next_number_cases [OF assms] by metis
  show ?thesis
  proof (cases "9999999 < k + 1")
    case True
    then obtain n where n: "n \<in> set as \<union> set cs" "itou_number n" "number_value n = k" using orig by auto
    then have "k = 9999999" using True number_value_less [of n] by simp
    moreover have "itou_number ''999999999999''" "number_value ''999999999999'' = 9999999"
      by (simp_all add: itou_number_def startswith_def asp_itou_prefix_def is_digit_def number_value_def
          digit_val_def)
    ultimately have "n = ''999999999999''" using n itou_number_le_iff(1) by (metis order_antisym order_refl)
    then show ?thesis using n True eq by simp
  next
    case False
    let ?n = "asp_itou_prefix @ zfill 7 (k + 1)"
    have itou: "itou_number ?n" using False by (intro itou_number_of_value) simp
    have less: "m < ?n" if "m \<in> set as \<union> set cs" "itou_number m" for m
      using that itou itou_number_le_iff(2) [OF that(2) itou] bound [OF that(1)] by (simp add: itou_number_def)
    have "?n \<notin> set as \<union> set cs" using less [of ?n] itou by blast
    moreover have "length ?n = 12" using itou by (simp add: itou_number_def)
    ultimately show ?thesis using False eq itou less by auto
  qed
qed

theorem next_number_fresh_witness:
  "get_next_number [''999990000007''] [''999990000009'', ''123456789012''] = Inr ''999990000010'' \<and>
   ''999990000010'' \<notin> {''999990000007'', ''999990000009'', ''123456789012''}"
proof -
  have z: "zfill 7 10 = ''0000010''" by code_simp
  have n: "get_next_number [''999990000007''] [''999990000009'', ''123456789012''] = Inr ''999990000010''"
    by (simp add: get_next_number_def last_number_def startswith_def asp_itou_prefix_def
        removeprefix_def py_int_def is_digit_def digit_val_def z)
  have "numbers_ok [''999990000007'']" "numbers_ok [''999990000009'', ''123456789012'']"
    by (simp_all add: numbers_ok_def itou_number_def startswith_def asp_itou_prefix_def is_digit_def)
  from next_number_fresh [OF this] show ?thesis unfolding n by simp
qed

section \<open>Remaining days and suspensions\<close>

text \<open>C7.  For an approval whose suspensions lie within its dates and do not overlap, as the
  exclusion constraint enforces, \<open>remainder\<close> is the number of days from today to the end of the approval,
  within it, that no suspension covers; in particular it is never negative.\<close>

theorem remainder_counts_free_days:
  assumes "suspension_table_ok ss" and "ap_start_at a \<le> ap_end_at a"
    and "\<forall>s \<in> set (suspension_set a ss). ap_start_at a \<le> su_start_at s \<and> su_end_at s \<le> ap_end_at a"
  shows "remainder today a ss = int (card (free_days today a (suspension_set a ss)))"
  unfolding remainder_def
proof (rule remainder_sum [where k = "ap_pk a"])
  show "no_overlap (suspension_set a ss)"
    using assms(1) by (simp add: suspension_table_ok_def suspension_set_def no_overlap_filter)
  show "\<forall>s \<in> set (suspension_set a ss). ap_start_at a \<le> su_start_at s \<and> su_start_at s \<le> su_end_at s \<and>
      su_end_at s \<le> ap_end_at a"
    using assms(1,3) by (auto simp: suspension_table_ok_def suspension_set_def list_all_iff)
qed (use assms(2) in \<open>auto simp: suspension_set_def\<close>)

theorem remainder_counts_free_days_witness:
  "card (free_days 110 sample_approval (suspension_set sample_approval [sample_suspension])) = 599"
proof -
  have "remainder 110 sample_approval [sample_suspension] = 599"
    "suspension_table_ok [sample_suspension]" "ap_start_at sample_approval \<le> ap_end_at sample_approval"
    "\<forall>s \<in> set (suspension_set sample_approval [sample_suspension]).
      ap_start_at sample_approval \<le> su_start_at s \<and> su_end_at s \<le> ap_end_at sample_approval"
    by code_simp+
  with remainder_counts_free_days [of "[sample_suspension]" sample_approval 110] show ?thesis by simp
qed

text \<open>When an approval that may be unsuspended is, for a hiring on some day, it is not
  suspended on that day any more; this holds in any database where no suspension overlaps another or
  starts in the future.\<close>

lemma unsuspend_frees_hiring_day:
  assumes "approvals_inv db" and "\<forall>t \<in> set (db_suspensions db). su_start_at t \<le> today"
    and "can_be_unsuspended today a (db_suspensions db)"
    and "unsuspend today now a hiring_start_at db = Inr db'"
  shows "\<not> is_suspended hiring_start_at a (db_suspensions db') \<and> approvals_inv db'"
  using unsuspend_not_suspended [OF _ assms(2-4)] approvals_inv_unsuspend [OF assms(4,1)] assms(1)
  by (simp add: approvals_inv_def)

text \<open>The latest approval of a job seeker blocks a new one exactly when none of the
  approvals is valid and one of them ended less than two years ago: \<open>latest_approval\<close>, which looks only
  at one row, decides the same as looking at all rows.\<close>

lemma waiting_period_excludes_validity:
  assumes "calendar_laws plus_months"
  shows "has_latest_approval_in_waiting_period plus_months today u as \<longleftrightarrow>
    is_job_seeker u \<and>
    \<not> (\<exists>a \<in> set as. ap_user a = us_pk u \<and> approval_is_valid today a) \<and>
    (\<exists>a \<in> set as. ap_user a = us_pk u \<and> is_in_waiting_period plus_months today a)"
  using in_waiting_period_iff [OF assms, of today u as] has_valid_approval_iff [of plus_months today u as]
  by blast

section \<open>Consequences of a change of dates\<close>

text \<open>Recording a suspension of at least two days extends the approval by its duration, puts the
  approval back in the queue of France Travail and leaves a NEW notification for the ASP on every
  employee record of the approval that was already transmitted.\<close>

lemma suspension_notifies:
  assumes "insert_suspension today now s db = Inr db'" and "su_start_at s < su_end_at s"
    and "get_row ap_pk (su_approval s) (db_approvals db) = Some a"
  shows "\<exists>a'. get_row ap_pk (su_approval s) (db_approvals db') = Some a' \<and>
      ap_end_at a' = ap_end_at a + (su_end_at s - su_start_at s) \<and> ap_start_at a' = ap_start_at a \<and>
      pe_status (ap_pe a') = PE_PENDING \<and>
      (\<forall>e \<in> set (notified_records (ap_number a) (db_employee_records db)).
        \<exists>n \<in> set (db_er_notifications db'). en_employee_record n = er_pk e \<and> en_status n = NS_NEW \<and>
          en_updated_at n = now)"
proof -
  obtain s' where sh: "shift_end_at now (su_approval s) (su_end_at s - su_start_at s)
      (db\<lparr>db_suspensions := db_suspensions db @ [s']\<rparr>) = Inr db'"
    using insert_suspension_InrD [OF assms(1)] by metis
  let ?db = "db\<lparr>db_suspensions := db_suspensions db @ [s']\<rparr>"
  let ?new = "a\<lparr>ap_end_at := ap_end_at a + (su_end_at s - su_start_at s), ap_updated_at := now\<rparr>"
  have pk: "ap_pk a = su_approval s" using get_row_SomeD [OF assms(3)] by simp
  have upd: "update_approval now ?new ?db = Inr db'" using sh assms(3) by (simp add: shift_end_at_def)
  have old: "get_row ap_pk (ap_pk ?new) (db_approvals ?db) = Some a" using assms(3) pk by simp
  have dif: "dates_differ a ?new" using assms(2) by (simp add: dates_differ_def)
  obtain a' where "get_row ap_pk (ap_pk ?new) (db_approvals db') = Some a'" "pe_status (ap_pe a') = PE_PENDING"
    "ap_start_at a' = ap_start_at ?new" "ap_end_at a' = ap_end_at ?new"
    using date_change_effects(1) [OF upd old dif] by blast
  then show ?thesis using date_change_effects(2) [OF upd old dif] pk by auto
qed

text \<open>Deleting an approval leaves no approval, suspension, prolongation or request with its
  key and no job application linked to it, and records its number, dates and holder as a cancelled
  approval whose notification to France Travail is pending.\<close>

lemma deletion_leaves_a_trace:
  assumes "approval_delete now a db = Inr db'"
  shows "(\<forall>b \<in> set (db_approvals db'). ap_pk b \<noteq> ap_pk a) \<and>
    (\<forall>s \<in> set (db_suspensions db'). su_approval s \<noteq> ap_pk a) \<and>
    (\<forall>p \<in> set (db_prolongations db'). pl_approval p \<noteq> ap_pk a) \<and>
    (\<forall>r \<in> set (db_prolongation_requests db'). pl_approval r \<noteq> ap_pk a) \<and>
    (\<forall>j \<in> set (db_job_applications db'). af_approval (ja_accepted j) \<noteq> Some (ap_pk a)) \<and>
    (\<exists>c. db_cancelled_approvals db' = db_cancelled_approvals db @ [c] \<and> ca_number c = ap_number a \<and>
      ca_start_at c = ap_start_at a \<and> ca_end_at c = ap_end_at a \<and> pe_status (ca_pe c) = PE_PENDING)"
proof -
  obtain u p where d: "cascade_delete_approval now (ap_pk a)
      (db\<lparr>db_cancelled_approvals := db_cancelled_approvals db @
            [cancelled_from_approval now (next_pk ca_pk (db_cancelled_approvals db)) a u p],
          db_job_applications := clear_approval_of_applications (ap_pk a) (db_job_applications db)\<rparr>) = Inr db'"
    using approval_delete_InrD [OF assms] by blast
  note C = cascade_delete_rows [OF d]
  have "\<forall>j \<in> set (db_job_applications db'). af_approval (ja_accepted j) \<noteq> Some (ap_pk a)"
    using C(6) clear_approval_none by auto
  then show ?thesis using C(1-5) by (simp add: cancelled_from_approval_def pending_pe_def)
qed

section \<open>Prolongations\<close>

lemma grant_effects:
  assumes "grant now user r db = Inr db'" and "pl_pk r \<in> pl_pk ` set (db_prolongation_requests db)"
  shows "\<exists>p. db_prolongations db' = db_prolongations db @ [p] \<and> pl_request p = Some (pl_pk r) \<and>
      pl_approval p = pl_approval r \<and> pl_start_at p = pl_start_at r \<and> pl_end_at p = pl_end_at r \<and>
      pl_reason p = pl_reason r \<and> pl_validated_by p = Some user"
    and "end_of db' (pl_approval r) =
      map_option (\<lambda>e. e + prolongation_duration r) (end_of db (pl_approval r))"
    and "\<exists>q \<in> set (db_prolongation_requests db'). pl_pk q = pl_pk r \<and> prq_status q = PR_GRANTED"
    and "\<not> is_ok (grant now' user' r db')"
proof -
  let ?new = "from_prolongation_request now (process_request now user PR_GRANTED r)"
  obtain db1 where i: "insert_prolongation now ?new db = Inr db1"
    and db': "db' = db1\<lparr>db_prolongation_requests := map_rows (\<lambda>q. pl_pk q = pl_pk r)
      (\<lambda>_. (process_request now user PR_GRANTED r)\<lparr>pl_updated_at := now\<rparr>) (db_prolongation_requests db1)\<rparr>"
    by (rule grant_InrD [OF assms(1)])
  obtain p' where p': "p' = ?new\<lparr>pl_pk := next_pk pl_pk (db_prolongations db)\<rparr>"
    and sh: "shift_end_at now (pl_approval ?new) (prolongation_duration ?new)
      (db\<lparr>db_prolongations := db_prolongations db @ [p']\<rparr>) = Inr db1"
    by (rule insert_prolongation_InrD [OF i])
  have rows: "db_prolongations db' = db_prolongations db @ [p']"
    using shift_end_at_frame(2) [OF sh] by (simp add: db')
  show "\<exists>p. db_prolongations db' = db_prolongations db @ [p] \<and> pl_request p = Some (pl_pk r) \<and>
      pl_approval p = pl_approval r \<and> pl_start_at p = pl_start_at r \<and> pl_end_at p = pl_end_at r \<and>
      pl_reason p = pl_reason r \<and> pl_validated_by p = Some user"
    using rows by (simp add: p')
  show "end_of db' (pl_approval r) =
      map_option (\<lambda>e. e + prolongation_duration r) (end_of db (pl_approval r))"
    using prol.ins_end [OF i, of "pl_approval r"]
    by (simp add: db' end_of_def prolongation_duration_def)
  show "\<exists>q \<in> set (db_prolongation_requests db'). pl_pk q = pl_pk r \<and> prq_status q = PR_GRANTED"
  proof -
    let ?r = "(process_request now user PR_GRANTED r)\<lparr>pl_updated_at := now\<rparr>"
    obtain x where "x \<in> set (db_prolongation_requests db1)" "pl_pk x = pl_pk r"
      using assms(2) shift_end_at_frame(3) [OF sh] by auto
    then have "?r \<in> set (db_prolongation_requests db')"
      using map_rows_updated [of x _ "\<lambda>q. pl_pk q = pl_pk r" "\<lambda>_. ?r"] by (simp add: db')
    then show ?thesis by (rule bexI [rotated]) simp
  qed
  show "\<not> is_ok (grant now' user' r db')"
  proof
    assume "is_ok (grant now' user' r db')"
    then obtain db2 where g: "grant now' user' r db' = Inr db2" by (auto simp: is_ok_iff)
    let ?p = "(from_prolongation_request now' (process_request now' user' PR_GRANTED r))
      \<lparr>pl_pk := next_pk pl_pk (db_prolongations db')\<rparr>"
    have "prolongation_row_check (db_prolongations db') ?p = Inr ()"
      by (rule grant_InrD [OF g], erule insert_prolongation_InrD) simp
    from prolongation_row_check_request [OF this, of p'] show False by (simp add: rows p')
  qed
qed

text \<open>C8.  Granting a request creates one prolongation with its dates, reason and validator, moves the
  end of the approval by its duration and marks the request granted; granting the same request again
  raises, so the approval cannot be extended twice for one request.\<close>

theorem grant_extends_once:
  assumes "grant now user r db = Inr db'" and "pl_pk r \<in> pl_pk ` set (db_prolongation_requests db)"
  shows "(\<exists>p. db_prolongations db' = db_prolongations db @ [p] \<and> pl_request p = Some (pl_pk r) \<and>
      pl_approval p = pl_approval r \<and> pl_start_at p = pl_start_at r \<and> pl_end_at p = pl_end_at r \<and>
      pl_reason p = pl_reason r \<and> pl_validated_by p = Some user) \<and>
    end_of db' (pl_approval r) =
      map_option (\<lambda>e. e + prolongation_duration r) (end_of db (pl_approval r)) \<and>
    (\<exists>q \<in> set (db_prolongation_requests db'). pl_pk q = pl_pk r \<and> prq_status q = PR_GRANTED) \<and>
    (\<forall>now' user'. \<not> is_ok (grant now' user' r db'))"
  using grant_effects [OF assms] by blast

definition requested_db :: db where
  "requested_db = sample_db\<lparr>db_prolongation_requests := [sample_request]\<rparr>"

theorem grant_extends_once_witness:
  "\<exists>db'. grant 9 2 sample_request requested_db = Inr db' \<and> end_of db' 1 = Some 1000 \<and>
     \<not> is_ok (grant 10 2 sample_request db')"
proof -
  have "is_ok (grant 9 2 sample_request requested_db)" by code_simp
  then obtain db' where g: "grant 9 2 sample_request requested_db = Inr db'" by (auto simp: is_ok_iff)
  have k: "pl_pk sample_request \<in> pl_pk ` set (db_prolongation_requests requested_db)"
    "pl_approval sample_request = 1" "prolongation_duration sample_request = 271"
    "end_of requested_db 1 = Some 729" by code_simp+
  from grant_extends_once [OF g k(1)] k show ?thesis using g by auto
qed

lemma form_limits:
  assumes "form_accepts ps a siae_kind reason end_at"
  shows "end_at - ap_end_at a \<le> rule_max_duration (prolongation_rules reason)"
    and "end_at \<le> prolongation_get_max_end_at ps (ap_pk a) (ap_end_at a) reason []"
    and "rule_max_cumulative_duration (prolongation_rules reason) = Some limit \<Longrightarrow>
      total_duration pl_approval prolongation_duration (ap_pk a) ps + (end_at - ap_end_at a) \<le> limit \<and>
      total_duration pl_approval prolongation_duration (ap_pk a) ps < limit"
    and "reason \<in> set (prolongation_reason_for_company siae_kind)"
proof -
  note F = assms [unfolded form_accepts_def form_max_end_at_def form_reason_choices_def]
  show "end_at - ap_end_at a \<le> rule_max_duration (prolongation_rules reason)"
    "end_at \<le> prolongation_get_max_end_at ps (ap_pk a) (ap_end_at a) reason []"
    "reason \<in> set (prolongation_reason_for_company siae_kind)"
    using F by auto
  assume "rule_max_cumulative_duration (prolongation_rules reason) = Some limit"
  then show "total_duration pl_approval prolongation_duration (ap_pk a) ps + (end_at - ap_end_at a) \<le> limit \<and>
      total_duration pl_approval prolongation_duration (ap_pk a) ps < limit"
    using F by (auto simp: prolongation_get_max_end_at_def cumulative_duration_sum)
qed

text \<open>Every reason and end date the form accepts pass the validation of the model: the
  prolongation starts at the end of the approval, does not exceed the maximum duration of its reason,
  and together with the existing ones does not exceed the cumulative limit.\<close>

lemma form_end_date_limits:
  assumes "form_accepts ps a siae_kind reason end_at"
  shows "end_at - ap_end_at a \<le> rule_max_duration (prolongation_rules reason) \<and>
    end_at \<le> prolongation_get_max_end_at ps (ap_pk a) (ap_end_at a) reason [] \<and>
    reason \<in> set (prolongation_reason_for_company siae_kind) \<and>
    (case rule_max_cumulative_duration (prolongation_rules reason) of
       None \<Rightarrow> True
     | Some limit \<Rightarrow>
         total_duration pl_approval prolongation_duration (ap_pk a) ps + (end_at - ap_end_at a) \<le> limit)"
  using form_limits [OF assms] by (auto split: option.splits)

lemma validated_prolongation:
  assumes "prolongation_clean authorized db memberships a False (Some (pl_end_at p)) p = Inr ()"
    and "insert_prolongation now p db = Inr db'"
    and "get_row ap_pk (pl_approval p) (db_approvals db) = Some a"
  shows "rule_max_cumulative_duration (prolongation_rules (pl_reason p)) = Some limit \<Longrightarrow>
      prolonged_total db' (pl_approval p) \<le> limit"
    and "pl_start_at p = ap_end_at a" and "end_of db' (pl_approval p) = Some (pl_end_at p)"
    and "ap_end_at a < pl_end_at p"
proof -
  have c: "1 \<le> pl_end_at p - pl_start_at p" "pl_start_at p = ap_end_at a"
    "pl_end_at p \<le> prolongation_get_max_end_at (db_prolongations db) (pl_approval p) (pl_start_at p) (pl_reason p) []"
    using assms(1) by (auto simp: prolongation_clean_def common_prolongation_clean_def)
  then show "pl_start_at p = ap_end_at a" "ap_end_at a < pl_end_at p" by auto
  show "end_of db' (pl_approval p) = Some (pl_end_at p)"
    using prol.ins_end [OF assms(2), of "pl_approval p"] assms(3) c(2)
    by (simp add: end_of_def prolongation_duration_def)
  assume lim: "rule_max_cumulative_duration (prolongation_rules (pl_reason p)) = Some limit"
  obtain p' where "db_prolongations db' = db_prolongations db @ [p']" "pl_approval p' = pl_approval p"
    "prolongation_duration p' = prolongation_duration p"
    using prol.ins_rows [OF assms(2)] by blast
  then show "prolonged_total db' (pl_approval p) \<le> limit"
    using c(3) lim
    by (simp add: prolongation_get_max_end_at_def cumulative_duration_sum prolonged_total_def
        total_duration_def prolongation_duration_def)
qed

text \<open>C9.  A prolongation that the model validates and inserts keeps the total
  duration of the prolongations of the approval within the cumulative limit of its reason, starts at the
  end of the approval and moves that end by at least one day.\<close>

theorem validated_prolongations_within_limit:
  assumes "prolongation_clean authorized db memberships a False (Some (pl_end_at p)) p = Inr ()"
    and "insert_prolongation now p db = Inr db'"
    and "get_row ap_pk (pl_approval p) (db_approvals db) = Some a"
  shows "pl_start_at p = ap_end_at a \<and> ap_end_at a < pl_end_at p \<and>
    end_of db' (pl_approval p) = Some (pl_end_at p) \<and>
    (case rule_max_cumulative_duration (prolongation_rules (pl_reason p)) of
       None \<Rightarrow> True
     | Some limit \<Rightarrow> prolonged_total db' (pl_approval p) \<le> limit)"
  using validated_prolongation [OF assms] by (auto split: option.splits)

theorem validated_prolongations_within_limit_witness:
  "\<exists>db'. insert_prolongation 9 sample_prolongation sample_db = Inr db' \<and> prolonged_total db' 1 \<le> 1095"
proof -
  have "is_ok (insert_prolongation 9 sample_prolongation sample_db)" by code_simp
  then obtain db' where i: "insert_prolongation 9 sample_prolongation sample_db = Inr db'"
    by (auto simp: is_ok_iff)
  have "prolongation_clean (\<lambda>_. True) sample_db [(1, 2)] sample_approval False
      (Some (pl_end_at sample_prolongation)) sample_prolongation = Inr ()"
    "get_row ap_pk (pl_approval sample_prolongation) (db_approvals sample_db) = Some sample_approval"
    "rule_max_cumulative_duration (prolongation_rules (pl_reason sample_prolongation)) = Some 1095"
    "pl_approval sample_prolongation = 1"
    by code_simp+
  with validated_prolongations_within_limit [OF this(1) i this(2)] i show ?thesis by auto
qed

section \<open>France Travail\<close>

lemma pe_success_checks:
  shows "fst (approval_notify_pole_emploi client today now a u p db) \<noteq> PE_READY"
    and "fst (approval_notify_pole_emploi client today now a u p db) = PE_SUCCESS \<Longrightarrow>
      ap_start_at a \<le> today \<and> siae_kind_to_ft_type_siae (oi_siae_kind (ap_origin_info a)) \<noteq> None \<and>
      us_first_name u \<noteq> [] \<and> us_last_name u \<noteq> [] \<and> jp_nir p \<noteq> [] \<and> jp_birthdate p \<noteq> None \<and>
      (\<exists>i. mise_a_jour_pass_iae client
         (maj_request (ap_number a) (ap_start_at a) (ap_end_at a) i (ap_origin_info a)) = Inr ())"
proof -
  have st: "fst (approval_notify_pole_emploi client today now a u p db) =
      pe_status (fst (approval_pe_outcome client today now a u p))"
    by (simp add: approval_notify_pole_emploi_def split: prod.splits)
  show "fst (approval_notify_pole_emploi client today now a u p db) \<noteq> PE_READY"
    unfolding st by (rule approval_pe_outcome_never_ready)
  assume "fst (approval_notify_pole_emploi client today now a u p db) = PE_SUCCESS"
  then have "pe_status (fst (approval_pe_outcome client today now a u p)) = PE_SUCCESS" by (simp add: st)
  then show "ap_start_at a \<le> today \<and> siae_kind_to_ft_type_siae (oi_siae_kind (ap_origin_info a)) \<noteq> None \<and>
      us_first_name u \<noteq> [] \<and> us_last_name u \<noteq> [] \<and> jp_nir p \<noteq> [] \<and> jp_birthdate p \<noteq> None \<and>
      (\<exists>i. mise_a_jour_pass_iae client
         (maj_request (ap_number a) (ap_start_at a) (ap_end_at a) i (ap_origin_info a)) = Inr ())"
    by (rule approval_pe_outcome_success) blast
qed

text \<open>The notification of an approval is recorded as a success only when the approval has
  started, its employer is of a kind France Travail knows, the identity of the holder is complete and the
  service accepted the update; no notification is ever left in the state READY.\<close>

lemma pe_success_is_earned:
  "fst (approval_notify_pole_emploi client today now a u p db) \<noteq> PE_READY \<and>
   (fst (approval_notify_pole_emploi client today now a u p db) = PE_SUCCESS \<longrightarrow>
      ap_start_at a \<le> today \<and> siae_kind_to_ft_type_siae (oi_siae_kind (ap_origin_info a)) \<noteq> None \<and>
      us_first_name u \<noteq> [] \<and> us_last_name u \<noteq> [] \<and> jp_nir p \<noteq> [] \<and> jp_birthdate p \<noteq> None \<and>
      (\<exists>i. mise_a_jour_pass_iae client
         (maj_request (ap_number a) (ap_start_at a) (ap_end_at a) i (ap_origin_info a)) = Inr ()))"
  using pe_success_checks by blast

definition accepting_client :: pe_client where
  "accepting_client = \<lparr>recherche_individu_certifie = (\<lambda>_ _ _ _. Inr ''id''),
     mise_a_jour_pass_iae = (\<lambda>_. Inr ())\<rparr>"

section \<open>Postponing the start\<close>

lemma update_start_date_effects:
  shows "\<not> today < ap_start_at a \<Longrightarrow> update_start_date today now a d db = Inr (False, a, db)"
    and "today < ap_start_at a \<Longrightarrow> update_start_date today now a d db = Inr (ok, a', db') \<Longrightarrow>
      get_row ap_pk (ap_pk a) (db_approvals db) = Some old \<Longrightarrow> ap_number a \<noteq> [] \<Longrightarrow>
      ok \<and> (\<exists>b. get_row ap_pk (ap_pk a) (db_approvals db') = Some b \<and> ap_start_at b = d \<and>
        ap_end_at b = d + 729 \<and> approval_duration b = 730 \<and> ap_number b = ap_number a \<and> ap_user b = ap_user a)"
proof -
  show "\<not> today < ap_start_at a \<Longrightarrow> update_start_date today now a d db = Inr (False, a, db)"
    by (simp add: update_start_date_def can_postpone_start_date_def)
  assume a: "today < ap_start_at a" "update_start_date today now a d db = Inr (ok, a', db')"
    "get_row ap_pk (ap_pk a) (db_approvals db) = Some old" "ap_number a \<noteq> []"
  let ?a = "a\<lparr>ap_start_at := d, ap_end_at := get_default_end_date d\<rparr>"
  let ?new = "(approval_origin_on_save ?a)\<lparr>ap_updated_at := now\<rparr>"
  have ok: "ok" and s: "approval_save today now ?a db = Inr db'"
    using a(1,2) by (auto simp: update_start_date_def can_postpone_start_date_def Let_def)
  have u: "update_approval now ?new db = Inr db'" using s a(4) by (auto simp: approval_save_def)
  have new: "ap_pk ?new = ap_pk a" "ap_start_at ?new = d" "ap_end_at ?new = d + 729"
    "ap_number ?new = ap_number a" "ap_user ?new = ap_user a"
    by (simp_all add: approval_origin_on_save_def get_default_end_date_def default_approval_days_def)
  have "get_row ap_pk (ap_pk ?new) (db_approvals db) = Some old" using a(3) new(1) by simp
  from update_approval_get [OF u this, of "ap_pk a"] new ok
  show "ok \<and> (\<exists>b. get_row ap_pk (ap_pk a) (db_approvals db') = Some b \<and> ap_start_at b = d \<and>
        ap_end_at b = d + 729 \<and> approval_duration b = 730 \<and> ap_number b = ap_number a \<and> ap_user b = ap_user a)"
    by (auto simp: approval_duration_def)
qed

text \<open>\<open>update_start_date\<close> changes nothing once the approval has started; before that, the saved
  approval starts on the new day, lasts exactly 730 days and keeps its number and holder.\<close>

lemma postponed_start:
  assumes "update_start_date today now a d db = Inr (ok, a', db')"
    and "get_row ap_pk (ap_pk a) (db_approvals db) = Some old" and "ap_number a \<noteq> []"
  shows "if today < ap_start_at a
    then ok \<and> (\<exists>b. get_row ap_pk (ap_pk a) (db_approvals db') = Some b \<and> ap_start_at b = d \<and>
      ap_end_at b = d + 729 \<and> approval_duration b = 730 \<and> ap_number b = ap_number a \<and> ap_user b = ap_user a)
    else \<not> ok \<and> a' = a \<and> db' = db"
  using update_start_date_effects(1) [of today a now d db] update_start_date_effects(2) [OF _ assms] assms(1)
  by auto

end
