(* ===== verification/Gps.thy ===== *)
theory Gps
  imports Schema
begin

text \<open>
  \<open>gps/models.py\<close>: the follow-up group of a beneficiary and its memberships, and
  \<open>follow_beneficiary\<close>, which other components call.  The managers \<open>objects\<close> hide rows of inactive
  users; the guards of \<open>follow_beneficiary\<close> ensure both users are active, so its lookups see all rows
  they ask for.
\<close>

section \<open>Tables\<close>

definition membership_key :: "followup_membership \<Rightarrow> pk \<times> pk" where
  "membership_key m = (fm_group m, fm_member m)"

definition membership_constraints :: "followup_membership \<Rightarrow> bool" where
  "membership_constraints m \<longleftrightarrow>
     (fm_ended_at m = None \<and> fm_end_reason m = None) \<or> (fm_ended_at m \<noteq> None \<and> fm_end_reason m \<noteq> None)"

definition gps_inv :: "db \<Rightarrow> bool" where
  "gps_inv db \<longleftrightarrow>
     distinct (map fg_pk (db_groups db)) \<and> distinct (map fg_beneficiary (db_groups db)) \<and>
     distinct (map membership_key (db_memberships db)) \<and> list_all membership_constraints (db_memberships db)"

section \<open>Following\<close>

text \<open>\<open>FollowUpGroup.objects.get_or_create(beneficiary=..)\<close>.\<close>

definition get_or_create_group :: "datetime \<Rightarrow> pk \<Rightarrow> db \<Rightarrow> followup_group \<times> db" where
  "get_or_create_group now beneficiary db =
     (case get_row fg_beneficiary beneficiary (db_groups db) of
        Some g \<Rightarrow> (g, db)
      | None \<Rightarrow>
          (let g = \<lparr>fg_pk = next_pk fg_pk (db_groups db), fg_beneficiary = beneficiary,
                    fg_created_at = now, fg_created_in_bulk = False\<rparr>
           in (g, db\<lparr>db_groups := db_groups db @ [g]\<rparr>)))"

text \<open>\<open>FollowUpGroupMembership.objects.update_or_create\<close>: the row to create is also the update.\<close>

definition put_membership :: "followup_membership \<Rightarrow> followup_membership list \<Rightarrow> followup_membership list"
  where
  "put_membership m t =
     upsert (\<lambda>n. membership_key n = membership_key m)
       (\<lambda>n. n\<lparr>fm_ended_at := None, fm_end_reason := None, fm_last_contact_at := fm_last_contact_at m,
              fm_is_active := fm_is_active m\<rparr>) m t"

definition follow_beneficiary :: "datetime \<Rightarrow> date \<Rightarrow> user \<Rightarrow> user \<Rightarrow> bool \<Rightarrow> db \<Rightarrow> db" where
  "follow_beneficiary now today beneficiary user is_active db =
     (if \<not> is_job_seeker beneficiary then db
      else if \<not> us_is_active beneficiary then db
      else if \<not> us_is_active user then db
      else if \<not> is_professional user then db
      else
        (case get_or_create_group now (us_pk beneficiary) db of (g, db1) \<Rightarrow>
           db1\<lparr>db_memberships := put_membership
             \<lparr>fm_group = fg_pk g, fm_member = us_pk user, fm_creator = us_pk user,
              fm_is_active = is_active, fm_created_at = now, fm_last_contact_at = now,
              fm_started_at = today, fm_ended_at = None, fm_end_reason = None\<rparr> (db_memberships db1)\<rparr>))"

section \<open>Lemmas\<close>

interpretation memberships: keyed_upsert membership_key put_membership
proof
  show "distinct (map membership_key t) \<Longrightarrow> distinct (map membership_key (put_membership m t))" for m t
    unfolding put_membership_def by (rule upsert_distinct_key) (auto simp: membership_key_def)
  show "set (map membership_key (put_membership m t)) =
      insert (membership_key m) (set (map membership_key t))" for m t
    unfolding put_membership_def by (rule upsert_keys) (auto simp: membership_key_def)
qed

lemma put_membership_found:
  assumes "fm_ended_at m = None" "fm_end_reason m = None"
  shows "\<exists>n \<in> set (put_membership m t). membership_key n = membership_key m \<and> fm_ended_at n = None \<and>
    fm_end_reason n = None \<and> fm_last_contact_at n = fm_last_contact_at m \<and> fm_is_active n = fm_is_active m"
proof (cases "\<exists>n \<in> set t. membership_key n = membership_key m")
  case True
  then obtain n where n: "n \<in> set t" "membership_key n = membership_key m" by blast
  let ?f = "\<lambda>n. n\<lparr>fm_ended_at := None, fm_end_reason := None, fm_last_contact_at := fm_last_contact_at m,
    fm_is_active := fm_is_active m\<rparr>"
  have "?f n \<in> set (put_membership m t)"
    using True map_rows_updated [of n t "\<lambda>n. membership_key n = membership_key m" ?f] n
    by (simp add: put_membership_def upsert_update)
  then show ?thesis by (rule bexI [rotated]) (use n in \<open>simp add: membership_key_def\<close>)
next
  case False
  then have "put_membership m t = t @ [m]" by (simp add: put_membership_def upsert_insert)
  then show ?thesis using assms by simp
qed

lemma put_membership_constraints:
  "list_all membership_constraints t \<Longrightarrow> membership_constraints m \<Longrightarrow>
   list_all membership_constraints (put_membership m t)"
  by (auto simp: put_membership_def upsert_def list_all_iff set_map_rows membership_constraints_def)

lemma get_or_create_group_spec:
  assumes "get_or_create_group now b db = (g, db')"
  shows "g \<in> set (db_groups db')" "fg_beneficiary g = b" "db_memberships db' = db_memberships db"
    and "distinct (map fg_beneficiary (db_groups db)) \<Longrightarrow> distinct (map fg_beneficiary (db_groups db'))"
    and "distinct (map fg_pk (db_groups db)) \<Longrightarrow> distinct (map fg_pk (db_groups db'))"
  using assms get_row_SomeD [of fg_beneficiary b "db_groups db"]
    get_row_None_iff [of fg_beneficiary b "db_groups db"]
  by (auto simp: get_or_create_group_def Let_def split: option.splits)

lemma get_or_create_group_shape: "\<exists>gs. snd (get_or_create_group now k db) = db\<lparr>db_groups := gs\<rparr>"
proof (cases "get_row fg_beneficiary k (db_groups db)")
  case None
  then show ?thesis by (auto simp: get_or_create_group_def Let_def)
next
  case (Some g)
  then have "snd (get_or_create_group now k db) = db\<lparr>db_groups := db_groups db\<rparr>"
    by (simp add: get_or_create_group_def)
  then show ?thesis by blast
qed

lemma follow_beneficiary_shape:
  "\<exists>gs ms. follow_beneficiary now today b u act db = db\<lparr>db_groups := gs, db_memberships := ms\<rparr>"
proof (cases "is_job_seeker b \<and> us_is_active b \<and> us_is_active u \<and> is_professional u")
  case True
  obtain gs where "snd (get_or_create_group now (us_pk b) db) = db\<lparr>db_groups := gs\<rparr>"
    using get_or_create_group_shape by blast
  then show ?thesis using True
    by (intro exI [of _ gs]) (auto simp: follow_beneficiary_def split: prod.splits)
next
  case False
  then have "follow_beneficiary now today b u act db =
      db\<lparr>db_groups := db_groups db, db_memberships := db_memberships db\<rparr>"
    by (auto simp: follow_beneficiary_def)
  then show ?thesis by blast
qed

lemma follow_beneficiary_frame [simp]:
  "db_users (follow_beneficiary now today b u act db) = db_users db"
  "db_profiles (follow_beneficiary now today b u act db) = db_profiles db"
  "db_companies (follow_beneficiary now today b u act db) = db_companies db"
  "db_prescriber_orgs (follow_beneficiary now today b u act db) = db_prescriber_orgs db"
  "db_assignments (follow_beneficiary now today b u act db) = db_assignments db"
  "db_approvals (follow_beneficiary now today b u act db) = db_approvals db"
  "db_cancelled_approvals (follow_beneficiary now today b u act db) = db_cancelled_approvals db"
  "db_suspensions (follow_beneficiary now today b u act db) = db_suspensions db"
  "db_prolongations (follow_beneficiary now today b u act db) = db_prolongations db"
  "db_prolongation_requests (follow_beneficiary now today b u act db) = db_prolongation_requests db"
  "db_diagnoses (follow_beneficiary now today b u act db) = db_diagnoses db"
  "db_geiq_diagnoses (follow_beneficiary now today b u act db) = db_geiq_diagnoses db"
  "db_job_applications (follow_beneficiary now today b u act db) = db_job_applications db"
  "db_ja_logs (follow_beneficiary now today b u act db) = db_ja_logs db"
  "db_employee_records (follow_beneficiary now today b u act db) = db_employee_records db"
  "db_er_notifications (follow_beneficiary now today b u act db) = db_er_notifications db"
  "db_criteria (follow_beneficiary now today b u act db) = db_criteria db"
  "db_geiq_criteria (follow_beneficiary now today b u act db) = db_geiq_criteria db"
  "db_selected_criteria (follow_beneficiary now today b u act db) = db_selected_criteria db"
  "db_geiq_selected_criteria (follow_beneficiary now today b u act db) = db_geiq_selected_criteria db"
  "db_tasks (follow_beneficiary now today b u act db) = db_tasks db"
  using follow_beneficiary_shape [of now today b u act db] by auto

lemma follow_beneficiary_inv:
  assumes "gps_inv db"
  shows "gps_inv (follow_beneficiary now today b u act db)"
proof (cases "get_or_create_group now (us_pk b) db")
  case (Pair g db1)
  note G = get_or_create_group_spec [OF Pair]
  have "membership_constraints \<lparr>fm_group = fg_pk g, fm_member = us_pk u, fm_creator = us_pk u,
      fm_is_active = act, fm_created_at = now, fm_last_contact_at = now, fm_started_at = today,
      fm_ended_at = None, fm_end_reason = None\<rparr>"
    by (simp add: membership_constraints_def)
  then show ?thesis using assms Pair G(3-5) put_membership_constraints memberships.ups_distinct
    by (simp add: follow_beneficiary_def gps_inv_def)
qed

text \<open>After an active professional follows an active job seeker, the group of the job seeker exists and
  has an ongoing membership of the professional.\<close>

lemma follow_beneficiary_follows:
  assumes "is_job_seeker b" "us_is_active b" "us_is_active u" "is_professional u"
  shows "\<exists>g \<in> set (db_groups (follow_beneficiary now today b u act db)).
    fg_beneficiary g = us_pk b \<and>
    (\<exists>m \<in> set (db_memberships (follow_beneficiary now today b u act db)).
       membership_key m = (fg_pk g, us_pk u) \<and> fm_ended_at m = None \<and> fm_last_contact_at m = now \<and>
       fm_is_active m = act)"
proof (cases "get_or_create_group now (us_pk b) db")
  case (Pair g db1)
  let ?m = "\<lparr>fm_group = fg_pk g, fm_member = us_pk u, fm_creator = us_pk u,
      fm_is_active = act, fm_created_at = now, fm_last_contact_at = now, fm_started_at = today,
      fm_ended_at = None, fm_end_reason = None\<rparr>"
  have eq: "follow_beneficiary now today b u act db =
      db1\<lparr>db_memberships := put_membership ?m (db_memberships db1)\<rparr>"
    using assms Pair by (simp add: follow_beneficiary_def)
  obtain n where "n \<in> set (put_membership ?m (db_memberships db1))" "membership_key n = (fg_pk g, us_pk u)"
    "fm_ended_at n = None" "fm_last_contact_at n = now" "fm_is_active n = act"
    using put_membership_found [of ?m "db_memberships db1"] by (auto simp: membership_key_def)
  then show ?thesis unfolding eq using get_or_create_group_spec(1,2) [OF Pair] by auto
qed

end
