(* ===== verification/Eligibility.thy ===== *)
theory Eligibility
  imports Approval_Dates Gps "HOL-Library.Multiset"
begin

text \<open>
  \<open>eligibility/models/common.py\<close>, \<open>eligibility/models/iae.py\<close> and \<open>eligibility/utils.py\<close>: the IAE
  eligibility diagnoses, their selection for an employer, their creation and renewal, the criteria
  deduced from a profile and the rules on criteria; and the methods of \<open>User\<close> that read them.

  A \<open>DateField\<close> compared with an aware datetime compares with its local date, so \<open>valid()\<close> is
  \<open>today < expires_at\<close>.  The certification of a criterion is a task appended to a queue.  The
  geographical lookups (ZRR, QPV) of an address are arguments.
\<close>

section \<open>Common querysets\<close>

definition diagnosis_is_valid :: "date \<Rightarrow> diagnosis \<Rightarrow> bool" where
  "diagnosis_is_valid today d \<longleftrightarrow> today < dg_expires_at d"

definition valid_diagnoses :: "date \<Rightarrow> diagnosis list \<Rightarrow> diagnosis list" where
  "valid_diagnoses today ds = filter (\<lambda>d. today < dg_expires_at d) ds"

definition expired_diagnoses :: "date \<Rightarrow> diagnosis list \<Rightarrow> diagnosis list" where
  "expired_diagnoses today ds = filter (\<lambda>d. dg_expires_at d \<le> today) ds"

definition by_author_kind_prescriber :: "diagnosis list \<Rightarrow> diagnosis list" where
  "by_author_kind_prescriber ds = filter (\<lambda>d. dg_author_kind d = AK_PRESCRIBER) ds"

definition is_from_employer :: "diagnosis \<Rightarrow> bool" where
  "is_from_employer d \<longleftrightarrow> dg_author_kind d \<in> {AK_GEIQ, AK_EMPLOYER}"

definition expiration_delay_months :: int where "expiration_delay_months = 6"

definition criterion_is_certifiable :: "administrative_criteria \<Rightarrow> bool" where
  "criterion_is_certifiable c \<longleftrightarrow> cr_kind c \<in> set certifiable_criteria_kinds"

definition level1 :: "administrative_criteria list \<Rightarrow> administrative_criteria list" where
  "level1 cs = filter (\<lambda>c. cr_level c = Some LEVEL_1) cs"

definition level2 :: "administrative_criteria list \<Rightarrow> administrative_criteria list" where
  "level2 cs = filter (\<lambda>c. cr_level c = Some LEVEL_2) cs"

section \<open>Selected criteria\<close>

text \<open>The many-to-many manager: \<open>add\<close> inserts the missing links, \<open>set\<close> also deletes the links to
  other criteria.\<close>

definition add_criterion :: "pk \<Rightarrow> pk \<Rightarrow> selected_criteria list \<Rightarrow> selected_criteria list" where
  "add_criterion diagnosis criterion t =
     (if list_ex (\<lambda>s. sc_diagnosis s = diagnosis \<and> sc_criteria s = criterion) t then t
      else t @ [\<lparr>sc_pk = next_pk sc_pk t, sc_diagnosis = diagnosis, sc_criteria = criterion,
                 sc_certified_at = None, sc_certification_period = None,
                 sc_last_certification_attempt_at = None\<rparr>])"

definition add_criteria :: "pk \<Rightarrow> pk list \<Rightarrow> selected_criteria list \<Rightarrow> selected_criteria list" where
  "add_criteria diagnosis criteria t = foldl (\<lambda>acc c. add_criterion diagnosis c acc) t criteria"

definition set_criteria :: "pk \<Rightarrow> pk list \<Rightarrow> selected_criteria list \<Rightarrow> selected_criteria list" where
  "set_criteria diagnosis criteria t =
     add_criteria diagnosis criteria
       (filter (\<lambda>s. sc_diagnosis s \<noteq> diagnosis \<or> sc_criteria s \<in> set criteria) t)"

definition criteria_of :: "pk \<Rightarrow> selected_criteria list \<Rightarrow> administrative_criteria list
   \<Rightarrow> administrative_criteria list" where
  "criteria_of diagnosis t cs =
     filter (\<lambda>c. list_ex (\<lambda>s. sc_diagnosis s = diagnosis \<and> sc_criteria s = cr_pk c) t) cs"

definition criterion_kind :: "administrative_criteria list \<Rightarrow> selected_criteria \<Rightarrow> criteria_kind option" where
  "criterion_kind cs s = map_option cr_kind (get_row cr_pk (sc_criteria s) cs)"

text \<open>The loop of \<open>schedule_certification\<close>, over the selected criteria of the diagnosis whose kind is
  certifiable.\<close>

definition certification_task_for ::
  "criteria_model \<Rightarrow> administrative_criteria list \<Rightarrow> selected_criteria \<Rightarrow> error + certification_task" where
  "certification_task_for model cs s =
     (case criterion_kind cs s of
        None \<Rightarrow> Inl (DoesNotExist ''administrative_criteria'')
      | Some k \<Rightarrow>
          if k \<in> set certifiable_by_api_particulier then Inr (CERTIFY_API_PARTICULIER model (sc_pk s))
          else if k \<in> set certifiable_by_api_france_travail then Inr (CERTIFY_FRANCE_TRAVAIL model (sc_pk s))
          else Inl (ValueError ''kind''))"

definition certifiable_selected ::
  "pk \<Rightarrow> administrative_criteria list \<Rightarrow> selected_criteria list \<Rightarrow> selected_criteria list" where
  "certifiable_selected diagnosis cs t =
     filter (\<lambda>s. sc_diagnosis s = diagnosis \<and>
       (case criterion_kind cs s of None \<Rightarrow> False | Some k \<Rightarrow> k \<in> set certifiable_criteria_kinds)) t"

definition schedule_certification ::
  "criteria_model \<Rightarrow> pk \<Rightarrow> administrative_criteria list \<Rightarrow> selected_criteria list
   \<Rightarrow> certification_task list \<Rightarrow> error + certification_task list" where
  "schedule_certification model diagnosis cs t queue =
     rfold (\<lambda>s q. rbind (certification_task_for model cs s) (\<lambda>task. Inr (q @ [task])))
       (certifiable_selected diagnosis cs t) queue"

definition schedule_iae_certification :: "pk \<Rightarrow> db \<Rightarrow> error + db" where
  "schedule_iae_certification diagnosis db =
     rbind (schedule_certification IAE_SELECTED diagnosis (db_criteria db) (db_selected_criteria db) (db_tasks db))
       (\<lambda>q. Inr (db\<lparr>db_tasks := q\<rparr>))"

definition schedule_geiq_certification :: "pk \<Rightarrow> db \<Rightarrow> error + db" where
  "schedule_geiq_certification diagnosis db =
     rbind (schedule_certification GEIQ_SELECTED diagnosis (db_geiq_criteria db)
              (db_geiq_selected_criteria db) (db_tasks db))
       (\<lambda>q. Inr (db\<lparr>db_tasks := q\<rparr>))"

section \<open>IAE diagnoses\<close>

definition iae_diagnosis_constraints :: "diagnosis \<Rightarrow> bool" where
  "iae_diagnosis_constraints d \<longleftrightarrow>
     (dg_author_kind d = AK_EMPLOYER \<and> dg_author_company d \<noteq> None \<and>
      dg_author_prescriber_organization d = None) \<or>
     (dg_author_kind d = AK_PRESCRIBER \<and> dg_author_prescriber_organization d \<noteq> None \<and>
      dg_author_company d = None)"

definition for_job_seeker_and_siae :: "pk \<Rightarrow> pk option \<Rightarrow> diagnosis list \<Rightarrow> diagnosis list" where
  "for_job_seeker_and_siae job_seeker siae ds =
     filter (\<lambda>d. (dg_author_kind d = AK_PRESCRIBER \<or>
                  (siae \<noteq> None \<and> dg_author_company d = siae)) \<and> dg_job_seeker d = job_seeker) ds"

definition has_approval :: "date \<Rightarrow> approval list \<Rightarrow> diagnosis \<Rightarrow> bool" where
  "has_approval today as d \<longleftrightarrow> list_ex (\<lambda>a. ap_user a = dg_job_seeker d) (valid_approvals today as)"

text \<open>\<open>order_by("-from_prescriber", "-created_at")\<close>.\<close>

definition diagnosis_order :: "diagnosis \<Rightarrow> int \<times> int" where
  "diagnosis_order d = ((if dg_author_kind d = AK_PRESCRIBER then - 1 else 0), - dg_created_at d)"

definition last_considered_valid ::
  "plus_months \<Rightarrow> date \<Rightarrow> user \<Rightarrow> pk option \<Rightarrow> db \<Rightarrow> diagnosis option" where
  "last_considered_valid plus_months today job_seeker for_siae db =
     (let query = for_job_seeker_and_siae (us_pk job_seeker) for_siae (db_diagnoses db) in
      order_first diagnosis_order
        (if \<not> has_valid_approval plus_months today job_seeker (db_approvals db)
         then valid_diagnoses today query else query))"

definition has_considered_valid :: "plus_months \<Rightarrow> date \<Rightarrow> user \<Rightarrow> pk option \<Rightarrow> db \<Rightarrow> bool" where
  "has_considered_valid plus_months today job_seeker for_siae db \<longleftrightarrow>
     has_valid_approval plus_months today job_seeker (db_approvals db) \<or>
     last_considered_valid plus_months today job_seeker for_siae db \<noteq> None"

definition last_expired ::
  "plus_months \<Rightarrow> date \<Rightarrow> user \<Rightarrow> pk option \<Rightarrow> db \<Rightarrow> diagnosis option" where
  "last_expired plus_months today job_seeker for_siae db =
     (if \<not> has_considered_valid plus_months today job_seeker for_siae db
      then order_last dg_created_at
        (for_job_seeker_and_siae (us_pk job_seeker) for_siae (expired_diagnoses today (db_diagnoses db)))
      else None)"

definition last_for_job_seeker :: "user \<Rightarrow> db \<Rightarrow> diagnosis option" where
  "last_for_job_seeker job_seeker db =
     order_first diagnosis_order
       (filter (\<lambda>d. dg_job_seeker d = us_pk job_seeker \<and>
          (list_ex (\<lambda>a. ap_eligibility_diagnosis a = Some (dg_pk d)) (db_approvals db) \<or>
           dg_author_kind d = AK_PRESCRIBER)) (db_diagnoses db))"

definition diagnosis_approval_set :: "diagnosis \<Rightarrow> approval list \<Rightarrow> approval list" where
  "diagnosis_approval_set d as = filter (\<lambda>a. ap_eligibility_diagnosis a = Some (dg_pk d)) as"

definition is_considered_valid :: "date \<Rightarrow> approval list \<Rightarrow> diagnosis \<Rightarrow> bool" where
  "is_considered_valid today as d \<longleftrightarrow>
     diagnosis_is_valid today d \<or> list_ex (\<lambda>a. today < ap_end_at a) (diagnosis_approval_set d as)"

text \<open>\<open>approval_set.last()\<close>: the default ordering of approvals is \<open>-created_at\<close>, so \<open>last()\<close> is the
  row of least \<open>created_at\<close>.\<close>

definition considered_to_expire_at :: "date \<Rightarrow> approval list \<Rightarrow> diagnosis \<Rightarrow> date" where
  "considered_to_expire_at today as d =
     (case order_first ap_created_at (diagnosis_approval_set d as) of
        None \<Rightarrow> dg_expires_at d
      | Some a \<Rightarrow> if approval_is_valid today a then ap_end_at a else dg_expires_at d)"

definition employer_diagnosis_validity :: days where "employer_diagnosis_validity = 92"

definition iae_expiration_date :: "plus_months \<Rightarrow> date \<Rightarrow> author_kind \<Rightarrow> date" where
  "iae_expiration_date plus_months today kind =
     (if kind = AK_EMPLOYER then today + employer_diagnosis_validity
      else plus_months expiration_delay_months today)"

definition insert_diagnosis :: "diagnosis \<Rightarrow> db \<Rightarrow> error + (diagnosis \<times> db)" where
  "insert_diagnosis d db =
     (let d' = d\<lparr>dg_pk := next_pk dg_pk (db_diagnoses db)\<rparr> in
      rbind (guard (iae_diagnosis_constraints d')
        (IntegrityError ''eligibility_iae_diagnosis_author_kind_coherence'')) (\<lambda>_.
      Inr (d', db\<lparr>db_diagnoses := db_diagnoses db @ [d']\<rparr>)))"

definition sync_assignment ::
  "datetime \<Rightarrow> user \<Rightarrow> user \<Rightarrow> organization_ref option \<Rightarrow> action_kind \<Rightarrow> bool \<Rightarrow> db \<Rightarrow> error + db" where
  "sync_assignment now job_seeker professional organization kind unknown_advisor db =
     rbind (upsert_assignment now job_seeker professional organization kind unknown_advisor (db_assignments db))
       (\<lambda>t. Inr (db\<lparr>db_assignments := t\<rparr>))"

text \<open>The parts of \<open>create_diagnosis\<close>: the row, the organization of the author and the selection of
  the criteria.\<close>

definition new_iae_diagnosis ::
  "plus_months \<Rightarrow> date \<Rightarrow> datetime \<Rightarrow> user \<Rightarrow> user \<Rightarrow> pk option \<Rightarrow> pk option \<Rightarrow> diagnosis" where
  "new_iae_diagnosis plus_months today now job_seeker author author_siae author_org =
     (let kind = (if author_siae \<noteq> None then AK_EMPLOYER else AK_PRESCRIBER) in
      \<lparr>dg_pk = 0, dg_author = us_pk author, dg_author_kind = kind,
       dg_author_prescriber_organization = author_org, dg_author_company = author_siae,
       dg_job_seeker = us_pk job_seeker, dg_created_at = now, dg_updated_at = now,
       dg_expires_at = iae_expiration_date plus_months today kind\<rparr>)"

definition author_organization :: "pk option \<Rightarrow> pk option \<Rightarrow> organization_ref option" where
  "author_organization author_org author_siae =
     (case author_org of Some k \<Rightarrow> Some (PRESCRIBER_ORG k) | None \<Rightarrow> map_option COMPANY_ORG author_siae)"

definition select_iae_criteria :: "pk \<Rightarrow> pk list \<Rightarrow> db \<Rightarrow> error + db" where
  "select_iae_criteria diagnosis criteria db =
     (if criteria \<noteq> []
      then schedule_iae_certification diagnosis
        (db\<lparr>db_selected_criteria := add_criteria diagnosis criteria (db_selected_criteria db)\<rparr>)
      else Inr db)"

definition create_diagnosis ::
  "plus_months \<Rightarrow> date \<Rightarrow> datetime \<Rightarrow> user \<Rightarrow> user \<Rightarrow> pk option \<Rightarrow> pk option \<Rightarrow> pk list \<Rightarrow> db
   \<Rightarrow> error + (diagnosis \<times> db)" where
  "create_diagnosis plus_months today now job_seeker author author_siae author_org criteria db =
     (if author_siae = None \<and> author_org = None
      then Inl (ValueError ''Missing author_siae or author_prescriber_organization'')
      else
        rbind (insert_diagnosis
           (new_iae_diagnosis plus_months today now job_seeker author author_siae author_org) db) (\<lambda>(d, db1).
        rbind (select_iae_criteria (dg_pk d) criteria db1) (\<lambda>db2.
        rbind (sync_assignment now job_seeker author (author_organization author_org author_siae)
                 ACT_IAE_ELIGIBILITY False (follow_beneficiary now today job_seeker author True db2)) (\<lambda>db3.
        Inr (d, db3)))))"

definition update_diagnosis ::
  "plus_months \<Rightarrow> date \<Rightarrow> datetime \<Rightarrow> diagnosis \<Rightarrow> user \<Rightarrow> user \<Rightarrow> pk option \<Rightarrow> pk list \<Rightarrow> db
   \<Rightarrow> error + (diagnosis \<times> db)" where
  "update_diagnosis plus_months today now d job_seeker author author_org criteria db =
     rbind (create_diagnosis plus_months today now job_seeker author None author_org criteria db)
       (\<lambda>(new, db1).
         Inr (new, db1\<lparr>db_diagnoses := map_rows (\<lambda>e. dg_pk e = dg_pk d)
           (\<lambda>e. e\<lparr>dg_expires_at := today, dg_updated_at := now\<rparr>) (db_diagnoses db1)\<rparr>))"

section \<open>Users\<close>

definition eligibility_validated_lookup :: "date \<Rightarrow> pk option \<Rightarrow> db \<Rightarrow> pk \<Rightarrow> bool" where
  "eligibility_validated_lookup today siae db u \<longleftrightarrow>
     list_ex (\<lambda>a. ap_user a = u) (valid_approvals today (db_approvals db)) \<or>
     valid_diagnoses today (for_job_seeker_and_siae u siae (db_diagnoses db)) \<noteq> []"

definition eligibility_validated :: "date \<Rightarrow> pk option \<Rightarrow> db \<Rightarrow> user list \<Rightarrow> user list" where
  "eligibility_validated today siae db us =
     filter (\<lambda>u. eligibility_validated_lookup today siae db (us_pk u)) us"

definition eligibility_pending :: "date \<Rightarrow> pk option \<Rightarrow> db \<Rightarrow> user list \<Rightarrow> user list" where
  "eligibility_pending today siae db us =
     filter (\<lambda>u. \<not> eligibility_validated_lookup today siae db (us_pk u)) us"

definition has_valid_diagnosis :: "plus_months \<Rightarrow> date \<Rightarrow> user \<Rightarrow> pk option \<Rightarrow> db \<Rightarrow> bool" where
  "has_valid_diagnosis plus_months today u for_siae db \<longleftrightarrow>
     has_considered_valid plus_months today u for_siae db"

definition new_approval_blocked_by_waiting_period ::
  "plus_months \<Rightarrow> date \<Rightarrow> user \<Rightarrow> company \<Rightarrow> prescriber_org option \<Rightarrow> db \<Rightarrow> bool" where
  "new_approval_blocked_by_waiting_period plus_months today u siae sender_org db \<longleftrightarrow>
     (let is_sent_by_authorized_prescriber =
            (case sender_org of None \<Rightarrow> False | Some org \<Rightarrow> is_authorized org)
      in has_latest_approval_in_waiting_period plus_months today u (db_approvals db) \<and>
         is_subject_to_iae_rules siae \<and>
         \<not> (is_sent_by_authorized_prescriber \<or> has_valid_diagnosis plus_months today u None db))"

section \<open>Rules on criteria\<close>

text \<open>The loop returns at the first level 1 criterion; the dictionary lookup raises on a kind that is
  not an IAE kind.\<close>

fun required_criteria_loop :: "administrative_criteria list \<Rightarrow> nat \<Rightarrow> nat option" where
  "required_criteria_loop [] n = Some n"
| "required_criteria_loop (c # cs) n =
     (if cr_level c = Some LEVEL_1 then None else required_criteria_loop cs (n + 1))"

definition iae_has_required_criteria :: "administrative_criteria list \<Rightarrow> company_kind \<Rightarrow> error + bool" where
  "iae_has_required_criteria cs kind =
     (case required_criteria_loop cs 0 of
        None \<Rightarrow> Inr True
      | Some n \<Rightarrow> (case level_2_required_for_siae_kind kind of
           None \<Rightarrow> Inl (KeyError ''company_kind'')
         | Some required \<Rightarrow> Inr (required \<le> n)))"

definition count_annex :: "criteria_annex \<Rightarrow> administrative_criteria list \<Rightarrow> nat" where
  "count_annex a cs = length (filter (\<lambda>c. cr_annex c = a) cs)"

definition count_level :: "criteria_level \<Rightarrow> administrative_criteria list \<Rightarrow> nat" where
  "count_level l cs = length (filter (\<lambda>c. cr_level c = Some l) cs)"

definition geiq_allowance_amount :: "bool \<Rightarrow> administrative_criteria list \<Rightarrow> nat" where
  "geiq_allowance_amount is_authorized_prescriber cs =
     (if is_authorized_prescriber then 1400
      else if 0 < count_level LEVEL_1 cs \<or> 1 < count_level LEVEL_2 cs then 1400
      else if 0 < count_annex ANNEX_1 cs + count_annex BOTH_ANNEXES cs then 814
      else 0)"

text \<open>Criteria deduced from the profile of a job seeker.\<close>

definition eligible_for_cap_bep_criterion :: "string list" where
  "eligible_for_cap_bep_criterion = [''51'', ''50'', ''00'', ''01'', ''70'']"

fun criteria_kind_to_profile_func ::
  "plus_months \<Rightarrow> date \<Rightarrow> (string \<times> bool) option \<Rightarrow> string option \<Rightarrow> criteria_kind
   \<Rightarrow> (jobseeker_profile \<Rightarrow> bool) option" where
  "criteria_kind_to_profile_func pm today zrr qpv CK_AAH =
     Some (\<lambda>p. si_aah_allocation_since (jp_situation p) \<noteq> None)"
| "criteria_kind_to_profile_func pm today zrr qpv CK_ASS =
     Some (\<lambda>p. si_ass_allocation_since (jp_situation p) \<noteq> None)"
| "criteria_kind_to_profile_func pm today zrr qpv CK_RSA =
     Some (\<lambda>p. si_rsa_allocation_since (jp_situation p) \<noteq> None)"
| "criteria_kind_to_profile_func pm today zrr qpv CK_DELD =
     Some (\<lambda>p. si_pole_emploi_since (jp_situation p) = Some FROM_12_TO_23_MONTHS)"
| "criteria_kind_to_profile_func pm today zrr qpv CK_DETLD =
     Some (\<lambda>p. si_pole_emploi_since (jp_situation p) = Some MORE_THAN_24_MONTHS)"
| "criteria_kind_to_profile_func pm today zrr qpv CK_CAP_BEP =
     Some (\<lambda>p. si_education_level (jp_situation p) \<in> set eligible_for_cap_bep_criterion)"
| "criteria_kind_to_profile_func pm today zrr qpv CK_SENIOR =
     Some (\<lambda>p. case jp_birthdate p of None \<Rightarrow> False | Some b \<Rightarrow> b \<le> pm (- 12 * 50) today)"
| "criteria_kind_to_profile_func pm today zrr qpv CK_JEUNE =
     Some (\<lambda>p. case jp_birthdate p of None \<Rightarrow> False | Some b \<Rightarrow> pm (- 12 * 26) today < b)"
| "criteria_kind_to_profile_func pm today zrr qpv CK_ASE = Some (\<lambda>p. si_ase_exit (jp_situation p))"
| "criteria_kind_to_profile_func pm today zrr qpv CK_DETENTION_MJ =
     Some (\<lambda>p. si_detention_exit_or_ppsmj (jp_situation p))"
| "criteria_kind_to_profile_func pm today zrr qpv CK_FLE =
     Some (\<lambda>p. si_low_level_in_french (jp_situation p))"
| "criteria_kind_to_profile_func pm today zrr qpv CK_PI = Some (\<lambda>p. si_isolated_parent (jp_situation p))"
| "criteria_kind_to_profile_func pm today zrr qpv CK_PM = Some (\<lambda>p. si_mobility_issue (jp_situation p))"
| "criteria_kind_to_profile_func pm today zrr qpv CK_PSH_PR =
     Some (\<lambda>p. si_housing_issue (jp_situation p))"
| "criteria_kind_to_profile_func pm today zrr qpv CK_REF_DA = Some (\<lambda>p. si_refugee (jp_situation p))"
| "criteria_kind_to_profile_func pm today zrr qpv CK_TH = Some (\<lambda>p. si_rqth_employee (jp_situation p))"
| "criteria_kind_to_profile_func pm today zrr qpv CK_ZRR =
     Some (\<lambda>p. case zrr of None \<Rightarrow> False | Some (city, partially) \<Rightarrow> \<not> partially)"
| "criteria_kind_to_profile_func pm today zrr qpv CK_QPV =
     Some (\<lambda>p. case qpv of None \<Rightarrow> False | Some address \<Rightarrow> address \<noteq> [])"
| "criteria_kind_to_profile_func pm today zrr qpv _ = None"

definition get_criteria_from_job_seeker ::
  "plus_months \<Rightarrow> date \<Rightarrow> (string \<times> bool) option \<Rightarrow> string option \<Rightarrow> jobseeker_profile
   \<Rightarrow> administrative_criteria list \<Rightarrow> administrative_criteria list" where
  "get_criteria_from_job_seeker pm today zrr qpv p all_criteria =
     foldl (\<lambda>acc c. case criteria_kind_to_profile_func pm today zrr qpv (cr_kind c) of
         None \<Rightarrow> acc
       | Some f \<Rightarrow> if f p then acc @ [c] else acc) [] all_criteria"

section \<open>Lemmas on the selection of a diagnosis\<close>

lemma set_for_job_seeker_and_siae:
  "d \<in> set (for_job_seeker_and_siae u siae ds) \<longleftrightarrow> d \<in> set ds \<and> dg_job_seeker d = u \<and>
     (dg_author_kind d = AK_PRESCRIBER \<or> (siae \<noteq> None \<and> dg_author_company d = siae))"
  by (auto simp: for_job_seeker_and_siae_def)

lemma set_valid_diagnoses [simp]: "d \<in> set (valid_diagnoses today ds) \<longleftrightarrow> d \<in> set ds \<and> diagnosis_is_valid today d"
  by (auto simp: valid_diagnoses_def diagnosis_is_valid_def)

lemma diagnosis_order_le:
  "diagnosis_order d \<le> diagnosis_order e \<Longrightarrow> dg_author_kind e = AK_PRESCRIBER \<Longrightarrow> dg_author_kind d = AK_PRESCRIBER"
  "diagnosis_order d \<le> diagnosis_order e \<Longrightarrow>
   (dg_author_kind d = AK_PRESCRIBER) = (dg_author_kind e = AK_PRESCRIBER) \<Longrightarrow> dg_created_at e \<le> dg_created_at d"
  by (auto simp: diagnosis_order_def less_eq_prod_def split: if_splits)

text \<open>The candidates among which \<open>last_considered_valid\<close> chooses.\<close>

definition considered_diagnoses :: "plus_months \<Rightarrow> date \<Rightarrow> user \<Rightarrow> pk option \<Rightarrow> db \<Rightarrow> diagnosis set" where
  "considered_diagnoses pm today u siae db =
     {d \<in> set (for_job_seeker_and_siae (us_pk u) siae (db_diagnoses db)).
        diagnosis_is_valid today d \<or> has_valid_approval pm today u (db_approvals db)}"

lemma last_considered_valid_SomeD:
  assumes "last_considered_valid pm today u siae db = Some d"
  shows "d \<in> considered_diagnoses pm today u siae db"
    and "e \<in> considered_diagnoses pm today u siae db \<Longrightarrow> diagnosis_order d \<le> diagnosis_order e"
  using order_first_SomeD [OF assms [unfolded last_considered_valid_def Let_def]]
  by (auto simp: considered_diagnoses_def split: if_splits)

lemma last_considered_valid_None_iff:
  "last_considered_valid pm today u siae db = None \<longleftrightarrow> considered_diagnoses pm today u siae db = {}"
proof -
  let ?q = "for_job_seeker_and_siae (us_pk u) siae (db_diagnoses db)"
  let ?l = "if \<not> has_valid_approval pm today u (db_approvals db) then valid_diagnoses today ?q else ?q"
  have "set ?l = considered_diagnoses pm today u siae db"
    by (auto simp: considered_diagnoses_def)
  then show ?thesis by (metis last_considered_valid_def order_first_None set_empty)
qed

lemma has_considered_valid_iff:
  "has_considered_valid pm today u siae db \<longleftrightarrow>
     has_valid_approval pm today u (db_approvals db) \<or>
     valid_diagnoses today (for_job_seeker_and_siae (us_pk u) siae (db_diagnoses db)) \<noteq> []"
proof -
  have "vs \<noteq> [] \<longleftrightarrow> (\<exists>d. d \<in> set vs)" for vs :: "diagnosis list" by (cases vs) auto
  then show ?thesis
    using last_considered_valid_None_iff [of pm today u siae db]
    by (auto simp: has_considered_valid_def considered_diagnoses_def)
qed

lemma eligibility_lookup_iff:
  "is_job_seeker u \<Longrightarrow>
   eligibility_validated_lookup today siae db (us_pk u) \<longleftrightarrow> has_considered_valid pm today u siae db"
  by (auto simp: eligibility_validated_lookup_def has_considered_valid_iff has_valid_approval_iff
      valid_approvals_def approval_is_valid_def list_ex_iff)

section \<open>Lemmas on certification and creation\<close>

lemma certification_task_ok:
  "s \<in> set (certifiable_selected d cs t) \<Longrightarrow> \<exists>task. certification_task_for m cs s = Inr task"
  by (auto simp: certifiable_selected_def certification_task_for_def certifiable_criteria_kinds_def
      split: option.splits)

lemma rfold_tasks:
  assumes "\<forall>s \<in> set ss. \<exists>task. f s = Inr task"
  shows "\<exists>tasks. rfold (\<lambda>s q. rbind (f s) (\<lambda>task. Inr (q @ [task]))) ss queue = Inr (queue @ tasks) \<and>
    length tasks = length ss"
  using assms
proof (induction ss arbitrary: queue)
  case (Cons s ss)
  then obtain task where t: "f s = Inr task" by auto
  obtain tasks where "rfold (\<lambda>s q. rbind (f s) (\<lambda>task. Inr (q @ [task]))) ss (queue @ [task]) =
      Inr ((queue @ [task]) @ tasks)" "length tasks = length ss" using Cons by fastforce
  then show ?case using t by (intro exI [of _ "task # tasks"]) simp
qed simp

text \<open>The \<open>raise ValueError(kind)\<close> of the loop is unreachable.\<close>

lemma schedule_certification_ok:
  "\<exists>tasks. schedule_certification m d cs t queue = Inr (queue @ tasks) \<and>
     length tasks = length (certifiable_selected d cs t)"
  unfolding schedule_certification_def by (rule rfold_tasks) (use certification_task_ok in blast)

lemma schedule_iae_shape: "\<exists>q. schedule_iae_certification d db = Inr (db\<lparr>db_tasks := db_tasks db @ q\<rparr>)"
  using schedule_certification_ok [of IAE_SELECTED d "db_criteria db" "db_selected_criteria db" "db_tasks db"]
  by (auto simp: schedule_iae_certification_def)

lemma schedule_geiq_shape: "\<exists>q. schedule_geiq_certification d db = Inr (db\<lparr>db_tasks := db_tasks db @ q\<rparr>)"
  using schedule_certification_ok [of GEIQ_SELECTED d "db_geiq_criteria db" "db_geiq_selected_criteria db"
      "db_tasks db"]
  by (auto simp: schedule_geiq_certification_def)

lemma sync_assignment_shape:
  "sync_assignment now js p org kind unk db = Inr db' \<Longrightarrow> \<exists>t. db' = db\<lparr>db_assignments := t\<rparr>"
  by (auto simp: sync_assignment_def)

lemma update_assignments_id [simp]: "db\<lparr>db_assignments := db_assignments db\<rparr> = (db :: db)"
  by simp

lemma sync_assignment_ok:
  assumes "is_job_seeker js" "unk \<longrightarrow> org \<noteq> None"
  shows "is_ok (sync_assignment now js p org kind unk db)"
proof -
  have "org_company org = None \<or> org_prescriber org = None" by (cases org rule: org_company.cases) auto
  moreover have "org \<noteq> None \<Longrightarrow> org_company org \<noteq> None \<or> org_prescriber org \<noteq> None"
    by (cases org rule: org_company.cases) auto
  ultimately show ?thesis using assms
    by (auto simp: sync_assignment_def upsert_assignment_def assignment_constraints_def Let_def)
qed

lemma select_iae_criteria_shape:
  "\<exists>t q. select_iae_criteria d criteria db = Inr (db\<lparr>db_selected_criteria := t, db_tasks := q\<rparr>)"
proof (cases "criteria = []")
  case True
  then have "select_iae_criteria d criteria db =
      Inr (db\<lparr>db_selected_criteria := db_selected_criteria db, db_tasks := db_tasks db\<rparr>)"
    by (simp add: select_iae_criteria_def)
  then show ?thesis by blast
next
  case False
  let ?db = "db\<lparr>db_selected_criteria := add_criteria d criteria (db_selected_criteria db)\<rparr>"
  obtain q where "schedule_iae_certification d ?db = Inr (?db\<lparr>db_tasks := q\<rparr>)"
    using schedule_iae_shape by blast
  then have "select_iae_criteria d criteria db =
      Inr (db\<lparr>db_selected_criteria := add_criteria d criteria (db_selected_criteria db), db_tasks := q\<rparr>)"
    using False by (simp add: select_iae_criteria_def)
  then show ?thesis by blast
qed

lemma insert_diagnosis_InrD:
  assumes "insert_diagnosis d db = Inr (d', db')"
  shows "d' = d\<lparr>dg_pk := next_pk dg_pk (db_diagnoses db)\<rparr>" "iae_diagnosis_constraints d'"
    "db' = db\<lparr>db_diagnoses := db_diagnoses db @ [d']\<rparr>"
  using assms by (auto simp: insert_diagnosis_def Let_def)

lemma create_diagnosis_InrD:
  assumes "create_diagnosis pm today now js author siae org criteria db = Inr (d, db')"
  shows "db_diagnoses db' = db_diagnoses db @ [d]" "db_approvals db' = db_approvals db"
    "iae_diagnosis_constraints d" "dg_job_seeker d = us_pk js" "dg_created_at d = now"
    "dg_author_company d = siae" "dg_author_prescriber_organization d = org"
    "dg_expires_at d = iae_expiration_date pm today (dg_author_kind d)"
    "dg_pk d \<notin> dg_pk ` set (db_diagnoses db)"
proof -
  obtain db1 db2 where i: "insert_diagnosis (new_iae_diagnosis pm today now js author siae org) db = Inr (d, db1)"
    and s: "select_iae_criteria (dg_pk d) criteria db1 = Inr db2"
    and a: "sync_assignment now js author (author_organization org siae) ACT_IAE_ELIGIBILITY False
        (follow_beneficiary now today js author True db2) = Inr db'"
    using assms by (auto simp: create_diagnosis_def split: if_splits)
  note I = insert_diagnosis_InrD [OF i]
  obtain t q where 2: "db2 = db1\<lparr>db_selected_criteria := t, db_tasks := q\<rparr>"
    using s select_iae_criteria_shape [of "dg_pk d" criteria db1] by auto
  obtain as where 3: "db' = (follow_beneficiary now today js author True db2)\<lparr>db_assignments := as\<rparr>"
    using sync_assignment_shape [OF a] by blast
  show "db_diagnoses db' = db_diagnoses db @ [d]" "db_approvals db' = db_approvals db"
    using I(3) 2 3 by auto
  show "iae_diagnosis_constraints d" by (rule I(2))
  show "dg_job_seeker d = us_pk js" "dg_created_at d = now" "dg_author_company d = siae"
    "dg_author_prescriber_organization d = org"
    "dg_expires_at d = iae_expiration_date pm today (dg_author_kind d)"
    "dg_pk d \<notin> dg_pk ` set (db_diagnoses db)"
    by (simp_all add: I(1) new_iae_diagnosis_def Let_def)
qed

text \<open>The creation succeeds exactly for an author who acts for one organization.\<close>

lemma create_diagnosis_ok_iff:
  assumes "is_job_seeker js"
  shows "is_ok (create_diagnosis pm today now js author siae org criteria db) \<longleftrightarrow> (siae = None) \<noteq> (org = None)"
proof -
  let ?new = "new_iae_diagnosis pm today now js author siae org"
  have ins: "insert_diagnosis ?new db = (let d' = ?new\<lparr>dg_pk := next_pk dg_pk (db_diagnoses db)\<rparr> in
      if siae \<noteq> None \<and> org \<noteq> None then Inl (IntegrityError ''eligibility_iae_diagnosis_author_kind_coherence'')
      else if siae = None \<and> org = None then insert_diagnosis ?new db
      else Inr (d', db\<lparr>db_diagnoses := db_diagnoses db @ [d']\<rparr>))"
    by (auto simp: insert_diagnosis_def new_iae_diagnosis_def iae_diagnosis_constraints_def Let_def)
  have rest: "is_ok (rbind (select_iae_criteria k criteria db1) (\<lambda>db2.
        rbind (sync_assignment now js author (author_organization org siae) ACT_IAE_ELIGIBILITY False
          (follow_beneficiary now today js author True db2)) (\<lambda>db3. Inr (d, db3))))" for k db1 and d :: diagnosis
  proof -
    obtain db2 where "select_iae_criteria k criteria db1 = Inr db2" using select_iae_criteria_shape by blast
    moreover obtain db3 where "sync_assignment now js author (author_organization org siae)
        ACT_IAE_ELIGIBILITY False (follow_beneficiary now today js author True db2) = Inr db3"
      using sync_assignment_ok [OF assms, of False] unfolding is_ok_iff by blast
    ultimately show ?thesis by simp
  qed
  show ?thesis
  proof (cases "siae = None"; cases "org = None")
    assume "siae \<noteq> None" "org \<noteq> None"
    then show ?thesis using ins by (simp add: create_diagnosis_def)
  qed (use ins rest in \<open>auto simp: create_diagnosis_def Let_def\<close>)
qed

lemma iae_expiration_future: "calendar_laws pm \<Longrightarrow> today < iae_expiration_date pm today kind"
  by (simp add: iae_expiration_date_def employer_diagnosis_validity_def expiration_delay_months_def
      calendar_later)

section \<open>Lemmas on criteria\<close>

lemma required_criteria_loop_eq:
  "required_criteria_loop cs n =
     (if \<exists>c \<in> set cs. cr_level c = Some LEVEL_1 then None else Some (n + length cs))"
  by (induction cs arbitrary: n) auto

lemma get_criteria_foldl:
  "foldl (\<lambda>acc c. case f (cr_kind c) of None \<Rightarrow> acc | Some g \<Rightarrow> if g p then acc @ [c] else acc) acc cs =
   acc @ filter (\<lambda>c. case f (cr_kind c) of None \<Rightarrow> False | Some g \<Rightarrow> g p) cs"
  by (induction cs arbitrary: acc) (auto split: option.splits)

lemma get_criteria_from_job_seeker_filter:
  "get_criteria_from_job_seeker pm today zrr qpv p cs =
   filter (\<lambda>c. case criteria_kind_to_profile_func pm today zrr qpv (cr_kind c) of
     None \<Rightarrow> False | Some g \<Rightarrow> g p) cs"
  by (simp add: get_criteria_from_job_seeker_def get_criteria_foldl)

lemma length_filter_mono: "mset xs \<subseteq># mset ys \<Longrightarrow> length (filter p xs) \<le> length (filter p ys)"
  by (metis mset_filter multiset_filter_mono size_mset size_mset_mono)

end
