(* ===== verification/Geiq_Eligibility.thy ===== *)
theory Geiq_Eligibility
  imports Eligibility
begin

text \<open>
  \<open>eligibility/models/geiq.py\<close>: the GEIQ eligibility diagnoses.  \<open>author_geiq\<close> is the field
  \<open>dg_author_company\<close>.  A filter on a foreign key with \<open>None\<close> is \<open>IS NULL\<close> in Django, which the
  comparison of options renders.  \<open>localdate\<close> is \<open>timezone.localdate(..)\<close> on an instant.  Shown here: at
  any time a job seeker has at most one valid diagnosis by prescribers and at most one by each GEIQ.
\<close>

definition geiq_diagnosis_constraints :: "diagnosis \<Rightarrow> bool" where
  "geiq_diagnosis_constraints d \<longleftrightarrow>
     (dg_author_kind d = AK_GEIQ \<and> dg_author_company d \<noteq> None \<and>
      dg_author_prescriber_organization d = None) \<or>
     (dg_author_kind d = AK_PRESCRIBER \<and> dg_author_prescriber_organization d \<noteq> None \<and>
      dg_author_company d = None)"

definition authored_by_prescriber_or_geiq :: "pk option \<Rightarrow> diagnosis list \<Rightarrow> diagnosis list" where
  "authored_by_prescriber_or_geiq geiq ds =
     filter (\<lambda>d. dg_author_company d = geiq \<or> dg_author_prescriber_organization d \<noteq> None) ds"

definition diagnoses_for :: "pk \<Rightarrow> pk option \<Rightarrow> bool \<Rightarrow> diagnosis list \<Rightarrow> diagnosis list" where
  "diagnoses_for job_seeker for_geiq for_job_seeker ds =
     (let query = sort_key (\<lambda>d. - dg_created_at d) (filter (\<lambda>d. dg_job_seeker d = job_seeker) ds) in
      if \<not> for_job_seeker then authored_by_prescriber_or_geiq for_geiq query else query)"

definition valid_diagnoses_for :: "date \<Rightarrow> pk \<Rightarrow> pk option \<Rightarrow> diagnosis list \<Rightarrow> diagnosis list" where
  "valid_diagnoses_for today job_seeker for_geiq ds =
     diagnoses_for job_seeker for_geiq False (valid_diagnoses today ds)"

definition geiq_clean :: "date \<Rightarrow> bool \<Rightarrow> diagnosis \<Rightarrow> db \<Rightarrow> error + unit" where
  "geiq_clean today has_pk d db =
     rbind (guard (case dg_author_company d of None \<Rightarrow> True
              | Some c \<Rightarrow> company_kind_of db c = Some GEIQ) (ValidationError ''author_geiq'')) (\<lambda>_.
     if has_pk then Inr ()
     else guard (valid_diagnoses_for today (dg_job_seeker d) (dg_author_company d) (db_geiq_diagnoses db) = [])
            (ValidationError ''already exists''))"

text \<open>The diagnoses that a prescriber's diagnosis makes obsolete.\<close>

definition is_obsolete_geiq :: "date \<Rightarrow> pk \<Rightarrow> job_application list \<Rightarrow> diagnosis \<Rightarrow> bool" where
  "is_obsolete_geiq today job_seeker js d \<longleftrightarrow>
     diagnosis_is_valid today d \<and> dg_job_seeker d = job_seeker \<and> dg_author_company d \<noteq> None \<and>
     \<not> list_ex (\<lambda>j. af_geiq_eligibility_diagnosis (ja_accepted j) = Some (dg_pk d)) js"

definition invalidate_obsolete_geiq_diagnoses ::
  "(datetime \<Rightarrow> date) \<Rightarrow> date \<Rightarrow> diagnosis \<Rightarrow> db \<Rightarrow> db" where
  "invalidate_obsolete_geiq_diagnoses localdate today d db =
     (if dg_author_prescriber_organization d \<noteq> None \<and> diagnosis_is_valid today d
      then db\<lparr>db_geiq_diagnoses := map_rows (is_obsolete_geiq today (dg_job_seeker d) (db_job_applications db))
             (\<lambda>e. e\<lparr>dg_expires_at := localdate (dg_created_at d)\<rparr>) (db_geiq_diagnoses db)\<rparr>
      else db)"

definition geiq_save_new ::
  "(datetime \<Rightarrow> date) \<Rightarrow> date \<Rightarrow> diagnosis \<Rightarrow> db \<Rightarrow> error + (diagnosis \<times> db)" where
  "geiq_save_new localdate today d db =
     rbind (geiq_clean today False d db) (\<lambda>_.
     (let d' = d\<lparr>dg_pk := next_pk dg_pk (db_geiq_diagnoses db)\<rparr> in
      rbind (guard (geiq_diagnosis_constraints d') (IntegrityError ''author_kind_coherence'')) (\<lambda>_.
      Inr (d', invalidate_obsolete_geiq_diagnoses localdate today d'
             (db\<lparr>db_geiq_diagnoses := db_geiq_diagnoses db @ [d']\<rparr>)))))"

definition geiq_save :: "(datetime \<Rightarrow> date) \<Rightarrow> date \<Rightarrow> datetime \<Rightarrow> diagnosis \<Rightarrow> db \<Rightarrow> error + db" where
  "geiq_save localdate today now d db =
     rbind (geiq_clean today True d db) (\<lambda>_.
     (let d' = d\<lparr>dg_updated_at := now\<rparr> in
      rbind (guard (geiq_diagnosis_constraints d') (IntegrityError ''author_kind_coherence'')) (\<lambda>_.
      Inr (invalidate_obsolete_geiq_diagnoses localdate today d'
             (db\<lparr>db_geiq_diagnoses := map_rows (\<lambda>e. dg_pk e = dg_pk d) (\<lambda>_. d') (db_geiq_diagnoses db)\<rparr>)))))"

definition geiq_diagnosis_allowance_amount :: "diagnosis \<Rightarrow> db \<Rightarrow> nat" where
  "geiq_diagnosis_allowance_amount d db =
     geiq_allowance_amount (dg_author_kind d = AK_PRESCRIBER)
       (criteria_of (dg_pk d) (db_geiq_selected_criteria db) (db_geiq_criteria db))"

definition geiq_expiration_date :: "plus_months \<Rightarrow> date \<Rightarrow> date" where
  "geiq_expiration_date plus_months today = plus_months expiration_delay_months today"

definition set_geiq_criteria :: "pk \<Rightarrow> pk list \<Rightarrow> db \<Rightarrow> error + db" where
  "set_geiq_criteria diagnosis criteria db =
     schedule_geiq_certification diagnosis
       (db\<lparr>db_geiq_selected_criteria := set_criteria diagnosis criteria (db_geiq_selected_criteria db)\<rparr>)"

text \<open>The dispatch on the structure of the author: kind, organization and GEIQ of the diagnosis.\<close>

definition geiq_author ::
  "organization_ref \<Rightarrow> pk list \<Rightarrow> db \<Rightarrow> error + (author_kind \<times> pk option \<times> pk option)" where
  "geiq_author structure criteria db =
     (case structure of
        PRESCRIBER_ORG k \<Rightarrow> Inr (AK_PRESCRIBER, Some k, None)
      | COMPANY_ORG c \<Rightarrow>
          if company_kind_of db c = Some GEIQ then
            (if criteria = [] then Inl (ValueError ''GEIQ diagnosis without criteria'')
             else Inr (AK_GEIQ, None, Some c))
          else Inl (ValueError ''structure''))"

definition create_eligibility_diagnosis ::
  "(datetime \<Rightarrow> date) \<Rightarrow> plus_months \<Rightarrow> date \<Rightarrow> datetime \<Rightarrow> user \<Rightarrow> user \<Rightarrow> organization_ref \<Rightarrow> pk list \<Rightarrow> db
   \<Rightarrow> error + (diagnosis \<times> db)" where
  "create_eligibility_diagnosis localdate plus_months today now job_seeker author structure criteria db =
     rbind (geiq_author structure criteria db) (\<lambda>(kind, author_org, author_geiq).
     rbind (geiq_save_new localdate today
        \<lparr>dg_pk = 0, dg_author = us_pk author, dg_author_kind = kind,
         dg_author_prescriber_organization = author_org, dg_author_company = author_geiq,
         dg_job_seeker = us_pk job_seeker, dg_created_at = now, dg_updated_at = now,
         dg_expires_at = geiq_expiration_date plus_months today\<rparr> db) (\<lambda>(d, db1).
     rbind (if criteria \<noteq> [] then set_geiq_criteria (dg_pk d) criteria db1 else Inr db1) (\<lambda>db2.
     rbind (sync_assignment now job_seeker author (Some structure) ACT_GEIQ_ELIGIBILITY False
              (follow_beneficiary now today job_seeker author True db2)) (\<lambda>db3.
     Inr (d, db3)))))"

definition update_eligibility_diagnosis ::
  "(datetime \<Rightarrow> date) \<Rightarrow> plus_months \<Rightarrow> date \<Rightarrow> datetime \<Rightarrow> diagnosis \<Rightarrow> user \<Rightarrow> user \<Rightarrow> pk \<Rightarrow> pk list \<Rightarrow> db
   \<Rightarrow> error + (diagnosis \<times> db)" where
  "update_eligibility_diagnosis localdate plus_months today now d job_seeker author author_geiq criteria db =
     (if \<not> diagnosis_is_valid today d then Inl (ValueError ''expired'')
      else
        (let d' = d\<lparr>dg_author := us_pk author, dg_expires_at := geiq_expiration_date plus_months today\<rparr> in
         rbind (geiq_save localdate today now d' db) (\<lambda>db1.
         rbind (set_geiq_criteria (dg_pk d) criteria db1) (\<lambda>db2.
         rbind (sync_assignment now job_seeker author (Some (COMPANY_ORG author_geiq)) ACT_GEIQ_ELIGIBILITY
                  False db2) (\<lambda>db3.
         Inr (d', db3))))))"

section \<open>Unique valid diagnoses\<close>

definition geiq_key :: "diagnosis \<Rightarrow> pk \<times> pk option" where
  "geiq_key d = (dg_job_seeker d, dg_author_company d)"

definition geiq_unique :: "date \<Rightarrow> diagnosis list \<Rightarrow> bool" where
  "geiq_unique today ds \<longleftrightarrow>
     distinct (map dg_pk ds) \<and> list_all geiq_diagnosis_constraints ds \<and>
     distinct (map geiq_key (valid_diagnoses today ds))"

lemma geiq_unique_later: "geiq_unique today ds \<Longrightarrow> today \<le> today' \<Longrightarrow> geiq_unique today' ds"
proof -
  assume "geiq_unique today ds" "today \<le> today'"
  moreover have "valid_diagnoses today' ds = filter (\<lambda>d. today' < dg_expires_at d) (valid_diagnoses today ds)"
    using \<open>today \<le> today'\<close> by (auto simp: valid_diagnoses_def intro: filter_cong)
  ultimately show ?thesis by (simp add: geiq_unique_def distinct_map_filter)
qed

text \<open>Updating rows in a way that keeps the keys and makes no row valid that was not.\<close>

lemma valid_keys_map_rows:
  assumes "\<And>x. p x \<Longrightarrow> x \<in> set ds \<Longrightarrow> geiq_key (f x) = geiq_key x"
    and "\<And>x. p x \<Longrightarrow> x \<in> set ds \<Longrightarrow> diagnosis_is_valid today (f x) \<Longrightarrow> diagnosis_is_valid today x"
    and "distinct (map geiq_key (valid_diagnoses today ds))"
  shows "distinct (map geiq_key (valid_diagnoses today (map_rows p f ds))) \<and>
    geiq_key ` set (valid_diagnoses today (map_rows p f ds)) \<subseteq> geiq_key ` set (valid_diagnoses today ds)"
  using assms
proof (induction ds)
  case (Cons d ds)
  have IH: "distinct (map geiq_key (valid_diagnoses today (map_rows p f ds)))"
    "geiq_key ` set (valid_diagnoses today (map_rows p f ds)) \<subseteq> geiq_key ` set (valid_diagnoses today ds)"
    using Cons by (auto simp: valid_diagnoses_def split: if_splits)
  show ?case using Cons.prems IH
    by (auto simp: valid_diagnoses_def diagnosis_is_valid_def split: if_splits)
qed (simp add: valid_diagnoses_def)

lemma geiq_unique_map_rows:
  assumes "geiq_unique today ds"
    and "\<And>x. p x \<Longrightarrow> x \<in> set ds \<Longrightarrow> dg_pk (f x) = dg_pk x \<and> geiq_key (f x) = geiq_key x \<and>
      geiq_diagnosis_constraints (f x)"
    and "\<And>x. p x \<Longrightarrow> x \<in> set ds \<Longrightarrow> diagnosis_is_valid today (f x) \<Longrightarrow> diagnosis_is_valid today x"
  shows "geiq_unique today (map_rows p f ds)"
proof -
  have "map dg_pk (map_rows p f ds) = map dg_pk ds" using assms(2) by (auto simp: map_rows_def)
  then show ?thesis
    using assms valid_keys_map_rows [of p ds f today]
    by (auto simp: geiq_unique_def list_all_iff set_map_rows)
qed

lemma geiq_unique_invalidate:
  assumes "geiq_unique today (db_geiq_diagnoses db)"
  shows "geiq_unique today (db_geiq_diagnoses (invalidate_obsolete_geiq_diagnoses localdate today d db))"
proof -
  have "geiq_unique today (map_rows (is_obsolete_geiq today (dg_job_seeker d) (db_job_applications db))
      (\<lambda>e. e\<lparr>dg_expires_at := localdate (dg_created_at d)\<rparr>) (db_geiq_diagnoses db))"
    by (rule geiq_unique_map_rows [OF assms])
      (use assms in \<open>auto simp: geiq_unique_def list_all_iff geiq_key_def geiq_diagnosis_constraints_def
        is_obsolete_geiq_def\<close>)
  then show ?thesis using assms by (simp add: invalidate_obsolete_geiq_diagnoses_def)
qed

lemma set_valid_diagnoses_for:
  "d \<in> set (valid_diagnoses_for today u g ds) \<longleftrightarrow> d \<in> set ds \<and> diagnosis_is_valid today d \<and>
     dg_job_seeker d = u \<and> (dg_author_company d = g \<or> dg_author_prescriber_organization d \<noteq> None)"
  by (auto simp: valid_diagnoses_for_def diagnoses_for_def authored_by_prescriber_or_geiq_def Let_def)

lemma geiq_save_new_unique:
  assumes "geiq_save_new localdate today d db = Inr (d', db')" "geiq_unique today (db_geiq_diagnoses db)"
  shows "geiq_unique today (db_geiq_diagnoses db')"
proof -
  have c: "valid_diagnoses_for today (dg_job_seeker d) (dg_author_company d) (db_geiq_diagnoses db) = []"
    and d': "d' = d\<lparr>dg_pk := next_pk dg_pk (db_geiq_diagnoses db)\<rparr>" and k: "geiq_diagnosis_constraints d'"
    and db': "db' = invalidate_obsolete_geiq_diagnoses localdate today d'
      (db\<lparr>db_geiq_diagnoses := db_geiq_diagnoses db @ [d']\<rparr>)"
    using assms(1) by (auto simp: geiq_save_new_def geiq_clean_def Let_def)
  have none: "\<not> (e \<in> set (db_geiq_diagnoses db) \<and> diagnosis_is_valid today e \<and> geiq_key e = geiq_key d')" for e
    using c set_valid_diagnoses_for [of e today "dg_job_seeker d" "dg_author_company d" "db_geiq_diagnoses db"]
    by (auto simp: d' geiq_key_def)
  have "geiq_unique today (db_geiq_diagnoses db @ [d'])"
    using assms(2) k none next_pk_notin [of dg_pk "db_geiq_diagnoses db"]
    by (auto simp: geiq_unique_def valid_diagnoses_def diagnosis_is_valid_def d' image_iff) metis
  then show ?thesis unfolding db' by (intro geiq_unique_invalidate) simp
qed

lemma geiq_save_unique:
  assumes "geiq_save localdate today now d db = Inr db'" "geiq_unique today (db_geiq_diagnoses db)"
    and "old \<in> set (db_geiq_diagnoses db)" "dg_pk old = dg_pk d" "geiq_key old = geiq_key d"
    and "diagnosis_is_valid today old"
  shows "geiq_unique today (db_geiq_diagnoses db')"
proof -
  let ?d = "d\<lparr>dg_updated_at := now\<rparr>"
  have k: "geiq_diagnosis_constraints ?d"
    and db': "db' = invalidate_obsolete_geiq_diagnoses localdate today ?d
      (db\<lparr>db_geiq_diagnoses := map_rows (\<lambda>e. dg_pk e = dg_pk d) (\<lambda>_. ?d) (db_geiq_diagnoses db)\<rparr>)"
    using assms(1) by (auto simp: geiq_save_def Let_def)
  have only: "x = old" if "x \<in> set (db_geiq_diagnoses db)" "dg_pk x = dg_pk d" for x
    using assms(2-4) that by (auto simp: geiq_unique_def distinct_map inj_on_def)
  have "geiq_unique today (map_rows (\<lambda>e. dg_pk e = dg_pk d) (\<lambda>_. ?d) (db_geiq_diagnoses db))"
    by (rule geiq_unique_map_rows [OF assms(2)])
      (use only k assms(5,6) in \<open>auto simp: geiq_key_def\<close>)
  then show ?thesis unfolding db' by (intro geiq_unique_invalidate) simp
qed

section \<open>Histories\<close>

lemma set_geiq_criteria_frame:
  assumes "set_geiq_criteria d criteria db = Inr db'"
  shows "db_geiq_diagnoses db' = db_geiq_diagnoses db" "db_job_applications db' = db_job_applications db"
  using assms schedule_geiq_shape [of d "db\<lparr>db_geiq_selected_criteria :=
      set_criteria d criteria (db_geiq_selected_criteria db)\<rparr>"]
  by (auto simp: set_geiq_criteria_def)

lemma create_geiq_InrD:
  assumes "create_eligibility_diagnosis localdate pm today now js author structure criteria db = Inr (d, db')"
  obtains new db1 where "geiq_save_new localdate today new db = Inr (d, db1)"
    "db_geiq_diagnoses db' = db_geiq_diagnoses db1" "dg_job_seeker new = us_pk js" "dg_created_at new = now"
    "dg_expires_at new = geiq_expiration_date pm today"
    "dg_author_prescriber_organization new = org_prescriber (Some structure)"
proof -
  obtain kind org geiq where a: "geiq_author structure criteria db = Inr (kind, org, geiq)"
    using assms by (auto simp: create_eligibility_diagnosis_def)
  let ?new = "\<lparr>dg_pk = 0, dg_author = us_pk author, dg_author_kind = kind,
         dg_author_prescriber_organization = org, dg_author_company = geiq,
         dg_job_seeker = us_pk js, dg_created_at = now, dg_updated_at = now,
         dg_expires_at = geiq_expiration_date pm today\<rparr>"
  obtain db1 db2 where s: "geiq_save_new localdate today ?new db = Inr (d, db1)"
    and c: "(if criteria \<noteq> [] then set_geiq_criteria (dg_pk d) criteria db1 else Inr db1) = Inr db2"
    and y: "sync_assignment now js author (Some structure) ACT_GEIQ_ELIGIBILITY False
              (follow_beneficiary now today js author True db2) = Inr db'"
    using assms a by (auto simp: create_eligibility_diagnosis_def)
  have "db_geiq_diagnoses db2 = db_geiq_diagnoses db1"
    using c set_geiq_criteria_frame(1) by (auto split: if_splits)
  moreover have "db_geiq_diagnoses db' = db_geiq_diagnoses db2" using sync_assignment_shape [OF y] by auto
  moreover have "org = org_prescriber (Some structure)"
    using a by (auto simp: geiq_author_def split: organization_ref.splits if_splits)
  ultimately show ?thesis using that [OF s] by simp
qed

inductive geiq_step :: "date \<Rightarrow> db \<Rightarrow> db \<Rightarrow> bool" where
  create: "create_eligibility_diagnosis localdate pm today now js author structure criteria db = Inr (d, db') \<Longrightarrow>
    geiq_step today db db'"
| update: "update_eligibility_diagnosis localdate pm today now d js author geiq criteria db = Inr (d', db') \<Longrightarrow>
    d \<in> set (db_geiq_diagnoses db) \<Longrightarrow> geiq_step today db db'"

lemma geiq_step_unique:
  assumes "geiq_step today db db'" "geiq_unique today (db_geiq_diagnoses db)"
  shows "geiq_unique today (db_geiq_diagnoses db')"
  using assms
proof (cases rule: geiq_step.cases)
  case (create localdate pm now js author struct criteria d)
  then obtain new db1 where "geiq_save_new localdate today new db = Inr (d, db1)"
    "db_geiq_diagnoses db' = db_geiq_diagnoses db1" by (rule create_geiq_InrD)
  then show ?thesis using geiq_save_new_unique assms(2) by metis
next
  case (update localdate pm now d js author geiq criteria d')
  let ?d = "d\<lparr>dg_author := us_pk author, dg_expires_at := geiq_expiration_date pm today\<rparr>"
  obtain db1 db2 where s: "geiq_save localdate today now ?d db = Inr db1"
    and c: "set_geiq_criteria (dg_pk d) criteria db1 = Inr db2"
    and y: "sync_assignment now js author (Some (COMPANY_ORG geiq)) ACT_GEIQ_ELIGIBILITY False db2 = Inr db'"
    and v: "diagnosis_is_valid today d"
    using update(1) by (auto simp: update_eligibility_diagnosis_def Let_def split: if_splits)
  have "geiq_unique today (db_geiq_diagnoses db1)"
    by (rule geiq_save_unique [OF s assms(2) update(2)]) (use v in \<open>auto simp: geiq_key_def\<close>)
  then show ?thesis using set_geiq_criteria_frame(1) [OF c] sync_assignment_shape [OF y] by auto
qed

text \<open>Steps on days that follow each other.\<close>

inductive geiq_history :: "date \<Rightarrow> db \<Rightarrow> date \<Rightarrow> db \<Rightarrow> bool" where
  start: "geiq_history t db t db"
| wait: "geiq_history t db t' db' \<Longrightarrow> t' \<le> t'' \<Longrightarrow> geiq_history t db t'' db'"
| step: "geiq_history t db t' db' \<Longrightarrow> geiq_step t' db' db'' \<Longrightarrow> geiq_history t db t' db''"

lemma geiq_history_unique:
  "geiq_history t db t' db' \<Longrightarrow> geiq_unique t (db_geiq_diagnoses db) \<Longrightarrow> geiq_unique t' (db_geiq_diagnoses db')"
  by (induction rule: geiq_history.induct) (auto intro: geiq_unique_later geiq_step_unique)

text \<open>After the diagnosis of a prescriber, the diagnoses by GEIQ that are still valid have a hiring
  attached.\<close>

lemma prescriber_supersedes:
  assumes "geiq_save_new localdate today d db = Inr (d', db')"
    and "dg_author_prescriber_organization d \<noteq> None" "today < dg_expires_at d"
    and "localdate (dg_created_at d) \<le> today"
    and "e \<in> set (db_geiq_diagnoses db')" "diagnosis_is_valid today e" "dg_job_seeker e = dg_job_seeker d"
    and "dg_author_company e \<noteq> None"
  shows "\<exists>j \<in> set (db_job_applications db). af_geiq_eligibility_diagnosis (ja_accepted j) = Some (dg_pk e)"
proof -
  let ?p = "is_obsolete_geiq today (dg_job_seeker d) (db_job_applications db)"
  have d': "d' = d\<lparr>dg_pk := next_pk dg_pk (db_geiq_diagnoses db)\<rparr>"
    and db': "db' = invalidate_obsolete_geiq_diagnoses localdate today d'
      (db\<lparr>db_geiq_diagnoses := db_geiq_diagnoses db @ [d']\<rparr>)"
    using assms(1) by (auto simp: geiq_save_new_def Let_def)
  have "db_geiq_diagnoses db' = map_rows ?p (\<lambda>e. e\<lparr>dg_expires_at := localdate (dg_created_at d)\<rparr>)
      (db_geiq_diagnoses db @ [d'])"
    using assms(2,3) by (simp add: db' invalidate_obsolete_geiq_diagnoses_def diagnosis_is_valid_def d')
  then have "\<not> ?p e" using assms(4-6) by (auto simp: set_map_rows diagnosis_is_valid_def)
  then show ?thesis using assms(6-8) by (auto simp: is_obsolete_geiq_def list_ex_iff)
qed

end
