(* ===== verification/Certifications.thy ===== *)
theory Certifications
  imports Eligibility
begin

text \<open>
  \<open>eligibility/tasks.py\<close>: the certification of a selected criterion by API Particulier or by France Travail,
  with \<open>has_required_info\<close> and the period of \<open>certify_criteria\<close> (\<open>utils/apis/api_particulier.py\<close>) and of \<open>rqth\<close>
  (\<open>utils/apis/pole_emploi.py\<close>).  The answer of the service is an argument; the JSON it returned, which no
  decision reads, is left out.  The exceptions a certification raises are kept apart from the tables,
  because the transaction of the task is committed before they are raised.
\<close>

section \<open>Answers of the services\<close>

text \<open>\<open>PA_STATUS code errors retry_after\<close> is an \<open>HTTPStatusError\<close> with the codes under the key \<open>errors\<close> of its
  JSON body (\<open>None\<close> without that key or without JSON) and the header \<open>Retry-After\<close>.  The period of \<open>FA_RQTH\<close> is one
  PostgreSQL accepts: the refusal of a period that ends before it starts, at the final save, is not modelled.\<close>

datatype particulier_answer = PA_BENEFICIARY date | PA_NOT_BENEFICIARY
  | PA_STATUS nat "string list option" "string option" | PA_HTTP_ERROR | PA_INVALID_JSON | PA_OTHER_EXCEPTION

datatype ft_answer = FA_RQTH date "date option" | FA_NO_RQTH | FA_USER_DOES_NOT_EXIST | FA_MULTIPLE_USERS
  | FA_IDENTITY_NOT_CERTIFIED | FA_BAD_RESPONSE | FA_RATE_LIMIT string | FA_API_EXCEPTION | FA_OTHER_EXCEPTION

text \<open>What leaves the certification function: \<open>RetryTask\<close> with its delay, an exception the task lets the
  queue retry, or one it only logs.\<close>

datatype task_exception = RETRY_TASK nat | RETRIABLE | UNEXPECTED

text \<open>\<open>InclusiveDateRange(empty=True)\<close>: a range that contains no day.\<close>

definition empty_period :: "date \<times> date option" where
  "empty_period = (1, Some 0)"

definition certified :: "datetime \<Rightarrow> date \<times> date option \<Rightarrow> selected_criteria \<Rightarrow> selected_criteria" where
  "certified now period s = s\<lparr>sc_certified_at := Some now, sc_certification_period := Some period\<rparr>"

section \<open>API Particulier\<close>

definition has_required_info :: "user \<Rightarrow> jobseeker_profile \<Rightarrow> bool" where
  "has_required_info u p \<longleftrightarrow>
     us_first_name u \<noteq> [] \<and> us_last_name u \<noteq> [] \<and> us_title u \<noteq> None \<and>
     jp_birthdate p \<noteq> None \<and> jp_birth_country p \<noteq> None \<and>
     (jp_birth_country p = Some france_id \<longrightarrow> jp_birth_place p \<noteq> None)"

text \<open>The result: the criterion to save and whether the person was found.\<close>

definition particulier_outcome ::
  "datetime \<Rightarrow> particulier_answer \<Rightarrow> selected_criteria \<Rightarrow> task_exception + selected_criteria \<times> bool" where
  "particulier_outcome now answer s =
     (case answer of
        PA_BENEFICIARY start \<Rightarrow> Inr (certified now (start, None) s, True)
      | PA_NOT_BENEFICIARY \<Rightarrow> Inr (certified now empty_period s, True)
      | PA_STATUS code errors retry_after \<Rightarrow>
          if code = 404 then (if errors = None then Inl RETRIABLE else Inr (certified now empty_period s, True))
          else if code = 422 then (if errors = None then Inl RETRIABLE else Inr (s\<lparr>sc_certified_at := Some now\<rparr>, False))
          else if code = 409 then Inl (RETRY_TASK 60)
          else if code = 429 then
            (case retry_after of
               None \<Rightarrow> Inl UNEXPECTED
             | Some h \<Rightarrow> (case py_int h of Inl _ \<Rightarrow> Inl UNEXPECTED | Inr n \<Rightarrow> Inl (RETRY_TASK n)))
          else if code = 502 then
            (if errors = Some [''37999''] \<or> errors = Some [''36999''] then Inr (s, False) else Inl RETRIABLE)
          else Inl RETRIABLE
      | PA_HTTP_ERROR \<Rightarrow> Inl RETRIABLE
      | PA_INVALID_JSON \<Rightarrow> Inl RETRIABLE
      | PA_OTHER_EXCEPTION \<Rightarrow> Inl UNEXPECTED)"

section \<open>France Travail\<close>

definition ft_has_required_info :: "jobseeker_profile \<Rightarrow> bool" where
  "ft_has_required_info p \<longleftrightarrow> length (jp_pole_emploi_id p) = 11 \<or> (jp_birthdate p \<noteq> None \<and> jp_nir p \<noteq> [])"

definition ft_outcome ::
  "datetime \<Rightarrow> ft_answer \<Rightarrow> selected_criteria \<Rightarrow> task_exception + selected_criteria \<times> bool" where
  "ft_outcome now answer s =
     (case answer of
        FA_RQTH start end_at \<Rightarrow> Inr (certified now (start, end_at) s, True)
      | FA_NO_RQTH \<Rightarrow> Inr (certified now empty_period s, True)
      | FA_USER_DOES_NOT_EXIST \<Rightarrow> Inr (s, False)
      | FA_MULTIPLE_USERS \<Rightarrow> Inr (s, False)
      | FA_IDENTITY_NOT_CERTIFIED \<Rightarrow> Inr (certified now empty_period s, False)
      | FA_BAD_RESPONSE \<Rightarrow> Inr (s, False)
      | FA_RATE_LIMIT h \<Rightarrow> Inl (RETRY_TASK (case py_int h of Inl _ \<Rightarrow> 60 | Inr n \<Rightarrow> n))
      | FA_API_EXCEPTION \<Rightarrow> Inl RETRIABLE
      | FA_OTHER_EXCEPTION \<Rightarrow> Inl UNEXPECTED)"

section \<open>The task\<close>

definition selected_table :: "criteria_model \<Rightarrow> db \<Rightarrow> selected_criteria list" where
  "selected_table m d = (case m of IAE_SELECTED \<Rightarrow> db_selected_criteria d | GEIQ_SELECTED \<Rightarrow> db_geiq_selected_criteria d)"

definition set_selected_table :: "criteria_model \<Rightarrow> selected_criteria list \<Rightarrow> db \<Rightarrow> db" where
  "set_selected_table m t d =
     (case m of IAE_SELECTED \<Rightarrow> d\<lparr>db_selected_criteria := t\<rparr> | GEIQ_SELECTED \<Rightarrow> d\<lparr>db_geiq_selected_criteria := t\<rparr>)"

definition save_criterion :: "criteria_model \<Rightarrow> selected_criteria \<Rightarrow> db \<Rightarrow> db" where
  "save_criterion m s d = set_selected_table m (map_rows (\<lambda>r. sc_pk r = sc_pk s) (\<lambda>_. s) (selected_table m d)) d"

definition job_seeker_of_criterion :: "criteria_model \<Rightarrow> db \<Rightarrow> selected_criteria \<Rightarrow> (user \<times> jobseeker_profile) option" where
  "job_seeker_of_criterion m d s =
     (case get_row dg_pk (sc_diagnosis s) (case m of IAE_SELECTED \<Rightarrow> db_diagnoses d | GEIQ_SELECTED \<Rightarrow> db_geiq_diagnoses d) of
        None \<Rightarrow> None
      | Some g \<Rightarrow> (case (get_row us_pk (dg_job_seeker g) (db_users d), get_row jp_user (dg_job_seeker g) (db_profiles d)) of
          (Some u, Some p) \<Rightarrow> Some (u, p) | _ \<Rightarrow> None))"

text \<open>The common body of the two certification functions: the guard on the information, the date of the
  attempt, the answer, and the final save with the identity certification of the person found.\<close>

definition certify_criterion ::
  "criteria_model \<Rightarrow> certification_authority \<Rightarrow> (user \<Rightarrow> jobseeker_profile \<Rightarrow> bool) \<Rightarrow>
     (selected_criteria \<Rightarrow> task_exception + selected_criteria \<times> bool) \<Rightarrow> bool \<Rightarrow> datetime \<Rightarrow> selected_criteria \<Rightarrow> db \<Rightarrow>
     db \<times> task_exception option" where
  "certify_criterion m authority info outcome configured now s d =
     (if \<not> configured then (d, None)
      else (case job_seeker_of_criterion m d s of
         None \<Rightarrow> (d, Some UNEXPECTED)
       | Some (u, p) \<Rightarrow>
           if \<not> info u p then (d, None)
           else
             let s1 = s\<lparr>sc_last_certification_attempt_at := Some now\<rparr>; d1 = save_criterion m s1 d in
             (case outcome s1 of
                Inl e \<Rightarrow> (d1, Some e)
              | Inr (s2, found) \<Rightarrow>
                  let d2 = save_criterion m s2 d1 in
                  (if found then d2\<lparr>db_certifications := upsert_certifications
                      [\<lparr>ic_jobseeker_profile = jp_user p, ic_certifier = authority, ic_certified_at = now\<rparr>]
                      (db_certifications d2)\<rparr>
                   else d2, None))))"

definition certify_criterion_with_api_particulier ::
  "criteria_model \<Rightarrow> bool \<Rightarrow> particulier_answer \<Rightarrow> datetime \<Rightarrow> selected_criteria \<Rightarrow> db \<Rightarrow> db \<times> task_exception option" where
  "certify_criterion_with_api_particulier m configured answer now =
     certify_criterion m API_PARTICULIER has_required_info (particulier_outcome now answer) configured now"

definition certify_criterion_with_api_france_travail ::
  "criteria_model \<Rightarrow> bool \<Rightarrow> ft_answer \<Rightarrow> datetime \<Rightarrow> selected_criteria \<Rightarrow> db \<Rightarrow> db \<times> task_exception option" where
  "certify_criterion_with_api_france_travail m configured answer now =
     certify_criterion m API_FT_RECHERCHER_USAGER (\<lambda>_. ft_has_required_info) (ft_outcome now answer) configured now"

text \<open>\<open>_async_certify_criterion\<close>: the committed tables and the exception left for the queue; an unexpected
  one is logged.\<close>

definition async_certify_criterion ::
  "criteria_model \<Rightarrow> pk \<Rightarrow> (selected_criteria \<Rightarrow> db \<Rightarrow> db \<times> task_exception option) \<Rightarrow> db \<Rightarrow> db \<times> task_exception option" where
  "async_certify_criterion m p certification_func d =
     (case get_row sc_pk p (selected_table m d) of
        None \<Rightarrow> (d, None)
      | Some s \<Rightarrow> (case certification_func s d of
          (d', Some UNEXPECTED) \<Rightarrow> (d', None)
        | (d', e) \<Rightarrow> (d', e)))"

section \<open>What a certification may change\<close>

text \<open>The specification of one execution of the task for a criterion \<open>s\<close> of a job seeker with profile \<open>p\<close>:
  \<open>grants\<close> are the periods the service granted.  Only this criterion, its attempt date and certification, and
  the identity certifications change; an exception leaves the certification as it was.\<close>

definition certification_effect ::
  "criteria_model \<Rightarrow> selected_criteria \<Rightarrow> jobseeker_profile \<Rightarrow> certification_authority \<Rightarrow>
     (date \<times> date option \<Rightarrow> bool) \<Rightarrow> datetime \<Rightarrow> db \<Rightarrow> db \<times> task_exception option \<Rightarrow> bool" where
  "certification_effect m s p authority grants now d r \<longleftrightarrow>
     (\<exists>s' cs. fst r = set_selected_table m (map_rows (\<lambda>c. sc_pk c = sc_pk s) (\<lambda>_. s') (selected_table m d))
                        (d\<lparr>db_certifications := cs\<rparr>) \<and>
        sc_pk s' = sc_pk s \<and> sc_diagnosis s' = sc_diagnosis s \<and> sc_criteria s' = sc_criteria s \<and>
        sc_last_certification_attempt_at s' = Some now \<and>
        (cs = db_certifications d \<or> (snd r = None \<and> sc_certified_at s' = Some now \<and>
           cs = upsert_certification \<lparr>ic_jobseeker_profile = jp_user p, ic_certifier = authority, ic_certified_at = now\<rparr>
             (db_certifications d))) \<and>
        (snd r \<noteq> None \<longrightarrow> s' = s\<lparr>sc_last_certification_attempt_at := Some now\<rparr> \<and> cs = db_certifications d) \<and>
        (sc_certification_period s' = sc_certification_period s \<or> sc_certification_period s' = Some empty_period \<or>
           (\<exists>q. sc_certification_period s' = Some q \<and> grants q)) \<and>
        (\<forall>q. grants q \<longrightarrow> snd r = None \<and> sc_certified_at s' = Some now \<and> sc_certification_period s' = Some q))"

lemma selected_table_set [simp]: "selected_table m (set_selected_table m t d) = t"
  by (cases m) (simp_all add: selected_table_def set_selected_table_def)

lemma set_selected_table_twice [simp]: "set_selected_table m t (set_selected_table m t' d) = set_selected_table m t d"
  by (cases m) (simp_all add: set_selected_table_def)

lemma certifications_set_selected [simp]:
  "db_certifications (set_selected_table m t d) = db_certifications d"
  "(set_selected_table m t d)\<lparr>db_certifications := cs\<rparr> = set_selected_table m t (d\<lparr>db_certifications := cs\<rparr>)"
  by (cases m; simp add: set_selected_table_def)+

lemma save_criterion_twice:
  assumes "sc_pk s2 = sc_pk s1"
  shows "save_criterion m s2 (save_criterion m s1 d) =
    set_selected_table m (map_rows (\<lambda>c. sc_pk c = sc_pk s1) (\<lambda>_. s2) (selected_table m d)) d"
  using assms by (simp add: save_criterion_def map_rows_def comp_def) (rule arg_cong2 [of _ _ d d], auto)

text \<open>The contract the two services share: an answer changes only the certification of the criterion, a
  person found is certified now, and a period is kept, emptied or granted by the service.\<close>

locale certifier =
  fixes outcome :: "selected_criteria \<Rightarrow> task_exception + selected_criteria \<times> bool"
    and now :: datetime and grants :: "date \<times> date option \<Rightarrow> bool"
  assumes keeps_identity: "outcome s = Inr (s', found) \<Longrightarrow> sc_pk s' = sc_pk s \<and> sc_diagnosis s' = sc_diagnosis s \<and>
      sc_criteria s' = sc_criteria s \<and> sc_last_certification_attempt_at s' = sc_last_certification_attempt_at s"
    and found_certified: "outcome s = Inr (s', True) \<Longrightarrow> sc_certified_at s' = Some now"
    and period_source: "outcome s = Inr (s', found) \<Longrightarrow> sc_certification_period s' = sc_certification_period s \<or>
      sc_certification_period s' = Some empty_period \<or> (\<exists>q. sc_certification_period s' = Some q \<and> grants q)"
    and granted_written: "grants q \<Longrightarrow> \<exists>s'. outcome s = Inr (s', True) \<and> sc_certification_period s' = Some q"
begin

lemma certify_effect:
  assumes "job_seeker_of_criterion m d s = Some (u, p)" "info u p"
  shows "certification_effect m s p authority grants now d (certify_criterion m authority info outcome True now s d)"
proof -
  define s1 where "s1 = s\<lparr>sc_last_certification_attempt_at := Some now\<rparr>"
  have s1: "sc_pk s1 = sc_pk s" "sc_diagnosis s1 = sc_diagnosis s" "sc_criteria s1 = sc_criteria s"
    "sc_certification_period s1 = sc_certification_period s" "sc_last_certification_attempt_at s1 = Some now"
    by (simp_all add: s1_def)
  show ?thesis
  proof (cases "outcome s1")
    case (Inl e)
    then have "certify_criterion m authority info outcome True now s d = (save_criterion m s1 d, Some e)"
      using assms by (simp add: certify_criterion_def s1_def [symmetric] Let_def)
    moreover have "\<not> grants q" for q using granted_written [of q s1] Inl by auto
    ultimately show ?thesis
      unfolding certification_effect_def
      by (intro exI [of _ s1] exI [of _ "db_certifications d"]) (simp add: save_criterion_def s1 s1_def [symmetric])
  next
    case (Inr r)
    then obtain s2 found where o': "outcome s1 = Inr (s2, found)" by (cases r) auto
    have tables: "save_criterion m s2 (save_criterion m s1 d) =
        set_selected_table m (map_rows (\<lambda>c. sc_pk c = sc_pk s) (\<lambda>_. s2) (selected_table m d)) d"
      using save_criterion_twice [of s2 s1 m d] keeps_identity [OF o'] by (simp add: s1(1))
    define cs where "cs = (if found then upsert_certification
        \<lparr>ic_jobseeker_profile = jp_user p, ic_certifier = authority, ic_certified_at = now\<rparr> (db_certifications d)
      else db_certifications d)"
    have "certify_criterion m authority info outcome True now s d =
       (set_selected_table m (map_rows (\<lambda>c. sc_pk c = sc_pk s) (\<lambda>_. s2) (selected_table m d)) (d\<lparr>db_certifications := cs\<rparr>), None)"
      using assms o' by (simp add: certify_criterion_def s1_def [symmetric] Let_def tables upsert_certifications_def cs_def)
    then show ?thesis
      unfolding certification_effect_def
      using keeps_identity [OF o'] found_certified [of s1 s2] period_source [OF o'] granted_written [of _ s1] o' s1
      by (intro exI [of _ s2] exI [of _ cs]) (auto simp: cs_def)
  qed
qed

end

interpretation particulier: certifier "particulier_outcome now answer" now
  "\<lambda>q. \<exists>start. answer = PA_BENEFICIARY start \<and> q = (start, None)" for now answer
  by unfold_locales (auto simp: particulier_outcome_def certified_def split: particulier_answer.splits if_splits option.splits sum.splits)

interpretation france_travail: certifier "ft_outcome now answer" now
  "\<lambda>q. \<exists>start end_at. answer = FA_RQTH start end_at \<and> q = (start, end_at)" for now answer
  by unfold_locales (auto simp: ft_outcome_def certified_def split: ft_answer.splits)

lemma async_effect:
  assumes "get_row sc_pk k (selected_table m d) = Some s" "certification_effect m s p authority grants now d (f s d)"
  shows "certification_effect m s p authority grants now d (async_certify_criterion m k f d)"
    "snd (async_certify_criterion m k f d) \<noteq> Some UNEXPECTED"
proof -
  obtain d' e where fs: "f s d = (d', e)" by (cases "f s d")
  have r: "async_certify_criterion m k f d = (d', if e = Some UNEXPECTED then None else e)"
    using assms(1) by (auto simp: async_certify_criterion_def fs split: option.splits task_exception.splits)
  show "snd (async_certify_criterion m k f d) \<noteq> Some UNEXPECTED" by (simp add: r)
  show "certification_effect m s p authority grants now d (async_certify_criterion m k f d)"
    using assms(2) unfolding r fs certification_effect_def by auto
qed

lemma certification_effect_certifications:
  assumes "certification_effect m s p authority grants now d r" "certification_table_ok (db_certifications d)"
  shows "certification_table_ok (db_certifications (fst r))"
proof -
  obtain t cs where r: "fst r = set_selected_table m t (d\<lparr>db_certifications := cs\<rparr>)"
    and cs: "cs = db_certifications d \<or> (\<exists>c. cs = upsert_certification c (db_certifications d))"
    using assms(1) by (auto simp: certification_effect_def)
  then show ?thesis using assms(2) certs.ups_distinct by (auto simp: certification_table_ok_def)
qed

end
