(* ===== verification/Eligibility_Properties.thy ===== *)
theory Eligibility_Properties
  imports Geiq_Eligibility Certifications Samples
begin

text \<open>
  The properties of the IAE and GEIQ eligibility diagnoses: agreement of the queryset with the method,
  precedence of prescribers, effect of a creation and of a renewal, rules on criteria, allowance,
  uniqueness of the valid GEIQ diagnosis, and the certification of criteria.
\<close>

section \<open>IAE\<close>

text \<open>C15.  For a job seeker the SQL condition \<open>eligibility_validated\<close> and the method
  \<open>has_valid_diagnosis\<close> decide the same, from the point of view of any employer or of none.\<close>

theorem eligibility_lookup_agrees:
  assumes "is_job_seeker u"
  shows "eligibility_validated_lookup today siae db (us_pk u) \<longleftrightarrow> has_valid_diagnosis plus_months today u siae db"
  using eligibility_lookup_iff [OF assms] by (simp add: has_valid_diagnosis_def)

theorem eligibility_lookup_agrees_witness:
  "has_valid_diagnosis thirty_day_months 100 sample_user None (sample_db\<lparr>db_approvals := []\<rparr>)"
proof -
  have "is_job_seeker sample_user" by code_simp
  moreover have "eligibility_validated_lookup 100 None (sample_db\<lparr>db_approvals := []\<rparr>) (us_pk sample_user)"
    by code_simp
  ultimately show ?thesis using eligibility_lookup_agrees by blast
qed

text \<open>The diagnosis chosen for an employer was made for this job seeker by a prescriber or by
  this very employer, never by another one; it is unexpired unless a PASS IAE is valid; a diagnosis by a
  prescriber takes precedence; and among those of the same origin the most recent one is chosen.\<close>

lemma diagnosis_precedence:
  assumes "last_considered_valid plus_months today u siae db = Some d"
  shows "d \<in> set (db_diagnoses db) \<and> dg_job_seeker d = us_pk u \<and>
    (dg_author_kind d = AK_PRESCRIBER \<or> (siae \<noteq> None \<and> dg_author_company d = siae)) \<and>
    (diagnosis_is_valid today d \<or> has_valid_approval plus_months today u (db_approvals db)) \<and>
    (\<forall>e \<in> considered_diagnoses plus_months today u siae db.
       (dg_author_kind e = AK_PRESCRIBER \<longrightarrow> dg_author_kind d = AK_PRESCRIBER) \<and>
       (dg_author_kind e = dg_author_kind d \<longrightarrow> dg_created_at e \<le> dg_created_at d))"
  using last_considered_valid_SomeD [OF assms] diagnosis_order_le
  by (auto simp: considered_diagnoses_def set_for_job_seeker_and_siae)

definition employer_diagnosis :: diagnosis where
  "employer_diagnosis = sample_diagnosis\<lparr>dg_pk := 2, dg_author_kind := AK_EMPLOYER,
     dg_author_prescriber_organization := None, dg_author_company := Some 1, dg_created_at := 50\<rparr>"

text \<open>For a job seeker, creating a diagnosis succeeds exactly when the author acts
  for one organization; the row is coherent with its author, is not expired, and makes the job seeker
  eligible for the employer who made it, or for every employer when a prescriber did.\<close>

lemma created_diagnosis_makes_eligible:
  assumes "is_job_seeker u" and "calendar_laws plus_months"
  shows "case create_diagnosis plus_months today now u author author_siae author_org criteria db of
      Inl e \<Rightarrow> (author_siae = None) = (author_org = None)
    | Inr (d, db') \<Rightarrow> (author_siae = None) \<noteq> (author_org = None) \<and> iae_diagnosis_constraints d \<and>
        today < dg_expires_at d \<and> db_diagnoses db' = db_diagnoses db @ [d] \<and>
        has_valid_diagnosis plus_months today u author_siae db' \<and>
        (author_org \<noteq> None \<longrightarrow> (\<forall>siae. has_valid_diagnosis plus_months today u siae db'))"
proof (cases "create_diagnosis plus_months today now u author author_siae author_org criteria db")
  case (Inl e)
  then have "(author_siae = None) = (author_org = None)"
    using create_diagnosis_ok_iff [OF assms(1), of plus_months today now author author_siae author_org criteria db]
    by simp
  then show ?thesis using Inl by simp
next
  case (Inr p)
  obtain d db' where p: "p = (d, db')" by (cases p)
  note C = create_diagnosis_InrD [OF Inr [unfolded p]]
  have one: "(author_siae = None) \<noteq> (author_org = None)"
    using create_diagnosis_ok_iff [OF assms(1), of plus_months today now author author_siae author_org criteria db]
      Inr by simp
  have valid: "today < dg_expires_at d" using iae_expiration_future [OF assms(2)] by (simp add: C(8))
  have pres: "dg_author_kind d = AK_PRESCRIBER \<longleftrightarrow> author_org \<noteq> None"
    using C(3,6,7) one by (auto simp: iae_diagnosis_constraints_def)
  have elig: "has_valid_diagnosis plus_months today u siae db'"
    if "dg_author_kind d = AK_PRESCRIBER \<or> (siae \<noteq> None \<and> dg_author_company d = siae)" for siae
    unfolding has_valid_diagnosis_def has_considered_valid_iff
    using that C(1,4) valid by (auto simp: valid_diagnoses_def for_job_seeker_and_siae_def filter_empty_conv)
  show ?thesis using Inr p one C(1,3,6) valid pres elig by auto
qed

text \<open>Renewing a diagnosis adds a new one that is not expired and expires the renewed one on the
  same day; no other diagnosis changes.\<close>

lemma renewal_replaces:
  assumes "update_diagnosis plus_months today now d u author author_org criteria db = Inr (new, db')"
    and "calendar_laws plus_months" and "distinct (map dg_pk (db_diagnoses db))" and "d \<in> set (db_diagnoses db)"
  shows "new \<in> set (db_diagnoses db') \<and> today < dg_expires_at new \<and>
    (\<exists>old. get_row dg_pk (dg_pk d) (db_diagnoses db') = Some old \<and> dg_expires_at old = today \<and>
      \<not> diagnosis_is_valid today old) \<and>
    (\<forall>e \<in> set (db_diagnoses db). dg_pk e \<noteq> dg_pk d \<longrightarrow> e \<in> set (db_diagnoses db'))"
proof -
  let ?f = "\<lambda>e. e\<lparr>dg_expires_at := today, dg_updated_at := now\<rparr>"
  obtain db1 where c: "create_diagnosis plus_months today now u author None author_org criteria db = Inr (new, db1)"
    and db': "db_diagnoses db' = map_rows (\<lambda>e. dg_pk e = dg_pk d) ?f (db_diagnoses db1)"
    using assms(1) by (auto simp: update_diagnosis_def)
  note C = create_diagnosis_InrD [OF c]
  have "dg_pk new \<noteq> dg_pk d" using C(9) assms(4) by auto
  then have "new \<in> set (db_diagnoses db')"
    using map_rows_kept [of new "db_diagnoses db1" "\<lambda>e. dg_pk e = dg_pk d" ?f] C(1) db' by simp
  moreover have "today < dg_expires_at new" using iae_expiration_future [OF assms(2)] by (simp add: C(8))
  moreover have "get_row dg_pk (dg_pk d) (db_diagnoses db') = Some (?f d)"
  proof -
    have "get_row dg_pk (dg_pk d) (db_diagnoses db) = Some d"
      using assms(3,4) by (simp add: get_row_Some_iff)
    then have "get_row dg_pk (dg_pk d) (db_diagnoses db1) = Some d" by (simp add: C(1))
    then show ?thesis by (simp add: db' get_row_map_rows)
  qed
  moreover have "e \<in> set (db_diagnoses db')" if "e \<in> set (db_diagnoses db)" "dg_pk e \<noteq> dg_pk d" for e
    using that C(1) by (auto simp: db' intro: map_rows_kept)
  ultimately show ?thesis by (auto simp: diagnosis_is_valid_def)
qed

section \<open>Criteria\<close>

text \<open>For every kind of IAE structure \<open>iae_has_required_criteria\<close> returns (its dictionary
  lookup cannot fail) and accepts exactly the lists with a level 1 criterion or with as many level 2
  criteria as the kind requires, two or three, whatever their order.\<close>

lemma required_criteria_rule:
  assumes "kind \<in> set siae_kinds" and "list_all (\<lambda>c. cr_level c \<noteq> None) criteria"
  shows "iae_has_required_criteria criteria kind =
    Inr (level1 criteria \<noteq> [] \<or> (if kind \<in> {AI, ETTI} then 2 else 3) \<le> length (level2 criteria))"
proof -
  have two: "level_2_required_for_siae_kind kind = Some (if kind \<in> {AI, ETTI} then 2 else 3)"
    using assms(1) by auto
  have l1: "level1 criteria \<noteq> [] \<longleftrightarrow> (\<exists>c \<in> set criteria. cr_level c = Some LEVEL_1)"
    by (auto simp: level1_def filter_empty_conv)
  have "\<forall>c \<in> set criteria. cr_level c = Some LEVEL_2" if "level1 criteria = []"
    using that assms(2) l1 by (metis (full_types) criteria_level.exhaust list.pred_set option.exhaust)
  then have "level1 criteria = [] \<Longrightarrow> level2 criteria = criteria"
    by (simp add: level2_def filter_id_conv)
  then show ?thesis using l1 two
    by (auto simp: iae_has_required_criteria_def required_criteria_loop_eq)
qed

text \<open>The GEIQ allowance is one of the three amounts of the scheme, is the maximum for a
  prescriber, does not depend on the order of the criteria and never decreases when criteria are added.\<close>

lemma allowance_monotone:
  "geiq_allowance_amount authorized cs \<in> {0, 814, 1400} \<and> geiq_allowance_amount True cs = 1400 \<and>
   (mset cs \<subseteq># mset ds \<longrightarrow> geiq_allowance_amount authorized cs \<le> geiq_allowance_amount authorized ds)"
proof -
  have "geiq_allowance_amount authorized cs \<le> geiq_allowance_amount authorized ds" if sub: "mset cs \<subseteq># mset ds"
  proof -
    have "count_level LEVEL_1 cs \<le> count_level LEVEL_1 ds" "count_level LEVEL_2 cs \<le> count_level LEVEL_2 ds"
      "count_annex ANNEX_1 cs \<le> count_annex ANNEX_1 ds" "count_annex BOTH_ANNEXES cs \<le> count_annex BOTH_ANNEXES ds"
      using sub by (simp_all add: count_level_def count_annex_def length_filter_mono)
    then show ?thesis by (simp add: geiq_allowance_amount_def)
  qed
  then show ?thesis by (auto simp: geiq_allowance_amount_def)
qed

section \<open>GEIQ\<close>

text \<open>C16.  Over any history of creations and updates on successive days, a job seeker never has two
  valid diagnoses made by prescribers, nor two made by the same GEIQ.\<close>

theorem geiq_valid_unique:
  assumes "geiq_history t db t' db'" and "geiq_unique t (db_geiq_diagnoses db)"
    and "d \<in> set (valid_diagnoses t' (db_geiq_diagnoses db'))"
    and "e \<in> set (valid_diagnoses t' (db_geiq_diagnoses db'))"
    and "dg_job_seeker d = dg_job_seeker e" and "dg_author_company d = dg_author_company e"
  shows "d = e"
proof -
  have "inj_on geiq_key (set (valid_diagnoses t' (db_geiq_diagnoses db')))"
    using geiq_history_unique [OF assms(1,2)] by (simp add: geiq_unique_def distinct_map)
  then show ?thesis using assms(3-6) by (auto simp: inj_on_def geiq_key_def)
qed

theorem geiq_valid_unique_witness:
  "\<exists>d db'. create_eligibility_diagnosis (\<lambda>_. 100) thirty_day_months 100 7 sample_user sample_professional
     (PRESCRIBER_ORG 1) [] empty_db = Inr (d, db') \<and>
     (\<forall>e \<in> set (valid_diagnoses 100 (db_geiq_diagnoses db')). e = d)"
proof -
  let ?r = "create_eligibility_diagnosis (\<lambda>_. 100) thirty_day_months 100 7 sample_user sample_professional
     (PRESCRIBER_ORG 1) [] empty_db"
  have "is_ok ?r" by code_simp
  then obtain d db' where r: "?r = Inr (d, db')" by (metis is_ok_iff surj_pair)
  have h: "geiq_history 100 empty_db 100 db'"
    by (rule geiq_history.step [OF geiq_history.start geiq_step.create [OF r]])
  have u: "geiq_unique 100 (db_geiq_diagnoses empty_db)" by code_simp
  have "(case ?r of Inl _ \<Rightarrow> False | Inr (d, x) \<Rightarrow>
      d \<in> set (valid_diagnoses 100 (db_geiq_diagnoses x)) \<and>
      list_all (\<lambda>e. dg_job_seeker e = dg_job_seeker d \<and> dg_author_company e = dg_author_company d)
        (valid_diagnoses 100 (db_geiq_diagnoses x)))" by code_simp
  from this [unfolded r sum.case prod.case list_all_iff] have "d \<in> set (valid_diagnoses 100 (db_geiq_diagnoses db'))"
    "\<forall>e \<in> set (valid_diagnoses 100 (db_geiq_diagnoses db')).
       dg_job_seeker e = dg_job_seeker d \<and> dg_author_company e = dg_author_company d"
    by blast+
  then show ?thesis using geiq_valid_unique [OF h u] r by blast
qed

section \<open>Certification\<close>

text \<open>C17.  Whatever API Particulier or France Travail answers, one execution of a
  certification task dates the attempt, even when it asks to be retried, and changes nothing but this
  criterion and the identity certifications; the criterion is certified for a period exactly when the
  service granted that period, an exception leaves its certification unchanged, an unexpected exception is
  not passed on, and the identity certifications stay unique per person and authority.\<close>

theorem certification_is_earned:
  assumes "get_row sc_pk k (selected_table m d) = Some s" "job_seeker_of_criterion m d s = Some (u, p)"
    and "has_required_info u p" "ft_has_required_info p" "certification_table_ok (db_certifications d)"
  shows "let by_particulier = async_certify_criterion m k (certify_criterion_with_api_particulier m True a now) d;
         by_ft = async_certify_criterion m k (certify_criterion_with_api_france_travail m True fa now) d in
    certification_effect m s p API_PARTICULIER (\<lambda>q. \<exists>start. a = PA_BENEFICIARY start \<and> q = (start, None))
      now d by_particulier \<and>
    certification_effect m s p API_FT_RECHERCHER_USAGER (\<lambda>q. \<exists>start end_at. fa = FA_RQTH start end_at \<and> q = (start, end_at))
      now d by_ft \<and>
    certification_table_ok (db_certifications (fst by_particulier)) \<and> certification_table_ok (db_certifications (fst by_ft)) \<and>
    snd by_particulier \<noteq> Some UNEXPECTED \<and> snd by_ft \<noteq> Some UNEXPECTED"
proof -
  have p: "certification_effect m s p API_PARTICULIER (\<lambda>q. \<exists>start. a = PA_BENEFICIARY start \<and> q = (start, None)) now d
      (certify_criterion_with_api_particulier m True a now s d)"
    unfolding certify_criterion_with_api_particulier_def by (rule particulier.certify_effect) (fact assms)+
  have f: "certification_effect m s p API_FT_RECHERCHER_USAGER
      (\<lambda>q. \<exists>start end_at. fa = FA_RQTH start end_at \<and> q = (start, end_at)) now d
      (certify_criterion_with_api_france_travail m True fa now s d)"
    unfolding certify_criterion_with_api_france_travail_def by (rule france_travail.certify_effect) (fact assms)+
  note p = async_effect [where f = "certify_criterion_with_api_particulier m True a now", OF assms(1) p]
  note f = async_effect [where f = "certify_criterion_with_api_france_travail m True fa now", OF assms(1) f]
  show ?thesis
    using p f certification_effect_certifications [OF p(1) assms(5)] certification_effect_certifications [OF f(1) assms(5)]
    by (simp add: Let_def)
qed

definition certifiable_criterion :: selected_criteria where
  "certifiable_criterion = \<lparr>sc_pk = 1, sc_diagnosis = 1, sc_criteria = 1, sc_certified_at = None,
     sc_certification_period = None, sc_last_certification_attempt_at = None\<rparr>"

definition certification_db :: db where
  "certification_db = sample_db\<lparr>db_diagnoses := [sample_diagnosis], db_selected_criteria := [certifiable_criterion]\<rparr>"

theorem certification_is_earned_witness:
  "certification_table_ok (db_certifications (fst (async_certify_criterion IAE_SELECTED 1
     (certify_criterion_with_api_particulier IAE_SELECTED True (PA_BENEFICIARY 30) 7) certification_db)))"
proof -
  have "get_row sc_pk 1 (selected_table IAE_SELECTED certification_db) = Some certifiable_criterion"
    "job_seeker_of_criterion IAE_SELECTED certification_db certifiable_criterion = Some (sample_user, sample_profile)"
    "has_required_info sample_user sample_profile" "ft_has_required_info sample_profile"
    "certification_table_ok (db_certifications certification_db)" by code_simp+
  from certification_is_earned [OF this, of "PA_BENEFICIARY 30" 7 FA_NO_RQTH] show ?thesis
    by (simp only: Let_def)
qed

end
