(* ===== verification/Workflow.thy ===== *)
theory Workflow
  imports Schema
begin

text \<open>
  The interface of the package \<open>django_xworkflows\<close>, which runs the transitions of the job
  applications, employee records, update notifications and assessments.  The package is not part of the repository:
  the engine is an argument of every transition, and \<open>engine_law\<close> is its documented behaviour: the
  state must be a source of the transition, the check hooks must accept, the \<open>before_transition\<close> hooks
  run, then the implementation; the state is set, the object saved and the transition logged.  An
  exception anywhere undoes everything, since a transition is one database transaction.
\<close>

record ('s, 'o, 'd) transition_call =
  tc_state :: "'o \<Rightarrow> 's"
  tc_set_state :: "'s \<Rightarrow> 'o \<Rightarrow> 'o"
  tc_sources :: "'s list"
  tc_target :: 's
  tc_check :: "'o \<Rightarrow> 'd \<Rightarrow> bool"
  tc_before :: "'o \<Rightarrow> 'o"
  tc_body :: "'o \<Rightarrow> 'd \<Rightarrow> error + ('o \<times> 'd)"
  tc_save_and_log :: "'s \<Rightarrow> 'o \<Rightarrow> 'd \<Rightarrow> error + ('o \<times> 'd)"

type_synonym ('s, 'o, 'd) engine = "('s, 'o, 'd) transition_call \<Rightarrow> 'o \<Rightarrow> 'd \<Rightarrow> error + ('o \<times> 'd)"

definition reference_engine :: "('s, 'o, 'd) engine" where
  "reference_engine c x db =
     rbind (guard (tc_state c x \<in> set (tc_sources c)) InvalidTransitionError) (\<lambda>_.
     rbind (guard (tc_check c x db) (AbortTransition ''forbidden'')) (\<lambda>_.
     rbind (tc_body c (tc_before c x) db) (\<lambda>(x1, db1).
     tc_save_and_log c (tc_state c x) (tc_set_state c (tc_target c) x1) db1)))"

definition engine_law :: "('s, 'o, 'd) engine \<Rightarrow> bool" where
  "engine_law run \<longleftrightarrow> (\<forall>c x db. run c x db = reference_engine c x db)"

lemma reference_engine_law [simp]: "engine_law reference_engine"
  by (simp add: engine_law_def)

lemma engine_InrD:
  assumes "engine_law run" "run c x db = Inr (x', db')"
  obtains x1 db1 where "tc_state c x \<in> set (tc_sources c)" "tc_check c x db"
    "tc_body c (tc_before c x) db = Inr (x1, db1)"
    "tc_save_and_log c (tc_state c x) (tc_set_state c (tc_target c) x1) db1 = Inr (x', db')"
  using assms by (auto simp: engine_law_def reference_engine_def)

lemma engine_invalid:
  "engine_law run \<Longrightarrow> tc_state c x \<notin> set (tc_sources c) \<Longrightarrow> run c x db = Inl InvalidTransitionError"
  by (simp add: engine_law_def reference_engine_def)

lemma engine_eq:
  "engine_law run \<Longrightarrow> tc_state c x \<in> set (tc_sources c) \<Longrightarrow> tc_check c x db \<Longrightarrow>
   run c x db = rbind (tc_body c (tc_before c x) db) (\<lambda>(x1, db1).
     tc_save_and_log c (tc_state c x) (tc_set_state c (tc_target c) x1) db1)"
  by (simp add: engine_law_def reference_engine_def)

section \<open>Contract of a logged workflow\<close>

text \<open>A path in the graph of the transitions.\<close>

fun log_path :: "('t \<Rightarrow> 's list) \<Rightarrow> ('t \<Rightarrow> 's) \<Rightarrow> 's \<Rightarrow> ('t \<times> 's \<times> 's) list \<Rightarrow> 's \<Rightarrow> bool" where
  "log_path sources target s [] s' \<longleftrightarrow> s = s'"
| "log_path sources target s ((t, f, g) # l) s' \<longleftrightarrow>
     f = s \<and> s \<in> set (sources t) \<and> g = target t \<and> log_path sources target g l s'"

lemma log_path_append:
  "log_path sources target s (l @ l') s' \<longleftrightarrow>
     (\<exists>m. log_path sources target s l m \<and> log_path sources target m l' s')"
  by (induction l arbitrary: s) auto

text \<open>What a component with a workflow promises: a transition that succeeds started in one of its source
  states, ends in its target state and adds exactly one entry to the log of its object.\<close>

locale logged_workflow =
  fixes state_of :: "'o \<Rightarrow> 's"
    and sources :: "'t \<Rightarrow> 's list"
    and target :: "'t \<Rightarrow> 's"
    and perform :: "'t \<Rightarrow> 'o \<Rightarrow> 'd \<Rightarrow> 'o \<Rightarrow> 'd \<Rightarrow> bool"
    and log_of :: "'o \<Rightarrow> 'd \<Rightarrow> ('t \<times> 's \<times> 's) list"
  assumes perform_state: "perform t x d x' d' \<Longrightarrow> state_of x \<in> set (sources t) \<and> state_of x' = target t"
    and perform_log: "perform t x d x' d' \<Longrightarrow> log_of x' d' = log_of x d @ [(t, state_of x, target t)]"
begin

inductive performs :: "'o \<Rightarrow> 'd \<Rightarrow> 'o \<Rightarrow> 'd \<Rightarrow> bool" where
  none: "performs x d x d"
| more: "performs x d x1 d1 \<Longrightarrow> perform t x1 d1 x2 d2 \<Longrightarrow> performs x d x2 d2"

lemma performs_path:
  "performs x d x' d' \<Longrightarrow>
   \<exists>l. log_of x' d' = log_of x d @ l \<and> log_path sources target (state_of x) l (state_of x')"
proof (induction rule: performs.induct)
  case (none x d)
  then show ?case by simp
next
  case (more x d x1 d1 t x2 d2)
  then obtain l where "log_of x1 d1 = log_of x d @ l" "log_path sources target (state_of x) l (state_of x1)"
    by blast
  then show ?case using perform_log [OF more(2)] perform_state [OF more(2)]
    by (auto simp: log_path_append)
qed

text \<open>A state that is no source is final.\<close>

lemma performs_final:
  assumes "performs x d x' d'" "\<And>t. state_of x \<notin> set (sources t)"
  shows "x' = x \<and> d' = d"
  using assms by (induction rule: performs.induct) (auto dest: perform_state)

end

end
