(* ===== verification/Validators.thy ===== *)
theory Validators
  imports Py_Strings
begin

text \<open>
  \<open>utils/validators.py\<close> and the NIR of \<open>utils/france_standards.py\<close>.  Characters are ASCII: Python's
  \<open>isdigit\<close> and \<open>\d\<close> accept other digits of Unicode, which are not modelled.  The end anchor of a Python
  regular expression also matches before a final newline.
\<close>

section \<open>Characters and anchors\<close>

definition is_lower :: "char \<Rightarrow> bool" where "is_lower c \<longleftrightarrow> CHR ''a'' \<le> c \<and> c \<le> CHR ''z''"
definition is_upper :: "char \<Rightarrow> bool" where "is_upper c \<longleftrightarrow> CHR ''A'' \<le> c \<and> c \<le> CHR ''Z''"

definition is_alnum :: "char \<Rightarrow> bool" where
  "is_alnum c \<longleftrightarrow> is_digit c \<or> (CHR ''a'' \<le> c \<and> c \<le> CHR ''z'') \<or> (CHR ''A'' \<le> c \<and> c \<le> CHR ''Z'')"

definition newline :: char where "newline = char_of (10::nat)"

definition py_dollar :: "(string \<Rightarrow> bool) \<Rightarrow> string \<Rightarrow> bool" where
  "py_dollar p s \<longleftrightarrow> p s \<or> (s \<noteq> [] \<and> last s = newline \<and> p (butlast s))"

fun replace_pair :: "char \<Rightarrow> char \<Rightarrow> string \<Rightarrow> string \<Rightarrow> string" where
  "replace_pair a b new (c # d # cs) =
     (if c = a \<and> d = b then new @ replace_pair a b new cs else c # replace_pair a b new (d # cs))"
| "replace_pair a b new cs = cs"

section \<open>Numbers of organizations\<close>

definition alphanumeric :: "string \<Rightarrow> error + unit" where
  "alphanumeric s = guard (py_dollar (list_all is_alnum) s) (ValidationError ''alphanumeric'')"

definition validate_code_safir :: "string \<Rightarrow> error + unit" where
  "validate_code_safir s = guard (py_dollar (\<lambda>t. length t = 5 \<and> all_digits t) s) (ValidationError ''safir'')"

definition validate_france_travail_id_new_format :: "string \<Rightarrow> error + unit" where
  "validate_france_travail_id_new_format s =
     guard (py_dollar (\<lambda>t. length t = 11 \<and> all_digits t) s) (ValidationError ''france_travail_id'')"

definition isdigit :: "string \<Rightarrow> bool" where "isdigit s \<longleftrightarrow> s \<noteq> [] \<and> all_digits s"

definition validate_post_code :: "string \<Rightarrow> error + unit" where
  "validate_post_code s = guard (isdigit s \<and> length s = 5) (ValidationError ''post_code'')"

definition validate_siren :: "string \<Rightarrow> error + unit" where
  "validate_siren s = guard (isdigit s \<and> length s = 9) (ValidationError ''siren'')"

definition validate_siret :: "string \<Rightarrow> error + unit" where
  "validate_siret s = guard (isdigit s \<and> length s = 14) (ValidationError ''siret'')"

definition validate_naf :: "string \<Rightarrow> error + unit" where
  "validate_naf s = guard (length s = 5 \<and> isdigit (take 4 s) \<and> (is_lower (s ! 4) \<or> is_upper (s ! 4))) (ValidationError ''naf'')"

definition is_france_travail_id_format :: "string \<Rightarrow> bool" where
  "is_france_travail_id_format s \<longleftrightarrow>
     (length s = 8 \<and> isdigit (take 7 s) \<and> list_all is_alnum (drop 7 s)) \<or> (length s = 11 \<and> isdigit s)"

definition validate_pole_emploi_id :: "string \<Rightarrow> error + unit" where
  "validate_pole_emploi_id s =
     rbind (guard (list_all (\<lambda>c. of_char c < (128::nat)) s) (ValidationError ''ascii'')) (\<lambda>_.
     guard (is_france_travail_id_format s) (ValidationError ''france_travail_id''))"

section \<open>Financial annexes\<close>

definition af_suffix :: "string \<Rightarrow> bool" where
  "af_suffix s \<longleftrightarrow> length s = 4 \<and> s ! 0 = CHR ''A'' \<and> is_digit (s ! 1) \<and> s ! 2 = CHR ''M'' \<and> is_digit (s ! 3)"

definition af_prefix :: "string \<Rightarrow> bool" where
  "af_prefix s \<longleftrightarrow> list_ex (\<lambda>kind. startswith s kind \<and>
     py_dollar (\<lambda>r. length r = 9 \<and> all_digits (take 2 r) \<and> (is_upper (r ! 2) \<or> is_digit (r ! 2)) \<and> all_digits (drop 3 r))
       (removeprefix s kind)) [''ACI'', ''EI'', ''AI'', ''ETTI'', ''EITI'']"

definition validate_af_number :: "string \<Rightarrow> error + unit" where
  "validate_af_number s =
     rbind (guard (4 < length s) (ValidationError ''empty or too short'')) (\<lambda>_.
     rbind (guard (af_suffix (drop (length s - 4) s)) (ValidationError ''suffix'')) (\<lambda>_.
     guard (af_prefix (take (length s - 4) s)) (ValidationError ''prefix'')))"

section \<open>Social security numbers\<close>

definition nir_normal :: "string \<Rightarrow> string" where
  "nir_normal s = replace_pair (CHR ''2'') (CHR ''B'') ''18''
     (replace_pair (CHR ''2'') (CHR ''A'') ''19'' (py_upper (filter (\<lambda>c. c \<noteq> CHR '' '') s)))"

text \<open>The expression, on fifteen characters.\<close>

definition nir_regex :: "string \<Rightarrow> bool" where
  "nir_regex s \<longleftrightarrow> length s = 15 \<and> s ! 0 \<in> set ''123478'' \<and> all_digits (take 4 (drop 1 s)) \<and>
     (all_digits (take 2 (drop 5 s)) \<or> take 2 (drop 5 s) \<in> {''2A'', ''2B''}) \<and> all_digits (drop 7 s)"

definition fictitious_nir :: string where "fictitious_nir = ''269054958815780''"

definition nir_key :: "nat \<Rightarrow> nat" where "nir_key n = 97 - n mod 97"

definition validate_nir :: "string \<Rightarrow> error + unit" where
  "validate_nir s =
     (let nir = nir_normal s in
      rbind (guard (length nir \<le> 15) (ValidationError ''too long'')) (\<lambda>_.
      rbind (guard (15 \<le> length nir) (ValidationError ''too short'')) (\<lambda>_.
      rbind (guard (nir_regex nir) (ValidationError ''invalid'')) (\<lambda>_.
      rbind (py_int (take 2 (drop 3 nir))) (\<lambda>month.
      rbind (guard (\<not> ((12 < month \<and> month < 20) \<or> (42 < month \<and> month < 50))) (ValidationError ''invalid'')) (\<lambda>_.
      rbind (py_int (drop 13 nir)) (\<lambda>control_key.
      rbind (py_int (take 13 nir)) (\<lambda>n.
      rbind (guard (control_key = nir_key n) (ValidationError ''invalid'')) (\<lambda>_.
      guard (nir \<noteq> fictitious_nir) (ValidationError ''fictitious''))))))))))"

text \<open>\<open>NTT_REGEX\<close>, anchored by the constraint of the database; Python's anchor accepts a newline.\<close>

definition ntt_regex :: "string \<Rightarrow> bool" where
  "ntt_regex s \<longleftrightarrow> 11 \<le> length s \<and> length s \<le> 40 \<and> hd s \<in> {CHR ''1'', CHR ''2''} \<and>
     all_digits (drop 1 (take 10 s)) \<and> list_all is_alnum (drop 10 s)"

definition validate_ntt :: "string \<Rightarrow> error + unit" where
  "validate_ntt s =
     (let ntt = filter (\<lambda>c. c \<noteq> CHR '' '') s in
      rbind (guard (length ntt \<le> 40) (ValidationError ''too long'')) (\<lambda>_.
      rbind (guard (11 \<le> length ntt) (ValidationError ''too short'')) (\<lambda>_.
      guard (py_dollar ntt_regex ntt) (ValidationError ''invalid''))))"

text \<open>The class \<open>NIR\<close>: sex and date of birth.\<close>

datatype sex = MALE | FEMALE | NOT_KNOWN

definition nir_sex :: "string \<Rightarrow> error + sex" where
  "nir_sex s =
     (if s = [] then Inl (TypeError ''nir'')
      else if hd s \<in> set ''137'' then Inr MALE
      else if hd s \<in> set ''248'' then Inr FEMALE
      else if hd s = CHR ''9'' then Inl (ValueError ''nir'')
      else Inr NOT_KNOWN)"

definition nir_birth_year :: "string \<Rightarrow> error + nat" where
  "nir_birth_year s = (if s = [] then Inl (TypeError ''nir'') else py_int (take 2 (drop 1 s)))"

definition nir_birth_month :: "string \<Rightarrow> error + nat" where
  "nir_birth_month s = (if s = [] then Inl (TypeError ''nir'') else py_int (take 2 (drop 3 s)))"

section \<open>Birth dates\<close>

definition get_min_birthdate :: "(date \<Rightarrow> int \<Rightarrow> date) \<Rightarrow> date \<Rightarrow> date" where
  "get_min_birthdate minus_years today = minus_years today 100"

definition get_max_birthdate :: "(date \<Rightarrow> int \<Rightarrow> date) \<Rightarrow> date \<Rightarrow> date" where
  "get_max_birthdate minus_years today = minus_years today 16"

definition validate_birthdate :: "(date \<Rightarrow> int \<Rightarrow> date) \<Rightarrow> date \<Rightarrow> date \<Rightarrow> error + unit" where
  "validate_birthdate minus_years today birthdate =
     rbind (guard (get_min_birthdate minus_years today \<le> birthdate) (ValidationError ''less than 100'')) (\<lambda>_.
     guard (birthdate < get_max_birthdate minus_years today) (ValidationError ''more than 16''))"

end
