(* ===== verification/Employee_Records.thy ===== *)
theory Employee_Records
  imports Workflow Approval_Dates Validators
begin

text \<open>
  \<open>employee_record/models.py\<close>: the employee records (\<open>fiches salarie\<close>) sent to the ASP, their workflow,
  their batches and their update notifications, with the mappings of \<open>asp/models.py\<close> they use.  The
  workflow engine, the geocoding of an address and the INSEE lookup are arguments.  The instant
  \<open>last_checked_at\<close> that \<open>ready\<close> writes on the user is read by no decision and is left out.
\<close>

section \<open>ASP exchange information\<close>

definition asp_processing_success_code :: string where "asp_processing_success_code = ''0000''"
definition asp_duplicate_error_code :: string where "asp_duplicate_error_code = ''3436''"

definition validate_asp_batch_filename :: "string \<Rightarrow> error + unit" where
  "validate_asp_batch_filename v =
     guard (v \<noteq> [] \<and> startswith v ''RIAE_FS_'' \<and> endswith v ''.json'' \<and> length v = 27)
       (ValidationError ''asp_batch_file'')"

definition set_asp_batch_information :: "string \<Rightarrow> int \<Rightarrow> string option \<Rightarrow> asp_exchange \<Rightarrow> asp_exchange" where
  "set_asp_batch_information file line_number archive x =
     x\<lparr>ax_batch_file := Some file, ax_batch_line_number := Some line_number, ax_archived_json := archive\<rparr>"

definition set_asp_processing_information ::
  "string \<Rightarrow> string \<Rightarrow> string option \<Rightarrow> asp_exchange \<Rightarrow> asp_exchange" where
  "set_asp_processing_information code label archive x =
     x\<lparr>ax_processing_code := Some code, ax_processing_label := Some label, ax_archived_json := archive\<rparr>"

section \<open>Workflow\<close>

fun er_sources :: "er_transition \<Rightarrow> er_status list" where
  "er_sources ERT_READY = [ER_NEW, ER_REJECTED, ER_DISABLED, ER_PROCESSED]"
| "er_sources ERT_WAIT_FOR_ASP_RESPONSE = [ER_READY]"
| "er_sources ERT_REJECT = [ER_SENT]"
| "er_sources ERT_PROCESS = [ER_SENT]"
| "er_sources ERT_DISABLE = [ER_NEW, ER_REJECTED, ER_PROCESSED]"
| "er_sources ERT_ENABLE = [ER_DISABLED]"
| "er_sources ERT_ARCHIVE = [ER_NEW, ER_READY, ER_REJECTED, ER_PROCESSED, ER_DISABLED]"
| "er_sources ERT_UNARCHIVE_NEW = [ER_ARCHIVED]"
| "er_sources ERT_UNARCHIVE_PROCESSED = [ER_ARCHIVED]"
| "er_sources ERT_UNARCHIVE_REJECTED = [ER_ARCHIVED]"

fun er_target :: "er_transition \<Rightarrow> er_status" where
  "er_target ERT_READY = ER_READY"
| "er_target ERT_WAIT_FOR_ASP_RESPONSE = ER_SENT"
| "er_target ERT_REJECT = ER_REJECTED"
| "er_target ERT_PROCESS = ER_PROCESSED"
| "er_target ERT_DISABLE = ER_DISABLED"
| "er_target ERT_ENABLE = ER_NEW"
| "er_target ERT_ARCHIVE = ER_ARCHIVED"
| "er_target ERT_UNARCHIVE_NEW = ER_NEW"
| "er_target ERT_UNARCHIVE_PROCESSED = ER_PROCESSED"
| "er_target ERT_UNARCHIVE_REJECTED = ER_REJECTED"

definition without_asp_exchange :: "er_transition list" where
  "without_asp_exchange = [ERT_READY, ERT_DISABLE, ERT_ENABLE, ERT_ARCHIVE, ERT_UNARCHIVE_NEW]"

definition er_was_sent :: "er_log list \<Rightarrow> employee_record \<Rightarrow> bool" where
  "er_was_sent logs e \<longleftrightarrow>
     list_ex (\<lambda>l. el_employee_record l = er_pk e \<and> el_transition l \<notin> set without_asp_exchange) logs"

section \<open>Querysets\<close>

definition er_for_company :: "db \<Rightarrow> pk \<Rightarrow> employee_record list" where
  "er_for_company db siae =
     filter (\<lambda>e. case get_row ja_pk (er_job_application e) (db_job_applications db) of
         None \<Rightarrow> False | Some j \<Rightarrow> ja_to_company j = siae) (db_employee_records db)"

definition er_for_asp_company :: "db \<Rightarrow> company \<Rightarrow> error + employee_record list" where
  "er_for_asp_company db siae =
     rbind (siret_from_asp_source (db_companies db) siae) (\<lambda>siret.
     Inr (filter (\<lambda>e. er_siret e = siret) (db_employee_records db)))"

definition er_find_by_batch :: "string \<Rightarrow> int \<Rightarrow> employee_record list \<Rightarrow> employee_record list" where
  "er_find_by_batch filename line_number ers =
     filter (\<lambda>e. ax_batch_file (er_asp e) = Some filename \<and>
       ax_batch_line_number (er_asp e) = Some line_number) ers"

text \<open>\<open>archivable\<close>: \<open>months_before now n\<close> is \<open>now - relativedelta(months=n)\<close>.\<close>

definition archivable :: "(datetime \<Rightarrow> int \<Rightarrow> datetime) \<Rightarrow> date \<Rightarrow> datetime \<Rightarrow> db \<Rightarrow> employee_record list" where
  "archivable months_before today now db =
     filter (\<lambda>e. er_status_f e \<noteq> ER_ARCHIVED \<and>
        \<not> list_ex (\<lambda>a. ap_number a = er_approval_number e) (valid_approvals today (db_approvals db)) \<and>
        er_created_at e < months_before now 6 \<and> er_updated_at e < months_before now 1)
       (db_employee_records db)"

text \<open>PostgreSQL's \<open>GREATEST\<close> ignores NULL, so with no notification the snapshot is \<open>updated_at\<close>; a
  comparison with a NULL approval is not true.\<close>

definition last_employee_record_snapshot :: "db \<Rightarrow> employee_record \<Rightarrow> datetime" where
  "last_employee_record_snapshot db e =
     (case order_last en_created_at (filter (\<lambda>n. en_employee_record n = er_pk e) (db_er_notifications db)) of
        None \<Rightarrow> er_updated_at e
      | Some n \<Rightarrow> max (er_updated_at e) (en_created_at n))"

definition er_approval :: "db \<Rightarrow> employee_record \<Rightarrow> approval option" where
  "er_approval db e =
     (case get_row ja_pk (er_job_application e) (db_job_applications db) of
        None \<Rightarrow> None
      | Some j \<Rightarrow> (case af_approval (ja_accepted j) of
          None \<Rightarrow> None | Some k \<Rightarrow> get_row ap_pk k (db_approvals db)))"

definition missed_notifications :: "db \<Rightarrow> employee_record list" where
  "missed_notifications db =
     filter (\<lambda>e. case er_approval db e of None \<Rightarrow> False
       | Some a \<Rightarrow> last_employee_record_snapshot db e < ap_updated_at a) (db_employee_records db)"

section \<open>Constraints and writes\<close>

definition er_unique_key :: "employee_record \<Rightarrow> siae_measure option \<times> string \<times> string" where
  "er_unique_key e = (er_asp_measure e, er_siret e, er_approval_number e)"

definition batch_key :: "asp_exchange \<Rightarrow> string option \<times> int option" where
  "batch_key x = (ax_batch_file x, ax_batch_line_number x)"

definition same_batch_line :: "asp_exchange \<Rightarrow> asp_exchange \<Rightarrow> bool" where
  "same_batch_line x y \<longleftrightarrow>
     ax_batch_file x \<noteq> None \<and> ax_batch_line_number x \<noteq> None \<and> batch_key x = batch_key y"

definition er_row_check :: "employee_record list \<Rightarrow> employee_record \<Rightarrow> error + unit" where
  "er_row_check others e =
     rbind (guard (er_asp_measure e \<noteq> None) (IntegrityError ''asp_measure'')) (\<lambda>_.
     rbind (guard (\<not> list_ex (\<lambda>f. er_unique_key f = er_unique_key e) others)
       (IntegrityError ''unique_asp_measure_siret_approval_number'')) (\<lambda>_.
     rbind (guard (\<not> list_ex (\<lambda>f. same_batch_line (er_asp e) (er_asp f)) others)
       (IntegrityError ''unique_employeerecord_asp_batch_file_and_line'')) (\<lambda>_.
     guard (case er_ntt e of None \<Rightarrow> True | Some n \<Rightarrow> ntt_regex n)
       (IntegrityError ''employee_record_ntt_regex''))))"

definition er_table_ok :: "employee_record list \<Rightarrow> bool" where
  "er_table_ok ers \<longleftrightarrow>
     distinct (map er_pk ers) \<and> distinct (map er_unique_key ers) \<and>
     list_all (\<lambda>e. list_all (\<lambda>f. er_pk e \<noteq> er_pk f \<longrightarrow> \<not> same_batch_line (er_asp e) (er_asp f)) ers) ers \<and>
     list_all (\<lambda>e. er_asp_measure e \<noteq> None \<and> (case er_ntt e of None \<Rightarrow> True | Some n \<Rightarrow> ntt_regex n)) ers"

definition er_save :: "datetime \<Rightarrow> employee_record \<Rightarrow> db \<Rightarrow> error + (employee_record \<times> db)" where
  "er_save now e db =
     (let e' = e\<lparr>er_updated_at := now\<rparr> in
      rbind (er_row_check (filter (\<lambda>f. er_pk f \<noteq> er_pk e) (db_employee_records db)) e') (\<lambda>_.
      Inr (e', db\<lparr>db_employee_records :=
             map_rows (\<lambda>f. er_pk f = er_pk e) (\<lambda>_. e') (db_employee_records db)\<rparr>)))"

definition er_insert :: "employee_record \<Rightarrow> db \<Rightarrow> error + (employee_record \<times> db)" where
  "er_insert e db =
     (let e' = e\<lparr>er_pk := next_pk er_pk (db_employee_records db)\<rparr> in
      rbind (er_row_check (db_employee_records db) e') (\<lambda>_.
      Inr (e', db\<lparr>db_employee_records := db_employee_records db @ [e']\<rparr>)))"

text \<open>A row of \<open>EmployeeRecordTransitionLog\<close>, which has the unique constraint of
  \<open>ASPExchangeInformation\<close> too.\<close>

definition er_log_insert :: "er_log \<Rightarrow> db \<Rightarrow> error + db" where
  "er_log_insert l db =
     rbind (guard (\<not> list_ex (\<lambda>m. same_batch_line (el_asp l) (el_asp m)) (db_er_logs db))
       (IntegrityError ''unique_employeerecordtransitionlog_asp_batch_file_and_line'')) (\<lambda>_.
     Inr (db\<lparr>db_er_logs := db_er_logs db @ [l]\<rparr>))"

definition er_save_and_log ::
  "datetime \<Rightarrow> er_transition \<Rightarrow> pk option \<Rightarrow> asp_exchange \<Rightarrow> er_status \<Rightarrow> employee_record \<Rightarrow> db
   \<Rightarrow> error + (employee_record \<times> db)" where
  "er_save_and_log now t user asp from_state e db =
     rbind (er_save now e db) (\<lambda>(e', db1).
     rbind (er_log_insert \<lparr>el_employee_record = er_pk e', el_transition = t, el_from_state = from_state,
        el_to_state = er_target t, el_user = user, el_asp = asp, el_timestamp = now\<rparr> db1) (\<lambda>db2.
     Inr (e', db2)))"

text \<open>Deleting a record cascades over its logs and notifications.\<close>

definition er_delete :: "pk \<Rightarrow> db \<Rightarrow> db" where
  "er_delete k db =
     db\<lparr>db_employee_records := filter (\<lambda>e. er_pk e \<noteq> k) (db_employee_records db),
        db_er_logs := filter (\<lambda>l. el_employee_record l \<noteq> k) (db_er_logs db),
        db_er_notifications := filter (\<lambda>n. en_employee_record n \<noteq> k) (db_er_notifications db)\<rparr>"

section \<open>Validation\<close>

fun from_siae_kind :: "company_kind \<Rightarrow> siae_measure option" where
  "from_siae_kind ACI = Some MEASURE_ACI"
| "from_siae_kind AI = Some MEASURE_AI"
| "from_siae_kind EI = Some MEASURE_EI"
| "from_siae_kind EITI = Some MEASURE_EITI"
| "from_siae_kind ETTI = Some MEASURE_ETTI"
| "from_siae_kind _ = None"

text \<open>The rows an employee record reaches through its foreign keys.\<close>

record er_context =
  ec_application :: job_application
  ec_company :: company
  ec_job_seeker :: user
  ec_profile :: jobseeker_profile
  ec_approval :: "approval option"

definition er_fetch :: "employee_record \<Rightarrow> db \<Rightarrow> error + er_context" where
  "er_fetch e db =
     (case get_row ja_pk (er_job_application e) (db_job_applications db) of
        None \<Rightarrow> Inl (DoesNotExist ''job_application'')
      | Some j \<Rightarrow>
          (case (get_row co_pk (ja_to_company j) (db_companies db),
                 get_row us_pk (ja_job_seeker j) (db_users db),
                 get_row jp_user (ja_job_seeker j) (db_profiles db)) of
             (Some c, Some u, Some p) \<Rightarrow>
               Inr \<lparr>ec_application = j, ec_company = c, ec_job_seeker = u, ec_profile = p,
                    ec_approval = er_approval db e\<rparr>
           | _ \<Rightarrow> Inl (DoesNotExist ''row'')))"

definition clean_job_application :: "convention list \<Rightarrow> er_context \<Rightarrow> error + unit" where
  "clean_job_application vs x =
     rbind (guard (convention_of vs (ec_company x) \<noteq> None) (ValidationError ''NO_CONVENTION_AVAILABLE'')) (\<lambda>_.
     rbind (guard (ja_state (ec_application x) = JA_ACCEPTED)
       (ValidationError ''JOB_APPLICATION_MUST_BE_ACCEPTED'')) (\<lambda>_.
     guard (ec_approval x \<noteq> None) (ValidationError ''JOB_APPLICATION_WITHOUT_APPROVAL'')))"

definition er_clean :: "convention list \<Rightarrow> er_context \<Rightarrow> error + unit" where
  "er_clean vs x =
     rbind (clean_job_application vs x) (\<lambda>_. clean_model (ec_job_seeker x) (ec_profile x))"

definition fill_denormalized_fields :: "db \<Rightarrow> er_context \<Rightarrow> employee_record \<Rightarrow> error + employee_record" where
  "fill_denormalized_fields db x e =
     rbind (siret_from_asp_source (db_companies db) (ec_company x)) (\<lambda>siret.
     (case convention_of (db_conventions db) (ec_company x) of
        None \<Rightarrow> Inl (AttributeError ''asp_id'')
      | Some v \<Rightarrow> (case ec_approval x of
          None \<Rightarrow> Inl (AttributeError ''number'')
        | Some a \<Rightarrow> Inr (e\<lparr>er_siret := siret, er_asp_id := cv_asp_id v,
            er_asp_measure := from_siae_kind (co_kind (ec_company x)), er_approval_number := ap_number a\<rparr>))))"

section \<open>Transitions\<close>

definition no_asp :: asp_exchange where
  "no_asp = \<lparr>ax_processing_code = None, ax_processing_label = None, ax_batch_file = None,
     ax_batch_line_number = None, ax_archived_json = None\<rparr>"

definition er_call ::
  "datetime \<Rightarrow> er_transition \<Rightarrow> pk option \<Rightarrow> asp_exchange \<Rightarrow> (employee_record \<Rightarrow> db \<Rightarrow> bool)
   \<Rightarrow> (employee_record \<Rightarrow> db \<Rightarrow> error + (employee_record \<times> db))
   \<Rightarrow> (er_status, employee_record, db) transition_call" where
  "er_call now t user asp check body =
     \<lparr>tc_state = er_status_f, tc_set_state = (\<lambda>s e. e\<lparr>er_status_f := s\<rparr>), tc_sources = er_sources t,
      tc_target = er_target t, tc_check = check, tc_before = id, tc_body = body,
      tc_save_and_log = er_save_and_log now t user asp\<rparr>"

type_synonym er_engine = "(er_status, employee_record, db) engine"

text \<open>\<open>ready\<close>: the formatted address is saved on the profile; neither the birth date nor the NIR
  changes, so \<open>JobSeekerProfile.save\<close> writes only the address.\<close>

definition ready_body ::
  "(user \<Rightarrow> string + hexa_result) \<Rightarrow> (string \<Rightarrow> pk option) \<Rightarrow> employee_record \<Rightarrow> db
   \<Rightarrow> error + (employee_record \<times> db)" where
  "ready_body compute_hexa_address by_insee_code e db =
     rbind (er_fetch e db) (\<lambda>x.
     rbind (if \<not> hexa_address_filled (jp_hexa (ec_profile x))
            then update_hexa_address compute_hexa_address by_insee_code (ec_job_seeker x) (ec_profile x)
            else Inr (ec_profile x)) (\<lambda>p.
     rbind (er_clean (db_conventions db) (x\<lparr>ec_profile := p\<rparr>)) (\<lambda>_.
     rbind (fill_denormalized_fields db x e) (\<lambda>e'.
     Inr (e', db\<lparr>db_profiles := map_rows (\<lambda>q. jp_user q = jp_user p) (\<lambda>_. p) (db_profiles db)\<rparr>)))))"

definition er_ready ::
  "er_engine \<Rightarrow> (user \<Rightarrow> string + hexa_result) \<Rightarrow> (string \<Rightarrow> pk option) \<Rightarrow> datetime \<Rightarrow> pk option
   \<Rightarrow> employee_record \<Rightarrow> db \<Rightarrow> error + (employee_record \<times> db)" where
  "er_ready run compute_hexa_address by_insee_code now user =
     run (er_call now ERT_READY user no_asp (\<lambda>_ _. True) (ready_body compute_hexa_address by_insee_code))"

definition er_clean_then :: "(employee_record \<Rightarrow> error + employee_record) \<Rightarrow> employee_record \<Rightarrow> db
   \<Rightarrow> error + (employee_record \<times> db)" where
  "er_clean_then f e db =
     rbind (er_fetch e db) (\<lambda>x. rbind (er_clean (db_conventions db) x) (\<lambda>_.
     rbind (f e) (\<lambda>e'. Inr (e', db))))"

definition er_wait_for_asp_response ::
  "er_engine \<Rightarrow> datetime \<Rightarrow> string \<Rightarrow> int \<Rightarrow> string option \<Rightarrow> employee_record \<Rightarrow> db
   \<Rightarrow> error + (employee_record \<times> db)" where
  "er_wait_for_asp_response run now file line_number archive =
     run (er_call now ERT_WAIT_FOR_ASP_RESPONSE None (set_asp_batch_information file line_number archive no_asp)
       (\<lambda>_ _. True) (er_clean_then (\<lambda>e. Inr (e\<lparr>er_asp :=
         set_asp_batch_information file line_number archive (er_asp e)\<rparr>))))"

definition er_reject ::
  "er_engine \<Rightarrow> datetime \<Rightarrow> string \<Rightarrow> string \<Rightarrow> string option \<Rightarrow> employee_record \<Rightarrow> db
   \<Rightarrow> error + (employee_record \<times> db)" where
  "er_reject run now code label archive =
     run (er_call now ERT_REJECT None (set_asp_processing_information code label archive no_asp)
       (\<lambda>_ _. True) (er_clean_then (\<lambda>e. Inr (e\<lparr>er_asp :=
         set_asp_processing_information code label archive (er_asp e)\<rparr>))))"

definition process_body ::
  "datetime \<Rightarrow> string \<Rightarrow> string \<Rightarrow> string option \<Rightarrow> bool \<Rightarrow> employee_record \<Rightarrow> db
   \<Rightarrow> error + (employee_record \<times> db)" where
  "process_body now code label archive as_duplicate e db =
     (if as_duplicate \<and> code \<noteq> asp_duplicate_error_code then Inl (ValueError ''code'')
      else er_clean_then (\<lambda>e. Inr (e\<lparr>er_processed_at := Some now, er_processed_as_duplicate := as_duplicate,
             er_asp := set_asp_processing_information code
               (if \<not> as_duplicate then label else ''Statut force suite a doublon ASP'') archive (er_asp e)\<rparr>))
             e db)"

definition er_process ::
  "er_engine \<Rightarrow> datetime \<Rightarrow> string \<Rightarrow> string \<Rightarrow> string option \<Rightarrow> bool \<Rightarrow> employee_record \<Rightarrow> db
   \<Rightarrow> error + (employee_record \<times> db)" where
  "er_process run now code label archive as_duplicate =
     run (er_call now ERT_PROCESS None (set_asp_processing_information code label archive no_asp)
       (\<lambda>_ _. True) (process_body now code label archive as_duplicate))"

definition er_disable :: "er_engine \<Rightarrow> datetime \<Rightarrow> pk option \<Rightarrow> employee_record \<Rightarrow> db
   \<Rightarrow> error + (employee_record \<times> db)" where
  "er_disable run now user =
     run (er_call now ERT_DISABLE user no_asp (\<lambda>_ _. True) (\<lambda>e db. Inr (e, db)))"

definition er_enable :: "er_engine \<Rightarrow> datetime \<Rightarrow> pk option \<Rightarrow> employee_record \<Rightarrow> db
   \<Rightarrow> error + (employee_record \<times> db)" where
  "er_enable run now user =
     run (er_call now ERT_ENABLE user no_asp (\<lambda>_ _. True)
       (\<lambda>e db. rbind (er_fetch e db) (\<lambda>x. rbind (fill_denormalized_fields db x e) (\<lambda>e'. Inr (e', db)))))"

definition check_archive :: "plus_months \<Rightarrow> date \<Rightarrow> employee_record \<Rightarrow> db \<Rightarrow> bool" where
  "check_archive plus_months today e db =
     (case er_approval db e of
        None \<Rightarrow> False
      | Some a \<Rightarrow> (case get_row us_pk (ap_user a) (db_users db) of
          None \<Rightarrow> False
        | Some u \<Rightarrow> \<not> approval_is_valid today a \<and> \<not> can_be_prolonged plus_months today a u db))"

definition er_archive :: "er_engine \<Rightarrow> plus_months \<Rightarrow> date \<Rightarrow> datetime \<Rightarrow> pk option \<Rightarrow> employee_record \<Rightarrow> db
   \<Rightarrow> error + (employee_record \<times> db)" where
  "er_archive run plus_months today now user =
     run (er_call now ERT_ARCHIVE user no_asp (check_archive plus_months today)
       (\<lambda>e db. Inr (e\<lparr>er_asp := (er_asp e)\<lparr>ax_archived_json := None\<rparr>\<rparr>, db)))"

definition status_based_on_asp_processing_code :: "employee_record \<Rightarrow> er_status option" where
  "status_based_on_asp_processing_code e =
     (case ax_processing_code (er_asp e) of
        None \<Rightarrow> Some ER_NEW
      | Some code \<Rightarrow>
          if code = [] then Some ER_NEW
          else if code \<in> {''0000'', asp_duplicate_error_code} then Some ER_PROCESSED
          else if take 2 code \<in> {''32'', ''33'', ''34''} then Some ER_REJECTED
          else None)"

fun check_unarchive :: "er_transition \<Rightarrow> employee_record \<Rightarrow> bool" where
  "check_unarchive ERT_UNARCHIVE_NEW e \<longleftrightarrow> status_based_on_asp_processing_code e = Some ER_NEW"
| "check_unarchive ERT_UNARCHIVE_PROCESSED e \<longleftrightarrow> status_based_on_asp_processing_code e = Some ER_PROCESSED"
| "check_unarchive ERT_UNARCHIVE_REJECTED e \<longleftrightarrow> status_based_on_asp_processing_code e = Some ER_REJECTED"
| "check_unarchive _ e \<longleftrightarrow> True"

definition er_unarchive_transition ::
  "er_engine \<Rightarrow> datetime \<Rightarrow> er_transition \<Rightarrow> employee_record \<Rightarrow> db \<Rightarrow> error + (employee_record \<times> db)" where
  "er_unarchive_transition run now t =
     run (er_call now t None no_asp (\<lambda>e _. check_unarchive t e) (\<lambda>e db. Inr (e, db)))"

text \<open>\<open>unarchive\<close>: the first available of the three transitions is run, after the notification that the
  trigger would have created; \<open>is_available()\<close> is the source state and the check hooks.\<close>

definition unarchive_available :: "er_transition \<Rightarrow> employee_record \<Rightarrow> bool" where
  "unarchive_available t e \<longleftrightarrow> er_status_f e \<in> set (er_sources t) \<and> check_unarchive t e"

definition unarchive_notification :: "datetime \<Rightarrow> employee_record \<Rightarrow> db \<Rightarrow> db" where
  "unarchive_notification now e db =
     (if list_ex (\<lambda>f. er_pk f = er_pk e) (missed_notifications db)
      then db\<lparr>db_er_notifications := upsert
        (\<lambda>n. en_employee_record n = er_pk e \<and> en_status n = NS_NEW) (\<lambda>n. n\<lparr>en_updated_at := now\<rparr>)
        \<lparr>en_pk = next_pk en_pk (db_er_notifications db), en_employee_record = er_pk e, en_created_at = now,
         en_updated_at = now, en_status = NS_NEW, en_asp = no_asp\<rparr> (db_er_notifications db)\<rparr>
      else db)"

definition er_unarchive ::
  "er_engine \<Rightarrow> datetime \<Rightarrow> employee_record \<Rightarrow> db \<Rightarrow> error + (employee_record \<times> db)" where
  "er_unarchive run now e db =
     (case find (\<lambda>t. unarchive_available t e)
             [ERT_UNARCHIVE_PROCESSED, ERT_UNARCHIVE_REJECTED, ERT_UNARCHIVE_NEW] of
        Some t \<Rightarrow> er_unarchive_transition run now t e (unarchive_notification now e db)
      | None \<Rightarrow> if er_status_f e \<noteq> ER_ARCHIVED then Inl InvalidTransitionError else Inr (e, db))"

section \<open>Mappings and other methods\<close>

datatype employer_type = ET_EI | ET_ETTI | ET_AI | ET_ACI | ET_ESAT | ET_EA | ET_OTHER

fun from_itou_siae_kind :: "company_kind \<Rightarrow> employer_type" where
  "from_itou_siae_kind EI = ET_EI"
| "from_itou_siae_kind ETTI = ET_ETTI"
| "from_itou_siae_kind AI = ET_AI"
| "from_itou_siae_kind ACI = ET_ACI"
| "from_itou_siae_kind EA = ET_EA"
| "from_itou_siae_kind _ = ET_OTHER"

definition is_employed :: "jobseeker_profile \<Rightarrow> bool" where
  "is_employed p \<longleftrightarrow> si_unemployed_since (jp_situation p) = None"

definition asp_employer_type :: "er_context \<Rightarrow> employer_type option" where
  "asp_employer_type x =
     (if is_employed (ec_profile x) then Some (from_itou_siae_kind (co_kind (ec_company x))) else None)"

datatype asp_prescriber_type_t = PT_KIND prescriber_kind | PT_OTHER_AUTHORIZED | PT_SPONTANEOUS | PT_PRESCRIBERS

text \<open>The members of \<open>PrescriberType\<close> that are also kinds of organizations.\<close>

definition prescriber_type_names :: "prescriber_kind list" where
  "prescriber_type_names = [PK_ML, PK_CAP_EMPLOI, PK_FT, PK_PLIE, PK_DEPT, PK_SPIP, PK_PJJ, PK_CCAS,
     PK_CHRS, PK_CIDFF, PK_PREVENTION, PK_AFPA, PK_PIJ_BIJ, PK_CAF, PK_CADA, PK_ASE, PK_CAVA, PK_CPH,
     PK_CHU, PK_OACAS]"

definition asp_prescriber_type :: "sender_kind \<Rightarrow> prescriber_org option \<Rightarrow> asp_prescriber_type_t" where
  "asp_prescriber_type kind org =
     (if kind = SK_JOB_SEEKER then PT_SPONTANEOUS
      else if kind = SK_EMPLOYER then PT_SPONTANEOUS
      else (case org of
              None \<Rightarrow> PT_PRESCRIBERS
            | Some g \<Rightarrow> if \<not> is_authorized g then PT_PRESCRIBERS
                else if po_kind g \<in> set prescriber_type_names then PT_KIND (po_kind g)
                else PT_OTHER_AUTHORIZED))"

definition has_siret_different_from_asp_source :: "company list \<Rightarrow> er_context \<Rightarrow> employee_record \<Rightarrow> error + bool"
  where
  "has_siret_different_from_asp_source cs x e =
     rbind (siret_from_asp_source cs (ec_company x)) (\<lambda>s. Inr (er_siret e \<noteq> s))"

definition is_ntt_required :: "string \<Rightarrow> bool" where
  "is_ntt_required nir \<longleftrightarrow> nir = [] \<or> startswith nir ''7'' \<or> startswith nir ''8''"

definition has_valid_data_filled :: "db \<Rightarrow> employee_record \<Rightarrow> bool" where
  "has_valid_data_filled db e =
     (case er_fetch e db of
        Inl _ \<Rightarrow> False
      | Inr x \<Rightarrow>
          jp_birth_country (ec_profile x) \<noteq> None \<and> hx_commune (jp_hexa (ec_profile x)) \<noteq> None \<and>
          is_ok (er_clean (db_conventions db) x) \<and>
          \<not> (is_ntt_required (jp_nir (ec_profile x)) \<and> (er_ntt e = None \<or> er_ntt e = Some [])))"

text \<open>\<open>from_job_application\<close>: a record with the defaults of the model, not yet saved.\<close>

definition unsaved_record :: "datetime \<Rightarrow> pk \<Rightarrow> employee_record" where
  "unsaved_record now j = \<lparr>er_pk = 0, er_created_at = now, er_updated_at = now, er_processed_at = None,
     er_status_f = ER_NEW, er_job_application = j, er_ntt = None, er_financial_annex = None,
     er_approval_number = [], er_asp_id = 0, er_asp_measure = None, er_siret = [],
     er_processed_as_duplicate = False, er_asp = no_asp\<rparr>"

definition from_job_application :: "datetime \<Rightarrow> bool \<Rightarrow> pk \<Rightarrow> db \<Rightarrow> error + employee_record" where
  "from_job_application now clean j db =
     rbind (er_fetch (unsaved_record now j) db) (\<lambda>x.
     rbind (if clean then er_clean (db_conventions db) x else Inr ()) (\<lambda>_.
     rbind (fill_denormalized_fields db x (unsaved_record now j)) (\<lambda>e'.
     if list_ex (\<lambda>f. er_unique_key f = er_unique_key e') (db_employee_records db)
     then Inl (ValidationError ''EMPLOYEE_RECORD_IS_DUPLICATE'')
     else Inr e')))"

section \<open>Batches\<close>

definition max_employee_records :: nat where "max_employee_records = 700"

fun number_lines :: "int \<Rightarrow> employee_record list \<Rightarrow> employee_record list" where
  "number_lines i [] = []"
| "number_lines i (e # es) =
     e\<lparr>er_asp := (er_asp e)\<lparr>ax_batch_line_number := Some i, ax_processing_code := None,
         ax_processing_label := None\<rparr>\<rparr> # number_lines (i + 1) es"

definition employee_record_batch :: "employee_record list \<Rightarrow> error + employee_record list" where
  "employee_record_batch elements =
     (if elements \<noteq> [] \<and> max_employee_records < length elements
      then Inl (ValidationError ''too many elements'')
      else Inr (number_lines 1 elements))"

text \<open>\<open>path, ext = filename.split(".")\<close> raises unless there is exactly one separator.\<close>

definition split_extension :: "string \<Rightarrow> error + (string \<times> string)" where
  "split_extension s =
     (if length (filter (\<lambda>c. c = CHR ''.'') s) = 1
      then Inr (takeWhile (\<lambda>c. c \<noteq> CHR ''.'') s, drop 1 (dropWhile (\<lambda>c. c \<noteq> CHR ''.'') s))
      else Inl (ValueError ''unpack''))"

definition feedback_file_suffix :: string where "feedback_file_suffix = ''_FichierRetour''"

definition feedback_filename :: "string \<Rightarrow> error + string" where
  "feedback_filename filename =
     rbind (validate_asp_batch_filename filename) (\<lambda>_.
     rbind (split_extension filename) (\<lambda>(path, ext).
     Inr (path @ feedback_file_suffix @ ''.'' @ ext)))"

definition removesuffix :: "string \<Rightarrow> string \<Rightarrow> string" where
  "removesuffix s suffix = (if endswith s suffix then take (length s - length suffix) s else s)"

definition batch_filename_from_feedback :: "string \<Rightarrow> error + string" where
  "batch_filename_from_feedback filename =
     rbind (split_extension filename) (\<lambda>(path, ext).
     rbind (guard (endswith path feedback_file_suffix) (ValidationError ''BAD_FEEDBACK_FILENAME'')) (\<lambda>_.
     Inr (removesuffix path feedback_file_suffix @ ''.'' @ ext)))"

section \<open>Update notifications\<close>

datatype en_transition = ENT_WAIT_FOR_ASP_RESPONSE | ENT_REJECT | ENT_PROCESS

fun en_sources :: "en_transition \<Rightarrow> notification_status list" where
  "en_sources ENT_WAIT_FOR_ASP_RESPONSE = [NS_NEW]"
| "en_sources ENT_REJECT = [NS_SENT]"
| "en_sources ENT_PROCESS = [NS_SENT]"

fun en_target :: "en_transition \<Rightarrow> notification_status" where
  "en_target ENT_WAIT_FOR_ASP_RESPONSE = NS_SENT"
| "en_target ENT_REJECT = NS_REJECTED"
| "en_target ENT_PROCESS = NS_PROCESSED"

definition en_save :: "datetime \<Rightarrow> er_notification \<Rightarrow> db \<Rightarrow> error + (er_notification \<times> db)" where
  "en_save now n db =
     (let n' = n\<lparr>en_updated_at := now\<rparr>;
          others = filter (\<lambda>m. en_pk m \<noteq> en_pk n) (db_er_notifications db) in
      rbind (guard (\<not> list_ex (\<lambda>m. same_batch_line (en_asp n') (en_asp m)) others)
        (IntegrityError ''asp_batch_file_and_line'')) (\<lambda>_.
      rbind (guard (en_status n' \<noteq> NS_NEW \<or>
          \<not> list_ex (\<lambda>m. en_status m = NS_NEW \<and> en_employee_record m = en_employee_record n') others)
        (IntegrityError ''unique_new_employee_record'')) (\<lambda>_.
      Inr (n', db\<lparr>db_er_notifications :=
        map_rows (\<lambda>m. en_pk m = en_pk n) (\<lambda>_. n') (db_er_notifications db)\<rparr>))))"

definition en_transition_run ::
  "(notification_status, er_notification, db) engine \<Rightarrow> datetime \<Rightarrow> en_transition
   \<Rightarrow> (asp_exchange \<Rightarrow> asp_exchange) \<Rightarrow> er_notification \<Rightarrow> db \<Rightarrow> error + (er_notification \<times> db)" where
  "en_transition_run run now t f =
     run \<lparr>tc_state = en_status, tc_set_state = (\<lambda>s n. n\<lparr>en_status := s\<rparr>), tc_sources = en_sources t,
      tc_target = en_target t, tc_check = (\<lambda>_ _. True), tc_before = id,
      tc_body = (\<lambda>n db. Inr (n\<lparr>en_asp := f (en_asp n)\<rparr>, db)),
      tc_save_and_log = (\<lambda>_. en_save now)\<rparr>"

definition en_wait_for_asp_response ::
  "(notification_status, er_notification, db) engine \<Rightarrow> datetime \<Rightarrow> string \<Rightarrow> int \<Rightarrow> string option
   \<Rightarrow> er_notification \<Rightarrow> db \<Rightarrow> error + (er_notification \<times> db)" where
  "en_wait_for_asp_response run now file line_number archive =
     en_transition_run run now ENT_WAIT_FOR_ASP_RESPONSE (set_asp_batch_information file line_number archive)"

definition en_reject ::
  "(notification_status, er_notification, db) engine \<Rightarrow> datetime \<Rightarrow> string \<Rightarrow> string \<Rightarrow> string option
   \<Rightarrow> er_notification \<Rightarrow> db \<Rightarrow> error + (er_notification \<times> db)" where
  "en_reject run now code label archive =
     en_transition_run run now ENT_REJECT (set_asp_processing_information code label archive)"

definition en_process ::
  "(notification_status, er_notification, db) engine \<Rightarrow> datetime \<Rightarrow> string \<Rightarrow> string \<Rightarrow> string option
   \<Rightarrow> er_notification \<Rightarrow> db \<Rightarrow> error + (er_notification \<times> db)" where
  "en_process run now code label archive =
     en_transition_run run now ENT_PROCESS (set_asp_processing_information code label archive)"

section \<open>Lemmas on writes\<close>

lemma er_save_InrD:
  assumes "er_save now e db = Inr (e', db')"
  shows "e' = e\<lparr>er_updated_at := now\<rparr>"
    and "er_row_check (filter (\<lambda>f. er_pk f \<noteq> er_pk e) (db_employee_records db)) e' = Inr ()"
    and "db' = db\<lparr>db_employee_records := map_rows (\<lambda>f. er_pk f = er_pk e) (\<lambda>_. e') (db_employee_records db)\<rparr>"
  using assms by (auto simp: er_save_def Let_def)

lemma er_row_check_InrD:
  assumes "er_row_check others e = Inr ()"
  shows "er_asp_measure e \<noteq> None" "case er_ntt e of None \<Rightarrow> True | Some n \<Rightarrow> ntt_regex n"
    and "f \<in> set others \<Longrightarrow> er_unique_key f \<noteq> er_unique_key e"
    and "f \<in> set others \<Longrightarrow> \<not> same_batch_line (er_asp e) (er_asp f)"
  using assms by (auto simp: er_row_check_def list_ex_iff)

lemma same_batch_line_sym: "same_batch_line x y \<longleftrightarrow> same_batch_line y x"
  by (auto simp: same_batch_line_def batch_key_def)

text \<open>The table invariant, with the unique key stated on pairs of rows.\<close>

lemma er_table_ok_alt:
  "er_table_ok ers \<longleftrightarrow> distinct (map er_pk ers) \<and>
     (\<forall>e \<in> set ers. \<forall>f \<in> set ers. er_pk e \<noteq> er_pk f \<longrightarrow>
        er_unique_key e \<noteq> er_unique_key f \<and> \<not> same_batch_line (er_asp e) (er_asp f)) \<and>
     (\<forall>e \<in> set ers. er_asp_measure e \<noteq> None \<and> (case er_ntt e of None \<Rightarrow> True | Some n \<Rightarrow> ntt_regex n))"
proof -
  have "distinct (map er_unique_key ers) \<longleftrightarrow>
      (\<forall>e \<in> set ers. \<forall>f \<in> set ers. er_pk e \<noteq> er_pk f \<longrightarrow> er_unique_key e \<noteq> er_unique_key f)"
    if "distinct (map er_pk ers)"
    using that by (auto simp: distinct_map inj_on_def)
  then show ?thesis by (auto simp: er_table_ok_def list_all_iff)
qed

lemma er_save_ok:
  assumes "er_save now e db = Inr (e', db')" "er_table_ok (db_employee_records db)"
  shows "er_table_ok (db_employee_records db')"
proof -
  note S = er_save_InrD [OF assms(1)]
  have pk: "er_pk e' = er_pk e" by (simp add: S(1))
  let ?rows = "map_rows (\<lambda>f. er_pk f = er_pk e) (\<lambda>_. e') (db_employee_records db)"
  have keys: "map er_pk ?rows = map er_pk (db_employee_records db)" by (rule map_rows_key) (simp add: pk)
  have new: "er_unique_key f \<noteq> er_unique_key e' \<and> \<not> same_batch_line (er_asp e') (er_asp f)"
    if "f \<in> set (db_employee_records db)" "er_pk f \<noteq> er_pk e" for f
    using er_row_check_InrD(3,4) [OF S(2)] that by simp
  have mem: "f = e' \<or> f \<in> set (db_employee_records db) \<and> er_pk f \<noteq> er_pk e" if "f \<in> set ?rows" for f
    using that by (auto simp: set_map_rows)
  show ?thesis unfolding S(3) er_table_ok_alt
    using assms(2) [unfolded er_table_ok_alt] keys new mem er_row_check_InrD(1,2) [OF S(2)] pk
    by simp (metis same_batch_line_sym)
qed

lemma er_insert_ok:
  assumes "er_insert e db = Inr (e', db')" "er_table_ok (db_employee_records db)"
  shows "er_table_ok (db_employee_records db')" "db_employee_records db' = db_employee_records db @ [e']"
    "er_pk e' \<notin> er_pk ` set (db_employee_records db)"
proof -
  have e': "e' = e\<lparr>er_pk := next_pk er_pk (db_employee_records db)\<rparr>"
    and c: "er_row_check (db_employee_records db) e' = Inr ()"
    and db': "db' = db\<lparr>db_employee_records := db_employee_records db @ [e']\<rparr>"
    using assms(1) by (auto simp: er_insert_def Let_def)
  show "db_employee_records db' = db_employee_records db @ [e']" by (simp add: db')
  show fresh: "er_pk e' \<notin> er_pk ` set (db_employee_records db)" by (simp add: e')
  show "er_table_ok (db_employee_records db')"
    using assms(2) er_row_check_InrD(1,2) [OF c] er_row_check_InrD(3,4) [OF c] fresh
    unfolding db' er_table_ok_alt by simp (metis same_batch_line_sym)
qed

section \<open>Lemmas on transitions\<close>

definition er_body_ok :: "(employee_record \<Rightarrow> db \<Rightarrow> error + (employee_record \<times> db)) \<Rightarrow> bool" where
  "er_body_ok body \<longleftrightarrow> (\<forall>e db e1 db1. body e db = Inr (e1, db1) \<longrightarrow>
     er_pk e1 = er_pk e \<and> db_er_logs db1 = db_er_logs db \<and>
     db_employee_records db1 = db_employee_records db)"

lemma fill_denormalized_InrD:
  assumes "fill_denormalized_fields db x e = Inr e'"
  obtains v a where "convention_of (db_conventions db) (ec_company x) = Some v" "ec_approval x = Some a"
    "siret_from_asp_source (db_companies db) (ec_company x) = Inr (er_siret e')"
    "er_asp_id e' = cv_asp_id v" "er_asp_measure e' = from_siae_kind (co_kind (ec_company x))"
    "er_approval_number e' = ap_number a" "er_pk e' = er_pk e"
    "er_job_application e' = er_job_application e \<and> er_status_f e' = er_status_f e \<and> er_ntt e' = er_ntt e \<and>
     er_asp e' = er_asp e"
proof -
  obtain siret where s: "siret_from_asp_source (db_companies db) (ec_company x) = Inr siret"
    using assms by (auto simp: fill_denormalized_fields_def)
  then obtain v where v: "convention_of (db_conventions db) (ec_company x) = Some v"
    using assms by (cases "convention_of (db_conventions db) (ec_company x)") (auto simp: fill_denormalized_fields_def)
  then obtain a where a: "ec_approval x = Some a"
    using assms s by (cases "ec_approval x") (auto simp: fill_denormalized_fields_def)
  have "e' = e\<lparr>er_siret := siret, er_asp_id := cv_asp_id v,
      er_asp_measure := from_siae_kind (co_kind (ec_company x)), er_approval_number := ap_number a\<rparr>"
    using assms s v a by (simp add: fill_denormalized_fields_def)
  then show thesis using that [OF v a] s by simp
qed

lemma er_bodies_ok [simp]:
  "er_body_ok (\<lambda>e db. Inr (e, db))"
  "er_body_ok (ready_body g i)"
  "er_body_ok (process_body now code label archive dup)"
  "er_body_ok (er_clean_then (\<lambda>e. Inr (e\<lparr>er_asp := f (er_asp e)\<rparr>)))"
  "er_body_ok (\<lambda>e db. Inr (e\<lparr>er_asp := f (er_asp e)\<rparr>, db))"
  "er_body_ok (\<lambda>e db. rbind (er_fetch e db) (\<lambda>x. rbind (fill_denormalized_fields db x e) (\<lambda>e'. Inr (e', db))))"
  by (auto simp: er_body_ok_def ready_body_def process_body_def er_clean_then_def
      elim!: fill_denormalized_InrD split: if_splits)

definition er_log_of :: "employee_record \<Rightarrow> db \<Rightarrow> (er_transition \<times> er_status \<times> er_status) list" where
  "er_log_of e db = map (\<lambda>l. (el_transition l, el_from_state l, el_to_state l))
     (filter (\<lambda>l. el_employee_record l = er_pk e) (db_er_logs db))"

lemma er_save_and_log_InrD:
  assumes "er_save_and_log now t user asp s e db = Inr (e', db')"
  shows "e' = e\<lparr>er_updated_at := now\<rparr>" "er_log_of e' db' = er_log_of e db @ [(t, s, er_target t)]"
    and "er_table_ok (db_employee_records db) \<Longrightarrow> er_table_ok (db_employee_records db')"
proof -
  obtain db1 where s: "er_save now e db = Inr (e', db1)"
    and l: "db' = db1\<lparr>db_er_logs := db_er_logs db1 @ [\<lparr>el_employee_record = er_pk e', el_transition = t,
      el_from_state = s, el_to_state = er_target t, el_user = user, el_asp = asp, el_timestamp = now\<rparr>]\<rparr>"
    using assms by (auto simp: er_save_and_log_def er_log_insert_def)
  note S = er_save_InrD [OF s]
  show "e' = e\<lparr>er_updated_at := now\<rparr>" by (rule S(1))
  show "er_log_of e' db' = er_log_of e db @ [(t, s, er_target t)]" by (simp add: er_log_of_def l S)
  show "er_table_ok (db_employee_records db) \<Longrightarrow> er_table_ok (db_employee_records db')"
    using er_save_ok [OF s] by (simp add: l)
qed

lemma er_call_InrD:
  assumes "engine_law run" "run (er_call now t user asp check body) e db = Inr (e', db')" "er_body_ok body"
  obtains e1 db1 where "er_status_f e \<in> set (er_sources t)" "check e db" "body e db = Inr (e1, db1)"
    "e' = e1\<lparr>er_status_f := er_target t, er_updated_at := now\<rparr>"
    "er_log_of e' db' = er_log_of e db @ [(t, er_status_f e, er_target t)]"
    "er_table_ok (db_employee_records db) \<Longrightarrow> er_table_ok (db_employee_records db')"
proof (rule engine_InrD [OF assms(1,2)])
  fix e1 db1
  assume a: "tc_state (er_call now t user asp check body) e \<in> set (tc_sources (er_call now t user asp check body))"
    "tc_check (er_call now t user asp check body) e db"
    "tc_body (er_call now t user asp check body) (tc_before (er_call now t user asp check body) e) db = Inr (e1, db1)"
    "tc_save_and_log (er_call now t user asp check body) (tc_state (er_call now t user asp check body) e)
       (tc_set_state (er_call now t user asp check body) (tc_target (er_call now t user asp check body)) e1) db1 =
     Inr (e', db')"
  then have b: "body e db = Inr (e1, db1)"
    and s: "er_save_and_log now t user asp (er_status_f e) (e1\<lparr>er_status_f := er_target t\<rparr>) db1 = Inr (e', db')"
    by (simp_all add: er_call_def)
  have f: "er_pk e1 = er_pk e" "db_er_logs db1 = db_er_logs db" "db_employee_records db1 = db_employee_records db"
    using assms(3) b by (auto simp: er_body_ok_def)
  note S = er_save_and_log_InrD [OF s]
  show thesis
    by (rule that [of e1 db1]) (use a(1,2) b S f in \<open>auto simp: er_call_def er_log_of_def\<close>)
qed

text \<open>One relation for the transitions of the workflow.\<close>

inductive er_step :: "er_transition \<Rightarrow> employee_record \<Rightarrow> db \<Rightarrow> employee_record \<Rightarrow> db \<Rightarrow> bool" where
  ready: "engine_law run \<Longrightarrow> er_ready run g i now user e db = Inr (e', db') \<Longrightarrow> er_step ERT_READY e db e' db'"
| wait: "engine_law run \<Longrightarrow> er_wait_for_asp_response run now file line archive e db = Inr (e', db') \<Longrightarrow>
    er_step ERT_WAIT_FOR_ASP_RESPONSE e db e' db'"
| reject: "engine_law run \<Longrightarrow> er_reject run now code label archive e db = Inr (e', db') \<Longrightarrow>
    er_step ERT_REJECT e db e' db'"
| process: "engine_law run \<Longrightarrow> er_process run now code label archive dup e db = Inr (e', db') \<Longrightarrow>
    er_step ERT_PROCESS e db e' db'"
| disable: "engine_law run \<Longrightarrow> er_disable run now user e db = Inr (e', db') \<Longrightarrow> er_step ERT_DISABLE e db e' db'"
| enable: "engine_law run \<Longrightarrow> er_enable run now user e db = Inr (e', db') \<Longrightarrow> er_step ERT_ENABLE e db e' db'"
| archive: "engine_law run \<Longrightarrow> er_archive run pm today now user e db = Inr (e', db') \<Longrightarrow>
    er_step ERT_ARCHIVE e db e' db'"
| unarchive: "engine_law run \<Longrightarrow> t \<in> {ERT_UNARCHIVE_NEW, ERT_UNARCHIVE_PROCESSED, ERT_UNARCHIVE_REJECTED} \<Longrightarrow>
    er_unarchive_transition run now t e db = Inr (e', db') \<Longrightarrow> er_step t e db e' db'"

lemmas er_transition_defs = er_ready_def er_wait_for_asp_response_def er_reject_def er_process_def
  er_disable_def er_enable_def er_archive_def er_unarchive_transition_def

lemma er_step_call:
  assumes "er_step t e db e' db'"
  obtains run now user asp check body where "engine_law run" "er_body_ok body"
    "run (er_call now t user asp check body) e db = Inr (e', db')"
  using assms by (cases rule: er_step.cases) (auto simp: er_transition_defs intro: that er_bodies_ok)

lemma er_step_spec:
  assumes "er_step t e db e' db'"
  shows "er_status_f e \<in> set (er_sources t)" "er_status_f e' = er_target t"
    "er_log_of e' db' = er_log_of e db @ [(t, er_status_f e, er_target t)]" "er_pk e' = er_pk e"
    "er_table_ok (db_employee_records db) \<Longrightarrow> er_table_ok (db_employee_records db')"
proof -
  obtain run now user asp check body where run: "engine_law run" and ok: "er_body_ok body"
    and r: "run (er_call now t user asp check body) e db = Inr (e', db')"
    using er_step_call [OF assms] by metis
  obtain e1 db1 where E: "er_status_f e \<in> set (er_sources t)" "body e db = Inr (e1, db1)"
    "e' = e1\<lparr>er_status_f := er_target t, er_updated_at := now\<rparr>"
    "er_log_of e' db' = er_log_of e db @ [(t, er_status_f e, er_target t)]"
    "er_table_ok (db_employee_records db) \<Longrightarrow> er_table_ok (db_employee_records db')"
    using er_call_InrD [OF run r ok] by metis
  show "er_status_f e \<in> set (er_sources t)" "er_status_f e' = er_target t"
    "er_log_of e' db' = er_log_of e db @ [(t, er_status_f e, er_target t)]"
    "er_table_ok (db_employee_records db) \<Longrightarrow> er_table_ok (db_employee_records db')"
    using E by auto
  show "er_pk e' = er_pk e" using E(2,3) ok by (auto simp: er_body_ok_def)
qed

interpretation er_wf: logged_workflow er_status_f er_sources er_target er_step er_log_of
proof
  fix t e db e' db'
  assume "er_step t e db e' db'"
  note S = er_step_spec [OF this]
  show "er_status_f e \<in> set (er_sources t) \<and> er_status_f e' = er_target t" using S(1,2) by blast
  show "er_log_of e' db' = er_log_of e db @ [(t, er_status_f e, er_target t)]" by (rule S(3))
qed

text \<open>Without an exchange with the ASP a record stays among the statuses that precede it.\<close>

lemma path_without_exchange:
  assumes "log_path er_sources er_target s l s'" "s \<in> {ER_NEW, ER_READY, ER_DISABLED, ER_ARCHIVED}"
    and "\<forall>x \<in> set l. fst x \<in> set without_asp_exchange"
  shows "s' \<in> {ER_NEW, ER_READY, ER_DISABLED, ER_ARCHIVED}"
  using assms
proof (induction l arbitrary: s)
  case (Cons x l)
  obtain t f g where x: "x = (t, f, g)" by (cases x)
  have "g = er_target t" "log_path er_sources er_target g l s'" "t \<in> set without_asp_exchange"
    using Cons.prems x by auto
  moreover then have "g \<in> {ER_NEW, ER_READY, ER_DISABLED, ER_ARCHIVED}"
    by (cases t) (auto simp: without_asp_exchange_def)
  ultimately show ?case using Cons.IH Cons.prems(3) by simp
qed simp

lemma er_was_sent_iff: "er_was_sent (db_er_logs db) e \<longleftrightarrow> (\<exists>x \<in> set (er_log_of e db). fst x \<notin> set without_asp_exchange)"
  by (auto simp: er_was_sent_def er_log_of_def list_ex_iff)

lemma sent_statuses_were_sent:
  assumes "er_wf.performs e db e' db'" "er_status_f e = ER_NEW" "er_log_of e db = []"
    and "er_status_f e' \<in> {ER_SENT, ER_PROCESSED, ER_REJECTED}"
  shows "er_was_sent (db_er_logs db') e'"
proof (rule ccontr)
  assume n: "\<not> er_was_sent (db_er_logs db') e'"
  obtain l where l: "er_log_of e' db' = l" "log_path er_sources er_target ER_NEW l (er_status_f e')"
    using er_wf.performs_path [OF assms(1)] assms(2,3) by auto
  have "er_status_f e' \<in> {ER_NEW, ER_READY, ER_DISABLED, ER_ARCHIVED}"
    by (rule path_without_exchange [OF l(2)]) (use n l(1) in \<open>auto simp: er_was_sent_iff\<close>)
  then show False using assms(4) by auto
qed

lemma performs_table_ok:
  "er_wf.performs e db e' db' \<Longrightarrow> er_table_ok (db_employee_records db) \<Longrightarrow> er_table_ok (db_employee_records db')"
  by (induction rule: er_wf.performs.induct) (auto intro: er_step_spec(5))

section \<open>Lemmas on batches\<close>

text \<open>A list with exactly one separator is cut there by \<^const>\<open>takeWhile\<close> and \<^const>\<open>dropWhile\<close>.\<close>

lemma cut_at:
  assumes "d \<notin> set p"
  shows "takeWhile (\<lambda>c. c \<noteq> d) (p @ d # x) = p" "dropWhile (\<lambda>c. c \<noteq> d) (p @ d # x) = d # x"
  using assms by (induction p) auto

lemma one_separator:
  assumes "length (filter (\<lambda>c. c = d) s) = 1"
  obtains p x where "s = p @ d # x" "d \<notin> set p" "d \<notin> set x"
proof -
  have "filter (\<lambda>c. c = d) s \<noteq> []" using assms by auto
  then have "d \<in> set s" by (auto simp: filter_empty_conv)
  then obtain p x where s: "s = p @ d # x" "d \<notin> set p" by (auto dest: split_list_first)
  have "filter (\<lambda>c. c = d) p = []" using s(2) by (auto simp: filter_empty_conv)
  then have "filter (\<lambda>c. c = d) x = []" using assms s(1) by simp
  then have "d \<notin> set x" by (auto simp: filter_empty_conv)
  with s that show thesis by blast
qed

lemma split_extension_append:
  assumes "CHR ''.'' \<notin> set p" "CHR ''.'' \<notin> set x"
  shows "split_extension (p @ ''.'' @ x) = Inr (p, x)"
proof -
  have "filter (\<lambda>c. c = CHR ''.'') p = []" "filter (\<lambda>c. c = CHR ''.'') x = []"
    using assms by (auto simp: filter_empty_conv)
  then show ?thesis using cut_at [OF assms(1)] by (simp add: split_extension_def)
qed

lemma split_extension_InrD:
  assumes "split_extension s = Inr (p, x)"
  shows "s = p @ ''.'' @ x" "CHR ''.'' \<notin> set p" "CHR ''.'' \<notin> set x"
proof -
  have n: "length (filter (\<lambda>c. c = CHR ''.'') s) = 1"
    using assms by (auto simp: split_extension_def split: if_splits)
  then obtain q y where s: "s = q @ CHR ''.'' # y" "CHR ''.'' \<notin> set q" "CHR ''.'' \<notin> set y"
    by (rule one_separator)
  have "p = q" "x = y" using assms split_extension_append [OF s(2,3)] by (simp_all add: s(1))
  then show "s = p @ ''.'' @ x" "CHR ''.'' \<notin> set p" "CHR ''.'' \<notin> set x" using s by simp_all
qed

lemma suffix_no_dot: "CHR ''.'' \<notin> set feedback_file_suffix"
  by (simp add: feedback_file_suffix_def)

lemma endswith_append [simp]: "endswith (s @ t) t"
  by (simp add: endswith_def)

lemma removesuffix_append [simp]: "removesuffix (s @ t) t = s"
  by (simp add: removesuffix_def)

lemma feedback_roundtrip:
  assumes "feedback_filename f = Inr g"
  shows "batch_filename_from_feedback g = Inr f"
proof -
  obtain p x where sp: "split_extension f = Inr (p, x)" and g: "g = p @ feedback_file_suffix @ ''.'' @ x"
    using assms by (auto simp: feedback_filename_def)
  note S = split_extension_InrD [OF sp]
  have "split_extension ((p @ feedback_file_suffix) @ ''.'' @ x) = Inr (p @ feedback_file_suffix, x)"
    by (rule split_extension_append) (use S suffix_no_dot in auto)
  then show ?thesis using S(1) by (simp add: batch_filename_from_feedback_def g)
qed

lemma number_lines_spec:
  "length (number_lines i es) = length es"
  "k < length es \<Longrightarrow> ax_batch_line_number (er_asp (number_lines i es ! k)) = Some (i + int k)"
  "map er_pk (number_lines i es) = map er_pk es"
  "e \<in> set (number_lines i es) \<Longrightarrow> ax_processing_code (er_asp e) = None \<and> ax_processing_label (er_asp e) = None"
proof -
  show "e \<in> set (number_lines i es) \<Longrightarrow> ax_processing_code (er_asp e) = None \<and> ax_processing_label (er_asp e) = None"
    by (induction es arbitrary: i) auto
  show "length (number_lines i es) = length es" by (induction es arbitrary: i) auto
  show "map er_pk (number_lines i es) = map er_pk es" by (induction es arbitrary: i) auto
  show "k < length es \<Longrightarrow> ax_batch_line_number (er_asp (number_lines i es ! k)) = Some (i + int k)"
  proof (induction es arbitrary: i k)
    case (Cons e es)
    then show ?case by (cases k) (auto simp: algebra_simps)
  qed simp
qed

lemma feedback_filename_ok_iff:
  "(\<exists>g. feedback_filename f = Inr g) \<longleftrightarrow>
     validate_asp_batch_filename f = Inr () \<and> count_list f (CHR ''.'') = 1"
proof -
  have "length (filter (\<lambda>c. c = CHR ''.'') f) = count_list f (CHR ''.'')"
    by (induction f) auto
  then show ?thesis
    by (cases "validate_asp_batch_filename f") (auto simp: feedback_filename_def split_extension_def)
qed

section \<open>Lemmas on single operations\<close>

lemma er_row_check_ok:
  assumes "er_table_ok ers" "e \<in> set ers" "er_unique_key e' = er_unique_key e" "er_asp e' = er_asp e" "er_ntt e' = er_ntt e"
  shows "er_row_check (filter (\<lambda>f. er_pk f \<noteq> er_pk e) ers) e' = Inr ()"
proof -
  have "er_asp_measure e' = er_asp_measure e" using assms(3) by (simp add: er_unique_key_def)
  moreover have "er_unique_key f \<noteq> er_unique_key e \<and> \<not> same_batch_line (er_asp e) (er_asp f)"
    if "f \<in> set ers" "er_pk f \<noteq> er_pk e" for f
    using assms(1,2) that unfolding er_table_ok_alt by metis
  moreover have "er_asp_measure e \<noteq> None \<and> (case er_ntt e of None \<Rightarrow> True | Some n \<Rightarrow> ntt_regex n)"
    using assms(1,2) by (simp add: er_table_ok_def list_all_iff)
  ultimately show ?thesis using assms(3-5) by (auto simp: er_row_check_def list_ex_iff)
qed

lemma ready_spec:
  assumes "engine_law run" "er_ready run g i now user e db = Inr (e', db')"
  shows "\<exists>x v a. er_fetch e db = Inr x \<and> er_status_f e \<in> set (er_sources ERT_READY) \<and> er_status_f e' = ER_READY \<and>
    ja_state (ec_application x) = JA_ACCEPTED \<and> ec_approval x = Some a \<and>
    convention_of (db_conventions db) (ec_company x) = Some v \<and>
    er_approval_number e' = ap_number a \<and> er_asp_id e' = cv_asp_id v \<and>
    er_asp_measure e' = from_siae_kind (co_kind (ec_company x)) \<and> er_asp_measure e' \<noteq> None \<and>
    siret_from_asp_source (db_companies db) (ec_company x) = Inr (er_siret e') \<and>
    (\<forall>f \<in> set (db_employee_records db). er_pk f \<noteq> er_pk e \<longrightarrow> er_unique_key f \<noteq> er_unique_key e')"
proof -
  obtain e1 db1 where src: "er_status_f e \<in> set (er_sources ERT_READY)" and b: "ready_body g i e db = Inr (e1, db1)"
    and sl: "er_save_and_log now ERT_READY user no_asp (er_status_f e) (e1\<lparr>er_status_f := ER_READY\<rparr>) db1 = Inr (e', db')"
    using engine_InrD [OF assms(1) assms(2) [unfolded er_ready_def]] by (auto simp: er_call_def)
  obtain x p where x: "er_fetch e db = Inr x" and c: "er_clean (db_conventions db) (x\<lparr>ec_profile := p\<rparr>) = Inr ()"
    and f: "fill_denormalized_fields db x e = Inr e1" and d: "db_employee_records db1 = db_employee_records db"
    using b by (auto simp: ready_body_def)
  obtain dx where sv: "er_save now (e1\<lparr>er_status_f := ER_READY\<rparr>) db1 = Inr (e', dx)"
    using sl by (auto simp: er_save_and_log_def)
  note S = er_save_InrD [OF sv]
  have acc: "ja_state (ec_application x) = JA_ACCEPTED"
    using c by (auto simp: er_clean_def clean_job_application_def)
  show ?thesis
  proof (rule fill_denormalized_InrD [OF f])
    fix v a
    assume "convention_of (db_conventions db) (ec_company x) = Some v" "ec_approval x = Some a"
      "siret_from_asp_source (db_companies db) (ec_company x) = Inr (er_siret e1)"
      "er_asp_id e1 = cv_asp_id v" "er_asp_measure e1 = from_siae_kind (co_kind (ec_company x))"
      "er_approval_number e1 = ap_number a" "er_pk e1 = er_pk e"
    then show ?thesis using x src acc d S(1) er_row_check_InrD(1,3) [OF S(2)]
      by (intro exI [of _ x] exI [of _ v] exI [of _ a]) simp
  qed
qed

lemma archive_spec:
  assumes "engine_law run" "er_archive run plus_months today now user e db = Inr (e', db')"
  shows "(\<exists>a u. er_approval db e = Some a \<and> get_row us_pk (ap_user a) (db_users db) = Some u \<and>
      \<not> approval_is_valid today a \<and> \<not> can_be_prolonged plus_months today a u db) \<and>
    er_status_f e \<noteq> ER_ARCHIVED \<and> er_status_f e' = ER_ARCHIVED \<and> ax_archived_json (er_asp e') = None \<and>
    er_unique_key e' = er_unique_key e \<and> status_based_on_asp_processing_code e' = status_based_on_asp_processing_code e"
proof -
  obtain e1 db1 where E: "er_status_f e \<in> set (er_sources ERT_ARCHIVE)" "check_archive plus_months today e db"
    "(e\<lparr>er_asp := (er_asp e)\<lparr>ax_archived_json := None\<rparr>\<rparr>, db) = (e1, db1)"
    "e' = e1\<lparr>er_status_f := er_target ERT_ARCHIVE, er_updated_at := now\<rparr>"
    using er_call_InrD [OF assms(1) assms(2) [unfolded er_archive_def]] er_bodies_ok(5) by auto
  have "\<exists>a u. er_approval db e = Some a \<and> get_row us_pk (ap_user a) (db_users db) = Some u \<and>
      \<not> approval_is_valid today a \<and> \<not> can_be_prolonged plus_months today a u db"
    using E(2) by (auto simp: check_archive_def split: option.splits)
  then show ?thesis using E(1,3,4)
    by (auto simp: er_unique_key_def status_based_on_asp_processing_code_def)
qed

lemma unarchive_notification_frame [simp]:
  "db_employee_records (unarchive_notification now e db) = db_employee_records db"
  "db_er_logs (unarchive_notification now e db) = db_er_logs db"
  by (simp_all add: unarchive_notification_def)

lemma upsert_hit:
  assumes "c n" "\<And>x. c x \<Longrightarrow> c (u x)"
  shows "\<exists>x \<in> set (upsert c u n xs). c x"
proof (cases "\<exists>x \<in> set xs. c x")
  case True
  then obtain x where "x \<in> set xs" "c x" by blast
  then have "u x \<in> set (map_rows c u xs)" "c (u x)" by (auto intro: map_rows_updated assms(2))
  then show ?thesis using True by (auto simp: upsert_update)
qed (use assms(1) in \<open>simp add: upsert_insert\<close>)

lemma unarchive_notification_new:
  assumes "e \<in> set (missed_notifications db)"
  shows "\<exists>n \<in> set (db_er_notifications (unarchive_notification now e db)).
    en_employee_record n = er_pk e \<and> en_status n = NS_NEW"
proof -
  have "list_ex (\<lambda>f. er_pk f = er_pk e) (missed_notifications db)" using assms by (auto simp: list_ex_iff)
  then have "db_er_notifications (unarchive_notification now e db) = upsert
      (\<lambda>n. en_employee_record n = er_pk e \<and> en_status n = NS_NEW) (\<lambda>n. n\<lparr>en_updated_at := now\<rparr>)
      \<lparr>en_pk = next_pk en_pk (db_er_notifications db), en_employee_record = er_pk e, en_created_at = now,
       en_updated_at = now, en_status = NS_NEW, en_asp = no_asp\<rparr> (db_er_notifications db)"
    by (simp add: unarchive_notification_def)
  then show ?thesis by (auto intro: upsert_hit)
qed

lemma unarchive_run:
  assumes "engine_law run" "er_status_f e = ER_ARCHIVED" "ER_ARCHIVED \<in> set (er_sources t)" "check_unarchive t e"
    and "e \<in> set (db_employee_records db)" "er_table_ok (db_employee_records db)"
  shows "\<exists>e' db'. er_unarchive_transition run now t e db = Inr (e', db') \<and> er_unique_key e' = er_unique_key e \<and>
    er_status_f e' = er_target t \<and> e' \<in> set (db_employee_records db') \<and>
    db_er_notifications db' = db_er_notifications db"
proof -
  let ?e = "e\<lparr>er_status_f := er_target t, er_updated_at := now\<rparr>"
  have c: "er_row_check (filter (\<lambda>f. er_pk f \<noteq> er_pk e) (db_employee_records db)) ?e = Inr ()"
    by (rule er_row_check_ok [OF assms(6,5)]) (simp_all add: er_unique_key_def)
  have s: "er_save now (e\<lparr>er_status_f := er_target t\<rparr>) db = Inr (?e, db\<lparr>db_employee_records :=
      map_rows (\<lambda>f. er_pk f = er_pk e) (\<lambda>_. ?e) (db_employee_records db)\<rparr>)"
    using c by (simp add: er_save_def Let_def)
  show ?thesis unfolding er_unarchive_transition_def
    using assms(2-5) s map_rows_updated [OF assms(5), of "\<lambda>f. er_pk f = er_pk e" "\<lambda>_. ?e"]
    by (subst engine_eq [OF assms(1)])
       (simp_all add: er_call_def er_save_and_log_def er_log_insert_def same_batch_line_def no_asp_def
         er_unique_key_def list_ex_iff)
qed

lemma unarchive_spec:
  assumes "engine_law run" "er_status_f e = ER_ARCHIVED" "e \<in> set (db_employee_records db)"
    and "er_table_ok (db_employee_records db)"
  shows "\<exists>e' db'. er_unarchive run now e db = Inr (e', db') \<and> er_unique_key e' = er_unique_key e \<and>
    (case status_based_on_asp_processing_code e of
       None \<Rightarrow> e' = e \<and> db' = db
     | Some s \<Rightarrow> er_status_f e' = s \<and> e' \<in> set (db_employee_records db') \<and>
         (e \<in> set (missed_notifications db) \<longrightarrow>
            (\<exists>n \<in> set (db_er_notifications db'). en_employee_record n = er_pk e \<and> en_status n = NS_NEW)))"
proof (cases "status_based_on_asp_processing_code e")
  case None
  then show ?thesis using assms(2) by (simp add: er_unarchive_def unarchive_available_def)
next
  case (Some s)
  then have "s \<in> {ER_NEW, ER_PROCESSED, ER_REJECTED}"
    by (auto simp: status_based_on_asp_processing_code_def split: option.splits if_splits)
  then obtain t where t: "er_target t = s" "ER_ARCHIVED \<in> set (er_sources t)" "check_unarchive t e"
    "er_unarchive run now e db = er_unarchive_transition run now t e (unarchive_notification now e db)"
    using Some assms(2) that [of ERT_UNARCHIVE_NEW] that [of ERT_UNARCHIVE_PROCESSED] that [of ERT_UNARCHIVE_REJECTED]
    by (auto simp: er_unarchive_def unarchive_available_def)
  show ?thesis
    using unarchive_run [OF assms(1,2) t(2,3), of "unarchive_notification now e db" now] assms(3,4) t(1,4) Some
      unarchive_notification_new [of e db now] by auto
qed

lemma from_application_InrD:
  assumes "from_job_application now clean j db = Inr e"
  obtains x where "er_fetch (unsaved_record now j) db = Inr x"
    "(if clean then er_clean (db_conventions db) x else Inr ()) = Inr ()"
    "fill_denormalized_fields db x (unsaved_record now j) = Inr e"
    "\<forall>f \<in> set (db_employee_records db). er_unique_key f \<noteq> er_unique_key e"
proof -
  obtain x where x: "er_fetch (unsaved_record now j) db = Inr x"
    "(if clean then er_clean (db_conventions db) x else Inr ()) = Inr ()"
    using assms unfolding from_job_application_def by auto
  then show thesis using assms that [OF x]
    by (auto simp: from_job_application_def list_ex_iff split: if_split_asm)
qed

lemma unsaved_record_fields [simp]:
  "er_job_application (unsaved_record now j) = j" "er_status_f (unsaved_record now j) = ER_NEW"
  "er_ntt (unsaved_record now j) = None" "er_asp (unsaved_record now j) = no_asp"
  by (simp_all add: unsaved_record_def)

lemma from_application_fields:
  assumes "from_job_application now clean j db = Inr e"
  shows "er_job_application e = j \<and> er_status_f e = ER_NEW \<and> er_ntt e = None \<and> er_asp e = no_asp"
  by (rule from_application_InrD [OF assms], erule fill_denormalized_InrD) simp

lemma er_insert_eq:
  "er_insert e db =
    rbind (er_row_check (db_employee_records db) e) (\<lambda>_.
    Inr (e\<lparr>er_pk := next_pk er_pk (db_employee_records db)\<rparr>, db\<lparr>db_employee_records :=
      db_employee_records db @ [e\<lparr>er_pk := next_pk er_pk (db_employee_records db)\<rparr>]\<rparr>))"
  by (simp add: er_insert_def er_row_check_def er_unique_key_def Let_def)

lemma from_application_insert:
  assumes "from_job_application now clean j db = Inr e" "er_asp_measure e \<noteq> None"
  shows "\<exists>e' db'. er_insert e db = Inr (e', db')"
proof -
  have "\<forall>f \<in> set (db_employee_records db). er_unique_key f \<noteq> er_unique_key e"
    by (rule from_application_InrD [OF assms(1)])
  then have "er_row_check (db_employee_records db) e = Inr ()" using assms(2) from_application_fields [OF assms(1)]
    by (auto simp: er_row_check_def list_ex_iff same_batch_line_def no_asp_def)
  then show ?thesis by (simp add: er_insert_eq)
qed

lemma from_application_twice:
  assumes "from_job_application now clean j db = Inr e" "er_insert e db = Inr (e', db')"
  shows "er_status_f e' = ER_NEW \<and> er_job_application e' = j \<and>
    from_job_application now2 clean j db' = Inl (ValidationError ''EMPLOYEE_RECORD_IS_DUPLICATE'')"
proof (rule from_application_InrD [OF assms(1)])
  fix x
  assume x: "er_fetch (unsaved_record now j) db = Inr x"
    "(if clean then er_clean (db_conventions db) x else Inr ()) = Inr ()"
    "fill_denormalized_fields db x (unsaved_record now j) = Inr e"
  have e': "e' = e\<lparr>er_pk := next_pk er_pk (db_employee_records db)\<rparr>"
    and db': "db' = db\<lparr>db_employee_records := db_employee_records db @ [e']\<rparr>"
    using assms(2) by (auto simp: er_insert_eq)
  have f: "er_fetch (unsaved_record now2 j) db' = Inr x"
    using x(1) by (simp add: er_fetch_def er_approval_def db' cong: option.case_cong)
  have "\<exists>e2. fill_denormalized_fields db' x (unsaved_record now2 j) = Inr e2 \<and> er_unique_key e2 = er_unique_key e"
    using x(3) by (rule fill_denormalized_InrD)
      (auto simp: fill_denormalized_fields_def er_unique_key_def db')
  then obtain e2 where g: "fill_denormalized_fields db' x (unsaved_record now2 j) = Inr e2"
    "er_unique_key e2 = er_unique_key e'" by (auto simp: e' er_unique_key_def)
  have "from_job_application now2 clean j db' = Inl (ValidationError ''EMPLOYEE_RECORD_IS_DUPLICATE'')"
    using f x(2) g by (cases clean) (simp_all add: from_job_application_def db')
  then show ?thesis using from_application_fields [OF assms(1)] e' by simp
qed

end
