(* ===== verification/Employee_Record_Properties.thy ===== *)
theory Employee_Record_Properties
  imports Employee_Records Samples
begin

text \<open>
  The properties of the employee records: what any sequence of transitions keeps, what a record ready
  to be sent holds, creation from a job application, archiving and unarchiving, batches and file names.
\<close>

section \<open>Lifecycle\<close>

text \<open>C18.  Whatever sequence of transitions a new employee record goes through, its log is
  a path of the workflow graph from NEW to its status, the unique keys and the formats of the table are
  kept, and a record that is SENT, PROCESSED or REJECTED was sent in the sense of
  \<open>was_sent\<close>: its log has a transition that is not among those without an exchange with the ASP.\<close>

theorem employee_record_history:
  assumes "er_wf.performs e db e' db'" "er_table_ok (db_employee_records db)"
    and "er_status_f e = ER_NEW" "er_log_of e db = []"
  shows "er_table_ok (db_employee_records db') \<and>
    log_path er_sources er_target ER_NEW (er_log_of e' db') (er_status_f e') \<and>
    (er_status_f e' \<in> {ER_SENT, ER_PROCESSED, ER_REJECTED} \<longrightarrow> er_was_sent (db_er_logs db') e')"
  using performs_table_ok [OF assms(1,2)] er_wf.performs_path [OF assms(1)] sent_statuses_were_sent [OF assms(1,3,4)]
    assms(3,4) by auto

definition new_record :: employee_record where
  "new_record = sample_employee_record\<lparr>er_status_f := ER_NEW, er_asp := no_asp\<rparr>"

definition accepted_application :: job_application where
  "accepted_application = sample_application\<lparr>ja_state := JA_ACCEPTED,
     ja_accepted := empty_accepted_fields\<lparr>af_approval := Some 1\<rparr>\<rparr>"

definition record_db :: db where
  "record_db = sample_db\<lparr>db_job_applications := [accepted_application], db_employee_records := [new_record]\<rparr>"

definition ready_result :: "employee_record \<times> db" where
  "ready_result = projr (er_ready reference_engine (\<lambda>_. Inl []) (\<lambda>_. None) 5 (Some 2) new_record record_db)"

definition sent_result :: "employee_record \<times> db" where
  "sent_result = projr (er_wait_for_asp_response reference_engine 6 ''RIAE_FS_20240101000000.json'' 1 None
     (fst ready_result) (snd ready_result))"

theorem employee_record_history_witness:
  "er_status_f (fst sent_result) = ER_SENT \<and> er_was_sent (db_er_logs (snd sent_result)) (fst sent_result)"
proof -
  have r: "er_ready reference_engine (\<lambda>_. Inl []) (\<lambda>_. None) 5 (Some 2) new_record record_db =
    Inr (fst ready_result, snd ready_result)" by code_simp
  have s: "er_wait_for_asp_response reference_engine 6 ''RIAE_FS_20240101000000.json'' 1 None
     (fst ready_result) (snd ready_result) = Inr (fst sent_result, snd sent_result)" by code_simp
  have "er_wf.performs new_record record_db (fst sent_result) (snd sent_result)"
    by (rule er_wf.performs.more [OF er_wf.performs.more [OF er_wf.performs.none er_step.ready [OF _ r]]
      er_step.wait [OF _ s]]) simp_all
  moreover have "er_table_ok (db_employee_records record_db)" by code_simp
  moreover have "er_status_f new_record = ER_NEW" "er_log_of new_record record_db = []" by code_simp+
  moreover have "er_status_f (fst sent_result) = ER_SENT" by code_simp
  ultimately show ?thesis using employee_record_history by blast
qed

text \<open>A record that becomes READY belongs to an accepted application with a PASS IAE in a company with a convention,
  carries the number of that PASS IAE, the measure of the company, its SIRET of the ASP source and its
  convention, and no other record has the same measure, SIRET and number.\<close>

lemma ready_record_is_complete:
  assumes "engine_law run" "er_ready run g i now user e db = Inr (e', db')"
  shows "\<exists>x v a. er_fetch e db = Inr x \<and> er_status_f e \<in> set (er_sources ERT_READY) \<and> er_status_f e' = ER_READY \<and>
    ja_state (ec_application x) = JA_ACCEPTED \<and> ec_approval x = Some a \<and>
    convention_of (db_conventions db) (ec_company x) = Some v \<and>
    er_approval_number e' = ap_number a \<and> er_asp_id e' = cv_asp_id v \<and>
    er_asp_measure e' = from_siae_kind (co_kind (ec_company x)) \<and> er_asp_measure e' \<noteq> None \<and>
    siret_from_asp_source (db_companies db) (ec_company x) = Inr (er_siret e') \<and>
    (\<forall>f \<in> set (db_employee_records db). er_pk f \<noteq> er_pk e \<longrightarrow> er_unique_key f \<noteq> er_unique_key e')"
  using ready_spec [OF assms] by blast

text \<open>A record that \<open>from_job_application\<close> builds for a company with an ASP measure can be
  inserted: the duplicate it looks for is the one the unique constraint forbids.  The table keeps its
  constraints, and the same application then gives no second record.\<close>

lemma created_record_is_insertable:
  assumes "from_job_application now clean j db = Inr e" "er_asp_measure e \<noteq> None"
    and "er_table_ok (db_employee_records db)"
  shows "\<exists>e' db'. er_insert e db = Inr (e', db') \<and> er_table_ok (db_employee_records db') \<and>
    er_status_f e' = ER_NEW \<and> er_job_application e' = j \<and>
    from_job_application now2 clean j db' = Inl (ValidationError ''EMPLOYEE_RECORD_IS_DUPLICATE'')"
proof -
  obtain e' db' where i: "er_insert e db = Inr (e', db')" using from_application_insert [OF assms(1,2)] by blast
  show ?thesis using i er_insert_ok(1) [OF i assms(3)] from_application_twice [OF assms(1) i] by blast
qed

section \<open>Archives\<close>

text \<open>Only a record whose PASS IAE is over and can no longer be prolonged is archived; the
  archived exchange is erased, and the record keeps its identifiers and the code the ASP answered.\<close>

lemma archive_is_for_finished_approvals:
  assumes "engine_law run" "er_archive run plus_months today now user e db = Inr (e', db')"
  shows "(\<exists>a u. er_approval db e = Some a \<and> get_row us_pk (ap_user a) (db_users db) = Some u \<and>
      \<not> approval_is_valid today a \<and> \<not> can_be_prolonged plus_months today a u db) \<and>
    er_status_f e \<noteq> ER_ARCHIVED \<and> er_status_f e' = ER_ARCHIVED \<and> ax_archived_json (er_asp e') = None \<and>
    er_unique_key e' = er_unique_key e \<and> status_based_on_asp_processing_code e' = status_based_on_asp_processing_code e"
  using archive_spec [OF assms] by blast

definition archived_result :: "employee_record \<times> db" where
  "archived_result = projr (er_archive reference_engine thirty_day_months 2000 9 None sample_employee_record
     (record_db\<lparr>db_employee_records := [sample_employee_record]\<rparr>))"

text \<open>Unarchiving a stored archived record always succeeds and gives it the status its ASP
  processing code stands for, after leaving a NEW notification when the PASS IAE changed meanwhile; with
  a code the mapping does not know the record silently stays ARCHIVED.\<close>

lemma unarchive_follows_asp_code:
  assumes "engine_law run" "er_status_f e = ER_ARCHIVED" "e \<in> set (db_employee_records db)"
    and "er_table_ok (db_employee_records db)"
  shows "\<exists>e' db'. er_unarchive run now e db = Inr (e', db') \<and> er_unique_key e' = er_unique_key e \<and>
    (case status_based_on_asp_processing_code e of
       None \<Rightarrow> e' = e \<and> db' = db
     | Some s \<Rightarrow> er_status_f e' = s \<and> e' \<in> set (db_employee_records db') \<and>
         (e \<in> set (missed_notifications db) \<longrightarrow>
            (\<exists>n \<in> set (db_er_notifications db'). en_employee_record n = er_pk e \<and> en_status n = NS_NEW)))"
  using unarchive_spec [OF assms] .

section \<open>Files\<close>

text \<open>A batch is accepted exactly up to 700 records; its line numbers are 1 to n in the order of
  the records, which keep their keys and lose the code and label of an earlier answer.\<close>

lemma batch_lines_are_positions:
  "(\<exists>l. employee_record_batch es = Inr l) = (length es \<le> 700) \<and>
   (\<forall>l. employee_record_batch es = Inr l \<longrightarrow>
      map er_pk l = map er_pk es \<and>
      (\<forall>k < length l. ax_batch_line_number (er_asp (l ! k)) = Some (int k + 1) \<and>
         ax_processing_code (er_asp (l ! k)) = None \<and> ax_processing_label (er_asp (l ! k)) = None))"
proof -
  have "\<forall>k < length (number_lines 1 es). ax_batch_line_number (er_asp (number_lines 1 es ! k)) = Some (int k + 1) \<and>
      ax_processing_code (er_asp (number_lines 1 es ! k)) = None \<and>
      ax_processing_label (er_asp (number_lines 1 es ! k)) = None"
    using number_lines_spec [where i = 1 and es = es] nth_mem by (auto simp: add.commute)
  then show ?thesis using number_lines_spec(3) [of 1 es]
    by (auto simp: employee_record_batch_def max_employee_records_def)
qed

text \<open>C19.  The name of the feedback file exists exactly for the valid batch names with one dot, and
  \<open>batch_filename_from_feedback\<close> gives the batch name back.\<close>

theorem feedback_filename_roundtrip:
  "(\<exists>g. feedback_filename f = Inr g) =
     (validate_asp_batch_filename f = Inr () \<and> count_list f (CHR ''.'') = 1) \<and>
   (\<forall>g. feedback_filename f = Inr g \<longrightarrow> batch_filename_from_feedback g = Inr f)"
  using feedback_roundtrip feedback_filename_ok_iff by blast

theorem feedback_filename_roundtrip_witness:
  "batch_filename_from_feedback ''RIAE_FS_20240101000000_FichierRetour.json'' = Inr ''RIAE_FS_20240101000000.json''"
proof -
  have "feedback_filename ''RIAE_FS_20240101000000.json'' = Inr ''RIAE_FS_20240101000000_FichierRetour.json''"
    by code_simp
  then show ?thesis using feedback_filename_roundtrip by blast
qed

end
