(* ===== verification/Organizations.thy ===== *)
theory Organizations
  imports Schema
begin

text \<open>
  \<open>common_apps/organizations/models.py\<close>: the memberships of professionals in an organization (company,
  prescriber organization or institution), one table per kind of organization, and the roles they give.
  The invitations that a change expires and the e-mails are not modelled.
\<close>

section \<open>Querysets\<close>

definition membership_user_active :: "user list \<Rightarrow> membership \<Rightarrow> bool" where
  "membership_user_active us m =
     (case get_row us_pk (mb_user m) us of None \<Rightarrow> False | Some u \<Rightarrow> us_is_active u)"

definition active_memberships :: "user list \<Rightarrow> membership list \<Rightarrow> membership list" where
  "active_memberships us t = filter (\<lambda>m. membership_user_active us m \<and> mb_is_active m) t"

definition inactive_memberships :: "user list \<Rightarrow> membership list \<Rightarrow> membership list" where
  "inactive_memberships us t = filter (\<lambda>m. membership_user_active us m \<and> \<not> mb_is_active m) t"

definition admin_memberships :: "user list \<Rightarrow> membership list \<Rightarrow> membership list" where
  "admin_memberships us t = filter (\<lambda>m. mb_is_admin m \<and> membership_user_active us m) t"

definition active_admin_memberships :: "user list \<Rightarrow> membership list \<Rightarrow> membership list" where
  "active_admin_memberships us t = admin_memberships us (active_memberships us t)"

definition to_users_qs :: "user list \<Rightarrow> membership list \<Rightarrow> user list" where
  "to_users_qs us t = filter (\<lambda>u. list_ex (\<lambda>m. mb_user m = us_pk u) t) us"

text \<open>\<open>organization.memberships\<close> goes through the default manager, which keeps the active ones.\<close>

definition organization_memberships :: "user list \<Rightarrow> membership list \<Rightarrow> pk \<Rightarrow> membership list" where
  "organization_memberships us t org = filter (\<lambda>m. mb_organization m = org) (active_memberships us t)"

definition active_members :: "user list \<Rightarrow> membership list \<Rightarrow> pk \<Rightarrow> user list" where
  "active_members us t org = to_users_qs us (organization_memberships us t org)"

definition active_admin_members :: "user list \<Rightarrow> membership list \<Rightarrow> pk \<Rightarrow> user list" where
  "active_admin_members us t org = to_users_qs us (admin_memberships us (organization_memberships us t org))"

definition has_member :: "user list \<Rightarrow> membership list \<Rightarrow> pk \<Rightarrow> pk \<Rightarrow> bool" where
  "has_member us t org u \<longleftrightarrow> list_ex (\<lambda>v. us_pk v = u) (active_members us t org)"

definition has_admin :: "user list \<Rightarrow> membership list \<Rightarrow> pk \<Rightarrow> pk \<Rightarrow> bool" where
  "has_admin us t org u \<longleftrightarrow> list_ex (\<lambda>v. us_pk v = u) (active_admin_members us t org)"

definition has_members :: "user list \<Rightarrow> membership list \<Rightarrow> pk \<Rightarrow> bool" where
  "has_members us t org \<longleftrightarrow> active_members us t org \<noteq> []"

section \<open>Operations\<close>

definition membership_clean :: "user list \<Rightarrow> membership \<Rightarrow> error + unit" where
  "membership_clean us m =
     (case get_row us_pk (mb_user m) us of
        None \<Rightarrow> Inr ()
      | Some u \<Rightarrow> guard (is_professional u) (ValidationError ''membership.user''))"

definition same_membership :: "membership \<Rightarrow> membership \<Rightarrow> bool" where
  "same_membership m n \<longleftrightarrow> mb_user m = mb_user n \<and> mb_organization m = mb_organization n"

text \<open>\<open>save\<close> of a row of the table: \<open>clean\<close>, then the fields given by \<open>f\<close> are written.\<close>

definition membership_save ::
  "user list \<Rightarrow> membership \<Rightarrow> (membership \<Rightarrow> membership) \<Rightarrow> membership list \<Rightarrow> error + membership list" where
  "membership_save us m f t =
     rbind (membership_clean us m) (\<lambda>_.
     rbind (guard (list_ex (same_membership m) t) (DatabaseException ''update_fields'')) (\<lambda>_.
     Inr (map_rows (same_membership m) f t)))"

definition add_or_activate_membership ::
  "datetime \<Rightarrow> user list \<Rightarrow> pk \<Rightarrow> user \<Rightarrow> bool option \<Rightarrow> membership list \<Rightarrow> error + (membership \<times> membership list)" where
  "add_or_activate_membership now us org u force_admin t =
     (let is_only_active_member = (organization_memberships us t org = []);
          should_be_admin = (case force_admin of None \<Rightarrow> is_only_active_member | Some b \<Rightarrow> b) in
      (case find (\<lambda>m. mb_user m = us_pk u \<and> mb_organization m = org) t of
         None \<Rightarrow>
           (let m = \<lparr>mb_user = us_pk u, mb_organization = org, mb_joined_at = now, mb_is_admin = should_be_admin,
                     mb_is_active = True, mb_updated_by = None\<rparr> in
            rbind (membership_clean us m) (\<lambda>_. Inr (m, t @ [m])))
       | Some m \<Rightarrow>
           (let m' = m\<lparr>mb_is_active := True, mb_is_admin := should_be_admin, mb_joined_at := now\<rparr> in
            rbind (membership_save us m' (\<lambda>r. r\<lparr>mb_is_active := True, mb_is_admin := should_be_admin,
              mb_joined_at := now\<rparr>) t) (\<lambda>t'. Inr (m', t')))))"

definition deactivate_membership ::
  "user list \<Rightarrow> pk \<Rightarrow> membership \<Rightarrow> pk \<Rightarrow> membership list \<Rightarrow> error + membership list" where
  "deactivate_membership us org m updated_by t =
     rbind (guard (mb_organization m = org) (ValueError ''Cannot deactivate users from other organizations'')) (\<lambda>_.
     membership_save us m (\<lambda>r. r\<lparr>mb_is_active := False, mb_is_admin := False, mb_updated_by := Some updated_by\<rparr>) t)"

definition set_admin_role ::
  "user list \<Rightarrow> pk \<Rightarrow> membership \<Rightarrow> bool \<Rightarrow> pk \<Rightarrow> membership list \<Rightarrow> error + membership list" where
  "set_admin_role us org m admin updated_by t =
     rbind (guard (mb_organization m = org) (ValueError ''Cannot set admin role for other organizations'')) (\<lambda>_.
     membership_save us m (\<lambda>r. r\<lparr>mb_is_admin := admin, mb_updated_by := Some updated_by\<rparr>) t)"

section \<open>Invariant\<close>

text \<open>The unique constraint of the tables, and members are professionals.\<close>

definition membership_pair :: "membership \<Rightarrow> pk \<times> pk" where
  "membership_pair m = (mb_user m, mb_organization m)"

definition memberships_ok :: "user list \<Rightarrow> membership list \<Rightarrow> bool" where
  "memberships_ok us t \<longleftrightarrow> distinct (map membership_pair t) \<and> list_all (\<lambda>m. membership_clean us m = Inr ()) t"

inductive membership_step :: "user list \<Rightarrow> membership list \<Rightarrow> membership list \<Rightarrow> bool" for us where
  add: "add_or_activate_membership now us org u force_admin t = Inr (m, t') \<Longrightarrow> membership_step us t t'"
| deactivate: "deactivate_membership us org m by_user t = Inr t' \<Longrightarrow> membership_step us t t'"
| role: "set_admin_role us org m admin by_user t = Inr t' \<Longrightarrow> membership_step us t t'"

section \<open>Lemmas\<close>

lemma same_membership_pair: "same_membership m n \<longleftrightarrow> membership_pair m = membership_pair n"
  by (simp add: same_membership_def membership_pair_def)

lemma membership_save_ok:
  assumes "membership_save us m f t = Inr t'" "memberships_ok us t"
    and "\<And>r. membership_pair (f r) = membership_pair r"
  shows "memberships_ok us t'"
proof -
  have t': "t' = map_rows (same_membership m) f t" using assms(1) by (auto simp: membership_save_def)
  have "map membership_pair t' = map membership_pair t" unfolding t' by (rule map_rows_key) (rule assms(3))
  moreover have "mb_user (f r) = mb_user r" for r using assms(3) [of r] by (simp add: membership_pair_def)
  ultimately show ?thesis using assms(2)
    by (auto simp: memberships_ok_def t' list_all_iff set_map_rows membership_clean_def)
qed

lemma membership_step_ok: "membership_step us t t' \<Longrightarrow> memberships_ok us t \<Longrightarrow> memberships_ok us t'"
proof (induction rule: membership_step.induct)
  case (add now org u force_admin t m t')
  show ?case
  proof (cases "find (\<lambda>m. mb_user m = us_pk u \<and> mb_organization m = org) t")
    case None
    then have "(us_pk u, org) \<notin> set (map membership_pair t)"
      by (auto simp: find_None_iff membership_pair_def)
    moreover have "t' = t @ [m]" "membership_pair m = (us_pk u, org)" "membership_clean us m = Inr ()"
      using add(1) None by (auto simp: add_or_activate_membership_def Let_def membership_pair_def)
    ultimately show ?thesis using add(2) by (simp add: memberships_ok_def)
  next
    case (Some n)
    then obtain b where "membership_save us (n\<lparr>mb_is_active := True, mb_is_admin := b, mb_joined_at := now\<rparr>)
        (\<lambda>r. r\<lparr>mb_is_active := True, mb_is_admin := b, mb_joined_at := now\<rparr>) t = Inr t'"
      using add(1) by (auto simp: add_or_activate_membership_def Let_def)
    then show ?thesis by (rule membership_save_ok [OF _ add(2)]) (simp add: membership_pair_def)
  qed
next
  case (deactivate org m by_user t t')
  then have "membership_save us m (\<lambda>r. r\<lparr>mb_is_active := False, mb_is_admin := False, mb_updated_by := Some by_user\<rparr>) t = Inr t'"
    by (auto simp: deactivate_membership_def)
  then show ?case by (rule membership_save_ok [OF _ deactivate(2)]) (simp add: membership_pair_def)
next
  case (role org m admin by_user t t')
  then have "membership_save us m (\<lambda>r. r\<lparr>mb_is_admin := admin, mb_updated_by := Some by_user\<rparr>) t = Inr t'"
    by (auto simp: set_admin_role_def)
  then show ?case by (rule membership_save_ok [OF _ role(2)]) (simp add: membership_pair_def)
qed

lemma has_member_iff:
  "has_member us t org k \<longleftrightarrow> (\<exists>u \<in> set us. us_pk u = k) \<and>
     (\<exists>m \<in> set t. mb_user m = k \<and> mb_organization m = org \<and> mb_is_active m \<and> membership_user_active us m)"
  by (auto simp: has_member_def active_members_def to_users_qs_def organization_memberships_def
      active_memberships_def list_ex_iff)

lemma has_admin_iff:
  "has_admin us t org k \<longleftrightarrow> (\<exists>u \<in> set us. us_pk u = k) \<and>
     (\<exists>m \<in> set t. mb_user m = k \<and> mb_organization m = org \<and> mb_is_active m \<and> mb_is_admin m \<and>
        membership_user_active us m)"
  by (auto simp: has_admin_def active_admin_members_def to_users_qs_def admin_memberships_def
      organization_memberships_def active_memberships_def list_ex_iff)

lemma add_membership_spec:
  assumes "add_or_activate_membership now us org u force_admin t = Inr (m, t')"
  shows "m \<in> set t'" "mb_user m = us_pk u" "mb_organization m = org" "mb_is_active m"
    "mb_is_admin m \<longleftrightarrow> (case force_admin of None \<Rightarrow> organization_memberships us t org = [] | Some b \<Rightarrow> b)"
    "n \<in> set t \<Longrightarrow> membership_pair n \<noteq> membership_pair m \<Longrightarrow> n \<in> set t'"
proof -
  let ?b = "case force_admin of None \<Rightarrow> organization_memberships us t org = [] | Some b \<Rightarrow> b"
  have "m \<in> set t' \<and> mb_user m = us_pk u \<and> mb_organization m = org \<and> mb_is_active m \<and> mb_is_admin m = ?b \<and>
    (n \<in> set t \<longrightarrow> membership_pair n \<noteq> membership_pair m \<longrightarrow> n \<in> set t')"
  proof (cases "find (\<lambda>m. mb_user m = us_pk u \<and> mb_organization m = org) t")
    case None
    then show ?thesis using assms by (auto simp: add_or_activate_membership_def Let_def)
  next
    case (Some r)
    let ?f = "\<lambda>r. r\<lparr>mb_is_active := True, mb_is_admin := ?b, mb_joined_at := now\<rparr>"
    have r: "r \<in> set t" "mb_user r = us_pk u" "mb_organization r = org"
      using Some by (auto simp: find_Some_iff)
    have m: "m = ?f r" and t': "t' = map_rows (same_membership m) ?f t"
      using assms Some by (auto simp: add_or_activate_membership_def Let_def membership_save_def)
    have "m \<in> set t'" unfolding t' m
      by (rule map_rows_updated [OF r(1)]) (simp add: same_membership_def)
    then show ?thesis using r m by (auto simp: t' same_membership_pair intro: map_rows_kept)
  qed
  then show "m \<in> set t'" "mb_user m = us_pk u" "mb_organization m = org" "mb_is_active m" "mb_is_admin m \<longleftrightarrow> ?b"
    "n \<in> set t \<Longrightarrow> membership_pair n \<noteq> membership_pair m \<Longrightarrow> n \<in> set t'" by blast+
qed

lemma deactivate_spec:
  assumes "deactivate_membership us org m by_user t = Inr t'"
  shows "\<not> has_member us t' org (mb_user m)" "\<not> has_admin us t' org (mb_user m)"
    "k \<noteq> mb_user m \<Longrightarrow> has_member us t' o' k \<longleftrightarrow> has_member us t o' k"
proof -
  have t': "t' = map_rows (same_membership m) (\<lambda>r. r\<lparr>mb_is_active := False, mb_is_admin := False,
      mb_updated_by := Some by_user\<rparr>) t" and og: "mb_organization m = org"
    using assms by (auto simp: deactivate_membership_def membership_save_def)
  show "\<not> has_member us t' org (mb_user m)" "\<not> has_admin us t' org (mb_user m)"
    using og by (auto simp: has_member_iff has_admin_iff t' set_map_rows same_membership_def)
  show "k \<noteq> mb_user m \<Longrightarrow> has_member us t' o' k \<longleftrightarrow> has_member us t o' k"
    by (auto simp: has_member_iff t' set_map_rows same_membership_def membership_user_active_def)
qed

lemma organization_memberships_empty:
  assumes "\<not> has_members us t org"
  shows "organization_memberships us t org = []"
proof (rule ccontr)
  assume "organization_memberships us t org \<noteq> []"
  then obtain m where m: "m \<in> set (organization_memberships us t org)" by (cases "organization_memberships us t org") auto
  then obtain u where "u \<in> set us" "us_pk u = mb_user m"
    by (auto simp: organization_memberships_def active_memberships_def membership_user_active_def
        dest!: get_row_SomeD split: option.splits)
  then have "u \<in> set (active_members us t org)"
    using m by (auto simp: active_members_def to_users_qs_def list_ex_iff)
  then show False using assms by (auto simp: has_members_def)
qed

end
