(* ===== verification/Job_Applications.thy ===== *)
theory Job_Applications
  imports Geiq_Eligibility Employee_Records Approval_Lifecycle Organizations
begin

text \<open>
  \<open>job_applications/models.py\<close>: the workflow of a job application, its hooks, constraints, properties and
  transitions, with everything \<open>accept\<close> and \<open>cancel\<close> change in the other components.  The workflow engine
  is an argument.  Notifications and e-mails are not modelled.
\<close>

section \<open>Workflow\<close>

definition can_be_accepted_states :: "job_application_state list" where
  "can_be_accepted_states = [JA_NEW, JA_POOL, JA_PROCESSING, JA_POSTPONED, JA_PRIOR_TO_HIRE, JA_OBSOLETE,
     JA_REFUSED, JA_CANCELLED]"

definition can_add_prior_action_states :: "job_application_state list" where
  "can_add_prior_action_states = [JA_NEW, JA_POOL, JA_PROCESSING, JA_POSTPONED, JA_OBSOLETE, JA_REFUSED,
     JA_CANCELLED]"

definition job_application_processed_states :: "job_application_state list" where
  "job_application_processed_states = [JA_ACCEPTED, JA_REFUSED, JA_CANCELLED, JA_OBSOLETE]"

fun ja_sources :: "ja_transition \<Rightarrow> job_application_state list" where
  "ja_sources T_PROCESS = [JA_NEW, JA_POOL]"
| "ja_sources T_POSTPONE = [JA_NEW, JA_POOL, JA_PROCESSING, JA_PRIOR_TO_HIRE]"
| "ja_sources T_ACCEPT = can_be_accepted_states"
| "ja_sources T_ADD_TO_POOL = [JA_NEW, JA_PROCESSING, JA_POSTPONED, JA_CANCELLED, JA_OBSOLETE]"
| "ja_sources T_MOVE_TO_PRIOR_TO_HIRE = can_add_prior_action_states"
| "ja_sources T_CANCEL_PRIOR_TO_HIRE = [JA_PRIOR_TO_HIRE]"
| "ja_sources T_REFUSE = [JA_NEW, JA_POOL, JA_PROCESSING, JA_PRIOR_TO_HIRE, JA_POSTPONED]"
| "ja_sources T_CANCEL = [JA_ACCEPTED]"
| "ja_sources T_RENDER_OBSOLETE = [JA_NEW, JA_PROCESSING, JA_POSTPONED]"
| "ja_sources T_TRANSFER = can_be_accepted_states"
| "ja_sources T_RESET = [JA_OBSOLETE]"
| "ja_sources T_EXTERNAL_TRANSFER = [JA_REFUSED]"

fun ja_target :: "ja_transition \<Rightarrow> job_application_state" where
  "ja_target T_PROCESS = JA_PROCESSING"
| "ja_target T_POSTPONE = JA_POSTPONED"
| "ja_target T_ACCEPT = JA_ACCEPTED"
| "ja_target T_ADD_TO_POOL = JA_POOL"
| "ja_target T_MOVE_TO_PRIOR_TO_HIRE = JA_PRIOR_TO_HIRE"
| "ja_target T_CANCEL_PRIOR_TO_HIRE = JA_PROCESSING"
| "ja_target T_REFUSE = JA_REFUSED"
| "ja_target T_CANCEL = JA_CANCELLED"
| "ja_target T_RENDER_OBSOLETE = JA_OBSOLETE"
| "ja_target T_TRANSFER = JA_NEW"
| "ja_target T_RESET = JA_NEW"
| "ja_target T_EXTERNAL_TRANSFER = JA_REFUSED"

text \<open>The \<open>before_transition\<close> hooks \<open>set_processed_at\<close>, \<open>unset_processed_at\<close> and \<open>unarchive\<close>.\<close>

definition sets_processed_at :: "ja_transition list" where
  "sets_processed_at = [T_ACCEPT, T_REFUSE, T_CANCEL, T_RENDER_OBSOLETE]"

definition unsets_processed_at :: "ja_transition list" where
  "unsets_processed_at = [T_ADD_TO_POOL, T_PROCESS, T_POSTPONE, T_MOVE_TO_PRIOR_TO_HIRE,
     T_CANCEL_PRIOR_TO_HIRE, T_TRANSFER, T_RESET]"

definition unarchives :: "ja_transition list" where
  "unarchives = [T_PROCESS, T_POSTPONE, T_ACCEPT, T_ADD_TO_POOL, T_MOVE_TO_PRIOR_TO_HIRE,
     T_CANCEL_PRIOR_TO_HIRE, T_REFUSE, T_CANCEL, T_RENDER_OBSOLETE, T_TRANSFER, T_RESET]"

definition ja_before :: "datetime \<Rightarrow> ja_transition \<Rightarrow> job_application \<Rightarrow> job_application" where
  "ja_before now t j =
     (let j1 = (if t \<in> set sets_processed_at then j\<lparr>ja_processed_at := Some now\<rparr> else j);
          j2 = (if t \<in> set unsets_processed_at then j1\<lparr>ja_processed_at := None\<rparr> else j1)
      in if t \<in> set unarchives then j2\<lparr>ja_archived_at := None, ja_archived_by := None\<rparr> else j2)"

section \<open>Constraints\<close>

definition accepted_only_defaults :: accepted_fields where
  "accepted_only_defaults = \<lparr>af_eligibility_diagnosis = None, af_geiq_eligibility_diagnosis = None,
     af_approval = None, af_approval_delivery_mode = None, af_approval_number_sent_by_email = False,
     af_approval_number_sent_at = None, af_approval_manually_delivered_by = None,
     af_approval_manually_refused_by = None, af_approval_manually_refused_at = None\<rparr>"

text \<open>A check is violated only when its condition is false: a comparison with NULL passes.\<close>

definition null_or_positive :: "nat option \<Rightarrow> bool" where
  "null_or_positive n = (case n of None \<Rightarrow> True | Some k \<Rightarrow> 0 < k)"

definition geiq_fields_coherence :: "geiq_contract \<Rightarrow> bool" where
  "geiq_fields_coherence c \<longleftrightarrow>
     (gc_contract_type c \<in> {Some CT_PROFESSIONAL_TRAINING, Some CT_APPRENTICESHIP} \<and>
        gc_contract_type_details c = [] \<and> null_or_positive (gc_nb_hours_per_week c)) \<or>
     (gc_contract_type c = Some CT_OTHER \<and> null_or_positive (gc_nb_hours_per_week c) \<and>
        gc_contract_type_details c \<noteq> []) \<or>
     (gc_contract_type c = None \<and> gc_contract_type_details c = [] \<and> gc_nb_hours_per_week c = None)"

definition ja_sender_coherence :: "job_application \<Rightarrow> bool" where
  "ja_sender_coherence j \<longleftrightarrow>
     (ja_sender_kind j = SK_JOB_SEEKER \<longrightarrow> (case ja_sender j of None \<Rightarrow> True | Some s \<Rightarrow> ja_job_seeker j = s)) \<and>
     (ja_sender_kind j = SK_EMPLOYER \<longrightarrow>
        ja_sender_company j \<noteq> None \<and> ja_sender_prescriber_organization j = None) \<and>
     (ja_sender_kind j = SK_PRESCRIBER \<longrightarrow> ja_sender_company j = None)"

definition ja_state_coherence :: "job_application \<Rightarrow> bool" where
  "ja_state_coherence j \<longleftrightarrow>
     (ja_processed_at j \<noteq> None) = (ja_state j \<in> set job_application_processed_states) \<and>
     \<not> (ja_state j \<in> {JA_ACCEPTED, JA_PRIOR_TO_HIRE} \<and> ja_archived_at j \<noteq> None) \<and>
     \<not> (ja_archived_at j = None \<and> ja_archived_by j \<noteq> None) \<and>
     (ja_state j = JA_ACCEPTED \<or> ja_accepted j = accepted_only_defaults)"

definition ja_constraints :: "job_application \<Rightarrow> bool" where
  "ja_constraints j \<longleftrightarrow>
     geiq_fields_coherence (ja_geiq j) \<and>
     \<not> (af_eligibility_diagnosis (ja_accepted j) \<noteq> None \<and> af_geiq_eligibility_diagnosis (ja_accepted j) \<noteq> None) \<and>
     \<not> (gc_qualification_level (ja_geiq j) = Some NOT_RELEVANT \<and> gc_qualification_type (ja_geiq j) = Some STATE_DIPLOMA) \<and>
     ja_sender_coherence j \<and> ja_state_coherence j"

definition ja_table_ok :: "job_application list \<Rightarrow> bool" where
  "ja_table_ok js \<longleftrightarrow> distinct (map ja_pk js) \<and> list_all ja_constraints js"

definition ja_clean :: "user list \<Rightarrow> company list \<Rightarrow> job_application \<Rightarrow> error + unit" where
  "ja_clean us cs j =
     rbind (case get_row us_pk (ja_job_seeker j) us of
              None \<Rightarrow> Inr ()
            | Some u \<Rightarrow> guard (us_kind u = KIND_JOB_SEEKER) (ValidationError ''job_seeker'')) (\<lambda>_.
     rbind (case get_row co_pk (ja_to_company j) cs of
              None \<Rightarrow> Inr ()
            | Some c \<Rightarrow>
                if co_kind c = GEIQ then Inr ()
                else rbind (guard (gc_contract_type (ja_geiq j) = None) (ValidationError ''contract_type'')) (\<lambda>_.
                     rbind (guard (gc_contract_type_details (ja_geiq j) = []) (ValidationError ''contract_type_details'')) (\<lambda>_.
                     rbind (guard (gc_nb_hours_per_week (ja_geiq j) \<in> {None, Some 0}) (ValidationError ''nb_hours_per_week'')) (\<lambda>_.
                     guard (gc_inverted_vae_contract (ja_geiq j) = None) (ValidationError ''inverted_vae_contract''))))) (\<lambda>_.
     (case ja_sender j of
        None \<Rightarrow> Inr ()
      | Some s \<Rightarrow> (case get_row us_pk s us of
          None \<Rightarrow> Inr ()
        | Some u \<Rightarrow> guard ((is_job_seeker u \<and> ja_sender_kind j = SK_JOB_SEEKER) \<or>
                          (is_professional u \<and> ja_sender_kind j \<noteq> SK_JOB_SEEKER))
                     (ValidationError ''sender_kind'')))))"

section \<open>Writes\<close>

definition ja_save :: "datetime \<Rightarrow> job_application \<Rightarrow> db \<Rightarrow> error + (job_application \<times> db)" where
  "ja_save now j db =
     (let j' = j\<lparr>ja_updated_at := now\<rparr> in
      rbind (guard (ja_constraints j') (IntegrityError ''job_application'')) (\<lambda>_.
      Inr (j', db\<lparr>db_job_applications :=
             map_rows (\<lambda>k. ja_pk k = ja_pk j) (\<lambda>_. j') (db_job_applications db)\<rparr>)))"

definition ja_save_and_log ::
  "datetime \<Rightarrow> ja_transition \<Rightarrow> pk option \<Rightarrow> pk option \<Rightarrow> job_application_state \<Rightarrow> job_application \<Rightarrow> db
   \<Rightarrow> error + (job_application \<times> db)" where
  "ja_save_and_log now t user target_company from_state j db =
     rbind (ja_save now j db) (\<lambda>(j', db1).
     Inr (j', db1\<lparr>db_ja_logs := db_ja_logs db1 @ [\<lparr>jl_job_application = ja_pk j', jl_transition = t,
       jl_from_state = from_state, jl_to_state = ja_target t, jl_user = user,
       jl_target_company = target_company, jl_timestamp = now\<rparr>]\<rparr>))"

type_synonym ja_engine = "(job_application_state, job_application, db) engine"

definition ja_call ::
  "datetime \<Rightarrow> ja_transition \<Rightarrow> pk option \<Rightarrow> pk option
   \<Rightarrow> (job_application \<Rightarrow> db \<Rightarrow> error + (job_application \<times> db))
   \<Rightarrow> (job_application_state, job_application, db) transition_call" where
  "ja_call now t user target_company body =
     \<lparr>tc_state = ja_state, tc_set_state = (\<lambda>s j. j\<lparr>ja_state := s\<rparr>), tc_sources = ja_sources t,
      tc_target = ja_target t, tc_check = (\<lambda>_ _. True), tc_before = ja_before now t, tc_body = body,
      tc_save_and_log = ja_save_and_log now t user target_company\<rparr>"

section \<open>Properties of an application\<close>

definition is_pending :: "job_application \<Rightarrow> bool" where
  "is_pending j \<longleftrightarrow> ja_state j \<in> set pending_states"

definition is_sent_by_proxy :: "job_application \<Rightarrow> bool" where
  "is_sent_by_proxy j \<longleftrightarrow> ja_sender j \<noteq> Some (ja_job_seeker j)"

definition ja_sender_organization :: "db \<Rightarrow> job_application \<Rightarrow> prescriber_org option" where
  "ja_sender_organization db j =
     (case ja_sender_prescriber_organization j of None \<Rightarrow> None | Some k \<Rightarrow> get_row po_pk k (db_prescriber_orgs db))"

definition is_sent_by_authorized_prescriber :: "db \<Rightarrow> job_application \<Rightarrow> bool" where
  "is_sent_by_authorized_prescriber db j \<longleftrightarrow>
     ja_sender_kind j = SK_PRESCRIBER \<and>
     (case ja_sender_organization db j of None \<Rightarrow> False | Some g \<Rightarrow> is_authorized g)"

definition eligibility_diagnosis_by_siae_required :: "plus_months \<Rightarrow> date \<Rightarrow> user \<Rightarrow> company \<Rightarrow> db \<Rightarrow> bool" where
  "eligibility_diagnosis_by_siae_required plus_months today u c db \<longleftrightarrow>
     is_subject_to_iae_rules c \<and> \<not> has_valid_diagnosis plus_months today u (Some (co_pk c)) db"

text \<open>\<open>accepted_by\<close> and \<open>refused_by\<close>: the logs are ordered by \<open>-timestamp\<close>, so \<open>last()\<close> is the oldest.\<close>

definition logs_to_state :: "db \<Rightarrow> job_application \<Rightarrow> job_application_state \<Rightarrow> ja_log list" where
  "logs_to_state db j s = filter (\<lambda>l. jl_job_application l = ja_pk j \<and> jl_to_state l = s) (db_ja_logs db)"

definition accepted_by :: "db \<Rightarrow> job_application \<Rightarrow> error + pk option" where
  "accepted_by db j =
     (if ja_state j \<noteq> JA_ACCEPTED then Inr None
      else (case order_first jl_timestamp (logs_to_state db j JA_ACCEPTED) of
              None \<Rightarrow> Inl (AttributeError ''user'')
            | Some l \<Rightarrow> Inr (jl_user l)))"

definition refused_by :: "db \<Rightarrow> job_application \<Rightarrow> pk option" where
  "refused_by db j =
     (if ja_state j = JA_REFUSED
      then (case order_first jl_timestamp (logs_to_state db j JA_REFUSED) of None \<Rightarrow> None | Some l \<Rightarrow> jl_user l)
      else None)"

definition ja_employee_records :: "db \<Rightarrow> job_application \<Rightarrow> employee_record list" where
  "ja_employee_records db j = filter (\<lambda>e. er_job_application e = ja_pk j) (db_employee_records db)"

definition can_be_cancelled :: "db \<Rightarrow> job_application \<Rightarrow> bool" where
  "can_be_cancelled db j \<longleftrightarrow>
     (if ja_origin j = JO_AI_STOCK then False
      else if list_ex (er_was_sent (db_er_logs db)) (ja_employee_records db j) then False
      else True)"

definition can_be_archived :: "job_application \<Rightarrow> bool" where
  "can_be_archived j \<longleftrightarrow>
     ja_archived_at j = None \<and> ja_state j \<in> set archivable_job_application_states_manual"

definition can_have_prior_action :: "company \<Rightarrow> bool" where
  "can_have_prior_action c \<longleftrightarrow> co_kind c = GEIQ"

definition can_change_prior_actions :: "company \<Rightarrow> job_application \<Rightarrow> bool" where
  "can_change_prior_actions c j \<longleftrightarrow>
     can_have_prior_action c \<and>
     (ja_state j = JA_PRIOR_TO_HIRE \<or> ja_state j \<in> set can_add_prior_action_states)"

definition is_refused_for_other_reason :: "job_application \<Rightarrow> bool" where
  "is_refused_for_other_reason j \<longleftrightarrow> ja_state j = JA_REFUSED \<and> ja_refusal_reason j = Some RR_OTHER"

definition is_refused_due_to_deactivation :: "job_application \<Rightarrow> bool" where
  "is_refused_due_to_deactivation j \<longleftrightarrow> ja_state j = JA_REFUSED \<and> ja_refusal_reason j = Some RR_DEACTIVATION"

definition hiring_starts_in_future :: "date \<Rightarrow> job_application \<Rightarrow> bool" where
  "hiring_starts_in_future today j =
     (case ja_hiring_start_at j of None \<Rightarrow> False | Some d \<Rightarrow> today < d)"

definition can_update_hiring_start :: "date \<Rightarrow> job_application \<Rightarrow> bool" where
  "can_update_hiring_start today j \<longleftrightarrow>
     hiring_starts_in_future today j \<and> ja_state j \<in> {JA_ACCEPTED, JA_POSTPONED}"

definition can_be_transferred :: "user \<Rightarrow> pk \<Rightarrow> db \<Rightarrow> job_application \<Rightarrow> bool" where
  "can_be_transferred user target_company db j \<longleftrightarrow>
     (if target_company = ja_to_company j then False
      else if \<not> is_professional user then False
      else if \<not> (has_member (db_users db) (db_company_memberships db) (ja_to_company j) (us_pk user) \<and>
                 has_member (db_users db) (db_company_memberships db) target_company (us_pk user)) then False
      else ja_state j \<in> set (ja_sources T_TRANSFER))"

definition get_eligibility_diagnosis ::
  "plus_months \<Rightarrow> date \<Rightarrow> user \<Rightarrow> company \<Rightarrow> db \<Rightarrow> job_application \<Rightarrow> diagnosis option" where
  "get_eligibility_diagnosis plus_months today u c db j =
     (if \<not> is_subject_to_iae_rules c then None
      else (case af_eligibility_diagnosis (ja_accepted j) of
              Some k \<Rightarrow> get_row dg_pk k (db_diagnoses db)
            | None \<Rightarrow> last_considered_valid plus_months today u (Some (co_pk c)) db))"

definition first_of :: "'a list \<Rightarrow> 'a option" where
  "first_of xs = (case xs of [] \<Rightarrow> None | x # _ \<Rightarrow> Some x)"

definition get_geiq_eligibility_diagnosis ::
  "company \<Rightarrow> bool \<Rightarrow> db \<Rightarrow> job_application \<Rightarrow> diagnosis option" where
  "get_geiq_eligibility_diagnosis c for_prescriber db j =
     (if co_kind c \<noteq> GEIQ then None
      else (case (case af_geiq_eligibility_diagnosis (ja_accepted j) of
                    None \<Rightarrow> None | Some k \<Rightarrow> get_row dg_pk k (db_geiq_diagnoses db)) of
              Some d \<Rightarrow> if for_prescriber \<and> dg_author_company d \<noteq> None then None else Some d
            | None \<Rightarrow> first_of (diagnoses_for (ja_job_seeker j)
                (if \<not> for_prescriber then Some (co_pk c) else None) False (db_geiq_diagnoses db))))"

section \<open>Transitions\<close>

definition ja_plain_transition ::
  "ja_engine \<Rightarrow> datetime \<Rightarrow> ja_transition \<Rightarrow> pk option \<Rightarrow> pk option \<Rightarrow> job_application \<Rightarrow> db
   \<Rightarrow> error + (job_application \<times> db)" where
  "ja_plain_transition run now t user target_company =
     run (ja_call now t user target_company (\<lambda>j db. Inr (j, db)))"

definition ja_add_to_pool :: "ja_engine \<Rightarrow> datetime \<Rightarrow> pk \<Rightarrow> job_application \<Rightarrow> db \<Rightarrow> error + (job_application \<times> db)" where
  "ja_add_to_pool run now user = ja_plain_transition run now T_ADD_TO_POOL (Some user) None"

definition ja_postpone :: "ja_engine \<Rightarrow> datetime \<Rightarrow> pk \<Rightarrow> job_application \<Rightarrow> db \<Rightarrow> error + (job_application \<times> db)" where
  "ja_postpone run now user = ja_plain_transition run now T_POSTPONE (Some user) None"

definition ja_refuse :: "ja_engine \<Rightarrow> datetime \<Rightarrow> pk \<Rightarrow> job_application \<Rightarrow> db \<Rightarrow> error + (job_application \<times> db)" where
  "ja_refuse run now user = ja_plain_transition run now T_REFUSE (Some user) None"

definition ja_render_obsolete :: "ja_engine \<Rightarrow> datetime \<Rightarrow> pk \<Rightarrow> job_application \<Rightarrow> db \<Rightarrow> error + (job_application \<times> db)" where
  "ja_render_obsolete run now user = ja_plain_transition run now T_RENDER_OBSOLETE (Some user) None"

definition reset_accepted_state :: "job_application \<Rightarrow> job_application" where
  "reset_accepted_state j = j\<lparr>ja_accepted := accepted_only_defaults\<rparr>"

subsection \<open>Transfer\<close>

definition transfer_body :: "datetime \<Rightarrow> user \<Rightarrow> pk \<Rightarrow> job_application \<Rightarrow> db \<Rightarrow> error + (job_application \<times> db)" where
  "transfer_body now user target_company j db =
     rbind (guard (can_be_transferred user target_company db j) (ValidationError ''not transferable'')) (\<lambda>_.
     Inr (reset_accepted_state (j\<lparr>ja_transferred_from := Some (ja_to_company j),
            ja_transferred_by := Some (us_pk user), ja_transferred_at := Some now,
            ja_to_company := target_company, ja_state := JA_NEW, ja_answer := [],
            ja_answer_to_prescriber := []\<rparr>),
          db\<lparr>db_comments := filter (\<lambda>c. jc_job_application c \<noteq> ja_pk j) (db_comments db)\<rparr>))"

definition ja_transfer ::
  "ja_engine \<Rightarrow> datetime \<Rightarrow> user \<Rightarrow> pk \<Rightarrow> job_application \<Rightarrow> db \<Rightarrow> error + (job_application \<times> db)" where
  "ja_transfer run now user target_company =
     run (ja_call now T_TRANSFER (Some (us_pk user)) (Some target_company) (transfer_body now user target_company))"

subsection \<open>Acceptance\<close>

text \<open>The parts of \<open>accept\<close>, in the order of the code.\<close>

definition set_accepted :: "(accepted_fields \<Rightarrow> accepted_fields) \<Rightarrow> job_application \<Rightarrow> job_application" where
  "set_accepted f j = j\<lparr>ja_accepted := f (ja_accepted j)\<rparr>"

definition accept_link_iae ::
  "plus_months \<Rightarrow> date \<Rightarrow> user \<Rightarrow> user \<Rightarrow> company \<Rightarrow> db \<Rightarrow> job_application \<Rightarrow> error + job_application" where
  "accept_link_iae plus_months today user job_seeker c db j =
     (if is_subject_to_iae_rules c then
        (case (us_kind user = KIND_ITOU_STAFF, af_eligibility_diagnosis (ja_accepted j)) of
           (True, Some k) \<Rightarrow>
             rbind (guard (list_ex (\<lambda>d. dg_pk d = k)
                (for_job_seeker_and_siae (us_pk job_seeker) (Some (co_pk c)) (db_diagnoses db)))
                (AbortTransition ''Cannot use the eligibility diagnosis'')) (\<lambda>_. Inr j)
         | _ \<Rightarrow> Inr (set_accepted (\<lambda>f. f\<lparr>af_eligibility_diagnosis := map_option dg_pk
                 (last_considered_valid plus_months today job_seeker (Some (co_pk c)) db)\<rparr>) j))
      else Inr j)"

definition accept_link_geiq :: "date \<Rightarrow> user \<Rightarrow> company \<Rightarrow> db \<Rightarrow> job_application \<Rightarrow> job_application" where
  "accept_link_geiq today job_seeker c db j =
     (if co_kind c = GEIQ then
        set_accepted (\<lambda>f. f\<lparr>af_geiq_eligibility_diagnosis := map_option dg_pk
          (first_of (valid_diagnoses_for today (us_pk job_seeker) (Some (co_pk c)) (db_geiq_diagnoses db)))\<rparr>) j
      else j)"

text \<open>A reused PASS IAE must end on or after the hiring day; if it starts after that day its start is
  moved, which \<open>update_start_date\<close> does only when it has not started.\<close>

definition accept_reuse ::
  "date \<Rightarrow> datetime \<Rightarrow> approval \<Rightarrow> date \<Rightarrow> job_application \<Rightarrow> db \<Rightarrow> error + (job_application \<times> db)" where
  "accept_reuse today now a hiring_start_at j db =
     rbind (guard (\<not> ap_end_at a < hiring_start_at)
       (AbortTransition ''Cannot use an approval which ends before the hiring start date.'')) (\<lambda>_.
     rbind (if hiring_start_at < ap_start_at a
            then rbind (update_start_date today now a hiring_start_at db) (\<lambda>(_, _, db'). Inr db')
            else Inr db) (\<lambda>db1.
     Inr (set_accepted (\<lambda>f. f\<lparr>af_approval := Some (ap_pk a)\<rparr>) j, db1)))"

definition new_approval_of ::
  "datetime \<Rightarrow> user \<Rightarrow> company \<Rightarrow> date \<Rightarrow> pk \<Rightarrow> db \<Rightarrow> job_application \<Rightarrow> approval" where
  "new_approval_of now job_seeker c hiring_start_at diagnosis db j =
     \<lparr>ap_pk = 0, ap_start_at = hiring_start_at, ap_end_at = get_default_end_date hiring_start_at,
      ap_created_at = now, ap_updated_at = now, ap_number = [], ap_user = us_pk job_seeker,
      ap_created_by = None, ap_origin = AO_DEFAULT, ap_eligibility_diagnosis = Some diagnosis,
      ap_origin_info = get_origin_kwargs c (ja_sender_kind j) (ja_sender_organization db j), ap_pe = pending_pe\<rparr>"

definition accept_create ::
  "date \<Rightarrow> datetime \<Rightarrow> user \<Rightarrow> company \<Rightarrow> date \<Rightarrow> job_application \<Rightarrow> db \<Rightarrow> error + (job_application \<times> db)" where
  "accept_create today now job_seeker c hiring_start_at j db =
     (case af_eligibility_diagnosis (ja_accepted j) of
        None \<Rightarrow> Inl (AbortTransition ''Cannot create an approval without eligibility diagnosis here.'')
      | Some k \<Rightarrow>
          rbind (approval_save_new today (new_approval_of now job_seeker c hiring_start_at k db j) db) (\<lambda>(a, db1).
          Inr (set_accepted (\<lambda>f. f\<lparr>af_approval := Some (ap_pk a)\<rparr>) j, db1)))"

definition identified_for_approval :: "jobseeker_profile \<Rightarrow> bool" where
  "identified_for_approval p \<longleftrightarrow>
     jp_nir p \<noteq> [] \<or> jp_pole_emploi_id p \<noteq> [] \<or>
     jp_lack_of_pole_emploi_id_reason p = Some REASON_NOT_REGISTERED"

definition accept_approval ::
  "plus_months \<Rightarrow> date \<Rightarrow> datetime \<Rightarrow> user \<Rightarrow> jobseeker_profile \<Rightarrow> company \<Rightarrow> date \<Rightarrow> job_application \<Rightarrow> db
   \<Rightarrow> error + (job_application \<times> db)" where
  "accept_approval plus_months today now job_seeker p c hiring_start_at j db =
     (if \<not> is_subject_to_iae_rules c then Inr (j, db)
      else if has_latest_approval_in_waiting_period plus_months today job_seeker (db_approvals db) \<and>
              new_approval_blocked_by_waiting_period plus_months today job_seeker c (ja_sender_organization db j) db
      then Inl (AbortTransition ''Job seeker has an approval in waiting period.'')
      else (case latest_approval plus_months today job_seeker (db_approvals db) of
              Some a \<Rightarrow>
                if approval_is_valid today a then accept_reuse today now a hiring_start_at j db
                else if identified_for_approval p then accept_create today now job_seeker c hiring_start_at j db
                else Inr (set_accepted (\<lambda>f. f\<lparr>af_approval_delivery_mode := Some DELIVERY_MANUAL\<rparr>) j, db)
            | None \<Rightarrow>
                if identified_for_approval p then accept_create today now job_seeker c hiring_start_at j db
                else Inr (set_accepted (\<lambda>f. f\<lparr>af_approval_delivery_mode := Some DELIVERY_MANUAL\<rparr>) j, db)))"

definition other_pending_applications :: "job_application \<Rightarrow> db \<Rightarrow> job_application list" where
  "other_pending_applications j db =
     pending_applications (filter (\<lambda>k. ja_job_seeker k = ja_job_seeker j \<and> ja_pk k \<noteq> ja_pk j) (db_job_applications db))"

definition accept_obsolete :: "ja_engine \<Rightarrow> datetime \<Rightarrow> pk \<Rightarrow> job_application \<Rightarrow> db \<Rightarrow> error + db" where
  "accept_obsolete run now user j db =
     rfold (\<lambda>k db1. rbind (ja_render_obsolete run now user k db1) (\<lambda>(_, db2). Inr db2))
       (other_pending_applications j db) db"

definition accept_deliver ::
  "date \<Rightarrow> datetime \<Rightarrow> date \<Rightarrow> job_application \<Rightarrow> db \<Rightarrow> error + (job_application \<times> db)" where
  "accept_deliver today now hiring_start_at j db =
     (case af_approval (ja_accepted j) of
        None \<Rightarrow> Inr (j, db)
      | Some k \<Rightarrow> (case get_row ap_pk k (db_approvals db) of
          None \<Rightarrow> Inl (DoesNotExist ''approval'')
        | Some a \<Rightarrow>
            rbind (unsuspend today now a hiring_start_at db) (\<lambda>db1.
            Inr (set_accepted (\<lambda>f. f\<lparr>af_approval_number_sent_by_email := True,
                   af_approval_number_sent_at := Some now,
                   af_approval_delivery_mode := Some DELIVERY_AUTOMATIC\<rparr>) j, db1))))"

definition schedule_option :: "(pk \<Rightarrow> db \<Rightarrow> error + db) \<Rightarrow> pk option \<Rightarrow> db \<Rightarrow> error + db" where
  "schedule_option f k db = (case k of None \<Rightarrow> Inr db | Some d \<Rightarrow> f d db)"

definition accept_body ::
  "ja_engine \<Rightarrow> plus_months \<Rightarrow> date \<Rightarrow> datetime \<Rightarrow> user \<Rightarrow> action_kind \<Rightarrow> bool \<Rightarrow> job_application \<Rightarrow> db
   \<Rightarrow> error + (job_application \<times> db)" where
  "accept_body run plus_months today now user action_kind unknown_advisor j db =
     (case (ja_hiring_start_at j, get_row us_pk (ja_job_seeker j) (db_users db),
            get_row jp_user (ja_job_seeker j) (db_profiles db), get_row co_pk (ja_to_company j) (db_companies db)) of
        (None, _) \<Rightarrow> Inl (AbortTransition ''Cannot accept a job application with no hiring start date.'')
      | (Some h, Some u, Some p, Some c) \<Rightarrow>
          rbind (accept_link_iae plus_months today user u c db j) (\<lambda>j1.
          rbind (accept_approval plus_months today now u p c h (accept_link_geiq today u c db j1) db) (\<lambda>(j2, db2).
          rbind (accept_obsolete run now (us_pk user) j2 db2) (\<lambda>db3.
          rbind (if is_professional user
                 then sync_assignment now u user (Some (COMPANY_ORG (co_pk c))) action_kind unknown_advisor db3
                 else Inr db3) (\<lambda>db4.
          rbind (accept_deliver today now h j2 db4) (\<lambda>(j5, db5).
          rbind (schedule_option schedule_iae_certification (af_eligibility_diagnosis (ja_accepted j5))
                   (follow_beneficiary now today u user True db5)) (\<lambda>db6.
          rbind (schedule_option schedule_geiq_certification (af_geiq_eligibility_diagnosis (ja_accepted j5)) db6) (\<lambda>db7.
          Inr (j5, db7))))))))
      | _ \<Rightarrow> Inl (DoesNotExist ''row''))"

definition ja_accept ::
  "ja_engine \<Rightarrow> plus_months \<Rightarrow> date \<Rightarrow> datetime \<Rightarrow> user \<Rightarrow> action_kind \<Rightarrow> bool \<Rightarrow> job_application \<Rightarrow> db
   \<Rightarrow> error + (job_application \<times> db)" where
  "ja_accept run plus_months today now user action_kind unknown_advisor =
     run (ja_call now T_ACCEPT (Some (us_pk user)) None
       (accept_body run plus_months today now user action_kind unknown_advisor))"

subsection \<open>Cancellation\<close>

definition cancel_approval :: "datetime \<Rightarrow> job_application \<Rightarrow> db \<Rightarrow> error + db" where
  "cancel_approval now j db =
     (case (case af_approval (ja_accepted j) of None \<Rightarrow> None | Some k \<Rightarrow> get_row ap_pk k (db_approvals db)) of
        None \<Rightarrow> Inr db
      | Some a \<Rightarrow> if can_be_deleted a (db_job_applications db) then approval_delete now a db else Inr db)"

definition delete_unsent_records :: "job_application \<Rightarrow> db \<Rightarrow> db" where
  "delete_unsent_records j db =
     foldl (\<lambda>db1 e. if \<not> er_was_sent (db_er_logs db1) e then er_delete (er_pk e) db1 else db1) db
       (ja_employee_records db j)"

definition cancel_body :: "datetime \<Rightarrow> job_application \<Rightarrow> db \<Rightarrow> error + (job_application \<times> db)" where
  "cancel_body now j db =
     rbind (guard (can_be_cancelled db j) (AbortTransition ''Cette candidature na pu etre annulee.'')) (\<lambda>_.
     rbind (cancel_approval now j db) (\<lambda>db1.
     Inr (reset_accepted_state j, delete_unsent_records j db1)))"

definition ja_cancel :: "ja_engine \<Rightarrow> datetime \<Rightarrow> pk \<Rightarrow> job_application \<Rightarrow> db \<Rightarrow> error + (job_application \<times> db)" where
  "ja_cancel run now user = run (ja_call now T_CANCEL (Some user) None (cancel_body now))"

subsection \<open>Manual delivery of the PASS IAE\<close>

definition manually_deliver_approval :: "datetime \<Rightarrow> pk \<Rightarrow> job_application \<Rightarrow> db \<Rightarrow> error + (job_application \<times> db)" where
  "manually_deliver_approval now delivered_by j db =
     rbind (ja_save now (set_accepted (\<lambda>f. f\<lparr>af_approval_number_sent_by_email := True,
       af_approval_number_sent_at := Some now, af_approval_manually_delivered_by := Some delivered_by\<rparr>) j) db) (\<lambda>(j', db').
     rbind (accepted_by db' j') (\<lambda>_. Inr (j', db')))"

definition manually_refuse_approval :: "datetime \<Rightarrow> pk \<Rightarrow> job_application \<Rightarrow> db \<Rightarrow> error + (job_application \<times> db)" where
  "manually_refuse_approval now refused_by_user j db =
     ja_save now (set_accepted (\<lambda>f. f\<lparr>af_approval_manually_refused_by := Some refused_by_user,
       af_approval_manually_refused_at := Some now\<rparr>) j) db"

end
