(* ===== verification/Hirings.thy ===== *)
theory Hirings
  imports Job_Applications
begin

text \<open>
  Lemmas on the transitions of job applications: what they leave alone in the tables of the PASS IAE,
  the hooks and the constraints, the loop of \<open>accept\<close> over the other applications, and the workflow as
  an instance of the contract of logged workflows.
\<close>

section \<open>Operations on the tables of the PASS IAE\<close>

text \<open>Only the tables of the PASS IAE and the notifications to the ASP change.\<close>

definition pass_tables_only :: "db \<Rightarrow> db \<Rightarrow> bool" where
  "pass_tables_only db db' \<longleftrightarrow> (\<exists>as cs ss ps rs ds ns.
     db' = db\<lparr>db_approvals := as, db_cancelled_approvals := cs, db_suspensions := ss, db_prolongations := ps,
       db_prolongation_requests := rs, db_deny_informations := ds, db_er_notifications := ns\<rparr>)"

lemma pass_tables_rows:
  "pass_tables_only db (db\<lparr>db_suspensions := ss\<rparr>)" "pass_tables_only db (db\<lparr>db_prolongations := ps\<rparr>)"
  "pass_tables_only db (db\<lparr>db_approvals := as\<rparr>)" "pass_tables_only db (db\<lparr>db_cancelled_approvals := cs\<rparr>)"
  "pass_tables_only db (db\<lparr>db_prolongation_requests := rs\<rparr>)" "pass_tables_only db (db\<lparr>db_deny_informations := ds\<rparr>)"
  "pass_tables_only db (db\<lparr>db_er_notifications := ns\<rparr>)"
  unfolding pass_tables_only_def by (cases db, auto)+

lemma pass_tables_refl [simp]: "pass_tables_only db db"
  using pass_tables_rows(3) [of db "db_approvals db"] by simp

lemma pass_tables_trans [trans]:
  assumes "pass_tables_only db db1" "pass_tables_only db1 db2"
  shows "pass_tables_only db db2"
  using assms unfolding pass_tables_only_def by fastforce

lemma pass_tables_frame:
  assumes "pass_tables_only db db'"
  shows "db_job_applications db' = db_job_applications db" "db_ja_logs db' = db_ja_logs db"
    "db_users db' = db_users db" "db_profiles db' = db_profiles db" "db_companies db' = db_companies db"
    "db_employee_records db' = db_employee_records db" "db_er_logs db' = db_er_logs db"
    "db_diagnoses db' = db_diagnoses db" "db_geiq_diagnoses db' = db_geiq_diagnoses db"
    "db_comments db' = db_comments db" "db_company_memberships db' = db_company_memberships db"
    "db_assignments db' = db_assignments db" "db_prescriber_orgs db' = db_prescriber_orgs db"
  using assms unfolding pass_tables_only_def by auto

lemma pass_tables_update_approval:
  assumes "update_approval now new db = Inr db'"
  shows "pass_tables_only db db'"
proof (rule update_approval_shape [OF assms])
  fix rows ns
  assume "db' = db\<lparr>db_approvals := rows, db_er_notifications := ns\<rparr>"
  then show ?thesis using pass_tables_trans [OF pass_tables_rows(3) pass_tables_rows(7)] by simp
qed

lemma pass_tables_shift:
  assumes "shift_end_at now k delta db = Inr db'"
  shows "pass_tables_only db db'"
  by (rule shift_end_at_cases [OF assms]) (auto intro: pass_tables_update_approval)

lemma pass_tables_delete_suspension: "delete_suspension now s db = Inr db' \<Longrightarrow> pass_tables_only db db'"
  unfolding delete_suspension_def by (rule pass_tables_trans [OF pass_tables_rows(1) pass_tables_shift])

lemma pass_tables_delete_prolongation: "delete_prolongation now p db = Inr db' \<Longrightarrow> pass_tables_only db db'"
  unfolding delete_prolongation_def by (rule pass_tables_trans [OF pass_tables_rows(2) pass_tables_shift])

lemma pass_tables_update_suspension:
  assumes "update_suspension today now s db = Inr db'"
  shows "pass_tables_only db db'"
proof (cases "get_row su_pk (su_pk s) (db_suspensions db)")
  case None
  then show ?thesis using assms by (simp add: update_suspension_def)
next
  case (Some old)
  show ?thesis
    by (rule pass_tables_trans [OF pass_tables_rows(1) pass_tables_shift [OF update_suspension_InrD(2) [OF assms Some]]])
qed

lemma pass_tables_unsuspend:
  assumes "unsuspend today now a h db = Inr db'"
  shows "pass_tables_only db db'"
  using assms by (auto simp: unsuspend_def split: option.splits if_splits
      intro: pass_tables_update_suspension pass_tables_delete_suspension)

lemma pass_tables_insert_approval: "insert_approval a db = Inr (a', db') \<Longrightarrow> pass_tables_only db db'"
  using insert_approval_InrD(2) [of a db a' db'] pass_tables_rows(3) by auto

lemma pass_tables_save_new: "approval_save_new today a db = Inr (a', db') \<Longrightarrow> pass_tables_only db db'"
  by (auto simp: approval_save_new_def intro: pass_tables_insert_approval)

lemma pass_tables_start_date:
  "update_start_date today now a h db = Inr (b, a', db') \<Longrightarrow> pass_tables_only db db'"
  by (auto simp: update_start_date_def approval_save_def Let_def split: if_splits intro: pass_tables_update_approval)

lemma pass_tables_rfold:
  assumes "rfold f xs db = Inr db'" "\<And>x db db'. f x db = Inr db' \<Longrightarrow> pass_tables_only db db'"
  shows "pass_tables_only db db'"
  using rfold_invariant [where P = "pass_tables_only db", OF _ pass_tables_refl assms(1)]
    assms(2) pass_tables_trans by blast

lemma pass_tables_cascade:
  assumes "cascade_delete_approval now k db = Inr db'"
  shows "pass_tables_only db db'"
proof -
  obtain db1 db2 where
    1: "rfold (delete_suspension now) (filter (\<lambda>s. su_approval s = k) (db_suspensions db)) db = Inr db1"
    and 2: "rfold (delete_prolongation now) (filter (\<lambda>p. pl_approval p = k) (db_prolongations db1)) db1 = Inr db2"
    and db': "db' = db2\<lparr>db_deny_informations :=
                filter (\<lambda>d. di_request d \<notin> pl_pk ` set (filter (\<lambda>r. pl_approval r = k)
                  (db_prolongation_requests db2))) (db_deny_informations db2),
              db_prolongation_requests :=
                filter (\<lambda>r. pl_approval r \<noteq> k) (db_prolongation_requests db2),
              db_approvals := filter (\<lambda>a. ap_pk a \<noteq> k) (db_approvals db2)\<rparr>"
    using assms by (auto simp: cascade_delete_approval_def)
  have "pass_tables_only db db1" by (rule pass_tables_rfold [OF 1 pass_tables_delete_suspension])
  also have "pass_tables_only db1 db2" by (rule pass_tables_rfold [OF 2 pass_tables_delete_prolongation])
  also have "pass_tables_only db2 db'"
    unfolding db' by (rule pass_tables_trans [OF pass_tables_rows(6) pass_tables_trans [OF pass_tables_rows(5) pass_tables_rows(3)]])
  finally show ?thesis .
qed

lemma approval_delete_applications:
  assumes "approval_delete now a db = Inr db'"
  shows "pass_tables_only (db\<lparr>db_job_applications := clear_approval_of_applications (ap_pk a) (db_job_applications db)\<rparr>) db'"
proof (rule approval_delete_InrD [OF assms])
  fix u p
  assume c: "cascade_delete_approval now (ap_pk a)
      (db\<lparr>db_cancelled_approvals := db_cancelled_approvals db @
            [cancelled_from_approval now (next_pk ca_pk (db_cancelled_approvals db)) a u p],
          db_job_applications := clear_approval_of_applications (ap_pk a) (db_job_applications db)\<rparr>) = Inr db'"
  let ?db = "db\<lparr>db_job_applications := clear_approval_of_applications (ap_pk a) (db_job_applications db)\<rparr>"
  have "db\<lparr>db_cancelled_approvals := cs, db_job_applications := js\<rparr> =
      db\<lparr>db_job_applications := js\<rparr>\<lparr>db_cancelled_approvals := cs\<rparr>" for cs js by (cases db) simp
  then show ?thesis using pass_tables_trans [OF pass_tables_rows(4) pass_tables_cascade] c by metis
qed

section \<open>Hooks and constraints\<close>

lemma ja_before_fields [simp]:
  "ja_pk (ja_before now t j) = ja_pk j" "ja_state (ja_before now t j) = ja_state j"
  "ja_accepted (ja_before now t j) = ja_accepted j" "ja_geiq (ja_before now t j) = ja_geiq j"
  "ja_job_seeker (ja_before now t j) = ja_job_seeker j" "ja_to_company (ja_before now t j) = ja_to_company j"
  "ja_sender (ja_before now t j) = ja_sender j" "ja_sender_kind (ja_before now t j) = ja_sender_kind j"
  "ja_sender_company (ja_before now t j) = ja_sender_company j" "ja_origin (ja_before now t j) = ja_origin j"
  "ja_sender_prescriber_organization (ja_before now t j) = ja_sender_prescriber_organization j"
  "ja_hiring_start_at (ja_before now t j) = ja_hiring_start_at j"
  by (simp_all add: ja_before_def Let_def)

text \<open>The state a transition gives, as the hooks leave the row.\<close>

definition ja_moved :: "datetime \<Rightarrow> ja_transition \<Rightarrow> job_application \<Rightarrow> job_application" where
  "ja_moved now t j = (ja_before now t j)\<lparr>ja_state := ja_target t, ja_updated_at := now\<rparr>"

lemma ja_moved_fields [simp]:
  "ja_pk (ja_moved now t j) = ja_pk j" "ja_state (ja_moved now t j) = ja_target t"
  "ja_job_seeker (ja_moved now t j) = ja_job_seeker j" "ja_accepted (ja_moved now t j) = ja_accepted j"
  "ja_to_company (ja_moved now t j) = ja_to_company j"
  by (simp_all add: ja_moved_def)

lemmas ja_states_defs = can_be_accepted_states_def can_add_prior_action_states_def
  job_application_processed_states_def sets_processed_at_def unsets_processed_at_def unarchives_def

lemma moved_state_coherence:
  assumes "ja_state_coherence j" "ja_state j \<in> set (ja_sources t)" "ja_state j \<noteq> JA_ACCEPTED"
  shows "ja_state_coherence (ja_moved now t j)"
proof -
  have "ja_accepted j = accepted_only_defaults" using assms(1,3) by (auto simp: ja_state_coherence_def)
  then show ?thesis using assms(1,2)
    by (cases t) (auto simp: ja_state_coherence_def ja_moved_def ja_before_def Let_def ja_states_defs)
qed

lemma moved_constraints:
  assumes "ja_constraints j" "ja_state j \<in> set (ja_sources t)" "ja_state j \<noteq> JA_ACCEPTED"
  shows "ja_constraints (ja_moved now t j)"
proof -
  have "ja_sender_coherence (ja_moved now t j) = ja_sender_coherence j"
    "ja_geiq (ja_moved now t j) = ja_geiq j"
    by (simp_all add: ja_sender_coherence_def ja_moved_def cong: option.case_cong)
  then show ?thesis using assms moved_state_coherence [of j t now] by (simp add: ja_constraints_def)
qed

lemma ja_save_InrD:
  assumes "ja_save now j db = Inr (j', db')"
  shows "j' = j\<lparr>ja_updated_at := now\<rparr>" "ja_constraints j'"
    "db' = db\<lparr>db_job_applications := map_rows (\<lambda>k. ja_pk k = ja_pk j) (\<lambda>_. j') (db_job_applications db)\<rparr>"
  using assms by (auto simp: ja_save_def Let_def)

lemma ja_table_replace:
  assumes "ja_table_ok js" "ja_constraints j'" "ja_pk j' = k"
  shows "ja_table_ok (map_rows (\<lambda>j. ja_pk j = k) (\<lambda>_. j') js)"
proof -
  have "map ja_pk (map_rows (\<lambda>j. ja_pk j = k) (\<lambda>_. j') js) = map ja_pk js"
    by (rule map_rows_key) (simp add: assms(3))
  then show ?thesis using assms(1,2) by (auto simp: ja_table_ok_def list_all_iff set_map_rows)
qed

section \<open>One transition\<close>

definition ja_log_of :: "job_application \<Rightarrow> db \<Rightarrow> (ja_transition \<times> job_application_state \<times> job_application_state) list" where
  "ja_log_of j db = map (\<lambda>l. (jl_transition l, jl_from_state l, jl_to_state l))
     (filter (\<lambda>l. jl_job_application l = ja_pk j) (db_ja_logs db))"

text \<open>What the implementations of the transitions keep: the key of the application, its log and the
  constraints of the table.\<close>

definition ja_body_ok :: "(job_application \<Rightarrow> db \<Rightarrow> error + (job_application \<times> db)) \<Rightarrow> bool" where
  "ja_body_ok body \<longleftrightarrow> (\<forall>j db j1 db1. body j db = Inr (j1, db1) \<longrightarrow>
     ja_pk j1 = ja_pk j \<and> ja_log_of j1 db1 = ja_log_of j db \<and>
     (ja_table_ok (db_job_applications db) \<longrightarrow> ja_table_ok (db_job_applications db1)))"

lemma ja_call_InrD:
  assumes "engine_law run" "run (ja_call now t user target body) j db = Inr (j', db')"
  obtains j1 db1 where "ja_state j \<in> set (ja_sources t)" "body (ja_before now t j) db = Inr (j1, db1)"
    "j' = j1\<lparr>ja_state := ja_target t, ja_updated_at := now\<rparr>" "ja_constraints j'"
    "db' = db1\<lparr>db_job_applications := map_rows (\<lambda>k. ja_pk k = ja_pk j1) (\<lambda>_. j') (db_job_applications db1),
       db_ja_logs := db_ja_logs db1 @ [\<lparr>jl_job_application = ja_pk j1, jl_transition = t,
         jl_from_state = ja_state j, jl_to_state = ja_target t, jl_user = user,
         jl_target_company = target, jl_timestamp = now\<rparr>]\<rparr>"
proof (rule engine_InrD [OF assms])
  fix j1 db1
  let ?c = "ja_call now t user target body"
  assume a: "tc_state ?c j \<in> set (tc_sources ?c)" "tc_body ?c (tc_before ?c j) db = Inr (j1, db1)"
    "tc_save_and_log ?c (tc_state ?c j) (tc_set_state ?c (tc_target ?c) j1) db1 = Inr (j', db')"
  then obtain db2 where s: "ja_save now (j1\<lparr>ja_state := ja_target t\<rparr>) db1 = Inr (j', db2)"
    and l: "db' = db2\<lparr>db_ja_logs := db_ja_logs db2 @ [\<lparr>jl_job_application = ja_pk j', jl_transition = t,
       jl_from_state = ja_state j, jl_to_state = ja_target t, jl_user = user,
       jl_target_company = target, jl_timestamp = now\<rparr>]\<rparr>"
    by (auto simp: ja_call_def ja_save_and_log_def)
  show thesis
    by (rule that [of j1 db1]) (use a ja_save_InrD [OF s] l in \<open>simp_all add: ja_call_def\<close>)
qed

lemma ja_call_spec:
  assumes "engine_law run" "run (ja_call now t user target body) j db = Inr (j', db')" "ja_body_ok body"
  shows "ja_state j \<in> set (ja_sources t)" "ja_state j' = ja_target t" "ja_pk j' = ja_pk j"
    "ja_log_of j' db' = ja_log_of j db @ [(t, ja_state j, ja_target t)]"
    "ja_table_ok (db_job_applications db) \<Longrightarrow> ja_table_ok (db_job_applications db')"
proof -
  obtain j1 db1 where J: "ja_state j \<in> set (ja_sources t)" "body (ja_before now t j) db = Inr (j1, db1)"
    "j' = j1\<lparr>ja_state := ja_target t, ja_updated_at := now\<rparr>" "ja_constraints j'"
    "db' = db1\<lparr>db_job_applications := map_rows (\<lambda>k. ja_pk k = ja_pk j1) (\<lambda>_. j') (db_job_applications db1),
       db_ja_logs := db_ja_logs db1 @ [\<lparr>jl_job_application = ja_pk j1, jl_transition = t,
         jl_from_state = ja_state j, jl_to_state = ja_target t, jl_user = user,
         jl_target_company = target, jl_timestamp = now\<rparr>]\<rparr>"
    using ja_call_InrD [OF assms(1,2)] by metis
  have B: "ja_pk j1 = ja_pk j" "ja_log_of j1 db1 = ja_log_of (ja_before now t j) db"
    "ja_table_ok (db_job_applications db) \<Longrightarrow> ja_table_ok (db_job_applications db1)"
    using assms(3) J(2) unfolding ja_body_ok_def by fastforce+
  show "ja_state j \<in> set (ja_sources t)" by (rule J(1))
  show "ja_state j' = ja_target t" "ja_pk j' = ja_pk j" using J(3) B(1) by simp_all
  show "ja_log_of j' db' = ja_log_of j db @ [(t, ja_state j, ja_target t)]"
    using B(2) by (simp add: ja_log_of_def J(3,5))
  show "ja_table_ok (db_job_applications db')" if "ja_table_ok (db_job_applications db)"
    using ja_table_replace [OF B(3) [OF that] J(4)] J(3) by (simp add: J(5))
qed

section \<open>Transitions without an implementation\<close>

definition plain_log :: "datetime \<Rightarrow> ja_transition \<Rightarrow> pk option \<Rightarrow> pk option \<Rightarrow> job_application \<Rightarrow> ja_log" where
  "plain_log now t user target j = \<lparr>jl_job_application = ja_pk j, jl_transition = t, jl_from_state = ja_state j,
     jl_to_state = ja_target t, jl_user = user, jl_target_company = target, jl_timestamp = now\<rparr>"

lemma plain_transition_eq:
  assumes "engine_law run" "ja_state j \<in> set (ja_sources t)" "ja_constraints j" "ja_state j \<noteq> JA_ACCEPTED"
  shows "ja_plain_transition run now t user target j db = Inr (ja_moved now t j,
    db\<lparr>db_job_applications := map_rows (\<lambda>k. ja_pk k = ja_pk j) (\<lambda>_. ja_moved now t j) (db_job_applications db),
       db_ja_logs := db_ja_logs db @ [plain_log now t user target j]\<rparr>)"
  unfolding ja_plain_transition_def
  using moved_constraints [OF assms(3,2,4), of now] assms(2)
  by (subst engine_eq [OF assms(1)])
     (simp_all add: ja_call_def ja_save_and_log_def ja_save_def Let_def ja_moved_def plain_log_def)

text \<open>The loop of \<open>accept\<close> over the other pending applications.\<close>

lemma obsolete_loop:
  assumes "engine_law run" "distinct (map ja_pk ks)"
    and "\<And>k. k \<in> set ks \<Longrightarrow> k \<in> set (db_job_applications db) \<and> ja_constraints k \<and> is_pending k"
    and "distinct (map ja_pk (db_job_applications db))"
  shows "rfold (\<lambda>k db1. rbind (ja_render_obsolete run now user k db1) (\<lambda>(_, db2). Inr db2)) ks db =
    Inr (db\<lparr>db_job_applications := map_rows (\<lambda>r. ja_pk r \<in> ja_pk ` set ks) (ja_moved now T_RENDER_OBSOLETE) (db_job_applications db),
       db_ja_logs := db_ja_logs db @ map (plain_log now T_RENDER_OBSOLETE (Some user) None) ks\<rparr>)"
  using assms(2-4)
proof (induction ks arbitrary: db)
  case Nil
  then show ?case by (simp add: map_rows_def)
next
  case (Cons k ks)
  let ?m = "ja_moved now T_RENDER_OBSOLETE"
  let ?rows = "map_rows (\<lambda>r. ja_pk r = ja_pk k) (\<lambda>_. ?m k) (db_job_applications db)"
  let ?db = "db\<lparr>db_job_applications := ?rows, db_ja_logs := db_ja_logs db @ [plain_log now T_RENDER_OBSOLETE (Some user) None k]\<rparr>"
  have k: "ja_state k \<in> set (ja_sources T_RENDER_OBSOLETE)" "ja_constraints k" "ja_state k \<noteq> JA_ACCEPTED"
    using Cons.prems(2) [of k] by (auto simp: is_pending_def pending_states_def)
  have e: "ja_render_obsolete run now user k db = Inr (?m k, ?db)"
    unfolding ja_render_obsolete_def by (rule plain_transition_eq [OF assms(1) k])
  have same: "r = k" if "r \<in> set (db_job_applications db)" "ja_pk r = ja_pk k" for r
    using that Cons.prems(2) [of k] Cons.prems(3) by (auto simp: distinct_map inj_on_def)
  have rows: "?rows = map_rows (\<lambda>r. ja_pk r = ja_pk k) ?m (db_job_applications db)"
    unfolding map_rows_def by (rule map_cong) (auto dest: same)
  have keys: "map ja_pk ?rows = map ja_pk (db_job_applications db)" by (rule map_rows_key) simp
  have pre: "x \<in> set ?rows \<and> ja_constraints x \<and> is_pending x" if "x \<in> set ks" for x
  proof -
    have "ja_pk x \<in> ja_pk ` set ks" using that by (rule imageI)
    then have "ja_pk x \<noteq> ja_pk k" using Cons.prems(1) by auto
    then show ?thesis using Cons.prems(2) [of x] that map_rows_kept [of x "db_job_applications db"] by simp
  qed
  have comp: "map_rows (\<lambda>r. ja_pk r \<in> ja_pk ` set ks) ?m ?rows =
      map_rows (\<lambda>r. ja_pk r \<in> ja_pk ` set (k # ks)) ?m (db_job_applications db)"
    unfolding rows using Cons.prems(1) by (auto simp: map_rows_def)
  have "rfold (\<lambda>k db1. rbind (ja_render_obsolete run now user k db1) (\<lambda>(_, db2). Inr db2)) ks ?db =
    Inr (?db\<lparr>db_job_applications := map_rows (\<lambda>r. ja_pk r \<in> ja_pk ` set ks) ?m (db_job_applications ?db),
       db_ja_logs := db_ja_logs ?db @ map (plain_log now T_RENDER_OBSOLETE (Some user) None) ks\<rparr>)"
    by (rule Cons.IH) (use Cons.prems(1,3) pre keys in auto)
  then show ?case using comp by (simp add: e)
qed

section \<open>The implementations of the transitions\<close>

lemma pass_tables_ja:
  assumes "pass_tables_only db db'"
  shows "ja_log_of j db' = ja_log_of j db" "db_job_applications db' = db_job_applications db"
  using pass_tables_frame [OF assms] by (simp_all add: ja_log_of_def)

lemma set_accepted_fields [simp]:
  "ja_pk (set_accepted f j) = ja_pk j" "ja_job_seeker (set_accepted f j) = ja_job_seeker j"
  "ja_accepted (set_accepted f j) = f (ja_accepted j)" "ja_state (set_accepted f j) = ja_state j"
  "ja_sender_kind (set_accepted f j) = ja_sender_kind j"
  "ja_sender_prescriber_organization (set_accepted f j) = ja_sender_prescriber_organization j"
  by (simp_all add: set_accepted_def)

lemma ja_sender_organization_set [simp]: "ja_sender_organization db (set_accepted f j) = ja_sender_organization db j"
  by (simp add: ja_sender_organization_def)

text \<open>Issuance of the PASS IAE: the branch taken and its effect on the application.\<close>

lemma accept_reuse_InrD:
  assumes "accept_reuse today now a h j db = Inr (j', db')"
  shows "j' = set_accepted (\<lambda>f. f\<lparr>af_approval := Some (ap_pk a)\<rparr>) j" "h \<le> ap_end_at a" "pass_tables_only db db'"
    "if h < ap_start_at a then \<exists>b a'. update_start_date today now a h db = Inr (b, a', db') else db' = db"
  using assms by (auto simp: accept_reuse_def split: if_splits intro: pass_tables_start_date)

lemma accept_create_InrD:
  assumes "accept_create today now u c h j db = Inr (j', db')"
  obtains k a where "af_eligibility_diagnosis (ja_accepted j) = Some k"
    "approval_save_new today (new_approval_of now u c h k db j) db = Inr (a, db')"
    "j' = set_accepted (\<lambda>f. f\<lparr>af_approval := Some (ap_pk a)\<rparr>) j"
  using assms by (auto simp: accept_create_def split: option.splits)

lemma accept_approval_cases:
  assumes "accept_approval pm today now u p c h j db = Inr (j', db')"
  obtains (other) "\<not> is_subject_to_iae_rules c" "j' = j" "db' = db"
  | (reuse) a where "is_subject_to_iae_rules c" "latest_approval pm today u (db_approvals db) = Some a"
      "approval_is_valid today a" "accept_reuse today now a h j db = Inr (j', db')"
  | (create) "is_subject_to_iae_rules c" "\<not> has_valid_approval pm today u (db_approvals db)" "identified_for_approval p"
      "\<not> new_approval_blocked_by_waiting_period pm today u c (ja_sender_organization db j) db"
      "accept_create today now u c h j db = Inr (j', db')"
  | (manual) "is_subject_to_iae_rules c" "\<not> has_valid_approval pm today u (db_approvals db)" "\<not> identified_for_approval p"
      "\<not> new_approval_blocked_by_waiting_period pm today u c (ja_sender_organization db j) db"
      "j' = set_accepted (\<lambda>f. f\<lparr>af_approval_delivery_mode := Some DELIVERY_MANUAL\<rparr>) j" "db' = db"
proof (cases "is_subject_to_iae_rules c")
  case False
  then show thesis using assms other by (simp add: accept_approval_def)
next
  case iae: True
  have nb: "\<not> new_approval_blocked_by_waiting_period pm today u c (ja_sender_organization db j) db"
    using assms iae by (auto simp: accept_approval_def new_approval_blocked_by_waiting_period_def split: if_splits)
  show thesis
  proof (cases "has_valid_approval pm today u (db_approvals db)")
    case True
    then obtain a where a: "latest_approval pm today u (db_approvals db) = Some a" "approval_is_valid today a"
      by (auto simp: has_valid_approval_def split: option.splits)
    then show thesis using reuse [OF iae a] assms iae nb by (simp add: accept_approval_def)
  next
    case nv: False
    show thesis
    proof (cases "identified_for_approval p")
      case True
      then show thesis using create [OF iae nv True nb] assms iae nv nb
        by (auto simp: accept_approval_def has_valid_approval_def split: option.splits)
    next
      case False
      then show thesis using manual [OF iae nv False nb] assms iae nv nb
        by (auto simp: accept_approval_def has_valid_approval_def split: option.splits)
    qed
  qed
qed

lemma accept_approval_frame:
  assumes "accept_approval pm today now u p c h j db = Inr (j', db')"
  shows "pass_tables_only db db'" "ja_pk j' = ja_pk j" "ja_job_seeker j' = ja_job_seeker j"
proof -
  have "pass_tables_only db db' \<and> ja_pk j' = ja_pk j \<and> ja_job_seeker j' = ja_job_seeker j"
    using assms
  proof (cases rule: accept_approval_cases)
    case (reuse a)
    then show ?thesis using accept_reuse_InrD [OF reuse(4)] by simp
  next
    case create
    show ?thesis using create(5) by (rule accept_create_InrD) (auto intro: pass_tables_save_new)
  qed auto
  then show "pass_tables_only db db'" "ja_pk j' = ja_pk j" "ja_job_seeker j' = ja_job_seeker j" by auto
qed

lemma accept_deliver_InrD:
  assumes "accept_deliver today now h j db = Inr (j', db')"
  shows "pass_tables_only db db'" "ja_pk j' = ja_pk j" "ja_job_seeker j' = ja_job_seeker j"
    "af_approval (ja_accepted j') = af_approval (ja_accepted j)"
    "af_eligibility_diagnosis (ja_accepted j') = af_eligibility_diagnosis (ja_accepted j)"
    "af_approval (ja_accepted j) = None \<Longrightarrow> j' = j"
    "af_approval (ja_accepted j) = Some k \<Longrightarrow> af_approval_delivery_mode (ja_accepted j') = Some DELIVERY_AUTOMATIC \<and>
       af_approval_number_sent_by_email (ja_accepted j') \<and>
       (\<exists>a. get_row ap_pk k (db_approvals db) = Some a \<and> unsuspend today now a h db = Inr db')"
  using assms by (auto simp: accept_deliver_def split: option.splits intro: pass_tables_unsuspend)

lemma accept_link_fields:
  assumes "accept_link_iae pm today user u c db j = Inr j1"
  shows "ja_pk j1 = ja_pk j" "ja_job_seeker j1 = ja_job_seeker j"
    "af_approval (ja_accepted j1) = af_approval (ja_accepted j)"
    "af_approval_delivery_mode (ja_accepted j1) = af_approval_delivery_mode (ja_accepted j)"
  using assms by (auto simp: accept_link_iae_def split: if_splits option.splits bool.splits prod.splits)

lemma accept_link_geiq_fields [simp]:
  "ja_pk (accept_link_geiq today u c db j) = ja_pk j" "ja_job_seeker (accept_link_geiq today u c db j) = ja_job_seeker j"
  "af_approval (ja_accepted (accept_link_geiq today u c db j)) = af_approval (ja_accepted j)"
  "af_eligibility_diagnosis (ja_accepted (accept_link_geiq today u c db j)) = af_eligibility_diagnosis (ja_accepted j)"
  "ja_sender_organization db' (accept_link_geiq today u c db j) = ja_sender_organization db' j"
  by (simp_all add: accept_link_geiq_def)

lemma schedule_option_shape:
  assumes "\<And>d db. \<exists>q. f d db = Inr (db\<lparr>db_tasks := db_tasks db @ q\<rparr>)"
  shows "\<exists>q. schedule_option f k db = Inr (db\<lparr>db_tasks := db_tasks db @ q\<rparr>)"
  using assms by (cases k) (auto simp: schedule_option_def intro: exI [of _ "[]"])

text \<open>The stages of \<open>accept\<close>, and what the stages after the loop over the other applications leave alone.\<close>

lemma accept_body_InrD:
  assumes "accept_body run pm today now user kind unknown j db = Inr (j', db')"
  obtains h u p c j1 j2 db2 db3 db4 db5 where
    "ja_hiring_start_at j = Some h" "get_row us_pk (ja_job_seeker j) (db_users db) = Some u"
    "get_row jp_user (ja_job_seeker j) (db_profiles db) = Some p"
    "get_row co_pk (ja_to_company j) (db_companies db) = Some c"
    "accept_link_iae pm today user u c db j = Inr j1"
    "accept_approval pm today now u p c h (accept_link_geiq today u c db j1) db = Inr (j2, db2)"
    "accept_obsolete run now (us_pk user) j2 db2 = Inr db3"
    "db_job_applications db4 = db_job_applications db3" "db_ja_logs db4 = db_ja_logs db3"
    "db_approvals db4 = db_approvals db3" "db_suspensions db4 = db_suspensions db3"
    "accept_deliver today now h j2 db4 = Inr (j', db5)"
    "db_job_applications db' = db_job_applications db5" "db_ja_logs db' = db_ja_logs db5"
    "db_approvals db' = db_approvals db5" "db_suspensions db' = db_suspensions db5"
proof -
  obtain h where h: "ja_hiring_start_at j = Some h" using assms
    by (cases "ja_hiring_start_at j") (auto simp: accept_body_def)
  obtain u where u: "get_row us_pk (ja_job_seeker j) (db_users db) = Some u" using assms h
    by (cases "get_row us_pk (ja_job_seeker j) (db_users db)") (auto simp: accept_body_def)
  obtain p where p: "get_row jp_user (ja_job_seeker j) (db_profiles db) = Some p" using assms h u
    by (cases "get_row jp_user (ja_job_seeker j) (db_profiles db)") (auto simp: accept_body_def)
  obtain c where c: "get_row co_pk (ja_to_company j) (db_companies db) = Some c" using assms h u p
    by (cases "get_row co_pk (ja_to_company j) (db_companies db)") (auto simp: accept_body_def)
  note rows = h u p c
  obtain j1 where j1: "accept_link_iae pm today user u c db j = Inr j1"
    using assms rows by (auto simp: accept_body_def)
  obtain j2 db2 where j2: "accept_approval pm today now u p c h (accept_link_geiq today u c db j1) db = Inr (j2, db2)"
    using assms rows j1 by (auto simp: accept_body_def)
  obtain db3 where d3: "accept_obsolete run now (us_pk user) j2 db2 = Inr db3"
    using assms rows j1 j2 by (auto simp: accept_body_def)
  obtain db4 where d4: "(if is_professional user
      then sync_assignment now u user (Some (COMPANY_ORG (co_pk c))) kind unknown db3 else Inr db3) = Inr db4"
    using assms rows j1 j2 d3 by (auto simp: accept_body_def)
  have f4: "\<exists>t. db4 = db3\<lparr>db_assignments := t\<rparr>"
    using d4 by (auto simp: sync_assignment_def intro: exI [of _ "db_assignments db3"] split: if_splits)
  obtain j5 db5 where d5: "accept_deliver today now h j2 db4 = Inr (j5, db5)"
    using assms rows j1 j2 d3 d4 by (auto simp: accept_body_def)
  obtain q1 where q1: "schedule_option schedule_iae_certification (af_eligibility_diagnosis (ja_accepted j5))
      (follow_beneficiary now today u user True db5) =
      Inr ((follow_beneficiary now today u user True db5)\<lparr>db_tasks := q1\<rparr>)"
    using schedule_option_shape [of schedule_iae_certification "af_eligibility_diagnosis (ja_accepted j5)"
      "follow_beneficiary now today u user True db5", OF schedule_iae_shape] by auto
  obtain q2 where q2: "schedule_option schedule_geiq_certification (af_geiq_eligibility_diagnosis (ja_accepted j5))
      ((follow_beneficiary now today u user True db5)\<lparr>db_tasks := q1\<rparr>) =
      Inr ((follow_beneficiary now today u user True db5)\<lparr>db_tasks := q2\<rparr>)"
    using schedule_option_shape [of schedule_geiq_certification "af_geiq_eligibility_diagnosis (ja_accepted j5)"
      "(follow_beneficiary now today u user True db5)\<lparr>db_tasks := q1\<rparr>", OF schedule_geiq_shape] by auto
  have r: "j' = j5" "db' = (follow_beneficiary now today u user True db5)\<lparr>db_tasks := q2\<rparr>"
    using assms rows j1 j2 d3 d4 d5 q1 q2 by (auto simp: accept_body_def)
  show thesis
    by (rule that [OF h u p c j1 j2 d3 _ _ _ _ d5 [folded r(1)]]) (use f4 r(2) in auto)
qed

lemma accept_obsolete_eq:
  assumes "engine_law run" "ja_table_ok (db_job_applications db)"
  shows "accept_obsolete run now user j db =
    Inr (db\<lparr>db_job_applications := map_rows (\<lambda>r. ja_pk r \<in> ja_pk ` set (other_pending_applications j db))
         (ja_moved now T_RENDER_OBSOLETE) (db_job_applications db),
       db_ja_logs := db_ja_logs db @ map (plain_log now T_RENDER_OBSOLETE (Some user) None) (other_pending_applications j db)\<rparr>)"
proof -
  have "distinct (map ja_pk (other_pending_applications j db))"
    using assms(2) by (simp add: other_pending_applications_def pending_applications_def ja_table_ok_def distinct_map_filter)
  then show ?thesis unfolding accept_obsolete_def
    by (rule obsolete_loop [OF assms(1)])
      (use assms(2) in \<open>auto simp: other_pending_applications_def pending_applications_def is_pending_def
        ja_table_ok_def list_all_iff\<close>)
qed

lemma plain_body_ok [simp]: "ja_body_ok (\<lambda>j db. Inr (j, db))"
  by (simp add: ja_body_ok_def)

lemma obsolete_keeps:
  assumes "engine_law run"
    "rfold (\<lambda>k db1. rbind (ja_render_obsolete run now user k db1) (\<lambda>(_, db2). Inr db2)) ks db = Inr db'"
    "\<forall>k \<in> set ks. ja_pk k \<noteq> ja_pk j"
  shows "ja_log_of j db' = ja_log_of j db"
    "ja_table_ok (db_job_applications db) \<Longrightarrow> ja_table_ok (db_job_applications db')"
proof -
  have "ja_log_of j db' = ja_log_of j db \<and>
      (ja_table_ok (db_job_applications db) \<longrightarrow> ja_table_ok (db_job_applications db'))"
    using assms(2,3)
  proof (induction ks arbitrary: db)
    case (Cons k ks)
    obtain k' db1 where r: "ja_render_obsolete run now user k db = Inr (k', db1)"
      and l: "rfold (\<lambda>k db1. rbind (ja_render_obsolete run now user k db1) (\<lambda>(_, db2). Inr db2)) ks db1 = Inr db'"
      using Cons.prems(1) by (auto split: prod.splits)
    note r' = r [unfolded ja_render_obsolete_def ja_plain_transition_def]
    have "ja_pk k \<noteq> ja_pk j" using Cons.prems(2) by simp
    then have "ja_log_of j db1 = ja_log_of j db"
      by - (rule ja_call_InrD [OF assms(1) r'], auto simp: ja_log_of_def)
    moreover have "ja_table_ok (db_job_applications db) \<Longrightarrow> ja_table_ok (db_job_applications db1)"
      by (rule ja_call_spec(5) [OF assms(1) r' plain_body_ok])
    ultimately show ?case using Cons.IH [OF l] Cons.prems(2) by simp
  qed simp
  then show "ja_log_of j db' = ja_log_of j db"
    "ja_table_ok (db_job_applications db) \<Longrightarrow> ja_table_ok (db_job_applications db')" by auto
qed

lemma accept_body_ok:
  assumes "engine_law run"
  shows "ja_body_ok (accept_body run pm today now user kind unknown)"
  unfolding ja_body_ok_def
proof (intro allI impI)
  fix j db j' db'
  assume "accept_body run pm today now user kind unknown j db = Inr (j', db')"
  then show "ja_pk j' = ja_pk j \<and> ja_log_of j' db' = ja_log_of j db \<and>
      (ja_table_ok (db_job_applications db) \<longrightarrow> ja_table_ok (db_job_applications db'))"
  proof (rule accept_body_InrD)
    fix h u p c j1 j2 db2 db3 db4 db5
    assume l: "accept_link_iae pm today user u c db j = Inr j1"
      and a: "accept_approval pm today now u p c h (accept_link_geiq today u c db j1) db = Inr (j2, db2)"
      and ob: "accept_obsolete run now (us_pk user) j2 db2 = Inr db3"
      and f: "db_job_applications db4 = db_job_applications db3" "db_ja_logs db4 = db_ja_logs db3"
      and d: "accept_deliver today now h j2 db4 = Inr (j', db5)"
      and g: "db_job_applications db' = db_job_applications db5" "db_ja_logs db' = db_ja_logs db5"
    note A = accept_approval_frame [OF a] and D = accept_deliver_InrD [OF d]
    have pk: "ja_pk j2 = ja_pk j" "ja_pk j' = ja_pk j"
      using A(2) D(2) accept_link_fields(1) [OF l] by simp_all
    have "ja_log_of j2 db3 = ja_log_of j2 db2"
      "ja_table_ok (db_job_applications db2) \<Longrightarrow> ja_table_ok (db_job_applications db3)"
      by (rule obsolete_keeps [where j = j2, OF assms ob [unfolded accept_obsolete_def]];
          simp add: other_pending_applications_def pending_applications_def)+
    then show ?thesis
      using pk f g pass_tables_ja [OF A(1)] pass_tables_frame(1,2) [OF D(1)] by (simp add: ja_log_of_def)
  qed
qed

lemma transfer_body_ok: "ja_body_ok (transfer_body now user target)"
  by (auto simp: ja_body_ok_def transfer_body_def reset_accepted_state_def ja_log_of_def)

subsection \<open>Cancellation\<close>

lemma clear_approval_constraints:
  assumes "ja_constraints j" "af_approval (ja_accepted j) = Some k"
  shows "ja_constraints (j\<lparr>ja_accepted := (ja_accepted j)\<lparr>af_approval := None\<rparr>\<rparr>)"
proof -
  have "ja_state j = JA_ACCEPTED"
    using assms by (auto simp: ja_constraints_def ja_state_coherence_def accepted_only_defaults_def)
  moreover have "ja_sender_coherence (j\<lparr>ja_accepted := (ja_accepted j)\<lparr>af_approval := None\<rparr>\<rparr>) = ja_sender_coherence j"
    by (simp add: ja_sender_coherence_def cong: option.case_cong)
  ultimately show ?thesis using assms(1) by (auto simp: ja_constraints_def ja_state_coherence_def)
qed

lemma ja_table_clear:
  assumes "ja_table_ok js"
  shows "ja_table_ok (clear_approval_of_applications k js)"
proof -
  have "map ja_pk (clear_approval_of_applications k js) = map ja_pk js"
    unfolding clear_approval_of_applications_def by (rule map_rows_key) simp
  moreover have "ja_constraints j" if "j \<in> set (clear_approval_of_applications k js)" for j
    using that assms clear_approval_constraints [of _ k]
    by (auto simp: clear_approval_of_applications_def set_map_rows ja_table_ok_def list_all_iff)
  ultimately show ?thesis using assms by (simp add: ja_table_ok_def list_all_iff)
qed

lemma cancel_approval_cases:
  assumes "cancel_approval now j db = Inr db'"
  obtains (kept) "db' = db" | (deleted) a where "af_approval (ja_accepted j) = Some (ap_pk a)"
    "get_row ap_pk (ap_pk a) (db_approvals db) = Some a" "can_be_deleted a (db_job_applications db)"
    "approval_delete now a db = Inr db'"
proof (cases "case af_approval (ja_accepted j) of None \<Rightarrow> None | Some k \<Rightarrow> get_row ap_pk k (db_approvals db)")
  case None
  then show thesis using assms kept by (simp add: cancel_approval_def)
next
  case (Some a)
  then obtain k where k: "af_approval (ja_accepted j) = Some k" "get_row ap_pk k (db_approvals db) = Some a"
    by (auto split: option.splits)
  then have "ap_pk a = k" using get_row_SomeD by metis
  then show thesis using assms kept deleted [of a] Some k by (auto simp: cancel_approval_def split: if_splits)
qed

lemma er_delete_frame [simp]:
  "db_job_applications (er_delete k db) = db_job_applications db" "db_ja_logs (er_delete k db) = db_ja_logs db"
  "db_approvals (er_delete k db) = db_approvals db" "db_cancelled_approvals (er_delete k db) = db_cancelled_approvals db"
  "db_suspensions (er_delete k db) = db_suspensions db"
  by (simp_all add: er_delete_def)

lemma delete_unsent_frame [simp]:
  "db_job_applications (delete_unsent_records j db) = db_job_applications db"
  "db_ja_logs (delete_unsent_records j db) = db_ja_logs db"
  "db_approvals (delete_unsent_records j db) = db_approvals db"
  "db_cancelled_approvals (delete_unsent_records j db) = db_cancelled_approvals db"
proof -
  have "db_job_applications (foldl (\<lambda>db1 e. if \<not> er_was_sent (db_er_logs db1) e then er_delete (er_pk e) db1 else db1) db es) =
      db_job_applications db \<and>
    db_ja_logs (foldl (\<lambda>db1 e. if \<not> er_was_sent (db_er_logs db1) e then er_delete (er_pk e) db1 else db1) db es) =
      db_ja_logs db \<and>
    db_approvals (foldl (\<lambda>db1 e. if \<not> er_was_sent (db_er_logs db1) e then er_delete (er_pk e) db1 else db1) db es) =
      db_approvals db \<and>
    db_cancelled_approvals (foldl (\<lambda>db1 e. if \<not> er_was_sent (db_er_logs db1) e then er_delete (er_pk e) db1 else db1) db es) =
      db_cancelled_approvals db" for es
    by (induction es arbitrary: db) auto
  then show "db_job_applications (delete_unsent_records j db) = db_job_applications db"
    "db_ja_logs (delete_unsent_records j db) = db_ja_logs db"
    "db_approvals (delete_unsent_records j db) = db_approvals db"
    "db_cancelled_approvals (delete_unsent_records j db) = db_cancelled_approvals db"
    by (simp_all add: delete_unsent_records_def)
qed

text \<open>When no record was sent, all the records of the application are deleted.\<close>

lemma er_delete_was_sent:
  "er_pk e \<noteq> k \<Longrightarrow> er_was_sent (db_er_logs (er_delete k db)) e \<longleftrightarrow> er_was_sent (db_er_logs db) e"
  "er_pk e = k \<Longrightarrow> \<not> er_was_sent (db_er_logs (er_delete k db)) e"
  by (auto simp: er_was_sent_def er_delete_def list_ex_iff)

lemma delete_unsent_loop:
  assumes "\<forall>e \<in> set es. \<not> er_was_sent (db_er_logs db) e"
  shows "db_employee_records (foldl (\<lambda>db1 e. if \<not> er_was_sent (db_er_logs db1) e then er_delete (er_pk e) db1 else db1) db es) =
    filter (\<lambda>e. er_pk e \<notin> er_pk ` set es) (db_employee_records db)"
  using assms
proof (induction es arbitrary: db)
  case (Cons e es)
  have "\<not> er_was_sent (db_er_logs (er_delete (er_pk e) db)) x" if "x \<in> set es" for x
    using er_delete_was_sent [of x "er_pk e" db] Cons.prems that by (cases "er_pk x = er_pk e") auto
  then show ?case using Cons.IH [of "er_delete (er_pk e) db"] Cons.prems
    by (auto simp: er_delete_def intro!: filter_cong)
qed simp

lemma cancel_approval_frame:
  assumes "cancel_approval now j db = Inr db'"
  shows "db_employee_records db' = db_employee_records db" "db_er_logs db' = db_er_logs db"
    "db_ja_logs db' = db_ja_logs db"
    "ja_table_ok (db_job_applications db) \<Longrightarrow> ja_table_ok (db_job_applications db')"
    "map ja_pk (db_job_applications db') = map ja_pk (db_job_applications db)"
proof -
  have "db_employee_records db' = db_employee_records db \<and> db_er_logs db' = db_er_logs db \<and>
    db_ja_logs db' = db_ja_logs db \<and>
    (ja_table_ok (db_job_applications db) \<longrightarrow> ja_table_ok (db_job_applications db')) \<and>
    map ja_pk (db_job_applications db') = map ja_pk (db_job_applications db)"
    using assms
  proof (cases rule: cancel_approval_cases)
    case (deleted a)
    have "map ja_pk (clear_approval_of_applications (ap_pk a) (db_job_applications db)) = map ja_pk (db_job_applications db)"
      unfolding clear_approval_of_applications_def by (rule map_rows_key) simp
    then show ?thesis
      using pass_tables_frame [OF approval_delete_applications [OF deleted(4)]] by (simp add: ja_table_clear)
  qed simp
  then show "db_employee_records db' = db_employee_records db" "db_er_logs db' = db_er_logs db"
    "db_ja_logs db' = db_ja_logs db"
    "ja_table_ok (db_job_applications db) \<Longrightarrow> ja_table_ok (db_job_applications db')"
    "map ja_pk (db_job_applications db') = map ja_pk (db_job_applications db)" by auto
qed

lemma cancel_body_InrD:
  assumes "cancel_body now j db = Inr (j', db')"
  obtains db1 where "can_be_cancelled db j" "cancel_approval now j db = Inr db1"
    "j' = reset_accepted_state j" "db' = delete_unsent_records j db1"
  using assms by (auto simp: cancel_body_def)

lemma cancel_body_ok: "ja_body_ok (cancel_body now)"
  unfolding ja_body_ok_def
proof (intro allI impI)
  fix j db j' db'
  assume "cancel_body now j db = Inr (j', db')"
  then show "ja_pk j' = ja_pk j \<and> ja_log_of j' db' = ja_log_of j db \<and>
      (ja_table_ok (db_job_applications db) \<longrightarrow> ja_table_ok (db_job_applications db'))"
    by (rule cancel_body_InrD)
      (use cancel_approval_frame in \<open>auto simp: reset_accepted_state_def ja_log_of_def\<close>)
qed

section \<open>The workflow\<close>

inductive ja_step :: "ja_transition \<Rightarrow> job_application \<Rightarrow> db \<Rightarrow> job_application \<Rightarrow> db \<Rightarrow> bool" where
  plain: "engine_law run \<Longrightarrow> t \<notin> {T_ACCEPT, T_CANCEL, T_TRANSFER} \<Longrightarrow>
    ja_plain_transition run now t user target j db = Inr (j', db') \<Longrightarrow> ja_step t j db j' db'"
| accept: "engine_law run \<Longrightarrow> ja_accept run pm today now usr kind unknown j db = Inr (j', db') \<Longrightarrow>
    ja_step T_ACCEPT j db j' db'"
| cancel: "engine_law run \<Longrightarrow> ja_cancel run now by_user j db = Inr (j', db') \<Longrightarrow> ja_step T_CANCEL j db j' db'"
| transfer: "engine_law run \<Longrightarrow> ja_transfer run now usr company j db = Inr (j', db') \<Longrightarrow>
    ja_step T_TRANSFER j db j' db'"

lemma ja_step_call:
  assumes "ja_step t j db j' db'"
  obtains run now user target body where "engine_law run" "ja_body_ok body"
    "run (ja_call now t user target body) j db = Inr (j', db')"
  using assms
  by (cases rule: ja_step.cases)
    (auto simp: ja_plain_transition_def ja_accept_def ja_cancel_def ja_transfer_def
      intro: that plain_body_ok accept_body_ok cancel_body_ok transfer_body_ok)

interpretation ja_wf: logged_workflow ja_state ja_sources ja_target ja_step ja_log_of
proof
  fix t j db j' db'
  assume s: "ja_step t j db j' db'"
  show "ja_state j \<in> set (ja_sources t) \<and> ja_state j' = ja_target t"
    by (rule ja_step_call [OF s]) (simp add: ja_call_spec(1,2))
  show "ja_log_of j' db' = ja_log_of j db @ [(t, ja_state j, ja_target t)]"
    by (rule ja_step_call [OF s]) (rule ja_call_spec(4))
qed

lemma ja_performs_table_ok:
  "ja_wf.performs j db j' db' \<Longrightarrow> ja_table_ok (db_job_applications db) \<Longrightarrow> ja_table_ok (db_job_applications db')"
  by (induction rule: ja_wf.performs.induct) (auto elim!: ja_step_call dest: ja_call_spec(5))

end
