(* ===== verification/Hiring_Effects.thy ===== *)
theory Hiring_Effects
  imports Hirings
begin

text \<open>
  What an acceptance and a cancellation change: the PASS IAE that is linked and who holds it, the other
  applications of the job seeker, the employee records.
\<close>

section \<open>Effects of an acceptance\<close>

text \<open>Who holds an approval; extensions and suspensions never change it.\<close>

definition holder :: "db \<Rightarrow> pk \<Rightarrow> pk option" where
  "holder db k = map_option ap_user (get_row ap_pk k (db_approvals db))"

lemma holder_update_approval:
  assumes "update_approval now new db = Inr db'" "holder db (ap_pk new) = Some (ap_user new) \<or> holder db (ap_pk new) = None"
  shows "holder db' k = holder db k"
proof (cases "get_row ap_pk (ap_pk new) (db_approvals db)")
  case None
  then show ?thesis using assms(1) by (simp add: update_approval_def)
next
  case (Some old)
  then have "ap_user old = ap_user new" using assms(2) by (simp add: holder_def)
  then show ?thesis using update_approval_get [OF assms(1) Some, of k] Some by (auto simp: holder_def)
qed

lemma holder_shift:
  assumes "shift_end_at now k0 delta db = Inr db'"
  shows "holder db' k = holder db k"
proof (cases "get_row ap_pk k0 (db_approvals db)")
  case None
  then show ?thesis using assms by (simp add: shift_end_at_def)
next
  case (Some a)
  then have pk: "ap_pk a = k0" using get_row_SomeD by metis
  have "update_approval now (a\<lparr>ap_end_at := ap_end_at a + delta, ap_updated_at := now\<rparr>) db = Inr db'"
    using assms Some by (simp add: shift_end_at_def)
  then show ?thesis by (rule holder_update_approval) (simp add: holder_def pk Some)
qed

lemma holder_rows [simp]: "holder (db\<lparr>db_suspensions := ss\<rparr>) k = holder db k"
  by (simp add: holder_def)

lemma holder_unsuspend:
  assumes "unsuspend today now a h db = Inr db'"
  shows "holder db' k = holder db k"
proof -
  have "holder db' k = holder db k" if "update_suspension today now s db = Inr db'" for s
  proof (cases "get_row su_pk (su_pk s) (db_suspensions db)")
    case None
    then show ?thesis using that by (simp add: update_suspension_def)
  next
    case (Some old)
    show ?thesis using holder_shift [OF update_suspension_InrD(2) [OF that Some]] by simp
  qed
  moreover have "holder db' k = holder db k" if "delete_suspension now s db = Inr db'" for s
    using holder_shift [OF that [unfolded delete_suspension_def]] by simp
  ultimately show ?thesis using assms by (auto simp: unsuspend_def split: option.splits if_splits)
qed

lemma holder_start_date:
  assumes "update_start_date today now a h db = Inr (b, a', db')" "holder db (ap_pk a) = Some (ap_user a)"
  shows "holder db' k = holder db k"
proof (cases "can_postpone_start_date today a")
  case True
  then obtain new where "update_approval now new db = Inr db'" "ap_pk new = ap_pk a" "ap_user new = ap_user a"
    using assms(1) by (auto simp: update_start_date_def approval_save_def approval_origin_on_save_def Let_def
        split: if_splits)
  then show ?thesis using holder_update_approval assms(2) by metis
next
  case False
  then show ?thesis using assms(1) by (simp add: update_start_date_def)
qed

lemma holder_save_new:
  assumes "approval_save_new today a db = Inr (a', db')"
  shows "holder db' (ap_pk a') = Some (ap_user a)" "ap_pk a' \<notin> ap_pk ` set (db_approvals db)"
proof -
  obtain b where i: "insert_approval b db = Inr (a', db')" and u: "ap_user b = ap_user a"
    using assms by (auto simp: approval_save_new_def approval_origin_on_save_def split: if_splits)
  note I = insert_approval_InrD [OF i]
  show fresh: "ap_pk a' \<notin> ap_pk ` set (db_approvals db)" by (simp add: I(1))
  then have "get_row ap_pk (ap_pk a') (db_approvals db) = None" by (simp add: get_row_None_iff)
  then show "holder db' (ap_pk a') = Some (ap_user a)"
    using I(1,2) u by (simp add: holder_def)
qed

text \<open>The stages of an acceptance, with the rows of the table of applications at the end.\<close>

lemma other_pending_frame:
  "ja_pk j2 = ja_pk j \<Longrightarrow> ja_job_seeker j2 = ja_job_seeker j \<Longrightarrow> db_job_applications db2 = db_job_applications db \<Longrightarrow>
   other_pending_applications j2 db2 = other_pending_applications j db"
  by (simp add: other_pending_applications_def)

lemma ja_accept_InrD:
  assumes "engine_law run" "ja_accept run pm today now user kind unknown j db = Inr (j', db')"
    and "ja_table_ok (db_job_applications db)"
  obtains h u p c j1 j2 db2 db4 j5 db5 where
    "ja_state j \<in> set can_be_accepted_states"
    "ja_hiring_start_at j = Some h" "get_row us_pk (ja_job_seeker j) (db_users db) = Some u"
    "get_row jp_user (ja_job_seeker j) (db_profiles db) = Some p"
    "get_row co_pk (ja_to_company j) (db_companies db) = Some c"
    "accept_link_iae pm today user u c db (ja_before now T_ACCEPT j) = Inr j1"
    "accept_approval pm today now u p c h (accept_link_geiq today u c db j1) db = Inr (j2, db2)"
    "db_approvals db4 = db_approvals db2" "accept_deliver today now h j2 db4 = Inr (j5, db5)"
    "j' = j5\<lparr>ja_state := JA_ACCEPTED, ja_updated_at := now\<rparr>" "ja_constraints j'" "ja_pk j' = ja_pk j"
    "db_approvals db' = db_approvals db5"
    "db_job_applications db' = map_rows (\<lambda>k. ja_pk k = ja_pk j) (\<lambda>_. j')
       (map_rows (\<lambda>r. ja_pk r \<in> ja_pk ` set (other_pending_applications j db)) (ja_moved now T_RENDER_OBSOLETE)
          (db_job_applications db))"
proof (rule ja_call_InrD [OF assms(1) assms(2) [unfolded ja_accept_def]])
  fix j5 db1
  assume src: "ja_state j \<in> set (ja_sources T_ACCEPT)"
    and b: "accept_body run pm today now user kind unknown (ja_before now T_ACCEPT j) db = Inr (j5, db1)"
    and j': "j' = j5\<lparr>ja_state := ja_target T_ACCEPT, ja_updated_at := now\<rparr>" and c': "ja_constraints j'"
    and db': "db' = db1\<lparr>db_job_applications := map_rows (\<lambda>k. ja_pk k = ja_pk j5) (\<lambda>_. j') (db_job_applications db1),
       db_ja_logs := db_ja_logs db1 @ [\<lparr>jl_job_application = ja_pk j5, jl_transition = T_ACCEPT,
         jl_from_state = ja_state j, jl_to_state = ja_target T_ACCEPT, jl_user = Some (us_pk user),
         jl_target_company = None, jl_timestamp = now\<rparr>]\<rparr>"
  show thesis using b
  proof (rule accept_body_InrD)
    fix h u p c j1 j2 db2 db3 db4 db5
    assume A: "ja_hiring_start_at (ja_before now T_ACCEPT j) = Some h"
      "get_row us_pk (ja_job_seeker (ja_before now T_ACCEPT j)) (db_users db) = Some u"
      "get_row jp_user (ja_job_seeker (ja_before now T_ACCEPT j)) (db_profiles db) = Some p"
      "get_row co_pk (ja_to_company (ja_before now T_ACCEPT j)) (db_companies db) = Some c"
      and l: "accept_link_iae pm today user u c db (ja_before now T_ACCEPT j) = Inr j1"
      and a: "accept_approval pm today now u p c h (accept_link_geiq today u c db j1) db = Inr (j2, db2)"
      and ob: "accept_obsolete run now (us_pk user) j2 db2 = Inr db3"
      and f: "db_job_applications db4 = db_job_applications db3" "db_approvals db4 = db_approvals db3"
      and d: "accept_deliver today now h j2 db4 = Inr (j5, db5)"
      and g: "db_job_applications db1 = db_job_applications db5" "db_approvals db1 = db_approvals db5"
    note F = accept_approval_frame [OF a] and D = accept_deliver_InrD [OF d]
    have keys: "ja_pk j2 = ja_pk j" "ja_job_seeker j2 = ja_job_seeker j" "ja_pk j5 = ja_pk j"
      using F(2,3) D(2) accept_link_fields(1,2) [OF l] by simp_all
    note rows = pass_tables_frame(1) [OF F(1)] pass_tables_frame(1) [OF D(1)]
    have db3: "db_job_applications db3 = map_rows (\<lambda>r. ja_pk r \<in> ja_pk ` set (other_pending_applications j db))
        (ja_moved now T_RENDER_OBSOLETE) (db_job_applications db)" "db_approvals db3 = db_approvals db2"
      using ob accept_obsolete_eq [OF assms(1), of db2] assms(3) rows(1)
        other_pending_frame [OF keys(1,2) rows(1)] by auto
    show thesis
      by (rule that [of h u p c j1 j2 db2 db4 j5 db5])
        (use src A l a d f g db' j' c' keys rows(2) db3 in simp_all)
  qed
qed

lemma accept_links:
  assumes "engine_law run" "ja_accept run pm today now user kind unknown j db = Inr (j', db')"
    and "ja_table_ok (db_job_applications db)" "ja_constraints j" "approval_table_ok (db_approvals db)"
    and "get_row us_pk (ja_job_seeker j) (db_users db) = Some u" "get_row jp_user (ja_job_seeker j) (db_profiles db) = Some p"
    and "get_row co_pk (ja_to_company j) (db_companies db) = Some c" "is_subject_to_iae_rules c"
    and "ja_hiring_start_at j = Some h"
  shows "case af_approval (ja_accepted j') of
      None \<Rightarrow> af_approval_delivery_mode (ja_accepted j') = Some DELIVERY_MANUAL \<and>
        \<not> has_valid_approval pm today u (db_approvals db) \<and> \<not> identified_for_approval p
    | Some k \<Rightarrow> af_approval_delivery_mode (ja_accepted j') = Some DELIVERY_AUTOMATIC \<and>
        af_approval_number_sent_by_email (ja_accepted j') \<and> holder db' k = Some (us_pk u) \<and>
        (if has_valid_approval pm today u (db_approvals db)
         then \<exists>a. latest_approval pm today u (db_approvals db) = Some a \<and> ap_pk a = k \<and> h \<le> ap_end_at a
         else k \<notin> ap_pk ` set (db_approvals db) \<and> identified_for_approval p \<and>
           af_eligibility_diagnosis (ja_accepted j') \<noteq> None)"
proof (rule ja_accept_InrD [OF assms(1-3)])
  fix h' u' p' c' j1 j2 db2 db4 j5 db5
  assume src: "ja_state j \<in> set can_be_accepted_states"
    and R: "ja_hiring_start_at j = Some h'" "get_row us_pk (ja_job_seeker j) (db_users db) = Some u'"
      "get_row jp_user (ja_job_seeker j) (db_profiles db) = Some p'"
      "get_row co_pk (ja_to_company j) (db_companies db) = Some c'"
    and l: "accept_link_iae pm today user u' c' db (ja_before now T_ACCEPT j) = Inr j1"
    and a: "accept_approval pm today now u' p' c' h' (accept_link_geiq today u' c' db j1) db = Inr (j2, db2)"
    and f4: "db_approvals db4 = db_approvals db2" and d: "accept_deliver today now h' j2 db4 = Inr (j5, db5)"
    and j': "j' = j5\<lparr>ja_state := JA_ACCEPTED, ja_updated_at := now\<rparr>" and f5: "db_approvals db' = db_approvals db5"
  have eqs: "h' = h" "u' = u" "p' = p" "c' = c" using R assms(6-8,10) by simp_all
  have "ja_accepted j = accepted_only_defaults"
    using assms(4) src by (auto simp: ja_constraints_def ja_state_coherence_def can_be_accepted_states_def)
  then have n: "af_approval (ja_accepted (accept_link_geiq today u c db j1)) = None"
    using accept_link_fields(3) [OF l] by (simp add: accepted_only_defaults_def)
  note D = accept_deliver_InrD [OF d]
  have acc: "ja_accepted j' = ja_accepted j5" by (simp add: j')
  have hold: "holder db' k = holder db2 k" if "af_approval (ja_accepted j2) = Some k" for k
    using D(7) [OF that] holder_unsuspend [of today now _ h' db4 db5 k] f4 f5 by (auto simp: holder_def)
  show ?thesis using a [unfolded eqs]
  proof (cases rule: accept_approval_cases)
    case other
    then show ?thesis using assms(9) by simp
  next
    case (reuse b)
    note U = accept_reuse_InrD [OF reuse(4)]
    have b: "b \<in> set (db_approvals db)" "ap_user b = us_pk u"
      using latest_approval_SomeD [OF reuse(2)] by auto
    then have hb: "holder db (ap_pk b) = Some (us_pk u)"
      using assms(5) get_row_Some_iff [of ap_pk "db_approvals db" "ap_pk b" b]
      by (simp add: holder_def approval_table_ok_def)
    then have "holder db2 (ap_pk b) = Some (us_pk u)"
      using U(4) holder_start_date [of today now b h db] b(2) by (auto split: if_splits)
    moreover have "af_approval (ja_accepted j2) = Some (ap_pk b)" using U(1) by simp
    moreover have "has_valid_approval pm today u (db_approvals db)" using reuse(2,3) by (simp add: has_valid_approval_def)
    ultimately show ?thesis using D(4) D(7) [of "ap_pk b"] hold reuse(2) U(2) by (simp add: acc)
  next
    case create
    show ?thesis using create(5)
    proof (rule accept_create_InrD)
      fix k b
      assume k: "af_eligibility_diagnosis (ja_accepted (accept_link_geiq today u c db j1)) = Some k"
        and s: "approval_save_new today (new_approval_of now u c h k db (accept_link_geiq today u c db j1)) db = Inr (b, db2)"
        and j2: "j2 = set_accepted (\<lambda>f. f\<lparr>af_approval := Some (ap_pk b)\<rparr>) (accept_link_geiq today u c db j1)"
      have "af_approval (ja_accepted j2) = Some (ap_pk b)" "af_eligibility_diagnosis (ja_accepted j2) = Some k"
        using j2 k by simp_all
      then show ?thesis using D(4,5) D(7) [of "ap_pk b"] hold holder_save_new [OF s] create(2,3)
        by (simp add: acc new_approval_of_def)
    qed
  next
    case manual
    then show ?thesis using D(6) n by (simp add: acc)
  qed
qed

lemma accept_others:
  assumes "engine_law run" "ja_accept run pm today now user kind unknown j db = Inr (j', db')"
    and "ja_table_ok (db_job_applications db)" "ja_pk j \<in> ja_pk ` set (db_job_applications db)"
  shows "ja_state j' = JA_ACCEPTED \<and> j' \<in> set (db_job_applications db') \<and>
    (\<forall>k \<in> set (db_job_applications db). ja_pk k \<noteq> ja_pk j \<longrightarrow>
       (if is_pending k \<and> ja_job_seeker k = ja_job_seeker j then ja_moved now T_RENDER_OBSOLETE k else k)
         \<in> set (db_job_applications db')) \<and>
    (\<forall>k \<in> set (db_job_applications db'). ja_job_seeker k = ja_job_seeker j \<longrightarrow> \<not> is_pending k \<or> k = j')"
proof (rule ja_accept_InrD [OF assms(1-3)])
  fix j5
  let ?ks = "other_pending_applications j db"
  let ?m = "map_rows (\<lambda>r. ja_pk r \<in> ja_pk ` set ?ks) (ja_moved now T_RENDER_OBSOLETE) (db_job_applications db)"
  assume j': "j' = j5\<lparr>ja_state := JA_ACCEPTED, ja_updated_at := now\<rparr>" "ja_pk j' = ja_pk j"
    and rows: "db_job_applications db' = map_rows (\<lambda>k. ja_pk k = ja_pk j) (\<lambda>_. j') ?m"
  have mem: "ja_pk r \<in> ja_pk ` set ?ks \<longleftrightarrow> is_pending r \<and> ja_job_seeker r = ja_job_seeker j \<and> ja_pk r \<noteq> ja_pk j"
    if "r \<in> set (db_job_applications db)" for r
    using that assms(3) by (auto simp: other_pending_applications_def pending_applications_def is_pending_def
        ja_table_ok_def distinct_map inj_on_def image_iff)
  have keys: "map ja_pk ?m = map ja_pk (db_job_applications db)" by (rule map_rows_key) simp
  have "j' \<in> set (db_job_applications db')"
  proof -
    have "ja_pk j \<in> set (map ja_pk ?m)" unfolding keys using assms(4) by simp
    then obtain r where "r \<in> set ?m" "ja_pk r = ja_pk j" by auto
    then show ?thesis unfolding rows by (rule map_rows_updated)
  qed
  moreover have "(if is_pending k \<and> ja_job_seeker k = ja_job_seeker j then ja_moved now T_RENDER_OBSOLETE k else k)
      \<in> set (db_job_applications db')" if "k \<in> set (db_job_applications db)" "ja_pk k \<noteq> ja_pk j" for k
  proof -
    let ?r = "if is_pending k \<and> ja_job_seeker k = ja_job_seeker j then ja_moved now T_RENDER_OBSOLETE k else k"
    have "?r \<in> set ?m"
    proof (cases "is_pending k \<and> ja_job_seeker k = ja_job_seeker j")
      case True
      then have "ja_pk k \<in> ja_pk ` set ?ks" using mem [OF that(1)] that(2) by simp
      with that(1) have "ja_moved now T_RENDER_OBSOLETE k \<in> set ?m" by (rule map_rows_updated)
      then show ?thesis by (simp only: True simp_thms if_True)
    next
      case False
      then have "ja_pk k \<notin> ja_pk ` set ?ks" using mem [OF that(1)] by auto
      with that(1) have "k \<in> set ?m" by (rule map_rows_kept)
      then show ?thesis by (simp only: False if_False)
    qed
    moreover have "ja_pk ?r \<noteq> ja_pk j" using that(2) by simp
    ultimately show ?thesis unfolding rows by (rule map_rows_kept)
  qed
  moreover have "\<not> is_pending k \<or> k = j'"
    if "k \<in> set (db_job_applications db')" "ja_job_seeker k = ja_job_seeker j" for k
  proof -
    note k = that
    obtain x where x: "x \<in> set ?m" "k = (if ja_pk x = ja_pk j then j' else x)"
      using k(1) unfolding rows set_map_rows [of _ _ ?m] by blast
    obtain y where y: "y \<in> set (db_job_applications db)"
      "x = (if ja_pk y \<in> ja_pk ` set ?ks then ja_moved now T_RENDER_OBSOLETE y else y)"
      using x(1) unfolding set_map_rows by blast
    have "ja_pk x = ja_pk y" using y(2) by simp
    then consider "k = j'" | r where "r \<in> set (db_job_applications db)" "ja_pk r \<noteq> ja_pk j"
        "k = (if ja_pk r \<in> ja_pk ` set ?ks then ja_moved now T_RENDER_OBSOLETE r else r)"
      using x(2) y by metis
    then show ?thesis
    proof cases
      case (2 r)
      then show ?thesis using mem [OF 2(1)] k(2)
        by (cases "ja_pk r \<in> ja_pk ` set ?ks") (auto simp: is_pending_def pending_states_def)
    qed simp
  qed
  ultimately show ?thesis using j'(1) by simp
qed

lemma accept_blocked:
  assumes "engine_law run" "ja_state j \<in> set can_be_accepted_states" "ja_hiring_start_at j = Some h"
    and "get_row us_pk (ja_job_seeker j) (db_users db) = Some u" "get_row jp_user (ja_job_seeker j) (db_profiles db) = Some p"
    and "get_row co_pk (ja_to_company j) (db_companies db) = Some c" "us_kind user \<noteq> KIND_ITOU_STAFF"
    and "new_approval_blocked_by_waiting_period pm today u c (ja_sender_organization db j) db"
  shows "ja_accept run pm today now user kind unknown j db =
    Inl (AbortTransition ''Job seeker has an approval in waiting period.'')"
proof -
  let ?j = "ja_before now T_ACCEPT j"
  have iae: "is_subject_to_iae_rules c" "has_latest_approval_in_waiting_period pm today u (db_approvals db)"
    using assms(8) by (auto simp: new_approval_blocked_by_waiting_period_def Let_def)
  obtain j1 where j1: "accept_link_iae pm today user u c db ?j = Inr j1"
    "ja_sender_organization db j1 = ja_sender_organization db j"
    using assms(7) iae by (auto simp: accept_link_iae_def ja_sender_organization_def)
  have "accept_approval pm today now u p c h (accept_link_geiq today u c db j1) db =
      Inl (AbortTransition ''Job seeker has an approval in waiting period.'')"
    using iae assms(8) j1(2) by (simp add: accept_approval_def)
  then have "accept_body run pm today now user kind unknown ?j db =
      Inl (AbortTransition ''Job seeker has an approval in waiting period.'')"
    using assms(3-6) j1(1) by (simp add: accept_body_def)
  then show ?thesis unfolding ja_accept_def using assms(2)
    by (subst engine_eq [OF assms(1)]) (simp_all add: ja_call_def)
qed

section \<open>Effects of a cancellation and of a transfer\<close>

lemma cancel_effects:
  assumes "engine_law run" "ja_cancel run now by_user j db = Inr (j', db')"
  shows "ja_state j' = JA_CANCELLED \<and> ja_accepted j' = accepted_only_defaults \<and> ja_origin j \<noteq> JO_AI_STOCK \<and>
    (\<forall>e \<in> set (ja_employee_records db j). \<not> er_was_sent (db_er_logs db) e) \<and>
    db_employee_records db' = filter (\<lambda>e. er_pk e \<notin> er_pk ` set (ja_employee_records db j)) (db_employee_records db) \<and>
    (\<forall>a. af_approval (ja_accepted j) = Some (ap_pk a) \<longrightarrow> get_row ap_pk (ap_pk a) (db_approvals db) = Some a \<longrightarrow>
       can_be_deleted a (db_job_applications db) \<longrightarrow>
       ap_pk a \<notin> ap_pk ` set (db_approvals db') \<and> ap_number a \<in> ca_number ` set (db_cancelled_approvals db'))"
proof (rule ja_call_InrD [OF assms(1) assms(2) [unfolded ja_cancel_def]])
  fix j1 db1
  let ?j = "ja_before now T_CANCEL j"
  assume b: "cancel_body now ?j db = Inr (j1, db1)"
    and j': "j' = j1\<lparr>ja_state := ja_target T_CANCEL, ja_updated_at := now\<rparr>"
    and db': "db' = db1\<lparr>db_job_applications := map_rows (\<lambda>k. ja_pk k = ja_pk j1) (\<lambda>_. j') (db_job_applications db1),
       db_ja_logs := db_ja_logs db1 @ [\<lparr>jl_job_application = ja_pk j1, jl_transition = T_CANCEL,
         jl_from_state = ja_state j, jl_to_state = ja_target T_CANCEL, jl_user = Some by_user,
         jl_target_company = None, jl_timestamp = now\<rparr>]\<rparr>"
  have recs: "ja_employee_records d ?j = ja_employee_records d j" for d by (simp add: ja_employee_records_def)
  show ?thesis using b
  proof (rule cancel_body_InrD)
    fix db2
    assume c: "can_be_cancelled db ?j" and a: "cancel_approval now ?j db = Inr db2"
      and j1: "j1 = reset_accepted_state ?j" and db1: "db1 = delete_unsent_records ?j db2"
    have unsent: "\<forall>e \<in> set (ja_employee_records db j). \<not> er_was_sent (db_er_logs db) e" "ja_origin j \<noteq> JO_AI_STOCK"
      using c by (auto simp: can_be_cancelled_def recs list_ex_iff split: if_splits)
    note F = cancel_approval_frame [OF a]
    have "ja_employee_records db2 j = ja_employee_records db j" using F(1) by (simp add: ja_employee_records_def)
    then have "db_employee_records db1 =
        filter (\<lambda>e. er_pk e \<notin> er_pk ` set (ja_employee_records db j)) (db_employee_records db)"
      using delete_unsent_loop [of "ja_employee_records db j" db2] unsent(1) F(1,2)
      by (simp add: db1 delete_unsent_records_def recs)
    moreover have "ap_pk x \<notin> ap_pk ` set (db_approvals db1) \<and> ap_number x \<in> ca_number ` set (db_cancelled_approvals db1)"
      if x: "af_approval (ja_accepted j) = Some (ap_pk x)" "get_row ap_pk (ap_pk x) (db_approvals db) = Some x"
        "can_be_deleted x (db_job_applications db)" for x
    proof -
      have del: "approval_delete now x db = Inr db2" using a x by (simp add: cancel_approval_def)
      show ?thesis
      proof (rule approval_delete_InrD [OF del])
        fix u p
        assume "cascade_delete_approval now (ap_pk x)
          (db\<lparr>db_cancelled_approvals := db_cancelled_approvals db @
              [cancelled_from_approval now (next_pk ca_pk (db_cancelled_approvals db)) x u p],
            db_job_applications := clear_approval_of_applications (ap_pk x) (db_job_applications db)\<rparr>) = Inr db2"
        from cascade_delete_rows [OF this] show ?thesis
          by (auto simp: db1 cancelled_from_approval_def)
      qed
    qed
    ultimately show ?thesis using unsent by (simp add: db' j' j1 reset_accepted_state_def)
  qed
qed

lemma cancel_refused:
  assumes "engine_law run" "ja_state j = JA_ACCEPTED" "\<not> can_be_cancelled db j"
  shows "\<exists>m. ja_cancel run now by_user j db = Inl (AbortTransition m)"
proof -
  have "\<not> can_be_cancelled db (ja_before now T_CANCEL j)"
    using assms(3) by (simp add: can_be_cancelled_def ja_employee_records_def split: if_splits)
  then show ?thesis unfolding ja_cancel_def using assms(2)
    by (subst engine_eq [OF assms(1)]) (simp_all add: ja_call_def cancel_body_def)
qed

lemma transfer_spec:
  assumes "engine_law run" "ja_constraints j" "ja_state j \<in> set (ja_sources T_TRANSFER)"
  shows "if can_be_transferred user target db j
    then \<exists>j' db'. ja_transfer run now user target j db = Inr (j', db') \<and> ja_state j' = JA_NEW \<and>
      ja_to_company j' = target \<and> ja_transferred_from j' = Some (ja_to_company j) \<and>
      ja_transferred_by j' = Some (us_pk user) \<and> ja_answer j' = [] \<and> ja_answer_to_prescriber j' = [] \<and>
      ja_accepted j' = accepted_only_defaults \<and> ja_processed_at j' = None \<and> ja_archived_at j' = None \<and>
      db_comments db' = filter (\<lambda>c. jc_job_application c \<noteq> ja_pk j) (db_comments db) \<and> ja_constraints j'
    else ja_transfer run now user target j db = Inl (ValidationError ''not transferable'')"
proof -
  let ?j = "ja_before now T_TRANSFER j"
  have same: "can_be_transferred user target db ?j = can_be_transferred user target db j"
    by (simp add: can_be_transferred_def)
  let ?t = "(reset_accepted_state (?j\<lparr>ja_transferred_from := Some (ja_to_company j),
            ja_transferred_by := Some (us_pk user), ja_transferred_at := Some now,
            ja_to_company := target, ja_state := JA_NEW, ja_answer := [], ja_answer_to_prescriber := []\<rparr>))"
  have ok: "ja_constraints (?t\<lparr>ja_state := JA_NEW, ja_updated_at := now\<rparr>)"
  proof -
    have "ja_state j \<noteq> JA_ACCEPTED" using assms(3) by (auto simp: can_be_accepted_states_def)
    then have m: "ja_constraints (ja_moved now T_TRANSFER j)" by (rule moved_constraints [OF assms(2,3)])
    have "ja_sender_coherence (?t\<lparr>ja_state := JA_NEW, ja_updated_at := now\<rparr>) = ja_sender_coherence (ja_moved now T_TRANSFER j)"
      by (simp add: ja_sender_coherence_def reset_accepted_state_def ja_moved_def cong: option.case_cong)
    then show ?thesis using m
      by (simp add: ja_constraints_def ja_state_coherence_def reset_accepted_state_def ja_moved_def
          accepted_only_defaults_def job_application_processed_states_def)
  qed
  have hooks: "ja_processed_at ?j = None" "ja_archived_at ?j = None"
    by (simp_all add: ja_before_def Let_def ja_states_defs)
  have "ja_transfer run now user target j db =
      rbind (transfer_body now user target ?j db) (\<lambda>(j1, db1). ja_save_and_log now T_TRANSFER (Some (us_pk user)) (Some target)
        (ja_state j) (j1\<lparr>ja_state := JA_NEW\<rparr>) db1)"
    unfolding ja_transfer_def using assms(3)
    by (subst engine_eq [OF assms(1)]) (simp_all add: ja_call_def)
  then show ?thesis using ok hooks
    by (simp add: transfer_body_def same ja_save_and_log_def ja_save_def Let_def reset_accepted_state_def)
qed

end
