(* ===== verification/Job_Application_Properties.thy ===== *)
theory Job_Application_Properties
  imports Hiring_Effects Samples
begin

text \<open>
  The properties of the job applications: what any sequence of transitions keeps, totality of the simple
  transitions, effects and refusals of an acceptance, of a cancellation and of a transfer, and the
  memberships that allow a transfer.
\<close>

section \<open>Workflow\<close>

text \<open>C24.  Whatever sequence of transitions a new job application goes through, its log is a
  path of the workflow graph from NEW to its state, and every row of the table keeps the check
  constraints (coherence of the sender, of the archive, of the processing date, of the fields reserved to
  accepted applications, of the GEIQ contract).\<close>

theorem application_history:
  assumes "ja_wf.performs j db j' db'" "ja_table_ok (db_job_applications db)"
    and "ja_state j = JA_NEW" "ja_log_of j db = []"
  shows "ja_table_ok (db_job_applications db') \<and>
    log_path ja_sources ja_target JA_NEW (ja_log_of j' db') (ja_state j')"
  using ja_performs_table_ok [OF assms(1,2)] ja_wf.performs_path [OF assms(1)] assms(3,4) by auto

definition second_application :: job_application where
  "second_application = sample_application\<lparr>ja_pk := 2, ja_to_company := 2\<rparr>"

definition hiring_db :: db where
  "hiring_db = sample_db\<lparr>db_job_applications := [sample_application, second_application],
     db_employee_records := []\<rparr>"

definition accept_result :: "job_application \<times> db" where
  "accept_result = projr (ja_accept reference_engine thirty_day_months 100 7 sample_professional ACT_ACCEPT False
     sample_application hiring_db)"

definition cancel_result :: "job_application \<times> db" where
  "cancel_result = projr (ja_cancel reference_engine 8 2 (fst accept_result) (snd accept_result))"

lemma accept_result_ok: "ja_accept reference_engine thirty_day_months 100 7 sample_professional ACT_ACCEPT False
    sample_application hiring_db = Inr (fst accept_result, snd accept_result)"
  by code_simp

lemma cancel_result_ok: "ja_cancel reference_engine 8 2 (fst accept_result) (snd accept_result) =
    Inr (fst cancel_result, snd cancel_result)"
  by code_simp

lemma hiring_db_ok: "ja_table_ok (db_job_applications hiring_db)"
  by code_simp

theorem application_history_witness:
  "log_path ja_sources ja_target JA_NEW (ja_log_of (fst cancel_result) (snd cancel_result)) JA_CANCELLED"
proof -
  have "ja_wf.performs sample_application hiring_db (fst cancel_result) (snd cancel_result)"
    by (rule ja_wf.performs.more [OF ja_wf.performs.more [OF ja_wf.performs.none ja_step.accept [OF _ accept_result_ok]]
      ja_step.cancel [OF _ cancel_result_ok]]) simp_all
  moreover have "ja_state sample_application = JA_NEW" "ja_log_of sample_application hiring_db = []" by code_simp+
  moreover have "ja_state (fst cancel_result) = JA_CANCELLED" by code_simp
  ultimately show ?thesis using application_history hiring_db_ok by metis
qed

text \<open>A transition without an implementation of its own never raises an integrity error on a
  coherent application: from a source state it succeeds with the dates its hooks set, from any other
  state it is refused as invalid and nothing changes.\<close>

lemma simple_transitions_total:
  assumes "engine_law run" "ja_constraints j" "t \<notin> {T_ACCEPT, T_CANCEL, T_TRANSFER}"
  shows "ja_plain_transition run now t user target j db =
    (if ja_state j \<in> set (ja_sources t)
     then Inr (ja_moved now t j,
       db\<lparr>db_job_applications := map_rows (\<lambda>k. ja_pk k = ja_pk j) (\<lambda>_. ja_moved now t j) (db_job_applications db),
          db_ja_logs := db_ja_logs db @ [plain_log now t user target j]\<rparr>)
     else Inl InvalidTransitionError)"
proof (cases "ja_state j \<in> set (ja_sources t)")
  case True
  then have "ja_state j \<noteq> JA_ACCEPTED" using assms(3) by (cases t) (auto simp: can_add_prior_action_states_def)
  then show ?thesis using plain_transition_eq [OF assms(1) True assms(2)] True by simp
next
  case False
  then show ?thesis unfolding ja_plain_transition_def
    by (simp add: engine_invalid [OF assms(1)] ja_call_def)
qed

section \<open>Acceptance\<close>

text \<open>C25.  After an acceptance the application is accepted and stored; every other pending
  application of the job seeker has become OBSOLETE and keeps the rest of its data, all the other
  applications are untouched, and no other application of the job seeker is pending.\<close>

theorem accept_closes_other_applications:
  assumes "engine_law run" "ja_accept run pm today now user kind unknown j db = Inr (j', db')"
    and "ja_table_ok (db_job_applications db)" "ja_pk j \<in> ja_pk ` set (db_job_applications db)"
  shows "ja_state j' = JA_ACCEPTED \<and> j' \<in> set (db_job_applications db') \<and>
    (\<forall>k \<in> set (db_job_applications db). ja_pk k \<noteq> ja_pk j \<longrightarrow>
       (if is_pending k \<and> ja_job_seeker k = ja_job_seeker j then ja_moved now T_RENDER_OBSOLETE k else k)
         \<in> set (db_job_applications db')) \<and>
    (\<forall>k \<in> set (db_job_applications db'). ja_job_seeker k = ja_job_seeker j \<longrightarrow> \<not> is_pending k \<or> k = j')"
  using accept_others [OF assms] .

theorem accept_closes_other_applications_witness:
  "ja_state (fst accept_result) = JA_ACCEPTED \<and>
   ja_moved 7 T_RENDER_OBSOLETE second_application \<in> set (db_job_applications (snd accept_result))"
proof -
  have k: "ja_pk sample_application \<in> ja_pk ` set (db_job_applications hiring_db)" by code_simp
  have s: "second_application \<in> set (db_job_applications hiring_db)" "ja_pk second_application \<noteq> ja_pk sample_application"
    "is_pending second_application \<and> ja_job_seeker second_application = ja_job_seeker sample_application" by code_simp+
  from accept_closes_other_applications [OF reference_engine_law accept_result_ok hiring_db_ok k] s
  show ?thesis by (metis (full_types))
qed

text \<open>C26.  Accepting in an IAE structure links a PASS IAE held by the job seeker and delivers it: the valid one
  when there is one, which does not end before the hiring, and otherwise a new one, issued only to an
  identified job seeker with an eligibility diagnosis.  Without identification the delivery is manual.\<close>

theorem accept_links_pass:
  assumes "engine_law run" "ja_accept run pm today now user kind unknown j db = Inr (j', db')"
    and "ja_table_ok (db_job_applications db)" "ja_constraints j" "approval_table_ok (db_approvals db)"
    and "get_row us_pk (ja_job_seeker j) (db_users db) = Some u" "get_row jp_user (ja_job_seeker j) (db_profiles db) = Some p"
    and "get_row co_pk (ja_to_company j) (db_companies db) = Some c" "is_subject_to_iae_rules c"
    and "ja_hiring_start_at j = Some h"
  shows "case af_approval (ja_accepted j') of
      None \<Rightarrow> af_approval_delivery_mode (ja_accepted j') = Some DELIVERY_MANUAL \<and>
        \<not> has_valid_approval pm today u (db_approvals db) \<and> \<not> identified_for_approval p
    | Some k \<Rightarrow> af_approval_delivery_mode (ja_accepted j') = Some DELIVERY_AUTOMATIC \<and>
        af_approval_number_sent_by_email (ja_accepted j') \<and> holder db' k = Some (us_pk u) \<and>
        (if has_valid_approval pm today u (db_approvals db)
         then \<exists>a. latest_approval pm today u (db_approvals db) = Some a \<and> ap_pk a = k \<and> h \<le> ap_end_at a
         else k \<notin> ap_pk ` set (db_approvals db) \<and> identified_for_approval p \<and>
           af_eligibility_diagnosis (ja_accepted j') \<noteq> None)"
  using accept_links [OF assms] .

theorem accept_links_pass_witness:
  "af_approval (ja_accepted (fst accept_result)) = Some 1 \<and> holder (snd accept_result) 1 = Some 1"
proof -
  have a: "ja_constraints sample_application" "approval_table_ok (db_approvals hiring_db)" by code_simp+
  have r: "get_row us_pk (ja_job_seeker sample_application) (db_users hiring_db) = Some sample_user"
    "get_row jp_user (ja_job_seeker sample_application) (db_profiles hiring_db) = Some sample_profile"
    "get_row co_pk (ja_to_company sample_application) (db_companies hiring_db) = Some sample_company"
    "is_subject_to_iae_rules sample_company" "ja_hiring_start_at sample_application = Some 110" by code_simp+
  have k: "af_approval (ja_accepted (fst accept_result)) = Some 1" "us_pk sample_user = 1" by code_simp+
  from accept_links_pass [OF reference_engine_law accept_result_ok hiring_db_ok a r] k show ?thesis by simp
qed

text \<open>When a new PASS IAE is blocked by the waiting period, accepting in an IAE structure is
  aborted, whoever accepts but the platform's staff and whatever the rest of the data.\<close>

lemma accept_refused_in_waiting_period:
  assumes "engine_law run" "ja_state j \<in> set can_be_accepted_states" "ja_hiring_start_at j = Some h"
    and "get_row us_pk (ja_job_seeker j) (db_users db) = Some u" "get_row jp_user (ja_job_seeker j) (db_profiles db) = Some p"
    and "get_row co_pk (ja_to_company j) (db_companies db) = Some c" "us_kind user \<noteq> KIND_ITOU_STAFF"
    and "new_approval_blocked_by_waiting_period pm today u c (ja_sender_organization db j) db"
  shows "ja_accept run pm today now user kind unknown j db =
    Inl (AbortTransition ''Job seeker has an approval in waiting period.'')"
  using accept_blocked [OF assms] .

section \<open>Cancellation and transfer\<close>

text \<open>C27.  A cancellation that succeeds leaves a cancelled application without any of the data reserved to
  accepted ones; no employee record of it had been sent and all of them are deleted, and no other; a
  PASS IAE that only this hiring used is deleted and kept as a cancelled approval.\<close>

theorem cancel_undoes_hiring:
  assumes "engine_law run" "ja_cancel run now by_user j db = Inr (j', db')"
  shows "ja_state j' = JA_CANCELLED \<and> ja_accepted j' = accepted_only_defaults \<and> ja_origin j \<noteq> JO_AI_STOCK \<and>
    (\<forall>e \<in> set (ja_employee_records db j). \<not> er_was_sent (db_er_logs db) e) \<and>
    db_employee_records db' = filter (\<lambda>e. er_pk e \<notin> er_pk ` set (ja_employee_records db j)) (db_employee_records db) \<and>
    (\<forall>a. af_approval (ja_accepted j) = Some (ap_pk a) \<longrightarrow> get_row ap_pk (ap_pk a) (db_approvals db) = Some a \<longrightarrow>
       can_be_deleted a (db_job_applications db) \<longrightarrow>
       ap_pk a \<notin> ap_pk ` set (db_approvals db') \<and> ap_number a \<in> ca_number ` set (db_cancelled_approvals db'))"
  using cancel_effects [OF assms] .

theorem cancel_undoes_hiring_witness:
  "ja_state (fst cancel_result) = JA_CANCELLED \<and> 1 \<notin> ap_pk ` set (db_approvals (snd cancel_result))"
proof -
  let ?a = "sample_approval"
  have "af_approval (ja_accepted (fst accept_result)) = Some (ap_pk ?a)" by code_simp
  moreover have "get_row ap_pk (ap_pk ?a) (db_approvals (snd accept_result)) = Some ?a" by code_simp
  moreover have "can_be_deleted ?a (db_job_applications (snd accept_result))" "ap_pk ?a = 1" by code_simp+
  ultimately show ?thesis using cancel_undoes_hiring [OF reference_engine_law cancel_result_ok] by metis
qed

text \<open>Once data of the hiring was sent to the ASP, or for an application of the AI stock, an
  accepted application cannot be cancelled: the transition is aborted.\<close>

lemma cancel_refused_after_sending:
  assumes "engine_law run" "ja_state j = JA_ACCEPTED"
    and "ja_origin j = JO_AI_STOCK \<or> (\<exists>e \<in> set (ja_employee_records db j). er_was_sent (db_er_logs db) e)"
  shows "\<exists>m. ja_cancel run now by_user j db = Inl (AbortTransition m)"
  by (rule cancel_refused [OF assms(1,2)]) (use assms(3) in \<open>auto simp: can_be_cancelled_def list_ex_iff\<close>)

text \<open>From a source state a transfer succeeds exactly when \<open>can_be_transferred\<close> allows it (a
  professional, active member of both companies, and a different company); the application then is a new
  one for the target: no answer, no date of processing, no archive, no comment, and it is refused with a
  validation error otherwise.\<close>

lemma transfer_restarts_application:
  assumes "engine_law run" "ja_constraints j" "ja_state j \<in> set (ja_sources T_TRANSFER)"
  shows "if can_be_transferred user target db j
    then \<exists>j' db'. ja_transfer run now user target j db = Inr (j', db') \<and> ja_state j' = JA_NEW \<and>
      ja_to_company j' = target \<and> ja_transferred_from j' = Some (ja_to_company j) \<and>
      ja_transferred_by j' = Some (us_pk user) \<and> ja_answer j' = [] \<and> ja_answer_to_prescriber j' = [] \<and>
      ja_accepted j' = accepted_only_defaults \<and> ja_processed_at j' = None \<and> ja_archived_at j' = None \<and>
      db_comments db' = filter (\<lambda>c. jc_job_application c \<noteq> ja_pk j) (db_comments db) \<and> ja_constraints j'
    else ja_transfer run now user target j db = Inl (ValidationError ''not transferable'')"
  using transfer_spec [OF assms] .

section \<open>Memberships\<close>

text \<open>A membership that is added or activated makes an active user a member, and an administrator when the
  organization had no active member; the pairs of user and organization stay unique, members stay
  professionals, and a deactivation takes both roles away from that user only.\<close>

lemma membership_roles:
  assumes "memberships_ok us t" "add_or_activate_membership now us org u None t = Inr (m, t')"
    and "u \<in> set us" "us_is_active u" "distinct (map us_pk us)"
  shows "memberships_ok us t' \<and> has_member us t' org (us_pk u) \<and>
    (\<not> has_members us t org \<longrightarrow> has_admin us t' org (us_pk u)) \<and>
    (\<forall>t'' by_user. deactivate_membership us org m by_user t' = Inr t'' \<longrightarrow>
       memberships_ok us t'' \<and> \<not> has_member us t'' org (us_pk u) \<and> \<not> has_admin us t'' org (us_pk u) \<and>
       (\<forall>k o'. k \<noteq> us_pk u \<longrightarrow> has_member us t'' o' k = has_member us t' o' k))"
proof -
  note A = add_membership_spec [OF assms(2)]
  have act: "membership_user_active us m"
    using A(2) get_row_Some_iff [OF assms(5), of "us_pk u" u] assms(3,4) by (simp add: membership_user_active_def)
  have ok: "memberships_ok us t'" by (rule membership_step_ok [OF membership_step.add [OF assms(2)] assms(1)])
  have adm: "has_admin us t' org (us_pk u)" if "\<not> has_members us t org"
  proof -
    have "organization_memberships us t org = []"
      using that organization_memberships_empty by blast
    then show ?thesis using A(1-5) act assms(3) by (auto simp: has_admin_iff)
  qed
  have "memberships_ok us t'' \<and> \<not> has_member us t'' org (us_pk u) \<and> \<not> has_admin us t'' org (us_pk u) \<and>
      (\<forall>k o'. k \<noteq> us_pk u \<longrightarrow> has_member us t'' o' k = has_member us t' o' k)"
    if "deactivate_membership us org m by_user t' = Inr t''" for t'' by_user
    using deactivate_spec [OF that] membership_step_ok [OF membership_step.deactivate [OF that] ok] A(2) by auto
  then show ?thesis using ok adm A(1-4) act assms(3) by (auto simp: has_member_iff)
qed

end
