(* ===== verification/Invitations.thy ===== *)
theory Invitations
  imports Organizations
begin

text \<open>
  \<open>invitations/models.py\<close>, \<open>www/invitations_views/helpers.py\<close> and \<open>expire_invitations\<close>
  (\<open>common_apps/organizations/models.py\<close>): the invitations to join a company, a prescriber organization or an
  institution, with the memberships they create.  The three tables of memberships are a function of the
  kind of the invitation; whether a company is active is an argument.  Dates are taken in the time zone of
  the date-times.  E-mails are not modelled.
\<close>

section \<open>Data\<close>

datatype invitation_kind = EMPLOYER_INVITATION | PRESCRIBER_INVITATION | LABOR_INSPECTOR_INVITATION

record invitation =
  iv_pk :: pk
  iv_kind :: invitation_kind
  iv_email :: string
  iv_validity_days :: nat
  iv_sent_at :: "datetime option"
  iv_accepted_at :: "datetime option"
  iv_sender :: pk
  iv_target :: pk

record invitation_db =
  nv_invitations :: "invitation list"
  nv_memberships :: "invitation_kind \<Rightarrow> membership list"

definition default_validity_days :: nat where "default_validity_days = 14"

definition get_model_from_string :: "string \<Rightarrow> error + invitation_kind" where
  "get_model_from_string s =
     (if s = ''employer'' then Inr EMPLOYER_INVITATION
      else if s = ''prescriber'' then Inr PRESCRIBER_INVITATION
      else if s = ''labor_inspector'' then Inr LABOR_INSPECTOR_INVITATION
      else Inl (TypeError ''get_model_from_string''))"

section \<open>Validity\<close>

definition day_of :: "datetime \<Rightarrow> date" where "day_of t = t div one_day"

definition valid_lookup :: "date \<Rightarrow> invitation \<Rightarrow> bool" where
  "valid_lookup today i = (case iv_sent_at i of None \<Rightarrow> False | Some t \<Rightarrow> today - int (iv_validity_days i) < day_of t)"

definition valid_invitations :: "date \<Rightarrow> invitation list \<Rightarrow> invitation list" where
  "valid_invitations today is = filter (valid_lookup today) is"

definition expired_invitations :: "date \<Rightarrow> invitation list \<Rightarrow> invitation list" where
  "expired_invitations today is = filter (\<lambda>i. \<not> valid_lookup today i) is"

definition is_pending_invitation :: "date \<Rightarrow> invitation \<Rightarrow> bool" where
  "is_pending_invitation today i \<longleftrightarrow> valid_lookup today i \<and> iv_accepted_at i = None"

definition pending_invitations :: "date \<Rightarrow> invitation list \<Rightarrow> invitation list" where
  "pending_invitations today is =
     sort_key (\<lambda>i. case iv_sent_at i of None \<Rightarrow> 0 | Some t \<Rightarrow> t) (filter (is_pending_invitation today) is)"

definition expiration_date :: "invitation \<Rightarrow> error + datetime" where
  "expiration_date i =
     (case iv_sent_at i of None \<Rightarrow> Inl (TypeError ''sent_at'') | Some t \<Rightarrow> Inr (t + day_delta (int (iv_validity_days i))))"

definition has_expired :: "datetime \<Rightarrow> invitation \<Rightarrow> error + bool" where
  "has_expired now i = rbind (expiration_date i) (\<lambda>e. Inr (e \<le> now))"

definition can_be_accepted :: "(pk \<Rightarrow> bool) \<Rightarrow> datetime \<Rightarrow> invitation \<Rightarrow> bool" where
  "can_be_accepted company_active now i \<longleftrightarrow>
     iv_sent_at i \<noteq> None \<and> iv_accepted_at i = None \<and> has_expired now i = Inr False \<and>
     (iv_kind i = EMPLOYER_INVITATION \<longrightarrow> company_active (iv_target i))"

section \<open>Operations\<close>

definition update_invitation :: "pk \<Rightarrow> (invitation \<Rightarrow> invitation) \<Rightarrow> invitation_db \<Rightarrow> invitation_db" where
  "update_invitation p f x = x\<lparr>nv_invitations := map_rows (\<lambda>i. iv_pk i = p) f (nv_invitations x)\<rparr>"

definition send_invitation :: "datetime \<Rightarrow> invitation \<Rightarrow> invitation_db \<Rightarrow> invitation_db" where
  "send_invitation now i x = update_invitation (iv_pk i) (\<lambda>r. r\<lparr>iv_sent_at := Some now\<rparr>) x"

definition accept_invitation :: "datetime \<Rightarrow> invitation \<Rightarrow> invitation_db \<Rightarrow> invitation_db" where
  "accept_invitation now i x = update_invitation (iv_pk i) (\<lambda>r. r\<lparr>iv_accepted_at := Some now\<rparr>) x"

text \<open>Both updates of \<open>expire_invitations\<close>: the invitations to the user, then those sent by the user.\<close>

definition expire_invitations :: "date \<Rightarrow> invitation_kind \<Rightarrow> pk \<Rightarrow> user \<Rightarrow> invitation list \<Rightarrow> invitation list" where
  "expire_invitations today k org u is =
     map_rows (\<lambda>i. iv_kind i = k \<and> iv_target i = org \<and> is_pending_invitation today i \<and> iv_sender i = us_pk u)
       (\<lambda>i. i\<lparr>iv_validity_days := 0\<rparr>)
       (map_rows (\<lambda>i. iv_kind i = k \<and> iv_target i = org \<and> is_pending_invitation today i \<and> Some (iv_email i) = us_email u)
         (\<lambda>i. i\<lparr>iv_validity_days := 0\<rparr>) is)"

definition join_organization ::
  "datetime \<Rightarrow> user list \<Rightarrow> invitation_kind \<Rightarrow> pk \<Rightarrow> user \<Rightarrow> invitation_db \<Rightarrow> error + invitation_db" where
  "join_organization now us k org u x =
     rbind (add_or_activate_membership now us org u None (nv_memberships x k)) (\<lambda>(m, t).
     Inr (x\<lparr>nv_memberships := (nv_memberships x)(k := t),
            nv_invitations := expire_invitations (day_of now) k org u (nv_invitations x)\<rparr>))"

definition leave_organization ::
  "datetime \<Rightarrow> user list \<Rightarrow> invitation_kind \<Rightarrow> pk \<Rightarrow> membership \<Rightarrow> user \<Rightarrow> pk \<Rightarrow> invitation_db \<Rightarrow> error + invitation_db" where
  "leave_organization now us k org m u updated_by x =
     rbind (deactivate_membership us org m updated_by (nv_memberships x k)) (\<lambda>t.
     Inr (x\<lparr>nv_memberships := (nv_memberships x)(k := t),
            nv_invitations := expire_invitations (day_of now) k org u (nv_invitations x)\<rparr>))"

text \<open>The e-mail of a user is a \<open>CIEmailField\<close>: it is looked up without regard to case, while the e-mail of an
  invitation is compared exactly.\<close>

definition invited_user :: "user list \<Rightarrow> invitation \<Rightarrow> user option" where
  "invited_user us i = get_row (\<lambda>u. map_option py_upper (us_email u)) (Some (py_upper (iv_email i))) us"

definition guest_can_join :: "user list \<Rightarrow> pk \<Rightarrow> invitation \<Rightarrow> error + bool" where
  "guest_can_join us request_user i =
     (case invited_user us i of
        None \<Rightarrow> Inl Http404
      | Some u \<Rightarrow> Inr (us_pk u = request_user \<and> is_professional u))"

definition add_invited_user :: "datetime \<Rightarrow> user list \<Rightarrow> invitation \<Rightarrow> invitation_db \<Rightarrow> error + invitation_db" where
  "add_invited_user now us i x =
     (case invited_user us i of
        None \<Rightarrow> Inl (DoesNotExist ''User'')
      | Some u \<Rightarrow> join_organization now us (iv_kind i) (iv_target i) u x)"

definition handle_invitation ::
  "(pk \<Rightarrow> bool) \<Rightarrow> datetime \<Rightarrow> user list \<Rightarrow> pk \<Rightarrow> invitation \<Rightarrow> invitation_db \<Rightarrow> error + bool \<times> invitation_db" where
  "handle_invitation company_active now us request_user i x =
     rbind (guest_can_join us request_user i) (\<lambda>ok.
     rbind (guard ok PermissionDenied) (\<lambda>_.
     if can_be_accepted company_active now i
     then rbind (add_invited_user now us i x) (\<lambda>x1. Inr (True, accept_invitation now i x1))
     else Inr (False, x)))"

text \<open>\<open>accept_all_pending_invitations\<close>: the invitations of each kind are read before the loop over them, so
  they keep the validity they had.\<close>

definition accept_pending_of_kind ::
  "(pk \<Rightarrow> bool) \<Rightarrow> datetime \<Rightarrow> user list \<Rightarrow> user \<Rightarrow> invitation_kind \<Rightarrow> invitation list \<times> invitation_db \<Rightarrow>
     error + invitation list \<times> invitation_db" where
  "accept_pending_of_kind company_active now us u k acc =
     rfold (\<lambda>i (done, x). rbind (handle_invitation company_active now us (us_pk u) i x) (\<lambda>(b, x').
        Inr (if b then done @ [i] else done, x')))
       (filter (\<lambda>i. iv_kind i = k \<and> Some (iv_email i) = us_email u)
          (pending_invitations (day_of now) (nv_invitations (snd acc)))) acc"

definition accept_all_pending_invitations ::
  "(pk \<Rightarrow> bool) \<Rightarrow> datetime \<Rightarrow> user list \<Rightarrow> user \<Rightarrow> invitation_db \<Rightarrow> error + invitation list \<times> invitation_db" where
  "accept_all_pending_invitations company_active now us u x =
     rfold (accept_pending_of_kind company_active now us u)
       [PRESCRIBER_INVITATION, EMPLOYER_INVITATION, LABOR_INSPECTOR_INVITATION] ([], x)"

section \<open>Validity by date and by time\<close>

lemma day_of_bounds: "day_of t * one_day \<le> t" "t < (day_of t + 1) * one_day"
  by (simp_all add: day_of_def one_day_def)

text \<open>The query on dates and the property on times agree but for the last day: what the query finds is not
  expired, and what is not expired but not found was sent exactly \<open>validity_days\<close> days ago.\<close>

lemma valid_not_expired:
  assumes "valid_lookup (day_of now) i"
  shows "has_expired now i = Inr False"
proof -
  obtain t where t: "iv_sent_at i = Some t" "day_of now - int (iv_validity_days i) + 1 \<le> day_of t"
    using assms by (auto simp: valid_lookup_def split: option.splits)
  have "(day_of now - int (iv_validity_days i) + 1) * one_day \<le> day_of t * one_day"
    using t(2) by (intro mult_right_mono) (simp_all add: one_day_def)
  then have "now < t + day_delta (int (iv_validity_days i))"
    using day_of_bounds(2) [of now] day_of_bounds(1) [of t] by (simp add: day_delta_def algebra_simps)
  then show ?thesis by (simp add: has_expired_def expiration_date_def t(1))
qed

lemma last_day_only:
  assumes "has_expired now i = Inr False" "\<not> valid_lookup (day_of now) i"
  shows "\<exists>t. iv_sent_at i = Some t \<and> day_of t + int (iv_validity_days i) = day_of now"
proof -
  obtain t where t: "iv_sent_at i = Some t" "now < t + day_delta (int (iv_validity_days i))"
    using assms(1) by (auto simp: has_expired_def expiration_date_def split: option.splits)
  have le: "day_of t + int (iv_validity_days i) \<le> day_of now" using assms(2) t(1) by (simp add: valid_lookup_def)
  have "day_of now * one_day < (day_of t + int (iv_validity_days i) + 1) * one_day"
    using t(2) day_of_bounds(1) [of now] day_of_bounds(2) [of t] by (simp add: day_delta_def algebra_simps)
  then have "day_of now < day_of t + int (iv_validity_days i) + 1"
    by (simp add: one_day_def)
  with le show ?thesis using t(1) by auto
qed

section \<open>Effects\<close>

definition concerns :: "invitation_kind \<Rightarrow> pk \<Rightarrow> user \<Rightarrow> invitation \<Rightarrow> bool" where
  "concerns k org u i \<longleftrightarrow> iv_kind i = k \<and> iv_target i = org \<and> (Some (iv_email i) = us_email u \<or> iv_sender i = us_pk u)"

lemma expire_invitations_eq:
  "expire_invitations today k org u is =
     map (\<lambda>i. if concerns k org u i \<and> is_pending_invitation today i then i\<lparr>iv_validity_days := 0\<rparr> else i) is"
  by (auto simp: expire_invitations_def map_rows_def concerns_def)

lemma expire_invitations_none_pending:
  assumes "\<forall>i \<in> set is. \<forall>t. iv_sent_at i = Some t \<longrightarrow> day_of t \<le> today"
    and "i \<in> set (expire_invitations today k org u is)" "concerns k org u i"
  shows "\<not> is_pending_invitation today i"
proof -
  obtain j where j: "j \<in> set is"
    "i = (if concerns k org u j \<and> is_pending_invitation today j then j\<lparr>iv_validity_days := 0\<rparr> else j)"
    using assms(2) by (auto simp: expire_invitations_eq)
  then show ?thesis
    using assms(1,3) by (auto simp: is_pending_invitation_def valid_lookup_def concerns_def split: if_splits option.splits)
qed

lemma handle_invitation_accepted:
  assumes "handle_invitation ca now us ru i x = Inr (True, x')"
  shows "can_be_accepted ca now i" "\<exists>u t m. invited_user us i = Some u \<and> us_pk u = ru \<and> is_professional u \<and>
    add_or_activate_membership now us (iv_target i) u None (nv_memberships x (iv_kind i)) = Inr (m, t) \<and>
    x' = accept_invitation now i (x\<lparr>nv_memberships := (nv_memberships x)(iv_kind i := t),
      nv_invitations := expire_invitations (day_of now) (iv_kind i) (iv_target i) u (nv_invitations x)\<rparr>)"
  using assms by (auto simp: handle_invitation_def guest_can_join_def add_invited_user_def join_organization_def
      split: option.splits if_splits prod.splits)

lemma added_member:
  assumes "add_or_activate_membership now us org u force t = Inr (m, t')" "u \<in> set us" "us_is_active u"
    "distinct (map us_pk us)"
  shows "has_member us t' org (us_pk u)"
proof -
  note A = add_membership_spec [OF assms(1)]
  have "membership_user_active us m"
    using A(2) get_row_Some_iff [OF assms(4), of "us_pk u" u] assms(2,3) by (simp add: membership_user_active_def)
  then show ?thesis using A(1-4) assms(2) by (auto simp: has_member_iff)
qed

end
