(* ===== verification/Organization_Properties.thy ===== *)
theory Organization_Properties
  imports Invitations Samples
begin

text \<open>The properties of the invitations to join an organization.\<close>

section \<open>Joining\<close>

text \<open>C33.  An invitation accepted by the signed-in user, who is active, was sent to the address of this user, a
  professional, up to case.  The user becomes a member of the organization of the invitation, and every other membership is kept.
  The invitation cannot be accepted again, at any later time.  Afterwards no pending invitation of the organization remains that
  was sent by this user or is written with exactly the address of the user; every invitation of another kind or organization, or
  neither sent by the user nor written with that address, is unchanged.  The tables keep their constraints.  The list of
  pending invitations never shows one that can no longer be accepted in time.\<close>

theorem invitation_joins:
  assumes "handle_invitation company_active now us request_user i x = Inr (True, x')"
    and "i \<in> set (nv_invitations x)" "distinct (map iv_pk (nv_invitations x))"
    and "\<forall>j \<in> set (nv_invitations x). \<forall>t. iv_sent_at j = Some t \<longrightarrow> t \<le> now"
    and "memberships_ok us (nv_memberships x (iv_kind i))" "distinct (map us_pk us)"
    and "\<forall>u \<in> set us. us_pk u = request_user \<longrightarrow> us_is_active u"
  shows "\<exists>u \<in> set us. us_pk u = request_user \<and> is_professional u \<and>
    map_option py_upper (us_email u) = Some (py_upper (iv_email i)) \<and>
    has_member us (nv_memberships x' (iv_kind i)) (iv_target i) request_user \<and>
    memberships_ok us (nv_memberships x' (iv_kind i)) \<and>
    (\<forall>k. k \<noteq> iv_kind i \<longrightarrow> nv_memberships x' k = nv_memberships x k) \<and>
    (\<forall>n \<in> set (nv_memberships x (iv_kind i)). membership_pair n \<noteq> (request_user, iv_target i) \<longrightarrow>
       n \<in> set (nv_memberships x' (iv_kind i))) \<and>
    map iv_pk (nv_invitations x') = map iv_pk (nv_invitations x) \<and>
    (\<forall>j \<in> set (nv_invitations x'). iv_pk j = iv_pk i \<longrightarrow> iv_accepted_at j = Some now \<and>
       (\<forall>later. \<not> can_be_accepted company_active later j)) \<and>
    (\<forall>j \<in> set (nv_invitations x'). concerns (iv_kind i) (iv_target i) u j \<longrightarrow> \<not> is_pending_invitation (day_of now) j) \<and>
    (\<forall>j \<in> set (nv_invitations x). iv_pk j \<noteq> iv_pk i \<and> \<not> concerns (iv_kind i) (iv_target i) u j \<longrightarrow>
       j \<in> set (nv_invitations x')) \<and>
    (\<forall>j. is_pending_invitation (day_of now) j \<longrightarrow> has_expired now j = Inr False)"
proof -
  obtain u t m where u: "invited_user us i = Some u" "us_pk u = request_user" "is_professional u"
    and add: "add_or_activate_membership now us (iv_target i) u None (nv_memberships x (iv_kind i)) = Inr (m, t)"
    and x': "x' = accept_invitation now i (x\<lparr>nv_memberships := (nv_memberships x)(iv_kind i := t),
      nv_invitations := expire_invitations (day_of now) (iv_kind i) (iv_target i) u (nv_invitations x)\<rparr>)"
    using handle_invitation_accepted(2) [OF assms(1)] by blast
  note A = add_membership_spec [OF add]
  have us: "u \<in> set us" using get_row_SomeD [OF u(1) [unfolded invited_user_def]] by blast
  let ?is = "expire_invitations (day_of now) (iv_kind i) (iv_target i) u (nv_invitations x)"
  have rows: "nv_invitations x' = map_rows (\<lambda>j. iv_pk j = iv_pk i) (\<lambda>r. r\<lparr>iv_accepted_at := Some now\<rparr>) ?is"
    and mem: "nv_memberships x' = (nv_memberships x)(iv_kind i := t)"
    by (simp_all add: x' accept_invitation_def update_invitation_def)
  have past: "\<forall>j \<in> set (nv_invitations x). \<forall>t. iv_sent_at j = Some t \<longrightarrow> day_of t \<le> day_of now"
    using assms(4) by (auto simp: day_of_def one_day_def intro: zdiv_mono1)
  have email: "map_option py_upper (us_email u) = Some (py_upper (iv_email i))"
    using get_row_SomeD [OF u(1) [unfolded invited_user_def]] by simp
  have "iv_accepted_at j = Some now \<and> \<not> can_be_accepted company_active later j"
    if "j \<in> set (nv_invitations x')" "iv_pk j = iv_pk i" for j later
    using that by (auto simp: rows set_map_rows can_be_accepted_def)
  moreover have "map iv_pk (nv_invitations x') = map iv_pk (nv_invitations x)"
    by (simp add: rows expire_invitations_eq map_rows_def)
  moreover have "j \<in> set (nv_invitations x')"
    if "j \<in> set (nv_invitations x)" "iv_pk j \<noteq> iv_pk i \<and> \<not> concerns (iv_kind i) (iv_target i) u j" for j
    using that by (force simp: rows expire_invitations_eq map_rows_def image_iff)
  moreover have "\<not> is_pending_invitation (day_of now) j"
    if "j \<in> set (nv_invitations x')" "concerns (iv_kind i) (iv_target i) u j" for j
    using that expire_invitations_none_pending [OF past]
    by (auto simp: rows set_map_rows is_pending_invitation_def concerns_def)
  moreover have "memberships_ok us t" by (rule membership_step_ok [OF membership_step.add [OF add] assms(5)])
  moreover have "has_member us t (iv_target i) request_user"
    using added_member [OF add us _ assms(6)] assms(7) us u(2) by simp
  moreover have "n \<in> set t" if "n \<in> set (nv_memberships x (iv_kind i))" "membership_pair n \<noteq> (request_user, iv_target i)" for n
    using A(6) [OF that(1)] A(2,3) that(2) u(2) by (simp add: membership_pair_def)
  ultimately show ?thesis
    using us u email mem valid_not_expired by (intro bexI [OF _ us]) (simp add: is_pending_invitation_def)
qed

definition sample_invitation :: invitation where
  "sample_invitation = \<lparr>iv_pk = 1, iv_kind = EMPLOYER_INVITATION, iv_email = ''pro@x.fr'', iv_validity_days = 14,
     iv_sent_at = Some 5, iv_accepted_at = None, iv_sender = 3, iv_target = 1\<rparr>"

definition invited_db :: invitation_db where
  "invited_db = \<lparr>nv_invitations = [sample_invitation], nv_memberships = (\<lambda>_. [])\<rparr>"

definition joined_db :: invitation_db where
  "joined_db = snd (projr (handle_invitation (\<lambda>_. True) 9 [sample_user, sample_professional] 2 sample_invitation invited_db))"

theorem invitation_joins_witness:
  "has_member [sample_user, sample_professional] (nv_memberships joined_db EMPLOYER_INVITATION) 1 2"
proof -
  let ?us = "[sample_user, sample_professional]"
  have "is_ok (handle_invitation (\<lambda>_. True) 9 ?us 2 sample_invitation invited_db)"
    "fst (projr (handle_invitation (\<lambda>_. True) 9 ?us 2 sample_invitation invited_db))" by code_simp+
  then have "handle_invitation (\<lambda>_. True) 9 ?us 2 sample_invitation invited_db = Inr (True, joined_db)"
    by (auto simp: is_ok_iff joined_db_def)
  moreover have "sample_invitation \<in> set (nv_invitations invited_db)" "distinct (map iv_pk (nv_invitations invited_db))"
    "\<forall>j \<in> set (nv_invitations invited_db). \<forall>t. iv_sent_at j = Some t \<longrightarrow> t \<le> 9"
    "memberships_ok ?us (nv_memberships invited_db (iv_kind sample_invitation))"
    by (simp_all add: invited_db_def sample_invitation_def memberships_ok_def)
  moreover have "distinct (map us_pk ?us)" "\<forall>u \<in> set ?us. us_pk u = 2 \<longrightarrow> us_is_active u" by code_simp+
  ultimately show ?thesis
    using invitation_joins [of "\<lambda>_. True" 9 ?us 2 sample_invitation invited_db joined_db]
    by (auto simp: sample_invitation_def)
qed

end
