(* ===== verification/Siae_Evaluations.thy ===== *)
theory Siae_Evaluations
  imports Eligibility "HOL-Library.Multiset"
begin

text \<open>
  \<open>siae_evaluations/models.py\<close> and the operations of \<open>www/siae_evaluations_views/views.py\<close>: the a posteriori
  control of the self-prescriptions of the companies.  A campaign selects a sample of companies and of
  their hirings; the companies choose criteria, upload proofs and submit them; the institution reviews
  them; the campaign passes to its adversarial phase and is closed.  The random order of the samples is
  an argument, and so is the department of a company.  E-mails are not modelled.
\<close>

section \<open>Data\<close>

datatype evaluated_app_state = EJ_PENDING | EJ_PROCESSING | EJ_UPLOADED | EJ_SUBMITTED | EJ_ACCEPTED
  | EJ_REFUSED | EJ_REFUSED_2

datatype evaluated_siae_state = ES_PENDING | ES_SUBMITTABLE | ES_SUBMITTED | ES_ACCEPTED | ES_REFUSED
  | ES_ADVERSARIAL_STAGE

datatype review_state = RV_PENDING | RV_ACCEPTED | RV_REFUSED | RV_REFUSED_2

datatype select_criteria_state = SEL_PENDING | SEL_EDITABLE | SEL_NOTEDITABLE

record campaign =
  cg_pk :: pk
  cg_institution :: pk
  cg_percent_set_at :: "datetime option"
  cg_evaluations_asked_at :: "datetime option"
  cg_ended_at :: "datetime option"
  cg_submission_freeze_notified_at :: "datetime option"
  cg_period_start_at :: date
  cg_period_end_at :: date
  cg_chosen_percent :: nat
  cg_adversarial_stage_start :: "date option"

record evaluated_siae =
  es_pk :: pk
  es_campaign :: pk
  es_siae :: pk
  es_reviewed_at :: "datetime option"
  es_final_reviewed_at :: "datetime option"
  es_submission_freezed_at :: "datetime option"
  es_notified_at :: "datetime option"
  es_final_state :: "evaluated_siae_state option"

record evaluated_app =
  ea_pk :: pk
  ea_siae :: pk
  ea_job_application :: pk

record evaluated_criteria =
  ev_pk :: pk
  ev_app :: pk
  ev_criteria :: pk
  ev_proof :: "pk option"
  ev_uploaded_at :: "datetime option"
  ev_submitted_at :: "datetime option"
  ev_review_state :: review_state
  ev_certified :: bool

record sanctions =
  sn_pk :: pk
  sn_siae :: pk
  sn_training_session :: string
  sn_suspension_dates :: "(date \<times> date option) option"
  sn_no_sanction_reason :: string

record app_sanction =
  sj_sanctions :: pk
  sj_app :: pk
  sj_subsidy_cut_percent :: nat

record eval_db =
  xv_campaigns :: "campaign list"
  xv_siaes :: "evaluated_siae list"
  xv_apps :: "evaluated_app list"
  xv_criteria :: "evaluated_criteria list"
  xv_sanctions :: "sanctions list"
  xv_app_sanctions :: "app_sanction list"

definition evaluable_kinds :: "company_kind list" where
  "evaluable_kinds = [AI, EI, ACI, ETTI]"

section \<open>States\<close>

text \<open>\<open>max(states, key=PRIORITY.index, dflt=PENDING)\<close>.\<close>

fun index_of :: "'a \<Rightarrow> 'a list \<Rightarrow> nat" where
  "index_of x [] = 0"
| "index_of x (y # ys) = (if x = y then 0 else Suc (index_of x ys))"

definition highest :: "'s list \<Rightarrow> 's \<Rightarrow> 's list \<Rightarrow> 's" where
  "highest priority dflt states =
     (case states of
        [] \<Rightarrow> dflt
      | s # ss \<Rightarrow> foldl (\<lambda>m x. if index_of m priority < index_of x priority then x else m) s ss)"

definition app_states_priority :: "evaluated_app_state list" where
  "app_states_priority = [EJ_ACCEPTED, EJ_REFUSED, EJ_REFUSED_2, EJ_SUBMITTED, EJ_UPLOADED, EJ_PROCESSING, EJ_PENDING]"

definition siae_states_priority :: "evaluated_siae_state list" where
  "siae_states_priority = [ES_ACCEPTED, ES_REFUSED, ES_SUBMITTED, ES_SUBMITTABLE, ES_PENDING]"

fun state_of_review :: "review_state \<Rightarrow> evaluated_app_state" where
  "state_of_review RV_PENDING = EJ_SUBMITTED"
| "state_of_review RV_ACCEPTED = EJ_ACCEPTED"
| "state_of_review RV_REFUSED = EJ_REFUSED"
| "state_of_review RV_REFUSED_2 = EJ_REFUSED_2"

definition state_of_criteria :: "evaluated_criteria \<Rightarrow> evaluated_app_state" where
  "state_of_criteria c =
     (if ev_certified c then EJ_ACCEPTED
      else if ev_proof c = None then EJ_PROCESSING
      else if ev_submitted_at c = None then EJ_UPLOADED
      else state_of_review (ev_review_state c))"

definition app_criteria :: "eval_db \<Rightarrow> evaluated_app \<Rightarrow> evaluated_criteria list" where
  "app_criteria x a = filter (\<lambda>c. ev_app c = ea_pk a) (xv_criteria x)"

definition compute_state :: "eval_db \<Rightarrow> evaluated_app \<Rightarrow> evaluated_app_state" where
  "compute_state x a = highest app_states_priority EJ_PENDING (map state_of_criteria (app_criteria x a))"

fun siae_state_of_app :: "evaluated_app_state \<Rightarrow> evaluated_siae_state" where
  "siae_state_of_app EJ_PENDING = ES_PENDING"
| "siae_state_of_app EJ_PROCESSING = ES_PENDING"
| "siae_state_of_app EJ_UPLOADED = ES_SUBMITTABLE"
| "siae_state_of_app EJ_SUBMITTED = ES_SUBMITTED"
| "siae_state_of_app EJ_REFUSED = ES_REFUSED"
| "siae_state_of_app EJ_REFUSED_2 = ES_REFUSED"
| "siae_state_of_app EJ_ACCEPTED = ES_ACCEPTED"

definition siae_apps :: "eval_db \<Rightarrow> evaluated_siae \<Rightarrow> evaluated_app list" where
  "siae_apps x s = filter (\<lambda>a. ea_siae a = es_pk s) (xv_apps x)"

definition siae_criteria :: "eval_db \<Rightarrow> evaluated_siae \<Rightarrow> evaluated_criteria list" where
  "siae_criteria x s = concat (map (app_criteria x) (siae_apps x s))"

definition state_from_applications :: "eval_db \<Rightarrow> evaluated_siae \<Rightarrow> evaluated_siae_state" where
  "state_from_applications x s =
     highest siae_states_priority ES_PENDING (map (\<lambda>a. siae_state_of_app (compute_state x a)) (siae_apps x s))"

definition campaign_of :: "eval_db \<Rightarrow> evaluated_siae \<Rightarrow> campaign option" where
  "campaign_of x s = get_row cg_pk (es_campaign s) (xv_campaigns x)"

definition campaign_ended :: "eval_db \<Rightarrow> evaluated_siae \<Rightarrow> bool" where
  "campaign_ended x s = (case campaign_of x s of None \<Rightarrow> False | Some g \<Rightarrow> cg_ended_at g \<noteq> None)"

definition evaluation_is_final :: "eval_db \<Rightarrow> evaluated_siae \<Rightarrow> bool" where
  "evaluation_is_final x s \<longleftrightarrow> es_final_reviewed_at s \<noteq> None \<or> campaign_ended x s"

definition siae_state :: "eval_db \<Rightarrow> evaluated_siae \<Rightarrow> evaluated_siae_state" where
  "siae_state x s =
     (case es_final_state s of
        Some f \<Rightarrow> f
      | None \<Rightarrow>
          let st = state_from_applications x s in
          if st \<in> {ES_PENDING, ES_SUBMITTABLE} then (if evaluation_is_final x s then ES_REFUSED else st)
          else if st = ES_SUBMITTED then (if evaluation_is_final x s then ES_ACCEPTED else st)
          else if es_reviewed_at s \<noteq> None \<and> \<not> evaluation_is_final x s then ES_ADVERSARIAL_STAGE
          else st)"

definition can_review :: "eval_db \<Rightarrow> evaluated_siae \<Rightarrow> bool" where
  "can_review x s \<longleftrightarrow>
     (case es_reviewed_at s of
        None \<Rightarrow> siae_state x s \<in> {ES_ACCEPTED, ES_REFUSED}
      | Some r \<Rightarrow>
          es_final_reviewed_at s = None \<and> siae_state x s = ES_ADVERSARIAL_STAGE \<and>
          \<not> list_ex (\<lambda>c. ev_review_state c = RV_REFUSED \<and>
              (case ev_submitted_at c of None \<Rightarrow> False | Some t \<Rightarrow> t < r)) (siae_criteria x s))"

definition can_submit :: "eval_db \<Rightarrow> evaluated_siae \<Rightarrow> bool" where
  "can_submit x s \<longleftrightarrow> es_submission_freezed_at s = None \<and> siae_state x s = ES_SUBMITTABLE"

definition should_display_pending_action_warning :: "eval_db \<Rightarrow> evaluated_siae \<Rightarrow> bool" where
  "should_display_pending_action_warning x s \<longleftrightarrow>
     es_submission_freezed_at s = None \<and> siae_state x s \<in> {ES_PENDING, ES_SUBMITTABLE, ES_ADVERSARIAL_STAGE}"

definition should_select_criteria :: "eval_db \<Rightarrow> evaluated_siae \<Rightarrow> evaluated_app \<Rightarrow> select_criteria_state" where
  "should_select_criteria x s a =
     (if es_submission_freezed_at s = None then
        (let st = compute_state x a in
         if st = EJ_PENDING then SEL_PENDING
         else if es_reviewed_at s = None \<and> st \<in> {EJ_PROCESSING, EJ_UPLOADED} then SEL_EDITABLE
         else SEL_NOTEDITABLE)
      else SEL_NOTEDITABLE)"

text \<open>\<open>hide_state_from_siae\<close>: in the phase 3bis the comparison with a missing \<open>reviewed_at\<close> raises, and so
  does reading the calendar of a campaign without one.\<close>

definition state_is_from_phase2 :: "datetime option \<Rightarrow> evaluated_criteria list \<Rightarrow> error + bool" where
  "state_is_from_phase2 reviewed_at cs =
     rfold (\<lambda>c acc. if \<not> acc then Inr False
        else (case ev_submitted_at c of
                None \<Rightarrow> Inr False
              | Some t \<Rightarrow> (case reviewed_at of
                  None \<Rightarrow> Inl (TypeError ''comparison with None'') | Some r \<Rightarrow> Inr (t < r)))) cs True"

definition hide_state_from_siae :: "date \<Rightarrow> eval_db \<Rightarrow> evaluated_siae \<Rightarrow> evaluated_app \<Rightarrow> error + bool" where
  "hide_state_from_siae today x s a =
     (if es_submission_freezed_at s = None then Inr False
      else (case (case campaign_of x s of None \<Rightarrow> None | Some g \<Rightarrow> cg_adversarial_stage_start g) of
              None \<Rightarrow> Inl (AttributeError ''adversarial_stage_start'')
            | Some start \<Rightarrow>
                if today \<le> start then Inr True
                else rbind (state_is_from_phase2 (es_reviewed_at s) (app_criteria x a)) (\<lambda>b. Inr (\<not> b))))"

definition can_upload :: "evaluated_siae \<Rightarrow> evaluated_criteria \<Rightarrow> bool" where
  "can_upload s c \<longleftrightarrow>
     (if es_submission_freezed_at s \<noteq> None then False
      else if ev_submitted_at c = None then True
      else ev_review_state c = RV_REFUSED \<and> es_reviewed_at s \<noteq> None)"

definition review_state_for_siae ::
  "date \<Rightarrow> eval_db \<Rightarrow> evaluated_siae \<Rightarrow> evaluated_app \<Rightarrow> evaluated_criteria \<Rightarrow> error + review_state" where
  "review_state_for_siae today x s a c =
     rbind (hide_state_from_siae today x s a) (\<lambda>h. Inr (if h then RV_PENDING else ev_review_state c))"

definition accepted_from_certified_criteria ::
  "administrative_criteria list \<Rightarrow> company_kind \<Rightarrow> eval_db \<Rightarrow> evaluated_app \<Rightarrow> error + bool" where
  "accepted_from_certified_criteria acs kind x a =
     iae_has_required_criteria
       (concat (map (\<lambda>c. if ev_certified c then filter (\<lambda>ac. cr_pk ac = ev_criteria c) acs else []) (app_criteria x a))) kind"

section \<open>Querysets\<close>

definition did_not_send_proof :: "eval_db \<Rightarrow> evaluated_siae list" where
  "did_not_send_proof x = filter (\<lambda>s. \<not> list_ex (\<lambda>c. ev_submitted_at c \<noteq> None) (siae_criteria x s)) (xv_siaes x)"

definition to_control_in_campaign :: "date \<Rightarrow> pk \<Rightarrow> eval_db \<Rightarrow> evaluated_siae list" where
  "to_control_in_campaign today g x =
     filter (\<lambda>s. es_campaign s = g \<and>
        list_ex (\<lambda>c. ev_review_state c = RV_PENDING \<and> ev_submitted_at c \<noteq> None) (siae_criteria x s) \<and>
        (case (case campaign_of x s of None \<Rightarrow> None | Some k \<Rightarrow> cg_adversarial_stage_start k) of
           None \<Rightarrow> False
         | Some start \<Rightarrow> (es_reviewed_at s = None \<and> today < start) \<or> (es_final_reviewed_at s = None \<and> start \<le> today)))
       (xv_siaes x)"

definition siaes_in_progress :: "eval_db \<Rightarrow> evaluated_siae list" where
  "siaes_in_progress x =
     filter (\<lambda>s. case campaign_of x s of None \<Rightarrow> False
        | Some g \<Rightarrow> cg_evaluations_asked_at g \<noteq> None \<and> cg_ended_at g = None \<and> es_final_reviewed_at s = None) (xv_siaes x)"

definition campaigns_in_progress :: "eval_db \<Rightarrow> campaign list" where
  "campaigns_in_progress x = filter (\<lambda>g. cg_ended_at g = None) (xv_campaigns x)"

section \<open>Aggregation by priority\<close>

text \<open>The state of an application is the state of highest priority among its criteria, and that of a
  company the one of highest priority among its applications.\<close>

lemma index_of_inject: "x \<in> set ps \<Longrightarrow> y \<in> set ps \<Longrightarrow> index_of x ps = index_of y ps \<longleftrightarrow> x = y"
  by (induction ps) auto

abbreviation higher :: "'s list \<Rightarrow> 's \<Rightarrow> 's \<Rightarrow> 's" where
  "higher p \<equiv> \<lambda>m x. if index_of m p < index_of x p then x else m"

lemma foldl_higher_in: "foldl (higher p) s ss \<in> insert s (set ss)"
proof (induction ss arbitrary: s)
  case (Cons a ss)
  show ?case using Cons [of "higher p s a"] by (auto split: if_splits)
qed simp

lemma foldl_higher_ge: "x \<in> insert s (set ss) \<Longrightarrow> index_of x p \<le> index_of (foldl (higher p) s ss) p"
proof (induction ss arbitrary: s x)
  case (Cons a ss)
  have "index_of (higher p s a) p \<le> index_of (foldl (higher p) s (a # ss)) p"
    using Cons.IH [of "higher p s a" "higher p s a"] by simp
  moreover have "index_of s p \<le> index_of (higher p s a) p" "index_of a p \<le> index_of (higher p s a) p" by auto
  ultimately show ?case using Cons.prems Cons.IH [of x "higher p s a"] by auto
qed simp

locale priority_order =
  fixes priority :: "'s list" and none :: 's
  assumes none_in: "none \<in> set priority"
begin

lemma highest_empty [simp]: "highest priority none [] = none"
  by (simp add: highest_def)

lemma highest_max:
  assumes "ss \<noteq> []"
  shows "highest priority none ss \<in> set ss \<and>
    (\<forall>s \<in> set ss. index_of s priority \<le> index_of (highest priority none ss) priority)"
proof (cases ss)
  case (Cons s ts)
  then show ?thesis
    using foldl_higher_in [of priority s ts] foldl_higher_ge [of _ s ts priority] by (simp add: highest_def)
qed (use assms in simp)

lemma highest_eq_iff:
  assumes "set ss \<subseteq> set priority" "ss \<noteq> []" "h \<in> set priority"
  shows "highest priority none ss = h \<longleftrightarrow> h \<in> set ss \<and> (\<forall>s \<in> set ss. index_of s priority \<le> index_of h priority)"
  using highest_max [OF assms(2)] assms(1) index_of_inject [of _ priority]
  by (metis order_antisym subsetD)

text \<open>The order of the rows and their multiplicity do not matter.\<close>

lemma highest_cong_set:
  assumes "set ss \<subseteq> set priority" "set ss = set ts"
  shows "highest priority none ss = highest priority none ts"
proof (cases "ss = []")
  case False
  then have "ts \<noteq> []" using assms(2) by auto
  then show ?thesis
    using highest_max [OF \<open>ts \<noteq> []\<close>] highest_eq_iff [OF assms(1) False, of "highest priority none ts"] assms by blast
qed (use assms in auto)

end

interpretation app_order: priority_order app_states_priority EJ_PENDING
  by unfold_locales (simp add: app_states_priority_def)

interpretation siae_order: priority_order siae_states_priority ES_PENDING
  by unfold_locales (simp add: siae_states_priority_def)

lemma app_states_all: "a \<in> set app_states_priority"
  by (cases a) (simp_all add: app_states_priority_def)

lemma siae_state_of_app_priority: "siae_state_of_app a \<in> set siae_states_priority"
  by (cases a) (simp_all add: siae_states_priority_def)

lemma compute_state_eq_iff:
  assumes "app_criteria x a \<noteq> []"
  shows "compute_state x a = h \<longleftrightarrow>
    (\<exists>c \<in> set (app_criteria x a). state_of_criteria c = h) \<and>
    (\<forall>c \<in> set (app_criteria x a). index_of (state_of_criteria c) app_states_priority \<le> index_of h app_states_priority)"
proof -
  have "set (map state_of_criteria (app_criteria x a)) \<subseteq> set app_states_priority" using app_states_all by blast
  from app_order.highest_eq_iff [OF this _ app_states_all, of h] assms show ?thesis
    by (simp add: compute_state_def image_iff) blast
qed

lemma compute_state_pending: "app_criteria x a = [] \<Longrightarrow> compute_state x a = EJ_PENDING"
  by (simp add: compute_state_def)

lemma state_from_applications_eq_iff:
  assumes "siae_apps x s \<noteq> []" "h \<in> set siae_states_priority"
  shows "state_from_applications x s = h \<longleftrightarrow>
    (\<exists>a \<in> set (siae_apps x s). siae_state_of_app (compute_state x a) = h) \<and>
    (\<forall>a \<in> set (siae_apps x s). index_of (siae_state_of_app (compute_state x a)) siae_states_priority
        \<le> index_of h siae_states_priority)"
proof -
  have "set (map (\<lambda>a. siae_state_of_app (compute_state x a)) (siae_apps x s)) \<subseteq> set siae_states_priority"
    using siae_state_of_app_priority by auto
  from siae_order.highest_eq_iff [OF this _ assms(2)] assms(1) show ?thesis
    by (simp add: state_from_applications_def image_iff) blast
qed

lemma state_from_applications_pending: "siae_apps x s = [] \<Longrightarrow> state_from_applications x s = ES_PENDING"
  by (simp add: state_from_applications_def)

lemma state_from_applications_range: "state_from_applications x s \<in> set siae_states_priority"
proof (cases "siae_apps x s = []")
  case True
  then show ?thesis by (simp add: state_from_applications_pending siae_states_priority_def)
next
  case False
  then have "state_from_applications x s \<in> (\<lambda>a. siae_state_of_app (compute_state x a)) ` set (siae_apps x s)"
    using siae_order.highest_max [of "map (\<lambda>a. siae_state_of_app (compute_state x a)) (siae_apps x s)"]
    by (simp add: state_from_applications_def)
  then show ?thesis using siae_state_of_app_priority by auto
qed

lemma state_from_applications_cases:
  obtains "state_from_applications x s = ES_ACCEPTED" | "state_from_applications x s = ES_REFUSED"
    | "state_from_applications x s = ES_SUBMITTED" | "state_from_applications x s = ES_SUBMITTABLE"
    | "state_from_applications x s = ES_PENDING"
  using state_from_applications_range [of x s] by (auto simp: siae_states_priority_def)

section \<open>What the states mean\<close>

text \<open>A criterion is sent when it is certified or its proof was submitted; it is validated when it is
  certified or sent and accepted, and awaits a review when it is sent and undecided.\<close>

definition sent :: "evaluated_criteria \<Rightarrow> bool" where
  "sent c \<longleftrightarrow> ev_certified c \<or> (ev_proof c \<noteq> None \<and> ev_submitted_at c \<noteq> None)"

definition validated :: "evaluated_criteria \<Rightarrow> bool" where
  "validated c \<longleftrightarrow> sent c \<and> (ev_certified c \<or> ev_review_state c = RV_ACCEPTED)"

definition awaits_review :: "evaluated_criteria \<Rightarrow> bool" where
  "awaits_review c \<longleftrightarrow> sent c \<and> \<not> ev_certified c \<and> ev_review_state c = RV_PENDING"

definition all_sent :: "eval_db \<Rightarrow> evaluated_siae \<Rightarrow> bool" where
  "all_sent x s \<longleftrightarrow> siae_apps x s \<noteq> [] \<and>
     (\<forall>a \<in> set (siae_apps x s). app_criteria x a \<noteq> [] \<and> (\<forall>c \<in> set (app_criteria x a). sent c))"

lemmas criteria_defs = sent_def validated_def awaits_review_def

lemma state_of_criteria_sent:
  "sent c \<longleftrightarrow> state_of_criteria c \<in> {EJ_ACCEPTED, EJ_REFUSED, EJ_REFUSED_2, EJ_SUBMITTED}"
  by (cases "ev_review_state c") (auto simp: sent_def state_of_criteria_def)

lemma state_of_criteria_validated: "validated c \<longleftrightarrow> state_of_criteria c = EJ_ACCEPTED"
  by (cases "ev_review_state c") (auto simp: criteria_defs state_of_criteria_def)

lemma state_of_criteria_awaits: "awaits_review c \<longleftrightarrow> state_of_criteria c = EJ_SUBMITTED"
  by (cases "ev_review_state c") (auto simp: criteria_defs state_of_criteria_def)

lemma app_index_le:
  "index_of st app_states_priority \<le> index_of EJ_SUBMITTED app_states_priority \<longleftrightarrow>
     st \<in> {EJ_ACCEPTED, EJ_REFUSED, EJ_REFUSED_2, EJ_SUBMITTED}"
  "index_of st app_states_priority \<le> index_of EJ_ACCEPTED app_states_priority \<longleftrightarrow> st = EJ_ACCEPTED"
  by (cases st; simp add: app_states_priority_def)+

lemma compute_state_accepted:
  "compute_state x a = EJ_ACCEPTED \<longleftrightarrow> app_criteria x a \<noteq> [] \<and> (\<forall>c \<in> set (app_criteria x a). validated c)"
proof (cases "app_criteria x a = []")
  case False
  then show ?thesis
    by (simp add: compute_state_eq_iff [OF False] app_index_le state_of_criteria_validated)
       (metis False last_in_set)
qed (simp add: compute_state_pending)

lemma compute_state_submitted:
  "compute_state x a = EJ_SUBMITTED \<longleftrightarrow>
     (\<forall>c \<in> set (app_criteria x a). sent c) \<and> (\<exists>c \<in> set (app_criteria x a). awaits_review c)"
proof (cases "app_criteria x a = []")
  case False
  then show ?thesis
    by (simp add: compute_state_eq_iff [OF False] app_index_le state_of_criteria_awaits state_of_criteria_sent)
       blast
qed (simp add: compute_state_pending)

lemma compute_state_sent:
  "compute_state x a \<in> {EJ_ACCEPTED, EJ_REFUSED, EJ_REFUSED_2, EJ_SUBMITTED} \<longleftrightarrow>
     app_criteria x a \<noteq> [] \<and> (\<forall>c \<in> set (app_criteria x a). sent c)"
proof (cases "app_criteria x a = []")
  case False
  then have m: "\<exists>c \<in> set (app_criteria x a). state_of_criteria c = compute_state x a"
    "\<forall>c \<in> set (app_criteria x a). index_of (state_of_criteria c) app_states_priority
        \<le> index_of (compute_state x a) app_states_priority"
    using compute_state_eq_iff [OF False, of "compute_state x a"] by auto
  have "compute_state x a \<in> {EJ_ACCEPTED, EJ_REFUSED, EJ_REFUSED_2, EJ_SUBMITTED} \<longleftrightarrow>
      index_of (compute_state x a) app_states_priority \<le> index_of EJ_SUBMITTED app_states_priority"
    by (simp only: app_index_le)
  also have "\<dots> \<longleftrightarrow> (\<forall>c \<in> set (app_criteria x a).
      index_of (state_of_criteria c) app_states_priority \<le> index_of EJ_SUBMITTED app_states_priority)"
    using m by (metis le_trans)
  finally show ?thesis using False by (simp only: app_index_le state_of_criteria_sent simp_thms)
qed (simp add: compute_state_pending)

lemma siae_index_le:
  "st \<in> set siae_states_priority \<Longrightarrow>
     index_of st siae_states_priority \<le> index_of ES_SUBMITTED siae_states_priority \<longleftrightarrow>
     st \<in> {ES_ACCEPTED, ES_REFUSED, ES_SUBMITTED}"
  "st \<in> set siae_states_priority \<Longrightarrow>
     index_of st siae_states_priority \<le> index_of ES_ACCEPTED siae_states_priority \<longleftrightarrow> st = ES_ACCEPTED"
  by (cases st; simp add: siae_states_priority_def)+

lemma siae_state_of_app_iff:
  "siae_state_of_app a \<in> {ES_ACCEPTED, ES_REFUSED, ES_SUBMITTED} \<longleftrightarrow>
     a \<in> {EJ_ACCEPTED, EJ_REFUSED, EJ_REFUSED_2, EJ_SUBMITTED}"
  "siae_state_of_app a = ES_ACCEPTED \<longleftrightarrow> a = EJ_ACCEPTED"
  "siae_state_of_app a = ES_SUBMITTED \<longleftrightarrow> a = EJ_SUBMITTED"
  by (cases a; simp)+

lemma state_from_applications_accepted:
  "state_from_applications x s = ES_ACCEPTED \<longleftrightarrow>
     all_sent x s \<and> (\<forall>a \<in> set (siae_apps x s). \<forall>c \<in> set (app_criteria x a). validated c)"
proof (cases "siae_apps x s = []")
  case False
  have "state_from_applications x s = ES_ACCEPTED \<longleftrightarrow> (\<forall>a \<in> set (siae_apps x s). compute_state x a = EJ_ACCEPTED)"
    using False state_from_applications_eq_iff [OF False, of ES_ACCEPTED] last_in_set [OF False]
    by (auto simp: siae_index_le siae_state_of_app_priority siae_state_of_app_iff siae_states_priority_def)
  then show ?thesis using False by (auto simp: all_sent_def compute_state_accepted validated_def)
qed (simp add: state_from_applications_pending all_sent_def)

lemma state_from_applications_submitted:
  "state_from_applications x s = ES_SUBMITTED \<longleftrightarrow>
     all_sent x s \<and> (\<exists>a \<in> set (siae_apps x s). \<exists>c \<in> set (app_criteria x a). awaits_review c)"
proof (cases "siae_apps x s = []")
  case False
  have "state_from_applications x s = ES_SUBMITTED \<longleftrightarrow>
     (\<exists>a \<in> set (siae_apps x s). compute_state x a = EJ_SUBMITTED) \<and>
     (\<forall>a \<in> set (siae_apps x s). compute_state x a \<in> {EJ_ACCEPTED, EJ_REFUSED, EJ_REFUSED_2, EJ_SUBMITTED})"
    using state_from_applications_eq_iff [OF False, of ES_SUBMITTED]
    by (simp only: siae_index_le siae_state_of_app_priority siae_state_of_app_iff) (simp add: siae_states_priority_def)
  then show ?thesis using False by (simp only: all_sent_def compute_state_submitted compute_state_sent) blast
qed (simp add: state_from_applications_pending)

lemma state_from_applications_sent:
  "state_from_applications x s \<in> {ES_ACCEPTED, ES_REFUSED, ES_SUBMITTED} \<longleftrightarrow> all_sent x s"
proof (cases "siae_apps x s = []")
  case False
  let ?h = "state_from_applications x s"
  have m: "\<exists>a \<in> set (siae_apps x s). siae_state_of_app (compute_state x a) = ?h"
    "\<forall>a \<in> set (siae_apps x s). index_of (siae_state_of_app (compute_state x a)) siae_states_priority
        \<le> index_of ?h siae_states_priority"
    using state_from_applications_eq_iff [OF False state_from_applications_range] by blast+
  have "?h \<in> {ES_ACCEPTED, ES_REFUSED, ES_SUBMITTED} \<longleftrightarrow>
      (\<forall>a \<in> set (siae_apps x s). index_of (siae_state_of_app (compute_state x a)) siae_states_priority
        \<le> index_of ES_SUBMITTED siae_states_priority)"
    unfolding siae_index_le(1) [OF state_from_applications_range, of x s, symmetric]
  proof
    assume "index_of ?h siae_states_priority \<le> index_of ES_SUBMITTED siae_states_priority"
    then show "\<forall>a \<in> set (siae_apps x s). index_of (siae_state_of_app (compute_state x a)) siae_states_priority
        \<le> index_of ES_SUBMITTED siae_states_priority" using m(2) by (meson le_trans)
  next
    assume "\<forall>a \<in> set (siae_apps x s). index_of (siae_state_of_app (compute_state x a)) siae_states_priority
        \<le> index_of ES_SUBMITTED siae_states_priority"
    then show "index_of ?h siae_states_priority \<le> index_of ES_SUBMITTED siae_states_priority" using m(1) by auto
  qed
  also have "\<dots> \<longleftrightarrow> all_sent x s"
    by (simp only: siae_index_le siae_state_of_app_priority siae_state_of_app_iff)
       (use False in \<open>simp only: all_sent_def compute_state_sent simp_thms\<close>)
  finally show ?thesis .
qed (simp add: state_from_applications_pending all_sent_def)

text \<open>The decision at the end of a campaign, from the criteria alone: everything was sent, and either one
  criterion was left unreviewed or all were validated.\<close>

definition granted :: "eval_db \<Rightarrow> evaluated_siae \<Rightarrow> bool" where
  "granted x s \<longleftrightarrow> all_sent x s \<and>
     ((\<exists>a \<in> set (siae_apps x s). \<exists>c \<in> set (app_criteria x a). awaits_review c) \<or>
      (\<forall>a \<in> set (siae_apps x s). \<forall>c \<in> set (app_criteria x a). validated c))"

lemma siae_state_final:
  assumes "es_final_state s = None" "evaluation_is_final x s"
  shows "siae_state x s = (if granted x s then ES_ACCEPTED else ES_REFUSED)"
  by (rule state_from_applications_cases [of x s])
     (use assms state_from_applications_accepted [of x s] state_from_applications_submitted [of x s]
        state_from_applications_sent [of x s] in \<open>auto simp: siae_state_def granted_def\<close>)

lemma siae_state_cong:
  assumes "xv_apps x' = xv_apps x" "xv_criteria x' = xv_criteria x"
  shows "siae_apps x' s = siae_apps x s" "app_criteria x' a = app_criteria x a" "compute_state x' a = compute_state x a"
    "state_from_applications x' s = state_from_applications x s" "granted x' s = granted x s"
  by (simp_all add: assms siae_apps_def app_criteria_def compute_state_def state_from_applications_def granted_def
      all_sent_def)

end
