(* ===== verification/Siae_Campaigns.thy ===== *)
theory Siae_Campaigns
  imports Siae_Evaluations
begin

text \<open>
  The operations of the a posteriori control: \<open>EvaluationCampaign.populate\<close>, \<open>freeze\<close>,
  \<open>transition_to_adversarial_phase\<close> and \<open>close\<close>, \<open>EvaluatedSiae.review\<close>,
  \<open>EvaluatedJobApplication.save_selected_criteria\<close> (\<open>siae_evaluations/models.py\<close>) and the POST branches of
  the views of the institution and of the company (\<open>www/siae_evaluations_views/views.py\<close>).  The random
  orders (\<open>order_by("?")\<close>) and the departments are arguments.  The check constraint
  \<open>final_reviewed_at_only_after_reviewed_at\<close> is part of every write of an evaluated company.
\<close>

section \<open>The sample\<close>

definition select_limit :: "nat \<Rightarrow> nat" where
  "select_limit n =
     (let limit = n * 20 div 100 in if limit < 2 then 2 else if 20 < limit then 20 else limit)"

definition select_min_max_job_applications :: "('a list \<Rightarrow> 'a list) \<Rightarrow> 'a list \<Rightarrow> 'a list" where
  "select_min_max_job_applications shuffle jas = take (select_limit (length jas)) (shuffle jas)"

text \<open>\<open>round(m / 100)\<close>: a tie goes to the even neighbour.\<close>

definition round_percent :: "nat \<Rightarrow> nat" where
  "round_percent m =
     (let q = m div 100; r = m mod 100 in
      if r < 50 then q else if 50 < r then q + 1 else if even q then q else q + 1)"

definition created_approval :: "db \<Rightarrow> campaign \<Rightarrow> job_application \<Rightarrow> bool" where
  "created_approval d g j =
     (case af_approval (ja_accepted j) of
        None \<Rightarrow> False
      | Some p \<Rightarrow> (case (get_row ap_pk p (db_approvals d), ja_hiring_start_at j) of
          (Some a, Some h) \<Rightarrow> ap_start_at a = h \<and> cg_period_start_at g \<le> h \<and> h \<le> cg_period_end_at g \<and>
            startswith (ap_number a) asp_itou_prefix
        | _ \<Rightarrow> False))"

definition self_prescribed :: "db \<Rightarrow> job_application \<Rightarrow> bool" where
  "self_prescribed d j =
     (case af_eligibility_diagnosis (ja_accepted j) of
        None \<Rightarrow> False
      | Some p \<Rightarrow> (case get_row dg_pk p (db_diagnoses d) of
          None \<Rightarrow> False
        | Some g \<Rightarrow> dg_author_kind g = AK_EMPLOYER \<and> dg_author_company g = Some (ja_to_company j)))"

definition eligible_job_applications ::
  "(pk \<Rightarrow> string) \<Rightarrow> (pk \<Rightarrow> string) \<Rightarrow> db \<Rightarrow> campaign \<Rightarrow> job_application list" where
  "eligible_job_applications company_department institution_department d g =
     filter (\<lambda>j. created_approval d g j \<and> self_prescribed d j \<and> ja_state j = JA_ACCEPTED \<and>
        company_department (ja_to_company j) = institution_department (cg_institution g) \<and>
        (case get_row co_pk (ja_to_company j) (db_companies d) of
           None \<Rightarrow> False | Some c \<Rightarrow> co_kind c \<in> set evaluable_kinds)) (db_job_applications d)"

definition eligible_siaes :: "job_application list \<Rightarrow> pk list" where
  "eligible_siaes jas = filter (\<lambda>c. 2 \<le> count_list (map ja_to_company jas) c) (remdups (map ja_to_company jas))"

definition number_of_siaes_to_select :: "campaign \<Rightarrow> job_application list \<Rightarrow> nat" where
  "number_of_siaes_to_select g jas =
     (let n = length (eligible_siaes jas) in
      if 0 < n then max (round_percent (n * cg_chosen_percent g)) 1 else 0)"

definition eligible_siaes_under_ratio :: "(pk list \<Rightarrow> pk list) \<Rightarrow> campaign \<Rightarrow> job_application list \<Rightarrow> pk list" where
  "eligible_siaes_under_ratio shuffle g jas = take (number_of_siaes_to_select g jas) (shuffle (eligible_siaes jas))"

section \<open>Rows\<close>

definition siae_row_check :: "evaluated_siae \<Rightarrow> bool" where
  "siae_row_check s =
     (case es_final_reviewed_at s of
        None \<Rightarrow> True
      | Some f \<Rightarrow> (case es_reviewed_at s of None \<Rightarrow> False | Some r \<Rightarrow> r \<le> f))"

definition write_siaes :: "evaluated_siae list \<Rightarrow> eval_db \<Rightarrow> error + eval_db" where
  "write_siaes rows x =
     (if list_all siae_row_check rows then Inr (x\<lparr>xv_siaes := rows\<rparr>)
      else Inl (IntegrityError ''final_reviewed_at_only_after_reviewed_at''))"

definition update_campaign :: "pk \<Rightarrow> (campaign \<Rightarrow> campaign) \<Rightarrow> eval_db \<Rightarrow> eval_db" where
  "update_campaign g f x = x\<lparr>xv_campaigns := map_rows (\<lambda>r. cg_pk r = g) f (xv_campaigns x)\<rparr>"

definition new_siae :: "pk \<Rightarrow> pk \<Rightarrow> pk \<Rightarrow> evaluated_siae" where
  "new_siae p g c = \<lparr>es_pk = p, es_campaign = g, es_siae = c, es_reviewed_at = None, es_final_reviewed_at = None,
     es_submission_freezed_at = None, es_notified_at = None, es_final_state = None\<rparr>"

definition create_siae :: "pk \<Rightarrow> pk \<Rightarrow> eval_db \<Rightarrow> error + eval_db" where
  "create_siae g c x =
     (if list_ex (\<lambda>s. es_campaign s = g \<and> es_siae s = c) (xv_siaes x)
      then Inl (IntegrityError ''evaluation_campaign, siae'')
      else Inr (x\<lparr>xv_siaes := xv_siaes x @ [new_siae (next_pk es_pk (xv_siaes x)) g c]\<rparr>))"

definition create_criteria :: "pk \<Rightarrow> pk \<Rightarrow> datetime option \<Rightarrow> review_state \<Rightarrow> bool \<Rightarrow> eval_db \<Rightarrow> error + eval_db" where
  "create_criteria app criterion at rs certified x =
     (if list_ex (\<lambda>c. ev_app c = app \<and> ev_criteria c = criterion) (xv_criteria x)
      then Inl (IntegrityError ''administrative_criteria, evaluated_job_application'')
      else Inr (x\<lparr>xv_criteria := xv_criteria x @ [\<lparr>ev_pk = next_pk ev_pk (xv_criteria x), ev_app = app,
             ev_criteria = criterion, ev_proof = None, ev_uploaded_at = at, ev_submitted_at = at,
             ev_review_state = rs, ev_certified = certified\<rparr>]\<rparr>))"

section \<open>Populating a campaign\<close>

text \<open>\<open>certification_period\<close> holds both its bounds; an empty range is one whose upper bound precedes the
  lower one.\<close>

definition period_contains :: "date \<times> date option \<Rightarrow> date \<Rightarrow> bool" where
  "period_contains p day \<longleftrightarrow> fst p \<le> day \<and> (case snd p of None \<Rightarrow> True | Some u \<Rightarrow> day \<le> u)"

definition period_isempty :: "date \<times> date option \<Rightarrow> bool" where
  "period_isempty p = (case snd p of None \<Rightarrow> False | Some u \<Rightarrow> u < fst p)"

definition certified_administrative_criteria :: "db \<Rightarrow> job_application \<Rightarrow> selected_criteria list" where
  "certified_administrative_criteria d j =
     filter (\<lambda>s. Some (sc_diagnosis s) = af_eligibility_diagnosis (ja_accepted j) \<and>
        (case sc_certification_period s of None \<Rightarrow> False | Some p \<Rightarrow> \<not> period_isempty p)) (db_selected_criteria d)"

definition covers_hiring :: "job_application \<Rightarrow> selected_criteria \<Rightarrow> bool" where
  "covers_hiring j s =
     (case (sc_certification_period s, ja_hiring_start_at j) of
        (Some p, Some h) \<Rightarrow> period_contains p h | _ \<Rightarrow> False)"

definition add_certified ::
  "db \<Rightarrow> datetime \<Rightarrow> pk \<Rightarrow> job_application \<Rightarrow> selected_criteria \<Rightarrow> eval_db \<Rightarrow> error + eval_db" where
  "add_certified d set_at app j s x =
     rbind (if covers_hiring j s then create_criteria app (sc_criteria s) (Some set_at) RV_ACCEPTED True x else Inr x)
       (\<lambda>x'. rbind (guard (\<exists>c \<in> set (db_criteria d). cr_pk c = sc_criteria s \<and> cr_level c = Some LEVEL_1)
                     (AssertionError ''level''))
          (\<lambda>_. Inr x'))"

definition populate_app :: "db \<Rightarrow> datetime \<Rightarrow> pk \<Rightarrow> job_application \<Rightarrow> eval_db \<Rightarrow> error + eval_db" where
  "populate_app d set_at siae j x =
     (let app = next_pk ea_pk (xv_apps x) in
      rfold (add_certified d set_at app j) (certified_administrative_criteria d j)
        (x\<lparr>xv_apps := xv_apps x @ [\<lparr>ea_pk = app, ea_siae = siae, ea_job_application = ja_pk j\<rparr>]\<rparr>))"

definition populate_siae ::
  "(pk \<Rightarrow> job_application list \<Rightarrow> job_application list) \<Rightarrow> job_application list \<Rightarrow> db \<Rightarrow> datetime \<Rightarrow>
     evaluated_siae \<Rightarrow> eval_db \<Rightarrow> error + eval_db" where
  "populate_siae shuffle jas d set_at s x =
     rfold (populate_app d set_at (es_pk s))
       (select_min_max_job_applications (shuffle (es_siae s)) (filter (\<lambda>j. ja_to_company j = es_siae s) jas)) x"

definition accept_from_certified :: "datetime \<Rightarrow> pk list \<Rightarrow> eval_db \<Rightarrow> error + eval_db" where
  "accept_from_certified set_at pks x =
     write_siaes (map_rows (\<lambda>s. es_pk s \<in> set pks \<and> siae_state x s = ES_ACCEPTED)
       (\<lambda>s. s\<lparr>es_reviewed_at := Some set_at, es_final_reviewed_at := Some set_at\<rparr>) (xv_siaes x)) x"

definition mark_asked :: "datetime \<Rightarrow> campaign \<Rightarrow> campaign" where
  "mark_asked set_at g =
     g\<lparr>cg_percent_set_at := (if cg_percent_set_at g = None then Some set_at else cg_percent_set_at g),
       cg_evaluations_asked_at := Some set_at\<rparr>"

definition populate ::
  "(pk list \<Rightarrow> pk list) \<Rightarrow> (pk \<Rightarrow> job_application list \<Rightarrow> job_application list) \<Rightarrow> (pk \<Rightarrow> string) \<Rightarrow> (pk \<Rightarrow> string) \<Rightarrow>
     db \<Rightarrow> datetime \<Rightarrow> campaign \<Rightarrow> eval_db \<Rightarrow> error + eval_db" where
  "populate shuffle_siaes shuffle company_department institution_department d set_at g x =
     (if cg_evaluations_asked_at g \<noteq> None then Inl CampaignAlreadyPopulatedException
      else
        let jas = eligible_job_applications company_department institution_department d g in
        rbind (rfold (create_siae (cg_pk g)) (eligible_siaes_under_ratio shuffle_siaes g jas)
                 (update_campaign (cg_pk g) (mark_asked set_at) x))
          (\<lambda>x1. let created = drop (length (xv_siaes x)) (xv_siaes x1) in
             rbind (rfold (populate_siae shuffle jas d set_at) created x1)
               (accept_from_certified set_at (map es_pk created))))"

section \<open>The phases of a campaign\<close>

definition freeze :: "date \<Rightarrow> datetime \<Rightarrow> datetime \<Rightarrow> campaign \<Rightarrow> eval_db \<Rightarrow> eval_db" where
  "freeze today now freeze_at g x =
     (let x1 = x\<lparr>xv_siaes := map_rows (\<lambda>s. es_campaign s = cg_pk g \<and> es_submission_freezed_at s = None)
                   (\<lambda>s. s\<lparr>es_submission_freezed_at := Some freeze_at\<rparr>) (xv_siaes x)\<rparr>
      in if cg_submission_freeze_notified_at g = None \<and> to_control_in_campaign today (cg_pk g) x1 \<noteq> []
         then update_campaign (cg_pk g) (\<lambda>r. r\<lparr>cg_submission_freeze_notified_at := Some now\<rparr>) x1
         else x1)"

text \<open>One iteration of \<open>transition_to_adversarial_phase\<close>: the company as it is written back.\<close>

definition adversarial_decision :: "datetime \<Rightarrow> eval_db \<Rightarrow> evaluated_siae \<Rightarrow> error + evaluated_siae" where
  "adversarial_decision now x s =
     (let st = siae_state x s in
      if es_reviewed_at s \<noteq> None then
        (if st \<in> {ES_ACCEPTED, ES_ADVERSARIAL_STAGE} then Inr s else Inl (ValueError ''Unexpected state''))
      else if st \<in> {ES_PENDING, ES_SUBMITTABLE} then Inr (s\<lparr>es_reviewed_at := Some now\<rparr>)
      else if st = ES_SUBMITTED then Inr (s\<lparr>es_reviewed_at := Some now, es_final_reviewed_at := Some now\<rparr>)
      else if st \<notin> {ES_ACCEPTED, ES_REFUSED} then Inl (AssertionError ''state'')
      else Inr (if st = ES_ACCEPTED then s\<lparr>es_reviewed_at := Some now, es_final_reviewed_at := Some now\<rparr>
                else s\<lparr>es_reviewed_at := Some now\<rparr>))"

definition transition_to_adversarial_phase :: "datetime \<Rightarrow> campaign \<Rightarrow> eval_db \<Rightarrow> error + eval_db" where
  "transition_to_adversarial_phase now g x =
     rbind (rfold (\<lambda>s acc. rbind (adversarial_decision now x s) (\<lambda>s'. Inr (acc @ [s'])))
              (filter (\<lambda>s. es_campaign s = cg_pk g) (xv_siaes x)) [])
       (\<lambda>rows. rbind (write_siaes (map (\<lambda>s. case get_row es_pk (es_pk s) rows of None \<Rightarrow> s
                     | Some s' \<Rightarrow> s\<lparr>es_reviewed_at := es_reviewed_at s', es_final_reviewed_at := es_final_reviewed_at s',
                                  es_submission_freezed_at := None\<rparr>) (xv_siaes x)) x)
          (\<lambda>x1. Inr (update_campaign (cg_pk g) (\<lambda>r. r\<lparr>cg_submission_freeze_notified_at := None\<rparr>) x1)))"

text \<open>\<open>close\<close> writes the decision of every company of the campaign, read once the campaign is ended, and
  the date of the final review of those the institution forgot to validate.\<close>

definition closing_row :: "datetime \<Rightarrow> eval_db \<Rightarrow> evaluated_siae \<Rightarrow> evaluated_siae" where
  "closing_row now x s =
     s\<lparr>es_final_reviewed_at :=
         (if es_notified_at s = None \<and> es_final_reviewed_at s = None \<and>
             state_from_applications x s \<in> {ES_ACCEPTED, ES_REFUSED} then Some now else es_final_reviewed_at s),
       es_final_state := Some (siae_state x s)\<rparr>"

definition close_campaign :: "datetime \<Rightarrow> campaign \<Rightarrow> eval_db \<Rightarrow> error + eval_db" where
  "close_campaign now g x =
     (if cg_ended_at g \<noteq> None then Inr x
      else let x1 = update_campaign (cg_pk g) (\<lambda>r. r\<lparr>cg_ended_at := Some now\<rparr>) x in
           write_siaes (map_rows (\<lambda>s. es_campaign s = cg_pk g) (closing_row now x1) (xv_siaes x1)) x1)"

section \<open>The institution\<close>

definition review :: "datetime \<Rightarrow> evaluated_siae \<Rightarrow> eval_db \<Rightarrow> error + eval_db" where
  "review now s x =
     (let st = siae_state x s in
      rbind (if st = ES_ACCEPTED then Inr (s\<lparr>es_reviewed_at := Some now, es_final_reviewed_at := Some now\<rparr>)
             else if st = ES_REFUSED then Inr (s\<lparr>es_reviewed_at := Some now\<rparr>)
             else if st = ES_ADVERSARIAL_STAGE then Inr (s\<lparr>es_final_reviewed_at := Some now\<rparr>)
             else Inl (TypeError ''Cannot review''))
        (\<lambda>s'. write_siaes (map_rows (\<lambda>r. es_pk r = es_pk s) (\<lambda>_. s') (xv_siaes x)) x))"

text \<open>The lookups of the views: the campaign of the row belongs to the institution, was notified and is
  not ended.\<close>

definition running_for :: "pk \<Rightarrow> eval_db \<Rightarrow> evaluated_siae \<Rightarrow> bool" where
  "running_for institution x s =
     (case campaign_of x s of
        None \<Rightarrow> False
      | Some g \<Rightarrow> cg_institution g = institution \<and> cg_evaluations_asked_at g \<noteq> None \<and> cg_ended_at g = None)"

definition siae_of_app :: "eval_db \<Rightarrow> pk \<Rightarrow> evaluated_siae option" where
  "siae_of_app x app =
     (case get_row ea_pk app (xv_apps x) of None \<Rightarrow> None | Some a \<Rightarrow> get_row es_pk (ea_siae a) (xv_siaes x))"

datatype review_action = REINIT | ACCEPT_ACTION | REFUSE_ACTION

definition review_state_after :: "review_action \<Rightarrow> evaluated_siae \<Rightarrow> review_state" where
  "review_state_after act s =
     (case act of
        REINIT \<Rightarrow> RV_PENDING
      | ACCEPT_ACTION \<Rightarrow> RV_ACCEPTED
      | REFUSE_ACTION \<Rightarrow> if es_reviewed_at s \<noteq> None then RV_REFUSED_2 else RV_REFUSED)"

definition update_criteria :: "pk \<Rightarrow> (evaluated_criteria \<Rightarrow> evaluated_criteria) \<Rightarrow> eval_db \<Rightarrow> eval_db" where
  "update_criteria p f x = x\<lparr>xv_criteria := map_rows (\<lambda>c. ev_pk c = p) f (xv_criteria x)\<rparr>"

definition institution_evaluated_administrative_criteria ::
  "pk \<Rightarrow> pk \<Rightarrow> review_action \<Rightarrow> eval_db \<Rightarrow> error + eval_db" where
  "institution_evaluated_administrative_criteria institution p act x =
     (case get_row ev_pk p (xv_criteria x) of
        None \<Rightarrow> Inl Http404
      | Some c \<Rightarrow> (case siae_of_app x (ev_app c) of
          None \<Rightarrow> Inl Http404
        | Some s \<Rightarrow>
            if \<not> running_for institution x s \<or> ev_certified c then Inl Http404
            else Inr (update_criteria p (\<lambda>c. c\<lparr>ev_review_state := review_state_after act s\<rparr>) x)))"

definition institution_evaluated_siae_validation :: "pk \<Rightarrow> datetime \<Rightarrow> pk \<Rightarrow> eval_db \<Rightarrow> error + eval_db" where
  "institution_evaluated_siae_validation institution now p x =
     (case get_row es_pk p (xv_siaes x) of
        None \<Rightarrow> Inl Http404
      | Some s \<Rightarrow>
          if \<not> running_for institution x s then Inl Http404
          else if can_review x s then review now s x
          else Inr x)"

section \<open>The company\<close>

definition open_campaign :: "eval_db \<Rightarrow> evaluated_siae \<Rightarrow> bool" where
  "open_campaign x s = (case campaign_of x s of None \<Rightarrow> False | Some g \<Rightarrow> cg_ended_at g = None)"

text \<open>A key \<open>level_<level>_<pk>\<close> of the form names one criterion: the model takes the primary keys.\<close>

definition save_selected_criteria :: "pk list \<Rightarrow> pk list \<Rightarrow> pk list \<Rightarrow> evaluated_app \<Rightarrow> eval_db \<Rightarrow> error + eval_db" where
  "save_selected_criteria all_criteria cleaned_keys changed_keys a x =
     rfold (\<lambda>k. create_criteria (ea_pk a) k None RV_PENDING False)
       (filter (\<lambda>k. k \<in> set changed_keys \<and> k \<in> set cleaned_keys) all_criteria)
       (x\<lparr>xv_criteria := filter (\<lambda>c. \<not> (ev_app c = ea_pk a \<and> ev_criteria c \<in> set changed_keys \<and>
                                       ev_criteria c \<notin> set cleaned_keys)) (xv_criteria x)\<rparr>)"

definition siae_select_criteria ::
  "pk \<Rightarrow> pk \<Rightarrow> pk list \<Rightarrow> pk list \<Rightarrow> pk list \<Rightarrow> eval_db \<Rightarrow> error + eval_db" where
  "siae_select_criteria siae p all_criteria cleaned_keys changed_keys x =
     (case get_row ea_pk p (xv_apps x) of
        None \<Rightarrow> Inl Http404
      | Some a \<Rightarrow> (case get_row es_pk (ea_siae a) (xv_siaes x) of
          None \<Rightarrow> Inl Http404
        | Some s \<Rightarrow>
            if es_siae s \<noteq> siae \<or> \<not> open_campaign x s then Inl Http404
            else if should_select_criteria x s a = SEL_NOTEDITABLE then Inl HttpResponseForbidden
            else save_selected_criteria all_criteria cleaned_keys changed_keys a x))"

definition siae_upload_doc :: "pk \<Rightarrow> datetime \<Rightarrow> pk \<Rightarrow> pk \<Rightarrow> eval_db \<Rightarrow> error + eval_db" where
  "siae_upload_doc siae now p file x =
     (case get_row ev_pk p (xv_criteria x) of
        None \<Rightarrow> Inl Http404
      | Some c \<Rightarrow> (case siae_of_app x (ev_app c) of
          None \<Rightarrow> Inl Http404
        | Some s \<Rightarrow>
            if es_siae s \<noteq> siae \<or> \<not> open_campaign x s then Inl Http404
            else if \<not> can_upload s c then Inl HttpResponseForbidden
            else Inr (update_criteria p (\<lambda>c. c\<lparr>ev_proof := Some file, ev_uploaded_at := Some now,
                        ev_review_state := RV_PENDING, ev_submitted_at := None\<rparr>) x)))"

definition siae_submit_proofs :: "pk \<Rightarrow> datetime \<Rightarrow> pk \<Rightarrow> eval_db \<Rightarrow> error + eval_db" where
  "siae_submit_proofs siae now p x =
     (case get_row es_pk p (xv_siaes x) of
        None \<Rightarrow> Inl Http404
      | Some s \<Rightarrow>
          if es_siae s \<noteq> siae \<or>
             \<not> (case campaign_of x s of None \<Rightarrow> False
                  | Some g \<Rightarrow> cg_evaluations_asked_at g \<noteq> None \<and> cg_ended_at g = None)
          then Inl Http404
          else if \<not> can_submit x s then Inr x
          else Inr (x\<lparr>xv_criteria := map_rows (\<lambda>c. ev_review_state c = RV_PENDING \<and>
                          ev_app c \<in> set (map ea_pk (siae_apps x s)))
                          (\<lambda>c. c\<lparr>ev_submitted_at := Some now\<rparr>) (xv_criteria x),
                      xv_siaes := map_rows (\<lambda>r. es_pk r = p) (\<lambda>r. r\<lparr>es_submission_freezed_at := Some now\<rparr>)
                          (xv_siaes x)\<rparr>))"

section \<open>Sanctions\<close>

definition app_sanctions_of :: "eval_db \<Rightarrow> sanctions \<Rightarrow> app_sanction list" where
  "app_sanctions_of x n = filter (\<lambda>j. sj_sanctions j = sn_pk n) (xv_app_sanctions x)"

definition has_significant_sanction :: "eval_db \<Rightarrow> sanctions \<Rightarrow> bool" where
  "has_significant_sanction x n \<longleftrightarrow> sn_suspension_dates n \<noteq> None \<or> app_sanctions_of x n \<noteq> []"

definition count_active :: "eval_db \<Rightarrow> sanctions \<Rightarrow> nat" where
  "count_active x n =
     of_bool (sn_training_session n \<noteq> '''') + of_bool (sn_suspension_dates n \<noteq> None) +
     of_bool (app_sanctions_of x n \<noteq> [])"

datatype sanction_choice = TRAINING | TEMPORARY_SUSPENSION | PERMANENT_SUSPENSION | SUBSIDY_CUT | NO_SANCTIONS

definition step2_clean :: "sanction_choice set \<Rightarrow> error + sanction_choice set" where
  "step2_clean choices =
     (if {TEMPORARY_SUSPENSION, PERMANENT_SUSPENSION} \<subseteq> choices then Inl (ValidationError ''incompatible'')
      else if 1 < card choices \<and> NO_SANCTIONS \<in> choices then Inl (ValidationError ''incompatible'')
      else Inr choices)"

definition sanctionnable_states :: "evaluated_app_state list" where
  "sanctionnable_states = [EJ_PENDING, EJ_PROCESSING, EJ_UPLOADED, EJ_REFUSED, EJ_REFUSED_2]"

definition apps_to_sanction :: "eval_db \<Rightarrow> evaluated_siae \<Rightarrow> evaluated_app list" where
  "apps_to_sanction x s = filter (\<lambda>a. compute_state x a \<in> set sanctionnable_states) (siae_apps x s)"

definition step3_suspension_dates ::
  "sanction_choice set \<Rightarrow> date \<Rightarrow> date option \<times> date option \<Rightarrow> date option \<Rightarrow> error + (date \<times> date option) option" where
  "step3_suspension_dates choices sanction_start_date temporary permanent =
     (if TEMPORARY_SUSPENSION \<in> choices then
        (case temporary of
           (Some f, Some t) \<Rightarrow>
             if f < sanction_start_date \<or> t < sanction_start_date then Inl (ValidationError ''min_date'')
             else if t < f then Inl (ValidationError ''La date de fin de suspension'')
             else Inr (Some (f, Some t))
         | _ \<Rightarrow> Inl (ValidationError ''required''))
      else if PERMANENT_SUSPENSION \<in> choices then
        (case permanent of
           None \<Rightarrow> Inl (ValidationError ''required'')
         | Some f \<Rightarrow> if f < sanction_start_date then Inl (ValidationError ''min_date'') else Inr (Some (f, None)))
      else Inr None)"

definition can_notify :: "pk \<Rightarrow> eval_db \<Rightarrow> evaluated_siae \<Rightarrow> bool" where
  "can_notify institution x s \<longleftrightarrow>
     (case campaign_of x s of None \<Rightarrow> False | Some g \<Rightarrow> cg_institution g = institution \<and>
        (cg_ended_at g \<noteq> None \<or> es_final_reviewed_at s \<noteq> None)) \<and>
     es_notified_at s = None \<and> siae_state x s = ES_REFUSED"

text \<open>\<open>InstitutionEvaluatedSiaeNotifyStep3View.post\<close> with valid forms: the texts, the dates and the
  percentages (one per application, \<open>None\<close> when left empty).\<close>

definition notify_sanctions ::
  "pk \<Rightarrow> datetime \<Rightarrow> pk \<Rightarrow> string \<Rightarrow> (date \<times> date option) option \<Rightarrow> string \<Rightarrow> (pk \<times> nat option) list \<Rightarrow>
     eval_db \<Rightarrow> error + eval_db" where
  "notify_sanctions institution now p training dates reason cuts x =
     (case get_row es_pk p (xv_siaes x) of
        None \<Rightarrow> Inl Http404
      | Some s \<Rightarrow>
          if \<not> can_notify institution x s then Inl Http404
          else if list_ex (\<lambda>n. sn_siae n = p) (xv_sanctions x) then Inl (IntegrityError ''evaluated_siae'')
          else
            let n = next_pk sn_pk (xv_sanctions x);
                js = concat (map (\<lambda>(a, c). case c of
                       None \<Rightarrow> []
                     | Some k \<Rightarrow> if k = 0 then [] else [\<lparr>sj_sanctions = n, sj_app = a, sj_subsidy_cut_percent = k\<rparr>]) cuts)
            in if \<not> distinct (map sj_app (xv_app_sanctions x @ js)) then Inl (IntegrityError ''evaluated_job_application'')
               else Inr (x\<lparr>xv_sanctions := xv_sanctions x @ [\<lparr>sn_pk = n, sn_siae = p, sn_training_session = training,
                             sn_suspension_dates = dates, sn_no_sanction_reason = reason\<rparr>],
                           xv_app_sanctions := xv_app_sanctions x @ js,
                           xv_siaes := map_rows (\<lambda>r. es_pk r = p) (\<lambda>r. r\<lparr>es_notified_at := Some now\<rparr>) (xv_siaes x)\<rparr>))"

end
