(* ===== verification/Siae_Campaign_Invariant.thy ===== *)
theory Siae_Campaign_Invariant
  imports Siae_Campaigns
begin

text \<open>
  The invariant of the tables of the a posteriori control, kept by every operation: the keys and the
  unique pairs of \<open>EvaluatedSiae\<close> and \<open>EvaluatedAdministrativeCriteria\<close>, the order of the two review dates,
  and a final state only for the companies of an ended campaign.  The operations are the steps of a
  transition system, along which a final state never changes.
\<close>

section \<open>The invariant\<close>

definition es_key :: "evaluated_siae \<Rightarrow> pk \<times> pk \<times> pk" where
  "es_key s = (es_pk s, es_campaign s, es_siae s)"

definition ev_pair :: "evaluated_criteria \<Rightarrow> pk \<times> pk" where
  "ev_pair c = (ev_app c, ev_criteria c)"

definition final_ok :: "eval_db \<Rightarrow> evaluated_siae \<Rightarrow> bool" where
  "final_ok x s = (case es_final_state s of None \<Rightarrow> True
     | Some f \<Rightarrow> f \<in> {ES_ACCEPTED, ES_REFUSED} \<and> campaign_ended x s)"

definition eval_wf :: "eval_db \<Rightarrow> bool" where
  "eval_wf x \<longleftrightarrow> distinct (map cg_pk (xv_campaigns x)) \<and>
     distinct (map es_pk (xv_siaes x)) \<and> distinct (map (\<lambda>s. (es_campaign s, es_siae s)) (xv_siaes x)) \<and>
     distinct (map ev_pk (xv_criteria x)) \<and> distinct (map ev_pair (xv_criteria x)) \<and>
     list_all siae_row_check (xv_siaes x) \<and> list_all (final_ok x) (xv_siaes x)"

lemma eval_wfI:
  assumes "eval_wf x" "xv_campaigns x' = xv_campaigns x" "map es_key (xv_siaes x') = map es_key (xv_siaes x)"
    "list_all siae_row_check (xv_siaes x')" "list_all (final_ok x') (xv_siaes x')"
    "distinct (map ev_pk (xv_criteria x'))" "distinct (map ev_pair (xv_criteria x'))"
  shows "eval_wf x'"
proof -
  have "map es_pk (xv_siaes x') = map es_pk (xv_siaes x)"
    "map (\<lambda>s. (es_campaign s, es_siae s)) (xv_siaes x') = map (\<lambda>s. (es_campaign s, es_siae s)) (xv_siaes x)"
    using arg_cong [OF assms(3), of "map fst"] arg_cong [OF assms(3), of "map snd"]
    by (simp_all add: es_key_def comp_def)
  then show ?thesis using assms by (simp add: eval_wf_def)
qed

lemma eval_wf_siae_unique:
  "eval_wf x \<Longrightarrow> s \<in> set (xv_siaes x) \<Longrightarrow> r \<in> set (xv_siaes x) \<Longrightarrow> es_pk r = es_pk s \<Longrightarrow> r = s"
  by (auto simp: eval_wf_def distinct_map dest: inj_onD)

lemma campaign_ended_cong:
  "xv_campaigns x' = xv_campaigns x \<Longrightarrow> es_campaign s' = es_campaign s \<Longrightarrow> campaign_ended x' s' = campaign_ended x s"
  by (simp add: campaign_ended_def campaign_of_def)

lemma final_ok_cong:
  assumes "xv_campaigns x' = xv_campaigns x" "es_campaign s' = es_campaign s" "es_final_state s' = es_final_state s"
  shows "final_ok x' s' = final_ok x s"
  using campaign_ended_cong [OF assms(1,2)] by (simp add: final_ok_def assms(3) split: option.splits)

lemma final_ok_tables [simp]:
  "final_ok (x\<lparr>xv_siaes := ss\<rparr>) s = final_ok x s" "final_ok (x\<lparr>xv_apps := as\<rparr>) s = final_ok x s"
  "final_ok (x\<lparr>xv_criteria := cs\<rparr>) s = final_ok x s"
  by (rule final_ok_cong; simp)+

text \<open>A write of companies that keeps their keys and their final states.\<close>

lemma write_siaes_wf:
  assumes "eval_wf x" "write_siaes (map f (xv_siaes x)) x = Inr x'"
    "\<And>s. s \<in> set (xv_siaes x) \<Longrightarrow> es_key (f s) = es_key s \<and> es_final_state (f s) = es_final_state s"
  shows "eval_wf x'"
proof (rule eval_wfI [OF assms(1)])
  have x': "x' = x\<lparr>xv_siaes := map f (xv_siaes x)\<rparr>" and chk: "list_all siae_row_check (map f (xv_siaes x))"
    using assms(2) by (auto simp: write_siaes_def split: if_splits)
  show "map es_key (xv_siaes x') = map es_key (xv_siaes x)" using assms(3) by (simp add: x')
  show "list_all (final_ok x') (xv_siaes x')"
    using assms(1,3) final_ok_cong [OF refl, of "f s" s x for s] by (auto simp: x' eval_wf_def list_all_iff es_key_def)
qed (use assms in \<open>auto simp: write_siaes_def eval_wf_def split: if_splits\<close>)

section \<open>Every operation keeps it\<close>

lemma get_row_mark:
  assumes "\<And>g. cg_pk (f g) = cg_pk g"
  shows "get_row cg_pk k (map_rows (\<lambda>r. cg_pk r = p) f gs) =
    map_option (\<lambda>g. if cg_pk g = p then f g else g) (get_row cg_pk k gs)"
  by (rule get_row_map_rows) (simp add: assms)

lemma update_campaign_ended:
  assumes "\<And>g. cg_pk (f g) = cg_pk g" "\<And>g. cg_ended_at g \<noteq> None \<Longrightarrow> cg_ended_at (f g) \<noteq> None" "campaign_ended x s"
  shows "campaign_ended (update_campaign p f x) s"
  using assms(2,3)
  by (auto simp: campaign_ended_def campaign_of_def update_campaign_def get_row_mark [OF assms(1)] split: option.splits)

lemma update_campaign_wf [itou_inv]:
  assumes "eval_wf x" "\<And>g. cg_pk (f g) = cg_pk g" "\<And>g. cg_ended_at g \<noteq> None \<Longrightarrow> cg_ended_at (f g) \<noteq> None"
  shows "eval_wf (update_campaign p f x)"
proof -
  have "map cg_pk (xv_campaigns (update_campaign p f x)) = map cg_pk (xv_campaigns x)"
    by (simp add: update_campaign_def map_rows_key assms(2))
  moreover have "final_ok x s \<Longrightarrow> final_ok (update_campaign p f x) s" for s
    using update_campaign_ended [of f x s p] assms(2,3) by (auto simp: final_ok_def split: option.splits)
  ultimately show ?thesis
    using assms(1) by (auto simp: eval_wf_def list_all_iff update_campaign_def)
qed

lemma update_criteria_wf:
  assumes "eval_wf x" "\<And>c. ev_pk (f c) = ev_pk c" "\<And>c. ev_pair (f c) = ev_pair c"
  shows "eval_wf (x\<lparr>xv_criteria := map_rows p f (xv_criteria x)\<rparr>)"
proof (rule eval_wfI [OF assms(1)])
  show "distinct (map ev_pk (xv_criteria (x\<lparr>xv_criteria := map_rows p f (xv_criteria x)\<rparr>)))"
    "distinct (map ev_pair (xv_criteria (x\<lparr>xv_criteria := map_rows p f (xv_criteria x)\<rparr>)))"
    using assms(1) by (simp_all add: map_rows_key assms(2,3) eval_wf_def)
  show "list_all (final_ok (x\<lparr>xv_criteria := map_rows p f (xv_criteria x)\<rparr>))
     (xv_siaes (x\<lparr>xv_criteria := map_rows p f (xv_criteria x)\<rparr>))"
    using assms(1) by (auto simp: eval_wf_def list_all_iff)
qed (use assms in \<open>simp_all add: eval_wf_def\<close>)

lemma create_criteria_wf [itou_inv]:
  assumes "eval_wf x" "create_criteria app k at rs b x = Inr x'"
  shows "eval_wf x'"
proof (rule eval_wfI [OF assms(1)])
  show "distinct (map ev_pk (xv_criteria x'))" "distinct (map ev_pair (xv_criteria x'))"
    using assms next_pk_notin [of ev_pk "xv_criteria x"]
    by (auto simp: eval_wf_def create_criteria_def list_ex_iff ev_pair_def split: if_splits)
  show "list_all (final_ok x') (xv_siaes x')"
    using assms by (auto simp: eval_wf_def list_all_iff create_criteria_def split: if_splits)
qed (use assms in \<open>auto simp: eval_wf_def create_criteria_def split: if_splits\<close>)

lemma create_siae_wf [itou_inv]:
  assumes "eval_wf x" "create_siae g c x = Inr x'"
  shows "eval_wf x'"
proof -
  have x': "x' = x\<lparr>xv_siaes := xv_siaes x @ [new_siae (next_pk es_pk (xv_siaes x)) g c]\<rparr>"
    and new: "\<forall>s \<in> set (xv_siaes x). \<not> (es_campaign s = g \<and> es_siae s = c)"
    using assms(2) by (auto simp: create_siae_def list_ex_iff split: if_splits)
  have "list_all (final_ok x') (xv_siaes x')"
    using assms(1) by (auto simp: x' eval_wf_def list_all_iff) (simp_all add: final_ok_def new_siae_def)
  then show ?thesis
    using assms(1) new next_pk_notin [of es_pk "xv_siaes x"]
    by (auto simp: eval_wf_def x' new_siae_def siae_row_check_def)
qed

lemma add_certified_wf [itou_inv]:
  "eval_wf x \<Longrightarrow> add_certified d t app j s x = Inr x' \<Longrightarrow> eval_wf x'"
  by (auto simp: add_certified_def intro: create_criteria_wf split: if_splits)

lemma eval_wf_apps:
  assumes "eval_wf x" shows "eval_wf (x\<lparr>xv_apps := apps\<rparr>)"
  by (rule eval_wfI [OF assms])
     (use assms in \<open>auto simp: eval_wf_def list_all_iff\<close>)

lemma populate_app_wf [itou_inv]:
  "eval_wf x \<Longrightarrow> populate_app d t s j x = Inr x' \<Longrightarrow> eval_wf x'"
  unfolding populate_app_def Let_def
  by (rule rfold_invariant [where P = eval_wf, rotated 2], assumption) (auto intro: add_certified_wf eval_wf_apps)

lemma populate_siae_wf [itou_inv]:
  "eval_wf x \<Longrightarrow> populate_siae sh jas d t s x = Inr x' \<Longrightarrow> eval_wf x'"
  unfolding populate_siae_def
  by (rule rfold_invariant [where P = eval_wf, rotated 2], assumption) (auto intro: populate_app_wf)

lemma accept_from_certified_wf [itou_inv]:
  "eval_wf x \<Longrightarrow> accept_from_certified t pks x = Inr x' \<Longrightarrow> eval_wf x'"
  unfolding accept_from_certified_def map_rows_def by (erule write_siaes_wf, assumption) (auto simp: es_key_def)

lemma populate_wf [itou_inv]:
  assumes "eval_wf x" "populate sh sh' dep dep' d t g x = Inr x'"
  shows "eval_wf x'"
proof -
  let ?jas = "eligible_job_applications dep dep' d g"
  obtain x1 x2 where a: "rfold (create_siae (cg_pk g)) (eligible_siaes_under_ratio sh g ?jas)
        (update_campaign (cg_pk g) (mark_asked t) x) = Inr x1"
    and b: "rfold (populate_siae sh' ?jas d t) (drop (length (xv_siaes x)) (xv_siaes x1)) x1 = Inr x2"
    and c: "accept_from_certified t (map es_pk (drop (length (xv_siaes x)) (xv_siaes x1))) x2 = Inr x'"
    using assms(2) by (auto simp: populate_def Let_def split: if_splits)
  have "eval_wf (update_campaign (cg_pk g) (mark_asked t) x)"
    using assms(1) by (rule update_campaign_wf) (simp_all add: mark_asked_def)
  with create_siae_wf have "eval_wf x1" by (rule rfold_invariant [where P = eval_wf, OF _ _ a])
  with populate_siae_wf have "eval_wf x2" by (rule rfold_invariant [where P = eval_wf, OF _ _ b])
  then show ?thesis using c by (rule accept_from_certified_wf)
qed

lemma eval_wf_siaes:
  assumes "eval_wf x" "\<And>s. es_key (f s) = es_key s \<and> es_final_state (f s) = es_final_state s"
    "\<And>s. siae_row_check s \<Longrightarrow> siae_row_check (f s)"
  shows "eval_wf (x\<lparr>xv_siaes := map_rows p f (xv_siaes x)\<rparr>)"
proof -
  have "write_siaes (map (\<lambda>s. if p s then f s else s) (xv_siaes x)) x =
      Inr (x\<lparr>xv_siaes := map_rows p f (xv_siaes x)\<rparr>)"
    using assms(1,3) by (auto simp: write_siaes_def map_rows_def eval_wf_def list_all_iff)
  then show ?thesis by (rule write_siaes_wf [OF assms(1)]) (use assms(2) in auto)
qed

lemma freeze_wf [itou_inv]: "eval_wf x \<Longrightarrow> eval_wf (freeze today now at g x)"
proof -
  assume "eval_wf x"
  then have "eval_wf (x\<lparr>xv_siaes := map_rows (\<lambda>s. es_campaign s = cg_pk g \<and> es_submission_freezed_at s = None)
                   (\<lambda>s. s\<lparr>es_submission_freezed_at := Some at\<rparr>) (xv_siaes x)\<rparr>)"
    by (rule eval_wf_siaes) (simp_all add: es_key_def siae_row_check_def split: option.splits)
  then show ?thesis by (auto simp: freeze_def Let_def intro: update_campaign_wf)
qed

lemma transition_wf [itou_inv]:
  assumes "eval_wf x" "transition_to_adversarial_phase now g x = Inr x'"
  shows "eval_wf x'"
proof -
  obtain rows :: "evaluated_siae list" and x1 where
    w: "write_siaes (map (\<lambda>s. case get_row es_pk (es_pk s) rows of None \<Rightarrow> s
       | Some s' \<Rightarrow> s\<lparr>es_reviewed_at := es_reviewed_at s', es_final_reviewed_at := es_final_reviewed_at s',
                    es_submission_freezed_at := None\<rparr>) (xv_siaes x)) x = Inr x1"
    and x': "x' = update_campaign (cg_pk g) (\<lambda>r. r\<lparr>cg_submission_freeze_notified_at := None\<rparr>) x1"
    using assms(2) by (auto simp: transition_to_adversarial_phase_def)
  have "eval_wf x1"
    by (rule write_siaes_wf [OF assms(1) w]) (simp add: es_key_def split: option.splits)
  then show ?thesis unfolding x' by (rule update_campaign_wf) simp_all
qed

lemma siae_state_ended:
  assumes "final_ok x s" "campaign_ended x s"
  shows "siae_state x s \<in> {ES_ACCEPTED, ES_REFUSED}"
  using assms siae_state_final [of s x]
  by (cases "es_final_state s") (auto simp: evaluation_is_final_def final_ok_def siae_state_def)

lemma ended_after_close:
  assumes "g \<in> set (xv_campaigns x)" "es_campaign s = cg_pk g"
  shows "campaign_ended (update_campaign (cg_pk g) (\<lambda>r. r\<lparr>cg_ended_at := Some now\<rparr>) x) s"
proof -
  obtain k where k: "get_row cg_pk (cg_pk g) (xv_campaigns x) = Some k"
    using assms(1) by (cases "get_row cg_pk (cg_pk g) (xv_campaigns x)") (auto simp: get_row_None_iff)
  with get_row_SomeD [OF k] show ?thesis
    by (simp add: campaign_ended_def campaign_of_def update_campaign_def get_row_mark assms(2))
qed

lemma close_wf [itou_inv]:
  assumes "eval_wf x" "g \<in> set (xv_campaigns x)" "close_campaign now g x = Inr x'"
  shows "eval_wf x'"
proof (cases "cg_ended_at g = None")
  case True
  define x1 where "x1 = update_campaign (cg_pk g) (\<lambda>r. r\<lparr>cg_ended_at := Some now\<rparr>) x"
  have x': "x' = x1\<lparr>xv_siaes := map_rows (\<lambda>s. es_campaign s = cg_pk g) (closing_row now x1) (xv_siaes x1)\<rparr>"
    and chk: "list_all siae_row_check (xv_siaes x')"
    using assms(3) True by (auto simp: close_campaign_def x1_def [symmetric] write_siaes_def Let_def split: if_splits)
  have wf: "eval_wf x1" unfolding x1_def using assms(1) by (rule update_campaign_wf) simp_all
  have fin: "final_ok x1 (closing_row now x1 s)" if "s \<in> set (xv_siaes x1)" "es_campaign s = cg_pk g" for s
    using siae_state_ended [of x1 s] ended_after_close [OF assms(2) that(2), of now] wf that(1)
      campaign_ended_cong [of x1 x1 "closing_row now x1 s" s]
    by (simp add: x1_def [symmetric] eval_wf_def list_all_iff final_ok_def closing_row_def)
  show ?thesis
  proof (rule eval_wfI [OF wf])
    show "map es_key (xv_siaes x') = map es_key (xv_siaes x1)"
      by (simp add: x' map_rows_key es_key_def closing_row_def)
    show "list_all (final_ok x') (xv_siaes x')"
      using fin wf by (auto simp: x' set_map_rows eval_wf_def list_all_iff)
  qed (use wf chk in \<open>simp_all add: x' eval_wf_def\<close>)
qed (use assms in \<open>simp add: close_campaign_def\<close>)

lemma review_wf [itou_inv]:
  assumes "eval_wf x" "s \<in> set (xv_siaes x)" "review now s x = Inr x'"
  shows "eval_wf x'"
proof -
  obtain s' where r: "(if siae_state x s = ES_ACCEPTED then Inr (s\<lparr>es_reviewed_at := Some now, es_final_reviewed_at := Some now\<rparr>)
             else if siae_state x s = ES_REFUSED then Inr (s\<lparr>es_reviewed_at := Some now\<rparr>)
             else if siae_state x s = ES_ADVERSARIAL_STAGE then Inr (s\<lparr>es_final_reviewed_at := Some now\<rparr>)
             else Inl (TypeError ''Cannot review'')) = Inr s'"
    and w: "write_siaes (map_rows (\<lambda>r. es_pk r = es_pk s) (\<lambda>_. s') (xv_siaes x)) x = Inr x'"
    using assms(3) by (simp only: review_def Let_def rbind_eq_Inr) blast
  have k: "es_key s' = es_key s" "es_final_state s' = es_final_state s"
    using r by (auto simp: es_key_def split: if_splits)
  show ?thesis
    by (rule write_siaes_wf [OF assms(1) w [unfolded map_rows_def]]) (auto simp: k dest: eval_wf_siae_unique [OF assms(1,2)])
qed

lemma save_selected_criteria_wf [itou_inv]:
  assumes "eval_wf x" "save_selected_criteria al cl ch a x = Inr x'"
  shows "eval_wf x'"
proof -
  have "eval_wf (x\<lparr>xv_criteria := filter p (xv_criteria x)\<rparr>)" for p
    by (rule eval_wfI [OF assms(1)]) (use assms(1) in \<open>auto simp: eval_wf_def distinct_map inj_on_def list_all_iff\<close>)
  then show ?thesis
    using assms(2) unfolding save_selected_criteria_def
    by (elim rfold_invariant [where P = eval_wf, rotated 2]) (auto intro: create_criteria_wf)
qed

lemma siae_select_criteria_wf [itou_inv]:
  "eval_wf x \<Longrightarrow> siae_select_criteria c p al cl ch x = Inr x' \<Longrightarrow> eval_wf x'"
  by (auto simp: siae_select_criteria_def intro: save_selected_criteria_wf split: option.splits if_splits)

lemma update_criteria_op_wf:
  assumes "eval_wf x" "\<And>c. ev_pk (f c) = ev_pk c" "\<And>c. ev_pair (f c) = ev_pair c"
  shows "eval_wf (update_criteria p f x)"
  unfolding update_criteria_def by (rule update_criteria_wf) (use assms in auto)

lemma institution_criteria_wf [itou_inv]:
  "eval_wf x \<Longrightarrow> institution_evaluated_administrative_criteria i p act x = Inr x' \<Longrightarrow> eval_wf x'"
  by (auto simp: institution_evaluated_administrative_criteria_def ev_pair_def intro!: update_criteria_op_wf
      split: option.splits if_splits)

lemma siae_upload_doc_wf [itou_inv]:
  "eval_wf x \<Longrightarrow> siae_upload_doc c now p f x = Inr x' \<Longrightarrow> eval_wf x'"
  by (auto simp: siae_upload_doc_def ev_pair_def intro!: update_criteria_op_wf split: option.splits if_splits)

lemma validation_wf [itou_inv]:
  "eval_wf x \<Longrightarrow> institution_evaluated_siae_validation i now p x = Inr x' \<Longrightarrow> eval_wf x'"
  by (auto simp: institution_evaluated_siae_validation_def intro: review_wf dest: get_row_SomeD
      split: option.splits if_splits)

lemma freeze_row_wf:
  assumes "eval_wf x"
  shows "eval_wf (x\<lparr>xv_siaes := map_rows p (\<lambda>r. r\<lparr>es_submission_freezed_at := t\<rparr>) (xv_siaes x)\<rparr>)"
  using assms by (rule eval_wf_siaes) (simp_all add: es_key_def siae_row_check_def split: option.splits)

lemma siae_submit_proofs_wf [itou_inv]:
  assumes "eval_wf x" "siae_submit_proofs c now p x = Inr x'"
  shows "eval_wf x'"
proof -
  have "eval_wf (x\<lparr>xv_criteria := map_rows q (\<lambda>c. c\<lparr>ev_submitted_at := Some now\<rparr>) (xv_criteria x),
     xv_siaes := map_rows q' (\<lambda>r. r\<lparr>es_submission_freezed_at := Some now\<rparr>) (xv_siaes x)\<rparr>)" for q q'
    using freeze_row_wf [OF update_criteria_wf [OF assms(1), of "\<lambda>c. c\<lparr>ev_submitted_at := Some now\<rparr>" q]]
    by (simp add: ev_pair_def)
  then show ?thesis
    using assms by (auto simp: siae_submit_proofs_def split: option.splits if_splits)
qed

lemma notify_sanctions_wf [itou_inv]:
  assumes "eval_wf x" "notify_sanctions i now p tr ds re cuts x = Inr x'"
  shows "eval_wf x'"
proof -
  obtain ns js where x': "x' = x\<lparr>xv_sanctions := ns, xv_app_sanctions := js,
      xv_siaes := map_rows (\<lambda>r. es_pk r = p) (\<lambda>r. r\<lparr>es_notified_at := Some now\<rparr>) (xv_siaes x)\<rparr>"
    using assms(2) by (auto simp: notify_sanctions_def Let_def split: option.splits if_splits)
  have "eval_wf (x\<lparr>xv_siaes := map_rows (\<lambda>r. es_pk r = p) (\<lambda>r. r\<lparr>es_notified_at := Some now\<rparr>) (xv_siaes x)\<rparr>)"
    using assms(1) by (rule eval_wf_siaes) (simp_all add: es_key_def siae_row_check_def split: option.splits)
  note wf = this
  have "final_ok x' s = final_ok x s" for s
    by (rule final_ok_cong) (simp_all add: x')
  with wf show ?thesis by (intro eval_wfI [OF wf]) (simp_all add: x' eval_wf_def list_all_iff)
qed

section \<open>The operations as steps\<close>

inductive eval_step :: "eval_db \<Rightarrow> eval_db \<Rightarrow> bool" where
  step_populate: "g \<in> set (xv_campaigns x) \<Longrightarrow> populate sh sh' dep dep' d t g x = Inr x' \<Longrightarrow> eval_step x x'"
| step_freeze: "g \<in> set (xv_campaigns x) \<Longrightarrow> eval_step x (freeze today now t g x)"
| step_transition: "g \<in> set (xv_campaigns x) \<Longrightarrow> transition_to_adversarial_phase now g x = Inr x' \<Longrightarrow> eval_step x x'"
| step_close: "g \<in> set (xv_campaigns x) \<Longrightarrow> close_campaign now g x = Inr x' \<Longrightarrow> eval_step x x'"
| step_criteria: "institution_evaluated_administrative_criteria i p act x = Inr x' \<Longrightarrow> eval_step x x'"
| step_validation: "institution_evaluated_siae_validation i now p x = Inr x' \<Longrightarrow> eval_step x x'"
| step_select: "siae_select_criteria c p al cl ch x = Inr x' \<Longrightarrow> eval_step x x'"
| step_upload: "siae_upload_doc c now p f x = Inr x' \<Longrightarrow> eval_step x x'"
| step_submit: "siae_submit_proofs c now p x = Inr x' \<Longrightarrow> eval_step x x'"
| step_notify: "notify_sanctions i now p tr ds re cuts x = Inr x' \<Longrightarrow> eval_step x x'"

lemma eval_step_wf: "eval_step x x' \<Longrightarrow> eval_wf x \<Longrightarrow> eval_wf x'"
  by (induction rule: eval_step.induct) (auto intro: itou_inv)

text \<open>What a step keeps of the companies: none is removed, and a final state stays.\<close>

definition keep_row :: "evaluated_siae \<Rightarrow> evaluated_siae \<Rightarrow> bool" where
  "keep_row s s' \<longleftrightarrow> es_key s' = es_key s \<and> (es_final_state s \<noteq> None \<longrightarrow> es_final_state s' = es_final_state s)"

definition keeps :: "eval_db \<Rightarrow> eval_db \<Rightarrow> bool" where
  "keeps x x' \<longleftrightarrow> (\<forall>s \<in> set (xv_siaes x). \<exists>s' \<in> set (xv_siaes x'). keep_row s s')"

lemma keep_row_refl [simp]: "keep_row s s"
  by (simp add: keep_row_def)

lemma keeps_refl [simp]: "keeps x x"
  by (simp add: keeps_def) (use keep_row_refl in blast)

lemma keeps_trans: "keeps x y \<Longrightarrow> keeps y z \<Longrightarrow> keeps x z"
  unfolding keeps_def keep_row_def by (metis (no_types, lifting))

lemma keeps_same_siaes: "xv_siaes x' = xv_siaes x \<Longrightarrow> keeps x x'"
  unfolding keeps_def by (metis keep_row_refl)

lemma keeps_list: "list_all2 keep_row (xv_siaes x) (xv_siaes x') \<Longrightarrow> keeps x x'"
  unfolding keeps_def by (metis list_all2_conv_all_nth in_set_conv_nth)

lemmas keeps_rows = list_all2_map2 list_all2_same map_rows_def keep_row_def es_key_def

lemma rfold_keeps:
  assumes "\<And>a y y'. f a y = Inr y' \<Longrightarrow> keeps y y'" "rfold f as x = Inr x'"
  shows "keeps x x'"
  using assms(2)
proof (induction as arbitrary: x)
  case (Cons a as)
  then obtain y where "f a x = Inr y" "keeps y x'" by auto
  then show ?case using assms(1) keeps_trans by blast
qed simp

lemma write_siaes_siaes: "write_siaes rows x = Inr x' \<Longrightarrow> xv_siaes x' = rows"
  by (auto simp: write_siaes_def split: if_splits)

lemma create_criteria_keeps: "create_criteria a k t rs b y = Inr y' \<Longrightarrow> keeps y y'"
  by (auto simp: create_criteria_def intro: keeps_same_siaes split: if_splits)

lemma create_siae_keeps: "create_siae g c y = Inr y' \<Longrightarrow> keeps y y'"
  by (auto simp: create_siae_def keeps_def split: if_splits intro: keep_row_refl)

lemma add_certified_keeps: "add_certified d t app j c z = Inr z' \<Longrightarrow> keeps z z'"
  by (auto simp: add_certified_def intro: create_criteria_keeps split: if_splits)

lemma populate_app_keeps:
  assumes "populate_app d t s j y = Inr y'"
  shows "keeps y y'"
proof -
  note rfold_keeps [OF add_certified_keeps assms [unfolded populate_app_def Let_def]]
  moreover have "keeps y (y\<lparr>xv_apps := as\<rparr>)" for as by (rule keeps_same_siaes) simp
  ultimately show ?thesis by (rule keeps_trans [rotated])
qed

lemma populate_siae_keeps: "populate_siae sh jas d t s y = Inr y' \<Longrightarrow> keeps y y'"
  unfolding populate_siae_def by (rule rfold_keeps [OF populate_app_keeps])

lemma populate_keeps:
  assumes "populate sh sh' dep dep' d t g x = Inr x'"
  shows "keeps x x'"
proof -
  obtain jas sl x1 created pks x2 where a: "rfold (create_siae (cg_pk g)) sl
        (update_campaign (cg_pk g) (mark_asked t) x) = Inr x1"
    and b: "rfold (populate_siae sh' jas d t) created x1 = Inr x2"
    and c: "accept_from_certified t pks x2 = Inr x'"
    using assms by (auto simp: populate_def Let_def split: if_splits)
  have "keeps x (update_campaign (cg_pk g) (mark_asked t) x)"
    by (rule keeps_same_siaes) (simp add: update_campaign_def)
  also note rfold_keeps [OF create_siae_keeps a]
  finally (keeps_trans) have "keeps x x1" .
  moreover have "keeps x1 x2" by (rule rfold_keeps [OF populate_siae_keeps b])
  moreover have "keeps x2 x'"
    using write_siaes_siaes [OF c [unfolded accept_from_certified_def]]
    by (intro keeps_list) (simp add: keeps_rows)
  ultimately show ?thesis by (blast intro: keeps_trans)
qed

lemma freeze_keeps: "keeps x (freeze today now t g x)"
  by (auto simp: freeze_def Let_def update_campaign_def keeps_rows intro!: keeps_list)

lemma transition_keeps: "transition_to_adversarial_phase now g x = Inr x' \<Longrightarrow> keeps x x'"
  by (auto simp: transition_to_adversarial_phase_def update_campaign_def keeps_rows dest!: write_siaes_siaes
      intro!: keeps_list split: option.splits)

lemma close_keeps: "close_campaign now g x = Inr x' \<Longrightarrow> keeps x x'"
  by (auto simp: close_campaign_def Let_def update_campaign_def keeps_rows closing_row_def siae_state_def
      dest!: write_siaes_siaes intro!: keeps_list split: if_splits)

lemma review_keeps:
  assumes "eval_wf x" "s \<in> set (xv_siaes x)" "review now s x = Inr x'"
  shows "keeps x x'"
proof -
  note u = eval_wf_siae_unique [OF assms(1,2)]
  show ?thesis
    using assms(3) by (auto dest: u simp: review_def Let_def keeps_rows dest!: write_siaes_siaes
        intro!: keeps_list split: if_splits)
qed

lemma save_selected_criteria_keeps:
  assumes "save_selected_criteria al cl ch a x = Inr x'"
  shows "keeps x x'"
proof -
  note rfold_keeps [OF create_criteria_keeps assms [unfolded save_selected_criteria_def]]
  moreover have "keeps x (x\<lparr>xv_criteria := cs\<rparr>)" for cs by (rule keeps_same_siaes) simp
  ultimately show ?thesis by (rule keeps_trans [rotated])
qed

lemma select_keeps: "siae_select_criteria c p al cl ch x = Inr x' \<Longrightarrow> keeps x x'"
  by (auto simp: siae_select_criteria_def intro: save_selected_criteria_keeps split: option.splits if_splits)

lemma eval_step_keeps:
  assumes "eval_step x x'" "eval_wf x"
  shows "keeps x x'"
  using assms
proof (induction rule: eval_step.induct)
  case (step_validation i now p x x')
  then show ?case
    by (auto simp: institution_evaluated_siae_validation_def intro: review_keeps dest: get_row_SomeD
        split: option.splits if_splits)
next
  case (step_submit c now p x x')
  then show ?case
    by (auto simp: siae_submit_proofs_def keeps_rows intro!: keeps_list split: option.splits if_splits)
next
  case (step_notify i now p tr ds re cuts x x')
  then show ?case
    by (auto simp: notify_sanctions_def Let_def keeps_rows intro!: keeps_list split: option.splits if_splits)
qed (auto simp: institution_evaluated_administrative_criteria_def siae_upload_doc_def update_criteria_def
  intro: populate_keeps freeze_keeps transition_keeps close_keeps select_keeps keeps_same_siaes
  split: option.splits if_splits)

end
