(* ===== verification/Siae_Campaign_Effects.thy ===== *)
theory Siae_Campaign_Effects
  imports Siae_Campaign_Invariant
begin

text \<open>
  What the phases of a campaign do: the sample \<open>populate\<close> draws, the companies that
  \<open>transition_to_adversarial_phase\<close> accepts to move, and the decisions \<open>close\<close> writes.
\<close>

section \<open>The sample\<close>

lemma select_limit_bounds: "2 \<le> select_limit n" "select_limit n \<le> 20" "2 \<le> n \<Longrightarrow> select_limit n \<le> n"
  by (auto simp: select_limit_def Let_def)

lemma round_percent_le: "m \<le> 100 * n \<Longrightarrow> round_percent m \<le> n"
proof -
  assume "m \<le> 100 * n"
  then have "m div 100 < n \<or> m = 100 * n" by (auto simp: less_mult_imp_div_less mult.commute)
  then show ?thesis by (auto simp: round_percent_def Let_def)
qed

lemma number_of_siaes_to_select_le:
  "cg_chosen_percent g \<le> 100 \<Longrightarrow> number_of_siaes_to_select g jas \<le> length (eligible_siaes jas)"
  using round_percent_le [of "length (eligible_siaes jas) * cg_chosen_percent g" "length (eligible_siaes jas)"]
  by (auto simp: number_of_siaes_to_select_def Let_def Suc_le_eq mult.commute)

lemma eligible_siaes_count:
  "c \<in> set (eligible_siaes jas) \<Longrightarrow> 2 \<le> length (filter (\<lambda>j. ja_to_company j = c) jas)"
  by (simp add: eligible_siaes_def count_list_eq_length_filter filter_map comp_def eq_commute)

lemma mset_take_subset: "mset xs = mset ys \<Longrightarrow> mset (take n xs) \<subseteq># mset ys"
  by (metis append_take_drop_id mset_append mset_subset_eq_add_left)

lemma create_siaes_effect:
  assumes "rfold (create_siae g) cs x = Inr x'"
  shows "\<exists>news. xv_siaes x' = xv_siaes x @ news \<and> map es_siae news = cs \<and> (\<forall>s \<in> set news. es_campaign s = g) \<and>
    xv_apps x' = xv_apps x"
  using assms
proof (induction cs arbitrary: x)
  case (Cons c cs)
  then obtain y where y: "create_siae g c x = Inr y" "rfold (create_siae g) cs y = Inr x'" by auto
  from Cons.IH [OF y(2)] obtain news where "xv_siaes x' = xv_siaes y @ news" "map es_siae news = cs"
    "\<forall>s \<in> set news. es_campaign s = g" "xv_apps x' = xv_apps y" by blast
  with y(1) show ?case
    by (intro exI [of _ "new_siae (next_pk es_pk (xv_siaes x)) g c # news"])
       (auto simp: create_siae_def new_siae_def split: if_splits)
qed simp

lemma add_certified_effect:
  "add_certified d t app j s x = Inr x' \<Longrightarrow> xv_siaes x' = xv_siaes x \<and> xv_apps x' = xv_apps x"
  by (auto simp: add_certified_def create_criteria_def split: if_splits)

lemma populate_app_effect:
  assumes "populate_app d t s j x = Inr x'"
  shows "xv_siaes x' = xv_siaes x" "\<exists>p. xv_apps x' = xv_apps x @ [\<lparr>ea_pk = p, ea_siae = s, ea_job_application = ja_pk j\<rparr>]"
proof -
  let ?p = "next_pk ea_pk (xv_apps x)"
  let ?y = "x\<lparr>xv_apps := xv_apps x @ [\<lparr>ea_pk = ?p, ea_siae = s, ea_job_application = ja_pk j\<rparr>]\<rparr>"
  have "xv_siaes x' = xv_siaes ?y \<and> xv_apps x' = xv_apps ?y"
    by (rule rfold_invariant [where P = "\<lambda>z. xv_siaes z = xv_siaes ?y \<and> xv_apps z = xv_apps ?y",
          OF _ _ assms [unfolded populate_app_def Let_def]])
       (auto dest!: add_certified_effect)
  then show "xv_siaes x' = xv_siaes x"
    "\<exists>p. xv_apps x' = xv_apps x @ [\<lparr>ea_pk = p, ea_siae = s, ea_job_application = ja_pk j\<rparr>]" by auto
qed

definition apps_of :: "pk \<Rightarrow> eval_db \<Rightarrow> pk list" where
  "apps_of s x = map ea_job_application (filter (\<lambda>a. ea_siae a = s) (xv_apps x))"

lemma populate_apps_effect:
  assumes "rfold (populate_app d t s) js x = Inr x'"
  shows "xv_siaes x' = xv_siaes x" "apps_of r x' = apps_of r x @ (if r = s then map ja_pk js else [])"
  using assms
proof (induction js arbitrary: x)
  case (Cons j js)
  { case 1 then show ?case using Cons.IH(1) populate_app_effect(1) by fastforce
  next
    case 2
    then obtain y where y: "populate_app d t s j x = Inr y" "rfold (populate_app d t s) js y = Inr x'" by auto
    obtain p where "xv_apps y = xv_apps x @ [\<lparr>ea_pk = p, ea_siae = s, ea_job_application = ja_pk j\<rparr>]"
      using populate_app_effect(2) [OF y(1)] by blast
    with Cons.IH(2) [OF y(2)] show ?case by (auto simp: apps_of_def)
  }
qed simp_all

definition sample_of :: "(pk \<Rightarrow> job_application list \<Rightarrow> job_application list) \<Rightarrow> job_application list \<Rightarrow> pk \<Rightarrow> job_application list" where
  "sample_of sh jas c = select_min_max_job_applications (sh c) (filter (\<lambda>j. ja_to_company j = c) jas)"

lemma populate_siaes_effect:
  assumes "rfold (populate_siae sh jas d t) ss x = Inr x'" "distinct (map es_pk ss)"
  shows "xv_siaes x' = xv_siaes x \<and>
    apps_of r x' = apps_of r x @ concat (map (\<lambda>s. if es_pk s = r then map ja_pk (sample_of sh jas (es_siae s)) else []) ss)"
  using assms
proof (induction ss arbitrary: x)
  case (Cons s ss)
  then obtain y where y: "populate_siae sh jas d t s x = Inr y" "rfold (populate_siae sh jas d t) ss y = Inr x'" by auto
  have e: "rfold (populate_app d t (es_pk s)) (sample_of sh jas (es_siae s)) x = Inr y"
    using y(1) by (simp add: populate_siae_def sample_of_def)
  show ?case using Cons.IH [OF y(2)] Cons.prems(2) populate_apps_effect [OF e] by auto
qed simp

lemma concat_single:
  assumes "distinct (map k ss)" "s \<in> set ss"
  shows "concat (map (\<lambda>r. if k r = k s then f r else []) ss) = f s"
proof -
  obtain as bs where ss: "ss = as @ s # bs" using assms(2) by (auto simp: in_set_conv_decomp)
  have none: "concat (map (\<lambda>r. if k r = k s then f r else []) cs) = []" if "k s \<notin> k ` set cs" for cs
    using that by (induction cs) auto
  have "k s \<notin> k ` set as" "k s \<notin> k ` set bs" using assms(1) by (auto simp: ss)
  from none [OF this(1)] none [OF this(2)] show ?thesis
    by (simp only: ss map_append list.map concat_append concat.simps) simp
qed

lemma sample_of_bounds:
  assumes "c \<in> set (eligible_siaes jas)" "\<And>xs. mset (sh c xs) = mset xs"
  shows "mset (sample_of sh jas c) \<subseteq># mset (filter (\<lambda>j. ja_to_company j = c) jas)"
    "length (sample_of sh jas c) = select_limit (length (filter (\<lambda>j. ja_to_company j = c) jas))"
proof -
  let ?f = "filter (\<lambda>j. ja_to_company j = c) jas"
  show "mset (sample_of sh jas c) \<subseteq># mset ?f"
    by (simp add: sample_of_def select_min_max_job_applications_def mset_take_subset assms(2) del: mset_filter)
  have "length (sh c ?f) = length ?f" using assms(2) [of ?f] by (metis size_mset)
  then show "length (sample_of sh jas c) = select_limit (length ?f)"
    using eligible_siaes_count [OF assms(1)] select_limit_bounds(3) [of "length ?f"]
    by (simp add: sample_of_def select_min_max_job_applications_def)
qed

lemma accept_from_certified_effect:
  assumes "accept_from_certified t pks x = Inr x'"
  shows "map es_key (xv_siaes x') = map es_key (xv_siaes x)" "xv_apps x' = xv_apps x"
  using assms by (auto simp: accept_from_certified_def write_siaes_def map_rows_def es_key_def split: if_splits)

text \<open>The companies added by \<open>populate\<close> and their applications.\<close>

lemma populate_effect:
  assumes wf: "eval_wf x" and fk: "\<forall>a \<in> set (xv_apps x). ea_siae a \<in> es_pk ` set (xv_siaes x)"
    and p: "populate sh sh' dep dep' d t g x = Inr x'"
  defines "jas \<equiv> eligible_job_applications dep dep' d g"
    and "new \<equiv> drop (length (xv_siaes x)) (xv_siaes x')"
  shows "map es_siae new = eligible_siaes_under_ratio sh g jas" "\<forall>s \<in> set new. es_campaign s = cg_pk g"
    "\<forall>s \<in> set new. map ea_job_application (siae_apps x' s) = map ja_pk (sample_of sh' jas (es_siae s))"
proof -
  let ?u = "update_campaign (cg_pk g) (mark_asked t) x"
  obtain x1 x2 where a: "rfold (create_siae (cg_pk g)) (eligible_siaes_under_ratio sh g jas) ?u = Inr x1"
    and b: "rfold (populate_siae sh' jas d t) (drop (length (xv_siaes x)) (xv_siaes x1)) x1 = Inr x2"
    and c: "accept_from_certified t (map es_pk (drop (length (xv_siaes x)) (xv_siaes x1))) x2 = Inr x'"
    using p by (auto simp: populate_def Let_def jas_def split: if_splits)
  obtain news where n: "xv_siaes x1 = xv_siaes x @ news" "map es_siae news = eligible_siaes_under_ratio sh g jas"
    "\<forall>s \<in> set news. es_campaign s = cg_pk g" "xv_apps x1 = xv_apps x"
    using create_siaes_effect [OF a] by (auto simp: update_campaign_def)
  have "eval_wf ?u" using wf by (rule update_campaign_wf) (simp_all add: mark_asked_def)
  with create_siae_wf have wf1: "eval_wf x1" by (rule rfold_invariant [where P = eval_wf, OF _ _ a])
  then have dn: "distinct (map es_pk news)" "es_pk ` set news \<inter> es_pk ` set (xv_siaes x) = {}"
    by (auto simp: eval_wf_def n(1))
  have e2: "xv_siaes x2 = xv_siaes x1 \<and> apps_of r x2 = apps_of r x1 @
      concat (map (\<lambda>s. if es_pk s = r then map ja_pk (sample_of sh' jas (es_siae s)) else []) news)" for r
    using populate_siaes_effect [OF b] dn(1) by (simp add: n(1))
  have k: "map es_key (xv_siaes x') = map es_key (xv_siaes x1)"
    using accept_from_certified_effect [OF c] e2 by simp
  have kk: "map es_key new = map es_key news"
    using arg_cong [OF k, of "drop (length (xv_siaes x))"] by (simp add: new_def n(1) drop_map)
  show "map es_siae new = eligible_siaes_under_ratio sh g jas"
    using arg_cong [OF kk, of "map (snd \<circ> snd)"] by (simp add: es_key_def comp_def n(2))
  have "es_key ` set new = es_key ` set news" using arg_cong [OF kk, of set] by simp
  then have twin: "\<exists>s1 \<in> set news. es_key s1 = es_key s" if "s \<in> set new" for s using that by (metis imageE imageI)
  then show "\<forall>s \<in> set new. es_campaign s = cg_pk g" using n(3) by (fastforce simp: es_key_def)
  show "\<forall>s \<in> set new. map ea_job_application (siae_apps x' s) = map ja_pk (sample_of sh' jas (es_siae s))"
  proof
    fix s assume "s \<in> set new"
    then obtain s1 where s1: "s1 \<in> set news" "es_pk s1 = es_pk s" "es_siae s1 = es_siae s"
      using twin by (auto simp: es_key_def)
    have "es_pk s \<notin> es_pk ` set (xv_siaes x)" using dn(2) s1(1) s1(2) [symmetric] by blast
    then have "\<forall>a \<in> set (xv_apps x). ea_siae a \<noteq> es_pk s" using fk by metis
    then have none: "apps_of (es_pk s) x1 = []" by (simp add: apps_of_def n(4))
    have "apps_of (es_pk s) x2 = map ja_pk (sample_of sh' jas (es_siae s))"
      using e2 [of "es_pk s"] none s1
        concat_single [OF dn(1) s1(1), of "\<lambda>s. map ja_pk (sample_of sh' jas (es_siae s))"] by simp
    then show "map ea_job_application (siae_apps x' s) = map ja_pk (sample_of sh' jas (es_siae s))"
      using accept_from_certified_effect(2) [OF c] by (simp add: apps_of_def siae_apps_def)
  qed
qed

section \<open>The adversarial phase\<close>

definition can_transition :: "eval_db \<Rightarrow> evaluated_siae \<Rightarrow> bool" where
  "can_transition x s \<longleftrightarrow>
     (if es_reviewed_at s \<noteq> None then siae_state x s \<in> {ES_ACCEPTED, ES_ADVERSARIAL_STAGE}
      else siae_state x s \<noteq> ES_ADVERSARIAL_STAGE)"

lemma adversarial_decision_ok: "(\<exists>s'. adversarial_decision now x s = Inr s') \<longleftrightarrow> can_transition x s"
  by (cases "siae_state x s") (auto simp: adversarial_decision_def can_transition_def Let_def)

lemma adversarial_decision_key: "adversarial_decision now x s = Inr s' \<Longrightarrow> es_key s' = es_key s"
  by (auto simp: adversarial_decision_def es_key_def Let_def split: if_splits)

lemma adversarial_decision_row:
  "adversarial_decision now x s = Inr s' \<Longrightarrow> siae_row_check s \<Longrightarrow> siae_row_check s'"
  by (auto simp: adversarial_decision_def siae_row_check_def Let_def split: if_splits option.splits)

lemma rfold_collect:
  "(\<exists>rows. rfold (\<lambda>s acc. rbind (f s) (\<lambda>s'. Inr (acc @ [s']))) ss acc = Inr rows) \<longleftrightarrow> (\<forall>s \<in> set ss. \<exists>s'. f s = Inr s')"
proof (induction ss arbitrary: acc)
  case (Cons s ss)
  then show ?case by (cases "f s") auto
qed simp

lemma rfold_collect_Inr:
  "rfold (\<lambda>s acc. rbind (f s) (\<lambda>s'. Inr (acc @ [s']))) ss acc = Inr rows \<Longrightarrow>
     \<exists>new. rows = acc @ new \<and> list_all2 (\<lambda>s s'. f s = Inr s') ss new"
proof (induction ss arbitrary: acc)
  case (Cons s ss)
  then obtain s' where s': "f s = Inr s'"
    "rfold (\<lambda>s acc. rbind (f s) (\<lambda>s'. Inr (acc @ [s']))) ss (acc @ [s']) = Inr rows" by auto
  from Cons.IH [OF s'(2)] obtain new where "rows = acc @ [s'] @ new" "list_all2 (\<lambda>s s'. f s = Inr s') ss new" by auto
  with s'(1) show ?case by (intro exI [of _ "s' # new"]) simp
qed simp

lemma list_all2_source: "list_all2 R xs ys \<Longrightarrow> y \<in> set ys \<Longrightarrow> \<exists>x \<in> set xs. R x y"
  by (induction rule: list_all2_induct) auto

lemma list_all2_get_row:
  assumes "list_all2 (\<lambda>s s'. f s = Inr s' \<and> k s' = k s) ss new" "distinct (map k ss)" "s \<in> set ss"
  shows "\<exists>s'. get_row k (k s) new = Some s' \<and> f s = Inr s'"
  using assms
proof (induction rule: list_all2_induct)
  case (Cons a as b bs)
  then show ?case by (cases "s = a") auto
qed simp

lemma transition_ok:
  assumes "eval_wf x"
  shows "(\<exists>x'. transition_to_adversarial_phase now g x = Inr x') \<longleftrightarrow>
    (\<forall>s \<in> set (xv_siaes x). es_campaign s = cg_pk g \<longrightarrow> can_transition x s)"
proof -
  let ?mine = "filter (\<lambda>s. es_campaign s = cg_pk g) (xv_siaes x)"
  let ?collect = "rfold (\<lambda>s acc. rbind (adversarial_decision now x s) (\<lambda>s'. Inr (acc @ [s']))) ?mine []"
  have "\<exists>x'. write_siaes (map (\<lambda>s. case get_row es_pk (es_pk s) rows of None \<Rightarrow> s
                     | Some s' \<Rightarrow> s\<lparr>es_reviewed_at := es_reviewed_at s', es_final_reviewed_at := es_final_reviewed_at s',
                                  es_submission_freezed_at := None\<rparr>) (xv_siaes x)) x = Inr x'"
    if c: "?collect = Inr rows" for rows
  proof -
    have l: "list_all2 (\<lambda>s s'. adversarial_decision now x s = Inr s') ?mine rows"
      using rfold_collect_Inr [OF c] by auto
    have chk: "\<forall>s \<in> set (xv_siaes x). siae_row_check s" using assms by (simp add: eval_wf_def list_all_iff)
    have rows: "siae_row_check r" if "r \<in> set rows" for r
    proof -
      from list_all2_source [OF l that] obtain s where "s \<in> set ?mine" "adversarial_decision now x s = Inr r" by blast
      then show ?thesis using chk adversarial_decision_row by auto
    qed
    have "siae_row_check (case get_row es_pk (es_pk s) rows of None \<Rightarrow> s
        | Some s' \<Rightarrow> s\<lparr>es_reviewed_at := es_reviewed_at s', es_final_reviewed_at := es_final_reviewed_at s',
                     es_submission_freezed_at := None\<rparr>)" if "s \<in> set (xv_siaes x)" for s
    proof (cases "get_row es_pk (es_pk s) rows")
      case (Some s')
      with get_row_SomeD [OF Some] rows [of s'] show ?thesis by (simp add: siae_row_check_def split: option.splits)
    qed (use chk that in simp)
    then show ?thesis by (simp add: write_siaes_def list_all_iff)
  qed
  then have "(\<exists>x'. transition_to_adversarial_phase now g x = Inr x') \<longleftrightarrow> (\<exists>rows. ?collect = Inr rows)"
    by (simp add: transition_to_adversarial_phase_def) blast
  also have "\<dots> \<longleftrightarrow> (\<forall>s \<in> set ?mine. \<exists>s'. adversarial_decision now x s = Inr s')" by (rule rfold_collect)
  finally show ?thesis by (auto simp: adversarial_decision_ok)
qed

definition adversarial_target :: "evaluated_siae_state \<Rightarrow> evaluated_siae_state" where
  "adversarial_target st = (case st of ES_SUBMITTED \<Rightarrow> ES_ACCEPTED | ES_REFUSED \<Rightarrow> ES_ADVERSARIAL_STAGE | _ \<Rightarrow> st)"

lemma siae_state_row_cong:
  assumes "xv_apps x' = xv_apps x" "xv_criteria x' = xv_criteria x" "es_key s' = es_key s"
    "campaign_ended x' s' = campaign_ended x s" "es_final_state s' = es_final_state s"
    "es_reviewed_at s' = es_reviewed_at s" "es_final_reviewed_at s' = es_final_reviewed_at s"
  shows "siae_state x' s' = siae_state x s"
proof -
  have "state_from_applications x' s' = state_from_applications x s"
    using assms(3) by (simp add: state_from_applications_def siae_apps_def compute_state_def app_criteria_def assms(1,2) es_key_def)
  then show ?thesis using assms(4-7) by (cases "es_final_state s") (simp_all add: siae_state_def evaluation_is_final_def Let_def)
qed

lemma adversarial_decision_state:
  assumes "adversarial_decision now x s = Inr s'" "es_final_state s = None" "\<not> campaign_ended x s" "siae_row_check s"
  shows "siae_state x s' = adversarial_target (siae_state x s)" "es_reviewed_at s' \<noteq> None" "es_final_state s' = None"
proof -
  have s': "es_key s' = es_key s" "es_final_state s' = None"
    using assms(1,2) by (auto simp: adversarial_decision_def es_key_def Let_def split: if_splits)
  then have c: "state_from_applications x s' = state_from_applications x s" "campaign_ended x s' = campaign_ended x s"
    by (simp_all add: es_key_def state_from_applications_def siae_apps_def campaign_ended_def campaign_of_def)
  show "es_final_state s' = None" by (rule s')
  show "es_reviewed_at s' \<noteq> None"
    using assms(1) by (auto simp: adversarial_decision_def Let_def split: if_splits)
  show "siae_state x s' = adversarial_target (siae_state x s)"
    by (rule state_from_applications_cases [of x s])
       (use assms s' c in \<open>auto simp: adversarial_decision_def siae_state_def evaluation_is_final_def adversarial_target_def
          siae_row_check_def Let_def split: if_splits option.splits\<close>)
qed

lemma transition_effect:
  assumes wf: "eval_wf x" and t: "transition_to_adversarial_phase now g x = Inr x'"
    and s: "s \<in> set (xv_siaes x)" "es_campaign s = cg_pk g" and run: "\<not> campaign_ended x s"
  shows "\<exists>s' \<in> set (xv_siaes x'). es_key s' = es_key s \<and> siae_state x' s' = adversarial_target (siae_state x s) \<and>
    es_reviewed_at s' \<noteq> None \<and> es_submission_freezed_at s' = None"
proof -
  let ?mine = "filter (\<lambda>s. es_campaign s = cg_pk g) (xv_siaes x)"
  let ?upd = "\<lambda>rows s. case get_row es_pk (es_pk s) rows of None \<Rightarrow> s
     | Some s' \<Rightarrow> s\<lparr>es_reviewed_at := es_reviewed_at s', es_final_reviewed_at := es_final_reviewed_at s',
                  es_submission_freezed_at := None\<rparr>"
  obtain rows x1 where c: "rfold (\<lambda>s acc. rbind (adversarial_decision now x s) (\<lambda>s'. Inr (acc @ [s']))) ?mine [] = Inr rows"
    and w: "write_siaes (map (?upd rows) (xv_siaes x)) x = Inr x1"
    and x': "x' = update_campaign (cg_pk g) (\<lambda>r. r\<lparr>cg_submission_freeze_notified_at := None\<rparr>) x1"
    using t by (auto simp: transition_to_adversarial_phase_def)
  have chk: "siae_row_check r" if "r \<in> set (xv_siaes x)" for r using wf that by (simp add: eval_wf_def list_all_iff)
  have "list_all2 (\<lambda>s s'. adversarial_decision now x s = Inr s' \<and> es_pk s' = es_pk s) ?mine rows"
    using rfold_collect_Inr [OF c] adversarial_decision_key
    by (auto simp: es_key_def elim!: list_all2_mono)
  moreover have "distinct (map es_pk ?mine)" using wf by (simp add: eval_wf_def distinct_map_filter)
  ultimately obtain s1 where s1: "get_row es_pk (es_pk s) rows = Some s1" "adversarial_decision now x s = Inr s1"
    using list_all2_get_row [of "adversarial_decision now x" es_pk ?mine rows s] s by auto
  have fin: "es_final_state s = None"
    using wf s(1) run by (auto simp: eval_wf_def list_all_iff final_ok_def split: option.splits)
  note dec = adversarial_decision_state [OF s1(2) fin run chk [OF s(1)]] adversarial_decision_key [OF s1(2)]
  have x1: "xv_siaes x1 = map (?upd rows) (xv_siaes x)" "xv_campaigns x1 = xv_campaigns x" "xv_apps x1 = xv_apps x"
    "xv_criteria x1 = xv_criteria x"
    using w by (auto simp: write_siaes_def split: if_splits)
  have "campaign_ended x' s = campaign_ended x s"
    by (auto simp: x' x1 campaign_ended_def campaign_of_def update_campaign_def get_row_mark split: option.splits)
  then have "siae_state x' (?upd rows s) = siae_state x s1"
    using dec fin run by (intro siae_state_row_cong)
      (auto simp: x' update_campaign_def x1 s1(1) es_key_def campaign_ended_def campaign_of_def)
  moreover have "?upd rows s \<in> set (xv_siaes x')" using s(1) by (simp add: x' x1 update_campaign_def)
  ultimately show ?thesis using dec by (intro bexI [of _ "?upd rows s"]) (simp_all add: s1(1) es_key_def)
qed

section \<open>Closing a campaign\<close>

text \<open>The companies whose final review \<open>close\<close> dates: not notified of a decision, without a final review, and with all the proofs
  decided.  The constraint on the dates asks each of them for a first review that is not in the future, which
  the transition to the adversarial phase gives to every company.\<close>

definition validated_by_close :: "eval_db \<Rightarrow> evaluated_siae \<Rightarrow> bool" where
  "validated_by_close x s \<longleftrightarrow> es_notified_at s = None \<and> es_final_reviewed_at s = None \<and>
     state_from_applications x s \<in> {ES_ACCEPTED, ES_REFUSED}"

definition reviewed_before :: "datetime \<Rightarrow> evaluated_siae \<Rightarrow> bool" where
  "reviewed_before now s \<longleftrightarrow> (\<exists>r. es_reviewed_at s = Some r \<and> r \<le> now)"

lemma closing_row_check:
  "siae_row_check s \<Longrightarrow> siae_row_check (closing_row now x s) \<longleftrightarrow> (validated_by_close x s \<longrightarrow> reviewed_before now s)"
  by (auto simp: siae_row_check_def closing_row_def validated_by_close_def reviewed_before_def split: option.splits)

lemma update_campaign_tables [simp]:
  "xv_siaes (update_campaign p f x) = xv_siaes x" "xv_apps (update_campaign p f x) = xv_apps x"
  "xv_criteria (update_campaign p f x) = xv_criteria x"
  by (simp_all add: update_campaign_def)

lemma close_ok:
  assumes "eval_wf x" "cg_ended_at g = None"
  shows "(\<exists>x'. close_campaign now g x = Inr x') \<longleftrightarrow>
    (\<forall>s \<in> set (xv_siaes x). es_campaign s = cg_pk g \<and> validated_by_close x s \<longrightarrow> reviewed_before now s)"
proof -
  let ?x1 = "update_campaign (cg_pk g) (\<lambda>r. r\<lparr>cg_ended_at := Some now\<rparr>) x"
  have f: "validated_by_close ?x1 s = validated_by_close x s" for s
    by (simp add: validated_by_close_def siae_state_cong(4) [of ?x1 x])
  have chk: "siae_row_check s" if "s \<in> set (xv_siaes x)" for s using assms(1) that by (simp add: eval_wf_def list_all_iff)
  have "(\<exists>x'. close_campaign now g x = Inr x') \<longleftrightarrow>
      list_all siae_row_check (map_rows (\<lambda>s. es_campaign s = cg_pk g) (closing_row now ?x1) (xv_siaes x))"
    using assms(2) by (simp add: close_campaign_def Let_def write_siaes_def)
  also have "\<dots> \<longleftrightarrow> (\<forall>s \<in> set (xv_siaes x). es_campaign s = cg_pk g \<and> validated_by_close x s \<longrightarrow> reviewed_before now s)"
    using chk closing_row_check [of _ now ?x1] by (auto simp: list_all_iff set_map_rows f)
  finally show ?thesis .
qed

lemma running_campaign:
  assumes "eval_wf x" "g \<in> set (xv_campaigns x)" "cg_ended_at g = None" "es_campaign s = cg_pk g"
  shows "\<not> campaign_ended x s"
  using assms get_row_Some_iff [of cg_pk "xv_campaigns x" "cg_pk g" g]
  by (simp add: eval_wf_def campaign_ended_def campaign_of_def)

lemma unreviewed_not_adversarial:
  assumes "eval_wf x" "s \<in> set (xv_siaes x)" "es_reviewed_at s = None"
  shows "siae_state x s \<noteq> ES_ADVERSARIAL_STAGE"
proof -
  have "final_ok x s" using assms(1,2) by (simp add: eval_wf_def list_all_iff)
  then show ?thesis
    using assms(3) state_from_applications_range [of x s]
    by (cases "es_final_state s") (auto simp: final_ok_def siae_state_def Let_def siae_states_priority_def)
qed

lemma close_effect:
  assumes wf: "eval_wf x" and g: "g \<in> set (xv_campaigns x)" "cg_ended_at g = None"
    and c: "close_campaign now g x = Inr x'"
    and s: "s \<in> set (xv_siaes x)" "es_campaign s = cg_pk g"
  shows "s\<lparr>es_final_reviewed_at := (if validated_by_close x s then Some now else es_final_reviewed_at s),
      es_final_state := Some (if granted x s then ES_ACCEPTED else ES_REFUSED)\<rparr> \<in> set (xv_siaes x')"
proof -
  define x1 where "x1 = update_campaign (cg_pk g) (\<lambda>r. r\<lparr>cg_ended_at := Some now\<rparr>) x"
  have rows: "xv_siaes x' = map_rows (\<lambda>s. es_campaign s = cg_pk g) (closing_row now x1) (xv_siaes x)"
    using c g(2) write_siaes_siaes by (fastforce simp: close_campaign_def Let_def x1_def)
  have open': "\<not> campaign_ended x s"
    by (rule running_campaign [OF wf g s(2)])
  have "es_final_state s = None"
    using wf s(1) open' by (auto simp: eval_wf_def list_all_iff final_ok_def split: option.splits)
  moreover have "evaluation_is_final x1 s"
    using ended_after_close [OF g(1) s(2), of now] by (simp add: evaluation_is_final_def x1_def)
  ultimately have "siae_state x1 s = (if granted x s then ES_ACCEPTED else ES_REFUSED)"
    using siae_state_final [of s x1] siae_state_cong(5) [of x1 x s] by (simp add: x1_def)
  moreover have "state_from_applications x1 s = state_from_applications x s"
    using siae_state_cong(4) [of x1 x s] by (simp add: x1_def)
  ultimately have "closing_row now x1 s = s\<lparr>es_final_reviewed_at := (if validated_by_close x s then Some now else es_final_reviewed_at s),
      es_final_state := Some (if granted x s then ES_ACCEPTED else ES_REFUSED)\<rparr>"
    unfolding closing_row_def validated_by_close_def by simp
  moreover have "closing_row now x1 s \<in> set (xv_siaes x')"
    using s unfolding rows by (intro map_rows_updated)
  ultimately show ?thesis by simp
qed

lemma close_frame:
  assumes "close_campaign now g x = Inr x'" "cg_ended_at g = None"
  shows "map es_key (xv_siaes x') = map es_key (xv_siaes x)" "xv_apps x' = xv_apps x" "xv_criteria x' = xv_criteria x"
    "xv_sanctions x' = xv_sanctions x"
    "s \<in> set (xv_siaes x) \<Longrightarrow> es_campaign s \<noteq> cg_pk g \<Longrightarrow> s \<in> set (xv_siaes x')"
    "r \<in> set (xv_campaigns x') \<Longrightarrow> cg_pk r = cg_pk g \<Longrightarrow> cg_ended_at r = Some now"
proof -
  let ?x1 = "update_campaign (cg_pk g) (\<lambda>r. r\<lparr>cg_ended_at := Some now\<rparr>) x"
  have e: "x' = ?x1\<lparr>xv_siaes := map_rows (\<lambda>s. es_campaign s = cg_pk g) (closing_row now ?x1) (xv_siaes x)\<rparr>"
    using assms by (auto simp: close_campaign_def Let_def write_siaes_def split: if_splits)
  show "map es_key (xv_siaes x') = map es_key (xv_siaes x)"
    by (auto simp: e map_rows_def es_key_def closing_row_def)
  show "xv_apps x' = xv_apps x" "xv_criteria x' = xv_criteria x" "xv_sanctions x' = xv_sanctions x"
    by (simp_all add: e update_campaign_def)
  show "s \<in> set (xv_siaes x) \<Longrightarrow> es_campaign s \<noteq> cg_pk g \<Longrightarrow> s \<in> set (xv_siaes x')"
    by (auto simp: e set_map_rows)
  show "r \<in> set (xv_campaigns x') \<Longrightarrow> cg_pk r = cg_pk g \<Longrightarrow> cg_ended_at r = Some now"
    by (auto simp: e update_campaign_def set_map_rows)
qed

end
