(* ===== verification/Siae_Evaluation_Properties.thy ===== *)
theory Siae_Evaluation_Properties
  imports Siae_Campaign_Effects Samples
begin

text \<open>
  The properties of the a posteriori control: the sample of a campaign, the adversarial phase, the closing
  decisions, and what every sequence of operations keeps.
\<close>

section \<open>A campaign on sample tables\<close>

definition sample_campaign :: campaign where
  "sample_campaign = \<lparr>cg_pk = 1, cg_institution = 1, cg_percent_set_at = None, cg_evaluations_asked_at = None,
     cg_ended_at = None, cg_submission_freeze_notified_at = None, cg_period_start_at = 0, cg_period_end_at = 200,
     cg_chosen_percent = 30, cg_adversarial_stage_start = Some 300\<rparr>"

definition empty_eval_db :: eval_db where
  "empty_eval_db = \<lparr>xv_campaigns = [sample_campaign], xv_siaes = [], xv_apps = [], xv_criteria = [],
     xv_sanctions = [], xv_app_sanctions = []\<rparr>"

definition hired :: "pk \<Rightarrow> pk \<Rightarrow> job_application" where
  "hired p approval = sample_application\<lparr>ja_pk := p, ja_state := JA_ACCEPTED, ja_hiring_start_at := Some 50,
     ja_accepted := empty_accepted_fields\<lparr>af_approval := Some approval, af_eligibility_diagnosis := Some 1\<rparr>\<rparr>"

definition eval_source :: db where
  "eval_source = sample_db\<lparr>
     db_approvals := [sample_approval\<lparr>ap_start_at := 50\<rparr>],
     db_diagnoses := [sample_diagnosis\<lparr>dg_author_kind := AK_EMPLOYER,
       dg_author_company := Some (ja_to_company sample_application)\<rparr>],
     db_job_applications := [hired 1 1, hired 2 1, hired 3 1]\<rparr>"

definition populated :: eval_db where
  "populated = projr (populate (\<lambda>c. c) (\<lambda>_ j. j) (\<lambda>_. ''33'') (\<lambda>_. ''33'') eval_source 5 sample_campaign empty_eval_db)"

definition reviewed_criteria :: evaluated_criteria where
  "reviewed_criteria = \<lparr>ev_pk = 1, ev_app = 1, ev_criteria = 1, ev_proof = Some 1, ev_uploaded_at = Some 6,
     ev_submitted_at = Some 7, ev_review_state = RV_REFUSED, ev_certified = False\<rparr>"

definition asked_campaign :: campaign where
  "asked_campaign = sample_campaign\<lparr>cg_evaluations_asked_at := Some 5\<rparr>"

definition running_db :: eval_db where
  "running_db = \<lparr>xv_campaigns = [asked_campaign],
     xv_siaes = [new_siae 1 1 1, (new_siae 2 1 2)\<lparr>es_submission_freezed_at := Some 7\<rparr>],
     xv_apps = [\<lparr>ea_pk = 1, ea_siae = 1, ea_job_application = 1\<rparr>, \<lparr>ea_pk = 2, ea_siae = 2, ea_job_application = 2\<rparr>],
     xv_criteria = [reviewed_criteria, reviewed_criteria\<lparr>ev_pk := 2, ev_app := 2, ev_review_state := RV_PENDING\<rparr>],
     xv_sanctions = [], xv_app_sanctions = []\<rparr>"

lemmas sample_eval_defs = running_db_def reviewed_criteria_def new_siae_def sample_campaign_def empty_eval_db_def
  asked_campaign_def

lemma populated_ok: "populate (\<lambda>c. c) (\<lambda>_ j. j) (\<lambda>_. ''33'') (\<lambda>_. ''33'') eval_source 5 sample_campaign empty_eval_db =
    Inr populated \<and> length (xv_siaes populated) = 1"
  by code_simp

lemma running_wf: "eval_wf running_db"
  by code_simp

lemma asked_campaign_row: "asked_campaign \<in> set (xv_campaigns running_db)" "cg_ended_at asked_campaign = None"
    "cg_pk asked_campaign = 1"
  by (simp_all add: sample_eval_defs)

text \<open>The same campaign after the institution reviewed the first company and then undid its decision.\<close>

definition reset_db :: eval_db where
  "reset_db = running_db\<lparr>xv_siaes := [(new_siae 1 1 1)\<lparr>es_reviewed_at := Some 7\<rparr>, new_siae 2 1 2],
     xv_criteria := [reviewed_criteria\<lparr>ev_review_state := RV_PENDING\<rparr>]\<rparr>"

lemma reset_wf: "eval_wf reset_db"
  by code_simp

section \<open>The sample\<close>

text \<open>C34.  When \<open>populate\<close> succeeds, whatever the random orders, it adds as many companies as
  \<open>number_of_siaes_to_select\<close> says, at most all the eligible ones, all different and eligible; each of them
  gets between 2 and 20 of its own eligible hirings, exactly \<open>select_limit\<close> of them; and a populated
  campaign cannot be populated again.\<close>

theorem populate_sample:
  assumes "eval_wf x" "\<forall>a \<in> set (xv_apps x). ea_siae a \<in> es_pk ` set (xv_siaes x)"
    and "\<forall>cs. mset (shuffle_siaes cs) = mset cs" "\<forall>c js. mset (shuffle c js) = mset js"
    and "cg_chosen_percent g \<le> 100"
    and "populate shuffle_siaes shuffle company_department institution_department d set_at g x = Inr x'"
  shows "let jas = eligible_job_applications company_department institution_department d g;
             new = drop (length (xv_siaes x)) (xv_siaes x') in
    length new = number_of_siaes_to_select g jas \<and> length new \<le> length (eligible_siaes jas) \<and>
    distinct (map es_siae new) \<and> set (map es_siae new) \<subseteq> set (eligible_siaes jas) \<and>
    (\<forall>s \<in> set new. es_campaign s = cg_pk g \<and>
       (\<exists>js. map ea_job_application (siae_apps x' s) = map ja_pk js \<and>
          mset js \<subseteq># mset (filter (\<lambda>j. ja_to_company j = es_siae s) jas) \<and>
          length js = select_limit (length (filter (\<lambda>j. ja_to_company j = es_siae s) jas)) \<and>
          2 \<le> length js \<and> length js \<le> 20)) \<and>
    populate shuffle_siaes shuffle company_department institution_department d set_at (mark_asked set_at g) x' =
      Inl CampaignAlreadyPopulatedException"
proof -
  define jas where "jas = eligible_job_applications company_department institution_department d g"
  define new where "new = drop (length (xv_siaes x)) (xv_siaes x')"
  note e = populate_effect [OF assms(1,2,6), folded jas_def new_def]
  have m: "mset (shuffle_siaes (eligible_siaes jas)) = mset (eligible_siaes jas)" using assms(3) by blast
  have len: "length (shuffle_siaes (eligible_siaes jas)) = length (eligible_siaes jas)" using m by (metis size_mset)
  have set: "set (map es_siae new) \<subseteq> set (eligible_siaes jas)"
    using mset_eq_setD [OF m] set_take_subset [of _ "shuffle_siaes (eligible_siaes jas)"]
    by (simp only: e(1) eligible_siaes_under_ratio_def)
  have "distinct (shuffle_siaes (eligible_siaes jas))"
    using mset_eq_imp_distinct_iff [OF m] by (simp add: eligible_siaes_def)
  then have dist: "distinct (map es_siae new)" by (simp add: e(1) eligible_siaes_under_ratio_def)
  have num: "length new = number_of_siaes_to_select g jas"
    using arg_cong [OF e(1), of length] len number_of_siaes_to_select_le [OF assms(5), of jas]
    by (simp add: eligible_siaes_under_ratio_def)
  have apps: "\<exists>js. map ea_job_application (siae_apps x' s) = map ja_pk js \<and>
      mset js \<subseteq># mset (filter (\<lambda>j. ja_to_company j = es_siae s) jas) \<and>
      length js = select_limit (length (filter (\<lambda>j. ja_to_company j = es_siae s) jas)) \<and>
      2 \<le> length js \<and> length js \<le> 20" if "s \<in> set new" for s
  proof -
    have "es_siae s \<in> set (eligible_siaes jas)" using set that by auto
    from sample_of_bounds [OF this, of shuffle] assms(4) e(3) that select_limit_bounds(1,2) show ?thesis
      by (intro exI [of _ "sample_of shuffle jas (es_siae s)"]) simp
  qed
  show ?thesis
    unfolding Let_def jas_def [symmetric] new_def [symmetric]
    using num number_of_siaes_to_select_le [OF assms(5), of jas] dist set e(2) apps
    by (simp add: populate_def mark_asked_def)
qed

theorem populate_sample_witness:
  "length (xv_siaes populated) = 1 \<and> list_all (\<lambda>s. 2 \<le> length (siae_apps populated s)) (xv_siaes populated)"
proof -
  have "eval_wf empty_eval_db" by code_simp
  moreover have "\<forall>a \<in> set (xv_apps empty_eval_db). ea_siae a \<in> es_pk ` set (xv_siaes empty_eval_db)"
    "cg_chosen_percent sample_campaign \<le> 100" "length (xv_siaes empty_eval_db) = 0" by (simp_all add: sample_eval_defs)
  ultimately show ?thesis
    using populate_sample [of empty_eval_db "\<lambda>c. c" "\<lambda>_ j. j" sample_campaign "\<lambda>_. ''33''" "\<lambda>_. ''33''" eval_source 5 populated]
      populated_ok by (auto simp: Let_def list_all_iff) (metis length_map)
qed

section \<open>The adversarial phase\<close>

text \<open>C35.  \<open>transition_to_adversarial_phase\<close> of a running campaign succeeds exactly when every
  company already reviewed is ACCEPTED or in the adversarial stage: undoing a decision of a reviewed
  company makes it raise for the whole campaign.  When it succeeds, every company is reviewed and free to
  submit again, the unreviewed proofs are accepted, and the refused companies enter the adversarial stage.\<close>

theorem adversarial_phase:
  assumes "eval_wf x" "g \<in> set (xv_campaigns x)" "cg_ended_at g = None"
  shows "((\<exists>x'. transition_to_adversarial_phase now g x = Inr x') \<longleftrightarrow>
      (\<forall>s \<in> set (xv_siaes x). es_campaign s = cg_pk g \<and> es_reviewed_at s \<noteq> None \<longrightarrow>
         siae_state x s \<in> {ES_ACCEPTED, ES_ADVERSARIAL_STAGE})) \<and>
    (\<forall>x' s. transition_to_adversarial_phase now g x = Inr x' \<longrightarrow> s \<in> set (xv_siaes x) \<longrightarrow> es_campaign s = cg_pk g \<longrightarrow>
       (\<exists>s' \<in> set (xv_siaes x'). es_key s' = es_key s \<and> es_reviewed_at s' \<noteq> None \<and>
          es_submission_freezed_at s' = None \<and> siae_state x' s' = adversarial_target (siae_state x s)))"
proof -
  have run: "\<not> campaign_ended x s" if "es_campaign s = cg_pk g" for s
    using running_campaign [OF assms] that .
  have "can_transition x s \<longleftrightarrow> (es_reviewed_at s \<noteq> None \<longrightarrow> siae_state x s \<in> {ES_ACCEPTED, ES_ADVERSARIAL_STAGE})"
    if "s \<in> set (xv_siaes x)" for s
    using unreviewed_not_adversarial [OF assms(1) that] by (auto simp: can_transition_def)
  with transition_ok [OF assms(1), of now g]
  have "(\<exists>x'. transition_to_adversarial_phase now g x = Inr x') \<longleftrightarrow>
      (\<forall>s \<in> set (xv_siaes x). es_campaign s = cg_pk g \<and> es_reviewed_at s \<noteq> None \<longrightarrow>
         siae_state x s \<in> {ES_ACCEPTED, ES_ADVERSARIAL_STAGE})" by blast
  then show ?thesis using transition_effect [OF assms(1)] run by blast
qed

theorem adversarial_phase_witness:
  "(\<exists>x'. transition_to_adversarial_phase 8 asked_campaign running_db = Inr x') \<and>
   \<not> (\<exists>x'. transition_to_adversarial_phase 8 asked_campaign reset_db = Inr x')"
proof
  have "\<forall>s \<in> set (xv_siaes running_db). es_reviewed_at s = None" by (simp add: sample_eval_defs)
  then show "\<exists>x'. transition_to_adversarial_phase 8 asked_campaign running_db = Inr x'"
    using adversarial_phase [OF running_wf asked_campaign_row(1,2), of 8] by simp
  have "asked_campaign \<in> set (xv_campaigns reset_db)" by (simp add: sample_eval_defs reset_db_def)
  note a = adversarial_phase [OF reset_wf this asked_campaign_row(2), of 8, THEN conjunct1]
  have "\<not> (\<forall>s \<in> set (xv_siaes reset_db). es_campaign s = cg_pk asked_campaign \<and> es_reviewed_at s \<noteq> None \<longrightarrow>
         siae_state reset_db s \<in> {ES_ACCEPTED, ES_ADVERSARIAL_STAGE})" by code_simp
  then show "\<not> (\<exists>x'. transition_to_adversarial_phase 8 asked_campaign reset_db = Inr x')" unfolding a .
qed

section \<open>Closing\<close>




text \<open>Before any first review the same company makes the whole operation fail on the constraint.\<close>

lemma close_forgotten_unreviewed:
  "close_campaign 8 asked_campaign running_db = Inl (IntegrityError ''final_reviewed_at_only_after_reviewed_at'')"
proof -
  have "\<not> (\<forall>s \<in> set (xv_siaes running_db). es_campaign s = cg_pk asked_campaign \<and> validated_by_close running_db s \<longrightarrow>
      es_reviewed_at s \<noteq> None)" by code_simp
  then have "\<not> (\<exists>x'. close_campaign 8 asked_campaign running_db = Inr x')"
    using close_ok [OF running_wf asked_campaign_row(2), of 8] by (auto simp: reviewed_before_def)
  then show ?thesis
    using asked_campaign_row(2) by (auto simp: close_campaign_def Let_def write_siaes_def split: if_splits)
qed

section \<open>Histories\<close>

text \<open>C37.  Whatever sequence of operations of the institution, the companies and the
  administrators is run, the tables keep their constraints (unique keys and pairs, a final review only after
  a first one), no evaluated company disappears, a final state is ACCEPTED or REFUSED, is given only by an
  ended campaign, and is the state shown from then on.\<close>

theorem evaluation_history:
  assumes "eval_step\<^sup>*\<^sup>* x y" "eval_wf x"
  shows "eval_wf y \<and>
    (\<forall>s \<in> set (xv_siaes x). \<exists>s' \<in> set (xv_siaes y). es_key s' = es_key s \<and>
       (\<forall>f. es_final_state s = Some f \<longrightarrow> f \<in> {ES_ACCEPTED, ES_REFUSED} \<and> campaign_ended y s' \<and> siae_state y s' = f))"
proof -
  have "eval_wf y \<and> keeps x y"
    using assms
  proof (induction rule: rtranclp_induct)
    case (step y z)
    then show ?case using eval_step_wf eval_step_keeps keeps_trans by blast
  qed simp
  then show ?thesis
    by (fastforce simp: keeps_def keep_row_def eval_wf_def list_all_iff final_ok_def siae_state_def split: option.splits)
qed

theorem evaluation_history_witness: "eval_wf (freeze 10 11 12 asked_campaign running_db)"
proof -
  have "eval_step running_db (freeze 10 11 12 asked_campaign running_db)"
    by (rule step_freeze [OF asked_campaign_row(1)])
  from evaluation_history [OF r_into_rtranclp [of eval_step, OF this] running_wf] show ?thesis by blast
qed

end
