(* ===== verification/Geiq_Assessments.thy ===== *)
theory Geiq_Assessments
  imports Workflow
begin

text \<open>
  \<open>geiq_assessments/models.py\<close>, the contracts created by \<open>geiq_assessments/sync.py\<close>, and the POST branches of
  \<open>www/geiq_assessments_views/views.py\<close>: the yearly assessment of a GEIQ.  The GEIQ completes it, selects the
  contracts for which it requests an allowance and submits it; an institution (DDETS) grants or refuses
  the allowances, writes its decision and reviews it; a DREETS does the final review; both may ask for
  corrections.  The workflow engine is an argument, as in \<open>Workflow\<close>.  Dates are Python ordinals where
  a year is read.  The creation of an assessment, the files and the texts are not modelled.
\<close>

section \<open>Data\<close>

datatype assessment_state = AS_NEW | AS_SUBMITTED | AS_REVIEWED | AS_FINAL_REVIEWED

datatype assessment_transition = AT_SUBMIT | AT_REVIEW | AT_FINAL_REVIEW | AT_ASK_FOR_INSTITUTION_FIX
  | AT_ASK_FOR_GEIQ_FIX

datatype institution_kind = DDETS_GEIQ | DREETS_GEIQ | OTHER_INSTITUTION

record assessment =
  as_pk :: pk
  as_state :: assessment_state
  as_companies :: "pk list"
  as_institutions :: "pk list"
  as_created_at :: datetime
  as_summary_document_file :: "pk option"
  as_structure_financial_assessment_file :: "pk option"
  as_action_financial_assessment_file :: "pk option"
  as_contracts_synced_at :: "datetime option"
  as_contracts_selection_validated_at :: "datetime option"
  as_geiq_comment :: string
  as_submitted_at :: "datetime option"
  as_submitted_by :: "pk option"
  as_review_comment :: string
  as_convention_amount :: int
  as_granted_amount :: int
  as_advance_amount :: int
  as_geiq_responsible_person :: string
  as_institution_responsible_person :: string
  as_legal_commitment_number :: string
  as_decision_validated_at :: "datetime option"
  as_grants_selection_validated_at :: "datetime option"
  as_reviewed_at :: "datetime option"
  as_reviewed_by :: "pk option"
  as_reviewed_by_institution :: "pk option"
  as_final_reviewed_at :: "datetime option"
  as_final_reviewed_by :: "pk option"
  as_final_reviewed_by_institution :: "pk option"

record assessment_log =
  at_assessment :: pk
  at_transition :: assessment_transition
  at_from_state :: assessment_state
  at_to_state :: assessment_state
  at_user :: pk
  at_institution :: "pk option"
  at_comment :: string
  at_timestamp :: datetime

record geiq_employee =
  ge_pk :: pk
  ge_assessment :: pk
  ge_label_id :: int
  ge_allowance_amount :: nat
  ge_allowance_granted_previous_year :: bool

record employee_contract =
  ec_pk :: pk
  ec_employee :: pk
  ec_start_at :: date
  ec_planned_end_at :: date
  ec_end_at :: "date option"
  ec_nb_days_in_campaign_year :: int
  ec_allowance_requested :: bool
  ec_allowance_granted :: bool
  ec_request_reason :: string
  ec_request_details :: string
  ec_refusal_reason :: string
  ec_refusal_details :: string

record assess_db =
  ax_assessments :: "assessment list"
  ax_logs :: "assessment_log list"
  ax_employees :: "geiq_employee list"
  ax_contracts :: "employee_contract list"

section \<open>Constraints\<close>

definition date_order :: "datetime option \<Rightarrow> datetime option \<Rightarrow> bool" where
  "date_order prior later = (case later of None \<Rightarrow> True
     | Some l \<Rightarrow> (case prior of None \<Rightarrow> False | Some p \<Rightarrow> p \<le> l))"

definition dates_in_order :: "assessment \<Rightarrow> bool" where
  "dates_in_order a \<longleftrightarrow>
     date_order (Some (as_created_at a)) (as_contracts_synced_at a) \<and>
     date_order (as_contracts_synced_at a) (as_contracts_selection_validated_at a) \<and>
     date_order (as_contracts_selection_validated_at a) (as_submitted_at a) \<and>
     date_order (as_submitted_at a) (as_grants_selection_validated_at a) \<and>
     date_order (as_grants_selection_validated_at a) (as_decision_validated_at a) \<and>
     date_order (as_decision_validated_at a) (as_reviewed_at a) \<and>
     date_order (as_reviewed_at a) (as_final_reviewed_at a)"

text \<open>The condition on the submission negates the conjunction of all the absences: one document or the
  comment is enough.\<close>

definition full_or_no_submission :: "assessment \<Rightarrow> bool" where
  "full_or_no_submission a \<longleftrightarrow> as_submitted_at a = None \<or>
     (as_submitted_by a \<noteq> None \<and>
      \<not> (as_geiq_comment a = [] \<and> as_summary_document_file a = None \<and>
         as_structure_financial_assessment_file a = None \<and> as_action_financial_assessment_file a = None))"

definition state_dates :: "assessment \<Rightarrow> bool" where
  "state_dates a \<longleftrightarrow>
     (as_submitted_at a = None) = (as_state a = AS_NEW) \<and>
     (as_reviewed_at a = None) = (as_state a \<in> {AS_NEW, AS_SUBMITTED}) \<and>
     (as_final_reviewed_at a = None) = (as_state a \<noteq> AS_FINAL_REVIEWED)"

definition full_or_no_review :: "assessment \<Rightarrow> bool" where
  "full_or_no_review a \<longleftrightarrow>
     (as_reviewed_at a = None \<or>
      (as_reviewed_by a \<noteq> None \<and> as_reviewed_by_institution a \<noteq> None \<and> as_review_comment a \<noteq> [])) \<and>
     (as_final_reviewed_at a = None \<or>
      (as_final_reviewed_by a \<noteq> None \<and> as_final_reviewed_by_institution a \<noteq> None))"

definition responsible_persons :: "assessment \<Rightarrow> bool" where
  "responsible_persons a \<longleftrightarrow>
     (as_geiq_responsible_person a = [] \<and> as_institution_responsible_person a = [] \<and> as_legal_commitment_number a = []) \<or>
     (as_geiq_responsible_person a \<noteq> [] \<and> as_institution_responsible_person a \<noteq> [] \<and> as_legal_commitment_number a \<noteq> [])"

definition assessment_constraints :: "assessment \<Rightarrow> bool" where
  "assessment_constraints a \<longleftrightarrow> dates_in_order a \<and> full_or_no_submission a \<and> state_dates a \<and> full_or_no_review a \<and>
     responsible_persons a \<and> 0 \<le> as_convention_amount a \<and> 0 \<le> as_granted_amount a \<and> 0 \<le> as_advance_amount a"

definition contract_constraints :: "employee_contract \<Rightarrow> bool" where
  "contract_constraints c \<longleftrightarrow>
     \<not> (\<not> ec_allowance_requested c \<and> ec_allowance_granted c) \<and>
     (ec_request_reason c = [] \<longleftrightarrow> ec_request_details c = []) \<and>
     (ec_refusal_reason c = [] \<longleftrightarrow> ec_refusal_details c = [])"

definition log_constraints :: "assessment_log \<Rightarrow> bool" where
  "log_constraints l \<longleftrightarrow>
     (at_transition l \<in> {AT_ASK_FOR_GEIQ_FIX, AT_ASK_FOR_INSTITUTION_FIX}) = (at_comment l \<noteq> [])"

section \<open>Writes\<close>

definition assessment_save :: "assessment \<Rightarrow> assess_db \<Rightarrow> error + assess_db" where
  "assessment_save a x =
     (if assessment_constraints a
      then Inr (x\<lparr>ax_assessments := map_rows (\<lambda>r. as_pk r = as_pk a) (\<lambda>_. a) (ax_assessments x)\<rparr>)
      else Inl (IntegrityError ''geiq_assessment''))"

definition contracts_of :: "pk \<Rightarrow> assess_db \<Rightarrow> employee_contract \<Rightarrow> bool" where
  "contracts_of p x c = list_ex (\<lambda>e. ge_pk e = ec_employee c \<and> ge_assessment e = p) (ax_employees x)"

definition update_contracts ::
  "(employee_contract \<Rightarrow> bool) \<Rightarrow> (employee_contract \<Rightarrow> employee_contract) \<Rightarrow> assess_db \<Rightarrow> error + assess_db" where
  "update_contracts p f x =
     (let cs = map_rows p f (ax_contracts x) in
      if list_all contract_constraints cs then Inr (x\<lparr>ax_contracts := cs\<rparr>) else Inl (IntegrityError ''geiq_allowance''))"

section \<open>Workflow\<close>

fun at_sources :: "assessment_transition \<Rightarrow> assessment_state list" where
  "at_sources AT_SUBMIT = [AS_NEW]"
| "at_sources AT_REVIEW = [AS_SUBMITTED]"
| "at_sources AT_FINAL_REVIEW = [AS_SUBMITTED, AS_REVIEWED]"
| "at_sources AT_ASK_FOR_INSTITUTION_FIX = [AS_REVIEWED]"
| "at_sources AT_ASK_FOR_GEIQ_FIX = [AS_SUBMITTED, AS_REVIEWED]"

fun at_target :: "assessment_transition \<Rightarrow> assessment_state" where
  "at_target AT_SUBMIT = AS_SUBMITTED"
| "at_target AT_REVIEW = AS_REVIEWED"
| "at_target AT_FINAL_REVIEW = AS_FINAL_REVIEWED"
| "at_target AT_ASK_FOR_INSTITUTION_FIX = AS_SUBMITTED"
| "at_target AT_ASK_FOR_GEIQ_FIX = AS_NEW"

text \<open>\<open>log_transition\<close>: the transitions that date the assessment have its date.\<close>

definition log_timestamp :: "datetime \<Rightarrow> assessment_transition \<Rightarrow> assessment \<Rightarrow> datetime option" where
  "log_timestamp now t a =
     (case t of
        AT_SUBMIT \<Rightarrow> as_submitted_at a
      | AT_REVIEW \<Rightarrow> as_reviewed_at a
      | AT_FINAL_REVIEW \<Rightarrow> as_final_reviewed_at a
      | _ \<Rightarrow> Some now)"

definition log_transition ::
  "datetime \<Rightarrow> assessment_transition \<Rightarrow> pk \<Rightarrow> pk option \<Rightarrow> string \<Rightarrow> assessment_state \<Rightarrow> assessment \<Rightarrow> assess_db \<Rightarrow>
     error + assess_db" where
  "log_transition now t user institution comment from_state a x =
     (case log_timestamp now t a of
        None \<Rightarrow> Inl (IntegrityError ''timestamp'')
      | Some stamp \<Rightarrow>
          let l = \<lparr>at_assessment = as_pk a, at_transition = t, at_from_state = from_state, at_to_state = at_target t,
                   at_user = user, at_institution = institution, at_comment = comment, at_timestamp = stamp\<rparr> in
          if log_constraints l then Inr (x\<lparr>ax_logs := ax_logs x @ [l]\<rparr>)
          else Inl (IntegrityError ''ask_for_fix_transition_with_comment''))"

definition assessment_save_and_log ::
  "datetime \<Rightarrow> assessment_transition \<Rightarrow> pk \<Rightarrow> pk option \<Rightarrow> string \<Rightarrow> assessment_state \<Rightarrow> assessment \<Rightarrow> assess_db \<Rightarrow>
     error + assessment \<times> assess_db" where
  "assessment_save_and_log now t user institution comment from_state a x =
     rbind (assessment_save a x) (\<lambda>x1.
     rbind (log_transition now t user institution comment from_state a x1) (\<lambda>x2. Inr (a, x2)))"

type_synonym as_engine = "(assessment_state, assessment, assess_db) engine"

definition as_call ::
  "datetime \<Rightarrow> assessment_transition \<Rightarrow> pk \<Rightarrow> pk option \<Rightarrow> string \<Rightarrow>
     (assessment \<Rightarrow> assess_db \<Rightarrow> error + assessment \<times> assess_db) \<Rightarrow>
     (assessment_state, assessment, assess_db) transition_call" where
  "as_call now t user institution comment body =
     \<lparr>tc_state = as_state, tc_set_state = (\<lambda>s a. a\<lparr>as_state := s\<rparr>), tc_sources = at_sources t,
      tc_target = at_target t, tc_check = (\<lambda>_ _. True), tc_before = id, tc_body = body,
      tc_save_and_log = assessment_save_and_log now t user institution comment\<rparr>"

definition submit :: "as_engine \<Rightarrow> datetime \<Rightarrow> pk \<Rightarrow> assessment \<Rightarrow> assess_db \<Rightarrow> error + assessment \<times> assess_db" where
  "submit run now user = run (as_call now AT_SUBMIT user None []
     (\<lambda>a x. Inr (a\<lparr>as_submitted_at := Some now, as_submitted_by := Some user\<rparr>, x)))"

definition assessment_review ::
  "as_engine \<Rightarrow> datetime \<Rightarrow> pk \<Rightarrow> pk \<Rightarrow> assessment \<Rightarrow> assess_db \<Rightarrow> error + assessment \<times> assess_db" where
  "assessment_review run now user institution = run (as_call now AT_REVIEW user (Some institution) []
     (\<lambda>a x. Inr (a\<lparr>as_reviewed_at := Some now, as_reviewed_by := Some user,
                    as_reviewed_by_institution := Some institution\<rparr>, x)))"

definition final_review_fields :: "datetime \<Rightarrow> pk \<Rightarrow> pk \<Rightarrow> assessment \<Rightarrow> assessment" where
  "final_review_fields now user institution a =
     (let a1 = (if as_reviewed_at a = None then a\<lparr>as_reviewed_at := Some now, as_reviewed_by := Some user,
                     as_reviewed_by_institution := Some institution\<rparr> else a) in
      a1\<lparr>as_final_reviewed_at := Some now, as_final_reviewed_by := Some user,
         as_final_reviewed_by_institution := Some institution\<rparr>)"

definition final_review ::
  "as_engine \<Rightarrow> datetime \<Rightarrow> pk \<Rightarrow> pk \<Rightarrow> assessment \<Rightarrow> assess_db \<Rightarrow> error + assessment \<times> assess_db" where
  "final_review run now user institution = run (as_call now AT_FINAL_REVIEW user (Some institution) []
     (\<lambda>a x. Inr (final_review_fields now user institution a, x)))"

definition reset_review :: "assessment \<Rightarrow> assessment" where
  "reset_review a = a\<lparr>as_reviewed_at := None, as_reviewed_by := None, as_reviewed_by_institution := None\<rparr>"

definition ask_for_institution_fix ::
  "as_engine \<Rightarrow> datetime \<Rightarrow> pk \<Rightarrow> pk \<Rightarrow> string \<Rightarrow> assessment \<Rightarrow> assess_db \<Rightarrow> error + assessment \<times> assess_db" where
  "ask_for_institution_fix run now user institution comment =
     run (as_call now AT_ASK_FOR_INSTITUTION_FIX user (Some institution) comment (\<lambda>a x. Inr (reset_review a, x)))"

definition reset_submission :: "assessment \<Rightarrow> assessment" where
  "reset_submission a =
     (reset_review a)\<lparr>as_submitted_at := None, as_submitted_by := None, as_decision_validated_at := None,
        as_grants_selection_validated_at := None, as_final_reviewed_at := None, as_final_reviewed_by := None,
        as_final_reviewed_by_institution := None\<rparr>"

definition ask_for_geiq_fix ::
  "as_engine \<Rightarrow> datetime \<Rightarrow> pk \<Rightarrow> pk \<Rightarrow> string \<Rightarrow> assessment \<Rightarrow> assess_db \<Rightarrow> error + assessment \<times> assess_db" where
  "ask_for_geiq_fix run now user institution comment =
     run (as_call now AT_ASK_FOR_GEIQ_FIX user (Some institution) comment
       (\<lambda>a x. rbind (update_contracts (contracts_of (as_pk a) x) (\<lambda>c. c\<lparr>ec_allowance_granted := False\<rparr>) x)
          (\<lambda>x1. Inr (reset_submission a, x1))))"

section \<open>Contracts\<close>

text \<open>The ordinal of the first of January, and \<open>nb_days_in_year\<close>.\<close>

definition january_first :: "int \<Rightarrow> date" where
  "january_first y = 365 * (y - 1) + (y - 1) div 4 - (y - 1) div 100 + (y - 1) div 400 + 1"

definition nb_days_in_year :: "date \<Rightarrow> date \<Rightarrow> int \<Rightarrow> int" where
  "nb_days_in_year start end_at y =
     (if january_first (y + 1) \<le> start then 0
      else
        let start' = (if start < january_first y then january_first y else start) in
        if end_at < january_first y then 0
        else
          let end' = (if january_first (y + 1) \<le> end_at then january_first (y + 1) - 1 else end_at) in
          end' - start' + 1)"

definition min_days_in_year_for_allowance :: int where "min_days_in_year_for_allowance = 90"

definition contract_end :: "employee_contract \<Rightarrow> date" where
  "contract_end c = (case ec_end_at c of None \<Rightarrow> ec_planned_end_at c | Some e \<Rightarrow> e)"

definition planned_duration :: "employee_contract \<Rightarrow> int" where
  "planned_duration c = ec_planned_end_at c - ec_start_at c + 1"

definition real_duration :: "employee_contract \<Rightarrow> int option" where
  "real_duration c = map_option (\<lambda>e. e - ec_start_at c + 1) (ec_end_at c)"

definition nb_days_in_previous_year :: "int \<Rightarrow> employee_contract \<Rightarrow> int" where
  "nb_days_in_previous_year campaign_year c = nb_days_in_year (ec_start_at c) (contract_end c) (campaign_year - 1)"

definition nb_days_in_following_year :: "int \<Rightarrow> employee_contract \<Rightarrow> int" where
  "nb_days_in_following_year campaign_year c = nb_days_in_year (ec_start_at c) (contract_end c) (campaign_year + 1)"

definition requires_justification :: "employee_contract \<Rightarrow> bool" where
  "requires_justification c \<longleftrightarrow> ec_allowance_requested c \<and> ec_nb_days_in_campaign_year c < min_days_in_year_for_allowance"

text \<open>\<open>contract_data_to_django\<close> of the synchronisation.\<close>

definition synced_contract :: "int \<Rightarrow> pk \<Rightarrow> geiq_employee \<Rightarrow> date \<Rightarrow> date \<Rightarrow> date option \<Rightarrow> employee_contract" where
  "synced_contract campaign_year p e start planned actual =
     (let n = nb_days_in_year start (case actual of None \<Rightarrow> planned | Some d \<Rightarrow> d) campaign_year in
      \<lparr>ec_pk = p, ec_employee = ge_pk e, ec_start_at = start, ec_planned_end_at = planned, ec_end_at = actual,
       ec_nb_days_in_campaign_year = n,
       ec_allowance_requested = (ge_allowance_amount e \<noteq> 0 \<and> min_days_in_year_for_allowance < n),
       ec_allowance_granted = False, ec_request_reason = [], ec_request_details = [],
       ec_refusal_reason = [], ec_refusal_details = []\<rparr>)"

text \<open>The contracts the synchronisation keeps: the first of October of the year before the campaign is 92
  days before the first of January of the campaign.\<close>

definition kept_by_sync :: "int \<Rightarrow> date \<Rightarrow> date \<Rightarrow> date option \<Rightarrow> int \<Rightarrow> int list \<Rightarrow> bool" where
  "kept_by_sync campaign_year start planned actual antenna antennas \<longleftrightarrow>
     start < january_first (campaign_year + 1) \<and>
     january_first campaign_year - 92 \<le> (case actual of None \<Rightarrow> planned | Some d \<Rightarrow> d) \<and>
     antenna \<in> set antennas"

definition assessment_contracts :: "pk \<Rightarrow> assess_db \<Rightarrow> employee_contract list" where
  "assessment_contracts p x = filter (contracts_of p x) (ax_contracts x)"

definition geiq_awaiting_justification :: "pk \<Rightarrow> assess_db \<Rightarrow> nat" where
  "geiq_awaiting_justification p x =
     length (filter (\<lambda>c. ec_allowance_requested c \<and> ec_nb_days_in_campaign_year c < min_days_in_year_for_allowance \<and>
        ec_request_reason c = []) (assessment_contracts p x))"

definition institution_awaiting_justification :: "pk \<Rightarrow> assess_db \<Rightarrow> nat" where
  "institution_awaiting_justification p x =
     length (filter (\<lambda>c. ec_allowance_requested c \<and> \<not> ec_allowance_granted c \<and> ec_refusal_reason c = [])
        (assessment_contracts p x))"

definition allowance_of_contract :: "assess_db \<Rightarrow> employee_contract \<Rightarrow> nat" where
  "allowance_of_contract x c = (case get_row ge_pk (ec_employee c) (ax_employees x) of None \<Rightarrow> 0 | Some e \<Rightarrow> ge_allowance_amount e)"

definition granted_allowance :: "pk \<Rightarrow> assess_db \<Rightarrow> nat" where
  "granted_allowance p x =
     sum_list (map (allowance_of_contract x)
       (filter (\<lambda>c. ec_allowance_requested c \<and> ec_allowance_granted c) (assessment_contracts p x)))"

definition requested_allowance :: "pk \<Rightarrow> assess_db \<Rightarrow> nat" where
  "requested_allowance p x =
     sum_list (map (allowance_of_contract x) (filter ec_allowance_requested (assessment_contracts p x)))"

section \<open>The GEIQ\<close>

definition missing_actions_to_submit :: "assessment \<Rightarrow> string list" where
  "missing_actions_to_submit a =
     (if as_summary_document_file a = None then [''summary''] else []) @
     (if as_structure_financial_assessment_file a = None then [''structure''] else []) @
     (if as_action_financial_assessment_file a = None then [''action''] else []) @
     (if as_contracts_selection_validated_at a = None then [''contracts''] else []) @
     (if as_geiq_comment a = [] then [''comment''] else [])"

definition missing_actions_to_review :: "assessment \<Rightarrow> string list" where
  "missing_actions_to_review a =
     (if as_grants_selection_validated_at a = None then [''selection''] else []) @
     (if as_decision_validated_at a = None then [''decision''] else [])"

definition assessment_of_company :: "pk \<Rightarrow> pk \<Rightarrow> assess_db \<Rightarrow> error + assessment" where
  "assessment_of_company company p x =
     (case get_row as_pk p (ax_assessments x) of
        None \<Rightarrow> Inl Http404
      | Some a \<Rightarrow> if company \<in> set (as_companies a) then Inr a else Inl Http404)"

definition assessment_of_institution :: "pk \<Rightarrow> pk \<Rightarrow> assess_db \<Rightarrow> error + assessment" where
  "assessment_of_institution institution p x =
     (case get_row as_pk p (ax_assessments x) of
        None \<Rightarrow> Inl Http404
      | Some a \<Rightarrow> if institution \<in> set (as_institutions a) then Inr a else Inl Http404)"

definition assessment_details_for_geiq :: "as_engine \<Rightarrow> pk \<Rightarrow> datetime \<Rightarrow> pk \<Rightarrow> pk \<Rightarrow> assess_db \<Rightarrow> error + assess_db" where
  "assessment_details_for_geiq run company now user p x =
     rbind (assessment_of_company company p x) (\<lambda>a.
     if as_submitted_at a \<noteq> None then Inr x
     else if missing_actions_to_submit a \<noteq> [] then Inr x
     else
       rbind (submit run now user a x) (\<lambda>(a', x1).
       update_contracts (\<lambda>c. contracts_of p x1 c \<and> ec_refusal_reason c = [])
         (\<lambda>c. c\<lparr>ec_allowance_granted := ec_allowance_requested c\<rparr>) x1))"

definition upload_action_financial_assessment :: "pk \<Rightarrow> pk \<Rightarrow> pk \<Rightarrow> assess_db \<Rightarrow> error + assess_db" where
  "upload_action_financial_assessment company p file x =
     rbind (assessment_of_company company p x) (\<lambda>a.
     if as_submitted_at a \<noteq> None then Inl Http404
     else assessment_save (a\<lparr>as_action_financial_assessment_file := Some file\<rparr>) x)"

definition assessment_comment :: "pk \<Rightarrow> pk \<Rightarrow> string \<Rightarrow> assess_db \<Rightarrow> error + assess_db" where
  "assessment_comment company p comment x =
     rbind (assessment_of_company company p x) (\<lambda>a.
     if as_submitted_at a \<noteq> None then Inl Http404 else assessment_save (a\<lparr>as_geiq_comment := comment\<rparr>) x)"

definition geiq_validate_contracts :: "pk \<Rightarrow> datetime \<Rightarrow> pk \<Rightarrow> assess_db \<Rightarrow> error + assess_db" where
  "geiq_validate_contracts company now p x =
     rbind (assessment_of_company company p x) (\<lambda>a.
     if as_submitted_at a \<noteq> None \<or> as_contracts_selection_validated_at a \<noteq> None \<or> geiq_awaiting_justification p x \<noteq> 0
     then Inl PermissionDenied
     else assessment_save (a\<lparr>as_contracts_selection_validated_at := Some now\<rparr>) x)"

definition geiq_invalidate_contracts :: "pk \<Rightarrow> pk \<Rightarrow> assess_db \<Rightarrow> error + assess_db" where
  "geiq_invalidate_contracts company p x =
     rbind (assessment_of_company company p x) (\<lambda>a.
     if as_submitted_at a \<noteq> None \<or> as_contracts_selection_validated_at a = None then Inl PermissionDenied
     else assessment_save (a\<lparr>as_contracts_selection_validated_at := None\<rparr>) x)"

text \<open>The assessment of a contract, through its employee.\<close>

definition assessment_of_contract :: "assess_db \<Rightarrow> employee_contract \<Rightarrow> assessment option" where
  "assessment_of_contract x c =
     (case get_row ge_pk (ec_employee c) (ax_employees x) of
        None \<Rightarrow> None
      | Some e \<Rightarrow> get_row as_pk (ge_assessment e) (ax_assessments x))"

definition contract_for_company :: "pk \<Rightarrow> pk \<Rightarrow> assess_db \<Rightarrow> error + employee_contract \<times> assessment" where
  "contract_for_company company p x =
     (case get_row ec_pk p (ax_contracts x) of
        None \<Rightarrow> Inl Http404
      | Some c \<Rightarrow> (case assessment_of_contract x c of
          None \<Rightarrow> Inl Http404
        | Some a \<Rightarrow> if company \<in> set (as_companies a) then Inr (c, a) else Inl Http404))"

definition contract_for_institution :: "pk \<Rightarrow> pk \<Rightarrow> assess_db \<Rightarrow> error + employee_contract \<times> assessment" where
  "contract_for_institution institution p x =
     (case get_row ec_pk p (ax_contracts x) of
        None \<Rightarrow> Inl Http404
      | Some c \<Rightarrow> (case assessment_of_contract x c of
          None \<Rightarrow> Inl Http404
        | Some a \<Rightarrow>
            if institution \<in> set (as_institutions a) \<and> as_submitted_at a \<noteq> None \<and> ec_allowance_requested c
            then Inr (c, a) else Inl Http404))"

definition geiq_toggle_contract :: "pk \<Rightarrow> pk \<Rightarrow> bool \<Rightarrow> assess_db \<Rightarrow> error + assess_db" where
  "geiq_toggle_contract company p new_value x =
     rbind (contract_for_company company p x) (\<lambda>(c, a).
     if as_contracts_selection_validated_at a = None \<and> ec_allowance_requested c \<noteq> new_value
     then update_contracts (\<lambda>r. ec_pk r = p) (\<lambda>r. r\<lparr>ec_allowance_requested := new_value\<rparr>) x
     else Inr x)"

definition geiq_justify_contract :: "pk \<Rightarrow> pk \<Rightarrow> string \<Rightarrow> string \<Rightarrow> assess_db \<Rightarrow> error + assess_db" where
  "geiq_justify_contract company p reason details x =
     rbind (contract_for_company company p x) (\<lambda>(c, a).
     if \<not> requires_justification c then Inl Http404
     else if reason = [] \<or> details = [] \<or> as_contracts_selection_validated_at a \<noteq> None then Inr x
     else update_contracts (\<lambda>r. ec_pk r = p) (\<lambda>r. r\<lparr>ec_request_reason := reason, ec_request_details := details\<rparr>) x)"

section \<open>The institutions\<close>

definition institution_toggle_contract :: "pk \<Rightarrow> pk \<Rightarrow> bool \<Rightarrow> assess_db \<Rightarrow> error + assess_db" where
  "institution_toggle_contract institution p new_value x =
     rbind (contract_for_institution institution p x) (\<lambda>(c, a).
     if as_grants_selection_validated_at a = None \<and> ec_allowance_granted c \<noteq> new_value
     then update_contracts (\<lambda>r. ec_pk r = p)
       (\<lambda>r. if new_value \<and> ec_refusal_reason c \<noteq> []
            then r\<lparr>ec_allowance_granted := new_value, ec_refusal_reason := [], ec_refusal_details := []\<rparr>
            else r\<lparr>ec_allowance_granted := new_value\<rparr>) x
     else Inr x)"

definition refuse_allowance :: "pk \<Rightarrow> pk \<Rightarrow> assess_db \<Rightarrow> error + assess_db" where
  "refuse_allowance institution p x =
     rbind (contract_for_institution institution p x) (\<lambda>(c, a).
     if as_grants_selection_validated_at a \<noteq> None then Inr x
     else update_contracts (\<lambda>r. ec_pk r = p) (\<lambda>r. r\<lparr>ec_allowance_granted := False\<rparr>) x)"

definition grant_allowance :: "pk \<Rightarrow> pk \<Rightarrow> assess_db \<Rightarrow> error + assess_db" where
  "grant_allowance institution p x =
     rbind (contract_for_institution institution p x) (\<lambda>(c, a).
     if as_grants_selection_validated_at a \<noteq> None then Inr x
     else update_contracts (\<lambda>r. ec_pk r = p)
       (\<lambda>r. r\<lparr>ec_allowance_granted := True, ec_refusal_reason := [], ec_refusal_details := []\<rparr>) x)"

definition justify_refusal :: "pk \<Rightarrow> pk \<Rightarrow> string \<Rightarrow> string \<Rightarrow> assess_db \<Rightarrow> error + assess_db" where
  "justify_refusal institution p reason details x =
     rbind (contract_for_institution institution p x) (\<lambda>(c, a).
     if ec_allowance_granted c then Inl Http404
     else if reason = [] \<or> details = [] \<or> as_grants_selection_validated_at a \<noteq> None then Inr x
     else update_contracts (\<lambda>r. ec_pk r = p) (\<lambda>r. r\<lparr>ec_refusal_reason := reason, ec_refusal_details := details\<rparr>) x)"

definition institution_validate_contracts :: "pk \<Rightarrow> datetime \<Rightarrow> pk \<Rightarrow> assess_db \<Rightarrow> error + assess_db" where
  "institution_validate_contracts institution now p x =
     rbind (assessment_of_institution institution p x) (\<lambda>a.
     if as_submitted_at a = None then Inl Http404
     else if as_reviewed_at a \<noteq> None \<or> as_grants_selection_validated_at a \<noteq> None \<or>
             institution_awaiting_justification p x \<noteq> 0
     then Inl PermissionDenied
     else assessment_save (a\<lparr>as_grants_selection_validated_at := Some now\<rparr>) x)"

definition institution_invalidate_contracts :: "pk \<Rightarrow> pk \<Rightarrow> assess_db \<Rightarrow> error + assess_db" where
  "institution_invalidate_contracts institution p x =
     rbind (assessment_of_institution institution p x) (\<lambda>a.
     if as_submitted_at a = None then Inl Http404
     else if as_reviewed_at a \<noteq> None \<or> as_grants_selection_validated_at a = None then Inl PermissionDenied
     else assessment_save (a\<lparr>as_grants_selection_validated_at := None, as_decision_validated_at := None\<rparr>) x)"

text \<open>\<open>ReviewForm\<close>: the comment, the amounts and the responsible persons of the decision.  The amounts are in whole euros, with at most
  eight digits (\<open>max_digits\<close> less the two decimals).\<close>

record review_form =
  rf_comment :: string
  rf_convention_amount :: int
  rf_granted_amount :: int
  rf_advance_amount :: int
  rf_geiq_responsible_person :: string
  rf_institution_responsible_person :: string
  rf_legal_commitment_number :: string

definition review_form_valid :: "review_form \<Rightarrow> bool" where
  "review_form_valid f \<longleftrightarrow> rf_comment f \<noteq> [] \<and> rf_geiq_responsible_person f \<noteq> [] \<and>
     rf_institution_responsible_person f \<noteq> [] \<and> rf_legal_commitment_number f \<noteq> [] \<and>
     0 \<le> rf_convention_amount f \<and> 0 \<le> rf_granted_amount f \<and> 0 \<le> rf_advance_amount f \<and>
     rf_convention_amount f < 10 ^ 8 \<and> rf_granted_amount f < 10 ^ 8 \<and> rf_advance_amount f < 10 ^ 8 \<and>
     rf_granted_amount f \<le> rf_convention_amount f \<and> rf_advance_amount f \<le> rf_convention_amount f"

definition assessment_decision :: "pk \<Rightarrow> datetime \<Rightarrow> pk \<Rightarrow> review_form \<Rightarrow> assess_db \<Rightarrow> error + assess_db" where
  "assessment_decision institution now p f x =
     rbind (assessment_of_institution institution p x) (\<lambda>a.
     if as_grants_selection_validated_at a = None then Inl Http404
     else if \<not> review_form_valid f then Inl (ValidationError ''ReviewForm'')
     else if as_reviewed_at a \<noteq> None then Inr x
     else assessment_save (a\<lparr>as_review_comment := rf_comment f, as_convention_amount := rf_convention_amount f,
         as_granted_amount := rf_granted_amount f, as_advance_amount := rf_advance_amount f,
         as_geiq_responsible_person := rf_geiq_responsible_person f,
         as_institution_responsible_person := rf_institution_responsible_person f,
         as_legal_commitment_number := rf_legal_commitment_number f, as_decision_validated_at := Some now\<rparr>) x)"

text \<open>The form that asks an institution for a correction exists only for a DREETS: for another institution
  the code calls \<open>is_valid\<close> on \<open>None\<close>.\<close>

datatype institution_action = IA_REVIEW | IA_ASK_FOR_INSTITUTION_FIX string | IA_ASK_FOR_GEIQ_FIX string

definition assessment_details_for_institution ::
  "as_engine \<Rightarrow> institution_kind \<Rightarrow> pk \<Rightarrow> datetime \<Rightarrow> pk \<Rightarrow> pk \<Rightarrow> institution_action \<Rightarrow> assess_db \<Rightarrow> error + assess_db" where
  "assessment_details_for_institution run kind institution now user p act x =
     rbind (guard (kind \<noteq> OTHER_INSTITUTION) Http404) (\<lambda>_.
     rbind (assessment_of_institution institution p x) (\<lambda>a.
     case act of
       IA_REVIEW \<Rightarrow>
         (case kind of
            DDETS_GEIQ \<Rightarrow> if as_reviewed_at a = None
              then rbind (assessment_review run now user institution a x) (\<lambda>(a', x'). Inr x') else Inl PermissionDenied
          | DREETS_GEIQ \<Rightarrow> if as_final_reviewed_at a = None
              then rbind (final_review run now user institution a x) (\<lambda>(a', x'). Inr x') else Inl PermissionDenied
          | OTHER_INSTITUTION \<Rightarrow> Inl PermissionDenied)
     | IA_ASK_FOR_INSTITUTION_FIX comment \<Rightarrow>
         if kind \<noteq> DREETS_GEIQ then Inl (AttributeError ''is_valid'')
         else if comment = [] \<or> as_final_reviewed_at a \<noteq> None \<or> as_reviewed_at a = None then Inr x
         else rbind (ask_for_institution_fix run now user institution comment a x) (\<lambda>(a', x'). Inr x')
     | IA_ASK_FOR_GEIQ_FIX comment \<Rightarrow>
         if comment = [] \<or> as_final_reviewed_at a \<noteq> None \<or> as_submitted_at a = None then Inr x
         else rbind (ask_for_geiq_fix run now user institution comment a x) (\<lambda>(a', x'). Inr x')))"

end
