(* ===== verification/Geiq_Assessment_Invariant.thy ===== *)
theory Geiq_Assessment_Invariant
  imports Geiq_Assessments
begin

text \<open>
  The invariant of the assessments: the check constraints, a log that is a path of the workflow from its
  initial state, and no allowance granted before the submission.  Every operation keeps it.
\<close>

section \<open>Days of a contract in a year\<close>

lemma january_first_mono: "january_first y < january_first (y + 1)"
  by (simp add: january_first_def)

text \<open>The arithmetic counts the days of the contract that fall in the year.\<close>

lemma nb_days_in_year_card:
  assumes "start \<le> end_at"
  shows "nb_days_in_year start end_at y = int (card ({start..end_at} \<inter> {january_first y..<january_first (y + 1)}))"
proof -
  have "{start..end_at} \<inter> {january_first y..<january_first (y + 1)} =
      {max start (january_first y)..min end_at (january_first (y + 1) - 1)}" by auto
  then show ?thesis
    using assms january_first_mono [of y] by (auto simp: nb_days_in_year_def Let_def min_def max_def)
qed

section \<open>The invariant\<close>

definition as_log_of :: "assessment \<Rightarrow> assess_db \<Rightarrow> (assessment_transition \<times> assessment_state \<times> assessment_state) list" where
  "as_log_of a x = map (\<lambda>l. (at_transition l, at_from_state l, at_to_state l))
     (filter (\<lambda>l. at_assessment l = as_pk a) (ax_logs x))"

definition nothing_granted :: "assessment \<Rightarrow> assess_db \<Rightarrow> bool" where
  "nothing_granted a x \<longleftrightarrow> (\<forall>c \<in> set (ax_contracts x). contracts_of (as_pk a) x c \<longrightarrow> \<not> ec_allowance_granted c)"

definition assess_wf :: "assess_db \<Rightarrow> bool" where
  "assess_wf x \<longleftrightarrow> distinct (map as_pk (ax_assessments x)) \<and> distinct (map ge_pk (ax_employees x)) \<and>
     distinct (map ec_pk (ax_contracts x)) \<and> list_all assessment_constraints (ax_assessments x) \<and>
     list_all contract_constraints (ax_contracts x) \<and>
     (\<forall>a \<in> set (ax_assessments x). log_path at_sources at_target AS_NEW (as_log_of a x) (as_state a)) \<and>
     (\<forall>a \<in> set (ax_assessments x). as_state a = AS_NEW \<longrightarrow> nothing_granted a x)"

lemma assess_wf_row:
  assumes "assess_wf x" "a \<in> set (ax_assessments x)"
  shows "assessment_constraints a" "log_path at_sources at_target AS_NEW (as_log_of a x) (as_state a)"
    "as_state a = AS_NEW \<Longrightarrow> nothing_granted a x"
  using assms by (auto simp: assess_wf_def list_all_iff)

lemma assess_unique:
  "assess_wf x \<Longrightarrow> a \<in> set (ax_assessments x) \<Longrightarrow> b \<in> set (ax_assessments x) \<Longrightarrow> as_pk b = as_pk a \<Longrightarrow> b = a"
  by (auto simp: assess_wf_def distinct_map dest: inj_onD)

lemma submitted_not_new: "assessment_constraints a \<Longrightarrow> as_submitted_at a \<noteq> None \<longleftrightarrow> as_state a \<noteq> AS_NEW"
  by (auto simp: assessment_constraints_def state_dates_def)

lemma employee_unique:
  "assess_wf x \<Longrightarrow> e \<in> set (ax_employees x) \<Longrightarrow> e' \<in> set (ax_employees x) \<Longrightarrow> ge_pk e' = ge_pk e \<Longrightarrow> e' = e"
  by (auto simp: assess_wf_def distinct_map dest: inj_onD)

lemma contract_unique:
  "assess_wf x \<Longrightarrow> c \<in> set (ax_contracts x) \<Longrightarrow> r \<in> set (ax_contracts x) \<Longrightarrow> ec_pk r = ec_pk c \<Longrightarrow> r = c"
  by (auto simp: assess_wf_def distinct_map dest: inj_onD)

lemma as_log_of_cong: "as_pk b = as_pk a \<Longrightarrow> ax_logs x' = ax_logs x \<Longrightarrow> as_log_of b x' = as_log_of a x"
  by (simp add: as_log_of_def)

lemma nothing_granted_cong:
  "as_pk b = as_pk a \<Longrightarrow> ax_contracts x' = ax_contracts x \<Longrightarrow> ax_employees x' = ax_employees x \<Longrightarrow>
     nothing_granted b x' = nothing_granted a x"
  by (simp add: nothing_granted_def contracts_of_def)

section \<open>Writes\<close>

lemma assessment_save_Inr:
  "assessment_save a x = Inr x' \<Longrightarrow> assessment_constraints a \<and>
     x' = x\<lparr>ax_assessments := map_rows (\<lambda>r. as_pk r = as_pk a) (\<lambda>_. a) (ax_assessments x)\<rparr>"
  by (auto simp: assessment_save_def split: if_splits)

text \<open>A save outside the workflow keeps the key and the state.\<close>

lemma assessment_save_wf:
  assumes "assess_wf x" "old \<in> set (ax_assessments x)" "as_pk a = as_pk old" "as_state a = as_state old"
    and "assessment_save a x = Inr x'"
  shows "assess_wf x'"
proof -
  have chk: "assessment_constraints a"
    and x': "x' = x\<lparr>ax_assessments := map_rows (\<lambda>r. as_pk r = as_pk a) (\<lambda>_. a) (ax_assessments x)\<rparr>"
    using assessment_save_Inr [OF assms(5)] by blast+
  have row: "b \<in> set (ax_assessments x') \<Longrightarrow> \<exists>c \<in> set (ax_assessments x). as_pk c = as_pk b \<and> as_state c = as_state b" for b
    using assms(2-4) by (auto simp: x' set_map_rows split: if_splits)
  have "log_path at_sources at_target AS_NEW (as_log_of b x') (as_state b) \<and>
    (as_state b = AS_NEW \<longrightarrow> nothing_granted b x')" if b: "b \<in> set (ax_assessments x')" for b
  proof -
    obtain c where c: "c \<in> set (ax_assessments x)" "as_pk c = as_pk b" "as_state c = as_state b" using row [OF b] by blast
    have "as_log_of b x' = as_log_of c x" by (rule as_log_of_cong) (simp_all add: c(2) x')
    moreover have "nothing_granted b x' = nothing_granted c x" by (rule nothing_granted_cong) (simp_all add: c(2) x')
    ultimately show ?thesis using assess_wf_row [OF assms(1) c(1)] c(3) by auto
  qed
  moreover have "map as_pk (ax_assessments x') = map as_pk (ax_assessments x)"
    by (auto simp: x' map_rows_def)
  moreover have "list_all assessment_constraints (ax_assessments x')"
    using assms(1) chk by (auto simp: x' assess_wf_def list_all_iff set_map_rows)
  ultimately show ?thesis using assms(1) by (simp add: assess_wf_def x')
qed

lemma update_contracts_Inr:
  "update_contracts p f x = Inr x' \<Longrightarrow> x' = x\<lparr>ax_contracts := map_rows p f (ax_contracts x)\<rparr> \<and>
     list_all contract_constraints (ax_contracts x')"
  by (auto simp: update_contracts_def Let_def split: if_splits)

lemma update_contracts_wf:
  assumes "assess_wf x" "update_contracts p f x = Inr x'"
    and "\<And>c. ec_pk (f c) = ec_pk c \<and> ec_employee (f c) = ec_employee c"
    and "\<And>c a. c \<in> set (ax_contracts x) \<Longrightarrow> p c \<Longrightarrow> ec_allowance_granted (f c) \<Longrightarrow> \<not> ec_allowance_granted c \<Longrightarrow>
      a \<in> set (ax_assessments x) \<Longrightarrow> contracts_of (as_pk a) x c \<Longrightarrow> as_state a \<noteq> AS_NEW"
  shows "assess_wf x'"
proof -
  have x': "x' = x\<lparr>ax_contracts := map_rows p f (ax_contracts x)\<rparr>" and chk: "list_all contract_constraints (ax_contracts x')"
    using update_contracts_Inr [OF assms(2)] by blast+
  have "map ec_pk (ax_contracts x') = map ec_pk (ax_contracts x)"
    by (simp add: x' map_rows_key assms(3))
  moreover have "nothing_granted a x'" if "a \<in> set (ax_assessments x)" "as_state a = AS_NEW" for a
  proof -
    have "\<not> ec_allowance_granted (if p c then f c else c)"
      if "c \<in> set (ax_contracts x)" "contracts_of (as_pk a) x (if p c then f c else c)" for c
    proof -
      have "contracts_of (as_pk a) x c" using that(2) assms(3) by (auto simp: contracts_of_def split: if_splits)
      then show ?thesis
        using assess_wf_row(3) [OF assms(1) \<open>a \<in> _\<close> \<open>as_state a = AS_NEW\<close>] that(1) assms(4) \<open>a \<in> _\<close> \<open>as_state a = AS_NEW\<close>
        by (auto simp: nothing_granted_def)
    qed
    then have "\<forall>c \<in> (\<lambda>c. if p c then f c else c) ` set (ax_contracts x).
        contracts_of (as_pk a) x c \<longrightarrow> \<not> ec_allowance_granted c" by blast
    moreover have "contracts_of k x' = contracts_of k x" for k by (simp add: contracts_of_def x' fun_eq_iff)
    ultimately show ?thesis by (simp add: nothing_granted_def x' set_map_rows)
  qed
  ultimately show ?thesis using assms(1) chk by (simp add: assess_wf_def x' as_log_of_def)
qed

section \<open>Transitions\<close>

text \<open>What the implementation of a transition may do: it keeps the key and the other tables, grants nothing,
  and the one that goes back to NEW withdraws all the allowances of the assessment.\<close>

definition as_body_ok :: "assessment_transition \<Rightarrow> (assessment \<Rightarrow> assess_db \<Rightarrow> error + assessment \<times> assess_db) \<Rightarrow> bool" where
  "as_body_ok t body \<longleftrightarrow> (\<forall>a x a1 x1. body a x = Inr (a1, x1) \<longrightarrow> assess_wf x \<longrightarrow>
     as_pk a1 = as_pk a \<and> assess_wf x1 \<and> ax_assessments x1 = ax_assessments x \<and> ax_logs x1 = ax_logs x \<and>
     (at_target t = AS_NEW \<longrightarrow> nothing_granted a x1))"

lemma as_call_InrD:
  assumes "engine_law run" "run (as_call now t user institution comment body) a x = Inr (a', x')"
  obtains a1 x1 stamp where "as_state a \<in> set (at_sources t)" "body a x = Inr (a1, x1)" "a' = a1\<lparr>as_state := at_target t\<rparr>"
    "assessment_constraints a'" "log_timestamp now t a' = Some stamp"
    "x' = x1\<lparr>ax_assessments := map_rows (\<lambda>r. as_pk r = as_pk a') (\<lambda>_. a') (ax_assessments x1),
       ax_logs := ax_logs x1 @ [\<lparr>at_assessment = as_pk a', at_transition = t, at_from_state = as_state a,
         at_to_state = at_target t, at_user = user, at_institution = institution, at_comment = comment,
         at_timestamp = stamp\<rparr>]\<rparr>"
proof -
  obtain a1 x1 where e: "as_state a \<in> set (at_sources t)" "body a x = Inr (a1, x1)"
    "assessment_save_and_log now t user institution comment (as_state a) (a1\<lparr>as_state := at_target t\<rparr>) x1 = Inr (a', x')"
    using assms(2) by (auto simp: as_call_def elim!: engine_InrD [OF assms(1)])
  then obtain x2 where s: "assessment_save (a1\<lparr>as_state := at_target t\<rparr>) x1 = Inr x2"
    "log_transition now t user institution comment (as_state a) (a1\<lparr>as_state := at_target t\<rparr>) x2 = Inr x'"
    "a' = a1\<lparr>as_state := at_target t\<rparr>" by (auto simp: assessment_save_and_log_def)
  then obtain stamp where "log_timestamp now t a' = Some stamp" by (auto simp: log_transition_def split: option.splits)
  with e s that assessment_save_Inr [OF s(1)] show thesis
    by (auto simp: log_transition_def Let_def split: if_splits)
qed

lemma as_call_spec:
  assumes wf: "assess_wf x" and row: "a \<in> set (ax_assessments x)" and ok: "as_body_ok t body" and law: "engine_law run"
    and r: "run (as_call now t user institution comment body) a x = Inr (a', x')"
  shows "as_state a \<in> set (at_sources t) \<and> as_state a' = at_target t"
    "as_log_of a' x' = as_log_of a x @ [(t, as_state a, at_target t)]"
    "assess_wf x'" "a' \<in> set (ax_assessments x')" "as_pk a' = as_pk a"
proof -
  obtain a1 x1 stamp where e: "as_state a \<in> set (at_sources t)" "body a x = Inr (a1, x1)"
    "a' = a1\<lparr>as_state := at_target t\<rparr>" "assessment_constraints a'"
    and x': "x' = x1\<lparr>ax_assessments := map_rows (\<lambda>r. as_pk r = as_pk a') (\<lambda>_. a') (ax_assessments x1),
       ax_logs := ax_logs x1 @ [\<lparr>at_assessment = as_pk a', at_transition = t, at_from_state = as_state a,
         at_to_state = at_target t, at_user = user, at_institution = institution, at_comment = comment,
         at_timestamp = stamp\<rparr>]\<rparr>"
    using as_call_InrD [OF law r] by metis
  have b: "as_pk a1 = as_pk a" "assess_wf x1" "ax_assessments x1 = ax_assessments x" "ax_logs x1 = ax_logs x"
    "at_target t = AS_NEW \<Longrightarrow> nothing_granted a x1"
    using ok e(2) wf by (auto simp: as_body_ok_def)
  show "as_state a \<in> set (at_sources t) \<and> as_state a' = at_target t" using e by simp
  show pk: "as_pk a' = as_pk a" using e(3) b(1) by simp
  show log: "as_log_of a' x' = as_log_of a x @ [(t, as_state a, at_target t)]"
    by (simp add: as_log_of_def x' pk b(4))
  show "a' \<in> set (ax_assessments x')" using row pk by (auto simp: x' b(3) set_map_rows)
  have "log_path at_sources at_target AS_NEW (as_log_of c x') (as_state c) \<and> (as_state c = AS_NEW \<longrightarrow> nothing_granted c x')"
    if c: "c \<in> set (ax_assessments x')" for c
  proof (cases "as_pk c = as_pk a")
    case True
    then have "c = a'" using c pk by (auto simp: x' b(3) set_map_rows split: if_splits)
    moreover have "nothing_granted a' x' = nothing_granted a x1"
      by (rule nothing_granted_cong) (simp_all add: pk x')
    ultimately show ?thesis
      using log assess_wf_row(2) [OF wf row] e(1,3) b(5) by (auto simp: log_path_append)
  next
    case False
    then have c1: "c \<in> set (ax_assessments x1)" using c pk by (auto simp: x' b(3) set_map_rows split: if_splits)
    have "as_log_of c x' = as_log_of c x1" using False pk by (simp add: as_log_of_def x')
    moreover have "nothing_granted c x' = nothing_granted c x1" by (rule nothing_granted_cong) (simp_all add: x')
    ultimately show ?thesis using assess_wf_row [OF b(2) c1] by auto
  qed
  moreover have "map as_pk (ax_assessments x') = map as_pk (ax_assessments x1)" by (auto simp: x' map_rows_def)
  moreover have "list_all assessment_constraints (ax_assessments x')"
    using b(2) e(4) by (auto simp: x' assess_wf_def list_all_iff set_map_rows)
  ultimately show "assess_wf x'" using b(2) by (simp add: assess_wf_def x')
qed

inductive as_step :: "assessment_transition \<Rightarrow> assessment \<Rightarrow> assess_db \<Rightarrow> assessment \<Rightarrow> assess_db \<Rightarrow> bool" where
  do_submit: "engine_law run \<Longrightarrow> submit run now user a x = Inr (a', x') \<Longrightarrow> as_step AT_SUBMIT a x a' x'"
| do_review: "engine_law run \<Longrightarrow> assessment_review run now user i a x = Inr (a', x') \<Longrightarrow> as_step AT_REVIEW a x a' x'"
| do_final: "engine_law run \<Longrightarrow> final_review run now user i a x = Inr (a', x') \<Longrightarrow> as_step AT_FINAL_REVIEW a x a' x'"
| do_inst_fix: "engine_law run \<Longrightarrow> ask_for_institution_fix run now user i c a x = Inr (a', x') \<Longrightarrow>
    as_step AT_ASK_FOR_INSTITUTION_FIX a x a' x'"
| do_geiq_fix: "engine_law run \<Longrightarrow> ask_for_geiq_fix run now user i c a x = Inr (a', x') \<Longrightarrow>
    as_step AT_ASK_FOR_GEIQ_FIX a x a' x'"

lemmas as_transition_defs = submit_def assessment_review_def final_review_def ask_for_institution_fix_def
  ask_for_geiq_fix_def

lemma withdraw_body_ok:
  "as_body_ok AT_ASK_FOR_GEIQ_FIX
     (\<lambda>a x. rbind (update_contracts (contracts_of (as_pk a) x) (\<lambda>c. c\<lparr>ec_allowance_granted := False\<rparr>) x)
          (\<lambda>x1. Inr (reset_submission a, x1)))"
  unfolding as_body_ok_def
proof (intro allI impI)
  fix a x a1 x1
  assume b: "rbind (update_contracts (contracts_of (as_pk a) x) (\<lambda>c. c\<lparr>ec_allowance_granted := False\<rparr>) x)
      (\<lambda>x1. Inr (reset_submission a, x1)) = Inr (a1, x1)" and wf: "assess_wf x"
  then have u: "update_contracts (contracts_of (as_pk a) x) (\<lambda>c. c\<lparr>ec_allowance_granted := False\<rparr>) x = Inr x1"
    and a1: "a1 = reset_submission a" by auto
  have x1: "x1 = x\<lparr>ax_contracts := map_rows (contracts_of (as_pk a) x) (\<lambda>c. c\<lparr>ec_allowance_granted := False\<rparr>) (ax_contracts x)\<rparr>"
    using update_contracts_Inr [OF u] by blast
  have "assess_wf x1" by (rule update_contracts_wf [OF wf u]) simp_all
  moreover have "nothing_granted a x1"
    by (auto simp: nothing_granted_def x1 set_map_rows contracts_of_def split: if_splits)
  ultimately show "as_pk a1 = as_pk a \<and> assess_wf x1 \<and> ax_assessments x1 = ax_assessments x \<and> ax_logs x1 = ax_logs x \<and>
      (at_target AT_ASK_FOR_GEIQ_FIX = AS_NEW \<longrightarrow> nothing_granted a x1)"
    by (simp add: x1 a1 reset_submission_def reset_review_def)
qed

lemma as_step_call:
  assumes "as_step t a x a' x'"
  shows "\<exists>run now user i c body. engine_law run \<and> as_body_ok t body \<and>
    run (as_call now t user i c body) a x = Inr (a', x')"
  using assms
proof (cases rule: as_step.cases)
  case (do_submit run now user)
  then show ?thesis unfolding submit_def
    by (intro exI conjI) (assumption, simp_all add: as_body_ok_def)
next
  case (do_review run now user i)
  then show ?thesis unfolding assessment_review_def
    by (intro exI conjI) (assumption, simp_all add: as_body_ok_def)
next
  case (do_final run now user i)
  then show ?thesis unfolding final_review_def
    by (intro exI conjI) (assumption, simp_all add: as_body_ok_def final_review_fields_def Let_def)
next
  case (do_inst_fix run now user i c)
  then show ?thesis unfolding ask_for_institution_fix_def
    by (intro exI conjI) (assumption, simp_all add: as_body_ok_def reset_review_def)
next
  case (do_geiq_fix run now user i c)
  then show ?thesis unfolding ask_for_geiq_fix_def using withdraw_body_ok by blast
qed

lemma as_step_spec:
  assumes "assess_wf x" "a \<in> set (ax_assessments x)" "as_step t a x a' x'"
  shows "as_state a \<in> set (at_sources t) \<and> as_state a' = at_target t"
    "as_log_of a' x' = as_log_of a x @ [(t, as_state a, at_target t)]"
    "assess_wf x'" "a' \<in> set (ax_assessments x')" "as_pk a' = as_pk a"
proof -
  obtain run now user i c body where "engine_law run" "as_body_ok t body"
    "run (as_call now t user i c body) a x = Inr (a', x')"
    using as_step_call [OF assms(3)] by metis
  note spec = as_call_spec [OF assms(1,2) this(2,1,3)]
  show "as_state a \<in> set (at_sources t) \<and> as_state a' = at_target t"
    "as_log_of a' x' = as_log_of a x @ [(t, as_state a, at_target t)]"
    "assess_wf x'" "a' \<in> set (ax_assessments x')" "as_pk a' = as_pk a"
    by (fact spec)+
qed

text \<open>The transitions of a stored assessment implement the contract of a logged workflow.\<close>

definition as_perform :: "assessment_transition \<Rightarrow> assessment \<Rightarrow> assess_db \<Rightarrow> assessment \<Rightarrow> assess_db \<Rightarrow> bool" where
  "as_perform t a x a' x' \<longleftrightarrow> assess_wf x \<and> a \<in> set (ax_assessments x) \<and> as_step t a x a' x'"

interpretation as_wf: logged_workflow as_state at_sources at_target as_perform as_log_of
proof unfold_locales
  fix t a x a' x' assume "as_perform t a x a' x'"
  then have p: "assess_wf x" "a \<in> set (ax_assessments x)" "as_step t a x a' x'" by (simp_all add: as_perform_def)
  show "as_state a \<in> set (at_sources t) \<and> as_state a' = at_target t" by (rule as_step_spec(1) [OF p])
  show "as_log_of a' x' = as_log_of a x @ [(t, as_state a, at_target t)]" by (rule as_step_spec(2) [OF p])
qed

lemma final_reviewed_ends:
  assumes "as_wf.performs a x a' x'" "as_state a = AS_FINAL_REVIEWED"
  shows "a' = a \<and> x' = x"
proof (rule as_wf.performs_final [OF assms(1)])
  show "as_state a \<notin> set (at_sources t)" for t using assms(2) by (cases t) simp_all
qed

section \<open>Operations\<close>

text \<open>The requests of the GEIQ and of the institutions.\<close>

inductive assess_step :: "assess_db \<Rightarrow> assess_db \<Rightarrow> bool" where
  geiq_submits: "engine_law run \<Longrightarrow> assessment_details_for_geiq run company now user p x = Inr x' \<Longrightarrow> assess_step x x'"
| geiq_uploads: "upload_action_financial_assessment company p file x = Inr x' \<Longrightarrow> assess_step x x'"
| geiq_comments: "assessment_comment company p comment x = Inr x' \<Longrightarrow> assess_step x x'"
| geiq_validates: "geiq_validate_contracts company now p x = Inr x' \<Longrightarrow> assess_step x x'"
| geiq_invalidates: "geiq_invalidate_contracts company p x = Inr x' \<Longrightarrow> assess_step x x'"
| geiq_toggles: "geiq_toggle_contract company p v x = Inr x' \<Longrightarrow> assess_step x x'"
| geiq_justifies: "geiq_justify_contract company p reason details x = Inr x' \<Longrightarrow> assess_step x x'"
| institution_toggles: "institution_toggle_contract i p v x = Inr x' \<Longrightarrow> assess_step x x'"
| institution_refuses: "refuse_allowance i p x = Inr x' \<Longrightarrow> assess_step x x'"
| institution_grants: "grant_allowance i p x = Inr x' \<Longrightarrow> assess_step x x'"
| institution_justifies: "justify_refusal i p reason details x = Inr x' \<Longrightarrow> assess_step x x'"
| institution_validates: "institution_validate_contracts i now p x = Inr x' \<Longrightarrow> assess_step x x'"
| institution_invalidates: "institution_invalidate_contracts i p x = Inr x' \<Longrightarrow> assess_step x x'"
| institution_decides: "assessment_decision i now p f x = Inr x' \<Longrightarrow> assess_step x x'"
| institution_acts: "engine_law run \<Longrightarrow> assessment_details_for_institution run kind i now user p act x = Inr x' \<Longrightarrow>
    assess_step x x'"

lemma assessment_lookups:
  "assessment_of_company company p x = Inr a \<Longrightarrow> a \<in> set (ax_assessments x) \<and> as_pk a = p"
  "assessment_of_institution i p x = Inr a \<Longrightarrow> a \<in> set (ax_assessments x) \<and> as_pk a = p"
  by (auto simp: assessment_of_company_def assessment_of_institution_def split: option.splits if_splits
      dest: get_row_SomeD)

text \<open>The assessment found through the employee of a contract is the only one that has the contract.\<close>

lemma assessment_of_contract_unique:
  assumes "assess_wf x" "assessment_of_contract x c = Some b" "a \<in> set (ax_assessments x)" "contracts_of (as_pk a) x c"
  shows "a = b"
proof -
  obtain e where e: "e \<in> set (ax_employees x)" "ge_pk e = ec_employee c"
    and b: "b \<in> set (ax_assessments x)" "as_pk b = ge_assessment e"
    using assms(2) by (auto simp: assessment_of_contract_def split: option.splits dest!: get_row_SomeD)
  obtain e' where "e' \<in> set (ax_employees x)" "ge_pk e' = ec_employee c" "ge_assessment e' = as_pk a"
    using assms(4) by (auto simp: contracts_of_def list_ex_iff)
  moreover have "e' = e" using employee_unique [OF assms(1) e(1)] calculation(1,2) e(2) by simp
  ultimately show ?thesis using assess_unique [OF assms(1) b(1) assms(3)] b(2) by simp
qed

lemma contract_lookups:
  assumes "assess_wf x" "contract_for_institution i p x = Inr (c, b)"
    and "r \<in> set (ax_contracts x)" "ec_pk r = p" "a \<in> set (ax_assessments x)" "contracts_of (as_pk a) x r"
  shows "as_state a \<noteq> AS_NEW"
proof -
  have c: "c \<in> set (ax_contracts x)" "ec_pk c = p" and b: "assessment_of_contract x c = Some b" "as_submitted_at b \<noteq> None"
    using assms(2) by (auto simp: contract_for_institution_def split: option.splits if_splits dest: get_row_SomeD)
  have "r = c" using contract_unique [OF assms(1) c(1) assms(3)] assms(4) c(2) by simp
  then have "a = b" using assessment_of_contract_unique [OF assms(1) b(1) assms(5)] assms(6) by simp
  then show ?thesis using b(2) submitted_not_new assess_wf_row(1) [OF assms(1,5)] by blast
qed

text \<open>The operations that save the assessment outside the workflow.\<close>

lemma geiq_saves_wf:
  assumes "assess_wf x"
  shows "upload_action_financial_assessment company p file x = Inr x' \<Longrightarrow> assess_wf x'"
    "assessment_comment company p comment x = Inr x' \<Longrightarrow> assess_wf x'"
    "geiq_validate_contracts company now p x = Inr x' \<Longrightarrow> assess_wf x'"
    "geiq_invalidate_contracts company p x = Inr x' \<Longrightarrow> assess_wf x'"
  by (auto simp: upload_action_financial_assessment_def assessment_comment_def geiq_validate_contracts_def
      geiq_invalidate_contracts_def split: if_splits dest!: assessment_lookups(1)
      elim!: assessment_save_wf [OF assms, rotated 3])

lemma institution_saves_wf:
  assumes "assess_wf x"
  shows "institution_validate_contracts i now p x = Inr x' \<Longrightarrow> assess_wf x'"
    "institution_invalidate_contracts i p x = Inr x' \<Longrightarrow> assess_wf x'"
    "assessment_decision i now p f x = Inr x' \<Longrightarrow> assess_wf x'"
  using assms
  by (auto simp: institution_validate_contracts_def institution_invalidate_contracts_def assessment_decision_def
      split: if_splits dest!: assessment_lookups(2) elim!: assessment_save_wf [OF assms, rotated 3])

text \<open>The operations on a contract.\<close>

lemma geiq_contracts_wf:
  assumes "assess_wf x"
  shows "geiq_toggle_contract company p v x = Inr x' \<Longrightarrow> assess_wf x'"
    "geiq_justify_contract company p reason details x = Inr x' \<Longrightarrow> assess_wf x'"
  using assms
  by (auto simp: geiq_toggle_contract_def geiq_justify_contract_def split: if_splits
      elim!: update_contracts_wf [OF assms])

lemma institution_contracts_wf:
  assumes "assess_wf x"
  shows "institution_toggle_contract i p v x = Inr x' \<Longrightarrow> assess_wf x'"
    "refuse_allowance i p x = Inr x' \<Longrightarrow> assess_wf x'"
    "grant_allowance i p x = Inr x' \<Longrightarrow> assess_wf x'"
    "justify_refusal i p reason details x = Inr x' \<Longrightarrow> assess_wf x'"
  using assms
  by (auto simp: institution_toggle_contract_def refuse_allowance_def grant_allowance_def justify_refusal_def
      split: if_splits elim!: update_contracts_wf [OF assms] dest: contract_lookups [OF assms])

text \<open>The requests that perform a transition.\<close>

lemma institution_acts_wf:
  assumes wf: "assess_wf x" and law: "engine_law run"
    and r: "assessment_details_for_institution run kind i now user p act x = Inr x'"
  shows "assess_wf x'"
proof -
  obtain a where a: "assessment_of_institution i p x = Inr a"
    using r by (auto simp: assessment_details_for_institution_def)
  have "x' = x \<or> (\<exists>t a'. as_step t a x a' x')"
  proof (cases act)
    case IA_REVIEW
    then show ?thesis using r a law by (cases kind)
      (auto simp: assessment_details_for_institution_def split: if_splits intro: as_step.intros)
  next
    case (IA_ASK_FOR_INSTITUTION_FIX comment)
    then show ?thesis using r a law
      by (auto simp: assessment_details_for_institution_def split: if_splits intro: as_step.intros)
  next
    case (IA_ASK_FOR_GEIQ_FIX comment)
    then show ?thesis using r a law
      by (auto simp: assessment_details_for_institution_def split: if_splits intro: as_step.intros)
  qed
  then show ?thesis using wf as_step_spec(3) [OF wf] assessment_lookups(2) [OF a] by blast
qed

lemma geiq_submits_wf:
  assumes wf: "assess_wf x" and law: "engine_law run"
    and r: "assessment_details_for_geiq run company now user p x = Inr x'"
  shows "assess_wf x'"
proof (cases "x' = x")
  case False
  then obtain a a1 x1 where a: "a \<in> set (ax_assessments x)" "as_pk a = p" and sub: "submit run now user a x = Inr (a1, x1)"
    and up: "update_contracts (\<lambda>c. contracts_of p x1 c \<and> ec_refusal_reason c = [])
         (\<lambda>c. c\<lparr>ec_allowance_granted := ec_allowance_requested c\<rparr>) x1 = Inr x'"
    using r by (auto simp: assessment_details_for_geiq_def split: if_splits dest!: assessment_lookups(1))
  note spec = as_step_spec [OF wf a(1) as_step.do_submit [OF law sub]]
  have "as_state b \<noteq> AS_NEW" if b: "c \<in> set (ax_contracts x1)" "contracts_of p x1 c" "b \<in> set (ax_assessments x1)"
    "contracts_of (as_pk b) x1 c" for b c
  proof -
    have "as_pk b = p"
      using b(2,4) employee_unique [OF spec(3)] by (force simp: contracts_of_def list_ex_iff)
    then have "b = a1" using assess_unique [OF spec(3) spec(4) b(3)] spec(5) a(2) by simp
    then show ?thesis using spec(1) by simp
  qed
  then show ?thesis using update_contracts_wf [OF spec(3) up] by simp
qed (use wf in simp)

theorem assess_step_wf: "assess_step x x' \<Longrightarrow> assess_wf x \<Longrightarrow> assess_wf x'"
proof (induction rule: assess_step.induct)
qed (blast intro: geiq_saves_wf institution_saves_wf geiq_contracts_wf institution_contracts_wf
    institution_acts_wf geiq_submits_wf)+

lemma assess_steps_wf: "assess_step\<^sup>*\<^sup>* x x' \<Longrightarrow> assess_wf x \<Longrightarrow> assess_wf x'"
  by (induction rule: rtranclp_induct) (auto dest: assess_step_wf)

lemma sum_filter_mono:
  "(\<And>y. p y \<Longrightarrow> q y) \<Longrightarrow> sum_list (map f (filter p ys)) \<le> sum_list (map f (filter q ys))" for f :: "'a \<Rightarrow> nat"
  by (induction ys) auto

lemma granted_le_requested: "granted_allowance p x \<le> requested_allowance p x"
  unfolding granted_allowance_def requested_allowance_def by (rule sum_filter_mono) simp

end
