(* ===== verification/Geiq_Assessment_Properties.thy ===== *)
theory Geiq_Assessment_Properties
  imports Geiq_Assessment_Invariant
begin

text \<open>The properties of the assessments of the GEIQ: their history and their completion.\<close>

section \<open>Progress\<close>

lemma assessment_save_total:
  assumes "get_row as_pk p (ax_assessments x) = Some old" "as_pk a = p" "assessment_constraints a"
  shows "\<exists>x'. assessment_save a x = Inr x' \<and> get_row as_pk p (ax_assessments x') = Some a \<and>
    ax_contracts x' = ax_contracts x \<and> ax_employees x' = ax_employees x"
  using assms get_row_map_rows [of "\<lambda>r. as_pk r = as_pk a" as_pk "\<lambda>_. a"]
  by (auto simp: assessment_save_def dest: get_row_SomeD)

lemma as_call_total:
  assumes "engine_law run" "as_state a \<in> set (at_sources t)" "body a x = Inr (a1, x1)"
    and "get_row as_pk p (ax_assessments x1) = Some old" "as_pk a1 = p"
    and "assessment_constraints (a1\<lparr>as_state := at_target t\<rparr>)" "log_timestamp now t a1 = Some stamp"
    and "(t \<in> {AT_ASK_FOR_GEIQ_FIX, AT_ASK_FOR_INSTITUTION_FIX}) = (comment \<noteq> [])"
  shows "\<exists>x'. run (as_call now t user i comment body) a x = Inr (a1\<lparr>as_state := at_target t\<rparr>, x') \<and>
    get_row as_pk p (ax_assessments x') = Some (a1\<lparr>as_state := at_target t\<rparr>) \<and>
    ax_contracts x' = ax_contracts x1 \<and> ax_employees x' = ax_employees x1"
proof -
  let ?a = "a1\<lparr>as_state := at_target t\<rparr>"
  obtain x2 where s: "assessment_save ?a x1 = Inr x2" "get_row as_pk p (ax_assessments x2) = Some ?a"
    "ax_contracts x2 = ax_contracts x1" "ax_employees x2 = ax_employees x1"
    using assessment_save_total [of p x1 old ?a] assms(4-6) by auto
  have stamp: "log_timestamp now t ?a = Some stamp"
    using assms(7) by (simp add: log_timestamp_def split: assessment_transition.splits)
  have "run (as_call now t user i comment body) a x = assessment_save_and_log now t user i comment (as_state a) ?a x1"
    using engine_eq [OF assms(1), of "as_call now t user i comment body" a x] assms(2,3) by (simp add: as_call_def)
  then show ?thesis
    using s stamp assms(8) by (simp add: assessment_save_and_log_def log_transition_def Let_def log_constraints_def)
qed

text \<open>After the submission no refusal waits for a justification.\<close>

lemma nothing_awaiting_after_submission:
  assumes "ax_contracts x' = map_rows (\<lambda>c. contracts_of p x c \<and> ec_refusal_reason c = [])
      (\<lambda>c. c\<lparr>ec_allowance_granted := ec_allowance_requested c\<rparr>) (ax_contracts x)"
    and "ax_employees x' = ax_employees x"
  shows "institution_awaiting_justification p x' = 0"
proof -
  have "contracts_of p x' c = contracts_of p x c" for c using assms(2) by (simp add: contracts_of_def)
  moreover have "contracts_of p x (c\<lparr>ec_allowance_granted := b\<rparr>) = contracts_of p x c" for c b
    by (simp add: contracts_of_def)
  ultimately show ?thesis
    by (auto simp: institution_awaiting_justification_def assessment_contracts_def assms(1) filter_empty_conv set_map_rows
        split: if_splits)
qed

text \<open>The submission of a complete new assessment.\<close>

definition submitted_row :: "datetime \<Rightarrow> pk \<Rightarrow> assessment \<Rightarrow> assessment" where
  "submitted_row now user a = a\<lparr>as_submitted_at := Some now, as_submitted_by := Some user, as_state := AS_SUBMITTED\<rparr>"

lemma new_row_blank:
  assumes "assessment_constraints a" "as_state a = AS_NEW"
  shows "as_submitted_at a = None" "as_grants_selection_validated_at a = None" "as_decision_validated_at a = None"
    "as_reviewed_at a = None" "as_final_reviewed_at a = None"
  using assms by (auto simp: assessment_constraints_def dates_in_order_def state_dates_def date_order_def
      split: option.splits)

lemma submitted_row_constraints:
  assumes "assessment_constraints a" "as_state a = AS_NEW" "missing_actions_to_submit a = []"
    and "as_contracts_selection_validated_at a = Some v" "v \<le> now"
  shows "assessment_constraints (submitted_row now user a)"
  using assms new_row_blank [OF assms(1,2)]
  by (auto simp: assessment_constraints_def submitted_row_def dates_in_order_def date_order_def state_dates_def
      full_or_no_submission_def full_or_no_review_def responsible_persons_def missing_actions_to_submit_def
      split: if_splits)

lemma geiq_submission_total:
  assumes "engine_law run" "assess_wf x" "a \<in> set (ax_assessments x)" "as_state a = AS_NEW"
    and "company \<in> set (as_companies a)" "missing_actions_to_submit a = []"
    and "as_contracts_selection_validated_at a = Some v" "v \<le> now"
  shows "\<exists>x1. assessment_details_for_geiq run company now user (as_pk a) x = Inr x1 \<and>
    get_row as_pk (as_pk a) (ax_assessments x1) = Some (submitted_row now user a) \<and>
    institution_awaiting_justification (as_pk a) x1 = 0"
proof -
  have row: "get_row as_pk (as_pk a) (ax_assessments x) = Some a"
    using assms(2,3) get_row_Some_iff [of as_pk "ax_assessments x"] by (simp add: assess_wf_def)
  have cons: "assessment_constraints a" by (rule assess_wf_row(1) [OF assms(2,3)])
  obtain x1 where sub: "submit run now user a x = Inr (submitted_row now user a, x1)"
    and row1: "get_row as_pk (as_pk a) (ax_assessments x1) = Some (submitted_row now user a)"
    and c1: "ax_contracts x1 = ax_contracts x" "ax_employees x1 = ax_employees x"
    using as_call_total [OF assms(1) _ _ row, where a = a and t = AT_SUBMIT and
        body = "\<lambda>a x. Inr (a\<lparr>as_submitted_at := Some now, as_submitted_by := Some user\<rparr>, x)" and x = x and
        now = now and stamp = now and comment = "[]" and user = user and i = None and
        ?a1.0 = "a\<lparr>as_submitted_at := Some now, as_submitted_by := Some user\<rparr>"]
      submitted_row_constraints [OF cons assms(4,6,7,8)] assms(4)
    by (auto simp: submit_def submitted_row_def log_timestamp_def)
  let ?p = "\<lambda>c. contracts_of (as_pk a) x1 c \<and> ec_refusal_reason c = []"
  let ?f = "\<lambda>c. c\<lparr>ec_allowance_granted := ec_allowance_requested c\<rparr>"
  have "list_all contract_constraints (map_rows ?p ?f (ax_contracts x1))"
    using assms(2) c1(1) by (auto simp: assess_wf_def list_all_iff set_map_rows contract_constraints_def)
  then have up: "update_contracts ?p ?f x1 = Inr (x1\<lparr>ax_contracts := map_rows ?p ?f (ax_contracts x1)\<rparr>)"
    by (simp add: update_contracts_def Let_def)
  have "institution_awaiting_justification (as_pk a) (x1\<lparr>ax_contracts := map_rows ?p ?f (ax_contracts x1)\<rparr>) = 0"
    by (rule nothing_awaiting_after_submission [of _ "as_pk a" x1]) simp_all
  then show ?thesis
    using sub row1 up row assms(5,6) new_row_blank(1) [OF cons assms(4)]
    by (simp add: assessment_details_for_geiq_def assessment_of_company_def)
qed

text \<open>The three steps of the institutions, each on the row the previous one left.\<close>

lemma institution_validation_total:
  assumes "get_row as_pk p (ax_assessments x) = Some b" "i \<in> set (as_institutions b)" "assessment_constraints b"
    and "as_state b = AS_SUBMITTED" "as_grants_selection_validated_at b = None"
    and "institution_awaiting_justification p x = 0" "as_submitted_at b = Some s" "s \<le> now"
  shows "\<exists>x'. institution_validate_contracts i now p x = Inr x' \<and>
    get_row as_pk p (ax_assessments x') = Some (b\<lparr>as_grants_selection_validated_at := Some now\<rparr>) \<and>
    assessment_constraints (b\<lparr>as_grants_selection_validated_at := Some now\<rparr>)"
proof -
  have c: "assessment_constraints (b\<lparr>as_grants_selection_validated_at := Some now\<rparr>)" "as_reviewed_at b = None"
    using assms by (auto simp: assessment_constraints_def dates_in_order_def date_order_def state_dates_def
      full_or_no_submission_def full_or_no_review_def responsible_persons_def split: option.splits)
  have "as_pk (b\<lparr>as_grants_selection_validated_at := Some now\<rparr>) = p" using get_row_SomeD [OF assms(1)] by simp
  then show ?thesis
    using assessment_save_total [OF assms(1) _ c(1)] assms c
    by (auto simp: institution_validate_contracts_def assessment_of_institution_def)
qed

definition decided_row :: "datetime \<Rightarrow> review_form \<Rightarrow> assessment \<Rightarrow> assessment" where
  "decided_row now f a = a\<lparr>as_review_comment := rf_comment f, as_convention_amount := rf_convention_amount f,
     as_granted_amount := rf_granted_amount f, as_advance_amount := rf_advance_amount f,
     as_geiq_responsible_person := rf_geiq_responsible_person f,
     as_institution_responsible_person := rf_institution_responsible_person f,
     as_legal_commitment_number := rf_legal_commitment_number f, as_decision_validated_at := Some now\<rparr>"

lemma decision_total:
  assumes "get_row as_pk p (ax_assessments x) = Some b" "i \<in> set (as_institutions b)" "assessment_constraints b"
    and "as_state b = AS_SUBMITTED" "as_grants_selection_validated_at b = Some g" "g \<le> now" "review_form_valid f"
  shows "\<exists>x'. assessment_decision i now p f x = Inr x' \<and>
    get_row as_pk p (ax_assessments x') = Some (decided_row now f b) \<and> assessment_constraints (decided_row now f b)"
proof -
  have c: "assessment_constraints (decided_row now f b)" "as_reviewed_at b = None"
    using assms by (auto simp: assessment_constraints_def dates_in_order_def date_order_def state_dates_def
      full_or_no_submission_def full_or_no_review_def responsible_persons_def decided_row_def review_form_valid_def
      split: option.splits)
  have "as_pk (decided_row now f b) = p" using get_row_SomeD [OF assms(1)] by (simp add: decided_row_def)
  then show ?thesis
    using assessment_save_total [OF assms(1) _ c(1)] assms c
    by (auto simp: assessment_decision_def assessment_of_institution_def decided_row_def)
qed

lemma review_total:
  assumes "engine_law run" "get_row as_pk p (ax_assessments x) = Some b" "i \<in> set (as_institutions b)"
    and "assessment_constraints b" "as_state b = AS_SUBMITTED" "as_decision_validated_at b = Some d" "d \<le> now"
    and "as_review_comment b \<noteq> []"
  shows "\<exists>x' b'. assessment_details_for_institution run DDETS_GEIQ i now user p IA_REVIEW x = Inr x' \<and>
    get_row as_pk p (ax_assessments x') = Some b' \<and>
    b' = b\<lparr>as_reviewed_at := Some now, as_reviewed_by := Some user, as_reviewed_by_institution := Some i,
      as_state := AS_REVIEWED\<rparr> \<and> assessment_constraints b'"
proof -
  let ?b = "b\<lparr>as_reviewed_at := Some now, as_reviewed_by := Some user, as_reviewed_by_institution := Some i\<rparr>"
  have c: "assessment_constraints (?b\<lparr>as_state := AS_REVIEWED\<rparr>)" "as_reviewed_at b = None"
    using assms by (auto simp: assessment_constraints_def dates_in_order_def date_order_def state_dates_def
      full_or_no_submission_def full_or_no_review_def responsible_persons_def split: option.splits)
  show ?thesis
    using as_call_total [OF assms(1) _ _ assms(2), where a = b and t = AT_REVIEW and x = x and now = now and
        stamp = now and comment = "[]" and user = user and i = "Some i" and ?a1.0 = ?b and
        body = "\<lambda>a x. Inr (a\<lparr>as_reviewed_at := Some now, as_reviewed_by := Some user,
          as_reviewed_by_institution := Some i\<rparr>, x)"]
      get_row_SomeD [OF assms(2)] assms(2,3,5) c
    by (auto simp: assessment_details_for_institution_def assessment_of_institution_def assessment_review_def
        log_timestamp_def guard_def)
qed

lemma final_review_total:
  assumes "engine_law run" "get_row as_pk p (ax_assessments x) = Some b" "i \<in> set (as_institutions b)"
    and "assessment_constraints b" "as_state b = AS_REVIEWED" "as_reviewed_at b = Some r" "r \<le> now"
  shows "\<exists>x' b'. assessment_details_for_institution run DREETS_GEIQ i now user p IA_REVIEW x = Inr x' \<and>
    get_row as_pk p (ax_assessments x') = Some b' \<and> as_state b' = AS_FINAL_REVIEWED \<and>
    as_granted_amount b' = as_granted_amount b"
proof -
  let ?b = "final_review_fields now user i b"
  have c: "assessment_constraints (?b\<lparr>as_state := AS_FINAL_REVIEWED\<rparr>)" "as_final_reviewed_at b = None" "as_pk ?b = as_pk b"
    using assms by (auto simp: assessment_constraints_def dates_in_order_def date_order_def state_dates_def
      full_or_no_submission_def full_or_no_review_def responsible_persons_def final_review_fields_def split: option.splits)
  show ?thesis
    using as_call_total [OF assms(1) _ _ assms(2), where a = b and t = AT_FINAL_REVIEW and x = x and now = now and
        stamp = now and comment = "[]" and user = user and i = "Some i" and ?a1.0 = ?b and
        body = "\<lambda>a x. Inr (final_review_fields now user i a, x)"]
      get_row_SomeD [OF assms(2)] assms(2,3,5,6) c
    by (auto simp: assessment_details_for_institution_def assessment_of_institution_def final_review_def
        log_timestamp_def guard_def final_review_fields_def)
qed

section \<open>Properties\<close>

definition sample_assessment :: assessment where
  "sample_assessment = \<lparr>as_pk = 1, as_state = AS_NEW, as_companies = [7], as_institutions = [8, 9], as_created_at = 1,
     as_summary_document_file = Some 1, as_structure_financial_assessment_file = Some 2,
     as_action_financial_assessment_file = Some 3, as_contracts_synced_at = Some 2,
     as_contracts_selection_validated_at = Some 3, as_geiq_comment = ''ok'', as_submitted_at = None,
     as_submitted_by = None, as_review_comment = [], as_convention_amount = 0, as_granted_amount = 0,
     as_advance_amount = 0, as_geiq_responsible_person = [], as_institution_responsible_person = [],
     as_legal_commitment_number = [], as_decision_validated_at = None, as_grants_selection_validated_at = None,
     as_reviewed_at = None, as_reviewed_by = None, as_reviewed_by_institution = None,
     as_final_reviewed_at = None, as_final_reviewed_by = None, as_final_reviewed_by_institution = None\<rparr>"

definition assess_sample :: assess_db where
  "assess_sample = \<lparr>ax_assessments = [sample_assessment], ax_logs = [],
     ax_employees = [\<lparr>ge_pk = 4, ge_assessment = 1, ge_label_id = 44, ge_allowance_amount = 814,
       ge_allowance_granted_previous_year = False\<rparr>],
     ax_contracts = [(synced_contract 2024 5 \<lparr>ge_pk = 4, ge_assessment = 1, ge_label_id = 44,
       ge_allowance_amount = 814, ge_allowance_granted_previous_year = False\<rparr>
       (january_first 2024) (january_first 2025) None)]\<rparr>"

definition sample_review_form :: review_form where
  "sample_review_form = \<lparr>rf_comment = ''fine'', rf_convention_amount = 1000, rf_granted_amount = 814,
     rf_advance_amount = 500, rf_geiq_responsible_person = ''A'', rf_institution_responsible_person = ''B'',
     rf_legal_commitment_number = ''1''\<rparr>"

lemma assess_sample_wf: "assess_wf assess_sample"
proof -
  have "list_all assessment_constraints (ax_assessments assess_sample)"
    "list_all contract_constraints (ax_contracts assess_sample)" by code_simp+
  then show ?thesis
    by (simp add: assess_wf_def assess_sample_def as_log_of_def nothing_granted_def sample_assessment_def
        synced_contract_def Let_def)
qed

text \<open>C20.  Whatever the GEIQ and the institutions do, in any order, the tables keep their
  constraints and the log of every assessment is a path of the workflow from NEW to its state.  An
  assessment in its final state was completed in order: contracts selected, submitted, allowances
  decided, decision written, reviewed, finally reviewed.  An allowance is granted only for a contract for
  which the GEIQ requested one, and never on an assessment that is not submitted, and the sum of the granted
  allowances is at most the sum of the requested ones.\<close>

theorem assessment_history:
  assumes "assess_wf x" "assess_step\<^sup>*\<^sup>* x x'" "a \<in> set (ax_assessments x')"
  shows "assess_wf x' \<and> log_path at_sources at_target AS_NEW (as_log_of a x') (as_state a) \<and>
    (as_state a = AS_FINAL_REVIEWED \<longrightarrow>
      (\<exists>v s g d r f. as_contracts_selection_validated_at a = Some v \<and> as_submitted_at a = Some s \<and>
         as_grants_selection_validated_at a = Some g \<and> as_decision_validated_at a = Some d \<and>
         as_reviewed_at a = Some r \<and> as_final_reviewed_at a = Some f \<and> v \<le> s \<and> s \<le> g \<and> g \<le> d \<and> d \<le> r \<and> r \<le> f)) \<and>
    (\<forall>c \<in> set (ax_contracts x'). contracts_of (as_pk a) x' c \<longrightarrow> ec_allowance_granted c \<longrightarrow>
       ec_allowance_requested c \<and> as_state a \<noteq> AS_NEW) \<and>
    granted_allowance (as_pk a) x' \<le> requested_allowance (as_pk a) x'"
proof -
  have wf: "assess_wf x'" by (rule assess_steps_wf [OF assms(2,1)])
  note row = assess_wf_row [OF wf assms(3)]
  have "ec_allowance_requested c \<and> as_state a \<noteq> AS_NEW"
    if "c \<in> set (ax_contracts x')" "contracts_of (as_pk a) x' c" "ec_allowance_granted c" for c
    using that wf row(3) by (auto simp: assess_wf_def list_all_iff contract_constraints_def nothing_granted_def)
  moreover have "\<exists>v s g d r f. as_contracts_selection_validated_at a = Some v \<and> as_submitted_at a = Some s \<and>
         as_grants_selection_validated_at a = Some g \<and> as_decision_validated_at a = Some d \<and>
         as_reviewed_at a = Some r \<and> as_final_reviewed_at a = Some f \<and> v \<le> s \<and> s \<le> g \<and> g \<le> d \<and> d \<le> r \<and> r \<le> f"
    if "as_state a = AS_FINAL_REVIEWED"
    using row(1) that
    by (auto simp: assessment_constraints_def state_dates_def dates_in_order_def date_order_def split: option.splits)
  ultimately show ?thesis using wf row(2) granted_le_requested by blast
qed

definition after_submission :: assess_db where
  "after_submission = projr (assessment_details_for_geiq reference_engine 7 5 2 1 assess_sample)"

theorem assessment_history_witness:
  "granted_allowance 1 after_submission = 814 \<and> granted_allowance 1 after_submission \<le> requested_allowance 1 after_submission"
proof -
  have "is_ok (assessment_details_for_geiq reference_engine 7 5 2 1 assess_sample)" by code_simp
  then have "assessment_details_for_geiq reference_engine 7 5 2 1 assess_sample = Inr after_submission"
    by (auto simp: is_ok_iff after_submission_def)
  then have "assess_step assess_sample after_submission" by (rule assess_step.geiq_submits [OF reference_engine_law])
  then have "assess_step\<^sup>*\<^sup>* assess_sample after_submission" by blast
  moreover have "submitted_row 5 2 sample_assessment \<in> set (ax_assessments after_submission)"
    "as_pk (submitted_row 5 2 sample_assessment) = 1" "granted_allowance 1 after_submission = 814" by code_simp+
  ultimately show ?thesis using assessment_history [OF assess_sample_wf] by metis
qed

text \<open>C21.  A new assessment for which no action is missing can always be brought to its end: the
  submission succeeds and leaves no refusal without justification, so that the institution can at once
  validate the allowances; then every valid decision is recorded, the DDETS reviews it and the DREETS ends it with the
  granted amount of the decision, whatever the times of the five requests as long as they follow each other.\<close>

theorem assessment_completes:
  assumes "engine_law run" "assess_wf x" "a \<in> set (ax_assessments x)" "as_state a = AS_NEW"
    and "company \<in> set (as_companies a)" "i \<in> set (as_institutions a)" "dreets \<in> set (as_institutions a)"
    and "missing_actions_to_submit a = []" "as_contracts_selection_validated_at a = Some v" "review_form_valid f"
    and "v \<le> t1" "t1 \<le> t2" "t2 \<le> t3" "t3 \<le> t4" "t4 \<le> t5"
  shows "\<exists>x1 x2 x3 x4 x5 b. assessment_details_for_geiq run company t1 user (as_pk a) x = Inr x1 \<and>
    institution_validate_contracts i t2 (as_pk a) x1 = Inr x2 \<and>
    assessment_decision i t3 (as_pk a) f x2 = Inr x3 \<and>
    assessment_details_for_institution run DDETS_GEIQ i t4 agent (as_pk a) IA_REVIEW x3 = Inr x4 \<and>
    assessment_details_for_institution run DREETS_GEIQ dreets t5 agent' (as_pk a) IA_REVIEW x4 = Inr x5 \<and>
    get_row as_pk (as_pk a) (ax_assessments x5) = Some b \<and> as_state b = AS_FINAL_REVIEWED \<and>
    as_granted_amount b = rf_granted_amount f"
proof -
  have cons: "assessment_constraints a" by (rule assess_wf_row(1) [OF assms(2,3)])
  let ?b1 = "submitted_row t1 user a"
  have b1: "assessment_constraints ?b1" by (rule submitted_row_constraints [OF cons assms(4,8,9,11)])
  obtain x1 where x1: "assessment_details_for_geiq run company t1 user (as_pk a) x = Inr x1"
    "get_row as_pk (as_pk a) (ax_assessments x1) = Some ?b1" "institution_awaiting_justification (as_pk a) x1 = 0"
    using geiq_submission_total [OF assms(1-5,8,9,11)] by blast
  have blank: "as_grants_selection_validated_at ?b1 = None" "as_state ?b1 = AS_SUBMITTED" "as_submitted_at ?b1 = Some t1"
    "i \<in> set (as_institutions ?b1)"
    using new_row_blank [OF cons assms(4)] assms(6) by (simp_all add: submitted_row_def)
  let ?b2 = "?b1\<lparr>as_grants_selection_validated_at := Some t2\<rparr>"
  obtain x2 where x2: "institution_validate_contracts i t2 (as_pk a) x1 = Inr x2"
    "get_row as_pk (as_pk a) (ax_assessments x2) = Some ?b2" "assessment_constraints ?b2"
    using institution_validation_total [OF x1(2) blank(4) b1 blank(2,1) x1(3) blank(3) assms(12)] by blast
  let ?b3 = "decided_row t3 f ?b2"
  obtain x3 where x3: "assessment_decision i t3 (as_pk a) f x2 = Inr x3"
    "get_row as_pk (as_pk a) (ax_assessments x3) = Some ?b3" "assessment_constraints ?b3"
    using decision_total [OF x2(2) _ x2(3) _ _ assms(13,10)] blank by auto
  have d: "as_decision_validated_at ?b3 = Some t3" "as_review_comment ?b3 \<noteq> []" "i \<in> set (as_institutions ?b3)"
    "as_state ?b3 = AS_SUBMITTED" "as_granted_amount ?b3 = rf_granted_amount f" "dreets \<in> set (as_institutions ?b3)"
    using assms(7,10) blank by (simp_all add: decided_row_def review_form_valid_def submitted_row_def)
  obtain x4 b4 where x4: "assessment_details_for_institution run DDETS_GEIQ i t4 agent (as_pk a) IA_REVIEW x3 = Inr x4"
    "get_row as_pk (as_pk a) (ax_assessments x4) = Some b4" "assessment_constraints b4"
    "b4 = ?b3\<lparr>as_reviewed_at := Some t4, as_reviewed_by := Some agent, as_reviewed_by_institution := Some i,
      as_state := AS_REVIEWED\<rparr>"
    using review_total [OF assms(1) x3(2) d(3) x3(3) d(4,1) assms(14) d(2)] by blast
  show ?thesis
    using final_review_total [OF assms(1) x4(2) _ x4(3) _ _ assms(15)] x1(1) x2(1) x3(1) x4(1) x4(4) d(5,6) by force
qed

theorem assessment_completes_witness:
  "\<exists>x1 x2 x3 x4 x5 b. assessment_details_for_geiq reference_engine 7 5 2 1 assess_sample = Inr x1 \<and>
    institution_validate_contracts 8 6 1 x1 = Inr x2 \<and> assessment_decision 8 7 1 sample_review_form x2 = Inr x3 \<and>
    assessment_details_for_institution reference_engine DDETS_GEIQ 8 8 3 1 IA_REVIEW x3 = Inr x4 \<and>
    assessment_details_for_institution reference_engine DREETS_GEIQ 9 9 4 1 IA_REVIEW x4 = Inr x5 \<and>
    get_row as_pk 1 (ax_assessments x5) = Some b \<and> as_state b = AS_FINAL_REVIEWED \<and> as_granted_amount b = 814"
proof -
  have "as_pk sample_assessment = 1" "rf_granted_amount sample_review_form = 814" by code_simp+
  moreover have "sample_assessment \<in> set (ax_assessments assess_sample)" "as_state sample_assessment = AS_NEW"
    "7 \<in> set (as_companies sample_assessment)" "8 \<in> set (as_institutions sample_assessment)"
    "9 \<in> set (as_institutions sample_assessment)" "missing_actions_to_submit sample_assessment = []"
    "as_contracts_selection_validated_at sample_assessment = Some 3" "review_form_valid sample_review_form"
    by code_simp+
  note r = assessment_completes [OF reference_engine_law assess_sample_wf this, of 5 6 7 8 9 2 3 4]
  ultimately show ?thesis using r by simp
qed

end
