(* ===== verification/Asp_Exchange.thy ===== *)
theory Asp_Exchange
  imports Employee_Records
begin

text \<open>
  \<open>employee_record/common_management.py\<close> and the commands \<open>transfer_employee_records\<close>,
  \<open>transfer_employee_records_updates\<close>, \<open>sanitize_employee_records\<close> and \<open>archive_employee_records\<close>: the exchange of
  files with the ASP.  An upload sends one file of at most 700 records or notifications and marks each
  of them as sent, one transaction per element, so that an exception leaves a prefix sent: the result is the exception, if any, and the
  tables.  A feedback file is parsed in one transaction.  The serialization of an element, the acceptance of the file by the
  server and the parsed content of the feedback files are arguments.
\<close>

section \<open>Chunks\<close>

definition chunks :: "'a list \<Rightarrow> nat \<Rightarrow> nat option \<Rightarrow> error + 'a list list" where
  "chunks lst n max_chunk =
     (if n = 0 then Inl (ValueError ''range'')
      else
        let parts = map (\<lambda>i. take n (drop (i * n) lst)) [0..<(length lst + n - 1) div n] in
        Inr (case max_chunk of None \<Rightarrow> parts | Some m \<Rightarrow> take m parts))"

definition max_uploaded_files :: nat where "max_uploaded_files = 1"

section \<open>Upload of employee records\<close>

fun send_lines ::
  "er_engine \<Rightarrow> datetime \<Rightarrow> string \<Rightarrow> (employee_record \<times> string) list \<Rightarrow> int \<Rightarrow> db \<Rightarrow> error option \<times> db" where
  "send_lines run now file [] idx db = (None, db)"
| "send_lines run now file ((e, line) # es) idx db =
     (case er_wait_for_asp_response run now file idx (Some line) e db of
        Inl x \<Rightarrow> (Some x, db)
      | Inr (e', db') \<Rightarrow> send_lines run now file es (idx + 1) db')"

fun serialize_all :: "('a \<Rightarrow> error + string) \<Rightarrow> 'a list \<Rightarrow> error + string list" where
  "serialize_all f [] = Inr []"
| "serialize_all f (x # xs) = rbind (f x) (\<lambda>s. rbind (serialize_all f xs) (\<lambda>ss. Inr (s # ss)))"

definition upload_batch_file ::
  "er_engine \<Rightarrow> (employee_record \<Rightarrow> error + string) \<Rightarrow> bool \<Rightarrow> datetime \<Rightarrow> string \<Rightarrow> bool \<Rightarrow> employee_record list \<Rightarrow> db
   \<Rightarrow> error option \<times> db" where
  "upload_batch_file run serialize transferred now remote_path dry_run employee_records db =
     (case employee_record_batch employee_records of
        Inl x \<Rightarrow> (Some x, db)
      | Inr elements \<Rightarrow>
          (case serialize_all serialize elements of
             Inl x \<Rightarrow> (Some x, db)
           | Inr lines \<Rightarrow>
               if dry_run then (None, db)
               else if \<not> transferred then (None, db)
               else send_lines run now remote_path (zip elements lines) 1 db))"

definition records_to_send :: "db \<Rightarrow> employee_record list" where
  "records_to_send db =
     sort_key er_updated_at (sort_key er_pk (filter (\<lambda>e. er_status_f e = ER_READY \<and>
       (case get_row ja_pk (er_job_application e) (db_job_applications db) of
          None \<Rightarrow> False | Some j \<Rightarrow> ja_state j = JA_ACCEPTED)) (db_employee_records db)))"

text \<open>The loop over the chunks; an exception ends it.  With \<open>MAX_UPLOADED_FILES = 1\<close> it runs at most once.\<close>

fun upload_chunks :: "('a list \<Rightarrow> db \<Rightarrow> error option \<times> db) \<Rightarrow> 'a list list \<Rightarrow> db \<Rightarrow> error option \<times> db" where
  "upload_chunks f [] db = (None, db)"
| "upload_chunks f (b # bs) db =
     (case f b db of (Some x, db') \<Rightarrow> (Some x, db') | (None, db') \<Rightarrow> upload_chunks f bs db')"

definition upload_records ::
  "er_engine \<Rightarrow> (employee_record \<Rightarrow> error + string) \<Rightarrow> bool \<Rightarrow> datetime \<Rightarrow> string \<Rightarrow> bool \<Rightarrow> db \<Rightarrow> error option \<times> db" where
  "upload_records run serialize transferred now remote_path dry_run db =
     (case chunks (records_to_send db) max_employee_records (Some max_uploaded_files) of
        Inl x \<Rightarrow> (Some x, db)
      | Inr bs \<Rightarrow> upload_chunks (upload_batch_file run serialize transferred now remote_path dry_run) bs db)"

section \<open>Feedback on employee records\<close>

record feedback_line =
  fl_type_mouvement :: "string option"
  fl_num_ligne :: "int option"
  fl_code_traitement :: "string option"
  fl_libelle_traitement :: "string option"
  fl_raw :: string

definition movement_creation :: string where "movement_creation = ''C''"
definition movement_update :: string where "movement_update = ''M''"

text \<open>The three keys read by subscription, in the order of the code.\<close>

definition feedback_keys :: "feedback_line \<Rightarrow> error + int \<times> string \<times> string" where
  "feedback_keys l =
     (case fl_num_ligne l of None \<Rightarrow> Inl (KeyError ''numLigne'')
      | Some n \<Rightarrow> (case fl_code_traitement l of None \<Rightarrow> Inl (KeyError ''codeTraitement'')
        | Some c \<Rightarrow> (case fl_libelle_traitement l of None \<Rightarrow> Inl (KeyError ''libelleTraitement'')
          | Some b \<Rightarrow> Inr (n, c, b))))"

text \<open>A record marked as a duplicate whose approval was suspended or prolonged gets a notification.\<close>

definition duplicate_notification :: "datetime \<Rightarrow> employee_record \<Rightarrow> db \<Rightarrow> db" where
  "duplicate_notification now e db =
     (case get_row ap_number (er_approval_number e) (db_approvals db) of
        None \<Rightarrow> db
      | Some a \<Rightarrow>
          if list_ex (\<lambda>s. su_approval s = ap_pk a) (db_suspensions db) \<or>
             list_ex (\<lambda>p. pl_approval p = ap_pk a) (db_prolongations db)
          then db\<lparr>db_er_notifications := upsert
            (\<lambda>n. en_employee_record n = er_pk e \<and> en_status n = NS_NEW) (\<lambda>n. n\<lparr>en_updated_at := now\<rparr>)
            \<lparr>en_pk = next_pk en_pk (db_er_notifications db), en_employee_record = er_pk e, en_created_at = now,
             en_updated_at = now, en_status = NS_NEW, en_asp = no_asp\<rparr> (db_er_notifications db)\<rparr>
          else db)"

definition er_feedback ::
  "er_engine \<Rightarrow> datetime \<Rightarrow> string \<Rightarrow> string \<Rightarrow> string \<Rightarrow> employee_record \<Rightarrow> db \<Rightarrow> error + db" where
  "er_feedback run now code label raw e db =
     (if code = asp_processing_success_code
      then rbind (er_process run now code label (Some raw) False e db) (\<lambda>(e', db'). Inr db')
      else if code = asp_duplicate_error_code
      then rbind (er_process run now code label (Some raw) True e db) (\<lambda>(e', db').
        Inr (duplicate_notification now e' db'))
      else rbind (er_reject run now code label (Some raw) e db) (\<lambda>(e', db'). Inr db'))"

definition er_feedback_line ::
  "er_engine \<Rightarrow> datetime \<Rightarrow> bool \<Rightarrow> string \<Rightarrow> feedback_line \<Rightarrow> db \<Rightarrow> error + db" where
  "er_feedback_line run now dry_run batch_filename l db =
     rbind (guard (fl_type_mouvement l = Some movement_creation) IgnoreFile) (\<lambda>_.
     rbind (feedback_keys l) (\<lambda>(n, code, label).
     case order_last er_created_at (er_find_by_batch batch_filename n (db_employee_records db)) of
       None \<Rightarrow> Inr db
     | Some e \<Rightarrow>
         if er_status_f e \<in> {ER_PROCESSED, ER_REJECTED} then Inr db
         else if er_status_f e \<noteq> ER_SENT then Inr db
         else if dry_run then Inr db
         else er_feedback run now code label (fl_raw l) e db))"

definition parse_records_feedback ::
  "er_engine \<Rightarrow> datetime \<Rightarrow> bool \<Rightarrow> string \<Rightarrow> feedback_line list \<Rightarrow> db \<Rightarrow> error + db" where
  "parse_records_feedback run now dry_run feedback_file lines db =
     rbind (batch_filename_from_feedback feedback_file) (\<lambda>f.
     rfold (er_feedback_line run now dry_run f) lines db)"

section \<open>Update notifications\<close>

type_synonym en_engine = "(notification_status, er_notification, db) engine"

fun number_notifications :: "int \<Rightarrow> er_notification list \<Rightarrow> er_notification list" where
  "number_notifications i [] = []"
| "number_notifications i (n # ns) =
     n\<lparr>en_asp := (en_asp n)\<lparr>ax_batch_line_number := Some i, ax_processing_code := None,
         ax_processing_label := None\<rparr>\<rparr> # number_notifications (i + 1) ns"

fun send_notifications ::
  "en_engine \<Rightarrow> datetime \<Rightarrow> string \<Rightarrow> (er_notification \<times> string) list \<Rightarrow> int \<Rightarrow> db \<Rightarrow> error option \<times> db" where
  "send_notifications run now file [] idx db = (None, db)"
| "send_notifications run now file ((n, line) # ns) idx db =
     (case en_wait_for_asp_response run now file idx (Some line) n db of
        Inl x \<Rightarrow> (Some x, db)
      | Inr (n', db') \<Rightarrow> send_notifications run now file ns (idx + 1) db')"

definition upload_notification_file ::
  "en_engine \<Rightarrow> (er_notification \<Rightarrow> error + string) \<Rightarrow> bool \<Rightarrow> datetime \<Rightarrow> string \<Rightarrow> bool \<Rightarrow> er_notification list \<Rightarrow> db
   \<Rightarrow> error option \<times> db" where
  "upload_notification_file run serialize transferred now remote_path dry_run notifications db =
     (if notifications \<noteq> [] \<and> max_employee_records < length notifications
      then (Some (ValidationError ''too many elements''), db)
      else
        let elements = number_notifications 1 notifications in
        (case serialize_all serialize elements of
           Inl x \<Rightarrow> (Some x, db)
         | Inr lines \<Rightarrow>
             if dry_run then (None, db)
             else if \<not> transferred then (None, db)
             else send_notifications run now remote_path (zip elements lines) 1 db))"

definition notifications_to_send :: "db \<Rightarrow> er_notification list" where
  "notifications_to_send db =
     sort_key en_updated_at (sort_key en_pk (filter (\<lambda>n. en_status n = NS_NEW) (db_er_notifications db)))"

definition upload_notifications ::
  "en_engine \<Rightarrow> (er_notification \<Rightarrow> error + string) \<Rightarrow> bool \<Rightarrow> datetime \<Rightarrow> string \<Rightarrow> bool \<Rightarrow> db \<Rightarrow> error option \<times> db" where
  "upload_notifications run serialize transferred now remote_path dry_run db =
     (case chunks (notifications_to_send db) max_employee_records (Some max_uploaded_files) of
        Inl x \<Rightarrow> (Some x, db)
      | Inr bs \<Rightarrow> upload_chunks (upload_notification_file run serialize transferred now remote_path dry_run) bs db)"

definition en_find_by_batch :: "string \<Rightarrow> int \<Rightarrow> er_notification list \<Rightarrow> er_notification list" where
  "en_find_by_batch filename line_number ns =
     filter (\<lambda>n. ax_batch_file (en_asp n) = Some filename \<and> ax_batch_line_number (en_asp n) = Some line_number) ns"

definition en_feedback_line ::
  "en_engine \<Rightarrow> datetime \<Rightarrow> bool \<Rightarrow> string \<Rightarrow> feedback_line \<Rightarrow> db \<Rightarrow> error + db" where
  "en_feedback_line run now dry_run batch_filename l db =
     rbind (guard (fl_type_mouvement l = Some movement_update) IgnoreFile) (\<lambda>_.
     rbind (feedback_keys l) (\<lambda>(i, code, label).
     case order_last en_created_at (en_find_by_batch batch_filename i (db_er_notifications db)) of
       None \<Rightarrow> Inr db
     | Some n \<Rightarrow>
         if en_status n \<in> {NS_PROCESSED, NS_REJECTED} then Inr db
         else if en_status n \<noteq> NS_SENT then Inr db
         else if dry_run then Inr db
         else if code = asp_processing_success_code
         then rbind (en_process run now code label (Some (fl_raw l)) n db) (\<lambda>(n', db'). Inr db')
         else rbind (en_reject run now code label (Some (fl_raw l)) n db) (\<lambda>(n', db'). Inr db')))"

definition parse_notifications_feedback ::
  "en_engine \<Rightarrow> datetime \<Rightarrow> bool \<Rightarrow> string \<Rightarrow> feedback_line list \<Rightarrow> db \<Rightarrow> error + db" where
  "parse_notifications_feedback run now dry_run feedback_file lines db =
     rbind (batch_filename_from_feedback feedback_file) (\<lambda>f.
     rfold (en_feedback_line run now dry_run f) lines db)"

section \<open>Download\<close>

text \<open>\<open>download_json_file\<close>: a file that is not for this command, or that raises, is left on the server and its
  transaction undone.  The result is the files that remain and the tables.\<close>

fun download_json_file ::
  "(string \<Rightarrow> feedback_line list \<Rightarrow> db \<Rightarrow> error + db) \<Rightarrow> bool \<Rightarrow> (string \<times> (error + feedback_line list)) list \<Rightarrow> db
   \<Rightarrow> (string \<times> (error + feedback_line list)) list \<times> db" where
  "download_json_file parse_file dry_run [] db = ([], db)"
| "download_json_file parse_file dry_run ((name, content) # files) db =
     (if \<not> startswith name ''RIAE_FS_''
      then let (rest, db') = download_json_file parse_file dry_run files db in ((name, content) # rest, db')
      else case rbind content (\<lambda>lines. parse_file name lines db) of
        Inl x \<Rightarrow> let (rest, db') = download_json_file parse_file dry_run files db in ((name, content) # rest, db')
      | Inr db1 \<Rightarrow>
          let (rest, db') = download_json_file parse_file dry_run files db1 in
          (if dry_run then (name, content) # rest else rest, db'))"

section \<open>Maintenance\<close>

definition check_approvals :: "db \<Rightarrow> db" where
  "check_approvals db =
     fold er_delete (map er_pk (filter (\<lambda>e. case get_row ja_pk (er_job_application e) (db_job_applications db) of
        None \<Rightarrow> False | Some j \<Rightarrow> af_approval (ja_accepted j) = None) (db_employee_records db))) db"

definition max_missed_notifications_created :: nat where "max_missed_notifications_created = 10"

definition missed_archived :: "date \<Rightarrow> db \<Rightarrow> employee_record list" where
  "missed_archived today db =
     (let number = (\<lambda>e. case er_approval db e of None \<Rightarrow> [] | Some a \<Rightarrow> ap_number a);
          updated = (\<lambda>e. case er_approval db e of None \<Rightarrow> 0 | Some a \<Rightarrow> ap_updated_at a);
          siret = (\<lambda>e. case get_row ja_pk (er_job_application e) (db_job_applications db) of None \<Rightarrow> []
            | Some j \<Rightarrow> (case get_row co_pk (ja_to_company j) (db_companies db) of None \<Rightarrow> [] | Some c \<Rightarrow> co_siret c)) in
      sort_key (\<lambda>e. - updated e) (sort_key number (sort_key siret
        (filter (\<lambda>e. er_status_f e = ER_ARCHIVED \<and>
           (case er_approval db e of None \<Rightarrow> False | Some a \<Rightarrow> today \<le> ap_end_at a)) (missed_notifications db)))))"

fun unarchive_all :: "er_engine \<Rightarrow> datetime \<Rightarrow> employee_record list \<Rightarrow> db \<Rightarrow> error + db" where
  "unarchive_all run now [] db = Inr db"
| "unarchive_all run now (e # es) db =
     (case er_unarchive run now e db of
        Inr (e', db') \<Rightarrow> unarchive_all run now es db'
      | Inl (AbortTransition m) \<Rightarrow> unarchive_all run now es db
      | Inl x \<Rightarrow> Inl x)"

definition sanitize_employee_records :: "er_engine \<Rightarrow> date \<Rightarrow> datetime \<Rightarrow> db \<Rightarrow> error + db" where
  "sanitize_employee_records run today now db =
     (let db1 = check_approvals db in
      unarchive_all run now (take max_missed_notifications_created (missed_archived today db1)) db1)"

fun archive_all :: "er_engine \<Rightarrow> plus_months \<Rightarrow> date \<Rightarrow> datetime \<Rightarrow> employee_record list \<Rightarrow> db \<Rightarrow> db" where
  "archive_all run plus_months today now [] db = db"
| "archive_all run plus_months today now (e # es) db =
     (case er_archive run plus_months today now None e db of
        Inr (e', db') \<Rightarrow> archive_all run plus_months today now es db'
      | Inl x \<Rightarrow> archive_all run plus_months today now es db)"

text \<open>\<open>archive_employee_records\<close> goes through the archivable records by the end of their approval; the
  place of the records without approval does not matter to its result.\<close>

definition archive_employee_records ::
  "er_engine \<Rightarrow> plus_months \<Rightarrow> (datetime \<Rightarrow> int \<Rightarrow> datetime) \<Rightarrow> date \<Rightarrow> datetime \<Rightarrow> db \<Rightarrow> db" where
  "archive_employee_records run plus_months months_before today now db =
     archive_all run plus_months today now
       (sort_key (\<lambda>e. case er_approval db e of None \<Rightarrow> 0 | Some a \<Rightarrow> ap_end_at a)
          (archivable months_before today now db)) db"

end
