(* ===== verification/Asp_Exchange_Effects.thy ===== *)
theory Asp_Exchange_Effects
  imports Asp_Exchange
begin

text \<open>
  What the exchange with the ASP does to the tables.  \<open>feedback_parser\<close> is the contract of a command that reads
  feedback files line by line; records and notifications implement it.
\<close>

section \<open>Chunks\<close>

lemma concat_chunks: "0 < n \<Longrightarrow> concat (map (\<lambda>i. take n (drop (i * n) xs)) [0..<k]) = take (k * n) xs"
proof (induction k)
  case (Suc k)
  then show ?case by (simp add: take_add [of "k * n" n, symmetric] add.commute)
qed simp

text \<open>The chunks are a partition of the list in order, each of at most \<open>n\<close> elements.\<close>

lemma chunks_partition:
  assumes "0 < n"
  shows "\<exists>ps. chunks xs n None = Inr ps \<and> concat ps = xs \<and> list_all (\<lambda>p. p \<noteq> [] \<and> length p \<le> n) ps"
proof -
  let ?k = "(length xs + n - 1) div n"
  have k: "length xs \<le> ?k * n" "i < ?k \<Longrightarrow> i * n < length xs" for i
  proof -
    have "length xs + n - 1 < (?k + 1) * n"
      using dividend_less_div_times [OF assms, of "length xs + n - 1"] by (simp add: algebra_simps)
    then show "length xs \<le> ?k * n" using assms by simp
    show "i * n < length xs" if "i < ?k"
      using that assms by (simp add: less_eq_div_iff_mult_less_eq Suc_le_eq [symmetric])
  qed
  have "take n (drop (i * n) xs) \<noteq> []" if "i < ?k" for i using k(2) [OF that] assms by auto
  moreover have "concat (map (\<lambda>i. take n (drop (i * n) xs)) [0..<?k]) = xs"
    using concat_chunks [OF assms, of xs ?k] k(1) by simp
  ultimately show ?thesis using assms by (simp add: chunks_def Let_def list_all_iff)
qed

lemma chunks_one:
  "0 < n \<Longrightarrow> chunks xs n (Some 1) = Inr (if xs = [] then [] else [take n xs])"
proof (cases xs)
  case (Cons x ys)
  assume n: "0 < n"
  have "0 < (length xs + n - 1) div n" using n Cons by (simp add: div_greater_zero_iff)
  then show ?thesis using n Cons by (simp add: chunks_def Let_def upt_rec [of 0])
qed (simp add: chunks_def)

section \<open>Transitions on the table of records\<close>

lemma er_call_rows:
  assumes "engine_law run" "run (er_call now t user asp check body) e db = Inr (e', db')" "er_body_ok body"
  shows "db_employee_records db' = map_rows (\<lambda>f. er_pk f = er_pk e) (\<lambda>_. e') (db_employee_records db)"
proof (rule engine_InrD [OF assms(1,2)])
  fix e1 db1
  assume "tc_body (er_call now t user asp check body) (tc_before (er_call now t user asp check body) e) db = Inr (e1, db1)"
    "tc_save_and_log (er_call now t user asp check body) (tc_state (er_call now t user asp check body) e)
       (tc_set_state (er_call now t user asp check body) (tc_target (er_call now t user asp check body)) e1) db1 =
     Inr (e', db')"
  then have b: "body e db = Inr (e1, db1)"
    and s: "er_save_and_log now t user asp (er_status_f e) (e1\<lparr>er_status_f := er_target t\<rparr>) db1 = Inr (e', db')"
    by (simp_all add: er_call_def)
  have "er_pk e1 = er_pk e" "db_employee_records db1 = db_employee_records db"
    using assms(3) b by (auto simp: er_body_ok_def)
  then show ?thesis using s
    by (auto simp: er_save_and_log_def er_log_insert_def er_save_def Let_def)
qed

text \<open>A transition of a record, as a change of one row.\<close>

definition er_updates :: "employee_record \<Rightarrow> employee_record \<Rightarrow> db \<Rightarrow> db \<Rightarrow> bool" where
  "er_updates e e' db db' \<longleftrightarrow> er_pk e' = er_pk e \<and> er_created_at e' = er_created_at e \<and>
     db_employee_records db' = map_rows (\<lambda>f. er_pk f = er_pk e) (\<lambda>_. e') (db_employee_records db) \<and>
     (er_table_ok (db_employee_records db) \<longrightarrow> er_table_ok (db_employee_records db'))"

lemma er_clean_then_InrD:
  "er_clean_then f e db = Inr (e1, db1) \<Longrightarrow> f e = Inr e1 \<and> db1 = db"
  by (auto simp: er_clean_then_def)

lemma clean_call_spec:
  assumes "engine_law run" "run (er_call now t user asp check (er_clean_then (\<lambda>e. Inr (e\<lparr>er_asp := f (er_asp e)\<rparr>)))) e db = Inr (e', db')"
  shows "er_updates e e' db db'" "er_status_f e' = er_target t" "er_asp e' = f (er_asp e)"
proof -
  let ?body = "er_clean_then (\<lambda>e. Inr (e\<lparr>er_asp := f (er_asp e)\<rparr>))"
  have body: "er_body_ok ?body" by (rule er_bodies_ok(4))
  have "e' = e\<lparr>er_asp := f (er_asp e), er_status_f := er_target t, er_updated_at := now\<rparr> \<and>
    (er_table_ok (db_employee_records db) \<longrightarrow> er_table_ok (db_employee_records db'))"
  proof (rule er_call_InrD [OF assms body])
    fix e1 db1
    assume b: "?body e db = Inr (e1, db1)" and e': "e' = e1\<lparr>er_status_f := er_target t, er_updated_at := now\<rparr>"
      and ok: "er_table_ok (db_employee_records db) \<Longrightarrow> er_table_ok (db_employee_records db')"
    show ?thesis using er_clean_then_InrD [OF b] e' ok by auto
  qed
  then show "er_updates e e' db db'" "er_status_f e' = er_target t" "er_asp e' = f (er_asp e)"
    using er_call_rows [OF assms body] by (auto simp: er_updates_def)
qed

lemma wait_spec:
  assumes "engine_law run" "er_wait_for_asp_response run now file n archive e db = Inr (e', db')"
  shows "er_updates e e' db db'" "er_status_f e' = ER_SENT" "batch_key (er_asp e') = (Some file, Some n)"
  using clean_call_spec [OF assms(1) assms(2) [unfolded er_wait_for_asp_response_def]]
  by (simp_all add: set_asp_batch_information_def batch_key_def)

lemma reject_spec:
  assumes "engine_law run" "er_reject run now code label archive e db = Inr (e', db')"
  shows "er_updates e e' db db'" "er_status_f e' = ER_REJECTED" "batch_key (er_asp e') = batch_key (er_asp e)"
    "ax_processing_code (er_asp e') = Some code"
  using clean_call_spec [OF assms(1) assms(2) [unfolded er_reject_def]]
  by (simp_all add: set_asp_processing_information_def batch_key_def)

lemma process_spec:
  assumes "engine_law run" "er_process run now code label archive dup e db = Inr (e', db')"
  shows "er_updates e e' db db'" "er_status_f e' = ER_PROCESSED" "batch_key (er_asp e') = batch_key (er_asp e)"
    "ax_processing_code (er_asp e') = Some code"
proof -
  note r = assms(2) [unfolded er_process_def]
  obtain e1 db1 where "process_body now code label archive dup e db = Inr (e1, db1)"
    and e': "e' = e1\<lparr>er_status_f := er_target ERT_PROCESS, er_updated_at := now\<rparr>"
    and ok: "er_table_ok (db_employee_records db) \<Longrightarrow> er_table_ok (db_employee_records db')"
    using er_call_InrD [OF assms(1) r er_bodies_ok(3)] by metis
  then obtain lbl where e1: "e1 = e\<lparr>er_processed_at := Some now, er_processed_as_duplicate := dup,
      er_asp := set_asp_processing_information code lbl archive (er_asp e)\<rparr>"
    by (auto simp: process_body_def dest!: er_clean_then_InrD split: if_splits)
  show "er_updates e e' db db'"
    using er_call_rows [OF assms(1) r er_bodies_ok(3)] ok by (simp add: er_updates_def e' e1)
  show "er_status_f e' = ER_PROCESSED" "batch_key (er_asp e') = batch_key (er_asp e)"
    "ax_processing_code (er_asp e') = Some code"
    by (simp_all add: e' e1 set_asp_processing_information_def batch_key_def)
qed

section \<open>Contract of a feedback parser\<close>

text \<open>One line settles the object that waits at its place, if there is one; it settles no other, and makes
  none wait.\<close>

locale feedback_parser =
  fixes line :: "string \<Rightarrow> feedback_line \<Rightarrow> db \<Rightarrow> error + db"
    and waiting :: "string \<Rightarrow> int \<Rightarrow> db \<Rightarrow> bool"
    and inv :: "db \<Rightarrow> bool"
  assumes line_settles: "inv d \<Longrightarrow> line f l d = Inr d' \<Longrightarrow> inv d' \<and> (\<exists>n. fl_num_ligne l = Some n \<and> \<not> waiting f n d')"
    and line_keeps: "inv d \<Longrightarrow> line f l d = Inr d' \<Longrightarrow> waiting g m d' \<Longrightarrow> waiting g m d"
    and line_skips: "inv d \<Longrightarrow> line f l d0 = Inr d1 \<Longrightarrow> fl_num_ligne l = Some n \<Longrightarrow> \<not> waiting f n d \<Longrightarrow> line f l d = Inr d"
begin

lemma lines_spec:
  assumes "inv d" "rfold (line f) ls d = Inr d'"
  shows "inv d' \<and> (\<forall>l \<in> set ls. \<exists>n. fl_num_ligne l = Some n \<and> \<not> waiting f n d') \<and> (\<forall>g m. waiting g m d' \<longrightarrow> waiting g m d)"
  using assms
proof (induction ls arbitrary: d)
  case (Cons l ls)
  then obtain d1 where d1: "line f l d = Inr d1" "rfold (line f) ls d1 = Inr d'" by auto
  obtain n where n: "inv d1" "fl_num_ligne l = Some n" "\<not> waiting f n d1"
    using line_settles [OF Cons.prems(1) d1(1)] by blast
  note ih = Cons.IH [OF n(1) d1(2)]
  have "\<not> waiting f n d'" using ih n(3) by blast
  moreover have "waiting g m d" if "waiting g m d'" for g m
    using ih that line_keeps [OF Cons.prems(1) d1(1)] by blast
  ultimately show ?case using ih n(2) by auto
qed simp

lemma lines_skip:
  assumes "inv d" "\<forall>l \<in> set ls. (\<exists>n. fl_num_ligne l = Some n \<and> \<not> waiting f n d) \<and> (\<exists>d0 d1. line f l d0 = Inr d1)"
  shows "rfold (line f) ls d = Inr d"
  using assms
proof (induction ls)
  case (Cons l ls)
  then obtain n d0 d1 where "fl_num_ligne l = Some n" "\<not> waiting f n d" "line f l d0 = Inr d1" by auto
  then have "line f l d = Inr d" using line_skips [OF Cons.prems(1)] by blast
  then show ?case using Cons by simp
qed simp

lemma lines_accepted:
  "rfold (line f) ls d = Inr d' \<Longrightarrow> \<forall>l \<in> set ls. \<exists>d0 d1. line f l d0 = Inr d1"
proof (induction ls arbitrary: d)
  case (Cons l ls)
  then obtain d1 where "line f l d = Inr d1" "rfold (line f) ls d1 = Inr d'" by auto
  then show ?case using Cons.IH [of d1] by auto
qed simp

text \<open>Reading the same file again changes nothing.\<close>

lemma lines_idempotent:
  assumes "inv d" "rfold (line f) ls d = Inr d'"
  shows "rfold (line f) ls d' = Inr d'"
  using lines_skip lines_spec [OF assms] lines_accepted [OF assms(2)] by blast

end

section \<open>Records\<close>

definition sent_at :: "string \<Rightarrow> int \<Rightarrow> employee_record \<Rightarrow> bool" where
  "sent_at f n e \<longleftrightarrow> er_status_f e = ER_SENT \<and> batch_key (er_asp e) = (Some f, Some n)"

definition record_waiting :: "string \<Rightarrow> int \<Rightarrow> db \<Rightarrow> bool" where
  "record_waiting f n db \<longleftrightarrow> list_ex (sent_at f n) (db_employee_records db)"

definition answer_status :: "string \<Rightarrow> er_status" where
  "answer_status code = (if code \<in> {asp_processing_success_code, asp_duplicate_error_code} then ER_PROCESSED else ER_REJECTED)"

lemma duplicate_notification_records [simp]:
  "db_employee_records (duplicate_notification now e db) = db_employee_records db"
  by (simp add: duplicate_notification_def split: option.splits)

lemma er_feedback_spec:
  assumes "engine_law run" "er_feedback run now code label raw e db = Inr db'"
  obtains e' where "er_updates e e' db db'" "er_status_f e' = answer_status code"
    "batch_key (er_asp e') = batch_key (er_asp e)" "ax_processing_code (er_asp e') = Some code"
proof -
  consider (ok) e' where "er_process run now code label (Some raw) False e db = Inr (e', db')"
      "answer_status code = ER_PROCESSED"
    | (dup) e' db1 where "er_process run now code label (Some raw) True e db = Inr (e', db1)"
      "db' = duplicate_notification now e' db1" "answer_status code = ER_PROCESSED"
    | (no) e' where "er_reject run now code label (Some raw) e db = Inr (e', db')" "answer_status code = ER_REJECTED"
    using assms(2) by (auto simp: er_feedback_def answer_status_def split: if_splits)
  then show thesis
  proof cases
    case ok
    show thesis by (rule that [of e']) (use process_spec [OF assms(1) ok(1)] ok(2) in simp_all)
  next
    case dup
    have "er_updates e e' db db'"
      using process_spec(1) [OF assms(1) dup(1)] unfolding er_updates_def dup(2) duplicate_notification_records .
    then show thesis by (rule that) (use process_spec [OF assms(1) dup(1)] dup(3) in simp_all)
  next
    case no
    show thesis by (rule that [of e']) (use reject_spec [OF assms(1) no(1)] no(2) in simp_all)
  qed
qed

text \<open>At most one record has a place in a file.\<close>

lemma place_unique:
  assumes "er_table_ok ers" "e \<in> set ers" "e' \<in> set ers" "batch_key (er_asp e) = (Some f, Some n)"
    "batch_key (er_asp e') = (Some f, Some n)"
  shows "e' = e"
proof -
  have "er_pk e \<noteq> er_pk e' \<Longrightarrow> \<not> same_batch_line (er_asp e) (er_asp e')"
    using assms(1-3) by (auto simp: er_table_ok_alt)
  then have "er_pk e = er_pk e'" using assms(4,5) by (auto simp: same_batch_line_def batch_key_def)
  then show ?thesis using assms(1-3) by (auto simp: er_table_ok_alt distinct_map dest: inj_onD)
qed

lemma er_find_iff: "e \<in> set (er_find_by_batch f n ers) \<longleftrightarrow> e \<in> set ers \<and> batch_key (er_asp e) = (Some f, Some n)"
  by (auto simp: er_find_by_batch_def batch_key_def)

lemma found_iff:
  assumes "er_table_ok ers"
  shows "order_last er_created_at (er_find_by_batch f n ers) = Some e \<longleftrightarrow>
    e \<in> set ers \<and> batch_key (er_asp e) = (Some f, Some n)"
proof
  assume "order_last er_created_at (er_find_by_batch f n ers) = Some e"
  then show "e \<in> set ers \<and> batch_key (er_asp e) = (Some f, Some n)"
    using order_last_SomeD er_find_iff [of e f n ers] by fastforce
next
  assume e: "e \<in> set ers \<and> batch_key (er_asp e) = (Some f, Some n)"
  then have "er_find_by_batch f n ers \<noteq> []" using er_find_iff [of e f n ers] by auto
  then obtain e' where e': "order_last er_created_at (er_find_by_batch f n ers) = Some e'"
    by (metis order_last_None option.exhaust)
  then have "e' \<in> set ers \<and> batch_key (er_asp e') = (Some f, Some n)"
    using order_last_SomeD [OF e'] er_find_iff [of e' f n ers] by blast
  then have "e' = e" using place_unique [OF assms, of e e' f n] e by blast
  then show "order_last er_created_at (er_find_by_batch f n ers) = Some e" using e' by simp
qed

lemma er_feedback_line_spec:
  assumes "engine_law run" "er_table_ok (db_employee_records db)" "er_feedback_line run now False f l db = Inr db'"
  obtains n code label where "feedback_keys l = Inr (n, code, label)" "fl_type_mouvement l = Some movement_creation"
    "(\<not> record_waiting f n db \<and> db' = db) \<or>
     (\<exists>e e'. e \<in> set (db_employee_records db) \<and> sent_at f n e \<and> er_updates e e' db db' \<and>
        er_status_f e' = answer_status code \<and> batch_key (er_asp e') = batch_key (er_asp e) \<and>
        ax_processing_code (er_asp e') = Some code)"
proof -
  obtain n code label where k: "feedback_keys l = Inr (n, code, label)" and m: "fl_type_mouvement l = Some movement_creation"
    using assms(3) by (auto simp: er_feedback_line_def)
  let ?found = "order_last er_created_at (er_find_by_batch f n (db_employee_records db))"
  note found = found_iff [OF assms(2), of f n]
  show thesis
  proof (cases "record_waiting f n db")
    case True
    then obtain e where e: "e \<in> set (db_employee_records db)" "sent_at f n e" by (auto simp: record_waiting_def list_ex_iff)
    then have "?found = Some e" using found by (simp add: sent_at_def)
    then have "er_feedback run now code label (fl_raw l) e db = Inr db'"
      using assms(3) k m e(2) by (simp add: er_feedback_line_def sent_at_def)
    then obtain e' where "er_updates e e' db db'" "er_status_f e' = answer_status code"
      "batch_key (er_asp e') = batch_key (er_asp e)" "ax_processing_code (er_asp e') = Some code"
      by (rule er_feedback_spec [OF assms(1)])
    then show thesis using that [OF k m] e by blast
  next
    case False
    have "?found = None \<or> (\<exists>e. ?found = Some e \<and> er_status_f e \<noteq> ER_SENT)"
      using False found by (cases ?found) (auto simp: record_waiting_def list_ex_iff sent_at_def)
    then have "db' = db" using assms(3) k m by (auto simp: er_feedback_line_def split: if_splits)
    then show thesis using that [OF k m] False by blast
  qed
qed

lemma er_updates_rows:
  assumes "er_updates e e' db db'" "x \<in> set (db_employee_records db')"
  shows "x = e' \<or> (x \<in> set (db_employee_records db) \<and> er_pk x \<noteq> er_pk e)"
  using assms by (auto simp: er_updates_def set_map_rows split: if_splits)

lemma er_updates_hit:
  assumes "er_updates e e' db db'" "e \<in> set (db_employee_records db)"
  shows "e' \<in> set (db_employee_records db')"
  using assms by (auto simp: er_updates_def set_map_rows)

lemma er_updates_other:
  assumes "er_updates e e' db db'" "x \<in> set (db_employee_records db)" "er_pk x \<noteq> er_pk e"
  shows "x \<in> set (db_employee_records db')"
  using assms by (auto simp: er_updates_def set_map_rows)

lemma answer_not_sent [simp]: "answer_status code \<noteq> ER_SENT" "ER_SENT \<noteq> answer_status code"
  by (simp_all add: answer_status_def)

lemma feedback_keys_num: "feedback_keys l = Inr (n, code, label) \<Longrightarrow>
  fl_num_ligne l = Some n \<and> fl_code_traitement l = Some code \<and> fl_libelle_traitement l = Some label"
  by (auto simp: feedback_keys_def split: option.splits)

text \<open>A line for a place where no record waits is skipped.\<close>

lemma feedback_skip:
  assumes "er_table_ok (db_employee_records d)" "feedback_keys l = Inr (n, code, label)"
    "fl_type_mouvement l = Some movement_creation" "\<not> record_waiting f n d"
  shows "er_feedback_line run now dry_run f l d = Inr d"
proof -
  let ?found = "order_last er_created_at (er_find_by_batch f n (db_employee_records d))"
  have "?found = None \<or> (\<exists>e. ?found = Some e \<and> er_status_f e \<noteq> ER_SENT)"
    using assms(4) found_iff [OF assms(1), of f n] by (cases ?found) (auto simp: record_waiting_def list_ex_iff sent_at_def)
  then show ?thesis using assms(2,3) by (auto simp: er_feedback_line_def)
qed

lemma feedback_accepted_keys:
  assumes "er_feedback_line run now dry_run f l d = Inr d'" "fl_num_ligne l = Some n"
  shows "\<exists>code label. feedback_keys l = Inr (n, code, label) \<and> fl_type_mouvement l = Some movement_creation"
  using assms by (auto simp: er_feedback_line_def feedback_keys_def split: option.splits)

text \<open>The records implement the contract; a law-abiding engine is the reference engine.\<close>

lemma engine_law_eq: "engine_law run \<longleftrightarrow> run = reference_engine"
  by (auto simp: engine_law_def fun_eq_iff)

interpretation er_fb: feedback_parser "er_feedback_line reference_engine now False" record_waiting
  "\<lambda>d. er_table_ok (db_employee_records d)"
proof
  fix d f l d'
  assume ok: "er_table_ok (db_employee_records d)" and r: "er_feedback_line reference_engine now False f l d = Inr d'"
  obtain n code label where k: "feedback_keys l = Inr (n, code, label)" "fl_type_mouvement l = Some movement_creation"
    and c: "(\<not> record_waiting f n d \<and> d' = d) \<or>
     (\<exists>e e'. e \<in> set (db_employee_records d) \<and> sent_at f n e \<and> er_updates e e' d d' \<and>
        er_status_f e' = answer_status code \<and> batch_key (er_asp e') = batch_key (er_asp e) \<and>
        ax_processing_code (er_asp e') = Some code)"
    by (rule er_feedback_line_spec [OF reference_engine_law ok r])
  have nw: "\<not> record_waiting f n d' \<and> er_table_ok (db_employee_records d')"
    using c
  proof (elim disjE exE conjE)
    fix e e' assume e: "e \<in> set (db_employee_records d)" "sent_at f n e" "er_updates e e' d d'" "er_status_f e' = answer_status code"
    have "er_pk x = er_pk e" if "x \<in> set (db_employee_records d)" "sent_at f n x" for x
      using place_unique [OF ok e(1) that(1)] e(2) that(2) by (simp add: sent_at_def)
    then have "\<not> sent_at f n x" if "x \<in> set (db_employee_records d')" for x
      using er_updates_rows [OF e(3) that] e(4) by (auto simp: sent_at_def)
    then show ?thesis using e(3) ok by (auto simp: record_waiting_def list_ex_iff er_updates_def)
  qed (use ok in simp)
  then show "er_table_ok (db_employee_records d') \<and> (\<exists>n. fl_num_ligne l = Some n \<and> \<not> record_waiting f n d')"
    using feedback_keys_num [OF k(1)] by blast
  show "record_waiting g m d" if w: "record_waiting g m d'" for g m
    using c
  proof (elim disjE exE conjE)
    fix e e' assume e: "er_updates e e' d d'" "er_status_f e' = answer_status code"
    obtain x where x: "x \<in> set (db_employee_records d')" "sent_at g m x" using w by (auto simp: record_waiting_def list_ex_iff)
    then have "x \<in> set (db_employee_records d)" using er_updates_rows [OF e(1) x(1)] e(2) by (auto simp: sent_at_def)
    then show ?thesis using x(2) by (auto simp: record_waiting_def list_ex_iff)
  qed (use w in simp)
next
  fix d f l d0 d1 n
  assume ok: "er_table_ok (db_employee_records d)" and r: "er_feedback_line reference_engine now False f l d0 = Inr d1"
    and n: "fl_num_ligne l = Some n" and nw: "\<not> record_waiting f n d"
  show "er_feedback_line reference_engine now False f l d = Inr d"
    using feedback_accepted_keys [OF r n] feedback_skip [OF ok _ _ nw] by blast
qed

text \<open>What the file says of a place: its first line with that number.\<close>

definition answer_for :: "int \<Rightarrow> feedback_line list \<Rightarrow> string option" where
  "answer_for n ls = (case find (\<lambda>l. fl_num_ligne l = Some n) ls of None \<Rightarrow> None | Some l \<Rightarrow> fl_code_traitement l)"

definition settled_as :: "string \<Rightarrow> employee_record \<Rightarrow> employee_record \<Rightarrow> bool" where
  "settled_as code e e' \<longleftrightarrow> er_pk e' = er_pk e \<and> er_status_f e' = answer_status code \<and>
     batch_key (er_asp e') = batch_key (er_asp e) \<and> ax_processing_code (er_asp e') = Some code"

lemma line_effect:
  assumes ok: "er_table_ok (db_employee_records d)" and r: "er_feedback_line reference_engine now False f l d = Inr d'"
    and x: "x \<in> set (db_employee_records d)"
  shows "(\<exists>n code. fl_num_ligne l = Some n \<and> sent_at f n x \<and> fl_code_traitement l = Some code \<and>
      (\<exists>x' \<in> set (db_employee_records d'). settled_as code x x')) \<or>
    (\<forall>n. fl_num_ligne l = Some n \<longrightarrow> \<not> sent_at f n x) \<and> x \<in> set (db_employee_records d')"
proof -
  obtain n code label where k: "feedback_keys l = Inr (n, code, label)" "fl_type_mouvement l = Some movement_creation"
    and c: "(\<not> record_waiting f n d \<and> d' = d) \<or>
     (\<exists>e e'. e \<in> set (db_employee_records d) \<and> sent_at f n e \<and> er_updates e e' d d' \<and>
        er_status_f e' = answer_status code \<and> batch_key (er_asp e') = batch_key (er_asp e) \<and>
        ax_processing_code (er_asp e') = Some code)"
    by (rule er_feedback_line_spec [OF reference_engine_law ok r])
  note keys = feedback_keys_num [OF k(1)]
  from c show ?thesis
  proof (elim disjE exE conjE)
    assume "\<not> record_waiting f n d" "d' = d"
    then show ?thesis using keys x by (auto simp: record_waiting_def list_ex_iff)
  next
    fix e e' assume e: "e \<in> set (db_employee_records d)" "sent_at f n e" "er_updates e e' d d'"
      "er_status_f e' = answer_status code" "batch_key (er_asp e') = batch_key (er_asp e)" "ax_processing_code (er_asp e') = Some code"
    show ?thesis
    proof (cases "sent_at f n x")
      case True
      then have "x = e" using place_unique [OF ok e(1) x] e(2) by (simp add: sent_at_def)
      moreover have "settled_as code e e'" using e by (simp add: settled_as_def er_updates_def)
      ultimately show ?thesis using keys e(2) er_updates_hit [OF e(3,1)] by blast
    next
      case False
      then have "er_pk x \<noteq> er_pk e" using ok x e(1,2) by (auto simp: er_table_ok_def distinct_map dest: inj_onD)
      then show ?thesis using er_updates_other [OF e(3) x] keys False by auto
    qed
  qed
qed

lemma settled_not_sent: "settled_as code e e' \<Longrightarrow> \<not> sent_at f n e'"
  by (simp add: settled_as_def sent_at_def)

lemma feedback_frame:
  assumes "er_table_ok (db_employee_records d)" "rfold (er_feedback_line reference_engine now False f) ls d = Inr d'"
    and "x \<in> set (db_employee_records d)" "\<And>n. sent_at f n x \<Longrightarrow> answer_for n ls = None"
  shows "x \<in> set (db_employee_records d')"
  using assms
proof (induction ls arbitrary: d)
  case (Cons l ls)
  then obtain d1 where d1: "er_feedback_line reference_engine now False f l d = Inr d1"
    "rfold (er_feedback_line reference_engine now False f) ls d1 = Inr d'" by auto
  have ok: "er_table_ok (db_employee_records d1)" using er_fb.line_settles [OF Cons.prems(1) d1(1)] by blast
  have "\<not> (\<exists>n code. fl_num_ligne l = Some n \<and> sent_at f n x \<and> fl_code_traitement l = Some code)"
    using Cons.prems(4) by (force simp: answer_for_def)
  then have "x \<in> set (db_employee_records d1)" "\<And>n. fl_num_ligne l = Some n \<Longrightarrow> \<not> sent_at f n x"
    using line_effect [OF Cons.prems(1) d1(1) Cons.prems(3)] by blast+
  moreover have "answer_for n ls = None" if "sent_at f n x" for n
    using Cons.prems(4) [OF that] calculation(2) [of n] that by (auto simp: answer_for_def split: if_splits)
  ultimately show ?case using Cons.IH [OF ok d1(2)] by blast
qed simp

lemma feedback_settles:
  assumes "er_table_ok (db_employee_records d)" "rfold (er_feedback_line reference_engine now False f) ls d = Inr d'"
    and "x \<in> set (db_employee_records d)" "sent_at f n x" "answer_for n ls = Some code"
  shows "\<exists>x' \<in> set (db_employee_records d'). settled_as code x x'"
  using assms
proof (induction ls arbitrary: d)
  case Nil
  then show ?case by (simp add: answer_for_def)
next
  case (Cons l ls)
  then obtain d1 where d1: "er_feedback_line reference_engine now False f l d = Inr d1"
    "rfold (er_feedback_line reference_engine now False f) ls d1 = Inr d'" by auto
  have ok: "er_table_ok (db_employee_records d1)" using er_fb.line_settles [OF Cons.prems(1) d1(1)] by blast
  show ?case
  proof (cases "fl_num_ligne l = Some n")
    case True
    then have "fl_code_traitement l = Some code" using Cons.prems(5) by (simp add: answer_for_def)
    then obtain x' where x': "x' \<in> set (db_employee_records d1)" "settled_as code x x'"
      using line_effect [OF Cons.prems(1) d1(1) Cons.prems(3)] True Cons.prems(4) by auto
    then have "x' \<in> set (db_employee_records d')" using feedback_frame [OF ok d1(2)] settled_not_sent by blast
    then show ?thesis using x'(2) by blast
  next
    case False
    then have "\<not> (\<exists>m. fl_num_ligne l = Some m \<and> sent_at f m x)" using Cons.prems(4) by (auto simp: sent_at_def)
    then have "x \<in> set (db_employee_records d1)" using line_effect [OF Cons.prems(1) d1(1) Cons.prems(3)] by blast
    moreover have "answer_for n ls = Some code" using Cons.prems(5) False by (simp add: answer_for_def)
    ultimately show ?thesis using Cons.IH [OF ok d1(2)] Cons.prems(4) by blast
  qed
qed

section \<open>Upload\<close>

text \<open>The records that are marked as sent are a prefix of the file; all of it when no exception is raised.\<close>

lemma send_lines_spec:
  assumes "engine_law run" "er_table_ok (db_employee_records db)" "send_lines run now f items idx db = (err, db')"
    and "distinct (map (\<lambda>p. er_pk (fst p)) items)" "set (map (\<lambda>p. er_pk (fst p)) items) \<subseteq> er_pk ` set (db_employee_records db)"
  shows "\<exists>k \<le> length items. (err = None \<longleftrightarrow> k = length items) \<and> er_table_ok (db_employee_records db') \<and>
    (\<forall>i < k. \<exists>x \<in> set (db_employee_records db'). er_pk x = er_pk (fst (items ! i)) \<and> sent_at f (idx + int i) x) \<and>
    (\<forall>x \<in> set (db_employee_records db). er_pk x \<notin> set (map (\<lambda>p. er_pk (fst p)) (take k items)) \<longrightarrow> x \<in> set (db_employee_records db'))"
  using assms(2-5)
proof (induction items arbitrary: idx db)
  case (Cons p items)
  obtain e line where p: "p = (e, line)" by (cases p)
  show ?case
  proof (cases "er_wait_for_asp_response run now f idx (Some line) e db")
    case (Inl x)
    then show ?thesis using Cons.prems by (intro exI [of _ 0]) (auto simp: p)
  next
    case (Inr r)
    obtain e' db1 where r: "r = (e', db1)" by (cases r)
    note W = wait_spec [OF assms(1) Inr [unfolded r]]
    have upd: "er_pk e' = er_pk e" "db_employee_records db1 = map_rows (\<lambda>f. er_pk f = er_pk e) (\<lambda>_. e') (db_employee_records db)"
      and ok: "er_table_ok (db_employee_records db1)"
      using W(1) Cons.prems(1) by (auto simp: er_updates_def)
    obtain y where y: "y \<in> set (db_employee_records db)" "er_pk y = er_pk e" using Cons.prems(4) p by auto
    then have e1: "e' \<in> set (db_employee_records db1)" by (auto simp: upd(2) set_map_rows)
    have keys: "er_pk ` set (db_employee_records db1) = er_pk ` set (db_employee_records db)"
      using map_rows_key [of "\<lambda>f. er_pk f = er_pk e" er_pk "\<lambda>_. e'" "db_employee_records db"] upd by (metis set_map)
    have send: "send_lines run now f items (idx + 1) db1 = (err, db')" using Cons.prems(2) Inr by (simp add: p r)
    have dist: "distinct (map (\<lambda>p. er_pk (fst p)) items)" using Cons.prems(3) by simp
    have sub: "set (map (\<lambda>p. er_pk (fst p)) items) \<subseteq> er_pk ` set (db_employee_records db1)" using Cons.prems(4) keys by simp
    obtain k where k: "k \<le> length items" "(err = None) = (k = length items)" "er_table_ok (db_employee_records db')"
      "\<And>i. i < k \<Longrightarrow> \<exists>x \<in> set (db_employee_records db'). er_pk x = er_pk (fst (items ! i)) \<and> sent_at f (idx + 1 + int i) x"
      "\<And>x. x \<in> set (db_employee_records db1) \<Longrightarrow> er_pk x \<notin> set (map (\<lambda>p. er_pk (fst p)) (take k items)) \<Longrightarrow> x \<in> set (db_employee_records db')"
      using Cons.IH [OF ok send dist sub] by blast
    have "er_pk e' \<notin> set (map (\<lambda>p. er_pk (fst p)) (take k items))" using Cons.prems(3) upd(1) p by (auto dest: in_set_takeD)
    then have "e' \<in> set (db_employee_records db')" using k(5) e1 by blast
    moreover have "sent_at f idx e'" using W(2,3) by (simp add: sent_at_def)
    ultimately have first: "\<exists>x \<in> set (db_employee_records db'). er_pk x = er_pk e \<and> sent_at f idx x" using upd(1) by blast
    have "\<exists>x \<in> set (db_employee_records db'). er_pk x = er_pk (fst ((p # items) ! i)) \<and> sent_at f (idx + int i) x"
      if "i < Suc k" for i
      using that first k(4) by (cases i) (auto simp: p algebra_simps)
    moreover have "x \<in> set (db_employee_records db')"
      if "x \<in> set (db_employee_records db)" "er_pk x \<notin> set (map (\<lambda>p. er_pk (fst p)) (take (Suc k) (p # items)))" for x
      using that k(5) [of x] by (auto simp: p upd(2) set_map_rows)
    ultimately show ?thesis using k(1-3) by (intro exI [of _ "Suc k"]) auto
  qed
qed simp

lemma number_lines_pks: "map er_pk (number_lines i es) = map er_pk es"
  by (induction i es rule: number_lines.induct) simp_all

lemma serialize_all_length: "serialize_all f xs = Inr ys \<Longrightarrow> length ys = length xs"
  by (induction xs arbitrary: ys) auto

lemma zip_pks: "length ys = length xs \<Longrightarrow> map (\<lambda>p. er_pk (fst p)) (zip xs ys) = map er_pk xs"
  using map_map [of er_pk fst "zip xs ys"] by (simp add: comp_def)

lemma upload_batch_spec:
  assumes "engine_law run" "er_table_ok (db_employee_records db)" "distinct (map er_pk es)"
    and "set es \<subseteq> set (db_employee_records db)" "upload_batch_file run ser transferred now f dry_run es db = (err, db')"
  shows "\<exists>k \<le> length es. (\<not> dry_run \<and> transferred \<and> err = None \<longrightarrow> k = length es) \<and> (dry_run \<or> \<not> transferred \<longrightarrow> k = 0) \<and>
    er_table_ok (db_employee_records db') \<and>
    (\<forall>i < k. \<exists>x \<in> set (db_employee_records db'). er_pk x = er_pk (es ! i) \<and> sent_at f (1 + int i) x) \<and>
    (\<forall>x \<in> set (db_employee_records db). er_pk x \<notin> er_pk ` set (take k es) \<longrightarrow> x \<in> set (db_employee_records db'))"
proof (cases "\<exists>els lines. employee_record_batch es = Inr els \<and> serialize_all ser els = Inr lines \<and> \<not> dry_run \<and> transferred")
  case True
  then obtain els lines where b: "employee_record_batch es = Inr els" "serialize_all ser els = Inr lines" "\<not> dry_run" "transferred"
    by blast
  have els: "els = number_lines 1 es" using b(1) by (auto simp: employee_record_batch_def split: if_splits)
  have pks: "map (\<lambda>p. er_pk (fst p)) (zip els lines) = map er_pk es"
    using zip_pks [OF serialize_all_length [OF b(2)]] by (simp add: els number_lines_pks)
  then have len: "length (zip els lines) = length es" by (metis length_map)
  have nth: "er_pk (fst (zip els lines ! i)) = er_pk (es ! i)" if "i < length es" for i
    using arg_cong [OF pks, of "\<lambda>l. l ! i"] that len by simp
  have send: "send_lines run now f (zip els lines) 1 db = (err, db')"
    using assms(5) b by (simp add: upload_batch_file_def)
  have tk: "set (map (\<lambda>p. er_pk (fst p)) (take k (zip els lines))) = er_pk ` set (take k es)" for k
    by (metis pks set_map take_map)
  have sub: "set (map (\<lambda>p. er_pk (fst p)) (zip els lines)) \<subseteq> er_pk ` set (db_employee_records db)"
    unfolding pks using assms(4) by auto
  obtain k where k: "k \<le> length es" "(err = None) = (k = length es)" "er_table_ok (db_employee_records db')"
    "\<And>i. i < k \<Longrightarrow> \<exists>x \<in> set (db_employee_records db'). er_pk x = er_pk (fst (zip els lines ! i)) \<and> sent_at f (1 + int i) x"
    "\<And>x. x \<in> set (db_employee_records db) \<Longrightarrow> er_pk x \<notin> er_pk ` set (take k es) \<Longrightarrow> x \<in> set (db_employee_records db')"
    using send_lines_spec [OF assms(1,2) send _ sub] unfolding pks tk len using assms(3) by auto
  then show ?thesis using nth b(3,4) by (intro exI [of _ k]) auto
next
  case False
  then have "db' = db \<and> (\<not> dry_run \<and> transferred \<longrightarrow> err \<noteq> None)"
    using assms(5) by (auto simp: upload_batch_file_def split: sum.splits if_splits)
  then show ?thesis using assms(2) by (intro exI [of _ 0]) auto
qed

section \<open>Notifications\<close>

definition en_table_ok :: "er_notification list \<Rightarrow> bool" where
  "en_table_ok ns \<longleftrightarrow> distinct (map en_pk ns) \<and>
     (\<forall>m \<in> set ns. \<forall>n \<in> set ns. en_pk m \<noteq> en_pk n \<longrightarrow> \<not> same_batch_line (en_asp m) (en_asp n))"

definition notification_waiting :: "string \<Rightarrow> int \<Rightarrow> db \<Rightarrow> bool" where
  "notification_waiting f i db \<longleftrightarrow>
     list_ex (\<lambda>n. en_status n = NS_SENT \<and> batch_key (en_asp n) = (Some f, Some i)) (db_er_notifications db)"

lemma en_run_spec:
  assumes "en_transition_run reference_engine now t g n db = Inr (n', db')" "en_table_ok (db_er_notifications db)"
  shows "en_table_ok (db_er_notifications db') \<and> n' = n\<lparr>en_asp := g (en_asp n), en_status := en_target t, en_updated_at := now\<rparr> \<and>
    db_er_notifications db' = map_rows (\<lambda>m. en_pk m = en_pk n) (\<lambda>_. n') (db_er_notifications db)"
proof -
  have n': "n' = n\<lparr>en_asp := g (en_asp n), en_status := en_target t, en_updated_at := now\<rparr>"
    and rows: "db_er_notifications db' = map_rows (\<lambda>m. en_pk m = en_pk n) (\<lambda>_. n') (db_er_notifications db)"
    and chk: "\<And>m. m \<in> set (db_er_notifications db) \<Longrightarrow> en_pk m \<noteq> en_pk n \<Longrightarrow> \<not> same_batch_line (en_asp n') (en_asp m)"
    using assms(1) by (auto simp: en_transition_run_def reference_engine_def en_save_def Let_def list_ex_iff)
  have pk: "en_pk n' = en_pk n" by (simp add: n')
  have "map en_pk (db_er_notifications db') = map en_pk (db_er_notifications db)"
    unfolding rows by (rule map_rows_key) (simp add: pk)
  moreover have mem: "m = n' \<or> m \<in> set (db_er_notifications db) \<and> en_pk m \<noteq> en_pk n" if "m \<in> set (db_er_notifications db')" for m
    using that by (auto simp: rows set_map_rows)
  moreover have "\<not> same_batch_line (en_asp m) (en_asp k)"
    if "m \<in> set (db_er_notifications db')" "k \<in> set (db_er_notifications db')" "en_pk m \<noteq> en_pk k" for m k
    using mem [OF that(1)] mem [OF that(2)] that(3) chk assms(2) same_batch_line_sym pk unfolding en_table_ok_def by metis
  ultimately show ?thesis using assms(2) n' rows by (simp add: en_table_ok_def)
qed

lemma en_found:
  assumes "en_table_ok ns"
  shows "order_last en_created_at (en_find_by_batch f i ns) = Some n \<longleftrightarrow> n \<in> set ns \<and> batch_key (en_asp n) = (Some f, Some i)"
proof -
  have mem: "m \<in> set (en_find_by_batch f i ns) \<longleftrightarrow> m \<in> set ns \<and> batch_key (en_asp m) = (Some f, Some i)" for m
    by (auto simp: en_find_by_batch_def batch_key_def)
  have uniq: "m = k" if "m \<in> set ns" "k \<in> set ns" "batch_key (en_asp m) = (Some f, Some i)" "batch_key (en_asp k) = (Some f, Some i)" for m k
  proof -
    have "same_batch_line (en_asp m) (en_asp k)" using that(3,4) by (simp add: same_batch_line_def batch_key_def)
    then have "en_pk m = en_pk k" using assms that(1,2) unfolding en_table_ok_def by blast
    then show ?thesis using assms that(1,2) by (auto simp: en_table_ok_def distinct_map dest: inj_onD)
  qed
  show ?thesis
  proof
    assume "order_last en_created_at (en_find_by_batch f i ns) = Some n"
    then show "n \<in> set ns \<and> batch_key (en_asp n) = (Some f, Some i)" using order_last_SomeD mem [of n] by fastforce
  next
    assume n: "n \<in> set ns \<and> batch_key (en_asp n) = (Some f, Some i)"
    then have "en_find_by_batch f i ns \<noteq> []" using mem [of n] by auto
    then obtain m where m: "order_last en_created_at (en_find_by_batch f i ns) = Some m" by (metis order_last_None option.exhaust)
    then have "m = n" using order_last_SomeD [OF m] mem [of m] uniq [of m n] n by blast
    then show "order_last en_created_at (en_find_by_batch f i ns) = Some n" using m by simp
  qed
qed

definition en_answer :: "string \<Rightarrow> notification_status" where
  "en_answer code = (if code = asp_processing_success_code then NS_PROCESSED else NS_REJECTED)"

lemma en_line_spec:
  assumes ok: "en_table_ok (db_er_notifications d)" and r: "en_feedback_line reference_engine now False f l d = Inr d'"
  obtains i code label where "feedback_keys l = Inr (i, code, label)" "fl_type_mouvement l = Some movement_update"
    "(\<not> notification_waiting f i d \<and> d' = d) \<or>
     (\<exists>n n'. n \<in> set (db_er_notifications d) \<and> en_status n = NS_SENT \<and> batch_key (en_asp n) = (Some f, Some i) \<and>
        en_table_ok (db_er_notifications d') \<and> en_pk n' = en_pk n \<and> en_status n' = en_answer code \<and>
        db_er_notifications d' = map_rows (\<lambda>m. en_pk m = en_pk n) (\<lambda>_. n') (db_er_notifications d))"
proof -
  obtain i code label where k: "feedback_keys l = Inr (i, code, label)" and m: "fl_type_mouvement l = Some movement_update"
    using r by (auto simp: en_feedback_line_def)
  let ?found = "order_last en_created_at (en_find_by_batch f i (db_er_notifications d))"
  note found = en_found [OF ok, of f i]
  show thesis
  proof (cases "notification_waiting f i d")
    case True
    then obtain n where n: "n \<in> set (db_er_notifications d)" "en_status n = NS_SENT" "batch_key (en_asp n) = (Some f, Some i)"
      by (auto simp: notification_waiting_def list_ex_iff)
    then have "?found = Some n" using found by simp
    then obtain t n' where "en_transition_run reference_engine now t (set_asp_processing_information code label (Some (fl_raw l))) n d = Inr (n', d')"
      "en_target t = en_answer code"
      using r k m n(2) by (auto simp: en_feedback_line_def en_process_def en_reject_def en_answer_def split: if_splits)
    then show thesis using that [OF k m] n en_run_spec [OF _ ok] by fastforce
  next
    case False
    have "?found = None \<or> (\<exists>n. ?found = Some n \<and> en_status n \<noteq> NS_SENT)"
      using False found by (cases ?found) (auto simp: notification_waiting_def list_ex_iff)
    then have "d' = d" using r k m by (auto simp: en_feedback_line_def split: if_splits)
    then show thesis using that [OF k m] False by blast
  qed
qed

lemma en_skip:
  assumes "en_table_ok (db_er_notifications d)" "feedback_keys l = Inr (i, code, label)"
    "fl_type_mouvement l = Some movement_update" "\<not> notification_waiting f i d"
  shows "en_feedback_line run now dry_run f l d = Inr d"
proof -
  let ?found = "order_last en_created_at (en_find_by_batch f i (db_er_notifications d))"
  have "?found = None \<or> (\<exists>n. ?found = Some n \<and> en_status n \<noteq> NS_SENT)"
    using assms(4) en_found [OF assms(1), of f i] by (cases ?found) (auto simp: notification_waiting_def list_ex_iff)
  then show ?thesis using assms(2,3) by (auto simp: en_feedback_line_def)
qed

interpretation en_fb: feedback_parser "en_feedback_line reference_engine now False" notification_waiting
  "\<lambda>d. en_table_ok (db_er_notifications d)"
proof
  fix d f l d'
  assume ok: "en_table_ok (db_er_notifications d)" and r: "en_feedback_line reference_engine now False f l d = Inr d'"
  obtain i code label where k: "feedback_keys l = Inr (i, code, label)" "fl_type_mouvement l = Some movement_update"
    and c: "(\<not> notification_waiting f i d \<and> d' = d) \<or>
     (\<exists>n n'. n \<in> set (db_er_notifications d) \<and> en_status n = NS_SENT \<and> batch_key (en_asp n) = (Some f, Some i) \<and>
        en_table_ok (db_er_notifications d') \<and> en_pk n' = en_pk n \<and> en_status n' = en_answer code \<and>
        db_er_notifications d' = map_rows (\<lambda>m. en_pk m = en_pk n) (\<lambda>_. n') (db_er_notifications d))"
    by (rule en_line_spec [OF ok r])
  have eff: "en_table_ok (db_er_notifications d') \<and> \<not> notification_waiting f i d' \<and>
    (\<forall>g m. notification_waiting g m d' \<longrightarrow> notification_waiting g m d)"
    using c
  proof (elim disjE exE conjE)
    fix n n' assume n: "n \<in> set (db_er_notifications d)" "batch_key (en_asp n) = (Some f, Some i)"
      and ok': "en_table_ok (db_er_notifications d')" and n': "en_status n' = en_answer code"
      and rows: "db_er_notifications d' = map_rows (\<lambda>m. en_pk m = en_pk n) (\<lambda>_. n') (db_er_notifications d)"
    have same: "m = n" if "m \<in> set (db_er_notifications d)" "batch_key (en_asp m) = (Some f, Some i)" for m
      using en_found [OF ok, of f i m] en_found [OF ok, of f i n] that n by simp
    have old: "m \<in> set (db_er_notifications d) \<and> en_pk m \<noteq> en_pk n" if "m \<in> set (db_er_notifications d')" "en_status m = NS_SENT" for m
      using that n' by (auto simp: rows set_map_rows en_answer_def split: if_splits)
    show ?thesis using ok' old same by (fastforce simp: notification_waiting_def list_ex_iff)
  qed (use ok in simp)
  then show "en_table_ok (db_er_notifications d') \<and> (\<exists>n. fl_num_ligne l = Some n \<and> \<not> notification_waiting f n d')"
    using feedback_keys_num [OF k(1)] by blast
  show "notification_waiting g m d" if "notification_waiting g m d'" for g m using that eff by blast
next
  fix d f l d0 d1 i
  assume ok: "en_table_ok (db_er_notifications d)" and r: "en_feedback_line reference_engine now False f l d0 = Inr d1"
    and i: "fl_num_ligne l = Some i" and nw: "\<not> notification_waiting f i d"
  obtain code label where "feedback_keys l = Inr (i, code, label)" "fl_type_mouvement l = Some movement_update"
    using r i by (auto simp: en_feedback_line_def feedback_keys_def split: option.splits)
  then show "en_feedback_line reference_engine now False f l d = Inr d" by (rule en_skip [OF ok _ _ nw])
qed

lemma notifications_feedback_idempotent:
  assumes "engine_law run" "en_table_ok (db_er_notifications db)" "parse_notifications_feedback run now False file ls db = Inr db'"
  shows "parse_notifications_feedback run now False file ls db' = Inr db'"
  using assms(2,3) en_fb.lines_idempotent
  unfolding assms(1) [unfolded engine_law_eq] parse_notifications_feedback_def by auto

end
