(* ===== verification/Asp_Exchange_Properties.thy ===== *)
theory Asp_Exchange_Properties
  imports Asp_Exchange_Effects Employee_Record_Properties
begin

text \<open>The properties of the exchange of files with the ASP.\<close>

section \<open>Upload\<close>

lemma records_to_send_rows: "set (records_to_send db) \<subseteq> set (db_employee_records db)"
  by (auto simp: records_to_send_def)

lemma records_to_send_distinct:
  assumes "distinct (map er_pk (db_employee_records db))"
  shows "distinct (map er_pk (records_to_send db))"
  using assms by (auto simp: records_to_send_def distinct_map intro: inj_on_subset)

text \<open>C13.  One upload sends a single file of at most 700 ready records, the oldest first.  Whatever goes
  wrong, the records marked as sent are the first lines of the file, each with its line number; when the
  file is transferred and no exception is raised they are all of it, and a dry run or a failed transfer marks none.  All the other
  records are untouched and the unique keys are kept.\<close>

theorem upload_sends_prefix:
  assumes "engine_law run" "er_table_ok (db_employee_records db)"
    and "upload_records run serialize transferred now f dry_run db = (err, db')"
  shows "\<exists>sent rest. records_to_send db = sent @ rest \<and> length sent \<le> max_employee_records \<and>
    (\<not> dry_run \<and> transferred \<and> err = None \<longrightarrow> sent = take max_employee_records (records_to_send db)) \<and>
    (dry_run \<or> \<not> transferred \<longrightarrow> sent = []) \<and> er_table_ok (db_employee_records db') \<and>
    (\<forall>i < length sent. \<exists>x \<in> set (db_employee_records db'). er_pk x = er_pk (sent ! i) \<and> er_status_f x = ER_SENT \<and>
       batch_key (er_asp x) = (Some f, Some (1 + int i))) \<and>
    (\<forall>x \<in> set (db_employee_records db). x \<notin> set sent \<longrightarrow> x \<in> set (db_employee_records db'))"
proof -
  let ?q = "records_to_send db" and ?b = "take max_employee_records (records_to_send db)"
  have dist: "distinct (map er_pk (db_employee_records db))" using assms(2) by (simp add: er_table_ok_def)
  have "0 < max_employee_records" by (simp add: max_employee_records_def)
  then have up: "upload_records run serialize transferred now f dry_run db = (if ?q = [] then (None, db)
      else upload_batch_file run serialize transferred now f dry_run ?b db)"
    using chunks_one [of max_employee_records ?q]
    by (auto simp: upload_records_def max_uploaded_files_def split: option.splits prod.splits)
  have db: "distinct (map er_pk ?b)" using records_to_send_distinct [OF dist] by (metis distinct_take take_map)
  have sub: "set ?b \<subseteq> set (db_employee_records db)" using records_to_send_rows [of db] by (auto dest: in_set_takeD)
  have "\<exists>k \<le> length ?b. (\<not> dry_run \<and> transferred \<and> err = None \<longrightarrow> k = length ?b) \<and> (dry_run \<or> \<not> transferred \<longrightarrow> k = 0) \<and>
    er_table_ok (db_employee_records db') \<and>
    (\<forall>i < k. \<exists>x \<in> set (db_employee_records db'). er_pk x = er_pk (?b ! i) \<and> sent_at f (1 + int i) x) \<and>
    (\<forall>x \<in> set (db_employee_records db). er_pk x \<notin> er_pk ` set (take k ?b) \<longrightarrow> x \<in> set (db_employee_records db'))"
  proof (cases "?q = []")
    case True
    then show ?thesis using up assms(2,3) by (intro exI [of _ 0]) simp
  next
    case False
    show ?thesis by (rule upload_batch_spec [OF assms(1,2) db sub]) (use up False assms(3) in simp)
  qed
  then obtain k where k: "k \<le> length ?b" "\<not> dry_run \<and> transferred \<and> err = None \<longrightarrow> k = length ?b"
    "dry_run \<or> \<not> transferred \<longrightarrow> k = 0" "er_table_ok (db_employee_records db')"
    "\<And>i. i < k \<Longrightarrow> \<exists>x \<in> set (db_employee_records db'). er_pk x = er_pk (?b ! i) \<and> sent_at f (1 + int i) x"
    "\<And>x. x \<in> set (db_employee_records db) \<Longrightarrow> er_pk x \<notin> er_pk ` set (take k ?b) \<Longrightarrow> x \<in> set (db_employee_records db')"
    by blast
  have "k \<le> max_employee_records" using k(1) by simp
  then have tk: "take k ?b = take k ?q" by simp
  have keys: "x \<in> set (take k ?q)" if x: "x \<in> set (db_employee_records db)" "er_pk x \<in> er_pk ` set (take k ?q)" for x
  proof -
    obtain y where y: "y \<in> set (take k ?q)" "er_pk x = er_pk y" using x(2) by blast
    then have "y \<in> set (db_employee_records db)" using records_to_send_rows [of db] by (auto dest: in_set_takeD)
    then have "x = y" using x(1) y(2) dist by (auto simp: distinct_map dest: inj_onD)
    then show ?thesis using y(1) by simp
  qed
  show ?thesis
  proof (intro exI conjI)
    show "?q = take k ?q @ drop k ?q" by simp
    show "length (take k ?q) \<le> max_employee_records" using k(1) by simp
    show "\<not> dry_run \<and> transferred \<and> err = None \<longrightarrow> take k ?q = ?b"
    proof
      assume "\<not> dry_run \<and> transferred \<and> err = None"
      then have "length ?b \<le> k" using k(2) by blast
      then have "take k ?b = ?b" by (rule take_all)
      then show "take k ?q = ?b" unfolding tk .
    qed
    show "dry_run \<or> \<not> transferred \<longrightarrow> take k ?q = []" using k(3) by auto
    show "er_table_ok (db_employee_records db')" by (rule k(4))
    show "\<forall>i < length (take k ?q). \<exists>x \<in> set (db_employee_records db'). er_pk x = er_pk (take k ?q ! i) \<and>
        er_status_f x = ER_SENT \<and> batch_key (er_asp x) = (Some f, Some (1 + int i))"
      using k(1,5) by (fastforce simp: sent_at_def)
    show "\<forall>x \<in> set (db_employee_records db). x \<notin> set (take k ?q) \<longrightarrow> x \<in> set (db_employee_records db')"
      using k(6) keys tk by metis
  qed
qed

definition batch_file :: string where "batch_file = ''RIAE_FS_20240101000000.json''"

definition uploaded_db :: db where
  "uploaded_db = snd (upload_records reference_engine (\<lambda>_. Inr []) True 6 batch_file False (snd ready_result))"

lemma uploaded: "upload_records reference_engine (\<lambda>_. Inr []) True 6 batch_file False (snd ready_result) = (None, uploaded_db)"
proof -
  have "fst (upload_records reference_engine (\<lambda>_. Inr []) True 6 batch_file False (snd ready_result)) = None" by code_simp
  then show ?thesis by (metis prod.collapse uploaded_db_def)
qed

theorem upload_sends_prefix_witness:
  "list_ex (\<lambda>x. er_status_f x = ER_SENT \<and> batch_key (er_asp x) = (Some batch_file, Some 1)) (db_employee_records uploaded_db)"
proof -
  have "er_table_ok (db_employee_records (snd ready_result))" by code_simp
  note up = upload_sends_prefix [OF reference_engine_law this uploaded]
  have "length (take max_employee_records (records_to_send (snd ready_result))) = 1" by code_simp
  then show ?thesis using up by (auto simp: list_ex_iff)
qed

section \<open>Feedback\<close>

text \<open>C14.  A feedback file that is read without error gives every record that waits in that
  file the answer of its line: processed for a success or a duplicate, rejected otherwise, with the code recorded; the
  first line counts when a number is repeated.  All other records are untouched, the unique keys
  are kept, and reading the same file again at any time changes nothing.\<close>

theorem feedback_settles_records:
  assumes "engine_law run" "er_table_ok (db_employee_records db)" "batch_filename_from_feedback file = Inr f"
    and "parse_records_feedback run now False file ls db = Inr db'"
  shows "er_table_ok (db_employee_records db') \<and>
    (\<forall>x \<in> set (db_employee_records db). \<forall>n code. sent_at f n x \<longrightarrow> answer_for n ls = Some code \<longrightarrow>
       (\<exists>x' \<in> set (db_employee_records db'). er_pk x' = er_pk x \<and> er_status_f x' = answer_status code \<and>
          ax_processing_code (er_asp x') = Some code)) \<and>
    (\<forall>x \<in> set (db_employee_records db). (\<forall>n. sent_at f n x \<longrightarrow> answer_for n ls = None) \<longrightarrow> x \<in> set (db_employee_records db')) \<and>
    (\<forall>later dry_run. parse_records_feedback run later dry_run file ls db' = Inr db')"
proof -
  have run: "run = reference_engine" using assms(1) by (simp add: engine_law_eq)
  have r: "rfold (er_feedback_line reference_engine now False f) ls db = Inr db'"
    using assms(3,4) by (simp add: parse_records_feedback_def run)
  note spec = er_fb.lines_spec [OF assms(2) r]
  have skip: "er_feedback_line reference_engine later dry_run f l db' = Inr db'" if l: "l \<in> set ls" for l later dry_run
  proof -
    obtain n d0 d1 where n: "fl_num_ligne l = Some n" "\<not> record_waiting f n db'"
      "er_feedback_line reference_engine now False f l d0 = Inr d1"
      using spec er_fb.lines_accepted [OF r] l by blast
    then show ?thesis using feedback_accepted_keys [OF n(3,1)] feedback_skip [OF _ _ _ n(2)] spec by blast
  qed
  have again: "rfold (er_feedback_line reference_engine later dry_run f) ls db' = Inr db'" for later dry_run
    using skip by (induction ls) auto
  show ?thesis
    using spec feedback_settles [OF assms(2) r] feedback_frame [OF assms(2) r] again assms(3)
    by (auto simp: parse_records_feedback_def run settled_as_def) blast
qed

definition feedback_file :: string where "feedback_file = ''RIAE_FS_20240101000000_FichierRetour.json''"

definition sample_feedback :: "feedback_line list" where
  "sample_feedback = [\<lparr>fl_type_mouvement = Some ''C'', fl_num_ligne = Some 1, fl_code_traitement = Some ''0000'',
     fl_libelle_traitement = Some [], fl_raw = []\<rparr>]"

definition answered_db :: db where
  "answered_db = projr (parse_records_feedback reference_engine 8 False feedback_file sample_feedback uploaded_db)"

theorem feedback_settles_records_witness:
  "list_ex (\<lambda>x. er_status_f x = ER_PROCESSED) (db_employee_records answered_db)"
proof -
  have "is_ok (parse_records_feedback reference_engine 8 False feedback_file sample_feedback uploaded_db)" by code_simp
  then have p: "parse_records_feedback reference_engine 8 False feedback_file sample_feedback uploaded_db = Inr answered_db"
    by (auto simp: is_ok_iff answered_db_def)
  have ok: "er_table_ok (db_employee_records uploaded_db)" by code_simp
  have f: "batch_filename_from_feedback feedback_file = Inr batch_file" by code_simp
  have "list_ex (sent_at batch_file 1) (db_employee_records uploaded_db)" "answer_for 1 sample_feedback = Some ''0000''"
    "answer_status ''0000'' = ER_PROCESSED" by code_simp+
  then show ?thesis using feedback_settles_records [OF reference_engine_law ok f p] by (fastforce simp: list_ex_iff)
qed

end
