(* ===== verification/Validator_Properties.thy ===== *)
theory Validator_Properties
  imports Validators
begin

text \<open>What the validators accept, and the errors the key of a social security number detects.\<close>

section \<open>Weights\<close>

lemma dec_val_sum: "dec_val s = (\<Sum>i < length s. digit_val (s ! i) * 10 ^ (length s - 1 - i))"
proof (induction s)
  case (Cons c s)
  have "(\<Sum>i < Suc (length s). digit_val ((c # s) ! i) * 10 ^ (length (c # s) - 1 - i)) =
      digit_val c * 10 ^ length s + (\<Sum>i < length s. digit_val (s ! i) * 10 ^ (length s - Suc i))"
    by (subst sum.lessThan_Suc_shift) simp
  then show ?case using Cons by simp
qed simp

definition nir_weight :: "nat \<Rightarrow> int" where
  "nir_weight i = (if i < 13 then 10 ^ (12 - i) else 10 ^ (14 - i))"

definition nir_sum :: "string \<Rightarrow> int" where
  "nir_sum s = (\<Sum>i < 15. nir_weight i * int (digit_val (s ! i)))"

lemma nir_sum_split:
  assumes "length s = 15"
  shows "nir_sum s = int (dec_val (take 13 s)) + int (dec_val (drop 13 s))"
proof -
  have "int (dec_val (take 13 s)) = (\<Sum>i < 13. nir_weight i * int (digit_val (s ! i)))"
    using assms by (auto simp: dec_val_sum nir_weight_def intro!: sum.cong)
  moreover have "int (dec_val (drop 13 s)) = (\<Sum>i \<in> {13..<15}. nir_weight i * int (digit_val (s ! i)))"
    using assms by (simp add: dec_val_sum nir_weight_def numeral_eq_Suc)
  ultimately show ?thesis
    unfolding nir_sum_def lessThan_atLeast0 by (simp add: sum.atLeastLessThan_concat)
qed

text \<open>An accepted number is made of digits and its weighted sum is a multiple of 97.\<close>

lemma py_int_InrD: "py_int s = Inr n \<Longrightarrow> all_digits s \<and> n = dec_val s"
  by (auto simp: py_int_def split: if_splits)

lemma validate_nir_InrD:
  assumes "validate_nir s = Inr ()"
  shows "length (nir_normal s) = 15" "all_digits (nir_normal s)" "97 dvd nir_sum (nir_normal s)"
    "dec_val (drop 13 (nir_normal s)) = nir_key (dec_val (take 13 (nir_normal s)))"
proof -
  let ?n = "nir_normal s"
  show len: "length ?n = 15" using assms by (auto simp: validate_nir_def Let_def)
  have d: "all_digits (take 13 ?n)" "all_digits (drop 13 ?n)"
    and k: "dec_val (drop 13 ?n) = nir_key (dec_val (take 13 ?n))"
    using assms by (auto simp: validate_nir_def Let_def dest!: py_int_InrD)
  show "all_digits ?n" using d by (metis all_digits_simps(3) append_take_drop_id)
  show "dec_val (drop 13 ?n) = nir_key (dec_val (take 13 ?n))" by (rule k)
  have "nir_sum ?n = int (dec_val (take 13 ?n)) + (97 - int (dec_val (take 13 ?n)) mod 97)"
    by (simp add: nir_sum_split [OF len] k nir_key_def of_nat_diff zmod_int)
  also have "\<dots> mod 97 = 0" by presburger
  finally show "97 dvd nir_sum ?n" by (simp add: dvd_eq_mod_eq_0)
qed

lemma coprime_97_10: "coprime (97::int) 10" "coprime (97::int) 9" by code_simp+

lemma weights_coprime:
  "coprime 97 (nir_weight i)"
  "i < 14 \<Longrightarrow> coprime 97 (nir_weight i - nir_weight (i + 1))"
proof -
  show "coprime 97 (nir_weight i)" by (simp add: nir_weight_def coprime_97_10)
  assume "i < 14"
  then consider "i < 12" | "i = 12" | "i = 13" by linarith
  then show "coprime 97 (nir_weight i - nir_weight (i + 1))"
  proof cases
    case 1
    then have "nir_weight i = 10 * nir_weight (i + 1)"
      by (simp add: nir_weight_def flip: power_Suc)
    then have "nir_weight i - nir_weight (i + 1) = 9 * 10 ^ (11 - i)" using 1 by (simp add: nir_weight_def)
    then show ?thesis by (simp add: coprime_97_10)
  next
    case 2
    have "nir_weight 12 - nir_weight 13 = - 9" by (simp add: nir_weight_def)
    then show ?thesis using 2 coprime_97_10(2) by simp
  next
    case 3
    have "nir_weight 13 - nir_weight 14 = 9" by (simp add: nir_weight_def)
    then show ?thesis using 3 coprime_97_10(2) by simp
  qed
qed

lemma no_small_multiple:
  assumes "coprime 97 w" "97 dvd w * (x - y)" "0 \<le> x" "x < 10" "0 \<le> y" "y < (10::int)"
  shows "x = y"
proof -
  have "97 dvd x - y" using assms(1,2) by (simp add: coprime_dvd_mult_right_iff)
  then show ?thesis using assms(3-6) by presburger
qed

lemma nir_sum_update:
  assumes "length s = 15" "i < 15"
  shows "nir_sum (s[i := c]) - nir_sum s = nir_weight i * (int (digit_val c) - int (digit_val (s ! i)))"
proof -
  have split: "nir_sum u = nir_weight i * int (digit_val (u ! i)) + (\<Sum>j \<in> {..<15} - {i}. nir_weight j * int (digit_val (u ! j)))" for u
    unfolding nir_sum_def by (rule sum.remove) (use assms(2) in simp_all)
  have "(\<Sum>j \<in> {..<15} - {i}. nir_weight j * int (digit_val (s[i := c] ! j))) = (\<Sum>j \<in> {..<15} - {i}. nir_weight j * int (digit_val (s ! j)))"
    by (rule sum.cong) auto
  then show ?thesis using assms by (simp add: split [of "s[i := c]"] split [of s] right_diff_distrib)
qed

definition swap_at :: "nat \<Rightarrow> string \<Rightarrow> string" where
  "swap_at i s = s[i := s ! (i + 1), i + 1 := s ! i]"

lemma nir_sum_swap:
  assumes "length s = 15" "i < 14"
  shows "nir_sum (swap_at i s) - nir_sum s =
    (nir_weight i - nir_weight (i + 1)) * (int (digit_val (s ! (i + 1))) - int (digit_val (s ! i)))"
proof -
  have "nir_sum (swap_at i s) - nir_sum (s[i := s ! (i + 1)]) =
      nir_weight (i + 1) * (int (digit_val (s ! i)) - int (digit_val (s ! (i + 1))))"
    unfolding swap_at_def using nir_sum_update [of "s[i := s ! (i + 1)]" "i + 1" "s ! i"] assms by simp
  moreover have "nir_sum (s[i := s ! (i + 1)]) - nir_sum s =
      nir_weight i * (int (digit_val (s ! (i + 1))) - int (digit_val (s ! i)))"
    using nir_sum_update [of s i "s ! (i + 1)"] assms by simp
  ultimately show ?thesis by (simp add: algebra_simps)
qed

lemma digit_at: "all_digits s \<Longrightarrow> i < length s \<Longrightarrow> is_digit (s ! i)"
  by (simp add: all_digits_def list_all_length)

section \<open>Social security numbers\<close>

text \<open>C40.  The key of a social security number detects every error on one character and every exchange
  of two neighbours: two accepted numbers whose normal forms (without spaces, in capitals, Corsican departments
  replaced) differ so are the same number.  The key is determined by the thirteen first characters.\<close>

theorem nir_key_detects_errors:
  assumes "validate_nir s = Inr ()" "validate_nir t = Inr ()"
  shows "(\<forall>i < 15. \<forall>c. nir_normal t = (nir_normal s)[i := c] \<longrightarrow> nir_normal t = nir_normal s) \<and>
    (\<forall>i < 14. nir_normal t = swap_at i (nir_normal s) \<longrightarrow> nir_normal t = nir_normal s) \<and>
    (take 13 (nir_normal t) = take 13 (nir_normal s) \<longrightarrow> nir_normal t = nir_normal s)"
proof (intro conjI allI impI)
  let ?s = "nir_normal s" and ?t = "nir_normal t"
  note S = validate_nir_InrD [OF assms(1)] and T = validate_nir_InrD [OF assms(2)]
  have dvd: "97 dvd nir_sum ?t - nir_sum ?s" using S(3) T(3) by simp
  have dig: "int (digit_val (?s ! i)) < 10" "int (digit_val (?t ! i)) < 10" if "i < 15" for i
    using digit_val_less digit_at [OF S(2), of i] digit_at [OF T(2), of i] that S(1) T(1) by fastforce+
  show "?t = ?s" if "i < 15" "?t = ?s[i := c]" for i c
  proof -
    have c: "?t ! i = c" using that S(1) by simp
    have "97 dvd nir_weight i * (int (digit_val c) - int (digit_val (?s ! i)))"
      using dvd nir_sum_update [OF S(1) that(1), of c] that(2) by simp
    then have "int (digit_val c) = int (digit_val (?s ! i))"
      by (rule no_small_multiple [OF weights_coprime(1)]) (use dig [OF that(1)] c in simp_all)
    then have "c = ?s ! i"
      using digit_val_inj digit_at [OF S(2), of i] digit_at [OF T(2), of i] that(1) S(1) T(1) c by simp
    then show ?thesis using that(2) by simp
  qed
  show "?t = ?s" if "i < 14" "?t = swap_at i ?s" for i
  proof -
    have "97 dvd (nir_weight i - nir_weight (i + 1)) * (int (digit_val (?s ! (i + 1))) - int (digit_val (?s ! i)))"
      using dvd nir_sum_swap [OF S(1) that(1)] that(2) by simp
    then have "int (digit_val (?s ! (i + 1))) = int (digit_val (?s ! i))"
      by (rule no_small_multiple [OF weights_coprime(2) [OF that(1)]]) (use dig that(1) in simp_all)
    then have "?s ! (i + 1) = ?s ! i"
      using digit_val_inj digit_at [OF S(2), of i] digit_at [OF S(2), of "i + 1"] that(1) S(1) by simp
    then have "swap_at i ?s = ?s[i := ?s ! i, i + 1 := ?s ! (i + 1)]" by (simp only: swap_at_def)
    then show ?thesis using that(2) by simp
  qed
  show "?t = ?s" if "take 13 ?t = take 13 ?s"
  proof -
    have "dec_val (drop 13 ?t) = dec_val (drop 13 ?s)" using S(4) T(4) that by simp
    moreover have "all_digits (drop 13 ?t)" "all_digits (drop 13 ?s)"
      using S(2) T(2) by (auto simp: all_digits_def list_all_iff dest: in_set_dropD)
    ultimately have "\<not> drop 13 ?t < drop 13 ?s" "\<not> drop 13 ?s < drop 13 ?t"
      using digits_less_iff [of "drop 13 ?t" "drop 13 ?s"] digits_less_iff [of "drop 13 ?s" "drop 13 ?t"] S(1) T(1) by simp_all
    then have "drop 13 ?t = drop 13 ?s" using less_linear by blast
    then show ?thesis using that by (metis append_take_drop_id)
  qed
qed

theorem nir_key_detects_errors_witness:
  "nir_normal ''2 69 05 2a 588 157 17'' = nir_normal ''269051958815717''"
proof -
  have n: "nir_normal ''2 69 05 2a 588 157 17'' = ''269051958815717''" "nir_normal ''269051958815717'' = ''269051958815717''"
    by code_simp+
  have "validate_nir ''269051958815717'' = Inr ()" "validate_nir ''2 69 05 2a 588 157 17'' = Inr ()"
    by (simp_all add: validate_nir_def n nir_regex_def py_int_def is_digit_def less_eq_char_def digit_val_def nir_key_def
        fictitious_nir_def)
  moreover have "take 13 (nir_normal ''2 69 05 2a 588 157 17'') = take 13 (nir_normal ''269051958815717'')"
    by (simp only: n)
  ultimately show ?thesis using nir_key_detects_errors by blast
qed

end
