(* ===== verification/Sso_Login.thy ===== *)
theory Sso_Login
  imports Schema
begin

text \<open>
  \<open>openid_connect/models.py\<close> with the data classes of FranceConnect, France Travail Connect and ProConnect: the
  one-time states and the creation or update of a user from the data of an identity provider.  The signature of a
  state is an argument.  The phone and the address, which no provider sends, and the normalisation of a
  new e-mail are not modelled.
\<close>

section \<open>States\<close>

record oidc_state =
  os_created_at :: datetime
  os_used_at :: "datetime option"
  os_state :: string
  os_nonce :: "string option"

definition oidc_state_expiration :: int where "oidc_state_expiration = 30 * one_day"
definition oidc_state_cleanup :: int where "oidc_state_cleanup = 30 * 2 * one_day"

definition cleanup_states :: "datetime \<Rightarrow> datetime option \<Rightarrow> 'a oidc_state_scheme list \<Rightarrow> 'a oidc_state_scheme list" where
  "cleanup_states now at states =
     (let limit = (case at of None \<Rightarrow> now - oidc_state_cleanup | Some t \<Rightarrow> t) in
      filter (\<lambda>s. \<not> os_created_at s \<le> limit) states)"

text \<open>\<open>save_state\<close>: the row of a fresh token, whose signature is given out.\<close>

definition save_state :: "(string \<Rightarrow> string) \<Rightarrow> 'a oidc_state_scheme \<Rightarrow> 'a oidc_state_scheme list \<Rightarrow>
    error + string \<times> 'a oidc_state_scheme list" where
  "save_state sign s states =
     (if list_ex (\<lambda>r. os_state r = os_state s \<or> (os_nonce s \<noteq> None \<and> os_nonce r = os_nonce s)) states
      then Inl (IntegrityError ''unique'')
      else Inr (sign (os_state s), states @ [s\<lparr>os_used_at := None\<rparr>]))"

definition get_from_state :: "(string \<Rightarrow> string option) \<Rightarrow> string \<Rightarrow> 'a oidc_state_scheme list \<Rightarrow> 'a oidc_state_scheme option" where
  "get_from_state unsign signed_state states =
     (if signed_state = [] then None
      else case unsign signed_state of None \<Rightarrow> None | Some t \<Rightarrow> get_row os_state t states)"

text \<open>\<open>is_valid\<close> marks the state as used; \<open>later\<close> is the second reading of the clock.\<close>

definition state_is_valid :: "datetime \<Rightarrow> datetime \<Rightarrow> 'a oidc_state_scheme \<Rightarrow> 'a oidc_state_scheme list \<Rightarrow> bool \<times> 'a oidc_state_scheme list" where
  "state_is_valid now later s states =
     (if os_used_at s \<noteq> None then (False, states)
      else (later < os_created_at s + oidc_state_expiration,
            map_rows (\<lambda>r. os_state r = os_state s) (\<lambda>r. r\<lparr>os_used_at := Some now\<rparr>) states))"

section \<open>Data of the providers\<close>

record oidc_user_data =
  ud_email :: string
  ud_first_name :: string
  ud_last_name :: string
  ud_username :: string
  ud_identity_provider :: identity_provider
  ud_birthdate :: "date option"
  ud_title :: "title option"

fun ud_kind_of :: "identity_provider \<Rightarrow> user_kind" where
  "ud_kind_of IDP_PRO_CONNECT = KIND_PROFESSIONAL"
| "ud_kind_of _ = KIND_JOB_SEEKER"

definition allowed_identity_provider_migration :: "identity_provider \<Rightarrow> identity_provider list" where
  "allowed_identity_provider_migration p = (if p = IDP_PRO_CONNECT then [IDP_DJANGO] else [])"

definition allow_sub_update :: "identity_provider \<Rightarrow> bool" where
  "allow_sub_update p \<longleftrightarrow> p = IDP_PRO_CONNECT"

text \<open>\<open>from_user_info\<close>: the claims of the provider; an unknown gender gives no title.\<close>

definition claim :: "string \<Rightarrow> (string \<Rightarrow> string option) \<Rightarrow> error + string" where
  "claim k info = (case info k of None \<Rightarrow> Inl (KeyError k) | Some v \<Rightarrow> Inr v)"

definition gender_title :: "(string \<Rightarrow> string option) \<Rightarrow> title option" where
  "gender_title info =
     (if info ''gender'' = Some ''male'' then Some M
      else if info ''gender'' = Some ''female'' then Some MME else None)"

definition claim_birthdate ::
  "(string \<Rightarrow> date option) \<Rightarrow> identity_provider \<Rightarrow> (string \<Rightarrow> string option) \<Rightarrow> error + date option" where
  "claim_birthdate fromisoformat p info =
     (if p \<noteq> IDP_FRANCE_CONNECT then Inr None
      else case info ''birthdate'' of
        None \<Rightarrow> Inr None
      | Some v \<Rightarrow> if v = [] then Inr None
          else (case fromisoformat v of None \<Rightarrow> Inl (ValueError ''birthdate'') | Some b \<Rightarrow> Inr (Some b)))"

definition from_user_info ::
  "(string \<Rightarrow> date option) \<Rightarrow> identity_provider \<Rightarrow> (string \<Rightarrow> string option) \<Rightarrow> error + oidc_user_data" where
  "from_user_info fromisoformat p info =
     rbind (claim ''sub'' info) (\<lambda>username.
     rbind (claim ''given_name'' info) (\<lambda>first_name.
     rbind (claim (if p = IDP_PRO_CONNECT then ''usual_name'' else ''family_name'') info) (\<lambda>last_name.
     rbind (claim ''email'' info) (\<lambda>email.
     rbind (claim_birthdate fromisoformat p info) (\<lambda>birthdate.
     Inr \<lparr>ud_email = email, ud_first_name = first_name, ud_last_name = last_name, ud_username = username,
       ud_identity_provider = p, ud_birthdate = birthdate,
       ud_title = (if p = IDP_PRO_CONNECT then None else gender_title info)\<rparr>)))))"

text \<open>The tables, the users whose next login may change the sub, and the histories of the sources.\<close>

record sso_db =
  sx_db :: users_db
  sx_allow_next :: "pk list"
  sx_history :: "pk \<Rightarrow> history_entry list"

section \<open>Creation or update of a user\<close>

definition is_sub_update_allowed :: "sso_db \<Rightarrow> oidc_user_data \<Rightarrow> user \<Rightarrow> bool" where
  "is_sub_update_allowed x d u \<longleftrightarrow>
     \<not> us_is_staff u \<and> (us_pk u \<in> set (sx_allow_next x) \<or> allow_sub_update (ud_identity_provider d))"

definition check_valid_kind :: "oidc_user_data \<Rightarrow> user \<Rightarrow> error + unit" where
  "check_valid_kind d u = guard (us_kind u \<in> set (identity_provider_supported_user_kind (ud_identity_provider d))) InvalidKindException"

definition same_email :: "string \<Rightarrow> user \<Rightarrow> bool" where
  "same_email e u \<longleftrightarrow> map_option py_lower (us_email u) = Some (py_lower e)"

definition find_by_sub :: "oidc_user_data \<Rightarrow> user list \<Rightarrow> user option" where
  "find_by_sub d us = find (\<lambda>u. us_username u = ud_username d \<and> us_identity_provider u = ud_identity_provider d) us"

text \<open>\<open>create_user\<close>: the defaults of a new user, its checks and the profile of a job seeker.\<close>

definition new_user :: "datetime \<Rightarrow> oidc_user_data \<Rightarrow> users_db \<Rightarrow> user" where
  "new_user now d db =
     \<lparr>us_pk = next_pk us_pk (db_users db), us_kind = ud_kind_of (ud_identity_provider d),
      us_first_name = ud_first_name d, us_last_name = ud_last_name d, us_title = ud_title d,
      us_email = (if ud_email d = [] then None else Some (ud_email d)), us_username = ud_username d,
      us_identity_provider = ud_identity_provider d, us_is_active = True, us_is_staff = False, us_is_superuser = False,
      us_created_by = None, us_post_code = [], us_department = [], us_last_login = None, us_first_login = None,
      us_date_joined = now, us_terms_accepted_at = None, us_upcoming_deletion_notified_at = None\<rparr>"

definition user_is_unique :: "user \<Rightarrow> user list \<Rightarrow> bool" where
  "user_is_unique u us \<longleftrightarrow> \<not> list_ex (\<lambda>v. us_pk v \<noteq> us_pk u \<and>
     (us_username v = us_username u \<or>
      (us_email u \<noteq> None \<and> map_option py_lower (us_email v) = map_option py_lower (us_email u)))) us"

definition create_user ::
  "(pk \<Rightarrow> jobseeker_profile) \<Rightarrow> datetime \<Rightarrow> oidc_user_data \<Rightarrow> users_db \<Rightarrow> error + user \<times> users_db" where
  "create_user empty_profile now d db =
     (let u = user_fields_on_save (new_user now d db) in
      if ud_username d = [] then Inl (TypeError ''username'')
      else if \<not> user_is_unique u (db_users db) then Inl (ValidationError ''unique'')
      else if \<not> user_constraints u then Inl (ValidationError ''constraints'')
      else Inr (u, db\<lparr>db_users := db_users db @ [u],
        db_profiles := (if is_job_seeker u then db_profiles db @ [empty_profile (us_pk u)] else db_profiles db)\<rparr>))"

text \<open>The user of a login, and whether it was created.\<close>

definition user_of_login ::
  "(pk \<Rightarrow> jobseeker_profile) \<Rightarrow> datetime \<Rightarrow> bool \<Rightarrow> oidc_user_data \<Rightarrow> sso_db \<Rightarrow> error + user \<times> bool \<times> sso_db" where
  "user_of_login empty_profile now login_only d x =
     (case find_by_sub d (db_users (sx_db x)) of
        Some u \<Rightarrow>
          if list_ex (\<lambda>v. us_pk v \<noteq> us_pk u \<and> same_email (ud_email d) v) (db_users (sx_db x))
          then Inl MultipleUsersFoundException else Inr (u, False, x)
      | None \<Rightarrow>
          (case find (same_email (ud_email d)) (db_users (sx_db x)) of
             Some u \<Rightarrow>
               if us_identity_provider u = ud_identity_provider d
               then if is_sub_update_allowed x d u then Inr (u, False, x) else Inl MultipleSubSameEmailException
               else if us_identity_provider u \<notin> set (allowed_identity_provider_migration (ud_identity_provider d))
               then rbind (check_valid_kind d u) (\<lambda>_. Inl EmailInUseException)
               else Inr (u, False, x)
           | None \<Rightarrow>
               if login_only then Inl RegisterForbiddenException
               else rbind (create_user empty_profile now d (sx_db x)) (\<lambda>(u, db). Inr (u, True, x\<lparr>sx_db := db\<rparr>))))"

definition set_unless :: "bool \<Rightarrow> ('a \<Rightarrow> 'a) \<Rightarrow> 'a \<Rightarrow> 'a" where
  "set_unless skip f a = (if skip then a else f a)"

text \<open>The attributes: an empty value is dropped, a read-only one is kept.\<close>

definition apply_user_data :: "string list \<Rightarrow> oidc_user_data \<Rightarrow> user \<Rightarrow> user" where
  "apply_user_data readonly d u =
     (let u1 = set_unless (ud_email d = []) (\<lambda>u. u\<lparr>us_email := Some (ud_email d)\<rparr>) u;
          u2 = set_unless (ud_first_name d = [] \<or> ''first_name'' \<in> set readonly) (\<lambda>u. u\<lparr>us_first_name := ud_first_name d\<rparr>) u1;
          u3 = set_unless (ud_last_name d = [] \<or> ''last_name'' \<in> set readonly) (\<lambda>u. u\<lparr>us_last_name := ud_last_name d\<rparr>) u2;
          u4 = set_unless (ud_username d = []) (\<lambda>u. u\<lparr>us_username := ud_username d\<rparr>) u3;
          u5 = u4\<lparr>us_identity_provider := ud_identity_provider d\<rparr>
      in set_unless (ud_title d = None \<or> ''title'' \<in> set readonly) (\<lambda>u. u\<lparr>us_title := ud_title d\<rparr>) u5)"

fun idp_value :: "identity_provider \<Rightarrow> string" where
  "idp_value IDP_DJANGO = ''DJANGO''"
| "idp_value IDP_FRANCE_CONNECT = ''FC''"
| "idp_value IDP_PRO_CONNECT = ''PC''"
| "idp_value IDP_FT_CONNECT = ''FTC''"

fun title_value :: "title \<Rightarrow> string" where
  "title_value M = ''M''"
| "title_value MME = ''MME''"

definition history_fields :: "oidc_user_data \<Rightarrow> (string \<times> string) list" where
  "history_fields d =
     filter (\<lambda>(k, v). v \<noteq> []) [(''email'', ud_email d), (''first_name'', ud_first_name d), (''last_name'', ud_last_name d),
       (''username'', ud_username d)] @ [(''identity_provider'', idp_value (ud_identity_provider d))] @
     (case ud_title d of None \<Rightarrow> [] | Some t \<Rightarrow> [(''title'', title_value t)])"

definition apply_history :: "datetime \<Rightarrow> oidc_user_data \<Rightarrow> history_entry list \<Rightarrow> history_entry list" where
  "apply_history now d h =
     foldl (\<lambda>h (k, v). fst (update_history_field now (ud_identity_provider d) k v h)) h (history_fields d)"

definition sso_profile :: "user \<Rightarrow> sso_db \<Rightarrow> jobseeker_profile option" where
  "sso_profile u x = get_row jp_user (us_pk u) (db_profiles (sx_db x))"

definition sso_job_seeker :: "oidc_user_data \<Rightarrow> bool" where
  "sso_job_seeker d \<longleftrightarrow> ud_kind_of (ud_identity_provider d) = KIND_JOB_SEEKER"

definition sso_readonly :: "oidc_user_data \<Rightarrow> user \<Rightarrow> sso_db \<Rightarrow> string list" where
  "sso_readonly d u x =
     (if sso_job_seeker d then readonly_pii_fields (the (sso_profile u x)) (db_certifications (sx_db x)) else [])"

definition sso_profile_write :: "(pk \<Rightarrow> string) \<Rightarrow> oidc_user_data \<Rightarrow> user \<Rightarrow> sso_db \<Rightarrow> users_db" where
  "sso_profile_write default_asp_uid d u x =
     (if sso_job_seeker d \<and> ud_birthdate d \<noteq> None
      then profile_save default_asp_uid (the (sso_profile u x))
        (if ''birthdate'' \<in> set (sso_readonly d u x) then the (sso_profile u x)
         else (the (sso_profile u x))\<lparr>jp_birthdate := ud_birthdate d\<rparr>) (sx_db x)
      else sx_db x)"

definition create_or_update_user ::
  "(pk \<Rightarrow> jobseeker_profile) \<Rightarrow> (pk \<Rightarrow> string) \<Rightarrow> datetime \<Rightarrow> bool \<Rightarrow> oidc_user_data \<Rightarrow> sso_db
   \<Rightarrow> error + user \<times> bool \<times> sso_db" where
  "create_or_update_user empty_profile default_asp_uid now login_only d x =
     rbind (user_of_login empty_profile now login_only d x) (\<lambda>(u, created, x1).
     rbind (guard (us_is_active u) InactiveUserException) (\<lambda>_.
     rbind (check_valid_kind d u) (\<lambda>_.
     rbind (guard (sso_job_seeker d \<longrightarrow> sso_profile u x1 \<noteq> None) (DoesNotExist ''jobseeker_profile'')) (\<lambda>_.
     let u1 = (if created then u else apply_user_data (sso_readonly d u x1) d u) in
     rbind (user_save u u1 (sso_profile_write default_asp_uid d u x1)) (\<lambda>db2.
     Inr (user_fields_on_save u1, created,
       x1\<lparr>sx_db := db2, sx_allow_next := filter (\<lambda>k. k \<noteq> us_pk u) (sx_allow_next x1),
          sx_history := (sx_history x1)(us_pk u := apply_history now d (sx_history x1 (us_pk u)))\<rparr>))))))"

end
