(* ===== verification/Sso_Login_Effects.thy ===== *)
theory Sso_Login_Effects
  imports Sso_Login
begin

text \<open>The table of the users, and what a login writes.\<close>

definition login_key :: "user \<Rightarrow> string option" where
  "login_key u = map_option py_lower (us_email u)"

definition users_table_ok :: "user list \<Rightarrow> bool" where
  "users_table_ok us \<longleftrightarrow> distinct (map us_pk us) \<and>
     (\<forall>u \<in> set us. \<forall>v \<in> set us. us_pk u \<noteq> us_pk v \<longrightarrow>
        us_username u \<noteq> us_username v \<and> (us_email u \<noteq> None \<longrightarrow> login_key u \<noteq> login_key v))"

lemma fields_on_save [simp]:
  "us_pk (user_fields_on_save u) = us_pk u" "us_username (user_fields_on_save u) = us_username u"
  "us_email (user_fields_on_save u) = us_email u" "us_kind (user_fields_on_save u) = us_kind u"
  "us_identity_provider (user_fields_on_save u) = us_identity_provider u"
  "us_is_active (user_fields_on_save u) = us_is_active u" "us_first_name (user_fields_on_save u) = us_first_name u"
  "us_last_name (user_fields_on_save u) = us_last_name u" "us_title (user_fields_on_save u) = us_title u"
  by (simp_all add: user_fields_on_save_def Let_def)

lemma user_save_spec:
  assumes "user_save old u db = Inr db'"
  shows "db_users db' = map_rows (\<lambda>v. us_pk v = us_pk u) (\<lambda>_. user_fields_on_save u) (db_users db)"
    "user_constraints (user_fields_on_save u)"
    "\<And>v. v \<in> set (db_users db) \<Longrightarrow> us_pk v \<noteq> us_pk u \<Longrightarrow>
       us_username v \<noteq> us_username u \<and> (us_email u \<noteq> None \<longrightarrow> login_key v \<noteq> login_key u)"
  using assms by (auto simp: user_save_def Let_def list_ex_iff login_key_def)

lemma user_save_table:
  assumes "user_save old u db = Inr db'" "users_table_ok (db_users db)"
  shows "users_table_ok (db_users db')"
proof -
  note S = user_save_spec [OF assms(1)]
  let ?u = "user_fields_on_save u"
  have "map us_pk (db_users db') = map us_pk (db_users db)" unfolding S(1) by (rule map_rows_key) simp
  moreover have mem: "v = ?u \<or> (v \<in> set (db_users db) \<and> us_pk v \<noteq> us_pk u)" if "v \<in> set (db_users db')" for v
    using that by (auto simp: S(1) set_map_rows)
  moreover have "us_username v \<noteq> us_username w \<and> (us_email v \<noteq> None \<longrightarrow> login_key v \<noteq> login_key w)"
    if vw: "v \<in> set (db_users db')" "w \<in> set (db_users db')" "us_pk v \<noteq> us_pk w" for v w
  proof -
    consider "v = ?u" "w \<in> set (db_users db)" "us_pk w \<noteq> us_pk u" | "w = ?u" "v \<in> set (db_users db)" "us_pk v \<noteq> us_pk u"
      | "v \<in> set (db_users db)" "w \<in> set (db_users db)"
      using mem [OF vw(1)] mem [OF vw(2)] vw(3) by auto
    then show ?thesis
    proof cases
      case 1
      have "us_email v \<noteq> None \<longrightarrow> login_key w \<noteq> login_key v" using S(3) [OF 1(2,3)] 1(1) by (simp add: login_key_def)
      then show ?thesis using S(3) [OF 1(2,3)] 1(1) by auto
    next
      case 2
      have k: "login_key w = login_key u" "us_username w = us_username u" using 2(1) by (simp_all add: login_key_def)
      have "us_email v \<noteq> None \<longrightarrow> login_key v \<noteq> login_key u"
        using S(3) [OF 2(2,3)] by (cases "us_email u") (auto simp: login_key_def)
      then show ?thesis using S(3) [OF 2(2,3)] k by simp
    next
      case 3
      then show ?thesis using assms(2) vw(3) by (simp add: users_table_ok_def)
    qed
  qed
  ultimately show ?thesis using assms(2) by (simp add: users_table_ok_def)
qed

lemma create_user_spec:
  assumes "create_user ep now d db = Inr (u, db')"
  shows "u = user_fields_on_save (new_user now d db)" "db_users db' = db_users db @ [u]" "user_constraints u"
    "user_is_unique u (db_users db)"
  using assms by (auto simp: create_user_def Let_def split: if_splits)

lemma create_user_table:
  assumes "create_user ep now d db = Inr (u, db')" "users_table_ok (db_users db)"
  shows "users_table_ok (db_users db')" "us_pk u \<notin> us_pk ` set (db_users db)"
proof -
  note C = create_user_spec [OF assms(1)]
  show fresh: "us_pk u \<notin> us_pk ` set (db_users db)" by (simp add: C(1) new_user_def)
  have "us_username v \<noteq> us_username u \<and> (us_email u \<noteq> None \<longrightarrow> login_key v \<noteq> login_key u)"
    if "v \<in> set (db_users db)" for v
  proof -
    have "us_pk v \<noteq> us_pk u" using that fresh by (metis imageI)
    then show ?thesis using C(4) that by (auto simp: user_is_unique_def list_ex_iff login_key_def)
  qed
  moreover have "us_email v \<noteq> None \<longrightarrow> login_key v \<noteq> login_key u" if "v \<in> set (db_users db)" for v
    using calculation [OF that] by (cases "us_email u") (auto simp: login_key_def)
  ultimately show "users_table_ok (db_users db')"
    using assms(2) fresh unfolding users_table_ok_def C(2) by (auto, metis+)
qed

lemma profile_save_users [simp]: "db_users (profile_save h old p db) = db_users db"
  by (simp add: profile_save_def Let_def)

lemma apply_user_data_fields [simp]:
  "us_pk (apply_user_data ro d u) = us_pk u" "us_kind (apply_user_data ro d u) = us_kind u"
  "us_is_active (apply_user_data ro d u) = us_is_active u"
  "us_identity_provider (apply_user_data ro d u) = ud_identity_provider d"
  by (simp_all add: apply_user_data_def set_unless_def Let_def)

lemma apply_user_data_readonly:
  "''first_name'' \<in> set ro \<Longrightarrow> us_first_name (apply_user_data ro d u) = us_first_name u"
  "''last_name'' \<in> set ro \<Longrightarrow> us_last_name (apply_user_data ro d u) = us_last_name u"
  "''title'' \<in> set ro \<Longrightarrow> us_title (apply_user_data ro d u) = us_title u"
  by (simp_all add: apply_user_data_def set_unless_def Let_def)

lemma apply_user_data_username:
  "ud_username d \<noteq> [] \<Longrightarrow> us_username (apply_user_data ro d u) = ud_username d"
  "ud_email d \<noteq> [] \<Longrightarrow> us_email (apply_user_data ro d u) = Some (ud_email d)"
  by (simp_all add: apply_user_data_def set_unless_def Let_def)

text \<open>A certified name, title or birth date is read-only.\<close>

lemma foldl_blocked_keeps:
  "f \<in> set b \<Longrightarrow> f \<notin> {''birth_country'', ''birth_place''} \<Longrightarrow> f \<in> set (foldl (\<lambda>b c. blocked_fields_step p c b) b cs)"
  by (induction cs arbitrary: b) (auto simp: blocked_fields_step_def Let_def)

lemma certified_readonly:
  assumes "c \<in> set cs" "ic_jobseeker_profile c = jp_user p" "ic_certifier c = API_PARTICULIER"
    "f \<in> {''first_name'', ''last_name'', ''title'', ''birthdate''}"
  shows "f \<in> set (readonly_pii_fields p cs)"
proof -
  have "f \<in> set (foldl (\<lambda>b c. blocked_fields_step p c b) b ds)" if "c \<in> set ds" for b ds
    using that
  proof (induction ds arbitrary: b)
    case (Cons e ds)
    have "f \<in> set (blocked_fields_step p c b)" using assms(3,4)
      by (auto simp: blocked_fields_step_def api_particulier_required_fields_def Let_def)
    then show ?case using Cons assms(4) foldl_blocked_keeps [of f "blocked_fields_step p c b" p ds] by (cases "c = e") auto
  qed simp
  then show ?thesis using assms(1,2) by (simp add: readonly_pii_fields_def)
qed

section \<open>The user of a login\<close>

lemma login_cases:
  assumes "user_of_login ep now login_only d x = Inr (u, created, x1)"
  obtains (sub) "created = False" "x1 = x" "u \<in> set (db_users (sx_db x))" "us_username u = ud_username d"
      "us_identity_provider u = ud_identity_provider d"
    | (email) "created = False" "x1 = x" "u \<in> set (db_users (sx_db x))" "same_email (ud_email d) u"
      "(us_identity_provider u = ud_identity_provider d \<and> is_sub_update_allowed x d u) \<or>
       us_identity_provider u \<in> set (allowed_identity_provider_migration (ud_identity_provider d))"
    | (new) db where "created = True" "\<not> login_only" "create_user ep now d (sx_db x) = Inr (u, db)" "x1 = x\<lparr>sx_db := db\<rparr>"
      "\<forall>v \<in> set (db_users (sx_db x)). \<not> same_email (ud_email d) v"
proof (cases "find_by_sub d (db_users (sx_db x))")
  case (Some v)
  then have "v \<in> set (db_users (sx_db x))" "us_username v = ud_username d" "us_identity_provider v = ud_identity_provider d"
    by (auto simp: find_by_sub_def find_Some_iff)
  then show thesis using assms Some sub by (auto simp: user_of_login_def split: if_splits)
next
  case None
  note nosub = this
  show thesis
  proof (cases "find (same_email (ud_email d)) (db_users (sx_db x))")
    case (Some v)
    then have "v \<in> set (db_users (sx_db x))" "same_email (ud_email d) v" by (auto simp: find_Some_iff)
    then show thesis using assms nosub Some email by (auto simp: user_of_login_def split: if_splits)
  next
    case None
    then have free: "\<forall>v \<in> set (db_users (sx_db x)). \<not> same_email (ud_email d) v" by (simp add: find_None_iff)
    show thesis using assms nosub None free new by (auto simp: user_of_login_def split: if_splits)
  qed
qed

lemma login_table:
  assumes "user_of_login ep now login_only d x = Inr (u, created, x1)" "users_table_ok (db_users (sx_db x))"
  shows "users_table_ok (db_users (sx_db x1)) \<and> u \<in> set (db_users (sx_db x1)) \<and>
    set (db_users (sx_db x)) \<subseteq> set (db_users (sx_db x1)) \<and>
    (created \<longrightarrow> us_identity_provider u = ud_identity_provider d)"
  using assms(1)
proof (cases rule: login_cases)
  case (new db)
  note C = create_user_spec [OF new(3)] create_user_table [OF new(3) assms(2)]
  have "us_identity_provider u = ud_identity_provider d" by (simp add: C(1) new_user_def)
  moreover have "sx_db x1 = db" by (simp add: new(4))
  ultimately show ?thesis using C(2,5) by auto
qed (use assms(2) in simp_all)

section \<open>The identity of a job seeker\<close>

definition profile_identity :: "jobseeker_profile \<Rightarrow> (pk \<times> date option \<times> pk option \<times> pk option) \<times> string \<times> lack_of_nir_reason option \<times> string" where
  "profile_identity p = ((jp_user p, jp_birthdate p, jp_birth_place p, jp_birth_country p), jp_nir p, jp_lack_of_nir_reason p,
     jp_pole_emploi_id p)"

text \<open>The fields of the identity that a login may write, and those that are read-only.  The birth date is that of the
  provider, or the old one where the provider gives none or it is certified.\<close>

definition identity_kept ::
  "string list \<Rightarrow> oidc_user_data \<Rightarrow> user \<times> jobseeker_profile \<Rightarrow> user \<times> jobseeker_profile \<Rightarrow> bool" where
  "identity_kept ro d before after \<longleftrightarrow> (case (before, after) of ((u, p), (u', p')) \<Rightarrow>
     (''first_name'' \<in> set ro \<longrightarrow> us_first_name u' = us_first_name u) \<and>
     (''last_name'' \<in> set ro \<longrightarrow> us_last_name u' = us_last_name u) \<and>
     (''title'' \<in> set ro \<longrightarrow> us_title u' = us_title u) \<and>
     profile_identity p' = profile_identity
       (if ud_birthdate d = None \<or> ''birthdate'' \<in> set ro then p else p\<lparr>jp_birthdate := ud_birthdate d\<rparr>))"

lemma user_save_identity:
  assumes "user_save old u db = Inr db'"
  shows "map profile_identity (db_profiles db') = map profile_identity (db_profiles db)"
    "j \<noteq> us_pk u \<Longrightarrow> get_row jp_user j (db_profiles db') = get_row jp_user j (db_profiles db)"
    "c \<in> set (db_certifications db) \<Longrightarrow> ic_certifier c = API_PARTICULIER \<Longrightarrow> c \<in> set (db_certifications db')"
proof -
  let ?upd = "map_rows (\<lambda>p. jp_user p = us_pk u) (\<lambda>p. p\<lparr>jp_pe_obfuscated_nir := None,
    jp_pe_last_certification_attempt_at := None, jp_ft_gps_id := None\<rparr>) (db_profiles db)"
  have d: "db_profiles db' = db_profiles db \<or> db_profiles db' = ?upd"
    using assms by (auto simp: user_save_def Let_def split: if_splits)
  then show "map profile_identity (db_profiles db') = map profile_identity (db_profiles db)"
    by (auto simp: map_rows_def profile_identity_def)
  have "get_row jp_user j ?upd = get_row jp_user j (db_profiles db)" if "j \<noteq> us_pk u"
    by (subst get_row_map_rows) (use that in \<open>auto dest: get_row_SomeD intro!: option.map_ident_strong\<close>)
  with d show "j \<noteq> us_pk u \<Longrightarrow> get_row jp_user j (db_profiles db') = get_row jp_user j (db_profiles db)" by auto
  show "c \<in> set (db_certifications db) \<Longrightarrow> ic_certifier c = API_PARTICULIER \<Longrightarrow> c \<in> set (db_certifications db')"
    using assms by (auto simp: user_save_def Let_def delete_ft_certifications_def split: if_splits)
qed

lemma get_row_map_identity:
  assumes "map profile_identity ps' = map profile_identity ps"
  shows "map_option profile_identity (get_row jp_user k ps') = map_option profile_identity (get_row jp_user k ps)"
  using assms
proof (induction ps' arbitrary: ps)
  case (Cons p' ps')
  then obtain p qs where "ps = p # qs" "profile_identity p' = profile_identity p" "map profile_identity ps' = map profile_identity qs"
    by (cases ps) auto
  moreover from this have "jp_user p' = jp_user p" by (simp add: profile_identity_def)
  ultimately show ?case using Cons.IH [of qs] by simp
qed simp

lemma sso_profile_write_identity:
  assumes "sso_profile u x = Some p" "sso_job_seeker d"
  shows "\<exists>p'. get_row jp_user (us_pk u) (db_profiles (sso_profile_write h d u x)) = Some p' \<and>
      profile_identity p' = profile_identity
        (if ud_birthdate d = None \<or> ''birthdate'' \<in> set (sso_readonly d u x) then p else p\<lparr>jp_birthdate := ud_birthdate d\<rparr>)"
    "j \<noteq> us_pk u \<Longrightarrow>
       get_row jp_user j (db_profiles (sso_profile_write h d u x)) = get_row jp_user j (db_profiles (sx_db x))"
proof -
  have k: "jp_user p = us_pk u" "get_row jp_user (us_pk u) (db_profiles (sx_db x)) = Some p"
    using assms(1) get_row_SomeD by (fastforce simp: sso_profile_def)+
  let ?q = "if ''birthdate'' \<in> set (sso_readonly d u x) then p else p\<lparr>jp_birthdate := ud_birthdate d\<rparr>"
  let ?s = "profile_fields_on_save h p ?q"
  have q: "jp_user ?q = us_pk u" "profile_identity ?s = profile_identity ?q"
    using k(1) by (simp_all add: profile_fields_on_save_def profile_identity_def Let_def)
  have w: "db_profiles (sso_profile_write h d u x) =
      (if ud_birthdate d = None then db_profiles (sx_db x)
       else map_rows (\<lambda>r. jp_user r = us_pk u) (\<lambda>_. ?s) (db_profiles (sx_db x)))"
    using assms q(1) by (auto simp: sso_profile_write_def profile_save_def Let_def)
  have s: "jp_user ?s = us_pk u" using q by (simp add: profile_identity_def)
  have row: "get_row jp_user j (map_rows (\<lambda>r. jp_user r = us_pk u) (\<lambda>_. ?s) (db_profiles (sx_db x))) =
      (if j = us_pk u then Some ?s else get_row jp_user j (db_profiles (sx_db x)))" for j
    using s k by (subst get_row_map_rows) (auto dest: get_row_SomeD intro!: option.map_ident_strong)
  show "\<exists>p'. get_row jp_user (us_pk u) (db_profiles (sso_profile_write h d u x)) = Some p' \<and>
      profile_identity p' = profile_identity
        (if ud_birthdate d = None \<or> ''birthdate'' \<in> set (sso_readonly d u x) then p else p\<lparr>jp_birthdate := ud_birthdate d\<rparr>)"
    using k(2) q(2) row [of "us_pk u"] by (auto simp: w)
  show "j \<noteq> us_pk u \<Longrightarrow>
      get_row jp_user j (db_profiles (sso_profile_write h d u x)) = get_row jp_user j (db_profiles (sx_db x))"
    using row [of j] by (simp add: w)
qed

lemma sso_profile_write_certifications:
  assumes "c \<in> set (db_certifications (sx_db x))" "ic_certifier c = API_PARTICULIER"
  shows "c \<in> set (db_certifications (sso_profile_write h d u x))"
  using assms by (simp add: sso_profile_write_def profile_save_def Let_def delete_ft_certifications_def)

lemma login_identity:
  assumes save: "user_save u (apply_user_data (sso_readonly d u x) d u) (sso_profile_write h d u x) = Inr (sx_db x')"
    and js: "sso_job_seeker d" and prof: "sso_profile u x \<noteq> None"
    and u': "u' = user_fields_on_save (apply_user_data (sso_readonly d u x) d u)"
  shows "\<exists>p p'. sso_profile u x = Some p \<and> sso_profile u' x' = Some p' \<and>
      identity_kept (readonly_pii_fields p (db_certifications (sx_db x))) d (u, p) (u', p') \<and>
      (\<forall>j. j \<noteq> us_pk u \<longrightarrow> get_row jp_user j (db_profiles (sx_db x')) = get_row jp_user j (db_profiles (sx_db x))) \<and>
      (\<forall>c \<in> set (db_certifications (sx_db x)). ic_certifier c = API_PARTICULIER \<longrightarrow> c \<in> set (db_certifications (sx_db x')) \<and>
         (ic_jobseeker_profile c = us_pk u \<longrightarrow> us_first_name u' = us_first_name u \<and> us_last_name u' = us_last_name u \<and>
            us_title u' = us_title u \<and> jp_birthdate p' = jp_birthdate p))"
proof -
  obtain p where p: "sso_profile u x = Some p" using prof by blast
  let ?ro = "readonly_pii_fields p (db_certifications (sx_db x))"
  have ro: "sso_readonly d u x = ?ro" using js p by (simp add: sso_readonly_def)
  have k: "jp_user p = us_pk u" using p by (auto simp: sso_profile_def dest: get_row_SomeD)
  note W = sso_profile_write_identity [OF p js] and S = user_save_identity [OF save]
  obtain q where q: "get_row jp_user (us_pk u) (db_profiles (sso_profile_write h d u x)) = Some q"
    "profile_identity q = profile_identity (if ud_birthdate d = None \<or> ''birthdate'' \<in> set ?ro then p else p\<lparr>jp_birthdate := ud_birthdate d\<rparr>)"
    using W(1) [of h] unfolding ro by blast
  obtain p' where p': "sso_profile u' x' = Some p'" "profile_identity p' = profile_identity q"
    using get_row_map_identity [OF S(1), of "us_pk u"] q(1) by (auto simp: sso_profile_def u')
  have names: "''first_name'' \<in> set ?ro \<longrightarrow> us_first_name u' = us_first_name u"
    "''last_name'' \<in> set ?ro \<longrightarrow> us_last_name u' = us_last_name u" "''title'' \<in> set ?ro \<longrightarrow> us_title u' = us_title u"
    using apply_user_data_readonly [of ?ro d u] by (simp_all add: u' ro)
  then have id: "identity_kept ?ro d (u, p) (u', p')" using p'(2) q(2) by (simp add: identity_kept_def)
  have "get_row jp_user j (db_profiles (sx_db x')) = get_row jp_user j (db_profiles (sx_db x))" if "j \<noteq> us_pk u" for j
    using S(2) [of j] W(2) [OF that, of h] that by simp
  moreover have "c \<in> set (db_certifications (sx_db x'))" if "c \<in> set (db_certifications (sx_db x))" "ic_certifier c = API_PARTICULIER" for c
    using S(3) [OF sso_profile_write_certifications [OF that] that(2)] .
  moreover have "us_first_name u' = us_first_name u \<and> us_last_name u' = us_last_name u \<and> us_title u' = us_title u \<and>
      jp_birthdate p' = jp_birthdate p"
    if c: "c \<in> set (db_certifications (sx_db x))" "ic_certifier c = API_PARTICULIER" "ic_jobseeker_profile c = us_pk u" for c
  proof -
    have "f \<in> set ?ro" if "f \<in> {''first_name'', ''last_name'', ''title'', ''birthdate''}" for f
      using certified_readonly [OF c(1) _ c(2) that] c(3) k by simp
    then have "''birthdate'' \<in> set ?ro" "''first_name'' \<in> set ?ro" "''last_name'' \<in> set ?ro" "''title'' \<in> set ?ro" by simp_all
    then show ?thesis using names p'(2) q(2) by (simp add: profile_identity_def)
  qed
  ultimately show ?thesis using p p'(1) id by blast
qed

end
