(* ===== verification/Sso_Views.thy ===== *)
theory Sso_Views
  imports Sso_Login Invitations
begin

text \<open>
  The callbacks of \<open>openid_connect/pro_connect/views.py\<close>, \<open>france_connect/views.py\<close> and \<open>ft_connect/views.py\<close>: what a
  browser coming back from the provider changes.  The answers of the provider (tokens, decoded tokens, claims) are
  arguments.  A page stands for a redirection; the messages and the end of the session at the provider are not
  modelled, nor is the date of the last login.  An exception that is not caught rolls the request back.
\<close>

section \<open>Answers of the providers, state of the site\<close>

record token_data =
  tk_access_token :: "string option"
  tk_id_token :: "string option"

record id_token =
  it_nonce :: "string option"
  it_amr :: "string list"

record user_info =
  ui_claims :: "string \<Rightarrow> string option"
  ui_safir :: string
  ui_idp_id :: string

text \<open>\<open>None\<close> stands for a refused request (tokens, user info), a token that cannot be decoded, a bad signature; \<open>Inl\<close> for an error the view
  does not catch: of the network, of a body that is not JSON, of the keys of FranceConnect, of the user info of a provider that cannot be decoded.  (France Travail
  Connect catches the errors of the network and of its user info: they are \<open>None\<close> there.)\<close>

record sso_services =
  sv_sign :: "string \<Rightarrow> string"
  sv_unsign :: "string \<Rightarrow> string option"
  sv_token :: "string \<Rightarrow> error + token_data option"
  sv_decode :: "string \<Rightarrow> id_token option"
  sv_user_info :: "string \<Rightarrow> error + user_info option"
  sv_allowed_url :: "string \<Rightarrow> bool"
  sv_fromisoformat :: "string \<Rightarrow> date option"
  sv_empty_profile :: "pk \<Rightarrow> jobseeker_profile"
  sv_default_asp_uid :: "pk \<Rightarrow> string"
  sv_company_active :: "pk \<Rightarrow> bool"
  sv_mfa_allowlist :: "string list"
  sv_now :: datetime
  sv_later :: datetime

text \<open>The data kept with a state of ProConnect: of a login (previous page, next page, e-mail, channel) or of a logout.\<close>

datatype pc_data = LOGIN_DATA string "string option" "string option" "string option" | LOGOUT_DATA string

record pc_state = oidc_state +
  ps_data :: pc_data

record site =
  st_sso :: sso_db
  st_pc_states :: "pc_state list"
  st_states :: "identity_provider \<Rightarrow> oidc_state list"
  st_orgs :: "prescriber_org list"
  st_invitations :: invitation_db
  st_authentications :: "(pk \<times> string list \<times> string) list"
  st_session_user :: "pk option"
  st_session_mfa :: bool
  st_signup_nir :: "string option"
  st_imports :: "pk list"

datatype page =
    ERROR_PAGE
  | PROVIDER_PAGE string
  | PREVIOUS_PAGE string
  | PROVIDER_LOGOUT_PAGE string
  | EMAIL_CONFLICT_PAGE
  | JOB_SEEKER_LOGIN_PAGE
  | NO_EMAIL_PAGE
  | NEXT_PAGE "string option"

section \<open>ProConnect\<close>

fun data_item :: "string \<Rightarrow> pc_data \<Rightarrow> error + string option" where
  "data_item k (LOGIN_DATA p n e c) =
     (if k = ''previous_url'' then Inr (Some p) else if k = ''next_url'' then Inr n
      else if k = ''user_email'' then Inr e else if k = ''channel'' then Inr c else Inl (KeyError k))"
| "data_item k (LOGOUT_DATA r) = (if k = ''redirect_url'' then Inr (Some r) else Inl (KeyError k))"

definition previous_url :: "pc_data \<Rightarrow> error + string" where
  "previous_url d = rbind (data_item ''previous_url'' d) (\<lambda>p. Inr (case p of None \<Rightarrow> [] | Some u \<Rightarrow> u))"

text \<open>\<open>if pc_session_email and pc_session_email.lower() != pc_user_data.email.lower()\<close>\<close>

definition other_email :: "pc_data \<Rightarrow> oidc_user_data \<Rightarrow> bool" where
  "other_email pd d \<longleftrightarrow>
     (case data_item ''user_email'' pd of Inr (Some e) \<Rightarrow> e \<noteq> [] \<and> py_lower e \<noteq> py_lower (ud_email d) | _ \<Rightarrow> False)"

text \<open>The answer to the exceptions of \<open>create_or_update_user\<close>: the user to log in, if any.\<close>

datatype login_answer = LOG_IN user | REFUSED | GO page

definition pc_login_answer ::
  "pc_data \<Rightarrow> oidc_user_data \<Rightarrow> sso_db \<Rightarrow> error + user \<times> bool \<times> sso_db \<Rightarrow> error + login_answer \<times> sso_db" where
  "pc_login_answer pd d x r =
     (case r of
        Inr (u, _, x') \<Rightarrow> Inr (LOG_IN u, x')
      | Inl e \<Rightarrow>
          if e = InactiveUserException then Inr (REFUSED, x)
          else if e = InvalidKindException
          then (if list_ex (same_email (ud_email d)) (db_users (sx_db x)) then Inr (REFUSED, x) else Inl (DoesNotExist ''User''))
          else if e = EmailInUseException then Inr (GO EMAIL_CONFLICT_PAGE, x)
          else if e = MultipleUsersFoundException
          then (case find_by_sub d (db_users (sx_db x)) of None \<Rightarrow> Inl e | Some u \<Rightarrow> Inr (LOG_IN u, x))
          else if e = RegisterForbiddenException then rbind (previous_url pd) (\<lambda>p. Inr (GO (PREVIOUS_PAGE p), x))
          else Inl e)"

text \<open>\<open>join_org\<close>; an unknown code is only reported.\<close>

definition join_org :: "datetime \<Rightarrow> user \<Rightarrow> string \<Rightarrow> site \<Rightarrow> error + site" where
  "join_org now u safir st =
     rbind (guard (is_professional u) (ValueError ''Invalid user kind'')) (\<lambda>_.
     case get_row po_code_safir (Some safir) (st_orgs st) of
       None \<Rightarrow> Inl (DoesNotExist ''PrescriberOrganization'')
     | Some org \<Rightarrow>
         let us = db_users (sx_db (st_sso st)); inv = st_invitations st in
         if has_member us (nv_memberships inv PRESCRIBER_INVITATION) (po_pk org) (us_pk u) then Inr st
         else rbind (join_organization now us PRESCRIBER_INVITATION (po_pk org) u inv) (\<lambda>inv'.
              Inr (st\<lparr>st_invitations := inv'\<rparr>)))"

definition pc_join :: "datetime \<Rightarrow> user \<Rightarrow> string \<Rightarrow> site \<Rightarrow> error + site" where
  "pc_join now u safir st =
     (if is_professional u \<and> safir \<noteq> []
      then (case join_org now u safir st of
              Inl e \<Rightarrow> if e = DoesNotExist ''PrescriberOrganization'' then Inr st else Inl e
            | Inr st' \<Rightarrow> Inr st')
      else Inr st)"

text \<open>The end of a successful callback: the record of the authentication, the session, the second factor and the
  invitations.\<close>

definition pc_open_session :: "sso_services \<Rightarrow> user \<Rightarrow> string list \<Rightarrow> string \<Rightarrow> site \<Rightarrow> error + site" where
  "pc_open_session sv u amr idp_id st =
     (let st1 = st\<lparr>st_authentications := st_authentications st @ [(us_pk u, amr, idp_id)], st_session_user := Some (us_pk u),
            st_session_mfa := (''mfa'' \<in> set amr \<or> idp_id \<in> set (sv_mfa_allowlist sv))\<rparr> in
      rbind (accept_all_pending_invitations (sv_company_active sv) (sv_now sv) (db_users (sx_db (st_sso st1))) u
        (st_invitations st1)) (\<lambda>(_, inv). Inr (st1\<lparr>st_invitations := inv\<rparr>)))"

definition pc_finish :: "sso_services \<Rightarrow> pc_data \<Rightarrow> oidc_user_data \<Rightarrow> id_token \<Rightarrow> user_info \<Rightarrow> site \<Rightarrow> error + page \<times> site" where
  "pc_finish sv pd d tok info st =
     rbind (data_item ''channel'' pd) (\<lambda>channel.
     rbind (pc_login_answer pd d (st_sso st)
        (create_or_update_user (sv_empty_profile sv) (sv_default_asp_uid sv) (sv_now sv) (channel = Some ''nexus'') d
           (st_sso st))) (\<lambda>(answer, x).
     let st1 = st\<lparr>st_sso := x\<rparr> in
     case answer of
       GO p \<Rightarrow> Inr (p, st1)
     | REFUSED \<Rightarrow> rbind (previous_url pd) (\<lambda>p. Inr (PROVIDER_LOGOUT_PAGE p, st1))
     | LOG_IN u \<Rightarrow>
         if other_email pd d then rbind (previous_url pd) (\<lambda>p. Inr (PROVIDER_LOGOUT_PAGE p, st1))
         else rbind (pc_join (sv_now sv) u (ui_safir info) st1) (\<lambda>st2.
              rbind (pc_open_session sv u (it_amr tok) (ui_idp_id info) st2) (\<lambda>st3.
              rbind (data_item ''next_url'' pd) (\<lambda>n. Inr (NEXT_PAGE n, st3))))))"

text \<open>The exchange that gives the decoded token and the claims: \<open>Inr None\<close> leads to the error page.\<close>

definition token_exchange ::
  "sso_services \<Rightarrow> string option \<Rightarrow> string \<Rightarrow> error + (id_token \<times> user_info) option" where
  "token_exchange sv nonce code =
     rbind (sv_token sv code) (\<lambda>answer.
     case answer of
        None \<Rightarrow> Inr None
      | Some t \<Rightarrow>
          (case tk_access_token t of
             None \<Rightarrow> Inr None
           | Some access \<Rightarrow>
               if access = [] then Inr None
               else (case tk_id_token t of
                  None \<Rightarrow> Inl (KeyError ''id_token'')
                | Some i \<Rightarrow>
                    (case sv_decode sv i of
                       None \<Rightarrow> Inr None
                     | Some tok \<Rightarrow>
                         if it_nonce tok \<noteq> nonce then Inr None
                         else rbind (sv_user_info sv access) (\<lambda>user_data. case user_data of
                            None \<Rightarrow> Inr None
                          | Some info \<Rightarrow> if ui_claims info ''sub'' = None then Inr None else Inr (Some (tok, info)))))))"

text \<open>The start of a login: the state of ProConnect keeps the previous page, which is already safe, and the parameters given.\<close>

definition given :: "string option \<Rightarrow> string option" where
  "given x = (if x = Some [] then None else x)"

definition pro_connect_authorize ::
  "sso_services \<Rightarrow> string \<Rightarrow> string \<Rightarrow> string \<Rightarrow> string option \<Rightarrow> string option \<Rightarrow> string option \<Rightarrow> site \<Rightarrow> error + page \<times> site" where
  "pro_connect_authorize sv token nonce previous next_url user_email channel st =
     (if (case given next_url of None \<Rightarrow> False | Some u \<Rightarrow> \<not> sv_allowed_url sv u) then Inr (ERROR_PAGE, st)
      else rbind (save_state (sv_sign sv) \<lparr>os_created_at = sv_now sv, os_used_at = None, os_state = token, os_nonce = Some nonce,
          ps_data = LOGIN_DATA previous next_url (given user_email) (given channel)\<rparr> (st_pc_states st)) (\<lambda>(signed, states).
        Inr (PROVIDER_PAGE signed, st\<lparr>st_pc_states := states\<rparr>)))"

definition pro_connect_callback :: "sso_services \<Rightarrow> string option \<Rightarrow> string option \<Rightarrow> site \<Rightarrow> error + page \<times> site" where
  "pro_connect_callback sv code state st =
     (case (code, state) of
        (Some c, Some signed) \<Rightarrow>
          (case get_from_state (sv_unsign sv) signed (st_pc_states st) of
             None \<Rightarrow> Inr (ERROR_PAGE, st)
           | Some s \<Rightarrow>
               (case state_is_valid (sv_now sv) (sv_later sv) s (st_pc_states st) of
                  (valid, states) \<Rightarrow>
                    let st1 = st\<lparr>st_pc_states := states\<rparr> in
                    if \<not> valid then Inr (ERROR_PAGE, st1)
                    else rbind (token_exchange sv (os_nonce s) c) (\<lambda>answer.
                      case answer of
                        None \<Rightarrow> Inr (ERROR_PAGE, st1)
                      | Some (tok, info) \<Rightarrow>
                          rbind (from_user_info (sv_fromisoformat sv) IDP_PRO_CONNECT (ui_claims info)) (\<lambda>d.
                          pc_finish sv (ps_data s) d tok info st1))))
      | _ \<Rightarrow> Inr (ERROR_PAGE, st))"

definition pro_connect_logout :: "(string \<Rightarrow> string) \<Rightarrow> string \<Rightarrow> datetime \<Rightarrow> string \<Rightarrow> site \<Rightarrow> error + string \<times> site" where
  "pro_connect_logout sign token now redirect_url st =
     rbind (save_state sign \<lparr>os_created_at = now, os_used_at = None, os_state = token, os_nonce = None,
        ps_data = LOGOUT_DATA redirect_url\<rparr> (st_pc_states st)) (\<lambda>(signed, states).
     Inr (signed, st\<lparr>st_pc_states := states\<rparr>))"

definition pro_connect_logout_callback :: "sso_services \<Rightarrow> string option \<Rightarrow> site \<Rightarrow> error + page \<times> site" where
  "pro_connect_logout_callback sv state st =
     (case state of
        None \<Rightarrow> Inr (ERROR_PAGE, st)
      | Some signed \<Rightarrow>
          (case get_from_state (sv_unsign sv) signed (st_pc_states st) of
             None \<Rightarrow> Inr (ERROR_PAGE, st)
           | Some s \<Rightarrow>
               (case state_is_valid (sv_now sv) (sv_later sv) s (st_pc_states st) of
                  (valid, states) \<Rightarrow>
                    if \<not> valid then Inr (ERROR_PAGE, st\<lparr>st_pc_states := states\<rparr>)
                    else rbind (data_item ''redirect_url'' (ps_data s)) (\<lambda>r.
                      Inr (NEXT_PAGE r, st\<lparr>st_pc_states := states\<rparr>)))))"

section \<open>FranceConnect and France Travail Connect\<close>

definition init_user_nir_from_session :: "(pk \<Rightarrow> string) \<Rightarrow> user \<Rightarrow> site \<Rightarrow> error + site" where
  "init_user_nir_from_session default_asp_uid u st =
     (case st_signup_nir st of
        None \<Rightarrow> Inr st
      | Some nir \<Rightarrow>
          (case sso_profile u (st_sso st) of
             None \<Rightarrow> Inl (DoesNotExist ''jobseeker_profile'')
           | Some p \<Rightarrow> Inr (st\<lparr>st_sso := (st_sso st)\<lparr>sx_db := profile_save default_asp_uid p
                 (p\<lparr>jp_nir := nir, jp_lack_of_nir_reason := None\<rparr>) (sx_db (st_sso st))\<rparr>, st_signup_nir := None\<rparr>)))"

definition js_error_page :: "error \<Rightarrow> page option" where
  "js_error_page e =
     (if e \<in> {InactiveUserException, InvalidKindException, MultipleSubSameEmailException, MultipleUsersFoundException}
      then Some JOB_SEEKER_LOGIN_PAGE
      else if e = EmailInUseException then Some EMAIL_CONFLICT_PAGE else None)"

text \<open>The common end of the two callbacks: \<open>after\<close> is what is done between the user and the session.\<close>

definition js_finish ::
  "sso_services \<Rightarrow> (user \<Rightarrow> site \<Rightarrow> error + site) \<Rightarrow> string option \<Rightarrow> oidc_user_data \<Rightarrow> site \<Rightarrow> error + page \<times> site" where
  "js_finish sv after id_token d st =
     (case create_or_update_user (sv_empty_profile sv) (sv_default_asp_uid sv) (sv_now sv) False d (st_sso st) of
        Inl e \<Rightarrow> (case js_error_page e of None \<Rightarrow> Inl e | Some p \<Rightarrow> Inr (p, st))
      | Inr (u, _, x) \<Rightarrow>
          rbind (init_user_nir_from_session (sv_default_asp_uid sv) u (st\<lparr>st_sso := x\<rparr>)) (\<lambda>st1.
          rbind (after u st1) (\<lambda>st2.
          rbind (guard (id_token \<noteq> None) (KeyError ''id_token'')) (\<lambda>_.
          Inr (NEXT_PAGE None, st2\<lparr>st_session_user := Some (us_pk u)\<rparr>)))))"

definition fc_exchange ::
  "sso_services \<Rightarrow> string option \<Rightarrow> string \<Rightarrow> error + (string option \<times> user_info) option" where
  "fc_exchange sv nonce code =
     rbind (sv_token sv code) (\<lambda>answer.
     case answer of
        None \<Rightarrow> Inr None
      | Some t \<Rightarrow>
          (case tk_id_token t of
             None \<Rightarrow> Inl (KeyError ''id_token'')
           | Some i \<Rightarrow>
               (case sv_decode sv i of
                  None \<Rightarrow> Inr None
                | Some tok \<Rightarrow>
                    if it_nonce tok \<noteq> nonce \<or> tk_access_token t \<in> {None, Some []} then Inr None
                    else rbind (sv_user_info sv (the (tk_access_token t))) (\<lambda>user_data. case user_data of
                       None \<Rightarrow> Inr None
                     | Some info \<Rightarrow> if ui_claims info ''sub'' = None then Inr None else Inr (Some (Some i, info))))))"

definition save_provider_state ::
  "sso_services \<Rightarrow> identity_provider \<Rightarrow> string \<Rightarrow> string option \<Rightarrow> site \<Rightarrow> error + page \<times> site" where
  "save_provider_state sv p token nonce st =
     rbind (save_state (sv_sign sv) \<lparr>os_created_at = sv_now sv, os_used_at = None, os_state = token, os_nonce = nonce\<rparr>
        (st_states st p)) (\<lambda>(signed, states).
     Inr (PROVIDER_PAGE signed, st\<lparr>st_states := (st_states st)(p := states)\<rparr>))"

definition france_connect_authorize :: "sso_services \<Rightarrow> string \<Rightarrow> string \<Rightarrow> site \<Rightarrow> error + page \<times> site" where
  "france_connect_authorize sv token nonce st = save_provider_state sv IDP_FRANCE_CONNECT token (Some nonce) st"

definition ft_connect_authorize :: "sso_services \<Rightarrow> string \<Rightarrow> string \<Rightarrow> site \<Rightarrow> error + page \<times> site" where
  "ft_connect_authorize sv token nonce st = save_provider_state sv IDP_FT_CONNECT token (Some nonce) st"

text \<open>A logout without the token of the provider is answered with the status 400, here the error page.\<close>

definition france_connect_logout :: "sso_services \<Rightarrow> string \<Rightarrow> string option \<Rightarrow> site \<Rightarrow> error + page \<times> site" where
  "france_connect_logout sv token id_token st =
     (if given id_token = None then Inr (ERROR_PAGE, st) else save_provider_state sv IDP_FRANCE_CONNECT token None st)"

definition france_connect_callback :: "sso_services \<Rightarrow> string option \<Rightarrow> string option \<Rightarrow> site \<Rightarrow> error + page \<times> site" where
  "france_connect_callback sv code state st =
     (case get_from_state (sv_unsign sv) (case state of None \<Rightarrow> [] | Some s \<Rightarrow> s) (st_states st IDP_FRANCE_CONNECT) of
        None \<Rightarrow> Inr (JOB_SEEKER_LOGIN_PAGE, st)
      | Some s \<Rightarrow>
          (case state_is_valid (sv_now sv) (sv_later sv) s (st_states st IDP_FRANCE_CONNECT) of
             (valid, states) \<Rightarrow>
               let st1 = st\<lparr>st_states := (st_states st)(IDP_FRANCE_CONNECT := states)\<rparr> in
               if \<not> valid then Inr (JOB_SEEKER_LOGIN_PAGE, st1)
               else (case code of
                  None \<Rightarrow> Inr (JOB_SEEKER_LOGIN_PAGE, st1)
                | Some c \<Rightarrow> rbind (fc_exchange sv (os_nonce s) c) (\<lambda>answer.
                    case answer of
                      None \<Rightarrow> Inr (JOB_SEEKER_LOGIN_PAGE, st1)
                    | Some (id_token, info) \<Rightarrow>
                        rbind (from_user_info (sv_fromisoformat sv) IDP_FRANCE_CONNECT (ui_claims info)) (\<lambda>d.
                        js_finish sv (\<lambda>_. Inr) id_token d st1)))))"

text \<open>France Travail Connect never reads the nonce of the token.\<close>

definition ft_exchange :: "sso_services \<Rightarrow> string \<Rightarrow> error + (string option \<times> user_info) option" where
  "ft_exchange sv code =
     rbind (sv_token sv code) (\<lambda>answer.
     case answer of
        None \<Rightarrow> Inr None
      | Some t \<Rightarrow>
          (case tk_access_token t of
             None \<Rightarrow> Inr None
           | Some access \<Rightarrow> rbind (sv_user_info sv access) (\<lambda>user_data. case user_data of
                  None \<Rightarrow> Inr None
                | Some info \<Rightarrow> if ui_claims info ''sub'' = None then Inr None else Inr (Some (tk_id_token t, info)))))"

definition ft_import :: "(pk \<Rightarrow> bool) \<Rightarrow> user \<Rightarrow> site \<Rightarrow> error + site" where
  "ft_import has_address u st =
     (case sso_profile u (st_sso st) of
        None \<Rightarrow> Inl (DoesNotExist ''jobseeker_profile'')
      | Some p \<Rightarrow> Inr (if jp_birthdate p = None \<or> \<not> has_address (us_pk u)
          then st\<lparr>st_imports := st_imports st @ [us_pk u]\<rparr> else st))"

definition ft_connect_callback ::
  "sso_services \<Rightarrow> (pk \<Rightarrow> bool) \<Rightarrow> string option \<Rightarrow> string option \<Rightarrow> site \<Rightarrow> error + page \<times> site" where
  "ft_connect_callback sv has_address code state st =
     (case code of
        None \<Rightarrow> Inr (JOB_SEEKER_LOGIN_PAGE, st)
      | Some c \<Rightarrow>
     (case get_from_state (sv_unsign sv) (case state of None \<Rightarrow> [] | Some s \<Rightarrow> s) (st_states st IDP_FT_CONNECT) of
        None \<Rightarrow> Inr (JOB_SEEKER_LOGIN_PAGE, st)
      | Some s \<Rightarrow>
          (case state_is_valid (sv_now sv) (sv_later sv) s (st_states st IDP_FT_CONNECT) of
             (valid, states) \<Rightarrow>
               let st1 = st\<lparr>st_states := (st_states st)(IDP_FT_CONNECT := states)\<rparr> in
               if \<not> valid then Inr (JOB_SEEKER_LOGIN_PAGE, st1)
               else rbind (ft_exchange sv c) (\<lambda>answer. case answer of
                  None \<Rightarrow> Inr (JOB_SEEKER_LOGIN_PAGE, st1)
                | Some (id_token, info) \<Rightarrow>
                    (case from_user_info (sv_fromisoformat sv) IDP_FT_CONNECT (ui_claims info) of
                       Inl e \<Rightarrow> (case e of KeyError k \<Rightarrow> Inr (if k = ''email'' then NO_EMAIL_PAGE else ERROR_PAGE, st1) | _ \<Rightarrow> Inl e)
                     | Inr d \<Rightarrow> js_finish sv (ft_import has_address) id_token d st1)))))"

definition france_connect_logout_callback :: "sso_services \<Rightarrow> string option \<Rightarrow> site \<Rightarrow> page \<times> site" where
  "france_connect_logout_callback sv state st =
     (case get_from_state (sv_unsign sv) (case state of None \<Rightarrow> [] | Some s \<Rightarrow> s) (st_states st IDP_FRANCE_CONNECT) of
        None \<Rightarrow> (ERROR_PAGE, st)
      | Some s \<Rightarrow> (NEXT_PAGE None, st\<lparr>st_states := (st_states st)(IDP_FRANCE_CONNECT :=
          snd (state_is_valid (sv_now sv) (sv_later sv) s (st_states st IDP_FRANCE_CONNECT)))\<rparr>))"

text \<open>\<open>cleanup_oidc_states\<close>, the command over the three tables.\<close>

definition cleanup_oidc_states :: "datetime \<Rightarrow> site \<Rightarrow> site" where
  "cleanup_oidc_states now st =
     st\<lparr>st_states := (\<lambda>p. cleanup_states now None (st_states st p)), st_pc_states := cleanup_states now None (st_pc_states st)\<rparr>"

end
