(* ===== verification/Sso_Sessions.thy ===== *)
theory Sso_Sessions
  imports Sso_Views
begin

text \<open>
  The one-time states behind the callbacks.  The locale \<open>one_time\<close> holds what the three callbacks share: a
  session is only opened by a row of the states that is unused and fresh, and the row is then used.
\<close>

definition spent :: "string \<Rightarrow> 'a oidc_state_scheme list \<Rightarrow> bool" where
  "spent t states \<longleftrightarrow> (\<forall>r \<in> set states. os_state r = t \<longrightarrow> os_used_at r \<noteq> None)"

fun opens_session :: "error + page \<times> site \<Rightarrow> bool" where
  "opens_session (Inr (NEXT_PAGE n, st)) \<longleftrightarrow> True"
| "opens_session _ \<longleftrightarrow> False"

lemma opens_session_iff: "opens_session r \<longleftrightarrow> (\<exists>n st. r = Inr (NEXT_PAGE n, st))"
  by (cases r rule: opens_session.cases) auto

lemma spent_cleanup: "spent t states \<Longrightarrow> spent t (cleanup_states now at states)"
  by (simp add: spent_def cleanup_states_def Let_def)

lemma spent_valid: "spent t states \<Longrightarrow> spent t (snd (state_is_valid now later s states))"
  by (auto simp: spent_def state_is_valid_def set_map_rows split: if_splits)

lemma spent_save:
  assumes "save_state sign s states = Inr (signed, states')" "os_state s \<noteq> t" "spent t states"
  shows "spent t states'"
  using assms by (auto simp: spent_def save_state_def split: if_splits)

lemma valid_spends:
  assumes "state_is_valid now later s states = (True, states')"
  shows "spent (os_state s) states'" "os_used_at s = None" "later < os_created_at s + oidc_state_expiration"
  using assms by (auto simp: spent_def state_is_valid_def set_map_rows split: if_splits)

locale one_time =
  fixes callback :: "sso_services \<Rightarrow> string option \<Rightarrow> string option \<Rightarrow> site \<Rightarrow> error + page \<times> site"
    and states :: "site \<Rightarrow> 'x oidc_state_scheme list"
  assumes opened: "callback sv code state st = Inr (NEXT_PAGE n, st') \<Longrightarrow>
      \<exists>signed s. state = Some signed \<and> get_from_state (sv_unsign sv) signed (states st) = Some s \<and>
        state_is_valid (sv_now sv) (sv_later sv) s (states st) = (True, states st')"
    and kept: "callback sv code state st = Inr (p, st') \<Longrightarrow>
      states st' = states st \<or> (\<exists>s. states st' = snd (state_is_valid (sv_now sv) (sv_later sv) s (states st)))"
begin

lemma keeps_spent: "spent t (states st) \<Longrightarrow> callback sv code state st = Inr (p, st') \<Longrightarrow> spent t (states st')"
  using kept spent_valid by metis

lemma opened_fresh:
  assumes "callback sv code state st = Inr (NEXT_PAGE n, st')"
  shows "\<exists>signed. state = Some signed \<and> (case get_from_state (sv_unsign sv) signed (states st) of None \<Rightarrow> False
    | Some s \<Rightarrow> os_used_at s = None \<and> sv_later sv < os_created_at s + 30 * one_day)"
  using opened [OF assms] valid_spends(2,3) by (fastforce simp: oidc_state_expiration_def)

lemma opening_spends:
  assumes "callback sv code (Some signed) st = Inr (NEXT_PAGE n, st')"
  shows "\<exists>t. sv_unsign sv signed = Some t \<and> spent t (states st')"
proof -
  obtain s where s: "get_from_state (sv_unsign sv) signed (states st) = Some s"
    "state_is_valid (sv_now sv) (sv_later sv) s (states st) = (True, states st')"
    using opened [OF assms] by auto
  obtain t where t: "sv_unsign sv signed = Some t" "get_row os_state t (states st) = Some s"
    using s(1) by (auto simp: get_from_state_def split: if_splits option.splits)
  have "os_state s = t" using get_row_SomeD [OF t(2)] by simp
  then show ?thesis using t(1) valid_spends(1) [OF s(2)] by auto
qed

lemma spent_is_refused:
  assumes "spent t (states st)" "sv_unsign sv signed = Some t"
  shows "\<not> opens_session (callback sv code (Some signed) st)"
proof
  assume "opens_session (callback sv code (Some signed) st)"
  then obtain n st' where "callback sv code (Some signed) st = Inr (NEXT_PAGE n, st')" by (auto simp: opens_session_iff)
  from opened [OF this] obtain s where s: "get_from_state (sv_unsign sv) signed (states st) = Some s"
    "state_is_valid (sv_now sv) (sv_later sv) s (states st) = (True, states st')" by auto
  have "s \<in> set (states st) \<and> os_state s = t"
    using s(1) assms(2) by (auto simp: get_from_state_def dest: get_row_SomeD split: if_splits)
  then show False using assms(1) valid_spends(2) [OF s(2)] by (auto simp: spent_def)
qed

end

section \<open>The callbacks\<close>

lemma join_org_states: "join_org now u safir st = Inr st' \<Longrightarrow> st_pc_states st' = st_pc_states st \<and> st_states st' = st_states st"
  by (auto simp: join_org_def Let_def split: option.splits if_splits)

lemma pc_join_states: "pc_join now u safir st = Inr st' \<Longrightarrow> st_pc_states st' = st_pc_states st \<and> st_states st' = st_states st"
  by (auto simp: pc_join_def dest: join_org_states split: if_splits sum.splits)

lemma pc_open_session_states:
  "pc_open_session sv u amr i st = Inr st' \<Longrightarrow> st_pc_states st' = st_pc_states st \<and> st_states st' = st_states st"
  by (auto simp: pc_open_session_def Let_def)

lemma pc_finish_states:
  assumes "pc_finish sv pd d tok info st = Inr (p, st')"
  shows "st_pc_states st' = st_pc_states st \<and> st_states st' = st_states st"
proof -
  obtain c answer x where "pc_login_answer pd d (st_sso st)
      (create_or_update_user (sv_empty_profile sv) (sv_default_asp_uid sv) (sv_now sv) c d (st_sso st)) = Inr (answer, x)"
    and a: "(case answer of
       GO p \<Rightarrow> Inr (p, st\<lparr>st_sso := x\<rparr>)
     | REFUSED \<Rightarrow> rbind (previous_url pd) (\<lambda>p. Inr (PROVIDER_LOGOUT_PAGE p, st\<lparr>st_sso := x\<rparr>))
     | LOG_IN u \<Rightarrow>
         if other_email pd d then rbind (previous_url pd) (\<lambda>p. Inr (PROVIDER_LOGOUT_PAGE p, st\<lparr>st_sso := x\<rparr>))
         else rbind (pc_join (sv_now sv) u (ui_safir info) (st\<lparr>st_sso := x\<rparr>)) (\<lambda>st2.
              rbind (pc_open_session sv u (it_amr tok) (ui_idp_id info) st2) (\<lambda>st3.
              rbind (data_item ''next_url'' pd) (\<lambda>n. Inr (NEXT_PAGE n, st3))))) = Inr (p, st')"
    using assms by (auto simp: pc_finish_def Let_def)
  then show ?thesis
    by (cases answer) (auto dest!: pc_join_states pc_open_session_states split: if_splits)
qed

lemma init_nir_states: "init_user_nir_from_session h u st = Inr st' \<Longrightarrow> st_pc_states st' = st_pc_states st \<and> st_states st' = st_states st"
  by (auto simp: init_user_nir_from_session_def split: option.splits)

lemma ft_import_states: "ft_import ha u st = Inr st' \<Longrightarrow> st_pc_states st' = st_pc_states st \<and> st_states st' = st_states st"
  by (auto simp: ft_import_def split: option.splits if_splits)

lemma js_finish_states:
  assumes "js_finish sv after i d st = Inr (p, st')"
    and "\<And>u a b. after u a = Inr b \<Longrightarrow> st_pc_states b = st_pc_states a \<and> st_states b = st_states a"
  shows "st_pc_states st' = st_pc_states st \<and> st_states st' = st_states st"
  using assms(1) by (auto simp: js_finish_def dest!: init_nir_states assms(2) split: sum.splits option.splits prod.splits)

lemma ft_finish_states:
  "Inr (p, st') = js_finish sv (ft_import ha) i d st \<Longrightarrow> st_pc_states st' = st_pc_states st \<and> st_states st' = st_states st"
  by (drule sym) (rule js_finish_states, assumption, rule ft_import_states)

lemma pc_callback_cases:
  assumes "pro_connect_callback sv code state st = Inr (p, st')"
  obtains (refused) "p = ERROR_PAGE" "st' = st"
  | (used) signed s where "state = Some signed" "get_from_state (sv_unsign sv) signed (st_pc_states st) = Some s"
      "st_pc_states st' = snd (state_is_valid (sv_now sv) (sv_later sv) s (st_pc_states st))" "st_states st' = st_states st"
      "(\<exists>n. p = NEXT_PAGE n) \<longrightarrow> fst (state_is_valid (sv_now sv) (sv_later sv) s (st_pc_states st))"
proof (cases "code = None \<or> state = None \<or> get_from_state (sv_unsign sv) (the state) (st_pc_states st) = None")
  case True
  then show thesis using assms refused by (auto simp: pro_connect_callback_def split: option.splits)
next
  case False
  then obtain c signed s where q: "code = Some c" "state = Some signed" "get_from_state (sv_unsign sv) signed (st_pc_states st) = Some s"
    by auto
  obtain valid rows where v: "state_is_valid (sv_now sv) (sv_later sv) s (st_pc_states st) = (valid, rows)" by fastforce
  show thesis
  proof (rule used [OF q(2,3)])
    show "st_pc_states st' = snd (state_is_valid (sv_now sv) (sv_later sv) s (st_pc_states st))" "st_states st' = st_states st"
      using assms q v by (auto simp: pro_connect_callback_def Let_def dest!: pc_finish_states split: if_splits option.splits)
    show "(\<exists>n. p = NEXT_PAGE n) \<longrightarrow> fst (state_is_valid (sv_now sv) (sv_later sv) s (st_pc_states st))"
      using assms q v by (auto simp: pro_connect_callback_def Let_def split: if_splits)
  qed
qed

lemma ft_callback_states:
  assumes "get_from_state (sv_unsign sv) signed (st_states st IDP_FT_CONNECT) = Some s"
    and "ft_connect_callback sv ha (Some c) (Some signed) st = Inr (p, st')"
    and "state_is_valid (sv_now sv) (sv_later sv) s (st_states st IDP_FT_CONNECT) = (valid, rows)"
  shows "st_states st' = (st_states st)(IDP_FT_CONNECT := rows) \<and> st_pc_states st' = st_pc_states st \<and>
    ((\<exists>n. p = NEXT_PAGE n) \<longrightarrow> valid)"
proof (cases valid)
  case False
  then show ?thesis using assms by (auto simp: ft_connect_callback_def Let_def)
next
  case True
  then obtain answer where x: "ft_exchange sv c = Inr answer"
    using assms by (cases "ft_exchange sv c") (auto simp: ft_connect_callback_def Let_def)
  show ?thesis
  proof (cases answer)
    case None
    then show ?thesis using True assms x by (auto simp: ft_connect_callback_def Let_def)
  next
    case (Some a)
    obtain i info where a: "a = (i, info)" by (cases a)
    show ?thesis
    proof (cases "from_user_info (sv_fromisoformat sv) IDP_FT_CONNECT (ui_claims info)")
      case (Inl e)
      then show ?thesis using True assms x Some a by (cases e) (auto simp: ft_connect_callback_def Let_def)
    next
      case (Inr d)
      then have "js_finish sv (ft_import ha) i d (st\<lparr>st_states := (st_states st)(IDP_FT_CONNECT := rows)\<rparr>) = Inr (p, st')"
        using True assms x Some a by (simp add: ft_connect_callback_def Let_def)
      from ft_finish_states [OF this [symmetric]] True show ?thesis by simp
    qed
  qed
qed

lemma js_callback_cases:
  assumes "cb = (\<lambda>sv code state st. france_connect_callback sv code state st) \<and> idp = IDP_FRANCE_CONNECT \<or>
      cb = (\<lambda>sv code state st. ft_connect_callback sv ha code state st) \<and> idp = IDP_FT_CONNECT"
    "cb sv code state st = Inr (p, st')"
  obtains (refused) "p = JOB_SEEKER_LOGIN_PAGE" "st' = st"
  | (used) signed s where "state = Some signed" "get_from_state (sv_unsign sv) signed (st_states st idp) = Some s"
      "st_states st' = (st_states st)(idp := snd (state_is_valid (sv_now sv) (sv_later sv) s (st_states st idp)))"
      "st_pc_states st' = st_pc_states st"
      "(\<exists>n. p = NEXT_PAGE n) \<longrightarrow> fst (state_is_valid (sv_now sv) (sv_later sv) s (st_states st idp))"
proof (cases "get_from_state (sv_unsign sv) (case state of None \<Rightarrow> [] | Some s \<Rightarrow> s) (st_states st idp)")
  case None
  then show thesis using assms refused
    by (auto simp: france_connect_callback_def ft_connect_callback_def split: option.splits)
next
  case (Some s)
  then obtain signed where q: "state = Some signed" by (cases state) (auto simp: get_from_state_def)
  obtain valid rows where v: "state_is_valid (sv_now sv) (sv_later sv) s (st_states st idp) = (valid, rows)" by fastforce
  consider (fc) "cb sv code state st = france_connect_callback sv code state st" "idp = IDP_FRANCE_CONNECT"
    | (ft) "cb sv code state st = ft_connect_callback sv ha code state st" "idp = IDP_FT_CONNECT" using assms(1) by blast
  then show thesis
  proof cases
    case fc
    then show thesis using assms(2) q v Some
      by (intro used [of signed s])
        (auto simp: france_connect_callback_def Let_def dest!: js_finish_states split: if_splits option.splits)
  next
    case ft
    show thesis
    proof (cases code)
      case None
      then show thesis using assms(2) ft refused by (auto simp: ft_connect_callback_def)
    next
      case (Some c)
      have g: "get_from_state (sv_unsign sv) signed (st_states st IDP_FT_CONNECT) = Some s"
        and f: "ft_connect_callback sv ha (Some c) (Some signed) st = Inr (p, st')"
        and v': "state_is_valid (sv_now sv) (sv_later sv) s (st_states st IDP_FT_CONNECT) = (valid, rows)"
        using \<open>get_from_state _ _ _ = Some s\<close> q v ft assms(2) Some by simp_all
      from ft_callback_states [OF this] show thesis
        using q g v' ft(2) by (intro used [of signed s]) auto
    qed
  qed
qed

interpretation pc: one_time pro_connect_callback st_pc_states
proof
  fix sv code state st n st' p
  show "pro_connect_callback sv code state st = Inr (NEXT_PAGE n, st') \<Longrightarrow>
      \<exists>signed s. state = Some signed \<and> get_from_state (sv_unsign sv) signed (st_pc_states st) = Some s \<and>
        state_is_valid (sv_now sv) (sv_later sv) s (st_pc_states st) = (True, st_pc_states st')"
    by (erule pc_callback_cases) (auto simp: prod_eq_iff)
  show "pro_connect_callback sv code state st = Inr (p, st') \<Longrightarrow> st_pc_states st' = st_pc_states st \<or>
      (\<exists>s. st_pc_states st' = snd (state_is_valid (sv_now sv) (sv_later sv) s (st_pc_states st)))"
    by (erule pc_callback_cases) auto
qed

interpretation fc: one_time france_connect_callback "\<lambda>st. st_states st IDP_FRANCE_CONNECT"
proof
  fix sv code state st n st' p
  show "france_connect_callback sv code state st = Inr (NEXT_PAGE n, st') \<Longrightarrow>
      \<exists>signed s. state = Some signed \<and> get_from_state (sv_unsign sv) signed (st_states st IDP_FRANCE_CONNECT) = Some s \<and>
        state_is_valid (sv_now sv) (sv_later sv) s (st_states st IDP_FRANCE_CONNECT) = (True, st_states st' IDP_FRANCE_CONNECT)"
    by (erule js_callback_cases [where idp = IDP_FRANCE_CONNECT, rotated]) (auto simp: prod_eq_iff)
  show "france_connect_callback sv code state st = Inr (p, st') \<Longrightarrow>
      st_states st' IDP_FRANCE_CONNECT = st_states st IDP_FRANCE_CONNECT \<or> (\<exists>s. st_states st' IDP_FRANCE_CONNECT =
        snd (state_is_valid (sv_now sv) (sv_later sv) s (st_states st IDP_FRANCE_CONNECT)))"
    by (erule js_callback_cases [where idp = IDP_FRANCE_CONNECT, rotated]) auto
qed

interpretation ft: one_time "\<lambda>sv code state st. ft_connect_callback sv ha code state st" "\<lambda>st. st_states st IDP_FT_CONNECT"
  for ha
proof
  fix sv code state st n st' p
  show "ft_connect_callback sv ha code state st = Inr (NEXT_PAGE n, st') \<Longrightarrow>
      \<exists>signed s. state = Some signed \<and> get_from_state (sv_unsign sv) signed (st_states st IDP_FT_CONNECT) = Some s \<and>
        state_is_valid (sv_now sv) (sv_later sv) s (st_states st IDP_FT_CONNECT) = (True, st_states st' IDP_FT_CONNECT)"
    by (erule js_callback_cases [where idp = IDP_FT_CONNECT and ha = ha, rotated]) (auto simp: prod_eq_iff)
  show "ft_connect_callback sv ha code state st = Inr (p, st') \<Longrightarrow>
      st_states st' IDP_FT_CONNECT = st_states st IDP_FT_CONNECT \<or> (\<exists>s. st_states st' IDP_FT_CONNECT =
        snd (state_is_valid (sv_now sv) (sv_later sv) s (st_states st IDP_FT_CONNECT)))"
    by (erule js_callback_cases [where idp = IDP_FT_CONNECT and ha = ha, rotated]) auto
qed

section \<open>Sequences of requests\<close>

definition serve_callback ::
  "(pk \<Rightarrow> bool) \<Rightarrow> identity_provider \<Rightarrow> sso_services \<Rightarrow> string option \<Rightarrow> string option \<Rightarrow> site \<Rightarrow> error + page \<times> site" where
  "serve_callback ha p sv code state st =
     (if p = IDP_PRO_CONNECT then pro_connect_callback sv code state st
      else if p = IDP_FRANCE_CONNECT then france_connect_callback sv code state st
      else if p = IDP_FT_CONNECT then ft_connect_callback sv ha code state st
      else Inl Http404)"

datatype sso_request =
    CALLBACK identity_provider "string option" "string option"
  | PC_LOGOUT_CALLBACK "string option"
  | FC_LOGOUT_CALLBACK "string option"
  | CLEANUP_STATES
  | PC_AUTHORIZE string string string "string option" "string option" "string option"
  | FC_AUTHORIZE string string
  | FT_AUTHORIZE string string
  | PC_LOGOUT string string
  | FC_LOGOUT string "string option"

text \<open>The random token of the state that a request writes.\<close>

fun issued_token :: "sso_request \<Rightarrow> string option" where
  "issued_token (PC_AUTHORIZE token _ _ _ _ _) = Some token"
| "issued_token (FC_AUTHORIZE token _) = Some token"
| "issued_token (FT_AUTHORIZE token _) = Some token"
| "issued_token (PC_LOGOUT token _) = Some token"
| "issued_token (FC_LOGOUT token _) = Some token"
| "issued_token _ = None"

fun serve :: "(pk \<Rightarrow> bool) \<Rightarrow> sso_services \<times> sso_request \<Rightarrow> site \<Rightarrow> error + page \<times> site" where
  "serve ha (sv, CALLBACK p code state) st = serve_callback ha p sv code state st"
| "serve ha (sv, PC_LOGOUT_CALLBACK state) st = pro_connect_logout_callback sv state st"
| "serve ha (sv, FC_LOGOUT_CALLBACK state) st = Inr (france_connect_logout_callback sv state st)"
| "serve ha (sv, CLEANUP_STATES) st = Inr (ERROR_PAGE, cleanup_oidc_states (sv_now sv) st)"
| "serve ha (sv, PC_AUTHORIZE token nonce previous next_url user_email channel) st =
     pro_connect_authorize sv token nonce previous next_url user_email channel st"
| "serve ha (sv, FC_AUTHORIZE token nonce) st = france_connect_authorize sv token nonce st"
| "serve ha (sv, FT_AUTHORIZE token nonce) st = ft_connect_authorize sv token nonce st"
| "serve ha (sv, PC_LOGOUT token redirect_url) st =
     rbind (pro_connect_logout (sv_sign sv) token (sv_now sv) redirect_url st) (\<lambda>(signed, st'). Inr (PROVIDER_PAGE signed, st'))"
| "serve ha (sv, FC_LOGOUT token id_token) st = france_connect_logout sv token id_token st"

text \<open>A request that raises leaves the site as it was.\<close>

fun serves :: "(pk \<Rightarrow> bool) \<Rightarrow> (sso_services \<times> sso_request) list \<Rightarrow> site \<Rightarrow> site" where
  "serves ha [] st = st"
| "serves ha (r # rs) st = serves ha rs (case serve ha r st of Inl e \<Rightarrow> st | Inr (p, st') \<Rightarrow> st')"

fun spent_for :: "identity_provider \<Rightarrow> string \<Rightarrow> site \<Rightarrow> bool" where
  "spent_for IDP_PRO_CONNECT t st = spent t (st_pc_states st)"
| "spent_for p t st = spent t (st_states st p)"

lemma callback_keeps_spent:
  assumes "serve_callback ha q sv code state st = Inr (a, st')" "spent_for p t st"
  shows "spent_for p t st'"
proof -
  consider (pc) "pro_connect_callback sv code state st = Inr (a, st')" | (fc) "france_connect_callback sv code state st = Inr (a, st')"
    | (ft) "ft_connect_callback sv ha code state st = Inr (a, st')"
    using assms(1) by (auto simp: serve_callback_def split: if_splits)
  then show ?thesis
  proof cases
    case pc
    then show ?thesis by (rule pc_callback_cases) (use assms(2) in \<open>cases p; auto simp: spent_valid\<close>)+
  next
    case fc
    then show ?thesis
      by (rule js_callback_cases [where idp = IDP_FRANCE_CONNECT, rotated])
        (use assms(2) in \<open>cases p; auto simp: spent_valid\<close>)+
  next
    case ft
    then show ?thesis
      by (rule js_callback_cases [where idp = IDP_FT_CONNECT and ha = ha, rotated])
        (use assms(2) in \<open>cases p; auto simp: spent_valid\<close>)+
  qed
qed

lemma provider_state_keeps_spent:
  assumes "save_provider_state sv q token nonce st = Inr (a, st')" "token \<noteq> t" "spent_for p t st"
  shows "spent_for p t st'"
  using assms by (cases p) (auto simp: save_provider_state_def spent_save)

lemma serve_keeps_spent:
  assumes "serve ha r st = Inr (a, st')" "spent_for p t st" "issued_token (snd r) \<noteq> Some t"
  shows "spent_for p t st'"
proof (cases r)
  case (Pair sv q)
  show ?thesis
  proof (cases q)
    case (CALLBACK i code state)
    then show ?thesis using assms Pair callback_keeps_spent by simp
  next
    case (PC_LOGOUT_CALLBACK state)
    have "\<exists>s. st_states st' = st_states st \<and> (st_pc_states st' = st_pc_states st \<or>
        st_pc_states st' = snd (state_is_valid (sv_now sv) (sv_later sv) s (st_pc_states st)))"
      using assms(1) Pair PC_LOGOUT_CALLBACK
      by (auto simp: pro_connect_logout_callback_def split: option.splits prod.splits if_splits; metis snd_conv)
    then show ?thesis using assms(2) by (cases p) (auto simp: spent_valid)
  next
    case (FC_LOGOUT_CALLBACK state)
    have "\<exists>s. st_pc_states st' = st_pc_states st \<and> (st_states st' = st_states st \<or> st_states st' = (st_states st)(IDP_FRANCE_CONNECT :=
        snd (state_is_valid (sv_now sv) (sv_later sv) s (st_states st IDP_FRANCE_CONNECT))))"
      using assms(1) Pair FC_LOGOUT_CALLBACK
      by (auto simp: france_connect_logout_callback_def split: option.splits)
    then show ?thesis using assms(2) by (cases p) (auto simp: spent_valid)
  next
    case CLEANUP_STATES
    then show ?thesis using assms Pair by (cases p) (auto simp: cleanup_oidc_states_def spent_cleanup)
  next
    case (PC_AUTHORIZE token nonce previous next_url user_email channel)
    then show ?thesis using assms Pair
      by (cases p) (auto simp: pro_connect_authorize_def spent_save split: if_splits option.splits)
  next
    case (FC_AUTHORIZE token nonce)
    then show ?thesis using assms Pair provider_state_keeps_spent by (simp add: france_connect_authorize_def)
  next
    case (FT_AUTHORIZE token nonce)
    then show ?thesis using assms Pair provider_state_keeps_spent by (simp add: ft_connect_authorize_def)
  next
    case (PC_LOGOUT token redirect_url)
    then show ?thesis using assms Pair by (cases p) (auto simp: pro_connect_logout_def spent_save)
  next
    case (FC_LOGOUT token id_token)
    then show ?thesis using assms Pair provider_state_keeps_spent by (auto simp: france_connect_logout_def split: if_splits)
  qed
qed

lemma serves_keeps_spent:
  "spent_for p t st \<Longrightarrow> \<forall>r \<in> set rs. issued_token (snd r) \<noteq> Some t \<Longrightarrow> spent_for p t (serves ha rs st)"
  by (induction rs arbitrary: st) (auto split: sum.splits intro: serve_keeps_spent)

lemma callback_opening_spends:
  assumes "serve_callback ha p sv code (Some signed) st = Inr (NEXT_PAGE n, st')"
  shows "\<exists>t. sv_unsign sv signed = Some t \<and> spent_for p t st'"
  using assms pc.opening_spends fc.opening_spends ft.opening_spends
  by (cases p) (auto simp: serve_callback_def)

lemma spent_callback_refused:
  assumes "spent_for p t st" "sv_unsign sv signed = Some t"
  shows "\<not> opens_session (serve_callback ha p sv code (Some signed) st)"
  using assms pc.spent_is_refused fc.spent_is_refused ft.spent_is_refused
  by (cases p) (simp_all add: serve_callback_def)

end
