(* ===== verification/Sso_Login_Properties.thy ===== *)
theory Sso_Login_Properties
  imports Sso_Login_Effects Sso_Sessions Samples
begin

text \<open>The properties of the login by an identity provider.\<close>


definition sample_sso :: sso_db where
  "sample_sso = \<lparr>sx_db = \<lparr>db_users = [sample_user, sample_professional], db_profiles = [sample_profile],
     db_certifications = [], db_assignments = []\<rparr>, sx_allow_next = [2], sx_history = (\<lambda>_. [])\<rparr>"

definition sample_login :: oidc_user_data where
  "sample_login = \<lparr>ud_email = ''Pro@x.fr'', ud_first_name = ''Ada'', ud_last_name = ''L'', ud_username = ''sub1'',
     ud_identity_provider = IDP_PRO_CONNECT, ud_birthdate = None, ud_title = None\<rparr>"




text \<open>C39.  A callback of a provider opens a session only with a state of this site that was never used
  and is less than thirty days old.  Whatever requests come next (callbacks of any provider, logouts and their callbacks, the cleaning of the tables, starts of other
  logins, in any order), the same state never opens a session of this provider again.  The requests that write a new state draw
  another random token.\<close>

definition state_open :: "identity_provider \<Rightarrow> sso_services \<Rightarrow> string \<Rightarrow> site \<Rightarrow> bool" where
  "state_open p sv signed st =
     (if p = IDP_PRO_CONNECT
      then (case get_from_state (sv_unsign sv) signed (st_pc_states st) of None \<Rightarrow> False
            | Some s \<Rightarrow> os_used_at s = None \<and> sv_later sv < os_created_at s + 30 * one_day)
      else (case get_from_state (sv_unsign sv) signed (st_states st p) of None \<Rightarrow> False
            | Some s \<Rightarrow> os_used_at s = None \<and> sv_later sv < os_created_at s + 30 * one_day))"

theorem state_opens_one_session:
  assumes "serve_callback ha p sv code state st = Inr (NEXT_PAGE n, st1)"
    and "sv_unsign sv' = sv_unsign sv"
    and "\<forall>r \<in> set rs. issued_token (snd r) = None \<or> issued_token (snd r) \<noteq> sv_unsign sv (the state)"
  shows "\<exists>signed. state = Some signed \<and> state_open p sv signed st \<and>
    \<not> opens_session (serve_callback ha p sv' code' (Some signed) (serves ha rs st1))"
proof -
  have "\<exists>signed. state = Some signed \<and> state_open p sv signed st"
  proof (cases p)
    case IDP_PRO_CONNECT
    with assms(1) have "pro_connect_callback sv code state st = Inr (NEXT_PAGE n, st1)" by (simp add: serve_callback_def)
    from pc.opened_fresh [OF this] show ?thesis by (simp only: state_open_def IDP_PRO_CONNECT if_True simp_thms)
  next
    case IDP_FRANCE_CONNECT
    with assms(1) have "france_connect_callback sv code state st = Inr (NEXT_PAGE n, st1)" by (simp add: serve_callback_def)
    from fc.opened_fresh [OF this] show ?thesis by (simp only: state_open_def IDP_FRANCE_CONNECT if_False identity_provider.distinct)
  next
    case IDP_FT_CONNECT
    with assms(1) have "ft_connect_callback sv ha code state st = Inr (NEXT_PAGE n, st1)" by (simp add: serve_callback_def)
    from ft.opened_fresh [OF this] show ?thesis by (simp only: state_open_def IDP_FT_CONNECT if_False identity_provider.distinct)
  qed (use assms(1) in \<open>simp add: serve_callback_def\<close>)
  then obtain signed where signed: "state = Some signed" "state_open p sv signed st" by blast
  obtain t where t: "sv_unsign sv signed = Some t" "spent_for p t st1"
    using callback_opening_spends [OF assms(1) [unfolded signed(1)]] by (elim exE conjE)
  have "sv_unsign sv' signed = Some t" using t(1) assms(2) by simp
  have "\<forall>r \<in> set rs. issued_token (snd r) \<noteq> Some t" using assms(3) signed(1) t(1) by fastforce
  from spent_callback_refused [OF serves_keeps_spent [OF t(2) this] \<open>sv_unsign sv' signed = Some t\<close>]
  show ?thesis using signed by (intro exI [of _ signed] conjI)
qed

definition sample_services :: sso_services where
  "sample_services = \<lparr>sv_sign = (\<lambda>t. t), sv_unsign = Some,
     sv_token = (\<lambda>_. Inr (Some \<lparr>tk_access_token = Some ''a'', tk_id_token = Some ''i''\<rparr>)),
     sv_decode = (\<lambda>_. Some \<lparr>it_nonce = Some ''n'', it_amr = []\<rparr>),
     sv_user_info = (\<lambda>_. Inr (Some \<lparr>ui_claims = [''sub'' \<mapsto> ''sub1'', ''given_name'' \<mapsto> ''Ada'', ''usual_name'' \<mapsto> ''L'',
       ''email'' \<mapsto> ''pro@x.fr''], ui_safir = [], ui_idp_id = []\<rparr>)),
     sv_allowed_url = (\<lambda>_. True), sv_fromisoformat = (\<lambda>_. None),
     sv_empty_profile = (\<lambda>_. sample_profile), sv_default_asp_uid = (\<lambda>_. []), sv_company_active = (\<lambda>_. True),
     sv_mfa_allowlist = [], sv_now = 5, sv_later = 6\<rparr>"

definition sample_site :: site where
  "sample_site = \<lparr>st_sso = sample_sso,
     st_pc_states = [\<lparr>os_created_at = 0, os_used_at = None, os_state = ''tok'', os_nonce = Some ''n'',
       ps_data = LOGIN_DATA ''/'' None None None\<rparr>],
     st_states = (\<lambda>_. []), st_orgs = [], st_invitations = \<lparr>nv_invitations = [], nv_memberships = (\<lambda>_. [])\<rparr>,
     st_authentications = [], st_session_user = None, st_session_mfa = False, st_signup_nir = None, st_imports = []\<rparr>"

theorem state_opens_one_session_witness:
  "\<not> opens_session (serve_callback (\<lambda>_. True) IDP_PRO_CONNECT sample_services (Some ''d'') (Some ''tok'')
     (case serve_callback (\<lambda>_. True) IDP_PRO_CONNECT sample_services (Some ''c'') (Some ''tok'') sample_site of
        Inr (_, st1) \<Rightarrow> serves (\<lambda>_. True) [(sample_services, FC_AUTHORIZE ''new'' ''m''), (sample_services, CLEANUP_STATES)] st1 | Inl _ \<Rightarrow> sample_site))"
proof -
  let ?r = "serve_callback (\<lambda>_. True) IDP_PRO_CONNECT sample_services (Some ''c'') (Some ''tok'') sample_site"
  have "opens_session ?r" by code_simp
  then obtain n st1 where r: "?r = Inr (NEXT_PAGE n, st1)" by (auto simp: opens_session_iff)
  let ?rs = "[(sample_services, FC_AUTHORIZE ''new'' ''m''), (sample_services, CLEANUP_STATES)]"
  have "\<forall>q \<in> set ?rs. issued_token (snd q) = None \<or> issued_token (snd q) \<noteq> sv_unsign sample_services (the (Some ''tok''))"
    by (simp add: sample_services_def)
  from state_opens_one_session [OF r refl this, of "Some ''d''"] r show ?thesis by simp
qed

end
