(* ===== verification/Paginated_Services.thy ===== *)
theory Paginated_Services
  imports Py_Strings
begin

text \<open>
  The clients that read a remote list page by page: \<open>utils/apis/geiq_label.py\<close> (Label), \<open>data_inclusion.py\<close>,
  \<open>dora.py\<close> and the job offers of \<open>pole_emploi.py\<close>.  The answer to the request of a page is an argument, a function of
  its number.  A loop over pages may never end: it is an option, \<open>None\<close> for a loop that does not return.  The locale
  \<open>pager\<close> is the contract of these loops.
\<close>

section \<open>Label\<close>

datatype label_endpoint =
    LC_Salarie | LC_SalarieContrat | LC_SalariePreQualification | LC_DownloadCompte | LC_Geiq
  | LC_GeiqPrestation | LC_SynthesePDF | LC_TauxGeiq

text \<open>An answer whose transport or JSON failed is \<open>lr_readable = False\<close>.\<close>

record 'r label_response =
  lr_readable :: bool
  lr_status :: "string option"
  lr_result :: 'r

definition label_command :: "label_endpoint \<Rightarrow> 'r label_response \<Rightarrow> error + 'r" where
  "label_command c r =
     (if c \<in> {LC_DownloadCompte, LC_SynthesePDF} then Inl (ValueError ''does not return JSON data'')
      else if \<not> lr_readable r then Inl (LabelAPIError ''Error requesting Label API'')
      else if lr_status r \<noteq> Some ''Success'' then Inl (LabelAPIError ''Received response with status'')
      else Inr (lr_result r))"

text \<open>The loop of \<open>get_all_geiq\<close>, \<open>get_taux_geiq\<close>, \<open>get_all_contracts\<close> and \<open>get_all_prequalifications\<close>.\<close>

partial_function (option) label_pages ::
  "(nat \<Rightarrow> error + 'a list) \<Rightarrow> nat \<Rightarrow> nat \<Rightarrow> 'a list \<Rightarrow> (error + 'a list) option" where
  [code]: "label_pages page n p data =
     (case page p of
        Inl e \<Rightarrow> Some (Inl e)
      | Inr new_values \<Rightarrow>
          if new_values = [] then Some (Inr data)
          else if length new_values \<noteq> n then Some (Inr (data @ new_values))
          else label_pages page n (p + 1) (data @ new_values))"

definition get_all_geiq :: "nat \<Rightarrow> (nat \<Rightarrow> 'a list label_response) \<Rightarrow> (error + 'a list) option" where
  "get_all_geiq page_size service = label_pages (\<lambda>p. label_command LC_Geiq (service p)) page_size 1 []"

definition get_taux_geiq ::
  "nat \<Rightarrow> int \<Rightarrow> ('a \<Rightarrow> int) \<Rightarrow> (int \<Rightarrow> 'a list label_response) \<Rightarrow> (nat \<Rightarrow> 'a list label_response) \<Rightarrow> (error + 'a list) option" where
  "get_taux_geiq page_size geiq_id geiq_of one service =
     (if geiq_id \<noteq> 0
      then Some (rbind (label_command LC_TauxGeiq (one geiq_id)) (\<lambda>data.
             if list_all (\<lambda>i. geiq_of i = geiq_id) data then Inr data
             else Inl (LabelAPIError ''Data returned incorrect geiq_id'')))
      else label_pages (\<lambda>p. label_command LC_TauxGeiq (service p)) page_size 1 [])"

definition check_data_salarie_geiq_id :: "('a \<Rightarrow> int) \<Rightarrow> int \<Rightarrow> 'a list \<Rightarrow> error + unit" where
  "check_data_salarie_geiq_id geiq_of geiq_id data =
     guard (list_all (\<lambda>i. geiq_of i = geiq_id) data) (LabelAPIError ''Data returned incorrect geiq_id'')"

text \<open>\<open>get_all_contracts\<close> and \<open>get_all_prequalifications\<close> count first.\<close>

definition label_list ::
  "label_endpoint \<Rightarrow> nat \<Rightarrow> ('a \<Rightarrow> int) \<Rightarrow> int \<Rightarrow> nat label_response \<Rightarrow> (nat \<Rightarrow> 'a list label_response) \<Rightarrow> (error + 'a list) option" where
  "label_list c page_size geiq_of geiq_id counted service =
     (case label_command c counted of
        Inl e \<Rightarrow> Some (Inl e)
      | Inr expected_nb \<Rightarrow>
          if expected_nb = 0 then Some (Inr [])
          else map_option (\<lambda>r. rbind r (\<lambda>data.
              rbind (guard (length data = expected_nb) (AssertionError ''expected_nb'')) (\<lambda>_.
              rbind (check_data_salarie_geiq_id geiq_of geiq_id data) (\<lambda>_. Inr data))))
            (label_pages (\<lambda>p. label_command c (service p)) page_size 1 []))"

text \<open>The conditions of the requests of contracts and prequalifications.\<close>

datatype label_where = GEIQ_IS int | NATURE_IN "string list" | END_AFTER date

definition contracts_where :: "int \<Rightarrow> date option \<Rightarrow> label_where list" where
  "contracts_where geiq_id date_fin =
     [GEIQ_IS geiq_id, NATURE_IN [''CAPP'', ''CPRO'']] @ (case date_fin of None \<Rightarrow> [] | Some d \<Rightarrow> [END_AFTER d])"

definition get_all_contracts ::
  "nat \<Rightarrow> ('a \<Rightarrow> int) \<Rightarrow> int \<Rightarrow> date option \<Rightarrow> (label_where list \<Rightarrow> nat label_response) \<Rightarrow>
     (label_where list \<Rightarrow> nat \<Rightarrow> 'a list label_response) \<Rightarrow> (error + 'a list) option" where
  "get_all_contracts page_size geiq_of geiq_id date_fin counts service =
     label_list LC_SalarieContrat page_size geiq_of geiq_id (counts (contracts_where geiq_id date_fin))
       (service (contracts_where geiq_id date_fin))"

definition get_all_prequalifications ::
  "nat \<Rightarrow> ('a \<Rightarrow> int) \<Rightarrow> int \<Rightarrow> (label_where list \<Rightarrow> nat label_response) \<Rightarrow>
     (label_where list \<Rightarrow> nat \<Rightarrow> 'a list label_response) \<Rightarrow> (error + 'a list) option" where
  "get_all_prequalifications page_size geiq_of geiq_id counts service =
     label_list LC_SalariePreQualification page_size geiq_of geiq_id (counts [GEIQ_IS geiq_id]) (service [GEIQ_IS geiq_id])"

record pdf_response =
  pr_ok :: bool
  pr_content_type :: string
  pr_x_geiq_id :: "string option"
  pr_content :: string

definition get_pdf :: "label_endpoint \<Rightarrow> nat \<Rightarrow> pdf_response \<Rightarrow> error + string" where
  "get_pdf c geiq_id r =
     (if c \<notin> {LC_DownloadCompte, LC_SynthesePDF} then Inl (ValueError ''does not return a PDF'')
      else if \<not> pr_ok r then Inl (LabelAPIError ''Error requesting Label API'')
      else if pr_content_type r \<noteq> ''application/pdf'' then Inl (LabelAPIError ''Unexpected content-type'')
      else if pr_x_geiq_id r \<notin> {None, Some [], Some (nat_str geiq_id)} then Inl (LabelAPIError ''Unexpected x-geiq-id'')
      else Inr (pr_content r))"

section \<open>data.inclusion and DORA\<close>

text \<open>An iterator gives items, then ends or raises: the items given, and the exception if any.\<close>

record 'a di_response =
  dr_items :: "'a list"
  dr_page :: nat
  dr_pages :: nat

fun unseen :: "('a \<Rightarrow> 'k) \<Rightarrow> 'a list \<Rightarrow> 'a list \<Rightarrow> 'a list" where
  "unseen key given [] = given"
| "unseen key given (i # items) =
     unseen key (if key i \<in> key ` set given then given else given @ [i]) items"

partial_function (option) di_iter ::
  "('a \<Rightarrow> 'k) \<Rightarrow> (nat \<Rightarrow> error + 'a di_response) \<Rightarrow> nat \<Rightarrow> 'a list \<Rightarrow> ('a list \<times> error option) option" where
  [code]: "di_iter key client p given =
     (case client p of
        Inl e \<Rightarrow> Some (given, Some e)
      | Inr r \<Rightarrow>
          if dr_pages r \<le> dr_page r then Some (unseen key given (dr_items r), None)
          else di_iter key client (p + 1) (unseen key given (dr_items r)))"

record 'a dora_response =
  or_results :: "'a list"
  or_next :: "string option"

partial_function (option) dora_iter ::
  "(nat \<Rightarrow> error + 'a dora_response) \<Rightarrow> nat \<Rightarrow> 'a list \<Rightarrow> ('a list \<times> error option) option" where
  [code]: "dora_iter client p given =
     (case client p of
        Inl e \<Rightarrow> Some (given, Some e)
      | Inr r \<Rightarrow>
          if or_next r = None then Some (given @ or_results r, None)
          else dora_iter client (p + 1) (given @ or_results r))"

definition default_page :: nat where "default_page = 1"

definition di_items :: "('a \<Rightarrow> 'k) \<Rightarrow> (nat \<Rightarrow> error + 'a di_response) \<Rightarrow> ('a list \<times> error option) option" where
  "di_items key client = di_iter key client default_page []"

definition dora_items :: "(nat \<Rightarrow> error + 'a dora_response) \<Rightarrow> ('a list \<times> error option) option" where
  "dora_items client = dora_iter client default_page []"

section \<open>Offers of France Travail\<close>

definition offers_max_index :: nat where "offers_max_index = 3149"
definition offers_max_range :: nat where "offers_max_range = 150"

definition offers_ranges :: "(nat \<times> nat) list" where
  "offers_ranges = map (\<lambda>k. (k * offers_max_range, min offers_max_index (k * offers_max_range + offers_max_range - 1)))
     [0..<(offers_max_index + offers_max_range - 1) div offers_max_range]"

text \<open>An answer without content (204) is an empty list; the flag tells that offers are likely missing.\<close>

fun retrieve_offers :: "(nat \<times> nat \<Rightarrow> error + 'a list option) \<Rightarrow> (nat \<times> nat) list \<Rightarrow> 'a list \<Rightarrow> bool \<Rightarrow> error + 'a list \<times> bool" where
  "retrieve_offers search [] raw missing = Inr (raw, missing)"
| "retrieve_offers search (r # rs) raw missing =
     (case search r of
        Inl e \<Rightarrow> Inl e
      | Inr data \<Rightarrow>
          (case (case data of None \<Rightarrow> [] | Some os \<Rightarrow> os) of
             [] \<Rightarrow> Inr (raw, missing)
           | offers \<Rightarrow> retrieve_offers search rs (raw @ offers)
               (missing \<or> (snd r = offers_max_index \<and> length offers = offers_max_range))))"

definition retrieve_all_offres :: "(nat \<times> nat \<Rightarrow> error + 'a list option) \<Rightarrow> error + 'a list \<times> bool" where
  "retrieve_all_offres search = retrieve_offers search offers_ranges [] False"

end
