(* ===== verification/Sync_Diff.thy ===== *)
theory Sync_Diff
  imports Schema
begin

text \<open>
  \<open>utils/sync.py\<close>, the differences between a collection and a queryset, and \<open>sync_to_db\<close> of
  \<open>geiq_assessments/sync.py\<close>, which writes them.  The keys and the comparisons are arguments; a row of the table is
  any record with a primary key.
\<close>

section \<open>Differences\<close>

text \<open>A \<open>DiffItem\<close>, without its label: a summary counts.\<close>

datatype ('k, 'c, 'd) diff_item =
    SUMMARY nat
  | EDITION 'k 'c 'd
  | ADDITION 'k 'c
  | DELETION 'k 'd

text \<open>A dictionary built from a list: the last item of a key wins.\<close>

definition key_map :: "('c \<Rightarrow> 'k) \<Rightarrow> 'c list \<Rightarrow> 'k \<Rightarrow> 'c option" where
  "key_map key cs k = get_row key k (rev cs)"

definition sorted_keys :: "('k::linorder \<Rightarrow> bool) \<Rightarrow> ('c \<Rightarrow> 'k) \<Rightarrow> 'c list \<Rightarrow> 'k list" where
  "sorted_keys keep key cs = sort (remdups (filter keep (map key cs)))"

definition editions :: "('d \<Rightarrow> 'c \<Rightarrow> bool) list \<Rightarrow> 'k \<Rightarrow> 'c \<Rightarrow> 'd \<Rightarrow> ('k, 'c, 'd) diff_item list" where
  "editions differs k c d =
     (if differs = [] then [EDITION k c d] else map (\<lambda>_. EDITION k c d) (filter (\<lambda>f. f d c) differs))"

definition yield_sync_diff ::
  "('c \<Rightarrow> 'k::linorder) \<Rightarrow> ('d \<Rightarrow> 'k) \<Rightarrow> ('d \<Rightarrow> 'c \<Rightarrow> bool) list \<Rightarrow> 'c list \<Rightarrow> 'd list \<Rightarrow> ('k, 'c, 'd) diff_item list" where
  "yield_sync_diff collection_key queryset_key differs collection queryset =
     (let already_there = sorted_keys (\<lambda>k. k \<in> set (map queryset_key queryset)) collection_key collection;
          added_by_coll = sorted_keys (\<lambda>k. k \<notin> set (map queryset_key queryset)) collection_key collection;
          removed_in_coll = sorted_keys (\<lambda>k. k \<notin> set (map collection_key collection)) queryset_key queryset;
          raw = (\<lambda>k. the (key_map collection_key collection k));
          obj = (\<lambda>k. the (key_map queryset_key queryset k))
      in [SUMMARY (length already_there)] @ concat (map (\<lambda>k. editions differs k (raw k) (obj k)) already_there) @
         [SUMMARY (length added_by_coll)] @ map (\<lambda>k. ADDITION k (raw k)) added_by_coll @
         [SUMMARY (length removed_in_coll)] @ map (\<lambda>k. DELETION k (obj k)) removed_in_coll)"

section \<open>Writing the differences\<close>

fun rmap :: "('a \<Rightarrow> error + 'b) \<Rightarrow> 'a list \<Rightarrow> error + 'b list" where
  "rmap f [] = Inr []"
| "rmap f (x # xs) = rbind (f x) (\<lambda>y. rbind (rmap f xs) (\<lambda>ys. Inr (y # ys)))"

definition diff_editions :: "('k, 'c, 'd) diff_item list \<Rightarrow> ('c \<times> 'd) list" where
  "diff_editions items = List.map_filter (\<lambda>i. case i of EDITION k c d \<Rightarrow> Some (c, d) | _ \<Rightarrow> None) items"

definition diff_additions :: "('k, 'c, 'd) diff_item list \<Rightarrow> 'c list" where
  "diff_additions items = List.map_filter (\<lambda>i. case i of ADDITION k c \<Rightarrow> Some c | _ \<Rightarrow> None) items"

definition diff_deletions :: "('k, 'c, 'd) diff_item list \<Rightarrow> 'k list" where
  "diff_deletions items = List.map_filter (\<lambda>i. case i of DELETION k d \<Rightarrow> Some k | _ \<Rightarrow> None) items"

definition bulk_create :: "('d \<Rightarrow> pk) \<Rightarrow> (pk \<Rightarrow> 'd \<Rightarrow> 'd) \<Rightarrow> 'd list \<Rightarrow> 'd list \<Rightarrow> 'd list" where
  "bulk_create pk_of set_pk objs t = foldl (\<lambda>t d. t @ [set_pk (next_pk pk_of t) d]) t objs"

text \<open>\<open>upd new old\<close> is the row \<open>old\<close> with the updated fields of \<open>new\<close>.\<close>

definition bulk_update :: "('d \<Rightarrow> pk) \<Rightarrow> ('d \<Rightarrow> 'd \<Rightarrow> 'd) \<Rightarrow> 'd list \<Rightarrow> 'd list \<Rightarrow> 'd list" where
  "bulk_update pk_of upd objs t = foldl (\<lambda>t d. map_rows (\<lambda>r. pk_of r = pk_of d) (upd d) t) t objs"

text \<open>\<open>sel\<close> selects the queryset in the table \<open>t\<close>; the deletion goes by the keys over the whole table.\<close>

definition sync_to_db ::
  "('c \<Rightarrow> 'k::linorder) \<Rightarrow> ('d \<Rightarrow> 'k) \<Rightarrow> ('d \<Rightarrow> 'c \<Rightarrow> bool) list \<Rightarrow> ('c \<Rightarrow> error + 'd) \<Rightarrow> ('d \<Rightarrow> pk) \<Rightarrow> (pk \<Rightarrow> 'd \<Rightarrow> 'd) \<Rightarrow>
    ('d \<Rightarrow> 'd \<Rightarrow> 'd) \<Rightarrow> ('d \<Rightarrow> bool) \<Rightarrow> bool \<Rightarrow> 'c list \<Rightarrow> 'd list \<Rightarrow> error + 'd list \<times> 'd list \<times> 'k list \<times> 'd list" where
  "sync_to_db key label differs data_to_django_obj pk_of set_pk upd sel with_delete api_data t =
     (let items = yield_sync_diff key label differs api_data (filter sel t); obj_to_delete = diff_deletions items in
      rbind (rmap (\<lambda>(c, d). rbind (data_to_django_obj c) (\<lambda>obj. Inr (set_pk (pk_of d) obj))) (diff_editions items)) (\<lambda>obj_to_update.
      rbind (rmap data_to_django_obj (diff_additions items)) (\<lambda>obj_to_create.
      let t1 = bulk_create pk_of set_pk obj_to_create t;
          t2 = bulk_update pk_of upd obj_to_update t1;
          t3 = (if with_delete then filter (\<lambda>r. label r \<notin> set obj_to_delete) t2 else t2)
      in Inr (obj_to_create, obj_to_update, obj_to_delete, t3))))"

section \<open>What the differences are\<close>

lemma key_map_Some:
  "key_map key cs k = Some c \<Longrightarrow> c \<in> set cs \<and> key c = k"
  unfolding key_map_def by (drule get_row_SomeD) simp

lemma key_map_None: "key_map key cs k = None \<longleftrightarrow> k \<notin> key ` set cs"
  by (simp add: key_map_def get_row_None_iff)

lemma key_map_the:
  assumes "k \<in> key ` set cs"
  shows "key_map key cs k = Some (the (key_map key cs k))" "the (key_map key cs k) \<in> set cs" "key (the (key_map key cs k)) = k"
proof -
  obtain c where c: "key_map key cs k = Some c" using assms key_map_None by (metis option.exhaust)
  then show "key_map key cs k = Some (the (key_map key cs k))" by simp
  show "the (key_map key cs k) \<in> set cs" "key (the (key_map key cs k)) = k" using key_map_Some [OF c] c by simp_all
qed

lemma key_map_unique: "distinct (map key cs) \<Longrightarrow> c \<in> set cs \<Longrightarrow> key_map key cs (key c) = Some c"
  by (simp add: key_map_def get_row_Some_iff rev_map [symmetric])

lemma key_map_view:
  assumes total: "\<forall>c \<in> set cs. \<exists>d. conv c = Inr d" and view: "\<And>c d. conv c = Inr d \<Longrightarrow> (key c, g d) = h c"
  shows "{(k, g d) | k c d. key_map key cs k = Some c \<and> conv c = Inr d} = {h c | c. key_map key cs (key c) = Some c}"
proof
  show "{(k, g d) | k c d. key_map key cs k = Some c \<and> conv c = Inr d} \<subseteq> {h c | c. key_map key cs (key c) = Some c}"
  proof
    fix y assume "y \<in> {(k, g d) | k c d. key_map key cs k = Some c \<and> conv c = Inr d}"
    then obtain k c d where k: "y = (k, g d)" "key_map key cs k = Some c" "conv c = Inr d" by blast
    have "key c = k" using key_map_Some [OF k(2)] by simp
    then have "y = h c" "key_map key cs (key c) = Some c" using view [OF k(3)] k(1,2) by simp_all
    then show "y \<in> {h c | c. key_map key cs (key c) = Some c}" by blast
  qed
  show "{h c | c. key_map key cs (key c) = Some c} \<subseteq> {(k, g d) | k c d. key_map key cs k = Some c \<and> conv c = Inr d}"
  proof
    fix y assume "y \<in> {h c | c. key_map key cs (key c) = Some c}"
    then obtain c where c: "y = h c" "key_map key cs (key c) = Some c" by blast
    then obtain d where d: "conv c = Inr d" using total key_map_Some by fast
    have "y = (key c, g d)" using view [OF d] c(1) by simp
    then show "y \<in> {(k, g d) | k c d. key_map key cs k = Some c \<and> conv c = Inr d}" using c(2) d by blast
  qed
qed

lemma set_sorted_keys [simp]: "set (sorted_keys keep key cs) = {k \<in> key ` set cs. keep k}"
  by (auto simp: sorted_keys_def)

lemma distinct_sorted_keys [simp]: "distinct (sorted_keys keep key cs)"
  by (simp add: sorted_keys_def)

lemma map_filter_app: "List.map_filter f (xs @ ys) = List.map_filter f xs @ List.map_filter f ys"
  by (induction xs) (auto split: option.splits)

lemma map_filter_all_None: "(\<And>x. x \<in> set xs \<Longrightarrow> f x = None) \<Longrightarrow> List.map_filter f xs = []"
  by (induction xs) auto

lemma map_filter_map: "List.map_filter f (map g xs) = List.map_filter (f \<circ> g) xs"
  by (induction xs) (auto split: option.splits)

lemma map_filter_Some: "List.map_filter (\<lambda>x. Some (g x)) xs = map g xs"
  by (induction xs) auto

lemma set_map_filter: "y \<in> set (List.map_filter f xs) \<longleftrightarrow> (\<exists>x \<in> set xs. f x = Some y)"
  by (induction xs) (auto split: option.splits)

lemma edition_pair: "(case i of EDITION k c d \<Rightarrow> Some (c, d) | _ \<Rightarrow> None) = Some p \<longleftrightarrow> (\<exists>k. i = EDITION k (fst p) (snd p))"
  by (cases i) auto

lemma set_diff_editions: "p \<in> set (diff_editions items) \<longleftrightarrow> (\<exists>k. EDITION k (fst p) (snd p) \<in> set items)"
  unfolding diff_editions_def set_map_filter edition_pair by blast

lemma diff_additions_app [simp]: "diff_additions (xs @ ys) = diff_additions xs @ diff_additions ys"
  by (simp add: diff_additions_def map_filter_app)

lemma diff_deletions_app [simp]: "diff_deletions (xs @ ys) = diff_deletions xs @ diff_deletions ys"
  by (simp add: diff_deletions_def map_filter_app)

lemma edition_in_editions:
  "EDITION k c d \<in> set (editions differs k' c' d') \<longleftrightarrow>
     k = k' \<and> c = c' \<and> d = d' \<and> (differs = [] \<or> (\<exists>f \<in> set differs. f d c))"
  by (auto simp: editions_def)

lemma edition_in_diff:
  "EDITION k c d \<in> set (yield_sync_diff key label differs cs ds) \<longleftrightarrow>
     k \<in> key ` set cs \<and> k \<in> label ` set ds \<and> c = the (key_map key cs k) \<and> d = the (key_map label ds k) \<and>
     (differs = [] \<or> (\<exists>f \<in> set differs. f d c))"
  unfolding yield_sync_diff_def Let_def set_append set_concat set_map image_image UN_simps
  by (auto simp: edition_in_editions image_iff)

lemma diff_sync_editions:
  "p \<in> set (diff_editions (yield_sync_diff key label differs cs ds)) \<longleftrightarrow>
     (\<exists>k \<in> key ` set cs \<inter> label ` set ds. fst p = the (key_map key cs k) \<and> snd p = the (key_map label ds k) \<and>
        (differs = [] \<or> (\<exists>f \<in> set differs. f (snd p) (fst p))))"
  unfolding set_diff_editions edition_in_diff by blast

lemma diff_summary [simp]:
  "diff_additions (SUMMARY n # xs) = diff_additions xs" "diff_deletions (SUMMARY n # xs) = diff_deletions xs"
  "diff_additions [] = []" "diff_deletions [] = []"
  by (simp_all add: diff_additions_def diff_deletions_def)

lemma diff_of_editions [simp]:
  "diff_additions (concat (map (\<lambda>k. editions differs k (a k) (b k)) ks)) = []"
  "diff_deletions (concat (map (\<lambda>k. editions differs k (a k) (b k)) ks)) = []"
  unfolding diff_additions_def diff_deletions_def
  by (auto intro!: map_filter_all_None simp: editions_def split: if_splits)

lemma diff_of_additions [simp]:
  "diff_additions (map (\<lambda>k. ADDITION k (a k)) ks) = map a ks" "diff_deletions (map (\<lambda>k. ADDITION k (a k)) ks) = []"
  by (induction ks) (simp_all add: diff_additions_def diff_deletions_def)

lemma diff_of_deletions [simp]:
  "diff_additions (map (\<lambda>k. DELETION k (a k)) ks) = []" "diff_deletions (map (\<lambda>k. DELETION k (a k)) ks) = ks"
  by (induction ks) (simp_all add: diff_additions_def diff_deletions_def)

lemma diff_sync_additions:
  "diff_additions (yield_sync_diff key label differs cs ds) =
     map (\<lambda>k. the (key_map key cs k)) (sorted_keys (\<lambda>k. k \<notin> set (map label ds)) key cs)"
  by (simp add: yield_sync_diff_def Let_def)

lemma diff_sync_deletions:
  "diff_deletions (yield_sync_diff key label differs cs ds) = sorted_keys (\<lambda>k. k \<notin> set (map key cs)) label ds"
  by (simp add: yield_sync_diff_def Let_def)

section \<open>What is written\<close>

lemma rmap_Inr: "rmap f xs = Inr ys \<longleftrightarrow> list_all2 (\<lambda>x y. f x = Inr y) xs ys"
  by (induction xs arbitrary: ys) (auto simp: list_all2_Cons1)

lemma rmap_mem: "rmap f xs = Inr ys \<Longrightarrow> y \<in> set ys \<longleftrightarrow> (\<exists>x \<in> set xs. f x = Inr y)"
  by (induction xs arbitrary: ys) auto

lemma list_all2_right: "list_all2 P xs ys \<Longrightarrow> y \<in> set ys \<Longrightarrow> \<exists>x \<in> set xs. P x y"
  by (induction rule: list_all2_induct) auto

lemma list_all2_left: "list_all2 P xs ys \<Longrightarrow> x \<in> set xs \<Longrightarrow> \<exists>y \<in> set ys. P x y"
  by (induction rule: list_all2_induct) auto

lemma rmap_total: "(\<And>x. x \<in> set xs \<Longrightarrow> \<exists>y. f x = Inr y) \<Longrightarrow> \<exists>ys. rmap f xs = Inr ys"
proof (induction xs)
  case (Cons x xs)
  then obtain y ys where "f x = Inr y" "rmap f xs = Inr ys" by fastforce
  then show ?case by simp
qed simp

lemma bulk_create_rows:
  assumes "\<And>p d. pk_of (set_pk p d) = p" "distinct (map pk_of t)"
  shows "\<exists>ns. bulk_create pk_of set_pk objs t = t @ ns \<and> list_all2 (\<lambda>d n. \<exists>p. n = set_pk p d) objs ns \<and>
    distinct (map pk_of (t @ ns))"
  using assms(2)
proof (induction objs arbitrary: t)
  case (Cons d objs)
  let ?n = "set_pk (next_pk pk_of t) d"
  have "distinct (map pk_of (t @ [?n]))" using Cons.prems by (simp add: assms(1))
  from Cons.IH [OF this] obtain ns where "bulk_create pk_of set_pk objs (t @ [?n]) = (t @ [?n]) @ ns"
    "list_all2 (\<lambda>d n. \<exists>p. n = set_pk p d) objs ns" "distinct (map pk_of ((t @ [?n]) @ ns))" by blast
  then show ?case by (intro exI [of _ "?n # ns"]) (auto simp: bulk_create_def)
qed (simp add: bulk_create_def)

definition updated_row :: "('d \<Rightarrow> pk) \<Rightarrow> ('d \<Rightarrow> 'd \<Rightarrow> 'd) \<Rightarrow> 'd list \<Rightarrow> 'd \<Rightarrow> 'd" where
  "updated_row pk_of upd objs r = foldl (\<lambda>r u. if pk_of r = pk_of u then upd u r else r) r objs"

lemma bulk_update_rows: "bulk_update pk_of upd objs t = map (updated_row pk_of upd objs) t"
proof (induction objs arbitrary: t)
  case Nil
  have "updated_row pk_of upd [] = id" by (simp add: updated_row_def fun_eq_iff)
  then show ?case by (simp add: bulk_update_def)
qed (simp add: bulk_update_def updated_row_def map_rows_def)

text \<open>What the rows of a synchronised table have: the key and the content a datum gives, which the update of the
  fields copies and which is equal when no compared field differs.\<close>

locale label_table =
  fixes key :: "'c \<Rightarrow> 'k::linorder" and label :: "'d \<Rightarrow> 'k" and differs :: "('d \<Rightarrow> 'c \<Rightarrow> bool) list"
    and conv :: "'c \<Rightarrow> error + 'd" and pk_of :: "'d \<Rightarrow> pk" and set_pk :: "pk \<Rightarrow> 'd \<Rightarrow> 'd"
    and upd :: "'d \<Rightarrow> 'd \<Rightarrow> 'd" and sel :: "'d \<Rightarrow> bool" and content :: "'d \<Rightarrow> 'm"
  assumes conv_key: "conv c = Inr d \<Longrightarrow> label d = key c" and conv_sel: "conv c = Inr d \<Longrightarrow> sel d"
    and pk_set: "pk_of (set_pk p d) = p" and set_keeps: "label (set_pk p d) = label d" "sel (set_pk p d) \<longleftrightarrow> sel d"
      "content (set_pk p d) = content d"
    and write_keeps: "pk_of (upd u r) = pk_of r" "label (upd u r) = label r" "sel (upd u r) \<longleftrightarrow> sel r"
    and write_content: "content (upd u r) = content u"
    and compared: "conv c = Inr d \<Longrightarrow> label r = key c \<Longrightarrow> (\<forall>f \<in> set differs. \<not> f r c) \<longleftrightarrow> content r = content d"
    and some_compared: "differs \<noteq> []"
begin

lemma updated_keeps:
  "pk_of (updated_row pk_of upd objs r) = pk_of r \<and> label (updated_row pk_of upd objs r) = label r \<and>
   (sel (updated_row pk_of upd objs r) \<longleftrightarrow> sel r)"
  by (induction objs arbitrary: r) (simp_all add: updated_row_def write_keeps)

lemma mem_updated:
  "r \<in> set (filter (\<lambda>r. P (label r)) (map (updated_row pk_of upd objs) xs)) \<longleftrightarrow>
     (\<exists>q \<in> set xs. r = updated_row pk_of upd objs q \<and> P (label q))"
  by (auto simp: updated_keeps)

lemma filter_updated:
  "filter sel (filter (\<lambda>r. P (label r)) (map (updated_row pk_of upd objs) xs)) =
     filter (\<lambda>r. P (label r)) (map (updated_row pk_of upd objs) (filter sel xs))"
  by (induction xs) (auto simp: updated_keeps)

lemma labels_updated:
  "label ` set (filter (\<lambda>r. P (label r)) (map (updated_row pk_of upd objs) xs)) = {k \<in> label ` set xs. P k}"
  by (induction xs) (auto simp: updated_keeps)

lemma updated_other: "(\<And>u. u \<in> set objs \<Longrightarrow> pk_of u \<noteq> pk_of r) \<Longrightarrow> updated_row pk_of upd objs r = r"
proof (induction objs arbitrary: r)
  case (Cons v objs)
  have "pk_of r \<noteq> pk_of v" using Cons.prems [of v] by auto
  moreover have "updated_row pk_of upd objs r = r" using Cons by auto
  ultimately show ?case by (simp add: updated_row_def)
qed (simp add: updated_row_def)

lemma updated_content:
  assumes "\<exists>u \<in> set objs. pk_of u = pk_of r"
  shows "\<exists>u \<in> set objs. pk_of u = pk_of r \<and> content (updated_row pk_of upd objs r) = content u"
  using assms
proof (induction objs arbitrary: r)
  case (Cons v objs)
  let ?r = "if pk_of r = pk_of v then upd v r else r"
  have pk: "pk_of ?r = pk_of r" by (simp add: write_keeps)
  have step: "updated_row pk_of upd (v # objs) r = updated_row pk_of upd objs ?r" by (simp add: updated_row_def)
  show ?case
  proof (cases "\<exists>u \<in> set objs. pk_of u = pk_of r")
    case True
    then show ?thesis using Cons.IH [of ?r] pk step by auto
  next
    case False
    then have "updated_row pk_of upd objs ?r = ?r" using pk by (intro updated_other) auto
    moreover have "pk_of v = pk_of r" using Cons.prems False by auto
    ultimately show ?thesis using step by (simp add: write_content)
  qed
qed simp

lemma update_of_row:
  assumes pks: "distinct (map pk_of t)" and labels: "distinct (map label (filter sel t))" and r: "r \<in> set t" "sel r"
    and c: "key_map key cs (label r) = Some c" "conv c = Inr d"
    and ups: "rmap (\<lambda>(c, d). rbind (conv c) (\<lambda>obj. Inr (set_pk (pk_of d) obj)))
        (diff_editions (yield_sync_diff key label differs cs (filter sel t))) = Inr us"
  shows "content (updated_row pk_of upd us r) = content d"
proof -
  let ?ds = "filter sel t"
  have key: "c \<in> set cs" "key c = label r" "label r \<in> key ` set cs" using key_map_Some [OF c(1)] by (auto, metis imageI)
  have own: "v = r" if "v \<in> set ?ds" "pk_of v = pk_of r" for v
    using that pks r(1) by (auto simp: distinct_map inj_on_def)
  have row: "key_map label ?ds (label r) = Some r" using labels r by (simp add: key_map_unique)
  have mem: "(\<exists>u \<in> set us. pk_of u = pk_of r \<and> P u) \<longleftrightarrow> (\<exists>f \<in> set differs. f r c) \<and> P (set_pk (pk_of r) d)" for P
  proof
    assume "\<exists>u \<in> set us. pk_of u = pk_of r \<and> P u"
    then obtain u where u: "u \<in> set us" "pk_of u = pk_of r" "P u" by blast
    then obtain p where p: "p \<in> set (diff_editions (yield_sync_diff key label differs cs ?ds))"
      "rbind (conv (fst p)) (\<lambda>obj. Inr (set_pk (pk_of (snd p)) obj)) = Inr u"
      using rmap_mem [OF ups] by (auto split: prod.splits)
    then obtain k where k: "k \<in> key ` set cs" "k \<in> label ` set ?ds" "fst p = the (key_map key cs k)"
        "snd p = the (key_map label ?ds k)" "\<exists>f \<in> set differs. f (snd p) (fst p)"
      using some_compared unfolding diff_sync_editions by blast
    have s: "snd p \<in> set ?ds" "label (snd p) = k" using key_map_the [OF k(2)] k(4) by simp_all
    moreover have "pk_of u = pk_of (snd p)" using p(2) by (auto simp: pk_set)
    ultimately have "snd p = r" using own u(2) by metis
    moreover from this have "fst p = c" using k(3) s(2) c(1) by simp
    ultimately show "(\<exists>f \<in> set differs. f r c) \<and> P (set_pk (pk_of r) d)" using k(5) p(2) c(2) u(3) by auto
  next
    assume asm: "(\<exists>f \<in> set differs. f r c) \<and> P (set_pk (pk_of r) d)"
    have "(c, r) \<in> set (diff_editions (yield_sync_diff key label differs cs ?ds))"
      unfolding diff_sync_editions using asm key(3) r c(1) row by (intro bexI [of _ "label r"]) auto
    then have "set_pk (pk_of r) d \<in> set us" unfolding rmap_mem [OF ups] by (rule rev_bexI) (simp add: c(2))
    then show "\<exists>u \<in> set us. pk_of u = pk_of r \<and> P u" using asm pk_set by (intro bexI [of _ "set_pk (pk_of r) d"]) auto
  qed
  show ?thesis
  proof (cases "\<exists>f \<in> set differs. f r c")
    case True
    then have "\<exists>u \<in> set us. pk_of u = pk_of r" using mem [of "\<lambda>_. True"] by simp
    from updated_content [OF this] show ?thesis
      using mem [of "\<lambda>u. content (updated_row pk_of upd us r) = content u"] by (simp add: set_keeps)
  next
    case False
    then have "updated_row pk_of upd us r = r" using mem [of "\<lambda>_. True"] by (intro updated_other) auto
    moreover have "content r = content d" using compared [OF c(2)] key(2) False by simp
    ultimately show ?thesis by simp
  qed
qed

lemma created_rows:
  assumes "rmap conv (map (\<lambda>k. the (key_map key cs k)) ks) = Inr ns" "set ks \<subseteq> key ` set cs"
    "list_all2 (\<lambda>d n. \<exists>p. n = set_pk p d) ns new"
  shows "map label new = ks"
    "n \<in> set new \<Longrightarrow> sel n \<and> (\<exists>c d. key_map key cs (label n) = Some c \<and> conv c = Inr d \<and> content n = content d)"
proof -
  have "map label ns = ks" using assms(1,2)
  proof (induction ks arbitrary: ns)
    case (Cons k ks)
    then obtain d ds where "conv (the (key_map key cs k)) = Inr d" "rmap conv (map (\<lambda>k. the (key_map key cs k)) ks) = Inr ds"
      "ns = d # ds" by auto
    then show ?case using Cons.IH [of ds] Cons.prems(2) conv_key key_map_the(3) [of k key cs] by simp
  qed simp
  moreover have "map label new = map label ns"
    using assms(3) by (induction rule: list_all2_induct) (auto simp: set_keeps)
  ultimately show labels: "map label new = ks" by simp
  assume n: "n \<in> set new"
  from list_all2_right [OF assms(3) n] obtain d p where d: "d \<in> set ns" "n = set_pk p d" by blast
  obtain k where k: "k \<in> set ks" "conv (the (key_map key cs k)) = Inr d"
    using d(1) unfolding rmap_mem [OF assms(1)] by auto
  then have in_cs: "k \<in> key ` set cs" using assms(2) by blast
  have "label n = k" using conv_key [OF k(2)] key_map_the(3) [OF in_cs] d(2) by (simp add: set_keeps)
  then show "sel n \<and> (\<exists>c d. key_map key cs (label n) = Some c \<and> conv c = Inr d \<and> content n = content d)"
    using key_map_the(1) [OF in_cs] k(2) conv_sel [OF k(2)] d(2) by (simp add: set_keeps) blast
qed

lemma other_row:
  assumes "rmap (\<lambda>(c, d). rbind (conv c) (\<lambda>obj. Inr (set_pk (pk_of d) obj)))
      (diff_editions (yield_sync_diff key label differs cs ds)) = Inr us"
    and "distinct (map pk_of t)" "set ds \<subseteq> set t" "r \<in> set t" "r \<notin> set ds"
  shows "updated_row pk_of upd us r = r"
proof (rule updated_other)
  fix u assume "u \<in> set us"
  then obtain p where p: "p \<in> set (diff_editions (yield_sync_diff key label differs cs ds))" "pk_of u = pk_of (snd p)"
    unfolding rmap_mem [OF assms(1)] by (auto simp: pk_set)
  then obtain k where k: "k \<in> label ` set ds" "snd p = the (key_map label ds k)" unfolding diff_sync_editions by blast
  have "snd p \<in> set ds" using key_map_the(2) [OF k(1)] k(2) by simp
  then have "snd p \<in> set t" "snd p \<noteq> r" using assms(3,5) by auto
  then show "pk_of u \<noteq> pk_of r" using p(2) assms(2,4) unfolding distinct_map by (metis inj_onD)
qed

lemma sync_run:
  assumes pks: "distinct (map pk_of t)" and total: "\<And>c. c \<in> set cs \<Longrightarrow> \<exists>d. conv c = Inr d"
  obtains us ns new where
    "rmap (\<lambda>(c, d). rbind (conv c) (\<lambda>obj. Inr (set_pk (pk_of d) obj)))
       (diff_editions (yield_sync_diff key label differs cs (filter sel t))) = Inr us"
    "rmap conv (map (\<lambda>k. the (key_map key cs k)) (sorted_keys (\<lambda>k. k \<notin> label ` set (filter sel t)) key cs)) = Inr ns"
    "list_all2 (\<lambda>d n. \<exists>p. n = set_pk p d) ns new" "distinct (map pk_of (t @ new))"
    "sync_to_db key label differs conv pk_of set_pk upd sel True cs t =
       Inr (ns, us, sorted_keys (\<lambda>k. k \<notin> key ` set cs) label (filter sel t),
         filter (\<lambda>r. label r \<notin> label ` set (filter sel t) - key ` set cs) (map (updated_row pk_of upd us) (t @ new)))"
proof -
  let ?items = "yield_sync_diff key label differs cs (filter sel t)"
  have conv_the: "\<exists>d. conv (the (key_map key cs k)) = Inr d" if "k \<in> key ` set cs" for k
    using total key_map_the(2) [OF that] by blast
  have "\<exists>us. rmap (\<lambda>(c, d). rbind (conv c) (\<lambda>obj. Inr (set_pk (pk_of d) obj))) (diff_editions ?items) = Inr us"
  proof (rule rmap_total)
    fix p assume "p \<in> set (diff_editions ?items)"
    then obtain k where "k \<in> key ` set cs" "fst p = the (key_map key cs k)" unfolding diff_sync_editions by blast
    then show "\<exists>u. (case p of (c, d) \<Rightarrow> rbind (conv c) (\<lambda>obj. Inr (set_pk (pk_of d) obj))) = Inr u"
      using conv_the [of k] by (cases p) auto
  qed
  then obtain us where us: "rmap (\<lambda>(c, d). rbind (conv c) (\<lambda>obj. Inr (set_pk (pk_of d) obj))) (diff_editions ?items) = Inr us" ..
  have "\<exists>ns. rmap conv (map (\<lambda>k. the (key_map key cs k)) (sorted_keys (\<lambda>k. k \<notin> label ` set (filter sel t)) key cs)) = Inr ns"
    by (rule rmap_total) (use conv_the in fastforce)
  then obtain ns where ns: "rmap conv (map (\<lambda>k. the (key_map key cs k))
      (sorted_keys (\<lambda>k. k \<notin> label ` set (filter sel t)) key cs)) = Inr ns" ..
  obtain new where new: "bulk_create pk_of set_pk ns t = t @ new" "list_all2 (\<lambda>d n. \<exists>p. n = set_pk p d) ns new"
    "distinct (map pk_of (t @ new))"
    using bulk_create_rows [of pk_of set_pk t ns, OF pk_set pks] by blast
  have del: "label r \<notin> set (sorted_keys (\<lambda>k. k \<notin> key ` set cs) label (filter sel t)) \<longleftrightarrow>
      label r \<notin> label ` set (filter sel t) - key ` set cs" for r by auto
  have "sync_to_db key label differs conv pk_of set_pk upd sel True cs t =
       Inr (ns, us, sorted_keys (\<lambda>k. k \<notin> key ` set cs) label (filter sel t),
         filter (\<lambda>r. label r \<notin> label ` set (filter sel t) - key ` set cs) (map (updated_row pk_of upd us) (t @ new)))"
    unfolding sync_to_db_def Let_def us diff_sync_additions diff_sync_deletions set_map ns rbind.simps new(1)
      bulk_update_rows del by simp
  then show thesis using that us ns new(2,3) by blast
qed

text \<open>The synchronisation of a queryset with its deletions: its rows are exactly the data, one row per key, the rows of
  the data that were there keep their primary key, and another row is only lost if it has a deleted key.\<close>

lemma synced:
  assumes pks: "distinct (map pk_of t)" and labels: "distinct (map label (filter sel t))"
    and total: "\<forall>c \<in> set cs. \<exists>d. conv c = Inr d"
  obtains ns us deleted t' where
    "sync_to_db key label differs conv pk_of set_pk upd sel True cs t = Inr (ns, us, deleted, t')"
    "distinct (map pk_of t')" "distinct (map label (filter sel t'))" "label ` set (filter sel t') = key ` set cs"
    "\<forall>r \<in> set t'. sel r \<longrightarrow> (\<exists>c d. key_map key cs (label r) = Some c \<and> conv c = Inr d \<and> content r = content d)"
    "\<forall>r \<in> set t. sel r \<longrightarrow> label r \<in> key ` set cs \<longrightarrow> (\<exists>r' \<in> set t'. pk_of r' = pk_of r \<and> label r' = label r)"
    "set deleted = label ` set (filter sel t) - key ` set cs"
    "\<forall>r. \<not> sel r \<longrightarrow> r \<in> set t' \<longleftrightarrow> r \<in> set t \<and> label r \<notin> set deleted"
    "\<forall>r' \<in> set t'. pk_of r' \<in> pk_of ` set t \<longrightarrow> (\<exists>r \<in> set t. pk_of r = pk_of r' \<and> (sel r \<longleftrightarrow> sel r'))"
proof -
  let ?ds = "filter sel t" and ?del = "label ` set (filter sel t) - key ` set cs"
  let ?ks = "sorted_keys (\<lambda>k. k \<notin> label ` set (filter sel t)) key cs"
  from sync_run [OF pks bspec [OF total]] obtain us ns new where
    us: "rmap (\<lambda>(c, d). rbind (conv c) (\<lambda>obj. Inr (set_pk (pk_of d) obj))) (diff_editions (yield_sync_diff key label differs cs ?ds)) = Inr us"
    and ns: "rmap conv (map (\<lambda>k. the (key_map key cs k)) ?ks) = Inr ns" and new: "list_all2 (\<lambda>d n. \<exists>p. n = set_pk p d) ns new"
    and new_pks: "distinct (map pk_of (t @ new))"
    and run: "sync_to_db key label differs conv pk_of set_pk upd sel True cs t =
       Inr (ns, us, sorted_keys (\<lambda>k. k \<notin> key ` set cs) label ?ds,
         filter (\<lambda>r. label r \<notin> ?del) (map (updated_row pk_of upd us) (t @ new)))" by blast
  let ?up = "updated_row pk_of upd us"
  let ?t' = "filter (\<lambda>r. label r \<notin> ?del) (map ?up (t @ new))"
  have "set ?ks \<subseteq> key ` set cs" by auto
  note C = created_rows [OF ns this new]
  have fresh: "label n \<notin> label ` set ?ds" "label n \<in> key ` set cs" if "n \<in> set new" for n
  proof -
    have "label n \<in> set ?ks" using that C(1) by (metis image_eqI set_map)
    from this [unfolded set_sorted_keys mem_Collect_eq]
    show "label n \<notin> label ` set ?ds" "label n \<in> key ` set cs" by blast+
  qed
  have mem: "r \<in> set ?t' \<longleftrightarrow> (\<exists>q \<in> set (t @ new). r = ?up q \<and> label q \<notin> ?del)" for r
    by (rule mem_updated)
  have other: "?up r = r" if "r \<in> set (t @ new)" "r \<notin> set ?ds" for r
    by (rule other_row [OF us new_pks _ that]) auto
  have sels: "filter sel ?t' = filter (\<lambda>r. label r \<notin> ?del) (map ?up (?ds @ new))"
  proof -
    have "filter sel new = new" using C(2) by (simp add: filter_id_conv)
    then show ?thesis by (simp only: filter_updated [where P = "\<lambda>k. k \<notin> ?del"] filter_append)
  qed
  have all_labels: "map label (map ?up (?ds @ new)) = map label (?ds @ new)" by (simp add: updated_keeps)
  have deleted: "set (sorted_keys (\<lambda>k. k \<notin> key ` set cs) label ?ds) = ?del" by auto
  show thesis
  proof (rule that [OF run])
    have "map pk_of (map ?up (t @ new)) = map pk_of (t @ new)" by (simp add: updated_keeps)
    then show "distinct (map pk_of ?t')" using new_pks by (simp only: distinct_map_filter)
    have "distinct (map label (?ds @ new))" using labels C(1) fresh(1) by auto
    then show "distinct (map label (filter sel ?t'))" unfolding sels using all_labels by (metis distinct_map_filter)
    have "label ` set (filter sel ?t') = {k \<in> label ` set (?ds @ new). k \<notin> ?del}" unfolding sels by (rule labels_updated)
    also have "label ` set (?ds @ new) = label ` set ?ds \<union> set ?ks" using C(1) by (metis set_append set_map image_Un)
    finally show "label ` set (filter sel ?t') = key ` set cs" unfolding set_sorted_keys by blast
    show "set (sorted_keys (\<lambda>k. k \<notin> key ` set cs) label ?ds) = ?del" by (rule deleted)
    show "\<forall>r' \<in> set ?t'. pk_of r' \<in> pk_of ` set t \<longrightarrow> (\<exists>r \<in> set t. pk_of r = pk_of r' \<and> (sel r \<longleftrightarrow> sel r'))"
    proof (intro ballI impI)
      fix r' assume r': "r' \<in> set ?t'" "pk_of r' \<in> pk_of ` set t"
      then obtain q where q: "q \<in> set (t @ new)" "r' = ?up q" unfolding mem by blast
      note up = updated_keeps [of us q, folded q(2)]
      have "pk_of q \<in> pk_of ` set t" using r'(2) up by simp
      moreover have "pk_of q \<notin> pk_of ` set t" if "q \<in> set new" using new_pks that by auto
      ultimately have "q \<in> set t" using q(1) by auto
      then show "\<exists>r \<in> set t. pk_of r = pk_of r' \<and> (sel r \<longleftrightarrow> sel r')" using up by (intro bexI [of _ q]) simp_all
    qed
  next
    show "\<forall>r \<in> set ?t'. sel r \<longrightarrow> (\<exists>c d. key_map key cs (label r) = Some c \<and> conv c = Inr d \<and> content r = content d)"
    proof (intro ballI impI)
      fix r assume r: "r \<in> set ?t'" "sel r"
      then obtain q where q: "q \<in> set (t @ new)" "r = ?up q" "label q \<notin> ?del" using mem by blast
      show "\<exists>c d. key_map key cs (label r) = Some c \<and> conv c = Inr d \<and> content r = content d"
      proof (cases "q \<in> set ?ds")
        case True
        then have "label q \<in> key ` set cs" using q(3) by blast
        note k = key_map_the [OF this]
        obtain d where d: "conv (the (key_map key cs (label q))) = Inr d" using bspec [OF total k(2)] by blast
        have "content (?up q) = content d" using update_of_row [OF pks labels _ _ k(1) d us] True by simp
        moreover have "label (?up q) = label q" by (simp add: updated_keeps)
        ultimately show ?thesis using d k(1) unfolding q(2) by metis
      next
        case False
        then have "q \<in> set new" using q(1,2) r(2) updated_keeps [of us q] by auto
        then show ?thesis using C(2) other [OF q(1) False] q(2) by auto
      qed
    qed
    show "\<forall>r \<in> set t. sel r \<longrightarrow> label r \<in> key ` set cs \<longrightarrow> (\<exists>r' \<in> set ?t'. pk_of r' = pk_of r \<and> label r' = label r)"
    proof (intro ballI impI)
      fix r assume r: "r \<in> set t" "label r \<in> key ` set cs"
      then have "?up r \<in> set ?t'" unfolding mem by auto
      then show "\<exists>r' \<in> set ?t'. pk_of r' = pk_of r \<and> label r' = label r" using updated_keeps by blast
    qed
    show "\<forall>r. \<not> sel r \<longrightarrow> r \<in> set ?t' \<longleftrightarrow> r \<in> set t \<and> label r \<notin> set (sorted_keys (\<lambda>k. k \<notin> key ` set cs) label ?ds)"
    proof (intro allI impI)
      fix r assume n: "\<not> sel r"
      have own: "q \<in> set t \<and> q \<notin> set ?ds" if "q \<in> set (t @ new)" "r = ?up q" for q
        using that n C(2) updated_keeps [of us q] by auto
      have "r \<in> set t \<and> label r \<notin> ?del" if "r \<in> set ?t'"
      proof -
        obtain q where q: "q \<in> set (t @ new)" "r = ?up q" "label q \<notin> ?del" using \<open>r \<in> set ?t'\<close> unfolding mem by blast
        then show ?thesis using own [OF q(1,2)] other [OF q(1)] by metis
      qed
      moreover have "r \<in> set ?t'" if "r \<in> set t" "label r \<notin> ?del"
        unfolding mem using that other [of r] n by (intro bexI [of _ r]) auto
      ultimately show "r \<in> set ?t' \<longleftrightarrow> r \<in> set t \<and> label r \<notin> set (sorted_keys (\<lambda>k. k \<notin> key ` set cs) label ?ds)"
        unfolding deleted by blast
    qed
  qed
qed

text \<open>The same as a refinement: seen through \<open>label\<close> and \<open>content\<close>, the queryset becomes the data.\<close>

lemma synced_view:
  assumes "label ` set (filter sel t') = key ` set cs"
    and "\<forall>r \<in> set t'. sel r \<longrightarrow> (\<exists>c d. key_map key cs (label r) = Some c \<and> conv c = Inr d \<and> content r = content d)"
  shows "(\<lambda>r. (label r, content r)) ` set (filter sel t') =
    {(k, content d) | k c d. key_map key cs k = Some c \<and> conv c = Inr d}"
proof
  show "(\<lambda>r. (label r, content r)) ` set (filter sel t') \<subseteq> {(k, content d) | k c d. key_map key cs k = Some c \<and> conv c = Inr d}"
    using assms(2) by fastforce
  show "{(k, content d) | k c d. key_map key cs k = Some c \<and> conv c = Inr d} \<subseteq> (\<lambda>r. (label r, content r)) ` set (filter sel t')"
  proof clarify
    fix k c d assume k: "key_map key cs k = Some c" "conv c = Inr d"
    then have "k \<in> label ` set (filter sel t')" using key_map_None assms(1) by (metis option.distinct(1))
    then obtain r where r: "r \<in> set (filter sel t')" "label r = k" by blast
    then have "content r = content d" using assms(2) k by force
    then show "(k, content d) \<in> (\<lambda>r. (label r, content r)) ` set (filter sel t')" using r by force
  qed
qed

end

end
