(* ===== verification/Label_Sync.thy ===== *)
theory Label_Sync
  imports Geiq_Assessments Paginated_Services Sync_Diff
begin

text \<open>
  \<open>geiq_assessments/sync.py\<close>: the employees, contracts and prequalifications of an assessment are read from Label and
  written to their tables.  The rows of \<open>Geiq_Assessments\<close> are extended with the columns only the synchronisation
  reads.  \<open>datetime.date.fromisoformat\<close> and the answers of Label are arguments; what the JSON of an item has besides the
  fields the code reads is a list of pairs.
\<close>

section \<open>Tables\<close>

type_synonym json_rest = "(string \<times> string) list"

record label_employee_row = geiq_employee +
  ge_last_name :: string
  ge_first_name :: string
  ge_title :: title
  ge_birthdate :: date
  ge_other_data :: json_rest

text \<open>The other data of a contract hold its employee, its branch and the rest.\<close>

record label_contract_row = employee_contract +
  ec_label_id :: int
  ec_other_data :: "int \<times> int \<times> json_rest"

record prequalification_row =
  pq_pk :: pk
  pq_employee :: pk
  pq_label_id :: int
  pq_start_at :: date
  pq_end_at :: date
  pq_other_data :: "int \<times> json_rest"

record label_assessment =
  la_pk :: pk
  la_campaign_year :: int
  la_label_geiq_id :: int
  la_label_antennas :: "int list"
  la_with_main_geiq :: bool
  la_contracts_synced_at :: "datetime option"
  la_employee_nb :: nat
  la_label_rates :: json_rest

record label_db =
  lb_assessments :: "label_assessment list"
  lb_employees :: "label_employee_row list"
  lb_contracts :: "label_contract_row list"
  lb_prequalifications :: "prequalification_row list"

section \<open>Data of Label\<close>

record raw_person =
  rp_id :: int
  rp_nom :: string
  rp_prenom :: string
  rp_sexe :: string
  rp_date_naissance :: string
  rp_montant_aide :: nat
  rp_geiq_id :: int
  rp_other :: json_rest

record raw_contract =
  rc_id :: int
  rc_date_debut :: string
  rc_date_fin :: string
  rc_date_fin_contrat :: "string option"
  rc_antenne :: int
  rc_salarie :: raw_person
  rc_other :: json_rest

record raw_prequalification =
  rq_id :: int
  rq_date_debut :: string
  rq_date_fin :: string
  rq_salarie :: raw_person
  rq_other :: json_rest

text \<open>The same after the conversions.\<close>

record label_person =
  lp_id :: int
  lp_nom :: string
  lp_prenom :: string
  lp_title :: title
  lp_birthdate :: date
  lp_montant_aide :: nat
  lp_other :: json_rest

record label_contract =
  lc_id :: int
  lc_start :: date
  lc_planned_end :: date
  lc_end :: "date option"
  lc_antenne :: int
  lc_salarie :: int
  lc_other :: json_rest

record label_prequalification =
  lq_id :: int
  lq_start :: date
  lq_end :: date
  lq_salarie :: int
  lq_other :: json_rest

section \<open>Conversions\<close>

definition convert_iso_datetime_to_date :: "(string \<Rightarrow> date option) \<Rightarrow> string \<Rightarrow> error + date" where
  "convert_iso_datetime_to_date fromisoformat s =
     (case fromisoformat (take 10 s) of None \<Rightarrow> Inl (ValueError ''isoformat'') | Some d \<Rightarrow> Inr d)"

definition sexe_title :: "string \<Rightarrow> error + title" where
  "sexe_title s =
     (if s = ''H'' \<or> s = ''M'' then Inr M else if s = ''F'' then Inr MME else Inl (KeyError s))"

definition cleanup_employee_info :: "(string \<Rightarrow> date option) \<Rightarrow> raw_person \<Rightarrow> error + label_person" where
  "cleanup_employee_info from_iso r =
     rbind (convert_iso_datetime_to_date from_iso (rp_date_naissance r)) (\<lambda>birthdate.
     rbind (sexe_title (rp_sexe r)) (\<lambda>t.
     Inr \<lparr>lp_id = rp_id r, lp_nom = rp_nom r, lp_prenom = rp_prenom r, lp_title = t, lp_birthdate = birthdate,
          lp_montant_aide = rp_montant_aide r, lp_other = rp_other r\<rparr>))"

text \<open>\<open>label_data_to_django\<close> for the three models; the key is set when the row is created.\<close>

definition employee_data_to_django :: "pk \<Rightarrow> int list \<Rightarrow> label_person \<Rightarrow> error + label_employee_row" where
  "employee_data_to_django assessment granted_previous_year p =
     Inr \<lparr>ge_pk = 0, ge_assessment = assessment, ge_label_id = lp_id p, ge_allowance_amount = lp_montant_aide p,
          ge_allowance_granted_previous_year = (lp_id p \<in> set granted_previous_year), ge_last_name = lp_nom p,
          ge_first_name = lp_prenom p, ge_title = lp_title p, ge_birthdate = lp_birthdate p, ge_other_data = lp_other p\<rparr>"

definition label_id_to_employee :: "pk \<Rightarrow> label_employee_row list \<Rightarrow> int \<Rightarrow> error + label_employee_row" where
  "label_id_to_employee assessment es i =
     (case key_map ge_label_id (filter (\<lambda>e. ge_assessment e = assessment) es) i of
        None \<Rightarrow> Inl (KeyError ''salarie'') | Some e \<Rightarrow> Inr e)"

definition contract_data_to_django :: "int \<Rightarrow> (int \<Rightarrow> error + label_employee_row) \<Rightarrow> label_contract \<Rightarrow> error + label_contract_row" where
  "contract_data_to_django campaign_year employee_of c =
     rbind (employee_of (lc_salarie c)) (\<lambda>e.
     Inr (employee_contract.extend
       (synced_contract campaign_year 0 (geiq_employee.truncate e) (lc_start c) (lc_planned_end c) (lc_end c))
       \<lparr>ec_label_id = lc_id c, ec_other_data = (lc_salarie c, lc_antenne c, lc_other c)\<rparr>))"

definition prequalification_data_to_django ::
  "(int \<Rightarrow> error + label_employee_row) \<Rightarrow> label_prequalification \<Rightarrow> error + prequalification_row" where
  "prequalification_data_to_django employee_of q =
     rbind (employee_of (lq_salarie q)) (\<lambda>e.
     Inr \<lparr>pq_pk = 0, pq_employee = ge_pk e, pq_label_id = lq_id q, pq_start_at = lq_start q, pq_end_at = lq_end q,
          pq_other_data = (lq_salarie q, lq_other q)\<rparr>)"

section \<open>Selection of the data\<close>

record label_selection =
  ls_persons :: "label_person list"
  ls_contracts :: "label_contract list"
  ls_in_year :: "int list"

definition check_person :: "label_person \<Rightarrow> label_person list \<Rightarrow> error + label_person list" where
  "check_person p ps =
     (case get_row lp_id (lp_id p) ps of
        Some q \<Rightarrow> if q = p then Inr ps else Inl (AssertionError ''employee_infos'')
      | None \<Rightarrow> Inr (ps @ [p]))"

definition select_contract ::
  "(string \<Rightarrow> date option) \<Rightarrow> int \<Rightarrow> int list \<Rightarrow> raw_contract \<Rightarrow> label_selection \<Rightarrow> error + label_selection" where
  "select_contract from_iso year antennas r s =
     rbind (convert_iso_datetime_to_date from_iso (rc_date_debut r)) (\<lambda>start.
     rbind (convert_iso_datetime_to_date from_iso (rc_date_fin r)) (\<lambda>planned.
     rbind (case rc_date_fin_contrat r of
              None \<Rightarrow> Inr None
            | Some d \<Rightarrow> if d = [] then Inr None else rbind (convert_iso_datetime_to_date from_iso d) (\<lambda>d. Inr (Some d))) (\<lambda>actual.
     if \<not> kept_by_sync year start planned actual (rc_antenne r) antennas then Inr s
     else
       let end_date = (case actual of None \<Rightarrow> planned | Some d \<Rightarrow> d); i = rp_id (rc_salarie r);
           in_year = (if january_first year \<le> end_date \<and> i \<notin> set (ls_in_year s) then ls_in_year s @ [i] else ls_in_year s)
       in rbind (cleanup_employee_info from_iso (rc_salarie r)) (\<lambda>p.
          rbind (check_person p (ls_persons s)) (\<lambda>ps.
          Inr \<lparr>ls_persons = ps, ls_contracts = ls_contracts s @
               [\<lparr>lc_id = rc_id r, lc_start = start, lc_planned_end = planned, lc_end = actual, lc_antenne = rc_antenne r,
                 lc_salarie = i, lc_other = rc_other r\<rparr>], ls_in_year = in_year\<rparr>)))))"

definition select_prequalification ::
  "(string \<Rightarrow> date option) \<Rightarrow> int \<Rightarrow> label_person list \<Rightarrow> raw_prequalification \<Rightarrow> label_prequalification list \<Rightarrow>
     error + label_prequalification list" where
  "select_prequalification from_iso year ps r qs =
     rbind (cleanup_employee_info from_iso (rq_salarie r)) (\<lambda>p.
     case get_row lp_id (lp_id p) ps of
       None \<Rightarrow> Inr qs
     | Some q \<Rightarrow>
         rbind (guard (q = p) (AssertionError ''employee_infos'')) (\<lambda>_.
         rbind (convert_iso_datetime_to_date from_iso (rq_date_debut r)) (\<lambda>start.
         rbind (convert_iso_datetime_to_date from_iso (rq_date_fin r)) (\<lambda>end_at.
         if january_first (year + 1) \<le> start \<or> end_at < january_first (year - 2) then Inr qs
         else Inr (qs @ [\<lparr>lq_id = rq_id r, lq_start = start, lq_end = end_at, lq_salarie = lp_id p, lq_other = rq_other r\<rparr>])))))"

section \<open>Writing the tables\<close>

definition employee_differs :: "(label_employee_row \<Rightarrow> label_person \<Rightarrow> bool) list" where
  "employee_differs =
     [\<lambda>e p. ge_label_id e \<noteq> lp_id p, \<lambda>e p. ge_last_name e \<noteq> lp_nom p, \<lambda>e p. ge_first_name e \<noteq> lp_prenom p,
      \<lambda>e p. ge_title e \<noteq> lp_title p, \<lambda>e p. ge_birthdate e \<noteq> lp_birthdate p,
      \<lambda>e p. ge_allowance_amount e \<noteq> lp_montant_aide p, \<lambda>e p. ge_other_data e \<noteq> lp_other p]"

definition employee_update :: "label_employee_row \<Rightarrow> label_employee_row \<Rightarrow> label_employee_row" where
  "employee_update new old = old\<lparr>ge_last_name := ge_last_name new, ge_first_name := ge_first_name new,
     ge_title := ge_title new, ge_birthdate := ge_birthdate new, ge_allowance_amount := ge_allowance_amount new,
     ge_other_data := ge_other_data new\<rparr>"

definition contract_differs :: "(label_contract_row \<Rightarrow> label_contract \<Rightarrow> bool) list" where
  "contract_differs =
     [\<lambda>r c. ec_label_id r \<noteq> lc_id c, \<lambda>r c. ec_start_at r \<noteq> lc_start c, \<lambda>r c. ec_planned_end_at r \<noteq> lc_planned_end c,
      \<lambda>r c. ec_end_at r \<noteq> lc_end c, \<lambda>r c. ec_other_data r \<noteq> (lc_salarie c, lc_antenne c, lc_other c)]"

definition contract_update :: "label_contract_row \<Rightarrow> label_contract_row \<Rightarrow> label_contract_row" where
  "contract_update new old = old\<lparr>ec_start_at := ec_start_at new, ec_planned_end_at := ec_planned_end_at new,
     ec_end_at := ec_end_at new, ec_other_data := ec_other_data new\<rparr>"

definition prequalification_differs :: "(prequalification_row \<Rightarrow> label_prequalification \<Rightarrow> bool) list" where
  "prequalification_differs =
     [\<lambda>r q. pq_label_id r \<noteq> lq_id q, \<lambda>r q. pq_start_at r \<noteq> lq_start q, \<lambda>r q. pq_end_at r \<noteq> lq_end q,
      \<lambda>r q. pq_other_data r \<noteq> (lq_salarie q, lq_other q)]"

definition prequalification_update :: "prequalification_row \<Rightarrow> prequalification_row \<Rightarrow> prequalification_row" where
  "prequalification_update new old = old\<lparr>pq_start_at := pq_start_at new, pq_end_at := pq_end_at new,
     pq_other_data := pq_other_data new\<rparr>"

definition of_assessment :: "pk \<Rightarrow> label_employee_row list \<Rightarrow> pk \<Rightarrow> bool" where
  "of_assessment assessment es p \<longleftrightarrow> list_ex (\<lambda>e. ge_pk e = p \<and> ge_assessment e = assessment) es"

definition sync_employees ::
  "pk \<Rightarrow> int list \<Rightarrow> label_person list \<Rightarrow> label_employee_row list \<Rightarrow>
     error + label_employee_row list \<times> label_employee_row list \<times> int list \<times> label_employee_row list" where
  "sync_employees assessment granted ps es =
     sync_to_db lp_id ge_label_id employee_differs (employee_data_to_django assessment granted) ge_pk
       (\<lambda>p e. e\<lparr>ge_pk := p\<rparr>) employee_update (\<lambda>e. ge_assessment e = assessment) True ps es"

definition sync_contracts ::
  "pk \<Rightarrow> int \<Rightarrow> label_employee_row list \<Rightarrow> label_contract list \<Rightarrow> label_contract_row list \<Rightarrow>
     error + label_contract_row list \<times> label_contract_row list \<times> int list \<times> label_contract_row list" where
  "sync_contracts assessment year es cs t =
     sync_to_db lc_id ec_label_id contract_differs (contract_data_to_django year (label_id_to_employee assessment es)) ec_pk
       (\<lambda>p r. r\<lparr>ec_pk := p\<rparr>) contract_update (\<lambda>r. of_assessment assessment es (ec_employee r)) True cs t"

definition sync_prequalifications ::
  "pk \<Rightarrow> label_employee_row list \<Rightarrow> label_prequalification list \<Rightarrow> prequalification_row list \<Rightarrow>
     error + prequalification_row list \<times> prequalification_row list \<times> int list \<times> prequalification_row list" where
  "sync_prequalifications assessment es qs t =
     sync_to_db lq_id pq_label_id prequalification_differs (prequalification_data_to_django (label_id_to_employee assessment es))
       pq_pk (\<lambda>p r. r\<lparr>pq_pk := p\<rparr>) prequalification_update (\<lambda>r. of_assessment assessment es (pq_employee r)) True qs t"

text \<open>Removing an employee removes its contracts and prequalifications (\<open>CASCADE\<close>).\<close>

definition cascade_employees :: "label_employee_row list \<Rightarrow> label_db \<Rightarrow> label_db" where
  "cascade_employees es x =
     x\<lparr>lb_employees := es,
       lb_contracts := filter (\<lambda>c. ec_employee c \<notin> ge_pk ` set (lb_employees x) \<or> ec_employee c \<in> ge_pk ` set es) (lb_contracts x),
       lb_prequalifications := filter (\<lambda>q. pq_employee q \<notin> ge_pk ` set (lb_employees x) \<or> pq_employee q \<in> ge_pk ` set es)
         (lb_prequalifications x)\<rparr>"

definition granted_previous_year :: "label_assessment \<Rightarrow> label_db \<Rightarrow> int list" where
  "granted_previous_year a x =
     map ge_label_id (filter (\<lambda>e.
       list_ex (\<lambda>b. la_pk b = ge_assessment e \<and> la_label_geiq_id b = la_label_geiq_id a \<and>
          la_campaign_year b = la_campaign_year a - 1) (lb_assessments x) \<and>
       list_ex (\<lambda>c. ec_employee c = ge_pk e \<and> ec_allowance_granted c) (lb_contracts x)) (lb_employees x))"

text \<open>The answers of Label.  \<open>stale\<close> is the assessment the caller has in memory, checked before the row is locked.\<close>

record label_service =
  lv_rates :: "int \<Rightarrow> json_rest list label_response"
  lv_rates_page :: "nat \<Rightarrow> json_rest list label_response"
  lv_rate_geiq :: "json_rest \<Rightarrow> int"
  lv_count_contracts :: "label_where list \<Rightarrow> nat label_response"
  lv_contracts :: "label_where list \<Rightarrow> nat \<Rightarrow> raw_contract list label_response"
  lv_count_prequalifications :: "label_where list \<Rightarrow> nat label_response"
  lv_prequalifications :: "label_where list \<Rightarrow> nat \<Rightarrow> raw_prequalification list label_response"

definition assessment_antennas :: "label_assessment \<Rightarrow> int list" where
  "assessment_antennas a = la_label_antennas a @ (if la_with_main_geiq a then [0] else [])"

definition write_selection ::
  "datetime \<Rightarrow> label_assessment \<Rightarrow> json_rest \<Rightarrow> label_selection \<Rightarrow> label_prequalification list \<Rightarrow> label_db \<Rightarrow> error + label_db" where
  "write_selection now a rates s qs x =
     rbind (sync_employees (la_pk a) (granted_previous_year a x) (ls_persons s) (lb_employees x)) (\<lambda>(_, _, _, es).
     let x1 = cascade_employees es x in
     rbind (sync_contracts (la_pk a) (la_campaign_year a) es (ls_contracts s) (lb_contracts x1)) (\<lambda>(_, _, _, cs).
     rbind (sync_prequalifications (la_pk a) es qs (lb_prequalifications x1)) (\<lambda>(_, _, _, ps).
     Inr (x1\<lparr>lb_contracts := cs, lb_prequalifications := ps,
       lb_assessments := map_rows (\<lambda>b. la_pk b = la_pk a) (\<lambda>b. b\<lparr>la_contracts_synced_at := Some now,
         la_employee_nb := length (ls_in_year s), la_label_rates := rates\<rparr>) (lb_assessments x1)\<rparr>))))"

definition read_contracts :: "label_service \<Rightarrow> label_assessment \<Rightarrow> (error + raw_contract list) option" where
  "read_contracts v a =
     get_all_contracts 100 (\<lambda>r. rp_geiq_id (rc_salarie r)) (la_label_geiq_id a) (Some (january_first (la_campaign_year a) - 92 - 1))
       (lv_count_contracts v) (lv_contracts v)"

definition read_prequalifications :: "label_service \<Rightarrow> label_assessment \<Rightarrow> (error + raw_prequalification list) option" where
  "read_prequalifications v a =
     get_all_prequalifications 100 (\<lambda>r. rp_geiq_id (rq_salarie r)) (la_label_geiq_id a)
       (lv_count_prequalifications v) (lv_prequalifications v)"

definition sync_employee_and_contracts ::
  "(string \<Rightarrow> date option) \<Rightarrow> label_service \<Rightarrow> datetime \<Rightarrow> label_assessment \<Rightarrow> label_db \<Rightarrow> (error + label_db) option" where
  "sync_employee_and_contracts from_iso v now stale x =
     (if la_contracts_synced_at stale \<noteq> None then Some (Inl (AssertionError ''contracts_synced_at''))
      else (case get_row la_pk (la_pk stale) (lb_assessments x) of
        None \<Rightarrow> Some (Inl (DoesNotExist ''Assessment''))
      | Some a \<Rightarrow>
          if la_contracts_synced_at a \<noteq> None then Some (Inr x)
          else (case get_taux_geiq 100 (la_label_geiq_id a) (lv_rate_geiq v) (lv_rates v) (lv_rates_page v) of
            None \<Rightarrow> None
          | Some (Inl e) \<Rightarrow> Some (Inl e)
          | Some (Inr []) \<Rightarrow> Some (Inl IndexError)
          | Some (Inr (rates # _)) \<Rightarrow>
              (case read_contracts v a of
                 None \<Rightarrow> None
               | Some raw \<Rightarrow>
                   (case rbind raw (\<lambda>raw. rfold (select_contract from_iso (la_campaign_year a) (assessment_antennas a)) raw
                        \<lparr>ls_persons = [], ls_contracts = [], ls_in_year = []\<rparr>) of
                      Inl e \<Rightarrow> Some (Inl e)
                    | Inr s \<Rightarrow>
                        map_option (\<lambda>raw_qs.
                          rbind raw_qs (\<lambda>raw_qs.
                          rbind (rfold (select_prequalification from_iso (la_campaign_year a) (ls_persons s)) raw_qs []) (\<lambda>qs.
                          write_selection now a rates s qs x)))
                        (read_prequalifications v a))))))"

end
