(* ===== verification/Label_Sync_Effects.thy ===== *)
theory Label_Sync_Effects
  imports Label_Sync
begin

text \<open>The three synchronised tables are instances of \<open>label_table\<close>; what the selection of the data gives.\<close>

section \<open>Interpretations\<close>

definition employee_content :: "label_employee_row \<Rightarrow> int \<times> string \<times> string \<times> title \<times> date \<times> nat \<times> json_rest" where
  "employee_content e = (ge_label_id e, ge_last_name e, ge_first_name e, ge_title e, ge_birthdate e, ge_allowance_amount e, ge_other_data e)"

definition person_content :: "label_person \<Rightarrow> int \<times> string \<times> string \<times> title \<times> date \<times> nat \<times> json_rest" where
  "person_content p = (lp_id p, lp_nom p, lp_prenom p, lp_title p, lp_birthdate p, lp_montant_aide p, lp_other p)"

definition contract_content :: "label_contract_row \<Rightarrow> int \<times> date \<times> date \<times> date option \<times> int \<times> int \<times> json_rest" where
  "contract_content r = (ec_label_id r, ec_start_at r, ec_planned_end_at r, ec_end_at r, ec_other_data r)"

definition data_content :: "label_contract \<Rightarrow> int \<times> date \<times> date \<times> date option \<times> int \<times> int \<times> json_rest" where
  "data_content c = (lc_id c, lc_start c, lc_planned_end c, lc_end c, lc_salarie c, lc_antenne c, lc_other c)"

definition prequalification_content :: "prequalification_row \<Rightarrow> int \<times> date \<times> date \<times> int \<times> json_rest" where
  "prequalification_content r = (pq_label_id r, pq_start_at r, pq_end_at r, pq_other_data r)"

definition prequalification_data :: "label_prequalification \<Rightarrow> int \<times> date \<times> date \<times> int \<times> json_rest" where
  "prequalification_data q = (lq_id q, lq_start q, lq_end q, lq_salarie q, lq_other q)"

interpretation emp: label_table lp_id ge_label_id employee_differs "employee_data_to_django assessment granted" ge_pk
    "\<lambda>p e. e\<lparr>ge_pk := p\<rparr>" employee_update
    "\<lambda>e. ge_assessment e = assessment" "\<lambda>e. (ge_last_name e, ge_first_name e, ge_title e, ge_birthdate e, ge_allowance_amount e, ge_other_data e)"
  for assessment granted
  by unfold_locales
    (auto simp: employee_data_to_django_def employee_update_def employee_differs_def)

lemma contract_conv:
  assumes "contract_data_to_django year (label_id_to_employee assessment es) c = Inr r"
  obtains e where "e \<in> set es" "ge_assessment e = assessment" "ge_label_id e = lc_salarie c" "ec_employee r = ge_pk e"
    "ec_label_id r = lc_id c" "ec_start_at r = lc_start c" "ec_planned_end_at r = lc_planned_end c" "ec_end_at r = lc_end c"
    "ec_other_data r = (lc_salarie c, lc_antenne c, lc_other c)"
  using assms
  by (auto simp: contract_data_to_django_def label_id_to_employee_def synced_contract_def Let_def employee_contract.defs
      geiq_employee.defs dest!: key_map_Some split: option.splits)

interpretation con: label_table lc_id ec_label_id contract_differs
    "contract_data_to_django year (label_id_to_employee assessment es)" ec_pk "\<lambda>p r. r\<lparr>ec_pk := p\<rparr>" contract_update
    "\<lambda>r. of_assessment assessment es (ec_employee r)" "\<lambda>r. (ec_start_at r, ec_planned_end_at r, ec_end_at r, ec_other_data r)"
  for year assessment es
proof
  fix c r d new old p
  assume c: "contract_data_to_django year (label_id_to_employee assessment es) c = Inr d"
  show "ec_label_id d = lc_id c" "of_assessment assessment es (ec_employee d)"
    by (rule contract_conv [OF c]; auto simp: of_assessment_def list_ex_iff)+
  show "ec_label_id r = lc_id c \<Longrightarrow> (\<forall>f \<in> set contract_differs. \<not> f r c) \<longleftrightarrow>
      (ec_start_at r, ec_planned_end_at r, ec_end_at r, ec_other_data r) = (ec_start_at d, ec_planned_end_at d, ec_end_at d, ec_other_data d)"
    by (rule contract_conv [OF c]) (auto simp: contract_differs_def)
qed (auto simp: contract_update_def contract_differs_def)

lemma prequalification_conv:
  assumes "prequalification_data_to_django (label_id_to_employee assessment es) q = Inr r"
  obtains e where "e \<in> set es" "ge_assessment e = assessment" "ge_label_id e = lq_salarie q" "pq_employee r = ge_pk e"
    "pq_label_id r = lq_id q" "pq_start_at r = lq_start q" "pq_end_at r = lq_end q" "pq_other_data r = (lq_salarie q, lq_other q)"
  using assms
  by (auto simp: prequalification_data_to_django_def label_id_to_employee_def dest!: key_map_Some split: option.splits)

interpretation pre: label_table lq_id pq_label_id prequalification_differs
    "prequalification_data_to_django (label_id_to_employee assessment es)" pq_pk "\<lambda>p r. r\<lparr>pq_pk := p\<rparr>" prequalification_update
    "\<lambda>r. of_assessment assessment es (pq_employee r)" "\<lambda>r. (pq_start_at r, pq_end_at r, pq_other_data r)"
  for assessment es
proof
  fix c r d new old p
  assume c: "prequalification_data_to_django (label_id_to_employee assessment es) c = Inr d"
  show "pq_label_id d = lq_id c" "of_assessment assessment es (pq_employee d)"
    by (rule prequalification_conv [OF c]; auto simp: of_assessment_def list_ex_iff)+
  show "pq_label_id r = lq_id c \<Longrightarrow> (\<forall>f \<in> set prequalification_differs. \<not> f r c) \<longleftrightarrow>
      (pq_start_at r, pq_end_at r, pq_other_data r) = (pq_start_at d, pq_end_at d, pq_other_data d)"
    by (rule prequalification_conv [OF c]) (auto simp: prequalification_differs_def)
qed (auto simp: prequalification_update_def prequalification_differs_def)

section \<open>The selected data\<close>

definition selection_ok :: "label_selection \<Rightarrow> bool" where
  "selection_ok s \<longleftrightarrow> distinct (map lp_id (ls_persons s)) \<and> distinct (ls_in_year s) \<and>
     (\<forall>c \<in> set (ls_contracts s). lc_salarie c \<in> lp_id ` set (ls_persons s))"

lemma check_person_ok:
  assumes "check_person p ps = Inr qs" "distinct (map lp_id ps)"
  shows "distinct (map lp_id qs)" "lp_id ` set ps \<subseteq> lp_id ` set qs" "lp_id p \<in> lp_id ` set qs"
  using assms by (auto simp: check_person_def get_row_None_iff dest!: get_row_SomeD split: option.splits if_splits)

lemma select_contract_ok:
  assumes "select_contract from_iso year antennas r s = Inr s'" "selection_ok s"
  shows "selection_ok s'"
proof -
  consider "s' = s" | p ps start planned actual y where "cleanup_employee_info from_iso (rc_salarie r) = Inr p" "check_person p (ls_persons s) = Inr ps"
    "s' = \<lparr>ls_persons = ps, ls_contracts = ls_contracts s @ [\<lparr>lc_id = rc_id r, lc_start = start, lc_planned_end = planned,
       lc_end = actual, lc_antenne = rc_antenne r, lc_salarie = rp_id (rc_salarie r), lc_other = rc_other r\<rparr>], ls_in_year = y\<rparr>"
    "distinct y"
    using assms by (auto simp: select_contract_def Let_def selection_ok_def split: if_splits)
  then show ?thesis
  proof cases
    case (2 p ps start planned actual y)
    have "lp_id p = rp_id (rc_salarie r)" using 2(1) by (auto simp: cleanup_employee_info_def)
    then show ?thesis using check_person_ok [OF 2(2)] assms(2) 2(3,4) by (auto simp: selection_ok_def)
  qed (use assms(2) in simp)
qed

lemma select_contracts_ok:
  "rfold (select_contract from_iso year antennas) raw \<lparr>ls_persons = [], ls_contracts = [], ls_in_year = []\<rparr> = Inr s \<Longrightarrow> selection_ok s"
  using rfold_invariant [of raw selection_ok "select_contract from_iso year antennas"] select_contract_ok
  by (metis (no_types, lifting) selection_ok_def distinct.simps(1) empty_iff label_selection.select_convs list.map(1) list.set(1))

lemma select_prequalifications_ok:
  assumes "rfold (select_prequalification from_iso year ps) raw [] = Inr qs"
  shows "\<forall>q \<in> set qs. lq_salarie q \<in> lp_id ` set ps"
proof (rule rfold_invariant [where P = "\<lambda>qs. \<forall>q \<in> set qs. lq_salarie q \<in> lp_id ` set ps", OF _ _ assms])
  fix r s s'
  assume s: "\<forall>q \<in> set s. lq_salarie q \<in> lp_id ` set ps" and run: "select_prequalification from_iso year ps r s = Inr s'"
  obtain p where p: "cleanup_employee_info from_iso (rq_salarie r) = Inr p" using run by (auto simp: select_prequalification_def)
  show "\<forall>q \<in> set s'. lq_salarie q \<in> lp_id ` set ps"
  proof (cases "get_row lp_id (lp_id p) ps")
    case None
    then show ?thesis using s run p by (simp add: select_prequalification_def)
  next
    case (Some q)
    then have "lp_id p \<in> lp_id ` set ps" using get_row_None_iff by (metis option.distinct(1))
    then show ?thesis using s run p Some by (auto simp: select_prequalification_def split: if_splits)
  qed
qed simp

section \<open>The tables after the synchronisation\<close>

definition label_tables_ok :: "pk \<Rightarrow> label_db \<Rightarrow> bool" where
  "label_tables_ok a x \<longleftrightarrow>
     distinct (map ge_pk (lb_employees x)) \<and> distinct (map ec_pk (lb_contracts x)) \<and> distinct (map pq_pk (lb_prequalifications x)) \<and>
     distinct (map ge_label_id (filter (\<lambda>e. ge_assessment e = a) (lb_employees x))) \<and>
     distinct (map ec_label_id (filter (\<lambda>c. of_assessment a (lb_employees x) (ec_employee c)) (lb_contracts x))) \<and>
     distinct (map pq_label_id (filter (\<lambda>q. of_assessment a (lb_employees x) (pq_employee q)) (lb_prequalifications x))) \<and>
     ec_employee ` set (lb_contracts x) \<subseteq> ge_pk ` set (lb_employees x) \<and>
     pq_employee ` set (lb_prequalifications x) \<subseteq> ge_pk ` set (lb_employees x)"

lemma of_assessment_iff: "of_assessment a es p \<longleftrightarrow> (\<exists>e \<in> set es. ge_pk e = p \<and> ge_assessment e = a)"
  by (auto simp: of_assessment_def list_ex_iff)

lemma distinct_filter_weaker:
  assumes "distinct (map f (filter P xs))" "\<And>x. x \<in> set xs \<Longrightarrow> Q x \<Longrightarrow> P x"
  shows "distinct (map f (filter Q (filter R xs)))"
proof -
  have "filter Q (filter R xs) = filter Q (filter R (filter P xs))" using assms(2) by (induction xs) auto
  then show ?thesis using assms(1) by (metis distinct_map_filter)
qed

lemma employee_found:
  assumes "distinct (map ge_label_id (filter (\<lambda>e. ge_assessment e = a) es))" "i \<in> ge_label_id ` set (filter (\<lambda>e. ge_assessment e = a) es)"
  shows "\<exists>e. label_id_to_employee a es i = Inr e"
proof -
  obtain e where "key_map ge_label_id (filter (\<lambda>e. ge_assessment e = a) es) i = Some e"
    using key_map_the(1) [OF assms(2)] by blast
  then show ?thesis by (simp add: label_id_to_employee_def)
qed

lemma sync_employees_spec:
  assumes "label_tables_ok a x" "distinct (map lp_id ps)"
  obtains ns us deleted es where "sync_employees a granted ps (lb_employees x) = Inr (ns, us, deleted, es)"
    "distinct (map ge_pk es)" "distinct (map ge_label_id (filter (\<lambda>e. ge_assessment e = a) es))"
    "ge_label_id ` set (filter (\<lambda>e. ge_assessment e = a) es) = lp_id ` set ps"
    "employee_content ` set (filter (\<lambda>e. ge_assessment e = a) es) = person_content ` set ps"
    "\<forall>e' \<in> set es. ge_pk e' \<in> ge_pk ` set (lb_employees x) \<longrightarrow>
       (\<exists>e \<in> set (lb_employees x). ge_pk e = ge_pk e' \<and> (ge_assessment e = a \<longleftrightarrow> ge_assessment e' = a))"
    "set deleted = ge_label_id ` set (filter (\<lambda>e. ge_assessment e = a) (lb_employees x)) - lp_id ` set ps"
    "\<forall>e. ge_assessment e \<noteq> a \<longrightarrow> e \<in> set es \<longleftrightarrow> e \<in> set (lb_employees x) \<and> ge_label_id e \<notin> set deleted"
proof -
  have pre: "distinct (map ge_pk (lb_employees x))" "distinct (map ge_label_id (filter (\<lambda>e. ge_assessment e = a) (lb_employees x)))"
    using assms(1) by (simp_all add: label_tables_ok_def)
  have total: "\<forall>c \<in> set ps. \<exists>d. employee_data_to_django a granted c = Inr d"
    by (simp add: employee_data_to_django_def)
  obtain ns us deleted es where
    S: "sync_employees a granted ps (lb_employees x) = Inr (ns, us, deleted, es)"
    "distinct (map ge_pk es)" "distinct (map ge_label_id (filter (\<lambda>e. ge_assessment e = a) es))"
    "ge_label_id ` set (filter (\<lambda>e. ge_assessment e = a) es) = lp_id ` set ps"
    and C: "\<forall>r \<in> set es. ge_assessment r = a \<longrightarrow> (\<exists>c d. key_map lp_id ps (ge_label_id r) = Some c \<and>
        employee_data_to_django a granted c = Inr d \<and>
        (ge_last_name r, ge_first_name r, ge_title r, ge_birthdate r, ge_allowance_amount r, ge_other_data r) =
        (ge_last_name d, ge_first_name d, ge_title d, ge_birthdate d, ge_allowance_amount d, ge_other_data d))"
    and D: "set deleted = ge_label_id ` set (filter (\<lambda>e. ge_assessment e = a) (lb_employees x)) - lp_id ` set ps"
      "\<forall>e. ge_assessment e \<noteq> a \<longrightarrow> e \<in> set es \<longleftrightarrow> e \<in> set (lb_employees x) \<and> ge_label_id e \<notin> set deleted"
      "\<forall>e' \<in> set es. ge_pk e' \<in> ge_pk ` set (lb_employees x) \<longrightarrow>
         (\<exists>e \<in> set (lb_employees x). ge_pk e = ge_pk e' \<and> (ge_assessment e = a \<longleftrightarrow> ge_assessment e' = a))"
    by (rule emp.synced [OF pre total, folded sync_employees_def]) (rule that; assumption)
  have one: "employee_content e = person_content p" if e: "e \<in> set es" "ge_assessment e = a" and p: "p \<in> set ps" "ge_label_id e = lp_id p" for e p
  proof -
    have "key_map lp_id ps (ge_label_id e) = Some p" using key_map_unique [OF assms(2) p(1)] p(2) by simp
    then show ?thesis using C e p(2) by (auto simp: employee_content_def person_content_def employee_data_to_django_def)
  qed
  have "employee_content ` set (filter (\<lambda>e. ge_assessment e = a) es) = person_content ` set ps"
  proof
    show "employee_content ` set (filter (\<lambda>e. ge_assessment e = a) es) \<subseteq> person_content ` set ps"
    proof (rule image_subsetI)
      fix e assume e: "e \<in> set (filter (\<lambda>e. ge_assessment e = a) es)"
      then have "ge_label_id e \<in> lp_id ` set ps" using S(4) by blast
      then obtain p where p: "p \<in> set ps" "ge_label_id e = lp_id p" by blast
      then show "employee_content e \<in> person_content ` set ps" using one [OF _ _ p] e by auto
    qed
    show "person_content ` set ps \<subseteq> employee_content ` set (filter (\<lambda>e. ge_assessment e = a) es)"
    proof (rule image_subsetI)
      fix p assume p: "p \<in> set ps"
      then have "lp_id p \<in> ge_label_id ` set (filter (\<lambda>e. ge_assessment e = a) es)" using S(4) by blast
      then obtain e where "e \<in> set (filter (\<lambda>e. ge_assessment e = a) es)" "ge_label_id e = lp_id p" by force
      then show "person_content p \<in> employee_content ` set (filter (\<lambda>e. ge_assessment e = a) es)"
        using one [of e p] p by (intro image_eqI [of _ _ e]) auto
    qed
  qed
  then show thesis by (intro that [OF S(1-4) _ D(3) D(1,2)])
qed

lemma sync_contracts_spec:
  assumes "distinct (map ec_pk t)" "distinct (map ec_label_id (filter (\<lambda>r. of_assessment a es (ec_employee r)) t))"
    and "\<forall>c \<in> set cs. \<exists>e. label_id_to_employee a es (lc_salarie c) = Inr e"
    and "ec_employee ` set t \<subseteq> ge_pk ` set es"
  obtains ns us deleted t' where "sync_contracts a year es cs t = Inr (ns, us, deleted, t')" "distinct (map ec_pk t')"
    "distinct (map ec_label_id (filter (\<lambda>r. of_assessment a es (ec_employee r)) t'))"
    "contract_content ` set (filter (\<lambda>r. of_assessment a es (ec_employee r)) t') =
       {data_content c | c. key_map lc_id cs (lc_id c) = Some c}"
    "\<forall>r. \<not> of_assessment a es (ec_employee r) \<longrightarrow> r \<in> set t' \<longleftrightarrow> r \<in> set t \<and> ec_label_id r \<notin> set deleted"
    "set deleted = ec_label_id ` set (filter (\<lambda>r. of_assessment a es (ec_employee r)) t) - lc_id ` set cs"
    "ec_employee ` set t' \<subseteq> ge_pk ` set es"
proof -
  have total: "\<forall>c \<in> set cs. \<exists>d. contract_data_to_django year (label_id_to_employee a es) c = Inr d"
    using assms(3) by (fastforce simp: contract_data_to_django_def)
  obtain ns us deleted t' where
    S: "sync_contracts a year es cs t = Inr (ns, us, deleted, t')" "distinct (map ec_pk t')"
    "distinct (map ec_label_id (filter (\<lambda>r. of_assessment a es (ec_employee r)) t'))"
    and K: "ec_label_id ` set (filter (\<lambda>r. of_assessment a es (ec_employee r)) t') = lc_id ` set cs"
    and C: "\<forall>r \<in> set t'. of_assessment a es (ec_employee r) \<longrightarrow> (\<exists>c d. key_map lc_id cs (ec_label_id r) = Some c \<and>
        contract_data_to_django year (label_id_to_employee a es) c = Inr d \<and>
        (ec_start_at r, ec_planned_end_at r, ec_end_at r, ec_other_data r) =
        (ec_start_at d, ec_planned_end_at d, ec_end_at d, ec_other_data d))"
    and D: "set deleted = ec_label_id ` set (filter (\<lambda>r. of_assessment a es (ec_employee r)) t) - lc_id ` set cs"
    "\<forall>r. \<not> of_assessment a es (ec_employee r) \<longrightarrow> r \<in> set t' \<longleftrightarrow> r \<in> set t \<and> ec_label_id r \<notin> set deleted"
    by (rule con.synced [OF assms(1,2) total, folded sync_contracts_def]) (rule that; assumption)
  have view: "contract_content ` set (filter (\<lambda>r. of_assessment a es (ec_employee r)) t') =
      {data_content c | c. key_map lc_id cs (lc_id c) = Some c}"
  proof -
    have "contract_content ` set (filter (\<lambda>r. of_assessment a es (ec_employee r)) t') =
        (\<lambda>r. (ec_label_id r, ec_start_at r, ec_planned_end_at r, ec_end_at r, ec_other_data r)) `
        set (filter (\<lambda>r. of_assessment a es (ec_employee r)) t')"
      by (intro image_cong refl) (simp add: contract_content_def)
    also note con.synced_view [OF K C]
    also have "{(k, ec_start_at d, ec_planned_end_at d, ec_end_at d, ec_other_data d) | k c d.
          key_map lc_id cs k = Some c \<and> contract_data_to_django year (label_id_to_employee a es) c = Inr d} =
        {data_content c | c. key_map lc_id cs (lc_id c) = Some c}"
      by (rule key_map_view [OF total]) (erule contract_conv, simp add: data_content_def)
    finally show ?thesis .
  qed
  have "ec_employee r \<in> ge_pk ` set es" if "r \<in> set t'" for r
  proof (cases "of_assessment a es (ec_employee r)")
    case False
    then have "r \<in> set t" using D(2) that by simp
    then show ?thesis using assms(4) by blast
  next
    case True
    then show ?thesis unfolding of_assessment_iff by (metis image_eqI)
  qed
  then show thesis by (intro that [OF S view D(2,1)]) blast
qed

lemma sync_prequalifications_spec:
  assumes "distinct (map pq_pk t)" "distinct (map pq_label_id (filter (\<lambda>r. of_assessment a es (pq_employee r)) t))"
    and "\<forall>c \<in> set cs. \<exists>e. label_id_to_employee a es (lq_salarie c) = Inr e"
    and "pq_employee ` set t \<subseteq> ge_pk ` set es"
  obtains ns us deleted t' where "sync_prequalifications a es cs t = Inr (ns, us, deleted, t')" "distinct (map pq_pk t')"
    "distinct (map pq_label_id (filter (\<lambda>r. of_assessment a es (pq_employee r)) t'))"
    "prequalification_content ` set (filter (\<lambda>r. of_assessment a es (pq_employee r)) t') =
       {prequalification_data c | c. key_map lq_id cs (lq_id c) = Some c}"
    "\<forall>r. \<not> of_assessment a es (pq_employee r) \<longrightarrow> r \<in> set t' \<longleftrightarrow> r \<in> set t \<and> pq_label_id r \<notin> set deleted"
    "set deleted = pq_label_id ` set (filter (\<lambda>r. of_assessment a es (pq_employee r)) t) - lq_id ` set cs"
    "pq_employee ` set t' \<subseteq> ge_pk ` set es"
proof -
  have total: "\<forall>c \<in> set cs. \<exists>d. prequalification_data_to_django (label_id_to_employee a es) c = Inr d"
    using assms(3) by (fastforce simp: prequalification_data_to_django_def)
  obtain ns us deleted t' where
    S: "sync_prequalifications a es cs t = Inr (ns, us, deleted, t')" "distinct (map pq_pk t')"
    "distinct (map pq_label_id (filter (\<lambda>r. of_assessment a es (pq_employee r)) t'))"
    and K: "pq_label_id ` set (filter (\<lambda>r. of_assessment a es (pq_employee r)) t') = lq_id ` set cs"
    and C: "\<forall>r \<in> set t'. of_assessment a es (pq_employee r) \<longrightarrow> (\<exists>c d. key_map lq_id cs (pq_label_id r) = Some c \<and>
        prequalification_data_to_django (label_id_to_employee a es) c = Inr d \<and>
        (pq_start_at r, pq_end_at r, pq_other_data r) =
        (pq_start_at d, pq_end_at d, pq_other_data d))"
    and D: "set deleted = pq_label_id ` set (filter (\<lambda>r. of_assessment a es (pq_employee r)) t) - lq_id ` set cs"
    "\<forall>r. \<not> of_assessment a es (pq_employee r) \<longrightarrow> r \<in> set t' \<longleftrightarrow> r \<in> set t \<and> pq_label_id r \<notin> set deleted"
    by (rule pre.synced [OF assms(1,2) total, folded sync_prequalifications_def]) (rule that; assumption)
  have view: "prequalification_content ` set (filter (\<lambda>r. of_assessment a es (pq_employee r)) t') =
      {prequalification_data c | c. key_map lq_id cs (lq_id c) = Some c}"
  proof -
    have "prequalification_content ` set (filter (\<lambda>r. of_assessment a es (pq_employee r)) t') =
        (\<lambda>r. (pq_label_id r, pq_start_at r, pq_end_at r, pq_other_data r)) `
        set (filter (\<lambda>r. of_assessment a es (pq_employee r)) t')"
      by (intro image_cong refl) (simp add: prequalification_content_def)
    also note pre.synced_view [OF K C]
    also have "{(k, pq_start_at d, pq_end_at d, pq_other_data d) | k c d.
          key_map lq_id cs k = Some c \<and> prequalification_data_to_django (label_id_to_employee a es) c = Inr d} =
        {prequalification_data c | c. key_map lq_id cs (lq_id c) = Some c}"
      by (rule key_map_view [OF total]) (erule prequalification_conv, simp add: prequalification_data_def)
    finally show ?thesis .
  qed
  have "pq_employee r \<in> ge_pk ` set es" if "r \<in> set t'" for r
  proof (cases "of_assessment a es (pq_employee r)")
    case False
    then have "r \<in> set t" using D(2) that by simp
    then show ?thesis using assms(4) by blast
  next
    case True
    then show ?thesis unfolding of_assessment_iff by (metis image_eqI)
  qed
  then show thesis by (intro that [OF S view D(2,1)]) blast
qed

text \<open>Removing employees keeps the rows of the employees that stay, and of the other assessments.\<close>

lemma cascade_tables:
  "lb_contracts (cascade_employees es x) =
     filter (\<lambda>c. ec_employee c \<notin> ge_pk ` set (lb_employees x) \<or> ec_employee c \<in> ge_pk ` set es) (lb_contracts x)"
  "lb_prequalifications (cascade_employees es x) =
     filter (\<lambda>q. pq_employee q \<notin> ge_pk ` set (lb_employees x) \<or> pq_employee q \<in> ge_pk ` set es) (lb_prequalifications x)"
  by (simp_all add: cascade_employees_def)

lemma cascade_ok:
  assumes "label_tables_ok a x"
    and keep: "\<forall>e' \<in> set es. ge_pk e' \<in> ge_pk ` set (lb_employees x) \<longrightarrow>
       (\<exists>e \<in> set (lb_employees x). ge_pk e = ge_pk e' \<and> (ge_assessment e = a \<longleftrightarrow> ge_assessment e' = a))"
    and "x1 = cascade_employees es x"
  shows "distinct (map ec_pk (lb_contracts x1))" "distinct (map pq_pk (lb_prequalifications x1))"
    "distinct (map ec_label_id (filter (\<lambda>r. of_assessment a es (ec_employee r)) (lb_contracts x1)))"
    "distinct (map pq_label_id (filter (\<lambda>r. of_assessment a es (pq_employee r)) (lb_prequalifications x1)))"
    "ec_employee ` set (lb_contracts x1) \<subseteq> ge_pk ` set es" "pq_employee ` set (lb_prequalifications x1) \<subseteq> ge_pk ` set es"
proof -
  note T = assms(1) [unfolded label_tables_ok_def]
  show "distinct (map ec_pk (lb_contracts x1))" "distinct (map pq_pk (lb_prequalifications x1))"
    using T by (simp_all add: assms(3) cascade_employees_def distinct_map_filter)
  show "ec_employee ` set (lb_contracts x1) \<subseteq> ge_pk ` set es" "pq_employee ` set (lb_prequalifications x1) \<subseteq> ge_pk ` set es"
    using T by (auto simp: assms(3) cascade_employees_def)
  have old: "of_assessment a (lb_employees x) p" if "of_assessment a es p" "p \<in> ge_pk ` set (lb_employees x)" for p
    using that keep unfolding of_assessment_iff by metis
  show "distinct (map ec_label_id (filter (\<lambda>r. of_assessment a es (ec_employee r)) (lb_contracts x1)))"
    unfolding assms(3) cascade_tables
    by (rule distinct_filter_weaker [where P = "\<lambda>c. of_assessment a (lb_employees x) (ec_employee c)"]) (use T old in auto)
  show "distinct (map pq_label_id (filter (\<lambda>r. of_assessment a es (pq_employee r)) (lb_prequalifications x1)))"
    unfolding assms(3) cascade_tables
    by (rule distinct_filter_weaker [where P = "\<lambda>q. of_assessment a (lb_employees x) (pq_employee q)"]) (use T old in auto)
qed

lemma write_selection_spec:
  assumes "label_tables_ok (la_pk a) x" "selection_ok s" "\<forall>q \<in> set qs. lq_salarie q \<in> lp_id ` set (ls_persons s)"
  obtains x' where "write_selection now a rates s qs x = Inr x'" "label_tables_ok (la_pk a) x'"
    "employee_content ` set (filter (\<lambda>e. ge_assessment e = la_pk a) (lb_employees x')) = person_content ` set (ls_persons s)"
    "contract_content ` set (filter (\<lambda>r. of_assessment (la_pk a) (lb_employees x') (ec_employee r)) (lb_contracts x')) =
       {data_content c | c. key_map lc_id (ls_contracts s) (lc_id c) = Some c}"
    "prequalification_content ` set (filter (\<lambda>r. of_assessment (la_pk a) (lb_employees x') (pq_employee r)) (lb_prequalifications x')) =
       {prequalification_data q | q. key_map lq_id qs (lq_id q) = Some q}"
    "lb_assessments x' = map_rows (\<lambda>b. la_pk b = la_pk a) (\<lambda>b. b\<lparr>la_contracts_synced_at := Some now,
         la_employee_nb := length (ls_in_year s), la_label_rates := rates\<rparr>) (lb_assessments x)"
    "filter (\<lambda>e. ge_assessment e = la_pk a) (lb_employees x) = [] \<longrightarrow>
       (\<forall>e. ge_assessment e \<noteq> la_pk a \<longrightarrow> e \<in> set (lb_employees x') \<longleftrightarrow> e \<in> set (lb_employees x))"
proof -
  let ?a = "la_pk a"
  have persons: "distinct (map lp_id (ls_persons s))" using assms(2) by (simp add: selection_ok_def)
  obtain ns us deleted es where E: "sync_employees ?a (granted_previous_year a x) (ls_persons s) (lb_employees x) = Inr (ns, us, deleted, es)"
    "distinct (map ge_pk es)" "distinct (map ge_label_id (filter (\<lambda>e. ge_assessment e = ?a) es))"
    "ge_label_id ` set (filter (\<lambda>e. ge_assessment e = ?a) es) = lp_id ` set (ls_persons s)"
    "employee_content ` set (filter (\<lambda>e. ge_assessment e = ?a) es) = person_content ` set (ls_persons s)"
    "\<forall>e' \<in> set es. ge_pk e' \<in> ge_pk ` set (lb_employees x) \<longrightarrow>
       (\<exists>e \<in> set (lb_employees x). ge_pk e = ge_pk e' \<and> (ge_assessment e = ?a \<longleftrightarrow> ge_assessment e' = ?a))"
    "set deleted = ge_label_id ` set (filter (\<lambda>e. ge_assessment e = ?a) (lb_employees x)) - lp_id ` set (ls_persons s)"
    "\<forall>e. ge_assessment e \<noteq> ?a \<longrightarrow> e \<in> set es \<longleftrightarrow> e \<in> set (lb_employees x) \<and> ge_label_id e \<notin> set deleted"
    by (rule sync_employees_spec [OF assms(1) persons]) (rule that; assumption)
  let ?x1 = "cascade_employees es x"
  note R = cascade_ok [OF assms(1) E(6) refl]
  have found: "\<exists>e. label_id_to_employee ?a es i = Inr e" if "i \<in> lp_id ` set (ls_persons s)" for i
    by (rule employee_found [OF E(3)]) (use that E(4) in simp)
  have "\<forall>c \<in> set (ls_contracts s). \<exists>e. label_id_to_employee ?a es (lc_salarie c) = Inr e"
    using assms(2) found by (simp add: selection_ok_def)
  note c = this
  obtain cn cu cd cs where
    C: "sync_contracts ?a (la_campaign_year a) es (ls_contracts s) (lb_contracts ?x1) = Inr (cn, cu, cd, cs)" "distinct (map ec_pk cs)"
    "distinct (map ec_label_id (filter (\<lambda>r. of_assessment ?a es (ec_employee r)) cs))"
    "contract_content ` set (filter (\<lambda>r. of_assessment ?a es (ec_employee r)) cs) =
       {data_content c | c. key_map lc_id (ls_contracts s) (lc_id c) = Some c}" "ec_employee ` set cs \<subseteq> ge_pk ` set es"
    by (rule sync_contracts_spec [OF R(1,3) c R(5), of "la_campaign_year a"]) (rule that; assumption)
  have "\<forall>q \<in> set qs. \<exists>e. label_id_to_employee ?a es (lq_salarie q) = Inr e" using assms(3) found by simp
  note q = this
  obtain pn pu pd ps where
    P: "sync_prequalifications ?a es qs (lb_prequalifications ?x1) = Inr (pn, pu, pd, ps)" "distinct (map pq_pk ps)"
    "distinct (map pq_label_id (filter (\<lambda>r. of_assessment ?a es (pq_employee r)) ps))"
    "prequalification_content ` set (filter (\<lambda>r. of_assessment ?a es (pq_employee r)) ps) =
       {prequalification_data q | q. key_map lq_id qs (lq_id q) = Some q}" "pq_employee ` set ps \<subseteq> ge_pk ` set es"
    by (rule sync_prequalifications_spec [OF R(2,4) q R(6)]) (rule that; assumption)
  let ?x' = "?x1\<lparr>lb_contracts := cs, lb_prequalifications := ps,
       lb_assessments := map_rows (\<lambda>b. la_pk b = ?a) (\<lambda>b. b\<lparr>la_contracts_synced_at := Some now,
         la_employee_nb := length (ls_in_year s), la_label_rates := rates\<rparr>) (lb_assessments ?x1)\<rparr>"
  have es: "lb_employees ?x' = es" "lb_assessments ?x1 = lb_assessments x" by (simp_all add: cascade_employees_def)
  show thesis
  proof (rule that [of ?x'])
    show "write_selection now a rates s qs x = Inr ?x'" by (simp add: write_selection_def Let_def E(1) C(1) P(1))
    show "label_tables_ok ?a ?x'" using E(2,3) C(2,3,5) P(2,3,5) es by (simp add: label_tables_ok_def)
    show "filter (\<lambda>e. ge_assessment e = ?a) (lb_employees x) = [] \<longrightarrow>
       (\<forall>e. ge_assessment e \<noteq> ?a \<longrightarrow> e \<in> set (lb_employees ?x') \<longleftrightarrow> e \<in> set (lb_employees x))"
    proof
      assume "filter (\<lambda>e. ge_assessment e = ?a) (lb_employees x) = []"
      then have "set deleted = {}" unfolding E(7) by (simp only: set_simps image_empty empty_Diff)
      then show "\<forall>e. ge_assessment e \<noteq> ?a \<longrightarrow> e \<in> set (lb_employees ?x') \<longleftrightarrow> e \<in> set (lb_employees x)"
        using E(8) unfolding es(1) by simp
    qed
  qed (use E(5) C(4) P(4) es in simp_all)
qed

end
