(* ===== verification/Paging.thy ===== *)
theory Paging
  imports Paginated_Services
begin

text \<open>
  When the loops over pages return, and with what.  \<open>pager\<close> is their contract: one page per turn, the next page as
  long as the answer is neither an error nor a last page.
\<close>

definition last_page :: "('r \<Rightarrow> bool) \<Rightarrow> error + 'r \<Rightarrow> bool" where
  "last_page stop a \<longleftrightarrow> (case a of Inl e \<Rightarrow> True | Inr r \<Rightarrow> stop r)"

locale pager =
  fixes loop :: "nat \<Rightarrow> 's \<Rightarrow> 'o option"
    and fetch :: "nat \<Rightarrow> error + 'r"
    and stop :: "'r \<Rightarrow> bool"
    and step :: "'r \<Rightarrow> 's \<Rightarrow> 's"
    and finish :: "error + 'r \<Rightarrow> 's \<Rightarrow> 'o"
  assumes turn: "loop p s = (if last_page stop (fetch p) then Some (finish (fetch p) s) else loop (p + 1) (step (projr (fetch p)) s))"
    and returned: "loop p s \<noteq> None \<Longrightarrow> \<exists>q \<ge> p. last_page stop (fetch q)"
begin

lemma loop_value:
  assumes "p \<le> q" "last_page stop (fetch q)" "\<And>k. p \<le> k \<Longrightarrow> k < q \<Longrightarrow> \<not> last_page stop (fetch k)"
  shows "loop p s = Some (finish (fetch q) (fold (\<lambda>k. step (projr (fetch k))) [p..<q] s))"
  using assms
proof (induction "q - p" arbitrary: p s)
  case 0
  then show ?case using turn [of p s] by simp
next
  case (Suc d)
  then have "p < q" by simp
  have "loop p s = loop (p + 1) (step (projr (fetch p)) s)" using turn [of p s] Suc.prems(3) [of p] \<open>p < q\<close> by simp
  also have "\<dots> = Some (finish (fetch q) (fold (\<lambda>k. step (projr (fetch k))) [p + 1..<q] (step (projr (fetch p)) s)))"
    by (rule Suc.hyps(1)) (use Suc \<open>p < q\<close> in simp_all)
  finally show ?case using \<open>p < q\<close> by (simp add: upt_conv_Cons)
qed

lemma loop_returns_iff: "loop p s \<noteq> None \<longleftrightarrow> (\<exists>q \<ge> p. last_page stop (fetch q))"
proof
  assume "\<exists>q \<ge> p. last_page stop (fetch q)"
  then obtain q where q: "p \<le> q" "last_page stop (fetch q)"
    "\<And>k. p \<le> k \<Longrightarrow> k < q \<Longrightarrow> \<not> last_page stop (fetch k)"
    using exists_least_iff [of "\<lambda>q. p \<le> q \<and> last_page stop (fetch q)"] by auto
  from loop_value [OF q] show "loop p s \<noteq> None" by simp
qed (rule returned)

end

section \<open>The loops\<close>

definition label_stop :: "nat \<Rightarrow> 'a list \<Rightarrow> bool" where
  "label_stop n vs \<longleftrightarrow> vs = [] \<or> length vs \<noteq> n"

definition label_finish :: "error + 'a list \<Rightarrow> 'a list \<Rightarrow> error + 'a list" where
  "label_finish a data = rbind a (\<lambda>vs. Inr (data @ vs))"

definition iter_finish :: "('r \<Rightarrow> 'a list \<Rightarrow> 'a list) \<Rightarrow> error + 'r \<Rightarrow> 'a list \<Rightarrow> 'a list \<times> error option" where
  "iter_finish add a given = (case a of Inl e \<Rightarrow> (given, Some e) | Inr r \<Rightarrow> (add r given, None))"

lemma label_pages_returned: "label_pages page n p data = Some y \<Longrightarrow> \<exists>q \<ge> p. last_page (label_stop n) (page q)"
proof (erule label_pages.raw_induct [where P = "\<lambda>page n p data y. \<exists>q \<ge> p. last_page (label_stop n) (page q)", rotated])
  fix loop and page :: "nat \<Rightarrow> error + 'a list" and n p data y
  assume IH: "\<And>page n p data y. loop page n p data = Some y \<Longrightarrow> \<exists>q \<ge> p. last_page (label_stop n) (page q)"
    and run: "(case page p of Inl e \<Rightarrow> Some (Inl e) | Inr vs \<Rightarrow> if vs = [] then Some (Inr data)
      else if length vs \<noteq> n then Some (Inr (data @ vs)) else loop page n (p + 1) (data @ vs)) = Some y"
  show "\<exists>q \<ge> p. last_page (label_stop n) (page q)"
  proof (cases "last_page (label_stop n) (page p)")
    case False
    then obtain r where "page p = Inr r" "r \<noteq> [] \<and> length r = n"
      by (auto simp: last_page_def label_stop_def split: sum.splits)
    then obtain q where "p + 1 \<le> q" "last_page (label_stop n) (page q)" using IH run by fastforce
    then show ?thesis by (auto intro!: exI [of _ q])
  qed auto
qed

lemma di_iter_returned: "di_iter key client p given = Some y \<Longrightarrow> \<exists>q \<ge> p. last_page (\<lambda>r. dr_pages r \<le> dr_page r) (client q)"
proof (erule di_iter.raw_induct [where P = "\<lambda>key client p given y. \<exists>q \<ge> p. last_page (\<lambda>r. dr_pages r \<le> dr_page r) (client q)", rotated])
  fix loop and key :: "'a \<Rightarrow> 'b" and client :: "nat \<Rightarrow> error + 'a di_response" and p given y
  assume IH: "\<And>key client p given y. loop key client p given = Some y \<Longrightarrow> \<exists>q \<ge> p. last_page (\<lambda>r. dr_pages r \<le> dr_page r) (client q)"
    and run: "(case client p of Inl e \<Rightarrow> Some (given, Some e) | Inr r \<Rightarrow>
      if dr_pages r \<le> dr_page r then Some (unseen key given (dr_items r), None)
      else loop key client (p + 1) (unseen key given (dr_items r))) = Some y"
  show "\<exists>q \<ge> p. last_page (\<lambda>r. dr_pages r \<le> dr_page r) (client q)"
  proof (cases "last_page (\<lambda>r. dr_pages r \<le> dr_page r) (client p)")
    case False
    then obtain r where "client p = Inr r" "\<not> dr_pages r \<le> dr_page r"
      by (auto simp: last_page_def split: sum.splits)
    then obtain q where "p + 1 \<le> q" "last_page (\<lambda>r. dr_pages r \<le> dr_page r) (client q)" using IH run by fastforce
    then show ?thesis by (auto intro!: exI [of _ q])
  qed auto
qed

lemma dora_iter_returned: "dora_iter client p given = Some y \<Longrightarrow> \<exists>q \<ge> p. last_page (\<lambda>r. or_next r = None) (client q)"
proof (erule dora_iter.raw_induct [where P = "\<lambda>client p given y. \<exists>q \<ge> p. last_page (\<lambda>r. or_next r = None) (client q)", rotated])
  fix loop and client :: "nat \<Rightarrow> error + 'a dora_response" and p given y
  assume IH: "\<And>client p given y. loop client p given = Some y \<Longrightarrow> \<exists>q \<ge> p. last_page (\<lambda>r. or_next r = None) (client q)"
    and run: "(case client p of Inl e \<Rightarrow> Some (given, Some e) | Inr r \<Rightarrow>
      if or_next r = None then Some (given @ or_results r, None) else loop client (p + 1) (given @ or_results r)) = Some y"
  show "\<exists>q \<ge> p. last_page (\<lambda>r. or_next r = None) (client q)"
  proof (cases "last_page (\<lambda>r. or_next r = None) (client p)")
    case False
    then obtain r where "client p = Inr r" "or_next r \<noteq> None"
      by (auto simp: last_page_def split: sum.splits)
    then obtain q where "p + 1 \<le> q" "last_page (\<lambda>r. or_next r = None) (client q)" using IH run by fastforce
    then show ?thesis by (auto intro!: exI [of _ q])
  qed auto
qed

interpretation label: pager "label_pages page n" page "label_stop n" "\<lambda>vs data. data @ vs" label_finish for page n
proof
  fix p s
  show "label_pages page n p s = (if last_page (label_stop n) (page p) then Some (label_finish (page p) s)
      else label_pages page n (p + 1) (s @ projr (page p)))"
    by (subst label_pages.simps)
      (auto simp: last_page_def label_stop_def label_finish_def split: sum.splits)
  show "label_pages page n p s \<noteq> None \<Longrightarrow> \<exists>q \<ge> p. last_page (label_stop n) (page q)"
    using label_pages_returned by blast
qed

interpretation di: pager "di_iter key client" client "\<lambda>r. dr_pages r \<le> dr_page r" "\<lambda>r given. unseen key given (dr_items r)"
    "iter_finish (\<lambda>r given. unseen key given (dr_items r))" for key client
proof
  fix p s
  show "di_iter key client p s = (if last_page (\<lambda>r. dr_pages r \<le> dr_page r) (client p)
      then Some (iter_finish (\<lambda>r given. unseen key given (dr_items r)) (client p) s)
      else di_iter key client (p + 1) (unseen key s (dr_items (projr (client p)))))"
    by (subst di_iter.simps) (auto simp: last_page_def iter_finish_def split: sum.splits)
  show "di_iter key client p s \<noteq> None \<Longrightarrow> \<exists>q \<ge> p. last_page (\<lambda>r. dr_pages r \<le> dr_page r) (client q)"
    using di_iter_returned by blast
qed

interpretation dora: pager "dora_iter client" client "\<lambda>r. or_next r = None" "\<lambda>r given. given @ or_results r"
    "iter_finish (\<lambda>r given. given @ or_results r)" for client
proof
  fix p s
  show "dora_iter client p s = (if last_page (\<lambda>r. or_next r = None) (client p)
      then Some (iter_finish (\<lambda>r given. given @ or_results r) (client p) s)
      else dora_iter client (p + 1) (s @ or_results (projr (client p))))"
    by (subst dora_iter.simps) (auto simp: last_page_def iter_finish_def split: sum.splits)
  show "dora_iter client p s \<noteq> None \<Longrightarrow> \<exists>q \<ge> p. last_page (\<lambda>r. or_next r = None) (client q)"
    using dora_iter_returned by blast
qed

section \<open>A list served in pages\<close>

definition chunk :: "nat \<Rightarrow> 'a list \<Rightarrow> nat \<Rightarrow> 'a list" where
  "chunk n xs p = take n (drop ((p - 1) * n) xs)"

definition nb_pages :: "nat \<Rightarrow> 'a list \<Rightarrow> nat" where
  "nb_pages n xs = (length xs + n - 1) div n"

lemma chunks_prefix: "1 \<le> q \<Longrightarrow> fold (\<lambda>k data. data @ chunk n xs k) [1..<q] [] = take ((q - 1) * n) xs"
proof (induction q rule: nat_induct_at_least)
  case (Suc q)
  have "q * n = (q - 1) * n + n" using Suc(1) by (cases q) simp_all
  then show ?case using Suc by (simp add: chunk_def take_add upt_Suc_append)
qed simp

lemma unseen_append: "unseen key given (xs @ ys) = unseen key (unseen key given xs) ys"
  by (induction xs arbitrary: given) auto

lemma unseen_chunks:
  "1 \<le> q \<Longrightarrow> fold (\<lambda>k given. unseen key given (chunk n xs k)) [1..<q] [] = unseen key [] (take ((q - 1) * n) xs)"
proof (induction q rule: nat_induct_at_least)
  case (Suc q)
  have "q * n = (q - 1) * n + n" using Suc(1) by (cases q) simp_all
  then show ?case using Suc by (simp add: chunk_def take_add upt_Suc_append unseen_append)
qed simp

lemma unseen_distinct: "distinct (map key given) \<Longrightarrow> distinct (map key (unseen key given xs))"
  by (induction xs arbitrary: given) auto

lemma unseen_keys: "key ` set (unseen key given xs) = key ` set given \<union> key ` set xs"
  by (induction xs arbitrary: given) auto

lemma label_pages_served:
  assumes "0 < n" "\<And>p. 1 \<le> p \<Longrightarrow> page p = Inr (chunk n xs p)"
  shows "label_pages page n 1 [] = Some (Inr xs)"
proof -
  let ?q = "length xs div n + 1"
  have q: "length xs = (?q - 1) * n + length xs mod n" by simp
  have "length (chunk n xs ?q) < n" using assms(1) by (simp add: chunk_def minus_div_mult_eq_mod)
  then have stop: "last_page (label_stop n) (page ?q)" using assms(2) [of ?q] by (simp add: last_page_def label_stop_def)
  have more: "\<not> last_page (label_stop n) (page k)" if "1 \<le> k" "k < ?q" for k
  proof -
    obtain j where j: "k = Suc j" using \<open>1 \<le> k\<close> by (cases k) auto
    have "k * n \<le> (length xs div n) * n" using that by (intro mult_le_mono1) simp
    also have "\<dots> \<le> length xs" by (rule div_times_less_eq_dividend)
    finally have "length (chunk n xs k) = n" by (simp add: chunk_def j)
    then show ?thesis using assms(1) assms(2) [OF that(1)] by (auto simp: last_page_def label_stop_def)
  qed
  have "fold (\<lambda>k data. data @ projr (page k)) [1..<?q] [] = fold (\<lambda>k data. data @ chunk n xs k) [1..<?q] []"
    using assms(2) by (intro fold_cong) auto
  then have pre: "fold (\<lambda>k data. data @ projr (page k)) [1..<?q] [] = take ((?q - 1) * n) xs"
    using chunks_prefix [of ?q n xs] by simp
  have "take ((?q - 1) * n) xs @ chunk n xs ?q = xs"
    using assms(1) by (simp add: chunk_def minus_div_mult_eq_mod less_imp_le)
  moreover have "label_pages page n 1 [] = Some (label_finish (page ?q) (fold (\<lambda>k data. data @ projr (page k)) [1..<?q] []))"
    using stop more by (intro label.loop_value) auto
  ultimately show ?thesis using assms(2) [of ?q] by (simp only: pre label_finish_def rbind.simps)
qed

lemma nb_pages_bounds:
  assumes "0 < n" "xs \<noteq> []"
  shows "1 \<le> nb_pages n xs" "length xs \<le> nb_pages n xs * n" "(nb_pages n xs - 1) * n < length xs"
proof -
  let ?a = "length xs - 1"
  have "nb_pages n xs = ?a div n + 1" using assms by (cases xs) (simp_all add: nb_pages_def div_add_self2)
  moreover have "?a < (?a div n + 1) * n" using assms(1) by (simp add: dividend_less_div_times add.commute)
  moreover have "?a div n * n < length xs"
    by (rule le_less_trans [OF div_times_less_eq_dividend]) (use assms(2) in simp)
  ultimately show "1 \<le> nb_pages n xs" "length xs \<le> nb_pages n xs * n" "(nb_pages n xs - 1) * n < length xs"
    by simp_all
qed

definition final_page :: "nat \<Rightarrow> 'a list \<Rightarrow> nat" where
  "final_page n xs = max 1 (nb_pages n xs)"

lemma final_page_bounds:
  fixes xs :: "'a list"
  assumes "0 < n"
  shows "1 \<le> final_page n xs" "length xs \<le> final_page n xs * n" "take ((final_page n xs - 1) * n) xs @ chunk n xs (final_page n xs) = xs"
    "1 \<le> k \<Longrightarrow> k < final_page n xs \<Longrightarrow> k * n < length xs"
proof -
  let ?q = "final_page n xs"
  show "1 \<le> ?q" by (simp add: final_page_def)
  show len: "length xs \<le> ?q * n"
    using nb_pages_bounds(1,2) [OF assms, of xs] by (cases "xs = []") (simp_all add: final_page_def max_def)
  obtain j where j: "?q = Suc j" using \<open>1 \<le> ?q\<close> by (cases ?q) auto
  then have "length (drop (j * n) xs) \<le> n" using len by simp
  then show "take ((?q - 1) * n) xs @ chunk n xs ?q = xs" by (simp add: chunk_def j)
  show "k * n < length xs" if "1 \<le> k" "k < ?q"
  proof -
    have "nb_pages n ([] :: 'a list) = 0" using assms by (simp add: nb_pages_def)
    then have "xs \<noteq> []" using that by (auto simp: final_page_def max_def split: if_splits)
    have "k \<le> nb_pages n xs - 1" using that by (simp add: final_page_def max_def split: if_splits)
    then have "k * n \<le> (nb_pages n xs - 1) * n" by (rule mult_le_mono1)
    also have "\<dots> < length xs" using nb_pages_bounds(3) [OF assms \<open>xs \<noteq> []\<close>] .
    finally show ?thesis .
  qed
qed

lemma di_iter_served:
  assumes "0 < n" "\<And>p. 1 \<le> p \<Longrightarrow> client p = Inr \<lparr>dr_items = chunk n xs p, dr_page = p, dr_pages = nb_pages n xs\<rparr>"
  shows "di_iter key client 1 [] = Some (unseen key [] xs, None)"
proof -
  let ?q = "final_page n xs"
  note B = final_page_bounds [OF assms(1), where xs = xs]
  have stop: "last_page (\<lambda>r. dr_pages r \<le> dr_page r) (client ?q)"
    using assms(2) [OF B(1)] by (simp add: last_page_def final_page_def)
  have more: "\<not> last_page (\<lambda>r. dr_pages r \<le> dr_page r) (client k)" if "1 \<le> k" "k < ?q" for k
    using assms(2) [OF that(1)] that by (simp add: last_page_def final_page_def max_def split: if_splits)
  have "fold (\<lambda>k given. unseen key given (dr_items (projr (client k)))) [1..<?q] [] =
      fold (\<lambda>k given. unseen key given (chunk n xs k)) [1..<?q] []"
    using assms(2) by (intro fold_cong) auto
  also have "\<dots> = unseen key [] (take ((?q - 1) * n) xs)" by (rule unseen_chunks [OF B(1)])
  finally have pre: "fold (\<lambda>k given. unseen key given (dr_items (projr (client k)))) [1..<?q] [] =
      unseen key [] (take ((?q - 1) * n) xs)" .
  have "unseen key (unseen key [] (take ((?q - 1) * n) xs)) (chunk n xs ?q) = unseen key [] xs"
    using B(3) by (metis unseen_append)
  moreover have "di_iter key client 1 [] = Some (iter_finish (\<lambda>r given. unseen key given (dr_items r)) (client ?q)
      (fold (\<lambda>k given. unseen key given (dr_items (projr (client k)))) [1..<?q] []))"
    using stop more by (intro di.loop_value B(1)) auto
  ultimately show ?thesis using assms(2) [OF B(1)] by (simp only: pre iter_finish_def sum.case di_response.simps)
qed

lemma dora_iter_served:
  assumes "0 < n" "\<And>p. 1 \<le> p \<Longrightarrow> client p = Inr \<lparr>or_results = chunk n xs p, or_next = (if p * n < length xs then Some (url p) else None)\<rparr>"
  shows "dora_iter client 1 [] = Some (xs, None)"
proof -
  let ?q = "final_page n xs"
  note B = final_page_bounds [OF assms(1), where xs = xs]
  have stop: "last_page (\<lambda>r. or_next r = None) (client ?q)" using assms(2) [OF B(1)] B(2) by (simp add: last_page_def)
  have more: "\<not> last_page (\<lambda>r. or_next r = None) (client k)" if "1 \<le> k" "k < ?q" for k
    using assms(2) [OF that(1)] B(4) [OF that] by (simp add: last_page_def)
  have "fold (\<lambda>k given. given @ or_results (projr (client k))) [1..<?q] [] = fold (\<lambda>k data. data @ chunk n xs k) [1..<?q] []"
    using assms(2) by (intro fold_cong) auto
  also have "\<dots> = take ((?q - 1) * n) xs" by (rule chunks_prefix [OF B(1)])
  finally have pre: "fold (\<lambda>k given. given @ or_results (projr (client k))) [1..<?q] [] = take ((?q - 1) * n) xs" .
  have "dora_iter client 1 [] = Some (iter_finish (\<lambda>r given. given @ or_results r) (client ?q)
      (fold (\<lambda>k given. given @ or_results (projr (client k))) [1..<?q] []))"
    using stop more by (intro dora.loop_value B(1)) auto
  then show ?thesis using assms(2) [OF B(1)] B(3) by (simp only: pre iter_finish_def sum.case dora_response.simps)
qed

end
