(* ===== verification/Label_Sync_Properties.thy ===== *)
theory Label_Sync_Properties
  imports Label_Sync_Effects Paging
begin

text \<open>The properties of the paginated services and of the synchronisation with Label.\<close>

definition answered :: "'r \<Rightarrow> 'r label_response" where
  "answered r = \<lparr>lr_readable = True, lr_status = Some ''Success'', lr_result = r\<rparr>"

definition di_served :: "nat \<Rightarrow> 'a list \<Rightarrow> nat \<Rightarrow> error + 'a di_response" where
  "di_served n xs p = Inr \<lparr>dr_items = chunk n xs p, dr_page = p, dr_pages = nb_pages n xs\<rparr>"

definition dora_served :: "nat \<Rightarrow> 'a list \<Rightarrow> nat \<Rightarrow> error + 'a dora_response" where
  "dora_served n xs p = Inr \<lparr>or_results = chunk n xs p, or_next = (if p * n < length xs then Some (nat_str (p + 1)) else None)\<rparr>"

lemma answered_command: "c \<notin> {LC_DownloadCompte, LC_SynthesePDF} \<Longrightarrow> label_command c (answered r) = Inr r"
  by (simp add: label_command_def answered_def)

lemma label_list_served:
  assumes "0 < n" "c \<notin> {LC_DownloadCompte, LC_SynthesePDF}"
  shows "label_list c n geiq_of g (answered (length xs)) (\<lambda>p. answered (chunk n xs p)) =
    Some (if list_all (\<lambda>i. geiq_of i = g) xs then Inr xs else Inl (LabelAPIError ''Data returned incorrect geiq_id''))"
proof -
  have "label_pages (\<lambda>p. label_command c (answered (chunk n xs p))) n 1 [] = Some (Inr xs)"
    by (intro label_pages_served assms(1) answered_command assms(2))
  then show ?thesis
    by (simp only: label_list_def answered_command [OF assms(2)] sum.case option.map rbind.simps check_data_salarie_geiq_id_def)
      (simp add: guard_def)
qed

text \<open>C31.  The loops over pages return exactly when one of the pages they ask for is an error or a last
  page (Label: an empty or incomplete page; data.inclusion: the number of the page reaches the number of pages; DORA: no
  next page).  On a list served in pages of a positive size they all return: Label gives the whole list if all its items
  belong to the GEIQ, data.inclusion gives every item once, DORA gives the list.\<close>

theorem paging_terminates:
  assumes "0 < n"
  shows "(get_all_contracts n geiq_of g d counts service \<noteq> None \<longleftrightarrow>
      label_command LC_SalarieContrat (counts (contracts_where g d)) \<in> range Inl \<union> {Inr 0} \<or>
      (\<exists>p \<ge> 1. last_page (label_stop n) (label_command LC_SalarieContrat (service (contracts_where g d) p)))) \<and>
    (di_items key client \<noteq> None \<longleftrightarrow> (\<exists>p \<ge> 1. last_page (\<lambda>r. dr_pages r \<le> dr_page r) (client p))) \<and>
    (dora_items dora_client \<noteq> None \<longleftrightarrow> (\<exists>p \<ge> 1. last_page (\<lambda>r. or_next r = None) (dora_client p))) \<and>
    get_all_contracts n geiq_of g d (\<lambda>_. answered (length xs)) (\<lambda>_ p. answered (chunk n xs p)) =
      Some (if list_all (\<lambda>i. geiq_of i = g) xs then Inr xs else Inl (LabelAPIError ''Data returned incorrect geiq_id'')) \<and>
    (\<exists>ys. di_items key (di_served n ys0) = Some (ys, None) \<and> distinct (map key ys) \<and> key ` set ys = key ` set ys0) \<and>
    dora_items (dora_served n zs) = Some (zs, None)"
proof (intro conjI)
  show "get_all_contracts n geiq_of g d counts service \<noteq> None \<longleftrightarrow>
      label_command LC_SalarieContrat (counts (contracts_where g d)) \<in> range Inl \<union> {Inr 0} \<or>
      (\<exists>p \<ge> 1. last_page (label_stop n) (label_command LC_SalarieContrat (service (contracts_where g d) p)))"
    using label.loop_returns_iff [of "\<lambda>p. label_command LC_SalarieContrat (service (contracts_where g d) p)" n 1 "[]"]
    by (auto simp: get_all_contracts_def label_list_def split: sum.splits)
  show "di_items key client \<noteq> None \<longleftrightarrow> (\<exists>p \<ge> 1. last_page (\<lambda>r. dr_pages r \<le> dr_page r) (client p))"
    unfolding di_items_def default_page_def by (rule di.loop_returns_iff)
  show "dora_items dora_client \<noteq> None \<longleftrightarrow> (\<exists>p \<ge> 1. last_page (\<lambda>r. or_next r = None) (dora_client p))"
    unfolding dora_items_def default_page_def by (rule dora.loop_returns_iff)
  show "get_all_contracts n geiq_of g d (\<lambda>_. answered (length xs)) (\<lambda>_ p. answered (chunk n xs p)) =
      Some (if list_all (\<lambda>i. geiq_of i = g) xs then Inr xs else Inl (LabelAPIError ''Data returned incorrect geiq_id''))"
    unfolding get_all_contracts_def by (rule label_list_served [OF assms]) simp
  have "di_items key (di_served n ys0) = Some (unseen key [] ys0, None)"
    unfolding di_items_def default_page_def by (rule di_iter_served [OF assms]) (simp add: di_served_def)
  then show "\<exists>ys. di_items key (di_served n ys0) = Some (ys, None) \<and> distinct (map key ys) \<and> key ` set ys = key ` set ys0"
    using unseen_distinct [of key "[]" ys0] unseen_keys [of key "[]" ys0] by simp
  show "dora_items (dora_served n zs) = Some (zs, None)"
    unfolding dora_items_def default_page_def
    by (rule dora_iter_served [OF assms, where url = "\<lambda>p. nat_str (p + 1)"]) (simp add: dora_served_def)
qed

theorem paging_terminates_witness:
  "get_all_contracts 2 (\<lambda>_. 7) 7 None (\<lambda>_. answered (length [1, 2, 3 :: int])) (\<lambda>_ p. answered (chunk 2 [1, 2, 3 :: int] p)) =
     Some (Inr [1, 2, 3])"
proof -
  have "0 < (2 :: nat)" by simp
  note T = paging_terminates [OF this, of "\<lambda>_. 7" 7 None "\<lambda>_. answered 3" "\<lambda>_ p. answered (chunk 2 [] p)" id "di_served 2 []"
      "dora_served 2 []" "[1, 2, 3 :: int]" "[]" "[]"]
  from T have "get_all_contracts 2 (\<lambda>_. 7) 7 None (\<lambda>_. answered (length [1, 2, 3 :: int]))
      (\<lambda>_ p. answered (chunk 2 [1, 2, 3 :: int] p)) =
      Some (if list_all (\<lambda>i. 7 = (7 :: int)) [1, 2, 3 :: int] then Inr [1, 2, 3] else Inl (LabelAPIError ''Data returned incorrect geiq_id''))"
    by (elim conjE)
  then show ?thesis by simp
qed

text \<open>C32.  When Label answers with the rates, contracts and prequalifications of the GEIQ, the synchronisation
  of an assessment that was not synchronised returns and its tables mirror the selected data: the employees of the
  assessment are exactly the persons of the contracts kept, its contracts the data kept (the last one of an identifier), its
  prequalifications the same, identifiers stay unique, every row keeps an existing employee, the assessment is marked with
  the number of employees of the year, and when it had no employee the other assessments keep theirs.\<close>

definition label_answers :: "label_service \<Rightarrow> int \<Rightarrow> json_rest \<Rightarrow> raw_contract list \<Rightarrow> raw_prequalification list \<Rightarrow> bool" where
  "label_answers v g rates raws raw_qs \<longleftrightarrow> lv_rates v g = answered [rates] \<and> lv_rate_geiq v rates = g \<and>
     lv_count_contracts v = (\<lambda>_. answered (length raws)) \<and> lv_contracts v = (\<lambda>_ p. answered (chunk 100 raws p)) \<and>
     lv_count_prequalifications v = (\<lambda>_. answered (length raw_qs)) \<and>
     lv_prequalifications v = (\<lambda>_ p. answered (chunk 100 raw_qs p)) \<and>
     list_all (\<lambda>r. rp_geiq_id (rc_salarie r) = g) raws \<and> list_all (\<lambda>r. rp_geiq_id (rq_salarie r) = g) raw_qs"

theorem sync_mirrors_label:
  assumes "label_answers v (la_label_geiq_id a) rates raws raw_qs" "la_label_geiq_id a \<noteq> 0"
    and "get_row la_pk (la_pk stale) (lb_assessments x) = Some a" "la_contracts_synced_at a = None" "la_contracts_synced_at stale = None"
    and "rfold (select_contract from_iso (la_campaign_year a) (assessment_antennas a)) raws
       \<lparr>ls_persons = [], ls_contracts = [], ls_in_year = []\<rparr> = Inr s"
    and "rfold (select_prequalification from_iso (la_campaign_year a) (ls_persons s)) raw_qs [] = Inr qs"
    and "label_tables_ok (la_pk a) x"
  shows "\<exists>x'. sync_employee_and_contracts from_iso v now stale x = Some (Inr x') \<and> label_tables_ok (la_pk a) x' \<and>
    employee_content ` set (filter (\<lambda>e. ge_assessment e = la_pk a) (lb_employees x')) = person_content ` set (ls_persons s) \<and>
    contract_content ` set (filter (\<lambda>r. of_assessment (la_pk a) (lb_employees x') (ec_employee r)) (lb_contracts x')) =
      {data_content c | c. key_map lc_id (ls_contracts s) (lc_id c) = Some c} \<and>
    prequalification_content ` set (filter (\<lambda>r. of_assessment (la_pk a) (lb_employees x') (pq_employee r)) (lb_prequalifications x')) =
      {prequalification_data q | q. key_map lq_id qs (lq_id q) = Some q} \<and>
    lb_assessments x' = map_rows (\<lambda>b. la_pk b = la_pk a) (\<lambda>b. b\<lparr>la_contracts_synced_at := Some now,
      la_employee_nb := length (ls_in_year s), la_label_rates := rates\<rparr>) (lb_assessments x) \<and>
    (filter (\<lambda>e. ge_assessment e = la_pk a) (lb_employees x) = [] \<longrightarrow>
       (\<forall>e. ge_assessment e \<noteq> la_pk a \<longrightarrow> e \<in> set (lb_employees x') \<longleftrightarrow> e \<in> set (lb_employees x)))"
proof -
  note A = assms(1) [unfolded label_answers_def]
  have "read_contracts v a = Some (Inr raws)" "read_prequalifications v a = Some (Inr raw_qs)"
    unfolding read_contracts_def get_all_contracts_def read_prequalifications_def get_all_prequalifications_def
    using A label_list_served [of 100 LC_SalarieContrat "\<lambda>r. rp_geiq_id (rc_salarie r)" "la_label_geiq_id a" raws]
      label_list_served [of 100 LC_SalariePreQualification "\<lambda>r. rp_geiq_id (rq_salarie r)" "la_label_geiq_id a" raw_qs]
    by simp_all
  moreover have "get_taux_geiq 100 (la_label_geiq_id a) (lv_rate_geiq v) (lv_rates v) (lv_rates_page v) = Some (Inr [rates])"
    using A assms(2) by (simp add: get_taux_geiq_def label_command_def answered_def)
  ultimately have "sync_employee_and_contracts from_iso v now stale x = Some (write_selection now a rates s qs x)"
    using assms(3-7) by (simp add: sync_employee_and_contracts_def)
  moreover obtain x' where "write_selection now a rates s qs x = Inr x'" and X: "label_tables_ok (la_pk a) x'"
    "employee_content ` set (filter (\<lambda>e. ge_assessment e = la_pk a) (lb_employees x')) = person_content ` set (ls_persons s)"
    "contract_content ` set (filter (\<lambda>r. of_assessment (la_pk a) (lb_employees x') (ec_employee r)) (lb_contracts x')) =
       {data_content c | c. key_map lc_id (ls_contracts s) (lc_id c) = Some c}"
    "prequalification_content ` set (filter (\<lambda>r. of_assessment (la_pk a) (lb_employees x') (pq_employee r)) (lb_prequalifications x')) =
       {prequalification_data q | q. key_map lq_id qs (lq_id q) = Some q}"
    "lb_assessments x' = map_rows (\<lambda>b. la_pk b = la_pk a) (\<lambda>b. b\<lparr>la_contracts_synced_at := Some now,
         la_employee_nb := length (ls_in_year s), la_label_rates := rates\<rparr>) (lb_assessments x)"
    "filter (\<lambda>e. ge_assessment e = la_pk a) (lb_employees x) = [] \<longrightarrow>
       (\<forall>e. ge_assessment e \<noteq> la_pk a \<longrightarrow> e \<in> set (lb_employees x') \<longleftrightarrow> e \<in> set (lb_employees x))"
    by (rule write_selection_spec [OF assms(8) select_contracts_ok [OF assms(6)] select_prequalifications_ok [OF assms(7)]])
      (rule that; assumption)
  ultimately show ?thesis by (intro exI [of _ x'] conjI X) simp
qed

definition sample_person :: raw_person where
  "sample_person = \<lparr>rp_id = 5, rp_nom = ''L'', rp_prenom = ''Ada'', rp_sexe = ''F'', rp_date_naissance = ''d'',
     rp_montant_aide = 814, rp_geiq_id = 7, rp_other = []\<rparr>"

definition sample_raw_contract :: raw_contract where
  "sample_raw_contract = \<lparr>rc_id = 11, rc_date_debut = ''d'', rc_date_fin = ''d'', rc_date_fin_contrat = None, rc_antenne = 0,
     rc_salarie = sample_person, rc_other = []\<rparr>"

definition sample_label_assessment :: label_assessment where
  "sample_label_assessment = \<lparr>la_pk = 1, la_campaign_year = 2024, la_label_geiq_id = 7, la_label_antennas = [],
     la_with_main_geiq = True, la_contracts_synced_at = None, la_employee_nb = 0, la_label_rates = []\<rparr>"

definition sample_label_service :: label_service where
  "sample_label_service = \<lparr>lv_rates = (\<lambda>_. answered [[]]), lv_rates_page = (\<lambda>_. answered []), lv_rate_geiq = (\<lambda>_. 7),
     lv_count_contracts = (\<lambda>_. answered 1), lv_contracts = (\<lambda>_ p. answered (chunk 100 [sample_raw_contract] p)),
     lv_count_prequalifications = (\<lambda>_. answered 0), lv_prequalifications = (\<lambda>_ p. answered (chunk 100 [] p))\<rparr>"

definition sample_label_db :: label_db where
  "sample_label_db = \<lparr>lb_assessments = [sample_label_assessment], lb_employees = [], lb_contracts = [], lb_prequalifications = []\<rparr>"

theorem sync_mirrors_label_witness:
  "list_ex (\<lambda>x'. employee_content ` set (filter (\<lambda>e. ge_assessment e = 1) (lb_employees x')) =
       {(5, ''L'', ''Ada'', MME, january_first 2024, 814, [])})
     (case sync_employee_and_contracts (\<lambda>_. Some (january_first 2024)) sample_label_service 9 sample_label_assessment
        sample_label_db of Some (Inr x') \<Rightarrow> [x'] | _ \<Rightarrow> [])"
proof -
  let ?iso = "\<lambda>_ :: string. Some (january_first 2024)" and ?a = sample_label_assessment
  let ?p = "\<lparr>lp_id = 5, lp_nom = ''L'', lp_prenom = ''Ada'', lp_title = MME, lp_birthdate = january_first 2024,
     lp_montant_aide = 814, lp_other = []\<rparr>"
  let ?s = "\<lparr>ls_persons = [?p], ls_contracts = [\<lparr>lc_id = 11, lc_start = january_first 2024, lc_planned_end = january_first 2024,
     lc_end = None, lc_antenne = 0, lc_salarie = 5, lc_other = []\<rparr>], ls_in_year = [5]\<rparr>"
  have ans: "label_answers sample_label_service (la_label_geiq_id ?a) [] [sample_raw_contract] []"
    by (simp add: label_answers_def sample_label_service_def sample_label_assessment_def sample_raw_contract_def sample_person_def)
  have row: "get_row la_pk (la_pk ?a) (lb_assessments sample_label_db) = Some ?a" by (simp add: sample_label_db_def)
  have sel: "rfold (select_contract ?iso (la_campaign_year ?a) (assessment_antennas ?a)) [sample_raw_contract]
      \<lparr>ls_persons = [], ls_contracts = [], ls_in_year = []\<rparr> = Inr ?s"
    by (simp add: select_contract_def sample_raw_contract_def sample_person_def sample_label_assessment_def assessment_antennas_def
        convert_iso_datetime_to_date_def kept_by_sync_def january_first_def cleanup_employee_info_def sexe_title_def
        check_person_def)
  have tab: "label_tables_ok (la_pk ?a) sample_label_db" by (simp add: label_tables_ok_def sample_label_db_def)
  have fresh: "la_label_geiq_id ?a \<noteq> 0" "la_contracts_synced_at ?a = None" by (simp_all add: sample_label_assessment_def)
  obtain x' where "sync_employee_and_contracts ?iso sample_label_service 9 ?a sample_label_db = Some (Inr x')"
    "employee_content ` set (filter (\<lambda>e. ge_assessment e = la_pk ?a) (lb_employees x')) = person_content ` set (ls_persons ?s)"
    using sync_mirrors_label [OF ans fresh(1) row fresh(2,2) sel _ tab, of "[]" 9] by auto
  then show ?thesis by (simp add: person_content_def sample_label_assessment_def)
qed

end
