(* ===== verification/Requests.thy ===== *)
theory Requests
  imports Organizations Companies Py_Strings
begin

text \<open>
  The request of a user as the views see it: \<open>utils/perms/middleware.py\<close>, which finds the
  organization the user acts for and refuses the requests of incomplete accounts, the guards of
  \<open>utils/auth.py\<close> and \<open>utils/perms\<close>, and the rule of \<open>otp/utils.py\<close> on who needs a second factor.
\<close>

section \<open>Organizations\<close>

record institution =
  in_pk :: pk
  in_name :: string

datatype organization_kind = COMPANY | PRESCRIBER_ORGANIZATION | INSTITUTION

datatype organization = Of_Company company | Of_Prescriber prescriber_org | Of_Institution institution

text \<open>The key of an organization in the session: its kind and its primary key.\<close>

type_synonym switch_key = "organization_kind \<times> pk"

fun organization_switch_key :: "organization \<Rightarrow> switch_key" where
  "organization_switch_key (Of_Company c) = (COMPANY, co_pk c)"
| "organization_switch_key (Of_Prescriber p) = (PRESCRIBER_ORGANIZATION, po_pk p)"
| "organization_switch_key (Of_Institution i) = (INSTITUTION, in_pk i)"

section \<open>The current organization\<close>

text \<open>A membership with its organization, and whether it is an administrator's.\<close>

type_synonym held = "organization \<times> bool"

definition select_current :: "held list \<Rightarrow> switch_key option \<Rightarrow> organization option" where
  "select_current ms key =
     fold (\<lambda>(org, _) current. if Some (organization_switch_key org) = key then Some org else current) ms None"

definition admin_status :: "held list \<Rightarrow> switch_key \<rightharpoonup> bool" where
  "admin_status ms = fold (\<lambda>(org, adm) m. m(organization_switch_key org \<mapsto> adm)) ms Map.empty"

record membership_infos =
  mi_organizations :: "organization list"
  mi_current :: "organization option"
  mi_is_admin :: "bool option"
  mi_session_key :: "switch_key option"

definition extract_membership_infos_and_update_session ::
  "(organization \<Rightarrow> 'k::linorder) \<Rightarrow> held list \<Rightarrow> held list \<Rightarrow> held list \<Rightarrow> switch_key option \<Rightarrow> membership_infos" where
  "extract_membership_infos_and_update_session label companies prescribers institutions key =
     (let ms = companies @ prescribers @ institutions;
          (current, key') =
            (case select_current ms key of
               Some org \<Rightarrow> (Some org, key)
             | None \<Rightarrow> (case ms of
                 (org, _) # _ \<Rightarrow> (Some org, Some (organization_switch_key org))
               | [] \<Rightarrow> (None, None)))
      in \<lparr>mi_organizations = sort_key label (map fst ms), mi_current = current,
          mi_is_admin = Option.bind current (\<lambda>org. admin_status ms (organization_switch_key org)),
          mi_session_key = key'\<rparr>)"

text \<open>The organizations a user is an active member of.  The companies must be active or in their grace
  period; those in grace period come last.\<close>

definition own_memberships :: "user \<Rightarrow> membership list \<Rightarrow> membership list" where
  "own_memberships u t = filter (\<lambda>m. mb_user m = us_pk u \<and> mb_is_active m) t"

definition get_active_company_memberships ::
  "datetime \<Rightarrow> convention list \<Rightarrow> company list \<Rightarrow> membership list \<Rightarrow> user \<Rightarrow> held list" where
  "get_active_company_memberships now vs cs t u =
     (let ms = own_memberships u t;
          companies = active_or_in_grace_period now vs
            (filter (\<lambda>c. co_pk c \<in> mb_organization ` set ms) (company_objects cs));
          found = List.map_filter (\<lambda>m. map_option (\<lambda>c. (m, c)) (get_row co_pk (mb_organization m) companies)) ms
      in map (\<lambda>(m, c). (Of_Company c, mb_is_admin m))
           (sort_key (\<lambda>(m, c). if has_convention_in_grace_period now vs c then (1::nat) else 0)
             (sort_key (\<lambda>(m, c). mb_joined_at m) found)))"

definition joined_organizations :: "(pk \<Rightarrow> organization option) \<Rightarrow> membership list \<Rightarrow> user \<Rightarrow> held list" where
  "joined_organizations org t u =
     List.map_filter (\<lambda>m. map_option (\<lambda>x. (x, mb_is_admin m)) (org (mb_organization m)))
       (sort_key mb_joined_at (own_memberships u t))"

definition get_active_prescriber_memberships :: "prescriber_org list \<Rightarrow> membership list \<Rightarrow> user \<Rightarrow> held list" where
  "get_active_prescriber_memberships ps = joined_organizations (\<lambda>k. map_option Of_Prescriber (get_row po_pk k ps))"

definition get_active_institution_memberships :: "institution list \<Rightarrow> membership list \<Rightarrow> user \<Rightarrow> held list" where
  "get_active_institution_memberships ins = joined_organizations (\<lambda>k. map_option Of_Institution (get_row in_pk k ins))"

section \<open>Second factor\<close>

record otp_settings =
  os_require_for_staff :: bool
  os_require_for_pros :: bool
  os_organization_ids :: "pk list"
  os_company_ids :: "pk list"

text \<open>What the session and the second factor know of a user: authenticated, verified with a device,
  impersonated by a member of the staff, and whether the user has an active device.\<close>

record auth_state =
  au_is_authenticated :: bool
  au_is_verified :: bool
  au_is_hijacked :: bool
  au_has_device :: bool

definition require_otp_for_pro ::
  "otp_settings \<Rightarrow> user list \<Rightarrow> membership list \<Rightarrow> membership list \<Rightarrow> bool \<Rightarrow> user \<Rightarrow> bool" where
  "require_otp_for_pro s us prescriber_t company_t has_device u =
     (if \<not> os_require_for_pros s then False
      else if has_device then True
      else if list_ex (\<lambda>m. mb_user m = us_pk u \<and> mb_organization m \<in> set (os_organization_ids s))
                (active_memberships us prescriber_t) then True
      else if list_ex (\<lambda>m. mb_user m = us_pk u \<and> mb_organization m \<in> set (os_company_ids s))
                (active_memberships us company_t) then True
      else False)"

definition user_is_concerned_by_otp ::
  "otp_settings \<Rightarrow> user list \<Rightarrow> membership list \<Rightarrow> membership list \<Rightarrow> bool \<Rightarrow> user \<Rightarrow> bool" where
  "user_is_concerned_by_otp s us prescriber_t company_t has_device u =
     (if os_require_for_staff s \<and> us_kind u = KIND_ITOU_STAFF then True
      else is_professional u \<and> require_otp_for_pro s us prescriber_t company_t has_device u)"

definition require_otp ::
  "otp_settings \<Rightarrow> user list \<Rightarrow> membership list \<Rightarrow> membership list \<Rightarrow> auth_state \<Rightarrow> user \<Rightarrow> bool" where
  "require_otp s us prescriber_t company_t a u =
     (if \<not> au_is_authenticated a then False
      else if au_is_verified a then False
      else if au_is_hijacked a then False
      else user_is_concerned_by_otp s us prescriber_t company_t (au_has_device a) u)"

section \<open>The middleware\<close>

datatype logout_warning = FT_NO_FT_ORGANIZATION | NO_ORGANIZATION

record request_infos =
  rq_user :: user
  rq_organizations :: "organization list"
  rq_current_organization :: "organization option"
  rq_is_current_organization_admin :: "bool option"
  rq_from_employer :: bool
  rq_from_prescriber :: bool
  rq_from_authorized_prescriber :: bool
  rq_from_institution :: bool
  rq_from_iae_actor :: bool

definition anonymous_infos :: "user \<Rightarrow> request_infos" where
  "anonymous_infos u = \<lparr>rq_user = u, rq_organizations = [], rq_current_organization = None,
     rq_is_current_organization_admin = None, rq_from_employer = False, rq_from_prescriber = False,
     rq_from_authorized_prescriber = False, rq_from_institution = False, rq_from_iae_actor = False\<rparr>"

fun set_origin :: "organization \<Rightarrow> request_infos \<Rightarrow> request_infos" where
  "set_origin (Of_Prescriber p) r = r\<lparr>rq_from_prescriber := True, rq_from_iae_actor := True,
     rq_from_authorized_prescriber := is_authorized p\<rparr>"
| "set_origin (Of_Company c) r = r\<lparr>rq_from_employer := True, rq_from_iae_actor := is_subject_to_iae_rules c\<rparr>"
| "set_origin (Of_Institution i) r = r\<lparr>rq_from_institution := True\<rparr>"

definition france_travail_email_suffix :: string where
  "france_travail_email_suffix = ''@francetravail.fr''"

definition is_ft_organization :: "organization \<Rightarrow> bool" where
  "is_ft_organization org = (case org of Of_Prescriber p \<Rightarrow> po_kind p = PK_FT | _ \<Rightarrow> False)"

text \<open>The first half of \<open>__call__\<close>: the infos of the request, the key kept in the session and the warning.\<close>

definition enrich ::
  "(organization \<Rightarrow> 'k::linorder) \<Rightarrow> held list \<Rightarrow> held list \<Rightarrow> held list \<Rightarrow> user \<Rightarrow> switch_key option
   \<Rightarrow> request_infos \<times> switch_key option \<times> logout_warning option" where
  "enrich label companies prescribers institutions u key =
     (if \<not> is_professional u then (anonymous_infos u, key, None)
      else
        let m = extract_membership_infos_and_update_session label companies prescribers institutions key;
            r = (anonymous_infos u)\<lparr>rq_organizations := mi_organizations m, rq_current_organization := mi_current m,
                  rq_is_current_organization_admin := mi_is_admin m\<rparr>
        in if (case us_email u of None \<Rightarrow> False | Some e \<Rightarrow> endswith e france_travail_email_suffix) \<and>
              \<not> list_ex (\<lambda>(org, _). is_ft_organization org) prescribers
           then (r, mi_session_key m, Some FT_NO_FT_ORGANIZATION)
           else (case mi_current m of
                   None \<Rightarrow> (r, mi_session_key m, Some NO_ORGANIZATION)
                 | Some org \<Rightarrow> (set_origin org r, mi_session_key m, None)))"

datatype redirect_to = Verify_Otp | Otp_Enrollment | Activate_ProConnect | Logout_Warning logout_warning

datatype middleware_outcome = Get_Response request_infos | Redirect redirect_to

record url_names =
  un_account_login :: string
  un_account_logout :: string
  un_verify_otp :: string
  un_login_with_backup_code :: string

definition skip_all_checks :: "url_names \<Rightarrow> string \<Rightarrow> bool" where
  "skip_all_checks urls path \<longleftrightarrow>
     startswith path ''/login/'' \<or> startswith path ''/logout/'' \<or> startswith path ''/hijack/release'' \<or>
     startswith path ''/api'' \<or> path \<in> {un_account_login urls, un_account_logout urls} \<or>
     startswith path ''/legal/terms/''"

definition skip_remaining_checks :: "string \<Rightarrow> bool" where
  "skip_remaining_checks path \<longleftrightarrow>
     (startswith path ''/invitations/'' \<and> \<not> startswith path ''/invitations/invite'') \<or>
     startswith path ''/signup/''"

definition must_activate_pro_connect :: "bool \<Rightarrow> string \<Rightarrow> request_infos \<Rightarrow> bool" where
  "must_activate_pro_connect force path r \<longleftrightarrow>
     us_identity_provider (rq_user r) \<noteq> IDP_PRO_CONNECT \<and> (rq_from_employer r \<or> rq_from_prescriber r) \<and>
     \<not> startswith path ''/dashboard/activate-pro-connect-account'' \<and> \<not> startswith path ''/pro_connect'' \<and> force"

definition access_checks ::
  "url_names \<Rightarrow> bool \<Rightarrow> bool \<Rightarrow> bool \<Rightarrow> string \<Rightarrow> request_infos \<Rightarrow> logout_warning option \<Rightarrow> middleware_outcome" where
  "access_checks urls force needs_otp has_device path r warning =
     (if skip_all_checks urls path then Get_Response r
      else if needs_otp \<and> has_device \<and> path \<notin> {un_verify_otp urls, un_login_with_backup_code urls}
        then Redirect Verify_Otp
      else if needs_otp \<and> \<not> has_device \<and> \<not> startswith path ''/otp/enrollment'' then Redirect Otp_Enrollment
      else if skip_remaining_checks path then Get_Response r
      else if must_activate_pro_connect force path r then Redirect Activate_ProConnect
      else if is_professional (rq_user r) \<and> startswith path ''/portal'' then Get_Response r
      else (case warning of Some w \<Rightarrow> Redirect (Logout_Warning w) | None \<Rightarrow> Get_Response r))"

text \<open>\<open>__call__\<close> for an authenticated user; any other user goes to the view with no organization.\<close>

definition current_organization_middleware ::
  "(organization \<Rightarrow> 'k::linorder) \<Rightarrow> url_names \<Rightarrow> bool \<Rightarrow> bool \<Rightarrow> bool \<Rightarrow> held list \<Rightarrow> held list \<Rightarrow> held list
   \<Rightarrow> user \<Rightarrow> string \<Rightarrow> switch_key option \<Rightarrow> middleware_outcome \<times> switch_key option" where
  "current_organization_middleware label urls force needs_otp has_device companies prescribers institutions u path key =
     (let (r, key', warning) = enrich label companies prescribers institutions u key
      in (access_checks urls force needs_otp has_device path r warning, key'))"

section \<open>Guards of the views\<close>

definition check_request :: "(request_infos \<Rightarrow> bool) \<Rightarrow> request_infos \<Rightarrow> error + unit" where
  "check_request test r = guard (test r) PermissionDenied"

definition get_current_company_or_404 :: "request_infos \<Rightarrow> error + company" where
  "get_current_company_or_404 r =
     (case rq_current_organization r of
        Some (Of_Company c) \<Rightarrow> if rq_from_employer r then Inr c else Inl Http404
      | _ \<Rightarrow> Inl Http404)"

definition get_current_org_or_404 :: "request_infos \<Rightarrow> error + prescriber_org" where
  "get_current_org_or_404 r =
     (case rq_current_organization r of
        Some (Of_Prescriber p) \<Rightarrow> if rq_from_prescriber r then Inr p else Inl Http404
      | _ \<Rightarrow> Inl Http404)"

definition get_current_institution_or_404 :: "request_infos \<Rightarrow> error + institution" where
  "get_current_institution_or_404 r =
     (case rq_current_organization r of
        Some (Of_Institution i) \<Rightarrow> if rq_from_institution r then Inr i else Inl Http404
      | _ \<Rightarrow> Inl Http404)"

definition has_hijack_perm :: "(user \<Rightarrow> bool) \<Rightarrow> user \<Rightarrow> user \<Rightarrow> bool" where
  "has_hijack_perm has_perm hijacker hijacked =
     (if \<not> us_is_active hijacked \<or> us_email hijacked \<in> {None, Some []} \<or> us_is_staff hijacked \<or> us_is_superuser hijacked
      then False
      else if us_is_superuser hijacker then True
      else us_is_staff hijacker \<and> has_perm hijacker)"

definition is_created_by :: "user \<Rightarrow> user \<Rightarrow> bool" where
  "is_created_by u v \<longleftrightarrow> us_created_by u = Some (us_pk v)"

definition can_edit_personal_information :: "request_infos \<Rightarrow> user \<Rightarrow> bool" where
  "can_edit_personal_information r u =
     (if us_pk (rq_user r) = us_pk u then True
      else us_kind u = KIND_JOB_SEEKER \<and> is_professional (rq_user r) \<and>
        (rq_from_authorized_prescriber r \<or> rq_from_employer r \<or> is_created_by u (rq_user r)))"

definition can_view_personal_information :: "request_infos \<Rightarrow> user \<Rightarrow> bool" where
  "can_view_personal_information r u =
     (if can_edit_personal_information r u then True
      else us_kind u = KIND_JOB_SEEKER \<and> is_professional (rq_user r) \<and>
        (rq_from_authorized_prescriber r \<or> rq_from_employer r \<or> is_created_by u (rq_user r)))"

section \<open>Lemmas\<close>

lemma select_current_fold:
  "fold (\<lambda>(org, _) current. if Some (organization_switch_key org) = key then Some org else current) ms acc = Some org \<Longrightarrow>
   acc = Some org \<or> (org \<in> fst ` set ms \<and> key = Some (organization_switch_key org))"
proof (induction ms arbitrary: acc)
  case (Cons m ms)
  then show ?case by (cases m) (fastforce split: if_splits)
qed simp

lemma select_current_SomeD:
  "select_current ms key = Some org \<Longrightarrow> org \<in> fst ` set ms \<and> key = Some (organization_switch_key org)"
  unfolding select_current_def by (drule select_current_fold) simp

lemma select_current_found:
  assumes "org \<in> fst ` set ms"
  shows "\<exists>org'. select_current ms (Some (organization_switch_key org)) = Some org' \<and>
    organization_switch_key org' = organization_switch_key org"
proof -
  let ?f = "\<lambda>(o1, _) current. if Some (organization_switch_key o1) = Some (organization_switch_key org) then Some o1 else current"
  have "\<exists>org'. fold ?f ms acc = Some org' \<and> organization_switch_key org' = organization_switch_key org"
    if "org \<in> fst ` set ms \<or> (\<exists>x. acc = Some x \<and> organization_switch_key x = organization_switch_key org)" for acc
    using that
  proof (induction ms arbitrary: acc)
    case (Cons m ms)
    then show ?case by (cases m) auto
  qed simp
  then show ?thesis using assms by (simp add: select_current_def)
qed

abbreviation infos_of ::
  "(organization \<Rightarrow> 'k::linorder) \<Rightarrow> held list \<Rightarrow> held list \<Rightarrow> held list \<Rightarrow> switch_key option \<Rightarrow> membership_infos" where
  "infos_of \<equiv> extract_membership_infos_and_update_session"

text \<open>The current organization is one of those the user is a member of, and its key is the one kept in
  the session; there is none only for a user without membership.\<close>

lemma current_organization_held:
  assumes "mi_current (infos_of label a b c key) = Some org"
  shows "org \<in> fst ` set (a @ b @ c)" "mi_session_key (infos_of label a b c key) = Some (organization_switch_key org)"
proof -
  have "org \<in> fst ` set (a @ b @ c) \<and> mi_session_key (infos_of label a b c key) = Some (organization_switch_key org)"
  proof (cases "select_current (a @ b @ c) key")
    case None
    then show ?thesis using assms
      by (cases "a @ b @ c") (auto simp: extract_membership_infos_and_update_session_def Let_def)
  next
    case (Some x)
    then show ?thesis using assms select_current_SomeD [OF Some]
      by (simp add: extract_membership_infos_and_update_session_def Let_def)
  qed
  then show "org \<in> fst ` set (a @ b @ c)"
    "mi_session_key (infos_of label a b c key) = Some (organization_switch_key org)" by blast+
qed

lemma current_organization_None_iff:
  "mi_current (infos_of label a b c key) = None \<longleftrightarrow> a @ b @ c = []"
  by (cases "a @ b @ c")
    (auto simp: extract_membership_infos_and_update_session_def Let_def select_current_def split: option.splits)

text \<open>The next request finds the same organization.\<close>

lemma current_organization_stable:
  assumes "mi_current (infos_of label a b c key) = Some org" "inj_on organization_switch_key (fst ` set (a @ b @ c))"
  shows "mi_current (infos_of label a b c (mi_session_key (infos_of label a b c key))) = Some org"
proof -
  note h = current_organization_held [OF assms(1)]
  obtain org' where o: "select_current (a @ b @ c) (Some (organization_switch_key org)) = Some org'"
    "organization_switch_key org' = organization_switch_key org"
    using select_current_found [OF h(1)] by blast
  then have "org' = org"
    using inj_onD [OF assms(2) o(2)] select_current_SomeD [OF o(1)] h(1) by blast
  then show ?thesis using o(1) h(2) by (simp add: extract_membership_infos_and_update_session_def Let_def)
qed

lemma held_company:
  assumes "(org, adm) \<in> set (get_active_company_memberships now vs cs t u)"
  obtains m c where "org = Of_Company c" "m \<in> set t" "mb_user m = us_pk u" "mb_is_active m"
    "mb_organization m = co_pk c" "mb_is_admin m = adm" "c \<in> set (active_or_in_grace_period now vs (company_objects cs))"
proof -
  obtain m c where "m \<in> set (own_memberships u t)" "org = Of_Company c" "adm = mb_is_admin m"
    and g: "get_row co_pk (mb_organization m) (active_or_in_grace_period now vs
        (filter (\<lambda>c. co_pk c \<in> mb_organization ` set (own_memberships u t)) (company_objects cs))) = Some c"
    using assms by (auto simp: get_active_company_memberships_def Let_def List.map_filter_def)
  then show thesis using get_row_SomeD [OF g] that [of c m]
    by (auto simp: own_memberships_def active_or_in_grace_period_def)
qed

lemma joined_not_company:
  "(\<And>k x. org k = Some x \<Longrightarrow> \<forall>c. x \<noteq> Of_Company c) \<Longrightarrow> (Of_Company c, adm) \<notin> set (joined_organizations org t u)"
  by (force simp: joined_organizations_def List.map_filter_def)

lemma set_origin_fields [simp]:
  "rq_current_organization (set_origin org r) = rq_current_organization r" "rq_user (set_origin org r) = rq_user r"
  "rq_from_employer (set_origin org r) \<longleftrightarrow> rq_from_employer r \<or> (\<exists>c. org = Of_Company c)"
  "rq_from_prescriber (set_origin org r) \<longleftrightarrow> rq_from_prescriber r \<or> (\<exists>p. org = Of_Prescriber p)"
  by (cases org; simp)+

lemma anonymous_infos_fields [simp]:
  "rq_user (anonymous_infos u) = u" "\<not> rq_from_employer (anonymous_infos u)" "\<not> rq_from_prescriber (anonymous_infos u)"
  "rq_current_organization (anonymous_infos u) = None"
  by (simp_all add: anonymous_infos_def)

lemma enrich_fields:
  assumes "enrich label a b c u key = (r, key', w)"
  shows "rq_user r = u" "is_professional u \<Longrightarrow> rq_current_organization r = mi_current (infos_of label a b c key)"
    "is_professional u \<Longrightarrow> key' = mi_session_key (infos_of label a b c key)"
    "rq_from_employer r \<Longrightarrow> is_professional u \<and> w = None \<and> (\<exists>co. mi_current (infos_of label a b c key) = Some (Of_Company co))"
    "is_professional u \<Longrightarrow> w = None \<Longrightarrow> \<exists>org. mi_current (infos_of label a b c key) = Some org"
  using assms by (auto simp: enrich_def Let_def split: if_splits option.splits)

lemma access_checks_response: "access_checks urls force needs_otp dev path r w = Get_Response r' \<Longrightarrow> r' = r"
  by (auto simp: access_checks_def split: if_splits option.splits)

text \<open>The memberships of one user give different keys to different organizations.\<close>

lemma get_row_own: "get_row k v xs = Some y \<Longrightarrow> get_row k (k y) xs = Some y"
  using get_row_SomeD by fastforce

lemma held_company_row:
  "(Of_Company c, adm) \<in> set (get_active_company_memberships now vs cs t u) \<Longrightarrow>
   get_row co_pk (co_pk c) (active_or_in_grace_period now vs
     (filter (\<lambda>c. co_pk c \<in> mb_organization ` set (own_memberships u t)) (company_objects cs))) = Some c"
  by (auto simp: get_active_company_memberships_def Let_def List.map_filter_def dest: get_row_own)

definition own_row :: "company list \<Rightarrow> prescriber_org list \<Rightarrow> institution list \<Rightarrow> organization \<Rightarrow> bool" where
  "own_row cs ps is z = (case z of
     Of_Company c \<Rightarrow> get_row co_pk (co_pk c) cs = Some c
   | Of_Prescriber p \<Rightarrow> get_row po_pk (po_pk p) ps = Some p
   | Of_Institution i \<Rightarrow> get_row in_pk (in_pk i) is = Some i)"

lemma get_row_same: "get_row k (k x) xs = Some x \<Longrightarrow> get_row k (k y) xs = Some y \<Longrightarrow> k x = k y \<Longrightarrow> x = y"
  by (metis option.inject)

lemma own_row_inj:
  assumes "own_row cs ps is x" "own_row cs ps is y" "organization_switch_key x = organization_switch_key y"
  shows "x = y"
proof (cases x)
  case (Of_Company c)
  then obtain d where "y = Of_Company d" "co_pk c = co_pk d" using assms(3) by (cases y) simp_all
  then show ?thesis using assms(1,2) Of_Company get_row_same [of co_pk c cs d] by (simp add: own_row_def)
next
  case (Of_Prescriber c)
  then obtain d where "y = Of_Prescriber d" "po_pk c = po_pk d" using assms(3) by (cases y) simp_all
  then show ?thesis using assms(1,2) Of_Prescriber get_row_same [of po_pk c ps d] by (simp add: own_row_def)
next
  case (Of_Institution c)
  then obtain d where "y = Of_Institution d" "in_pk c = in_pk d" using assms(3) by (cases y) simp_all
  then show ?thesis using assms(1,2) Of_Institution get_row_same [of in_pk c "is" d] by (simp add: own_row_def)
qed

lemma held_list_cases: "z \<in> fst ` set (a @ b @ c) \<Longrightarrow> \<exists>adm. (z, adm) \<in> set a \<or> (z, adm) \<in> set b \<or> (z, adm) \<in> set c"
  by force

lemma held_keys_inj:
  "inj_on organization_switch_key (fst ` set (get_active_company_memberships now vs cs ct u @
     get_active_prescriber_memberships ps pt u @ get_active_institution_memberships is it u))"
proof -
  let ?cs = "active_or_in_grace_period now vs
    (filter (\<lambda>c. co_pk c \<in> mb_organization ` set (own_memberships u ct)) (company_objects cs))"
  have A: "own_row ?cs ps is z" if "(z, adm) \<in> set (get_active_company_memberships now vs cs ct u)" for z adm
    by (rule held_company [OF that]) (use that held_company_row in \<open>simp add: own_row_def\<close>)
  have B: "own_row ?cs ps is z" if "(z, adm) \<in> set (get_active_prescriber_memberships ps pt u)" for z adm
    using that by (auto simp: own_row_def get_active_prescriber_memberships_def joined_organizations_def
        List.map_filter_def dest: get_row_own)
  have C: "own_row ?cs ps is z" if "(z, adm) \<in> set (get_active_institution_memberships is it u)" for z adm
    using that by (auto simp: own_row_def get_active_institution_memberships_def joined_organizations_def
        List.map_filter_def dest: get_row_own)
  show ?thesis
  proof (rule inj_onI)
    fix x y
    assume xy: "x \<in> fst ` set (get_active_company_memberships now vs cs ct u @
        get_active_prescriber_memberships ps pt u @ get_active_institution_memberships is it u)"
      "y \<in> fst ` set (get_active_company_memberships now vs cs ct u @
        get_active_prescriber_memberships ps pt u @ get_active_institution_memberships is it u)"
      and k: "organization_switch_key x = organization_switch_key y"
    have "own_row ?cs ps is x" using held_list_cases [OF xy(1)] A B C by blast
    moreover have "own_row ?cs ps is y" using held_list_cases [OF xy(2)] A B C by blast
    ultimately show "x = y" using k by (rule own_row_inj)
  qed
qed

lemma access_checks_gate:
  assumes "access_checks urls force needs_otp dev path r w = Get_Response r" "\<not> skip_all_checks urls path"
  shows "needs_otp \<longrightarrow> (if dev then path = un_verify_otp urls \<or> path = un_login_with_backup_code urls
      else startswith path ''/otp/enrollment'')"
    "is_professional (rq_user r) \<Longrightarrow> \<not> skip_remaining_checks path \<Longrightarrow> \<not> startswith path ''/portal'' \<Longrightarrow>
      w = None \<and> \<not> must_activate_pro_connect force path r"
proof -
  have v: "\<not> (needs_otp \<and> dev \<and> path \<notin> {un_verify_otp urls, un_login_with_backup_code urls})"
  proof
    assume "needs_otp \<and> dev \<and> path \<notin> {un_verify_otp urls, un_login_with_backup_code urls}"
    then have "access_checks urls force needs_otp dev path r w = Redirect Verify_Otp"
      using assms(2) unfolding access_checks_def by (simp only: if_True if_False simp_thms)
    then show False using assms(1) by simp
  qed
  have e: "\<not> (needs_otp \<and> \<not> dev \<and> \<not> startswith path ''/otp/enrollment'')"
  proof
    assume "needs_otp \<and> \<not> dev \<and> \<not> startswith path ''/otp/enrollment''"
    then have "access_checks urls force needs_otp dev path r w = Redirect Otp_Enrollment"
      using assms(2) unfolding access_checks_def by (simp only: if_True if_False simp_thms)
    then show False using assms(1) by simp
  qed
  show "needs_otp \<longrightarrow> (if dev then path = un_verify_otp urls \<or> path = un_login_with_backup_code urls
      else startswith path ''/otp/enrollment'')"
    using v e by auto
  assume p: "is_professional (rq_user r)" "\<not> skip_remaining_checks path" "\<not> startswith path ''/portal''"
  have r: "access_checks urls force needs_otp dev path r w =
     (if must_activate_pro_connect force path r then Redirect Activate_ProConnect
      else (case w of Some w \<Rightarrow> Redirect (Logout_Warning w) | None \<Rightarrow> Get_Response r))"
    using assms(2) v e p unfolding access_checks_def by (simp only: if_False simp_thms)
  show "w = None \<and> \<not> must_activate_pro_connect force path r"
    using assms(1) r by (cases w; cases "must_activate_pro_connect force path r") simp_all
qed

end
