(* ===== verification/Application_Requests.thy ===== *)
theory Application_Requests
  imports Requests Hiring_Effects
begin

text \<open>
  The requests of the employers on one application: \<open>www/apply/views/process_views.py\<close>,
  \<open>edit_views.py\<close> and \<open>transfer_views.py\<close>.  A request is one database transaction: it gives the new database or
  an error, which undoes it.  The pages, messages and mails are left out, but for the outcome they show.
\<close>

datatype request_outcome = Moved | Already_Done | Form_Shown | Nothing_Done

section \<open>Access\<close>

definition from_employer_only :: "request_infos \<Rightarrow> error + unit" where
  "from_employer_only = check_request rq_from_employer"

definition is_active_company_member :: "db \<Rightarrow> user \<Rightarrow> job_application \<Rightarrow> bool" where
  "is_active_company_member db u j \<longleftrightarrow>
     has_member (db_users db) (db_company_memberships db) (ja_to_company j) (us_pk u)"

definition get_received_application :: "request_infos \<Rightarrow> pk \<Rightarrow> db \<Rightarrow> error + job_application" where
  "get_received_application r k db =
     rbind (from_employer_only r) (\<lambda>_.
     case get_row ja_pk k (filter (is_active_company_member db (rq_user r)) (db_job_applications db)) of
       None \<Rightarrow> Inl Http404
     | Some j \<Rightarrow> Inr j)"

text \<open>\<open>job_application.to_company\<close>, a foreign key.\<close>

definition company_of :: "job_application \<Rightarrow> db \<Rightarrow> error + company" where
  "company_of j db = (case get_row co_pk (ja_to_company j) (db_companies db) of
     None \<Rightarrow> Inl (DoesNotExist ''company'') | Some c \<Rightarrow> Inr c)"

text \<open>A transition in a \<open>try\<close> that lets \<open>InvalidTransitionError\<close> pass.\<close>

definition try_transition :: "error + (job_application \<times> db) \<Rightarrow> db \<Rightarrow> error + (bool \<times> db)" where
  "try_transition res db = (case res of
     Inr (_, db') \<Rightarrow> Inr (True, db')
   | Inl e \<Rightarrow> if e = InvalidTransitionError then Inr (False, db) else Inl e)"

definition moved_or_done :: "error + (bool \<times> db) \<Rightarrow> error + (request_outcome \<times> db)" where
  "moved_or_done res = rbind res (\<lambda>(ok, db). Inr (if ok then Moved else Already_Done, db))"

section \<open>Answers\<close>

definition process_application ::
  "ja_engine \<Rightarrow> datetime \<Rightarrow> request_infos \<Rightarrow> pk \<Rightarrow> db \<Rightarrow> error + (request_outcome \<times> db)" where
  "process_application run now r k db =
     rbind (get_received_application r k db) (\<lambda>j.
     moved_or_done (try_transition
       (ja_plain_transition run now T_PROCESS (Some (us_pk (rq_user r))) None j db) db))"

text \<open>The comment of \<open>AnswerForm\<close> is required, the one of \<open>AddToPoolForm\<close> is not.\<close>

definition postpone_request ::
  "ja_engine \<Rightarrow> datetime \<Rightarrow> request_infos \<Rightarrow> pk \<Rightarrow> string \<Rightarrow> db \<Rightarrow> error + (request_outcome \<times> db)" where
  "postpone_request run now r k answer db =
     rbind (get_received_application r k db) (\<lambda>j.
     case required_text answer of
       None \<Rightarrow> Inr (Form_Shown, db)
     | Some a \<Rightarrow> moved_or_done (try_transition
         (ja_postpone run now (us_pk (rq_user r)) (j\<lparr>ja_answer := a\<rparr>) db) db))"

definition add_to_pool_request ::
  "ja_engine \<Rightarrow> datetime \<Rightarrow> request_infos \<Rightarrow> pk \<Rightarrow> string \<Rightarrow> db \<Rightarrow> error + (request_outcome \<times> db)" where
  "add_to_pool_request run now r k answer db =
     rbind (get_received_application r k db) (\<lambda>j.
     moved_or_done (try_transition
       (ja_add_to_pool run now (us_pk (rq_user r)) (j\<lparr>ja_answer := py_strip answer\<rparr>) db) db))"

definition cancel_request ::
  "ja_engine \<Rightarrow> datetime \<Rightarrow> request_infos \<Rightarrow> pk \<Rightarrow> db \<Rightarrow> error + (request_outcome \<times> db)" where
  "cancel_request run now r k db =
     rbind (get_received_application r k db) (\<lambda>j.
     if \<not> can_be_cancelled db j then Inr (Nothing_Done, db)
     else moved_or_done (try_transition (ja_cancel run now (us_pk (rq_user r)) j db) db))"

text \<open>The internal transfer catches every exception; the transition undoes its own changes.\<close>

definition transfer_request ::
  "ja_engine \<Rightarrow> datetime \<Rightarrow> request_infos \<Rightarrow> pk \<Rightarrow> pk \<Rightarrow> db \<Rightarrow> error + (request_outcome \<times> db)" where
  "transfer_request run now r k target db =
     rbind (get_received_application r k db) (\<lambda>j.
     case get_row co_pk target (company_objects (db_companies db)) of
       None \<Rightarrow> Inl Http404
     | Some c \<Rightarrow> (case ja_transfer run now (rq_user r) (co_pk c) j db of
         Inl e \<Rightarrow> Inr (Nothing_Done, db)
       | Inr (_, db') \<Rightarrow> Inr (Moved, db')))"

section \<open>Invitation to Diagoriente\<close>

datatype invite_recipient = Invite_Prescriber | Invite_Job_Seeker

definition send_diagoriente_invite ::
  "datetime \<Rightarrow> request_infos \<Rightarrow> pk \<Rightarrow> db \<Rightarrow> error + (invite_recipient option \<times> db)" where
  "send_diagoriente_invite now r k db =
     rbind (get_received_application r k db) (\<lambda>j.
     if ja_resume j = None \<and> ja_diagoriente_invite_sent_at j = None
     then Inr (Some (if is_sent_by_proxy j then Invite_Prescriber else Invite_Job_Seeker),
       db\<lparr>db_job_applications := map_rows (\<lambda>x. ja_pk x = ja_pk j)
            (\<lambda>x. x\<lparr>ja_diagoriente_invite_sent_at := Some now, ja_updated_at := now\<rparr>) (db_job_applications db)\<rparr>)
     else Inr (None, db))"

section \<open>Actions prior to the hiring\<close>

definition prior_actions_of :: "db \<Rightarrow> job_application \<Rightarrow> prior_action list" where
  "prior_actions_of db j = filter (\<lambda>a. pa_job_application a = ja_pk j) (db_prior_actions db)"

definition delete_prior_action ::
  "ja_engine \<Rightarrow> datetime \<Rightarrow> request_infos \<Rightarrow> pk \<Rightarrow> pk \<Rightarrow> db \<Rightarrow> error + (bool \<times> db)" where
  "delete_prior_action run now r k action db =
     rbind (get_received_application r k db) (\<lambda>j.
     rbind (company_of j db) (\<lambda>c.
     rbind (guard (can_change_prior_actions c j) HttpResponseForbidden) (\<lambda>_.
     case get_row pa_pk action (prior_actions_of db j) of
       None \<Rightarrow> Inl Http404
     | Some a \<Rightarrow>
         let db1 = db\<lparr>db_prior_actions := filter (\<lambda>x. pa_pk x \<noteq> pa_pk a) (db_prior_actions db)\<rparr>
         in if ja_state j = JA_PRIOR_TO_HIRE \<and> prior_actions_of db1 j = []
            then rbind (ja_plain_transition run now T_CANCEL_PRIOR_TO_HIRE (Some (us_pk (rq_user r))) None j db1)
                   (\<lambda>(_, db2). Inr (True, db2))
            else Inr (False, db1))))"

text \<open>What is submitted of \<open>PriorActionForm\<close>: the action chosen, whether the fields of the dates are there, and
  the dates they parse to.\<close>

record prior_action_form =
  pf_action :: "prior_action_kind option"
  pf_start_in_post :: bool
  pf_start_at :: "date option"
  pf_end_at :: "date option"

definition prior_action_form_clean :: "prior_action_form \<Rightarrow> (prior_action_kind \<times> date \<times> date) option" where
  "prior_action_form_clean f =
     (case (pf_action f, pf_start_at f, pf_end_at f) of
        (Some a, Some s, Some e) \<Rightarrow> if e < s then None else Some (a, s, e)
      | _ \<Rightarrow> None)"

text \<open>A valid form: a new action first moves the application, then is inserted.\<close>

definition save_prior_action ::
  "ja_engine \<Rightarrow> datetime \<Rightarrow> user \<Rightarrow> job_application \<Rightarrow> prior_action option \<Rightarrow> prior_action_kind \<times> date \<times> date \<Rightarrow> db
   \<Rightarrow> error + db" where
  "save_prior_action run now u j prior f db = (case f of (a, s, e) \<Rightarrow> (case prior of
     None \<Rightarrow>
       rbind (if ja_state j = JA_PRIOR_TO_HIRE then Inr (j, db)
              else ja_plain_transition run now T_MOVE_TO_PRIOR_TO_HIRE (Some (us_pk u)) None j db)
         (\<lambda>(j1, db1). Inr (db1\<lparr>db_prior_actions := db_prior_actions db1 @
           [\<lparr>pa_pk = next_pk pa_pk (db_prior_actions db1), pa_job_application = ja_pk j1,
             pa_action = a, pa_lower = s, pa_upper = e\<rparr>]\<rparr>))
   | Some p \<Rightarrow> Inr (db\<lparr>db_prior_actions := map_rows (\<lambda>x. pa_pk x = pa_pk p)
       (\<lambda>x. x\<lparr>pa_action := a, pa_lower := s, pa_upper := e\<rparr>) (db_prior_actions db)\<rparr>)))"

definition add_or_modify_prior_action ::
  "ja_engine \<Rightarrow> datetime \<Rightarrow> request_infos \<Rightarrow> pk \<Rightarrow> pk option \<Rightarrow> prior_action_form option \<Rightarrow> db
   \<Rightarrow> error + (request_outcome \<times> db)" where
  "add_or_modify_prior_action run now r k action form db =
     rbind (get_received_application r k db) (\<lambda>j.
     rbind (company_of j db) (\<lambda>c.
     rbind (guard (can_change_prior_actions c j) HttpResponseForbidden) (\<lambda>_.
     rbind (case action of
              None \<Rightarrow> Inr None
            | Some p \<Rightarrow> (case get_row pa_pk p (prior_actions_of db j) of None \<Rightarrow> Inl Http404 | Some a \<Rightarrow> Inr (Some a)))
       (\<lambda>prior.
     case form of
       None \<Rightarrow> Inr (Form_Shown, db)
     | Some f \<Rightarrow>
         if prior = None \<and> \<not> pf_start_in_post f then Inr (Form_Shown, db)
         else (case prior_action_form_clean f of
             None \<Rightarrow> Inr (Form_Shown, db)
           | Some v \<Rightarrow> rbind (save_prior_action run now (rq_user r) j prior v db) (\<lambda>db1. Inr (Moved, db1)))))))"

section \<open>Comments\<close>

definition comment_max_length :: nat where "comment_max_length = 2000"

definition add_comment_for_company ::
  "datetime \<Rightarrow> request_infos \<Rightarrow> pk \<Rightarrow> string \<Rightarrow> db \<Rightarrow> error + (request_outcome \<times> db)" where
  "add_comment_for_company now r k message db =
     rbind (get_received_application r k db) (\<lambda>j.
     case required_text message of
       None \<Rightarrow> Inr (Form_Shown, db)
     | Some m \<Rightarrow>
         if comment_max_length < length m then Inr (Form_Shown, db)
         else Inr (Moved, db\<lparr>db_comments := db_comments db @
           [\<lparr>jc_pk = next_pk jc_pk (db_comments db), jc_job_application = ja_pk j, jc_company = ja_to_company j,
             jc_created_at = now, jc_created_by = us_pk (rq_user r), jc_message = m\<rparr>]\<rparr>))"

definition delete_comment_for_company ::
  "request_infos \<Rightarrow> pk \<Rightarrow> pk \<Rightarrow> db \<Rightarrow> error + (nat \<times> db)" where
  "delete_comment_for_company r k comment db =
     rbind (from_employer_only r) (\<lambda>_.
     rbind (get_current_company_or_404 r) (\<lambda>c.
     rbind (guard (list_ex (\<lambda>j. ja_pk j = k \<and> ja_to_company j = co_pk c) (db_job_applications db)) Http404) (\<lambda>_.
     let del = (\<lambda>m. jc_job_application m = k \<and> jc_created_by m = us_pk (rq_user r) \<and> jc_pk m = comment)
     in Inr (length (filter del (db_comments db)),
             db\<lparr>db_comments := filter (\<lambda>m. \<not> del m) (db_comments db)\<rparr>))))"

text \<open>The comments shown: those of the company the application is addressed to.\<close>

definition comments_shown :: "db \<Rightarrow> job_application \<Rightarrow> ja_comment list" where
  "comments_shown db j =
     sort_key (\<lambda>m. - jc_created_at m)
       (filter (\<lambda>m. jc_job_application m = ja_pk j \<and> jc_company m = ja_to_company j) (db_comments db))"

section \<open>Dates of the contract\<close>

definition max_contract_postpone_in_days :: days where "max_contract_postpone_in_days = 30"

text \<open>\<open>EditHiringDateForm\<close> on the dates submitted: the clean methods of the form, then the validation of the
  instance with its new dates.\<close>

definition edit_hiring_date_clean ::
  "date \<Rightarrow> db \<Rightarrow> job_application \<Rightarrow> date option \<Rightarrow> date option \<Rightarrow> error + date" where
  "edit_hiring_date_clean today db j start end =
     (case start of
        None \<Rightarrow> Inl (ValidationError ''hiring_start_at'')
      | Some s \<Rightarrow>
          rbind (guard (today \<le> s) (ValidationError ''ERROR_START_IN_PAST'')) (\<lambda>_.
          rbind (guard (s \<le> today + max_contract_postpone_in_days) (ValidationError ''ERROR_POSTPONE_TOO_FAR'')) (\<lambda>_.
          rbind (guard (case end of None \<Rightarrow> True | Some e \<Rightarrow> s \<le> e) (ValidationError ''ERROR_END_IS_BEFORE_START'')) (\<lambda>_.
          rbind (guard (case Option.bind (af_approval (ja_accepted j)) (\<lambda>k. get_row ap_pk k (db_approvals db)) of
                          None \<Rightarrow> True
                        | Some a \<Rightarrow> can_postpone_start_date today a \<or> s < ap_end_at a)
                  (ValidationError ''ERROR_START_AFTER_APPROVAL_END'')) (\<lambda>_.
          rbind (ja_clean (db_users db) (db_companies db) (j\<lparr>ja_hiring_start_at := Some s, ja_hiring_end_at := end\<rparr>)) (\<lambda>_.
          Inr s))))))"

text \<open>\<open>edit_contract_start_date\<close>.  The test of the state builds a \<open>PermissionDenied\<close> and does not raise
  it: the view goes on for an application in any state.\<close>

definition edit_contract_start_date ::
  "date \<Rightarrow> datetime \<Rightarrow> request_infos \<Rightarrow> pk \<Rightarrow> date option \<Rightarrow> date option \<Rightarrow> db \<Rightarrow> error + (request_outcome \<times> db)" where
  "edit_contract_start_date today now r k start end db =
     rbind (get_received_application r k db) (\<lambda>j.
     case edit_hiring_date_clean today db j start end of
       Inl _ \<Rightarrow> Inr (Form_Shown, db)
     | Inr s \<Rightarrow>
         rbind (ja_save now (j\<lparr>ja_hiring_start_at := Some s, ja_hiring_end_at := end\<rparr>) db) (\<lambda>(j1, db1).
         case Option.bind (af_approval (ja_accepted j1)) (\<lambda>a. get_row ap_pk a (db_approvals db1)) of
           None \<Rightarrow> Inr (Moved, db1)
         | Some a \<Rightarrow> rbind (update_start_date today now a s db1) (\<lambda>(_, _, db2). Inr (Moved, db2))))"

section \<open>Archives\<close>

datatype archive_action = Archive | Unarchive

text \<open>\<open>archive_view\<close>: one update of the rows that match; no row is a 404.\<close>

definition archive_matches :: "archive_action \<Rightarrow> request_infos \<Rightarrow> pk \<Rightarrow> db \<Rightarrow> job_application \<Rightarrow> bool" where
  "archive_matches act r k db j \<longleftrightarrow>
     is_active_company_member db (rq_user r) j \<and> ja_pk j = k \<and>
     (act = Archive \<longrightarrow> ja_state j \<in> set archivable_job_application_states_manual) \<and> ja_state j \<noteq> JA_ACCEPTED"

definition set_archived :: "archive_action \<Rightarrow> datetime \<Rightarrow> user \<Rightarrow> job_application \<Rightarrow> job_application" where
  "set_archived act now u j = (case act of
     Archive \<Rightarrow> j\<lparr>ja_archived_at := Some now, ja_archived_by := Some (us_pk u)\<rparr>
   | Unarchive \<Rightarrow> j\<lparr>ja_archived_at := None, ja_archived_by := None\<rparr>)"

definition archive_view ::
  "archive_action \<Rightarrow> datetime \<Rightarrow> request_infos \<Rightarrow> pk \<Rightarrow> db \<Rightarrow> error + db" where
  "archive_view act now r k db =
     rbind (from_employer_only r) (\<lambda>_.
     if list_ex (archive_matches act r k db) (db_job_applications db)
     then Inr (db\<lparr>db_job_applications := map_rows (archive_matches act r k db) (set_archived act now (rq_user r))
            (db_job_applications db)\<rparr>)
     else Inl Http404)"

end
