(* ===== verification/Wizard.thy ===== *)
theory Wizard
  imports Prelude
begin

text \<open>
  The wizards of the site, \<open>www/utils/wizard.py\<close> over \<open>utils/session.py\<close>: a form per step, whose
  data are kept in a namespace of the session until the last step is posted.  The steps and the forms are
  those of the view: they are arguments of the definitions.
\<close>

section \<open>Namespaces of a session\<close>

text \<open>A session maps keys to values; a namespace \<open>name\<close> uses two: \<open>name\<close> for its data and the key of its kind.\<close>

datatype 'x session_value = Namespace 'x | Session_Kind string

type_synonym 'x session = "string \<rightharpoonup> 'x session_value"

datatype session_error = SessionNamespaceDoesNotExist string | SessionNamespaceInvalidKind string

definition session_kind_key :: "string \<Rightarrow> string" where
  "session_kind_key name = name @ ''_session_kind''"

definition namespace_open :: "'x session \<Rightarrow> string \<Rightarrow> string \<Rightarrow> session_error + unit" where
  "namespace_open session expected_session_kind name =
     (case session (session_kind_key name) of
        None \<Rightarrow> Inl (SessionNamespaceDoesNotExist (session_kind_key name))
      | Some v \<Rightarrow> if v \<noteq> Session_Kind expected_session_kind
                  then Inl (SessionNamespaceInvalidKind (session_kind_key name)) else Inr ())"

definition namespace_data :: "'x session \<Rightarrow> string \<Rightarrow> 'x option" where
  "namespace_data session name = (case session name of Some (Namespace x) \<Rightarrow> Some x | _ \<Rightarrow> None)"

definition namespace_set :: "'x session \<Rightarrow> string \<Rightarrow> 'x \<Rightarrow> 'x session" where
  "namespace_set session name x = session(name \<mapsto> Namespace x)"

definition namespace_delete :: "'x session \<Rightarrow> string \<Rightarrow> 'x session" where
  "namespace_delete session name = (session(name := None))(session_kind_key name := None)"

definition namespace_create :: "'x session \<Rightarrow> string \<Rightarrow> 'x \<Rightarrow> string \<Rightarrow> 'x session" where
  "namespace_create session session_kind x name =
     (session(name \<mapsto> Namespace x))(session_kind_key name \<mapsto> Session_Kind session_kind)"

section \<open>Steps\<close>

record ('s, 'd) wizard_session =
  wz_reset_url :: "string option"
  wz_data :: "'s \<rightharpoonup> 'd"

definition initialize_session ::
  "('s, 'd, 'm) wizard_session_scheme session \<Rightarrow> string \<Rightarrow> string \<Rightarrow> ('s, 'd, 'm) wizard_session_scheme
   \<Rightarrow> error + ('s, 'd, 'm) wizard_session_scheme session" where
  "initialize_session session kind name x =
     (if wz_reset_url x = None then Inl Http404 else Inr (namespace_create session kind x name))"

definition load_session ::
  "('s, 'd, 'm) wizard_session_scheme session \<Rightarrow> string \<Rightarrow> string \<Rightarrow> error + ('s, 'd, 'm) wizard_session_scheme" where
  "load_session session kind name =
     (case namespace_open session kind name of
        Inl _ \<Rightarrow> Inl Http404
      | Inr _ \<Rightarrow> (case namespace_data session name of
          None \<Rightarrow> Inl (KeyError name)
        | Some x \<Rightarrow> if wz_reset_url x = None then Inl Http404 else Inr x))"

fun step_index :: "'s list \<Rightarrow> 's \<Rightarrow> nat" where
  "step_index [] s = 0"
| "step_index (x # xs) s = (if x = s then 0 else Suc (step_index xs s))"

definition get_next_step :: "'s list \<Rightarrow> 's \<Rightarrow> 's option" where
  "get_next_step steps s =
     (let i = step_index steps s + 1 in if length steps \<le> i then None else Some (steps ! i))"

definition get_previous_step :: "'s list \<Rightarrow> 's \<Rightarrow> 's option" where
  "get_previous_step steps s =
     (let i = step_index steps s in if i = 0 then None else Some (steps ! (i - 1)))"

text \<open>\<open>clean s d x\<close> is the cleaned data of the form of the step \<open>s\<close> on the data \<open>d\<close>, in the session \<open>x\<close>; \<open>None\<close> when the form
  is not valid.\<close>

fun find_step_with_invalid_data_until_step ::
  "('s \<Rightarrow> 'd \<Rightarrow> ('s, 'd, 'm) wizard_session_scheme \<Rightarrow> 'd option) \<Rightarrow> 's list \<Rightarrow> ('s, 'd, 'm) wizard_session_scheme \<Rightarrow> 's \<Rightarrow> 's option" where
  "find_step_with_invalid_data_until_step clean [] x s = None"
| "find_step_with_invalid_data_until_step clean (p # ps) x s =
     (if p = s then None
      else case wz_data x p of
        None \<Rightarrow> Some p
      | Some d \<Rightarrow> if clean p d x = None then Some p
                  else find_step_with_invalid_data_until_step clean ps x s)"

datatype 's wizard_response = Show_Step 's | Go_To 's | Wizard_Done

definition wizard_get ::
  "('s \<Rightarrow> 'd \<Rightarrow> ('s, 'd, 'm) wizard_session_scheme \<Rightarrow> 'd option) \<Rightarrow> 's list \<Rightarrow> ('s, 'd, 'm) wizard_session_scheme \<Rightarrow> 's
   \<Rightarrow> error + 's wizard_response" where
  "wizard_get clean steps x s =
     rbind (guard (s \<in> set steps) Http404) (\<lambda>_.
     Inr (case find_step_with_invalid_data_until_step clean steps x s of
            Some p \<Rightarrow> Go_To p
          | None \<Rightarrow> Show_Step s))"

text \<open>\<open>post\<close> on the session \<open>x\<close> of the wizard, with the operation \<open>done\<close> of the view on its own state; no session is
  left after it.\<close>

definition wizard_post ::
  "('s \<Rightarrow> 'd \<Rightarrow> ('s, 'd, 'm) wizard_session_scheme \<Rightarrow> 'd option) \<Rightarrow> 's list
   \<Rightarrow> (('s, 'd, 'm) wizard_session_scheme \<Rightarrow> 'st \<Rightarrow> error + 'st) \<Rightarrow> ('s, 'd, 'm) wizard_session_scheme \<Rightarrow> 's \<Rightarrow> 'd \<Rightarrow> 'st
   \<Rightarrow> error + ('s wizard_response \<times> ('s, 'd, 'm) wizard_session_scheme option \<times> 'st)" where
  "wizard_post clean steps finish x s d st =
     rbind (guard (s \<in> set steps) Http404) (\<lambda>_.
     case clean s d x of
       None \<Rightarrow> Inr (Show_Step s, Some x, st)
     | Some cd \<Rightarrow>
         let x1 = x\<lparr>wz_data := (wz_data x)(s \<mapsto> cd)\<rparr>
         in (case get_next_step steps s of
               Some n \<Rightarrow> Inr (Go_To n, Some x1, st)
             | None \<Rightarrow> (case find_step_with_invalid_data_until_step clean steps x1 s of
                 Some p \<Rightarrow> Inr (Go_To p, Some x1, st)
               | None \<Rightarrow> rbind (finish x1 st) (\<lambda>st1. Inr (Wizard_Done, None, st1)))))"

text \<open>The session after the request.\<close>

definition keep_session ::
  "'x session \<Rightarrow> string \<Rightarrow> 'x option \<Rightarrow> 'x session" where
  "keep_session session name w = (case w of
     None \<Rightarrow> namespace_delete session name | Some x \<Rightarrow> namespace_set session name x)"

section \<open>Lemmas\<close>

lemma find_step_None:
  "find_step_with_invalid_data_until_step clean ps x s = None \<Longrightarrow> s \<in> set ps \<Longrightarrow>
   \<exists>before after. ps = before @ s # after \<and> s \<notin> set before \<and>
     list_all (\<lambda>p. \<exists>d. wz_data x p = Some d \<and> clean p d x \<noteq> None) before"
proof (induction ps)
  case (Cons p ps)
  show ?case
  proof (cases "p = s")
    case True
    then show ?thesis by (intro exI [of _ "[]"] exI [of _ ps]) simp
  next
    case False
    then obtain d where d: "wz_data x p = Some d" "clean p d x \<noteq> None"
      "find_step_with_invalid_data_until_step clean ps x s = None"
      using Cons.prems(1) by (auto split: option.splits if_splits)
    then obtain before after where b: "ps = before @ s # after" "s \<notin> set before"
      "list_all (\<lambda>p. \<exists>d. wz_data x p = Some d \<and> clean p d x \<noteq> None) before"
      using Cons.IH Cons.prems(2) False by auto
    show ?thesis by (intro exI [of _ "p # before"] exI [of _ after]) (use b d False in auto)
  qed
qed simp

lemma find_step_SomeD:
  "find_step_with_invalid_data_until_step clean ps x s = Some p \<Longrightarrow>
   p \<in> set ps \<and> p \<noteq> s \<and> (case wz_data x p of None \<Rightarrow> True | Some d \<Rightarrow> clean p d x = None)"
  by (induction ps) (auto split: if_splits option.splits)

lemma step_index_first: "s \<notin> set before \<Longrightarrow> step_index (before @ s # after) s = length before"
  by (induction before) auto

lemma get_next_step_None: "s \<notin> set before \<Longrightarrow> get_next_step (before @ s # after) s = None \<longleftrightarrow> after = []"
  by (simp add: get_next_step_def step_index_first Let_def)

lemma get_next_step_after:
  "s \<notin> set before \<Longrightarrow> get_next_step (before @ s # n # after) s = Some n"
  by (simp add: get_next_step_def step_index_first Let_def nth_append)

lemma session_kind_key_neq [simp]: "session_kind_key name \<noteq> name" "name \<noteq> session_kind_key name"
  by (simp_all add: session_kind_key_def)

lemma load_created:
  "initialize_session session kind name x = Inr session' \<Longrightarrow> load_session session' kind name = Inr x"
  by (auto simp: initialize_session_def load_session_def namespace_open_def namespace_data_def
      namespace_create_def split: if_splits)

lemma load_kept:
  "load_session session kind name = Inr x \<Longrightarrow> wz_reset_url x' = wz_reset_url x \<Longrightarrow>
   load_session (keep_session session name (Some x')) kind name = Inr x'"
  by (auto simp: load_session_def keep_session_def namespace_open_def namespace_data_def namespace_set_def
      split: option.splits sum.splits session_value.splits if_splits)

lemma load_deleted: "load_session (keep_session session name None) kind name = Inl Http404"
  by (simp add: load_session_def keep_session_def namespace_open_def namespace_delete_def)

lemma load_other_kind:
  "load_session session kind name = Inr x \<Longrightarrow> kind' \<noteq> kind \<Longrightarrow> load_session session kind' name = Inl Http404"
  by (auto simp: load_session_def namespace_open_def split: option.splits sum.splits if_splits)

text \<open>The last step of a wizard only ends it when the data of every step are there and were found valid.\<close>

lemma wizard_done:
  assumes "wizard_post clean steps finish x s d st = Inr (Wizard_Done, w, st')"
  obtains cd where "w = None" "clean s d x = Some cd"
    "finish (x\<lparr>wz_data := (wz_data x)(s \<mapsto> cd)\<rparr>) st = Inr st'" "s = last steps"
    "list_all (\<lambda>p. \<exists>e. wz_data (x\<lparr>wz_data := (wz_data x)(s \<mapsto> cd)\<rparr>) p = Some e \<and>
       (p \<noteq> s \<longrightarrow> clean p e (x\<lparr>wz_data := (wz_data x)(s \<mapsto> cd)\<rparr>) \<noteq> None)) steps"
proof -
  obtain cd where c: "s \<in> set steps" "clean s d x = Some cd" "w = None"
    "get_next_step steps s = None" "finish (x\<lparr>wz_data := (wz_data x)(s \<mapsto> cd)\<rparr>) st = Inr st'"
    "find_step_with_invalid_data_until_step clean steps (x\<lparr>wz_data := (wz_data x)(s \<mapsto> cd)\<rparr>) s = None"
    using assms by (auto simp: wizard_post_def Let_def split: option.splits)
  obtain before after where b: "steps = before @ s # after" "s \<notin> set before"
    "list_all (\<lambda>p. \<exists>e. wz_data (x\<lparr>wz_data := (wz_data x)(s \<mapsto> cd)\<rparr>) p = Some e \<and>
       clean p e (x\<lparr>wz_data := (wz_data x)(s \<mapsto> cd)\<rparr>) \<noteq> None) before"
    using find_step_None [OF c(6,1)] by blast
  have a: "after = []" using c(4) get_next_step_None [OF b(2)] by (simp add: b(1))
  show thesis
    by (rule that [OF c(3,2,5)]) (use a b in \<open>auto simp: list_all_iff\<close>)
qed

text \<open>No other post touches the state of the view.\<close>

lemma wizard_not_done:
  "wizard_post clean steps finish x s d st = Inr (resp, w, st') \<Longrightarrow> resp \<noteq> Wizard_Done \<Longrightarrow> st' = st \<and> w \<noteq> None"
  by (auto simp: wizard_post_def Let_def split: option.splits)

end
