(* ===== verification/Application_Batch.thy ===== *)
theory Application_Batch
  imports Application_Requests Wizard
begin

text \<open>
  The requests of the employers on several applications, \<open>www/apply/views/batch_views.py\<close>, and the wizard of the
  refusals, which also serves the refusal of one application.
\<close>

section \<open>The applications selected\<close>

text \<open>\<open>_get_and_lock_received_applications\<close>: those of the current company; the others are only counted.\<close>

definition get_received_applications :: "request_infos \<Rightarrow> pk list \<Rightarrow> db \<Rightarrow> error + job_application list" where
  "get_received_applications r ids db =
     rbind (get_current_company_or_404 r) (\<lambda>c.
     Inr (sort_key (\<lambda>j. - ja_created_at j)
       (filter (\<lambda>j. ja_to_company j = co_pk c \<and> ja_pk j \<in> set ids) (db_job_applications db))))"

definition mismatch_nb :: "pk list \<Rightarrow> job_application list \<Rightarrow> nat" where
  "mismatch_nb ids js = length ids - length js"

definition batch_guard :: "request_infos \<Rightarrow> string option \<Rightarrow> error + unit" where
  "batch_guard r next_url =
     rbind (from_employer_only r) (\<lambda>_. guard (next_url \<noteq> None) Http404)"

section \<open>Archives\<close>

definition batch_archive ::
  "datetime \<Rightarrow> request_infos \<Rightarrow> string option \<Rightarrow> pk list \<Rightarrow> db \<Rightarrow> error + (pk list \<times> db)" where
  "batch_archive now r next_url ids db =
     rbind (batch_guard r next_url) (\<lambda>_.
     rbind (get_received_applications r ids db) (\<lambda>js.
     let archived_ids = map ja_pk (filter can_be_archived js)
     in Inr (archived_ids, db\<lparr>db_job_applications := map_rows (\<lambda>j. ja_pk j \<in> set archived_ids)
          (set_archived Archive now (rq_user r)) (db_job_applications db)\<rparr>)))"

definition batch_unarchive ::
  "datetime \<Rightarrow> request_infos \<Rightarrow> string option \<Rightarrow> pk list \<Rightarrow> db \<Rightarrow> error + (pk list \<times> db)" where
  "batch_unarchive now r next_url ids db =
     rbind (batch_guard r next_url) (\<lambda>_.
     rbind (get_received_applications r ids db) (\<lambda>js.
     let unarchived_ids = map ja_pk (filter (\<lambda>j. ja_archived_at j \<noteq> None) js)
     in Inr (unarchived_ids, db\<lparr>db_job_applications := map_rows (\<lambda>j. ja_pk j \<in> set unarchived_ids)
          (set_archived Unarchive now (rq_user r)) (db_job_applications db)\<rparr>)))"

section \<open>Transitions\<close>

text \<open>The loop of the views: the keys of the applications moved; an application that cannot be is skipped.\<close>

fun batch_loop ::
  "(job_application \<Rightarrow> db \<Rightarrow> error + (bool \<times> db)) \<Rightarrow> job_application list \<Rightarrow> db \<Rightarrow> error + (pk list \<times> db)" where
  "batch_loop move [] db = Inr ([], db)"
| "batch_loop move (j # js) db =
     rbind (move j db) (\<lambda>(ok, db1).
     rbind (batch_loop move js db1) (\<lambda>(ids, db2).
     Inr (if ok then ja_pk j # ids else ids, db2)))"

text \<open>One turn: an application already in the target state is left as it is.\<close>

definition answer_and_move ::
  "ja_engine \<Rightarrow> datetime \<Rightarrow> user \<Rightarrow> ja_transition \<Rightarrow> (job_application \<Rightarrow> job_application) \<Rightarrow> job_application \<Rightarrow> db
   \<Rightarrow> error + (bool \<times> db)" where
  "answer_and_move run now u t answer j db =
     (if ja_state j = ja_target t then Inr (False, db)
      else try_transition (ja_plain_transition run now t (Some (us_pk u)) None (answer j) db) db)"

definition batch_process ::
  "ja_engine \<Rightarrow> datetime \<Rightarrow> request_infos \<Rightarrow> string option \<Rightarrow> pk list \<Rightarrow> db \<Rightarrow> error + (pk list \<times> db)" where
  "batch_process run now r next_url ids db =
     rbind (batch_guard r next_url) (\<lambda>_.
     rbind (get_received_applications r ids db) (\<lambda>js.
     batch_loop (answer_and_move run now (rq_user r) T_PROCESS (\<lambda>j. j)) js db))"

definition batch_postpone ::
  "ja_engine \<Rightarrow> datetime \<Rightarrow> request_infos \<Rightarrow> string option \<Rightarrow> pk list \<Rightarrow> string \<Rightarrow> db \<Rightarrow> error + (pk list \<times> db)" where
  "batch_postpone run now r next_url ids answer db =
     rbind (batch_guard r next_url) (\<lambda>_.
     rbind (get_received_applications r ids db) (\<lambda>js.
     case required_text answer of
       None \<Rightarrow> Inr ([], db)
     | Some a \<Rightarrow> batch_loop (answer_and_move run now (rq_user r) T_POSTPONE (\<lambda>j. j\<lparr>ja_answer := a\<rparr>)) js db))"

definition batch_add_to_pool ::
  "ja_engine \<Rightarrow> datetime \<Rightarrow> request_infos \<Rightarrow> string option \<Rightarrow> pk list \<Rightarrow> string \<Rightarrow> db \<Rightarrow> error + (pk list \<times> db)" where
  "batch_add_to_pool run now r next_url ids answer db =
     rbind (batch_guard r next_url) (\<lambda>_.
     rbind (get_received_applications r ids db) (\<lambda>js.
     batch_loop (answer_and_move run now (rq_user r) T_ADD_TO_POOL (\<lambda>j. j\<lparr>ja_answer := py_strip answer\<rparr>)) js db))"

text \<open>\<open>transfer\<close>: the target is another organization of the user; \<open>ValidationError\<close> is caught too.\<close>

definition try_transfer :: "error + (job_application \<times> db) \<Rightarrow> db \<Rightarrow> error + (bool \<times> db)" where
  "try_transfer res db = (case res of
     Inr (_, db') \<Rightarrow> Inr (True, db')
   | Inl e \<Rightarrow> (case e of
       InvalidTransitionError \<Rightarrow> Inr (False, db)
     | ValidationError _ \<Rightarrow> Inr (False, db)
     | _ \<Rightarrow> Inl e))"

definition transfer_choices :: "request_infos \<Rightarrow> pk list" where
  "transfer_choices r = map (snd \<circ> organization_switch_key)
     (filter (\<lambda>org. Some org \<noteq> rq_current_organization r) (rq_organizations r))"

definition batch_transfer ::
  "ja_engine \<Rightarrow> datetime \<Rightarrow> request_infos \<Rightarrow> string option \<Rightarrow> pk list \<Rightarrow> pk \<Rightarrow> db \<Rightarrow> error + (pk list \<times> db)" where
  "batch_transfer run now r next_url ids target db =
     rbind (from_employer_only r) (\<lambda>_.
     rbind (guard (target \<in> set (transfer_choices r)) Http404) (\<lambda>_.
     rbind (guard (next_url \<noteq> None) Http404) (\<lambda>_.
     case get_row co_pk target (filter (\<lambda>c. co_pk c \<in> (snd \<circ> organization_switch_key) ` set (rq_organizations r))
            (company_objects (db_companies db))) of
       None \<Rightarrow> Inl Http404
     | Some c \<Rightarrow>
         rbind (get_received_applications r ids db) (\<lambda>js.
         batch_loop (\<lambda>j db. try_transfer (ja_transfer run now (rq_user r) (co_pk c) j db) db) js db))))"

section \<open>Refusals\<close>

datatype refuse_step = REASON | JOB_SEEKER_ANSWER | PRESCRIBER_ANSWER

text \<open>The data of a step, as submitted and as kept in the session.\<close>

datatype refuse_data = Reason_Data "refusal_reason option" bool | Answer_Data string

record refuse_session = "(refuse_step, refuse_data) wizard_session" +
  rs_application_ids :: "pk list"

text \<open>\<open>_start_refuse_wizard\<close>: the applications that can be refused; none means back to the list.\<close>

definition start_refuse_wizard ::
  "request_infos \<Rightarrow> string option \<Rightarrow> pk list \<Rightarrow> db \<Rightarrow> error + refuse_session option" where
  "start_refuse_wizard r next_url ids db =
     rbind (batch_guard r next_url) (\<lambda>_.
     rbind (get_received_applications r ids db) (\<lambda>js.
     let keep = map ja_pk (filter (\<lambda>j. ja_state j \<in> set (ja_sources T_REFUSE)) js)
     in Inr (if keep = [] then None
             else Some \<lparr>wz_reset_url = next_url, wz_data = Map.empty, rs_application_ids = keep\<rparr>)))"

text \<open>\<open>setup_wizard\<close>: the applications still there, and the session without the others.\<close>

definition refuse_setup :: "request_infos \<Rightarrow> db \<Rightarrow> refuse_session \<Rightarrow> error + (job_application list \<times> refuse_session)" where
  "refuse_setup r db x =
     rbind (check_request rq_from_employer r) (\<lambda>_.
     rbind (get_received_applications r (rs_application_ids x) db) (\<lambda>js.
     if js = [] then Inl Http404
     else if length js \<noteq> length (rs_application_ids x) then Inr (js, x\<lparr>rs_application_ids := map ja_pk js\<rparr>)
     else Inr (js, x)))"

definition refuse_steps :: "job_application list \<Rightarrow> refuse_step list" where
  "refuse_steps js =
     (if list_ex (\<lambda>j. ja_sender_kind j = SK_PRESCRIBER) js then [REASON, JOB_SEEKER_ANSWER, PRESCRIBER_ANSWER]
      else [REASON, JOB_SEEKER_ANSWER])"

text \<open>The forms of the three steps; the reasons offered depend on the kind of the company.\<close>

definition refuse_clean :: "company_kind \<Rightarrow> refuse_step \<Rightarrow> refuse_data \<Rightarrow> 'm \<Rightarrow> refuse_data option" where
  "refuse_clean kind s d x = (case (s, d) of
     (REASON, Reason_Data (Some reason) shared) \<Rightarrow>
       if reason \<in> set (refusal_displayed_choices kind) then Some d else None
   | (JOB_SEEKER_ANSWER, Answer_Data raw) \<Rightarrow> map_option Answer_Data (required_text raw)
   | (PRESCRIBER_ANSWER, Answer_Data raw) \<Rightarrow> map_option Answer_Data (required_text raw)
   | _ \<Rightarrow> None)"

fun answer_text :: "refuse_data option \<Rightarrow> string" where
  "answer_text (Some (Answer_Data a)) = a"
| "answer_text _ = []"

definition set_refusal :: "refuse_session \<Rightarrow> job_application \<Rightarrow> error + job_application" where
  "set_refusal x j = (case (wz_data x REASON, wz_data x JOB_SEEKER_ANSWER) of
     (Some (Reason_Data reason shared), Some (Answer_Data answer)) \<Rightarrow>
       Inr (j\<lparr>ja_refusal_reason := reason, ja_refusal_reason_shared_with_job_seeker := shared,
              ja_answer := answer, ja_answer_to_prescriber := answer_text (wz_data x PRESCRIBER_ANSWER)\<rparr>)
   | _ \<Rightarrow> Inl (KeyError ''reason''))"

definition refuse_done ::
  "ja_engine \<Rightarrow> datetime \<Rightarrow> request_infos \<Rightarrow> job_application list \<Rightarrow> refuse_session \<Rightarrow> db \<Rightarrow> error + (pk list \<times> db)" where
  "refuse_done run now r js x db =
     rbind (get_received_applications r (map ja_pk js) db) (\<lambda>ks.
     batch_loop (\<lambda>j db. rbind (set_refusal x j) (\<lambda>j1.
       try_transition (ja_refuse run now (us_pk (rq_user r)) j1 db) db)) ks db)"

text \<open>A post of a step, on the state of the view: the keys of the applications refused and the database.\<close>

definition refuse_post ::
  "ja_engine \<Rightarrow> datetime \<Rightarrow> request_infos \<Rightarrow> refuse_session \<Rightarrow> refuse_step \<Rightarrow> refuse_data \<Rightarrow> db
   \<Rightarrow> error + (refuse_step wizard_response \<times> refuse_session option \<times> pk list \<times> db)" where
  "refuse_post run now r x s d db =
     rbind (refuse_setup r db x) (\<lambda>(js, x1).
     rbind (company_of (hd js) db) (\<lambda>c.
     wizard_post (refuse_clean (co_kind c)) (refuse_steps js)
       (\<lambda>x2 (_, db). refuse_done run now r js x2 db) x1 s d ([], db)))"

end
