(* ===== verification/Application_Effects.thy ===== *)
theory Application_Effects
  imports Application_Batch
begin

text \<open>
  What the requests of the employers keep: the constraints of the applications, the comments with the company
  that wrote them, and an action for every application prior to hire; and what a batch does to each
  application.
\<close>

section \<open>Comments and actions follow their application\<close>

definition linked :: "job_application list \<Rightarrow> ja_comment list \<Rightarrow> prior_action list \<Rightarrow> bool" where
  "linked js ms as \<longleftrightarrow>
     list_all (\<lambda>m. list_ex (\<lambda>j. ja_pk j = jc_job_application m \<and> ja_to_company j = jc_company m) js) ms \<and>
     list_all (\<lambda>j. ja_state j = JA_PRIOR_TO_HIRE \<longrightarrow> list_ex (\<lambda>a. pa_job_application a = ja_pk j) as) js"

definition linked_db :: "db \<Rightarrow> bool" where
  "linked_db db \<longleftrightarrow> linked (db_job_applications db) (db_comments db) (db_prior_actions db)"

definition inbox_ok :: "db \<Rightarrow> bool" where
  "inbox_ok db \<longleftrightarrow> ja_table_ok (db_job_applications db) \<and> distinct (map pa_pk (db_prior_actions db)) \<and> linked_db db"

text \<open>What the links depend on.\<close>

definition inbox_key :: "job_application \<Rightarrow> pk \<times> pk \<times> job_application_state" where
  "inbox_key j = (ja_pk j, ja_to_company j, ja_state j)"

definition same_inbox :: "db \<Rightarrow> db \<Rightarrow> bool" where
  "same_inbox db db' \<longleftrightarrow>
     map inbox_key (db_job_applications db') = map inbox_key (db_job_applications db) \<and>
     db_comments db' = db_comments db \<and> db_prior_actions db' = db_prior_actions db"

lemma linked_keys:
  "linked js ms as \<longleftrightarrow>
     (\<forall>m \<in> set ms. \<exists>s. (jc_job_application m, jc_company m, s) \<in> set (map inbox_key js)) \<and>
     (\<forall>k c. (k, c, JA_PRIOR_TO_HIRE) \<in> set (map inbox_key js) \<longrightarrow> (\<exists>a \<in> set as. pa_job_application a = k))"
proof -
  have 1: "list_ex (\<lambda>j. ja_pk j = k \<and> ja_to_company j = c) js \<longleftrightarrow> (\<exists>s. (k, c, s) \<in> set (map inbox_key js))" for k c
    by (force simp: list_ex_iff inbox_key_def)
  have 2: "list_all (\<lambda>j. ja_state j = JA_PRIOR_TO_HIRE \<longrightarrow> list_ex (\<lambda>a. pa_job_application a = ja_pk j) as) js \<longleftrightarrow>
      (\<forall>k c. (k, c, JA_PRIOR_TO_HIRE) \<in> set (map inbox_key js) \<longrightarrow> (\<exists>a \<in> set as. pa_job_application a = k))"
    by (force simp: list_all_iff list_ex_iff inbox_key_def)
  show ?thesis unfolding linked_def 1 2 by (simp add: list_all_iff)
qed

lemma same_inbox_linked: "same_inbox db db' \<Longrightarrow> linked_db db' = linked_db db"
  by (simp add: same_inbox_def linked_db_def linked_keys)

lemma same_inbox_refl [simp]: "same_inbox db db"
  by (simp add: same_inbox_def)

lemma same_inbox_trans [trans]: "same_inbox a b \<Longrightarrow> same_inbox b c \<Longrightarrow> same_inbox a c"
  by (simp add: same_inbox_def)

lemma pass_tables_inbox: "pass_tables_only db db' \<Longrightarrow> same_inbox db db'"
  unfolding pass_tables_only_def same_inbox_def by auto

text \<open>One row is replaced.\<close>

lemma linked_replace:
  assumes "linked js ms as" "set ms' \<subseteq> set ms" "set as \<subseteq> set as'" "ja_pk j' = k"
    and "\<And>m. m \<in> set ms' \<Longrightarrow> jc_job_application m = k \<Longrightarrow> jc_company m = ja_to_company j' \<and> k \<in> ja_pk ` set js"
    and "ja_state j' = JA_PRIOR_TO_HIRE \<Longrightarrow> \<exists>a \<in> set as'. pa_job_application a = k"
  shows "linked (map_rows (\<lambda>j. ja_pk j = k) (\<lambda>_. j') js) ms' as'"
  unfolding linked_def list_all_iff list_ex_iff
proof (intro conjI ballI impI)
  fix m assume m: "m \<in> set ms'"
  obtain j where j: "j \<in> set js" "ja_pk j = jc_job_application m" "ja_to_company j = jc_company m"
    using assms(1) subsetD [OF assms(2) m] by (auto simp: linked_def list_all_iff list_ex_iff)
  show "\<exists>x \<in> set (map_rows (\<lambda>j. ja_pk j = k) (\<lambda>_. j') js).
      ja_pk x = jc_job_application m \<and> ja_to_company x = jc_company m"
  proof (cases "ja_pk j = k")
    case True
    then have "j' \<in> set (map_rows (\<lambda>j. ja_pk j = k) (\<lambda>_. j') js)"
      using map_rows_updated [OF j(1), of "\<lambda>j. ja_pk j = k" "\<lambda>_. j'"] by simp
    moreover have "ja_pk j' = jc_job_application m" "ja_to_company j' = jc_company m"
      using True j assms(4) assms(5) [OF m] by simp_all
    ultimately show ?thesis by blast
  next
    case False
    have "j \<in> set (map_rows (\<lambda>j. ja_pk j = k) (\<lambda>_. j') js)" using map_rows_kept [OF j(1), of "\<lambda>j. ja_pk j = k"] False by simp
    then show ?thesis using j(2,3) by blast
  qed
next
  fix x assume "x \<in> set (map_rows (\<lambda>j. ja_pk j = k) (\<lambda>_. j') js)" "ja_state x = JA_PRIOR_TO_HIRE"
  then consider "x = j'" "ja_state j' = JA_PRIOR_TO_HIRE" | "x \<in> set js" "ja_state x = JA_PRIOR_TO_HIRE"
    by (auto simp: set_map_rows)
  then show "\<exists>a \<in> set as'. pa_job_application a = ja_pk x"
  proof cases
    case 1
    then show ?thesis using assms(4,6) by simp
  next
    case 2
    then obtain a where "a \<in> set as" "pa_job_application a = ja_pk x"
      using assms(1) by (auto simp: linked_def list_all_iff list_ex_iff)
    then show ?thesis using assms(3) by blast
  qed
qed

section \<open>One transition\<close>

text \<open>An application as the view has it: its key and its company are those of a row.\<close>

definition row_of :: "db \<Rightarrow> job_application \<Rightarrow> bool" where
  "row_of db j \<longleftrightarrow> (ja_pk j, ja_to_company j) \<in> (\<lambda>x. (ja_pk x, ja_to_company x)) ` set (db_job_applications db)"

lemma row_of_member: "j \<in> set (db_job_applications db) \<Longrightarrow> row_of db j"
  by (auto simp: row_of_def)

lemma row_of_keys: "row_of db j \<longleftrightarrow> (\<exists>s. (ja_pk j, ja_to_company j, s) \<in> set (map inbox_key (db_job_applications db)))"
  by (force simp: row_of_def inbox_key_def)

lemma row_of_same: "same_inbox db db' \<Longrightarrow> row_of db' j = row_of db j"
  by (simp add: row_of_keys same_inbox_def)

lemma linked_company:
  assumes "inbox_ok db" "row_of db j" "m \<in> set (db_comments db)" "jc_job_application m = ja_pk j"
  shows "jc_company m = ja_to_company j"
proof -
  obtain x where x: "x \<in> set (db_job_applications db)" "ja_pk x = ja_pk j" "ja_to_company x = jc_company m"
    using assms(1,3,4) by (auto simp: inbox_ok_def linked_db_def linked_def list_all_iff list_ex_iff)
  obtain y where y: "y \<in> set (db_job_applications db)" "ja_pk y = ja_pk j" "ja_to_company y = ja_to_company j"
    using assms(2) by (auto simp: row_of_def)
  have "distinct (map ja_pk (db_job_applications db))" using assms(1) by (simp add: inbox_ok_def ja_table_ok_def)
  then have "x = y" using x(1,2) y(1,2) by (auto simp: distinct_map inj_on_def)
  then show ?thesis using x(3) y(3) by simp
qed

text \<open>A transition whose body leaves the inbox as it is.\<close>

definition quiet_body :: "(job_application \<Rightarrow> db \<Rightarrow> error + (job_application \<times> db)) \<Rightarrow> bool" where
  "quiet_body body \<longleftrightarrow> (\<forall>j db j1 db1. body j db = Inr (j1, db1) \<longrightarrow>
     ja_pk j1 = ja_pk j \<and> ja_to_company j1 = ja_to_company j \<and> same_inbox db db1)"

definition keeps_others :: "pk \<Rightarrow> db \<Rightarrow> db \<Rightarrow> bool" where
  "keeps_others k db db' \<longleftrightarrow> (\<forall>j. ja_pk j \<noteq> k \<longrightarrow> row_of db j \<longrightarrow> row_of db' j)"

lemma keeps_others_refl [simp]: "keeps_others k db db"
  by (simp add: keeps_others_def)

lemma keeps_others_replace:
  assumes "same_inbox db db1" "db_job_applications db' = map_rows (\<lambda>j. ja_pk j = k) (\<lambda>_. j') (db_job_applications db1)"
  shows "keeps_others k db db'"
  unfolding keeps_others_def
proof (intro allI impI)
  fix j assume "ja_pk j \<noteq> k" "row_of db j"
  then have "row_of db1 j" using row_of_same [OF assms(1)] by simp
  then show "row_of db' j" using \<open>ja_pk j \<noteq> k\<close>
    unfolding row_of_def assms(2) by (force simp: set_map_rows)
qed

lemma quiet_call:
  assumes "engine_law run" "run (ja_call now t user target body) j db = Inr (j', db')" "ja_body_ok body"
    "quiet_body body" "inbox_ok db" "row_of db j"
  shows "ja_table_ok (db_job_applications db')" "keeps_others (ja_pk j) db db'"
    "ja_pk j' = ja_pk j" "ja_to_company j' = ja_to_company j" "ja_state j' = ja_target t" "row_of db' j'"
    "db_comments db' = db_comments db" "db_prior_actions db' = db_prior_actions db"
    "ja_target t \<noteq> JA_PRIOR_TO_HIRE \<Longrightarrow> linked_db db'"
    "set as = set (db_prior_actions db) \<union> {a} \<Longrightarrow> pa_job_application a = ja_pk j \<Longrightarrow>
       linked (db_job_applications db') (db_comments db) as"
proof -
  obtain j1 db1 where J: "body (ja_before now t j) db = Inr (j1, db1)"
    "j' = j1\<lparr>ja_state := ja_target t, ja_updated_at := now\<rparr>"
    "db' = db1\<lparr>db_job_applications := map_rows (\<lambda>k. ja_pk k = ja_pk j1) (\<lambda>_. j') (db_job_applications db1),
       db_ja_logs := db_ja_logs db1 @ [\<lparr>jl_job_application = ja_pk j1, jl_transition = t,
         jl_from_state = ja_state j, jl_to_state = ja_target t, jl_user = user,
         jl_target_company = target, jl_timestamp = now\<rparr>]\<rparr>"
    using ja_call_InrD [OF assms(1,2)] by metis
  have q: "ja_pk j1 = ja_pk j" "ja_to_company j1 = ja_to_company j" "same_inbox db db1"
    using assms(4) J(1) unfolding quiet_body_def by fastforce+
  show "ja_pk j' = ja_pk j" "ja_to_company j' = ja_to_company j" "ja_state j' = ja_target t"
    using J(2) q(1,2) by simp_all
  note f = this
  show "db_comments db' = db_comments db" "db_prior_actions db' = db_prior_actions db"
    using q(3) by (simp_all add: J(3) same_inbox_def)
  have rows: "db_job_applications db' = map_rows (\<lambda>x. ja_pk x = ja_pk j) (\<lambda>_. j') (db_job_applications db1)"
    by (simp add: J(3) q(1))
  show "ja_table_ok (db_job_applications db')"
    using ja_call_spec(5) [OF assms(1-3)] assms(5) by (simp add: inbox_ok_def)
  show "keeps_others (ja_pk j) db db'" by (rule keeps_others_replace [OF q(3) rows])
  have l1: "linked_db db1" using same_inbox_linked [OF q(3)] assms(5) by (simp add: inbox_ok_def)
  have r1: "ja_pk j \<in> ja_pk ` set (db_job_applications db1)"
    using assms(6) row_of_same [OF q(3), of j] by (auto simp: row_of_def)
  then have "j' \<in> set (db_job_applications db')" unfolding rows by (auto intro: map_rows_updated [where f = "\<lambda>_. j'"])
  then show "row_of db' j'" by (rule row_of_member)
  have cm: "jc_company m = ja_to_company j' \<and> ja_pk j \<in> ja_pk ` set (db_job_applications db1)"
    if "m \<in> set (db_comments db)" "jc_job_application m = ja_pk j" for m
    using linked_company [OF assms(5,6) that] r1 f(2) by simp
  have c1: "db_comments db1 = db_comments db" "db_prior_actions db1 = db_prior_actions db"
    using q(3) by (simp_all add: same_inbox_def)
  show "linked_db db'" if "ja_target t \<noteq> JA_PRIOR_TO_HIRE"
    unfolding linked_db_def rows
    by (rule linked_replace [OF l1 [unfolded linked_db_def]])
      (use that f cm c1 in \<open>simp_all add: J(3)\<close>)
  show "linked (db_job_applications db') (db_comments db) as"
    if "set as = set (db_prior_actions db) \<union> {a}" "pa_job_application a = ja_pk j"
    unfolding rows
    by (rule linked_replace [OF l1 [unfolded linked_db_def]])
      (use that f cm c1 in \<open>auto\<close>)
qed

lemma quiet_plain [simp]: "quiet_body (\<lambda>j db. Inr (j, db))"
  by (simp add: quiet_body_def)

lemma cancel_approval_inbox:
  assumes "cancel_approval now j db = Inr db'"
  shows "same_inbox db db'"
  using assms
proof (cases rule: cancel_approval_cases)
  case (deleted a)
  have "map inbox_key (clear_approval_of_applications (ap_pk a) (db_job_applications db)) =
      map inbox_key (db_job_applications db)"
    unfolding clear_approval_of_applications_def by (rule map_rows_key) (simp add: inbox_key_def)
  then have "same_inbox db (db\<lparr>db_job_applications := clear_approval_of_applications (ap_pk a) (db_job_applications db)\<rparr>)"
    by (simp add: same_inbox_def)
  then show ?thesis using pass_tables_inbox [OF approval_delete_applications [OF deleted(4)]] same_inbox_trans by blast
qed simp

lemma delete_unsent_inbox: "same_inbox db (delete_unsent_records j db)"
proof -
  have "same_inbox db (foldl (\<lambda>db1 e. if \<not> er_was_sent (db_er_logs db1) e then er_delete (er_pk e) db1 else db1) db es)" for es
  proof (induction es arbitrary: db)
    case (Cons e es)
    have "same_inbox db (er_delete (er_pk e) db)" by (simp add: same_inbox_def er_delete_def)
    then show ?case using Cons.IH same_inbox_trans by fastforce
  qed simp
  then show ?thesis by (simp add: delete_unsent_records_def)
qed

lemma quiet_cancel: "quiet_body (cancel_body now)"
  unfolding quiet_body_def
proof (intro allI impI)
  fix j db j1 db1
  assume "cancel_body now j db = Inr (j1, db1)"
  then show "ja_pk j1 = ja_pk j \<and> ja_to_company j1 = ja_to_company j \<and> same_inbox db db1"
    by (rule cancel_body_InrD)
      (use cancel_approval_inbox delete_unsent_inbox same_inbox_trans in \<open>fastforce simp: reset_accepted_state_def\<close>)
qed

text \<open>What a turn of a view keeps, for the applications the view still has to see.\<close>

definition good_move :: "db \<Rightarrow> job_application \<Rightarrow> db \<Rightarrow> bool" where
  "good_move db j db' \<longleftrightarrow> inbox_ok db' \<and> keeps_others (ja_pk j) db db'"

lemma good_move_refl: "inbox_ok db \<Longrightarrow> good_move db j db"
  by (simp add: good_move_def)

lemma good_call:
  assumes "engine_law run" "run (ja_call now t user target body) j db = Inr (j', db')" "ja_body_ok body"
    "quiet_body body" "inbox_ok db" "row_of db j" "ja_target t \<noteq> JA_PRIOR_TO_HIRE"
  shows "good_move db j db'"
  using quiet_call [OF assms(1-6)] assms(5,7) by (simp add: good_move_def inbox_ok_def)

lemma good_plain:
  assumes "engine_law run" "ja_plain_transition run now t user target j db = Inr (j', db')"
    "inbox_ok db" "row_of db j" "ja_target t \<noteq> JA_PRIOR_TO_HIRE"
  shows "good_move db j db'"
  using good_call [OF assms(1) assms(2) [unfolded ja_plain_transition_def] plain_body_ok quiet_plain] assms(3-5) by blast

lemma good_cancel:
  assumes "engine_law run" "ja_cancel run now user j db = Inr (j', db')" "inbox_ok db" "row_of db j"
  shows "good_move db j db'"
  using good_call [OF assms(1) assms(2) [unfolded ja_cancel_def] cancel_body_ok quiet_cancel] assms(3,4) by simp

lemma good_transfer:
  assumes "engine_law run" "ja_transfer run now u target j db = Inr (j', db')" "inbox_ok db"
  shows "good_move db j db'"
proof -
  note call = assms(2) [unfolded ja_transfer_def]
  obtain j1 db1 where J: "transfer_body now u target (ja_before now T_TRANSFER j) db = Inr (j1, db1)"
    "j' = j1\<lparr>ja_state := ja_target T_TRANSFER, ja_updated_at := now\<rparr>"
    "db' = db1\<lparr>db_job_applications := map_rows (\<lambda>k. ja_pk k = ja_pk j1) (\<lambda>_. j') (db_job_applications db1),
       db_ja_logs := db_ja_logs db1 @ [\<lparr>jl_job_application = ja_pk j1, jl_transition = T_TRANSFER,
         jl_from_state = ja_state j, jl_to_state = ja_target T_TRANSFER, jl_user = Some (us_pk u),
         jl_target_company = Some target, jl_timestamp = now\<rparr>]\<rparr>"
    using ja_call_InrD [OF assms(1) call] by metis
  have b: "ja_pk j1 = ja_pk j" "db_job_applications db1 = db_job_applications db"
    "db_comments db1 = filter (\<lambda>c. jc_job_application c \<noteq> ja_pk j) (db_comments db)"
    "db_prior_actions db1 = db_prior_actions db"
    using J(1) by (auto simp: transfer_body_def reset_accepted_state_def)
  have rows: "db_job_applications db' = map_rows (\<lambda>x. ja_pk x = ja_pk j) (\<lambda>_. j') (db_job_applications db)"
    using b by (simp add: J(3))
  have "ja_table_ok (db_job_applications db')"
    using ja_call_spec(5) [OF assms(1) call transfer_body_ok] assms(3) by (simp add: inbox_ok_def)
  moreover have "linked_db db'"
    unfolding linked_db_def rows
    by (rule linked_replace [where ms = "db_comments db" and as = "db_prior_actions db"])
      (use assms(3) b J in \<open>auto simp: inbox_ok_def linked_db_def\<close>)
  moreover have "keeps_others (ja_pk j) db db'" by (rule keeps_others_replace [OF same_inbox_refl rows])
  moreover have "db_prior_actions db' = db_prior_actions db" using b by (simp add: J(3))
  ultimately show ?thesis using assms(3) by (simp add: good_move_def inbox_ok_def)
qed

lemma row_of_answer [simp]: "row_of db (j\<lparr>ja_answer := a\<rparr>) = row_of db j"
  by (simp add: row_of_def)

lemma good_move_answer [simp]: "good_move db (j\<lparr>ja_answer := a\<rparr>) db' = good_move db j db'"
  by (simp add: good_move_def)

section \<open>The requests\<close>

lemma received_row:
  assumes "get_received_application r k db = Inr j"
  shows "row_of db j" "j \<in> set (db_job_applications db)" "ja_pk j = k" "rq_from_employer r"
    "is_active_company_member db (rq_user r) j"
proof -
  have g: "rq_from_employer r"
    "get_row ja_pk k (filter (is_active_company_member db (rq_user r)) (db_job_applications db)) = Some j"
    using assms by (auto simp: get_received_application_def from_employer_only_def check_request_def split: option.splits)
  show "rq_from_employer r" "j \<in> set (db_job_applications db)" "ja_pk j = k" "is_active_company_member db (rq_user r) j"
    using g get_row_SomeD [OF g(2)] by auto
  then show "row_of db j" by (simp add: row_of_member)
qed

lemma try_transition_good:
  assumes "try_transition res db = Inr (ok, db')" "inbox_ok db"
    "\<And>j1 db1. res = Inr (j1, db1) \<Longrightarrow> good_move db j db1"
  shows "good_move db j db'"
  using assms good_move_refl [OF assms(2)]
  by (auto simp: try_transition_def split: sum.splits prod.splits if_splits)

lemma moved_or_done_good:
  assumes "moved_or_done (try_transition res db) = Inr (out, db')" "inbox_ok db"
    "\<And>j1 db1. res = Inr (j1, db1) \<Longrightarrow> good_move db j db1"
  shows "inbox_ok db'"
  using assms try_transition_good [OF _ assms(2), of res _ db' j]
  by (auto simp: moved_or_done_def good_move_def)

lemma process_application_ok:
  assumes "engine_law run" "process_application run now r k db = Inr (out, db')" "inbox_ok db"
  shows "inbox_ok db'"
proof -
  obtain j where j: "get_received_application r k db = Inr j"
    "moved_or_done (try_transition (ja_plain_transition run now T_PROCESS (Some (us_pk (rq_user r))) None j db) db) = Inr (out, db')"
    using assms(2) by (auto simp: process_application_def)
  show ?thesis
    by (rule moved_or_done_good [OF j(2) assms(3)]) (erule good_plain [OF assms(1) _ assms(3) received_row(1) [OF j(1)]], simp)
qed

lemma postpone_request_ok:
  assumes "engine_law run" "postpone_request run now r k answer db = Inr (out, db')" "inbox_ok db"
  shows "inbox_ok db'"
proof -
  obtain j where j: "get_received_application r k db = Inr j"
    "(case required_text answer of None \<Rightarrow> Inr (Form_Shown, db)
      | Some a \<Rightarrow> moved_or_done (try_transition (ja_postpone run now (us_pk (rq_user r)) (j\<lparr>ja_answer := a\<rparr>) db) db)) = Inr (out, db')"
    using assms(2) by (auto simp: postpone_request_def)
  show ?thesis
  proof (cases "required_text answer")
    case None
    then show ?thesis using j(2) assms(3) by simp
  next
    case (Some a)
    then show ?thesis using j(2)
      by (auto intro!: moved_or_done_good [OF _ assms(3), where j = "j\<lparr>ja_answer := a\<rparr>"]
          good_plain [OF assms(1) _ assms(3), where t = T_POSTPONE] simp del: good_move_answer
          simp: ja_postpone_def received_row(1) [OF j(1)])
  qed
qed

lemma add_to_pool_request_ok:
  assumes "engine_law run" "add_to_pool_request run now r k answer db = Inr (out, db')" "inbox_ok db"
  shows "inbox_ok db'"
proof -
  obtain j where j: "get_received_application r k db = Inr j"
    "moved_or_done (try_transition (ja_add_to_pool run now (us_pk (rq_user r)) (j\<lparr>ja_answer := py_strip answer\<rparr>) db) db) = Inr (out, db')"
    using assms(2) by (auto simp: add_to_pool_request_def)
  show ?thesis
    by (rule moved_or_done_good [OF j(2) assms(3), where j = "j\<lparr>ja_answer := py_strip answer\<rparr>"])
      (use good_plain [OF assms(1) _ assms(3), where t = T_ADD_TO_POOL] received_row(1) [OF j(1)] in
        \<open>simp add: ja_add_to_pool_def del: good_move_answer\<close>)
qed

lemma cancel_request_ok:
  assumes "engine_law run" "cancel_request run now r k db = Inr (out, db')" "inbox_ok db"
  shows "inbox_ok db'"
proof -
  obtain j where j: "get_received_application r k db = Inr j"
    "(if \<not> can_be_cancelled db j then Inr (Nothing_Done, db)
      else moved_or_done (try_transition (ja_cancel run now (us_pk (rq_user r)) j db) db)) = Inr (out, db')"
    using assms(2) by (auto simp: cancel_request_def)
  show ?thesis
  proof (cases "can_be_cancelled db j")
    case True
    then have m: "moved_or_done (try_transition (ja_cancel run now (us_pk (rq_user r)) j db) db) = Inr (out, db')"
      using j(2) by simp
    show ?thesis by (rule moved_or_done_good [OF m assms(3)]) (rule good_cancel [OF assms(1) _ assms(3) received_row(1) [OF j(1)]])
  qed (use j(2) assms(3) in simp)
qed

lemma transfer_request_ok:
  assumes "engine_law run" "transfer_request run now r k target db = Inr (out, db')" "inbox_ok db"
  shows "inbox_ok db'"
proof -
  obtain j where j: "get_received_application r k db = Inr j" using assms(2) by (auto simp: transfer_request_def)
  show ?thesis
  proof (cases "get_row co_pk target (company_objects (db_companies db))")
    case None
    then show ?thesis using assms(2) j by (simp add: transfer_request_def)
  next
    case (Some c)
    show ?thesis
    proof (cases "ja_transfer run now (rq_user r) (co_pk c) j db")
      case (Inl e)
      then show ?thesis using assms(2,3) j Some by (simp add: transfer_request_def)
    next
      case (Inr x)
      then have "ja_transfer run now (rq_user r) (co_pk c) j db = Inr (fst x, db')"
        using assms(2) j Some by (cases x) (simp add: transfer_request_def)
      then show ?thesis using good_transfer [OF assms(1) _ assms(3)] by (auto simp: good_move_def)
    qed
  qed
qed

text \<open>Requests that leave the keys, companies and states as they are.\<close>

lemma inbox_same_rows:
  assumes "inbox_ok db" "same_inbox db db'" "list_all ja_constraints (db_job_applications db')"
  shows "inbox_ok db'"
proof -
  have "map ja_pk (db_job_applications db') = map ja_pk (db_job_applications db)"
    using arg_cong [of _ _ "map fst", OF conjunct1 [OF assms(2) [unfolded same_inbox_def]]]
    by (simp add: comp_def inbox_key_def)
  then show ?thesis using assms same_inbox_linked [OF assms(2)] by (simp add: inbox_ok_def ja_table_ok_def same_inbox_def)
qed

lemma inbox_update:
  assumes "inbox_ok db" "\<And>j. j \<in> set (db_job_applications db) \<Longrightarrow> p j \<Longrightarrow> ja_constraints j \<Longrightarrow> ja_constraints (f j)"
    "\<And>j. inbox_key (f j) = inbox_key j"
  shows "inbox_ok (db\<lparr>db_job_applications := map_rows p f (db_job_applications db)\<rparr>)"
proof (rule inbox_same_rows [OF assms(1)])
  show "same_inbox db (db\<lparr>db_job_applications := map_rows p f (db_job_applications db)\<rparr>)"
    by (simp add: same_inbox_def map_rows_key assms(3))
  show "list_all ja_constraints (db_job_applications (db\<lparr>db_job_applications := map_rows p f (db_job_applications db)\<rparr>))"
    using assms(1,2) by (auto simp: inbox_ok_def ja_table_ok_def list_all_iff set_map_rows)
qed

lemma set_archived_fields [simp]:
  "ja_state (set_archived act now u j) = ja_state j" "ja_accepted (set_archived act now u j) = ja_accepted j"
  "ja_geiq (set_archived act now u j) = ja_geiq j" "ja_processed_at (set_archived act now u j) = ja_processed_at j"
  "ja_sender (set_archived act now u j) = ja_sender j" "ja_sender_kind (set_archived act now u j) = ja_sender_kind j"
  "ja_sender_company (set_archived act now u j) = ja_sender_company j"
  "ja_sender_prescriber_organization (set_archived act now u j) = ja_sender_prescriber_organization j"
  "ja_job_seeker (set_archived act now u j) = ja_job_seeker j"
  by (cases act; simp add: set_archived_def)+

lemma archived_constraints:
  assumes "ja_constraints j" "act = Archive \<Longrightarrow> ja_state j \<in> set archivable_job_application_states_manual"
  shows "ja_constraints (set_archived act now u j)"
proof -
  have "ja_sender_coherence (set_archived act now u j) = ja_sender_coherence j"
    unfolding ja_sender_coherence_def by (simp cong: option.case_cong)
  moreover have "ja_state_coherence (set_archived act now u j)"
    using assms by (cases act) (auto simp: ja_constraints_def ja_state_coherence_def set_archived_def
        archivable_job_application_states_manual_def)
  ultimately show ?thesis using assms(1) by (simp add: ja_constraints_def)
qed

lemma invited_constraints [simp]:
  "ja_constraints (j\<lparr>ja_diagoriente_invite_sent_at := d, ja_updated_at := n\<rparr>) = ja_constraints j"
  unfolding ja_constraints_def ja_sender_coherence_def ja_state_coherence_def by (simp cong: option.case_cong)

lemma set_archived_key [simp]: "inbox_key (set_archived act now u j) = inbox_key j"
  by (cases act) (simp_all add: set_archived_def inbox_key_def)

lemma diagoriente_ok:
  assumes "send_diagoriente_invite now r k db = Inr (out, db')" "inbox_ok db"
  shows "inbox_ok db'"
proof -
  have "inbox_ok (db\<lparr>db_job_applications := map_rows p (\<lambda>x. x\<lparr>ja_diagoriente_invite_sent_at := Some now, ja_updated_at := now\<rparr>)
      (db_job_applications db)\<rparr>)" for p
    by (rule inbox_update [OF assms(2)]) (simp_all add: inbox_key_def)
  then show ?thesis using assms by (auto simp: send_diagoriente_invite_def split: if_splits)
qed

lemma batch_selected:
  "get_received_applications r ids db = Inr js \<Longrightarrow> j \<in> set js \<Longrightarrow>
   j \<in> set (db_job_applications db) \<and> ja_pk j \<in> set ids \<and>
   (\<exists>c. get_current_company_or_404 r = Inr c \<and> ja_to_company j = co_pk c)"
  by (auto simp: get_received_applications_def)

lemma batch_set_archived_ok:
  assumes "inbox_ok db" "\<And>j. j \<in> set js \<Longrightarrow> j \<in> set (db_job_applications db)"
    "\<And>j. j \<in> set js \<Longrightarrow> act = Archive \<Longrightarrow> ja_state j \<in> set archivable_job_application_states_manual"
  shows "inbox_ok (db\<lparr>db_job_applications := map_rows (\<lambda>j. ja_pk j \<in> set (map ja_pk js)) (set_archived act now u)
     (db_job_applications db)\<rparr>)"
proof (rule inbox_update [OF assms(1)])
  fix x assume x: "x \<in> set (db_job_applications db)" "ja_pk x \<in> set (map ja_pk js)" "ja_constraints x"
  then obtain j where j: "j \<in> set js" "ja_pk j = ja_pk x" by auto
  have "distinct (map ja_pk (db_job_applications db))" using assms(1) by (simp add: inbox_ok_def ja_table_ok_def)
  then have "x = j" using x(1) assms(2) [OF j(1)] j(2) by (auto simp: distinct_map inj_on_def)
  then show "ja_constraints (set_archived act now u x)"
    using archived_constraints [OF x(3)] assms(3) [OF j(1)] by simp
qed simp

lemma archive_view_ok:
  assumes "archive_view act now r k db = Inr db'" "inbox_ok db"
  shows "inbox_ok db'"
proof -
  have "db' = db\<lparr>db_job_applications := map_rows (archive_matches act r k db) (set_archived act now (rq_user r))
      (db_job_applications db)\<rparr>"
    using assms(1) by (auto simp: archive_view_def split: if_splits)
  then show ?thesis
    by (auto intro!: inbox_update [OF assms(2)] archived_constraints simp: archive_matches_def)
qed

lemma batch_archive_ok:
  assumes "batch_archive now r next_url ids db = Inr (out, db')" "inbox_ok db"
  shows "inbox_ok db'"
proof -
  obtain js where js: "get_received_applications r ids db = Inr js"
    "db' = db\<lparr>db_job_applications := map_rows (\<lambda>j. ja_pk j \<in> set (map ja_pk (filter can_be_archived js)))
      (set_archived Archive now (rq_user r)) (db_job_applications db)\<rparr>"
    using assms(1) by (auto simp: batch_archive_def Let_def)
  show ?thesis unfolding js(2)
    by (rule batch_set_archived_ok [OF assms(2)]) (use batch_selected [OF js(1)] in \<open>auto simp: can_be_archived_def\<close>)
qed

lemma batch_unarchive_ok:
  assumes "batch_unarchive now r next_url ids db = Inr (out, db')" "inbox_ok db"
  shows "inbox_ok db'"
proof -
  obtain js where js: "get_received_applications r ids db = Inr js"
    "db' = db\<lparr>db_job_applications := map_rows (\<lambda>j. ja_pk j \<in> set (map ja_pk (filter (\<lambda>j. ja_archived_at j \<noteq> None) js)))
      (set_archived Unarchive now (rq_user r)) (db_job_applications db)\<rparr>"
    using assms(1) by (auto simp: batch_unarchive_def Let_def)
  show ?thesis unfolding js(2)
    by (rule batch_set_archived_ok [OF assms(2)]) (use batch_selected [OF js(1)] in auto)
qed

lemma edit_date_ok:
  assumes "edit_contract_start_date today now r k start end db = Inr (out, db')" "inbox_ok db"
  shows "inbox_ok db'"
proof -
  obtain j where j1: "get_received_application r k db = Inr j"
    using assms(1) by (auto simp: edit_contract_start_date_def)
  have "db' = db \<or> (\<exists>s j1 db1. ja_save now (j\<lparr>ja_hiring_start_at := Some s, ja_hiring_end_at := end\<rparr>) db = Inr (j1, db1) \<and>
       (db' = db1 \<or> (\<exists>a b a'. update_start_date today now a s db1 = Inr (b, a', db'))))"
  proof (cases "edit_hiring_date_clean today db j start end")
    case (Inl e)
    then show ?thesis using assms(1) j1 by (simp add: edit_contract_start_date_def)
  next
    case (Inr s)
    then obtain x where x: "ja_save now (j\<lparr>ja_hiring_start_at := Some s, ja_hiring_end_at := end\<rparr>) db = Inr x"
      using assms(1) j1 by (auto simp: edit_contract_start_date_def)
    show ?thesis using assms(1) j1 Inr x
      by (cases x, cases "Option.bind (af_approval (ja_accepted (fst x))) (\<lambda>a. get_row ap_pk a (db_approvals (snd x)))")
        (auto simp: edit_contract_start_date_def)
  qed
  note j = j1 this
  note row = received_row [OF j(1)]
  have dis: "distinct (map ja_pk (db_job_applications db))" using assms(2) by (simp add: inbox_ok_def ja_table_ok_def)
  have saved: "inbox_ok db1" if s: "ja_save now (j\<lparr>ja_hiring_start_at := Some s, ja_hiring_end_at := end\<rparr>) db = Inr (j1, db1)" for s j1 db1
  proof -
    note S = ja_save_InrD [OF s]
    have eq: "db_job_applications db1 = map_rows (\<lambda>x. ja_pk x = ja_pk j) (\<lambda>_. j1) (db_job_applications db)"
      by (simp add: S(3))
    have keys: "map inbox_key (db_job_applications db1) = map inbox_key (db_job_applications db)"
      unfolding eq map_rows_def map_map comp_def
    proof (rule map_cong [OF refl])
      fix x assume "x \<in> set (db_job_applications db)"
      then have "ja_pk x = ja_pk j \<Longrightarrow> x = j" using row(2) dis by (auto simp: distinct_map inj_on_def)
      then show "inbox_key (if ja_pk x = ja_pk j then j1 else x) = inbox_key x" by (auto simp: S(1) inbox_key_def)
    qed
    show ?thesis
      by (rule inbox_same_rows [OF assms(2)])
        (use keys S(2) assms(2) in \<open>auto simp: S(3) same_inbox_def inbox_ok_def ja_table_ok_def list_all_iff set_map_rows\<close>)
  qed
  have moved: "inbox_ok db'" if "update_start_date today now a s db1 = Inr (b, a', db')" "inbox_ok db1" for a s db1 b a'
  proof -
    have p: "pass_tables_only db1 db'" by (rule pass_tables_start_date [OF that(1)])
    then show ?thesis
      by (intro inbox_same_rows [OF that(2) pass_tables_inbox]) (use that(2) pass_tables_frame(1) [OF p] in \<open>simp_all add: inbox_ok_def ja_table_ok_def\<close>)
  qed
  show ?thesis using j(2) saved moved assms(2) by blast
qed

text \<open>Prior actions.\<close>

lemma prior_actions_of_Nil: "prior_actions_of db j = [] \<longleftrightarrow> (\<forall>a \<in> set (db_prior_actions db). pa_job_application a \<noteq> ja_pk j)"
  by (auto simp: prior_actions_of_def filter_empty_conv)

lemma delete_prior_action_ok:
  assumes "engine_law run" "delete_prior_action run now r k action db = Inr (out, db')" "inbox_ok db"
  shows "inbox_ok db'"
proof -
  obtain j c a where j: "get_received_application r k db = Inr j" and a: "get_row pa_pk action (prior_actions_of db j) = Some a"
    and res: "(if ja_state j = JA_PRIOR_TO_HIRE \<and>
         prior_actions_of (db\<lparr>db_prior_actions := filter (\<lambda>x. pa_pk x \<noteq> pa_pk a) (db_prior_actions db)\<rparr>) j = []
       then rbind (ja_plain_transition run now T_CANCEL_PRIOR_TO_HIRE (Some (us_pk (rq_user r))) None j
              (db\<lparr>db_prior_actions := filter (\<lambda>x. pa_pk x \<noteq> pa_pk a) (db_prior_actions db)\<rparr>)) (\<lambda>(_, db2). Inr (True, db2))
       else Inr (False, db\<lparr>db_prior_actions := filter (\<lambda>x. pa_pk x \<noteq> pa_pk a) (db_prior_actions db)\<rparr>)) = Inr (out, db')"
    using assms(2) by (auto simp: delete_prior_action_def Let_def split: option.splits)
  let ?as = "filter (\<lambda>x. pa_pk x \<noteq> pa_pk a) (db_prior_actions db)"
  let ?db = "db\<lparr>db_prior_actions := ?as\<rparr>"
  note row = received_row [OF j]
  have am: "a \<in> set (db_prior_actions db)" "pa_job_application a = ja_pk j"
    using get_row_SomeD [OF a] by (auto simp: prior_actions_of_def)
  have only: "x = a" if "x \<in> set (db_prior_actions db)" "pa_pk x = pa_pk a" for x
    using that am(1) assms(3) by (auto simp: inbox_ok_def distinct_map inj_on_def)
  have others: "\<exists>x \<in> set ?as. pa_job_application x = ja_pk i"
    if o: "i \<in> set (db_job_applications db)" "ja_state i = JA_PRIOR_TO_HIRE" "ja_pk i \<noteq> ja_pk j" for i
  proof -
    obtain x where x: "x \<in> set (db_prior_actions db)" "pa_job_application x = ja_pk i"
      using assms(3) o(1,2) by (auto simp: inbox_ok_def linked_db_def linked_def list_all_iff list_ex_iff)
    then have "pa_pk x \<noteq> pa_pk a" using only [OF x(1)] am(2) o(3) by auto
    then show ?thesis using x by auto
  qed
  have dis: "distinct (map ja_pk (db_job_applications db))" using assms(3) by (simp add: inbox_ok_def ja_table_ok_def)
  have same: "i = j" if "i \<in> set (db_job_applications db)" "ja_pk i = ja_pk j" for i
    using that row(2) dis by (auto simp: distinct_map inj_on_def)
  show ?thesis
  proof (cases "ja_state j = JA_PRIOR_TO_HIRE \<and> prior_actions_of ?db j = []")
    case True
    then obtain j' where t: "ja_plain_transition run now T_CANCEL_PRIOR_TO_HIRE (Some (us_pk (rq_user r))) None j ?db = Inr (j', db')"
      using res by auto
    note call = t [unfolded ja_plain_transition_def]
    obtain j1 db1 where J: "Inr (ja_before now T_CANCEL_PRIOR_TO_HIRE j, ?db) = (Inr (j1, db1) :: error + job_application \<times> db)"
      "j' = j1\<lparr>ja_state := ja_target T_CANCEL_PRIOR_TO_HIRE, ja_updated_at := now\<rparr>"
      "db' = db1\<lparr>db_job_applications := map_rows (\<lambda>k. ja_pk k = ja_pk j1) (\<lambda>_. j') (db_job_applications db1),
       db_ja_logs := db_ja_logs db1 @ [\<lparr>jl_job_application = ja_pk j1, jl_transition = T_CANCEL_PRIOR_TO_HIRE,
         jl_from_state = ja_state j, jl_to_state = ja_target T_CANCEL_PRIOR_TO_HIRE, jl_user = Some (us_pk (rq_user r)),
         jl_target_company = None, jl_timestamp = now\<rparr>]\<rparr>"
      using ja_call_InrD [OF assms(1) call] by metis
    then have rows: "db_job_applications db' = map_rows (\<lambda>x. ja_pk x = ja_pk j) (\<lambda>_. j') (db_job_applications db)"
      "db_comments db' = db_comments db" "db_prior_actions db' = ?as"
      and j': "ja_pk j' = ja_pk j" "ja_to_company j' = ja_to_company j" "ja_state j' = JA_PROCESSING"
      by auto
    have "ja_table_ok (db_job_applications db')"
      using ja_call_spec(5) [OF assms(1) call plain_body_ok] assms(3) by (simp add: inbox_ok_def)
    moreover have "linked_db db'"
      unfolding linked_db_def linked_def list_all_iff list_ex_iff
    proof (intro conjI ballI impI)
      fix m assume "m \<in> set (db_comments db')"
      then have m: "m \<in> set (db_comments db)" by (simp add: rows)
      obtain i where i: "i \<in> set (db_job_applications db)" "ja_pk i = jc_job_application m" "ja_to_company i = jc_company m"
        using assms(3) m by (auto simp: inbox_ok_def linked_db_def linked_def list_all_iff list_ex_iff)
      show "\<exists>i \<in> set (db_job_applications db'). ja_pk i = jc_job_application m \<and> ja_to_company i = jc_company m"
      proof (cases "ja_pk i = ja_pk j")
        case True
        then have "j' \<in> set (db_job_applications db')"
          using map_rows_updated [OF i(1), of "\<lambda>x. ja_pk x = ja_pk j" "\<lambda>_. j'"] by (simp add: rows)
        then show ?thesis using i same [OF i(1) True] j' by auto
      next
        case False
        then have "i \<in> set (db_job_applications db')"
          using map_rows_kept [OF i(1), of "\<lambda>x. ja_pk x = ja_pk j"] by (simp add: rows)
        then show ?thesis using i by auto
      qed
    next
      fix i assume "i \<in> set (db_job_applications db')" "ja_state i = JA_PRIOR_TO_HIRE"
      then show "\<exists>x \<in> set (db_prior_actions db'). pa_job_application x = ja_pk i"
        using others [of i] j'(3) by (auto simp: rows set_map_rows)
    qed
    ultimately show ?thesis using assms(3) by (simp add: inbox_ok_def rows distinct_map_filter)
  next
    case False
    then have db': "db' = ?db" using res by (auto split: if_splits)
    have "\<exists>x \<in> set ?as. pa_job_application x = ja_pk i"
      if i: "i \<in> set (db_job_applications db)" "ja_state i = JA_PRIOR_TO_HIRE" for i
    proof (cases "ja_pk i = ja_pk j")
      case True
      then have "prior_actions_of ?db j \<noteq> []" using False same [OF i(1)] i(2) by auto
      then show ?thesis using True by (auto simp: prior_actions_of_Nil)
    qed (use others [OF i] in blast)
    then show ?thesis using assms(3) by (simp add: db' inbox_ok_def linked_db_def linked_def list_all_iff list_ex_iff distinct_map_filter)
  qed
qed

lemma linked_actions:
  assumes "map pa_job_application as' = map pa_job_application as"
  shows "linked js ms as' = linked js ms as"
proof -
  have "list_ex (\<lambda>a. pa_job_application a = k) xs \<longleftrightarrow> k \<in> set (map pa_job_application xs)" for k and xs :: "prior_action list"
    by (auto simp: list_ex_iff)
  then show ?thesis unfolding linked_def by (simp add: assms del: set_map)
qed

lemma add_or_modify_prior_action_ok:
  assumes "engine_law run" "add_or_modify_prior_action run now r k action form db = Inr (out, db')" "inbox_ok db"
  shows "inbox_ok db'"
proof -
  obtain j where j: "get_received_application r k db = Inr j"
    using assms(2) by (auto simp: add_or_modify_prior_action_def)
  note row = received_row [OF j]
  have "db' = db \<or> (\<exists>prior v. save_prior_action run now (rq_user r) j prior v db = Inr db')"
    using assms(2) j by (auto simp: add_or_modify_prior_action_def split: option.splits if_splits)
  then consider (same) "db' = db"
    | (modified) p a s e where "save_prior_action run now (rq_user r) j (Some p) (a, s, e) db = Inr db'"
    | (added) a s e where "save_prior_action run now (rq_user r) j None (a, s, e) db = Inr db'"
    by (metis option.exhaust prod_cases3)
  then show ?thesis
  proof cases
    case same
    then show ?thesis using assms(3) by simp
  next
    case modified
    let ?as = "map_rows (\<lambda>x. pa_pk x = pa_pk p) (\<lambda>x. x\<lparr>pa_action := a, pa_lower := s, pa_upper := e\<rparr>) (db_prior_actions db)"
    have db': "db' = db\<lparr>db_prior_actions := ?as\<rparr>" using modified by (simp add: save_prior_action_def)
    have "map pa_job_application ?as = map pa_job_application (db_prior_actions db)"
      "map pa_pk ?as = map pa_pk (db_prior_actions db)"
      by (simp_all add: map_rows_key)
    then show ?thesis using assms(3) linked_actions [of ?as "db_prior_actions db"]
      by (simp add: db' inbox_ok_def linked_db_def)
  next
    case add: added
    obtain j1 db1 where added: "(if ja_state j = JA_PRIOR_TO_HIRE then Inr (j, db)
        else ja_plain_transition run now T_MOVE_TO_PRIOR_TO_HIRE (Some (us_pk (rq_user r))) None j db) = Inr (j1, db1)"
      "db' = db1\<lparr>db_prior_actions := db_prior_actions db1 @ [\<lparr>pa_pk = next_pk pa_pk (db_prior_actions db1),
        pa_job_application = ja_pk j1, pa_action = a, pa_lower = s, pa_upper = e\<rparr>]\<rparr>"
      using add by (auto simp: save_prior_action_def)
    show ?thesis
    proof (cases "ja_state j = JA_PRIOR_TO_HIRE")
      case True
      then show ?thesis using added assms(3)
        by (auto simp: inbox_ok_def linked_db_def linked_def list_all_iff list_ex_iff)
    next
      case False
      then have t: "run (ja_call now T_MOVE_TO_PRIOR_TO_HIRE (Some (us_pk (rq_user r))) None (\<lambda>j db. Inr (j, db))) j db = Inr (j1, db1)"
        using added(1) by (simp add: ja_plain_transition_def)
      note Q = quiet_call [OF assms(1) t plain_body_ok quiet_plain assms(3) row(1)]
      have "linked (db_job_applications db1) (db_comments db) (db_prior_actions db')"
        by (rule Q(10)) (use added(2) Q(3,8) in auto)
      then show ?thesis using Q(1,7,8) assms(3) by (simp add: added(2) inbox_ok_def linked_db_def)
    qed
  qed
qed

text \<open>Comments.\<close>

lemma add_comment_ok:
  assumes "add_comment_for_company now r k message db = Inr (out, db')" "inbox_ok db"
  shows "inbox_ok db'"
proof -
  obtain j where j: "get_received_application r k db = Inr j" using assms(1) by (auto simp: add_comment_for_company_def)
  have "inbox_ok (db\<lparr>db_comments := db_comments db @ [m]\<rparr>)"
    if "jc_job_application m = ja_pk j" "jc_company m = ja_to_company j" for m
  proof -
    have "list_ex (\<lambda>i. ja_pk i = jc_job_application m \<and> ja_to_company i = jc_company m) (db_job_applications db)"
      using received_row(2) [OF j] that by (auto simp: list_ex_iff)
    then show ?thesis using assms(2) by (simp add: inbox_ok_def linked_db_def linked_def)
  qed
  then show ?thesis using assms j by (auto simp: add_comment_for_company_def split: option.splits if_splits)
qed

lemma delete_comment_ok:
  "delete_comment_for_company r k m db = Inr (n, db') \<Longrightarrow> inbox_ok db \<Longrightarrow> inbox_ok db'"
  by (auto simp: delete_comment_for_company_def Let_def inbox_ok_def linked_db_def linked_def list_all_iff)

section \<open>Batches\<close>

lemma batch_loop_ok:
  assumes "batch_loop move js db = Inr (ids, db')" "inbox_ok db" "distinct (map ja_pk js)"
    "\<And>j. j \<in> set js \<Longrightarrow> row_of db j"
    "\<And>j db ok db'. j \<in> set js \<Longrightarrow> move j db = Inr (ok, db') \<Longrightarrow> inbox_ok db \<Longrightarrow> row_of db j \<Longrightarrow> good_move db j db'"
  shows "inbox_ok db'"
  using assms
proof (induction js arbitrary: db ids)
  case (Cons j js)
  obtain ok db1 ids1 where m: "move j db = Inr (ok, db1)" "batch_loop move js db1 = Inr (ids1, db')"
    using Cons.prems(1) by (auto split: if_splits)
  have g: "good_move db j db1" by (rule Cons.prems(5) [OF _ m(1) Cons.prems(2)]) (simp_all add: Cons.prems(4))
  show ?case
  proof (rule Cons.IH [OF m(2)])
    show "inbox_ok db1" using g by (simp add: good_move_def)
    show "distinct (map ja_pk js)" using Cons.prems(3) by simp
    show "row_of db1 i" if "i \<in> set js" for i
    proof -
      have "ja_pk i \<in> ja_pk ` set js" using that by (rule imageI)
      then have "ja_pk i \<noteq> ja_pk j" using Cons.prems(3) by auto
      then show ?thesis using g Cons.prems(4) [of i] that by (simp add: good_move_def keeps_others_def)
    qed
    show "good_move d i d'" if "i \<in> set js" "move i d = Inr (ok', d')" "inbox_ok d" "row_of d i" for i d ok' d'
      by (rule Cons.prems(5) [OF _ that(2-4)]) (simp add: that(1))
  qed
qed simp

lemma batch_distinct:
  assumes "get_received_applications r ids db = Inr js" "inbox_ok db"
  shows "distinct (map ja_pk js)" "\<And>j. j \<in> set js \<Longrightarrow> row_of db j"
proof -
  obtain c :: company where "js = sort_key (\<lambda>j. - ja_created_at j)
      (filter (\<lambda>j. ja_to_company j = co_pk c \<and> ja_pk j \<in> set ids) (db_job_applications db))"
    using assms(1) by (auto simp: get_received_applications_def)
  then show "distinct (map ja_pk js)" using assms(2)
    by (auto simp: inbox_ok_def ja_table_ok_def distinct_map intro: inj_on_subset)
  show "row_of db j" if "j \<in> set js" for j using batch_selected [OF assms(1) that] by (simp add: row_of_member)
qed

lemma batch_ok:
  assumes "get_received_applications r ids db = Inr js" "batch_loop move js db = Inr (out, db')" "inbox_ok db"
    "\<And>j db ok db'. move j db = Inr (ok, db') \<Longrightarrow> inbox_ok db \<Longrightarrow> row_of db j \<Longrightarrow> good_move db j db'"
  shows "inbox_ok db'"
  by (rule batch_loop_ok [OF assms(2,3) batch_distinct [OF assms(1,3)]]) (use assms(4) in blast)+

lemma good_answer:
  assumes "engine_law run" "answer_and_move run now u t answer j db = Inr (ok, db')" "inbox_ok db" "row_of db j"
    "ja_target t \<noteq> JA_PRIOR_TO_HIRE" "ja_pk (answer j) = ja_pk j" "ja_to_company (answer j) = ja_to_company j"
  shows "good_move db j db'"
proof -
  have same: "good_move db (answer j) d = good_move db j d" "row_of db (answer j) = row_of db j" for d
    by (simp_all add: good_move_def row_of_def assms(6,7))
  show ?thesis
  proof (cases "ja_state j = ja_target t")
    case True
    then show ?thesis using assms(2,3) good_move_refl by (auto simp: answer_and_move_def)
  next
    case False
    then have t: "try_transition (ja_plain_transition run now t (Some (us_pk u)) None (answer j) db) db = Inr (ok, db')"
      using assms(2) by (simp add: answer_and_move_def)
    show ?thesis
      by (rule try_transition_good [OF t assms(3)])
        (use good_plain [OF assms(1) _ assms(3) _ assms(5)] same assms(4) in blast)
  qed
qed

lemma batch_answer_ok:
  assumes "engine_law run" "get_received_applications r ids db = Inr js"
    "batch_loop (answer_and_move run now u t answer) js db = Inr (out, db')" "inbox_ok db"
    "ja_target t \<noteq> JA_PRIOR_TO_HIRE" "\<And>j. ja_pk (answer j) = ja_pk j" "\<And>j. ja_to_company (answer j) = ja_to_company j"
  shows "inbox_ok db'"
  by (rule batch_ok [OF assms(2-4)]) (rule good_answer [OF assms(1) _ _ _ assms(5-7)])

lemma batch_process_ok:
  assumes "engine_law run" "batch_process run now r next_url ids db = Inr (out, db')" "inbox_ok db"
  shows "inbox_ok db'"
proof -
  obtain js where "get_received_applications r ids db = Inr js"
    "batch_loop (answer_and_move run now (rq_user r) T_PROCESS (\<lambda>j. j)) js db = Inr (out, db')"
    using assms(2) by (auto simp: batch_process_def)
  then show ?thesis by (rule batch_answer_ok [OF assms(1) _ _ assms(3)]) simp_all
qed

lemma batch_postpone_ok:
  assumes "engine_law run" "batch_postpone run now r next_url ids answer db = Inr (out, db')" "inbox_ok db"
  shows "inbox_ok db'"
proof (cases "required_text answer")
  case None
  then show ?thesis using assms(2,3) by (auto simp: batch_postpone_def)
next
  case (Some a)
  then obtain js where "get_received_applications r ids db = Inr js"
    "batch_loop (answer_and_move run now (rq_user r) T_POSTPONE (\<lambda>j. j\<lparr>ja_answer := a\<rparr>)) js db = Inr (out, db')"
    using assms(2) by (auto simp: batch_postpone_def)
  then show ?thesis by (rule batch_answer_ok [OF assms(1) _ _ assms(3)]) simp_all
qed

lemma batch_add_to_pool_ok:
  assumes "engine_law run" "batch_add_to_pool run now r next_url ids answer db = Inr (out, db')" "inbox_ok db"
  shows "inbox_ok db'"
proof -
  obtain js where "get_received_applications r ids db = Inr js"
    "batch_loop (answer_and_move run now (rq_user r) T_ADD_TO_POOL (\<lambda>j. j\<lparr>ja_answer := py_strip answer\<rparr>)) js db = Inr (out, db')"
    using assms(2) by (auto simp: batch_add_to_pool_def)
  then show ?thesis by (rule batch_answer_ok [OF assms(1) _ _ assms(3)]) simp_all
qed

lemma batch_transfer_ok:
  assumes "engine_law run" "batch_transfer run now r next_url ids target db = Inr (out, db')" "inbox_ok db"
  shows "inbox_ok db'"
proof -
  obtain js c where b: "get_received_applications r ids db = Inr js"
    "batch_loop (\<lambda>j db. try_transfer (ja_transfer run now (rq_user r) c j db) db) js db = Inr (out, db')"
    using assms(2) by (auto simp: batch_transfer_def split: option.splits)
  show ?thesis
  proof (rule batch_ok [OF b assms(3)])
    fix j d ok d'
    assume m: "try_transfer (ja_transfer run now (rq_user r) c j d) d = Inr (ok, d')" and d: "inbox_ok d"
    show "good_move d j d'"
    proof (cases "ja_transfer run now (rq_user r) c j d")
      case (Inl e)
      then have "d' = d" using m by (auto simp: try_transfer_def split: error.splits)
      then show ?thesis using good_move_refl [OF d] by simp
    next
      case (Inr x)
      then have "ja_transfer run now (rq_user r) c j d = Inr (fst x, d')" using m by (cases x) (simp add: try_transfer_def)
      then show ?thesis by (rule good_transfer [OF assms(1) _ d])
    qed
  qed
qed

abbreviation refused_with :: "refusal_reason option \<Rightarrow> bool \<Rightarrow> string \<Rightarrow> string \<Rightarrow> job_application \<Rightarrow> job_application" where
  "refused_with reason shared answer to_prescriber j \<equiv> j\<lparr>ja_refusal_reason := reason,
     ja_refusal_reason_shared_with_job_seeker := shared, ja_answer := answer, ja_answer_to_prescriber := to_prescriber\<rparr>"

lemma refused_with_constraints [simp]: "ja_constraints (refused_with reason shared answer to_prescriber j) = ja_constraints j"
  unfolding ja_constraints_def ja_sender_coherence_def ja_state_coherence_def by (simp cong: option.case_cong)

lemma set_refusal_InrD:
  assumes "set_refusal x j = Inr j1"
  obtains reason shared answer where "wz_data x REASON = Some (Reason_Data reason shared)"
    "wz_data x JOB_SEEKER_ANSWER = Some (Answer_Data answer)"
    "j1 = refused_with reason shared answer (answer_text (wz_data x PRESCRIBER_ANSWER)) j"
  using assms by (simp add: set_refusal_def split: option.splits refuse_data.splits)

lemma set_refusal_fields:
  assumes "set_refusal x j = Inr j1"
  shows "ja_pk j1 = ja_pk j" "ja_to_company j1 = ja_to_company j" "ja_state j1 = ja_state j"
    "ja_constraints j1 = ja_constraints j"
  by (rule set_refusal_InrD [OF assms]; simp)+

lemma refuse_done_ok:
  assumes "engine_law run" "refuse_done run now r js x db = Inr (out, db')" "inbox_ok db"
  shows "inbox_ok db'"
proof -
  obtain ks where b: "get_received_applications r (map ja_pk js) db = Inr ks"
    "batch_loop (\<lambda>j db. rbind (set_refusal x j) (\<lambda>j1.
       try_transition (ja_refuse run now (us_pk (rq_user r)) j1 db) db)) ks db = Inr (out, db')"
    using assms(2) by (auto simp: refuse_done_def)
  show ?thesis
  proof (rule batch_ok [OF b assms(3)])
    fix j d ok d'
    assume m: "rbind (set_refusal x j) (\<lambda>j1. try_transition (ja_refuse run now (us_pk (rq_user r)) j1 d) d) = Inr (ok, d')"
      and d: "inbox_ok d" "row_of d j"
    obtain j1 where j1: "set_refusal x j = Inr j1" "try_transition (ja_refuse run now (us_pk (rq_user r)) j1 d) d = Inr (ok, d')"
      using m by auto
    have same: "good_move d j1 e = good_move d j e" "row_of d j1" for e
      using d(2) set_refusal_fields [OF j1(1)] by (simp_all add: good_move_def row_of_def)
    show "good_move d j d'"
      by (rule try_transition_good [OF j1(2) d(1)])
        (use good_plain [OF assms(1) _ d(1) same(2), where t = T_REFUSE] same(1) in \<open>simp add: ja_refuse_def\<close>)
  qed
qed

lemma refuse_post_ok:
  assumes "engine_law run" "refuse_post run now r x s d db = Inr (resp, w, out, db')" "inbox_ok db"
  shows "inbox_ok db'"
proof -
  obtain js x1 k where p: "wizard_post (refuse_clean k) (refuse_steps js)
       (\<lambda>x2 (_, db). refuse_done run now r js x2 db) x1 s d ([], db) = Inr (resp, w, (out, db'))"
    using assms(2) by (auto simp: refuse_post_def)
  show ?thesis
  proof (cases "resp = Wizard_Done")
    case True
    show ?thesis
      by (rule wizard_done [OF p [unfolded True]]) (use refuse_done_ok [OF assms(1) _ assms(3)] in auto)
  next
    case False
    then show ?thesis using wizard_not_done [OF p] assms(3) by simp
  qed
qed

section \<open>Any sequence of requests\<close>

inductive employer_step :: "db \<Rightarrow> db \<Rightarrow> bool" where
  processed: "engine_law run \<Longrightarrow> process_application run now r k db = Inr (out, db') \<Longrightarrow> employer_step db db'"
| postponed: "engine_law run \<Longrightarrow> postpone_request run now r k answer db = Inr (out, db') \<Longrightarrow> employer_step db db'"
| pooled: "engine_law run \<Longrightarrow> add_to_pool_request run now r k answer db = Inr (out, db') \<Longrightarrow> employer_step db db'"
| cancelled: "engine_law run \<Longrightarrow> cancel_request run now r k db = Inr (out, db') \<Longrightarrow> employer_step db db'"
| transferred: "engine_law run \<Longrightarrow> transfer_request run now r k target db = Inr (out, db') \<Longrightarrow> employer_step db db'"
| invited: "send_diagoriente_invite now r k db = Inr (sent, db') \<Longrightarrow> employer_step db db'"
| action_deleted: "engine_law run \<Longrightarrow> delete_prior_action run now r k action db = Inr (changed, db') \<Longrightarrow> employer_step db db'"
| action_saved: "engine_law run \<Longrightarrow> add_or_modify_prior_action run now r k act form db = Inr (out, db') \<Longrightarrow> employer_step db db'"
| commented: "add_comment_for_company now r k message db = Inr (out, db') \<Longrightarrow> employer_step db db'"
| uncommented: "delete_comment_for_company r k comment db = Inr (n, db') \<Longrightarrow> employer_step db db'"
| dates_edited: "edit_contract_start_date today now r k start end db = Inr (out, db') \<Longrightarrow> employer_step db db'"
| archived: "archive_view act now r k db = Inr db' \<Longrightarrow> employer_step db db'"
| batch_archived: "batch_archive now r next_url ids db = Inr (done_ids, db') \<Longrightarrow> employer_step db db'"
| batch_unarchived: "batch_unarchive now r next_url ids db = Inr (done_ids, db') \<Longrightarrow> employer_step db db'"
| batch_processed: "engine_law run \<Longrightarrow> batch_process run now r next_url ids db = Inr (done_ids, db') \<Longrightarrow> employer_step db db'"
| batch_postponed: "engine_law run \<Longrightarrow> batch_postpone run now r next_url ids answer db = Inr (done_ids, db') \<Longrightarrow> employer_step db db'"
| batch_pooled: "engine_law run \<Longrightarrow> batch_add_to_pool run now r next_url ids answer db = Inr (done_ids, db') \<Longrightarrow> employer_step db db'"
| batch_transferred: "engine_law run \<Longrightarrow> batch_transfer run now r next_url ids target db = Inr (done_ids, db') \<Longrightarrow> employer_step db db'"
| refusal_posted: "engine_law run \<Longrightarrow> refuse_post run now r x s d db = Inr (resp, w, done_ids, db') \<Longrightarrow> employer_step db db'"

lemmas request_ok = process_application_ok postpone_request_ok add_to_pool_request_ok cancel_request_ok
  transfer_request_ok delete_prior_action_ok add_or_modify_prior_action_ok batch_process_ok batch_postpone_ok
  batch_add_to_pool_ok batch_transfer_ok refuse_post_ok

lemmas quiet_request_ok = diagoriente_ok add_comment_ok delete_comment_ok edit_date_ok archive_view_ok
  batch_archive_ok batch_unarchive_ok

lemma employer_step_ok: "employer_step db db' \<Longrightarrow> inbox_ok db \<Longrightarrow> inbox_ok db'"
  by (induction rule: employer_step.induct) (erule (2) request_ok | erule (1) quiet_request_ok)+

inductive employer_steps :: "db \<Rightarrow> db \<Rightarrow> bool" where
  no_request: "employer_steps db db"
| next_request: "employer_steps db db1 \<Longrightarrow> employer_step db1 db2 \<Longrightarrow> employer_steps db db2"

lemma employer_steps_ok: "employer_steps db db' \<Longrightarrow> inbox_ok db \<Longrightarrow> inbox_ok db'"
  by (induction rule: employer_steps.induct) (auto dest: employer_step_ok)

end
