(* ===== verification/Application_Batch_Effects.thy ===== *)
theory Application_Batch_Effects
  imports Application_Effects
begin

text \<open>
  What a batch does: each application selected that may take the transition takes it, with one entry in its log;
  every other row stays as it is.
\<close>

definition movable :: "ja_transition \<Rightarrow> job_application list \<Rightarrow> job_application list" where
  "movable t js = filter (\<lambda>j. ja_state j \<in> set (ja_sources t)) js"

definition batch_result ::
  "datetime \<Rightarrow> user \<Rightarrow> ja_transition \<Rightarrow> (job_application \<Rightarrow> job_application) \<Rightarrow> job_application list \<Rightarrow> db \<Rightarrow> db" where
  "batch_result now u t f js db = db\<lparr>
     db_job_applications := map_rows (\<lambda>j. ja_pk j \<in> ja_pk ` set (movable t js)) (\<lambda>j. ja_moved now t (f j))
       (db_job_applications db),
     db_ja_logs := db_ja_logs db @ map (\<lambda>j. plain_log now t (Some (us_pk u)) None (f j)) (movable t js)\<rparr>"

definition harmless :: "(job_application \<Rightarrow> job_application) \<Rightarrow> bool" where
  "harmless f \<longleftrightarrow> (\<forall>j. ja_pk (f j) = ja_pk j \<and> ja_state (f j) = ja_state j \<and> ja_constraints (f j) = ja_constraints j)"

lemma batch_turn:
  assumes "engine_law run" "harmless f" "JA_ACCEPTED \<notin> set (ja_sources t)" "ja_constraints j"
  shows "try_transition (ja_plain_transition run now t (Some (us_pk u)) None (f j) db) db =
    Inr (if ja_state j \<in> set (ja_sources t)
      then (True, db\<lparr>db_job_applications := map_rows (\<lambda>k. ja_pk k = ja_pk j) (\<lambda>_. ja_moved now t (f j)) (db_job_applications db),
              db_ja_logs := db_ja_logs db @ [plain_log now t (Some (us_pk u)) None (f j)]\<rparr>)
      else (False, db))"
proof -
  have f: "ja_pk (f j) = ja_pk j" "ja_state (f j) = ja_state j" "ja_constraints (f j)"
    using assms(2,4) by (simp_all add: harmless_def)
  show ?thesis
  proof (cases "ja_state j \<in> set (ja_sources t)")
    case True
    then have "ja_state (f j) \<noteq> JA_ACCEPTED" using assms(3) f(2) by auto
    then show ?thesis using plain_transition_eq [OF assms(1) _ f(3)] True f(1,2) by (simp add: try_transition_def)
  next
    case False
    have "ja_plain_transition run now t (Some (us_pk u)) None (f j) db = Inl InvalidTransitionError"
      unfolding ja_plain_transition_def by (rule engine_invalid [OF assms(1)]) (use False f(2) in \<open>simp add: ja_call_def\<close>)
    then show ?thesis using False by (simp add: try_transition_def)
  qed
qed

lemma batch_loop_result:
  assumes "engine_law run" "harmless f" "JA_ACCEPTED \<notin> set (ja_sources t)"
    and "\<And>j d. j \<in> set js \<Longrightarrow> move j d = try_transition (ja_plain_transition run now t (Some (us_pk u)) None (f j) d) d"
    and "distinct (map ja_pk js)" "distinct (map ja_pk (db_job_applications db))"
    and "\<And>j. j \<in> set js \<Longrightarrow> j \<in> set (db_job_applications db) \<and> ja_constraints j"
  shows "batch_loop move js db = Inr (map ja_pk (movable t js), batch_result now u t f js db)"
  using assms(4-7)
proof (induction js arbitrary: db)
  case Nil
  then show ?case by (simp add: movable_def batch_result_def map_rows_def)
next
  case (Cons j js)
  let ?m = "\<lambda>x. ja_moved now t (f x)"
  have j: "j \<in> set (db_job_applications db)" "ja_constraints j" using Cons.prems(4) by simp_all
  have turn: "move j db = Inr (if ja_state j \<in> set (ja_sources t)
      then (True, db\<lparr>db_job_applications := map_rows (\<lambda>k. ja_pk k = ja_pk j) (\<lambda>_. ?m j) (db_job_applications db),
              db_ja_logs := db_ja_logs db @ [plain_log now t (Some (us_pk u)) None (f j)]\<rparr>)
      else (False, db))"
    using Cons.prems(1) [of j db] batch_turn [OF assms(1-3) j(2), of now u db] by simp
  show ?case
  proof (cases "ja_state j \<in> set (ja_sources t)")
    case False
    have "batch_loop move js db = Inr (map ja_pk (movable t js), batch_result now u t f js db)"
      by (rule Cons.IH) (use Cons.prems in auto)
    then show ?thesis using False turn by (simp add: movable_def batch_result_def)
  next
    case True
    let ?rows = "map_rows (\<lambda>k. ja_pk k = ja_pk j) (\<lambda>_. ?m j) (db_job_applications db)"
    let ?db = "db\<lparr>db_job_applications := ?rows, db_ja_logs := db_ja_logs db @ [plain_log now t (Some (us_pk u)) None (f j)]\<rparr>"
    have pk: "ja_pk (f x) = ja_pk x" for x using assms(2) by (simp add: harmless_def)
    have rows: "?rows = map_rows (\<lambda>k. ja_pk k = ja_pk j) ?m (db_job_applications db)"
      unfolding map_rows_def
    proof (rule map_cong [OF refl])
      fix x assume "x \<in> set (db_job_applications db)"
      then have "ja_pk x = ja_pk j \<Longrightarrow> x = j" using j(1) Cons.prems(3) by (auto simp: distinct_map inj_on_def)
      then show "(if ja_pk x = ja_pk j then ?m j else x) = (if ja_pk x = ja_pk j then ?m x else x)" by auto
    qed
    have keys: "map ja_pk ?rows = map ja_pk (db_job_applications db)" by (rule map_rows_key) (simp add: pk)
    have other: "ja_pk x \<noteq> ja_pk j" if "x \<in> set js" for x
    proof -
      have "ja_pk x \<in> ja_pk ` set js" using that by (rule imageI)
      then show ?thesis using Cons.prems(2) by auto
    qed
    have pre: "x \<in> set ?rows \<and> ja_constraints x" if "x \<in> set js" for x
      using map_rows_kept [of x "db_job_applications db" "\<lambda>k. ja_pk k = ja_pk j"] other [OF that] Cons.prems(4) [of x] that by simp
    have rest: "batch_loop move js ?db = Inr (map ja_pk (movable t js), batch_result now u t f js ?db)"
      by (rule Cons.IH) (use Cons.prems(1,2,3) pre keys in auto)
    have comp: "map_rows (\<lambda>r. ja_pk r \<in> ja_pk ` set (movable t js)) ?m ?rows =
        map_rows (\<lambda>r. ja_pk r \<in> ja_pk ` set (movable t (j # js))) ?m (db_job_applications db)"
      unfolding rows using other pk True by (fastforce simp: map_rows_def movable_def)
    show ?thesis using True turn rest comp by (simp add: movable_def batch_result_def)
  qed
qed

lemma answer_and_move_eq:
  assumes "engine_law run" "harmless f" "ja_target t \<notin> set (ja_sources t)"
  shows "answer_and_move run now u t f j db = try_transition (ja_plain_transition run now t (Some (us_pk u)) None (f j) db) db"
proof (cases "ja_state j = ja_target t")
  case True
  have "ja_plain_transition run now t (Some (us_pk u)) None (f j) db = Inl InvalidTransitionError"
    unfolding ja_plain_transition_def
    by (rule engine_invalid [OF assms(1)]) (use True assms(2,3) in \<open>simp add: ja_call_def harmless_def\<close>)
  then show ?thesis using True by (simp add: answer_and_move_def try_transition_def)
qed (simp add: answer_and_move_def)

lemma selected_rows:
  assumes "get_received_applications r ids db = Inr js" "inbox_ok db"
  shows "distinct (map ja_pk js)" "distinct (map ja_pk (db_job_applications db))"
    "\<And>j. j \<in> set js \<Longrightarrow> j \<in> set (db_job_applications db) \<and> ja_constraints j"
  using batch_distinct [OF assms] batch_selected [OF assms(1)] assms(2)
  by (auto simp: inbox_ok_def ja_table_ok_def list_all_iff)

lemma batch_answer_result:
  assumes "engine_law run" "get_received_applications r ids db = Inr js" "inbox_ok db" "harmless f"
    "ja_target t \<notin> set (ja_sources t)" "JA_ACCEPTED \<notin> set (ja_sources t)"
  shows "batch_loop (answer_and_move run now u t f) js db = Inr (map ja_pk (movable t js), batch_result now u t f js db)"
  by (rule batch_loop_result [OF assms(1,4,6)])
    (use answer_and_move_eq [OF assms(1,4,5)] selected_rows [OF assms(2,3)] in auto)

lemma answer_constraints [simp]: "ja_constraints (j\<lparr>ja_answer := a\<rparr>) = ja_constraints j"
  unfolding ja_constraints_def ja_sender_coherence_def ja_state_coherence_def by (simp cong: option.case_cong)

lemma harmless_answers [simp]: "harmless (\<lambda>j. j)" "harmless (\<lambda>j. j\<lparr>ja_answer := a\<rparr>)"
  "harmless (refused_with reason shared a b)"
  by (simp_all add: harmless_def)

section \<open>The wizard of the refusals\<close>

lemma received_again:
  assumes "get_received_applications r ids db = Inr js"
  shows "get_received_applications r (map ja_pk js) db = Inr js"
proof -
  obtain c :: company where c: "get_current_company_or_404 r = Inr c"
    "js = sort_key (\<lambda>j. - ja_created_at j) (filter (\<lambda>j. ja_to_company j = co_pk c \<and> ja_pk j \<in> set ids) (db_job_applications db))"
    using assms by (auto simp: get_received_applications_def)
  have "filter (\<lambda>j. ja_to_company j = co_pk c \<and> ja_pk j \<in> set (map ja_pk js)) (db_job_applications db) =
      filter (\<lambda>j. ja_to_company j = co_pk c \<and> ja_pk j \<in> set ids) (db_job_applications db)"
    by (rule filter_cong [OF refl]) (auto simp: c(2))
  then show ?thesis using c by (simp add: get_received_applications_def del: set_map)
qed

lemma refuse_setup_InrD:
  assumes "refuse_setup r db x = Inr (js, x1)"
  shows "get_received_applications r (rs_application_ids x) db = Inr js" "js \<noteq> []" "wz_data x1 = wz_data x"
  using assms by (auto simp: refuse_setup_def check_request_def split: if_splits)

lemma required_text_SomeD: "required_text a = Some b \<Longrightarrow> b \<noteq> [] \<and> a \<noteq> []"
  by (auto simp: required_text_def py_strip_def Let_def split: if_splits)

lemma reason_clean: "refuse_clean k REASON d x = Some e \<Longrightarrow>
   \<exists>reason shared. d = Reason_Data (Some reason) shared \<and> e = d \<and> reason \<in> set (refusal_displayed_choices k)"
  by (auto simp: refuse_clean_def split: refuse_data.splits option.splits if_splits)

lemma answer_clean: "refuse_clean k s d x = Some e \<Longrightarrow> s \<noteq> REASON \<Longrightarrow>
   \<exists>a b. d = Answer_Data a \<and> e = Answer_Data b \<and> a \<noteq> [] \<and> b \<noteq> []"
  by (cases s) (auto simp: refuse_clean_def dest: required_text_SomeD split: refuse_data.splits)

lemma refuse_done_result:
  assumes "engine_law run" "inbox_ok db" "get_received_applications r ids db = Inr js"
    "wz_data x REASON = Some (Reason_Data reason shared)" "wz_data x JOB_SEEKER_ANSWER = Some (Answer_Data answer)"
  shows "refuse_done run now r js x db = Inr (map ja_pk (movable T_REFUSE js),
    batch_result now (rq_user r) T_REFUSE (refused_with reason shared answer (answer_text (wz_data x PRESCRIBER_ANSWER))) js db)"
proof -
  let ?f = "refused_with reason shared answer (answer_text (wz_data x PRESCRIBER_ANSWER))"
  have s: "set_refusal x j = Inr (?f j)" for j using assms(4,5) by (simp add: set_refusal_def)
  have "batch_loop (\<lambda>j db. rbind (set_refusal x j) (\<lambda>j1. try_transition (ja_refuse run now (us_pk (rq_user r)) j1 db) db)) js db =
      Inr (map ja_pk (movable T_REFUSE js), batch_result now (rq_user r) T_REFUSE ?f js db)"
    by (rule batch_loop_result [OF assms(1) harmless_answers(3)])
      (use selected_rows [OF assms(3,2)] s in \<open>auto simp: ja_refuse_def\<close>)
  then show ?thesis using received_again [OF assms(3)] by (simp add: refuse_done_def)
qed

end
