(* ===== verification/Application_Request_Properties.thy ===== *)
theory Application_Request_Properties
  imports Application_Batch_Effects Samples
begin

text \<open>The properties of the requests of the employers on the applications they receive.\<close>

text \<open>C1.  A view kept for employers only runs for a professional who acts for a company that is active or in
  its grace period and of which the professional is an active member; this company stays the current one
  at the next request.\<close>

theorem employer_view_is_for_members:
  assumes "current_organization_middleware label urls force needs_otp dev (get_active_company_memberships now vs cs ct u)
      (get_active_prescriber_memberships ps pt u) (get_active_institution_memberships is it u) u path key = (Get_Response r, key')"
    and "check_request rq_from_employer r = Inr ()"
  shows "\<exists>c m. get_current_company_or_404 r = Inr c \<and> rq_user r = u \<and> is_professional u \<and>
    m \<in> set ct \<and> mb_user m = us_pk u \<and> mb_is_active m \<and> mb_organization m = co_pk c \<and>
    c \<in> set (active_or_in_grace_period now vs (company_objects cs)) \<and> key' = Some (COMPANY, co_pk c) \<and>
    rq_current_organization (fst (enrich label (get_active_company_memberships now vs cs ct u)
      (get_active_prescriber_memberships ps pt u) (get_active_institution_memberships is it u) u key')) = Some (Of_Company c)"
proof -
  let ?a = "get_active_company_memberships now vs cs ct u" and ?b = "get_active_prescriber_memberships ps pt u"
    and ?c = "get_active_institution_memberships is it u"
  obtain w where e: "enrich label ?a ?b ?c u key = (r, key', w)"
    using assms(1) access_checks_response by (fastforce simp: current_organization_middleware_def Let_def split: prod.splits)
  have emp: "rq_from_employer r" using assms(2) by (simp add: check_request_def)
  then obtain c where c: "is_professional u" "mi_current (infos_of label ?a ?b ?c key) = Some (Of_Company c)"
    using enrich_fields(4) [OF e] by blast
  note held = current_organization_held [OF c(2)]
  then obtain adm where "(Of_Company c, adm) \<in> set ?a"
    using joined_not_company unfolding get_active_prescriber_memberships_def get_active_institution_memberships_def
    by (auto simp: joined_organizations_def List.map_filter_def)
  then obtain m where m: "m \<in> set ct" "mb_user m = us_pk u" "mb_is_active m" "mb_organization m = co_pk c"
    "c \<in> set (active_or_in_grace_period now vs (company_objects cs))"
    by (rule held_company) auto
  have cur: "rq_current_organization r = Some (Of_Company c)" using enrich_fields(2) [OF e c(1)] c(2) by simp
  have key: "key' = mi_session_key (infos_of label ?a ?b ?c key)" by (rule enrich_fields(3) [OF e c(1)])
  have inj: "inj_on organization_switch_key (fst ` set (?a @ ?b @ ?c))" by (rule held_keys_inj)
  obtain r2 k2 w2 where e2: "enrich label ?a ?b ?c u key' = (r2, k2, w2)" by (metis prod_cases3)
  have "rq_current_organization r2 = Some (Of_Company c)"
    using enrich_fields(2) [OF e2 c(1)] current_organization_stable [OF c(2) inj] key by simp
  then show ?thesis using emp cur m c(1) held(2) key enrich_fields(1) [OF e] e2
    by (intro exI [of _ c] exI [of _ m]) (simp add: get_current_company_or_404_def)
qed

definition sample_org_switch :: switch_key where "sample_org_switch = (COMPANY, 1)"

definition sample_urls :: url_names where
  "sample_urls = \<lparr>un_account_login = ''/accounts/login/'', un_account_logout = ''/accounts/logout/'',
     un_verify_otp = ''/otp/verify'', un_login_with_backup_code = ''/otp/backup''\<rparr>"

definition sample_employer :: request_infos where
  "sample_employer = (anonymous_infos sample_professional)\<lparr>rq_organizations := [Of_Company sample_company],
     rq_current_organization := Some (Of_Company sample_company),
     rq_is_current_organization_admin := Some (mb_is_admin sample_membership),
     rq_from_employer := True, rq_from_iae_actor := True\<rparr>"

lemma sample_request:
  "current_organization_middleware (snd \<circ> organization_switch_key) sample_urls False False False
     (get_active_company_memberships 0 [sample_convention] [sample_company, sample_geiq] [sample_membership] sample_professional)
     (get_active_prescriber_memberships [] [] sample_professional) (get_active_institution_memberships [] [] sample_professional)
     sample_professional ''/apply/list'' None = (Get_Response sample_employer, Some (COMPANY, 1))"
  by code_simp

theorem employer_view_is_for_members_witness:
  "get_current_company_or_404 sample_employer = Inr sample_company \<and>
   list_ex (\<lambda>m. mb_user m = us_pk sample_professional \<and> mb_organization m = co_pk sample_company) [sample_membership]"
proof -
  have "check_request rq_from_employer sample_employer = Inr ()" by (simp add: check_request_def sample_employer_def)
  from employer_view_is_for_members [OF sample_request this]
  obtain c where "get_current_company_or_404 sample_employer = Inr c" "co_pk c = mb_organization sample_membership"
    "mb_user sample_membership = us_pk sample_professional"
    by auto
  moreover have "get_current_company_or_404 sample_employer = Inr sample_company"
    by (simp add: get_current_company_or_404_def sample_employer_def)
  ultimately show ?thesis by simp
qed

text \<open>C2.  Whatever requests the employers send, one or many applications at a time and in any order, the
  applications keep the constraints of their table, a comment is only attached to an application while this
  application belongs to the company that wrote it (a transfer leaves none behind), and an
  application prior to hire always has an action.\<close>

theorem requests_keep_links:
  assumes "inbox_ok db" and "employer_steps db db'"
  shows "ja_table_ok (db_job_applications db') \<and>
    (\<forall>m \<in> set (db_comments db'). \<forall>j \<in> set (db_job_applications db').
       jc_job_application m = ja_pk j \<longrightarrow> jc_company m = ja_to_company j) \<and>
    (\<forall>j \<in> set (db_job_applications db'). ja_state j = JA_PRIOR_TO_HIRE \<longrightarrow> prior_actions_of db' j \<noteq> [])"
proof -
  have ok: "inbox_ok db'" by (rule employer_steps_ok [OF assms(2,1)])
  then have "prior_actions_of db' j \<noteq> []" if "j \<in> set (db_job_applications db')" "ja_state j = JA_PRIOR_TO_HIRE" for j
    using that by (auto simp: prior_actions_of_Nil inbox_ok_def linked_db_def linked_def list_all_iff list_ex_iff)
  then show ?thesis using ok linked_company [OF ok row_of_member] by (auto simp: inbox_ok_def)
qed

text \<open>An employer of the GEIQ adds an action, which moves the application, and transfers it after a comment.\<close>

definition sample_geiq_db :: db where
  "sample_geiq_db = sample_db\<lparr>db_job_applications := [sample_application\<lparr>ja_to_company := 2\<rparr>]\<rparr>"

definition sample_action_form :: prior_action_form where
  "sample_action_form = \<lparr>pf_action = Some PMSMP, pf_start_in_post = True, pf_start_at = Some 5, pf_end_at = Some 9\<rparr>"

definition after_action :: db where
  "after_action = (case add_or_modify_prior_action reference_engine 3 sample_employer 1 None (Some sample_action_form) sample_geiq_db of
     Inr (_, db) \<Rightarrow> db | Inl _ \<Rightarrow> sample_geiq_db)"

theorem requests_keep_links_witness:
  "list_all (\<lambda>j. ja_state j = JA_PRIOR_TO_HIRE \<and> prior_actions_of after_action j \<noteq> []) (db_job_applications after_action) \<and>
   db_job_applications after_action \<noteq> []"
proof -
  have ok: "inbox_ok sample_geiq_db" by code_simp
  have run: "case add_or_modify_prior_action reference_engine 3 sample_employer 1 None (Some sample_action_form) sample_geiq_db of
      Inr (out, db) \<Rightarrow> out = Moved \<and> map ja_state (db_job_applications db) = [JA_PRIOR_TO_HIRE] | Inl _ \<Rightarrow> False"
    by code_simp
  then obtain db where db: "add_or_modify_prior_action reference_engine 3 sample_employer 1 None (Some sample_action_form) sample_geiq_db
      = Inr (Moved, db)" "map ja_state (db_job_applications db) = [JA_PRIOR_TO_HIRE]"
    by (auto split: sum.splits)
  then have eq: "after_action = db" by (simp add: after_action_def)
  have "employer_steps sample_geiq_db db"
    by (rule employer_steps.next_request [OF employer_steps.no_request employer_step.action_saved [OF reference_engine_law db(1)]])
  from requests_keep_links [OF ok this] show ?thesis using db(2) by (auto simp: eq list_all_iff map_eq_Cons_conv)
qed

lemma batch_moves:
  assumes "engine_law run" "inbox_ok db" "rq_from_employer r" "get_received_applications r ids db = Inr js"
  shows "batch_process run now r (Some url) ids db =
      Inr (map ja_pk (movable T_PROCESS js), batch_result now (rq_user r) T_PROCESS (\<lambda>j. j) js db)"
    and "batch_add_to_pool run now r (Some url) ids answer db =
      Inr (map ja_pk (movable T_ADD_TO_POOL js),
           batch_result now (rq_user r) T_ADD_TO_POOL (\<lambda>j. j\<lparr>ja_answer := py_strip answer\<rparr>) js db)"
    and "batch_postpone run now r (Some url) ids answer db = (case required_text answer of
      None \<Rightarrow> Inr ([], db)
    | Some a \<Rightarrow> Inr (map ja_pk (movable T_POSTPONE js),
           batch_result now (rq_user r) T_POSTPONE (\<lambda>j. j\<lparr>ja_answer := a\<rparr>) js db))"
    and "js = sort_key (\<lambda>j. - ja_created_at j) (filter (\<lambda>j. rq_current_organization r \<noteq> None \<and>
      (\<exists>c. rq_current_organization r = Some (Of_Company c) \<and> ja_to_company j = co_pk c) \<and> ja_pk j \<in> set ids)
      (db_job_applications db))"
proof -
  note batch = batch_answer_result [OF assms(1,4,2)]
  have g: "batch_guard r (Some url) = Inr ()" using assms(3) by (simp add: batch_guard_def from_employer_only_def check_request_def)
  show "batch_process run now r (Some url) ids db =
      Inr (map ja_pk (movable T_PROCESS js), batch_result now (rq_user r) T_PROCESS (\<lambda>j. j) js db)"
    using g assms(4) batch [of "\<lambda>j. j" T_PROCESS] by (simp add: batch_process_def)
  show "batch_add_to_pool run now r (Some url) ids answer db =
      Inr (map ja_pk (movable T_ADD_TO_POOL js),
           batch_result now (rq_user r) T_ADD_TO_POOL (\<lambda>j. j\<lparr>ja_answer := py_strip answer\<rparr>) js db)"
    using g assms(4) batch [of "\<lambda>j. j\<lparr>ja_answer := py_strip answer\<rparr>" T_ADD_TO_POOL] by (simp add: batch_add_to_pool_def)
  show "batch_postpone run now r (Some url) ids answer db = (case required_text answer of
      None \<Rightarrow> Inr ([], db)
    | Some a \<Rightarrow> Inr (map ja_pk (movable T_POSTPONE js),
           batch_result now (rq_user r) T_POSTPONE (\<lambda>j. j\<lparr>ja_answer := a\<rparr>) js db))"
    using g assms(4) batch [of "\<lambda>j. j\<lparr>ja_answer := a\<rparr>" T_POSTPONE for a] by (simp add: batch_postpone_def split: option.splits)
  show "js = sort_key (\<lambda>j. - ja_created_at j) (filter (\<lambda>j. rq_current_organization r \<noteq> None \<and>
      (\<exists>c. rq_current_organization r = Some (Of_Company c) \<and> ja_to_company j = co_pk c) \<and> ja_pk j \<in> set ids)
      (db_job_applications db))"
    using assms(4) by (auto simp: get_received_applications_def get_current_company_or_404_def split: option.splits
        organization.splits if_splits)
qed

text \<open>C3.  A batch of an employer does for each selected application that the current company received what
  the transition says (process, postpone with an answer, add to the pool): the applications in a source state
  move, with the answer and one log entry each, and are the ones reported; every other row, whatever keys were
  submitted, stays as it is.\<close>

theorem batch_moves_what_it_can:
  assumes "engine_law run" "inbox_ok db" "rq_from_employer r" "get_received_applications r ids db = Inr js"
  shows "(batch_process run now r (Some url) ids db =
      Inr (map ja_pk (movable T_PROCESS js), batch_result now (rq_user r) T_PROCESS (\<lambda>j. j) js db)) \<and>
    (batch_add_to_pool run now r (Some url) ids answer db =
      Inr (map ja_pk (movable T_ADD_TO_POOL js),
           batch_result now (rq_user r) T_ADD_TO_POOL (\<lambda>j. j\<lparr>ja_answer := py_strip answer\<rparr>) js db)) \<and>
    (batch_postpone run now r (Some url) ids answer db = (case required_text answer of
      None \<Rightarrow> Inr ([], db)
    | Some a \<Rightarrow> Inr (map ja_pk (movable T_POSTPONE js),
           batch_result now (rq_user r) T_POSTPONE (\<lambda>j. j\<lparr>ja_answer := a\<rparr>) js db))) \<and>
    js = sort_key (\<lambda>j. - ja_created_at j) (filter (\<lambda>j. rq_current_organization r \<noteq> None \<and>
      (\<exists>c. rq_current_organization r = Some (Of_Company c) \<and> ja_to_company j = co_pk c) \<and> ja_pk j \<in> set ids)
      (db_job_applications db))"
  using batch_moves [OF assms] by blast

theorem batch_moves_what_it_can_witness:
  "case batch_postpone reference_engine 3 sample_employer (Some ''/'') [1, 7] '' later '' sample_db of
     Inr (ids, db) \<Rightarrow> ids = [1] \<and> map ja_state (db_job_applications db) = [JA_POSTPONED] \<and>
       map ja_answer (db_job_applications db) = [''later'']
   | Inl _ \<Rightarrow> False"
proof -
  have ok: "inbox_ok sample_db" by code_simp
  have emp: "rq_from_employer sample_employer" by (simp add: sample_employer_def)
  have sel: "get_received_applications sample_employer [1, 7] sample_db = Inr [sample_application]" by code_simp
  have text_ok: "required_text '' later '' = Some ''later''" by code_simp
  have "batch_postpone reference_engine 3 sample_employer (Some ''/'') [1, 7] '' later '' sample_db =
      Inr (map ja_pk (movable T_POSTPONE [sample_application]),
        batch_result 3 (rq_user sample_employer) T_POSTPONE (\<lambda>j. j\<lparr>ja_answer := ''later''\<rparr>) [sample_application] sample_db)"
    using batch_moves_what_it_can [OF reference_engine_law ok emp sel, of 3 "''/''" "'' later ''"] text_ok by simp
  then show ?thesis by (simp add: batch_result_def movable_def sample_defs ja_moved_def ja_before_def Let_def map_rows_def)
qed

text \<open>The wizard of the refusals ends only when every step was answered: a reason offered for the kind
  of the company, an answer to the candidates and, if a prescriber sent one of the applications, an answer to the
  prescribers.  It then refuses exactly the applications of the session that the current company received and
  that can still be refused, with these answers, and leaves no session behind.\<close>

lemma refusal_needs_every_step:
  assumes "engine_law run" "inbox_ok db" "refuse_post run now r x s d db = Inr (Wizard_Done, w, ids, db')"
  shows "\<exists>js c reason shared answer to_prescriber.
    get_received_applications r (rs_application_ids x) db = Inr js \<and> js \<noteq> [] \<and>
    company_of (hd js) db = Inr c \<and> reason \<in> set (refusal_displayed_choices (co_kind c)) \<and> answer \<noteq> [] \<and>
    (list_ex (\<lambda>j. ja_sender_kind j = SK_PRESCRIBER) js \<longrightarrow> to_prescriber \<noteq> []) \<and>
    ids = map ja_pk (movable T_REFUSE js) \<and> w = None \<and>
    db' = batch_result now (rq_user r) T_REFUSE (refused_with (Some reason) shared answer to_prescriber) js db"
proof -
  obtain js x1 c where S: "refuse_setup r db x = Inr (js, x1)" "company_of (hd js) db = Inr c"
    and P: "wizard_post (refuse_clean (co_kind c)) (refuse_steps js)
       (\<lambda>x2 (_, db). refuse_done run now r js x2 db) x1 s d ([], db) = Inr (Wizard_Done, w, (ids, db'))"
    using assms(3) by (auto simp: refuse_post_def)
  note set_up = refuse_setup_InrD [OF S(1)]
  obtain cd where W: "w = None" "refuse_clean (co_kind c) s d x1 = Some cd"
    "refuse_done run now r js (x1\<lparr>wz_data := (wz_data x1)(s \<mapsto> cd)\<rparr>) db = Inr (ids, db')"
    "s = last (refuse_steps js)"
    "list_all (\<lambda>p. \<exists>e. wz_data (x1\<lparr>wz_data := (wz_data x1)(s \<mapsto> cd)\<rparr>) p = Some e \<and>
       (p \<noteq> s \<longrightarrow> refuse_clean (co_kind c) p e (x1\<lparr>wz_data := (wz_data x1)(s \<mapsto> cd)\<rparr>) \<noteq> None)) (refuse_steps js)"
    by (rule wizard_done [OF P]) simp
  let ?x = "x1\<lparr>wz_data := (wz_data x1)(s \<mapsto> cd)\<rparr>"
  have mem: "REASON \<in> set (refuse_steps js)" "JOB_SEEKER_ANSWER \<in> set (refuse_steps js)" by (simp_all add: refuse_steps_def)
  have kept: "\<exists>e. wz_data ?x p = Some e \<and> refuse_clean (co_kind c) p e ?x \<noteq> None" if "p \<in> set (refuse_steps js)" "p \<noteq> s" for p
    using W(5) that unfolding list_all_iff by blast
  have s: "s \<noteq> REASON" "list_ex (\<lambda>j. ja_sender_kind j = SK_PRESCRIBER) js \<Longrightarrow> s = PRESCRIBER_ANSWER"
    using W(4) by (auto simp: refuse_steps_def split: if_splits)
  obtain b where b: "cd = Answer_Data b" "b \<noteq> []" using answer_clean [OF W(2) s(1)] by blast
  obtain e1 where e1: "wz_data ?x REASON = Some e1" "refuse_clean (co_kind c) REASON e1 ?x \<noteq> None"
    using kept [OF mem(1)] s(1) by metis
  then obtain reason shared where reason: "wz_data ?x REASON = Some (Reason_Data (Some reason) shared)"
    "reason \<in> set (refusal_displayed_choices (co_kind c))"
    using reason_clean [of "co_kind c" e1 ?x] by blast
  have "\<exists>answer. wz_data ?x JOB_SEEKER_ANSWER = Some (Answer_Data answer) \<and> answer \<noteq> []"
  proof (cases "s = JOB_SEEKER_ANSWER")
    case True
    then show ?thesis using b by simp
  next
    case False
    then obtain e where "wz_data ?x JOB_SEEKER_ANSWER = Some e" "refuse_clean (co_kind c) JOB_SEEKER_ANSWER e ?x \<noteq> None"
      using kept [OF mem(2)] by metis
    then show ?thesis using answer_clean [of "co_kind c" JOB_SEEKER_ANSWER e ?x] by blast
  qed
  then obtain answer where answer: "wz_data ?x JOB_SEEKER_ANSWER = Some (Answer_Data answer)" "answer \<noteq> []" by blast
  let ?to = "answer_text (wz_data ?x PRESCRIBER_ANSWER)"
  have to: "?to \<noteq> []" if "list_ex (\<lambda>j. ja_sender_kind j = SK_PRESCRIBER) js" using s(2) [OF that] b by simp
  have res: "ids = map ja_pk (movable T_REFUSE js)"
    "db' = batch_result now (rq_user r) T_REFUSE (refused_with (Some reason) shared answer ?to) js db"
    using refuse_done_result [OF assms(1,2) set_up(1) reason(1) answer(1)] W(3) by simp_all
  show ?thesis
    by (rule exI [of _ js], rule exI [of _ c], rule exI [of _ reason], rule exI [of _ shared], rule exI [of _ answer],
        rule exI [of _ ?to])
      (intro conjI impI set_up(1,2) S(2) reason(2) answer(2) res W(1), rule to)
qed

definition sample_refusal :: refuse_session where
  "sample_refusal = \<lparr>wz_reset_url = Some ''/'', wz_data = [REASON \<mapsto> Reason_Data (Some RR_OTHER) False,
     JOB_SEEKER_ANSWER \<mapsto> Answer_Data ''no''], rs_application_ids = [1]\<rparr>"

text \<open>Outside the pages of the login, of the logout and of the invitations, the middleware only lets a
  request reach its view when the second factor was given if the user needs one (or on the pages that ask
  for it), and, for a professional off the portal, with a current organization, with an agency of France Travail for its
  agents, and through ProConnect when it is imposed.\<close>

lemma incomplete_accounts_stay_out:
  assumes "current_organization_middleware label urls force (require_otp st us pt ct a u) (au_has_device a)
      companies prescribers institutions u path key = (Get_Response r, key')"
    and "\<not> skip_all_checks urls path"
  shows "(au_is_authenticated a \<and> \<not> au_is_verified a \<and> \<not> au_is_hijacked a \<and>
       user_is_concerned_by_otp st us pt ct (au_has_device a) u \<longrightarrow>
       (if au_has_device a then path = un_verify_otp urls \<or> path = un_login_with_backup_code urls
        else startswith path ''/otp/enrollment'')) \<and>
    (is_professional u \<and> \<not> skip_remaining_checks path \<and> \<not> startswith path ''/portal'' \<longrightarrow>
       (\<exists>org \<in> fst ` set (companies @ prescribers @ institutions). rq_current_organization r = Some org) \<and>
       (case us_email u of None \<Rightarrow> True | Some e \<Rightarrow> endswith e ''@francetravail.fr'' \<longrightarrow>
          list_ex (\<lambda>(org, _). is_ft_organization org) prescribers) \<and>
       (force \<and> (rq_from_employer r \<or> rq_from_prescriber r) \<and> \<not> startswith path ''/dashboard/activate-pro-connect-account'' \<and>
          \<not> startswith path ''/pro_connect'' \<longrightarrow> us_identity_provider u = IDP_PRO_CONNECT))"
proof -
  obtain r0 w where e: "enrich label companies prescribers institutions u key = (r0, key', w)"
    and c0: "access_checks urls force (require_otp st us pt ct a u) (au_has_device a) path r0 w = Get_Response r"
    using assms(1) by (auto simp: current_organization_middleware_def Let_def split: prod.splits)
  have r0: "r0 = r" using access_checks_response [OF c0] by simp
  note c = c0 [unfolded r0]
  note E = enrich_fields [OF e [unfolded r0]]
  note gate = access_checks_gate [OF c assms(2)]
  have rest: "w = None \<and> \<not> must_activate_pro_connect force path r"
    if "is_professional u" "\<not> skip_remaining_checks path" "\<not> startswith path ''/portal''"
    using gate(2) that E(1) by simp
  have pro: "(\<exists>org \<in> fst ` set (companies @ prescribers @ institutions). rq_current_organization r = Some org) \<and>
       (case us_email u of None \<Rightarrow> True | Some e \<Rightarrow> endswith e ''@francetravail.fr'' \<longrightarrow>
          list_ex (\<lambda>(org, _). is_ft_organization org) prescribers) \<and>
       (force \<and> (rq_from_employer r \<or> rq_from_prescriber r) \<and> \<not> startswith path ''/dashboard/activate-pro-connect-account'' \<and>
          \<not> startswith path ''/pro_connect'' \<longrightarrow> us_identity_provider u = IDP_PRO_CONNECT)"
    if p: "is_professional u" "\<not> skip_remaining_checks path" "\<not> startswith path ''/portal''"
  proof (intro conjI)
    note w = rest [OF p]
    obtain org where "mi_current (infos_of label companies prescribers institutions key) = Some org"
      using E(5) [OF p(1)] w by blast
    then show "\<exists>org \<in> fst ` set (companies @ prescribers @ institutions). rq_current_organization r = Some org"
      using current_organization_held(1) [of label companies prescribers institutions key org] E(2) [OF p(1)]
      by (intro bexI [of _ org]) simp_all
    show "case us_email u of None \<Rightarrow> True | Some e \<Rightarrow> endswith e ''@francetravail.fr'' \<longrightarrow>
          list_ex (\<lambda>(org, _). is_ft_organization org) prescribers"
      using e w p(1) by (auto simp: enrich_def Let_def france_travail_email_suffix_def split: option.splits if_splits)
    show "force \<and> (rq_from_employer r \<or> rq_from_prescriber r) \<and> \<not> startswith path ''/dashboard/activate-pro-connect-account'' \<and>
          \<not> startswith path ''/pro_connect'' \<longrightarrow> us_identity_provider u = IDP_PRO_CONNECT"
      using w E(1) by (auto simp: must_activate_pro_connect_def)
  qed
  show ?thesis using gate(1) pro by (simp add: require_otp_def)
qed

end
