(* ===== verification/Approval_Requests.thy ===== *)
theory Approval_Requests
  imports Approval_Lifecycle Requests
begin

text \<open>
  The requests on approvals: the views of \<open>www/approvals_views/views.py\<close> that write, and the forms of
  \<open>www/approvals_views/forms.py\<close> they validate.  A view returns what it answers and the database it leaves; an
  exception that ends the request is a value of \<open>error\<close>.  A form that is not valid is shown again and nothing is
  written.
\<close>

datatype approval_answer = Page | Recorded | Granted_Before | Conflict

datatype submit_button = Preview_Button | Save_Button | Other_Button

section \<open>Approvals and suspensions the employer may act on\<close>

definition hired_by :: "db \<Rightarrow> pk \<Rightarrow> pk \<Rightarrow> bool" where
  "hired_by db siae k \<longleftrightarrow>
     list_ex (\<lambda>j. af_approval (ja_accepted j) = Some k \<and> ja_to_company j = siae \<and> ja_state j = JA_ACCEPTED)
       (db_job_applications db)"

text \<open>\<open>approval.user\<close>: a foreign key that is never null.\<close>

definition user_of_approval :: "approval \<Rightarrow> db \<Rightarrow> error + user" where
  "user_of_approval a db = (case get_row us_pk (ap_user a) (db_users db) of
     None \<Rightarrow> Inl (DoesNotExist ''user'') | Some u \<Rightarrow> Inr u)"

definition get_hired_approval :: "company \<Rightarrow> pk \<Rightarrow> db \<Rightarrow> error + (approval \<times> user)" where
  "get_hired_approval siae k db =
     (case get_row ap_pk k (filter (\<lambda>a. hired_by db (co_pk siae) (ap_pk a)) (db_approvals db)) of
        None \<Rightarrow> Inl Http404
      | Some a \<Rightarrow> rbind (user_of_approval a db) (\<lambda>u. Inr (a, u)))"

definition approval_of_suspension :: "suspension \<Rightarrow> db \<Rightarrow> error + approval" where
  "approval_of_suspension s db = (case get_row ap_pk (su_approval s) (db_approvals db) of
     None \<Rightarrow> Inl (DoesNotExist ''approval'') | Some a \<Rightarrow> Inr a)"

text \<open>The head of the four views on a suspension.\<close>

definition get_handled_suspension ::
  "date \<Rightarrow> request_infos \<Rightarrow> pk \<Rightarrow> db \<Rightarrow> error + (company \<times> suspension \<times> approval \<times> user)" where
  "get_handled_suspension today r k db =
     rbind (get_current_company_or_404 r) (\<lambda>siae.
     case get_row su_pk k (filter (\<lambda>s. hired_by db (co_pk siae) (su_approval s)) (db_suspensions db)) of
       None \<Rightarrow> Inl Http404
     | Some s \<Rightarrow>
         rbind (approval_of_suspension s db) (\<lambda>a.
         rbind (user_of_approval a db) (\<lambda>u.
         rbind (guard (can_be_handled_by_siae today db u (co_pk siae) s) PermissionDenied) (\<lambda>_.
         Inr (siae, s, a, u)))))"

section \<open>Suspensions\<close>

text \<open>The data posted: \<open>sf_end_at\<close> is \<open>None\<close> when the key is not in the data (the instance then keeps its value) and
  \<open>Some None\<close> when the field is empty.\<close>

record suspension_form =
  sf_start_at :: "date option"
  sf_end_at :: "date option option"
  sf_set_default_end_date :: bool
  sf_reason :: "suspension_reason option"
  sf_reason_explanation :: string

definition new_suspension :: "date \<Rightarrow> datetime \<Rightarrow> approval \<Rightarrow> company \<Rightarrow> suspension" where
  "new_suspension today now a siae =
     \<lparr>su_pk = 0, su_approval = ap_pk a, su_start_at = today, su_end_at = today, su_siae = Some (co_pk siae),
      su_reason = SUSPENDED_CONTRACT, su_reason_explanation = [], su_created_at = now, su_created_by = None,
      su_updated_at = now, su_updated_by = None\<rparr>"

text \<open>The validation of \<open>SuspensionForm\<close> on the new row or on \<open>instance\<close>: its fields, \<open>clean_start_at\<close>, \<open>clean\<close>, then
  \<open>Suspension.clean\<close> and the constraints that read only fields of the form (the exclusion constraint reads the
  approval, which is not a field, so Django skips it).\<close>

definition suspension_form_end :: "plus_months \<Rightarrow> suspension_form \<Rightarrow> date \<Rightarrow> date \<Rightarrow> date option" where
  "suspension_form_end plus_months f start_at kept =
     (if sf_set_default_end_date f then Some (suspension_get_max_end_at plus_months start_at)
      else case sf_end_at f of None \<Rightarrow> Some kept | Some e \<Rightarrow> e)"

definition suspension_form_clean ::
  "plus_months \<Rightarrow> date \<Rightarrow> datetime \<Rightarrow> db \<Rightarrow> approval \<Rightarrow> user \<Rightarrow> company \<Rightarrow> suspension option \<Rightarrow> suspension_form
   \<Rightarrow> error + suspension" where
  "suspension_form_clean plus_months today now db a u siae instance_row f =
     (let base = (case instance_row of None \<Rightarrow> new_suspension today now a siae | Some s \<Rightarrow> s);
          min_start_at = next_min_start_at today db a u (map_option su_pk instance_row)
            (map_option (\<lambda>s. su_created_at s div one_day) instance_row)
      in case (sf_start_at f, sf_reason f) of
           (Some start_at, Some reason) \<Rightarrow>
             rbind (guard (\<not> start_at < min_start_at) (ValidationError ''start_at too early'')) (\<lambda>_.
             rbind (guard (reason \<in> set (displayed_choices_for_siae (co_kind siae))) (ValidationError ''reason'')) (\<lambda>_.
             let s = base\<lparr>su_start_at := start_at, su_reason := reason,
                       su_reason_explanation := py_strip (sf_reason_explanation f)\<rparr>;
                 end_at = suspension_form_end plus_months f start_at (su_end_at base)
             in rbind (suspension_clean plus_months today db a u (instance_row \<noteq> None) end_at s) (\<lambda>_.
                rbind (guard (start_at \<le> today) (ValidationError ''suspension_cannot_start_in_the_future'')) (\<lambda>_.
                Inr (case end_at of None \<Rightarrow> s | Some e \<Rightarrow> s\<lparr>su_end_at := e\<rparr>)))))
         | _ \<Rightarrow> Inl (ValidationError ''required''))"

definition suspend_request ::
  "plus_months \<Rightarrow> date \<Rightarrow> datetime \<Rightarrow> request_infos \<Rightarrow> pk \<Rightarrow> submit_button \<Rightarrow> suspension_form \<Rightarrow> db
   \<Rightarrow> error + (approval_answer \<times> db)" where
  "suspend_request plus_months today now r k button f db =
     rbind (get_current_company_or_404 r) (\<lambda>siae.
     rbind (get_hired_approval siae k db) (\<lambda>(a, u).
     rbind (guard (can_be_suspended_by_siae today db a u (co_pk siae)) PermissionDenied) (\<lambda>_.
     case suspension_form_clean plus_months today now db a u siae None f of
       Inl _ \<Rightarrow> Inr (Page, db)
     | Inr s \<Rightarrow>
         if button = Save_Button
         then rbind (insert_suspension today now (s\<lparr>su_created_by := Some (us_pk (rq_user r))\<rparr>) db)
                (\<lambda>db'. Inr (Recorded, db'))
         else Inr (Page, db))))"

datatype suspension_choice = Choose_Delete | Choose_End_Date | Choose_Nothing
datatype choice_answer = To_Delete | To_End_Date | Bad_Request

definition suspension_action_choice ::
  "date \<Rightarrow> request_infos \<Rightarrow> pk \<Rightarrow> suspension_choice \<Rightarrow> db \<Rightarrow> error + choice_answer" where
  "suspension_action_choice today r k action db =
     rbind (get_handled_suspension today r k db) (\<lambda>_.
     Inr (case action of Choose_Delete \<Rightarrow> To_Delete | Choose_End_Date \<Rightarrow> To_End_Date | Choose_Nothing \<Rightarrow> Bad_Request))"

definition suspension_update_request ::
  "plus_months \<Rightarrow> date \<Rightarrow> datetime \<Rightarrow> request_infos \<Rightarrow> pk \<Rightarrow> suspension_form \<Rightarrow> db
   \<Rightarrow> error + (approval_answer \<times> db)" where
  "suspension_update_request plus_months today now r k f db =
     rbind (get_handled_suspension today r k db) (\<lambda>(siae, s, a, u).
     case suspension_form_clean plus_months today now db a u siae (Some s) f of
       Inl _ \<Rightarrow> Inr (Page, db)
     | Inr s' \<Rightarrow>
         rbind (update_suspension today now (s'\<lparr>su_updated_at := now, su_updated_by := Some (us_pk (rq_user r))\<rparr>) db)
           (\<lambda>db'. Inr (Recorded, db')))"

text \<open>\<open>SuspensionEndDateForm\<close>: the day after the last day of the suspension.\<close>

definition end_date_form_clean :: "suspension \<Rightarrow> date option \<Rightarrow> error + date" where
  "end_date_form_clean s first_day_back_to_work =
     (case first_day_back_to_work of
        None \<Rightarrow> Inl (ValidationError ''required'')
      | Some d \<Rightarrow>
          rbind (guard (\<not> d \<le> su_start_at s) (ValidationError ''before the start of the suspension'')) (\<lambda>_.
          rbind (guard (\<not> su_end_at s \<le> d) (ValidationError ''after the end of the suspension'')) (\<lambda>_.
          Inr d)))"

definition suspension_update_enddate ::
  "date \<Rightarrow> datetime \<Rightarrow> request_infos \<Rightarrow> pk \<Rightarrow> date option \<Rightarrow> db \<Rightarrow> error + (approval_answer \<times> db)" where
  "suspension_update_enddate today now r k first_day db =
     rbind (get_handled_suspension today r k db) (\<lambda>(siae, s, a, u).
     case end_date_form_clean s first_day of
       Inl _ \<Rightarrow> Inr (Page, db)
     | Inr d \<Rightarrow>
         rbind (update_suspension today now
                  (s\<lparr>su_end_at := d - 1, su_updated_at := now, su_updated_by := Some (us_pk (rq_user r))\<rparr>) db)
           (\<lambda>db'. Inr (Recorded, db')))"

definition suspension_delete_request ::
  "date \<Rightarrow> datetime \<Rightarrow> request_infos \<Rightarrow> pk \<Rightarrow> bool \<Rightarrow> db \<Rightarrow> error + (approval_answer \<times> db)" where
  "suspension_delete_request today now r k confirm db =
     rbind (get_handled_suspension today r k db) (\<lambda>(siae, s, a, u).
     if confirm then rbind (delete_suspension now s db) (\<lambda>db'. Inr (Recorded, db'))
     else Inr (Page, db))"

section \<open>Prolongations\<close>

text \<open>An uploaded file, with what \<open>XlsxValidator\<close> finds in it.\<close>

record uploaded_file =
  uf_name :: string
  uf_bytes :: int
  uf_is_xlsx :: bool

definition report_max_bytes :: int where "report_max_bytes = 1024 * 1024"

definition report_file_ok :: "uploaded_file option \<Rightarrow> bool" where
  "report_file_ok f \<longleftrightarrow> (case f of None \<Rightarrow> False
     | Some u \<Rightarrow> uf_name u \<noteq> [] \<and> 0 < uf_bytes u \<and> uf_bytes u \<le> report_max_bytes \<and> uf_is_xlsx u)"

record prolongation_form =
  df_reason :: "prolongation_reason option"
  df_end_at :: "date option"
  df_email :: string
  df_prescriber_organization :: "pk option"
  df_require_phone_interview :: bool
  df_contact_email :: string
  df_contact_phone :: string
  df_report_file :: "uploaded_file option"

text \<open>\<open>email\<close> is a case-insensitive column.\<close>

definition has_email :: "string \<Rightarrow> user \<Rightarrow> bool" where
  "has_email email u \<longleftrightarrow> map_option py_lower (us_email u) = Some (py_lower email)"

definition organizations_with_email :: "membership list \<Rightarrow> string \<Rightarrow> db \<Rightarrow> prescriber_org list" where
  "organizations_with_email pms email db =
     filter (\<lambda>org. is_authorized org \<and>
       list_ex (\<lambda>m. mb_organization m = po_pk org \<and> mb_is_active m \<and>
         list_ex (\<lambda>u. us_pk u = mb_user m \<and> has_email email u \<and> us_is_active u) (db_users db)) pms)
       (db_prescriber_orgs db)"

definition authorization_statuses :: "membership list \<Rightarrow> db \<Rightarrow> pk \<Rightarrow> prescriber_authorization_status list" where
  "authorization_statuses pms db k =
     List.map_filter (\<lambda>m. if mb_user m = k then map_option po_authorization_status
         (get_row po_pk (mb_organization m) (db_prescriber_orgs db)) else None)
       (active_memberships (db_users db) pms)"

definition authorized_prescriber :: "membership list \<Rightarrow> db \<Rightarrow> user \<Rightarrow> bool" where
  "authorized_prescriber pms db = is_prescriber_with_authorized_org_memberships (authorization_statuses pms db)"

definition authorized_prescriber_pk :: "membership list \<Rightarrow> db \<Rightarrow> pk \<Rightarrow> bool" where
  "authorized_prescriber_pk pms db k =
     (case get_row us_pk k (db_users db) of None \<Rightarrow> False | Some u \<Rightarrow> authorized_prescriber pms db u)"

text \<open>\<open>CompanyMembership.include_inactive\<close>, as the pairs of \<open>common_prolongation_clean\<close>.\<close>

definition declaring_members :: "db \<Rightarrow> (pk \<times> pk) list" where
  "declaring_members db = map (\<lambda>m. (mb_organization m, mb_user m)) (db_company_memberships db)"

text \<open>The end date of the form: for SENIOR CDI an empty date becomes the greatest one allowed.\<close>

definition form_end_at :: "prolongation list \<Rightarrow> approval \<Rightarrow> prolongation_form \<Rightarrow> prolongation_reason \<Rightarrow> date option" where
  "form_end_at ps a f reason =
     (if reason = SENIOR_CDI \<and> df_end_at f = None then Some (form_max_end_at ps (ap_pk a) (ap_end_at a) reason)
      else df_end_at f)"

definition base_prolongation :: "datetime \<Rightarrow> approval \<Rightarrow> company \<Rightarrow> prolongation_reason \<Rightarrow> date \<Rightarrow> common_prolongation" where
  "base_prolongation now a siae reason end_at =
     \<lparr>pl_pk = 0, pl_approval = ap_pk a, pl_start_at = ap_end_at a, pl_end_at = end_at, pl_reason = reason,
      pl_reason_explanation = [], pl_declared_by = None, pl_declared_by_siae = Some (co_pk siae),
      pl_prescriber_organization = None, pl_created_at = now, pl_created_by = None, pl_updated_at = now,
      pl_updated_by = None, pl_report_file = None, pl_require_phone_interview = False, pl_contact_email = [],
      pl_contact_phone = []\<rparr>"

definition as_prolongation :: "common_prolongation \<Rightarrow> prolongation" where
  "as_prolongation c = common_prolongation.extend c \<lparr>pl_request = None, pl_validated_by = None\<rparr>"

definition as_request :: "pk \<Rightarrow> common_prolongation \<Rightarrow> prolongation_request" where
  "as_request prescriber c = common_prolongation.extend c
     \<lparr>prq_status = PR_PENDING, prq_assigned_to = prescriber, prq_processed_at = None, prq_processed_by = None,
      prq_reminder_sent_at = None\<rparr>"

text \<open>\<open>CreateProlongationForm\<close>: the reason and the end date.\<close>

definition create_prolongation_form_clean ::
  "datetime \<Rightarrow> membership list \<Rightarrow> db \<Rightarrow> approval \<Rightarrow> company \<Rightarrow> prolongation_form \<Rightarrow> error + prolongation" where
  "create_prolongation_form_clean now pms db a siae f =
     (case df_reason f of
        None \<Rightarrow> Inl (ValidationError ''required'')
      | Some reason \<Rightarrow> (case form_end_at (db_prolongations db) a f reason of
          None \<Rightarrow> Inl (ValidationError ''required'')
        | Some e \<Rightarrow>
            rbind (guard (form_accepts (db_prolongations db) a (co_kind siae) reason e) (ValidationError ''reason or end_at'')) (\<lambda>_.
            let p = as_prolongation (base_prolongation now a siae reason e)
            in rbind (prolongation_clean (authorized_prescriber_pk pms db) db (declaring_members db) a False (Some e) p) (\<lambda>_.
               Inr p))))"

text \<open>The fields \<open>CreateProlongationRequestForm\<close> adds.  \<open>valid_email\<close> is the validator of Django; \<open>saving\<close> tells that
  the file field was removed because the file was uploaded at the preview.\<close>

definition needs_report_file :: "company \<Rightarrow> prolongation_reason \<Rightarrow> bool" where
  "needs_report_file siae reason \<longleftrightarrow> reason \<in> set prolongation_report_file_reasons \<and> co_kind siae = AI"

definition phone_max_length :: nat where "phone_max_length = 20"

definition contact_fields_ok :: "(string \<Rightarrow> bool) \<Rightarrow> prolongation_form \<Rightarrow> bool" where
  "contact_fields_ok valid_email f \<longleftrightarrow>
     df_require_phone_interview f \<longrightarrow>
       valid_email (py_strip (df_contact_email f)) \<and> py_strip (df_contact_phone f) \<noteq> [] \<and>
       length (py_strip (df_contact_phone f)) \<le> phone_max_length"

definition request_fields_clean ::
  "(string \<Rightarrow> bool) \<Rightarrow> membership list \<Rightarrow> db \<Rightarrow> company \<Rightarrow> bool \<Rightarrow> prolongation_form \<Rightarrow> prolongation_reason
   \<Rightarrow> error + (user \<times> pk)" where
  "request_fields_clean valid_email pms db siae saving f reason =
     (let email = py_strip (df_email f) in
      rbind (guard (email \<noteq> [] \<and> valid_email email) (ValidationError ''email'')) (\<lambda>_.
      rbind (guard (saving \<or> \<not> needs_report_file siae reason \<or> report_file_ok (df_report_file f))
              (ValidationError ''report_file'')) (\<lambda>_.
      rbind (guard (contact_fields_ok valid_email f) (ValidationError ''contact'')) (\<lambda>_.
      case df_prescriber_organization f of
        None \<Rightarrow> Inl (ValidationError ''prescriber_organization'')
      | Some org \<Rightarrow>
          rbind (guard (list_ex (\<lambda>o'. po_pk o' = org) (organizations_with_email pms (df_email f) db))
                  (ValidationError ''prescriber_organization'')) (\<lambda>_.
          case order_first us_pk (filter (has_email email) (db_users db)) of
            None \<Rightarrow> Inl (ValidationError ''email'')
          | Some v \<Rightarrow> rbind (guard (authorized_prescriber pms db v) (ValidationError ''email'')) (\<lambda>_. Inr (v, org)))))))"

definition create_prolongation_request_form_clean ::
  "(string \<Rightarrow> bool) \<Rightarrow> datetime \<Rightarrow> membership list \<Rightarrow> db \<Rightarrow> approval \<Rightarrow> company \<Rightarrow> bool \<Rightarrow> prolongation_form
   \<Rightarrow> error + prolongation_request" where
  "create_prolongation_request_form_clean valid_email now pms db a siae saving f =
     (case (df_reason f, df_end_at f) of
        (Some reason, Some e) \<Rightarrow>
          rbind (guard (form_accepts (db_prolongations db) a (co_kind siae) reason e) (ValidationError ''reason or end_at'')) (\<lambda>_.
          rbind (request_fields_clean valid_email pms db siae saving f reason) (\<lambda>(v, org).
          let c = (base_prolongation now a siae reason e)\<lparr>pl_prescriber_organization := Some org,
                    pl_require_phone_interview := df_require_phone_interview f,
                    pl_contact_email := (if df_require_phone_interview f then py_strip (df_contact_email f) else []),
                    pl_contact_phone := (if df_require_phone_interview f then py_strip (df_contact_phone f) else [])\<rparr>;
              q = as_request (us_pk v) c
          in rbind (prolongation_request_clean (authorized_prescriber_pk pms db) db (declaring_members db) a False (Some e) q) (\<lambda>_.
             Inr q)))
      | _ \<Rightarrow> Inl (ValidationError ''required''))"

text \<open>\<open>get_prolongation_form\<close> chooses the form by the reason of the data.\<close>

datatype declared = Declared_Prolongation prolongation | Declared_Request prolongation_request

definition prolongation_form_clean ::
  "(string \<Rightarrow> bool) \<Rightarrow> datetime \<Rightarrow> membership list \<Rightarrow> db \<Rightarrow> approval \<Rightarrow> company \<Rightarrow> bool \<Rightarrow> prolongation_form
   \<Rightarrow> error + declared" where
  "prolongation_form_clean valid_email now pms db a siae saving f =
     (case df_reason f of
        Some reason \<Rightarrow>
          if reason \<in> set reasons_not_need_prescriber_opinion
          then rbind (create_prolongation_form_clean now pms db a siae f) (\<lambda>p. Inr (Declared_Prolongation p))
          else rbind (create_prolongation_request_form_clean valid_email now pms db a siae saving f)
                 (\<lambda>q. Inr (Declared_Request q))
      | None \<Rightarrow> rbind (create_prolongation_form_clean now pms db a siae f) (\<lambda>p. Inr (Declared_Prolongation p)))"

text \<open>The report files kept in the session between the preview and the save, by siae and approval.\<close>

type_synonym report_session = "pk \<times> pk \<rightharpoonup> string"

fun set_declaration :: "pk \<Rightarrow> string option \<Rightarrow> declared \<Rightarrow> declared" where
  "set_declaration u file (Declared_Prolongation p) =
     Declared_Prolongation (p\<lparr>pl_created_by := Some u, pl_declared_by := Some u, pl_report_file := file\<rparr>)"
| "set_declaration u file (Declared_Request q) =
     Declared_Request (q\<lparr>pl_created_by := Some u, pl_declared_by := Some u, pl_report_file := file\<rparr>)"

fun save_declaration :: "datetime \<Rightarrow> declared \<Rightarrow> db \<Rightarrow> error + db" where
  "save_declaration now (Declared_Prolongation p) db = insert_prolongation now p db"
| "save_declaration now (Declared_Request q) db = insert_prolongation_request q db"

text \<open>\<open>store\<close> gives the name the temporary storage keeps a file under and \<open>save_file\<close> the file it is saved as.\<close>

definition declare_prolongation ::
  "(string \<Rightarrow> bool) \<Rightarrow> (string \<Rightarrow> string) \<Rightarrow> (string \<Rightarrow> string) \<Rightarrow> plus_months \<Rightarrow> date \<Rightarrow> datetime \<Rightarrow> membership list
   \<Rightarrow> request_infos \<Rightarrow> pk \<Rightarrow> submit_button \<Rightarrow> prolongation_form \<Rightarrow> report_session \<Rightarrow> db
   \<Rightarrow> error + (approval_answer \<times> report_session \<times> db)" where
  "declare_prolongation valid_email store save_file plus_months today now pms r k button f session db =
     rbind (get_current_company_or_404 r) (\<lambda>siae.
     rbind (get_hired_approval siae k db) (\<lambda>(a, u).
     rbind (guard (is_subject_to_iae_rules siae \<and> can_be_prolonged plus_months today a u db) PermissionDenied) (\<lambda>_.
     let key = (co_pk siae, ap_pk a) in
     case prolongation_form_clean valid_email now pms db a siae (button = Save_Button) f of
       Inl _ \<Rightarrow> Inr (Page, session, db)
     | Inr d \<Rightarrow> (case button of
         Preview_Button \<Rightarrow>
           (case d of
              Declared_Request q \<Rightarrow>
                if needs_report_file siae (pl_reason q)
                then Inr (Page, session(key := map_option (\<lambda>x. store (uf_name x)) (df_report_file f)), db)
                else Inr (Page, session, db)
            | Declared_Prolongation _ \<Rightarrow> Inr (Page, session, db))
       | Save_Button \<Rightarrow>
           (let uploads = (co_kind siae = AI);
                file = (if uploads then map_option save_file (session key) else None);
                session' = (if uploads then session(key := None) else session)
            in rbind (save_declaration now (set_declaration (us_pk (rq_user r)) file d) db)
                 (\<lambda>db'. Inr (Recorded, session', db')))
       | Other_Button \<Rightarrow> Inr (Page, session, db)))))"

section \<open>Answers of the prescriber\<close>

definition get_received_request :: "request_infos \<Rightarrow> pk \<Rightarrow> db \<Rightarrow> error + prolongation_request" where
  "get_received_request r k db =
     rbind (get_current_org_or_404 r) (\<lambda>org.
     case get_row pl_pk k (filter (\<lambda>q. pl_prescriber_organization q = Some (po_pk org)) (db_prolongation_requests db)) of
       None \<Rightarrow> Inl Http404
     | Some q \<Rightarrow> Inr q)"

text \<open>The two constraints whose violation the view shows.\<close>

definition shown_violations :: "error list" where
  "shown_violations = [IntegrityError ''exclude_prolongation_overlapping_dates'', IntegrityError ''request_id'']"

definition grant_request ::
  "datetime \<Rightarrow> request_infos \<Rightarrow> pk \<Rightarrow> db \<Rightarrow> error + (approval_answer \<times> db)" where
  "grant_request now r k db =
     rbind (get_received_request r k db) (\<lambda>q.
     if prq_status q = PR_GRANTED then Inr (Granted_Before, db)
     else case grant now (us_pk (rq_user r)) q db of
       Inr db' \<Rightarrow> Inr (Recorded, db')
     | Inl e \<Rightarrow> if e \<in> set shown_violations then Inr (Conflict, db) else Inl e)"

record deny_form =
  dn_reason :: "deny_reason option"
  dn_reason_explanation :: string
  dn_proposed_actions :: "deny_proposed_action list"
  dn_proposed_actions_explanation :: string

text \<open>The cleaned data of the steps of the wizard: the step of the proposed actions is part of it for the reason IAE
  only.\<close>

definition deny_cleaned_data :: "deny_form \<Rightarrow> deny_information option" where
  "deny_cleaned_data f =
     (case (dn_reason f, required_text (dn_reason_explanation f)) of
        (Some reason, Some text) \<Rightarrow>
          (if reason = DENY_IAE then
             (case (dn_proposed_actions f, required_text (dn_proposed_actions_explanation f)) of
                (x # xs, Some t) \<Rightarrow> Some \<lparr>di_request = 0, di_reason = reason, di_reason_explanation = text,
                   di_proposed_actions = Some (x # xs), di_proposed_actions_explanation = t\<rparr>
              | _ \<Rightarrow> None)
           else Some \<lparr>di_request = 0, di_reason = reason, di_reason_explanation = text,
                  di_proposed_actions = None, di_proposed_actions_explanation = []\<rparr>)
      | _ \<Rightarrow> None)"

definition deny_request ::
  "datetime \<Rightarrow> request_infos \<Rightarrow> pk \<Rightarrow> deny_form \<Rightarrow> db \<Rightarrow> error + (approval_answer \<times> db)" where
  "deny_request now r k f db =
     rbind (get_received_request r k db) (\<lambda>q.
     case deny_cleaned_data f of
       None \<Rightarrow> Inr (Page, db)
     | Some d \<Rightarrow> rbind (deny now (us_pk (rq_user r)) d q db) (\<lambda>db'. Inr (Recorded, db')))"

end
