(* ===== verification/Approval_Request_Effects.thy ===== *)
theory Approval_Request_Effects
  imports Approval_Requests
begin

text \<open>
  What the requests on approvals do to the database: each of them is one step of the state machine of
  \<open>Approval_Lifecycle\<close> or writes nothing; who may record something and what is then written, request by request
  (\<open>recorded_effect\<close>); what a valid suspension form yields is a row the table accepts, so the
  request that saves it does not fail.
\<close>

section \<open>The requests as one transition function\<close>

datatype approval_post =
    Post_Suspend pk submit_button suspension_form
  | Post_Update pk suspension_form
  | Post_End_Date pk "date option"
  | Post_Delete pk bool
  | Post_Declare pk submit_button prolongation_form
  | Post_Grant pk
  | Post_Deny pk deny_form

record approval_env =
  ev_valid_email :: "string \<Rightarrow> bool"
  ev_store :: "string \<Rightarrow> string"
  ev_save_file :: "string \<Rightarrow> string"
  ev_plus_months :: plus_months
  ev_memberships :: "membership list"

definition keep_reports ::
  "report_session \<Rightarrow> error + (approval_answer \<times> db) \<Rightarrow> error + (approval_answer \<times> report_session \<times> db)" where
  "keep_reports session res = rbind res (\<lambda>(x, db). Inr (x, session, db))"

fun run_approval_post ::
  "approval_env \<Rightarrow> date \<Rightarrow> datetime \<Rightarrow> request_infos \<Rightarrow> approval_post \<Rightarrow> report_session \<Rightarrow> db
   \<Rightarrow> error + (approval_answer \<times> report_session \<times> db)" where
  "run_approval_post env today now r (Post_Suspend k b f) session db =
     keep_reports session (suspend_request (ev_plus_months env) today now r k b f db)"
| "run_approval_post env today now r (Post_Update k f) session db =
     keep_reports session (suspension_update_request (ev_plus_months env) today now r k f db)"
| "run_approval_post env today now r (Post_End_Date k d) session db =
     keep_reports session (suspension_update_enddate today now r k d db)"
| "run_approval_post env today now r (Post_Delete k c) session db =
     keep_reports session (suspension_delete_request today now r k c db)"
| "run_approval_post env today now r (Post_Declare k b f) session db =
     declare_prolongation (ev_valid_email env) (ev_store env) (ev_save_file env) (ev_plus_months env) today now
       (ev_memberships env) r k b f session db"
| "run_approval_post env today now r (Post_Grant k) session db = keep_reports session (grant_request now r k db)"
| "run_approval_post env today now r (Post_Deny k f) session db = keep_reports session (deny_request now r k f db)"

text \<open>What a request that ends well has written.\<close>

definition one_step :: "date \<Rightarrow> approval_answer \<Rightarrow> db \<Rightarrow> db \<Rightarrow> bool" where
  "one_step today x db db' = (if x = Recorded then approvals_step today db db' else db' = db)"

lemma one_step_inv: "one_step today x db db' \<Longrightarrow> approvals_inv db \<Longrightarrow> approvals_inv db'"
  by (auto simp: one_step_def intro: approvals_step_inv split: if_splits)

lemma keep_reports_Inr:
  assumes "keep_reports session res = Inr (x, session', db')"
  shows "res = Inr (x, db')" "session' = session"
  using assms by (auto simp: keep_reports_def)

lemma form_cases:
  assumes "(case v of Inl e \<Rightarrow> Inr (y, db) | Inr s \<Rightarrow> g s) = Inr (x, db')"
  obtains "x = y" "db' = db" | s where "v = Inr s" "g s = Inr (x, db')"
  using assms by (cases v) auto

lemma suspend_request_InrD:
  assumes "suspend_request pm today now r k b f db = Inr (x, db')"
  obtains "x = Page" "db' = db"
  | siae a u s where "x = Recorded" "b = Save_Button" "get_current_company_or_404 r = Inr siae"
      "get_hired_approval siae k db = Inr (a, u)" "can_be_suspended_by_siae today db a u (co_pk siae)"
      "suspension_form_clean pm today now db a u siae None f = Inr s"
      "insert_suspension today now (s\<lparr>su_created_by := Some (us_pk (rq_user r))\<rparr>) db = Inr db'"
proof -
  obtain siae a u where g: "get_current_company_or_404 r = Inr siae" "get_hired_approval siae k db = Inr (a, u)"
      "can_be_suspended_by_siae today db a u (co_pk siae)"
    using assms by (auto simp: suspend_request_def)
  show thesis
    by (cases "suspension_form_clean pm today now db a u siae None f"; cases "b = Save_Button")
      (use assms g that in \<open>auto simp: suspend_request_def\<close>)
qed

lemma suspend_request_step:
  assumes "suspend_request pm today now r k b f db = Inr (x, db')"
  shows "one_step today x db db'"
  by (rule suspend_request_InrD [OF assms]) (auto simp: one_step_def intro: approvals_step.suspend)

lemma suspension_update_request_step:
  assumes "suspension_update_request pm today now r k f db = Inr (x, db')"
  shows "one_step today x db db'"
proof -
  obtain siae s a u where "(case suspension_form_clean pm today now db a u siae (Some s) f of
       Inl _ \<Rightarrow> Inr (Page, db)
     | Inr s' \<Rightarrow>
         rbind (update_suspension today now (s'\<lparr>su_updated_at := now, su_updated_by := Some (us_pk (rq_user r))\<rparr>) db)
           (\<lambda>db'. Inr (Recorded, db'))) = Inr (x, db')"
    using assms by (auto simp: suspension_update_request_def)
  then show ?thesis
    by (rule form_cases) (auto simp: one_step_def intro: approvals_step.edit_suspension)
qed

lemma suspension_update_enddate_step:
  assumes "suspension_update_enddate today now r k d db = Inr (x, db')"
  shows "one_step today x db db'"
proof -
  obtain s where "(case end_date_form_clean s d of
       Inl _ \<Rightarrow> Inr (Page, db)
     | Inr e \<Rightarrow>
         rbind (update_suspension today now
                  (s\<lparr>su_end_at := e - 1, su_updated_at := now, su_updated_by := Some (us_pk (rq_user r))\<rparr>) db)
           (\<lambda>db'. Inr (Recorded, db'))) = Inr (x, db')"
    using assms by (auto simp: suspension_update_enddate_def)
  then show ?thesis
    by (rule form_cases) (auto simp: one_step_def intro: approvals_step.edit_suspension)
qed

lemma suspension_delete_request_step:
  assumes "suspension_delete_request today now r k c db = Inr (x, db')"
  shows "one_step today x db db'"
  using assms approvals_step.remove_suspension
  by (fastforce simp: suspension_delete_request_def one_step_def split: if_splits)

lemma save_declaration_step:
  "save_declaration now d db = Inr db' \<Longrightarrow> approvals_step today db db'"
  by (cases d) (auto intro: approvals_step.prolong approvals_step.request)

lemma declare_prolongation_InrD:
  assumes "declare_prolongation ve st sf pm today now pms r k b f session db = Inr (x, session', db')"
  obtains "x = Page" "db' = db"
  | siae a u d report where "b = Save_Button" "x = Recorded" "get_current_company_or_404 r = Inr siae"
      "get_hired_approval siae k db = Inr (a, u)" "is_subject_to_iae_rules siae"
      "can_be_prolonged pm today a u db" "prolongation_form_clean ve now pms db a siae True f = Inr d"
      "save_declaration now (set_declaration (us_pk (rq_user r)) report d) db = Inr db'"
proof -
  obtain siae a u where g: "get_current_company_or_404 r = Inr siae" "get_hired_approval siae k db = Inr (a, u)"
      "is_subject_to_iae_rules siae" "can_be_prolonged pm today a u db"
    using assms by (auto simp: declare_prolongation_def)
  show thesis
  proof (cases "prolongation_form_clean ve now pms db a siae (b = Save_Button) f")
    case (Inl e)
    then show thesis using assms g that(1) by (simp add: declare_prolongation_def Let_def)
  next
    case (Inr d)
    show thesis
    proof (cases b)
      case Save_Button
      then show thesis using assms g Inr that(2) by (auto simp: declare_prolongation_def Let_def)
    next
      case Preview_Button
      then show thesis using assms g Inr that(1)
        by (auto simp: declare_prolongation_def Let_def split: declared.splits if_splits)
    next
      case Other_Button
      then show thesis using assms g Inr that(1) by (simp add: declare_prolongation_def Let_def)
    qed
  qed
qed

lemma declare_prolongation_step:
  assumes "declare_prolongation ve st sf pm today now pms r k b f session db = Inr (x, session', db')"
  shows "one_step today x db db'"
  by (rule declare_prolongation_InrD [OF assms]) (auto simp: one_step_def intro: save_declaration_step)

lemma grant_request_step:
  assumes "grant_request now r k db = Inr (x, db')"
  shows "one_step today x db db'"
proof -
  obtain q where q: "get_received_request r k db = Inr q" using assms by (auto simp: grant_request_def)
  show ?thesis
    by (cases "grant now (us_pk (rq_user r)) q db")
      (use assms q in \<open>auto simp: grant_request_def one_step_def split: if_splits intro: approvals_step.granting\<close>)
qed

lemma deny_request_step:
  assumes "deny_request now r k f db = Inr (x, db')"
  shows "one_step today x db db'"
  using assms approvals_step.denying
  by (fastforce simp: deny_request_def one_step_def split: option.splits)

lemmas approval_request_steps = suspend_request_step suspension_update_request_step suspension_update_enddate_step
  suspension_delete_request_step declare_prolongation_step grant_request_step deny_request_step

lemma run_approval_post_step:
  assumes "run_approval_post env today now r p session db = Inr (x, session', db')"
  shows "one_step today x db db'"
  using assms by (cases p) (auto dest: keep_reports_Inr(1) intro: approval_request_steps)

lemma case_InrD: "(case v of Inl e \<Rightarrow> False | Inr x \<Rightarrow> P x) \<Longrightarrow> \<exists>x. v = Inr x \<and> P x"
  by (cases v) auto

section \<open>What a valid suspension form yields\<close>

definition suspensions_started :: "date \<Rightarrow> suspension list \<Rightarrow> bool" where
  "suspensions_started today ss \<longleftrightarrow> list_all (\<lambda>s. su_start_at s \<le> today) ss"

lemma suspension_form_clean_InrD:
  assumes "suspension_form_clean pm today now db a u siae inst f = Inr s"
  shows "su_start_at s \<le> su_end_at s" "su_end_at s \<le> suspension_get_max_end_at pm (su_start_at s)"
    "ap_start_at a \<le> su_start_at s" "su_start_at s \<le> ap_end_at a" "su_start_at s \<le> today"
    "su_reason s \<in> set (displayed_choices_for_siae (co_kind siae))"
    "next_min_start_at today db a u (map_option su_pk inst) (map_option (\<lambda>s. su_created_at s div one_day) inst)
       \<le> su_start_at s"
    "su_pk s = (case inst of None \<Rightarrow> 0 | Some t \<Rightarrow> su_pk t)"
    "su_approval s = (case inst of None \<Rightarrow> ap_pk a | Some t \<Rightarrow> su_approval t)"
    "su_created_by s = (case inst of None \<Rightarrow> None | Some t \<Rightarrow> su_created_by t)"
    "su_siae s = (case inst of None \<Rightarrow> Some (co_pk siae) | Some t \<Rightarrow> su_siae t)"
  using assms
  by (auto simp: suspension_form_clean_def suspension_clean_def new_suspension_def Let_def
      start_in_approval_boundaries_def split: option.splits)

lemma next_min_start_after_old:
  assumes "last_old_suspension today k a (db_suspensions db) = Some o'"
  shows "su_end_at o' < next_min_start_at today db a u k ref"
  using assms by (auto simp: next_min_start_at_def Let_def)

lemma last_old_ends_last:
  assumes ok: "suspension_table_ok ss" and t: "t \<in> set ss" "su_approval t = ap_pk a" "su_end_at t < today"
    and k: "Some (su_pk t) \<noteq> k"
  obtains o' where "last_old_suspension today k a ss = Some o'" "su_end_at t \<le> su_end_at o'"
proof -
  let ?xs = "filter (\<lambda>s. suspension_old today s \<and> Some (su_pk s) \<noteq> k) (suspension_set a ss)"
  have m: "t \<in> set ?xs" using t k by (simp add: suspension_set_def suspension_old_def)
  then have "order_last su_start_at ?xs \<noteq> None" by (metis order_last_None list.set(1) empty_iff)
  then obtain o' where o': "last_old_suspension today k a ss = Some o'"
    unfolding last_old_suspension_def by blast
  note D = order_last_SomeD [OF o' [unfolded last_old_suspension_def]]
  have o: "o' \<in> set ss" "su_approval o' = ap_pk a" using D by (auto simp: suspension_set_def)
  have le: "su_start_at t \<le> su_start_at o'" using D m by blast
  have "su_end_at t \<le> su_end_at o'"
  proof (cases "su_pk t = su_pk o'")
    case True
    then have "t = o'" using ok t(1) o(1) by (auto simp: suspension_table_ok_def distinct_map inj_on_def)
    then show ?thesis by simp
  next
    case False
    have bounds: "su_start_at t \<le> su_end_at t" "su_start_at o' \<le> su_end_at o'"
      using ok t(1) o(1) by (auto simp: suspension_table_ok_def list_all_iff)
    have "disjoint_from t o'" using ok t(1) o(1) False by (auto simp: suspension_table_ok_def no_overlap_iff)
    then have "\<not> overlaps_incl (su_start_at t) (su_end_at t) (su_start_at o') (su_end_at o')"
      using t(2) o(2) by (simp add: disjoint_from_def)
    then show ?thesis using bounds le by (auto simp: overlaps_incl_def)
  qed
  then show thesis using that o' by blast
qed

text \<open>All the other suspensions of the approval have ended before the date the form requires.\<close>

lemma form_start_after_others:
  assumes "suspension_table_ok ss" "ss = db_suspensions db" "t \<in> set ss" "su_approval t = ap_pk a"
    and "su_end_at t < today" "Some (su_pk t) \<noteq> k" "next_min_start_at today db a u k ref \<le> d"
  shows "su_end_at t < d"
  using last_old_ends_last [OF assms(1,3,4,5,6)] next_min_start_after_old assms(2,7)
  by (metis order_le_less_trans order_less_le_trans)

lemma not_suspended_old:
  assumes "\<not> is_suspended today a ss" "suspensions_started today ss" "t \<in> set ss" "su_approval t = ap_pk a"
  shows "su_end_at t < today"
  using assms by (auto simp: is_suspended_def suspension_set_def suspension_in_progress_def suspensions_started_def
      list_ex_iff list_all_iff)

lemma new_form_row_check:
  assumes ok: "suspension_table_ok (db_suspensions db)" and st: "suspensions_started today (db_suspensions db)"
    and c: "can_be_suspended_by_siae today db a u k"
    and f: "suspension_form_clean pm today now db a u siae None f = Inr s"
    and s': "su_start_at s' = su_start_at s" "su_end_at s' = su_end_at s" "su_approval s' = su_approval s"
  shows "suspension_row_check today (db_suspensions db) s' = Inr ()"
proof -
  note D = suspension_form_clean_InrD [OF f]
  have ns: "\<not> is_suspended today a (db_suspensions db)"
    using c by (simp add: can_be_suspended_by_siae_def can_be_suspended_def)
  have "su_end_at t < su_start_at s" if "t \<in> set (db_suspensions db)" "su_approval t = ap_pk a" for t
    using form_start_after_others [OF ok refl that not_suspended_old [OF ns st that], of None] D(7) by simp
  then show ?thesis
    using D(1,5,9) by (fastforce simp: suspension_row_check_def s' list_ex_iff overlaps_incl_def)
qed

lemma shift_succeeds:
  assumes "approval_table_ok (db_approvals db)" "get_row ap_pk k (db_approvals db) = Some a"
    "ap_start_at a < ap_end_at a + delta"
  obtains db' where "shift_end_at now k delta db = Inr db'"
proof -
  have a: "a \<in> set (db_approvals db)" "ap_pk a = k" using get_row_SomeD [OF assms(2)] by auto
  then have "approval_constraints a" using assms(1) by (auto simp: approval_table_ok_def list_all_iff)
  moreover have "ap_number x \<noteq> ap_number a" if "x \<in> set (db_approvals db)" "ap_pk x \<noteq> k" for x
    using assms(1) a that by (auto simp: approval_table_ok_def distinct_map inj_on_def)
  ultimately have "\<exists>db'. update_approval now (a\<lparr>ap_end_at := ap_end_at a + delta, ap_updated_at := now\<rparr>) db = Inr db'"
    using assms(2,3) a
    by (cases "dates_differ a (a\<lparr>ap_end_at := ap_end_at a + delta, ap_updated_at := now\<rparr>)")
      (auto simp: update_approval_def plan_pe_notification_def approval_constraints_def
        common_approval_constraints_def list_ex_iff guard_def)
  then show thesis using that assms(2) by (auto simp: shift_end_at_def)
qed

lemma approval_start_before_end:
  assumes "approval_table_ok (db_approvals db)" "get_row ap_pk k (db_approvals db) = Some a"
  shows "ap_start_at a < ap_end_at a"
  using assms get_row_SomeD [OF assms(2)]
  by (auto simp: approval_table_ok_def list_all_iff approval_constraints_def common_approval_constraints_def)

lemma get_hired_approval_InrD:
  assumes "get_hired_approval siae k db = Inr (a, u)" "approval_table_ok (db_approvals db)"
  shows "get_row ap_pk (ap_pk a) (db_approvals db) = Some a" "ap_pk a = k" "hired_by db (co_pk siae) k"
    "get_row us_pk (ap_user a) (db_users db) = Some u"
proof -
  have g: "get_row ap_pk k (filter (\<lambda>a. hired_by db (co_pk siae) (ap_pk a)) (db_approvals db)) = Some a"
    and u: "get_row us_pk (ap_user a) (db_users db) = Some u"
    using assms(1) by (auto simp: get_hired_approval_def user_of_approval_def split: option.splits)
  show "get_row us_pk (ap_user a) (db_users db) = Some u" by (rule u)
  note D = get_row_SomeD [OF g]
  then show pk: "ap_pk a = k" and "hired_by db (co_pk siae) k" by auto
  show "get_row ap_pk (ap_pk a) (db_approvals db) = Some a"
    using D assms(2) by (subst get_row_Some_iff) (auto simp: approval_table_ok_def)
qed

lemma insert_valid_suspension:
  assumes inv: "approvals_inv db" and st: "suspensions_started today (db_suspensions db)"
    and a: "get_row ap_pk (ap_pk a) (db_approvals db) = Some a"
    and c: "can_be_suspended_by_siae today db a u k"
    and f: "suspension_form_clean pm today now db a u siae None f = Inr s"
    and s1: "su_start_at s1 = su_start_at s" "su_end_at s1 = su_end_at s" "su_approval s1 = su_approval s"
  obtains db' where "insert_suspension today now s1 db = Inr db'"
    "db_suspensions db' = db_suspensions db @ [s1\<lparr>su_pk := next_pk su_pk (db_suspensions db)\<rparr>]"
    "end_of db' (ap_pk a) = Some (ap_end_at a + (su_end_at s - su_start_at s))"
proof -
  let ?r = "s1\<lparr>su_pk := next_pk su_pk (db_suspensions db)\<rparr>"
  let ?db = "db\<lparr>db_suspensions := db_suspensions db @ [?r]\<rparr>"
  note D = suspension_form_clean_InrD [OF f]
  have ap: "su_approval s1 = ap_pk a" using D(9) s1 by simp
  have ok: "suspension_table_ok (db_suspensions db)" "approval_table_ok (db_approvals db)"
    using inv by (auto simp: approvals_inv_def)
  have row: "suspension_row_check today (db_suspensions db) ?r = Inr ()"
    by (rule new_form_row_check [OF ok(1) st c f]) (simp_all add: s1)
  obtain db' where sh: "shift_end_at now (ap_pk a) (su_end_at s1 - su_start_at s1) ?db = Inr db'"
    by (rule shift_succeeds [of ?db "ap_pk a" a "su_end_at s1 - su_start_at s1"])
      (use ok(2) a D(1) s1 approval_start_before_end [OF ok(2) a] in auto)
  have "insert_suspension today now s1 db = Inr db'"
    using row sh a ap
    by (simp add: insert_suspension_def Let_def approval_exists_def suspension_trigger_insert_def guard_def)
  moreover have "end_of db' (ap_pk a) = Some (ap_end_at a + (su_end_at s - su_start_at s))"
    using shift_end_at_end(1) [OF sh] a by (simp add: end_of_def s1)
  ultimately show thesis using that shift_end_at_frame(1) [OF sh] by simp
qed

lemma suspend_request_succeeds:
  assumes inv: "approvals_inv db" and st: "suspensions_started today (db_suspensions db)"
    and g: "get_current_company_or_404 r = Inr siae" "get_hired_approval siae k db = Inr (a, u)"
    and c: "can_be_suspended_by_siae today db a u (co_pk siae)"
    and f: "suspension_form_clean pm today now db a u siae None f = Inr s"
  obtains db' where "suspend_request pm today now r k Save_Button f db = Inr (Recorded, db')"
    "db_suspensions db' = db_suspensions db @
       [s\<lparr>su_pk := next_pk su_pk (db_suspensions db), su_created_by := Some (us_pk (rq_user r))\<rparr>]"
    "end_of db' k = Some (ap_end_at a + (su_end_at s - su_start_at s))"
proof -
  note A = get_hired_approval_InrD [OF g(2)]
  have ok: "approval_table_ok (db_approvals db)" using inv by (simp add: approvals_inv_def)
  let ?s1 = "s\<lparr>su_created_by := Some (us_pk (rq_user r))\<rparr>"
  obtain db' where d: "insert_suspension today now ?s1 db = Inr db'"
    "db_suspensions db' = db_suspensions db @ [?s1\<lparr>su_pk := next_pk su_pk (db_suspensions db)\<rparr>]"
    "end_of db' (ap_pk a) = Some (ap_end_at a + (su_end_at s - su_start_at s))"
    by (rule insert_valid_suspension [OF inv st A(1) [OF ok] c f, of ?s1]) simp_all
  have "suspend_request pm today now r k Save_Button f db = Inr (Recorded, db')"
    using g c f d(1) by (simp add: suspend_request_def guard_def)
  then show thesis using that d(2,3) A(2) [OF ok] by simp
qed

section \<open>An edited suspension\<close>

lemma get_handled_suspension_InrD:
  assumes "get_handled_suspension today r k db = Inr (siae, s, a, u)"
  shows "get_current_company_or_404 r = Inr siae" "s \<in> set (db_suspensions db)" "su_pk s = k"
    "hired_by db (co_pk siae) (su_approval s)" "get_row ap_pk (su_approval s) (db_approvals db) = Some a"
    "ap_pk a = su_approval s" "get_row us_pk (ap_user a) (db_users db) = Some u"
    "suspension_in_progress today s" "last_hire_was_made_by_siae db u (co_pk siae)"
proof -
  have g: "get_current_company_or_404 r = Inr siae"
    "get_row su_pk k (filter (\<lambda>s. hired_by db (co_pk siae) (su_approval s)) (db_suspensions db)) = Some s"
    "approval_of_suspension s db = Inr a" "user_of_approval a db = Inr u"
    "can_be_handled_by_siae today db u (co_pk siae) s"
    using assms by (auto simp: get_handled_suspension_def split: option.splits)
  show "get_current_company_or_404 r = Inr siae" by (rule g)
  show "s \<in> set (db_suspensions db)" "su_pk s = k" "hired_by db (co_pk siae) (su_approval s)"
    using get_row_SomeD [OF g(2)] by auto
  show a: "get_row ap_pk (su_approval s) (db_approvals db) = Some a"
    using g(3) by (auto simp: approval_of_suspension_def split: option.splits)
  show "ap_pk a = su_approval s" using get_row_SomeD [OF a] by simp
  show "get_row us_pk (ap_user a) (db_users db) = Some u"
    using g(4) by (auto simp: user_of_approval_def split: option.splits)
  show "suspension_in_progress today s" "last_hire_was_made_by_siae db u (co_pk siae)"
    using g(5) by (auto simp: can_be_handled_by_siae_def)
qed

text \<open>While a suspension is in progress, the others of its approval ended before it started.\<close>

lemma others_of_suspension_in_progress:
  assumes "suspension_table_ok ss" "suspensions_started today ss" "s \<in> set ss" "suspension_in_progress today s"
    and "t \<in> set ss" "su_approval t = su_approval s" "su_pk t \<noteq> su_pk s"
  shows "su_end_at t < su_start_at s"
proof -
  have "disjoint_from s t" using assms(1,3,5,7) by (auto simp: suspension_table_ok_def no_overlap_iff)
  then have "\<not> overlaps_incl (su_start_at s) (su_end_at s) (su_start_at t) (su_end_at t)"
    using assms(6) by (simp add: disjoint_from_def)
  moreover have "su_start_at t \<le> su_end_at t" "su_start_at s \<le> su_end_at s" "su_start_at t \<le> today"
    using assms(1,2,3,5) by (auto simp: suspension_table_ok_def suspensions_started_def list_all_iff)
  ultimately show ?thesis using assms(4) by (auto simp: overlaps_incl_def suspension_in_progress_def)
qed

lemma edited_after_others:
  assumes ok: "suspension_table_ok (db_suspensions db)" and st: "suspensions_started today (db_suspensions db)"
    and h: "get_handled_suspension today r k db = Inr (siae, s, a, u)"
    and f: "suspension_form_clean pm today now db a u siae (Some s) f = Inr s1"
    and t: "t \<in> set (db_suspensions db)" "su_approval t = su_approval s" "su_pk t \<noteq> su_pk s"
  shows "su_end_at t < su_start_at s1"
proof -
  note H = get_handled_suspension_InrD [OF h]
  have "su_end_at t < su_start_at s" by (rule others_of_suspension_in_progress [OF ok st H(2,8) t])
  then have "su_end_at t < today" using H(8) by (simp add: suspension_in_progress_def)
  then show ?thesis
    using form_start_after_others [OF ok refl t(1), of a today "Some (su_pk s)"] t suspension_form_clean_InrD(7) [OF f] H(6) by simp
qed

lemma edited_row_check:
  assumes ok: "suspension_table_ok (db_suspensions db)" and st: "suspensions_started today (db_suspensions db)"
    and h: "get_handled_suspension today r k db = Inr (siae, s, a, u)"
    and f: "suspension_form_clean pm today now db a u siae (Some s) f = Inr s1"
    and s2: "su_start_at s2 = su_start_at s1" "su_end_at s2 = su_end_at s1" "su_approval s2 = su_approval s1"
  shows "suspension_row_check today (filter (\<lambda>t. su_pk t \<noteq> su_pk s) (db_suspensions db)) s2 = Inr ()"
  using edited_after_others [OF ok st h f] suspension_form_clean_InrD(1,5,9) [OF f]
  by (fastforce simp: suspension_row_check_def s2 list_ex_iff overlaps_incl_def)

text \<open>The update of a suspension: a valid form is recorded unless the approval would end before it starts.\<close>

lemma update_suspension_effect:
  assumes "suspension_table_ok (db_suspensions db)" "s \<in> set (db_suspensions db)" "su_pk s1 = su_pk s"
    "su_approval s1 = su_approval s" "get_row ap_pk (su_approval s) (db_approvals db) = Some a"
    "update_suspension today now s1 db = Inr db'"
  shows "db_suspensions db' = map_rows (\<lambda>t. su_pk t = su_pk s) (\<lambda>_. s1) (db_suspensions db)"
    "end_of db' (su_approval s) = Some (ap_end_at a + (su_end_at s1 - su_start_at s1) - (su_end_at s - su_start_at s))"
    "db_prolongations db' = db_prolongations db" "db_prolongation_requests db' = db_prolongation_requests db"
proof -
  have g: "get_row su_pk (su_pk s1) (db_suspensions db) = Some s"
    using assms(1,2,3) by (subst get_row_Some_iff) (auto simp: suspension_table_ok_def)
  note sh = update_suspension_InrD(2) [OF assms(6) g]
  show "db_suspensions db' = map_rows (\<lambda>t. su_pk t = su_pk s) (\<lambda>_. s1) (db_suspensions db)"
    using shift_end_at_frame(1) [OF sh] assms(3) by simp
  show "end_of db' (su_approval s) = Some (ap_end_at a + (su_end_at s1 - su_start_at s1) - (su_end_at s - su_start_at s))"
    using shift_end_at_end(1) [OF sh] assms(4,5) by (simp add: end_of_def suspension_duration_def algebra_simps)
  show "db_prolongations db' = db_prolongations db" "db_prolongation_requests db' = db_prolongation_requests db"
    using shift_end_at_frame [OF sh] by simp_all
qed

lemma suspension_update_succeeds:
  assumes inv: "approvals_inv db" and st: "suspensions_started today (db_suspensions db)"
    and h: "get_handled_suspension today r k db = Inr (siae, s, a, u)"
    and f: "suspension_form_clean pm today now db a u siae (Some s) f = Inr s1"
    and e: "ap_start_at a < ap_end_at a + (su_end_at s1 - su_start_at s1) - (su_end_at s - su_start_at s)"
  obtains db' where "suspension_update_request pm today now r k f db = Inr (Recorded, db')"
    "db_suspensions db' = map_rows (\<lambda>t. su_pk t = k)
       (\<lambda>_. s1\<lparr>su_updated_at := now, su_updated_by := Some (us_pk (rq_user r))\<rparr>) (db_suspensions db)"
    "end_of db' (ap_pk a) = Some (ap_end_at a + (su_end_at s1 - su_start_at s1) - (su_end_at s - su_start_at s))"
proof -
  let ?s = "s1\<lparr>su_updated_at := now, su_updated_by := Some (us_pk (rq_user r))\<rparr>"
  let ?db = "db\<lparr>db_suspensions := map_rows (\<lambda>t. su_pk t = su_pk ?s) (\<lambda>_. ?s) (db_suspensions db)\<rparr>"
  note H = get_handled_suspension_InrD [OF h]
  note D = suspension_form_clean_InrD [OF f]
  have ok: "suspension_table_ok (db_suspensions db)" "approval_table_ok (db_approvals db)"
    using inv by (auto simp: approvals_inv_def)
  have row: "suspension_row_check today (filter (\<lambda>t. su_pk t \<noteq> su_pk ?s) (db_suspensions db)) ?s = Inr ()"
    using edited_row_check [OF ok(1) st h f, of ?s] D(8) by simp
  have g: "get_row su_pk (su_pk ?s) (db_suspensions db) = Some s"
    using H(2) ok(1) D(8) by (subst get_row_Some_iff) (auto simp: suspension_table_ok_def)
  obtain db' where sh: "shift_end_at now (su_approval ?s) (- (su_end_at s - su_start_at s) + (su_end_at ?s - su_start_at ?s)) ?db = Inr db'"
    by (rule shift_succeeds [of ?db "su_approval ?s" a "- (su_end_at s - su_start_at s) + (su_end_at ?s - su_start_at ?s)"])
      (use ok(2) H(5) D(9) e in auto)
  have up: "update_suspension today now ?s db = Inr db'"
    using row g sh H(5) D(9) by (simp add: update_suspension_def approval_exists_def suspension_trigger_update_def guard_def)
  then have "suspension_update_request pm today now r k f db = Inr (Recorded, db')"
    using h f by (simp add: suspension_update_request_def)
  then show thesis
    using that update_suspension_effect(1,2) [OF ok(1) H(2) _ _ H(5) up] D(8,9) H(3,6) by simp
qed

text \<open>The new end date of a suspension.\<close>

lemma end_date_request_InrD:
  assumes "suspension_update_enddate today now r k d db = Inr (x, db')"
    and "approval_table_ok (db_approvals db)" "suspension_table_ok (db_suspensions db)"
  obtains "x = Page" "db' = db"
  | siae s a u day where "x = Recorded" "d = Some day" "get_handled_suspension today r k db = Inr (siae, s, a, u)"
      "su_start_at s < day" "day < su_end_at s"
      "db_suspensions db' = map_rows (\<lambda>t. su_pk t = k)
         (\<lambda>_. s\<lparr>su_end_at := day - 1, su_updated_at := now, su_updated_by := Some (us_pk (rq_user r))\<rparr>) (db_suspensions db)"
      "end_of db' (ap_pk a) = Some (ap_end_at a - (su_end_at s - (day - 1)))"
proof -
  obtain siae s a u where h: "get_handled_suspension today r k db = Inr (siae, s, a, u)"
    and c: "(case end_date_form_clean s d of
       Inl _ \<Rightarrow> Inr (Page, db)
     | Inr e \<Rightarrow>
         rbind (update_suspension today now
                  (s\<lparr>su_end_at := e - 1, su_updated_at := now, su_updated_by := Some (us_pk (rq_user r))\<rparr>) db)
           (\<lambda>db'. Inr (Recorded, db'))) = Inr (x, db')"
    using assms(1) by (auto simp: suspension_update_enddate_def)
  note H = get_handled_suspension_InrD [OF h]
  show thesis using c
  proof (rule form_cases)
    assume "x = Page" "db' = db" then show thesis by (rule that(1))
  next
    fix day assume day: "end_date_form_clean s d = Inr day"
      and u: "rbind (update_suspension today now
                  (s\<lparr>su_end_at := day - 1, su_updated_at := now, su_updated_by := Some (us_pk (rq_user r))\<rparr>) db)
           (\<lambda>db'. Inr (Recorded, db')) = Inr (x, db')"
    let ?s = "s\<lparr>su_end_at := day - 1, su_updated_at := now, su_updated_by := Some (us_pk (rq_user r))\<rparr>"
    have D: "d = Some day" "su_start_at s < day" "day < su_end_at s"
      using day by (auto simp: end_date_form_clean_def split: option.splits)
    have up: "update_suspension today now ?s db = Inr db'" and x: "x = Recorded" using u by auto
    have g: "get_row su_pk (su_pk ?s) (db_suspensions db) = Some s"
      using H(2) assms(3) by (subst get_row_Some_iff) (auto simp: suspension_table_ok_def)
    note sh = update_suspension_InrD(2) [OF up g]
    have "end_of db' (ap_pk a) = Some (ap_end_at a - (su_end_at s - (day - 1)))"
      using shift_end_at_end(1) [OF sh] H(5,6) by (simp add: end_of_def suspension_duration_def algebra_simps)
    moreover have "db_suspensions db' = map_rows (\<lambda>t. su_pk t = k) (\<lambda>_. ?s) (db_suspensions db)"
      using shift_end_at_frame(1) [OF sh] H(3) by simp
    ultimately show thesis using that(2) x D h by blast
  qed
qed

section \<open>Declarations\<close>

lemma as_prolongation_simps [simp]:
  "pl_approval (as_prolongation c) = pl_approval c" "pl_reason (as_prolongation c) = pl_reason c"
  "pl_report_file (as_prolongation c) = pl_report_file c"
  by (simp_all add: as_prolongation_def common_prolongation.defs)

lemma declared_prolongation_fields:
  assumes "prolongation_form_clean ve now pms db a siae saving f = Inr (Declared_Prolongation p)"
  shows "pl_approval p = ap_pk a" "pl_reason p \<in> set reasons_not_need_prescriber_opinion"
proof -
  obtain reason e where "df_reason f = Some reason" "reason \<in> set reasons_not_need_prescriber_opinion"
      "p = as_prolongation (base_prolongation now a siae reason e)"
    using assms by (auto simp: prolongation_form_clean_def create_prolongation_form_clean_def Let_def
        split: option.splits if_splits)
  then show "pl_approval p = ap_pk a" "pl_reason p \<in> set reasons_not_need_prescriber_opinion"
    by (simp_all add: base_prolongation_def)
qed

section \<open>What a recorded request may do\<close>

text \<open>The company the user acts for, one of its hirings, and the approval; a suspension in progress of an employee whose last
  hiring is that of the company.\<close>

definition acts_on_approval :: "request_infos \<Rightarrow> db \<Rightarrow> pk \<Rightarrow> company \<Rightarrow> approval \<Rightarrow> bool" where
  "acts_on_approval r db k c a \<longleftrightarrow>
     get_current_company_or_404 r = Inr c \<and> hired_by db (co_pk c) k \<and> get_row ap_pk k (db_approvals db) = Some a"

definition acts_on_suspension :: "date \<Rightarrow> request_infos \<Rightarrow> db \<Rightarrow> pk \<Rightarrow> suspension \<Rightarrow> approval \<Rightarrow> bool" where
  "acts_on_suspension today r db k s a \<longleftrightarrow>
     s \<in> set (db_suspensions db) \<and> su_pk s = k \<and> su_start_at s \<le> today \<and> today \<le> su_end_at s \<and>
     (\<exists>c u. acts_on_approval r db (su_approval s) c a \<and> us_pk u = ap_user a \<and> last_hire_was_made_by_siae db u (co_pk c))"

definition other_extensions_kept :: "db \<Rightarrow> db \<Rightarrow> bool" where
  "other_extensions_kept db db' \<longleftrightarrow>
     db_prolongations db' = db_prolongations db \<and> db_prolongation_requests db' = db_prolongation_requests db"

definition answers_request :: "request_infos \<Rightarrow> db \<Rightarrow> pk \<Rightarrow> prolongation_request \<Rightarrow> bool" where
  "answers_request r db k q \<longleftrightarrow> q \<in> set (db_prolongation_requests db) \<and> pl_pk q = k \<and>
     (\<exists>org. get_current_org_or_404 r = Inr org \<and> pl_prescriber_organization q = Some (po_pk org))"

definition answered :: "datetime \<Rightarrow> pk \<Rightarrow> prolongation_request_status \<Rightarrow> prolongation_request \<Rightarrow> db \<Rightarrow> prolongation_request list" where
  "answered now user status q db = map_rows (\<lambda>x. pl_pk x = pl_pk q)
     (\<lambda>_. q\<lparr>prq_status := status, prq_processed_by := Some user, prq_processed_at := Some now, pl_updated_by := Some user,
        pl_updated_at := now\<rparr>) (db_prolongation_requests db)"

fun recorded_effect :: "plus_months \<Rightarrow> date \<Rightarrow> datetime \<Rightarrow> request_infos \<Rightarrow> approval_post \<Rightarrow> db \<Rightarrow> db \<Rightarrow> bool" where
  "recorded_effect pm today now r (Post_Suspend k b f) db db' \<longleftrightarrow> b = Save_Button \<and>
     (\<exists>c a s. acts_on_approval r db k c a \<and> can_be_suspended today a (db_suspensions db) \<and>
        (\<exists>u. us_pk u = ap_user a \<and> last_hire_was_made_by_siae db u (co_pk c)) \<and>
        sf_start_at f = Some (su_start_at s) \<and> sf_reason f = Some (su_reason s) \<and> su_approval s = k \<and>
        su_siae s = Some (co_pk c) \<and> su_created_by s = Some (us_pk (rq_user r)) \<and>
        ap_start_at a \<le> su_start_at s \<and> su_start_at s \<le> ap_end_at a \<and> su_start_at s \<le> today \<and>
        su_end_at s \<le> suspension_get_max_end_at pm (su_start_at s) \<and>
        db_suspensions db' = db_suspensions db @ [s] \<and>
        end_of db' k = Some (ap_end_at a + (su_end_at s - su_start_at s)) \<and> other_extensions_kept db db')"
| "recorded_effect pm today now r (Post_Update k f) db db' \<longleftrightarrow>
     (\<exists>s a s1. acts_on_suspension today r db k s a \<and>
        sf_start_at f = Some (su_start_at s1) \<and> sf_reason f = Some (su_reason s1) \<and> su_pk s1 = k \<and>
        su_approval s1 = su_approval s \<and> su_siae s1 = su_siae s \<and> su_created_by s1 = su_created_by s \<and>
        su_updated_by s1 = Some (us_pk (rq_user r)) \<and> su_updated_at s1 = now \<and>
        ap_start_at a \<le> su_start_at s1 \<and> su_start_at s1 \<le> ap_end_at a \<and> su_start_at s1 \<le> today \<and>
        su_end_at s1 \<le> suspension_get_max_end_at pm (su_start_at s1) \<and>
        db_suspensions db' = map_rows (\<lambda>t. su_pk t = k) (\<lambda>_. s1) (db_suspensions db) \<and>
        end_of db' (su_approval s) =
          Some (ap_end_at a + (su_end_at s1 - su_start_at s1) - (su_end_at s - su_start_at s)) \<and> other_extensions_kept db db')"
| "recorded_effect pm today now r (Post_End_Date k d) db db' \<longleftrightarrow>
     (\<exists>s a day. acts_on_suspension today r db k s a \<and> d = Some day \<and> su_start_at s < day \<and> day < su_end_at s \<and>
        db_suspensions db' = map_rows (\<lambda>t. su_pk t = k)
          (\<lambda>_. s\<lparr>su_end_at := day - 1, su_updated_at := now, su_updated_by := Some (us_pk (rq_user r))\<rparr>) (db_suspensions db) \<and>
        end_of db' (su_approval s) = Some (ap_end_at a - (su_end_at s - (day - 1))) \<and> other_extensions_kept db db')"
| "recorded_effect pm today now r (Post_Delete k confirm) db db' \<longleftrightarrow> confirm \<and>
     (\<exists>s a. acts_on_suspension today r db k s a \<and>
        db_suspensions db' = filter (\<lambda>t. su_pk t \<noteq> k) (db_suspensions db) \<and>
        end_of db' (su_approval s) = Some (ap_end_at a - (su_end_at s - su_start_at s)) \<and> other_extensions_kept db db')"
| "recorded_effect pm today now r (Post_Declare k b f) db db' \<longleftrightarrow> b = Save_Button \<and>
     (\<exists>c a u reason. acts_on_approval r db k c a \<and> is_subject_to_iae_rules c \<and> us_pk u = ap_user a \<and>
        can_be_prolonged pm today a u db \<and> df_reason f = Some reason \<and> db_suspensions db' = db_suspensions db \<and>
        (if reason \<in> set reasons_not_need_prescriber_opinion then
           (\<exists>p. db_prolongations db' = db_prolongations db @ [p] \<and> pl_approval p = k \<and> pl_reason p = reason \<and>
              pl_start_at p = ap_end_at a \<and> pl_declared_by p = Some (us_pk (rq_user r)) \<and>
              pl_declared_by_siae p = Some (co_pk c) \<and> end_of db' k = Some (pl_end_at p) \<and>
              db_prolongation_requests db' = db_prolongation_requests db)
         else
           (\<exists>q. db_prolongation_requests db' = db_prolongation_requests db @ [q] \<and> pl_approval q = k \<and> pl_reason q = reason \<and>
              pl_start_at q = ap_end_at a \<and> df_end_at f = Some (pl_end_at q) \<and> pl_declared_by q = Some (us_pk (rq_user r)) \<and>
              pl_declared_by_siae q = Some (co_pk c) \<and> prq_status q = PR_PENDING \<and>
              pl_prescriber_organization q = df_prescriber_organization f \<and>
              db_prolongations db' = db_prolongations db \<and> db_approvals db' = db_approvals db)))"
| "recorded_effect pm today now r (Post_Grant k) db db' \<longleftrightarrow>
     (\<exists>q p. answers_request r db k q \<and> prq_status q \<noteq> PR_GRANTED \<and>
        db_prolongation_requests db' = answered now (us_pk (rq_user r)) PR_GRANTED q db \<and>
        db_prolongations db' = db_prolongations db @ [p] \<and> pl_request p = Some k \<and> pl_approval p = pl_approval q \<and>
        pl_start_at p = pl_start_at q \<and> pl_end_at p = pl_end_at q \<and> pl_reason p = pl_reason q \<and>
        pl_validated_by p = Some (us_pk (rq_user r)) \<and>
        end_of db' (pl_approval q) = map_option (\<lambda>e. e + (pl_end_at q - pl_start_at q)) (end_of db (pl_approval q)) \<and>
        db_suspensions db' = db_suspensions db)"
| "recorded_effect pm today now r (Post_Deny k f) db db' \<longleftrightarrow>
     (\<exists>q d. answers_request r db k q \<and> dn_reason f = Some (di_reason d) \<and> di_request d = k \<and>
        db_deny_informations db' = db_deny_informations db @ [d] \<and>
        db_prolongation_requests db' = answered now (us_pk (rq_user r)) PR_DENIED q db \<and>
        db_prolongations db' = db_prolongations db \<and> db_approvals db' = db_approvals db \<and>
        db_suspensions db' = db_suspensions db)"

lemma handled_acts:
  assumes "get_handled_suspension today r k db = Inr (siae, s, a, u)"
  shows "acts_on_suspension today r db k s a"
  using get_handled_suspension_InrD [OF assms] get_row_SomeD [of us_pk "ap_user a" "db_users db" u]
  unfolding acts_on_suspension_def acts_on_approval_def suspension_in_progress_def
  by (intro conjI exI [of _ siae] exI [of _ u]) auto

lemma suspension_form_fields:
  assumes "suspension_form_clean pm today now db a u siae inst f = Inr s"
  shows "sf_start_at f = Some (su_start_at s)" "sf_reason f = Some (su_reason s)"
  using assms by (auto simp: suspension_form_clean_def Let_def split: option.splits)

lemma suspend_recorded:
  assumes "suspend_request pm today now r k b f db = Inr (Recorded, db')" "approvals_inv db"
  shows "recorded_effect pm today now r (Post_Suspend k b f) db db'"
  using assms(1)
proof (cases rule: suspend_request_InrD)
  case (2 siae a u s)
  have ok: "approval_table_ok (db_approvals db)" using assms(2) by (simp add: approvals_inv_def)
  note A = get_hired_approval_InrD [OF 2(4) ok]
  note D = suspension_form_clean_InrD [OF 2(6)]
  let ?s = "s\<lparr>su_created_by := Some (us_pk (rq_user r)), su_pk := next_pk su_pk (db_suspensions db)\<rparr>"
  obtain s' where s': "s' = ?s" and sh: "shift_end_at now k (su_end_at s - su_start_at s)
      (db\<lparr>db_suspensions := db_suspensions db @ [s']\<rparr>) = Inr db'"
    by (rule insert_suspension_InrD [OF 2(7)]) (use A(2) D(9) in simp)
  have a: "acts_on_approval r db k siae a" using 2(3) A by (simp add: acts_on_approval_def)
  have u: "us_pk u = ap_user a \<and> last_hire_was_made_by_siae db u (co_pk siae)" "can_be_suspended today a (db_suspensions db)"
    using 2(5) get_row_SomeD [OF A(4)] by (simp_all add: can_be_suspended_by_siae_def)
  have e: "end_of db' k = Some (ap_end_at a + (su_end_at s - su_start_at s))" "db_suspensions db' = db_suspensions db @ [s']"
    "other_extensions_kept db db'"
    using shift_end_at_end(1) [OF sh] shift_end_at_frame [OF sh] A(1,2) by (simp_all add: end_of_def other_extensions_kept_def)
  show ?thesis unfolding recorded_effect.simps
    by (rule conjI [OF 2(2)], rule exI [of _ siae], rule exI [of _ a], rule exI [of _ s'])
      (use a u(2) u(1) e D A(2) suspension_form_fields [OF 2(6)] in \<open>simp add: s'; blast\<close>)
qed simp

lemma update_recorded:
  assumes "suspension_update_request pm today now r k f db = Inr (Recorded, db')" "approvals_inv db"
  shows "recorded_effect pm today now r (Post_Update k f) db db'"
proof -
  obtain siae s a u where h: "get_handled_suspension today r k db = Inr (siae, s, a, u)"
    using assms(1) by (auto simp: suspension_update_request_def)
  then obtain s1 where f: "suspension_form_clean pm today now db a u siae (Some s) f = Inr s1"
    using assms(1) by (cases "suspension_form_clean pm today now db a u siae (Some s) f") (auto simp: suspension_update_request_def)
  let ?s = "s1\<lparr>su_updated_at := now, su_updated_by := Some (us_pk (rq_user r))\<rparr>"
  have up: "update_suspension today now ?s db = Inr db'" using assms(1) h f by (auto simp: suspension_update_request_def)
  note H = get_handled_suspension_InrD [OF h]
  note D = suspension_form_clean_InrD [OF f]
  have ok: "suspension_table_ok (db_suspensions db)" using assms(2) by (simp add: approvals_inv_def)
  note E = update_suspension_effect [OF ok H(2) _ _ H(5) up]
  show ?thesis unfolding recorded_effect.simps
    by (rule exI [of _ s], rule exI [of _ a], rule exI [of _ ?s])
      (use E D H handled_acts [OF h] suspension_form_fields [OF f] in \<open>simp add: other_extensions_kept_def\<close>)
qed

lemma end_date_recorded:
  assumes "suspension_update_enddate today now r k d db = Inr (Recorded, db')" "approvals_inv db"
  shows "recorded_effect pm today now r (Post_End_Date k d) db db'"
proof -
  obtain siae s a u where h: "get_handled_suspension today r k db = Inr (siae, s, a, u)"
    using assms(1) by (auto simp: suspension_update_enddate_def)
  then obtain day where day: "end_date_form_clean s d = Inr day"
    using assms(1) by (cases "end_date_form_clean s d") (auto simp: suspension_update_enddate_def)
  let ?s = "s\<lparr>su_end_at := day - 1, su_updated_at := now, su_updated_by := Some (us_pk (rq_user r))\<rparr>"
  have up: "update_suspension today now ?s db = Inr db'" using assms(1) h day by (auto simp: suspension_update_enddate_def)
  note H = get_handled_suspension_InrD [OF h]
  have ok: "suspension_table_ok (db_suspensions db)" using assms(2) by (simp add: approvals_inv_def)
  note E = update_suspension_effect [OF ok H(2) _ _ H(5) up]
  have D: "d = Some day" "su_start_at s < day" "day < su_end_at s"
    using day by (auto simp: end_date_form_clean_def split: option.splits)
  show ?thesis unfolding recorded_effect.simps
    by (rule exI [of _ s], rule exI [of _ a], rule exI [of _ day])
      (use E D H handled_acts [OF h] in \<open>simp add: other_extensions_kept_def\<close>)
qed

lemma delete_recorded:
  assumes "suspension_delete_request today now r k c db = Inr (Recorded, db')"
  shows "recorded_effect pm today now r (Post_Delete k c) db db'"
proof -
  obtain siae s a u where h: "get_handled_suspension today r k db = Inr (siae, s, a, u)"
    using assms by (auto simp: suspension_delete_request_def)
  have del: "c" "delete_suspension now s db = Inr db'"
    using assms h by (auto simp: suspension_delete_request_def split: if_splits)
  note H = get_handled_suspension_InrD [OF h]
  note sh = del(2) [unfolded delete_suspension_def]
  have "end_of db' (su_approval s) = Some (ap_end_at a - (su_end_at s - su_start_at s))"
    using susp.del_end [OF del(2), of "su_approval s"] H(5) by (simp add: end_of_def suspension_duration_def)
  then show ?thesis unfolding recorded_effect.simps
    by (intro conjI [OF del(1)] exI [of _ s] exI [of _ a])
      (use H(3) handled_acts [OF h] shift_end_at_frame [OF sh] in \<open>simp add: other_extensions_kept_def\<close>)
qed

lemma declared_fields:
  assumes "prolongation_form_clean ve now pms db a siae saving f = Inr d"
  obtains (direct) reason e p where "df_reason f = Some reason" "reason \<in> set reasons_not_need_prescriber_opinion"
      "d = Declared_Prolongation p" "p = as_prolongation (base_prolongation now a siae reason e)"
  | (asked) reason e org q where "df_reason f = Some reason" "reason \<notin> set reasons_not_need_prescriber_opinion"
      "df_end_at f = Some e" "d = Declared_Request q" "df_prescriber_organization f = Some org"
      "pl_approval q = ap_pk a" "pl_start_at q = ap_end_at a" "pl_end_at q = e" "pl_reason q = reason"
      "pl_declared_by_siae q = Some (co_pk siae)" "pl_prescriber_organization q = Some org" "prq_status q = PR_PENDING"
proof -
  obtain reason where r: "df_reason f = Some reason"
    using assms by (cases "df_reason f") (auto simp: prolongation_form_clean_def create_prolongation_form_clean_def)
  show thesis
  proof (cases "reason \<in> set reasons_not_need_prescriber_opinion")
    case True
    then obtain p where p: "d = Declared_Prolongation p" "create_prolongation_form_clean now pms db a siae f = Inr p"
      using assms r by (auto simp: prolongation_form_clean_def)
    then obtain e where "p = as_prolongation (base_prolongation now a siae reason e)"
      using r by (auto simp: create_prolongation_form_clean_def Let_def split: option.splits)
    then show thesis using direct r True p(1) by blast
  next
    case False
    then obtain q where q: "d = Declared_Request q"
        "create_prolongation_request_form_clean ve now pms db a siae saving f = Inr q"
      using assms r by (auto simp: prolongation_form_clean_def)
    then obtain e v org where e: "df_end_at f = Some e" "request_fields_clean ve pms db siae saving f reason = Inr (v, org)"
      and qq: "q = as_request (us_pk v) ((base_prolongation now a siae reason e)\<lparr>pl_prescriber_organization := Some org,
                    pl_require_phone_interview := df_require_phone_interview f,
                    pl_contact_email := (if df_require_phone_interview f then py_strip (df_contact_email f) else []),
                    pl_contact_phone := (if df_require_phone_interview f then py_strip (df_contact_phone f) else [])\<rparr>)"
      using r by (auto simp: create_prolongation_request_form_clean_def Let_def split: option.splits)
    have "df_prescriber_organization f = Some org"
      using e(2) by (auto simp: request_fields_clean_def Let_def split: option.splits)
    then show thesis
      by (rule asked [OF r False e(1) q(1)])
        (simp_all add: qq as_request_def base_prolongation_def common_prolongation.defs)
  qed
qed

lemma as_prolongation_base [simp]:
  "pl_start_at (as_prolongation c) = pl_start_at c" "pl_end_at (as_prolongation c) = pl_end_at c"
  "pl_declared_by_siae (as_prolongation c) = pl_declared_by_siae c"
  by (simp_all add: as_prolongation_def common_prolongation.defs)

lemma declare_recorded:
  assumes "declare_prolongation ve st sf pm today now pms r k b f session db = Inr (Recorded, session', db')" "approvals_inv db"
  shows "recorded_effect pm today now r (Post_Declare k b f) db db'"
  using assms(1)
proof (cases rule: declare_prolongation_InrD)
  case (2 siae a u d report)
  have ok: "approval_table_ok (db_approvals db)" using assms(2) by (simp add: approvals_inv_def)
  note A = get_hired_approval_InrD [OF 2(4) ok]
  have act: "acts_on_approval r db k siae a" "us_pk u = ap_user a"
    using 2(3) A get_row_SomeD [OF A(4)] by (simp_all add: acts_on_approval_def)
  let ?user = "us_pk (rq_user r)"
  show ?thesis using 2(7)
  proof (cases rule: declared_fields)
    case (direct reason e p)
    let ?p = "p\<lparr>pl_created_by := Some ?user, pl_declared_by := Some ?user, pl_report_file := report\<rparr>"
    have ins: "insert_prolongation now ?p db = Inr db'" using 2(8) direct(3) by simp
    obtain p' where p': "p' = ?p\<lparr>pl_pk := next_pk pl_pk (db_prolongations db)\<rparr>"
      and sh: "shift_end_at now k (e - ap_end_at a) (db\<lparr>db_prolongations := db_prolongations db @ [p']\<rparr>) = Inr db'"
      by (rule insert_prolongation_InrD [OF ins])
        (use A(2) direct(4) in \<open>simp add: base_prolongation_def prolongation_duration_def\<close>)
    have e: "end_of db' k = Some (pl_end_at p')" "db_suspensions db' = db_suspensions db"
      "db_prolongations db' = db_prolongations db @ [p']" "db_prolongation_requests db' = db_prolongation_requests db"
      using shift_end_at_end(1) [OF sh] shift_end_at_frame [OF sh] A(1,2) direct(4)
      by (simp_all add: end_of_def p' base_prolongation_def)
    have "pl_approval p' = k" "pl_reason p' = reason" "pl_start_at p' = ap_end_at a" "pl_declared_by p' = Some ?user"
      "pl_declared_by_siae p' = Some (co_pk siae)"
      using direct(4) A(2) by (simp_all add: p' base_prolongation_def)
    then have d: "\<exists>p. db_prolongations db' = db_prolongations db @ [p] \<and> pl_approval p = k \<and> pl_reason p = reason \<and>
        pl_start_at p = ap_end_at a \<and> pl_declared_by p = Some ?user \<and> pl_declared_by_siae p = Some (co_pk siae) \<and>
        end_of db' k = Some (pl_end_at p) \<and> db_prolongation_requests db' = db_prolongation_requests db"
      using e by blast
    show ?thesis unfolding recorded_effect.simps
      by (intro conjI [OF 2(1)] exI [of _ siae] exI [of _ a] exI [of _ u] exI [of _ reason])
        (simp add: act 2(5,6) direct(1,2) e(2) d)
  next
    case (asked reason e org q)
    let ?q = "q\<lparr>pl_created_by := Some ?user, pl_declared_by := Some ?user, pl_report_file := report,
      pl_pk := next_pk pl_pk (db_prolongation_requests db)\<rparr>"
    have db': "db' = db\<lparr>db_prolongation_requests := db_prolongation_requests db @ [?q]\<rparr>"
      using 2(8) asked(4) by (auto simp: insert_prolongation_request_def Let_def)
    have d: "\<exists>q. db_prolongation_requests db' = db_prolongation_requests db @ [q] \<and> pl_approval q = k \<and> pl_reason q = reason \<and>
              pl_start_at q = ap_end_at a \<and> df_end_at f = Some (pl_end_at q) \<and> pl_declared_by q = Some ?user \<and>
              pl_declared_by_siae q = Some (co_pk siae) \<and> prq_status q = PR_PENDING \<and>
              pl_prescriber_organization q = df_prescriber_organization f \<and>
              db_prolongations db' = db_prolongations db \<and> db_approvals db' = db_approvals db"
      using asked A(2) by (intro exI [of _ ?q]) (simp add: db')
    have s: "db_suspensions db' = db_suspensions db" by (simp add: db')
    show ?thesis unfolding recorded_effect.simps
      by (intro conjI [OF 2(1)] exI [of _ siae] exI [of _ a] exI [of _ u] exI [of _ reason])
        (simp only: act 2(5,6) asked(1,2) s d if_False simp_thms)
  qed
qed simp

lemma received_answers:
  assumes "get_received_request r k db = Inr q"
  shows "answers_request r db k q"
  using assms get_row_SomeD by (fastforce simp: get_received_request_def answers_request_def split: option.splits)

lemma grant_recorded:
  assumes "grant_request now r k db = Inr (Recorded, db')"
  shows "recorded_effect pm today now r (Post_Grant k) db db'"
proof -
  obtain q where q: "get_received_request r k db = Inr q" using assms by (auto simp: grant_request_def)
  have g: "prq_status q \<noteq> PR_GRANTED" "grant now (us_pk (rq_user r)) q db = Inr db'"
    using assms q by (auto simp: grant_request_def split: if_splits sum.splits)
  have k: "pl_pk q = k" "q \<in> set (db_prolongation_requests db)" using received_answers [OF q] by (simp_all add: answers_request_def)
  let ?new = "from_prolongation_request now (process_request now (us_pk (rq_user r)) PR_GRANTED q)"
  obtain db1 where i: "insert_prolongation now ?new db = Inr db1"
    and db': "db' = db1\<lparr>db_prolongation_requests := map_rows (\<lambda>x. pl_pk x = pl_pk q)
      (\<lambda>_. (process_request now (us_pk (rq_user r)) PR_GRANTED q)\<lparr>pl_updated_at := now\<rparr>) (db_prolongation_requests db1)\<rparr>"
    by (rule grant_InrD [OF g(2)])
  obtain p where p: "p = ?new\<lparr>pl_pk := next_pk pl_pk (db_prolongations db)\<rparr>"
    and sh: "shift_end_at now (pl_approval ?new) (prolongation_duration ?new)
      (db\<lparr>db_prolongations := db_prolongations db @ [p]\<rparr>) = Inr db1"
    by (rule insert_prolongation_InrD [OF i])
  have e: "end_of db' (pl_approval q) = map_option (\<lambda>e. e + (pl_end_at q - pl_start_at q)) (end_of db (pl_approval q))"
    using prol.ins_end [OF i, of "pl_approval q"] by (simp add: db' end_of_def prolongation_duration_def)
  have "db_prolongation_requests db' = answered now (us_pk (rq_user r)) PR_GRANTED q db"
    using shift_end_at_frame [OF sh] by (simp add: db' answered_def process_request_def)
  then show ?thesis unfolding recorded_effect.simps
    by (intro exI [of _ q] exI [of _ p])
      (use received_answers [OF q] g(1) e shift_end_at_frame [OF sh] k(1) in \<open>simp add: db' p\<close>)
qed

lemma deny_recorded:
  assumes "deny_request now r k f db = Inr (Recorded, db')"
  shows "recorded_effect pm today now r (Post_Deny k f) db db'"
proof -
  obtain q where q: "get_received_request r k db = Inr q" using assms by (auto simp: deny_request_def)
  obtain d where d: "deny_cleaned_data f = Some d" "deny now (us_pk (rq_user r)) d q db = Inr db'"
    using assms q by (auto simp: deny_request_def split: option.splits)
  have k: "pl_pk q = k" using received_answers [OF q] by (simp add: answers_request_def)
  have reason: "dn_reason f = Some (di_reason d)"
    using d(1) by (auto simp: deny_cleaned_data_def split: option.splits if_splits list.splits)
  have db': "db' = db\<lparr>db_deny_informations := db_deny_informations db @ [d\<lparr>di_request := k\<rparr>],
      db_prolongation_requests := answered now (us_pk (rq_user r)) PR_DENIED q db\<rparr>"
    using d(2) k by (auto simp: deny_def Let_def insert_deny_information_def update_prolongation_request_def
        answered_def process_request_def)
  show ?thesis unfolding recorded_effect.simps
    by (intro exI [of _ q] exI [of _ "d\<lparr>di_request := k\<rparr>"]) (use received_answers [OF q] reason in \<open>simp add: db'\<close>)
qed

lemmas recorded_effects = suspend_recorded update_recorded end_date_recorded delete_recorded declare_recorded
  grant_recorded deny_recorded

lemma run_approval_post_effect:
  assumes "run_approval_post env today now r p session db = Inr (Recorded, session', db')" "approvals_inv db"
  shows "recorded_effect (ev_plus_months env) today now r p db db'"
proof (cases p)
  case (Post_Declare k b f)
  then show ?thesis using assms(1) declare_recorded [OF _ assms(2)] by (metis run_approval_post.simps(5))
qed (use assms keep_reports_Inr(1) recorded_effects in \<open>auto simp del: recorded_effect.simps\<close>)

end
