(* ===== verification/Approval_Pages.thy ===== *)
theory Approval_Pages
  imports Approval_Requests
begin

text \<open>
  What the pages on approvals show, and to whom: \<open>approvals/perms.py\<close>, the lists and the detail of
  \<open>www/approvals_views/views.py\<close> and the filters of \<open>ApprovalForm\<close>.
\<close>

section \<open>Who sees an approval\<close>

datatype approval_permission = PERMS_READ | PERMS_READ_AND_WRITE

definition applications_of_user :: "db \<Rightarrow> pk \<Rightarrow> job_application list" where
  "applications_of_user db u = filter (\<lambda>j. ja_job_seeker j = u) (db_job_applications db)"

text \<open>\<open>prescriptions_of(user, organization)\<close>, for each kind of organization.\<close>

definition prescriptions_of :: "user \<Rightarrow> organization option \<Rightarrow> job_application list \<Rightarrow> error + job_application list" where
  "prescriptions_of u org js =
     (if \<not> is_professional u then Inr []
      else case org of
        None \<Rightarrow> Inr (filter (\<lambda>j. ja_sender j = Some (us_pk u)) js)
      | Some (Of_Prescriber p) \<Rightarrow> Inr (filter (\<lambda>j. ja_sender j = Some (us_pk u) \<and> ja_sender_prescriber_organization j = None \<or>
          ja_sender_prescriber_organization j = Some (po_pk p)) js)
      | Some (Of_Company c) \<Rightarrow> Inr (filter (\<lambda>j. ja_sender_company j = Some (co_pk c) \<and> ja_to_company j \<noteq> co_pk c) js)
      | Some (Of_Institution i) \<Rightarrow> Inl (ValueError ''Invalid organization kind''))"

definition assignment_organization :: "organization option \<Rightarrow> organization_ref option" where
  "assignment_organization org = (case org of
     Some (Of_Prescriber p) \<Rightarrow> Some (PRESCRIBER_ORG (po_pk p))
   | Some (Of_Company c) \<Rightarrow> Some (COMPANY_ORG (co_pk c))
   | _ \<Rightarrow> None)"

definition can_view_approval_details :: "request_infos \<Rightarrow> approval \<Rightarrow> db \<Rightarrow> error + approval_permission option" where
  "can_view_approval_details r a db =
     (let org = rq_current_organization r; js = applications_of_user db (ap_user a) in
      if rq_from_employer r then
        (let states = map ja_state (filter (\<lambda>j. case org of Some (Of_Company c) \<Rightarrow> ja_to_company j = co_pk c | _ \<Rightarrow> False) js)
         in if states \<noteq> [] then
              Inr (Some (if JA_ACCEPTED \<in> set states then PERMS_READ_AND_WRITE else PERMS_READ))
            else rbind (prescriptions_of (rq_user r) org js) (\<lambda>ps.
              Inr (if ps \<noteq> [] then Some PERMS_READ else None)))
      else if rq_from_prescriber r then
        Inr (if rq_from_authorized_prescriber r \<and>
               assigned_job_seeker_ids (us_pk (rq_user r)) (assignment_organization org) False None (users_db.truncate db) \<noteq> []
             then Some PERMS_READ else None)
      else if is_job_seeker (rq_user r) then
        Inr (if ap_user a = us_pk (rq_user r) then Some PERMS_READ else None)
      else Inr None)"

section \<open>The detail of an approval\<close>

definition suspension_duration_before_approval_deletable :: days where
  "suspension_duration_before_approval_deletable = 365"

definition long_suspensions :: "date \<Rightarrow> approval \<Rightarrow> db \<Rightarrow> suspension list" where
  "long_suspensions today a db =
     filter (\<lambda>s. suspension_duration_before_approval_deletable <
         (if suspension_in_progress today s then today - su_start_at s else suspension_duration s))
       (suspension_set a (db_suspensions db))"

definition last_hiring_start_at :: "approval \<Rightarrow> db \<Rightarrow> date option" where
  "last_hiring_start_at a db =
     order_last id (List.map_filter ja_hiring_start_at
       (filter (\<lambda>j. af_approval (ja_accepted j) = Some (ap_pk a)) (accepted_applications (db_job_applications db))))"

definition deletion_form_shown :: "date \<Rightarrow> request_infos \<Rightarrow> approval \<Rightarrow> db \<Rightarrow> bool" where
  "deletion_form_shown today r a db =
     (if \<not> (rq_from_employer r \<and> approval_is_in_progress today a) then False
      else (let long = long_suspensions today a db in
        if list_ex (suspension_in_progress today) long then True
        else if long \<noteq> [] then
          (case last_hiring_start_at a db of
             None \<Rightarrow> True
           | Some d \<Rightarrow> list_ex (\<lambda>s. d < su_end_at s) long)
        else False))"

datatype shown_prolongation = Shown_Prolongation prolongation | Shown_Request prolongation_request

fun shown_start_at :: "shown_prolongation \<Rightarrow> date" where
  "shown_start_at (Shown_Prolongation p) = pl_start_at p"
| "shown_start_at (Shown_Request q) = pl_start_at q"

text \<open>The prolongations, then the requests no prolongation comes from; the latest first.\<close>

definition get_prolongation_and_requests :: "approval \<Rightarrow> db \<Rightarrow> shown_prolongation list" where
  "get_prolongation_and_requests a db =
     sort_key (\<lambda>p. - shown_start_at p)
       (map Shown_Prolongation
          (sort_key (\<lambda>p. - pl_start_at p) (filter (\<lambda>p. pl_approval p = ap_pk a) (db_prolongations db))) @
        map Shown_Request
          (sort_key (\<lambda>q. - pl_created_at q)
             (filter (\<lambda>q. pl_approval q = ap_pk a \<and> \<not> list_ex (\<lambda>p. pl_request p = Some (pl_pk q)) (db_prolongations db))
                (db_prolongation_requests db))))"

definition prolongation_request_pending :: "shown_prolongation list \<Rightarrow> bool" where
  "prolongation_request_pending ps =
     list_ex (\<lambda>p. case p of Shown_Prolongation _ \<Rightarrow> False | Shown_Request q \<Rightarrow> prq_status q = PR_PENDING) ps"

definition get_suspensions :: "date \<Rightarrow> request_infos \<Rightarrow> approval \<Rightarrow> user \<Rightarrow> db \<Rightarrow> (suspension \<times> bool) list" where
  "get_suspensions today r a u db =
     map (\<lambda>s. (s, rq_from_employer r \<and> (case rq_current_organization r of
           Some (Of_Company c) \<Rightarrow> can_be_handled_by_siae today db u (co_pk c) s | _ \<Rightarrow> False)))
       (sort_key (\<lambda>s. - su_start_at s) (suspension_set a (db_suspensions db)))"

record approval_detail =
  ad_is_employer_with_accepted_application :: bool
  ad_can_view_contracts :: bool
  ad_can_view_personal_information :: bool
  ad_deletion_form :: bool
  ad_suspensions :: "(suspension \<times> bool) list"
  ad_prolongations :: "shown_prolongation list"
  ad_request_pending :: bool
  ad_can_be_suspended :: bool
  ad_can_be_prolonged :: bool

definition current_company_test :: "request_infos \<Rightarrow> (company \<Rightarrow> bool) \<Rightarrow> bool" where
  "current_company_test r p \<longleftrightarrow> rq_from_employer r \<and>
     (case rq_current_organization r of Some (Of_Company c) \<Rightarrow> p c | _ \<Rightarrow> False)"

definition can_view_contracts :: "request_infos \<Rightarrow> bool" where
  "can_view_contracts r \<longleftrightarrow> rq_from_authorized_prescriber r \<or> rq_from_employer r"

definition approval_detail_view ::
  "plus_months \<Rightarrow> date \<Rightarrow> request_infos \<Rightarrow> pk \<Rightarrow> db \<Rightarrow> error + approval_detail" where
  "approval_detail_view plus_months today r k db =
     rbind (check_request (\<lambda>r. rq_from_prescriber r \<or> rq_from_employer r \<or> is_job_seeker (rq_user r)) r) (\<lambda>_.
     case get_row ap_pk k (db_approvals db) of
       None \<Rightarrow> Inl Http404
     | Some a \<Rightarrow>
         rbind (user_of_approval a db) (\<lambda>u.
         rbind (can_view_approval_details r a db) (\<lambda>permission.
         rbind (guard (permission \<noteq> None) PermissionDenied) (\<lambda>_.
         let shown = get_prolongation_and_requests a db
         in Inr \<lparr>ad_is_employer_with_accepted_application = (permission = Some PERMS_READ_AND_WRITE),
              ad_can_view_contracts = can_view_contracts r,
              ad_can_view_personal_information = can_view_personal_information r u,
              ad_deletion_form = deletion_form_shown today r a db,
              ad_suspensions = get_suspensions today r a u db,
              ad_prolongations = shown,
              ad_request_pending = prolongation_request_pending shown,
              ad_can_be_suspended = current_company_test r (\<lambda>c. can_be_suspended_by_siae today db a u (co_pk c)),
              ad_can_be_prolonged = current_company_test r (\<lambda>c. is_subject_to_iae_rules c \<and>
                can_be_prolonged plus_months today a u db)\<rparr>))))"

section \<open>The list of the approvals of an employer\<close>

text \<open>\<open>_add_contract_data\<close>: the latest end of a contract of the employee with the company, an open contract ending
  today, that overlaps the approval; then the latest end of an accepted application, where the order of PostgreSQL puts a
  missing end first; then the end of the approval.\<close>

definition contract_ends :: "date \<Rightarrow> contract list \<Rightarrow> company \<Rightarrow> approval \<Rightarrow> date list" where
  "contract_ends today cs siae a =
     List.map_filter (\<lambda>c.
       (let e = (case ct_end_date c of None \<Rightarrow> today | Some d \<Rightarrow> d)
        in if ct_job_seeker c = Some (ap_user a) \<and> ct_company c = Some (co_pk siae) \<and>
              \<not> e < ap_start_at a \<and> \<not> ap_end_at a < ct_start_date c then Some e else None)) cs"

definition contract_end_at :: "date \<Rightarrow> contract list \<Rightarrow> company \<Rightarrow> db \<Rightarrow> approval \<Rightarrow> date" where
  "contract_end_at today cs siae db a =
     (case order_last id (contract_ends today cs siae a) of
        Some e \<Rightarrow> e
      | None \<Rightarrow>
          (let ends = map ja_hiring_end_at (filter (\<lambda>j. ja_state j = JA_ACCEPTED \<and> ja_to_company j = co_pk siae \<and>
                        af_approval (ja_accepted j) = Some (ap_pk a)) (db_job_applications db))
           in if None \<in> set ends then ap_end_at a
              else case order_last id (List.map_filter id ends) of Some e \<Rightarrow> e | None \<Rightarrow> ap_end_at a))"

datatype contract_status = CONTRACT_ONGOING | CONTRACT_ENDED | CONTRACT_ALL

datatype approval_expiry = LESS_THAN_1_MONTH | LESS_THAN_3_MONTHS | LESS_THAN_7_MONTHS | EXPIRY_ALL

fun expiry_months :: "approval_expiry \<Rightarrow> int option" where
  "expiry_months LESS_THAN_1_MONTH = Some 1"
| "expiry_months LESS_THAN_3_MONTHS = Some 3"
| "expiry_months LESS_THAN_7_MONTHS = Some 7"
| "expiry_months EXPIRY_ALL = None"

record approval_filters =
  lf_job_seeker :: "pk option"
  lf_status_valid :: bool
  lf_status_suspended :: bool
  lf_status_future :: bool
  lf_status_expired :: bool
  lf_expiry :: approval_expiry
  lf_contract_status :: contract_status

definition end_of_contract_days_of_grace :: days where "end_of_contract_days_of_grace = 90"

text \<open>No status chosen lets every approval through.  In the negation of the filter on suspensions, Django looks for the two
  conditions in two subqueries: the start and the end may be those of two suspensions.\<close>

definition suspension_dates_found :: "date \<Rightarrow> approval \<Rightarrow> suspension list \<Rightarrow> bool" where
  "suspension_dates_found today a ss \<longleftrightarrow>
     list_ex (\<lambda>s. su_start_at s \<le> today) (suspension_set a ss) \<and> list_ex (\<lambda>s. today \<le> su_end_at s) (suspension_set a ss)"

definition status_filter :: "date \<Rightarrow> approval_filters \<Rightarrow> db \<Rightarrow> approval \<Rightarrow> bool" where
  "status_filter today f db a =
     (let suspended = is_suspended today a (db_suspensions db);
          chosen = (if lf_status_valid f then [ap_start_at a \<le> today \<and> today \<le> ap_end_at a \<and> \<not> suspension_dates_found today a (db_suspensions db)] else []) @
                   (if lf_status_suspended f then [suspended] else []) @
                   (if lf_status_future f then [today < ap_start_at a] else []) @
                   (if lf_status_expired f then [ap_end_at a < today] else [])
      in chosen = [] \<or> True \<in> set chosen)"

definition get_qs_filters ::
  "plus_months \<Rightarrow> date \<Rightarrow> approval_filters \<Rightarrow> contract list \<Rightarrow> company \<Rightarrow> db \<Rightarrow> approval \<Rightarrow> bool" where
  "get_qs_filters plus_months today f cs siae db a \<longleftrightarrow>
     (case lf_job_seeker f of None \<Rightarrow> True | Some u \<Rightarrow> ap_user a = u) \<and>
     status_filter today f db a \<and>
     (case expiry_months (lf_expiry f) of None \<Rightarrow> True
      | Some m \<Rightarrow> ap_end_at a < plus_months m today \<and> today \<le> ap_end_at a) \<and>
     (case lf_contract_status f of
        CONTRACT_ALL \<Rightarrow> True
      | CONTRACT_ONGOING \<Rightarrow> today - end_of_contract_days_of_grace \<le> contract_end_at today cs siae db a
      | CONTRACT_ENDED \<Rightarrow> contract_end_at today cs siae db a < today - end_of_contract_days_of_grace)"

text \<open>\<open>ApprovalListView\<close>: the approvals on which the company has accepted an application, filtered when the form is
  valid.\<close>

definition approval_list_view ::
  "plus_months \<Rightarrow> date \<Rightarrow> request_infos \<Rightarrow> approval_filters option \<Rightarrow> contract list \<Rightarrow> db \<Rightarrow> error + approval list" where
  "approval_list_view plus_months today r f cs db =
     rbind (get_current_company_or_404 r) (\<lambda>siae.
     rbind (guard (is_subject_to_iae_rules siae) PermissionDenied) (\<lambda>_.
     Inr (sort_key (\<lambda>a. - ap_created_at a) (filter (\<lambda>a. hired_by db (co_pk siae) (ap_pk a) \<and>
       (case f of None \<Rightarrow> True | Some v \<Rightarrow> get_qs_filters plus_months today v cs siae db a)) (db_approvals db)))))"

definition prolongation_requests_list :: "request_infos \<Rightarrow> bool \<Rightarrow> db \<Rightarrow> error + prolongation_request list" where
  "prolongation_requests_list r only_pending db =
     rbind (get_current_org_or_404 r) (\<lambda>org.
     rbind (guard (is_authorized org) Http404) (\<lambda>_.
     Inr (sort_key (\<lambda>q. - pl_created_at q)
       (filter (\<lambda>q. pl_prescriber_organization q = Some (po_pk org) \<and> (\<not> only_pending \<or> prq_status q = PR_PENDING))
         (db_prolongation_requests db)))))"

text \<open>The view compares the key of the organization with the keys of all the organizations of the user, whatever their
  kind.\<close>

definition prolongation_request_report_file :: "request_infos \<Rightarrow> pk \<Rightarrow> db \<Rightarrow> error + string" where
  "prolongation_request_report_file r k db =
     rbind (check_request rq_from_prescriber r) (\<lambda>_.
     case get_row pl_pk k (filter (\<lambda>q. pl_report_file q \<noteq> None) (db_prolongation_requests db)) of
        None \<Rightarrow> Inl Http404
      | Some q \<Rightarrow>
          (case (pl_report_file q, pl_prescriber_organization q) of
             (Some file, Some org) \<Rightarrow>
               if org \<in> set (List.map_filter (\<lambda>x. case x of Of_Prescriber p \<Rightarrow> Some (po_pk p) | Of_Company c \<Rightarrow> Some (co_pk c)
                    | Of_Institution i \<Rightarrow> Some (in_pk i)) (rq_organizations r))
               then Inr file else Inl Http404
           | _ \<Rightarrow> Inl Http404))"

section \<open>Lemmas\<close>

text \<open>No suspension starts in the future, so the two subqueries find the suspension in progress or nothing.\<close>

lemma suspension_dates_found_iff:
  assumes "list_all (\<lambda>s. su_start_at s \<le> today) ss"
  shows "suspension_dates_found today a ss \<longleftrightarrow> is_suspended today a ss"
  using assms by (auto simp: suspension_dates_found_def is_suspended_def suspension_in_progress_def suspension_set_def
      list_ex_iff list_all_iff)

lemma prescriber_permission:
  assumes "\<not> rq_from_employer r" "rq_from_prescriber r"
  shows "can_view_approval_details r a db = Inr (if rq_from_authorized_prescriber r \<and>
      assigned_job_seeker_ids (us_pk (rq_user r)) (assignment_organization (rq_current_organization r)) False None
        (users_db.truncate db) \<noteq> [] then Some PERMS_READ else None)"
  using assms by (simp add: can_view_approval_details_def Let_def)

lemma employer_permission_iff:
  assumes "rq_from_employer r" "rq_current_organization r = Some (Of_Company c)" "is_professional (rq_user r)"
  shows "\<exists>p. can_view_approval_details r a db = Inr p \<and>
    (p = None \<longleftrightarrow> (\<forall>j \<in> set (db_job_applications db). ja_job_seeker j = ap_user a \<longrightarrow>
       ja_to_company j \<noteq> co_pk c \<and> ja_sender_company j \<noteq> Some (co_pk c))) \<and>
    (p = Some PERMS_READ_AND_WRITE \<longleftrightarrow> (\<exists>j \<in> set (db_job_applications db).
       ja_job_seeker j = ap_user a \<and> ja_to_company j = co_pk c \<and> ja_state j = JA_ACCEPTED))"
proof -
  let ?js = "filter (\<lambda>j. ja_to_company j = co_pk c) (applications_of_user db (ap_user a))"
  let ?sent = "filter (\<lambda>j. ja_sender_company j = Some (co_pk c) \<and> ja_to_company j \<noteq> co_pk c) (applications_of_user db (ap_user a))"
  have v: "can_view_approval_details r a db = Inr (if ?js \<noteq> [] then
      Some (if JA_ACCEPTED \<in> ja_state ` set ?js then PERMS_READ_AND_WRITE else PERMS_READ)
      else if ?sent \<noteq> [] then Some PERMS_READ else None)"
    using assms by (simp add: can_view_approval_details_def prescriptions_of_def Let_def)
  have js: "?js = [] \<longleftrightarrow> (\<forall>j \<in> set (db_job_applications db). ja_job_seeker j = ap_user a \<longrightarrow> ja_to_company j \<noteq> co_pk c)"
    "?sent = [] \<longleftrightarrow> (\<forall>j \<in> set (db_job_applications db). ja_job_seeker j = ap_user a \<longrightarrow>
       ja_sender_company j = Some (co_pk c) \<longrightarrow> ja_to_company j = co_pk c)"
    "JA_ACCEPTED \<in> ja_state ` set ?js \<longleftrightarrow> (\<exists>j \<in> set (db_job_applications db).
       ja_job_seeker j = ap_user a \<and> ja_to_company j = co_pk c \<and> ja_state j = JA_ACCEPTED)"
    by (auto simp: applications_of_user_def filter_empty_conv image_iff)
  show ?thesis unfolding v js by (rule exI, rule conjI [OF refl]) auto
qed

text \<open>The view opens when a permission is found, with the actions of an employer for the permission to write.\<close>

lemma detail_view_cases:
  assumes "get_row ap_pk k (db_approvals db) = Some a" "get_row us_pk (ap_user a) (db_users db) = Some u"
    and "rq_from_prescriber r \<or> rq_from_employer r \<or> is_job_seeker (rq_user r)"
  obtains (error) e where "can_view_approval_details r a db = Inl e" "approval_detail_view pm today r k db = Inl e"
  | (refused) "can_view_approval_details r a db = Inr None" "approval_detail_view pm today r k db = Inl PermissionDenied"
  | (opened) p d where "can_view_approval_details r a db = Inr (Some p)" "approval_detail_view pm today r k db = Inr d"
      "ad_is_employer_with_accepted_application d \<longleftrightarrow> p = PERMS_READ_AND_WRITE"
proof (cases "can_view_approval_details r a db")
  case (Inl e)
  then show thesis using error assms by (simp add: approval_detail_view_def check_request_def user_of_approval_def guard_def)
next
  case (Inr v)
  show thesis
  proof (cases v)
    case None
    then show thesis using refused Inr assms by (simp add: approval_detail_view_def check_request_def user_of_approval_def guard_def)
  next
    case (Some p)
    then show thesis using opened [of p] Inr assms
      by (simp add: approval_detail_view_def check_request_def user_of_approval_def guard_def Let_def)
  qed
qed

end
