(* ===== verification/Approval_Request_Properties.thy ===== *)
theory Approval_Request_Properties
  imports Approval_Request_Effects Approval_Pages Application_Request_Properties
begin

text \<open>The properties of the requests on approvals.\<close>


definition hired_application :: job_application where
  "hired_application = sample_application\<lparr>ja_state := JA_ACCEPTED,
     ja_accepted := empty_accepted_fields\<lparr>af_approval := Some 1\<rparr>\<rparr>"

definition hired_db :: db where
  "hired_db = sample_db\<lparr>db_job_applications := [hired_application]\<rparr>"

definition sample_suspension_form :: suspension_form where
  "sample_suspension_form = \<lparr>sf_start_at = Some 180, sf_end_at = Some (Some 240), sf_set_default_end_date = False,
     sf_reason = Some BROKEN_CONTRACT, sf_reason_explanation = []\<rparr>"

definition thirty_days :: plus_months where "thirty_days m d = d + 30 * m"

definition sample_env :: approval_env where
  "sample_env = \<lparr>ev_valid_email = (\<lambda>_. True), ev_store = (\<lambda>n. n), ev_save_file = (\<lambda>n. n), ev_plus_months = thirty_days,
     ev_memberships = [\<lparr>mb_user = 2, mb_organization = 1, mb_joined_at = 0, mb_is_admin = True,
       mb_is_active = True, mb_updated_by = None\<rparr>]\<rparr>"

definition after_suspension :: db where
  "after_suspension = (case suspend_request thirty_days 200 5 sample_employer 1 Save_Button sample_suspension_form hired_db of
     Inr (_, db) \<Rightarrow> db | Inl _ \<Rightarrow> hired_db)"




text \<open>The form of a new suspension does not look at the exclusion constraint of the table, and yet
  the request that saves a valid form never breaks it: once the employer may suspend the PASS IAE, the row is inserted,
  signed by the user, and the end of the PASS IAE moves by the length of the suspension.\<close>

lemma valid_suspension_is_recorded:
  assumes "approvals_inv db" and "suspensions_started today (db_suspensions db)"
    and "get_current_company_or_404 r = Inr siae" and "get_hired_approval siae k db = Inr (a, u)"
    and "can_be_suspended_by_siae today db a u (co_pk siae)"
    and "suspension_form_clean plus_months today now db a u siae None f = Inr s"
  shows "\<exists>db'. suspend_request plus_months today now r k Save_Button f db = Inr (Recorded, db') \<and>
    db_suspensions db' = db_suspensions db @
      [s\<lparr>su_pk := next_pk su_pk (db_suspensions db), su_created_by := Some (us_pk (rq_user r))\<rparr>] \<and>
    end_of db' k = Some (ap_end_at a + (su_end_at s - su_start_at s))"
  using suspend_request_succeeds [OF assms] by metis

text \<open>C11.  The row a valid form yields for a suspension being edited is one the table accepts: it starts not
  in the future and between the start of the PASS IAE and the end it has before the edition (which counts the days of the suspension being
  edited), lasts at most the longest duration from its start, has a reason offered to the employer and starts after every other
  suspension of the PASS IAE has ended.  When the PASS IAE is longer than the suspension being edited, the request that saves the form
  always records it: only that row changes, signed by the user, and the end of the PASS IAE moves by the change of the length.\<close>

theorem edited_suspension_fits:
  assumes "approvals_inv db" and "suspensions_started today (db_suspensions db)"
    and "get_handled_suspension today r k db = Inr (siae, s, a, u)"
    and "suspension_form_clean plus_months today now db a u siae (Some s) f = Inr s1"
  shows "suspension_row_check today (filter (\<lambda>t. su_pk t \<noteq> su_pk s) (db_suspensions db)) s1 = Inr () \<and>
    su_pk s1 = k \<and> su_approval s1 = ap_pk a \<and> ap_start_at a \<le> su_start_at s1 \<and> su_start_at s1 \<le> ap_end_at a \<and>
    su_start_at s1 \<le> today \<and> su_end_at s1 \<le> suspension_get_max_end_at plus_months (su_start_at s1) \<and>
    su_reason s1 \<in> set (displayed_choices_for_siae (co_kind siae)) \<and>
    (\<forall>t \<in> set (db_suspensions db). su_approval t = ap_pk a \<longrightarrow> su_pk t \<noteq> k \<longrightarrow> su_end_at t < su_start_at s1) \<and>
    (ap_start_at a < ap_end_at a - (su_end_at s - su_start_at s) \<longrightarrow>
      (\<exists>db'. suspension_update_request plus_months today now r k f db = Inr (Recorded, db') \<and>
        db_suspensions db' = map_rows (\<lambda>t. su_pk t = k)
          (\<lambda>_. s1\<lparr>su_updated_at := now, su_updated_by := Some (us_pk (rq_user r))\<rparr>) (db_suspensions db) \<and>
        end_of db' (ap_pk a) = Some (ap_end_at a + (su_end_at s1 - su_start_at s1) - (su_end_at s - su_start_at s))))"
proof -
  have ok: "suspension_table_ok (db_suspensions db)" using assms(1) by (simp add: approvals_inv_def)
  note D = suspension_form_clean_InrD [OF assms(4)]
  note H = get_handled_suspension_InrD [OF assms(3)]
  have row: "suspension_row_check today (filter (\<lambda>t. su_pk t \<noteq> su_pk s) (db_suspensions db)) s1 = Inr ()"
    by (rule edited_row_check [OF ok assms(2-4) refl refl refl])
  have others: "su_end_at t < su_start_at s1"
    if "t \<in> set (db_suspensions db)" "su_approval t = ap_pk a" "su_pk t \<noteq> k" for t
    using edited_after_others [OF ok assms(2-4)] that H(3,6) by simp
  have saved: "\<exists>db'. suspension_update_request plus_months today now r k f db = Inr (Recorded, db') \<and>
        db_suspensions db' = map_rows (\<lambda>t. su_pk t = k)
          (\<lambda>_. s1\<lparr>su_updated_at := now, su_updated_by := Some (us_pk (rq_user r))\<rparr>) (db_suspensions db) \<and>
        end_of db' (ap_pk a) = Some (ap_end_at a + (su_end_at s1 - su_start_at s1) - (su_end_at s - su_start_at s))"
    if "ap_start_at a < ap_end_at a - (su_end_at s - su_start_at s)"
    by (rule suspension_update_succeeds [OF assms]) (use that D(1) in auto)
  show ?thesis using row others saved D H(3,6) by simp
qed

definition sample_longer_form :: suspension_form where
  "sample_longer_form = sample_suspension_form\<lparr>sf_start_at := Some 150, sf_end_at := Some (Some 300)\<rparr>"

theorem edited_suspension_fits_witness:
  "case get_handled_suspension 210 sample_employer 1 after_suspension of
     Inr (siae, s, a, u) \<Rightarrow> (case suspension_form_clean thirty_days 210 6 after_suspension a u siae (Some s) sample_longer_form of
       Inr s1 \<Rightarrow> suspension_row_check 210 [] s1 = Inr () \<and> su_end_at s1 = 300 \<and>
         (\<exists>db'. suspension_update_request thirty_days 210 6 sample_employer 1 sample_longer_form after_suspension = Inr (Recorded, db'))
     | Inl _ \<Rightarrow> False)
   | Inl _ \<Rightarrow> False"
proof -
  have run: "case get_handled_suspension 210 sample_employer 1 after_suspension of
     Inr (siae, s, a, u) \<Rightarrow> (case suspension_form_clean thirty_days 210 6 after_suspension a u siae (Some s) sample_longer_form of
       Inr s1 \<Rightarrow> su_end_at s1 = 300 \<and> filter (\<lambda>t. su_pk t \<noteq> su_pk s) (db_suspensions after_suspension) = [] \<and>
         ap_start_at a < ap_end_at a - (su_end_at s - su_start_at s) | Inl _ \<Rightarrow> False)
   | Inl _ \<Rightarrow> False"
    by code_simp
  have inv: "approvals_inv after_suspension" "suspensions_started 210 (db_suspensions after_suspension)" by code_simp+
  from run obtain siae s a u s1 where h: "get_handled_suspension 210 sample_employer 1 after_suspension = Inr (siae, s, a, u)"
    and f: "suspension_form_clean thirty_days 210 6 after_suspension a u siae (Some s) sample_longer_form = Inr s1"
    and e: "su_end_at s1 = 300" "filter (\<lambda>t. su_pk t \<noteq> su_pk s) (db_suspensions after_suspension) = []"
      "ap_start_at a < ap_end_at a - (su_end_at s - su_start_at s)"
    by (auto dest!: case_InrD)
  from edited_suspension_fits [OF inv h f] e have "suspension_row_check 210 [] s1 = Inr ()"
    "\<exists>db'. suspension_update_request thirty_days 210 6 sample_employer 1 sample_longer_form after_suspension = Inr (Recorded, db')"
    by auto
  then show ?thesis unfolding h using e(1) by (simp add: f)
qed

text \<open>The end the form compares the start with counts the days of the suspension being edited, which the save gives back: a suspension of
  180 days from day 720 can be edited into days 800 to 810 of a PASS IAE that then ends on day 739.\<close>

definition late_suspension_db :: db where
  "late_suspension_db = hired_db\<lparr>db_approvals := map (\<lambda>a. a\<lparr>ap_end_at := 909\<rparr>) (db_approvals hired_db),
     db_suspensions := [sample_suspension\<lparr>su_pk := 1, su_start_at := 720, su_end_at := 900\<rparr>]\<rparr>"

definition late_form :: suspension_form where
  "late_form = sample_suspension_form\<lparr>sf_start_at := Some 800, sf_end_at := Some (Some 810)\<rparr>"

lemma edited_suspension_after_pass:
  "case suspension_update_request thirty_days 805 6 sample_employer 1 late_form late_suspension_db of
     Inr (x, db) \<Rightarrow> x = Recorded \<and> map su_start_at (db_suspensions db) = [800] \<and> end_of db 1 = Some 739
   | Inl _ \<Rightarrow> False"
  by code_simp

text \<open>Recording the day an employee is back at work ends the suspension the day before: the day lies
  strictly inside the suspension in progress, only that row changes, it is signed by the user, and the PASS IAE loses exactly the days
  the suspension gives up.\<close>

lemma back_to_work_shortens_pass:
  assumes "approvals_inv db" and "suspension_update_enddate today now r k d db = Inr (Recorded, db')"
  shows "\<exists>siae s a u day. get_handled_suspension today r k db = Inr (siae, s, a, u) \<and> d = Some day \<and>
    su_start_at s < day \<and> day < su_end_at s \<and>
    db_suspensions db' = map_rows (\<lambda>t. su_pk t = k)
      (\<lambda>_. s\<lparr>su_end_at := day - 1, su_updated_at := now, su_updated_by := Some (us_pk (rq_user r))\<rparr>) (db_suspensions db) \<and>
    end_of db' (ap_pk a) = Some (ap_end_at a - (su_end_at s - (day - 1)))"
proof -
  have ok: "approval_table_ok (db_approvals db)" "suspension_table_ok (db_suspensions db)"
    using assms(1) by (auto simp: approvals_inv_def)
  show ?thesis by (rule end_date_request_InrD [OF assms(2) ok]) auto
qed

text \<open>A report file uploaded at a preview stays in the session until the declaration is saved: once the
  employer of an AI has previewed a reason that takes a report, saving a valid declaration whose reason takes none fails on the
  constraint of the table instead of recording the prolongation.\<close>

lemma kept_report_blocks_declaration:
  assumes "get_current_company_or_404 r = Inr siae" and "get_hired_approval siae k db = Inr (a, u)"
    and "is_subject_to_iae_rules siae" and "can_be_prolonged plus_months today a u db" and "co_kind siae = AI"
    and "prolongation_form_clean valid_email now pms db a siae True f = Inr (Declared_Prolongation p)"
    and "approval_exists (ap_pk a) db" and "session (co_pk siae, ap_pk a) = Some name"
  shows "declare_prolongation valid_email store save_file plus_months today now pms r k Save_Button f session db =
    Inl (IntegrityError ''reason_and_report_file_coherence'')"
proof -
  have p: "pl_approval p = ap_pk a" "pl_reason p \<in> set reasons_not_need_prescriber_opinion"
    by (rule declared_prolongation_fields [OF assms(6)])+
  then have "pl_reason p \<notin> set prolongation_report_file_reasons"
    by (auto simp: reasons_not_need_prescriber_opinion_def prolongation_report_file_reasons_def)
  then show ?thesis using assms p(1)
    by (simp add: declare_prolongation_def guard_def Let_def insert_prolongation_def prolongation_row_check_def
        report_file_constraint_def)
qed

definition ai_company :: company where "ai_company = sample_company\<lparr>co_kind := AI\<rparr>"

definition ai_employer :: request_infos where
  "ai_employer = sample_employer\<lparr>rq_current_organization := Some (Of_Company ai_company)\<rparr>"

definition ai_db :: db where "ai_db = hired_db\<lparr>db_companies := [ai_company]\<rparr>"

definition report_form :: prolongation_form where
  "report_form = \<lparr>df_reason = Some RQTH, df_end_at = Some 800, df_email = ''pro@x.fr'', df_prescriber_organization = Some 1,
     df_require_phone_interview = False, df_contact_email = [], df_contact_phone = [],
     df_report_file = Some \<lparr>uf_name = ''bilan'', uf_bytes = 10, uf_is_xlsx = True\<rparr>\<rparr>"

definition training_form :: prolongation_form where
  "training_form = report_form\<lparr>df_reason := Some COMPLETE_TRAINING, df_report_file := None\<rparr>"

definition declare_sample ::
  "submit_button \<Rightarrow> prolongation_form \<Rightarrow> report_session \<Rightarrow> db \<Rightarrow> error + (approval_answer \<times> report_session \<times> db)" where
  "declare_sample = declare_prolongation (ev_valid_email sample_env) (ev_store sample_env) (ev_save_file sample_env)
     thirty_days 700 8 (ev_memberships sample_env) ai_employer 1"

definition is_prolongation :: "declared \<Rightarrow> bool" where
  "is_prolongation d = (case d of Declared_Prolongation p \<Rightarrow> True | Declared_Request q \<Rightarrow> False)"

lemma is_prolongationD: "is_prolongation d \<Longrightarrow> \<exists>p. d = Declared_Prolongation p"
  by (cases d) (auto simp: is_prolongation_def)

text \<open>C12.  Who opens the detail of a PASS IAE.  A professional acting for a company opens it exactly when the
  company received an application of the owner of the PASS IAE or sent one to another company, with the actions of an employer
  exactly when the company accepted one; a job seeker opens their own, and no other; a prescriber without
  authorization opens none.  Anybody refused gets the answer 403.\<close>

theorem approval_details_viewers:
  assumes "get_row ap_pk k (db_approvals db) = Some a" and "get_row us_pk (ap_user a) (db_users db) = Some u"
  shows "(rq_from_employer r \<and> rq_current_organization r = Some (Of_Company c) \<and> is_professional (rq_user r) \<longrightarrow>
      (case approval_detail_view plus_months today r k db of
         Inr d \<Rightarrow> (\<exists>j \<in> set (db_job_applications db). ja_job_seeker j = ap_user a \<and>
             (ja_to_company j = co_pk c \<or> ja_sender_company j = Some (co_pk c))) \<and>
           (ad_is_employer_with_accepted_application d \<longleftrightarrow> (\<exists>j \<in> set (db_job_applications db).
             ja_job_seeker j = ap_user a \<and> ja_to_company j = co_pk c \<and> ja_state j = JA_ACCEPTED))
       | Inl e \<Rightarrow> e = PermissionDenied \<and> (\<forall>j \<in> set (db_job_applications db). ja_job_seeker j = ap_user a \<longrightarrow>
             ja_to_company j \<noteq> co_pk c \<and> ja_sender_company j \<noteq> Some (co_pk c)))) \<and>
    (\<not> rq_from_employer r \<and> \<not> rq_from_prescriber r \<and> is_job_seeker (rq_user r) \<longrightarrow>
      (case approval_detail_view plus_months today r k db of
         Inr d \<Rightarrow> ap_user a = us_pk (rq_user r) \<and> \<not> ad_is_employer_with_accepted_application d
       | Inl e \<Rightarrow> e = PermissionDenied \<and> ap_user a \<noteq> us_pk (rq_user r))) \<and>
    (\<not> rq_from_employer r \<and> rq_from_prescriber r \<and> \<not> rq_from_authorized_prescriber r \<longrightarrow>
      approval_detail_view plus_months today r k db = Inl PermissionDenied)"
proof (intro conjI impI; (elim conjE)?)
  assume h: "rq_from_employer r" "rq_current_organization r = Some (Of_Company c)" "is_professional (rq_user r)"
  have t: "rq_from_prescriber r \<or> rq_from_employer r \<or> is_job_seeker (rq_user r)" using h(1) by simp
  show "case approval_detail_view plus_months today r k db of
         Inr d \<Rightarrow> (\<exists>j \<in> set (db_job_applications db). ja_job_seeker j = ap_user a \<and>
             (ja_to_company j = co_pk c \<or> ja_sender_company j = Some (co_pk c))) \<and>
           (ad_is_employer_with_accepted_application d \<longleftrightarrow> (\<exists>j \<in> set (db_job_applications db).
             ja_job_seeker j = ap_user a \<and> ja_to_company j = co_pk c \<and> ja_state j = JA_ACCEPTED))
       | Inl e \<Rightarrow> e = PermissionDenied \<and> (\<forall>j \<in> set (db_job_applications db). ja_job_seeker j = ap_user a \<longrightarrow>
             ja_to_company j \<noteq> co_pk c \<and> ja_sender_company j \<noteq> Some (co_pk c))"
    by (rule detail_view_cases [OF assms t, of plus_months today]; insert employer_permission_iff [OF h, of a db]; auto)
next
  assume h: "\<not> rq_from_employer r" "\<not> rq_from_prescriber r" "is_job_seeker (rq_user r)"
  have t: "rq_from_prescriber r \<or> rq_from_employer r \<or> is_job_seeker (rq_user r)" using h(3) by simp
  have "can_view_approval_details r a db = Inr (if ap_user a = us_pk (rq_user r) then Some PERMS_READ else None)"
    using h by (simp add: can_view_approval_details_def Let_def)
  then show "case approval_detail_view plus_months today r k db of
         Inr d \<Rightarrow> ap_user a = us_pk (rq_user r) \<and> \<not> ad_is_employer_with_accepted_application d
       | Inl e \<Rightarrow> e = PermissionDenied \<and> ap_user a \<noteq> us_pk (rq_user r)"
    by (rule_tac detail_view_cases [OF assms t, of plus_months today]) (auto split: if_splits)
next
  assume h: "\<not> rq_from_employer r" "rq_from_prescriber r" "\<not> rq_from_authorized_prescriber r"
  have t: "rq_from_prescriber r \<or> rq_from_employer r \<or> is_job_seeker (rq_user r)" using h(2) by simp
  show "approval_detail_view plus_months today r k db = Inl PermissionDenied"
    by (rule detail_view_cases [OF assms t, of plus_months today]) (use prescriber_permission [OF h(1,2)] h(3) in auto)
qed

definition advising_prescriber :: request_infos where
  "advising_prescriber = (anonymous_infos sample_professional)\<lparr>rq_from_prescriber := True, rq_from_authorized_prescriber := True,
     rq_current_organization := Some (Of_Prescriber sample_org)\<rparr>"

text \<open>The only job seeker assigned to the prescriber is not the owner of the PASS IAE.\<close>

definition other_job_seeker_db :: db where
  "other_job_seeker_db = sample_db\<lparr>db_users := [sample_user, sample_professional, sample_user\<lparr>us_pk := 3\<rparr>],
     db_assignments := [\<lparr>as_created_at = 0, as_updated_at = 0, as_job_seeker = 3, as_professional = 2,
       as_prescriber_organization = Some 1, as_company = None, as_last_action_kind = ACT_CREATE,
       as_assigned_to_unknown_advisor = False\<rparr>]\<rparr>"

theorem approval_details_viewers_witness:
  "case approval_detail_view thirty_days 200 sample_employer 1 hired_db of
     Inr d \<Rightarrow> ad_is_employer_with_accepted_application d | Inl _ \<Rightarrow> False"
proof -
  obtain a u c where g: "get_row ap_pk 1 (db_approvals hired_db) = Some a" "get_row us_pk (ap_user a) (db_users hired_db) = Some u"
      "rq_current_organization sample_employer = Some (Of_Company c)"
    and j: "\<exists>j \<in> set (db_job_applications hired_db). ja_job_seeker j = ap_user a \<and> ja_to_company j = co_pk c \<and>
      ja_state j = JA_ACCEPTED"
  proof -
    have "get_row ap_pk 1 (db_approvals hired_db) = Some sample_approval" by code_simp
    moreover have "get_row us_pk (ap_user sample_approval) (db_users hired_db) = Some sample_user" by code_simp
    moreover have "rq_current_organization sample_employer = Some (Of_Company sample_company)" by code_simp
    moreover have "\<exists>j \<in> set (db_job_applications hired_db). ja_job_seeker j = ap_user sample_approval \<and>
      ja_to_company j = co_pk sample_company \<and> ja_state j = JA_ACCEPTED" by code_simp
    ultimately show thesis by (rule that)
  qed
  have "rq_from_employer sample_employer" "is_professional (rq_user sample_employer)" by code_simp+
  with approval_details_viewers [OF g(1,2), of sample_employer c thirty_days 200] g(3) j show ?thesis
    by (auto split: sum.splits)
qed

text \<open>For a prescriber the code only asks that a job seeker be assigned to them, not that this job seeker be the owner of the PASS IAE.\<close>

lemma prescriber_sees_others:
  "can_view_approval_details advising_prescriber (sample_approval\<lparr>ap_user := 99\<rparr>) other_job_seeker_db = Inr (Some PERMS_READ)"
  "assigned_job_seeker_ids 2 (Some (PRESCRIBER_ORG 1)) False None (users_db.truncate other_job_seeker_db) = [3]"
  by code_simp+

text \<open>The prescriber may answer again: a request already granted can still be denied, which keeps the prolongation it gave and
  the end of the PASS IAE; a second refusal then fails on the table of the refusals.\<close>

definition granted_sample :: "error + (approval_answer \<times> db)" where
  "granted_sample = grant_request 9 ((anonymous_infos sample_professional)\<lparr>rq_from_prescriber := True,
       rq_current_organization := Some (Of_Prescriber sample_org)\<rparr>) 1
     (hired_db\<lparr>db_prolongation_requests := [sample_request]\<rparr>)"

definition refused_by_sample :: "db \<Rightarrow> error + (approval_answer \<times> db)" where
  "refused_by_sample = deny_request 10 ((anonymous_infos sample_professional)\<lparr>rq_from_prescriber := True,
       rq_current_organization := Some (Of_Prescriber sample_org)\<rparr>) 1
     \<lparr>dn_reason = Some DENY_SIAE, dn_reason_explanation = ''no'', dn_proposed_actions = [],
      dn_proposed_actions_explanation = []\<rparr>"

lemma granted_then_denied:
  "case granted_sample of
     Inr (_, db1) \<Rightarrow> (case refused_by_sample db1 of
       Inr (_, db2) \<Rightarrow> map prq_status (db_prolongation_requests db2) = [PR_DENIED] \<and>
         map pl_request (db_prolongations db2) = [Some 1] \<and> map ap_end_at (db_approvals db2) = [1000] \<and>
         (case refused_by_sample db2 of Inl e \<Rightarrow> e = IntegrityError ''request_id'' | Inr _ \<Rightarrow> False)
     | Inl _ \<Rightarrow> False)
   | Inl _ \<Rightarrow> False"
  by code_simp

end
