(* ===== verification/Phones.thy ===== *)
theory Phones
  imports Py_Strings
begin

text \<open>
  \<open>utils/phone.py\<close>: the normal form of a French phone number, on ASCII strings, where \<open>\D\<close> removes all but the ten
  digits.
\<close>

definition only_digits :: "string \<Rightarrow> string" where
  "only_digits s = filter is_digit s"

definition normalize_phone_number :: "string \<Rightarrow> string option" where
  "normalize_phone_number phone_number =
     (if phone_number = [] then None
      else
        (let normalized = py_strip phone_number;
             result =
               (if startswith normalized ''+33'' then
                  (let rest = only_digits (drop 3 normalized)
                   in if rest \<noteq> [] then CHR ''0'' # rest else normalized)
                else
                  (let digits = only_digits normalized
                   in if startswith digits ''0033'' then CHR ''0'' # drop 4 digits else digits))
         in if length result = 10 \<and> startswith result ''0'' then Some result else None))"

text \<open>A number is normal when it has ten digits and starts with a zero.\<close>

definition normal_phone :: "string \<Rightarrow> bool" where
  "normal_phone p \<longleftrightarrow> length p = 10 \<and> all_digits p \<and> startswith p ''0''"

lemma all_digits_only_digits [simp]: "all_digits (only_digits s)"
  by (simp add: only_digits_def all_digits_def list_all_iff)

lemma only_digits_id: "all_digits s \<Longrightarrow> only_digits s = s"
  by (simp add: only_digits_def all_digits_def list_all_iff)

lemma all_digits_drop: "all_digits s \<Longrightarrow> all_digits (drop n s)"
  by (metis all_digits_simps(3) append_take_drop_id)

lemma normalize_phone_normal:
  assumes "normalize_phone_number p = Some n"
  shows "normal_phone n"
proof -
  let ?s = "py_strip p"
  have len: "length n = 10" "startswith n ''0''"
    using assms by (auto simp: normalize_phone_number_def Let_def split: if_splits)
  have "all_digits n"
  proof (cases "startswith ?s ''+33''")
    case True
    show ?thesis
    proof (cases "only_digits (drop 3 ?s) = []")
      case h: True
      then have "n = ?s" "length ?s = 10" "startswith ?s ''0''"
        using assms True by (auto simp: normalize_phone_number_def Let_def split: if_splits)
      then show ?thesis using True by (cases ?s) (auto simp: startswith_def)
    next
      case False
      then have "n = CHR ''0'' # only_digits (drop 3 ?s)"
        using assms True by (auto simp: normalize_phone_number_def Let_def split: if_splits)
      then show ?thesis by (simp add: is_digit_def)
    qed
  next
    case False
    then have "n = (if startswith (only_digits ?s) ''0033'' then CHR ''0'' # drop 4 (only_digits ?s) else only_digits ?s)"
      using assms by (auto simp: normalize_phone_number_def Let_def split: if_splits)
    then show ?thesis by (simp add: is_digit_def all_digits_drop)
  qed
  then show ?thesis using len by (simp add: normal_phone_def)
qed

end
