(* ===== verification/Insertion.thy ===== *)
theory Insertion
  imports Wizard Requests Phones Schema "HOL-Library.Product_Lexorder"
begin

text \<open>
  The insertion services: \<open>insertion/models.py\<close>, \<open>insertion/utils.py\<close>, \<open>users/perms.py\<close> and the views and forms of
  \<open>www/insertion_views\<close> that write.  A service is described by the fields the decisions read; references to items of
  data inclusion are their values.
\<close>

section \<open>Services\<close>

record insertion_service =
  sv_uid :: string
  sv_source :: string
  sv_structure :: pk
  sv_is_active :: bool
  sv_is_orientable_with_form :: bool
  sv_external_link :: string
  sv_beneficiaries_external_link :: string
  sv_access_conditions_di :: string
  sv_access_conditions_dora :: "string list"
  sv_credentials :: "string list"
  sv_mobilizations :: "string list"
  sv_modes_professionals :: "string list"
  sv_modes_professionals_other :: string
  sv_modes_beneficiaries :: "string list"
  sv_modes_beneficiaries_other :: string
  sv_thematics :: "string list"
  sv_receptions :: "string list"
  sv_service_kind :: "string option"
  sv_eligibility_zones :: "string list"
  sv_city :: string

definition is_dora :: "insertion_service \<Rightarrow> bool" where
  "is_dora s \<longleftrightarrow> sv_source s = ''dora''"

text \<open>\<open>split\<close> on the two characters backslash and n, as the imported text writes its line ends.\<close>

fun split_lines :: "string \<Rightarrow> string \<Rightarrow> string list" where
  "split_lines [] acc = [rev acc]"
| "split_lines [c] acc = [rev (c # acc)]"
| "split_lines (c # d # s) acc =
     (if c = CHR 0x5C \<and> d = CHR ''n'' then rev acc # split_lines s [] else split_lines (d # s) (c # acc))"

definition prerequisites :: "insertion_service \<Rightarrow> string list" where
  "prerequisites s =
     (if is_dora s then sv_access_conditions_dora s @ sv_credentials s
      else filter (\<lambda>l. l \<noteq> []) (split_lines (sv_access_conditions_di s) []))"

definition should_mobilize_via_external_link :: "insertion_service \<Rightarrow> bool" where
  "should_mobilize_via_external_link s \<longleftrightarrow> \<not> is_dora s \<and> sv_external_link s \<noteq> []"

definition has_orientation_action :: "string list \<Rightarrow> insertion_service \<Rightarrow> bool" where
  "has_orientation_action non_orientable s \<longleftrightarrow>
     (sv_is_orientable_with_form s \<and> sv_source s \<notin> set non_orientable) \<or> sv_external_link s \<noteq> []"

definition has_mobilization_modes :: "insertion_service \<Rightarrow> bool" where
  "has_mobilization_modes s \<longleftrightarrow>
     (\<not> is_dora s \<and> sv_mobilizations s \<noteq> []) \<or>
     (is_dora s \<and> (sv_modes_professionals s \<noteq> [] \<or> sv_external_link s \<noteq> [] \<or> sv_modes_professionals_other s \<noteq> [] \<or>
        sv_modes_beneficiaries s \<noteq> [] \<or> sv_beneficiaries_external_link s \<noteq> [] \<or> sv_modes_beneficiaries_other s \<noteq> []))"

text \<open>The search.  \<open>distance s\<close> is the distance in meters of a service with coordinates to the city; \<open>in_person_value\<close> and
  \<open>remote_value\<close> are the values data inclusion gives to the two receptions.\<close>

definition service_search_radius_m :: nat where "service_search_radius_m = 50000"

record found_service =
  fs_service :: insertion_service
  fs_distance :: nat
  fs_is_in_person :: bool
  fs_is_remote :: bool

definition eligible_zone :: "string list \<Rightarrow> insertion_service \<Rightarrow> bool" where
  "eligible_zone codes s \<longleftrightarrow>
     sv_eligibility_zones s = [] \<or> list_ex (\<lambda>z. z \<in> set (filter (\<lambda>c. c \<noteq> []) codes)) (sv_eligibility_zones s)"

definition candidate_services ::
  "(string \<Rightarrow> nat option) \<Rightarrow> string list \<Rightarrow> string list \<Rightarrow> insertion_service list \<Rightarrow> (insertion_service \<times> nat) list" where
  "candidate_services distance thematics kinds ss =
     List.map_filter (\<lambda>s. case distance (sv_uid s) of
         None \<Rightarrow> None
       | Some d \<Rightarrow>
           if sv_is_active s \<and> list_ex (\<lambda>t. t \<in> set thematics) (sv_thematics s) \<and> sv_city s \<noteq> [] \<and>
              (kinds = [] \<or> (case sv_service_kind s of None \<Rightarrow> False | Some k \<Rightarrow> k \<in> set kinds))
           then Some (s, d) else None) ss"

definition search ::
  "string \<Rightarrow> string \<Rightarrow> (string \<Rightarrow> nat option) \<Rightarrow> string list \<Rightarrow> string list \<Rightarrow> string \<Rightarrow> string list \<Rightarrow> insertion_service list
   \<Rightarrow> found_service list" where
  "search in_person_value remote_value distance codes thematics reception kinds ss =
     (let qs = filter (\<lambda>(s, d). eligible_zone codes s) (candidate_services distance thematics kinds ss);
          in_person = (\<lambda>s. in_person_value \<in> set (sv_receptions s));
          remote = (\<lambda>s. remote_value \<in> set (sv_receptions s));
          found = (\<lambda>p r (s, d). \<lparr>fs_service = s, fs_distance = d, fs_is_in_person = p, fs_is_remote = r\<rparr>)
      in if reception = in_person_value then
           sort_key fs_distance (map (found True False)
             (filter (\<lambda>(s, d). in_person s \<and> d \<le> service_search_radius_m) qs))
         else if reception = remote_value then
           sort_key fs_distance (map (found False True) (filter (\<lambda>(s, d). remote s) qs))
         else
           sort_key (\<lambda>f. (\<not> fs_is_in_person f, fs_distance f))
             (map (\<lambda>(s, d). found (in_person s) (remote s) (s, d))
               (filter (\<lambda>(s, d). (in_person s \<and> d \<le> service_search_radius_m) \<or> remote s) qs)))"

section \<open>Orientations and events\<close>

datatype orientation_status = OR_PENDING | OR_ACCEPTED | OR_EXPIRED | OR_REJECTED
datatype orientation_transition = OT_ACCEPT | OT_REJECT | OT_EXPIRE

definition orientation_workflow :: "(orientation_transition \<times> orientation_status \<times> orientation_status) list" where
  "orientation_workflow = [(OT_ACCEPT, OR_PENDING, OR_ACCEPTED), (OT_REJECT, OR_PENDING, OR_REJECTED),
     (OT_EXPIRE, OR_PENDING, OR_EXPIRED)]"

record orientation =
  on_id :: string
  on_beneficiary :: pk
  on_sender :: pk
  on_sender_kind :: sender_kind
  on_sender_prescriber_organization :: "pk option"
  on_sender_company :: "pk option"
  on_service :: string
  on_referent_last_name :: string
  on_referent_first_name :: string
  on_referent_phone :: string
  on_referent_email :: string
  on_orientation_reasons :: string
  on_status :: orientation_status
  on_processing_date :: "datetime option"
  on_duration_weekly_hours :: "nat option"
  on_duration_weeks :: "nat option"
  on_data_protection_commitment :: bool
  on_attachments :: "string list"
  on_created_at :: datetime
  on_updated_at :: datetime
  on_dora_status_updated_at :: "datetime option"

definition orientation_constraints :: "orientation \<Rightarrow> bool" where
  "orientation_constraints o' \<longleftrightarrow>
     (on_sender_kind o' = SK_PRESCRIBER \<and> on_sender_prescriber_organization o' \<noteq> None \<and> on_sender_company o' = None) \<or>
     (on_sender_kind o' = SK_EMPLOYER \<and> on_sender_company o' \<noteq> None \<and> on_sender_prescriber_organization o' = None)"

text \<open>A missing or null duration gives no total.\<close>

definition duration_total :: "orientation \<Rightarrow> nat option" where
  "duration_total o' = (case (on_duration_weeks o', on_duration_weekly_hours o') of
     (Some w, Some h) \<Rightarrow> if w = 0 \<or> h = 0 then None else Some (h * w)
   | _ \<Rightarrow> None)"

record orientation_log =
  ol_orientation :: string
  ol_transition :: orientation_transition
  ol_from_state :: orientation_status
  ol_to_state :: orientation_status
  ol_timestamp :: datetime

datatype mobilization_kind = SERVICE_ORIENTATION | SERVICE_EXT_LINK | SERVICE_CONTACT | STRUCTURE_CONTACT

record mobilization_event =
  me_pk :: pk
  me_session_key :: string
  me_kind :: mobilization_kind
  me_user :: "pk option"
  me_prescriber_organization :: "pk option"
  me_company :: "pk option"
  me_service :: "string option"
  me_structure :: pk
  me_service_external_link :: string
  me_orientation :: "string option"
  me_created_at :: datetime

record insertion_db =
  ib_users :: "user list"
  ib_structures :: "pk list"
  ib_services :: "insertion_service list"
  ib_orientations :: "orientation list"
  ib_orientation_logs :: "orientation_log list"
  ib_events :: "mobilization_event list"

definition event_constraints :: "mobilization_event \<Rightarrow> bool" where
  "event_constraints e \<longleftrightarrow>
     (if me_kind e = STRUCTURE_CONTACT then me_service e = None else me_service e \<noteq> None) \<and>
     ((me_user e = None \<and> me_prescriber_organization e = None \<and> me_company e = None) \<or>
      (me_user e \<noteq> None \<and> (me_prescriber_organization e \<noteq> None \<or> me_company e \<noteq> None))) \<and>
     (me_kind e = SERVICE_EXT_LINK \<longleftrightarrow> me_service_external_link e \<noteq> [])"

text \<open>The organization of an event or an orientation by its kind.\<close>

definition prescriber_pk :: "organization option \<Rightarrow> pk option" where
  "prescriber_pk org = (case org of Some (Of_Prescriber p) \<Rightarrow> Some (po_pk p) | _ \<Rightarrow> None)"

definition company_pk :: "organization option \<Rightarrow> pk option" where
  "company_pk org = (case org of Some (Of_Company c) \<Rightarrow> Some (co_pk c) | _ \<Rightarrow> None)"

definition create_mobilization_event ::
  "datetime \<Rightarrow> string option \<Rightarrow> mobilization_kind \<Rightarrow> user option \<Rightarrow> organization option \<Rightarrow> pk \<Rightarrow> string option \<Rightarrow> string
   \<Rightarrow> insertion_db \<Rightarrow> error + insertion_db" where
  "create_mobilization_event now session_key kind u org structure_pk service link db =
     (if u \<noteq> None \<and> prescriber_pk org = None \<and> company_pk org = None then Inr db
      else case session_key of
        None \<Rightarrow> Inl (IntegrityError ''session_key'')
      | Some key \<Rightarrow>
          let e = \<lparr>me_pk = next_pk me_pk (ib_events db), me_session_key = key, me_kind = kind,
                    me_user = map_option us_pk u, me_prescriber_organization = prescriber_pk org,
                    me_company = company_pk org, me_service = service, me_structure = structure_pk,
                    me_service_external_link = link, me_orientation = None, me_created_at = now\<rparr>
          in rbind (guard (event_constraints e) (IntegrityError ''mobilization_event'')) (\<lambda>_.
             Inr (db\<lparr>ib_events := ib_events db @ [e]\<rparr>)))"

section \<open>The view that registers an event\<close>

text \<open>\<open>user = None\<close> is an anonymous visitor; the fields of the request are those of an anonymous one then.\<close>

definition can_register_mobilization_event :: "user option \<Rightarrow> request_infos \<Rightarrow> bool" where
  "can_register_mobilization_event u r \<longleftrightarrow> u = None \<or> rq_from_employer r \<or> rq_from_prescriber r"

definition can_orient_towards_insertion_service :: "user option \<Rightarrow> request_infos \<Rightarrow> bool" where
  "can_orient_towards_insertion_service u r \<longleftrightarrow> u \<noteq> None \<and> (rq_from_employer r \<or> rq_from_prescriber r)"

datatype event_answer = Event_Ok | Bad_Kind | Missing_Structure | Server_Error

definition active_service :: "string \<Rightarrow> insertion_db \<Rightarrow> insertion_service option" where
  "active_service uid db = get_row sv_uid uid (filter sv_is_active (ib_services db))"

definition register_mobilization_event ::
  "datetime \<Rightarrow> string option \<Rightarrow> user option \<Rightarrow> request_infos \<Rightarrow> mobilization_kind option \<Rightarrow> string option \<Rightarrow> pk option \<Rightarrow> string
   \<Rightarrow> insertion_db \<Rightarrow> error + (event_answer \<times> insertion_db)" where
  "register_mobilization_event now session_key u r kind service_uid structure_uid link db =
     rbind (guard (can_register_mobilization_event u r) PermissionDenied) (\<lambda>_.
     case kind of
       None \<Rightarrow> Inr (Bad_Kind, db)
     | Some k \<Rightarrow>
         let org = (case u of Some v \<Rightarrow> if is_professional v then rq_current_organization r else None | None \<Rightarrow> None);
             create = (\<lambda>service structure_pk.
               case create_mobilization_event now session_key k u org structure_pk service link db of
                 Inr db' \<Rightarrow> (Event_Ok, db') | Inl _ \<Rightarrow> (Server_Error, db))
         in (case service_uid of
              Some uid \<Rightarrow> (case active_service uid db of
                 None \<Rightarrow> Inl Http404 | Some s \<Rightarrow> Inr (create (Some uid) (sv_structure s)))
            | None \<Rightarrow> (case structure_uid of
                 Some k' \<Rightarrow> if k' \<in> set (ib_structures db) then Inr (create None k') else Inl Http404
               | None \<Rightarrow> Inr (Missing_Structure, db))))"

section \<open>The wizard of an orientation\<close>

datatype orientation_step = CONFORMITY | REFERENT | DOCUMENTS

record referent_form =
  rf_last_name :: string
  rf_first_name :: string
  rf_phone :: string
  rf_email :: string
  rf_orientation_reason :: string

text \<open>The documents step: the names of the files posted in its two fields, in order, with their size and whether
  their extension is allowed.\<close>

record posted_file =
  qf_name :: string
  qf_bytes :: int
  qf_extension_allowed :: bool

record documents_form =
  qd_files :: "posted_file list"
  qd_gdpr_consent :: bool

datatype orientation_data = Conformity_Data bool | Referent_Data referent_form | Documents_Data documents_form

record orientation_session = "(orientation_step, orientation_data) wizard_session" +
  os_service_uid :: string
  os_job_seeker :: pk
  os_disclaimer_dismissed :: bool

definition orientation_steps :: "orientation_step list" where
  "orientation_steps = [CONFORMITY, REFERENT, DOCUMENTS]"

definition orientation_file_max_bytes :: int where "orientation_file_max_bytes = 5 * 1024 * 1024"

text \<open>\<open>get_missing_orientation_beneficiary_field_labels\<close>.\<close>

definition missing_beneficiary_fields :: "user \<Rightarrow> string list" where
  "missing_beneficiary_fields u =
     (if py_strip (us_first_name u) = [] then [''Prenom''] else []) @
     (if py_strip (us_last_name u) = [] then [''Nom''] else []) @
     (if (case us_email u of None \<Rightarrow> True | Some e \<Rightarrow> py_strip e = []) then [''Adresse e-mail''] else [])"

definition referent_clean :: "(string \<Rightarrow> bool) \<Rightarrow> referent_form \<Rightarrow> referent_form option" where
  "referent_clean valid_email f =
     (case (required_text (rf_last_name f), required_text (rf_first_name f), required_text (rf_phone f),
            required_text (rf_email f)) of
        (Some l, Some n, Some p, Some e) \<Rightarrow>
          (case normalize_phone_number p of
             None \<Rightarrow> None
           | Some p' \<Rightarrow> if valid_email e then Some \<lparr>rf_last_name = l, rf_first_name = n, rf_phone = p', rf_email = e,
                          rf_orientation_reason = py_strip (rf_orientation_reason f)\<rparr> else None)
      | _ \<Rightarrow> None)"

definition documents_clean :: "documents_form \<Rightarrow> documents_form option" where
  "documents_clean f =
     (if qd_gdpr_consent f \<and> list_all (\<lambda>q. qf_name q \<noteq> [] \<and> 0 < qf_bytes q \<and> qf_bytes q \<le> orientation_file_max_bytes \<and>
          qf_extension_allowed q) (qd_files f) then Some f else None)"

text \<open>\<open>get_job_seeker\<close>: the job seeker of the session, whom the form of the first step checks.\<close>

definition orientation_clean ::
  "(string \<Rightarrow> bool) \<Rightarrow> user \<Rightarrow> orientation_step \<Rightarrow> orientation_data \<Rightarrow> orientation_session \<Rightarrow> orientation_data option" where
  "orientation_clean valid_email job_seeker step d x =
     (case (step, d) of
        (CONFORMITY, Conformity_Data b) \<Rightarrow> if b \<and> missing_beneficiary_fields job_seeker = [] then Some d else None
      | (REFERENT, Referent_Data f) \<Rightarrow> map_option Referent_Data (referent_clean valid_email f)
      | (DOCUMENTS, Documents_Data f) \<Rightarrow> map_option Documents_Data (documents_clean f)
      | _ \<Rightarrow> None)"

definition job_seeker_of :: "pk \<Rightarrow> insertion_db \<Rightarrow> user option" where
  "job_seeker_of k db = get_row us_pk k (filter is_job_seeker (ib_users db))"

text \<open>\<open>start_orientation\<close>.  A missing job seeker leads to the page that chooses one.\<close>

datatype start_answer = To_Service_Detail | Choose_Job_Seeker | Wizard_Started

definition start_orientation ::
  "string list \<Rightarrow> string \<Rightarrow> string \<Rightarrow> pk option \<Rightarrow> orientation_session session \<Rightarrow> insertion_db
   \<Rightarrow> error + (start_answer \<times> orientation_session session)" where
  "start_orientation non_orientable name uid job_seeker session db =
     (case get_row sv_uid uid (filter (\<lambda>s. sv_is_active s \<and> sv_source s \<notin> set non_orientable \<and> sv_is_orientable_with_form s)
             (ib_services db)) of
        None \<Rightarrow> Inl Http404
      | Some s \<Rightarrow>
          if should_mobilize_via_external_link s then Inr (To_Service_Detail, session)
          else (case job_seeker of
            None \<Rightarrow> Inr (Choose_Job_Seeker, session)
          | Some k \<Rightarrow> (case job_seeker_of k db of
              None \<Rightarrow> Inl Http404
            | Some u \<Rightarrow> rbind (initialize_session session ''orientation'' name
                  \<lparr>wz_reset_url = Some (sv_uid s), wz_data = Map.empty, os_service_uid = sv_uid s, os_job_seeker = us_pk u,
                   os_disclaimer_dismissed = False\<rparr>) (\<lambda>session'. Inr (Wizard_Started, session')))))"

definition setup_orientation ::
  "orientation_session \<Rightarrow> insertion_db \<Rightarrow> error + (insertion_service \<times> user)" where
  "setup_orientation x db =
     (case (active_service (os_service_uid x) db, job_seeker_of (os_job_seeker x) db) of
        (Some s, Some u) \<Rightarrow> Inr (s, u) | _ \<Rightarrow> Inl Http404)"

text \<open>The answer of DORA to the creation of an orientation: the identifier it gives and the attachments it kept; \<open>None\<close>
  stands for the exception of its client.\<close>

record dora_created =
  dc_emplois_sync_uid :: string
  dc_attachments :: "string list"

definition new_orientation ::
  "datetime \<Rightarrow> request_infos \<Rightarrow> insertion_service \<Rightarrow> user \<Rightarrow> referent_form \<Rightarrow> bool \<Rightarrow> dora_created \<Rightarrow> orientation" where
  "new_orientation now r s job_seeker f consent created =
     \<lparr>on_id = dc_emplois_sync_uid created, on_beneficiary = us_pk job_seeker, on_sender = us_pk (rq_user r),
      on_sender_kind = (if rq_from_employer r then SK_EMPLOYER else SK_PRESCRIBER),
      on_sender_prescriber_organization = (if rq_from_employer r then None else prescriber_pk (rq_current_organization r)),
      on_sender_company = (if rq_from_employer r then company_pk (rq_current_organization r) else None),
      on_service = sv_uid s, on_referent_last_name = rf_last_name f, on_referent_first_name = rf_first_name f,
      on_referent_phone = rf_phone f, on_referent_email = rf_email f, on_orientation_reasons = rf_orientation_reason f,
      on_status = OR_PENDING, on_processing_date = None, on_duration_weekly_hours = None, on_duration_weeks = None,
      on_data_protection_commitment = consent, on_attachments = dc_attachments created, on_created_at = now,
      on_updated_at = now, on_dora_status_updated_at = None\<rparr>"

text \<open>\<open>save(force_insert=True)\<close>.\<close>

definition insert_orientation :: "orientation \<Rightarrow> insertion_db \<Rightarrow> error + insertion_db" where
  "insert_orientation o' db =
     rbind (guard (orientation_constraints o') (IntegrityError ''orientation_sender_organization_consistent'')) (\<lambda>_.
     rbind (guard (on_id o' \<notin> on_id ` set (ib_orientations db)) (IntegrityError ''orientation_pkey'')) (\<lambda>_.
     Inr (db\<lparr>ib_orientations := ib_orientations db @ [o']\<rparr>)))"

text \<open>The data sent to DORA name the organization by its SIRET, which an institution does not have.\<close>

definition has_siret :: "organization option \<Rightarrow> bool" where
  "has_siret org = (case org of Some (Of_Institution i) \<Rightarrow> False | _ \<Rightarrow> True)"

text \<open>The latest event of the visit for the service gets the orientation.\<close>

definition originating_event :: "string option \<Rightarrow> user \<Rightarrow> insertion_service \<Rightarrow> insertion_db \<Rightarrow> mobilization_event option" where
  "originating_event session_key u s db =
     order_first (\<lambda>e. - me_created_at e) (filter (\<lambda>e. me_kind e = SERVICE_ORIENTATION \<and>
       Some (me_session_key e) = session_key \<and> me_service e = Some (sv_uid s) \<and> me_user e = Some (us_pk u) \<and>
       me_orientation e = None) (ib_events db))"

definition link_event :: "string option \<Rightarrow> user \<Rightarrow> insertion_service \<Rightarrow> string \<Rightarrow> insertion_db \<Rightarrow> insertion_db" where
  "link_event session_key u s k db = (case originating_event session_key u s db of
     None \<Rightarrow> db
   | Some e \<Rightarrow> db\<lparr>ib_events := map_rows (\<lambda>x. me_pk x = me_pk e) (\<lambda>x. x\<lparr>me_orientation := Some k\<rparr>) (ib_events db)\<rparr>)"

datatype orientation_answer =
    Wizard_Answer "orientation_step wizard_response"
  | Not_Sent
  | Orientation_Confirmed string

text \<open>\<open>post\<close>: the last step does not go through \<open>WizardView.post\<close>.\<close>

definition orientation_submit ::
  "(string \<Rightarrow> bool) \<Rightarrow> (referent_form \<Rightarrow> documents_form \<Rightarrow> dora_created option) \<Rightarrow> datetime \<Rightarrow> string option \<Rightarrow> request_infos
   \<Rightarrow> orientation_session \<Rightarrow> orientation_data \<Rightarrow> insertion_db
   \<Rightarrow> error + (orientation_answer \<times> orientation_session option \<times> insertion_db)" where
  "orientation_submit valid_email dora now session_key r x d db =
     rbind (setup_orientation x db) (\<lambda>(s, u).
     let clean = orientation_clean valid_email u in
     case find_step_with_invalid_data_until_step clean orientation_steps x DOCUMENTS of
       Some p \<Rightarrow> Inr (Wizard_Answer (Go_To p), Some x, db)
     | None \<Rightarrow> (case (clean DOCUMENTS d x, wz_data x REFERENT) of
         (Some (Documents_Data docs), Some (Referent_Data f)) \<Rightarrow>
           rbind (guard (has_siret (rq_current_organization r)) (AttributeError ''siret'')) (\<lambda>_.
           case dora f docs of
             None \<Rightarrow> Inr (Not_Sent, Some x, db)
           | Some created \<Rightarrow>
               rbind (insert_orientation (new_orientation now r s u f (qd_gdpr_consent docs) created) db) (\<lambda>db1.
               Inr (Orientation_Confirmed (dc_emplois_sync_uid created), None,
                    link_event session_key (rq_user r) s (dc_emplois_sync_uid created) db1)))
       | (None, _) \<Rightarrow> Inr (Wizard_Answer (Show_Step DOCUMENTS), Some x, db)
       | _ \<Rightarrow> Inl (KeyError ''referent'')))"

definition orientation_post ::
  "(string \<Rightarrow> bool) \<Rightarrow> (referent_form \<Rightarrow> documents_form \<Rightarrow> dora_created option) \<Rightarrow> datetime \<Rightarrow> string option \<Rightarrow> request_infos
   \<Rightarrow> orientation_session \<Rightarrow> orientation_step \<Rightarrow> orientation_data \<Rightarrow> insertion_db
   \<Rightarrow> error + (orientation_answer \<times> orientation_session option \<times> insertion_db)" where
  "orientation_post valid_email dora now session_key r x step d db =
     (if step = DOCUMENTS then orientation_submit valid_email dora now session_key r x d db
      else rbind (setup_orientation x db) (\<lambda>(s, u).
        rbind (wizard_post (orientation_clean valid_email u) orientation_steps (\<lambda>_ db. Inr db) x step d db)
          (\<lambda>(a, x', db'). Inr (Wizard_Answer a, x', db'))))"

definition dismiss_orientation_disclaimer ::
  "string \<Rightarrow> orientation_session session \<Rightarrow> error + orientation_session session" where
  "dismiss_orientation_disclaimer name session =
     (case namespace_open session ''orientation'' name of
        Inl _ \<Rightarrow> Inl Http404
      | Inr _ \<Rightarrow> (case namespace_data session name of
          None \<Rightarrow> Inl (KeyError name)
        | Some x \<Rightarrow> Inr (namespace_set session name (x\<lparr>os_disclaimer_dismissed := True\<rparr>))))"

section \<open>Lists\<close>

definition own_orientations :: "request_infos \<Rightarrow> insertion_db \<Rightarrow> orientation list" where
  "own_orientations r db =
     sort_key (\<lambda>o'. - on_updated_at o')
       (filter (\<lambda>o'. if rq_from_employer r then on_sender_company o' = company_pk (rq_current_organization r)
                    else on_sender_prescriber_organization o' = prescriber_pk (rq_current_organization r))
         (ib_orientations db))"

record orientation_filters =
  of_beneficiary :: "pk option"
  of_statuses :: "orientation_status list"
  of_senders :: "pk list"
  of_structures :: "pk list"

definition orientation_matches :: "orientation_filters \<Rightarrow> insertion_db \<Rightarrow> orientation \<Rightarrow> bool" where
  "orientation_matches f db o' \<longleftrightarrow>
     (case of_beneficiary f of None \<Rightarrow> True | Some k \<Rightarrow> on_beneficiary o' = k) \<and>
     (of_statuses f = [] \<or> on_status o' \<in> set (of_statuses f)) \<and>
     (of_senders f = [] \<or> on_sender o' \<in> set (of_senders f)) \<and>
     (of_structures f = [] \<or> (case get_row sv_uid (on_service o') (ib_services db) of
        None \<Rightarrow> False | Some s \<Rightarrow> sv_structure s \<in> set (of_structures f)))"

definition orientations_list ::
  "user option \<Rightarrow> request_infos \<Rightarrow> orientation_filters option \<Rightarrow> insertion_db \<Rightarrow> error + orientation list" where
  "orientations_list u r f db =
     rbind (check_request (can_orient_towards_insertion_service u) r) (\<lambda>_.
     Inr (case f of None \<Rightarrow> own_orientations r db
          | Some g \<Rightarrow> filter (orientation_matches g db) (own_orientations r db)))"

definition orientation_details ::
  "user option \<Rightarrow> request_infos \<Rightarrow> string \<Rightarrow> insertion_db \<Rightarrow> error + orientation" where
  "orientation_details u r k db =
     rbind (check_request (can_orient_towards_insertion_service u) r) (\<lambda>_.
     case get_row on_id k (filter (\<lambda>o'.
         on_sender_prescriber_organization o' = prescriber_pk (rq_current_organization r) \<and>
         on_sender_company o' = company_pk (rq_current_organization r)) (ib_orientations db)) of
       None \<Rightarrow> Inl Http404 | Some o' \<Rightarrow> Inr o')"

end
