(* ===== verification/Orientation_Sync.thy ===== *)
theory Orientation_Sync
  imports Insertion Paging
begin

text \<open>
  The command \<open>sync_orientation_statuses\<close> of \<open>insertion/management/commands\<close>: the statuses DORA gives, page by page, are
  copied on the orientations, with one transition log for each orientation written.
\<close>

section \<open>Statuses\<close>

record dora_status =
  ds_status :: orientation_status
  ds_processing_date :: "datetime option"
  ds_dora_status_updated_at :: "datetime option"
  ds_updated_at :: datetime

record dora_item =
  xi_emplois_sync_uid :: string
  xi_status :: orientation_status
  xi_processing_date :: "datetime option"
  xi_updated_at :: datetime

definition from_api_item :: "dora_item \<Rightarrow> dora_status" where
  "from_api_item i = \<lparr>ds_status = xi_status i, ds_processing_date = xi_processing_date i,
     ds_dora_status_updated_at = Some (xi_updated_at i), ds_updated_at = xi_updated_at i\<rparr>"

definition from_orientation :: "orientation \<Rightarrow> dora_status" where
  "from_orientation o' = \<lparr>ds_status = on_status o', ds_processing_date = on_processing_date o',
     ds_dora_status_updated_at = on_dora_status_updated_at o', ds_updated_at = on_updated_at o'\<rparr>"

text \<open>The dict of the statuses: the last item of an orientation counts.\<close>

definition statuses_of :: "dora_item list \<Rightarrow> string \<rightharpoonup> dora_status" where
  "statuses_of items = fold (\<lambda>i m. m(xi_emplois_sync_uid i \<mapsto> from_api_item i)) items Map.empty"

section \<open>One orientation\<close>

text \<open>Three seconds.\<close>

definition min_emplois_dora_timedelta :: datetime where "min_emplois_dora_timedelta = 3 * 1000000"

definition emplois_is_newer :: "orientation \<Rightarrow> dora_status \<Rightarrow> bool" where
  "emplois_is_newer o' d \<longleftrightarrow> min_emplois_dora_timedelta < on_updated_at o' - ds_updated_at d"

definition takes_status :: "(string \<rightharpoonup> dora_status) \<Rightarrow> orientation \<Rightarrow> bool" where
  "takes_status m o' \<longleftrightarrow> (case m (on_id o') of None \<Rightarrow> False
     | Some d \<Rightarrow> d \<noteq> from_orientation o' \<and> \<not> emplois_is_newer o' d)"

definition with_status :: "dora_status \<Rightarrow> orientation \<Rightarrow> orientation" where
  "with_status d o' = o'\<lparr>on_status := ds_status d, on_processing_date := ds_processing_date d,
     on_dora_status_updated_at := ds_dora_status_updated_at d, on_updated_at := ds_updated_at d\<rparr>"

definition synced :: "(string \<rightharpoonup> dora_status) \<Rightarrow> orientation \<Rightarrow> orientation" where
  "synced m o' = (if takes_status m o' then with_status (the (m (on_id o'))) o' else o')"

fun transition_to :: "orientation_status \<Rightarrow> orientation_transition option" where
  "transition_to OR_ACCEPTED = Some OT_ACCEPT"
| "transition_to OR_REJECTED = Some OT_REJECT"
| "transition_to OR_EXPIRED = Some OT_EXPIRE"
| "transition_to OR_PENDING = None"

definition sync_log :: "(string \<rightharpoonup> dora_status) \<Rightarrow> orientation \<Rightarrow> orientation_log option" where
  "sync_log m o' =
     (if takes_status m o' then
        (let d = the (m (on_id o')) in
         map_option (\<lambda>t. \<lparr>ol_orientation = on_id o', ol_transition = t, ol_from_state = on_status o',
             ol_to_state = ds_status d, ol_timestamp = ds_updated_at d\<rparr>) (transition_to (ds_status d)))
      else None)"

section \<open>The command\<close>

definition apply_statuses :: "dora_item list \<Rightarrow> insertion_db \<Rightarrow> error + insertion_db" where
  "apply_statuses items db =
     (let m = statuses_of items in
      rbind (guard (list_all (\<lambda>i. xi_emplois_sync_uid i \<in> on_id ` set (ib_orientations db)) items)
        (RuntimeError ''Unknown orientations from DORA'')) (\<lambda>_.
      Inr (db\<lparr>ib_orientations := map (synced m) (ib_orientations db),
              ib_orientation_logs := ib_orientation_logs db @ List.map_filter (sync_log m) (ib_orientations db)\<rparr>)))"

definition watermark :: "insertion_db \<Rightarrow> datetime option" where
  "watermark db = order_last id (List.map_filter on_dora_status_updated_at (ib_orientations db))"

text \<open>\<open>client updated_after page\<close> is the answer of DORA; \<open>None\<close> when the pages never end.\<close>

definition sync_orientation_statuses ::
  "(datetime option \<Rightarrow> nat \<Rightarrow> error + dora_item dora_response) \<Rightarrow> insertion_db \<Rightarrow> (error + insertion_db) option" where
  "sync_orientation_statuses client db =
     (case dora_items (client (watermark db)) of
        None \<Rightarrow> None
      | Some (items, Some e) \<Rightarrow> Some (Inl e)
      | Some (items, None) \<Rightarrow> Some (apply_statuses items db))"

end
