(* ===== verification/Insertion_Effects.thy ===== *)
theory Insertion_Effects
  imports Orientation_Sync
begin

text \<open>
  What the views on insertion services and the synchronisation keep: identifiers are unique, every orientation comes from
  exactly one organization of the kind it states, and events are coherent; a step of the wizard once answered stays
  valid; the synchronisation copies DORA and a second one changes nothing.
\<close>

section \<open>Invariant\<close>

definition insertion_ok :: "insertion_db \<Rightarrow> bool" where
  "insertion_ok db \<longleftrightarrow>
     distinct (map on_id (ib_orientations db)) \<and> list_all orientation_constraints (ib_orientations db) \<and>
     distinct (map me_pk (ib_events db)) \<and> list_all event_constraints (ib_events db)"

lemma create_event_ok:
  assumes "create_mobilization_event now key kind u org st s link db = Inr db'" "insertion_ok db"
  shows "insertion_ok db'"
  using assms next_pk_notin [of me_pk "ib_events db"]
  by (auto simp: create_mobilization_event_def insertion_ok_def Let_def split: if_splits option.splits)

lemma register_event_ok:
  assumes "register_mobilization_event now key u r kind service st link db = Inr (x, db')" "insertion_ok db"
  shows "insertion_ok db'"
  using assms create_event_ok
  by (auto simp: register_mobilization_event_def Let_def split: option.splits sum.splits if_splits)

lemma insert_orientation_InrD:
  assumes "insert_orientation o' db = Inr db'"
  shows "orientation_constraints o'" "on_id o' \<notin> on_id ` set (ib_orientations db)"
    "db' = db\<lparr>ib_orientations := ib_orientations db @ [o']\<rparr>"
  using assms by (auto simp: insert_orientation_def)

lemma insert_orientation_ok: "insert_orientation o' db = Inr db' \<Longrightarrow> insertion_ok db \<Longrightarrow> insertion_ok db'"
  using insert_orientation_InrD by (fastforce simp: insertion_ok_def)

lemma link_event_ok:
  assumes "insertion_ok db"
  shows "insertion_ok (link_event key u s k db)"
proof (cases "originating_event key u s db")
  case None
  then show ?thesis using assms by (simp add: link_event_def)
next
  case (Some e)
  have "map me_pk (map_rows (\<lambda>x. me_pk x = me_pk e) (\<lambda>x. x\<lparr>me_orientation := Some k\<rparr>) (ib_events db)) = map me_pk (ib_events db)"
    by (rule map_rows_key) simp
  then show ?thesis using assms Some
    by (auto simp: link_event_def insertion_ok_def list_all_iff set_map_rows event_constraints_def)
qed

lemma link_event_orientations [simp]: "ib_orientations (link_event key u s k db) = ib_orientations db"
  by (simp add: link_event_def split: option.splits)

lemma orientation_submit_InrD:
  assumes "orientation_submit ve dora now key r x d db = Inr (a, w, db')"
  obtains "db' = db" "w = Some x" "\<And>k. a \<noteq> Orientation_Confirmed k"
  | s u docs f created db1 where "setup_orientation x db = Inr (s, u)"
      "find_step_with_invalid_data_until_step (orientation_clean ve u) orientation_steps x DOCUMENTS = None"
      "orientation_clean ve u DOCUMENTS d x = Some (Documents_Data docs)" "wz_data x REFERENT = Some (Referent_Data f)"
      "dora f docs = Some created"
      "insert_orientation (new_orientation now r s u f (qd_gdpr_consent docs) created) db = Inr db1"
      "a = Orientation_Confirmed (dc_emplois_sync_uid created)" "w = None"
      "db' = link_event key (rq_user r) s (dc_emplois_sync_uid created) db1"
proof -
  obtain s u where su: "setup_orientation x db = Inr (s, u)"
    using assms by (auto simp: orientation_submit_def)
  let ?clean = "orientation_clean ve u"
  show thesis
  proof (cases "find_step_with_invalid_data_until_step ?clean orientation_steps x DOCUMENTS")
    case (Some p)
    then show thesis using assms su that(1) by (auto simp: orientation_submit_def Let_def)
  next
    case None
    show thesis
    proof (cases "?clean DOCUMENTS d x")
      case h: None
      then show thesis using assms su None that(1) by (auto simp: orientation_submit_def Let_def)
    next
      case (Some c)
      obtain docs f where c: "c = Documents_Data docs" "wz_data x REFERENT = Some (Referent_Data f)"
        using assms su None Some
        by (auto simp: orientation_submit_def Let_def split: orientation_data.splits option.splits)
      show thesis
      proof (cases "dora f docs")
        case h: None
        then show thesis using assms su None Some c that(1)
          by (auto simp: orientation_submit_def Let_def)
      next
        case h: (Some created)
        then show thesis using assms su None Some c that(2) [OF su None]
          by (auto simp: orientation_submit_def Let_def)
      qed
    qed
  qed
qed

lemma orientation_submit_ok:
  assumes "orientation_submit ve dora now key r x d db = Inr (a, w, db')" "insertion_ok db"
  shows "insertion_ok db'"
  by (rule orientation_submit_InrD [OF assms(1)])
    (use assms(2) insert_orientation_ok link_event_ok in blast)+

lemma wizard_post_state:
  "wizard_post clean steps (\<lambda>_ db. Inr db) x s d st = Inr (resp, w, st') \<Longrightarrow> st' = st"
  by (cases "resp = Wizard_Done") (auto elim!: wizard_done dest: wizard_not_done)

lemma orientation_post_ok:
  assumes "orientation_post ve dora now key r x step d db = Inr (a, w, db')" "insertion_ok db"
  shows "insertion_ok db'"
proof (cases "step = DOCUMENTS")
  case True
  then show ?thesis using assms orientation_submit_ok by (simp add: orientation_post_def)
next
  case False
  then have "db' = db" using assms(1) wizard_post_state by (auto simp: orientation_post_def)
  then show ?thesis using assms(2) by simp
qed

lemma synced_simps [simp]:
  "on_id (synced m o') = on_id o'" "orientation_constraints (synced m o') = orientation_constraints o'"
  by (simp_all add: synced_def with_status_def orientation_constraints_def)

lemma apply_statuses_InrD:
  assumes "apply_statuses items db = Inr db'"
  shows "ib_orientations db' = map (synced (statuses_of items)) (ib_orientations db)"
    "ib_orientation_logs db' = ib_orientation_logs db @ List.map_filter (sync_log (statuses_of items)) (ib_orientations db)"
    "db' = db\<lparr>ib_orientations := ib_orientations db', ib_orientation_logs := ib_orientation_logs db'\<rparr>"
    "list_all (\<lambda>i. xi_emplois_sync_uid i \<in> on_id ` set (ib_orientations db)) items"
  using assms by (auto simp: apply_statuses_def Let_def)

lemma apply_statuses_ok: "apply_statuses items db = Inr db' \<Longrightarrow> insertion_ok db \<Longrightarrow> insertion_ok db'"
  by (auto simp: apply_statuses_def Let_def insertion_ok_def list_all_iff comp_def)

section \<open>Synchronisation\<close>

lemma statuses_of_None: "statuses_of items k = None \<longleftrightarrow> k \<notin> xi_emplois_sync_uid ` set items"
proof -
  have "fold (\<lambda>i m. m(xi_emplois_sync_uid i \<mapsto> from_api_item i)) items m k = None \<longleftrightarrow>
      m k = None \<and> k \<notin> xi_emplois_sync_uid ` set items" for m
    by (induction items arbitrary: m) (auto split: if_splits)
  then show ?thesis by (simp add: statuses_of_def)
qed

lemma from_with_status [simp]: "from_orientation (with_status d o') = d" "on_id (with_status d o') = on_id o'"
  by (simp_all add: from_orientation_def with_status_def)

lemma not_taken_twice: "\<not> takes_status m (synced m o')"
proof (cases "takes_status m o'")
  case True
  then obtain d where "m (on_id o') = Some d" by (auto simp: takes_status_def split: option.splits)
  then show ?thesis using True by (simp add: synced_def takes_status_def)
qed (simp add: synced_def)

lemma synced_twice [simp]: "synced m (synced m o') = synced m o'"
  using not_taken_twice by (simp add: synced_def [of m "synced m o'"])

lemma sync_log_twice [simp]: "sync_log m (synced m o') = None"
  using not_taken_twice by (simp add: sync_log_def)

lemma apply_statuses_twice:
  assumes "apply_statuses items db = Inr db'"
  shows "apply_statuses items db' = Inr db'"
proof -
  note D = apply_statuses_InrD [OF assms]
  have ids: "on_id ` set (ib_orientations db') = on_id ` set (ib_orientations db)" using D(1) by (auto simp: image_iff)
  have "map (synced (statuses_of items)) (ib_orientations db') = ib_orientations db'" using D(1) by simp
  moreover have "List.map_filter (sync_log (statuses_of items)) (ib_orientations db') = []"
    using D(1) by (simp add: List.map_filter_def comp_def)
  ultimately show ?thesis using D(4) by (simp add: apply_statuses_def Let_def ids)
qed

lemma synced_mirror:
  "synced m o' = (case m (on_id o') of
     None \<Rightarrow> o' | Some d \<Rightarrow> if emplois_is_newer o' d then o' else with_status d o')"
proof (cases "m (on_id o')")
  case (Some d)
  have "with_status (from_orientation o') o' = o'" by (simp add: with_status_def from_orientation_def)
  then show ?thesis using Some by (auto simp: synced_def takes_status_def)
qed (simp add: synced_def takes_status_def)

lemma apply_statuses_unknown:
  assumes "i \<in> set items" "xi_emplois_sync_uid i \<notin> on_id ` set (ib_orientations db)"
  shows "apply_statuses items db = Inl (RuntimeError ''Unknown orientations from DORA'')"
  using assms by (auto simp: apply_statuses_def Let_def list_all_iff guard_def)

section \<open>The steps of the wizard\<close>

lemma dropWhile_strip: "dropWhile p (rev (dropWhile p (rev (dropWhile p s)))) = rev (dropWhile p (rev (dropWhile p s)))"
proof (cases "rev (dropWhile p (rev (dropWhile p s)))")
  case (Cons c t)
  then obtain u where "dropWhile p s = (c # t) @ u"
    by (metis append_Cons rev_append rev_rev_ident takeWhile_dropWhile_id)
  then have "\<not> p c" by (metis append_Cons hd_dropWhile list.distinct(1) list.sel(1))
  then show ?thesis unfolding Cons by simp
qed (simp only: dropWhile.simps)

lemma py_strip_twice [simp]: "py_strip (py_strip s) = py_strip s"
  by (simp add: py_strip_def dropWhile_strip)

lemma required_text_twice: "required_text s = Some t \<Longrightarrow> required_text t = Some t"
  by (auto simp: required_text_def Let_def split: if_splits)

lemma digit_not_space: "is_digit c \<Longrightarrow> \<not> py_isspace c"
  by (auto simp: is_digit_iff py_isspace_def)

lemma py_strip_digits: "all_digits s \<Longrightarrow> py_strip s = s"
proof -
  assume d: "all_digits s"
  have "dropWhile py_isspace t = t" if "all_digits t" for t
    using that digit_not_space by (cases t) auto
  moreover have "all_digits (rev s)" using d by (simp add: all_digits_def)
  ultimately show "py_strip s = s" using d by (simp add: py_strip_def)
qed

text \<open>A normal number is read again as itself, unless its first digits are those of a foreign prefix.\<close>

lemma normal_phone_normalized:
  assumes "normal_phone p" "\<not> startswith p ''0033''"
  shows "normalize_phone_number p = Some p" "required_text p = Some p"
proof -
  obtain c s where p: "p = c # s" using assms by (cases p) (auto simp: normal_phone_def)
  have d: "all_digits p" "length p = 10" "startswith p ''0''" using assms(1) by (auto simp: normal_phone_def)
  have c: "c = CHR ''0''" using d(3) by (simp add: p startswith_def)
  have n33: "\<not> startswith p ''+33''" by (simp add: p c startswith_def)
  show "required_text p = Some p" using py_strip_digits [OF d(1)] p by (simp add: required_text_def Let_def)
  have "p \<noteq> []" using p by simp
  then show "normalize_phone_number p = Some p"
    using assms(2) d n33 py_strip_digits [OF d(1)] only_digits_id [OF d(1)]
    by (simp add: normalize_phone_number_def Let_def del: list.size)
qed

lemma referent_clean_again:
  assumes "referent_clean ve f = Some g" "\<not> startswith (rf_phone g) ''0033''"
  shows "referent_clean ve g = Some g"
proof -
  obtain l n p e p' where f: "required_text (rf_last_name f) = Some l" "required_text (rf_first_name f) = Some n"
      "required_text (rf_email f) = Some e" "normalize_phone_number p = Some p'" "ve e"
      "g = \<lparr>rf_last_name = l, rf_first_name = n, rf_phone = p', rf_email = e,
             rf_orientation_reason = py_strip (rf_orientation_reason f)\<rparr>"
    using assms(1) by (auto simp: referent_clean_def split: option.splits if_splits)
  have "\<not> startswith p' ''0033''" using assms(2) f(6) by simp
  note P = normal_phone_normalized [OF normalize_phone_normal [OF f(4)] this]
  show ?thesis using f(1-3,5,6) P by (simp add: referent_clean_def required_text_twice)
qed

text \<open>The first two steps, answered in order, open the last one.\<close>

lemma orientation_find_step:
  "find_step_with_invalid_data_until_step clean orientation_steps x DOCUMENTS =
     (case wz_data x CONFORMITY of None \<Rightarrow> Some CONFORMITY
      | Some d \<Rightarrow> if clean CONFORMITY d x = None then Some CONFORMITY
         else (case wz_data x REFERENT of None \<Rightarrow> Some REFERENT
           | Some e \<Rightarrow> if clean REFERENT e x = None then Some REFERENT else None))"
  by (simp add: orientation_steps_def split: option.splits)

lemma orientation_clean_session: "orientation_clean ve u s d x = orientation_clean ve u s d y"
  by (simp add: orientation_clean_def)

lemma orientation_next_step:
  "get_next_step orientation_steps CONFORMITY = Some REFERENT"
  "get_next_step orientation_steps REFERENT = Some DOCUMENTS"
  by (simp_all add: get_next_step_def orientation_steps_def Let_def)

lemma first_steps_InrD:
  assumes "orientation_post ve dora now key r x step d db = Inr (Wizard_Answer (Go_To n), Some x1, db1)"
    and "step \<in> {CONFORMITY, REFERENT}"
  obtains s u c where "setup_orientation x db = Inr (s, u)" "orientation_clean ve u step d x = Some c"
    "x1 = x\<lparr>wz_data := (wz_data x)(step \<mapsto> c)\<rparr>" "db1 = db"
proof -
  obtain s u where su: "setup_orientation x db = Inr (s, u)"
    "wizard_post (orientation_clean ve u) orientation_steps (\<lambda>_ db. Inr db) x step d db = Inr (Go_To n, Some x1, db1)"
    using assms by (auto simp: orientation_post_def)
  obtain c where c: "orientation_clean ve u step d x = Some c"
    using su(2) by (auto simp: wizard_post_def split: option.splits)
  have "x1 = x\<lparr>wz_data := (wz_data x)(step \<mapsto> c)\<rparr> \<and> db1 = db"
    using su(2) c assms(2) orientation_next_step by (auto simp: wizard_post_def Let_def)
  then show thesis using that su(1) c by blast
qed

lemma setup_orientation_data [simp]: "setup_orientation (x\<lparr>wz_data := m\<rparr>) db = setup_orientation x db"
  by (simp add: setup_orientation_def)

text \<open>After the first two steps, in this order, the last one finds valid data.\<close>

lemma answered_steps:
  assumes "orientation_post ve dora now key r x CONFORMITY (Conformity_Data b) db =
      Inr (Wizard_Answer (Go_To REFERENT), Some x1, db1)"
    and "orientation_post ve dora now' key r x1 REFERENT (Referent_Data f) db1 =
      Inr (Wizard_Answer (Go_To DOCUMENTS), Some x2, db2)"
    and "\<And>g. referent_clean ve f = Some g \<Longrightarrow> \<not> startswith (rf_phone g) ''0033''"
  obtains s u g where "setup_orientation x2 db = Inr (s, u)" "referent_clean ve f = Some g"
    "wz_data x2 REFERENT = Some (Referent_Data g)" "db2 = db" "missing_beneficiary_fields u = []"
    "find_step_with_invalid_data_until_step (orientation_clean ve u) orientation_steps x2 DOCUMENTS = None"
proof -
  obtain s u c where 1: "setup_orientation x db = Inr (s, u)" "orientation_clean ve u CONFORMITY (Conformity_Data b) x = Some c"
    "x1 = x\<lparr>wz_data := (wz_data x)(CONFORMITY \<mapsto> c)\<rparr>" "db1 = db"
    by (rule first_steps_InrD [OF assms(1)]) auto
  obtain s' u' c' where 2: "setup_orientation x1 db1 = Inr (s', u')"
    "orientation_clean ve u' REFERENT (Referent_Data f) x1 = Some c'"
    "x2 = x1\<lparr>wz_data := (wz_data x1)(REFERENT \<mapsto> c')\<rparr>" "db2 = db1"
    by (rule first_steps_InrD [OF assms(2)]) auto
  obtain g where g: "referent_clean ve f = Some g" "c' = Referent_Data g"
    using 2(2) by (auto simp: orientation_clean_def)
  have c: "c = Conformity_Data b" "b" "missing_beneficiary_fields u = []"
    using 1(2) by (auto simp: orientation_clean_def split: if_splits)
  have again: "referent_clean ve g = Some g" by (rule referent_clean_again [OF g(1) assms(3) [OF g(1)]])
  have "find_step_with_invalid_data_until_step (orientation_clean ve u) orientation_steps x2 DOCUMENTS = None"
    using 1(3) 2(3) c g(2) again by (simp add: orientation_find_step orientation_clean_def)
  then show thesis using that [of s u g] 1 2 g c by simp
qed

lemma orientation_submit_records:
  assumes "setup_orientation x db = Inr (s, u)"
    and "find_step_with_invalid_data_until_step (orientation_clean ve u) orientation_steps x DOCUMENTS = None"
    and "wz_data x REFERENT = Some (Referent_Data g)" and "documents_clean docs = Some docs"
    and "dora g docs = Some created" and "dc_emplois_sync_uid created \<notin> on_id ` set (ib_orientations db)"
    and "rq_current_organization r = Some org"
    and "if rq_from_employer r then \<exists>c. org = Of_Company c else \<exists>p. org = Of_Prescriber p"
  obtains db3 where "orientation_submit ve dora now key r x (Documents_Data docs) db =
      Inr (Orientation_Confirmed (dc_emplois_sync_uid created), None, db3)"
    "ib_orientations db3 = ib_orientations db @ [new_orientation now r s u g (qd_gdpr_consent docs) created]"
proof -
  let ?o = "new_orientation now r s u g (qd_gdpr_consent docs) created"
  have "orientation_constraints ?o" "has_siret (rq_current_organization r)"
    using assms(7,8) by (auto simp: orientation_constraints_def new_orientation_def prescriber_pk_def company_pk_def
        has_siret_def split: if_splits)
  moreover have "on_id ?o = dc_emplois_sync_uid created" by (simp add: new_orientation_def)
  ultimately have "orientation_submit ve dora now key r x (Documents_Data docs) db =
      Inr (Orientation_Confirmed (dc_emplois_sync_uid created), None,
        link_event key (rq_user r) s (dc_emplois_sync_uid created) (db\<lparr>ib_orientations := ib_orientations db @ [?o]\<rparr>))"
    using assms(1-6) by (simp add: orientation_submit_def Let_def orientation_clean_def insert_orientation_def guard_def)
  then show thesis by (rule that) simp
qed

end
