(* ===== verification/Insertion_Properties.thy ===== *)
theory Insertion_Properties
  imports Insertion_Effects Application_Request_Properties
begin

text \<open>The properties of the orientations towards insertion services.\<close>

text \<open>Every view and the command keep the tables coherent.\<close>

inductive insertion_step :: "insertion_db \<Rightarrow> insertion_db \<Rightarrow> bool" where
  registered: "register_mobilization_event now key u r kind service st link db = Inr (a, db') \<Longrightarrow> insertion_step db db'"
| posted: "orientation_post ve dora now key r x step d db = Inr (a, w, db') \<Longrightarrow> insertion_step db db'"
| synced: "sync_orientation_statuses client db = Some (Inr db') \<Longrightarrow> insertion_step db db'"

lemma insertion_step_ok: "insertion_step db db' \<Longrightarrow> insertion_ok db \<Longrightarrow> insertion_ok db'"
  by (induction rule: insertion_step.induct)
    (auto intro: register_event_ok orientation_post_ok apply_statuses_ok
      simp: sync_orientation_statuses_def split: option.splits)

text \<open>C22.  When DORA serves the statuses page by page and knows only orientations of the application, the
  synchronisation ends; each orientation then has the status DORA gives last for it, unless it was modified here more than
  three seconds later, and the others are as they were; a second run with the same answer writes nothing, not even a
  log.\<close>

theorem sync_mirrors_dora:
  assumes "0 < n"
    and "\<And>w p. 1 \<le> p \<Longrightarrow> client w p =
      Inr \<lparr>or_results = chunk n items p, or_next = (if p * n < length items then Some (url p) else None)\<rparr>"
    and "xi_emplois_sync_uid ` set items \<subseteq> on_id ` set (ib_orientations db)"
  shows "\<exists>db'. sync_orientation_statuses client db = Some (Inr db') \<and>
    ib_orientations db' = map (\<lambda>o'. case statuses_of items (on_id o') of
      None \<Rightarrow> o' | Some d \<Rightarrow> if emplois_is_newer o' d then o' else with_status d o') (ib_orientations db) \<and>
    sync_orientation_statuses client db' = Some (Inr db')"
proof -
  have served: "dora_items (client w) = Some (items, None)" for w
    unfolding dora_items_def default_page_def
    by (rule dora_iter_served [OF assms(1), where url = url]) (rule assms(2))
  have "list_all (\<lambda>i. xi_emplois_sync_uid i \<in> on_id ` set (ib_orientations db)) items"
    using assms(3) by (auto simp: list_all_iff)
  then obtain db' where db': "apply_statuses items db = Inr db'" by (simp add: apply_statuses_def Let_def guard_def)
  have "synced (statuses_of items) = (\<lambda>o'. case statuses_of items (on_id o') of
      None \<Rightarrow> o' | Some d \<Rightarrow> if emplois_is_newer o' d then o' else with_status d o')"
    by (rule ext) (rule synced_mirror)
  then show ?thesis using db' apply_statuses_InrD(1) [OF db'] apply_statuses_twice [OF db']
    by (simp add: sync_orientation_statuses_def served)
qed

definition sample_orientation :: orientation where
  "sample_orientation = \<lparr>on_id = ''a'', on_beneficiary = 1, on_sender = 2, on_sender_kind = SK_EMPLOYER,
     on_sender_prescriber_organization = None, on_sender_company = Some 1, on_service = ''s'',
     on_referent_last_name = ''L'', on_referent_first_name = ''A'', on_referent_phone = ''0123456789'',
     on_referent_email = ''a@x.fr'', on_orientation_reasons = [], on_status = OR_PENDING, on_processing_date = None,
     on_duration_weekly_hours = None, on_duration_weeks = None, on_data_protection_commitment = True, on_attachments = [],
     on_created_at = 0, on_updated_at = 0, on_dora_status_updated_at = None\<rparr>"

definition sample_service :: insertion_service where
  "sample_service = \<lparr>sv_uid = ''s'', sv_source = ''dora'', sv_structure = 1, sv_is_active = True,
     sv_is_orientable_with_form = True, sv_external_link = [], sv_beneficiaries_external_link = [],
     sv_access_conditions_di = [], sv_access_conditions_dora = [], sv_credentials = [], sv_mobilizations = [],
     sv_modes_professionals = [], sv_modes_professionals_other = [], sv_modes_beneficiaries = [],
     sv_modes_beneficiaries_other = [], sv_thematics = [], sv_receptions = [], sv_service_kind = None,
     sv_eligibility_zones = [], sv_city = ''Paris''\<rparr>"

definition sample_insertion_db :: insertion_db where
  "sample_insertion_db = \<lparr>ib_users = [sample_user, sample_professional], ib_structures = [1], ib_services = [sample_service],
     ib_orientations = [sample_orientation], ib_orientation_logs = [], ib_events = []\<rparr>"

definition sample_items :: "dora_item list" where
  "sample_items = [\<lparr>xi_emplois_sync_uid = ''a'', xi_status = OR_ACCEPTED, xi_processing_date = Some 5000000, xi_updated_at = 6000000\<rparr>]"

definition sample_pages :: "datetime option \<Rightarrow> nat \<Rightarrow> error + dora_item dora_response" where
  "sample_pages w p = Inr \<lparr>or_results = chunk 1 sample_items p,
     or_next = (if p * 1 < length sample_items then Some ''next'' else None)\<rparr>"

theorem sync_mirrors_dora_witness:
  "case sync_orientation_statuses sample_pages sample_insertion_db of
     Some (Inr db) \<Rightarrow> map on_status (ib_orientations db) = [OR_ACCEPTED] | _ \<Rightarrow> False"
proof -
  have "xi_emplois_sync_uid ` set sample_items \<subseteq> on_id ` set (ib_orientations sample_insertion_db)"
    by (simp add: sample_items_def sample_insertion_db_def sample_orientation_def)
  from sync_mirrors_dora [of 1 sample_pages sample_items "\<lambda>_. ''next''", OF _ _ this]
  obtain db where "sync_orientation_statuses sample_pages sample_insertion_db = Some (Inr db)"
    "ib_orientations db = map (\<lambda>o'. case statuses_of sample_items (on_id o') of
      None \<Rightarrow> o' | Some d \<Rightarrow> if emplois_is_newer o' d then o' else with_status d o') (ib_orientations sample_insertion_db)"
    by (auto simp: sample_pages_def)
  then show ?thesis
    by (simp add: sample_insertion_db_def sample_orientation_def sample_items_def statuses_of_def from_api_item_def
        emplois_is_newer_def min_emplois_dora_timedelta_def with_status_def)
qed

text \<open>An update of DORA that leaves the status as it was is logged as a transition the workflow does not have.\<close>

lemma log_without_transition:
  "case apply_statuses [\<lparr>xi_emplois_sync_uid = ''a'', xi_status = OR_ACCEPTED, xi_processing_date = None, xi_updated_at = 7\<rparr>]
     (sample_insertion_db\<lparr>ib_orientations := [sample_orientation\<lparr>on_status := OR_ACCEPTED\<rparr>]\<rparr>) of
     Inr db \<Rightarrow> map (\<lambda>l. (ol_transition l, ol_from_state l, ol_to_state l)) (ib_orientation_logs db) =
         [(OT_ACCEPT, OR_ACCEPTED, OR_ACCEPTED)] \<and>
       (OT_ACCEPT, OR_ACCEPTED, OR_ACCEPTED) \<notin> set orientation_workflow
   | Inl _ \<Rightarrow> False"
  by code_simp

text \<open>Nothing in the wizard asks for an employer or a prescriber.  When a user without
  organization, a job seeker for instance, submits a complete orientation, DORA creates it, then the record fails here; from then on every
  synchronisation in which DORA gives its status fails as a whole.\<close>

lemma stray_orientation_blocks_sync:
  assumes "setup_orientation x db = Inr (s, u)"
    and "find_step_with_invalid_data_until_step (orientation_clean ve u) orientation_steps x DOCUMENTS = None"
    and "orientation_clean ve u DOCUMENTS d x = Some (Documents_Data docs)"
    and "wz_data x REFERENT = Some (Referent_Data f)" and "dora f docs = Some created"
    and "\<not> rq_from_employer r" and "rq_current_organization r = None"
    and "dc_emplois_sync_uid created \<notin> on_id ` set (ib_orientations db)"
    and "i \<in> set items" and "xi_emplois_sync_uid i = dc_emplois_sync_uid created"
  shows "(\<exists>e. orientation_submit ve dora now key r x d db = Inl e) \<and>
    apply_statuses items db = Inl (RuntimeError ''Unknown orientations from DORA'')"
proof -
  have "\<not> orientation_constraints (new_orientation now r s u f (qd_gdpr_consent docs) created)"
    using assms(6,7) by (simp add: orientation_constraints_def new_orientation_def prescriber_pk_def)
  then have "\<exists>e. insert_orientation (new_orientation now r s u f (qd_gdpr_consent docs) created) db = Inl e"
    by (simp add: insert_orientation_def guard_def)
  then show ?thesis using assms(1-5,7) apply_statuses_unknown [OF assms(9)] assms(8,10)
    by (auto simp: orientation_submit_def Let_def has_siret_def guard_def)
qed

definition sample_referent :: referent_form where
  "sample_referent = \<lparr>rf_last_name = ''L'', rf_first_name = ''A'', rf_phone = ''+33 1 23 45 67 89'', rf_email = ''a@x.fr'',
     rf_orientation_reason = []\<rparr>"

definition sample_orientation_session :: orientation_session where
  "sample_orientation_session = \<lparr>wz_reset_url = Some ''s'', wz_data = [CONFORMITY \<mapsto> Conformity_Data True,
     REFERENT \<mapsto> Referent_Data sample_referent], os_service_uid = ''s'', os_job_seeker = 1, os_disclaimer_dismissed = False\<rparr>"

definition sample_documents :: documents_form where
  "sample_documents = \<lparr>qd_files = [], qd_gdpr_consent = True\<rparr>"

definition sample_dora :: "referent_form \<Rightarrow> documents_form \<Rightarrow> dora_created option" where
  "sample_dora f d = Some \<lparr>dc_emplois_sync_uid = ''z'', dc_attachments = []\<rparr>"

text \<open>A job seeker at the last step.\<close>

text \<open>C23.  An employer or a prescriber that answers the steps of the wizard in order reaches the
  end of it: the answers are still valid at the last step, DORA is asked with them, and the orientation is recorded once
  under the identifier of DORA, pending, signed by the user for the current organization, with a phone number of ten digits.  The
  number must not start with 0033 once in normal form, as such a number is not read again as itself.\<close>

theorem answered_wizard_records_orientation:
  assumes "orientation_post ve dora now key r x CONFORMITY (Conformity_Data b) db =
      Inr (Wizard_Answer (Go_To REFERENT), Some x1, db1)"
    and "orientation_post ve dora now' key r x1 REFERENT (Referent_Data f) db1 =
      Inr (Wizard_Answer (Go_To DOCUMENTS), Some x2, db2)"
    and "\<And>g. referent_clean ve f = Some g \<Longrightarrow> \<not> startswith (rf_phone g) ''0033''"
    and "documents_clean docs = Some docs" and "\<And>g. dora g docs = Some created"
    and "dc_emplois_sync_uid created \<notin> on_id ` set (ib_orientations db)"
    and "rq_current_organization r = Some org"
    and "if rq_from_employer r then \<exists>c. org = Of_Company c else \<exists>p. org = Of_Prescriber p"
  shows "\<exists>db3 o'. orientation_post ve dora now'' key r x2 DOCUMENTS (Documents_Data docs) db2 =
      Inr (Orientation_Confirmed (dc_emplois_sync_uid created), None, db3) \<and>
    ib_orientations db3 = ib_orientations db @ [o'] \<and> on_id o' = dc_emplois_sync_uid created \<and>
    on_status o' = OR_PENDING \<and> on_sender o' = us_pk (rq_user r) \<and> orientation_constraints o' \<and>
    (on_sender_company o' = company_pk (Some org) \<and> on_sender_prescriber_organization o' = prescriber_pk (Some org)) \<and>
    normal_phone (on_referent_phone o')"
proof -
  obtain s u g where g: "setup_orientation x2 db = Inr (s, u)" "referent_clean ve f = Some g"
    "wz_data x2 REFERENT = Some (Referent_Data g)" "db2 = db"
    "find_step_with_invalid_data_until_step (orientation_clean ve u) orientation_steps x2 DOCUMENTS = None"
    using answered_steps [OF assms(1-3)] by metis
  have dg: "dora g docs = Some created" by (rule assms(5))
  obtain db3 where db3: "orientation_submit ve dora now'' key r x2 (Documents_Data docs) db =
      Inr (Orientation_Confirmed (dc_emplois_sync_uid created), None, db3)"
    "ib_orientations db3 = ib_orientations db @ [new_orientation now'' r s u g (qd_gdpr_consent docs) created]"
    using orientation_submit_records [where dora = dora and ve = ve and g = g and docs = docs, OF g(1,5,3) assms(4) dg assms(6,7,8)] by metis
  have "normal_phone (rf_phone g)"
    using g(2) normalize_phone_normal by (auto simp: referent_clean_def split: option.splits if_splits)
  then show ?thesis
    using db3 g(4) assms(7,8)
    by (intro exI [of _ db3] exI [of _ "new_orientation now'' r s u g (qd_gdpr_consent docs) created"])
      (auto simp: orientation_post_def new_orientation_def orientation_constraints_def company_pk_def prescriber_pk_def
        split: if_splits)
qed

definition fresh_session :: orientation_session where
  "fresh_session = sample_orientation_session\<lparr>wz_data := Map.empty\<rparr>"

definition after_conformity :: orientation_session where
  "after_conformity = fresh_session\<lparr>wz_data := [CONFORMITY \<mapsto> Conformity_Data True]\<rparr>"

definition after_referent :: orientation_session where
  "after_referent = fresh_session\<lparr>wz_data := [CONFORMITY \<mapsto> Conformity_Data True,
     REFERENT \<mapsto> Referent_Data (sample_referent\<lparr>rf_phone := ''0123456789''\<rparr>)]\<rparr>"

lemma sample_referent_clean:
  "referent_clean (\<lambda>_. True) sample_referent = Some (sample_referent\<lparr>rf_phone := ''0123456789''\<rparr>)"
  by code_simp

lemma sample_posts:
  "orientation_post (\<lambda>_. True) sample_dora 9 None sample_employer fresh_session CONFORMITY (Conformity_Data True)
     sample_insertion_db = Inr (Wizard_Answer (Go_To REFERENT), Some after_conformity, sample_insertion_db)"
  "orientation_post (\<lambda>_. True) sample_dora 9 None sample_employer after_conformity REFERENT (Referent_Data sample_referent)
     sample_insertion_db = Inr (Wizard_Answer (Go_To DOCUMENTS), Some after_referent, sample_insertion_db)"
proof -
  have su: "setup_orientation fresh_session sample_insertion_db = Inr (sample_service, sample_user)"
    "setup_orientation after_conformity sample_insertion_db = Inr (sample_service, sample_user)"
    by (simp_all add: setup_orientation_def fresh_session_def after_conformity_def sample_orientation_session_def
        active_service_def job_seeker_of_def sample_insertion_db_def sample_service_def sample_user_def is_job_seeker_def)
  have m: "missing_beneficiary_fields sample_user = []" by code_simp
  show "orientation_post (\<lambda>_. True) sample_dora 9 None sample_employer fresh_session CONFORMITY (Conformity_Data True)
     sample_insertion_db = Inr (Wizard_Answer (Go_To REFERENT), Some after_conformity, sample_insertion_db)"
    using su(1) m orientation_next_step(1)
    by (simp add: orientation_post_def wizard_post_def orientation_clean_def guard_def Let_def after_conformity_def
        fresh_session_def orientation_steps_def)
  show "orientation_post (\<lambda>_. True) sample_dora 9 None sample_employer after_conformity REFERENT (Referent_Data sample_referent)
     sample_insertion_db = Inr (Wizard_Answer (Go_To DOCUMENTS), Some after_referent, sample_insertion_db)"
    using su(2) sample_referent_clean orientation_next_step(2)
    by (simp add: orientation_post_def wizard_post_def orientation_clean_def guard_def Let_def after_conformity_def
        after_referent_def fresh_session_def orientation_steps_def)
qed

theorem answered_wizard_records_orientation_witness:
  "case orientation_post (\<lambda>_. True) sample_dora 9 None sample_employer after_referent DOCUMENTS (Documents_Data sample_documents)
     sample_insertion_db of
     Inr (a, w, db) \<Rightarrow> a = Orientation_Confirmed ''z'' \<and> map on_id (ib_orientations db) = [''a'', ''z''] | Inl _ \<Rightarrow> False"
proof -
  have d: "documents_clean sample_documents = Some sample_documents" by (simp add: documents_clean_def sample_documents_def)
  have "referent_clean (\<lambda>_. True) sample_referent = Some g \<Longrightarrow> \<not> startswith (rf_phone g) ''0033''" for g
    by (auto simp: sample_referent_clean startswith_def)
  from answered_wizard_records_orientation [OF sample_posts this d, of "\<lparr>dc_emplois_sync_uid = ''z'', dc_attachments = []\<rparr>"
      "Of_Company sample_company" 9]
  show ?thesis
    by (auto simp: sample_dora_def sample_insertion_db_def sample_orientation_def sample_employer_def)
qed

end
