(* ===== verification/Job_Seeker_Forms.thy ===== *)
theory Job_Seeker_Forms
  imports Validators Users
begin

text \<open>
  The forms on the identity, the address and the situation of a job seeker: \<open>www/job_seekers_views/forms.py\<close>,
  \<open>common_apps/nir/forms.py\<close>, \<open>common_apps/address/forms.py\<close>, the birth place of \<open>asp/forms.py\<close> and \<open>asp/utils.py\<close>.

  A form takes what was posted and gives the cleaned data, or \<open>Inl (ValidationError _)\<close> when it is not valid; it stops at the
  first error where Django collects them.  The maximal lengths of texts are not modelled.  The calendar (\<open>year_month\<close>, the
  year modulo 100 and the month of a date), the subtraction of years, and the geocoding are arguments.
\<close>

section \<open>Birth places\<close>

record commune =
  cm_pk :: pk
  cm_code :: string
  cm_start_date :: date
  cm_end_date :: "date option"
  cm_ignore :: bool

record country =
  cy_pk :: pk
  cy_code :: string

record asp_reference =
  ar_communes :: "commune list"
  ar_countries :: "country list"

definition commune_objects :: "asp_reference \<Rightarrow> commune list" where
  "commune_objects ar = filter (\<lambda>c. \<not> cm_ignore c) (ar_communes ar)"

definition by_insee_code_and_period :: "string \<Rightarrow> date \<Rightarrow> commune list \<Rightarrow> error + commune" where
  "by_insee_code_and_period code period cs =
     (case filter (\<lambda>c. cm_code c = code \<and> cm_start_date c \<le> period \<and>
             (case cm_end_date c of None \<Rightarrow> True | Some e \<Rightarrow> period \<le> e)) cs of
        [] \<Rightarrow> Inl (DoesNotExist ''Commune'')
      | [c] \<Rightarrow> Inr c
      | _ \<Rightarrow> Inl (RuntimeError ''MultipleObjectsReturned''))"

definition guess_birth_place_from_nir :: "asp_reference \<Rightarrow> string \<Rightarrow> pk option \<times> pk option" where
  "guess_birth_place_from_nir ar s =
     (let nir = filter (\<lambda>c. c \<noteq> CHR '' '') s in
      case validate_nir nir of
        Inl _ \<Rightarrow> (None, None)
      | Inr _ \<Rightarrow>
          if hd nir \<in> set ''78'' then (None, None)
          else if take 2 (drop 5 nir) = ''99'' then
            (None, map_option cy_pk (find (\<lambda>y. cy_code y = take 3 (drop 7 nir)) (ar_countries ar)))
          else (map_option cm_pk (find (\<lambda>c. cm_code c = take 5 (drop 5 nir)) (commune_objects ar)), Some france_id))"

text \<open>\<open>BirthPlaceModelForm.clean\<close>: a birth place sets the country when it is not given; the commune is the one of that code
  at the birth.\<close>

definition birth_place_clean ::
  "asp_reference \<Rightarrow> date option \<Rightarrow> pk option \<Rightarrow> pk option \<Rightarrow> error + (pk option \<times> pk option)" where
  "birth_place_clean ar birthdate place country =
     rbind (case place of None \<Rightarrow> Inr None
            | Some k \<Rightarrow> (case get_row cm_pk k (commune_objects ar) of
                None \<Rightarrow> Inl (ValidationError ''birth_place'') | Some c \<Rightarrow> Inr (Some c))) (\<lambda>commune.
     rbind (case country of
              Some k \<Rightarrow> if k \<in> cy_pk ` set (ar_countries ar) then Inr k else Inl (ValidationError ''birth_country'')
            | None \<Rightarrow> if commune \<noteq> None then Inr france_id else Inl (ValidationError ''birth_country'')) (\<lambda>k.
     case (commune, birthdate) of
       (Some c, Some b) \<Rightarrow> (case by_insee_code_and_period (cm_code c) b (commune_objects ar) of
          Inr c' \<Rightarrow> Inr (Some (cm_pk c'), Some k)
        | Inl (DoesNotExist _) \<Rightarrow> Inl (ValidationError ''birth_place'')
        | Inl e \<Rightarrow> Inl e)
     | _ \<Rightarrow> Inr (map_option cm_pk commune, Some k)))"

section \<open>Social security number\<close>

text \<open>The normal form of a number in a form.\<close>

definition form_nir :: "string \<Rightarrow> string" where
  "form_nir s = filter (\<lambda>c. c \<noteq> CHR '' '') (py_upper s)"

record identity_form =
  nf_title :: "title option"
  nf_first_name :: string
  nf_last_name :: string
  nf_birthdate :: "date option"
  nf_birth_place :: "pk option"
  nf_birth_country :: "pk option"
  nf_nir :: string
  nf_lack_of_nir :: bool
  nf_lack_of_nir_reason :: "lack_of_nir_reason option"

text \<open>\<open>JobSeekerNIRUpdateMixin\<close>.  The field of the number is disabled, and has then its initial value, when there is one or when the
  box of a missing number is ticked.\<close>

definition nir_field :: "string \<Rightarrow> identity_form \<Rightarrow> error + string" where
  "nir_field initial f =
     (let s = py_strip (if initial \<noteq> [] \<or> nf_lack_of_nir f then initial else nf_nir f) in
      if s = [] then Inr [] else rbind (validate_nir s) (\<lambda>_. Inr (form_nir s)))"

definition nir_update_clean ::
  "string \<Rightarrow> identity_form \<Rightarrow> error + (string \<times> lack_of_nir_reason option)" where
  "nir_update_clean initial f =
     rbind (nir_field initial f) (\<lambda>nir.
     if nf_lack_of_nir f then
       (if nf_lack_of_nir_reason f \<noteq> None then Inr ([], nf_lack_of_nir_reason f)
        else Inl (ValidationError ''lack_of_nir_reason''))
     else if nir \<noteq> [] then Inr (nir, None) else Inl (ValidationError ''nir''))"

definition clean_nir_title_birthdate_fields ::
  "(date \<Rightarrow> nat \<times> nat) \<Rightarrow> string \<Rightarrow> title option \<Rightarrow> date option \<Rightarrow> error + unit" where
  "clean_nir_title_birthdate_fields year_month nir title birthdate =
     (if nir = [] then Inr ()
      else
        rbind (case title of None \<Rightarrow> Inr ()
               | Some t \<Rightarrow> rbind (nir_sex nir) (\<lambda>s.
                   guard (\<not> ((s = MALE \<and> t \<noteq> M) \<or> (s = FEMALE \<and> t \<noteq> MME))) (ValidationError ''title''))) (\<lambda>_.
        case birthdate of None \<Rightarrow> Inr ()
        | Some b \<Rightarrow>
            if hd nir \<notin> set ''12'' then Inr ()
            else rbind (nir_birth_year nir) (\<lambda>y. rbind (nir_birth_month nir) (\<lambda>m.
              guard (if 1 \<le> m \<and> m \<le> 12 then (y, m) = year_month b else y = fst (year_month b))
                (ValidationError ''birthdate'')))))"

section \<open>Step 1: identity\<close>

text \<open>The constraints of the profile that \<open>_post_clean\<close> checks; \<open>others\<close> are the profiles of the other users.\<close>

definition identity_constraints :: "jobseeker_profile list \<Rightarrow> identity_form \<Rightarrow> bool" where
  "identity_constraints others f \<longleftrightarrow>
     (nf_lack_of_nir_reason f = None \<or> nf_nir f = []) \<and>
     ((nf_birth_country f = None \<and> nf_birth_place f = None) \<or>
      (nf_birth_country f = Some france_id \<and> nf_birth_place f \<noteq> None) \<or>
      (nf_birth_country f \<noteq> Some france_id \<and> nf_birth_place f = None)) \<and>
     (nf_nir f = [] \<or> \<not> list_ex (\<lambda>p. jp_nir p = nf_nir f) others)"

definition identity_clean ::
  "asp_reference \<Rightarrow> (date \<Rightarrow> nat \<times> nat) \<Rightarrow> (date \<Rightarrow> int \<Rightarrow> date) \<Rightarrow> date \<Rightarrow> string \<Rightarrow> jobseeker_profile list
   \<Rightarrow> identity_form \<Rightarrow> error + identity_form" where
  "identity_clean ar year_month minus_years today initial_nir others f =
     (case (nf_title f, required_text (nf_first_name f), required_text (nf_last_name f), nf_birthdate f) of
        (Some t, Some fn, Some ln, Some b) \<Rightarrow>
          rbind (validate_birthdate minus_years today b) (\<lambda>_.
          rbind (birth_place_clean ar (Some b) (nf_birth_place f) (nf_birth_country f)) (\<lambda>(place, country).
          rbind (nir_update_clean initial_nir f) (\<lambda>(nir, reason).
          rbind (clean_nir_title_birthdate_fields year_month nir (Some t) (Some b)) (\<lambda>_.
          let f' = f\<lparr>nf_first_name := fn, nf_last_name := ln, nf_birth_place := place, nf_birth_country := country,
                     nf_nir := nir, nf_lack_of_nir_reason := reason\<rparr>
          in rbind (guard (identity_constraints others f') (ValidationError ''constraints'')) (\<lambda>_. Inr f')))))
      | _ \<Rightarrow> Inl (ValidationError ''required''))"

text \<open>A field that the certification of the identity protects is disabled: it has its initial value.\<close>

definition keep_initial :: "string list \<Rightarrow> identity_form \<Rightarrow> identity_form \<Rightarrow> identity_form" where
  "keep_initial ro initial f =
     \<lparr>nf_title = (if ''title'' \<in> set ro then nf_title initial else nf_title f),
      nf_first_name = (if ''first_name'' \<in> set ro then nf_first_name initial else nf_first_name f),
      nf_last_name = (if ''last_name'' \<in> set ro then nf_last_name initial else nf_last_name f),
      nf_birthdate = (if ''birthdate'' \<in> set ro then nf_birthdate initial else nf_birthdate f),
      nf_birth_place = (if ''birth_place'' \<in> set ro then nf_birth_place initial else nf_birth_place f),
      nf_birth_country = (if ''birth_country'' \<in> set ro then nf_birth_country initial else nf_birth_country f),
      nf_nir = nf_nir f, nf_lack_of_nir = nf_lack_of_nir f, nf_lack_of_nir_reason = nf_lack_of_nir_reason f\<rparr>"

section \<open>Step 2: address\<close>

record address_form =
  dr_line_1 :: string
  dr_line_2 :: string
  dr_post_code :: string
  dr_city :: string
  dr_insee_code :: string
  dr_ban_api_resolved_address :: string
  dr_fill_mode :: string
  dr_address_for_autocomplete :: string
  dr_phone :: string

datatype geocoding = Geocoding_Error | Geocoding_Empty | Geocoded "int \<times> int"

definition geocoding_address :: "string \<Rightarrow> string \<Rightarrow> string \<Rightarrow> string option" where
  "geocoding_address line_1 post_code city =
     (if line_1 = [] \<or> post_code = [] \<or> city = [] then None
      else Some (line_1 @ '', '' @ post_code @ '' '' @ city))"

text \<open>\<open>current\<close> is the address of the instance, as it would be geocoded.\<close>

definition address_to_geocode :: "string option \<Rightarrow> address_form \<Rightarrow> string option" where
  "address_to_geocode current f =
     (if dr_fill_mode f = ''ban_api'' \<and> dr_ban_api_resolved_address f \<noteq> [] then Some (dr_ban_api_resolved_address f)
      else if dr_fill_mode f = ''fallback'' then
        (let posted = (if dr_line_1 f = [] then [] else dr_line_1 f @ '', '') @ dr_post_code f @ '' '' @ dr_city f in
         if Some posted \<noteq> current then Some posted else None)
      else None)"

definition stripped_address :: "address_form \<Rightarrow> address_form" where
  "stripped_address f =
     \<lparr>dr_line_1 = py_strip (dr_line_1 f), dr_line_2 = py_strip (dr_line_2 f), dr_post_code = py_strip (dr_post_code f),
      dr_city = py_strip (dr_city f), dr_insee_code = py_strip (dr_insee_code f),
      dr_ban_api_resolved_address = py_strip (dr_ban_api_resolved_address f), dr_fill_mode = py_strip (dr_fill_mode f),
      dr_address_for_autocomplete = py_strip (dr_address_for_autocomplete f), dr_phone = py_strip (dr_phone f)\<rparr>"

text \<open>\<open>city_of\<close> is the name of the city of an INSEE code, which the instance gets before its address is looked at.\<close>

definition address_clean ::
  "(string \<Rightarrow> string option) \<Rightarrow> (string \<Rightarrow> geocoding) \<Rightarrow> string \<times> string \<times> string \<Rightarrow> address_form \<Rightarrow> error + address_form" where
  "address_clean city_of geocode instance_address posted =
     (let f = stripped_address posted in
      rbind (if dr_insee_code f = [] then Inr f
             else case city_of (dr_insee_code f) of
               None \<Rightarrow> Inl (ValidationError ''insee_code'') | Some c \<Rightarrow> Inr (f\<lparr>dr_city := c\<rparr>)) (\<lambda>f1.
      rbind (guard (dr_address_for_autocomplete f1 \<noteq> [] \<or> dr_line_1 f1 \<noteq> []) (ValidationError ''address_for_autocomplete'')) (\<lambda>_.
      rbind (case address_to_geocode (case instance_address of (line_1, post_code, city) \<Rightarrow>
                 geocoding_address line_1 post_code (if dr_insee_code f = [] then city else dr_city f1)) f1 of
               None \<Rightarrow> Inr ()
             | Some a \<Rightarrow> (case geocode a of Geocoded _ \<Rightarrow> Inr () | _ \<Rightarrow> Inl (ValidationError ''geocoding''))) (\<lambda>_.
      rbind (if dr_post_code f1 = [] then Inr () else validate_post_code (dr_post_code f1)) (\<lambda>_.
      Inr f1)))))"

section \<open>Step 3: situation\<close>

text \<open>A choice field that was posted with an unknown value is missing in the cleaned data.\<close>

datatype 'a choice = Bad_Choice | Chosen 'a

record situation_form =
  sf_education_level :: "string choice"
  sf_pole_emploi :: bool
  sf_unemployed :: bool
  sf_rsa_allocation :: bool
  sf_ass_allocation :: bool
  sf_aah_allocation :: bool
  sf_pole_emploi_id_forgotten :: bool
  sf_pole_emploi_id :: string
  sf_pole_emploi_since :: "allocation_duration option choice"
  sf_unemployed_since :: "allocation_duration option choice"
  sf_has_rsa_allocation :: "rsa_allocation option choice"
  sf_rsa_allocation_since :: "allocation_duration option choice"
  sf_ass_allocation_since :: "allocation_duration option choice"
  sf_aah_allocation_since :: "allocation_duration option choice"
  sf_resourceless :: bool
  sf_rqth_employee :: bool
  sf_oeth_employee :: bool
  sf_ase_exit :: bool
  sf_isolated_parent :: bool
  sf_housing_issue :: bool
  sf_refugee :: bool
  sf_detention_exit_or_ppsmj :: bool
  sf_low_level_in_french :: bool
  sf_mobility_issue :: bool

record situation_data =
  sd_situation :: asp_situation
  sd_pole_emploi_id :: string
  sd_lack_of_pole_emploi_id_reason :: "lack_of_pole_emploi_id option"

text \<open>A box that shows a duration: it needs one when ticked, and empties it otherwise.\<close>

definition since_field :: "string \<Rightarrow> bool \<Rightarrow> allocation_duration option choice \<Rightarrow> error + allocation_duration option" where
  "since_field name ticked c =
     (case c of Bad_Choice \<Rightarrow> Inl (ValidationError name)
      | Chosen d \<Rightarrow> if \<not> ticked then Inr None else if d = None then Inl (ValidationError name) else Inr d)"

text \<open>Reading the missing value of a ticked box fails; the form looks at all the boxes before it is found not valid.\<close>

definition unreadable_choice :: "situation_form \<Rightarrow> string option" where
  "unreadable_choice f = map_option fst (find (\<lambda>(name, ticked, bad). ticked \<and> bad)
     [(''pole_emploi_since'', sf_pole_emploi f, sf_pole_emploi_since f = Bad_Choice),
      (''unemployed_since'', sf_unemployed f, sf_unemployed_since f = Bad_Choice),
      (''rsa_allocation_since'', sf_rsa_allocation f, sf_rsa_allocation_since f = Bad_Choice),
      (''ass_allocation_since'', sf_ass_allocation f, sf_ass_allocation_since f = Bad_Choice),
      (''aah_allocation_since'', sf_aah_allocation f, sf_aah_allocation_since f = Bad_Choice),
      (''has_rsa_allocation'', sf_rsa_allocation f, sf_has_rsa_allocation f \<in> {Bad_Choice, Chosen (Some RSA_NO)})])"

definition pole_emploi_fields ::
  "situation_form \<Rightarrow> error + (string \<times> lack_of_pole_emploi_id option)" where
  "pole_emploi_fields f =
     (let v = py_strip (sf_pole_emploi_id f) in
      rbind (if v = [] then Inr () else validate_pole_emploi_id v) (\<lambda>_.
      if sf_pole_emploi f then
        (if sf_pole_emploi_id_forgotten f then Inr ([], Some REASON_FORGOTTEN)
         else if v \<noteq> [] then Inr (v, None)
         else Inl (ValidationError ''pole_emploi_id''))
      else Inr ([], Some REASON_NOT_REGISTERED)))"

text \<open>The choice leaves out the value for no allocation.\<close>

definition rsa_field :: "situation_form \<Rightarrow> error + rsa_allocation option" where
  "rsa_field f =
     (case sf_has_rsa_allocation f of
        Bad_Choice \<Rightarrow> Inl (ValidationError ''has_rsa_allocation'')
      | Chosen v \<Rightarrow>
          if v = Some RSA_NO then Inl (ValidationError ''has_rsa_allocation'')
          else if \<not> sf_rsa_allocation f then Inr (Some RSA_NO)
          else if v = None then Inl (ValidationError ''has_rsa_allocation'') else Inr v)"

text \<open>The data are those of the columns of the form, on the row \<open>s\<close> of the instance.\<close>

definition situation_clean :: "asp_situation \<Rightarrow> situation_form \<Rightarrow> error + situation_data" where
  "situation_clean s f =
     rbind (case unreadable_choice f of None \<Rightarrow> Inr () | Some name \<Rightarrow> Inl (KeyError name)) (\<lambda>_.
     rbind (since_field ''pole_emploi_since'' (sf_pole_emploi f) (sf_pole_emploi_since f)) (\<lambda>pole_emploi_since.
     rbind (since_field ''unemployed_since'' (sf_unemployed f) (sf_unemployed_since f)) (\<lambda>unemployed_since.
     rbind (since_field ''rsa_allocation_since'' (sf_rsa_allocation f) (sf_rsa_allocation_since f)) (\<lambda>rsa_since.
     rbind (since_field ''ass_allocation_since'' (sf_ass_allocation f) (sf_ass_allocation_since f)) (\<lambda>ass_since.
     rbind (since_field ''aah_allocation_since'' (sf_aah_allocation f) (sf_aah_allocation_since f)) (\<lambda>aah_since.
     rbind (pole_emploi_fields f) (\<lambda>(pe_id, pe_reason).
     rbind (rsa_field f) (\<lambda>rsa.
     case sf_education_level f of
       Bad_Choice \<Rightarrow> Inl (ValidationError ''education_level'')
     | Chosen level \<Rightarrow>
         if level = [] then Inl (ValidationError ''education_level'')
         else Inr \<lparr>sd_situation = s\<lparr>si_education_level := level, si_resourceless := sf_resourceless f,
                     si_rqth_employee := sf_rqth_employee f, si_oeth_employee := sf_oeth_employee f,
                     si_pole_emploi_since := pole_emploi_since, si_unemployed_since := unemployed_since,
                     si_has_rsa_allocation := rsa, si_rsa_allocation_since := rsa_since,
                     si_ass_allocation_since := ass_since, si_aah_allocation_since := aah_since,
                     si_ase_exit := sf_ase_exit f, si_isolated_parent := sf_isolated_parent f,
                     si_housing_issue := sf_housing_issue f, si_refugee := sf_refugee f,
                     si_detention_exit_or_ppsmj := sf_detention_exit_or_ppsmj f,
                     si_low_level_in_french := sf_low_level_in_french f, si_mobility_issue := sf_mobility_issue f\<rparr>,
                   sd_pole_emploi_id = pe_id, sd_lack_of_pole_emploi_id_reason = pe_reason\<rparr>))))))))"

end
