(* ===== verification/Job_Seekers.thy ===== *)
theory Job_Seekers
  imports Job_Seeker_Forms Wizard Gps Sso_Login Approval_Pages
begin

text \<open>
  The views of \<open>www/job_seekers_views/views.py\<close> that find or create a job seeker for a professional and those that update one.

  Both keep their data in a namespace of the session.  A step of the creation does not look at the former ones, so any part of
  the data can be missing when the last one is posted.  A view takes the data of its namespace and gives what is left of
  them, \<open>None\<close> once they are deleted.  The columns of a user that the record \<open>user\<close> leaves out are kept beside the database
  (\<open>jd_contacts\<close>, \<open>jd_last_checked_at\<close>), as the organization a profile was created by.  The accents (\<open>unaccent\<close>), the generated
  username, the empty profile with its hashed identifier and the geocoding are arguments; e-mails are not sent.
\<close>

section \<open>State\<close>

record contact =
  ct_line_1 :: string
  ct_line_2 :: string
  ct_city :: string
  ct_ban_api_resolved_address :: string
  ct_phone :: string
  ct_coords :: "(int \<times> int) option"

record nir_request =
  nq_profile :: pk
  nq_nir :: string
  nq_requested_by :: pk
  nq_rationale :: string
  nq_created_at :: datetime
  nq_processed_at :: "datetime option"

record js_db =
  jd_db :: db
  jd_contacts :: "pk \<rightharpoonup> contact"
  jd_last_checked_at :: "pk \<rightharpoonup> datetime"
  jd_created_by_org :: "pk \<rightharpoonup> pk"
  jd_nir_requests :: "nir_request list"

definition empty_contact :: contact where
  "empty_contact = \<lparr>ct_line_1 = [], ct_line_2 = [], ct_city = [], ct_ban_api_resolved_address = [], ct_phone = [], ct_coords = None\<rparr>"

definition contact_of :: "pk \<Rightarrow> js_db \<Rightarrow> contact" where
  "contact_of k st = (case jd_contacts st k of None \<Rightarrow> empty_contact | Some c \<Rightarrow> c)"

definition put_users_db :: "users_db \<Rightarrow> db \<Rightarrow> db" where
  "put_users_db u db = db\<lparr>db_users := db_users u, db_profiles := db_profiles u, db_certifications := db_certifications u,
     db_assignments := db_assignments u\<rparr>"

abbreviation on_db :: "(db \<Rightarrow> db) \<Rightarrow> js_db \<Rightarrow> js_db" where
  "on_db f st \<equiv> st\<lparr>jd_db := f (jd_db st)\<rparr>"

definition find_job_seeker :: "pk \<Rightarrow> db \<Rightarrow> user option" where
  "find_job_seeker k db = get_row us_pk k (filter is_job_seeker (db_users db))"

definition find_by_nir :: "string \<Rightarrow> db \<Rightarrow> user option" where
  "find_by_nir nir db = (case find (\<lambda>p. jp_nir p = nir) (db_profiles db) of
     None \<Rightarrow> None | Some p \<Rightarrow> get_row us_pk (jp_user p) (db_users db))"

section \<open>Searches\<close>

text \<open>\<open>CheckJobSeekerNirForm\<close>, for the job seeker themself when there is one.\<close>

definition check_nir_clean :: "user option \<Rightarrow> string \<Rightarrow> db \<Rightarrow> error + (string \<times> user option)" where
  "check_nir_clean job_seeker posted db =
     (case required_text posted of
        None \<Rightarrow> Inl (ValidationError ''required'')
      | Some s \<Rightarrow>
          rbind (guard (length s \<le> 21) (ValidationError ''max_length'')) (\<lambda>_.
          rbind (validate_nir s) (\<lambda>_.
          let nir = form_nir s; existing = find_by_nir nir db in
          case job_seeker of
            Some u \<Rightarrow> if existing \<noteq> None then Inl (ValidationError ''nir'')
                     else if \<not> is_job_seeker u then Inl (ValidationError ''kind'') else Inr (nir, Some u)
          | None \<Rightarrow> (case existing of
              None \<Rightarrow> Inr (nir, None)
            | Some u \<Rightarrow> if is_job_seeker u then Inr (nir, Some u) else Inl (ValidationError ''kind'')))))"

definition pole_emploi_email_suffix :: string where "pole_emploi_email_suffix = ''@pole-emploi.fr''"

definition exists_clean :: "(string \<Rightarrow> bool) \<Rightarrow> string \<Rightarrow> db \<Rightarrow> error + (string \<times> user option)" where
  "exists_clean valid_email posted db =
     (case required_text posted of
        None \<Rightarrow> Inl (ValidationError ''required'')
      | Some email \<Rightarrow>
          rbind (guard (valid_email email) (ValidationError ''email'')) (\<lambda>_.
          rbind (guard (\<not> endswith email pole_emploi_email_suffix \<and> \<not> endswith email france_travail_email_suffix)
            (ValidationError ''suffix'')) (\<lambda>_.
          case find (same_email email) (db_users db) of
            None \<Rightarrow> Inr (email, None)
          | Some u \<Rightarrow>
              if \<not> us_is_active u then Inl (ValidationError ''inactive'')
              else if \<not> is_job_seeker u then Inl (ValidationError ''kind'')
              else Inr (email, Some u))))"

section \<open>The session of the creation\<close>

datatype tunnel = TUNNEL_SENDER | TUNNEL_HIRE | TUNNEL_GPS | TUNNEL_STANDALONE | TUNNEL_ORIENTATION

record js_user_data =
  ju_email :: "string option"
  ju_identity :: "(title option \<times> string \<times> string) option"
  ju_address :: "address_form option"

record js_profile_data =
  jq_nir :: "string option"
  jq_identity :: "identity_form option"
  jq_situation :: "situation_data option"

record js_session =
  jx_tunnel :: tunnel
  jx_from_url :: string
  jx_apply :: "(string \<times> pk) option"
  jx_service_uid :: "string option"
  jx_user :: "js_user_data option"
  jx_profile :: "js_profile_data option"

definition no_user_data :: js_user_data where
  "no_user_data = \<lparr>ju_email = None, ju_identity = None, ju_address = None\<rparr>"

definition no_profile_data :: js_profile_data where
  "no_profile_data = \<lparr>jq_nir = None, jq_identity = None, jq_situation = None\<rparr>"

definition user_data :: "js_session \<Rightarrow> js_user_data" where
  "user_data x = (case jx_user x of None \<Rightarrow> no_user_data | Some u \<Rightarrow> u)"

definition profile_data :: "js_session \<Rightarrow> js_profile_data" where
  "profile_data x = (case jx_profile x of None \<Rightarrow> no_profile_data | Some p \<Rightarrow> p)"

definition get_or_create_kind :: string where "get_or_create_kind = ''job-seeker-get-or-create''"
definition check_nir_kind :: string where "check_nir_kind = ''job-seeker-check-nir-job-seeker''"

text \<open>\<open>ExpectedJobSeekerSessionMixin.setup\<close>.\<close>

definition expected_session :: "'x session \<Rightarrow> string \<Rightarrow> string \<Rightarrow> error + 'x" where
  "expected_session session kind name =
     (case namespace_open session kind name of
        Inl _ \<Rightarrow> Inl Http404
      | Inr _ \<Rightarrow> (case namespace_data session name of None \<Rightarrow> Inl (KeyError name) | Some x \<Rightarrow> Inr x))"

definition may_create :: "request_infos \<Rightarrow> error + unit" where
  "may_create r = guard (rq_from_employer r \<or> rq_from_prescriber r) PermissionDenied"

text \<open>\<open>GetOrCreateJobSeekerStartView\<close>: the session is created before the permission is looked at.  \<open>process_session\<close> tells whether the
  namespace of the application or of the hiring exists, \<open>params\<close> its name and the company.\<close>

datatype js_page = Check_Nir | Check_Nir_For_Hire | Search_By_Email | Create_Step nat | Check_Own_Info

definition get_or_create_start ::
  "(string \<Rightarrow> bool) \<Rightarrow> request_infos \<Rightarrow> tunnel \<Rightarrow> string option \<Rightarrow> (string \<times> pk) \<Rightarrow> string option \<Rightarrow> string \<Rightarrow> js_session session \<Rightarrow> js_db
   \<Rightarrow> error + (js_page \<times> js_session session)" where
  "get_or_create_start process_session r tunnel from_url params service_uid name session st =
     (case from_url of None \<Rightarrow> Inl Http404 | Some url \<Rightarrow>
      let x = \<lparr>jx_tunnel = tunnel, jx_from_url = url, jx_apply = None, jx_service_uid = None, jx_user = None, jx_profile = None\<rparr> in
      rbind (if tunnel \<in> {TUNNEL_SENDER, TUNNEL_HIRE} then
               rbind (guard (process_session (fst params)) Http404) (\<lambda>_.
               rbind (guard (snd params \<in> co_pk ` set (company_objects (db_companies (jd_db st)))) Http404) (\<lambda>_.
               Inr (x\<lparr>jx_apply := Some params\<rparr>)))
             else if tunnel = TUNNEL_ORIENTATION then
               (case service_uid of None \<Rightarrow> Inl Http404
                | Some uid \<Rightarrow> if uid = [] then Inl Http404 else Inr (x\<lparr>jx_service_uid := Some uid\<rparr>))
             else Inr x) (\<lambda>x'.
      rbind (may_create r) (\<lambda>_.
      Inr (if tunnel = TUNNEL_ORIENTATION then Search_By_Email
           else if tunnel = TUNNEL_HIRE then Check_Nir_For_Hire else Check_Nir,
           namespace_create session get_or_create_kind x' name))))"

section \<open>What the views share\<close>

text \<open>\<open>JobSeekerBaseView.setup\<close>: the company of the application.\<close>

definition process_company :: "js_session \<Rightarrow> js_db \<Rightarrow> error + company option" where
  "process_company x st =
     (case jx_apply x of
        None \<Rightarrow> Inr None
      | Some (_, k) \<Rightarrow>
          if jx_tunnel x = TUNNEL_GPS then Inr None
          else (case get_row co_pk k (company_objects (db_companies (jd_db st))) of
                  None \<Rightarrow> Inl Http404 | Some c \<Rightarrow> Inr (Some c)))"

definition standalone_creation :: "js_session \<Rightarrow> company option \<Rightarrow> bool" where
  "standalone_creation x company \<longleftrightarrow> jx_tunnel x \<noteq> TUNNEL_GPS \<and> company = None \<and> jx_tunnel x \<noteq> TUNNEL_ORIENTATION"

datatype js_exit = Group_List | Start_Orientation "string option" pk | Job_Seeker_Details pk
  | Hire_Fill_Infos string pk | Check_Info_For_Hire string pk | Application_Jobs string pk | Check_Info string pk

definition get_exit_url :: "js_session \<Rightarrow> company option \<Rightarrow> bool \<Rightarrow> bool \<Rightarrow> pk \<Rightarrow> error + js_exit" where
  "get_exit_url x company hire created k =
     (if jx_tunnel x = TUNNEL_GPS then Inr Group_List
      else if jx_tunnel x = TUNNEL_ORIENTATION then Inr (Start_Orientation (jx_service_uid x) k)
      else if standalone_creation x company then Inr (Job_Seeker_Details k)
      else (case jx_apply x of
         None \<Rightarrow> Inl (TypeError ''apply'')
       | Some (uuid, _) \<Rightarrow> Inr (if created \<and> hire then Hire_Fill_Infos uuid k
           else if hire then Check_Info_For_Hire uuid k
           else if created then Application_Jobs uuid k else Check_Info uuid k)))"

datatype js_answer = Show_Form | Show_Preview pk | Show_Confirmation | To_Page js_page | To_Exit js_exit | To_Dashboard

text \<open>\<open>assign_user_as_job_seeker_last_advisor\<close>.\<close>

definition is_last_advisor :: "request_infos \<Rightarrow> user \<Rightarrow> db \<Rightarrow> bool" where
  "is_last_advisor r job_seeker db =
     (case last_assignment (\<lambda>k. list_ex (\<lambda>u. us_pk u = k \<and> us_is_active u) (db_users db)) job_seeker (db_assignments db) of
        None \<Rightarrow> False
      | Some a \<Rightarrow>
          let org = assignment_organization (rq_current_organization r) in
          assignment_advisor a = Some (us_pk (rq_user r)) \<and> as_prescriber_organization a = org_prescriber org \<and>
          as_company a = org_company org)"

definition put_assignments :: "job_seeker_assignment list \<Rightarrow> js_db \<Rightarrow> js_db" where
  "put_assignments t st = on_db (\<lambda>db. db\<lparr>db_assignments := t\<rparr>) st"

definition assign_last_advisor :: "datetime \<Rightarrow> request_infos \<Rightarrow> user \<Rightarrow> js_db \<Rightarrow> error + js_db" where
  "assign_last_advisor now r job_seeker st =
     (if is_last_advisor r job_seeker (jd_db st) then Inr st
      else rbind (upsert_assignment now job_seeker (rq_user r) (assignment_organization (rq_current_organization r)) ACT_SELF_ASSIGN
             False (db_assignments (jd_db st))) (\<lambda>t. Inr (put_assignments t st)))"

text \<open>\<open>assign_oneself_as_last_known_advisor\<close>.\<close>

definition assign_oneself :: "datetime \<Rightarrow> request_infos \<Rightarrow> pk \<Rightarrow> js_db \<Rightarrow> error + js_db" where
  "assign_oneself now r k st =
     rbind (check_request (\<lambda>r. rq_from_prescriber r \<or> rq_from_employer r) r) (\<lambda>_.
     case find_job_seeker k (jd_db st) of
       None \<Rightarrow> Inl Http404 | Some u \<Rightarrow> assign_last_advisor now r u st)"

text \<open>The write of the columns \<open>nir\<close> and \<open>lack_of_nir_reason\<close>, and what a save of the profile does besides.\<close>

definition write_nir :: "(pk \<Rightarrow> string) \<Rightarrow> string \<Rightarrow> jobseeker_profile \<Rightarrow> js_db \<Rightarrow> error + js_db" where
  "write_nir default_asp_uid nir p st =
     (let db = jd_db st; p' = p\<lparr>jp_nir := nir, jp_lack_of_nir_reason := None\<rparr> in
      rbind (guard (\<not> list_ex (\<lambda>q. jp_user q \<noteq> jp_user p \<and> jp_nir q = nir) (db_profiles db))
        (IntegrityError ''jobseekerprofile_unique_nir_if_not_empty'')) (\<lambda>_.
      Inr (st\<lparr>jd_db := put_users_db (profile_save default_asp_uid p p' (users_db.truncate db)) db\<rparr>)))"

section \<open>A job seeker gives their number\<close>

definition check_nir_job_seeker_get :: "request_infos \<Rightarrow> js_session \<Rightarrow> js_db \<Rightarrow> error + (js_answer \<times> js_session option)" where
  "check_nir_job_seeker_get r x st =
     rbind (process_company x st) (\<lambda>_.
     rbind (guard (is_job_seeker (rq_user r)) PermissionDenied) (\<lambda>_.
     case get_row jp_user (us_pk (rq_user r)) (db_profiles (jd_db st)) of
       None \<Rightarrow> Inl (DoesNotExist ''jobseeker_profile'')
     | Some p \<Rightarrow> if jp_nir p = [] then Inr (Show_Form, Some x)
                 else (case jx_apply x of None \<Rightarrow> Inl (TypeError ''apply'') | Some _ \<Rightarrow> Inr (To_Page Check_Own_Info, None))))"

definition check_nir_job_seeker_post ::
  "(pk \<Rightarrow> string) \<Rightarrow> request_infos \<Rightarrow> js_session \<Rightarrow> string \<Rightarrow> js_db \<Rightarrow> error + (js_answer \<times> js_session option \<times> js_db)" where
  "check_nir_job_seeker_post default_asp_uid r x posted st =
     rbind (process_company x st) (\<lambda>_.
     rbind (guard (is_job_seeker (rq_user r)) PermissionDenied) (\<lambda>_.
     case get_row jp_user (us_pk (rq_user r)) (db_profiles (jd_db st)) of
       None \<Rightarrow> Inl (DoesNotExist ''jobseeker_profile'')
     | Some p \<Rightarrow>
         rbind (guard (jp_nir p = []) PermissionDenied) (\<lambda>_.
         rbind (guard (jx_apply x \<noteq> None) (TypeError ''apply'')) (\<lambda>_.
         case check_nir_clean (Some (rq_user r)) posted (jd_db st) of
           Inl _ \<Rightarrow> Inr (Show_Form, Some x, st)
         | Inr (nir, _) \<Rightarrow> rbind (write_nir default_asp_uid nir p st) (\<lambda>st'. Inr (To_Page Check_Own_Info, None, st'))))))"

section \<open>Search by number, then by e-mail\<close>

definition check_nir_for_sender_post ::
  "datetime \<Rightarrow> request_infos \<Rightarrow> bool \<Rightarrow> js_session \<Rightarrow> string \<Rightarrow> bool \<Rightarrow> js_db
   \<Rightarrow> error + (js_answer \<times> js_session option \<times> js_db)" where
  "check_nir_for_sender_post now r hire x posted confirm st =
     rbind (process_company x st) (\<lambda>company.
     rbind (may_create r) (\<lambda>_.
     case check_nir_clean None posted (jd_db st) of
       Inl _ \<Rightarrow> Inr (Show_Form, Some x, st)
     | Inr (nir, None) \<Rightarrow> Inr (To_Page Search_By_Email, Some (x\<lparr>jx_profile := Some (no_profile_data\<lparr>jq_nir := Some nir\<rparr>)\<rparr>), st)
     | Inr (nir, Some u) \<Rightarrow>
         if confirm then
           rbind (if standalone_creation x company then assign_last_advisor now r u st else Inr st) (\<lambda>st'.
           rbind (get_exit_url x company hire False (us_pk u)) (\<lambda>e. Inr (To_Exit e, Some x, st')))
         else Inr (Show_Preview (us_pk u), Some x, st)))"

definition can_add_nir :: "request_infos \<Rightarrow> string option \<Rightarrow> jobseeker_profile \<Rightarrow> bool" where
  "can_add_nir r nir p \<longleftrightarrow> nir \<notin> {None, Some []} \<and> (rq_from_authorized_prescriber r \<or> rq_from_employer r) \<and> jp_nir p = []"

text \<open>\<open>add_beneficiary\<close> unpacks the result of \<open>follow_beneficiary\<close>, which gives none when it does nothing.\<close>

definition add_beneficiary :: "datetime \<Rightarrow> date \<Rightarrow> request_infos \<Rightarrow> user \<Rightarrow> js_db \<Rightarrow> error + js_db" where
  "add_beneficiary now today r u st =
     rbind (guard (is_job_seeker u \<and> us_is_active u \<and> us_is_active (rq_user r) \<and> is_professional (rq_user r)) (TypeError ''None'')) (\<lambda>_.
     Inr (on_db (follow_beneficiary now today u (rq_user r) True) st))"

text \<open>The beneficiary of GPS, then the assignment, then the way out.\<close>

definition leave_with ::
  "datetime \<Rightarrow> date \<Rightarrow> request_infos \<Rightarrow> bool \<Rightarrow> js_session \<Rightarrow> company option \<Rightarrow> user \<Rightarrow> js_db
   \<Rightarrow> error + (js_answer \<times> js_session option \<times> js_db)" where
  "leave_with now today r hire x company u st =
     rbind (if jx_tunnel x = TUNNEL_GPS then add_beneficiary now today r u st else Inr st) (\<lambda>st1.
      rbind (if standalone_creation x company then assign_last_advisor now r u st1 else Inr st1) (\<lambda>st2.
      rbind (get_exit_url x company hire False (us_pk u)) (\<lambda>e. Inr (To_Exit e, Some x, st2))))"

definition search_by_email_post ::
  "(string \<Rightarrow> bool) \<Rightarrow> (pk \<Rightarrow> string) \<Rightarrow> datetime \<Rightarrow> date \<Rightarrow> request_infos \<Rightarrow> bool \<Rightarrow> js_session \<Rightarrow> string \<Rightarrow> bool \<Rightarrow> bool \<Rightarrow> js_db
   \<Rightarrow> error + (js_answer \<times> js_session option \<times> js_db)" where
  "search_by_email_post valid_email default_asp_uid now today r hire x posted preview confirm st =
     rbind (process_company x st) (\<lambda>company.
     rbind (may_create r) (\<lambda>_.
     case exists_clean valid_email posted (jd_db st) of
       Inl _ \<Rightarrow> Inr (Show_Form, Some x, st)
     | Inr (email, None) \<Rightarrow>
         Inr (To_Page (Create_Step 1), Some (x\<lparr>jx_user := Some ((user_data x)\<lparr>ju_email := Some email\<rparr>),
                                              jx_profile := Some (profile_data x)\<rparr>), st)
     | Inr (email, Some u) \<Rightarrow>
         (case get_row jp_user (us_pk u) (db_profiles (jd_db st)) of
            None \<Rightarrow> Inl (DoesNotExist ''jobseeker_profile'')
          | Some p \<Rightarrow>
              let nir = jq_nir (profile_data x);
                  shown = (if preview then Show_Preview (us_pk u) else Show_Form) in
              if \<not> confirm then Inr (shown, Some x, st)
              else if \<not> can_add_nir r nir p then leave_with now today r hire x company u st
              else if list_ex (\<lambda>q. jp_user q \<noteq> jp_user p \<and> jp_nir q = the nir) (db_profiles (jd_db st))
              then Inr (shown, Some x, st)
              else rbind (write_nir default_asp_uid (the nir) p st) (leave_with now today r hire x company u))))"

end
