(* ===== verification/Job_Seeker_Wizards.thy ===== *)
theory Job_Seeker_Wizards
  imports Job_Seekers
begin

text \<open>
  The steps that create a job seeker and those that update one, of \<open>www/job_seekers_views/views.py\<close>, the page that asks for
  missing information, the requests to modify a number and the switch of the stalled status.
\<close>

section \<open>Creation\<close>

text \<open>A form that is not valid is shown again; another exception is the answer of the request.\<close>

definition on_form :: "error + 'f \<Rightarrow> error + 'b \<Rightarrow> ('f \<Rightarrow> error + 'b) \<Rightarrow> error + 'b" where
  "on_form form invalid valid = (case form of
     Inl (ValidationError _) \<Rightarrow> invalid | Inl e \<Rightarrow> Inl e | Inr f \<Rightarrow> valid f)"

definition creation_setup :: "request_infos \<Rightarrow> js_session \<Rightarrow> js_db \<Rightarrow> error + company option" where
  "creation_setup r x st = rbind (process_company x st) (\<lambda>company. rbind (may_create r) (\<lambda>_. Inr company))"

definition initial_nir :: "js_session \<Rightarrow> string" where
  "initial_nir x = (case jq_nir (profile_data x) of None \<Rightarrow> [] | Some n \<Rightarrow> n)"

text \<open>The birth place shown at first.\<close>

definition prefilled_birth_place :: "asp_reference \<Rightarrow> js_session \<Rightarrow> pk option \<times> pk option" where
  "prefilled_birth_place ar x =
     (let place = Option.bind (jq_identity (profile_data x)) nf_birth_place;
          country = Option.bind (jq_identity (profile_data x)) nf_birth_country;
          guess = (if initial_nir x = [] then (None, None) else guess_birth_place_from_nir ar (initial_nir x))
      in (if place = None then fst guess else place, if country = None then snd guess else country))"

definition same_name :: "(string \<Rightarrow> string) \<Rightarrow> string \<Rightarrow> string \<Rightarrow> bool" where
  "same_name unaccent a b \<longleftrightarrow> py_upper (unaccent a) = py_upper (unaccent b)"

definition existing_job_seeker :: "(string \<Rightarrow> string) \<Rightarrow> identity_form \<Rightarrow> db \<Rightarrow> user option" where
  "existing_job_seeker unaccent f db =
     find (\<lambda>u. is_job_seeker u \<and> same_name unaccent (us_first_name u) (nf_first_name f) \<and>
       same_name unaccent (us_last_name u) (nf_last_name f) \<and>
       (case get_row jp_user (us_pk u) (db_profiles db) of None \<Rightarrow> False | Some p \<Rightarrow> jp_birthdate p = nf_birthdate f)) (db_users db)"

definition keep_identity :: "identity_form \<Rightarrow> js_user_data \<Rightarrow> js_profile_data \<Rightarrow> js_user_data \<times> js_profile_data" where
  "keep_identity f u p =
     (u\<lparr>ju_identity := Some (nf_title f, nf_first_name f, nf_last_name f)\<rparr>, p\<lparr>jq_nir := Some (nf_nir f), jq_identity := Some f\<rparr>)"

definition create_step_1_post ::
  "asp_reference \<Rightarrow> (date \<Rightarrow> nat \<times> nat) \<Rightarrow> (date \<Rightarrow> int \<Rightarrow> date) \<Rightarrow> (string \<Rightarrow> string) \<Rightarrow> date \<Rightarrow> request_infos \<Rightarrow> js_session
   \<Rightarrow> identity_form \<Rightarrow> bool \<Rightarrow> js_db \<Rightarrow> error + (js_answer \<times> js_session option)" where
  "create_step_1_post ar year_month minus_years unaccent today r x form confirm st =
     rbind (creation_setup r x st) (\<lambda>_.
     on_form (identity_clean ar year_month minus_years today (initial_nir x) (db_profiles (jd_db st)) form)
       (Inr (Show_Form, Some x)) (\<lambda>f.
     if existing_job_seeker unaccent f (jd_db st) \<noteq> None \<and> \<not> confirm then Inr (Show_Confirmation, Some x)
     else (case keep_identity f (user_data x) (profile_data x) of (u, p) \<Rightarrow>
       Inr (To_Page (Create_Step 2), Some (x\<lparr>jx_user := Some u, jx_profile := Some p\<rparr>)))))"

definition create_step_2_post ::
  "(string \<Rightarrow> string option) \<Rightarrow> (string \<Rightarrow> geocoding) \<Rightarrow> request_infos \<Rightarrow> js_session \<Rightarrow> address_form \<Rightarrow> js_db
   \<Rightarrow> error + (js_answer \<times> js_session option)" where
  "create_step_2_post city_of geocode r x form st =
     rbind (creation_setup r x st) (\<lambda>_.
     on_form (address_clean city_of geocode ([], [], []) form) (Inr (Show_Form, Some x)) (\<lambda>f.
     case jx_user x of
       None \<Rightarrow> Inl (TypeError ''user'')
     | Some u \<Rightarrow> Inr (To_Page (Create_Step 3), Some (x\<lparr>jx_user := Some (u\<lparr>ju_address := Some f\<rparr>)\<rparr>))))"

definition create_step_3_post ::
  "asp_situation \<Rightarrow> request_infos \<Rightarrow> js_session \<Rightarrow> situation_form \<Rightarrow> js_db \<Rightarrow> error + (js_answer \<times> js_session option)" where
  "create_step_3_post empty_situation r x form st =
     rbind (creation_setup r x st) (\<lambda>_.
     on_form (situation_clean empty_situation form) (Inr (Show_Form, Some x)) (\<lambda>d.
     Inr (To_Page (Create_Step 4), Some (x\<lparr>jx_profile := Some ((profile_data x)\<lparr>jq_situation := Some d\<rparr>)\<rparr>))))"

section \<open>End of the creation\<close>

text \<open>\<open>normalize_email\<close> of the manager: the domain in lower case.\<close>

definition normalize_email :: "string \<Rightarrow> string" where
  "normalize_email e =
     (if CHR ''@'' \<notin> set e then e
      else rev (dropWhile (\<lambda>c. c \<noteq> CHR ''@'') (rev e)) @ py_lower (rev (takeWhile (\<lambda>c. c \<noteq> CHR ''@'') (rev e))))"

definition new_job_seeker :: "datetime \<Rightarrow> string \<Rightarrow> user \<Rightarrow> string \<Rightarrow> js_user_data \<Rightarrow> db \<Rightarrow> user" where
  "new_job_seeker now username creator email d db =
     \<lparr>us_pk = next_pk us_pk (db_users db), us_kind = KIND_JOB_SEEKER,
      us_first_name = (case ju_identity d of None \<Rightarrow> [] | Some (_, f, _) \<Rightarrow> f),
      us_last_name = (case ju_identity d of None \<Rightarrow> [] | Some (_, _, l) \<Rightarrow> l),
      us_title = (case ju_identity d of None \<Rightarrow> None | Some (t, _, _) \<Rightarrow> t),
      us_email = Some (normalize_email email), us_username = username, us_identity_provider = IDP_DJANGO, us_is_active = True,
      us_is_staff = False, us_is_superuser = False, us_created_by = Some (us_pk creator),
      us_post_code = (case ju_address d of None \<Rightarrow> [] | Some a \<Rightarrow> dr_post_code a), us_department = [], us_last_login = None,
      us_first_login = None, us_date_joined = now, us_terms_accepted_at = None, us_upcoming_deletion_notified_at = None\<rparr>"

definition address_contact :: "address_form option \<Rightarrow> contact \<Rightarrow> contact" where
  "address_contact a c = (case a of None \<Rightarrow> c | Some f \<Rightarrow>
     c\<lparr>ct_line_1 := dr_line_1 f, ct_line_2 := dr_line_2 f, ct_city := dr_city f,
       ct_ban_api_resolved_address := dr_ban_api_resolved_address f, ct_phone := dr_phone f\<rparr>)"

text \<open>The columns of the profile that the session has; those of the situation that no form shows are kept.\<close>

definition fill_situation :: "situation_data option \<Rightarrow> jobseeker_profile \<Rightarrow> jobseeker_profile" where
  "fill_situation d p = (case d of None \<Rightarrow> p | Some s \<Rightarrow>
     p\<lparr>jp_situation := (sd_situation s)\<lparr>si_are_allocation_since := si_are_allocation_since (jp_situation p),
         si_activity_bonus_since := si_activity_bonus_since (jp_situation p)\<rparr>,
       jp_pole_emploi_id := sd_pole_emploi_id s,
       jp_lack_of_pole_emploi_id_reason := sd_lack_of_pole_emploi_id_reason s\<rparr>)"

definition fill_identity :: "identity_form option \<Rightarrow> jobseeker_profile \<Rightarrow> jobseeker_profile" where
  "fill_identity i p = (case i of None \<Rightarrow> p | Some f \<Rightarrow>
     p\<lparr>jp_birthdate := nf_birthdate f, jp_birth_place := nf_birth_place f, jp_birth_country := nf_birth_country f,
       jp_lack_of_nir_reason := nf_lack_of_nir_reason f\<rparr>)"

definition fill_profile :: "js_profile_data \<Rightarrow> jobseeker_profile \<Rightarrow> jobseeker_profile" where
  "fill_profile d p =
     (let q = fill_situation (jq_situation d) (fill_identity (jq_identity d) p) in
      case jq_nir d of None \<Rightarrow> q | Some n \<Rightarrow> q\<lparr>jp_nir := n\<rparr>)"

definition nir_is_free :: "string \<Rightarrow> pk \<Rightarrow> jobseeker_profile list \<Rightarrow> bool" where
  "nir_is_free nir k ps \<longleftrightarrow> nir = [] \<or> \<not> list_ex (\<lambda>p. jp_user p \<noteq> k \<and> jp_nir p = nir) ps"

text \<open>The transaction: \<open>create_job_seeker_by_proxy\<close>, then the profile.\<close>

definition create_job_seeker ::
  "(pk \<Rightarrow> jobseeker_profile) \<Rightarrow> datetime \<Rightarrow> string \<Rightarrow> request_infos \<Rightarrow> js_user_data \<Rightarrow> js_profile_data \<Rightarrow> js_db \<Rightarrow> error + (user \<times> js_db)" where
  "create_job_seeker empty_profile now username r d q st =
     (let db = jd_db st in
      case ju_email d of
        None \<Rightarrow> Inl (KeyError ''email'')
      | Some email \<Rightarrow>
          let u = user_fields_on_save (new_job_seeker now username (rq_user r) email d db);
              p = fill_profile q ((empty_profile (us_pk u))\<lparr>jp_birth_place := None, jp_birth_country := None\<rparr>)
          in rbind (guard (user_is_unique u (db_users db)) (ValidationError ''unique'')) (\<lambda>_.
             rbind (guard (user_constraints u) (ValidationError ''constraints'')) (\<lambda>_.
             rbind (guard (profile_constraints p \<and> nir_is_free (jp_nir p) (us_pk u) (db_profiles db)) (ValidationError ''profile'')) (\<lambda>_.
             rbind (guard (jq_nir q \<noteq> None) (IntegrityError ''nir'')) (\<lambda>_.
             Inr (u, st\<lparr>jd_db := db\<lparr>db_users := db_users db @ [u], db_profiles := db_profiles db @ [p]\<rparr>,
                        jd_contacts := (jd_contacts st)(us_pk u \<mapsto> address_contact (ju_address d) empty_contact),
                        jd_last_checked_at := (jd_last_checked_at st)(us_pk u \<mapsto> now),
                        jd_created_by_org := (jd_created_by_org st)(us_pk u :=
                          (if rq_from_prescriber r then org_prescriber (assignment_organization (rq_current_organization r)) else None))\<rparr>))))))"

text \<open>\<open>geocode_address\<close>: \<open>None\<close> stands for the failed lookup.\<close>

definition geocode_user :: "(string option \<Rightarrow> string \<Rightarrow> (int \<times> int) option) \<Rightarrow> user \<Rightarrow> js_db \<Rightarrow> js_db" where
  "geocode_user geocode u st =
     (let c = contact_of (us_pk u) st in
      case geocode (geocoding_address (ct_line_1 c) (us_post_code u) (ct_city c)) (us_post_code u) of
        None \<Rightarrow> st
      | Some xy \<Rightarrow> st\<lparr>jd_contacts := (jd_contacts st)(us_pk u \<mapsto> c\<lparr>ct_coords := Some xy\<rparr>)\<rparr>)"

definition create_end_post ::
  "(pk \<Rightarrow> jobseeker_profile) \<Rightarrow> (string option \<Rightarrow> string \<Rightarrow> (int \<times> int) option) \<Rightarrow> datetime \<Rightarrow> date \<Rightarrow> string \<Rightarrow> request_infos \<Rightarrow> bool
   \<Rightarrow> js_session \<Rightarrow> js_db \<Rightarrow> error + (js_answer \<times> js_session option \<times> js_db)" where
  "create_end_post empty_profile geocode now today username r hire x st =
     rbind (process_company x st) (\<lambda>company.
     rbind (guard (jx_user x \<noteq> None \<and> jx_profile x \<noteq> None) (AttributeError ''items'')) (\<lambda>_.
     rbind (may_create r) (\<lambda>_.
     on_form (create_job_seeker empty_profile now username r (user_data x) (profile_data x) st)
       (Inr (To_Dashboard, Some x, st)) (\<lambda>(u, st1).
     let st2 = geocode_user geocode u st1 in
     rbind (get_exit_url x company hire True (us_pk u)) (\<lambda>e.
     rbind (if jx_tunnel x = TUNNEL_GPS then add_beneficiary now today r u st2
            else Inr (on_db (follow_beneficiary now today u (rq_user r) True) st2)) (\<lambda>st3.
     rbind (upsert_assignment now u (rq_user r) (assignment_organization (rq_current_organization r)) ACT_CREATE False
              (db_assignments (jd_db st3))) (\<lambda>t.
     Inr (To_Exit e, None, put_assignments t st3))))))))"

end
