(* ===== verification/Job_Seeker_Updates.thy ===== *)
theory Job_Seeker_Updates
  imports Job_Seeker_Wizards
begin

text \<open>
  The steps that update a job seeker, the page that asks for missing information before an application, the requests to
  modify a number and the switch of the stalled status, of \<open>www/job_seekers_views/views.py\<close>.  Every job seeker has a profile.
\<close>

section \<open>The session of the update\<close>

record js_update =
  jz_from_url :: string
  jz_job_seeker :: pk
  jz_user :: "js_user_data option"
  jz_profile :: "js_profile_data option"

definition update_kind :: string where "update_kind = ''job-seeker-update''"

definition may_update :: "request_infos \<Rightarrow> user \<Rightarrow> error + unit" where
  "may_update r u = guard (\<not> is_job_seeker (rq_user r) \<and> can_view_personal_information r u) PermissionDenied"

definition update_start ::
  "request_infos \<Rightarrow> pk \<Rightarrow> string option \<Rightarrow> string \<Rightarrow> js_update session \<Rightarrow> js_db \<Rightarrow> error + js_update session" where
  "update_start r k from_url name session st =
     (case find_job_seeker k (jd_db st) of
        None \<Rightarrow> Inl Http404
      | Some u \<Rightarrow> (case from_url of
          None \<Rightarrow> Inl Http404
        | Some url \<Rightarrow> rbind (may_update r u) (\<lambda>_.
            Inr (namespace_create session update_kind
              \<lparr>jz_from_url = url, jz_job_seeker = us_pk u, jz_user = None, jz_profile = None\<rparr> name))))"

definition update_setup :: "request_infos \<Rightarrow> js_update \<Rightarrow> js_db \<Rightarrow> error + (user \<times> jobseeker_profile)" where
  "update_setup r z st =
     (case find_job_seeker (jz_job_seeker z) (jd_db st) of
        None \<Rightarrow> Inl Http404
      | Some u \<Rightarrow> rbind (may_update r u) (\<lambda>_.
          case get_row jp_user (us_pk u) (db_profiles (jd_db st)) of
            None \<Rightarrow> Inl (DoesNotExist ''jobseeker_profile'') | Some p \<Rightarrow> Inr (u, p)))"

definition update_user_data :: "js_update \<Rightarrow> js_user_data" where
  "update_user_data z = (case jz_user z of None \<Rightarrow> no_user_data | Some u \<Rightarrow> u)"

definition update_profile_data :: "js_update \<Rightarrow> js_profile_data" where
  "update_profile_data z = (case jz_profile z of None \<Rightarrow> no_profile_data | Some p \<Rightarrow> p)"

section \<open>Steps\<close>

datatype update_answer = Update_Form | Update_Step nat | Update_Done string

text \<open>The initial values: those of the row, then the names and the number of the session.\<close>

definition update_initial :: "js_update \<Rightarrow> user \<Rightarrow> jobseeker_profile \<Rightarrow> identity_form" where
  "update_initial z u p =
     (case (case ju_identity (update_user_data z) of None \<Rightarrow> (us_title u, us_first_name u, us_last_name u) | Some i \<Rightarrow> i) of
       (t, f, l) \<Rightarrow>
         \<lparr>nf_title = t, nf_first_name = f, nf_last_name = l, nf_birthdate = jp_birthdate p, nf_birth_place = jp_birth_place p,
          nf_birth_country = jp_birth_country p,
          nf_nir = (case jq_nir (update_profile_data z) of None \<Rightarrow> jp_nir p | Some n \<Rightarrow> n),
          nf_lack_of_nir = False,
          nf_lack_of_nir_reason = (case jq_identity (update_profile_data z) of
             None \<Rightarrow> jp_lack_of_nir_reason p | Some i \<Rightarrow> nf_lack_of_nir_reason i)\<rparr>)"

definition update_step_1_post ::
  "asp_reference \<Rightarrow> (date \<Rightarrow> nat \<times> nat) \<Rightarrow> (date \<Rightarrow> int \<Rightarrow> date) \<Rightarrow> date \<Rightarrow> request_infos \<Rightarrow> js_update \<Rightarrow> identity_form \<Rightarrow> js_db
   \<Rightarrow> error + (update_answer \<times> js_update)" where
  "update_step_1_post ar year_month minus_years today r z form st =
     rbind (update_setup r z st) (\<lambda>(u, p).
     let z0 = z\<lparr>jz_user := Some (update_user_data z)\<rparr>; init = update_initial z u p in
     if \<not> can_edit_personal_information r u then Inr (Update_Step 2, z0)
     else on_form (identity_clean ar year_month minus_years today (nf_nir init)
              (filter (\<lambda>q. jp_user q \<noteq> us_pk u) (db_profiles (jd_db st)))
              (keep_initial (readonly_pii_fields p (db_certifications (jd_db st))) init form))
            (Inr (Update_Form, z0)) (\<lambda>f.
            case keep_identity f (update_user_data z) (update_profile_data z) of (ud, pd) \<Rightarrow>
              Inr (Update_Step 2, z\<lparr>jz_user := Some ud, jz_profile := Some pd\<rparr>)))"

definition update_step_2_post ::
  "(string \<Rightarrow> string option) \<Rightarrow> (string \<Rightarrow> geocoding) \<Rightarrow> request_infos \<Rightarrow> js_update \<Rightarrow> address_form \<Rightarrow> js_db
   \<Rightarrow> error + (update_answer \<times> js_update)" where
  "update_step_2_post city_of geocode r z form st =
     rbind (update_setup r z st) (\<lambda>(u, p).
     if \<not> can_edit_personal_information r u then Inr (Update_Step 3, z)
     else let c = contact_of (us_pk u) st in
       on_form (address_clean city_of geocode (ct_line_1 c, us_post_code u, ct_city c) form) (Inr (Update_Form, z)) (\<lambda>f.
       case jz_user z of
         None \<Rightarrow> Inl (TypeError ''user'')
       | Some d \<Rightarrow> Inr (Update_Step 3, z\<lparr>jz_user := Some (d\<lparr>ju_address := Some f\<rparr>)\<rparr>)))"

definition update_step_3_post ::
  "request_infos \<Rightarrow> js_update \<Rightarrow> situation_form \<Rightarrow> js_db \<Rightarrow> error + (update_answer \<times> js_update)" where
  "update_step_3_post r z form st =
     rbind (update_setup r z st) (\<lambda>(u, p).
     on_form (situation_clean (jp_situation p) form) (Inr (Update_Form, z)) (\<lambda>d.
     Inr (Update_Step 4, z\<lparr>jz_profile := Some ((update_profile_data z)\<lparr>jq_situation := Some d\<rparr>)\<rparr>)))"

section \<open>End of the update\<close>

definition updated_user :: "js_user_data \<Rightarrow> user \<Rightarrow> user" where
  "updated_user d u =
     (let u1 = (case ju_identity d of None \<Rightarrow> u
        | Some (t, f, l) \<Rightarrow> u\<lparr>us_title := t, us_first_name := f, us_last_name := l\<rparr>)
      in case ju_address d of None \<Rightarrow> u1 | Some a \<Rightarrow> u1\<lparr>us_post_code := dr_post_code a\<rparr>)"

text \<open>The save of a renamed job seeker resets columns of the profile, also of the one in memory.\<close>

definition profile_after_rename :: "user \<Rightarrow> user \<Rightarrow> jobseeker_profile \<Rightarrow> jobseeker_profile" where
  "profile_after_rename old u p =
     (if us_last_name u \<noteq> us_last_name old \<or> us_first_name u \<noteq> us_first_name old
      then p\<lparr>jp_pe_obfuscated_nir := None, jp_pe_last_certification_attempt_at := None, jp_ft_gps_id := None\<rparr> else p)"

text \<open>\<open>save(update_fields=..)\<close> checks the whole row and writes the columns of the session only: the department that the save computes is
  not among them.\<close>

definition write_fields :: "user \<Rightarrow> users_db \<Rightarrow> users_db" where
  "write_fields u db = db\<lparr>db_users := map_rows (\<lambda>v. us_pk v = us_pk u) (\<lambda>_. u) (db_users db)\<rparr>"

definition update_end_post ::
  "(pk \<Rightarrow> string) \<Rightarrow> (string option \<Rightarrow> string \<Rightarrow> (int \<times> int) option) \<Rightarrow> datetime \<Rightarrow> request_infos \<Rightarrow> js_update \<Rightarrow> js_db
   \<Rightarrow> error + (update_answer \<times> js_update option \<times> js_db)" where
  "update_end_post default_asp_uid geocode now r z st =
     rbind (update_setup r z st) (\<lambda>(old, oldp).
     let db = jd_db st; k = us_pk old;
         d = (if can_edit_personal_information r old then update_user_data z else no_user_data);
         u = updated_user d old;
         c = contact_of k st; c1 = address_contact (ju_address d) c;
         moved = (ct_line_1 c1 \<noteq> ct_line_1 c \<or> us_post_code u \<noteq> us_post_code old)
     in case user_save old u (users_db.truncate db) of
          Inl (ValidationError _) \<Rightarrow> Inr (Update_Step 1, Some z, st)
        | Inl e \<Rightarrow> Inl e
        | Inr udb \<Rightarrow>
            let p = fill_profile (update_profile_data z) (profile_after_rename old u oldp);
                st1 = st\<lparr>jd_db := put_users_db (profile_save default_asp_uid oldp p (write_fields u udb)) db,
                         jd_contacts := (jd_contacts st)(k \<mapsto> c1), jd_last_checked_at := (jd_last_checked_at st)(k \<mapsto> now)\<rparr>
            in rbind (guard (profile_constraints (profile_fields_on_save default_asp_uid oldp p) \<and>
                   nir_is_free (jp_nir p) k (db_profiles db)) (IntegrityError ''jobseekerprofile'')) (\<lambda>_.
               Inr (Update_Done (jz_from_url z), None, if moved then geocode_user geocode u st1 else st1)))"

section \<open>Missing information\<close>

record info_form =
  wf_phone :: string
  wf_birthdate :: "date option"
  wf_pole_emploi_id :: string
  wf_lack_of_pole_emploi_id_reason :: "lack_of_pole_emploi_id option"

definition job_seeker_has_required_info :: "jobseeker_profile \<Rightarrow> bool" where
  "job_seeker_has_required_info p \<longleftrightarrow>
     jp_birthdate p \<noteq> None \<and> (jp_pole_emploi_id p \<noteq> [] \<or> jp_lack_of_pole_emploi_id_reason p \<noteq> None)"

definition may_check_info :: "request_infos \<Rightarrow> user \<Rightarrow> bool" where
  "may_check_info r u \<longleftrightarrow> rq_from_employer r \<or> rq_from_authorized_prescriber r \<or> can_edit_personal_information r u"

text \<open>A field is only in the form when its column is empty.\<close>

definition check_info_clean ::
  "(date \<Rightarrow> nat \<times> nat) \<Rightarrow> (date \<Rightarrow> int \<Rightarrow> date) \<Rightarrow> date \<Rightarrow> jobseeker_profile \<Rightarrow> info_form \<Rightarrow> error + jobseeker_profile" where
  "check_info_clean year_month minus_years today p f =
     rbind (if jp_birthdate p \<noteq> None then Inr p
            else case wf_birthdate f of
              None \<Rightarrow> Inl (ValidationError ''birthdate'')
            | Some b \<Rightarrow> rbind (validate_birthdate minus_years today b) (\<lambda>_. Inr (p\<lparr>jp_birthdate := Some b\<rparr>))) (\<lambda>p1.
     rbind (if jp_pole_emploi_id p \<noteq> [] then Inr p1
            else let v = py_strip (wf_pole_emploi_id f) in
              rbind (if v = [] then Inr () else validate_pole_emploi_id v) (\<lambda>_.
              rbind (clean_pole_emploi_fields v (wf_lack_of_pole_emploi_id_reason f)) (\<lambda>(i, reason).
              Inr (p1\<lparr>jp_pole_emploi_id := i, jp_lack_of_pole_emploi_id_reason := reason\<rparr>)))) (\<lambda>p2.
     rbind (if jp_birthdate p \<noteq> None then Inr ()
            else clean_nir_title_birthdate_fields year_month (jp_nir p) None (jp_birthdate p2)) (\<lambda>_. Inr p2)))"

definition check_info_post ::
  "(pk \<Rightarrow> string) \<Rightarrow> (date \<Rightarrow> nat \<times> nat) \<Rightarrow> (date \<Rightarrow> int \<Rightarrow> date) \<Rightarrow> date \<Rightarrow> request_infos \<Rightarrow> user \<Rightarrow> info_form \<Rightarrow> js_db
   \<Rightarrow> error + (bool \<times> js_db)" where
  "check_info_post default_asp_uid year_month minus_years today r u f st =
     rbind (guard (may_check_info r u) PermissionDenied) (\<lambda>_.
     case get_row jp_user (us_pk u) (db_profiles (jd_db st)) of
       None \<Rightarrow> Inl (DoesNotExist ''jobseeker_profile'')
     | Some p \<Rightarrow> on_form (check_info_clean year_month minus_years today p f) (Inr (False, st)) (\<lambda>p'.
         rbind (user_save u u (users_db.truncate (jd_db st))) (\<lambda>udb.
         let c = contact_of (us_pk u) st in
         Inr (True, st\<lparr>jd_db := put_users_db (profile_save default_asp_uid p p' udb) (jd_db st),
           jd_contacts := (jd_contacts st)(us_pk u \<mapsto>
             (if ct_phone c = [] then c\<lparr>ct_phone := py_strip (wf_phone f)\<rparr> else c))\<rparr>))))"

section \<open>Requests on the number, stalled status\<close>

text \<open>The second error of \<open>clean\<close> is that of a request already made for the job seeker.\<close>

definition nir_request_clean :: "pk \<Rightarrow> string \<Rightarrow> string \<Rightarrow> string \<Rightarrow> nir_request list \<Rightarrow> error + (string \<times> string)" where
  "nir_request_clean k current posted rationale qs =
     (case (required_text posted, required_text rationale) of
        (Some s, Some why) \<Rightarrow>
          rbind (guard (length s \<le> 21) (ValidationError ''max_length'')) (\<lambda>_.
          rbind (validate_nir s) (\<lambda>_.
          rbind (guard (10 \<le> length why \<and> length why \<le> 2000) (ValidationError ''rationale'')) (\<lambda>_.
          let nir = filter (\<lambda>c. c \<noteq> CHR '' '') s in
          rbind (guard (nir \<noteq> current) (ValidationError ''nir'')) (\<lambda>_.
          rbind (guard (length nir \<le> 15) (ValidationError ''nir'')) (\<lambda>_.
          rbind (guard (\<not> list_ex (\<lambda>q. nq_profile q = k \<and> nq_processed_at q = None) qs) (ValidationError ''ongoing'')) (\<lambda>_.
          Inr (nir, why)))))))
      | _ \<Rightarrow> Inl (ValidationError ''required''))"

definition nir_modification_request_post ::
  "datetime \<Rightarrow> request_infos \<Rightarrow> pk \<Rightarrow> string \<Rightarrow> string \<Rightarrow> js_db \<Rightarrow> error + (bool \<times> js_db)" where
  "nir_modification_request_post now r k posted rationale st =
     rbind (check_request (\<lambda>r. is_job_seeker (rq_user r) \<or> rq_from_employer r \<or> rq_from_prescriber r) r) (\<lambda>_.
     case find_job_seeker k (jd_db st) of
       None \<Rightarrow> Inl Http404
     | Some u \<Rightarrow>
         rbind (guard (can_view_personal_information r u) Http404) (\<lambda>_.
         case get_row jp_user (us_pk u) (db_profiles (jd_db st)) of
           None \<Rightarrow> Inl (DoesNotExist ''jobseeker_profile'')
         | Some p \<Rightarrow> on_form (nir_request_clean (us_pk u) (jp_nir p) posted rationale (jd_nir_requests st)) (Inr (False, st))
             (\<lambda>(nir, why). Inr (True, st\<lparr>jd_nir_requests := jd_nir_requests st @
                [\<lparr>nq_profile = us_pk u, nq_nir = nir, nq_requested_by = us_pk (rq_user r), nq_rationale = why,
                  nq_created_at = now, nq_processed_at = None\<rparr>]\<rparr>))))"

text \<open>The box of the form is compared with its current value, an empty one being that of an unticked box.\<close>

definition switch_stalled_status :: "(pk \<Rightarrow> string) \<Rightarrow> request_infos \<Rightarrow> pk \<Rightarrow> bool \<Rightarrow> js_db \<Rightarrow> error + (bool \<times> js_db)" where
  "switch_stalled_status default_asp_uid r k ticked st =
     rbind (check_request rq_from_authorized_prescriber r) (\<lambda>_.
     case find_job_seeker k (jd_db st) of
       None \<Rightarrow> Inl Http404
     | Some u \<Rightarrow> (case get_row jp_user (us_pk u) (filter jp_is_stalled (db_profiles (jd_db st))) of
         None \<Rightarrow> Inl Http404
       | Some p \<Rightarrow>
           if ticked \<noteq> (jp_is_not_stalled_anymore p = Some True) then
             Inr (True, st\<lparr>jd_db := put_users_db (profile_save default_asp_uid p (p\<lparr>jp_is_not_stalled_anymore := Some ticked\<rparr>)
                (users_db.truncate (jd_db st))) (jd_db st)\<rparr>)
           else Inr (False, st)))"

end
