(* ===== verification/Job_Seeker_Effects.thy ===== *)
theory Job_Seeker_Effects
  imports Job_Seeker_Updates Sso_Login_Effects
begin

text \<open>
  The invariant of the tables of the job seekers, and what each request on them keeps.
\<close>

section \<open>Invariant\<close>

definition js_ok :: "js_db \<Rightarrow> bool" where
  "js_ok st \<longleftrightarrow>
     users_table_ok (db_users (jd_db st)) \<and> profile_table_ok (db_profiles (jd_db st)) \<and>
     jp_user ` set (db_profiles (jd_db st)) \<subseteq> us_pk ` set (db_users (jd_db st)) \<and>
     assignment_table_ok (db_assignments (jd_db st)) \<and> gps_inv (jd_db st)"

lemma profile_table_iff:
  "profile_table_ok ps \<longleftrightarrow>
     distinct (map jp_user ps) \<and> (\<forall>p \<in> set ps. profile_constraints p) \<and>
     (\<forall>p \<in> set ps. \<forall>q \<in> set ps. jp_user p \<noteq> jp_user q \<longrightarrow> jp_nir p \<noteq> [] \<longrightarrow> jp_nir p \<noteq> jp_nir q)"
proof -
  have "distinct (map jp_nir (filter (\<lambda>p. jp_nir p \<noteq> []) ps)) \<longleftrightarrow>
      (\<forall>p \<in> set ps. \<forall>q \<in> set ps. jp_user p \<noteq> jp_user q \<longrightarrow> jp_nir p \<noteq> [] \<longrightarrow> jp_nir p \<noteq> jp_nir q)"
    if d: "distinct (map jp_user ps)"
  proof -
    have dp: "distinct ps" and inj: "inj_on jp_user (set ps)" using d by (simp_all add: distinct_map)
    have "distinct (map jp_nir (filter (\<lambda>p. jp_nir p \<noteq> []) ps)) \<longleftrightarrow> inj_on jp_nir {p \<in> set ps. jp_nir p \<noteq> []}"
      using dp by (simp add: distinct_map)
    also have "\<dots> \<longleftrightarrow> (\<forall>p \<in> set ps. \<forall>q \<in> set ps. jp_user p \<noteq> jp_user q \<longrightarrow> jp_nir p \<noteq> [] \<longrightarrow> jp_nir p \<noteq> jp_nir q)"
    proof
      assume h: "inj_on jp_nir {p \<in> set ps. jp_nir p \<noteq> []}"
      show "\<forall>p \<in> set ps. \<forall>q \<in> set ps. jp_user p \<noteq> jp_user q \<longrightarrow> jp_nir p \<noteq> [] \<longrightarrow> jp_nir p \<noteq> jp_nir q"
      proof (intro ballI impI notI)
        fix p q assume a: "p \<in> set ps" "q \<in> set ps" "jp_user p \<noteq> jp_user q" "jp_nir p \<noteq> []" "jp_nir p = jp_nir q"
        then have "p = q" using inj_onD [OF h a(5)] by simp
        then show False using a(3) by simp
      qed
    next
      assume h: "\<forall>p \<in> set ps. \<forall>q \<in> set ps. jp_user p \<noteq> jp_user q \<longrightarrow> jp_nir p \<noteq> [] \<longrightarrow> jp_nir p \<noteq> jp_nir q"
      show "inj_on jp_nir {p \<in> set ps. jp_nir p \<noteq> []}"
      proof (rule inj_onI)
        fix p q assume a: "p \<in> {p \<in> set ps. jp_nir p \<noteq> []}" "q \<in> {p \<in> set ps. jp_nir p \<noteq> []}" "jp_nir p = jp_nir q"
        then have "jp_user p = jp_user q" using h by blast
        then show "p = q" using inj_onD [OF inj] a by blast
      qed
    qed
    finally show ?thesis .
  qed
  then show ?thesis unfolding profile_table_ok_def list_all_iff by blast
qed

lemma nir_is_free_iff: "nir_is_free n k ps \<longleftrightarrow> (\<forall>p \<in> set ps. jp_user p \<noteq> k \<longrightarrow> n \<noteq> [] \<longrightarrow> jp_nir p \<noteq> n)"
  by (auto simp: nir_is_free_def list_ex_iff)

lemma profile_table_replace:
  assumes "profile_table_ok ps" "profile_constraints q" "nir_is_free (jp_nir q) (jp_user q) ps"
  shows "profile_table_ok (map_rows (\<lambda>x. jp_user x = jp_user q) (\<lambda>_. q) ps)"
proof -
  have "map jp_user (map_rows (\<lambda>x. jp_user x = jp_user q) (\<lambda>_. q) ps) = map jp_user ps" by (rule map_rows_key) simp
  then show ?thesis using assms unfolding profile_table_iff nir_is_free_iff
    by (simp only: set_map_rows) (auto split: if_splits; metis)
qed

lemma profile_table_append:
  assumes "profile_table_ok ps" "profile_constraints q" "nir_is_free (jp_nir q) (jp_user q) ps" "jp_user q \<notin> jp_user ` set ps"
  shows "profile_table_ok (ps @ [q])"
  using assms unfolding profile_table_iff nir_is_free_iff by auto

section \<open>Saves\<close>

lemma profile_fields_on_save_fields [simp]:
  "jp_user (profile_fields_on_save h old p) = jp_user p" "jp_nir (profile_fields_on_save h old p) = jp_nir p"
  "jp_birthdate (profile_fields_on_save h old p) = jp_birthdate p"
  "jp_lack_of_nir_reason (profile_fields_on_save h old p) = jp_lack_of_nir_reason p"
  "jp_situation (profile_fields_on_save h old p) = jp_situation p"
  by (simp_all add: profile_fields_on_save_def Let_def)

lemma profile_fields_on_save_constraints:
  "profile_constraints p \<Longrightarrow> profile_constraints (profile_fields_on_save h old p)"
  by (auto simp: profile_fields_on_save_def profile_constraints_def Let_def)

lemma profile_save_table:
  assumes "profile_table_ok (db_profiles db)" "profile_constraints (profile_fields_on_save h old p)"
    and "nir_is_free (jp_nir p) (jp_user p) (db_profiles db)"
  shows "profile_table_ok (db_profiles (profile_save h old p db))"
  using profile_table_replace [OF assms(1,2)] assms(3) by (simp add: profile_save_def Let_def)

lemma profile_save_frame [simp]:
  "db_assignments (profile_save h old p db) = db_assignments db"
  by (simp_all add: profile_save_def Let_def)

lemma put_users_db_fields [simp]:
  "db_users (put_users_db u db) = db_users u" "db_profiles (put_users_db u db) = db_profiles u"
  "db_certifications (put_users_db u db) = db_certifications u" "db_assignments (put_users_db u db) = db_assignments u"
  "db_groups (put_users_db u db) = db_groups db" "db_memberships (put_users_db u db) = db_memberships db"
  by (simp_all add: put_users_db_def)

lemma gps_inv_put [simp]: "gps_inv (put_users_db u db) = gps_inv db"
  by (simp add: gps_inv_def)

lemma truncate_fields [simp]:
  "db_users (users_db.truncate db) = db_users db" "db_profiles (users_db.truncate db) = db_profiles db"
  "db_certifications (users_db.truncate db) = db_certifications db"
  "db_assignments (users_db.truncate db) = db_assignments db"
  by (simp_all add: users_db.truncate_def)

lemma profile_row:
  assumes "profile_table_ok ps" "get_row jp_user k ps = Some p"
  shows "p \<in> set ps" "jp_user p = k" "profile_constraints p"
  using assms get_row_SomeD [OF assms(2)] by (auto simp: profile_table_iff)

lemma write_nir_ok:
  assumes "write_nir h nir p st = Inr st'" "js_ok st" "get_row jp_user k (db_profiles (jd_db st)) = Some p"
  shows "js_ok st'"
proof -
  have p: "profile_constraints p" using profile_row [OF _ assms(3)] assms(2) by (simp add: js_ok_def)
  let ?p = "p\<lparr>jp_nir := nir, jp_lack_of_nir_reason := None\<rparr>"
  have "profile_constraints ?p" using p by (simp add: profile_constraints_def)
  then have "profile_table_ok (db_profiles (profile_save h p ?p (users_db.truncate (jd_db st))))"
    using assms(1,2) profile_fields_on_save_constraints
    by (intro profile_save_table) (auto simp: write_nir_def Let_def js_ok_def nir_is_free_def list_ex_iff)
  moreover have "jp_user ` set (db_profiles (profile_save h p ?p (users_db.truncate (jd_db st)))) =
      jp_user ` set (db_profiles (jd_db st))"
    using profile_save_profiles [of h p ?p "users_db.truncate (jd_db st)"] by (metis set_map truncate_fields(2))
  moreover have "st' = st\<lparr>jd_db := put_users_db (profile_save h p ?p (users_db.truncate (jd_db st))) (jd_db st)\<rparr>"
    using assms(1) by (simp add: write_nir_def Let_def)
  ultimately show ?thesis using assms(2) by (simp add: js_ok_def)
qed

lemma write_nir_row:
  assumes "write_nir h nir p st = Inr st'" "get_row jp_user k (db_profiles (jd_db st)) = Some p"
  shows "\<exists>p'. get_row jp_user k (db_profiles (jd_db st')) = Some p' \<and> jp_nir p' = nir \<and> jp_lack_of_nir_reason p' = None"
proof -
  have "jp_user p = k" using get_row_SomeD [OF assms(2)] by simp
  then show ?thesis using assms get_row_map_rows [of "\<lambda>q. jp_user q = k" jp_user "\<lambda>_. profile_fields_on_save h p
      (p\<lparr>jp_nir := nir, jp_lack_of_nir_reason := None\<rparr>)"]
    by (auto simp: write_nir_def Let_def profile_save_def)
qed

lemma upsert_assignment_ok:
  assumes "upsert_assignment now js u org kind b t = Inr t'" "assignment_table_ok t"
  shows "assignment_table_ok t'"
proof (cases "is_professional u")
  case True
  let ?a = "\<lparr>as_created_at = now, as_updated_at = now, as_job_seeker = us_pk js, as_professional = us_pk u,
    as_prescriber_organization = org_prescriber org, as_company = org_company org, as_last_action_kind = kind,
    as_assigned_to_unknown_advisor = b\<rparr>"
  have a: "assignment_constraints ?a" "t' = put_assignment ?a t"
    using assms(1) True by (auto simp: upsert_assignment_def put_assignment_def Let_def split: if_splits)
  show ?thesis using a assms(2) put_assignment_constraints [of t ?a] assigns.ups_distinct [of t ?a]
    by (simp add: assignment_table_ok_def)
next
  case False
  then show ?thesis using assms by (auto simp: upsert_assignment_def split: if_splits)
qed

lemma upsert_assignment_found:
  assumes "upsert_assignment now js u org kind b t = Inr t'" "is_professional u"
  shows "\<exists>a \<in> set t'. assignment_key a = (us_pk js, us_pk u, org_prescriber org, org_company org) \<and> as_last_action_kind a = kind"
proof -
  let ?a = "\<lparr>as_created_at = now, as_updated_at = now, as_job_seeker = us_pk js, as_professional = us_pk u,
    as_prescriber_organization = org_prescriber org, as_company = org_company org, as_last_action_kind = kind,
    as_assigned_to_unknown_advisor = b\<rparr>"
  have t': "t' = put_assignment ?a t"
    using assms by (auto simp: upsert_assignment_def put_assignment_def Let_def split: if_splits)
  show ?thesis
  proof (cases "\<exists>x \<in> set t. assignment_key x = assignment_key ?a")
    case True
    then obtain x where x: "x \<in> set t" "assignment_key x = assignment_key ?a" by blast
    have "x\<lparr>as_updated_at := now, as_last_action_kind := kind, as_assigned_to_unknown_advisor := b\<rparr> \<in> set t'"
      using map_rows_updated [OF x(1), of "\<lambda>y. assignment_key y = assignment_key ?a"] x(2) True
      by (simp add: t' put_assignment_def upsert_update)
    then show ?thesis using x(2) by (intro bexI) (auto simp: assignment_key_def)
  next
    case False
    then show ?thesis by (simp add: t' put_assignment_def upsert_insert assignment_key_def)
  qed
qed

lemma put_assignments_ok: "js_ok st \<Longrightarrow> assignment_table_ok t \<Longrightarrow> js_ok (put_assignments t st)"
  by (simp add: js_ok_def put_assignments_def gps_inv_def)

lemma assign_last_advisor_ok:
  assumes "assign_last_advisor now r u st = Inr st'" "js_ok st"
  shows "js_ok st'"
proof (cases "is_last_advisor r u (jd_db st)")
  case False
  then obtain t where "upsert_assignment now u (rq_user r) (assignment_organization (rq_current_organization r))
      ACT_SELF_ASSIGN False (db_assignments (jd_db st)) = Inr t" "st' = put_assignments t st"
    using assms(1) by (auto simp: assign_last_advisor_def)
  moreover have "assignment_table_ok (db_assignments (jd_db st))" using assms(2) by (simp add: js_ok_def)
  ultimately show ?thesis using put_assignments_ok [OF assms(2)] upsert_assignment_ok by blast
qed (use assms in \<open>simp add: assign_last_advisor_def\<close>)

lemma follow_ok: "js_ok st \<Longrightarrow> js_ok (on_db (follow_beneficiary now today u v act) st)"
  using follow_beneficiary_inv [of "jd_db st" now today u v act] by (simp add: js_ok_def)

lemma add_beneficiary_ok: "add_beneficiary now today r u st = Inr st' \<Longrightarrow> js_ok st \<Longrightarrow> js_ok st'"
  using follow_ok by (auto simp: add_beneficiary_def)

lemma leave_with_ok: "leave_with now today r hire x c u st = Inr (a, y, st') \<Longrightarrow> js_ok st \<Longrightarrow> js_ok st'"
  by (auto simp: leave_with_def split: if_splits intro: add_beneficiary_ok assign_last_advisor_ok)

section \<open>Requests\<close>

lemma check_nir_job_seeker_post_ok:
  "check_nir_job_seeker_post h r x posted st = Inr (a, y, st') \<Longrightarrow> js_ok st \<Longrightarrow> js_ok st'"
  by (auto simp: check_nir_job_seeker_post_def split: option.splits sum.splits intro: write_nir_ok)

lemma check_nir_for_sender_post_ok:
  assumes "check_nir_for_sender_post now r hire x posted confirm st = Inr (a, y, st')" "js_ok st"
  shows "js_ok st'"
proof (cases "check_nir_clean None posted (jd_db st)")
  case (Inr p)
  then show ?thesis using assms by (cases p; cases "snd p")
    (auto simp: check_nir_for_sender_post_def split: if_splits intro: assign_last_advisor_ok)
qed (use assms in \<open>auto simp: check_nir_for_sender_post_def\<close>)

lemma search_by_email_post_ok:
  assumes "search_by_email_post ve h now today r hire x posted preview confirm st = Inr (a, y, st')" "js_ok st"
  shows "js_ok st'"
proof (cases "exists_clean ve posted (jd_db st)")
  case (Inr p)
  show ?thesis
  proof (cases "snd p")
    case None
    then show ?thesis using assms Inr by (cases p) (auto simp: search_by_email_post_def)
  next
    case (Some u)
    then show ?thesis using assms Inr
      by (cases p; cases "get_row jp_user (us_pk u) (db_profiles (jd_db st))")
        (auto simp: search_by_email_post_def Let_def split: if_splits intro: leave_with_ok write_nir_ok)
  qed
qed (use assms in \<open>auto simp: search_by_email_post_def\<close>)

lemma geocode_user_db [simp]: "jd_db (geocode_user g u st) = jd_db st"
  by (simp add: geocode_user_def Let_def split: option.splits)

lemma geocode_user_ok [simp]: "js_ok (geocode_user g u st) = js_ok st"
  by (simp add: js_ok_def)

lemma fill_profile_user [simp]: "jp_user (fill_profile q p) = jp_user p" "jp_asp_uid (fill_profile q p) = jp_asp_uid p"
  by (auto simp: fill_profile_def fill_situation_def fill_identity_def Let_def split: option.splits)

lemma create_job_seeker_InrD:
  assumes "create_job_seeker ep now username r d q st = Inr (u, st')"
  obtains email p where "ju_email d = Some email"
    "u = user_fields_on_save (new_job_seeker now username (rq_user r) email d (jd_db st))"
    "p = fill_profile q ((ep (us_pk u))\<lparr>jp_birth_place := None, jp_birth_country := None\<rparr>)"
    "user_is_unique u (db_users (jd_db st))" "user_constraints u" "profile_constraints p"
    "nir_is_free (jp_nir p) (us_pk u) (db_profiles (jd_db st))" "jq_nir q \<noteq> None"
    "jd_db st' = (jd_db st)\<lparr>db_users := db_users (jd_db st) @ [u], db_profiles := db_profiles (jd_db st) @ [p]\<rparr>"
  using assms by (auto simp: create_job_seeker_def Let_def split: option.splits)

lemma unique_user_append:
  assumes "users_table_ok us" "user_is_unique u us" "us_pk u \<notin> us_pk ` set us"
  shows "users_table_ok (us @ [u])"
proof -
  have f: "us_username v \<noteq> us_username u \<and> (us_email u \<noteq> None \<longrightarrow> login_key v \<noteq> login_key u)" if "v \<in> set us" for v
  proof -
    have "us_pk v \<noteq> us_pk u" using that assms(3) by (metis imageI)
    then show ?thesis using assms(2) that by (auto simp: user_is_unique_def list_ex_iff login_key_def)
  qed
  have g: "us_email v \<noteq> None \<longrightarrow> login_key v \<noteq> login_key u" if "v \<in> set us" for v
    using f [OF that] by (cases "us_email u") (auto simp: login_key_def)
  show ?thesis using assms(1,3) f g unfolding users_table_ok_def by (auto, metis+)
qed

lemma new_job_seeker_pk [simp]: "us_pk (new_job_seeker now username c e d db) = next_pk us_pk (db_users db)"
  by (simp add: new_job_seeker_def)

lemma create_job_seeker_ok:
  assumes "create_job_seeker ep now username r d q st = Inr (u, st')" "js_ok st" "\<And>k. jp_user (ep k) = k"
  shows "js_ok st'"
proof -
  obtain email p where c: "u = user_fields_on_save (new_job_seeker now username (rq_user r) email d (jd_db st))"
    "p = fill_profile q ((ep (us_pk u))\<lparr>jp_birth_place := None, jp_birth_country := None\<rparr>)"
    "user_is_unique u (db_users (jd_db st))" "profile_constraints p"
    "nir_is_free (jp_nir p) (us_pk u) (db_profiles (jd_db st))"
    "jd_db st' = (jd_db st)\<lparr>db_users := db_users (jd_db st) @ [u], db_profiles := db_profiles (jd_db st) @ [p]\<rparr>"
    using create_job_seeker_InrD [OF assms(1)] by metis
  have fresh: "us_pk u \<notin> us_pk ` set (db_users (jd_db st))" by (simp add: c(1))
  have pu: "jp_user p = us_pk u" by (simp add: c(2) assms(3))
  have "jp_user p \<notin> jp_user ` set (db_profiles (jd_db st))" using fresh pu assms(2) by (auto simp: js_ok_def)
  then show ?thesis
    using assms(2) pu c(4,5) unique_user_append [OF _ c(3) fresh] profile_table_append [of _ p]
    by (auto simp: js_ok_def c(6) gps_inv_def)
qed

lemma create_end_post_InrD:
  assumes "create_end_post ep g now today username r hire x st = Inr (a, y, st')"
  obtains (invalid) "a = To_Dashboard" "st' = st" "y = Some x"
  | (created) u st1 st3 t e where
      "create_job_seeker ep now username r (user_data x) (profile_data x) st = Inr (u, st1)"
      "(if jx_tunnel x = TUNNEL_GPS then add_beneficiary now today r u (geocode_user g u st1)
        else Inr (on_db (follow_beneficiary now today u (rq_user r) True) (geocode_user g u st1))) = Inr st3"
      "upsert_assignment now u (rq_user r) (assignment_organization (rq_current_organization r)) ACT_CREATE False
        (db_assignments (jd_db st3)) = Inr t"
      "a = To_Exit e" "y = None" "st' = put_assignments t st3" "rq_from_employer r \<or> rq_from_prescriber r"
proof (cases "create_job_seeker ep now username r (user_data x) (profile_data x) st")
  case (Inl e)
  then show ?thesis using assms invalid by (cases e) (auto simp: create_end_post_def on_form_def)
next
  case (Inr p)
  then show ?thesis using assms created by (cases p) (auto simp: create_end_post_def on_form_def Let_def may_create_def)
qed

lemma create_end_post_ok:
  assumes "create_end_post ep g now today username r hire x st = Inr (a, y, st')" "js_ok st" "\<And>k. jp_user (ep k) = k"
  shows "js_ok st'"
  using assms(1)
proof (cases rule: create_end_post_InrD)
  case (created u st1 st3 t e)
  have "js_ok (geocode_user g u st1)" using create_job_seeker_ok [OF created(1) assms(2,3)] by simp
  then have "js_ok st3"
    using created(2) follow_ok [of "geocode_user g u st1" now today u "rq_user r" True] add_beneficiary_ok
    by (auto split: if_splits)
  then show ?thesis using put_assignments_ok upsert_assignment_ok [OF created(3)] by (simp add: created(6) js_ok_def)
qed (use assms(2) in simp)

section \<open>Updates\<close>

lemma users_table_cong:
  assumes "map (\<lambda>u. (us_pk u, us_username u, us_email u)) us = map (\<lambda>u. (us_pk u, us_username u, us_email u)) vs"
  shows "users_table_ok us = users_table_ok vs"
proof -
  have e: "users_table_ok us \<longleftrightarrow> (let ks = map (\<lambda>u. (us_pk u, us_username u, us_email u)) us in distinct (map fst ks) \<and>
      (\<forall>a \<in> set ks. \<forall>b \<in> set ks. fst a \<noteq> fst b \<longrightarrow> fst (snd a) \<noteq> fst (snd b) \<and>
        (snd (snd a) \<noteq> None \<longrightarrow> map_option py_lower (snd (snd a)) \<noteq> map_option py_lower (snd (snd b)))))" for us
    by (simp add: users_table_ok_def login_key_def comp_def)
  show ?thesis unfolding e assms by (rule refl)
qed

lemma updated_user_fields [simp]:
  "us_pk (updated_user d u) = us_pk u" "us_username (updated_user d u) = us_username u"
  "us_email (updated_user d u) = us_email u" "us_kind (updated_user d u) = us_kind u"
  "us_department (updated_user d u) = us_department u" "us_is_active (updated_user d u) = us_is_active u"
  by (auto simp: updated_user_def Let_def split: option.splits)

lemma profile_after_rename_fields [simp]:
  "jp_user (profile_after_rename old u p) = jp_user p" "jp_nir (profile_after_rename old u p) = jp_nir p"
  by (simp_all add: profile_after_rename_def)

lemma map_rows_twice:
  "(\<And>x. c x \<Longrightarrow> c (f x)) \<Longrightarrow> map_rows c (\<lambda>_. q) (map_rows c f xs) = map_rows c (\<lambda>_. q) xs"
  by (induction xs) auto

lemma update_end_post_InrD:
  assumes "update_end_post h g now r z st = Inr (a, y, st')"
  obtains (invalid) "a = Update_Step 1" "y = Some z" "st' = st"
  | (updated) old oldp d u p where "update_setup r z st = Inr (old, oldp)"
      "d = (if can_edit_personal_information r old then update_user_data z else no_user_data)" "u = updated_user d old"
      "p = fill_profile (update_profile_data z) (profile_after_rename old u oldp)"
      "profile_constraints (profile_fields_on_save h oldp p)" "nir_is_free (jp_nir p) (us_pk old) (db_profiles (jd_db st))"
      "db_users (jd_db st') = map_rows (\<lambda>v. us_pk v = us_pk old) (\<lambda>_. u) (db_users (jd_db st))"
      "db_profiles (jd_db st') = map_rows (\<lambda>q. jp_user q = jp_user oldp) (\<lambda>_. profile_fields_on_save h oldp p)
         (db_profiles (jd_db st))"
      "db_assignments (jd_db st') = db_assignments (jd_db st)" "gps_inv (jd_db st') = gps_inv (jd_db st)"
      "a = Update_Done (jz_from_url z)" "y = None" "jd_nir_requests st' = jd_nir_requests st"
proof -
  obtain old oldp where s: "update_setup r z st = Inr (old, oldp)"
    using assms by (auto simp: update_end_post_def)
  have k: "jp_user oldp = us_pk old"
    using s get_row_SomeD by (fastforce simp: update_setup_def split: option.splits)
  let ?d = "if can_edit_personal_information r old then update_user_data z else no_user_data"
  let ?u = "updated_user ?d old"
  let ?p = "fill_profile (update_profile_data z) (profile_after_rename old ?u oldp)"
  show ?thesis
  proof (cases "user_save old ?u (users_db.truncate (jd_db st))")
    case (Inl e)
    then show ?thesis using assms s invalid by (cases e) (auto simp: update_end_post_def Let_def)
  next
    case (Inr udb)
    have us: "map_rows (\<lambda>v. us_pk v = us_pk old) (\<lambda>_. ?u) (db_users udb) =
        map_rows (\<lambda>v. us_pk v = us_pk old) (\<lambda>_. ?u) (db_users (jd_db st))"
      using user_save_spec(1) [OF Inr] by (simp add: map_rows_twice)
    have ps: "map_rows (\<lambda>q. jp_user q = us_pk old) (\<lambda>_. q') (db_profiles udb) =
        map_rows (\<lambda>q. jp_user q = us_pk old) (\<lambda>_. q') (db_profiles (jd_db st))" for q'
      using Inr by (auto simp: user_save_def Let_def map_rows_twice split: if_splits)
    have asg: "db_assignments udb = db_assignments (jd_db st)"
      using Inr by (auto simp: user_save_def Let_def split: if_splits)
    have db: "jd_db st' = put_users_db (profile_save h oldp ?p (write_fields ?u udb)) (jd_db st)"
      and rest: "profile_constraints (profile_fields_on_save h oldp ?p)"
        "nir_is_free (jp_nir ?p) (us_pk old) (db_profiles (jd_db st))"
        "a = Update_Done (jz_from_url z)" "y = None" "jd_nir_requests st' = jd_nir_requests st"
      using assms s Inr by (auto simp: update_end_post_def Let_def geocode_user_def split: option.splits)
    show ?thesis
      by (rule updated [OF s refl refl refl rest(1,2) _ _ _ _ rest(3-5)])
        (use us ps asg k in \<open>simp_all add: db write_fields_def profile_save_def Let_def\<close>)
  qed
qed

lemma setup_rows:
  assumes "update_setup r z st = Inr (u, p)"
  shows "get_row us_pk (jz_job_seeker z) (filter is_job_seeker (db_users (jd_db st))) = Some u" "is_job_seeker u"
    "u \<in> set (db_users (jd_db st))" "us_pk u = jz_job_seeker z"
    "get_row jp_user (us_pk u) (db_profiles (jd_db st)) = Some p" "jp_user p = us_pk u" "p \<in> set (db_profiles (jd_db st))"
    "can_view_personal_information r u" "\<not> is_job_seeker (rq_user r)"
proof -
  have h: "find_job_seeker (jz_job_seeker z) (jd_db st) = Some u" "get_row jp_user (us_pk u) (db_profiles (jd_db st)) = Some p"
    "may_update r u = Inr ()"
    using assms by (auto simp: update_setup_def split: option.splits)
  show "get_row us_pk (jz_job_seeker z) (filter is_job_seeker (db_users (jd_db st))) = Some u"
    using h(1) by (simp add: find_job_seeker_def)
  from get_row_SomeD [OF this] show "is_job_seeker u" "u \<in> set (db_users (jd_db st))" "us_pk u = jz_job_seeker z" by auto
  show "get_row jp_user (us_pk u) (db_profiles (jd_db st)) = Some p" by (rule h(2))
  from get_row_SomeD [OF this] show "jp_user p = us_pk u" "p \<in> set (db_profiles (jd_db st))" by auto
  show "can_view_personal_information r u" "\<not> is_job_seeker (rq_user r)" using h(3) by (auto simp: may_update_def)
qed

lemma update_end_post_ok:
  assumes "update_end_post h g now r z st = Inr (a, y, st')" "js_ok st"
  shows "js_ok st'"
  using assms(1)
proof (cases rule: update_end_post_InrD)
  case (updated old oldp d u p)
  note S = setup_rows [OF updated(1)]
  have keys: "map jp_user (db_profiles (jd_db st')) = map jp_user (db_profiles (jd_db st))"
    unfolding updated(8) by (rule map_rows_key) (simp add: updated(4))
  have ukeys: "map us_pk (db_users (jd_db st')) = map us_pk (db_users (jd_db st))"
    unfolding updated(7) by (rule map_rows_key) (simp add: updated(3))
  have "users_table_ok (db_users (jd_db st'))"
  proof -
    have "(us_username v, us_email v) = (us_username old, us_email old)" if "v \<in> set (db_users (jd_db st))" "us_pk v = us_pk old" for v
    proof -
      have "inj_on us_pk (set (db_users (jd_db st)))" using assms(2) by (simp add: js_ok_def users_table_ok_def distinct_map)
      then have "v = old" using that S(3) by (blast dest: inj_onD)
      then show ?thesis by simp
    qed
    then have "map (\<lambda>u. (us_pk u, us_username u, us_email u)) (db_users (jd_db st')) =
        map (\<lambda>u. (us_pk u, us_username u, us_email u)) (db_users (jd_db st))"
      unfolding updated(7) map_rows_def by (simp add: updated(3))
    from users_table_cong [OF this] show ?thesis using assms(2) by (simp add: js_ok_def)
  qed
  moreover have "profile_table_ok (db_profiles (jd_db st'))"
    using profile_table_replace [of "db_profiles (jd_db st)" "profile_fields_on_save h oldp p"] assms(2) updated(4,5,6) S(6)
    by (simp add: js_ok_def updated(8))
  moreover have "jp_user ` set (db_profiles (jd_db st')) = jp_user ` set (db_profiles (jd_db st))"
    "us_pk ` set (db_users (jd_db st')) = us_pk ` set (db_users (jd_db st))"
    using keys ukeys by (metis set_map)+
  ultimately show ?thesis using assms(2) updated(9,10) by (simp add: js_ok_def)
qed (use assms(2) in simp)

section \<open>Other requests\<close>

lemma own_nir_is_free:
  assumes "profile_table_ok ps" "p \<in> set ps"
  shows "nir_is_free (jp_nir p) (jp_user p) ps"
  using assms unfolding profile_table_iff nir_is_free_iff by metis

lemma profile_save_ok:
  assumes "js_ok st" "p \<in> set (db_profiles (jd_db st))" "jp_user p' = jp_user p" "jp_nir p' = jp_nir p" "profile_constraints p'"
    and "db_users udb = us" "users_table_ok us" "us_pk ` set us = us_pk ` set (db_users (jd_db st))"
    and "db_profiles udb = db_profiles (jd_db st)" "db_assignments udb = db_assignments (jd_db st)"
  shows "js_ok (st\<lparr>jd_db := put_users_db (profile_save h p p' udb) (jd_db st)\<rparr>)"
proof -
  have "profile_table_ok (db_profiles (profile_save h p p' udb))"
    using assms own_nir_is_free [of "db_profiles (jd_db st)" p]
    by (intro profile_save_table profile_fields_on_save_constraints) (auto simp: js_ok_def)
  moreover have "jp_user ` set (db_profiles (profile_save h p p' udb)) = jp_user ` set (db_profiles (jd_db st))"
    using profile_save_profiles [of h p p' udb] assms(9) by (metis set_map)
  ultimately show ?thesis using assms by (simp add: js_ok_def)
qed

lemma assign_oneself_ok: "assign_oneself now r k st = Inr st' \<Longrightarrow> js_ok st \<Longrightarrow> js_ok st'"
  by (auto simp: assign_oneself_def split: option.splits intro: assign_last_advisor_ok)

lemma switch_stalled_status_ok:
  assumes "switch_stalled_status h r k ticked st = Inr (b, st')" "js_ok st"
  shows "js_ok st'"
proof (cases b)
  case True
  then obtain u :: user and p where "find_job_seeker k (jd_db st) = Some u"
    and p: "get_row jp_user (us_pk u) (filter jp_is_stalled (db_profiles (jd_db st))) = Some p"
    "st' = st\<lparr>jd_db := put_users_db (profile_save h p (p\<lparr>jp_is_not_stalled_anymore := Some ticked\<rparr>)
       (users_db.truncate (jd_db st))) (jd_db st)\<rparr>"
    using assms(1) by (auto simp: switch_stalled_status_def split: option.splits if_splits)
  have m: "p \<in> set (db_profiles (jd_db st))" using get_row_SomeD [OF p(1)] by auto
  then have c: "profile_constraints p" using assms(2) by (simp add: js_ok_def profile_table_iff)
  have "profile_constraints (p\<lparr>jp_is_not_stalled_anymore := Some ticked\<rparr>)" using c by (simp add: profile_constraints_def)
  then show ?thesis unfolding p(2) using m assms(2) by (intro profile_save_ok) (simp_all add: js_ok_def)
qed (use assms in \<open>auto simp: switch_stalled_status_def split: option.splits if_splits\<close>)

lemma nir_modification_request_post_db:
  assumes "nir_modification_request_post now r k posted why st = Inr (b, st')"
  shows "jd_db st' = jd_db st"
proof -
  have "on_form f (Inr (False, st)) (\<lambda>(nir, why). Inr (True, st\<lparr>jd_nir_requests := q nir why\<rparr>)) = Inr (b, st') \<Longrightarrow>
      jd_db st' = jd_db st" for f and q :: "string \<Rightarrow> string \<Rightarrow> nir_request list"
    by (cases f rule: sum.exhaust; rename_tac e; case_tac e) (auto simp: on_form_def)
  then show ?thesis using assms by (auto simp: nir_modification_request_post_def split: option.splits)
qed

lemma profile_constraints_other [simp]:
  "profile_constraints (p\<lparr>jp_birthdate := b\<rparr>) = profile_constraints p"
  "profile_constraints (p\<lparr>jp_pole_emploi_id := i, jp_lack_of_pole_emploi_id_reason := r\<rparr>) = profile_constraints p"
  unfolding profile_constraints_def by simp_all

lemma check_info_clean_keeps:
  assumes "check_info_clean ym my today p f = Inr p'"
  shows "jp_user p' = jp_user p" "jp_nir p' = jp_nir p" "profile_constraints p' = profile_constraints p"
proof -
  obtain p1 p2 where q: "p1 = p \<or> (\<exists>b. p1 = p\<lparr>jp_birthdate := b\<rparr>)"
    "p2 = p1 \<or> (\<exists>i r. p2 = p1\<lparr>jp_pole_emploi_id := i, jp_lack_of_pole_emploi_id_reason := r\<rparr>)" "p' = p2"
  proof -
    obtain p1 where 1: "(if jp_birthdate p \<noteq> None then Inr p
            else case wf_birthdate f of
              None \<Rightarrow> Inl (ValidationError ''birthdate'')
            | Some b \<Rightarrow> rbind (validate_birthdate my today b) (\<lambda>_. Inr (p\<lparr>jp_birthdate := Some b\<rparr>))) = Inr p1"
      and 2: "(if jp_pole_emploi_id p \<noteq> [] then Inr p1
            else let v = py_strip (wf_pole_emploi_id f) in
              rbind (if v = [] then Inr () else validate_pole_emploi_id v) (\<lambda>_.
              rbind (clean_pole_emploi_fields v (wf_lack_of_pole_emploi_id_reason f)) (\<lambda>(i, reason).
              Inr (p1\<lparr>jp_pole_emploi_id := i, jp_lack_of_pole_emploi_id_reason := reason\<rparr>)))) = Inr p'"
      using assms unfolding check_info_clean_def rbind_eq_Inr by auto
    have "p1 = p \<or> (\<exists>b. p1 = p\<lparr>jp_birthdate := b\<rparr>)" using 1 by (cases "wf_birthdate f") (auto split: if_splits)
    moreover have "p' = p1 \<or> (\<exists>i r. p' = p1\<lparr>jp_pole_emploi_id := i, jp_lack_of_pole_emploi_id_reason := r\<rparr>)"
    proof (cases "jp_pole_emploi_id p = []")
      case True
      then show ?thesis using 2 by (auto simp: Let_def)
    qed (use 2 in simp)
    ultimately show thesis using that by blast
  qed
  show "jp_user p' = jp_user p" "jp_nir p' = jp_nir p" "profile_constraints p' = profile_constraints p"
    unfolding q(3) using q(1,2) by (elim disjE exE, simp_all)+
qed

lemma user_save_same:
  assumes "user_save u u db = Inr db'"
  shows "db_profiles db' = db_profiles db" "db_assignments db' = db_assignments db"
  using assms by (auto simp: user_save_def Let_def split: if_splits)

lemma check_info_post_ok:
  assumes "check_info_post h ym my today r u f st = Inr (b, st')" "js_ok st"
  shows "js_ok st'"
proof -
  obtain p where p: "get_row jp_user (us_pk u) (db_profiles (jd_db st)) = Some p"
    using assms(1) by (auto simp: check_info_post_def split: option.splits)
  have m: "p \<in> set (db_profiles (jd_db st))" "profile_constraints p" "jp_user p = us_pk u"
    using profile_row [OF _ p] assms(2) by (auto simp: js_ok_def)
  show ?thesis
  proof (cases "check_info_clean ym my today p f")
    case (Inl e)
    then show ?thesis using assms p by (cases e) (auto simp: check_info_post_def on_form_def)
  next
    case (Inr p')
    obtain udb c where s: "user_save u u (users_db.truncate (jd_db st)) = Inr udb"
      "st' = st\<lparr>jd_db := put_users_db (profile_save h p p' udb) (jd_db st), jd_contacts := c\<rparr>"
      using assms(1) p Inr by (auto simp: check_info_post_def on_form_def Let_def)
    have k: "us_pk ` set (db_users udb) = us_pk ` set (db_users (jd_db st))"
    proof -
      have "map us_pk (db_users udb) = map us_pk (db_users (jd_db st))"
        unfolding user_save_spec(1) [OF s(1)] truncate_fields by (rule map_rows_key) simp
      then show ?thesis by (metis set_map)
    qed
    have "users_table_ok (db_users udb)" using user_save_table [OF s(1)] assms(2) by (simp add: js_ok_def)
    then have "js_ok (st\<lparr>jd_db := put_users_db (profile_save h p p' udb) (jd_db st)\<rparr>)"
      using check_info_clean_keeps [OF Inr] m k user_save_same [OF s(1)] assms(2)
      by (intro profile_save_ok [where us = "db_users udb"]) simp_all
    then show ?thesis by (simp add: s(2) js_ok_def)
  qed
qed

section \<open>The number of a job seeker\<close>

lemma identity_clean_nir:
  assumes "identity_clean ar ym my today initial others f = Inr f'"
  shows "nir_update_clean initial f = Inr (nf_nir f', nf_lack_of_nir_reason f')"
  using assms by (auto simp: identity_clean_def Let_def split: option.splits)

lemma nir_update_clean_cases:
  assumes "nir_update_clean initial f = Inr (nir, reason)"
  shows "nf_lack_of_nir f \<Longrightarrow> nir = [] \<and> reason \<noteq> None \<and> reason = nf_lack_of_nir_reason f"
    and "\<not> nf_lack_of_nir f \<Longrightarrow> initial \<noteq> [] \<Longrightarrow> nir = form_nir (py_strip initial) \<and> reason = None"
  using assms by (auto simp: nir_update_clean_def nir_field_def Let_def split: if_splits simp del: not_None_eq)

lemma fill_profile_nir:
  "jp_nir (fill_profile d p) = (case jq_nir d of None \<Rightarrow> jp_nir p | Some n \<Rightarrow> n)"
  "jp_lack_of_nir_reason (fill_profile d p) = (case jq_identity d of
     None \<Rightarrow> jp_lack_of_nir_reason p | Some f \<Rightarrow> nf_lack_of_nir_reason f)"
  by (auto simp: fill_profile_def fill_situation_def fill_identity_def Let_def split: option.splits)

end
