(* ===== verification/Job_Seeker_Properties.thy ===== *)
theory Job_Seeker_Properties
  imports Job_Seeker_Effects Samples
begin

text \<open>What the requests on job seekers promise.\<close>

section \<open>Tables\<close>

text \<open>Any request that writes: of a job seeker on their own number, of the professionals who search, create, update or follow
  job seekers.  The parameters of a request are arbitrary, apart from the empty profile, which is that of its user.\<close>

inductive job_seeker_step :: "js_db \<Rightarrow> js_db \<Rightarrow> bool" where
  own_nir: "check_nir_job_seeker_post h r x posted st = Inr (a, y, st') \<Longrightarrow> job_seeker_step st st'"
| by_nir: "check_nir_for_sender_post now r hire x posted confirm st = Inr (a, y, st') \<Longrightarrow> job_seeker_step st st'"
| by_email: "search_by_email_post ve h now today r hire x posted preview confirm st = Inr (a, y, st') \<Longrightarrow> job_seeker_step st st'"
| create: "create_end_post ep g now today username r hire x st = Inr (a, y, st') \<Longrightarrow> (\<And>k. jp_user (ep k) = k) \<Longrightarrow> job_seeker_step st st'"
| update: "update_end_post h g now r z st = Inr (ua, w, st') \<Longrightarrow> job_seeker_step st st'"
| check_info: "check_info_post h ym my today r u f st = Inr (b, st') \<Longrightarrow> job_seeker_step st st'"
| nir_request: "nir_modification_request_post now r k posted why st = Inr (b, st') \<Longrightarrow> job_seeker_step st st'"
| stalled: "switch_stalled_status h r k ticked st = Inr (b, st') \<Longrightarrow> job_seeker_step st st'"
| self_assign: "assign_oneself now r k st = Inr st' \<Longrightarrow> job_seeker_step st st'"

lemma job_seeker_step_ok: "job_seeker_step st st' \<Longrightarrow> js_ok st \<Longrightarrow> js_ok st'"
proof (induction rule: job_seeker_step.induct)
  case (nir_request now r k posted why st b st')
  then show ?case using nir_modification_request_post_db [OF nir_request(1)] by (simp add: js_ok_def)
qed (auto intro: check_nir_job_seeker_post_ok check_nir_for_sender_post_ok search_by_email_post_ok create_end_post_ok
    update_end_post_ok check_info_post_ok switch_stalled_status_ok assign_oneself_ok)

text \<open>C28.  Whatever requests are made on job seekers, two of them never share a social security
  number nor two users an e-mail, every profile keeps the constraints of its table (no number besides the reason of its
  lack, a birth place only in France, an allowance with its duration) and its user, and the tables of assignments and of
  follow-up groups stay consistent.\<close>

theorem job_seeker_requests_keep_tables:
  assumes "job_seeker_step\<^sup>*\<^sup>* st st'" and "js_ok st"
  shows "users_table_ok (db_users (jd_db st')) \<and> profile_table_ok (db_profiles (jd_db st')) \<and>
    jp_user ` set (db_profiles (jd_db st')) \<subseteq> us_pk ` set (db_users (jd_db st')) \<and>
    assignment_table_ok (db_assignments (jd_db st')) \<and> gps_inv (jd_db st')"
proof -
  have "js_ok st'" using assms by (induction rule: rtranclp_induct) (auto intro: job_seeker_step_ok)
  then show ?thesis by (simp add: js_ok_def)
qed

definition js_sample_infos :: request_infos where
  "js_sample_infos = (anonymous_infos sample_professional)\<lparr>rq_organizations := [Of_Prescriber sample_org],
     rq_current_organization := Some (Of_Prescriber sample_org), rq_from_prescriber := True,
     rq_from_authorized_prescriber := True, rq_from_iae_actor := True\<rparr>"

definition js_sample_profile :: jobseeker_profile where
  "js_sample_profile = sample_profile\<lparr>jp_nir := ''282037512345641''\<rparr>"

definition js_sample_db :: js_db where
  "js_sample_db = \<lparr>jd_db = empty_db\<lparr>db_users := [sample_user, sample_professional], db_profiles := [js_sample_profile],
       db_assignments := [], db_groups := [], db_memberships := []\<rparr>,
     jd_contacts = Map.empty, jd_last_checked_at = Map.empty, jd_created_by_org = Map.empty, jd_nir_requests = []\<rparr>"

definition js_empty_profile :: "pk \<Rightarrow> jobseeker_profile" where
  "js_empty_profile k = sample_profile\<lparr>jp_user := k, jp_birthdate := None, jp_birth_place := None, jp_birth_country := None,
     jp_nir := [], jp_pole_emploi_id := []\<rparr>"

definition js_sample_identity :: identity_form where
  "js_sample_identity = \<lparr>nf_title = Some M, nf_first_name = ''Jo'', nf_last_name = ''Doe'', nf_birthdate = Some 0, nf_birth_place = None,
     nf_birth_country = Some 1, nf_nir = ''180019999900069'', nf_lack_of_nir = False, nf_lack_of_nir_reason = None\<rparr>"

definition js_sample_session :: js_session where
  "js_sample_session = \<lparr>jx_tunnel = TUNNEL_STANDALONE, jx_from_url = ''/'', jx_apply = None, jx_service_uid = None,
     jx_user = Some \<lparr>ju_email = Some ''jo@X.fr'', ju_identity = Some (Some M, ''Jo'', ''Doe''), ju_address = None\<rparr>,
     jx_profile = Some \<lparr>jq_nir = Some ''180019999900069'', jq_identity = Some js_sample_identity, jq_situation = None\<rparr>\<rparr>"

lemma js_sample_ok: "js_ok js_sample_db"
  unfolding js_ok_def profile_table_iff
  by (simp add: js_sample_db_def js_sample_profile_def users_table_ok_def login_key_def sample_defs assignment_table_ok_def gps_inv_def
      profile_constraints_def py_lower_def lower_char_def hex_char_def is_digit_def france_id_def less_eq_char_def
      numeral_eq_Suc replicate_Suc)

lemma js_sample_run:
  "case create_end_post js_empty_profile (\<lambda>_ _. None) 9 9 ''jo'' js_sample_infos False js_sample_session js_sample_db of
     Inr (To_Exit e, None, st') \<Rightarrow> map us_email (db_users (jd_db st')) = [Some ''ada@x.fr'', Some ''pro@x.fr'', Some ''jo@x.fr''] \<and>
       map jp_nir (db_profiles (jd_db st')) = [''282037512345641'', ''180019999900069'']
   | _ \<Rightarrow> False"
  by code_simp

lemma js_sample_created:
  obtains e st' where
    "create_end_post js_empty_profile (\<lambda>_ _. None) 9 9 ''jo'' js_sample_infos False js_sample_session js_sample_db =
       Inr (To_Exit e, None, st')"
    "map us_email (db_users (jd_db st')) = [Some ''ada@x.fr'', Some ''pro@x.fr'', Some ''jo@x.fr'']"
    "map jp_nir (db_profiles (jd_db st')) = [''282037512345641'', ''180019999900069'']"
  using js_sample_run by (auto split: sum.splits prod.splits js_answer.splits option.splits)

theorem job_seeker_requests_keep_tables_witness:
  "case create_end_post js_empty_profile (\<lambda>_ _. None) 9 9 ''jo'' js_sample_infos False js_sample_session js_sample_db of
     Inr (a, y, st') \<Rightarrow> profile_table_ok (db_profiles (jd_db st')) \<and> length (db_profiles (jd_db st')) = 2
   | Inl e \<Rightarrow> False"
proof -
  obtain e st' where r: "create_end_post js_empty_profile (\<lambda>_ _. None) 9 9 ''jo'' js_sample_infos False js_sample_session js_sample_db =
       Inr (To_Exit e, None, st')" "map jp_nir (db_profiles (jd_db st')) = [''282037512345641'', ''180019999900069'']"
    using js_sample_created by metis
  have "job_seeker_step\<^sup>*\<^sup>* js_sample_db st'"
    by (rule r_into_rtranclp, rule job_seeker_step.create [OF r(1)]) (simp add: js_empty_profile_def)
  from job_seeker_requests_keep_tables [OF this js_sample_ok] have "profile_table_ok (db_profiles (jd_db st'))" by blast
  moreover have "length (db_profiles (jd_db st')) = 2" using arg_cong [OF r(2), of length] by simp
  ultimately show ?thesis by (simp add: r(1))
qed

section \<open>Creation\<close>

text \<open>C29.  The last step of a creation either writes nothing and sends back to the dashboard, with the data kept,
  or creates exactly one job seeker, with the e-mail and the number of the session, whom the professional created, to whom
  the professional is assigned for the current organization and whose follow-up the professional has joined; the data of the session are
  gone then.\<close>

theorem created_job_seeker:
  assumes "create_end_post ep g now today username r hire x st = Inr (a, y, st')" and "\<And>k. jp_user (ep k) = k"
    and "us_is_active (rq_user r)" and "is_professional (rq_user r)"
  shows "(a = To_Dashboard \<and> st' = st \<and> y = Some x) \<or>
    (\<exists>e u p. a = To_Exit e \<and> y = None \<and> db_users (jd_db st') = db_users (jd_db st) @ [u] \<and>
      db_profiles (jd_db st') = db_profiles (jd_db st) @ [p] \<and>
      is_job_seeker u \<and> us_created_by u = Some (us_pk (rq_user r)) \<and> jp_user p = us_pk u \<and>
      us_email u = map_option normalize_email (ju_email (user_data x)) \<and> Some (jp_nir p) = jq_nir (profile_data x) \<and>
      (\<exists>s \<in> set (db_assignments (jd_db st')). assignment_key s = (us_pk u, us_pk (rq_user r),
          org_prescriber (assignment_organization (rq_current_organization r)),
          org_company (assignment_organization (rq_current_organization r))) \<and> as_last_action_kind s = ACT_CREATE) \<and>
      (\<exists>grp \<in> set (db_groups (jd_db st')). fg_beneficiary grp = us_pk u \<and>
        (\<exists>m \<in> set (db_memberships (jd_db st')). membership_key m = (fg_pk grp, us_pk (rq_user r)) \<and> fm_ended_at m = None)))"
  using assms(1)
proof (cases rule: create_end_post_InrD)
  case (created u st1 st3 t e)
  obtain email p where c: "ju_email (user_data x) = Some email"
    "u = user_fields_on_save (new_job_seeker now username (rq_user r) email (user_data x) (jd_db st))"
    "p = fill_profile (profile_data x) ((ep (us_pk u))\<lparr>jp_birth_place := None, jp_birth_country := None\<rparr>)"
    "jq_nir (profile_data x) \<noteq> None"
    "jd_db st1 = (jd_db st)\<lparr>db_users := db_users (jd_db st) @ [u], db_profiles := db_profiles (jd_db st) @ [p]\<rparr>"
    using create_job_seeker_InrD [OF created(1)] by metis
  have u: "is_job_seeker u" "us_is_active u" "us_created_by u = Some (us_pk (rq_user r))" "us_email u = Some (normalize_email email)"
    by (simp_all add: c(2) is_job_seeker_def new_job_seeker_def) (simp add: user_fields_on_save_def Let_def)
  have db3: "jd_db st3 = follow_beneficiary now today u (rq_user r) True (jd_db st1)"
    using created(2) by (auto simp: add_beneficiary_def split: if_splits)
  obtain s where s: "s \<in> set t" "assignment_key s = (us_pk u, us_pk (rq_user r),
      org_prescriber (assignment_organization (rq_current_organization r)),
      org_company (assignment_organization (rq_current_organization r)))" "as_last_action_kind s = ACT_CREATE"
    using upsert_assignment_found [OF created(3) assms(4)] by metis
  note follows = follow_beneficiary_follows [OF u(1,2) assms(3,4), of now today True "jd_db st1", folded db3]
  have "db_users (jd_db st') = db_users (jd_db st) @ [u]" "db_profiles (jd_db st') = db_profiles (jd_db st) @ [p]"
    "db_assignments (jd_db st') = t" "db_groups (jd_db st') = db_groups (jd_db st3)"
    "db_memberships (jd_db st') = db_memberships (jd_db st3)"
    by (simp_all add: created(6) put_assignments_def db3 c(5))
  moreover have "Some (jp_nir p) = jq_nir (profile_data x)" "jp_user p = us_pk u"
    using c(4) assms(2) by (auto simp: c(3) fill_profile_nir)
  ultimately show ?thesis using u s follows created(4,5) c(1)
    by (intro disjI2 exI [of _ e] exI [of _ u] exI [of _ p]) auto
qed simp

theorem created_job_seeker_witness:
  "case create_end_post js_empty_profile (\<lambda>_ _. None) 9 9 ''jo'' js_sample_infos False js_sample_session js_sample_db of
     Inr (a, y, st') \<Rightarrow> length (db_users (jd_db st')) = 3 \<and> db_assignments (jd_db st') \<noteq> [] \<and> db_memberships (jd_db st') \<noteq> []
   | Inl e \<Rightarrow> False"
proof -
  obtain e st' where r: "create_end_post js_empty_profile (\<lambda>_ _. None) 9 9 ''jo'' js_sample_infos False js_sample_session js_sample_db =
       Inr (To_Exit e, None, st')" using js_sample_created by metis
  have "us_is_active (rq_user js_sample_infos)" "is_professional (rq_user js_sample_infos)"
    by (simp_all add: js_sample_infos_def is_professional_def sample_defs)
  from created_job_seeker [OF r _ this] have "(\<exists>u. db_users (jd_db st') = db_users (jd_db js_sample_db) @ [u]) \<and>
      db_assignments (jd_db st') \<noteq> [] \<and> db_memberships (jd_db st') \<noteq> []"
    by (auto simp: js_empty_profile_def)
  moreover from this have "length (db_users (jd_db st')) = 3" by (auto simp: js_sample_db_def)
  ultimately show ?thesis by (simp add: r)
qed

section \<open>The number of a job seeker\<close>

text \<open>The session of an update of the job seeker \<open>k\<close>, from its creation through posts of its three steps, in any order and with
  any forms but for the hidden box of a missing number, while the profile of the job seeker has the number \<open>n\<close>.\<close>

definition profile_number :: "pk \<Rightarrow> js_db \<Rightarrow> string option" where
  "profile_number k st = map_option jp_nir (get_row jp_user k (db_profiles (jd_db st)))"

inductive unticked_session :: "pk \<Rightarrow> string \<Rightarrow> js_update \<Rightarrow> bool" for k n where
  start: "unticked_session k n \<lparr>jz_from_url = url, jz_job_seeker = k, jz_user = None, jz_profile = None\<rparr>"
| step_1: "unticked_session k n z \<Longrightarrow> profile_number k st = Some n \<Longrightarrow> \<not> nf_lack_of_nir form \<Longrightarrow>
    update_step_1_post ar year_month minus_years today r z form st = Inr (a, z') \<Longrightarrow> unticked_session k n z'"
| step_2: "unticked_session k n z \<Longrightarrow> update_step_2_post city_of geocode r z address st = Inr (a, z') \<Longrightarrow>
    unticked_session k n z'"
| step_3: "unticked_session k n z \<Longrightarrow> update_step_3_post r z situation st = Inr (a, z') \<Longrightarrow> unticked_session k n z'"

lemma update_setup_number:
  assumes "update_setup r z st = Inr (u, p)"
  shows "profile_number (jz_job_seeker z) st = Some (jp_nir p)"
  using setup_rows(4,5) [OF assms] by (simp add: profile_number_def)

lemma update_step_1_keeps:
  assumes "update_step_1_post ar year_month minus_years today r z form st = Inr (a, z')"
    and "jq_nir (update_profile_data z) \<in> {None, Some n}" "profile_number (jz_job_seeker z) st = Some n"
    and "n \<noteq> []" "form_nir (py_strip n) = n" "\<not> nf_lack_of_nir form"
  shows "jz_job_seeker z' = jz_job_seeker z \<and> jq_nir (update_profile_data z') \<in> {None, Some n}"
proof -
  obtain u p where s: "update_setup r z st = Inr (u, p)"
    using assms(1) by (auto simp: update_step_1_post_def)
  have init: "nf_nir (update_initial z u p) = n"
    using assms(2,3) update_setup_number [OF s] by (auto simp: update_initial_def split: prod.splits)
  have box: "\<not> nf_lack_of_nir (keep_initial ro i form)" for ro i using assms(6) by (simp add: keep_initial_def)
  have f: "nf_nir f = n" if "identity_clean ar year_month minus_years today n others (keep_initial ro i form) = Inr f" for others ro i f
    using nir_update_clean_cases(2) [OF identity_clean_nir [OF that] box assms(4)] assms(5) by simp
  let ?clean = "identity_clean ar year_month minus_years today n (filter (\<lambda>q. jp_user q \<noteq> us_pk u) (db_profiles (jd_db st)))
    (keep_initial (readonly_pii_fields p (db_certifications (jd_db st))) (update_initial z u p) form)"
  show ?thesis
  proof (cases ?clean)
    case (Inl e)
    then show ?thesis using assms(1,2) s init
      by (cases e) (auto simp: update_step_1_post_def on_form_def Let_def update_profile_data_def split: if_splits)
  next
    case (Inr g)
    then show ?thesis using assms(1,2) s init f [OF Inr]
      by (auto simp: update_step_1_post_def on_form_def Let_def update_profile_data_def keep_identity_def split: if_splits)
  qed
qed

lemma update_step_2_post_InrD:
  assumes "update_step_2_post city_of geocode r z address st = Inr (a, z')"
  shows "jz_job_seeker z' = jz_job_seeker z \<and> update_profile_data z' = update_profile_data z"
proof -
  obtain u p where s: "update_setup r z st = Inr (u, p)" using assms by (auto simp: update_step_2_post_def)
  let ?c = "contact_of (us_pk u) st"
  show ?thesis
  proof (cases "address_clean city_of geocode (ct_line_1 ?c, us_post_code u, ct_city ?c) address")
    case (Inl e)
    then show ?thesis using assms s by (cases e) (auto simp: update_step_2_post_def on_form_def Let_def split: if_splits)
  next
    case (Inr f)
    then show ?thesis using assms s
      by (auto simp: update_step_2_post_def on_form_def Let_def update_profile_data_def split: if_splits option.splits)
  qed
qed

lemma update_step_3_post_InrD:
  assumes "update_step_3_post r z situation st = Inr (a, z')"
  shows "jz_job_seeker z' = jz_job_seeker z \<and> jq_nir (update_profile_data z') = jq_nir (update_profile_data z)"
proof -
  obtain u p where s: "update_setup r z st = Inr (u, p)" using assms by (auto simp: update_step_3_post_def)
  show ?thesis
  proof (cases "situation_clean (jp_situation p) situation")
    case (Inl e)
    then show ?thesis using assms s by (cases e) (auto simp: update_step_3_post_def on_form_def)
  next
    case (Inr d)
    then show ?thesis using assms s by (auto simp: update_step_3_post_def on_form_def update_profile_data_def)
  qed
qed

lemma unticked_session_keeps:
  assumes "unticked_session k n z" "n \<noteq> []" "form_nir (py_strip n) = n"
  shows "jz_job_seeker z = k \<and> jq_nir (update_profile_data z) \<in> {None, Some n}"
  using assms(1)
proof induction
  case (start url)
  show ?case by (simp add: update_profile_data_def no_profile_data_def)
next
  case (step_1 z st form ar year_month minus_years today r a z')
  then show ?case using update_step_1_keeps [OF step_1.hyps(4) _ _ assms(2,3)] by simp
next
  case (step_2 z city_of geocode r address st a z')
  then show ?case using update_step_2_post_InrD [OF step_2.hyps(2)] by auto
next
  case (step_3 z r situation st a z')
  then show ?case using update_step_3_post_InrD [OF step_3.hyps(2)] by auto
qed

lemma update_end_profiles:
  assumes "update_end_post h g now r z st = Inr (Update_Done url, y, st')"
  shows "\<exists>p p' old oldp. update_setup r z st = Inr (old, oldp) \<and> jp_nir p = jp_nir oldp \<and>
    jp_lack_of_nir_reason p = jp_lack_of_nir_reason oldp \<and>
    p' = profile_fields_on_save h oldp (fill_profile (update_profile_data z) p) \<and> profile_constraints p' \<and>
    get_row jp_user (jz_job_seeker z) (db_profiles (jd_db st')) = Some p' \<and>
    (\<forall>j. j \<noteq> jz_job_seeker z \<longrightarrow> get_row jp_user j (db_profiles (jd_db st')) = get_row jp_user j (db_profiles (jd_db st)))"
  using assms
proof (cases rule: update_end_post_InrD)
  case (updated old oldp d u q)
  note S = setup_rows [OF updated(1)]
  have p: "jp_user (profile_fields_on_save h oldp q) = jp_user oldp" by (simp add: updated(4))
  have "get_row jp_user j (db_profiles (jd_db st')) =
      (if j = jz_job_seeker z then Some (profile_fields_on_save h oldp q) else get_row jp_user j (db_profiles (jd_db st)))" for j
    unfolding updated(8) using S(4,5,6) p
    by (subst get_row_map_rows) (auto dest: get_row_SomeD intro!: option.map_ident_strong)
  moreover have "jp_nir (profile_after_rename old u oldp) = jp_nir oldp"
    "jp_lack_of_nir_reason (profile_after_rename old u oldp) = jp_lack_of_nir_reason oldp"
    by (simp_all add: profile_after_rename_def)
  ultimately show ?thesis using updated(1,4,5) by (metis (full_types))
qed simp

text \<open>C30.  A job seeker who has a social security number keeps it through an update: whatever is posted
  to the three steps of the wizard, in any order, any number of times and with any number typed in, the update that
  is validated leaves the number as it was, with no reason for a missing one, and leaves the profile of every other job seeker
  as it was.  The hidden box of a missing number must not have been posted, and the number is in the form in which
  numbers are stored.\<close>

theorem number_survives_update:
  assumes "unticked_session k n z" and "n \<noteq> []" and "form_nir (py_strip n) = n"
    and "profile_number k st = Some n"
    and "update_end_post h g now r z st = Inr (Update_Done url, y, st')"
  shows "\<exists>p'. get_row jp_user k (db_profiles (jd_db st')) = Some p' \<and> jp_nir p' = n \<and> jp_lack_of_nir_reason p' = None \<and>
    (\<forall>j. j \<noteq> k \<longrightarrow> get_row jp_user j (db_profiles (jd_db st')) = get_row jp_user j (db_profiles (jd_db st)))"
proof -
  note K = unticked_session_keeps [OF assms(1-3)]
  obtain p p' old oldp where e: "update_setup r z st = Inr (old, oldp)" "jp_nir p = jp_nir oldp"
    "p' = profile_fields_on_save h oldp (fill_profile (update_profile_data z) p)" "profile_constraints p'"
    "get_row jp_user k (db_profiles (jd_db st')) = Some p'"
    "\<forall>j. j \<noteq> k \<longrightarrow> get_row jp_user j (db_profiles (jd_db st')) = get_row jp_user j (db_profiles (jd_db st))"
    using update_end_profiles [OF assms(5)] K by blast
  have "jp_nir oldp = n" using update_setup_number [OF e(1)] K assms(4) by simp
  then have "jp_nir p' = n" using K e(2) by (auto simp: e(3) fill_profile_nir)
  moreover from this have "jp_lack_of_nir_reason p' = None" using e(4) assms(2) by (simp add: profile_constraints_def)
  ultimately show ?thesis using e(5,6) by blast
qed

text \<open>The box is read all the same: a post that has it, with a reason, empties the number at the end of the update.\<close>

lemma box_erases_number:
  assumes "update_setup r z st = Inr (u, p)" and "can_edit_personal_information r u" and "nf_lack_of_nir form"
    and "update_step_1_post ar year_month minus_years today r z form st = Inr (Update_Step 2, z1)"
    and "update_end_post h g now r z1 st = Inr (Update_Done url, y, st')"
  shows "profile_number (us_pk u) st' = Some []"
proof -
  let ?init = "update_initial z u p"
  let ?form = "keep_initial (readonly_pii_fields p (db_certifications (jd_db st))) ?init form"
  let ?clean = "identity_clean ar year_month minus_years today (nf_nir ?init)
    (filter (\<lambda>q. jp_user q \<noteq> us_pk u) (db_profiles (jd_db st))) ?form"
  have box: "nf_lack_of_nir ?form" using assms(3) by (simp add: keep_initial_def)
  have z1: "jz_job_seeker z1 = jz_job_seeker z \<and> jq_nir (update_profile_data z1) = Some []"
  proof (cases ?clean)
    case (Inl e)
    then show ?thesis using assms(1,2,4) by (cases e) (auto simp: update_step_1_post_def on_form_def Let_def)
  next
    case (Inr f)
    have "nf_nir f = []" using nir_update_clean_cases(1) [OF identity_clean_nir [OF Inr] box] by simp
    with Inr show ?thesis using assms(1,2,4)
      by (auto simp: update_step_1_post_def on_form_def Let_def keep_identity_def update_profile_data_def)
  qed
  then show ?thesis
    using update_end_profiles [OF assms(5)] setup_rows(4) [OF assms(1)] by (auto simp: profile_number_def fill_profile_nir)
qed

definition js_update_session :: js_update where
  "js_update_session = \<lparr>jz_from_url = ''/'', jz_job_seeker = 1, jz_user = None, jz_profile = None\<rparr>"

definition js_reference :: asp_reference where
  "js_reference = \<lparr>ar_communes = [], ar_countries = [\<lparr>cy_pk = 1, cy_code = ''134''\<rparr>]\<rparr>"

definition js_unticked :: identity_form where "js_unticked = js_sample_identity\<lparr>nf_title := Some MME\<rparr>"

definition js_cleaned :: identity_form where "js_cleaned = js_unticked\<lparr>nf_nir := ''282037512345641''\<rparr>"

definition js_years :: "date \<Rightarrow> int \<Rightarrow> date" where "js_years d n = d - 365 * n"

definition js_year_month :: "date \<Rightarrow> nat \<times> nat" where "js_year_month d = (82, 3)"

definition js_after_step_1 :: js_update where
  "js_after_step_1 = js_update_session\<lparr>
     jz_user := Some (no_user_data\<lparr>ju_identity := Some (Some MME, ''Jo'', ''Doe'')\<rparr>),
     jz_profile := Some (no_profile_data\<lparr>jq_nir := Some ''282037512345641'', jq_identity := Some js_cleaned\<rparr>)\<rparr>"

definition js_uid :: "pk \<Rightarrow> string" where "js_uid k = replicate 30 (CHR ''0'')"

definition js_no_geocoding :: "string option \<Rightarrow> string \<Rightarrow> (int \<times> int) option" where "js_no_geocoding a c = None"

lemma js_valid_nir: "validate_nir ''282037512345641'' = Inr ()" "validate_nir ''2 82 03 75 123 456 41'' = Inr ()"
proof -
  have n: "nir_normal ''282037512345641'' = ''282037512345641''" "nir_normal ''2 82 03 75 123 456 41'' = ''282037512345641''"
    by code_simp+
  show "validate_nir ''282037512345641'' = Inr ()" "validate_nir ''2 82 03 75 123 456 41'' = Inr ()"
    by (simp_all add: validate_nir_def n nir_regex_def py_int_def is_digit_def less_eq_char_def digit_val_def nir_key_def
        fictitious_nir_def)
qed

lemma js_setup:
  "update_setup js_sample_infos js_update_session js_sample_db = Inr (sample_user, js_sample_profile)"
  "update_setup js_sample_infos js_after_step_1 js_sample_db = Inr (sample_user, js_sample_profile)"
  "can_edit_personal_information js_sample_infos sample_user" "us_pk sample_user = 1"
  "jp_nir js_sample_profile = ''282037512345641''" "py_strip ''282037512345641'' = ''282037512345641''"
  "form_nir ''282037512345641'' = ''282037512345641''"
  by code_simp+

lemma js_identity:
  "identity_clean js_reference js_year_month js_years 20000 ''282037512345641'' [] js_unticked = Inr js_cleaned"
proof -
  have "nir_update_clean ''282037512345641'' js_unticked = Inr (''282037512345641'', None)"
    by (simp add: nir_update_clean_def nir_field_def js_setup js_valid_nir js_unticked_def js_sample_identity_def)
  moreover have "required_text ''Jo'' = Some ''Jo''" "required_text ''Doe'' = Some ''Doe''"
    "validate_birthdate js_years 20000 0 = Inr ()" "birth_place_clean js_reference (Some 0) None (Some 1) = Inr (None, Some 1)"
    "clean_nir_title_birthdate_fields js_year_month ''282037512345641'' (Some MME) (Some 0) = Inr ()"
    by code_simp+
  ultimately show ?thesis
    by (simp add: identity_clean_def js_cleaned_def js_unticked_def js_sample_identity_def identity_constraints_def france_id_def)
qed

lemma js_initial:
  "nf_nir (update_initial js_update_session sample_user js_sample_profile) = ''282037512345641''"
  "keep_initial (readonly_pii_fields js_sample_profile (db_certifications (jd_db js_sample_db)))
     (update_initial js_update_session sample_user js_sample_profile) js_unticked = js_unticked"
  "filter (\<lambda>q. jp_user q \<noteq> us_pk sample_user) (db_profiles (jd_db js_sample_db)) = []"
  "keep_identity js_cleaned (update_user_data js_update_session) (update_profile_data js_update_session) =
     (no_user_data\<lparr>ju_identity := Some (Some MME, ''Jo'', ''Doe'')\<rparr>,
      no_profile_data\<lparr>jq_nir := Some ''282037512345641'', jq_identity := Some js_cleaned\<rparr>)"
  by code_simp+

lemma js_step_1:
  "update_step_1_post js_reference js_year_month js_years 20000 js_sample_infos js_update_session js_unticked js_sample_db =
     Inr (Update_Step 2, js_after_step_1)"
  by (simp add: update_step_1_post_def js_setup(1,3) js_initial js_identity on_form_def js_after_step_1_def Let_def)

lemma js_end:
  "case update_end_post js_uid js_no_geocoding 9 js_sample_infos js_after_step_1 js_sample_db of
     Inr (Update_Done url, y, st') \<Rightarrow> True | _ \<Rightarrow> False"
  by code_simp

theorem number_survives_update_witness:
  "nf_nir js_unticked = ''180019999900069'' \<and>
   (case update_end_post js_uid js_no_geocoding 9 js_sample_infos js_after_step_1 js_sample_db of
      Inr (a, y, st') \<Rightarrow> map_option jp_nir (get_row jp_user 1 (db_profiles (jd_db st'))) = Some ''282037512345641''
    | Inl e \<Rightarrow> False)"
proof -
  obtain a y st' where r: "update_end_post js_uid js_no_geocoding 9 js_sample_infos js_after_step_1 js_sample_db = Inr (a, y, st')"
    using js_end by (cases "update_end_post js_uid js_no_geocoding 9 js_sample_infos js_after_step_1 js_sample_db") auto
  obtain url where a: "a = Update_Done url" using js_end by (cases a) (simp_all add: r)
  note e = r [unfolded a]
  have n: "profile_number 1 js_sample_db = Some ''282037512345641''" "\<not> nf_lack_of_nir js_unticked" "''282037512345641'' \<noteq> []" by code_simp+
  have "unticked_session 1 ''282037512345641'' js_after_step_1"
    by (rule unticked_session.step_1 [OF unticked_session.start n(1,2) js_step_1 [unfolded js_update_session_def]])
  from number_survives_update [OF this n(3) _ n(1) e] show ?thesis
    by (auto simp: e js_setup js_unticked_def js_sample_identity_def)
qed

section \<open>The situation\<close>

lemma pole_emploi_fields_consistent:
  "pole_emploi_fields f = Inr (i, why) \<Longrightarrow> (i = []) = (why \<noteq> None)"
  by (auto simp: pole_emploi_fields_def Let_def split: if_splits)

text \<open>A valid form of the third step gives a profile that keeps the constraint on the allowance, with either an identifier of France
  Travail or the reason of its lack.\<close>

lemma situation_is_consistent:
  assumes "situation_clean s f = Inr d"
  shows "(si_has_rsa_allocation (sd_situation d) = Some RSA_NO \<and> si_rsa_allocation_since (sd_situation d) = None) \<or>
      (si_has_rsa_allocation (sd_situation d) \<in> {Some RSA_YES_WITH_MARKUP, Some RSA_YES_WITHOUT_MARKUP} \<and>
       si_rsa_allocation_since (sd_situation d) \<noteq> None)"
    and "(sd_pole_emploi_id d = []) = (sd_lack_of_pole_emploi_id_reason d \<noteq> None)"
proof -
  obtain since rsa where r: "since_field ''rsa_allocation_since'' (sf_rsa_allocation f) (sf_rsa_allocation_since f) = Inr since"
    "rsa_field f = Inr rsa" "si_has_rsa_allocation (sd_situation d) = rsa" "si_rsa_allocation_since (sd_situation d) = since"
    and pe: "pole_emploi_fields f = Inr (sd_pole_emploi_id d, sd_lack_of_pole_emploi_id_reason d)"
    using assms by (cases "sf_education_level f") (auto simp: situation_clean_def split: if_splits)
  show "(si_has_rsa_allocation (sd_situation d) = Some RSA_NO \<and> si_rsa_allocation_since (sd_situation d) = None) \<or>
      (si_has_rsa_allocation (sd_situation d) \<in> {Some RSA_YES_WITH_MARKUP, Some RSA_YES_WITHOUT_MARKUP} \<and>
       si_rsa_allocation_since (sd_situation d) \<noteq> None)"
  proof (cases "sf_rsa_allocation f")
    case True
    have "rsa \<noteq> None" "rsa \<noteq> Some RSA_NO" "since \<noteq> None"
      using r(1,2) True by (auto simp: since_field_def rsa_field_def split: choice.splits if_splits)
    then show ?thesis using rsa_allocation.exhaust [of "the rsa"] by (cases rsa) (auto simp: r(3,4))
  next
    case False
    then show ?thesis using r by (auto simp: since_field_def rsa_field_def split: choice.splits if_splits)
  qed
  show "(sd_pole_emploi_id d = []) = (sd_lack_of_pole_emploi_id_reason d \<noteq> None)"
    using pole_emploi_fields_consistent [OF pe] .
qed

section \<open>What the searches and the saves leave out\<close>

text \<open>A job seeker whose account was deactivated is refused by e-mail and found by number.\<close>

definition js_inactive_db :: db where
  "js_inactive_db = empty_db\<lparr>db_users := [sample_user\<lparr>us_is_active := False\<rparr>], db_profiles := [js_sample_profile]\<rparr>"

lemma inactive_found_by_nir:
  "check_nir_clean None ''2 82 03 75 123 456 41'' js_inactive_db =
     Inr (''282037512345641'', Some (sample_user\<lparr>us_is_active := False\<rparr>))"
  "case exists_clean (\<lambda>_. True) ''Ada@x.fr'' js_inactive_db of Inl (ValidationError m) \<Rightarrow> m = ''inactive'' | _ \<Rightarrow> False"
proof -
  have "required_text ''2 82 03 75 123 456 41'' = Some ''2 82 03 75 123 456 41''"
    "form_nir ''2 82 03 75 123 456 41'' = ''282037512345641''"
    "find_by_nir ''282037512345641'' js_inactive_db = Some (sample_user\<lparr>us_is_active := False\<rparr>)"
    "is_job_seeker (sample_user\<lparr>us_is_active := False\<rparr>)"
    by code_simp+
  then show "check_nir_clean None ''2 82 03 75 123 456 41'' js_inactive_db =
      Inr (''282037512345641'', Some (sample_user\<lparr>us_is_active := False\<rparr>))"
    by (simp add: check_nir_clean_def js_valid_nir)
  show "case exists_clean (\<lambda>_. True) ''Ada@x.fr'' js_inactive_db of Inl (ValidationError m) \<Rightarrow> m = ''inactive'' | _ \<Rightarrow> False"
    by code_simp
qed

text \<open>The update of a post code keeps the department of the row.\<close>

lemma update_keeps_department:
  assumes "update_end_post h g now r z st = Inr (Update_Done url, y, st')" "update_setup r z st = Inr (u, p)"
  shows "\<exists>v. get_row us_pk (us_pk u) (db_users (jd_db st')) = Some v \<and> us_department v = us_department u"
  using assms(1)
proof (cases rule: update_end_post_InrD)
  case (updated old oldp d v q)
  have "old = u" using updated(1) assms(2) by simp
  moreover obtain w where w: "get_row us_pk (us_pk u) (db_users (jd_db st)) = Some w"
    using setup_rows(3) [OF assms(2)] get_row_None_iff [of us_pk "us_pk u" "db_users (jd_db st)"]
    by (cases "get_row us_pk (us_pk u) (db_users (jd_db st))") auto
  moreover have "us_pk w = us_pk u" using get_row_SomeD [OF w] by simp
  ultimately show ?thesis unfolding updated(7) by (subst get_row_map_rows) (simp_all add: updated(3))
qed simp

end
