(* ===== verification/Spec2Isabelle.thy ===== *)
theory Spec2Isabelle
  imports Approval_Properties Eligibility_Properties Employee_Record_Properties Job_Application_Properties
    Organization_Properties Siae_Evaluation_Properties Geiq_Assessment_Properties
    Asp_Exchange_Properties Validator_Properties Sso_Login_Properties Label_Sync_Properties
    Application_Request_Properties Approval_Request_Properties Insertion_Properties
    Job_Seeker_Properties
begin

text \<open>\<^bold>\<open>A verification library for Les emplois de l'inclusion (\<open>src/itou\<close>).\<close>

  The program is a Django application that manages the hiring of people far from employment: job seekers
  get a diagnosis of eligibility, employers (SIAE, GEIQ) receive and accept job applications, an
  acceptance delivers an approval of two years (the PASS IAE) that can be suspended and prolonged, each
  hiring is sent to the ASP as an employee record, France Travail is notified of the approvals, and the
  hirings that employers decided alone are controlled afterwards in evaluation campaigns, and the GEIQ are
  assessed every year.  The model is a
  shallow embedding: a table is a list of records, the database a record of tables (\<open>db\<close> of \<open>Schema\<close>,
  \<open>eval_db\<close> of \<open>Siae_Evaluations\<close>, \<open>assess_db\<close> of \<open>Geiq_Assessments\<close>), an operation a function from the tables and its arguments to
  \<open>error + tables\<close> where \<open>Inl\<close> is the exception the source raises or the constraint the database refuses.
  Because requests and tasks run in one transaction, an \<open>Inl\<close> result carries no tables.  Dates are
  integers (days), date-times integers (microseconds), texts are strings, primary keys natural numbers;
  a new key is one that the table does not have (\<open>next_pk\<close>).  The current time, the answers of remote
  services, random orders and departments are arguments.

  \<^bold>\<open>Theories and the code they model.\<close>

  \<^item> \<open>Prelude\<close>, \<open>Py_Strings\<close>: the result type, folds with errors, queries on tables (\<open>get_row\<close>, \<open>map_rows\<close>,
    \<open>upsert\<close>, \<open>order_first\<close>), date ranges, the calendar as an argument with its laws (\<open>calendar_laws\<close>: what the
    code relies on of \<open>relativedelta(months=n)\<close>; months of thirty days satisfy them), Python's string
    operations on digits, prefixes and suffixes.
  \<^item> \<open>Validators\<close>: \<open>utils/validators.py\<close>, the formats and keys of the numbers of persons and organizations.
  \<^item> \<open>Enums\<close>: the enumerations of \<open>*/enums.py\<close> and the tables between them.
  \<^item> \<open>Companies\<close>, \<open>Users\<close>, \<open>Organizations\<close>, \<open>Invitations\<close>: \<open>companies/models.py\<close>, \<open>users/models.py\<close>,
    \<open>common_apps/organizations/models.py\<close>, \<open>invitations/models.py\<close>; rows, constraints, activity of a company, saves of users and
    profiles with their side effects, identity certifications, assignments, memberships, roles and invitations.
  \<^item> \<open>Schema\<close>: the other rows and the database.
  \<^item> \<open>Job_Application_Queries\<close>: the querysets of accepted applications the approvals read.
  \<^item> \<open>Approvals\<close>, \<open>Approval_Dates\<close>, \<open>Approval_Extension\<close>, \<open>Suspensions\<close>, \<open>Prolongations\<close>, \<open>Pe_Notifications\<close>,
    \<open>Approval_Lifecycle\<close>: \<open>approvals/models.py\<close>, with the PostgreSQL triggers and constraints it
    declares; numbers, saves, remainder, waiting period, suspensions, prolongations and their requests,
    notification of France Travail, and all these operations as one transition system.
  \<^item> \<open>Gps\<close>: \<open>gps/models.py\<close>, the follow-up groups an operation adds a professional to.
  \<^item> \<open>Eligibility\<close>, \<open>Geiq_Eligibility\<close>, \<open>Certifications\<close>: \<open>eligibility/models\<close>, \<open>eligibility/utils.py\<close>,
    \<open>eligibility/tasks.py\<close>; diagnoses, their validity and precedence, criteria, allowance, and the
    certification of criteria by API Particulier and France Travail.
  \<^item> \<open>Workflow\<close>, \<open>Job_Applications\<close>, \<open>Hirings\<close>, \<open>Hiring_Effects\<close>: \<open>job_applications/models.py\<close>; the twelve
    transitions with their hooks, checks and bodies (acceptance, cancellation, transfer, manual delivery).
    The engine of \<open>django_xworkflows\<close> is an argument of every transition; \<open>engine_law\<close> is its documented
    behaviour and \<open>reference_engine\<close> a concrete engine that has it.
  \<^item> \<open>Employee_Records\<close>: \<open>employee_record/models.py\<close> and \<open>utils.py\<close>; transitions, unique keys, validation,
    creation from a job application, archiving, update notifications, batches and file names.
  \<^item> \<open>Asp_Exchange\<close>, \<open>Asp_Exchange_Effects\<close>: \<open>employee_record/common_management.py\<close> and the commands that send records and
    notifications to the ASP, read its feedback files, repair and archive records.
  \<^item> \<open>Siae_Evaluations\<close>, \<open>Siae_Campaigns\<close>, \<open>Siae_Campaign_Invariant\<close>, \<open>Siae_Campaign_Effects\<close>:
    \<open>siae_evaluations/models.py\<close> and the POST branches of \<open>www/siae_evaluations_views/views.py\<close>; states by
    priority, sample of a campaign, phases, reviews, proofs, sanctions.
  \<^item> \<open>Geiq_Assessments\<close>, \<open>Geiq_Assessment_Invariant\<close>: \<open>geiq_assessments/models.py\<close>, the contracts of \<open>sync.py\<close>
    and the POST branches of \<open>www/geiq_assessments_views/views.py\<close>; the workflow of an assessment, its constraints, the
    allowances requested and granted for contracts.
  \<^item> \<open>Sso_Login\<close>, \<open>Sso_Login_Effects\<close>, \<open>Sso_Views\<close>, \<open>Sso_Sessions\<close>: \<open>openid_connect/\<close>; one-time states, the user of a login,
    the starts of logins, the logouts and the callbacks of ProConnect, FranceConnect and France Travail Connect.
  \<^item> \<open>Paginated_Services\<close>, \<open>Paging\<close>, \<open>Sync_Diff\<close>, \<open>Label_Sync\<close>, \<open>Label_Sync_Effects\<close>: the clients of \<open>utils/apis\<close> that read
    pages, \<open>utils/sync.py\<close> and \<open>geiq_assessments/sync.py\<close>.
  \<^item> \<open>Requests\<close>: \<open>utils/perms\<close>, \<open>utils/auth.py\<close>, \<open>otp/utils.py\<close>; the middleware that finds the organization a user acts for,
    and the guards of the views.
  \<^item> \<open>Wizard\<close>: \<open>www/utils/wizard.py\<close> over the namespaces of \<open>utils/session.py\<close>.
  \<^item> \<open>Application_Requests\<close>, \<open>Application_Batch\<close>, \<open>Application_Effects\<close>, \<open>Application_Batch_Effects\<close>: the POST requests of
    \<open>www/apply/views\<close> (\<open>process_views.py\<close>, \<open>edit_views.py\<close>, \<open>transfer_views.py\<close>, \<open>batch_views.py\<close>) on the transitions of
    \<open>Job_Applications\<close>, what each keeps, and all of them as one step relation (\<open>employer_step\<close>).
  \<^item> \<open>Approval_Requests\<close>, \<open>Approval_Pages\<close>, \<open>Approval_Request_Effects\<close>: the views and forms of \<open>www/approvals_views\<close> and
    \<open>approvals/perms.py\<close>; each request that writes is one step of the life cycle of \<open>Approval_Lifecycle\<close>, with the
    effect that \<open>recorded_effect\<close> states.  The validator
    of e-mail addresses and the file storage are arguments, the content of a spreadsheet a field of the upload.
  \<^item> \<open>Phones\<close>, \<open>Insertion\<close>, \<open>Orientation_Sync\<close>, \<open>Insertion_Effects\<close>: \<open>utils/phone.py\<close>, \<open>insertion/models.py\<close>, the
    views of \<open>www/insertion_views\<close> with the wizard that sends an orientation to DORA, the command
    \<open>sync_orientation_statuses\<close>, and what each keeps of the constraints (\<open>insertion_ok\<close>).  DORA is an argument.
  \<^item> \<open>Job_Seeker_Forms\<close>, \<open>Job_Seekers\<close>, \<open>Job_Seeker_Wizards\<close>, \<open>Job_Seeker_Updates\<close>, \<open>Job_Seeker_Effects\<close>:
    \<open>www/job_seekers_views\<close> (\<open>forms.py\<close>, \<open>views.py\<close>) with the mixins of \<open>common_apps/nir/forms.py\<close>, \<open>common_apps/address/forms.py\<close>,
    \<open>asp/forms.py\<close>; the searches by number and by e-mail, the wizards that create and update a job seeker, and what each
    request keeps of the tables (\<open>js_ok\<close>).  Geocoding, accents, calendar, username and empty profile are arguments.
  \<^item> \<open>Samples\<close>: concrete rows and tables on which the witnesses evaluate the definitions.
  \<^item> \<open>Approval_Properties\<close>, \<open>Eligibility_Properties\<close>, \<open>Employee_Record_Properties\<close>, \<open>Asp_Exchange_Properties\<close>,
    \<open>Job_Application_Properties\<close>, \<open>Organization_Properties\<close>, \<open>Siae_Evaluation_Properties\<close>, \<open>Geiq_Assessment_Properties\<close>,
    \<open>Validator_Properties\<close>, \<open>Sso_Login_Properties\<close>, \<open>Label_Sync_Properties\<close>,
    \<open>Application_Request_Properties\<close>, \<open>Approval_Request_Properties\<close>, \<open>Insertion_Properties\<close>,
    \<open>Job_Seeker_Properties\<close>: the theorems, each after a text with its
    claim and followed by its witness.

  \<^bold>\<open>Interfaces.\<close>  \<open>keyed_upsert\<close> (\<open>Users\<close>) is the contract of \<open>bulk_create(update_conflicts=True)\<close> on a unique key,
  interpreted by certifications, assignments and group memberships.  \<open>approval_extender\<close> (\<open>Approval_Extension\<close>)
  is the contract between a table of durations and the triggers that move the end of an approval,
  interpreted by suspensions and prolongations.  \<open>logged_workflow\<close> (\<open>Workflow\<close>) is the contract of a state
  machine that logs its transitions, interpreted by job applications, employee records
  and assessments.
  \<open>priority_order\<close> (\<open>Siae_Evaluations\<close>) is the aggregation of states by priority, interpreted for evaluated
  applications and companies.  \<open>certifier\<close> (\<open>Certifications\<close>) is the contract of a certification service,
  interpreted by API Particulier and France Travail.  \<open>feedback_parser\<close> (\<open>Asp_Exchange_Effects\<close>) is the contract of the
  lines of a feedback file, interpreted by records and notifications.
  \<open>one_time\<close> (\<open>Sso_Sessions\<close>) is the contract of a callback with a one-time state, interpreted by the three providers.
  \<open>pager\<close> (\<open>Paging\<close>) is the contract of a loop over pages, interpreted by Label, data.inclusion and DORA; \<open>label_table\<close>
  (\<open>Sync_Diff\<close>) that of a synchronised table, interpreted by employees, contracts and prequalifications.

  \<^bold>\<open>What the theorems show.\<close>

  \<^item> Approvals: every sequence of operations keeps the constraints of the tables; the triggers move the end
    of an approval with the durations of its suspensions and prolongations, but for the rows moved between approvals, whose days
    are counted; numbers are
    fresh; the remainder counts the free days; validity and waiting period exclude each other;
    suspending, unsuspending, deleting, granting have exactly their effects; limits of
    prolongations; a notification is a success only when the service said so.  Each request on an approval
    has the rights and the effect of its kind (\<open>recorded_effect\<close>); who sees the detail of an approval.
  \<^item> Eligibility: the SQL lookup and the Python method agree; which diagnosis is used; creation and
    renewal; required criteria; allowance; at most one valid GEIQ diagnosis per author; what the
    certification of a criterion may change.
  \<^item> Employee records: histories follow the workflow graph and keep the unique keys; a READY record is
    complete; creation, archiving and unarchiving; file names round trip; an upload marks a prefix of its
    file as sent, whatever fails; a feedback file settles the records that wait in it, once.
  \<^item> Job applications: histories follow the workflow graph and keep the check constraints; simple
    transitions are total; an acceptance closes the other applications and links a PASS IAE, or is refused
    in the waiting period; a cancellation undoes the hiring unless it was sent; transfers; memberships and invitations.
  \<^item> Requests: who reaches a view of the employers, and which accounts the middleware keeps out; any sequence of
    requests keeps the applications, comments and prior actions coherent; what a batch and the wizard of the
    refusals do.
  \<^item> Job seekers: any sequence of requests keeps e-mails and numbers unique and the profiles coherent; what the
    last step of a creation writes; an update without the hidden box keeps the number.
  \<^item> Evaluations: the sample has the promised size and bounds; when the adversarial phase can start and
    what it does; closing refines one decision read off the criteria and dates the reviews left to submit; histories keep
    the constraints and the decisions.
  \<^item> Services: when the loops over pages return; the synchronisation with Label mirrors its data.
  \<^item> Logins: which user a login by an identity provider gives and what it may change of the identity; a state opens one session.
  \<^item> Validators: the key of a social security number detects the usual errors.
  \<^item> Assessments: histories follow the workflow graph, keep the constraints and grant only what was
    requested and submitted; a complete assessment can always be brought to its end.

  \<^bold>\<open>Totality.\<close>  No definition uses fuel: recursions are structural on the tables, and every operation returns a
  value of the sum type.  The loops over the pages of a remote service may never end: they are \<open>partial_function (option)\<close>,
  and \<open>paging_terminates\<close> states when they return.  Theorems that an operation succeeds state it (\<open>\<exists>x'. f x = Inr x'\<close>), with the exact
  condition where the code has one.

  \<^bold>\<open>Not modelled, and why.\<close>  E-mails, notifications to people, logging, templates and the rendering of views
  (pure output); Django's HTTP layer and the storage of sessions; the administration site; the
  migrations (the constraints and triggers are taken from the models they come from); search ranking,
  geography and full-text search (computed by PostgreSQL extensions); HTTP clients of remote services
  (their answers are arguments); statistics, imports and exports to files; anonymised archives; the
  public API, the dashboards of partners, the wizards that submit and accept an application (the operations they end in
  are modelled).  Texts that no decision reads are left out of the rows.\<close>

end
